(* ===== verification/Prelude.thy ===== *)
theory Prelude
  imports Main "HOL-Library.Char_ord" "HOL-Library.List_Lexorder"
begin

section \<open>Shared vocabulary of the development\<close>

text \<open>
  This theory holds what the component theories share: the theorem collections that carry
  their proofs, the model of the Qt value types the sources use everywhere (strings, byte
  arrays, the ordered map \<open>QMap\<close>), and generic lemmas on lists and folds.

  A \<^verbatim>\<open>QString\<close> is a \<open>string\<close>; the case-insensitive comparison the sources
  use for the reserved collection name is modelled on the ASCII letters. A
  \<^verbatim>\<open>QByteArray\<close> is a \<open>string\<close> too. A \<^verbatim>\<open>QMap<K,V>\<close> is kept as the
  association list of its entries, which iterates in ascending order of the keys.
\<close>

named_theorems frame_simps \<open>what an operation leaves unchanged\<close>
named_theorems outcome_simps \<open>classification of the results operations return\<close>

type_synonym qstring = string
type_synonym qbytes = string

subsection \<open>Case-insensitive comparison\<close>

definition fold_char :: "char \<Rightarrow> char" where
  "fold_char c = (let n = (of_char c :: nat) in if 65 \<le> n \<and> n \<le> 90 then char_of (n + 32) else c)"

definition same_ignoring_case :: "qstring \<Rightarrow> qstring \<Rightarrow> bool" where
  "same_ignoring_case a b \<longleftrightarrow> map fold_char a = map fold_char b"

lemma same_ignoring_case_refl [simp]: "same_ignoring_case a a"
  by (simp add: same_ignoring_case_def)

lemma same_ignoring_case_sym: "same_ignoring_case a b \<Longrightarrow> same_ignoring_case b a"
  by (simp add: same_ignoring_case_def)

lemma same_ignoring_case_trans:
  "same_ignoring_case a b \<Longrightarrow> same_ignoring_case b c \<Longrightarrow> same_ignoring_case a c"
  by (simp add: same_ignoring_case_def)

text \<open>The reserved collection name.\<close>

definition standalone :: qstring where
  "standalone = ''standalone''"

lemma standalone_not_empty [simp]: "standalone \<noteq> []"
  by (simp add: standalone_def)

text \<open>Collection names a client never sees: the empty name and the reserved one, in any case.\<close>

definition hidden :: "qstring \<Rightarrow> bool" where
  "hidden c \<longleftrightarrow> c = [] \<or> same_ignoring_case c standalone"

lemma hidden_standalone [simp]: "hidden standalone"
  by (simp add: hidden_def)

subsection \<open>Ordered maps\<close>

text \<open>
  \<open>qmap_insert\<close> replaces the value of an existing key and otherwise adds an entry at
  its place in the order; \<open>qmap_value m k d\<close> is \<^verbatim>\<open>m.value(k, d)\<close>;
  \<open>qmap_append\<close> is \<^verbatim>\<open>m[k].append(x)\<close>, which inserts an empty list first.
\<close>

fun qmap_insert :: "'k::linorder \<Rightarrow> 'v \<Rightarrow> ('k \<times> 'v) list \<Rightarrow> ('k \<times> 'v) list" where
  "qmap_insert k v [] = [(k, v)]"
| "qmap_insert k v ((k', v') # m) =
     (if k < k' then (k, v) # (k', v') # m
      else if k = k' then (k, v) # m
      else (k', v') # qmap_insert k v m)"

definition qmap_value :: "('k \<times> 'v) list \<Rightarrow> 'k \<Rightarrow> 'v \<Rightarrow> 'v" where
  "qmap_value m k d = (case map_of m k of None \<Rightarrow> d | Some v \<Rightarrow> v)"

definition qmap_contains :: "('k \<times> 'v) list \<Rightarrow> 'k \<Rightarrow> bool" where
  "qmap_contains m k \<longleftrightarrow> map_of m k \<noteq> None"

definition qmap_append :: "'k::linorder \<Rightarrow> 'v \<Rightarrow> ('k \<times> 'v list) list \<Rightarrow> ('k \<times> 'v list) list" where
  "qmap_append k x m = qmap_insert k (qmap_value m k [] @ [x]) m"

definition qmap_ok :: "('k::linorder \<times> 'v) list \<Rightarrow> bool" where
  "qmap_ok m \<longleftrightarrow> sorted_wrt (<) (map fst m)"

lemma qmap_ok_Nil [simp]: "qmap_ok []"
  by (simp add: qmap_ok_def)

lemma map_of_qmap_insert [simp]: "map_of (qmap_insert k v m) = (map_of m)(k \<mapsto> v)"
  by (induction k v m rule: qmap_insert.induct) auto

lemma fst_set_qmap_insert [simp]:
  "fst ` set (qmap_insert k v m) = insert k (fst ` set m)"
  by (induction k v m rule: qmap_insert.induct) auto

lemma qmap_ok_insert [simp]: "qmap_ok m \<Longrightarrow> qmap_ok (qmap_insert k v m)"
proof (induction k v m rule: qmap_insert.induct)
  case (1 k v)
  show ?case by (simp add: qmap_ok_def)
next
  case (2 k v k' v' m)
  then show ?case
    using fst_set_qmap_insert [of k v m] by (auto simp: qmap_ok_def simp del: fst_set_qmap_insert)
qed

lemma qmap_ok_distinct: "qmap_ok m \<Longrightarrow> distinct (map fst m)"
  by (induction m) (auto simp: qmap_ok_def)

lemma qmap_ok_filter: "qmap_ok m \<Longrightarrow> qmap_ok (filter P m)"
  by (induction m) (auto simp: qmap_ok_def)

lemma qmap_ok_append [simp]: "qmap_ok m \<Longrightarrow> qmap_ok (qmap_append k x m)"
  by (simp add: qmap_append_def)

lemma qmap_value_append:
  "qmap_value (qmap_append k x m) k' [] = (if k = k' then qmap_value m k [] @ [x] else qmap_value m k' [])"
  by (simp add: qmap_append_def qmap_value_def)

lemma qmap_contains_append [simp]:
  "qmap_contains (qmap_append k x m) k' \<longleftrightarrow> k = k' \<or> qmap_contains m k'"
  by (simp add: qmap_append_def qmap_contains_def)

text \<open>Ordered maps with the same entries are equal.\<close>

lemma qmap_rebuild: "qmap_ok m \<Longrightarrow> map (\<lambda>k. (k, the (map_of m k))) (map fst m) = m"
  unfolding map_map by (rule map_idI) (auto simp: qmap_ok_distinct)

lemma qmap_ext:
  assumes "qmap_ok m" and "qmap_ok m'" and "map_of m = map_of m'"
  shows "m = m'"
proof -
  have "fst ` set m = fst ` set m'"
    using assms(3) by (simp add: dom_map_of_conv_image_fst [symmetric])
  then have "map fst m = map fst m'"
    using assms(1,2) by (intro sorted_distinct_set_unique)
      (simp_all add: qmap_ok_def strict_sorted_iff)
  then show ?thesis
    using qmap_rebuild [OF assms(1)] qmap_rebuild [OF assms(2)] assms(3) by simp
qed

subsection \<open>Association tables with unique keys\<close>

text \<open>
  A table with a unique key column is a list of rows in insertion order. The lemmas relate
  filtering, appending and mapping rows to the map from keys to rows.
\<close>

lemma map_of_filter_key:
  "map_of (filter (\<lambda>(k, v). P k) xs) k = (if P k then map_of xs k else None)"
  by (induction xs) auto

lemma find_unique:
  assumes "distinct (map f xs)" and "x \<in> set xs"
  shows "find (\<lambda>y. f y = f x) xs = Some x"
  using assms by (induction xs) (auto simp: rev_image_eqI)

lemma find_snoc_fresh: "k \<notin> f ` set xs \<Longrightarrow> f y = k \<Longrightarrow> find (\<lambda>x. f x = k) (xs @ [y]) = Some y"
  by (induction xs) auto

lemma find_None_iff_key: "find (\<lambda>y. f y = k) xs = None \<longleftrightarrow> k \<notin> f ` set xs"
  by (auto simp: find_None_iff)

lemma find_Some_in: "find P xs = Some x \<Longrightarrow> x \<in> set xs \<and> P x"
  by (auto simp: find_Some_iff)

subsection \<open>Pairs of a result and a state\<close>

lemma case_prod_result: "(case p of (r, s) \<Rightarrow> f r s) = f (fst p) (snd p)"
  by (cases p) simp

end
