(* ===== verification/Results.thy ===== *)
theory Results
  imports Prelude
begin

section \<open>Results\<close>

text \<open>
  The value class of the client library that every operation returns:
  \<^verbatim>\<open>Sailfish::Secrets::Result\<close> (src/lib/Secrets/result.h, result.cpp).

  \<^verbatim>\<open>ErrorCode\<close> is an unscoped C++ enumeration. Its enumerators below 100 are
  constructors; the HTTP status enumerators, \<^verbatim>\<open>OtherError\<close> and any other integer that
  \<^verbatim>\<open>setErrorCode(int)\<close> casts to the type are \<open>OtherCode\<close> with the number.
  The text of error messages is carried by the class but nothing in the daemon reads it:
  component theories return \<open>failure e\<close> for \<^verbatim>\<open>Result(e, <text>)\<close>.
\<close>

subsection \<open>Result\<close>

datatype ResultCode = Succeeded | Pending | Failed

datatype ErrorCode =
    NoError
  | UnknownError
  | SerializationError
  | PermissionsError
  | IncorrectAuthenticationCodeError
  | AuthenticationTimeoutError
  | OperationNotSupportedError
  | OperationRequiresUserInteraction
  | OperationRequiresApplicationUserInteraction
  | OperationRequiresSystemUserInteraction
  | SecretManagerNotInitializedError
  | SecretsDaemonRequestPidError
  | SecretsDaemonRequestQueueFullError
  | SecretsDaemonLockedError
  | SecretsDaemonNotLockedError
  | SecretsPluginEncryptionError
  | SecretsPluginDecryptionError
  | SecretsPluginKeyDerivationError
  | SecretsPluginIsLockedError
  | InvalidSecretError
  | InvalidSecretIdentifierError
  | InvalidFilterError
  | InvalidCollectionError
  | InvalidExtensionPluginError
  | InvalidApplicationIdError
  | CollectionAlreadyExistsError
  | SecretAlreadyExistsError
  | CollectionIsLockedError
  | CollectionIsBusyError
  | DatabaseQueryError
  | DatabaseTransactionError
  | DatabaseError
  | InteractionServiceUnknownError
  | InteractionServiceUnavailableError
  | InteractionServiceRequestInvalidError
  | InteractionServiceRequestFailedError
  | InteractionServiceRequestBusyError
  | InteractionServiceResponseInvalidError
  | InteractionViewUnavailableError
  | InteractionViewRequestError
  | InteractionViewParentError
  | InteractionViewChildError
  | InteractionViewError
  | InteractionViewUserCanceledError
  | NetworkError
  | NetworkSslError
  | OtherCode int

primrec result_code_value :: "ResultCode \<Rightarrow> int" where
  "result_code_value Succeeded = 0"
| "result_code_value Pending = 1"
| "result_code_value Failed = 2"

primrec error_value :: "ErrorCode \<Rightarrow> int" where
  "error_value NoError = 0"
| "error_value UnknownError = 2"
| "error_value SerializationError = 3"
| "error_value PermissionsError = 10"
| "error_value IncorrectAuthenticationCodeError = 11"
| "error_value AuthenticationTimeoutError = 12"
| "error_value OperationNotSupportedError = 13"
| "error_value OperationRequiresUserInteraction = 14"
| "error_value OperationRequiresApplicationUserInteraction = 15"
| "error_value OperationRequiresSystemUserInteraction = 16"
| "error_value SecretManagerNotInitializedError = 17"
| "error_value SecretsDaemonRequestPidError = 20"
| "error_value SecretsDaemonRequestQueueFullError = 21"
| "error_value SecretsDaemonLockedError = 22"
| "error_value SecretsDaemonNotLockedError = 23"
| "error_value SecretsPluginEncryptionError = 30"
| "error_value SecretsPluginDecryptionError = 31"
| "error_value SecretsPluginKeyDerivationError = 32"
| "error_value SecretsPluginIsLockedError = 33"
| "error_value InvalidSecretError = 40"
| "error_value InvalidSecretIdentifierError = 41"
| "error_value InvalidFilterError = 42"
| "error_value InvalidCollectionError = 43"
| "error_value InvalidExtensionPluginError = 44"
| "error_value InvalidApplicationIdError = 45"
| "error_value CollectionAlreadyExistsError = 46"
| "error_value SecretAlreadyExistsError = 47"
| "error_value CollectionIsLockedError = 60"
| "error_value CollectionIsBusyError = 61"
| "error_value DatabaseQueryError = 70"
| "error_value DatabaseTransactionError = 71"
| "error_value DatabaseError = 72"
| "error_value InteractionServiceUnknownError = 80"
| "error_value InteractionServiceUnavailableError = 81"
| "error_value InteractionServiceRequestInvalidError = 82"
| "error_value InteractionServiceRequestFailedError = 83"
| "error_value InteractionServiceRequestBusyError = 84"
| "error_value InteractionServiceResponseInvalidError = 85"
| "error_value InteractionViewUnavailableError = 90"
| "error_value InteractionViewRequestError = 91"
| "error_value InteractionViewParentError = 92"
| "error_value InteractionViewChildError = 93"
| "error_value InteractionViewError = 94"
| "error_value InteractionViewUserCanceledError = 95"
| "error_value NetworkError = 98"
| "error_value NetworkSslError = 99"
| "error_value (OtherCode i) = i"

record Result =
  res_code :: ResultCode
  res_errorCode :: ErrorCode
  res_errorMessage :: qstring

definition Result_of_code :: "ResultCode \<Rightarrow> Result" where
  "Result_of_code c =
     \<lparr>res_code = c,
      res_errorCode = (if c = Failed then UnknownError else NoError),
      res_errorMessage = (if c = Failed then ''Unknown error'' else [])\<rparr>"

definition Result_of_error :: "ErrorCode \<Rightarrow> qstring \<Rightarrow> Result" where
  "Result_of_error e m =
     \<lparr>res_code = (if error_value e \<ge> error_value UnknownError then Failed else Succeeded),
      res_errorCode = e,
      res_errorMessage = m\<rparr>"

definition Result_setErrorCode :: "ErrorCode \<Rightarrow> Result \<Rightarrow> Result" where
  "Result_setErrorCode e r = r\<lparr>res_errorCode := e\<rparr>"

definition Result_setErrorMessage :: "qstring \<Rightarrow> Result \<Rightarrow> Result" where
  "Result_setErrorMessage m r = r\<lparr>res_errorMessage := m\<rparr>"

definition Result_setCode :: "ResultCode \<Rightarrow> Result \<Rightarrow> Result" where
  "Result_setCode c r = r\<lparr>res_code := c\<rparr>"

definition Result_less :: "Result \<Rightarrow> Result \<Rightarrow> bool" where
  "Result_less l r =
     (if res_code l \<noteq> res_code r
      then result_code_value (res_code l) < result_code_value (res_code r)
      else if res_errorCode l \<noteq> res_errorCode r
      then error_value (res_errorCode l) < error_value (res_errorCode r)
      else lexordp (\<lambda>a b. (of_char a :: nat) < of_char b) (res_errorMessage l) (res_errorMessage r))"

text \<open>The two results the component theories build.\<close>

abbreviation success :: Result where
  "success \<equiv> Result_of_code Succeeded"

abbreviation failure :: "ErrorCode \<Rightarrow> Result" where
  "failure e \<equiv> Result_of_error e []"

abbreviation succeeded :: "Result \<Rightarrow> bool" where
  "succeeded r \<equiv> res_code r = Succeeded"

lemma res_code_of_code [simp]: "res_code (Result_of_code c) = c"
  by (simp add: Result_of_code_def)

lemma succeeded_of_error [simp]: "succeeded (Result_of_error e m) \<longleftrightarrow> error_value e < 2"
  by (simp add: Result_of_error_def)

lemma failed_of_error [simp]: "res_code (Result_of_error e m) = Failed \<longleftrightarrow> 2 \<le> error_value e"
  by (simp add: Result_of_error_def)

lemma errorCode_of_error [simp]: "res_errorCode (Result_of_error e m) = e"
  by (simp add: Result_of_error_def)

lemma failure_neq_success [simp]:
  "2 \<le> error_value e \<Longrightarrow> failure e \<noteq> success" "2 \<le> error_value e \<Longrightarrow> success \<noteq> failure e"
  by (auto simp: Result_of_code_def Result_of_error_def)

lemma Result_of_error_inject [simp]: "Result_of_error e m = Result_of_error e' m' \<longleftrightarrow> e = e' \<and> m = m'"
  by (auto simp: Result_of_error_def)

lemma res_code_failure [simp]: "res_code (Result_of_error e msg) = Pending \<longleftrightarrow> False"
  by (cases e) (simp_all add: Result_of_error_def)

end
