(* ===== verification/Storage_Plugin.thy ===== *)
theory Storage_Plugin
  imports Results
begin

section \<open>The storage plugin interface\<close>

text \<open>
  The abstract class \<^verbatim>\<open>StoragePlugin\<close> (src/lib/Secrets/Plugins/extensionplugins.h): the
  operations the daemon calls on a plugin that stores secrets without encrypting them, and
  \<^verbatim>\<open>EncryptedStoragePlugin\<close>, which encrypts what it stores. A plugin is
  a record of its virtual functions over the plugin's state \<open>'s\<close>; an output parameter
  is a component of the result.

  The locales \<open>storage_plugin\<close> and \<open>encrypted_storage_plugin\<close> are the contracts the daemon's bookkeeping relies on, in terms
  of what the plugin stores durably: an operation that succeeds has its effect, an operation that
  fails leaves the stored contents as they were, and the plugin stays usable after a success.
\<close>

type_synonym filter_data = "(qstring \<times> qstring) list"

datatype FilterOperator = OperatorOr | OperatorAnd

text \<open>The operations of an encryption plugin, which has no state of its own to change.\<close>

record EncryptionPlugin =
  ep_deriveKeyFromCode :: "qbytes \<Rightarrow> qbytes \<Rightarrow> Result \<times> qbytes"
  ep_encryptSecret :: "qbytes \<Rightarrow> qbytes \<Rightarrow> Result \<times> qbytes"
  ep_decryptSecret :: "qbytes \<Rightarrow> qbytes \<Rightarrow> Result \<times> qbytes"

text \<open>The base class of all plugins, and the two storage plugin classes derived from it.\<close>

record 's PluginBase =
  pb_supportsLocking :: "'s \<Rightarrow> bool"
  pb_isAvailable :: "'s \<Rightarrow> bool"
  pb_isLocked :: "'s \<Rightarrow> bool"
  pb_lock :: "'s \<Rightarrow> bool \<times> 's"
  pb_unlock :: "qbytes \<Rightarrow> 's \<Rightarrow> bool \<times> 's"
  pb_setLockCode :: "qbytes \<Rightarrow> qbytes \<Rightarrow> 's \<Rightarrow> bool \<times> 's"

record 's StoragePlugin = "'s PluginBase" +
  sp_collectionNames :: "'s \<Rightarrow> Result \<times> qstring list \<times> 's"
  sp_createCollection :: "qstring \<Rightarrow> 's \<Rightarrow> Result \<times> 's"
  sp_removeCollection :: "qstring \<Rightarrow> 's \<Rightarrow> Result \<times> 's"
  sp_setSecret :: "qstring \<Rightarrow> qstring \<Rightarrow> qbytes \<Rightarrow> filter_data \<Rightarrow> 's \<Rightarrow> Result \<times> 's"
  sp_getSecret :: "qstring \<Rightarrow> qstring \<Rightarrow> 's \<Rightarrow> Result \<times> (qbytes \<times> filter_data) option \<times> 's"
  sp_secretNames :: "qstring \<Rightarrow> 's \<Rightarrow> Result \<times> qstring list \<times> 's"
  sp_findSecrets :: "qstring \<Rightarrow> filter_data \<Rightarrow> FilterOperator \<Rightarrow> 's \<Rightarrow> Result \<times> qstring list \<times> 's"
  sp_removeSecret :: "qstring \<Rightarrow> qstring \<Rightarrow> 's \<Rightarrow> Result \<times> 's"
  sp_reencrypt :: "qstring \<Rightarrow> qstring \<Rightarrow> qbytes \<Rightarrow> qbytes \<Rightarrow> EncryptionPlugin \<Rightarrow> 's \<Rightarrow> Result \<times> 's"

text \<open>
  An encrypted storage plugin keeps each collection under a key of its own;
  \<open>isCollectionLocked\<close> also gives the value left in its output parameter.
\<close>

record 's EncryptedStoragePlugin = "'s PluginBase" +
  es_collectionNames :: "'s \<Rightarrow> Result \<times> qstring list \<times> 's"
  es_createCollection :: "qstring \<Rightarrow> qbytes \<Rightarrow> 's \<Rightarrow> Result \<times> 's"
  es_removeCollection :: "qstring \<Rightarrow> 's \<Rightarrow> Result \<times> 's"
  es_isCollectionLocked :: "qstring \<Rightarrow> bool \<Rightarrow> 's \<Rightarrow> Result \<times> bool \<times> 's"
  es_deriveKeyFromCode :: "qbytes \<Rightarrow> qbytes \<Rightarrow> 's \<Rightarrow> Result \<times> qbytes \<times> 's"
  es_setEncryptionKey :: "qstring \<Rightarrow> qbytes \<Rightarrow> 's \<Rightarrow> Result \<times> 's"
  es_reencrypt :: "qstring \<Rightarrow> qbytes \<Rightarrow> qbytes \<Rightarrow> 's \<Rightarrow> Result \<times> 's"
  es_setSecret :: "qstring \<Rightarrow> qstring \<Rightarrow> qbytes \<Rightarrow> filter_data \<Rightarrow> 's \<Rightarrow> Result \<times> 's"
  es_getSecret :: "qstring \<Rightarrow> qstring \<Rightarrow> 's \<Rightarrow> Result \<times> (qbytes \<times> filter_data) option \<times> 's"
  es_secretNames :: "qstring \<Rightarrow> 's \<Rightarrow> Result \<times> qstring list \<times> 's"
  es_findSecrets :: "qstring \<Rightarrow> filter_data \<Rightarrow> FilterOperator \<Rightarrow> 's \<Rightarrow> Result \<times> (qstring \<times> qstring) list \<times> 's"
  es_removeSecret :: "qstring \<Rightarrow> qstring \<Rightarrow> 's \<Rightarrow> Result \<times> 's"
  es_setStandaloneSecret :: "qstring \<Rightarrow> qbytes \<Rightarrow> filter_data \<Rightarrow> qbytes \<Rightarrow> 's \<Rightarrow> Result \<times> 's"
  es_accessSecret :: "qstring \<Rightarrow> qbytes \<Rightarrow> 's \<Rightarrow> Result \<times> (qbytes \<times> filter_data) option \<times> 's"

text \<open>
  The contract. \<open>ready\<close> is the plugin's own invariant between operations,
  \<open>collections\<close> the names of the collections it stores (the reserved one included) and \<open>stored\<close> the secrets it stores.
\<close>

locale storage_plugin =
  fixes plugin :: "'s StoragePlugin"
    and ready :: "'s \<Rightarrow> bool"
    and collections :: "'s \<Rightarrow> qstring set"
    and stored :: "'s \<Rightarrow> (qstring \<times> qstring \<rightharpoonup> qbytes \<times> filter_data)"
  assumes createCollection_ok:
      "ready s \<Longrightarrow> sp_createCollection plugin c s = (r, s') \<Longrightarrow> succeeded r \<Longrightarrow>
       ready s' \<and> c \<noteq> standalone \<and> collections s' = insert c (collections s) \<and> stored s' = stored s"
    and createCollection_fails:
      "ready s \<Longrightarrow> sp_createCollection plugin c s = (r, s') \<Longrightarrow> \<not> succeeded r \<Longrightarrow>
       collections s' = collections s \<and> stored s' = stored s"
    and removeCollection_ok:
      "ready s \<Longrightarrow> sp_removeCollection plugin c s = (r, s') \<Longrightarrow> succeeded r \<Longrightarrow>
       ready s' \<and> c \<noteq> standalone \<and> collections s' = collections s - {c}
       \<and> stored s' = stored s |` {i. fst i \<noteq> c}"
    and removeCollection_fails:
      "ready s \<Longrightarrow> sp_removeCollection plugin c s = (r, s') \<Longrightarrow> \<not> succeeded r \<Longrightarrow>
       collections s' = collections s \<and> stored s' = stored s"
    and setSecret_ok:
      "ready s \<Longrightarrow> qmap_ok fd \<Longrightarrow> sp_setSecret plugin c n x fd s = (r, s') \<Longrightarrow> succeeded r \<Longrightarrow>
       ready s' \<and> collections s' = collections s \<and> stored s' = (stored s)((c, n) \<mapsto> (x, fd))"
    and setSecret_fails:
      "ready s \<Longrightarrow> sp_setSecret plugin c n x fd s = (r, s') \<Longrightarrow> \<not> succeeded r \<Longrightarrow>
       collections s' = collections s \<and> stored s' = stored s"
    and removeSecret_ok:
      "ready s \<Longrightarrow> sp_removeSecret plugin c n s = (r, s') \<Longrightarrow> succeeded r \<Longrightarrow>
       ready s' \<and> collections s' = collections s \<and> stored s' = (stored s)((c, n) := None)"
    and removeSecret_fails:
      "ready s \<Longrightarrow> sp_removeSecret plugin c n s = (r, s') \<Longrightarrow> \<not> succeeded r \<Longrightarrow>
       collections s' = collections s \<and> stored s' = stored s"
    and getSecret_ok:
      "ready s \<Longrightarrow> sp_getSecret plugin c n s = (r, y, s') \<Longrightarrow> succeeded r \<Longrightarrow>
       ready s' \<and> collections s' = collections s \<and> stored s' = stored s \<and> y = stored s (c, n) \<and> y \<noteq> None"
    and getSecret_keeps:
      "ready s \<Longrightarrow> sp_getSecret plugin c n s = (r, y, s') \<Longrightarrow>
       collections s' = collections s \<and> stored s' = stored s"
    and collectionNames_ok:
      "ready s \<Longrightarrow> sp_collectionNames plugin s = (r, names, s') \<Longrightarrow> succeeded r \<Longrightarrow>
       ready s' \<and> collections s' = collections s \<and> stored s' = stored s
       \<and> distinct names \<and> set names = collections s - {standalone}"
    and collectionNames_keeps:
      "ready s \<Longrightarrow> sp_collectionNames plugin s = (r, names, s') \<Longrightarrow>
       collections s' = collections s \<and> stored s' = stored s"
    and secretNames_ok:
      "ready s \<Longrightarrow> sp_secretNames plugin c s = (r, names, s') \<Longrightarrow> succeeded r \<Longrightarrow>
       ready s' \<and> collections s' = collections s \<and> stored s' = stored s
       \<and> distinct names \<and> set names = {n. (c, n) \<in> dom (stored s)}"
    and secretNames_keeps:
      "ready s \<Longrightarrow> sp_secretNames plugin c s = (r, names, s') \<Longrightarrow>
       collections s' = collections s \<and> stored s' = stored s"
    and reserved_name: "ready s \<Longrightarrow> c \<in> collections s \<Longrightarrow> hidden c \<Longrightarrow> c = standalone"
    and stored_in_collections: "ready s \<Longrightarrow> (c, n) \<in> dom (stored s) \<Longrightarrow> c \<in> collections s"
begin

text \<open>A secret reads back as it was stored.\<close>

lemma set_then_get:
  assumes "ready s" and "qmap_ok fd" and "sp_setSecret plugin c n x fd s = (r, s1)" and "succeeded r"
    and "sp_getSecret plugin c n s1 = (r2, y, s2)" and "succeeded r2"
  shows "y = Some (x, fd)"
  using setSecret_ok [OF assms(1-4)] getSecret_ok [OF _ assms(5,6)] by auto

text \<open>A removed secret cannot be read, and neither can a secret of a removed collection.\<close>

lemma removed_not_readable:
  assumes "ready s" and "sp_removeSecret plugin c n s = (r, s1)" and "succeeded r"
    and "sp_getSecret plugin c n s1 = (r2, y, s2)"
  shows "\<not> succeeded r2"
  using removeSecret_ok [OF assms(1-3)] getSecret_ok [OF _ assms(4)] by auto

lemma removed_collection_not_readable:
  assumes "ready s" and "sp_removeCollection plugin c s = (r, s1)" and "succeeded r"
    and "sp_getSecret plugin c n s1 = (r2, y, s2)"
  shows "\<not> succeeded r2"
  using removeCollection_ok [OF assms(1-3)] getSecret_ok [OF _ assms(4)] by (auto simp: restrict_map_def)

end

text \<open>
  The contract of a plugin that encrypts. \<open>unlocked\<close> is the set of collections whose secrets the plugin
  can read at the moment; \<open>stored\<close> is what the collections hold, locked ones included. Locking and
  unlocking a collection changes neither \<open>collections\<close> nor \<open>stored\<close>.
\<close>

locale encrypted_storage_plugin =
  fixes plugin :: "'s EncryptedStoragePlugin"
    and ready :: "'s \<Rightarrow> bool"
    and collections :: "'s \<Rightarrow> qstring set"
    and unlocked :: "'s \<Rightarrow> qstring set"
    and stored :: "'s \<Rightarrow> (qstring \<times> qstring \<rightharpoonup> qbytes \<times> filter_data)"
  assumes createCollection_ok:
      "ready s \<Longrightarrow> es_createCollection plugin c key s = (r, s') \<Longrightarrow> succeeded r \<Longrightarrow>
       ready s' \<and> collections s' = insert c (collections s) \<and> stored s' = stored s"
    and createCollection_fails:
      "ready s \<Longrightarrow> es_createCollection plugin c key s = (r, s') \<Longrightarrow> \<not> succeeded r \<Longrightarrow>
       collections s' = collections s \<and> stored s' = stored s"
    and removeCollection_ok:
      "ready s \<Longrightarrow> es_removeCollection plugin c s = (r, s') \<Longrightarrow> succeeded r \<Longrightarrow>
       ready s' \<and> collections s' = collections s - {c} \<and> stored s' = stored s |` {i. fst i \<noteq> c}"
    and removeCollection_fails:
      "ready s \<Longrightarrow> es_removeCollection plugin c s = (r, s') \<Longrightarrow> \<not> succeeded r \<Longrightarrow>
       collections s' = collections s \<and> stored s' = stored s"
    and isCollectionLocked_keeps:
      "ready s \<Longrightarrow> es_isCollectionLocked plugin c b s = (r, locked, s') \<Longrightarrow>
       ready s' \<and> collections s' = collections s \<and> unlocked s' = unlocked s \<and> stored s' = stored s
       \<and> (succeeded r \<and> \<not> locked \<longrightarrow> c \<in> unlocked s)"
    and setEncryptionKey_keeps:
      "ready s \<Longrightarrow> es_setEncryptionKey plugin c key s = (r, s') \<Longrightarrow>
       ready s' \<and> collections s' = collections s \<and> stored s' = stored s"
    and setEncryptionKey_locks:
      "ready s \<Longrightarrow> es_setEncryptionKey plugin c [] s = (r, s') \<Longrightarrow> unlocked s' = unlocked s - {c}"
    and setEncryptionKey_unlocks:
      "ready s \<Longrightarrow> es_setEncryptionKey plugin c key s = (r, s') \<Longrightarrow> succeeded r \<Longrightarrow> key \<noteq> [] \<Longrightarrow>
       unlocked s' = insert c (unlocked s)"
    and setSecret_ok:
      "ready s \<Longrightarrow> qmap_ok fd \<Longrightarrow> es_setSecret plugin c n x fd s = (r, s') \<Longrightarrow> succeeded r \<Longrightarrow>
       ready s' \<and> collections s' = collections s \<and> unlocked s' = unlocked s \<and> c \<in> unlocked s
       \<and> stored s' = (stored s)((c, n) \<mapsto> (x, fd))"
    and setSecret_fails:
      "ready s \<Longrightarrow> es_setSecret plugin c n x fd s = (r, s') \<Longrightarrow> \<not> succeeded r \<Longrightarrow>
       collections s' = collections s \<and> stored s' = stored s"
    and removeSecret_ok:
      "ready s \<Longrightarrow> es_removeSecret plugin c n s = (r, s') \<Longrightarrow> succeeded r \<Longrightarrow>
       ready s' \<and> collections s' = collections s \<and> unlocked s' = unlocked s \<and> c \<in> unlocked s
       \<and> stored s' = (stored s)((c, n) := None)"
    and removeSecret_fails:
      "ready s \<Longrightarrow> es_removeSecret plugin c n s = (r, s') \<Longrightarrow> \<not> succeeded r \<Longrightarrow>
       collections s' = collections s \<and> stored s' = stored s"
    and getSecret_ok:
      "ready s \<Longrightarrow> es_getSecret plugin c n s = (r, y, s') \<Longrightarrow> succeeded r \<Longrightarrow>
       ready s' \<and> c \<in> unlocked s \<and> y = stored s (c, n) \<and> y \<noteq> None"
    and getSecret_keeps:
      "ready s \<Longrightarrow> es_getSecret plugin c n s = (r, y, s') \<Longrightarrow>
       collections s' = collections s \<and> unlocked s' = unlocked s \<and> stored s' = stored s"
    and setStandaloneSecret_refused:
      "\<not> succeeded (fst (es_setStandaloneSecret plugin n x fd key s))
       \<and> snd (es_setStandaloneSecret plugin n x fd key s) = s"
    and unlocked_collections: "ready s \<Longrightarrow> unlocked s \<subseteq> collections s"
begin

text \<open>Once a collection is locked, its secrets can be neither read nor changed.\<close>

lemma locked_refuses:
  assumes "ready s" and "es_setEncryptionKey plugin c [] s = (r, s1)" and "qmap_ok fd"
  shows "\<not> succeeded (fst (es_getSecret plugin c n s1))"
    and "\<not> succeeded (fst (es_setSecret plugin c n x fd s1))"
    and "\<not> succeeded (fst (es_removeSecret plugin c n s1))"
proof -
  have s1: "ready s1" "c \<notin> unlocked s1"
    using setEncryptionKey_keeps [OF assms(1,2)] setEncryptionKey_locks [OF assms(1,2)] by auto
  show "\<not> succeeded (fst (es_getSecret plugin c n s1))"
    using getSecret_ok [OF s1(1)] s1(2) by (metis prod.collapse)
  show "\<not> succeeded (fst (es_setSecret plugin c n x fd s1))"
    using setSecret_ok [OF s1(1) assms(3)] s1(2) by (metis prod.collapse)
  show "\<not> succeeded (fst (es_removeSecret plugin c n s1))"
    using removeSecret_ok [OF s1(1)] s1(2) by (metis prod.collapse)
qed

text \<open>A secret reads back as it was stored.\<close>

lemma set_then_get:
  assumes "ready s" and "qmap_ok fd" and "es_setSecret plugin c n x fd s = (r, s1)" and "succeeded r"
    and "es_getSecret plugin c n s1 = (r2, y, s2)" and "succeeded r2"
  shows "y = Some (x, fd)"
  using setSecret_ok [OF assms(1-4)] getSecret_ok [OF _ assms(5,6)] by auto

end

text \<open>
  The part of the contract about locking, for every state of the plugin, whatever has failed before: only
  \<open>setEncryptionKey\<close> unlocks a collection, it unlocks no other collection, and without a key it locks the
  collection.
\<close>

locale collection_lock =
  fixes plugin :: "'s EncryptedStoragePlugin"
    and unlocked :: "'s \<Rightarrow> qstring set"
  assumes setEncryptionKey_one:
      "es_setEncryptionKey plugin c key s = (r, s') \<Longrightarrow> unlocked s' \<subseteq> insert c (unlocked s)"
    and setEncryptionKey_none:
      "es_setEncryptionKey plugin c [] s = (r, s') \<Longrightarrow> unlocked s' \<subseteq> unlocked s - {c}"
    and isCollectionLocked_unlocks_none:
      "es_isCollectionLocked plugin c b s = (r, l, s') \<Longrightarrow> unlocked s' \<subseteq> unlocked s"
    and collectionNames_unlocks_none:
      "es_collectionNames plugin s = (r, cs, s') \<Longrightarrow> unlocked s' \<subseteq> unlocked s"
    and secretNames_unlocks_none:
      "es_secretNames plugin c s = (r, ns, s') \<Longrightarrow> unlocked s' \<subseteq> unlocked s"
    and getSecret_unlocks_none:
      "es_getSecret plugin c n s = (r, x, s') \<Longrightarrow> unlocked s' \<subseteq> unlocked s"
    and setSecret_unlocks_none:
      "es_setSecret plugin c n v fd s = (r, s') \<Longrightarrow> unlocked s' \<subseteq> unlocked s"
    and removeSecret_unlocks_none:
      "es_removeSecret plugin c n s = (r, s') \<Longrightarrow> unlocked s' \<subseteq> unlocked s"
    and findSecrets_unlocks_none:
      "es_findSecrets plugin c flt op s = (r, ids, s') \<Longrightarrow> unlocked s' \<subseteq> unlocked s"

end
