(* ===== verification/Secret_Value.thy ===== *)
theory Secret_Value
  imports Storage_Plugin
begin

section \<open>Secrets and their identifiers\<close>

text \<open>
  The value classes \<^verbatim>\<open>Secret::Identifier\<close> and \<^verbatim>\<open>Secret\<close> of the client library
  (src/lib/Secrets/secret.cpp), which the daemon passes between the request processor and the plugin wrappers.
  Both share their data and copy it on a write, so they are plain records here; a default constructed
  identifier is \<open>no_identifier\<close>. The type of a secret is an entry of its filter data.
\<close>

record Identifier =
  id_name :: qstring
  id_collectionName :: qstring
  id_storagePluginName :: qstring

definition no_identifier :: Identifier where
  "no_identifier = \<lparr>id_name = [], id_collectionName = [], id_storagePluginName = []\<rparr>"

definition Identifier_isValid :: "Identifier \<Rightarrow> bool" where
  "Identifier_isValid i \<longleftrightarrow> id_name i \<noteq> [] \<and> id_storagePluginName i \<noteq> []"

definition Identifier_identifiesStandaloneSecret :: "Identifier \<Rightarrow> bool" where
  "Identifier_identifiesStandaloneSecret i \<longleftrightarrow> id_collectionName i = []"

text \<open>The comparisons do not look at the name of the storage plugin.\<close>

definition Identifier_equal :: "Identifier \<Rightarrow> Identifier \<Rightarrow> bool" where
  "Identifier_equal lhs rhs \<longleftrightarrow> id_collectionName lhs = id_collectionName rhs \<and> id_name lhs = id_name rhs"

definition Identifier_less :: "Identifier \<Rightarrow> Identifier \<Rightarrow> bool" where
  "Identifier_less lhs rhs \<longleftrightarrow>
     (if id_collectionName lhs \<noteq> id_collectionName rhs then id_collectionName lhs < id_collectionName rhs
      else id_name lhs < id_name rhs)"

definition FilterDataFieldType :: qstring where "FilterDataFieldType = ''Type''"
definition TypeUnknown :: qstring where "TypeUnknown = ''Unknown''"
definition TypeBlob :: qstring where "TypeBlob = ''Blob''"
definition TypeCryptoKey :: qstring where "TypeCryptoKey = ''CryptoKey''"

record Secret =
  se_identifier :: Identifier
  se_data :: qbytes
  se_filterData :: filter_data

definition Secret_type :: "Secret \<Rightarrow> qstring" where
  "Secret_type s = qmap_value (se_filterData s) FilterDataFieldType TypeUnknown"

definition Secret_setType :: "qstring \<Rightarrow> Secret \<Rightarrow> Secret" where
  "Secret_setType type s = s\<lparr>se_filterData := qmap_insert FilterDataFieldType type (se_filterData s)\<rparr>"

definition Secret_setFilterData :: "qstring \<Rightarrow> qstring \<Rightarrow> Secret \<Rightarrow> Secret" where
  "Secret_setFilterData field value s = s\<lparr>se_filterData := qmap_insert field value (se_filterData s)\<rparr>"

definition Secret_filterData :: "qstring \<Rightarrow> Secret \<Rightarrow> qstring" where
  "Secret_filterData field s = qmap_value (se_filterData s) field []"

definition Secret_hasFilterData :: "qstring \<Rightarrow> Secret \<Rightarrow> bool" where
  "Secret_hasFilterData field s \<longleftrightarrow> qmap_contains (se_filterData s) field"

definition new_Secret :: Secret where
  "new_Secret = Secret_setType TypeUnknown \<lparr>se_identifier = no_identifier, se_data = [], se_filterData = []\<rparr>"

definition new_Secret_identified :: "Identifier \<Rightarrow> Secret" where
  "new_Secret_identified ident = Secret_setType TypeUnknown \<lparr>se_identifier = ident, se_data = [], se_filterData = []\<rparr>"

definition new_Secret_blob :: "qbytes \<Rightarrow> filter_data \<Rightarrow> Secret" where
  "new_Secret_blob blob filterData =
     Secret_setType TypeBlob \<lparr>se_identifier = no_identifier, se_data = blob, se_filterData = filterData\<rparr>"

definition Secret_equal :: "Secret \<Rightarrow> Secret \<Rightarrow> bool" where
  "Secret_equal lhs rhs \<longleftrightarrow>
     Identifier_equal (se_identifier lhs) (se_identifier rhs)
     \<and> se_data lhs = se_data rhs \<and> se_filterData lhs = se_filterData rhs"

definition Secret_less :: "Secret \<Rightarrow> Secret \<Rightarrow> bool" where
  "Secret_less lhs rhs \<longleftrightarrow>
     (if Secret_type lhs \<noteq> Secret_type rhs then Secret_type lhs < Secret_type rhs
      else if se_data lhs \<noteq> se_data rhs then se_data lhs < se_data rhs
      else length (se_filterData lhs) < length (se_filterData rhs))"

lemma Secret_type_setType [simp]: "Secret_type (Secret_setType t s) = t"
  by (simp add: Secret_type_def Secret_setType_def qmap_value_def)

lemma Secret_setType_ok [simp]: "qmap_ok (se_filterData s) \<Longrightarrow> qmap_ok (se_filterData (Secret_setType t s))"
  by (simp add: Secret_setType_def)

text \<open>Two identifiers are equal exactly when neither is less than the other.\<close>

lemma Identifier_order: "Identifier_equal a b \<longleftrightarrow> \<not> Identifier_less a b \<and> \<not> Identifier_less b a"
  by (auto simp: Identifier_equal_def Identifier_less_def)

end
