(* ===== verification/Crypto_Plugin.thy ===== *)
theory Crypto_Plugin
  imports Secret_Value
begin

section \<open>The cryptography side: results, keys and the plugin interface\<close>

text \<open>
  The value classes of the cryptography library that reach the plugin wrappers, \<^verbatim>\<open>Crypto::Result\<close> and
  \<^verbatim>\<open>Crypto::Key\<close> (src/lib/Crypto/result.cpp, key.cpp), the translation of a secrets result into a
  cryptography result (src/database/util.cpp), and the abstract class \<^verbatim>\<open>CryptoPlugin\<close>
  (src/lib/Crypto/Plugins/extensionplugins.h) as a record of its virtual functions over the plugin's state.

  Enumerations of the library are their integer values. A \<^verbatim>\<open>QVariant\<close> inside a parameter map is
  kept as its bytes: the daemon passes these maps on and never looks into them. A \<^verbatim>\<open>double\<close>
  is its mantissa and exponent.
\<close>

subsection \<open>Results\<close>

datatype CryptoErrorCode =
    Crypto_NoError | Crypto_UnknownError | Crypto_SerializationError | Crypto_StorageError | Crypto_DaemonError
  | Crypto_InvalidCryptographicServiceProvider | Crypto_InvalidStorageProvider | Crypto_InvalidKeyIdentifier
  | Crypto_DuplicateKeyIdentifier | Crypto_CryptoManagerNotInitializedError
  | Crypto_InvalidInitializationVectorError | Crypto_InvalidAuthenticationTagError
  | Crypto_OperationNotSupportedError | Crypto_BlockModeNotSupportedError
  | Crypto_EncryptionPaddingNotSupportedError | Crypto_SignaturePaddingNotSupportedError
  | Crypto_DigestNotSupportedError
  | Crypto_EmptySecretKeyError | Crypto_EmptyPrivateKeyError | Crypto_EmptyPublicKeyError | Crypto_EmptyDataError
  | Crypto_EmptySignatureError
  | Crypto_CryptoPluginEncryptionError | Crypto_CryptoPluginDecryptionError | Crypto_CryptoPluginRandomDataError
  | Crypto_CryptoPluginCipherSessionError | Crypto_CryptoPluginKeyGenerationError | Crypto_CryptoPluginKeyImportError
  | Crypto_CryptoPluginDigestError | Crypto_CryptoPluginSigningError | Crypto_CryptoPluginVerificationError
  | Crypto_CryptoPluginAuthenticationTagError | Crypto_CryptoPluginInvalidCipherSessionToken
  | Crypto_CryptoPluginIncorrectPassphrase | Crypto_CryptoPluginIsLockedError
  | Crypto_OtherCode int

primrec crypto_error_value :: "CryptoErrorCode \<Rightarrow> int" where
  "crypto_error_value Crypto_NoError = 0"
| "crypto_error_value Crypto_UnknownError = 2"
| "crypto_error_value Crypto_SerializationError = 3"
| "crypto_error_value Crypto_StorageError = 4"
| "crypto_error_value Crypto_DaemonError = 5"
| "crypto_error_value Crypto_InvalidCryptographicServiceProvider = 10"
| "crypto_error_value Crypto_InvalidStorageProvider = 11"
| "crypto_error_value Crypto_InvalidKeyIdentifier = 12"
| "crypto_error_value Crypto_DuplicateKeyIdentifier = 13"
| "crypto_error_value Crypto_CryptoManagerNotInitializedError = 14"
| "crypto_error_value Crypto_InvalidInitializationVectorError = 15"
| "crypto_error_value Crypto_InvalidAuthenticationTagError = 16"
| "crypto_error_value Crypto_OperationNotSupportedError = 20"
| "crypto_error_value Crypto_BlockModeNotSupportedError = 21"
| "crypto_error_value Crypto_EncryptionPaddingNotSupportedError = 22"
| "crypto_error_value Crypto_SignaturePaddingNotSupportedError = 23"
| "crypto_error_value Crypto_DigestNotSupportedError = 24"
| "crypto_error_value Crypto_EmptySecretKeyError = 30"
| "crypto_error_value Crypto_EmptyPrivateKeyError = 31"
| "crypto_error_value Crypto_EmptyPublicKeyError = 32"
| "crypto_error_value Crypto_EmptyDataError = 33"
| "crypto_error_value Crypto_EmptySignatureError = 34"
| "crypto_error_value Crypto_CryptoPluginEncryptionError = 40"
| "crypto_error_value Crypto_CryptoPluginDecryptionError = 41"
| "crypto_error_value Crypto_CryptoPluginRandomDataError = 42"
| "crypto_error_value Crypto_CryptoPluginCipherSessionError = 43"
| "crypto_error_value Crypto_CryptoPluginKeyGenerationError = 44"
| "crypto_error_value Crypto_CryptoPluginKeyImportError = 45"
| "crypto_error_value Crypto_CryptoPluginDigestError = 46"
| "crypto_error_value Crypto_CryptoPluginSigningError = 47"
| "crypto_error_value Crypto_CryptoPluginVerificationError = 48"
| "crypto_error_value Crypto_CryptoPluginAuthenticationTagError = 49"
| "crypto_error_value Crypto_CryptoPluginInvalidCipherSessionToken = 50"
| "crypto_error_value Crypto_CryptoPluginIncorrectPassphrase = 51"
| "crypto_error_value Crypto_CryptoPluginIsLockedError = 52"
| "crypto_error_value (Crypto_OtherCode i) = i"

record CryptoResult =
  cr_code :: ResultCode
  cr_errorCode :: CryptoErrorCode
  cr_storageErrorCode :: int
  cr_errorMessage :: qstring

definition CryptoResult_of_code :: "ResultCode \<Rightarrow> CryptoResult" where
  "CryptoResult_of_code c =
     \<lparr>cr_code = c, cr_errorCode = (if c = Failed then Crypto_UnknownError else Crypto_NoError),
      cr_storageErrorCode = 0, cr_errorMessage = (if c = Failed then ''Unknown error'' else [])\<rparr>"

definition CryptoResult_of_error :: "CryptoErrorCode \<Rightarrow> qstring \<Rightarrow> CryptoResult" where
  "CryptoResult_of_error e m =
     \<lparr>cr_code = (if crypto_error_value e \<ge> crypto_error_value Crypto_UnknownError then Failed else Succeeded),
      cr_errorCode = e, cr_storageErrorCode = 0, cr_errorMessage = m\<rparr>"

definition CryptoResult_of_storage_error :: "CryptoErrorCode \<Rightarrow> int \<Rightarrow> qstring \<Rightarrow> CryptoResult" where
  "CryptoResult_of_storage_error e se m = (CryptoResult_of_error e m)\<lparr>cr_storageErrorCode := se\<rparr>"

abbreviation crypto_success :: CryptoResult where
  "crypto_success \<equiv> CryptoResult_of_code Succeeded"

abbreviation crypto_failure :: "CryptoErrorCode \<Rightarrow> CryptoResult" where
  "crypto_failure e \<equiv> CryptoResult_of_error e []"

abbreviation crypto_succeeded :: "CryptoResult \<Rightarrow> bool" where
  "crypto_succeeded r \<equiv> cr_code r = Succeeded"

lemma crypto_code_simps [simp]:
  "cr_code (CryptoResult_of_code c) = c"
  "crypto_succeeded (CryptoResult_of_error e m) \<longleftrightarrow> crypto_error_value e < 2"
  by (simp_all add: CryptoResult_of_code_def CryptoResult_of_error_def)

text \<open>The error message is carried over too; it is empty here, as in \<open>failure\<close>.\<close>

definition transformSecretsResult :: "Result \<Rightarrow> CryptoResult" where
  "transformSecretsResult result =
     (let retn = crypto_success
      in if res_code result = Failed
         then retn\<lparr>cr_code := Failed,
                cr_errorCode := (if res_errorCode result = InvalidSecretError
                    \<or> res_errorCode result = InvalidSecretIdentifierError
                    \<or> res_errorCode result = InvalidCollectionError
                    \<or> res_errorCode result = InvalidExtensionPluginError
                  then Crypto_InvalidKeyIdentifier else Crypto_StorageError),
                cr_storageErrorCode := error_value (res_errorCode result),
                cr_errorMessage := res_errorMessage result\<rparr>
         else if res_code result = Pending then retn\<lparr>cr_code := Pending\<rparr>
         else retn)"

lemma transformSecretsResult_code [simp]: "cr_code (transformSecretsResult r) = res_code r"
  by (cases "res_code r") (simp_all add: transformSecretsResult_def Let_def)

lemma transformSecretsResult_storage:
  "res_code r = Failed \<Longrightarrow> cr_storageErrorCode (transformSecretsResult r) = error_value (res_errorCode r)"
  by (simp add: transformSecretsResult_def Let_def)

subsection \<open>Keys\<close>

type_synonym variant_map = "(qstring \<times> qbytes) list"
type_synonym double = "int \<times> int"

record Key =
  key_identifier :: Identifier
  key_origin :: int
  key_algorithm :: int
  key_operations :: int
  key_componentConstraints :: int
  key_size :: int
  key_publicKey :: qbytes
  key_privateKey :: qbytes
  key_secretKey :: qbytes
  key_customParameters :: "qbytes list"
  key_filterData :: filter_data

definition new_Key :: Key where
  "new_Key =
     \<lparr>key_identifier = no_identifier, key_origin = 0, key_algorithm = 0, key_operations = 0,
      key_componentConstraints = 3, key_size = 0, key_publicKey = [], key_privateKey = [], key_secretKey = [],
      key_customParameters = [], key_filterData = [(FilterDataFieldType, TypeCryptoKey)]\<rparr>"

definition KeyIdentifier_isValid :: "Identifier \<Rightarrow> bool" where
  "KeyIdentifier_isValid i \<longleftrightarrow> id_name i \<noteq> [] \<and> id_collectionName i \<noteq> [] \<and> id_storagePluginName i \<noteq> []"

definition KeyIdentifier_equal :: "Identifier \<Rightarrow> Identifier \<Rightarrow> bool" where
  "KeyIdentifier_equal lhs rhs \<longleftrightarrow>
     id_storagePluginName lhs = id_storagePluginName rhs
     \<and> id_collectionName lhs = id_collectionName rhs \<and> id_name lhs = id_name rhs"

definition KeyIdentifier_less :: "Identifier \<Rightarrow> Identifier \<Rightarrow> bool" where
  "KeyIdentifier_less lhs rhs \<longleftrightarrow>
     (if id_storagePluginName lhs \<noteq> id_storagePluginName rhs then id_storagePluginName lhs < id_storagePluginName rhs
      else if id_collectionName lhs \<noteq> id_collectionName rhs then id_collectionName lhs < id_collectionName rhs
      else id_name lhs < id_name rhs)"

text \<open>The filter data of a key always says that it is a key.\<close>

definition Key_setFilterData :: "filter_data \<Rightarrow> Key \<Rightarrow> Key" where
  "Key_setFilterData fd k = k\<lparr>key_filterData := qmap_insert FilterDataFieldType TypeCryptoKey fd\<rparr>"

definition Key_setFilterDataField :: "qstring \<Rightarrow> qstring \<Rightarrow> Key \<Rightarrow> Key" where
  "Key_setFilterDataField field value k =
     (if \<not> same_ignoring_case field FilterDataFieldType
      then k\<lparr>key_filterData := qmap_insert field value (key_filterData k)\<rparr> else k)"

text \<open>The equality of keys does not compare the component constraints.\<close>

definition Key_equal :: "Key \<Rightarrow> Key \<Rightarrow> bool" where
  "Key_equal lhs rhs \<longleftrightarrow>
     key_filterData lhs = key_filterData rhs \<and> key_customParameters lhs = key_customParameters rhs
     \<and> key_publicKey lhs = key_publicKey rhs \<and> key_privateKey lhs = key_privateKey rhs
     \<and> key_secretKey lhs = key_secretKey rhs
     \<and> KeyIdentifier_equal (key_identifier lhs) (key_identifier rhs)
     \<and> key_origin lhs = key_origin rhs \<and> key_algorithm lhs = key_algorithm rhs
     \<and> key_operations lhs = key_operations rhs \<and> key_size lhs = key_size rhs"

definition Key_less :: "Key \<Rightarrow> Key \<Rightarrow> bool" where
  "Key_less lhs rhs \<longleftrightarrow>
     (if key_size lhs \<noteq> 0 \<and> key_size rhs \<noteq> 0 \<and> key_size lhs \<noteq> key_size rhs then key_size lhs < key_size rhs
      else if \<not> KeyIdentifier_equal (key_identifier lhs) (key_identifier rhs)
      then KeyIdentifier_less (key_identifier lhs) (key_identifier rhs)
      else if key_publicKey lhs \<noteq> key_publicKey rhs then key_publicKey lhs < key_publicKey rhs
      else if key_privateKey lhs \<noteq> key_privateKey rhs then key_privateKey lhs < key_privateKey rhs
      else if key_secretKey lhs \<noteq> key_secretKey rhs then key_secretKey lhs < key_secretKey rhs
      else key_algorithm lhs < key_algorithm rhs)"

lemma KeyIdentifier_equal_iff [simp]: "KeyIdentifier_equal a b \<longleftrightarrow> a = b"
  by (cases a; cases b) (auto simp: KeyIdentifier_equal_def)

lemma Key_type_protected:
  assumes "qmap_value (key_filterData k) FilterDataFieldType [] = TypeCryptoKey"
  shows "qmap_value (key_filterData (Key_setFilterDataField f v k)) FilterDataFieldType [] = TypeCryptoKey"
  using assms by (auto simp: Key_setFilterDataField_def qmap_value_def)

record KeyPairGenerationParameters =
  kpg_keyPairType :: int
  kpg_customParameters :: variant_map
  kpg_subclassParameters :: variant_map

record KeyDerivationParameters =
  kdf_inputData :: qbytes
  kdf_salt :: qbytes
  kdf_function :: int
  kdf_mac :: int
  kdf_algorithm :: int
  kdf_digestFunction :: int
  kdf_memorySize :: int
  kdf_iterations :: int
  kdf_parallelism :: int
  kdf_outputKeySize :: int
  kdf_customParameters :: variant_map

subsection \<open>The plugin interface\<close>

text \<open>
  A plugin that implements both \<^verbatim>\<open>CryptoPlugin\<close> and \<^verbatim>\<open>EncryptedStoragePlugin\<close> has
  one state; an output parameter is a component of the result, and where the caller hands in a value the
  function takes it too.
\<close>

record 's CryptoPlugin = "'s PluginBase" +
  cp_name :: qstring
  cp_canStoreKeys :: bool
  cp_generateRandomData :: "nat \<Rightarrow> qstring \<Rightarrow> nat \<Rightarrow> variant_map \<Rightarrow> 's \<Rightarrow> CryptoResult \<times> qbytes \<times> 's"
  cp_seedRandomDataGenerator :: "nat \<Rightarrow> qstring \<Rightarrow> qbytes \<Rightarrow> double \<Rightarrow> variant_map \<Rightarrow> 's \<Rightarrow> CryptoResult \<times> 's"
  cp_generateInitializationVector :: "int \<Rightarrow> int \<Rightarrow> int \<Rightarrow> variant_map \<Rightarrow> 's \<Rightarrow> CryptoResult \<times> qbytes \<times> 's"
  cp_importKey :: "qbytes \<Rightarrow> qbytes \<Rightarrow> variant_map \<Rightarrow> Key \<Rightarrow> 's \<Rightarrow> CryptoResult \<times> Key \<times> 's"
  cp_generateKey :: "Key \<Rightarrow> KeyPairGenerationParameters \<Rightarrow> KeyDerivationParameters \<Rightarrow> variant_map \<Rightarrow> Key \<Rightarrow> 's
     \<Rightarrow> CryptoResult \<times> Key \<times> 's"
  cp_storedKey :: "Identifier \<Rightarrow> int \<Rightarrow> variant_map \<Rightarrow> Key \<Rightarrow> 's \<Rightarrow> CryptoResult \<times> Key \<times> 's"
  cp_calculateDigest :: "qbytes \<Rightarrow> int \<Rightarrow> int \<Rightarrow> variant_map \<Rightarrow> 's \<Rightarrow> CryptoResult \<times> qbytes \<times> 's"
  cp_generateAndStoreKey :: "Key \<Rightarrow> KeyPairGenerationParameters \<Rightarrow> KeyDerivationParameters \<Rightarrow> variant_map \<Rightarrow> Key \<Rightarrow> 's
     \<Rightarrow> CryptoResult \<times> Key \<times> 's"
  cp_importAndStoreKey :: "qbytes \<Rightarrow> Key \<Rightarrow> qbytes \<Rightarrow> variant_map \<Rightarrow> Key \<Rightarrow> 's \<Rightarrow> CryptoResult \<times> Key \<times> 's"
  cp_storedKeyIdentifiers :: "qstring \<Rightarrow> variant_map \<Rightarrow> 's \<Rightarrow> CryptoResult \<times> Identifier list \<times> 's"
  cp_sign :: "qbytes \<Rightarrow> Key \<Rightarrow> int \<Rightarrow> int \<Rightarrow> variant_map \<Rightarrow> 's \<Rightarrow> CryptoResult \<times> qbytes \<times> 's"
  cp_verify :: "qbytes \<Rightarrow> qbytes \<Rightarrow> Key \<Rightarrow> int \<Rightarrow> int \<Rightarrow> variant_map \<Rightarrow> 's \<Rightarrow> CryptoResult \<times> int \<times> 's"
  cp_encrypt :: "qbytes \<Rightarrow> qbytes \<Rightarrow> Key \<Rightarrow> int \<Rightarrow> int \<Rightarrow> qbytes \<Rightarrow> variant_map \<Rightarrow> 's
     \<Rightarrow> CryptoResult \<times> (qbytes \<times> qbytes) \<times> 's"
  cp_decrypt :: "qbytes \<Rightarrow> qbytes \<Rightarrow> Key \<Rightarrow> int \<Rightarrow> int \<Rightarrow> qbytes \<Rightarrow> qbytes \<Rightarrow> variant_map \<Rightarrow> 's
     \<Rightarrow> CryptoResult \<times> (qbytes \<times> int) \<times> 's"
  cp_initializeCipherSession :: "nat \<Rightarrow> qbytes \<Rightarrow> Key \<Rightarrow> int \<Rightarrow> int \<Rightarrow> int \<Rightarrow> int \<Rightarrow> int \<Rightarrow> variant_map \<Rightarrow> 's
     \<Rightarrow> CryptoResult \<times> nat \<times> 's"
  cp_updateCipherSessionAuthentication :: "nat \<Rightarrow> qbytes \<Rightarrow> variant_map \<Rightarrow> nat \<Rightarrow> 's \<Rightarrow> CryptoResult \<times> 's"
  cp_updateCipherSession :: "nat \<Rightarrow> qbytes \<Rightarrow> variant_map \<Rightarrow> nat \<Rightarrow> 's \<Rightarrow> CryptoResult \<times> qbytes \<times> 's"
  cp_finalizeCipherSession :: "nat \<Rightarrow> qbytes \<Rightarrow> variant_map \<Rightarrow> nat \<Rightarrow> 's \<Rightarrow> CryptoResult \<times> (qbytes \<times> int) \<times> 's"

end
