(* ===== verification/Database.thy ===== *)
theory Database
  imports Results
begin

section \<open>The SQLite connection wrapper\<close>

text \<open>
  The class \<^verbatim>\<open>Daemon::Sqlite::Database\<close> (src/database/database.cpp, database_p.h): opening,
  configuring, checking and upgrading a database file, the cache of prepared statements,
  and transactions counted by a semaphore.

  The model is parametric in the type \<open>'q\<close> of the component's SQL statements (the keys of the
  prepared-statement cache) and in the type \<open>'t\<close> of the component's tables; a component
  gives each of its SQL statements as a function on its tables that returns \<open>None\<close> where
  a constraint of the schema refuses the statement.

  The SQL engine itself is not part of the repository. Whether it carries out a request is
  a parameter: the list \<open>db_answers\<close> holds its answers to the requests to come, one per
  request, and a request past its end is carried out. An engine that refuses may also have rolled the
  open transaction back on its own, as SQLite documents for some errors. What the engine does with a request it
  carries out is the documented meaning of the statement: \<^verbatim>\<open>BEGIN\<close> inside a transaction and
  \<^verbatim>\<open>COMMIT\<close> or \<^verbatim>\<open>ROLLBACK\<close> outside one are errors, a statement that fails
  changes nothing, outside a transaction each statement is committed by itself, and a
  database encrypted under another key than the connection's cannot be read.
\<close>

subsection \<open>State\<close>

datatype answer = Ok | Refused | Refused_rolled_back

record ('q, 't) database =
  db_file :: "'t option"        \<comment> \<open>committed contents of the database file; None: no such file\<close>
  db_fileKey :: qbytes          \<comment> \<open>key the file is encrypted under\<close>
  db_userVersion :: nat         \<comment> \<open>PRAGMA user\_version of the file, as the daemon writes it\<close>
  db_isOpen :: bool             \<comment> \<open>m\_database.isOpen()\<close>
  db_connKey :: qbytes          \<comment> \<open>key given to the connection\<close>
  db_work :: "'t option"        \<comment> \<open>contents as changed by the open SQL transaction; None: no transaction\<close>
  db_semaphore :: int           \<comment> \<open>m\_transactionSemaphore\<close>
  db_prepared :: "'q list"      \<comment> \<open>keys of m\_preparedQueries\<close>
  db_localeName :: qstring      \<comment> \<open>m\_localeName\<close>
  db_answers :: "answer list"   \<comment> \<open>what the engine will answer\<close>

definition next_answer :: "('q, 't) database \<Rightarrow> answer" where
  "next_answer d = (case db_answers d of [] \<Rightarrow> Ok | a # _ \<Rightarrow> a)"

definition drop_answer :: "('q, 't) database \<Rightarrow> ('q, 't) database" where
  "drop_answer d = d\<lparr>db_answers := tl (db_answers d)\<rparr>"

text \<open>What the connection sees, and whether it can read it.\<close>

definition db_view :: "('q, 't) database \<Rightarrow> 't option" where
  "db_view d = (case db_work d of Some t \<Rightarrow> Some t | None \<Rightarrow> db_file d)"

definition db_readable :: "('q, 't) database \<Rightarrow> bool" where
  "db_readable d \<longleftrightarrow> db_isOpen d \<and> (db_file d = None \<or> db_connKey d = db_fileKey d)"

definition db_write :: "'t \<Rightarrow> ('q, 't) database \<Rightarrow> ('q, 't) database" where
  "db_write t d = (if db_work d = None then d\<lparr>db_file := Some t\<rparr> else d\<lparr>db_work := Some t\<rparr>)"

subsection \<open>Requests to the engine\<close>

definition sql_begin :: "('q, 't) database \<Rightarrow> bool \<times> ('q, 't) database" where
  "sql_begin d =
     (if \<not> db_readable d \<or> db_work d \<noteq> None \<or> db_file d = None then (False, d)
      else if next_answer d = Ok then (True, (drop_answer d)\<lparr>db_work := db_file d\<rparr>)
      else (False, drop_answer d))"

definition sql_commit :: "('q, 't) database \<Rightarrow> bool \<times> ('q, 't) database" where
  "sql_commit d =
     (case db_work d of
        None \<Rightarrow> (False, d)
      | Some t \<Rightarrow>
          (case next_answer d of
             Ok \<Rightarrow> (True, (drop_answer d)\<lparr>db_file := Some t, db_work := None\<rparr>)
           | Refused \<Rightarrow> (False, drop_answer d)
           | Refused_rolled_back \<Rightarrow> (False, (drop_answer d)\<lparr>db_work := None\<rparr>)))"

definition sql_rollback :: "('q, 't) database \<Rightarrow> bool \<times> ('q, 't) database" where
  "sql_rollback d =
     (if db_work d = None then (False, d)
      else case next_answer d of
             Ok \<Rightarrow> (True, (drop_answer d)\<lparr>db_work := None\<rparr>)
           | Refused \<Rightarrow> (False, drop_answer d)
           | Refused_rolled_back \<Rightarrow> (False, (drop_answer d)\<lparr>db_work := None\<rparr>))"

text \<open>A request without a result of its own: carried out or not.\<close>

definition engine_ok :: "('q, 't) database \<Rightarrow> bool \<times> ('q, 't) database" where
  "engine_ok d = (next_answer d = Ok, drop_answer d)"

primrec engine_all :: "nat \<Rightarrow> ('q, 't) database \<Rightarrow> bool \<times> ('q, 't) database" where
  "engine_all 0 d = (True, d)"
| "engine_all (Suc n) d =
     (let (ok, d1) = engine_ok d in if ok then engine_all n d1 else (False, d1))"

subsection \<open>Transactions\<close>

definition Database_beginTransaction :: "('q, 't) database \<Rightarrow> bool \<times> ('q, 't) database" where
  "Database_beginTransaction d =
     (let oldSemaphoreValue = db_semaphore d;
          d1 = d\<lparr>db_semaphore := oldSemaphoreValue + 1\<rparr>
      in if oldSemaphoreValue = 0 then sql_begin d1
         else if oldSemaphoreValue = 1 then (True, d1)
         else (False, d1))"

definition Database_commitTransaction :: "('q, 't) database \<Rightarrow> bool \<times> ('q, 't) database" where
  "Database_commitTransaction d =
     (let oldSemaphoreValue = db_semaphore d;
          d1 = d\<lparr>db_semaphore := oldSemaphoreValue - 1\<rparr>
      in if oldSemaphoreValue = 1 then sql_commit d1
         else if oldSemaphoreValue = 0 then (False, d1)
         else (True, d1))"

definition Database_rollbackTransaction :: "('q, 't) database \<Rightarrow> bool \<times> ('q, 't) database" where
  "Database_rollbackTransaction d =
     (let oldSemaphoreValue = db_semaphore d;
          d1 = d\<lparr>db_semaphore := oldSemaphoreValue - 1\<rparr>
      in if oldSemaphoreValue = 1 then sql_rollback d1
         else if oldSemaphoreValue = 0 then (False, d1)
         else (True, d1))"

definition Database_withinTransaction :: "('q, 't) database \<Rightarrow> bool" where
  "Database_withinTransaction d \<longleftrightarrow> db_semaphore d \<noteq> 0"

text \<open>Commands whose boolean result the caller ignores.\<close>

abbreviation commit_db :: "('q, 't) database \<Rightarrow> ('q, 't) database" where
  "commit_db d \<equiv> snd (Database_commitTransaction d)"

abbreviation rollback_db :: "('q, 't) database \<Rightarrow> ('q, 't) database" where
  "rollback_db d \<equiv> snd (Database_rollbackTransaction d)"

subsection \<open>Statements\<close>

text \<open>
  A statement in the cache is used again. Preparing any other statement fails on a connection that cannot read its file; this
  includes the key pragma, which the engine would still accept there.
\<close>

definition Database_prepare :: "'q \<Rightarrow> ('q, 't) database \<Rightarrow> bool \<times> ('q, 't) database" where
  "Database_prepare q d =
     (if q \<in> set (db_prepared d) then (True, d)
      else if \<not> db_readable d then (False, d)
      else if next_answer d = Ok then (True, (drop_answer d)\<lparr>db_prepared := q # db_prepared d\<rparr>)
      else (False, drop_answer d))"

definition Database_execute ::
    "('t \<Rightarrow> ('r \<times> 't) option) \<Rightarrow> ('q, 't) database \<Rightarrow> 'r option \<times> ('q, 't) database" where
  "Database_execute f d =
     (case db_view d of
        None \<Rightarrow> (None, d)
      | Some t \<Rightarrow>
          if \<not> db_readable d then (None, d)
          else (case next_answer d of
                  Ok \<Rightarrow>
                    (case f t of
                       None \<Rightarrow> (None, drop_answer d)
                     | Some (r, t') \<Rightarrow> (Some r, db_write t' (drop_answer d)))
                | Refused \<Rightarrow> (None, drop_answer d)
                | Refused_rolled_back \<Rightarrow> (None, (drop_answer d)\<lparr>db_work := None\<rparr>)))"

definition Database_close :: "('q, 't) database \<Rightarrow> ('q, 't) database" where
  "Database_close d = d\<lparr>db_prepared := [], db_isOpen := False, db_work := None\<rparr>"

subsection \<open>Opening a database\<close>

text \<open>
  The setup statements of a component are counted; an encrypted database starts them with
  \<^verbatim>\<open>PRAGMA key\<close>, given separately. \<open>configureDatabase\<close> stops at the first statement
  that fails; a missing locale collation only resets the locale to \<^verbatim>\<open>"C"\<close>.
\<close>

definition configureDatabase ::
    "qbytes \<Rightarrow> nat \<Rightarrow> ('q, 't) database \<Rightarrow> bool \<times> ('q, 't) database" where
  "configureDatabase key n d =
     (let (ok, d1) = engine_all n d
      in if \<not> ok then (False, d1)
         else let d2 = d1\<lparr>db_connKey := key\<rparr>
              in if db_localeName d2 = ''C'' then (True, d2)
                 else let (ok2, d3) = engine_ok d2
                      in (True, if ok2 then d3 else d3\<lparr>db_localeName := ''C''\<rparr>))"

text \<open>
  Creation runs the \<open>m\<close> creation statements and the one that sets
  \<^verbatim>\<open>user_version\<close> between \<^verbatim>\<open>BEGIN\<close> and \<^verbatim>\<open>COMMIT\<close> on the new file.
\<close>

definition prepareDatabase ::
    "qbytes \<Rightarrow> nat \<Rightarrow> nat \<Rightarrow> 't \<Rightarrow> int \<Rightarrow> ('q, 't) database \<Rightarrow> bool \<times> ('q, 't) database" where
  "prepareDatabase key n m t0 currentSchemaVersion d =
     (let (ok, d1) = configureDatabase key n d
      in if \<not> ok then (False, d1)
         else let (begun, d2) = engine_ok d1
              in if \<not> begun then (False, d2)
                 else let (created, d3) = engine_all (Suc m) d2
                      in if \<not> created then (False, snd (engine_ok d3))
                         else let (committed, d4) = engine_ok d3
                              in if committed
                                 then (True, d4\<lparr>db_file := Some t0, db_fileKey := key,
                                                db_userVersion := nat currentSchemaVersion\<rparr>)
                                 else (False, d4))"

definition checkDatabase :: "('q, 't) database \<Rightarrow> bool \<times> ('q, 't) database" where
  "checkDatabase d = (if \<not> db_readable d then (False, d) else engine_ok d)"

text \<open>A request inside the open transaction; an engine that refuses it may have rolled the transaction back.\<close>

definition tx_request :: "('q, 't) database \<Rightarrow> bool \<times> ('q, 't) database" where
  "tx_request d =
     (case next_answer d of
        Ok \<Rightarrow> (True, drop_answer d)
      | Refused \<Rightarrow> (False, drop_answer d)
      | Refused_rolled_back \<Rightarrow> (False, (drop_answer d)\<lparr>db_work := None\<rparr>))"

text \<open>
  Schema upgrades. An upgrade operation has an optional function and statements,
  each a partial function on the schema version and the tables (\<open>None\<close>: it failed).
  The array of operations ends with an empty operation, and the schema version indexes it. The
  version is a signed number in the file: a negative one indexes the array before its
  start, which is undefined behaviour and an outcome of its own.
\<close>

record 't UpgradeOperation =
  up_fn :: "(int \<times> 't \<Rightarrow> (int \<times> 't) option) option"
  up_statements :: "(int \<times> 't \<Rightarrow> (int \<times> 't) option) list"

datatype 's upgrade_outcome = Upgraded 's | Upgrade_refused | Upgrade_undefined

primrec execute_all ::
    "('s \<Rightarrow> 's option) list \<Rightarrow> 's \<Rightarrow> ('q, 't) database \<Rightarrow> 's option \<times> ('q, 't) database" where
  "execute_all [] s d = (Some s, d)"
| "execute_all (f # fs) s d =
     (let (ok, d1) = tx_request d
      in if \<not> ok then (None, d1)
         else case f s of None \<Rightarrow> (None, d1) | Some s' \<Rightarrow> execute_all fs s' d1)"

definition run_upgrade ::
    "'t UpgradeOperation list \<Rightarrow> nat \<Rightarrow> int \<times> 't \<Rightarrow> ('q, 't) database \<Rightarrow> (int \<times> 't) option \<times> ('q, 't) database" where
  "run_upgrade ups schemaVersion s d =
     (if schemaVersion < length ups
      then (let op = ups ! schemaVersion
            in case (case up_fn op of None \<Rightarrow> Some s | Some f \<Rightarrow> f s) of
                 None \<Rightarrow> (None, d)
               | Some s' \<Rightarrow> execute_all (up_statements op) s' d)
      else (Some s, d))"

text \<open>
  The body of the loop: the operation for the version, then the query for the version it has led to. An answer that is
  no progress ends the upgrade.
\<close>

definition upgrade_round ::
    "'t UpgradeOperation list \<Rightarrow> int \<Rightarrow> int \<times> 't \<Rightarrow> ('q, 't) database
     \<Rightarrow> (int \<times> 't) upgrade_outcome \<times> ('q, 't) database" where
  "upgrade_round ups schemaVersion s d =
     (if schemaVersion < 0 then (Upgrade_undefined, d)
      else case run_upgrade ups (nat schemaVersion) s d of
             (None, d1) \<Rightarrow> (Upgrade_refused, d1)
           | (Some s', d1) \<Rightarrow>
               (let (answered, d2) = tx_request d1
                in if \<not> answered then (Upgrade_refused, d2)
                   else if fst s' \<le> schemaVersion then (Upgrade_refused, d2)
                   else (Upgraded s', d2)))"

lemma upgrade_round_rises:
  "upgrade_round ups v s d = (Upgraded s', d') \<Longrightarrow> 0 \<le> v \<and> v < fst s'"
  by (auto simp: upgrade_round_def split: if_splits option.splits prod.splits)

function upgrade_loop ::
    "'t UpgradeOperation list \<Rightarrow> int \<Rightarrow> int \<Rightarrow> int \<times> 't \<Rightarrow> ('q, 't) database
     \<Rightarrow> (int \<times> 't) upgrade_outcome \<times> ('q, 't) database" where
  "upgrade_loop ups currentSchemaVersion schemaVersion s d =
     (if schemaVersion < currentSchemaVersion
      then (case upgrade_round ups schemaVersion s d of
              (Upgraded s', d1) \<Rightarrow> upgrade_loop ups currentSchemaVersion (fst s') s' d1
            | (Upgrade_refused, d1) \<Rightarrow> (Upgrade_refused, d1)
            | (Upgrade_undefined, d1) \<Rightarrow> (Upgrade_undefined, d1))
      else (Upgraded s, d))"
  by pat_completeness auto
termination
  by (relation "measure (\<lambda>(ups, cur, v, s, d). nat (cur - v))") (auto dest: upgrade_round_rises [OF sym])

declare upgrade_loop.simps [simp del]

definition executeUpgradeStatements ::
    "'t UpgradeOperation list \<Rightarrow> int \<Rightarrow> int \<times> 't \<Rightarrow> ('q, 't) database
     \<Rightarrow> (int \<times> 't) upgrade_outcome \<times> ('q, 't) database" where
  "executeUpgradeStatements ups currentSchemaVersion s d =
     (if currentSchemaVersion \<noteq> int (length ups) + 1 then (Upgrade_refused, d)
      else let (answered, d1) = tx_request d
           in if \<not> answered then (Upgrade_refused, d1)
              else upgrade_loop ups currentSchemaVersion (fst s) s d1)"

text \<open>The version of the file is one the daemon wrote, so that the third case is never reached (\<open>upgrade_defined\<close>).\<close>

definition upgradeDatabase ::
    "'t UpgradeOperation list \<Rightarrow> int \<Rightarrow> ('q, 't) database \<Rightarrow> bool \<times> ('q, 't) database" where
  "upgradeDatabase ups currentSchemaVersion d =
     (let (begun, d1) = sql_begin d
      in if \<not> begun then (False, d1)
         else case db_work d1 of
                None \<Rightarrow> (False, d1)
              | Some t \<Rightarrow>
                  (case executeUpgradeStatements ups currentSchemaVersion (int (db_userVersion d1), t) d1 of
                     (Upgraded (v, t'), d2) \<Rightarrow>
                       (let (committed, d3) = sql_commit (d2\<lparr>db_work := Some t'\<rparr>)
                        in (committed, if committed then d3\<lparr>db_userVersion := nat v\<rparr> else d3))
                   | (Upgrade_refused, d2) \<Rightarrow> (False, snd (sql_rollback d2))
                   | (Upgrade_undefined, d2) \<Rightarrow> (False, d2)))"

text \<open>
  Opening. A file whose creation failed is removed, and the removal is taken to succeed. Where the file exists, its directory does, and
  \<^verbatim>\<open>mkpath\<close> is one of the requests the engine's answers cover.
\<close>

definition Database_open ::
    "qbytes \<Rightarrow> nat \<Rightarrow> nat \<Rightarrow> 't \<Rightarrow> 't UpgradeOperation list \<Rightarrow> int \<Rightarrow> ('q, 't) database
     \<Rightarrow> bool \<times> ('q, 't) database" where
  "Database_open key n m t0 ups currentSchemaVersion d =
     (if db_isOpen d then (False, d)
      else let (made, d1) = engine_ok d  \<comment> \<open>mkpath\<close>
           in if \<not> made then (False, d1)
              else let (opened, d2) = engine_ok d1
                   in if \<not> opened then (False, d2)
                      else let d3 = d2\<lparr>db_isOpen := True\<rparr>
                           in if db_file d = None
                              then (let (ok, d4) = prepareDatabase key n m t0 currentSchemaVersion d3
                                    in if ok then (True, d4) else (False, (d4)\<lparr>db_isOpen := False\<rparr>))
                              else (let (ok, d4) = configureDatabase key n d3
                                    in if \<not> ok then (False, d4\<lparr>db_isOpen := False\<rparr>)
                                       else let (checked, d5) = checkDatabase d4
                                            in if \<not> checked then (False, d5\<lparr>db_isOpen := False\<rparr>)
                                               else let (upgraded, d6) = upgradeDatabase ups currentSchemaVersion d5
                                                    in if upgraded then (True, d6)
                                                       else (False, d6\<lparr>db_isOpen := False, db_work := None\<rparr>)))"

subsection \<open>States of a connection\<close>

text \<open>
  \<open>idle\<close>: open, readable and outside any transaction, as the daemon leaves a database between
  operations. \<open>in_tx f t\<close>: inside the transaction opened by one
  \<open>Database_beginTransaction\<close>, with \<open>f\<close> committed and \<open>t\<close> the
  working contents. \<open>pending f\<close>: the same without knowing whether the engine has kept
  the transaction. \<open>engine_ready\<close>: the engine will refuse nothing.
\<close>

definition idle :: "('q, 't) database \<Rightarrow> bool" where
  "idle d \<longleftrightarrow> db_readable d \<and> db_file d \<noteq> None \<and> db_work d = None \<and> db_semaphore d = 0"

definition in_tx :: "'t \<Rightarrow> 't \<Rightarrow> ('q, 't) database \<Rightarrow> bool" where
  "in_tx f t d \<longleftrightarrow>
     db_readable d \<and> db_file d = Some f \<and> db_work d = Some t \<and> db_semaphore d = 1"

definition pending :: "'t \<Rightarrow> ('q, 't) database \<Rightarrow> bool" where
  "pending f d \<longleftrightarrow> db_readable d \<and> db_file d = Some f \<and> db_semaphore d = 1"

definition engine_ready :: "('q, 't) database \<Rightarrow> bool" where
  "engine_ready d \<longleftrightarrow> set (db_answers d) \<subseteq> {Ok}"

lemma idle_file: "idle d \<Longrightarrow> \<exists>t. db_file d = Some t"
  by (auto simp: idle_def)

lemma in_tx_pending: "in_tx f t d \<Longrightarrow> pending f d"
  by (simp add: in_tx_def pending_def)

lemma engine_ready_next [simp]: "engine_ready d \<Longrightarrow> next_answer d = Ok"
  by (cases "db_answers d") (auto simp: engine_ready_def next_answer_def)

lemma engine_ready_drop [simp]: "engine_ready d \<Longrightarrow> engine_ready (drop_answer d)"
  by (cases "db_answers d") (auto simp: engine_ready_def drop_answer_def)

lemma drop_answer_simps [simp]:
  "db_file (drop_answer d) = db_file d" "db_work (drop_answer d) = db_work d"
  "db_semaphore (drop_answer d) = db_semaphore d" "db_isOpen (drop_answer d) = db_isOpen d"
  "db_connKey (drop_answer d) = db_connKey d" "db_fileKey (drop_answer d) = db_fileKey d"
  "db_prepared (drop_answer d) = db_prepared d" "db_userVersion (drop_answer d) = db_userVersion d"
  "db_localeName (drop_answer d) = db_localeName d"
  "db_readable (drop_answer d) = db_readable d" "db_view (drop_answer d) = db_view d"
  by (simp_all add: drop_answer_def db_readable_def db_view_def split: option.splits)

lemma db_readable_update [simp]:
  "db_readable (d\<lparr>db_work := w\<rparr>) = db_readable d"
  "db_readable (d\<lparr>db_semaphore := i\<rparr>) = db_readable d"
  "db_readable (d\<lparr>db_prepared := ps\<rparr>) = db_readable d"
  "db_readable (d\<lparr>db_answers := as\<rparr>) = db_readable d"
  by (simp_all add: db_readable_def)

subsection \<open>One rule per request\<close>

lemma begin_idle:
  assumes "idle d" and "db_file d = Some t" and "Database_beginTransaction d = (ok, d')"
  shows "if ok then in_tx t t d'
         else db_file d' = Some t \<and> db_work d' = None \<and> db_semaphore d' = 1 \<and> db_readable d'"
  using assms
  by (auto simp: Database_beginTransaction_def sql_begin_def idle_def in_tx_def Let_def
      split: if_splits)

lemma prepare_keeps:
  assumes "Database_prepare q d = (ok, d')"
  shows prepare_file: "db_file d' = db_file d"
    and prepare_work: "db_work d' = db_work d"
    and prepare_semaphore: "db_semaphore d' = db_semaphore d"
    and prepare_readable: "db_readable d' = db_readable d"
    and prepare_view: "db_view d' = db_view d"
  using assms
  by (auto simp: Database_prepare_def db_view_def split: if_splits option.splits)

lemma prepare_preserves:
  assumes "Database_prepare q d = (ok, d')"
  shows prepare_in_tx: "in_tx f t d \<Longrightarrow> in_tx f t d'"
    and prepare_pending: "pending f d \<Longrightarrow> pending f d'"
    and prepare_idle: "idle d \<Longrightarrow> idle d'"
  using prepare_keeps [OF assms] by (simp_all add: in_tx_def pending_def idle_def)

lemma execute_in_tx:
  assumes "in_tx f t d" and "Database_execute g d = (r, d')"
  shows "case r of None \<Rightarrow> pending f d'
         | Some x \<Rightarrow> \<exists>t'. g t = Some (x, t') \<and> in_tx f t' d'"
  using assms
  by (auto simp: Database_execute_def in_tx_def pending_def db_view_def db_write_def db_readable_def
      split: option.splits answer.splits if_splits)

lemma execute_pending_fails:
  assumes "Database_execute g d = (None, d')" and "pending f d"
  shows "pending f d'"
  using assms
  by (auto simp: Database_execute_def pending_def db_readable_def
      split: option.splits answer.splits if_splits)

lemma execute_idle:
  assumes "idle d" and "db_file d = Some t" and "Database_execute g d = (r, d')"
  shows "idle d' \<and> (case r of None \<Rightarrow> db_file d' = Some t
         | Some x \<Rightarrow> \<exists>t'. g t = Some (x, t') \<and> db_file d' = Some t')"
  using assms
  by (auto simp: Database_execute_def idle_def db_view_def db_write_def db_readable_def
      split: option.splits answer.splits if_splits)

lemma rollback_pending:
  assumes "pending f d" and "Database_rollbackTransaction d = (ok, d')"
  shows "db_file d' = Some f \<and> db_semaphore d' = 0 \<and> db_readable d' \<and> (ok \<longrightarrow> idle d')"
  using assms
  by (auto simp: Database_rollbackTransaction_def sql_rollback_def pending_def idle_def Let_def
      db_readable_def split: if_splits answer.splits)

lemma rollback_pending_file: "pending f d \<Longrightarrow> db_file (rollback_db d) = Some f"
  using rollback_pending [of f d "fst (Database_rollbackTransaction d)" "rollback_db d"] by simp

lemma commit_in_tx:
  assumes "in_tx f t d" and "Database_commitTransaction d = (ok, d')"
  shows "db_readable d' \<and> db_semaphore d' = 0 \<and> (if ok then idle d' \<and> db_file d' = Some t
         else db_file d' = Some f)"
  using assms
  by (auto simp: Database_commitTransaction_def sql_commit_def in_tx_def idle_def Let_def
      db_readable_def split: if_splits answer.splits)

lemma commit_in_tx_idle:
  "in_tx f t d \<Longrightarrow> idle (commit_db d) \<Longrightarrow> db_file (commit_db d) = Some t \<or> db_file (commit_db d) = Some f"
  using commit_in_tx [of f t d "fst (Database_commitTransaction d)" "commit_db d"]
  by (auto split: if_splits)

subsection \<open>An engine that refuses nothing\<close>

lemma ready_begin:
  assumes "engine_ready d" and "idle d"
  shows "fst (Database_beginTransaction d) \<and> engine_ready (snd (Database_beginTransaction d))"
  using assms engine_ready_drop [OF assms(1)]
  by (auto simp: Database_beginTransaction_def sql_begin_def idle_def Let_def engine_ready_def
      drop_answer_def next_answer_def split: list.splits)

lemma ready_prepare:
  assumes "engine_ready d" and "db_readable d"
  shows "fst (Database_prepare q d) \<and> engine_ready (snd (Database_prepare q d))"
  using assms engine_ready_drop [OF assms(1)]
  by (auto simp: Database_prepare_def engine_ready_def)

lemma ready_execute:
  assumes "engine_ready d" and "db_readable d" and "db_view d = Some t"
  shows "fst (Database_execute g d) = map_option fst (g t) \<and> engine_ready (snd (Database_execute g d))"
  using assms engine_ready_drop [OF assms(1)]
  by (auto simp: Database_execute_def engine_ready_def db_write_def split: option.splits)

lemma ready_commit:
  assumes "engine_ready d" and "in_tx f t d"
  shows "fst (Database_commitTransaction d) \<and> engine_ready (snd (Database_commitTransaction d))"
  using assms engine_ready_drop [OF assms(1)]
  by (auto simp: Database_commitTransaction_def sql_commit_def in_tx_def Let_def engine_ready_def
      next_answer_def drop_answer_def split: list.splits)

lemma ready_rollback:
  assumes "engine_ready d" and "in_tx f t d"
  shows "fst (Database_rollbackTransaction d) \<and> engine_ready (snd (Database_rollbackTransaction d))"
  using assms engine_ready_drop [OF assms(1)]
  by (auto simp: Database_rollbackTransaction_def sql_rollback_def in_tx_def Let_def engine_ready_def
      next_answer_def drop_answer_def split: list.splits)

subsection \<open>Sequences of statements in one transaction\<close>

text \<open>
  The operations of the daemon run statements until one fails. \<open>run_statements\<close> is that
  shape for statements without a result; \<open>apply_statements\<close> is what they compute.
\<close>

primrec run_statements ::
    "('t \<Rightarrow> (unit \<times> 't) option) list \<Rightarrow> ('q, 't) database \<Rightarrow> bool \<times> ('q, 't) database" where
  "run_statements [] d = (True, d)"
| "run_statements (g # gs) d =
     (case Database_execute g d of
        (None, d1) \<Rightarrow> (False, d1)
      | (Some _, d1) \<Rightarrow> run_statements gs d1)"

primrec apply_statements :: "('t \<Rightarrow> (unit \<times> 't) option) list \<Rightarrow> 't \<Rightarrow> 't option" where
  "apply_statements [] t = Some t"
| "apply_statements (g # gs) t = (case g t of None \<Rightarrow> None | Some (_, t') \<Rightarrow> apply_statements gs t')"

lemma run_statements_in_tx:
  assumes "in_tx f t d" and "run_statements gs d = (ok, d')"
  shows "pending f d' \<and> (ok \<longrightarrow> (\<exists>t'. apply_statements gs t = Some t' \<and> in_tx f t' d'))"
  using assms
proof (induction gs arbitrary: d t)
  case Nil
  then show ?case by (auto intro: in_tx_pending)
next
  case (Cons g gs)
  obtain r d1 where ex: "Database_execute g d = (r, d1)" by (cases "Database_execute g d")
  with Cons.prems execute_in_tx [OF Cons.prems(1) ex] show ?case
    by (cases r) (auto dest: Cons.IH)
qed

text \<open>
  C1. Transactions are atomic. From an idle database, whatever the engine
  answers: statements run between \<open>Database_beginTransaction\<close> and
  \<open>Database_rollbackTransaction\<close> leave the committed contents as they were, and
  statements followed by \<open>Database_commitTransaction\<close> either leave them as they were or, where the
  commit reports success, replace them by what all the statements together compute and
  leave the database idle again.
\<close>

theorem transaction_atomic:
  assumes "idle d" and "db_file d = Some t"
    and "Database_beginTransaction d = (True, d1)"
    and "run_statements gs d1 = (ok, d2)"
  shows "db_file (snd (Database_rollbackTransaction d2)) = Some t
         \<and> (ok \<longrightarrow> (\<exists>t'. apply_statements gs t = Some t'
              \<and> (if fst (Database_commitTransaction d2)
                 then db_file (snd (Database_commitTransaction d2)) = Some t'
                      \<and> idle (snd (Database_commitTransaction d2))
                 else db_file (snd (Database_commitTransaction d2)) = Some t)))"
proof -
  have tx: "in_tx t t d1" using begin_idle [OF assms(1-3)] by simp
  from run_statements_in_tx [OF this assms(4)]
  have p: "pending t d2" and q: "ok \<longrightarrow> (\<exists>t'. apply_statements gs t = Some t' \<and> in_tx t t' d2)"
    by auto
  have c: "in_tx t t' d2 \<Longrightarrow>
      if fst (Database_commitTransaction d2)
      then db_file (commit_db d2) = Some t' \<and> idle (commit_db d2)
      else db_file (commit_db d2) = Some t" for t'
    using commit_in_tx [of t t' d2 "fst (Database_commitTransaction d2)" "commit_db d2"]
    by (simp split: if_splits)
  show ?thesis using rollback_pending_file [OF p] q c by blast
qed

text \<open>A concrete database of one number, to exhibit the theorems.\<close>

definition demo_db :: "answer list \<Rightarrow> (unit, nat) database" where
  "demo_db as = \<lparr>db_file = Some 5, db_fileKey = [], db_userVersion = 1, db_isOpen = True,
     db_connKey = [], db_work = None, db_semaphore = 0, db_prepared = [], db_localeName = ''C'',
     db_answers = as\<rparr>"

definition demo_incr :: "nat \<Rightarrow> (unit \<times> nat) option" where
  "demo_incr n = Some ((), n + 1)"

lemmas demo_defs = demo_db_def demo_incr_def idle_def db_readable_def db_view_def db_write_def next_answer_def
  drop_answer_def Database_beginTransaction_def Database_commitTransaction_def
  Database_rollbackTransaction_def sql_begin_def sql_commit_def sql_rollback_def
  Database_execute_def Let_def

theorem transaction_atomic_witness:
  "let d1 = snd (Database_beginTransaction (demo_db []));
       d2 = snd (run_statements [demo_incr] d1)
   in idle (demo_db []) \<and> db_file (snd (Database_rollbackTransaction d2)) = Some 5
      \<and> db_file (snd (Database_commitTransaction d2)) = Some 6"
proof -
  have i: "idle (demo_db [])" "db_file (demo_db []) = Some 5"
    by (simp_all add: demo_defs)
  define d1 where "d1 = snd (Database_beginTransaction (demo_db []))"
  define d2 where "d2 = snd (run_statements [demo_incr] d1)"
  have b: "Database_beginTransaction (demo_db []) = (True, d1)"
    by (simp add: d1_def demo_defs)
  have r: "run_statements [demo_incr] d1 = (True, d2)"
    by (simp add: d1_def d2_def demo_defs)
  have c: "fst (Database_commitTransaction d2)"
    by (simp add: d1_def d2_def demo_defs)
  show ?thesis
    unfolding Let_def d1_def [symmetric] d2_def [symmetric]
    using transaction_atomic [OF i b r] i c by (simp add: demo_incr_def)
qed

text \<open>
  C2. A refused \<^verbatim>\<open>BEGIN\<close> disables rollback. \<open>Database_beginTransaction\<close>
  counts the semaphore up before it asks the engine, and its callers return without
  counting it down when it fails. The next \<open>Database_beginTransaction\<close> then takes
  the counter for an outer transaction and reports success with no SQL transaction open: a
  statement is committed at once, and the rollback that follows reports success and
  undoes nothing.
\<close>

theorem refused_begin_disables_rollback:
  assumes "idle d" and "Database_beginTransaction d = (False, d1)"
    and "Database_beginTransaction d1 = (ok, d2)"
    and "Database_execute g d2 = (Some x, d3)"
    and "Database_rollbackTransaction d3 = (rolledBack, d4)"
  shows "ok \<and> rolledBack \<and> db_work d2 = None
         \<and> (\<exists>t t'. db_file d = Some t \<and> g t = Some (x, t') \<and> db_file d4 = Some t')"
proof -
  obtain t where t: "db_file d = Some t" using idle_file [OF assms(1)] ..
  from begin_idle [OF assms(1) t assms(2)]
  have d1: "db_file d1 = Some t" "db_work d1 = None" "db_semaphore d1 = 1" "db_readable d1"
    by simp_all
  with assms(3) have d2: "ok" "db_file d2 = Some t" "db_work d2 = None" "db_semaphore d2 = 2" "db_readable d2"
    by (auto simp: Database_beginTransaction_def)
  from assms(4) d2 obtain t' where d3: "g t = Some (x, t')" "db_file d3 = Some t'" "db_semaphore d3 = 2"
    by (auto simp: Database_execute_def db_view_def db_write_def split: option.splits answer.splits if_splits)
  with assms(5) have "rolledBack" "db_file d4 = Some t'"
    by (auto simp: Database_rollbackTransaction_def)
  with d2 d3 t show ?thesis by auto
qed

theorem refused_begin_disables_rollback_witness:
  "let d = demo_db [Refused]; d1 = snd (Database_beginTransaction d);
       d2 = snd (Database_beginTransaction d1);
       d3 = snd (Database_execute demo_incr d2)
   in \<not> fst (Database_beginTransaction d) \<and> db_work d2 = None
      \<and> db_file (snd (Database_rollbackTransaction d3)) = Some 6"
proof -
  define d1 where "d1 = snd (Database_beginTransaction (demo_db [Refused]))"
  define d2 where "d2 = snd (Database_beginTransaction d1)"
  define d3 where "d3 = snd (Database_execute demo_incr d2)"
  have i: "idle (demo_db [Refused])" by (simp add: demo_defs)
  have a: "Database_beginTransaction (demo_db [Refused]) = (False, d1)"
    by (simp add: d1_def demo_defs)
  have b: "Database_beginTransaction d1 = (True, d2)" by (simp add: d1_def d2_def demo_defs)
  have c: "Database_execute demo_incr d2 = (Some (), d3)"
    by (simp add: d1_def d2_def d3_def demo_defs)
  have e: "Database_rollbackTransaction d3 = (fst (Database_rollbackTransaction d3), rollback_db d3)"
    by simp
  have "db_file (demo_db [Refused]) = Some 5" by (simp add: demo_db_def)
  then show ?thesis
    unfolding Let_def d1_def [symmetric] d2_def [symmetric] d3_def [symmetric]
    using refused_begin_disables_rollback [OF i a b c e] a by (auto simp: demo_incr_def)
qed

subsection \<open>Opening\<close>

lemma engine_ok_frame:
  assumes "engine_ok d = (ok, d')"
  shows "d' = drop_answer d"
  using assms by (simp add: engine_ok_def)

definition same_but_answers :: "('q, 't) database \<Rightarrow> ('q, 't) database \<Rightarrow> bool" where
  "same_but_answers d d' \<longleftrightarrow> (\<exists>as. d' = d\<lparr>db_answers := as\<rparr>)"

lemma same_but_answers_refl [simp]: "same_but_answers d d"
  by (auto simp: same_but_answers_def intro: exI [of _ "db_answers d"])

lemma same_but_answers_trans:
  "same_but_answers d d' \<Longrightarrow> same_but_answers d' d'' \<Longrightarrow> same_but_answers d d''"
  by (auto simp: same_but_answers_def)

lemma same_but_answers_drop [simp]: "same_but_answers d (drop_answer d)"
  by (auto simp: same_but_answers_def drop_answer_def)

lemma engine_all_frame: "engine_all n d = (ok, d') \<Longrightarrow> same_but_answers d d'"
proof (induction n arbitrary: d)
  case (Suc n)
  show ?case
  proof (cases "next_answer d = Ok")
    case True
    with Suc.prems have "engine_all n (drop_answer d) = (ok, d')" by (simp add: engine_ok_def)
    then show ?thesis using Suc.IH same_but_answers_trans [OF same_but_answers_drop] by blast
  next
    case False
    with Suc.prems show ?thesis by (auto simp: engine_ok_def)
  qed
qed simp

lemma configure_frame:
  assumes "configureDatabase key n d = (ok, d')"
  shows "db_file d' = db_file d" "db_fileKey d' = db_fileKey d" "db_work d' = db_work d"
    "db_semaphore d' = db_semaphore d" "db_isOpen d' = db_isOpen d"
    "db_userVersion d' = db_userVersion d" "db_prepared d' = db_prepared d"
    "ok \<Longrightarrow> db_connKey d' = key"
proof -
  obtain ok1 d1 where a: "engine_all n d = (ok1, d1)" by (cases "engine_all n d")
  then obtain as where "d1 = d\<lparr>db_answers := as\<rparr>"
    using engine_all_frame [OF a] by (auto simp: same_but_answers_def)
  with a assms show "db_file d' = db_file d" "db_fileKey d' = db_fileKey d" "db_work d' = db_work d"
    "db_semaphore d' = db_semaphore d" "db_isOpen d' = db_isOpen d"
    "db_userVersion d' = db_userVersion d" "db_prepared d' = db_prepared d"
    "ok \<Longrightarrow> db_connKey d' = key"
    by (auto simp: configureDatabase_def engine_ok_def Let_def split: if_splits)
qed

lemma upgrade_loop_reaches:
  "upgrade_loop ups cur v s d = (Upgraded s', d') \<Longrightarrow> cur \<le> (if v < cur then fst s' else v) \<and> (cur \<le> v \<longrightarrow> s' = s)"
proof (induction ups cur v s d rule: upgrade_loop.induct)
  case (1 ups cur v s d)
  show ?case
  proof (cases "v < cur")
    case False
    with "1.prems" show ?thesis by (simp add: upgrade_loop.simps [of ups cur v])
  next
    case True
    with "1.prems" obtain u e where u: "upgrade_round ups v s d = (Upgraded u, e)" "upgrade_loop ups cur (fst u) u e = (Upgraded s', d')"
      by (auto simp: upgrade_loop.simps [of ups cur v s d] split: prod.splits upgrade_outcome.splits)
    with "1.IH" [OF True u(1) [symmetric] refl] True show ?thesis by (auto split: if_splits)
  qed
qed

lemma upgrade_loop_defined:
  "0 \<le> v \<Longrightarrow> fst (upgrade_loop ups cur v s d) \<noteq> Upgrade_undefined"
proof (induction ups cur v s d rule: upgrade_loop.induct)
  case (1 ups cur v s d)
  show ?case
  proof (cases "upgrade_round ups v s d")
    case (Pair out e)
    moreover have "out \<noteq> Upgrade_undefined"
      using Pair "1.prems" by (auto simp: upgrade_round_def split: if_splits option.splits prod.splits)
    moreover have "fst (upgrade_loop ups cur (fst u) u e) \<noteq> Upgrade_undefined" if "v < cur" "out = Upgraded u" for u
      using "1.IH" [OF that(1) Pair [symmetric] that(2)] upgrade_round_rises [of ups v s d u e] Pair that(2) by simp
    ultimately show ?thesis by (cases out) (simp_all add: upgrade_loop.simps [of ups cur v s d])
  qed
qed

lemma tx_request_ok: "tx_request d = (ok, d') \<Longrightarrow> ok \<longleftrightarrow> next_answer d = Ok"
  by (auto simp: tx_request_def split: answer.splits)

lemma executeUpgradeStatements_undefined:
  "fst (executeUpgradeStatements ups cur s d) = Upgrade_undefined
     \<longleftrightarrow> cur = int (length ups) + 1 \<and> fst s < 0 \<and> next_answer d = Ok"
proof (cases "tx_request d")
  case (Pair ok d1)
  have "fst (upgrade_loop ups (int (length ups) + 1) (fst s) s d1) = Upgrade_undefined \<longleftrightarrow> fst s < 0"
    using upgrade_loop_defined [of "fst s" ups "int (length ups) + 1" s d1]
    by (auto simp: upgrade_loop.simps [of ups _ "fst s"] upgrade_round_def not_less)
  with Pair tx_request_ok [OF Pair] show ?thesis by (auto simp: executeUpgradeStatements_def)
qed

lemma upgrade_defined: "fst (executeUpgradeStatements ups cur (int n, t) d) \<noteq> Upgrade_undefined"
  by (simp add: executeUpgradeStatements_undefined)

text \<open>The rounds of the loop that are followed by another look at its condition.\<close>

definition upgrade_goes_on ::
    "'t UpgradeOperation list \<Rightarrow> int \<Rightarrow> int \<times> (int \<times> 't) \<times> ('q, 't) database \<Rightarrow> int \<times> (int \<times> 't) \<times> ('q, 't) database \<Rightarrow> bool" where
  "upgrade_goes_on ups cur x y \<longleftrightarrow>
     fst x < cur \<and> (\<exists>s' d'. upgrade_round ups (fst x) (fst (snd x)) (snd (snd x)) = (Upgraded s', d') \<and> y = (fst s', s', d'))"

lemma upgrade_rounds_bounded:
  "(upgrade_goes_on ups cur ^^ n) x y \<Longrightarrow> n \<le> nat (cur - fst x) \<and> fst x + int n \<le> fst y"
proof (induction n arbitrary: y)
  case (Suc n)
  then obtain z where z: "(upgrade_goes_on ups cur ^^ n) x z" "upgrade_goes_on ups cur z y" by auto
  then have "fst z < cur" "fst z < fst y" by (auto simp: upgrade_goes_on_def dest: upgrade_round_rises)
  with Suc.IH [OF z(1)] show ?case by auto
qed simp

lemma executeUpgradeStatements_none:
  "executeUpgradeStatements [] 1 (int n, t) d =
     (let (answered, d1) = tx_request d
      in if \<not> answered then (Upgrade_refused, d1)
         else if 1 \<le> n then (Upgraded (int n, t), d1)
         else (Upgrade_refused, snd (tx_request d1)))"
  by (auto simp: executeUpgradeStatements_def upgrade_loop.simps [of "[]" 1] upgrade_round_def run_upgrade_def
      split: prod.splits)

lemma tx_request_frame:
  assumes "tx_request d = (ok, d')"
  obtains as w where "d' = d\<lparr>db_answers := as, db_work := w\<rparr>" "ok \<longrightarrow> w = db_work d"
proof -
  have "d' = d\<lparr>db_answers := tl (db_answers d), db_work := db_work d'\<rparr> \<and> (ok \<longrightarrow> db_work d' = db_work d)"
    using assms by (auto simp: tx_request_def drop_answer_def split: answer.splits)
  then show ?thesis using that by blast
qed

lemma executeUpgradeStatements_none_frame:
  assumes "executeUpgradeStatements [] 1 (int n, t) d = (out, d')"
  obtains as w where "d' = d\<lparr>db_answers := as, db_work := w\<rparr>"
    "out = Upgraded (int n, t) \<and> 1 \<le> n \<and> w = db_work d \<or> out = Upgrade_refused"
proof -
  obtain ok d1 where d1: "tx_request d = (ok, d1)" by fastforce
  obtain as w where f: "d1 = d\<lparr>db_answers := as, db_work := w\<rparr>" "ok \<longrightarrow> w = db_work d" by (rule tx_request_frame [OF d1])
  obtain ok2 d2 where d2: "tx_request d1 = (ok2, d2)" by fastforce
  obtain as2 w2 where f2: "d2 = d1\<lparr>db_answers := as2, db_work := w2\<rparr>" by (rule tx_request_frame [OF d2])
  show ?thesis
    using assms d1 d2 f f2 that [where as = as and w = w] that [where as = as2 and w = w2]
    by (auto simp: executeUpgradeStatements_none split: if_splits)
qed

lemma upgradeDatabase_none:
  assumes "upgradeDatabase [] 1 d = (ok, d')" and "db_file d = Some t"
  obtains as w where "d' = d\<lparr>db_answers := as, db_work := w\<rparr>" "ok \<longrightarrow> w = None"
proof (cases "sql_begin d")
  case (Pair begun d1)
  show ?thesis
  proof (cases begun)
    case False
    then have "d1 = d \<or> d1 = drop_answer d" using Pair by (auto simp: sql_begin_def split: if_splits)
    then show ?thesis using that [where as = "db_answers d1" and w = "db_work d"] assms(1) Pair False
      by (auto simp: upgradeDatabase_def drop_answer_def)
  next
    case True
    then have d1: "d1 = d\<lparr>db_answers := tl (db_answers d), db_work := Some t\<rparr>"
      using Pair assms(2) by (auto simp: sql_begin_def drop_answer_def split: if_splits)
    obtain out d2 where x: "executeUpgradeStatements [] 1 (int (db_userVersion d1), t) d1 = (out, d2)" by fastforce
    obtain as w where f: "d2 = d1\<lparr>db_answers := as, db_work := w\<rparr>"
      "out = Upgraded (int (db_userVersion d1), t) \<and> 1 \<le> db_userVersion d1 \<and> w = db_work d1 \<or> out = Upgrade_refused"
      by (rule executeUpgradeStatements_none_frame [OF x])
    show ?thesis
      using assms x f(2) Pair True that [where as = "db_answers d'" and w = "db_work d'"]
      unfolding f(1) d1
      by (auto simp: upgradeDatabase_def sql_commit_def sql_rollback_def drop_answer_def Let_def
          split: option.splits answer.splits)
  qed
qed

text \<open>Opening an existing file of the current schema: it is kept, and opens with its key only.\<close>

lemma open_existing:
  assumes "Database_open key n m t0 [] 1 d = (ok, d')" and "db_file d = Some t" and "\<not> db_isOpen d"
  shows "db_file d' = Some t" "db_fileKey d' = db_fileKey d" "db_semaphore d' = db_semaphore d"
    "db_isOpen d' = ok" "ok \<Longrightarrow> key = db_fileKey d \<and> db_connKey d' = key \<and> db_work d' = None"
proof -
  define d3 where "d3 = (drop_answer (drop_answer d))\<lparr>db_isOpen := True\<rparr>"
  obtain ok4 d4 where d4: "configureDatabase key n d3 = (ok4, d4)" by (cases "configureDatabase key n d3")
  obtain ok5 d5 where d5: "checkDatabase d4 = (ok5, d5)" by (cases "checkDatabase d4")
  obtain ok6 d6 where d6: "upgradeDatabase [] 1 d5 = (ok6, d6)" by (cases "upgradeDatabase [] 1 d5")
  note c = configure_frame [OF d4]
  have c3: "db_file d3 = Some t" "db_fileKey d3 = db_fileKey d" "db_semaphore d3 = db_semaphore d"
    using assms(2) by (simp_all add: d3_def)
  have k: "d5 = d4 \<or> d5 = drop_answer d4" "ok5 \<Longrightarrow> db_readable d4"
    using d5 by (auto simp: checkDatabase_def engine_ok_def split: if_splits)
  have e5: "db_file d5 = Some t" "db_fileKey d5 = db_fileKey d" "db_semaphore d5 = db_semaphore d"
    "db_connKey d5 = db_connKey d4"
    using k(1) c c3 by auto
  obtain as w where u: "d6 = d5\<lparr>db_answers := as, db_work := w\<rparr>" "ok6 \<longrightarrow> w = None" by (rule upgradeDatabase_none [OF d6 e5(1)])
  have o3: "db_isOpen d5" using k(1) c(5) by (auto simp: d3_def)
  have o6: "db_isOpen d6" using u(1) o3 by simp
  have all: "db_file d' = Some t \<and> db_fileKey d' = db_fileKey d \<and> db_semaphore d' = db_semaphore d
    \<and> db_isOpen d' = ok \<and> (ok \<longrightarrow> key = db_fileKey d \<and> db_connKey d' = key \<and> db_work d' = None)"
    using assms d4 d5 d6 c c3 k e5 u o6
    by (auto simp: Database_open_def engine_ok_def Let_def d3_def [symmetric] db_readable_def
        split: if_splits)
  then show "db_file d' = Some t" "db_fileKey d' = db_fileKey d" "db_semaphore d' = db_semaphore d"
    "db_isOpen d' = ok" "ok \<Longrightarrow> key = db_fileKey d \<and> db_connKey d' = key \<and> db_work d' = None"
    by auto
qed

text \<open>
  C3. Schema upgrades, for every list of upgrade operations and every behaviour of the engine. When \<open>executeUpgradeStatements\<close>
  succeeds, the list has one operation for each version before the current one, the schema version has reached the current one, and a
  database that was already current is left alone. Each round that goes on has raised the version, so that
  the loop makes no more rounds than the file is versions behind. With the empty list of this repository a file of
  version 0 is refused. The behaviour is undefined exactly when the list has the right length, the version has been read, and
  it is negative: the array is then read before its start.
\<close>

theorem upgrade_reaches_current_schema:
  assumes "executeUpgradeStatements ups cur s d = (out, d')"
  shows "(\<forall>s'. out = Upgraded s' \<longrightarrow> cur = int (length ups) + 1 \<and> cur \<le> fst s' \<and> (cur \<le> fst s \<longrightarrow> s' = s))
    \<and> ((upgrade_goes_on ups cur ^^ n) (fst s, s, e) y \<longrightarrow> n \<le> nat (cur - fst s))
    \<and> (ups = [] \<and> fst s = 0 \<longrightarrow> out = Upgrade_refused)
    \<and> (out = Upgrade_undefined \<longleftrightarrow> cur = int (length ups) + 1 \<and> fst s < 0 \<and> next_answer d = Ok)"
proof -
  have "cur = int (length ups) + 1 \<and> cur \<le> fst s' \<and> (cur \<le> fst s \<longrightarrow> s' = s)" if "out = Upgraded s'" for s'
    using assms that upgrade_loop_reaches [of ups cur "fst s" s "snd (tx_request d)" s' d']
    by (cases "fst s < cur") (auto simp: executeUpgradeStatements_def split: if_splits prod.splits)
  moreover have "out = Upgrade_refused" if "ups = []" "fst s = 0"
  proof (cases "cur = 1")
    case True
    then show ?thesis
      using assms that executeUpgradeStatements_none [of 0 "snd s" d] by (cases s) (auto split: if_splits prod.splits)
  next
    case False
    then show ?thesis using assms that by (simp add: executeUpgradeStatements_def)
  qed
  ultimately show ?thesis
    using upgrade_rounds_bounded [of n ups cur "(fst s, s, e)" y] executeUpgradeStatements_undefined [of ups cur s d] assms
    by auto
qed

definition demo_upgrade :: "string UpgradeOperation" where
  "demo_upgrade = \<lparr>up_fn = None, up_statements = [\<lambda>(v, t). Some (2, t)]\<rparr>"

definition demo_upgraded :: "int \<Rightarrow> (unit, string) database" where
  "demo_upgraded v = \<lparr>db_file = Some ''x'', db_fileKey = [], db_userVersion = nat v, db_isOpen = True, db_connKey = [], db_work = Some ''x'',
     db_semaphore = 0, db_prepared = [], db_localeName = ''C'', db_answers = []\<rparr>"

theorem upgrade_reaches_current_schema_witness:
  "fst (executeUpgradeStatements [demo_upgrade] 2 (0, ''x'') (demo_upgraded 0)) = Upgraded (2, ''x'')
   \<and> (2::int) = int (length [demo_upgrade]) + 1
   \<and> fst (executeUpgradeStatements [] 1 (0, ''x'') (demo_upgraded 0)) = Upgrade_refused
   \<and> fst (executeUpgradeStatements [] 1 (- 1, ''x'') (demo_upgraded (- 1))) = Upgrade_undefined"
proof -
  have a: "next_answer (demo_upgraded v) = Ok" for v by (simp add: next_answer_def demo_upgraded_def)
  have e: "fst (executeUpgradeStatements [demo_upgrade] 2 (0, ''x'') (demo_upgraded 0)) = Upgraded (2, ''x'')"
    by code_simp
  show ?thesis
    using upgrade_reaches_current_schema [OF prod.collapse [symmetric], where ups = "[demo_upgrade]" and cur = 2 and s = "(0, ''x'')"
          and d = "demo_upgraded 0" and n = 0 and e = "demo_upgraded 0" and y = "(0, (0, ''x''), demo_upgraded 0)"]
      upgrade_reaches_current_schema [OF prod.collapse [symmetric], where ups = "[]" and cur = 1 and s = "(0, ''x'')"
          and d = "demo_upgraded 0" and n = 0 and e = "demo_upgraded 0" and y = "(0, (0, ''x''), demo_upgraded 0)"]
      upgrade_reaches_current_schema [OF prod.collapse [symmetric], where ups = "[]" and cur = 1 and s = "(- 1, ''x'')"
          and d = "demo_upgraded (- 1)" and n = 0 and e = "demo_upgraded 0" and y = "(0, (0, ''x''), demo_upgraded 0)"] e a
    by auto
qed

subsection \<open>Opening a file again\<close>

text \<open>
  \<open>reopening t key\<close>: the file holds \<open>t\<close> at the current schema version, encrypted under
  \<open>key\<close>, no transaction is open and the engine will refuse nothing. Opening such a file with its key succeeds.
\<close>

lemma engine_ready_update [simp]:
  "engine_ready (d\<lparr>db_isOpen := b\<rparr>) = engine_ready d" "engine_ready (d\<lparr>db_connKey := k\<rparr>) = engine_ready d"
  "engine_ready (d\<lparr>db_work := x\<rparr>) = engine_ready d" "engine_ready (d\<lparr>db_file := f\<rparr>) = engine_ready d"
  "engine_ready (d\<lparr>db_userVersion := v\<rparr>) = engine_ready d" "engine_ready (d\<lparr>db_localeName := l\<rparr>) = engine_ready d"
  "engine_ready (d\<lparr>db_prepared := q\<rparr>) = engine_ready d"
  by (simp_all add: engine_ready_def)

definition reopening :: "'t \<Rightarrow> qbytes \<Rightarrow> ('q, 't) database \<Rightarrow> bool" where
  "reopening t key d \<longleftrightarrow> db_file d = Some t \<and> db_fileKey d = key \<and> db_work d = None \<and> db_semaphore d = 0
     \<and> db_userVersion d = 1 \<and> engine_ready d"

lemma reopening_drop: "reopening t key d \<Longrightarrow> reopening t key (drop_answer d)"
  using engine_ready_drop [of d] by (simp add: reopening_def)

lemma reopening_update [simp]:
  "reopening t key (d\<lparr>db_isOpen := b\<rparr>) = reopening t key d" "reopening t key (d\<lparr>db_connKey := k\<rparr>) = reopening t key d"
  "reopening t key (d\<lparr>db_localeName := l\<rparr>) = reopening t key d"
  by (simp_all add: reopening_def)

lemma reopening_engine_ok: "reopening t key d \<Longrightarrow> \<exists>d'. engine_ok d = (True, d') \<and> reopening t key d' \<and> db_isOpen d' = db_isOpen d \<and> db_connKey d' = db_connKey d"
  using reopening_drop [of t key d] by (auto simp: engine_ok_def reopening_def drop_answer_def)

lemma reopening_engine_all:
  "reopening t key d \<Longrightarrow> \<exists>d'. engine_all n d = (True, d') \<and> reopening t key d' \<and> db_isOpen d' = db_isOpen d"
proof (induction n arbitrary: d)
  case (Suc n)
  from reopening_engine_ok [OF Suc.prems] obtain d1 where
    d1: "engine_ok d = (True, d1)" "reopening t key d1" "db_isOpen d1 = db_isOpen d" by blast
  with Suc.IH [OF d1(2)] show ?case by simp
qed simp

lemma reopening_configure:
  assumes "reopening t key d"
  shows "\<exists>d'. configureDatabase key n d = (True, d') \<and> reopening t key d' \<and> db_isOpen d' = db_isOpen d \<and> db_connKey d' = key"
proof -
  from reopening_engine_all [OF assms] obtain d1 where
    d1: "engine_all n d = (True, d1)" "reopening t key d1" "db_isOpen d1 = db_isOpen d" by blast
  from reopening_engine_ok [of t key "d1\<lparr>db_connKey := key\<rparr>"] d1 obtain d2 where
    "engine_ok (d1\<lparr>db_connKey := key\<rparr>) = (True, d2)" "reopening t key d2" "db_isOpen d2 = db_isOpen d"
    "db_connKey d2 = key" by auto
  with d1 show ?thesis by (simp add: configureDatabase_def Let_def)
qed

lemma reopening_upgrade:
  assumes "reopening t key d" and "db_isOpen d" and "db_connKey d = key"
  shows "\<exists>d'. upgradeDatabase [] 1 d = (True, d') \<and> idle d' \<and> db_file d' = Some t \<and> engine_ready d'"
proof -
  from assms have b: "sql_begin d = (True, (drop_answer d)\<lparr>db_work := Some t\<rparr>)"
    by (simp add: sql_begin_def reopening_def db_readable_def)
  have r: "reopening t key (drop_answer d)" "db_isOpen (drop_answer d)" "db_connKey (drop_answer d) = key"
    "engine_ready (drop_answer (drop_answer d))"
    using assms reopening_drop [OF assms(1)] by (simp_all add: reopening_def)
  have f: "db_userVersion (drop_answer e) = db_userVersion e" "db_semaphore (drop_answer e) = db_semaphore e"
    "db_isOpen (drop_answer e) = db_isOpen e" "db_connKey (drop_answer e) = db_connKey e"
    "db_fileKey (drop_answer e) = db_fileKey e"
    "drop_answer (e\<lparr>db_work := x\<rparr>) = (drop_answer e)\<lparr>db_work := x\<rparr>"
    "next_answer (e\<lparr>db_work := x\<rparr>) = next_answer e" for e :: "('q, 't) database" and x
    by (simp_all add: drop_answer_def next_answer_def)
  let ?e = "(drop_answer d)\<lparr>db_work := Some t\<rparr>"
  have e: "engine_ready ?e" using r(1) by (simp add: reopening_def)
  then have "executeUpgradeStatements [] 1 (1, t) ?e = (Upgraded (1, t), drop_answer ?e)"
    by (simp add: executeUpgradeStatements_def upgrade_loop.simps tx_request_def)
  with engine_ready_drop [OF engine_ready_drop [OF e]] engine_ready_drop [OF e] show ?thesis using b r
    by (simp add: upgradeDatabase_def sql_commit_def reopening_def idle_def db_readable_def f)
qed


lemma reopening_open:
  assumes "reopening t key d" and "\<not> db_isOpen d"
  shows "\<exists>d'. Database_open key n m t0 [] 1 d = (True, d') \<and> idle d' \<and> db_file d' = Some t \<and> engine_ready d'"
proof -
  from reopening_engine_ok [OF assms(1)] obtain d1 where
    d1: "engine_ok d = (True, d1)" "reopening t key d1" "\<not> db_isOpen d1" using assms(2) by auto
  from reopening_engine_ok [OF d1(2)] obtain d2 where d2: "engine_ok d1 = (True, d2)" "reopening t key d2" by blast
  from reopening_configure [of t key "d2\<lparr>db_isOpen := True\<rparr>" n] d2 obtain d4 where
    d4: "configureDatabase key n (d2\<lparr>db_isOpen := True\<rparr>) = (True, d4)" "reopening t key d4" "db_isOpen d4"
      "db_connKey d4 = key" by auto
  have rd: "db_readable d4" using d4 by (simp add: db_readable_def reopening_def)
  from reopening_engine_ok [OF d4(2)] d4 obtain d5 where
    d5: "engine_ok d4 = (True, d5)" "reopening t key d5" "db_isOpen d5" "db_connKey d5 = key" by auto
  from reopening_upgrade [OF d5(2-4)] obtain d6 where
    "upgradeDatabase [] 1 d5 = (True, d6)" "idle d6" "db_file d6 = Some t" "engine_ready d6" by blast
  with assms d1 d2 d4 d5 rd show ?thesis
    by (simp add: Database_open_def checkDatabase_def reopening_def)
qed

text \<open>A file at the current schema version stays there when it is opened.\<close>

lemma open_existing_version:
  assumes "Database_open key n m t0 [] 1 d = (ok, d')" and "db_file d = Some t" and "db_userVersion d = 1"
  shows "db_userVersion d' = 1"
proof -
  define d3 where "d3 = (drop_answer (drop_answer d))\<lparr>db_isOpen := True\<rparr>"
  obtain ok4 d4 where d4: "configureDatabase key n d3 = (ok4, d4)" by (cases "configureDatabase key n d3")
  obtain ok5 d5 where d5: "checkDatabase d4 = (ok5, d5)" by (cases "checkDatabase d4")
  obtain ok6 d6 where d6: "upgradeDatabase [] 1 d5 = (ok6, d6)" by (cases "upgradeDatabase [] 1 d5")
  have v5: "db_userVersion d5 = 1" "db_file d5 = Some t" "db_userVersion d4 = 1"
    using configure_frame [OF d4] d5 assms(2,3)
    by (auto simp: d3_def checkDatabase_def engine_ok_def split: if_splits)
  have "db_userVersion d6 = 1"
  proof -
    obtain as w where "d6 = d5\<lparr>db_answers := as, db_work := w\<rparr>" by (rule upgradeDatabase_none [OF d6 v5(2)])
    with v5(1) show ?thesis by simp
  qed
  then show ?thesis using assms d4 d5 d6 v5
    by (auto simp: Database_open_def engine_ok_def Let_def d3_def [symmetric] split: if_splits)
qed

text \<open>Opening a file that does not exist creates it, empty and under the key given.\<close>

lemma open_new:
  assumes "Database_open key n m t0 [] 1 d = (True, d')" and "db_file d = None" and "db_work d = None"
    and "db_semaphore d = 0"
  shows "idle d'" "db_file d' = Some t0" "db_fileKey d' = key" "db_userVersion d' = 1"
proof -
  define d3 where "d3 = (drop_answer (drop_answer d))\<lparr>db_isOpen := True\<rparr>"
  obtain ok4 d4 where d4: "configureDatabase key n d3 = (ok4, d4)" by (cases "configureDatabase key n d3")
  note c = configure_frame [OF d4]
  obtain ok5 d5 where d5: "engine_all (Suc m) (drop_answer d4) = (ok5, d5)" by (cases "engine_all (Suc m) (drop_answer d4)")
  obtain as where as: "d5 = d4\<lparr>db_answers := as\<rparr>"
    using engine_all_frame [OF d5] by (auto simp: same_but_answers_def drop_answer_def)
  have "prepareDatabase key n m t0 1 d3 = (True, d')"
    using assms(1,2) by (auto simp: Database_open_def engine_ok_def Let_def d3_def [symmetric] split: if_splits prod.splits)
  then have "ok4" and d': "d' = (drop_answer d5)\<lparr>db_file := Some t0, db_fileKey := key, db_userVersion := 1\<rparr>"
    using d4 d5 by (auto simp: prepareDatabase_def engine_ok_def Let_def split: if_splits)
  with c assms(3,4) as show "idle d'" "db_file d' = Some t0" "db_fileKey d' = key" "db_userVersion d' = 1"
    by (simp_all add: idle_def db_readable_def d3_def drop_answer_def)
qed

end
