(* ===== verification/Transactions.thy ===== *)
theory Transactions
  imports Results Database
begin

section \<open>Operations inside a transaction\<close>

text \<open>
  What the operations on an SQLite connection share: queries, the ways an operation ends, and the rules
  that reduce the outcome of an operation to its last step. The
  SQLite plugin (src/plugins/sqliteplugin/plugin.cpp) and the SQLCipher plugin
  (src/plugins/sqlcipherplugin/encryptedstorageplugin.cpp) are written in the same shape: prepare,
  begin, execute statement by statement, roll back at the first failure, commit.
\<close>

subsection \<open>Queries and ends\<close>

text \<open>A query reads: it returns its rows and leaves the tables alone.\<close>

definition sql_select :: "('t \<Rightarrow> 'r) \<Rightarrow> 't \<Rightarrow> ('r \<times> 't) option" where
  "sql_select f t = Some (f t, t)"

text \<open>
  The ends of the operations: a query that fails inside a transaction is rolled
  back and reported; a commit that fails is followed by a rollback and reported.
\<close>

definition query_failed :: "('q, 't) database \<Rightarrow> Result \<times> ('q, 't) database" where
  "query_failed d = (failure DatabaseQueryError, rollback_db d)"

definition commit_result :: "('q, 't) database \<Rightarrow> Result \<times> ('q, 't) database" where
  "commit_result d =
     (let (committed, d1) = Database_commitTransaction d
      in if committed then (success, d1) else (failure DatabaseTransactionError, rollback_db d1))"

subsection \<open>Rules\<close>

text \<open>
  \<open>tx er f t d\<close>: inside a transaction, with \<open>f\<close> committed and \<open>t\<close>
  the working contents; if \<open>er\<close> holds, the engine will refuse nothing.
  \<open>outcome er f P E\<close>: an operation that succeeds leaves the connection idle
  and commits contents with \<open>P\<close>; one that fails leaves the contents \<open>f\<close>, and
  where the engine refuses nothing it fails with a result in \<open>E\<close> and leaves the connection idle too.
  One rule per shape of step reduces an operation to its last step.
\<close>

definition tx :: "bool \<Rightarrow> 't \<Rightarrow> 't \<Rightarrow> ('q, 't) database \<Rightarrow> bool" where
  "tx er f t d \<longleftrightarrow> in_tx f t d \<and> (er \<longrightarrow> engine_ready d)"

definition outcome ::
    "bool \<Rightarrow> 't \<Rightarrow> ('t \<Rightarrow> bool) \<Rightarrow> (Result \<Rightarrow> bool) \<Rightarrow> Result \<times> ('q, 't) database \<Rightarrow> bool" where
  "outcome er f P E rd \<longleftrightarrow>
     (if succeeded (fst rd)
      then idle (snd rd) \<and> (er \<longrightarrow> engine_ready (snd rd)) \<and> (\<exists>t. db_file (snd rd) = Some t \<and> P t)
      else db_file (snd rd) = Some f \<and> (er \<longrightarrow> E (fst rd) \<and> idle (snd rd) \<and> engine_ready (snd rd)))"

lemma outcome_now:
  assumes "idle d" and "db_file d = Some f" and "er \<longrightarrow> engine_ready d" and "\<not> succeeded r" and "E r"
  shows "outcome er f P E (r, d)"
  using assms by (simp add: outcome_def)

lemma rollback_outcome:
  assumes "pending f d" and "er \<Longrightarrow> engine_ready d \<and> (\<exists>t. in_tx f t d) \<and> E r" and "\<not> succeeded r"
  shows "outcome er f P E (r, rollback_db d)"
proof -
  note r = rollback_pending [OF assms(1) prod.collapse [symmetric]]
  have "idle (rollback_db d) \<and> engine_ready (rollback_db d) \<and> E r" if er
  proof -
    from assms(2) [OF that] obtain t where t: "engine_ready d" "in_tx f t d" "E r" by blast
    with ready_rollback [OF t(1,2)] r show ?thesis by simp
  qed
  with r assms(3) show ?thesis by (simp add: outcome_def)
qed

lemma outcome_commit:
  assumes "tx er f t d" and "P t"
  shows "outcome er f P E (commit_result d)"
proof -
  obtain ok d' where c: "Database_commitTransaction d = (ok, d')" by (cases "Database_commitTransaction d")
  have tx: "in_tx f t d" and er: "er \<longrightarrow> engine_ready d" using assms(1) by (simp_all add: tx_def)
  note d' = commit_in_tx [OF tx c]
  show ?thesis
  proof (cases ok)
    case True
    with d' c ready_commit [OF _ tx] er assms(2) show ?thesis
      by (auto simp: commit_result_def outcome_def)
  next
    case False
    then have "\<not> er" using ready_commit [OF _ tx] er c by auto
    moreover have "db_file (rollback_db d') = Some f"
      using d' False by (simp add: Database_rollbackTransaction_def)
    ultimately show ?thesis using False c by (simp add: commit_result_def outcome_def)
  qed
qed

lemma outcome_begin:
  assumes "idle d" and "db_file d = Some f" and "er \<longrightarrow> engine_ready d"
    and "\<And>d'. tx er f f d' \<Longrightarrow> outcome er f P E (k d')"
  shows "outcome er f P E
    (case Database_prepare q d of (prepared, d1) \<Rightarrow>
       if \<not> prepared then (failure DatabaseQueryError, d1)
       else case Database_beginTransaction d1 of (begun, d2) \<Rightarrow>
              if \<not> begun then (failure DatabaseTransactionError, d2) else k d2)"
proof -
  obtain p d1 where p: "Database_prepare q d = (p, d1)" by (cases "Database_prepare q d")
  have i1: "idle d1" "db_file d1 = Some f" using prepare_idle [OF p assms(1)] prepare_file [OF p] assms(2) by simp_all
  have r: "db_readable d" using assms(1) by (simp add: idle_def)
  obtain b d2 where b: "Database_beginTransaction d1 = (b, d2)" by (cases "Database_beginTransaction d1")
  note d2 = begin_idle [OF i1 b]
  have e1: "er \<longrightarrow> p \<and> engine_ready d1" using ready_prepare [OF _ r, of q] p assms(3) by simp
  have e2: "er \<longrightarrow> b \<and> engine_ready d2" using ready_begin [OF _ i1(1)] e1 b by simp
  show ?thesis
  proof (cases p)
    case False
    then show ?thesis using p e1 i1 by (simp add: outcome_def)
  next
    case True
    show ?thesis
    proof (cases b)
      case False
      with True p b d2 e2 show ?thesis by (simp add: outcome_def)
    next
      case t: True
      with d2 e2 have "tx er f f d2" by (simp add: tx_def)
      with True t p b assms(4) show ?thesis by simp
    qed
  qed
qed

lemma outcome_prepare:
  assumes "tx er f t d" and "\<And>d'. tx er f t d' \<Longrightarrow> outcome er f P E (k d')"
  shows "outcome er f P E
    (case Database_prepare q d of (prepared, d1) \<Rightarrow> if \<not> prepared then query_failed d1 else k d1)"
proof -
  obtain p d1 where p: "Database_prepare q d = (p, d1)" by (cases "Database_prepare q d")
  have t: "in_tx f t d" "er \<longrightarrow> engine_ready d" using assms(1) by (simp_all add: tx_def)
  have t1: "in_tx f t d1" using prepare_in_tx [OF p t(1)] .
  have r: "db_readable d" using t(1) by (simp add: in_tx_def)
  have e: "er \<longrightarrow> p \<and> engine_ready d1" using ready_prepare [OF _ r, of q] p t(2) by simp
  show ?thesis
  proof (cases p)
    case True
    with p t1 e assms(2) show ?thesis by (simp add: tx_def)
  next
    case False
    have "outcome er f P E (failure DatabaseQueryError, rollback_db d1)"
      by (rule rollback_outcome [OF in_tx_pending [OF t1]]) (use False e in simp_all)
    with False p show ?thesis by (simp add: query_failed_def)
  qed
qed

lemma execute_tx:
  assumes "tx er f t d" and "Database_execute g d = (x, d')"
  shows "case x of Some y \<Rightarrow> \<exists>t'. g t = Some (y, t') \<and> tx er f t' d'
         | None \<Rightarrow> pending f d' \<and> (er \<longrightarrow> g t = None \<and> engine_ready d' \<and> in_tx f t d')"
proof -
  have t: "in_tx f t d" "er \<longrightarrow> engine_ready d" using assms(1) by (simp_all add: tx_def)
  have v: "db_readable d" "db_view d = Some t" using t(1) by (simp_all add: in_tx_def db_view_def)
  have "er \<longrightarrow> x = map_option fst (g t) \<and> engine_ready d'"
    using ready_execute [OF _ v, of g] t(2) assms(2) by simp
  moreover have "in_tx f t d'" if "x = None" er
    using that t v assms(2)
    by (auto simp: Database_execute_def in_tx_def split: option.splits)
  ultimately show ?thesis using execute_in_tx [OF t(1) assms(2)]
    by (cases x) (auto simp: tx_def)
qed

lemma outcome_execute:
  assumes "tx er f t d" and "\<And>x t' d'. g t = Some (x, t') \<Longrightarrow> tx er f t' d' \<Longrightarrow> outcome er f P E (k x d')"
    and "g t = None \<Longrightarrow> E (failure DatabaseQueryError)"
  shows "outcome er f P E
    (case Database_execute g d of (None, d1) \<Rightarrow> query_failed d1 | (Some x, d1) \<Rightarrow> k x d1)"
proof -
  obtain x d1 where x: "Database_execute g d = (x, d1)" by (cases "Database_execute g d")
  note d1 = execute_tx [OF assms(1) x]
  show ?thesis
  proof (cases x)
    case (Some y)
    with d1 x assms(2) show ?thesis by auto
  next
    case None
    have "outcome er f P E (failure DatabaseQueryError, rollback_db d1)"
      by (rule rollback_outcome) (use d1 None assms(3) in auto)
    with None x show ?thesis by (simp add: query_failed_def)
  qed
qed

lemma run_statements_tx:
  assumes "tx er f t d" and "run_statements gs d = (ok, d')"
  shows "if ok then \<exists>t'. apply_statements gs t = Some t' \<and> tx er f t' d'
         else pending f d' \<and> (er \<longrightarrow> apply_statements gs t = None \<and> engine_ready d' \<and> (\<exists>t'. in_tx f t' d'))"
  using assms
proof (induction gs arbitrary: d t)
  case (Cons g gs)
  obtain x d1 where x: "Database_execute g d = (x, d1)" by (cases "Database_execute g d")
  note d1 = execute_tx [OF Cons.prems(1) x]
  show ?case
  proof (cases x)
    case None
    with d1 x Cons.prems(2) show ?thesis by auto
  next
    case (Some y)
    with d1 obtain t' where t': "g t = Some (y, t')" "tx er f t' d1" by auto
    from Some x Cons.prems(2) have "run_statements gs d1 = (ok, d')" by simp
    from Cons.IH [OF t'(2) this] t'(1) show ?thesis by simp
  qed
qed auto

lemma outcome_statements:
  assumes "tx er f t d" and "\<And>t' d'. apply_statements gs t = Some t' \<Longrightarrow> tx er f t' d' \<Longrightarrow> outcome er f P E (k d')"
    and "apply_statements gs t = None \<Longrightarrow> E (failure DatabaseQueryError)"
  shows "outcome er f P E
    (case run_statements gs d of (done, d1) \<Rightarrow> if \<not> done then query_failed d1 else k d1)"
proof -
  obtain ok d1 where x: "run_statements gs d = (ok, d1)" by (cases "run_statements gs d")
  note d1 = run_statements_tx [OF assms(1) x]
  show ?thesis
  proof (cases ok)
    case True
    with d1 x assms(2) show ?thesis by auto
  next
    case False
    have "outcome er f P E (failure DatabaseQueryError, rollback_db d1)"
      by (rule rollback_outcome) (use d1 False assms(3) in auto)
    with False x show ?thesis by (simp add: query_failed_def)
  qed
qed

lemma tx_rollback:
  assumes "tx er f t d" and "\<not> succeeded r" and "E r"
  shows "outcome er f P E (r, rollback_db d)"
  by (rule rollback_outcome) (use assms in \<open>auto simp: tx_def intro: in_tx_pending\<close>)

lemmas outcome_rules = outcome_begin outcome_prepare outcome_execute outcome_statements outcome_commit

lemma outcome_fails:
  assumes "outcome er t P E (r, d')" and "\<not> succeeded r"
  shows "db_file d' = Some t"
  using assms by (simp add: outcome_def)

lemma outcome_ok:
  assumes "outcome er t P E (r, d')" and "succeeded r"
  obtains t' where "idle d'" and "db_file d' = Some t'" and "P t'"
  using assms by (auto simp: outcome_def)

subsection \<open>Rules for queries\<close>

definition read_outcome ::
    "bool \<Rightarrow> 't \<Rightarrow> ('a \<Rightarrow> bool) \<Rightarrow> (Result \<Rightarrow> bool) \<Rightarrow> Result \<times> 'a \<times> ('q, 't) database \<Rightarrow> bool" where
  "read_outcome er f Q E x \<longleftrightarrow>
     (if succeeded (fst x)
      then Q (fst (snd x)) \<and> idle (snd (snd x)) \<and> (er \<longrightarrow> engine_ready (snd (snd x)))
      else er \<longrightarrow> E (fst x) \<and> idle (snd (snd x)) \<and> engine_ready (snd (snd x)))
     \<and> db_file (snd (snd x)) = Some f"

lemma read_of_outcome:
  "outcome er f (\<lambda>t. t = f) E (r, d) \<Longrightarrow> (succeeded r \<Longrightarrow> Q y) \<Longrightarrow> read_outcome er f Q E (r, y, d)"
  by (auto simp: outcome_def read_outcome_def split: if_splits)

lemma read_now:
  assumes "idle d" and "db_file d = Some f" and "er \<longrightarrow> engine_ready d" and "\<not> succeeded r" and "E r"
  shows "read_outcome er f Q E (r, y, d)"
  using assms by (simp add: read_outcome_def)

lemma read_begin:
  assumes "idle d" and "db_file d = Some f" and "er \<longrightarrow> engine_ready d"
    and "\<And>d'. tx er f f d' \<Longrightarrow> read_outcome er f Q E (k d')"
  shows "read_outcome er f Q E
    (case Database_prepare q d of (prepared, d1) \<Rightarrow>
       if \<not> prepared then (failure DatabaseQueryError, z, d1)
       else case Database_beginTransaction d1 of (begun, d2) \<Rightarrow>
              if \<not> begun then (failure DatabaseTransactionError, z, d2) else k d2)"
proof -
  obtain p d1 where p: "Database_prepare q d = (p, d1)" by (cases "Database_prepare q d")
  have i1: "idle d1" "db_file d1 = Some f" using prepare_idle [OF p assms(1)] prepare_file [OF p] assms(2) by simp_all
  have r: "db_readable d" using assms(1) by (simp add: idle_def)
  obtain b d2 where b: "Database_beginTransaction d1 = (b, d2)" by (cases "Database_beginTransaction d1")
  note d2 = begin_idle [OF i1 b]
  have e1: "er \<longrightarrow> p \<and> engine_ready d1" using ready_prepare [OF _ r, of q] p assms(3) by simp
  have e2: "er \<longrightarrow> b \<and> engine_ready d2" using ready_begin [OF _ i1(1)] e1 b by simp
  consider "\<not> p" | "p" "\<not> b" | "p" "b" by blast
  then show ?thesis
  proof cases
    case 3
    with d2 e2 have "tx er f f d2" by (simp add: tx_def)
    with 3 p b assms(4) show ?thesis by simp
  qed (use p b d2 e1 e2 i1 in \<open>simp_all add: read_outcome_def\<close>)
qed

lemma read_execute:
  assumes "tx er f f d" and "\<And>d'. tx er f f d' \<Longrightarrow> read_outcome er f Q E (k (h f) d')"
  shows "read_outcome er f Q E
    (case Database_execute (sql_select h) d of
       (None, d1) \<Rightarrow> (failure DatabaseQueryError, z, rollback_db d1) | (Some x, d1) \<Rightarrow> k x d1)"
proof -
  obtain x d1 where x: "Database_execute (sql_select h) d = (x, d1)"
    by (cases "Database_execute (sql_select h) d")
  note d1 = execute_tx [OF assms(1) x]
  show ?thesis
  proof (cases x)
    case (Some y)
    with d1 x assms(2) show ?thesis by (auto simp: sql_select_def)
  next
    case None
    have "outcome er f (\<lambda>t. t = f) E (failure DatabaseQueryError, rollback_db d1)"
      by (rule rollback_outcome) (use d1 None in \<open>auto simp: sql_select_def\<close>)
    with None x show ?thesis by (auto intro: read_of_outcome)
  qed
qed

lemma read_prepare_leaky:
  assumes "tx er f f d" and "\<And>d'. tx er f f d' \<Longrightarrow> read_outcome er f Q E (k d')"
  shows "read_outcome er f Q E
    (case Database_prepare q d of (prepared, d1) \<Rightarrow> if \<not> prepared then (failure DatabaseQueryError, z, d1) else k d1)"
proof -
  obtain p d1 where p: "Database_prepare q d = (p, d1)" by (cases "Database_prepare q d")
  have t: "in_tx f f d" "er \<longrightarrow> engine_ready d" using assms(1) by (simp_all add: tx_def)
  have t1: "in_tx f f d1" using prepare_in_tx [OF p t(1)] .
  have r: "db_readable d" using t(1) by (simp add: in_tx_def)
  have e: "er \<longrightarrow> p \<and> engine_ready d1" using ready_prepare [OF _ r, of q] p t(2) by simp
  show ?thesis
    using assms(2) [of d1] p t1 e by (auto simp: tx_def read_outcome_def in_tx_def)
qed

lemma read_commit:
  assumes "tx er f f d" and "succeeded r' \<Longrightarrow> Q y" and "\<not> succeeded r' \<Longrightarrow> E r'"
  shows "read_outcome er f Q E
    (case commit_result d of (r, d') \<Rightarrow> if \<not> succeeded r then (r, z, d') else (r', y, d'))"
proof -
  obtain r d' where c: "commit_result d = (r, d')" by (cases "commit_result d")
  have "outcome er f (\<lambda>t. t = f) (\<lambda>_. False) (r, d')"
    using outcome_commit [OF assms(1), of "\<lambda>t. t = f" "\<lambda>_. False"] c by simp
  with c assms(2,3) show ?thesis by (auto simp: outcome_def read_outcome_def split: if_splits)
qed

lemma select_outcome:
  assumes "idle d" and "db_file d = Some t" and "er \<longrightarrow> engine_ready d" and "Q (k (h t))"
  shows "read_outcome er t Q E
    (case Database_prepare q d of (prepared, d1) \<Rightarrow>
       if \<not> prepared then (failure DatabaseQueryError, z, d1)
       else case Database_execute (sql_select h) d1 of
              (None, d2) \<Rightarrow> (failure DatabaseQueryError, z, rollback_db d2)
            | (Some x, d2) \<Rightarrow> (success, k x, d2))"
proof -
  obtain p d1 where p: "Database_prepare q d = (p, d1)" by (cases "Database_prepare q d")
  have i1: "idle d1" "db_file d1 = Some t" using prepare_idle [OF p assms(1)] prepare_file [OF p] assms(2) by simp_all
  obtain x d2 where x: "Database_execute (sql_select h) d1 = (x, d2)"
    by (cases "Database_execute (sql_select h) d1")
  note e = execute_idle [OF i1 x]
  have r: "db_readable d" "db_readable d1" "db_view d1 = Some t"
    using assms(1) i1 by (simp_all add: idle_def db_view_def)
  have e1: "er \<longrightarrow> p \<and> engine_ready d1" using ready_prepare [OF _ r(1), of q] p assms(3) by simp
  have e2: "er \<longrightarrow> x \<noteq> None \<and> engine_ready d2"
    using ready_execute [OF _ r(2,3), of "sql_select h"] e1 x by (auto simp: sql_select_def)
  have f: "db_file (rollback_db d2) = Some t" if "x = None"
    using e that by (auto simp: Database_rollbackTransaction_def idle_def)
  show ?thesis
    using p x e e1 e2 i1 f assms(4)
    by (cases x) (auto simp: read_outcome_def sql_select_def)
qed

end
