(* ===== verification/Metadata_Db.thy ===== *)
theory Metadata_Db
  imports Transactions
begin

section \<open>The metadata database\<close>

text \<open>
  \<^verbatim>\<open>Daemon::ApiImpl::MetadataDatabase\<close> (src/daemon/SecretsImpl/metadatadb.cpp,
  metadatadb_p.h): the bookkeeping database the daemon keeps beside each storage plugin, with
  a row for every collection and secret the plugin stores. The database is encrypted under
  the master lock key.

  The tables are lists of rows in insertion order; each SQL statement of the source is a
  function on the tables, with the \<^verbatim>\<open>UNIQUE\<close> and \<^verbatim>\<open>FOREIGN KEY ... ON DELETE CASCADE\<close> clauses
  of the schema written out. The automatic row numbers, which no statement reads, are left
  out, and a bound string is never the SQL null. An output parameter that keeps its old value when a query
  finds no row is an argument of the operation.
\<close>

subsection \<open>Data\<close>

datatype AccessControlMode = OwnerOnlyMode | SystemAccessControlMode | NoAccessControlMode

primrec accessControlMode_value :: "AccessControlMode \<Rightarrow> int" where
  "accessControlMode_value OwnerOnlyMode = 0"
| "accessControlMode_value SystemAccessControlMode = 1"
| "accessControlMode_value NoAccessControlMode = 2"

definition accessControlMode_of :: "int \<Rightarrow> AccessControlMode" where
  "accessControlMode_of i =
     (if i = 0 then OwnerOnlyMode else if i = 1 then SystemAccessControlMode else NoAccessControlMode)"

definition DeviceLockKeepUnlocked :: int where "DeviceLockKeepUnlocked = 0"
definition CustomLockKeepUnlocked :: int where "CustomLockKeepUnlocked = 8"

record CollectionMetadata =
  cm_collectionName :: qstring
  cm_ownerApplicationId :: qstring
  cm_usesDeviceLockKey :: bool
  cm_encryptionPluginName :: qstring
  cm_authenticationPluginName :: qstring
  cm_unlockSemantic :: int
  cm_accessControlMode :: AccessControlMode

record SecretMetadata =
  sm_collectionName :: qstring
  sm_secretName :: qstring
  sm_ownerApplicationId :: qstring
  sm_usesDeviceLockKey :: bool
  sm_encryptionPluginName :: qstring
  sm_authenticationPluginName :: qstring
  sm_unlockSemantic :: int
  sm_accessControlMode :: AccessControlMode
  sm_secretType :: qstring
  sm_cryptoPluginName :: qstring

text \<open>The rows, with booleans and modes as the integers the statements bind.\<close>

record CollectionsRow =
  c_CollectionName :: qstring
  c_ApplicationId :: qstring
  c_UsesDeviceLockKey :: int
  c_EncryptionPluginName :: qstring
  c_AuthenticationPluginName :: qstring
  c_UnlockSemantic :: int
  c_AccessControlMode :: int

record SecretsRow =
  s_CollectionName :: qstring
  s_SecretName :: qstring
  s_ApplicationId :: qstring
  s_UsesDeviceLockKey :: int
  s_EncryptionPluginName :: qstring
  s_AuthenticationPluginName :: qstring
  s_UnlockSemantic :: int
  s_AccessControlMode :: int
  s_Type :: qstring
  s_CryptoPluginName :: qstring

record metadata_tables =
  t_Collections :: "CollectionsRow list"
  t_Secrets :: "SecretsRow list"

datatype metadata_stmt =
    lockedQuery | setupKeyStatement qbytes | setupReKeyStatement qbytes
  | insertCollectionQuery | selectCollectionNamesQuery | selectCollectionsCountQuery
  | selectCollectionQuery | deleteCollectionQuery | selectSecretsCountQuery
  | insertSecretQuery | updateSecretQuery | deleteSecretQuery | selectSecretsQuery
  | selectSecretNamesQuery | selectKeyNamesQuery

type_synonym metadata_db = "(metadata_stmt, metadata_tables) database"

text \<open>The members of the class that are set once, by the constructor.\<close>

record MetadataConfig =
  mc_defaultEncryptionPluginName :: qstring
  mc_defaultAuthenticationPluginName :: qstring
  mc_storagePluginName :: qstring
  mc_pluginIsEncryptedStorage :: bool

subsection \<open>The SQL statements\<close>

abbreviation secret_key :: "SecretsRow \<Rightarrow> qstring \<times> qstring" where
  "secret_key r \<equiv> (s_CollectionName r, s_SecretName r)"

definition collections_row :: "CollectionMetadata \<Rightarrow> CollectionsRow" where
  "collections_row m =
     \<lparr>c_CollectionName = cm_collectionName m,
      c_ApplicationId = cm_ownerApplicationId m,
      c_UsesDeviceLockKey = (if cm_usesDeviceLockKey m then 1 else 0),
      c_EncryptionPluginName = cm_encryptionPluginName m,
      c_AuthenticationPluginName = cm_authenticationPluginName m,
      c_UnlockSemantic = cm_unlockSemantic m,
      c_AccessControlMode = accessControlMode_value (cm_accessControlMode m)\<rparr>"

definition secrets_row :: "SecretMetadata \<Rightarrow> SecretsRow" where
  "secrets_row m =
     \<lparr>s_CollectionName = sm_collectionName m,
      s_SecretName = sm_secretName m,
      s_ApplicationId = sm_ownerApplicationId m,
      s_UsesDeviceLockKey = (if sm_usesDeviceLockKey m then 1 else 0),
      s_EncryptionPluginName = sm_encryptionPluginName m,
      s_AuthenticationPluginName = sm_authenticationPluginName m,
      s_UnlockSemantic = sm_unlockSemantic m,
      s_AccessControlMode = accessControlMode_value (sm_accessControlMode m),
      s_Type = sm_secretType m,
      s_CryptoPluginName = sm_cryptoPluginName m\<rparr>"

definition sql_insertCollection ::
    "CollectionsRow \<Rightarrow> metadata_tables \<Rightarrow> (unit \<times> metadata_tables) option" where
  "sql_insertCollection row t =
     (if c_CollectionName row \<in> c_CollectionName ` set (t_Collections t) then None
      else Some ((), t\<lparr>t_Collections := t_Collections t @ [row]\<rparr>))"

definition sql_deleteCollection ::
    "qstring \<Rightarrow> metadata_tables \<Rightarrow> (unit \<times> metadata_tables) option" where
  "sql_deleteCollection c t =
     Some ((), t\<lparr>t_Collections := filter (\<lambda>r. c_CollectionName r \<noteq> c) (t_Collections t),
                t_Secrets := (if c \<in> c_CollectionName ` set (t_Collections t)
                              then filter (\<lambda>r. s_CollectionName r \<noteq> c) (t_Secrets t)
                              else t_Secrets t)\<rparr>)"

definition sql_insertSecret ::
    "SecretsRow \<Rightarrow> metadata_tables \<Rightarrow> (unit \<times> metadata_tables) option" where
  "sql_insertSecret row t =
     (if s_CollectionName row \<notin> c_CollectionName ` set (t_Collections t)
         \<or> secret_key row \<in> secret_key ` set (t_Secrets t) then None
      else Some ((), t\<lparr>t_Secrets := t_Secrets t @ [row]\<rparr>))"

definition sql_updateSecret ::
    "SecretsRow \<Rightarrow> metadata_tables \<Rightarrow> (unit \<times> metadata_tables) option" where
  "sql_updateSecret row t =
     Some ((), t\<lparr>t_Secrets := map (\<lambda>r. if secret_key r = secret_key row then row else r) (t_Secrets t)\<rparr>)"

definition sql_deleteSecret ::
    "qstring \<Rightarrow> qstring \<Rightarrow> metadata_tables \<Rightarrow> (unit \<times> metadata_tables) option" where
  "sql_deleteSecret c s t =
     Some ((), t\<lparr>t_Secrets := filter (\<lambda>r. secret_key r \<noteq> (c, s)) (t_Secrets t)\<rparr>)"

subsection \<open>Statements prepared and executed one at a time\<close>

text \<open>
  Every data operation of the class prepares its statement and executes it, and turns a
  failure of either into a query error; it returns the rows of the query and the database.
\<close>

definition md_query ::
    "metadata_stmt \<Rightarrow> (metadata_tables \<Rightarrow> ('r \<times> metadata_tables) option) \<Rightarrow> metadata_db
     \<Rightarrow> 'r option \<times> metadata_db" where
  "md_query q f d =
     (let (prepared, d1) = Database_prepare q d
      in if \<not> prepared then (None, d1) else Database_execute f d1)"

definition query_result :: "'r option \<Rightarrow> Result" where
  "query_result r = (if r = None then failure DatabaseQueryError else success)"

definition MetadataDatabase_insertCollectionMetadata ::
    "CollectionMetadata \<Rightarrow> metadata_db \<Rightarrow> Result \<times> metadata_db" where
  "MetadataDatabase_insertCollectionMetadata metadata d =
     (let (r, d1) = md_query insertCollectionQuery (sql_insertCollection (collections_row metadata)) d
      in (query_result r, d1))"

definition MetadataDatabase_collectionNames ::
    "bool \<Rightarrow> metadata_db \<Rightarrow> Result \<times> qstring list \<times> metadata_db" where
  "MetadataDatabase_collectionNames removeStandalone d =
     (let (r, d1) = md_query selectCollectionNamesQuery
                      (sql_select (\<lambda>t. map c_CollectionName (t_Collections t))) d
      in case r of
           None \<Rightarrow> (failure DatabaseQueryError, [], d1)
         | Some cnames \<Rightarrow>
             (success,
              filter (\<lambda>c. c \<noteq> [] \<and> (\<not> removeStandalone \<or> \<not> same_ignoring_case c standalone)) cnames,
              d1))"

definition MetadataDatabase_collectionAlreadyExists ::
    "qstring \<Rightarrow> metadata_db \<Rightarrow> Result \<times> bool option \<times> metadata_db" where
  "MetadataDatabase_collectionAlreadyExists collectionName d =
     (let (r, d1) = md_query selectCollectionsCountQuery
                      (sql_select (\<lambda>t. length (filter (\<lambda>r. c_CollectionName r = collectionName)
                                                 (t_Collections t)))) d
      in case r of
           None \<Rightarrow> (failure DatabaseQueryError, None, d1)
         | Some n \<Rightarrow> (success, Some (n > 0), d1))"

text \<open>
  \<open>collectionMetadata\<close> fills the fields it selects into the metadata it is given; the
  name stays. The second component is the value of \<^verbatim>\<open>*exists\<close>, which starts as given.
\<close>

definition fill_collection :: "CollectionsRow \<Rightarrow> CollectionMetadata \<Rightarrow> CollectionMetadata" where
  "fill_collection r m =
     m\<lparr>cm_ownerApplicationId := c_ApplicationId r,
       cm_usesDeviceLockKey := c_UsesDeviceLockKey r > 0,
       cm_encryptionPluginName := c_EncryptionPluginName r,
       cm_authenticationPluginName := c_AuthenticationPluginName r,
       cm_unlockSemantic := c_UnlockSemantic r,
       cm_accessControlMode := accessControlMode_of (c_AccessControlMode r)\<rparr>"

definition MetadataDatabase_collectionMetadata ::
    "qstring \<Rightarrow> CollectionMetadata \<Rightarrow> bool \<Rightarrow> metadata_db
     \<Rightarrow> Result \<times> CollectionMetadata \<times> bool \<times> metadata_db" where
  "MetadataDatabase_collectionMetadata collectionName metadata exists d =
     (let (r, d1) = md_query selectCollectionQuery
                      (sql_select (\<lambda>t. find (\<lambda>r. c_CollectionName r = collectionName) (t_Collections t))) d
      in case r of
           None \<Rightarrow> (failure DatabaseQueryError, metadata, exists, d1)
         | Some None \<Rightarrow> (success, metadata, False, d1)
         | Some (Some row) \<Rightarrow> (success, fill_collection row metadata, True, d1))"

definition MetadataDatabase_deleteCollectionMetadata ::
    "qstring \<Rightarrow> metadata_db \<Rightarrow> Result \<times> metadata_db" where
  "MetadataDatabase_deleteCollectionMetadata collectionName d =
     (let (r, d1) = md_query deleteCollectionQuery (sql_deleteCollection collectionName) d
      in (query_result r, d1))"

definition MetadataDatabase_secretAlreadyExists ::
    "qstring \<Rightarrow> qstring \<Rightarrow> bool \<Rightarrow> metadata_db \<Rightarrow> Result \<times> bool \<times> metadata_db" where
  "MetadataDatabase_secretAlreadyExists collectionName secretName exists d =
     (let (r, d1) = md_query selectSecretsCountQuery
                      (sql_select (\<lambda>t. length (filter (\<lambda>r. secret_key r = (collectionName, secretName))
                                                 (t_Secrets t)))) d
      in case r of
           None \<Rightarrow> (failure DatabaseQueryError, exists, d1)
         | Some n \<Rightarrow> (success, n > 0, d1))"

definition MetadataDatabase_insertSecretMetadata ::
    "SecretMetadata \<Rightarrow> metadata_db \<Rightarrow> Result \<times> metadata_db" where
  "MetadataDatabase_insertSecretMetadata metadata d =
     (let (r, d1) = md_query insertSecretQuery (sql_insertSecret (secrets_row metadata)) d
      in (query_result r, d1))"

definition MetadataDatabase_updateSecretMetadata ::
    "SecretMetadata \<Rightarrow> metadata_db \<Rightarrow> Result \<times> metadata_db" where
  "MetadataDatabase_updateSecretMetadata metadata d =
     (let (r, d1) = md_query updateSecretQuery (sql_updateSecret (secrets_row metadata)) d
      in (query_result r, d1))"

definition MetadataDatabase_deleteSecretMetadata ::
    "qstring \<Rightarrow> qstring \<Rightarrow> metadata_db \<Rightarrow> Result \<times> metadata_db" where
  "MetadataDatabase_deleteSecretMetadata collectionName secretName d =
     (let (r, d1) = md_query deleteSecretQuery (sql_deleteSecret collectionName secretName) d
      in (query_result r, d1))"

definition fill_secret :: "SecretsRow \<Rightarrow> SecretMetadata \<Rightarrow> SecretMetadata" where
  "fill_secret r m =
     m\<lparr>sm_ownerApplicationId := s_ApplicationId r,
       sm_usesDeviceLockKey := s_UsesDeviceLockKey r > 0,
       sm_encryptionPluginName := s_EncryptionPluginName r,
       sm_authenticationPluginName := s_AuthenticationPluginName r,
       sm_unlockSemantic := s_UnlockSemantic r,
       sm_accessControlMode := accessControlMode_of (s_AccessControlMode r)\<rparr>"

definition MetadataDatabase_secretMetadata ::
    "qstring \<Rightarrow> qstring \<Rightarrow> SecretMetadata \<Rightarrow> bool \<Rightarrow> metadata_db
     \<Rightarrow> Result \<times> SecretMetadata \<times> bool \<times> metadata_db" where
  "MetadataDatabase_secretMetadata collectionName secretName metadata exists d =
     (let (r, d1) = md_query selectSecretsQuery
                      (sql_select (\<lambda>t. find (\<lambda>r. secret_key r = (collectionName, secretName)) (t_Secrets t))) d
      in case r of
           None \<Rightarrow> (failure DatabaseQueryError, metadata, exists, d1)
         | Some None \<Rightarrow> (success, metadata, False, d1)
         | Some (Some row) \<Rightarrow> (success, fill_secret row metadata, True, d1))"

definition MetadataDatabase_secretNames ::
    "qstring \<Rightarrow> metadata_db \<Rightarrow> Result \<times> qstring list \<times> metadata_db" where
  "MetadataDatabase_secretNames collectionName d =
     (let (r, d1) = md_query selectSecretNamesQuery
                      (sql_select (\<lambda>t. map s_SecretName (filter (\<lambda>r. s_CollectionName r = collectionName)
                                                           (t_Secrets t)))) d
      in case r of
           None \<Rightarrow> (failure DatabaseQueryError, [], d1)
         | Some names \<Rightarrow> (success, names, d1))"

definition MetadataDatabase_keyNames ::
    "qstring \<Rightarrow> metadata_db \<Rightarrow> Result \<times> qstring list \<times> metadata_db" where
  "MetadataDatabase_keyNames collectionName d =
     (let (r, d1) = md_query selectKeyNamesQuery
                      (sql_select (\<lambda>t. map s_SecretName
                         (filter (\<lambda>r. s_CollectionName r = collectionName \<and> s_Type r = ''CryptoKey'')
                           (t_Secrets t)))) d
      in case r of
           None \<Rightarrow> (failure DatabaseQueryError, [], d1)
         | Some names \<Rightarrow> (success, names, d1))"

subsection \<open>Opening, locking and the master key\<close>

definition empty_metadata_tables :: metadata_tables where
  "empty_metadata_tables = \<lparr>t_Collections = [], t_Secrets = []\<rparr>"

definition standalone_metadata :: CollectionMetadata where
  "standalone_metadata =
     \<lparr>cm_collectionName = standalone, cm_ownerApplicationId = standalone,
      cm_usesDeviceLockKey = False, cm_encryptionPluginName = standalone,
      cm_authenticationPluginName = standalone, cm_unlockSemantic = 0,
      cm_accessControlMode = NoAccessControlMode\<rparr>"

text \<open>Six setup statements, the first \<^verbatim>\<open>PRAGMA key\<close>; two tables; schema version 1, no upgrades.\<close>

definition MetadataDatabase_openDatabase :: "qbytes \<Rightarrow> metadata_db \<Rightarrow> bool \<times> metadata_db" where
  "MetadataDatabase_openDatabase hexKey d =
     (let (opened, d1) = Database_open hexKey 6 2 empty_metadata_tables [] 1 d
      in if \<not> opened then (False, d1)
         else let (r, cnames, d2) = MetadataDatabase_collectionNames False d1
              in if standalone \<in> set cnames then (True, d2)
                 else let (r2, d3) = MetadataDatabase_insertCollectionMetadata standalone_metadata d2
                      in (succeeded r2, d3))"

definition MetadataDatabase_isLocked ::
    "bool \<Rightarrow> metadata_db \<Rightarrow> Result \<times> bool \<times> metadata_db" where
  "MetadataDatabase_isLocked locked d =
     (if \<not> db_isOpen d then (success, True, d)
      else let (prepared, d1) = Database_prepare lockedQuery d
           in if \<not> prepared then (failure DatabaseQueryError, locked, d1)
              else let (r, d2) = Database_execute (sql_select (\<lambda>t. ())) d1
                   in (success, r = None, d2))"

definition MetadataDatabase_lock :: "metadata_db \<Rightarrow> Result \<times> metadata_db" where
  "MetadataDatabase_lock d = (success, Database_close d)"

text \<open>Keys are compared as they are given: two spellings of the same hexadecimal number are two keys.\<close>

definition MetadataDatabase_unlock :: "qbytes \<Rightarrow> metadata_db \<Rightarrow> Result \<times> metadata_db" where
  "MetadataDatabase_unlock hexKey d =
     (if length hexKey \<noteq> 64 then (failure IncorrectAuthenticationCodeError, d)
      else if \<not> db_isOpen d
      then (let (opened, d1) = MetadataDatabase_openDatabase hexKey d
            in (if opened then success else failure DatabaseError, d1))
      else let (prepared, d1) = Database_prepare (setupKeyStatement hexKey) d
           in if \<not> prepared then (failure DatabaseQueryError, d1)
              else let (begun, d2) = Database_beginTransaction d1
                   in if \<not> begun then (failure DatabaseTransactionError, d2)
                      else let (executed, d3) = engine_ok d2
                           in if \<not> executed then (failure DatabaseQueryError, rollback_db d3)
                              else let (committed, d4) = Database_commitTransaction (d3\<lparr>db_connKey := hexKey\<rparr>)
                                   in if \<not> committed
                                      then (failure DatabaseTransactionError, rollback_db d4)
                                      else (success, d4))"

text \<open>The new key takes effect on the file when the rekey transaction is committed.\<close>

definition MetadataDatabase_reencrypt ::
    "qbytes \<Rightarrow> qbytes \<Rightarrow> metadata_db \<Rightarrow> Result \<times> metadata_db" where
  "MetadataDatabase_reencrypt oldHexKey newHexKey d =
     (let (retn, d1) = MetadataDatabase_unlock oldHexKey d
      in if \<not> succeeded retn then (retn, d1)
         else let (retn2, locked, d2) = MetadataDatabase_isLocked False d1
              in if \<not> succeeded retn2 then (retn2, d2)
                 else if locked then (failure CollectionIsLockedError, d2)
                 else if length newHexKey \<noteq> 64 then (failure IncorrectAuthenticationCodeError, d2)
                 else let (prepared, d3) = Database_prepare (setupReKeyStatement newHexKey) d2
                      in if \<not> prepared then (failure DatabaseQueryError, d3)
                         else let (begun, d4) = Database_beginTransaction d3
                              in if \<not> begun then (failure DatabaseTransactionError, d4)
                                 else let (executed, d5) = engine_ok d4
                                      in if \<not> executed then (failure DatabaseQueryError, rollback_db d5)
                                         else let (committed, d6) =
                                                Database_commitTransaction (d5\<lparr>db_connKey := newHexKey\<rparr>)
                                              in if \<not> committed
                                                 then (failure DatabaseTransactionError, rollback_db d6)
                                                 else (success, d6\<lparr>db_fileKey := newHexKey\<rparr>))"

subsection \<open>Synchronising with the plugin\<close>

text \<open>
  Both operations go on after a statement that fails and report at the end whether all
  succeeded; \<open>md_forEach\<close> is that loop.
\<close>

fun md_forEach ::
    "('a \<Rightarrow> metadata_db \<Rightarrow> Result \<times> metadata_db) \<Rightarrow> 'a list \<Rightarrow> bool \<times> metadata_db \<Rightarrow> bool \<times> metadata_db" where
  "md_forEach f [] s = s"
| "md_forEach f (x # xs) (modificationsSucceeded, d) =
     (let (r, d1) = f x d in md_forEach f xs (modificationsSucceeded \<and> succeeded r, d1))"

definition default_encryption :: "MetadataConfig \<Rightarrow> qstring" where
  "default_encryption cfg =
     (if mc_pluginIsEncryptedStorage cfg then mc_storagePluginName cfg
      else mc_defaultEncryptionPluginName cfg)"

definition imported_collection :: "MetadataConfig \<Rightarrow> qstring \<Rightarrow> CollectionMetadata" where
  "imported_collection cfg cname =
     \<lparr>cm_collectionName = cname, cm_ownerApplicationId = ''imported'',
      cm_usesDeviceLockKey = False, cm_encryptionPluginName = default_encryption cfg,
      cm_authenticationPluginName = mc_defaultAuthenticationPluginName cfg,
      cm_unlockSemantic = CustomLockKeepUnlocked, cm_accessControlMode = NoAccessControlMode\<rparr>"

definition imported_secret :: "MetadataConfig \<Rightarrow> qstring \<times> qstring \<Rightarrow> SecretMetadata" where
  "imported_secret cfg i =
     \<lparr>sm_collectionName = fst i, sm_secretName = snd i, sm_ownerApplicationId = ''imported'',
      sm_usesDeviceLockKey = False, sm_encryptionPluginName = default_encryption cfg,
      sm_authenticationPluginName = mc_defaultAuthenticationPluginName cfg,
      sm_unlockSemantic = CustomLockKeepUnlocked, sm_accessControlMode = NoAccessControlMode,
      sm_secretType = [], sm_cryptoPluginName = []\<rparr>"

definition MetadataDatabase_initializeCollectionsFromPluginData ::
    "MetadataConfig \<Rightarrow> qstring list \<Rightarrow> metadata_db \<Rightarrow> bool \<times> metadata_db" where
  "MetadataDatabase_initializeCollectionsFromPluginData cfg existingCollectionNames d =
     (let (r, cnames, d1) = MetadataDatabase_collectionNames True d
      in if \<not> succeeded r then (False, d1)
         else md_forEach (\<lambda>cname. MetadataDatabase_insertCollectionMetadata (imported_collection cfg cname))
                (filter (\<lambda>c. c \<notin> set cnames) existingCollectionNames)
                (md_forEach MetadataDatabase_deleteCollectionMetadata
                   (filter (\<lambda>c. c \<notin> set existingCollectionNames) cnames)
                   (True, d1)))"

text \<open>The identifiers are pairs of a collection name and a secret name.\<close>

primrec md_secretNamesMap ::
    "qstring list \<Rightarrow> (qstring \<times> qstring list) list \<Rightarrow> metadata_db
     \<Rightarrow> (qstring \<times> qstring list) list option \<times> metadata_db" where
  "md_secretNamesMap [] m d = (Some m, d)"
| "md_secretNamesMap (cname # cnames) m d =
     (let (r, snames, d1) = MetadataDatabase_secretNames cname d
      in if \<not> succeeded r then (None, d1)
         else md_secretNamesMap cnames (qmap_insert cname snames m) d1)"

definition plugin_names_map :: "(qstring \<times> qstring) list \<Rightarrow> (qstring \<times> qstring list) list" where
  "plugin_names_map identifiers = fold (\<lambda>i m. qmap_append (fst i) (snd i) m) identifiers []"

definition missing_names ::
    "(qstring \<times> qstring list) list \<Rightarrow> (qstring \<times> qstring list) list \<Rightarrow> (qstring \<times> qstring) list" where
  "missing_names a b =
     concat (map (\<lambda>(cname, snames).
       map (Pair cname) (filter (\<lambda>sname. \<not> qmap_contains b cname \<or> sname \<notin> set (qmap_value b cname [])) snames)) a)"

definition MetadataDatabase_initializeSecretsFromPluginData ::
    "MetadataConfig \<Rightarrow> (qstring \<times> qstring) list \<Rightarrow> qstring list \<Rightarrow> metadata_db \<Rightarrow> bool \<times> metadata_db" where
  "MetadataDatabase_initializeSecretsFromPluginData cfg identifiers lockedCollectionNames d =
     (let (r, cnames, d1) = MetadataDatabase_collectionNames True d
      in if \<not> succeeded r then (False, d1)
         else let (m, d2) = md_secretNamesMap cnames [] d1
              in case m of
                   None \<Rightarrow> (False, d2)
                 | Some metadataCNameToSNames \<Rightarrow>
                     let pluginCNameToSNames = plugin_names_map identifiers
                     in md_forEach (\<lambda>i. MetadataDatabase_insertSecretMetadata (imported_secret cfg i))
                          (missing_names pluginCNameToSNames metadataCNameToSNames)
                          (md_forEach (\<lambda>i. MetadataDatabase_deleteSecretMetadata (fst i) (snd i))
                             (filter (\<lambda>i. fst i \<notin> set lockedCollectionNames)
                                (missing_names metadataCNameToSNames pluginCNameToSNames))
                             (True, d2)))"

subsection \<open>What the tables contain\<close>

definition collection_set :: "metadata_tables \<Rightarrow> qstring set" where
  "collection_set t = c_CollectionName ` set (t_Collections t)"

definition secret_set :: "metadata_tables \<Rightarrow> (qstring \<times> qstring) set" where
  "secret_set t = secret_key ` set (t_Secrets t)"

text \<open>The constraints of the schema.\<close>

definition md_wf :: "metadata_tables \<Rightarrow> bool" where
  "md_wf t \<longleftrightarrow>
     distinct (map c_CollectionName (t_Collections t))
     \<and> distinct (map secret_key (t_Secrets t))
     \<and> set (map s_CollectionName (t_Secrets t)) \<subseteq> collection_set t"

lemma image_filter_key: "f ` {x \<in> S. f x \<noteq> c} = f ` S - {c}"
  by auto

lemma md_wf_empty: "md_wf empty_metadata_tables"
  by (simp add: md_wf_def empty_metadata_tables_def secret_set_def)

lemma row_names [simp]:
  "c_CollectionName (collections_row m) = cm_collectionName m"
  "s_CollectionName (secrets_row s) = sm_collectionName s"
  "s_SecretName (secrets_row s) = sm_secretName s"
  by (simp_all add: collections_row_def secrets_row_def)

lemma sql_insertCollection_effect:
  assumes "sql_insertCollection row t = Some (x, t')"
  shows "c_CollectionName row \<notin> collection_set t"
    "t_Collections t' = t_Collections t @ [row]" "t_Secrets t' = t_Secrets t"
    "collection_set t' = insert (c_CollectionName row) (collection_set t)"
    "secret_set t' = secret_set t" "md_wf t \<Longrightarrow> md_wf t'"
  using assms
  by (auto simp: sql_insertCollection_def collection_set_def secret_set_def md_wf_def image_subset_iff split: if_splits)

lemma sql_insertSecret_effect:
  assumes "sql_insertSecret row t = Some (x, t')"
  shows "secret_key row \<notin> secret_set t" "s_CollectionName row \<in> collection_set t"
    "t_Secrets t' = t_Secrets t @ [row]" "t_Collections t' = t_Collections t"
    "secret_set t' = insert (secret_key row) (secret_set t)"
    "collection_set t' = collection_set t" "md_wf t \<Longrightarrow> md_wf t'"
  using assms
  by (auto simp: sql_insertSecret_def collection_set_def secret_set_def md_wf_def image_subset_iff split: if_splits)

lemma sql_deleteSecret_effect:
  assumes "sql_deleteSecret c s t = Some (x, t')"
  shows "secret_set t' = secret_set t - {(c, s)}" "t_Collections t' = t_Collections t"
    "collection_set t' = collection_set t" "md_wf t \<Longrightarrow> md_wf t'"
  using assms
  by (auto simp: sql_deleteSecret_def collection_set_def secret_set_def md_wf_def image_subset_iff distinct_map_filter)

lemma sql_updateSecret_effect:
  assumes "sql_updateSecret row t = Some (x, t')"
  shows "secret_set t' = secret_set t" "t_Collections t' = t_Collections t" "md_wf t \<Longrightarrow> md_wf t'"
proof -
  have k: "map secret_key (t_Secrets t') = map secret_key (t_Secrets t)"
    "map s_CollectionName (t_Secrets t') = map s_CollectionName (t_Secrets t)"
    using assms by (auto simp: sql_updateSecret_def)
  show "t_Collections t' = t_Collections t" using assms by (auto simp: sql_updateSecret_def)
  moreover show "secret_set t' = secret_set t"
    using arg_cong [OF k(1), of set] by (simp add: secret_set_def)
  ultimately show "md_wf t \<Longrightarrow> md_wf t'"
    unfolding md_wf_def collection_set_def k by simp
qed

lemma sql_deleteCollection_effect:
  assumes "sql_deleteCollection c t = Some (x, t')"
  shows "collection_set t' = collection_set t - {c}"
    "t_Collections t' = filter (\<lambda>r. c_CollectionName r \<noteq> c) (t_Collections t)"
    "md_wf t \<Longrightarrow> secret_set t' = secret_set t - {i. fst i = c}"
    "md_wf t \<Longrightarrow> md_wf t'"
proof -
  have t': "t' = t\<lparr>t_Collections := filter (\<lambda>r. c_CollectionName r \<noteq> c) (t_Collections t),
      t_Secrets := (if c \<in> collection_set t
        then filter (\<lambda>r. s_CollectionName r \<noteq> c) (t_Secrets t) else t_Secrets t)\<rparr>"
    using assms by (simp add: sql_deleteCollection_def collection_set_def)
  show "collection_set t' = collection_set t - {c}"
    "t_Collections t' = filter (\<lambda>r. c_CollectionName r \<noteq> c) (t_Collections t)"
    by (simp_all add: t' collection_set_def image_filter_key)
  show "secret_set t' = secret_set t - {i. fst i = c}" if "md_wf t"
    using that by (auto simp: t' secret_set_def md_wf_def)
  show "md_wf t'" if "md_wf t"
    using that by (auto simp: t' md_wf_def collection_set_def image_filter_key image_subset_iff distinct_map_filter)
qed

lemma sql_deleteCollection_total: "\<exists>t'. sql_deleteCollection c t = Some ((), t')"
  by (simp add: sql_deleteCollection_def)

lemma sql_deleteSecret_total: "\<exists>t'. sql_deleteSecret c s t = Some ((), t')"
  by (simp add: sql_deleteSecret_def)

subsection \<open>Operations inside a transaction\<close>

lemma md_query_in_tx:
  assumes "in_tx f t d" and "md_query q g d = (r, d')"
  shows "case r of None \<Rightarrow> pending f d' | Some x \<Rightarrow> \<exists>t'. g t = Some (x, t') \<and> in_tx f t' d'"
proof -
  obtain p d1 where p: "Database_prepare q d = (p, d1)" by (cases "Database_prepare q d")
  note t1 = prepare_in_tx [OF p assms(1)]
  show ?thesis
  proof (cases p)
    case True
    with p assms(2) have "Database_execute g d1 = (r, d')" by (simp add: md_query_def)
    then show ?thesis by (rule execute_in_tx [OF t1])
  next
    case False
    with p assms(2) t1 show ?thesis by (auto simp: md_query_def intro: in_tx_pending)
  qed
qed

lemma md_query_idle:
  assumes "idle d" and "db_file d = Some t" and "md_query q g d = (r, d')"
  shows "idle d' \<and> (case r of None \<Rightarrow> db_file d' = Some t
         | Some x \<Rightarrow> \<exists>t'. g t = Some (x, t') \<and> db_file d' = Some t')"
proof -
  obtain p d1 where p: "Database_prepare q d = (p, d1)" by (cases "Database_prepare q d")
  note t1 = prepare_idle [OF p assms(1)] and f1 = prepare_file [OF p]
  show ?thesis
  proof (cases p)
    case True
    with p assms(3) have "Database_execute g d1 = (r, d')" by (simp add: md_query_def)
    with execute_idle [OF t1, of t g r d'] f1 assms(2) show ?thesis by simp
  next
    case False
    with p assms t1 f1 show ?thesis by (auto simp: md_query_def)
  qed
qed

lemma md_query_ready:
  assumes "engine_ready d" and "db_readable d" and "db_view d = Some t"
  shows "fst (md_query q g d) = map_option fst (g t) \<and> engine_ready (snd (md_query q g d))"
proof -
  obtain p d1 where p: "Database_prepare q d = (p, d1)" by (cases "Database_prepare q d")
  with ready_prepare [OF assms(1,2), of q] have "p" "engine_ready d1" by simp_all
  then show ?thesis
    using p ready_execute [of d1 t g] assms prepare_readable [OF p] prepare_view [OF p]
    by (simp add: md_query_def)
qed

lemma query_result_succeeded [simp]: "succeeded (query_result r) \<longleftrightarrow> r \<noteq> None"
  by (simp add: query_result_def)

text \<open>The shape shared by the operations that change the tables.\<close>

definition changes_by ::
    "(metadata_db \<Rightarrow> Result \<times> metadata_db) \<Rightarrow> (metadata_tables \<Rightarrow> (unit \<times> metadata_tables) option) \<Rightarrow> bool" where
  "changes_by op g \<longleftrightarrow> (\<exists>q. \<forall>d. op d = (let (r, d1) = md_query q g d in (query_result r, d1)))"

lemma changes_by_ops:
  "changes_by (MetadataDatabase_insertCollectionMetadata cm) (sql_insertCollection (collections_row cm))"
  "changes_by (MetadataDatabase_deleteCollectionMetadata c) (sql_deleteCollection c)"
  "changes_by (MetadataDatabase_insertSecretMetadata sm) (sql_insertSecret (secrets_row sm))"
  "changes_by (MetadataDatabase_updateSecretMetadata sm) (sql_updateSecret (secrets_row sm))"
  "changes_by (MetadataDatabase_deleteSecretMetadata c s) (sql_deleteSecret c s)"
  by (auto simp: changes_by_def MetadataDatabase_insertCollectionMetadata_def
      MetadataDatabase_deleteCollectionMetadata_def MetadataDatabase_insertSecretMetadata_def
      MetadataDatabase_updateSecretMetadata_def MetadataDatabase_deleteSecretMetadata_def)

lemma changes_by_in_tx:
  assumes "changes_by op g" and "in_tx f t d" and "op d = (r, d')"
  shows "if succeeded r then \<exists>t'. g t = Some ((), t') \<and> in_tx f t' d' else pending f d'"
proof -
  obtain q where q: "op d = (let (r, d1) = md_query q g d in (query_result r, d1))"
    using assms(1) by (auto simp: changes_by_def)
  obtain x d1 where x: "md_query q g d = (x, d1)" by (cases "md_query q g d")
  with q assms(3) have "r = query_result x" "d' = d1" by simp_all
  with md_query_in_tx [OF assms(2) x] show ?thesis by (cases x) auto
qed

lemma changes_by_ready:
  assumes "changes_by op g" and "in_tx f t d" and "engine_ready d" and "g t = Some ((), t')"
  shows "\<exists>r d'. op d = (r, d') \<and> succeeded r \<and> engine_ready d' \<and> in_tx f t' d'"
proof -
  obtain q where q: "op d = (let (r, d1) = md_query q g d in (query_result r, d1))"
    using assms(1) by (auto simp: changes_by_def)
  obtain x d1 where x: "md_query q g d = (x, d1)" by (cases "md_query q g d")
  have v: "db_readable d" "db_view d = Some t"
    using assms(2) by (simp_all add: in_tx_def db_view_def)
  have "x = Some ()" "engine_ready d1"
    using md_query_ready [OF assms(3) v, of q g] x assms(4) by simp_all
  with md_query_in_tx [OF assms(2) x] q x assms(4) show ?thesis by auto
qed

subsection \<open>Loops\<close>

lemma md_forEach_False: "\<not> fst (md_forEach f xs (False, d))"
  by (induction xs arbitrary: d) (auto split: prod.splits)

lemma md_forEach_in_tx:
  assumes "\<And>x. changes_by (op x) (g x)"
    and "in_tx f t d" and "md_forEach op xs (True, d) = (True, d')"
  shows "\<exists>t'. apply_statements (map g xs) t = Some t' \<and> in_tx f t' d'"
  using assms(2,3)
proof (induction xs arbitrary: d t)
  case Nil
  then show ?case by simp
next
  case (Cons x xs)
  obtain r d1 where x: "op x d = (r, d1)" by (cases "op x d")
  with Cons.prems(2) md_forEach_False [of op xs d1] have r: "succeeded r"
    by (cases "res_code r") auto
  with changes_by_in_tx [OF assms(1) Cons.prems(1) x] obtain t1 where
    t1: "g x t = Some ((), t1)" "in_tx f t1 d1" by auto
  from Cons.prems(2) x r have "md_forEach op xs (True, d1) = (True, d')" by simp
  with Cons.IH [OF t1(2)] t1(1) show ?case by simp
qed

lemma md_forEach_ready:
  assumes "\<And>x. changes_by (op x) (g x)"
    and "in_tx f t d" and "engine_ready d" and "apply_statements (map g xs) t = Some t'"
  shows "\<exists>d'. md_forEach op xs (True, d) = (True, d') \<and> in_tx f t' d' \<and> engine_ready d'"
  using assms(2,3,4)
proof (induction xs arbitrary: d t)
  case Nil
  then show ?case by simp
next
  case (Cons x xs)
  from Cons.prems(3) obtain t1 where t1: "g x t = Some ((), t1)" "apply_statements (map g xs) t1 = Some t'"
    by (auto split: option.splits)
  from changes_by_ready [OF assms(1) Cons.prems(1,2) t1(1)] obtain r d1 where
    "op x d = (r, d1)" "succeeded r" "engine_ready d1" "in_tx f t1 d1" by blast
  with Cons.IH [of t1 d1] t1(2) show ?case by simp
qed

lemma apply_deleteCollections:
  assumes "apply_statements (map sql_deleteCollection cs) t = Some t'" and "md_wf t"
  shows "md_wf t' \<and> collection_set t' = collection_set t - set cs
    \<and> secret_set t' = secret_set t - {i. fst i \<in> set cs}
    \<and> t_Collections t' = filter (\<lambda>r. c_CollectionName r \<notin> set cs) (t_Collections t)"
  using assms
proof (induction cs arbitrary: t)
  case (Cons c cs)
  from Cons.prems(1) obtain u where u: "sql_deleteCollection c t = Some ((), u)"
    "apply_statements (map sql_deleteCollection cs) u = Some t'"
    by (auto split: option.splits)
  note e = sql_deleteCollection_effect [OF u(1)]
  from Cons.IH [OF u(2) e(4) [OF Cons.prems(2)]] show ?case
    by (auto simp: e(1,2) e(3) [OF Cons.prems(2)] conj_commute intro: filter_cong)
qed simp

lemma apply_deleteCollections_total:
  "\<exists>t'. apply_statements (map sql_deleteCollection cs) t = Some t'"
proof (induction cs arbitrary: t)
  case (Cons c cs)
  with sql_deleteCollection_total [of c t] show ?case by auto
qed simp

lemma apply_insertCollections:
  assumes "apply_statements (map (\<lambda>c. sql_insertCollection (collections_row (m c))) cs) t = Some t'"
    and "\<And>c. cm_collectionName (m c) = c" and "md_wf t"
  shows "md_wf t' \<and> collection_set t' = collection_set t \<union> set cs \<and> secret_set t' = secret_set t
    \<and> t_Collections t' = t_Collections t @ map (collections_row \<circ> m) cs"
  using assms(1,3)
proof (induction cs arbitrary: t)
  case (Cons c cs)
  from Cons.prems(1) obtain u where u: "sql_insertCollection (collections_row (m c)) t = Some ((), u)"
    "apply_statements (map (\<lambda>c. sql_insertCollection (collections_row (m c))) cs) u = Some t'"
    by (auto split: option.splits)
  note e = sql_insertCollection_effect [OF u(1)]
  from Cons.IH [OF u(2) e(6) [OF Cons.prems(2)]] show ?case
    by (simp add: e(2-5) assms(2))
qed simp

lemma apply_insertCollections_total:
  assumes "\<And>c. cm_collectionName (m c) = c" and "distinct cs" and "set cs \<inter> collection_set t = {}"
  shows "\<exists>t'. apply_statements (map (\<lambda>c. sql_insertCollection (collections_row (m c))) cs) t = Some t'"
  using assms(2,3)
proof (induction cs arbitrary: t)
  case (Cons c cs)
  then obtain u where u: "sql_insertCollection (collections_row (m c)) t = Some ((), u)"
    by (auto simp: sql_insertCollection_def collection_set_def assms(1))
  from sql_insertCollection_effect(4) [OF u] Cons.prems have "set cs \<inter> collection_set u = {}"
    by (auto simp: assms(1))
  with Cons u show ?case by simp
qed simp

lemma apply_deleteSecrets:
  assumes "apply_statements (map (\<lambda>i. sql_deleteSecret (fst i) (snd i)) is) t = Some t'" and "md_wf t"
  shows "md_wf t' \<and> secret_set t' = secret_set t - set is \<and> t_Collections t' = t_Collections t"
  using assms
proof (induction "is" arbitrary: t)
  case (Cons i "is")
  from Cons.prems(1) obtain u where u: "sql_deleteSecret (fst i) (snd i) t = Some ((), u)"
    "apply_statements (map (\<lambda>i. sql_deleteSecret (fst i) (snd i)) is) u = Some t'"
    by (auto split: option.splits)
  note e = sql_deleteSecret_effect [OF u(1)]
  from Cons.IH [OF u(2) e(4) [OF Cons.prems(2)]] show ?case by (auto simp: e(1,2))
qed simp

lemma apply_deleteSecrets_total:
  "\<exists>t'. apply_statements (map (\<lambda>i. sql_deleteSecret (fst i) (snd i)) is) t = Some t'"
proof (induction "is" arbitrary: t)
  case (Cons i "is")
  with sql_deleteSecret_total [of "fst i" "snd i" t] show ?case by auto
qed simp

lemma apply_insertSecrets:
  assumes "apply_statements (map (\<lambda>i. sql_insertSecret (secrets_row (m i))) is) t = Some t'"
    and "\<And>i. (sm_collectionName (m i), sm_secretName (m i)) = i" and "md_wf t"
  shows "md_wf t' \<and> secret_set t' = secret_set t \<union> set is \<and> t_Collections t' = t_Collections t"
  using assms(1,3)
proof (induction "is" arbitrary: t)
  case (Cons i "is")
  from Cons.prems(1) obtain u where u: "sql_insertSecret (secrets_row (m i)) t = Some ((), u)"
    "apply_statements (map (\<lambda>i. sql_insertSecret (secrets_row (m i))) is) u = Some t'"
    by (auto split: option.splits)
  note e = sql_insertSecret_effect [OF u(1)]
  from Cons.IH [OF u(2) e(7) [OF Cons.prems(2)]] show ?case
    by (simp add: e(4,5) assms(2))
qed simp

lemma apply_insertSecrets_total:
  assumes "\<And>i. (sm_collectionName (m i), sm_secretName (m i)) = i" and "distinct is"
    and "set is \<inter> secret_set t = {}" and "fst ` set is \<subseteq> collection_set t"
  shows "\<exists>t'. apply_statements (map (\<lambda>i. sql_insertSecret (secrets_row (m i))) is) t = Some t'"
  using assms(2-4)
proof (induction "is" arbitrary: t)
  case (Cons i "is")
  have n: "sm_collectionName (m i) = fst i" "sm_secretName (m i) = snd i"
    using assms(1) [of i] by (metis fst_conv snd_conv)+
  have "(sm_collectionName (m i), sm_secretName (m i)) \<notin> secret_set t" "fst i \<in> collection_set t"
    using Cons.prems by (auto simp: n)
  then obtain u where u: "sql_insertSecret (secrets_row (m i)) t = Some ((), u)"
    by (simp add: sql_insertSecret_def collection_set_def secret_set_def n)
  note e = sql_insertSecret_effect [OF u]
  have "set is \<inter> secret_set u = {}" "fst ` set is \<subseteq> collection_set u"
    using Cons.prems by (auto simp: e(5,6) n)
  with Cons u show ?case by simp
qed simp

subsection \<open>Name maps\<close>

definition name_pairs :: "(qstring \<times> qstring list) list \<Rightarrow> (qstring \<times> qstring) set" where
  "name_pairs m = {(c, s). s \<in> set (qmap_value m c [])}"

lemma qmap_member: "qmap_ok m \<Longrightarrow> (k, v) \<in> set m \<longleftrightarrow> map_of m k = Some v"
  by (meson map_of_SomeD map_of_is_SomeI qmap_ok_distinct)

lemma mem_missing_names:
  "(c, s) \<in> set (missing_names a b) \<longleftrightarrow>
     (\<exists>v. (c, v) \<in> set a \<and> s \<in> set v \<and> (\<not> qmap_contains b c \<or> s \<notin> set (qmap_value b c [])))"
  by (auto simp: missing_names_def)

lemma mem_name_pairs: "(c, s) \<in> name_pairs m \<longleftrightarrow> (\<exists>v. map_of m c = Some v \<and> s \<in> set v)"
  by (cases "map_of m c") (simp_all add: name_pairs_def qmap_value_def)

lemma set_missing_names:
  assumes "qmap_ok a"
  shows "set (missing_names a b) = name_pairs a - name_pairs b"
proof -
  have "(c, s) \<in> set (missing_names a b) \<longleftrightarrow> (c, s) \<in> name_pairs a - name_pairs b" for c s
    unfolding mem_missing_names Diff_iff mem_name_pairs qmap_member [OF assms]
    by (auto simp: qmap_contains_def qmap_value_def split: option.splits)
  then show ?thesis by auto
qed

lemma distinct_missing_names:
  assumes "qmap_ok a" and "\<And>c v. (c, v) \<in> set a \<Longrightarrow> distinct v"
  shows "distinct (missing_names a b)"
proof -
  have "distinct (map fst a)" using assms(1) by (rule qmap_ok_distinct)
  then show ?thesis using assms(2)
  proof (induction a)
    case Nil
    show ?case by (simp add: missing_names_def)
  next
    case (Cons e a)
    obtain c v where e: "e = (c, v)" by (cases e)
    let ?xs = "map (Pair c) (filter (\<lambda>s. \<not> qmap_contains b c \<or> s \<notin> set (qmap_value b c [])) v)"
    have m: "missing_names (e # a) b = ?xs @ missing_names a b"
      by (simp add: missing_names_def e)
    have "distinct v" using Cons.prems(2) [of c v] e by simp
    then have "distinct ?xs" by (simp add: distinct_map inj_on_def)
    moreover have "distinct (missing_names a b)"
      by (rule Cons.IH) (use Cons.prems in auto)
    moreover have "set ?xs \<inter> set (missing_names a b) = {}"
    proof -
      have "c \<notin> fst ` set a" using Cons.prems(1) e by simp
      then have "(c, s) \<notin> set (missing_names a b)" for s
        unfolding mem_missing_names by force
      then show ?thesis by auto
    qed
    ultimately show ?case unfolding m by (simp only: distinct_append)
  qed
qed

lemma plugin_names_map_props:
  "qmap_ok (plugin_names_map ids)" "name_pairs (plugin_names_map ids) = set ids"
  "qmap_value (plugin_names_map ids) c [] = map snd (filter (\<lambda>i. fst i = c) ids)"
proof -
  have gen: "qmap_ok m \<Longrightarrow> qmap_ok (fold (\<lambda>i m. qmap_append (fst i) (snd i) m) ids m)"
    "qmap_value (fold (\<lambda>i m. qmap_append (fst i) (snd i) m) ids m) c []
      = qmap_value m c [] @ map snd (filter (\<lambda>i. fst i = c) ids)" for m c
    by (induction ids arbitrary: m) (auto simp: qmap_value_append)
  show "qmap_ok (plugin_names_map ids)" using gen(1) [of "[]"] by (simp add: plugin_names_map_def)
  have v: "qmap_value (plugin_names_map ids) c [] = map snd (filter (\<lambda>i. fst i = c) ids)" for c
    using gen(2) [of "[]" c] by (simp add: plugin_names_map_def qmap_value_def)
  show "qmap_value (plugin_names_map ids) c [] = map snd (filter (\<lambda>i. fst i = c) ids)" by (rule v)
  have "s \<in> snd ` {i \<in> set ids. fst i = c} \<longleftrightarrow> (c, s) \<in> set ids" for c s
    by (auto intro: rev_image_eqI)
  then show "name_pairs (plugin_names_map ids) = set ids" by (auto simp: name_pairs_def v)
qed

lemma distinct_map_snd: "distinct ids \<Longrightarrow> distinct (map snd (filter (\<lambda>i. fst i = c) ids))"
proof (induction ids)
  case (Cons i ids)
  have "i \<in> set ids" if "fst i = c" "snd i \<in> snd ` {j \<in> set ids. fst j = c}"
    using that by (auto simp: prod_eq_iff)
  with Cons show ?case by auto
qed simp

lemma plugin_names_map_distinct:
  assumes "distinct ids" and "(c, v) \<in> set (plugin_names_map ids)"
  shows "distinct v"
proof -
  have "map_of (plugin_names_map ids) c = Some v"
    using assms(2) qmap_member [OF plugin_names_map_props(1)] by simp
  then have "v = map snd (filter (\<lambda>i. fst i = c) ids)"
    using plugin_names_map_props(3) [of ids c] by (simp add: qmap_value_def)
  then show ?thesis using distinct_map_snd [OF assms(1)] by simp
qed

subsection \<open>Synchronisation\<close>

abbreviation shown_names :: "metadata_tables \<Rightarrow> qstring list" where
  "shown_names t \<equiv> filter (\<lambda>c. \<not> hidden c) (map c_CollectionName (t_Collections t))"

abbreviation names_in :: "metadata_tables \<Rightarrow> qstring \<Rightarrow> qstring list" where
  "names_in t c \<equiv> map s_SecretName (filter (\<lambda>r. s_CollectionName r = c) (t_Secrets t))"

lemma collectionNames_in_tx:
  assumes "in_tx f t d" and "MetadataDatabase_collectionNames True d = (r, cnames, d')" and "succeeded r"
  shows "in_tx f t d' \<and> cnames = shown_names t"
proof -
  let ?g = "sql_select (\<lambda>t. map c_CollectionName (t_Collections t))"
  obtain x d1 where x: "md_query selectCollectionNamesQuery ?g d = (x, d1)"
    by (cases "md_query selectCollectionNamesQuery ?g d")
  with assms(2,3) md_query_in_tx [OF assms(1) x] show ?thesis
    by (cases x) (auto simp: MetadataDatabase_collectionNames_def sql_select_def hidden_def)
qed

lemma collectionNames_ready:
  assumes "in_tx f t d" and "engine_ready d"
  shows "\<exists>d'. MetadataDatabase_collectionNames True d = (success, shown_names t, d')
           \<and> in_tx f t d' \<and> engine_ready d'"
proof -
  let ?g = "sql_select (\<lambda>t. map c_CollectionName (t_Collections t))"
  obtain x d1 where x: "md_query selectCollectionNamesQuery ?g d = (x, d1)"
    by (cases "md_query selectCollectionNamesQuery ?g d")
  have "db_readable d" "db_view d = Some t" using assms(1) by (simp_all add: in_tx_def db_view_def)
  from md_query_ready [OF assms(2) this, of selectCollectionNamesQuery ?g] x
    md_query_in_tx [OF assms(1) x]
  show ?thesis by (auto simp: MetadataDatabase_collectionNames_def sql_select_def hidden_def)
qed

lemma secretNames_in_tx:
  assumes "in_tx f t d" and "MetadataDatabase_secretNames c d = (r, names, d')" and "succeeded r"
  shows "in_tx f t d' \<and> names = names_in t c"
proof -
  let ?g = "sql_select (\<lambda>t. names_in t c)"
  obtain x d1 where x: "md_query selectSecretNamesQuery ?g d = (x, d1)"
    by (cases "md_query selectSecretNamesQuery ?g d")
  with assms(2,3) md_query_in_tx [OF assms(1) x] show ?thesis
    by (cases x) (auto simp: MetadataDatabase_secretNames_def sql_select_def)
qed

lemma secretNames_ready:
  assumes "in_tx f t d" and "engine_ready d"
  shows "\<exists>d'. MetadataDatabase_secretNames c d = (success, names_in t c, d')
           \<and> in_tx f t d' \<and> engine_ready d'"
proof -
  let ?g = "sql_select (\<lambda>t. names_in t c)"
  obtain x d1 where x: "md_query selectSecretNamesQuery ?g d = (x, d1)"
    by (cases "md_query selectSecretNamesQuery ?g d")
  have "db_readable d" "db_view d = Some t" using assms(1) by (simp_all add: in_tx_def db_view_def)
  from md_query_ready [OF assms(2) this, of selectSecretNamesQuery ?g] x
    md_query_in_tx [OF assms(1) x]
  show ?thesis by (auto simp: MetadataDatabase_secretNames_def sql_select_def)
qed

lemma secretNamesMap_in_tx:
  assumes "in_tx f t d" and "md_secretNamesMap cnames m d = (Some m', d')"
  shows "in_tx f t d' \<and> m' = fold (\<lambda>c. qmap_insert c (names_in t c)) cnames m"
  using assms
proof (induction cnames arbitrary: m d)
  case (Cons c cnames)
  obtain r names d1 where n: "MetadataDatabase_secretNames c d = (r, names, d1)"
    by (cases "MetadataDatabase_secretNames c d")
  with Cons.prems(2) have r: "succeeded r" by (auto split: if_splits)
  with secretNames_in_tx [OF Cons.prems(1) n] Cons.IH [of d1 "qmap_insert c names m"] Cons.prems(2) n
  show ?case by simp
qed simp

lemma secretNamesMap_ready:
  assumes "in_tx f t d" and "engine_ready d"
  shows "\<exists>d'. md_secretNamesMap cnames m d = (Some (fold (\<lambda>c. qmap_insert c (names_in t c)) cnames m), d')
           \<and> in_tx f t d' \<and> engine_ready d'"
  using assms
proof (induction cnames arbitrary: m d)
  case (Cons c cnames)
  from secretNames_ready [OF Cons.prems, of c] obtain d1 where
    "MetadataDatabase_secretNames c d = (success, names_in t c, d1)" "in_tx f t d1" "engine_ready d1"
    by blast
  with Cons.IH [of d1 "qmap_insert c (names_in t c) m"] show ?case by simp
qed simp

lemma metadata_names_map:
  "qmap_ok (fold (\<lambda>c. qmap_insert c (names_in t c)) cnames [])"
  "name_pairs (fold (\<lambda>c. qmap_insert c (names_in t c)) cnames []) = {i \<in> secret_set t. fst i \<in> set cnames}"
proof -
  have gen: "qmap_ok m \<Longrightarrow> qmap_ok (fold (\<lambda>c. qmap_insert c (names_in t c)) cnames m)"
    "map_of (fold (\<lambda>c. qmap_insert c (names_in t c)) cnames m) c
      = (if c \<in> set cnames then Some (names_in t c) else map_of m c)" for m c
    by (induction cnames arbitrary: m) auto
  show "qmap_ok (fold (\<lambda>c. qmap_insert c (names_in t c)) cnames [])" using gen(1) [of "[]"] by simp
  have "(c, s) \<in> name_pairs (fold (\<lambda>c. qmap_insert c (names_in t c)) cnames [])
      \<longleftrightarrow> c \<in> set cnames \<and> s \<in> set (names_in t c)" for c s
    unfolding mem_name_pairs gen(2) by simp
  moreover have "s \<in> set (names_in t c) \<longleftrightarrow> (c, s) \<in> secret_set t" for c s
    by (auto simp: secret_set_def)
  ultimately show "name_pairs (fold (\<lambda>c. qmap_insert c (names_in t c)) cnames [])
      = {i \<in> secret_set t. fst i \<in> set cnames}" by auto
qed

lemma imported_names [simp]:
  "cm_collectionName (imported_collection cfg c) = c"
  "sm_collectionName (imported_secret cfg i) = fst i"
  "sm_secretName (imported_secret cfg i) = snd i"
  by (simp_all add: imported_collection_def imported_secret_def)

text \<open>What the two operations leave, given what the plugin reports.\<close>

definition collections_synced :: "qstring list \<Rightarrow> metadata_tables \<Rightarrow> metadata_tables \<Rightarrow> bool" where
  "collections_synced existing t t' \<longleftrightarrow>
     md_wf t'
     \<and> {c \<in> collection_set t'. \<not> hidden c} = set existing
     \<and> {c \<in> collection_set t'. hidden c} = {c \<in> collection_set t. hidden c}
     \<and> {r \<in> set (t_Collections t'). c_CollectionName r \<in> collection_set t}
        = {r \<in> set (t_Collections t). hidden (c_CollectionName r) \<or> c_CollectionName r \<in> set existing}
     \<and> secret_set t' = {i \<in> secret_set t. hidden (fst i) \<or> fst i \<in> set existing}"

lemma initializeCollections_synced:
  assumes "in_tx f t d" and "md_wf t" and "\<forall>c \<in> set existing. \<not> hidden c"
    and "MetadataDatabase_initializeCollectionsFromPluginData cfg existing d = (True, d')"
  shows "\<exists>t'. in_tx f t' d' \<and> collections_synced existing t t'"
proof -
  let ?ins = "\<lambda>c. MetadataDatabase_insertCollectionMetadata (imported_collection cfg c)"
  let ?ins_sql = "\<lambda>c. sql_insertCollection (collections_row (imported_collection cfg c))"
  obtain r cnames d1 where c: "MetadataDatabase_collectionNames True d = (r, cnames, d1)"
    by (cases "MetadataDatabase_collectionNames True d")
  with assms(4) have r: "succeeded r"
    by (auto simp: MetadataDatabase_initializeCollectionsFromPluginData_def split: if_splits)
  from collectionNames_in_tx [OF assms(1) c r] have tx1: "in_tx f t d1" and cn: "cnames = shown_names t"
    by auto
  define dels where "dels = filter (\<lambda>c. c \<notin> set existing) cnames"
  define new where "new = filter (\<lambda>c. c \<notin> set cnames) existing"
  obtain ok d2 where del: "md_forEach MetadataDatabase_deleteCollectionMetadata dels (True, d1) = (ok, d2)"
    by (cases "md_forEach MetadataDatabase_deleteCollectionMetadata dels (True, d1)")
  have ins: "md_forEach ?ins new (ok, d2) = (True, d')"
    using assms(4) c r del
    by (simp add: MetadataDatabase_initializeCollectionsFromPluginData_def dels_def new_def)
  with md_forEach_False [of ?ins new d2] have ok: "ok" by (cases ok) auto
  from md_forEach_in_tx [of MetadataDatabase_deleteCollectionMetadata sql_deleteCollection,
      OF changes_by_ops(2) tx1] del ok obtain t1 where
    t1: "apply_statements (map sql_deleteCollection dels) t = Some t1" "in_tx f t1 d2" by auto
  from ins ok md_forEach_in_tx [of ?ins ?ins_sql, OF changes_by_ops(1) t1(2)] obtain t2 where
    t2: "apply_statements (map ?ins_sql new) t1 = Some t2" "in_tx f t2 d'" by auto
  note e1 = apply_deleteCollections [OF t1(1) assms(2)]
  from e1 apply_insertCollections [OF t2(1)] have
    e2: "md_wf t2" "collection_set t2 = collection_set t1 \<union> set new" "secret_set t2 = secret_set t1"
      "t_Collections t2 = t_Collections t1 @ map (collections_row \<circ> imported_collection cfg) new"
    by auto
  have sets: "set dels = {c \<in> collection_set t. \<not> hidden c \<and> c \<notin> set existing}"
    "set new = {c \<in> set existing. c \<notin> collection_set t}"
    using assms(3) by (auto simp: dels_def new_def cn collection_set_def)
  have rows: "{r \<in> set (t_Collections t2). c_CollectionName r \<in> collection_set t}
      = {r \<in> set (t_Collections t). hidden (c_CollectionName r) \<or> c_CollectionName r \<in> set existing}"
    using e1 by (auto simp: e2(4) sets) (auto simp: collection_set_def)
  have fk: "fst i \<in> collection_set t" if "i \<in> secret_set t" for i
    using that assms(2) by (auto simp: md_wf_def secret_set_def image_subset_iff)
  have "secret_set t2 = {i \<in> secret_set t. hidden (fst i) \<or> fst i \<in> set existing}"
    using e1 fk by (auto simp: e2(3) sets)
  moreover have "{c \<in> collection_set t2. \<not> hidden c} = set existing"
    "{c \<in> collection_set t2. hidden c} = {c \<in> collection_set t. hidden c}"
    using e1 assms(3) by (auto simp: e2(2) sets)
  ultimately show ?thesis
    using t2(2) e2(1) rows by (auto simp: collections_synced_def)
qed

lemma initializeCollections_ready:
  assumes "in_tx f t d" and "engine_ready d" and "md_wf t"
    and "\<forall>c \<in> set existing. \<not> hidden c" and "distinct existing"
  shows "\<exists>d'. MetadataDatabase_initializeCollectionsFromPluginData cfg existing d = (True, d') \<and> engine_ready d'"
proof -
  let ?ins = "\<lambda>c. MetadataDatabase_insertCollectionMetadata (imported_collection cfg c)"
  let ?ins_sql = "\<lambda>c. sql_insertCollection (collections_row (imported_collection cfg c))"
  from collectionNames_ready [OF assms(1,2)] obtain d1 where
    c: "MetadataDatabase_collectionNames True d = (success, shown_names t, d1)" "in_tx f t d1" "engine_ready d1"
    by blast
  define dels where "dels = filter (\<lambda>c. c \<notin> set existing) (shown_names t)"
  define new where "new = filter (\<lambda>c. c \<notin> set (shown_names t)) existing"
  obtain t1 where t1: "apply_statements (map sql_deleteCollection dels) t = Some t1"
    using apply_deleteCollections_total by blast
  from md_forEach_ready [of MetadataDatabase_deleteCollectionMetadata sql_deleteCollection,
      OF changes_by_ops(2) c(2,3) t1] obtain d2 where
    d2: "md_forEach MetadataDatabase_deleteCollectionMetadata dels (True, d1) = (True, d2)"
      "in_tx f t1 d2" "engine_ready d2" by blast
  have "set new \<inter> collection_set t1 = {}"
    using apply_deleteCollections [OF t1 assms(3)] assms(4) by (auto simp: new_def collection_set_def)
  then obtain t2 where t2: "apply_statements (map ?ins_sql new) t1 = Some t2"
    using apply_insertCollections_total [of "imported_collection cfg" new t1] assms(5)
    by (auto simp: new_def)
  from md_forEach_ready [of ?ins ?ins_sql, OF changes_by_ops(1) d2(2,3) t2] obtain d3 where
    "md_forEach ?ins new (True, d2) = (True, d3)" "engine_ready d3" by blast
  with c d2(1) show ?thesis
    by (simp add: MetadataDatabase_initializeCollectionsFromPluginData_def dels_def new_def)
qed

definition secrets_synced ::
    "(qstring \<times> qstring) list \<Rightarrow> qstring list \<Rightarrow> metadata_tables \<Rightarrow> metadata_tables \<Rightarrow> bool" where
  "secrets_synced identifiers locked t t' \<longleftrightarrow>
     md_wf t' \<and> t_Collections t' = t_Collections t
     \<and> secret_set t' = {i \<in> secret_set t. hidden (fst i) \<or> fst i \<in> set locked} \<union> set identifiers"

lemma initializeSecrets_synced:
  assumes "in_tx f t d" and "md_wf t"
    and "MetadataDatabase_initializeSecretsFromPluginData cfg identifiers locked d = (True, d')"
  shows "\<exists>t'. in_tx f t' d' \<and> secrets_synced identifiers locked t t'"
proof -
  let ?ins = "\<lambda>i. MetadataDatabase_insertSecretMetadata (imported_secret cfg i)"
  let ?del = "\<lambda>i. MetadataDatabase_deleteSecretMetadata (fst i) (snd i)"
  let ?ins_sql = "\<lambda>i. sql_insertSecret (secrets_row (imported_secret cfg i))"
  let ?del_sql = "\<lambda>i. sql_deleteSecret (fst i) (snd i)"
  obtain r cnames d1 where c: "MetadataDatabase_collectionNames True d = (r, cnames, d1)"
    by (cases "MetadataDatabase_collectionNames True d")
  with assms(3) have r: "succeeded r"
    by (auto simp: MetadataDatabase_initializeSecretsFromPluginData_def split: if_splits)
  from collectionNames_in_tx [OF assms(1) c r] have tx1: "in_tx f t d1" and cn: "cnames = shown_names t"
    by auto
  obtain mo d2 where mo: "md_secretNamesMap cnames [] d1 = (mo, d2)" by (cases "md_secretNamesMap cnames [] d1")
  with assms(3) c r obtain mm where mm: "mo = Some mm"
    by (cases mo) (auto simp: MetadataDatabase_initializeSecretsFromPluginData_def)
  from secretNamesMap_in_tx [OF tx1] mo mm have tx2: "in_tx f t d2"
    and mmdef: "mm = fold (\<lambda>c. qmap_insert c (names_in t c)) cnames []" by auto
  let ?pm = "plugin_names_map identifiers"
  define dels where "dels = filter (\<lambda>i. fst i \<notin> set locked) (missing_names mm ?pm)"
  define new where "new = missing_names ?pm mm"
  obtain ok d3 where del: "md_forEach ?del dels (True, d2) = (ok, d3)" by (cases "md_forEach ?del dels (True, d2)")
  have ins: "md_forEach ?ins new (ok, d3) = (True, d')"
    using assms(3) c r mo mm del
    by (simp add: MetadataDatabase_initializeSecretsFromPluginData_def dels_def new_def Let_def)
  with md_forEach_False [of ?ins new d3] have ok: "ok" by (cases ok) auto
  from md_forEach_in_tx [of ?del ?del_sql, OF changes_by_ops(5) tx2] del ok obtain t1 where
    t1: "apply_statements (map ?del_sql dels) t = Some t1" "in_tx f t1 d3" by auto
  from ins ok md_forEach_in_tx [of ?ins ?ins_sql, OF changes_by_ops(3) t1(2)] obtain t2 where
    t2: "apply_statements (map ?ins_sql new) t1 = Some t2" "in_tx f t2 d'" by auto
  note e1 = apply_deleteSecrets [OF t1(1) assms(2)]
  from e1 apply_insertSecrets [OF t2(1)] have
    e2: "md_wf t2" "secret_set t2 = secret_set t1 \<union> set new" "t_Collections t2 = t_Collections t" by auto
  have fk: "fst i \<in> collection_set t" if "i \<in> secret_set t" for i
    using that assms(2) by (auto simp: md_wf_def secret_set_def image_subset_iff)
  have mmp: "name_pairs mm = {i \<in> secret_set t. \<not> hidden (fst i)}"
    using fk by (auto simp: mmdef metadata_names_map(2) cn collection_set_def)
  have sets: "set dels = {i \<in> secret_set t. \<not> hidden (fst i) \<and> fst i \<notin> set locked \<and> i \<notin> set identifiers}"
    "set new = set identifiers - {i \<in> secret_set t. \<not> hidden (fst i)}"
    using set_missing_names [OF metadata_names_map(1), of t cnames ?pm, folded mmdef]
      set_missing_names [OF plugin_names_map_props(1), of identifiers mm]
    by (auto simp: dels_def new_def mmp plugin_names_map_props(2))
  have "secret_set t2 = {i \<in> secret_set t. hidden (fst i) \<or> fst i \<in> set locked} \<union> set identifiers"
    using e1 by (auto simp: e2(2) sets)
  then show ?thesis using t2(2) e2 by (auto simp: secrets_synced_def)
qed

lemma initializeSecrets_ready:
  assumes "in_tx f t d" and "engine_ready d" and "md_wf t" and "distinct identifiers"
    and "\<forall>i \<in> set identifiers. \<not> hidden (fst i) \<and> fst i \<in> collection_set t"
  shows "\<exists>d'. MetadataDatabase_initializeSecretsFromPluginData cfg identifiers locked d = (True, d') \<and> engine_ready d'"
proof -
  let ?ins = "\<lambda>i. MetadataDatabase_insertSecretMetadata (imported_secret cfg i)"
  let ?del = "\<lambda>i. MetadataDatabase_deleteSecretMetadata (fst i) (snd i)"
  let ?ins_sql = "\<lambda>i. sql_insertSecret (secrets_row (imported_secret cfg i))"
  let ?del_sql = "\<lambda>i. sql_deleteSecret (fst i) (snd i)"
  let ?mm = "fold (\<lambda>c. qmap_insert c (names_in t c)) (shown_names t) []"
  let ?pm = "plugin_names_map identifiers"
  from collectionNames_ready [OF assms(1,2)] obtain d1 where
    c: "MetadataDatabase_collectionNames True d = (success, shown_names t, d1)" "in_tx f t d1" "engine_ready d1"
    by blast
  from secretNamesMap_ready [OF c(2,3), of "shown_names t" "[]"] obtain d2 where
    m: "md_secretNamesMap (shown_names t) [] d1 = (Some ?mm, d2)" "in_tx f t d2" "engine_ready d2" by blast
  define dels where "dels = filter (\<lambda>i. fst i \<notin> set locked) (missing_names ?mm ?pm)"
  define new where "new = missing_names ?pm ?mm"
  obtain t1 where t1: "apply_statements (map ?del_sql dels) t = Some t1"
    using apply_deleteSecrets_total by blast
  from md_forEach_ready [of ?del ?del_sql, OF changes_by_ops(5) m(2,3) t1] obtain d3 where
    d3: "md_forEach ?del dels (True, d2) = (True, d3)" "in_tx f t1 d3" "engine_ready d3" by blast
  note e1 = apply_deleteSecrets [OF t1 assms(3)]
  have "set new = set identifiers - {i \<in> secret_set t. fst i \<in> set (shown_names t)}"
    using set_missing_names [OF plugin_names_map_props(1), of identifiers ?mm]
    by (simp add: new_def plugin_names_map_props(2) metadata_names_map(2))
  then have "set new \<inter> secret_set t1 = {}" "fst ` set new \<subseteq> collection_set t1"
    using e1 assms(5) by (auto simp: collection_set_def)
  moreover have "distinct new"
    using distinct_missing_names [OF plugin_names_map_props(1)] plugin_names_map_distinct [OF assms(4)]
    by (simp add: new_def)
  ultimately obtain t2 where t2: "apply_statements (map ?ins_sql new) t1 = Some t2"
    using apply_insertSecrets_total [of "imported_secret cfg" new t1] by auto
  from md_forEach_ready [of ?ins ?ins_sql, OF changes_by_ops(3) d3(2,3) t2] obtain d4 where
    "md_forEach ?ins new (True, d3) = (True, d4)" "engine_ready d4" by blast
  with c(1) m(1) d3(1) show ?thesis
    by (simp add: MetadataDatabase_initializeSecretsFromPluginData_def dels_def new_def Let_def)
qed

subsection \<open>Properties of synchronisation\<close>

text \<open>
  C4. Initialisation brings the metadata in line with the plugin. When
  \<open>initializeCollectionsFromPluginData\<close> and \<open>initializeSecretsFromPluginData\<close> both report
  success inside a transaction, the collections recorded are exactly the
  plugin's, and the secrets recorded are exactly those the plugin reports together with the ones already recorded in locked
  collections that still exist. Standalone secrets are untouched, and a collection that was recorded
  and still exists keeps its metadata.
\<close>

theorem initialize_synchronises:
  assumes "in_tx f t d" and "md_wf t"
    and "\<forall>c \<in> set existing. \<not> hidden c"
    and "\<forall>i \<in> set identifiers. fst i \<in> set existing"
    and "MetadataDatabase_initializeCollectionsFromPluginData cfg existing d = (True, d1)"
    and "MetadataDatabase_initializeSecretsFromPluginData cfg identifiers locked d1 = (True, d2)"
  shows "\<exists>t'. in_tx f t' d2 \<and> md_wf t'
     \<and> {c \<in> collection_set t'. \<not> hidden c} = set existing
     \<and> {i \<in> secret_set t'. \<not> hidden (fst i)}
        = set identifiers \<union> {i \<in> secret_set t. \<not> hidden (fst i) \<and> fst i \<in> set locked \<inter> set existing}
     \<and> {i \<in> secret_set t'. hidden (fst i)} = {i \<in> secret_set t. hidden (fst i)}
     \<and> {r \<in> set (t_Collections t'). c_CollectionName r \<in> collection_set t}
        = {r \<in> set (t_Collections t). hidden (c_CollectionName r) \<or> c_CollectionName r \<in> set existing}"
proof -
  from initializeCollections_synced [OF assms(1-3) assms(5)] obtain t1 where
    t1: "in_tx f t1 d1" "collections_synced existing t t1" by blast
  then have w1: "md_wf t1" by (simp add: collections_synced_def)
  from initializeSecrets_synced [OF t1(1) w1 assms(6)] obtain t2 where
    t2: "in_tx f t2 d2" "secrets_synced identifiers locked t1 t2" by blast
  have c: "collection_set t2 = collection_set t1"
    using t2(2) by (simp add: secrets_synced_def collection_set_def)
  have nh: "\<not> hidden (fst i)" if "i \<in> set identifiers" for i
    using that assms(3,4) by auto
  show ?thesis
  proof (intro exI conjI)
    show "in_tx f t2 d2" "md_wf t2" using t2 by (simp_all add: secrets_synced_def)
    show "{c \<in> collection_set t2. \<not> hidden c} = set existing"
      using t1(2) by (simp add: collections_synced_def c)
    show "{r \<in> set (t_Collections t2). c_CollectionName r \<in> collection_set t}
        = {r \<in> set (t_Collections t). hidden (c_CollectionName r) \<or> c_CollectionName r \<in> set existing}"
      using t1(2) t2(2) by (simp add: collections_synced_def secrets_synced_def)
    have "secret_set t2 = {i \<in> secret_set t1. hidden (fst i) \<or> fst i \<in> set locked} \<union> set identifiers"
      "secret_set t1 = {i \<in> secret_set t. hidden (fst i) \<or> fst i \<in> set existing}"
      using t1(2) t2(2) by (simp_all add: collections_synced_def secrets_synced_def)
    then show "{i \<in> secret_set t2. \<not> hidden (fst i)}
        = set identifiers \<union> {i \<in> secret_set t. \<not> hidden (fst i) \<and> fst i \<in> set locked \<inter> set existing}"
      "{i \<in> secret_set t2. hidden (fst i)} = {i \<in> secret_set t. hidden (fst i)}"
      using nh by auto
  qed
qed

text \<open>A metadata database for the examples: one collection and one secret the plugin has lost.\<close>

definition demo_md :: metadata_db where
  "demo_md = \<lparr>db_file = Some \<lparr>t_Collections = [collections_row standalone_metadata,
       collections_row (standalone_metadata\<lparr>cm_collectionName := ''a''\<rparr>)],
     t_Secrets = [secrets_row (imported_secret \<lparr>mc_defaultEncryptionPluginName = [], mc_defaultAuthenticationPluginName = [],
        mc_storagePluginName = [], mc_pluginIsEncryptedStorage = False\<rparr> (''a'', ''s''))]\<rparr>,
     db_fileKey = ''k'', db_userVersion = 1, db_isOpen = True, db_connKey = ''k'', db_work = None,
     db_semaphore = 0, db_prepared = [], db_localeName = ''C'', db_answers = []\<rparr>"

definition demo_cfg :: MetadataConfig where
  "demo_cfg = \<lparr>mc_defaultEncryptionPluginName = ''enc'', mc_defaultAuthenticationPluginName = ''auth'',
     mc_storagePluginName = ''plug'', mc_pluginIsEncryptedStorage = False\<rparr>"

definition demo_tx :: metadata_db where
  "demo_tx = snd (Database_beginTransaction demo_md)"

definition demo_tables :: metadata_tables where
  "demo_tables = (case db_file demo_md of Some t \<Rightarrow> t | None \<Rightarrow> empty_metadata_tables)"

theorem initialize_synchronises_witness:
  "let d1 = snd (MetadataDatabase_initializeCollectionsFromPluginData demo_cfg [''b''] demo_tx);
       d2 = snd (MetadataDatabase_initializeSecretsFromPluginData demo_cfg [(''b'', ''x'')] [] d1)
   in \<exists>t'. in_tx demo_tables t' d2 \<and> {c \<in> collection_set t'. \<not> hidden c} = {''b''}
        \<and> {i \<in> secret_set t'. \<not> hidden (fst i)} = {(''b'', ''x'')}"
proof -
  define d1 where "d1 = snd (MetadataDatabase_initializeCollectionsFromPluginData demo_cfg [''b''] demo_tx)"
  define d2 where "d2 = snd (MetadataDatabase_initializeSecretsFromPluginData demo_cfg [(''b'', ''x'')] [] d1)"
  have a: "in_tx demo_tables demo_tables demo_tx" "md_wf demo_tables" by code_simp+
  have b: "\<forall>c \<in> set [''b'']. \<not> hidden c" "\<forall>i \<in> set [(''b'', ''x'')]. fst i \<in> set [''b'']" by code_simp+
  have "fst (MetadataDatabase_initializeCollectionsFromPluginData demo_cfg [''b''] demo_tx)" by code_simp
  then have c: "MetadataDatabase_initializeCollectionsFromPluginData demo_cfg [''b''] demo_tx = (True, d1)"
    by (simp add: d1_def prod_eq_iff)
  have "fst (MetadataDatabase_initializeSecretsFromPluginData demo_cfg [(''b'', ''x'')] [] d1)"
    unfolding d1_def by code_simp
  then have e: "MetadataDatabase_initializeSecretsFromPluginData demo_cfg [(''b'', ''x'')] [] d1 = (True, d2)"
    by (simp add: d2_def prod_eq_iff)
  show ?thesis
    unfolding Let_def d1_def [symmetric] d2_def [symmetric]
    using initialize_synchronises [OF a b c e] by auto
qed

text \<open>
  Initialisation succeeds on a working engine. Where the plugin reports distinct
  visible collection names, and distinct secrets of those collections, and the engine refuses
  nothing, both operations report success.
\<close>

theorem initialize_succeeds:
  assumes "in_tx f t d" and "engine_ready d" and "md_wf t"
    and "\<forall>c \<in> set existing. \<not> hidden c" and "distinct existing"
    and "\<forall>i \<in> set identifiers. fst i \<in> set existing" and "distinct identifiers"
  shows "\<exists>d1 d2. MetadataDatabase_initializeCollectionsFromPluginData cfg existing d = (True, d1)
     \<and> MetadataDatabase_initializeSecretsFromPluginData cfg identifiers locked d1 = (True, d2)
     \<and> engine_ready d2"
proof -
  from initializeCollections_ready [OF assms(1-5)] obtain d1 where
    d1: "MetadataDatabase_initializeCollectionsFromPluginData cfg existing d = (True, d1)" "engine_ready d1"
    by blast
  from initializeCollections_synced [OF assms(1,3,4) d1(1)] obtain t1 where
    t1: "in_tx f t1 d1" "collections_synced existing t t1" by blast
  have "\<forall>i \<in> set identifiers. \<not> hidden (fst i) \<and> fst i \<in> collection_set t1"
    using t1(2) assms(4,6) by (auto simp: collections_synced_def)
  with initializeSecrets_ready [OF t1(1) d1(2) _ assms(7)] t1(2) d1(1) show ?thesis
    by (auto simp: collections_synced_def)
qed

theorem initialize_succeeds_witness:
  "\<exists>d1 d2. MetadataDatabase_initializeCollectionsFromPluginData demo_cfg [''b''] demo_tx = (True, d1)
     \<and> MetadataDatabase_initializeSecretsFromPluginData demo_cfg [(''b'', ''x'')] [] d1 = (True, d2)"
proof -
  have a: "in_tx demo_tables demo_tables demo_tx" "engine_ready demo_tx" "md_wf demo_tables"
    "\<forall>c \<in> set [''b'']. \<not> hidden c" "distinct [''b'']"
    "\<forall>i \<in> set [(''b'', ''x'')]. fst i \<in> set [''b'']" "distinct [(''b'', ''x'')]"
    by code_simp+
  from initialize_succeeds [OF a, of demo_cfg "[]"] show ?thesis by blast
qed

subsection \<open>Reading back what was stored\<close>

lemma accessControlMode_roundtrip [simp]:
  "accessControlMode_of (accessControlMode_value m) = m"
  by (cases m) (simp_all add: accessControlMode_of_def)

lemma fill_collections_row:
  "fill_collection (collections_row m) m0 = m\<lparr>cm_collectionName := cm_collectionName m0\<rparr>"
  by (simp add: fill_collection_def collections_row_def)

lemma fill_secrets_row:
  "fill_secret (secrets_row m) m0
   = m\<lparr>sm_collectionName := sm_collectionName m0, sm_secretName := sm_secretName m0,
       sm_secretType := sm_secretType m0, sm_cryptoPluginName := sm_cryptoPluginName m0\<rparr>"
  by (simp add: fill_secret_def secrets_row_def)

lemma changes_by_idle:
  assumes "changes_by op g" and "idle d" and "db_file d = Some t" and "op d = (r, d')"
  shows "idle d' \<and> (if succeeded r then \<exists>t'. g t = Some ((), t') \<and> db_file d' = Some t' else db_file d' = Some t)"
proof -
  obtain q where q: "op d = (let (r, d1) = md_query q g d in (query_result r, d1))"
    using assms(1) by (auto simp: changes_by_def)
  obtain x d1 where x: "md_query q g d = (x, d1)" by (cases "md_query q g d")
  with q assms(4) have "r = query_result x" "d' = d1" by simp_all
  with md_query_idle [OF assms(2,3) x] show ?thesis by (cases x) auto
qed

lemma select_idle:
  assumes "idle d" and "db_file d = Some t" and "md_query q (sql_select h) d = (r, d')"
  shows "idle d' \<and> db_file d' = Some t \<and> (r = None \<or> r = Some (h t))"
  using md_query_idle [OF assms] by (cases r) (auto simp: sql_select_def)

lemma select_in_tx:
  assumes "in_tx f t d" and "md_query q (sql_select h) d = (r, d')"
  shows "if r = None then pending f d' else in_tx f t d' \<and> r = Some (h t)"
  using md_query_in_tx [OF assms] by (cases r) (auto simp: sql_select_def)

text \<open>
  C6. Metadata reads back as stored. On an idle database, after a successful
  \<open>insertCollectionMetadata\<close> a \<open>collectionMetadata\<close> query that succeeds finds the collection
  and returns every field as it was stored (the name is the caller's own), and after a
  successful \<open>insertSecretMetadata\<close> a \<open>secretMetadata\<close> query returns every
  field but the type and the crypto plugin, which it does not select.
\<close>

theorem metadata_roundtrip:
  assumes "idle d"
  shows "(MetadataDatabase_insertCollectionMetadata m d = (r, d1) \<and> succeeded r
          \<and> MetadataDatabase_collectionMetadata (cm_collectionName m) m0 e d1 = (r2, m2, exists, d2)
          \<and> succeeded r2
          \<longrightarrow> exists \<and> m2 = m\<lparr>cm_collectionName := cm_collectionName m0\<rparr>)
     \<and> (MetadataDatabase_insertSecretMetadata sm d = (r, d1) \<and> succeeded r
          \<and> MetadataDatabase_secretMetadata (sm_collectionName sm) (sm_secretName sm) s0 e d1 = (r2, s2, exists, d2)
          \<and> succeeded r2
          \<longrightarrow> exists \<and> s2 = sm\<lparr>sm_collectionName := sm_collectionName s0, sm_secretName := sm_secretName s0,
               sm_secretType := sm_secretType s0, sm_cryptoPluginName := sm_cryptoPluginName s0\<rparr>)"
proof -
  obtain t where t: "db_file d = Some t" using idle_file [OF assms] ..
  let ?sc = "\<lambda>t. find (\<lambda>r. c_CollectionName r = cm_collectionName m) (t_Collections t)"
  let ?ss = "\<lambda>t. find (\<lambda>r. secret_key r = (sm_collectionName sm, sm_secretName sm)) (t_Secrets t)"
  have C: "exists \<and> m2 = m\<lparr>cm_collectionName := cm_collectionName m0\<rparr>"
    if i: "MetadataDatabase_insertCollectionMetadata m d = (r, d1)" "succeeded r"
      and q: "MetadataDatabase_collectionMetadata (cm_collectionName m) m0 e d1 = (r2, m2, exists, d2)"
        "succeeded r2"
  proof -
    from changes_by_idle [OF changes_by_ops(1) assms t i(1)] i(2) obtain t1 where
      t1: "sql_insertCollection (collections_row m) t = Some ((), t1)" "idle d1" "db_file d1 = Some t1" by auto
    obtain x d2' where x: "md_query selectCollectionQuery (sql_select ?sc) d1 = (x, d2')"
      by (cases "md_query selectCollectionQuery (sql_select ?sc) d1")
    have f: "?sc t1 = Some (collections_row m)"
      using sql_insertCollection_effect(1,2) [OF t1(1)]
      by (simp add: collection_set_def find_snoc_fresh)
    show ?thesis
      using select_idle [OF t1(2,3) x] q x f
      by (auto simp: MetadataDatabase_collectionMetadata_def fill_collections_row split: option.splits)
  qed
  have S: "exists \<and> s2 = sm\<lparr>sm_collectionName := sm_collectionName s0, sm_secretName := sm_secretName s0,
       sm_secretType := sm_secretType s0, sm_cryptoPluginName := sm_cryptoPluginName s0\<rparr>"
    if i: "MetadataDatabase_insertSecretMetadata sm d = (r, d1)" "succeeded r"
      and q: "MetadataDatabase_secretMetadata (sm_collectionName sm) (sm_secretName sm) s0 e d1 = (r2, s2, exists, d2)"
        "succeeded r2"
  proof -
    from changes_by_idle [OF changes_by_ops(3) assms t i(1)] i(2) obtain t1 where
      t1: "sql_insertSecret (secrets_row sm) t = Some ((), t1)" "idle d1" "db_file d1 = Some t1" by auto
    obtain x d2' where x: "md_query selectSecretsQuery (sql_select ?ss) d1 = (x, d2')"
      by (cases "md_query selectSecretsQuery (sql_select ?ss) d1")
    have f: "?ss t1 = Some (secrets_row sm)"
      using sql_insertSecret_effect(1,3) [OF t1(1)]
        find_snoc_fresh [of "(sm_collectionName sm, sm_secretName sm)" secret_key "t_Secrets t" "secrets_row sm"]
      by (simp add: secret_set_def)
    show ?thesis
      using select_idle [OF t1(2,3) x] q x f
      by (auto simp: MetadataDatabase_secretMetadata_def fill_secrets_row split: option.splits)
  qed
  from C S show ?thesis by blast
qed

theorem metadata_roundtrip_witness:
  "let m = standalone_metadata\<lparr>cm_collectionName := ''c'', cm_usesDeviceLockKey := True\<rparr>;
       d1 = snd (MetadataDatabase_insertCollectionMetadata m demo_md)
   in fst (snd (MetadataDatabase_collectionMetadata ''c'' standalone_metadata False d1))
      = m\<lparr>cm_collectionName := standalone\<rparr>"
proof -
  define m where "m = standalone_metadata\<lparr>cm_collectionName := ''c'', cm_usesDeviceLockKey := True\<rparr>"
  obtain r d1 where i: "MetadataDatabase_insertCollectionMetadata m demo_md = (r, d1)" by fastforce
  obtain r2 m2 e d2 where q: "MetadataDatabase_collectionMetadata ''c'' standalone_metadata False d1 = (r2, m2, e, d2)"
    by (metis prod_cases4)
  have "succeeded (fst (MetadataDatabase_insertCollectionMetadata m demo_md))"
    unfolding m_def by code_simp
  moreover have "succeeded (fst (MetadataDatabase_collectionMetadata ''c'' standalone_metadata False
      (snd (MetadataDatabase_insertCollectionMetadata m demo_md))))"
    unfolding m_def by code_simp
  moreover have "idle demo_md" by code_simp
  ultimately show ?thesis
    using metadata_roundtrip [of demo_md m r d1 standalone_metadata False r2 m2 e d2] i q
    unfolding Let_def m_def [symmetric] by (simp add: m_def standalone_metadata_def)
qed

subsection \<open>The schema's constraints hold in every state\<close>

datatype md_op =
    InsertCollection CollectionMetadata | DeleteCollection qstring
  | InsertSecret SecretMetadata | UpdateSecret SecretMetadata | DeleteSecret qstring qstring

primrec md_apply :: "md_op \<Rightarrow> metadata_db \<Rightarrow> Result \<times> metadata_db" where
  "md_apply (InsertCollection m) = MetadataDatabase_insertCollectionMetadata m"
| "md_apply (DeleteCollection c) = MetadataDatabase_deleteCollectionMetadata c"
| "md_apply (InsertSecret m) = MetadataDatabase_insertSecretMetadata m"
| "md_apply (UpdateSecret m) = MetadataDatabase_updateSecretMetadata m"
| "md_apply (DeleteSecret c s) = MetadataDatabase_deleteSecretMetadata c s"

definition md_good :: "metadata_db \<Rightarrow> bool" where
  "md_good d \<longleftrightarrow> idle d \<and> (case db_file d of None \<Rightarrow> False | Some t \<Rightarrow> md_wf t)"

lemma md_apply_good:
  assumes "md_good d"
  shows "md_good (snd (md_apply op d))"
proof -
  obtain t where t: "db_file d = Some t" "md_wf t" and i: "idle d"
    using assms by (auto simp: md_good_def split: option.splits)
  have wf: "md_good (snd (f d))"
    if "changes_by f g" "\<And>u. g t = Some ((), u) \<Longrightarrow> md_wf u" for f g
    using changes_by_idle [OF that(1) i t(1), of "fst (f d)" "snd (f d)"] that(2) t(2)
    by (auto simp: md_good_def split: if_splits)
  show ?thesis
  proof (cases op)
    case (InsertCollection m)
    with wf [OF changes_by_ops(1) sql_insertCollection_effect(6) [OF _ t(2)]] show ?thesis by simp
  next
    case (DeleteCollection c)
    with wf [OF changes_by_ops(2) sql_deleteCollection_effect(4) [OF _ t(2)]] show ?thesis by simp
  next
    case (InsertSecret m)
    with wf [OF changes_by_ops(3) sql_insertSecret_effect(7) [OF _ t(2)]] show ?thesis by simp
  next
    case (UpdateSecret m)
    with wf [OF changes_by_ops(4) sql_updateSecret_effect(3) [OF _ t(2)]] show ?thesis by simp
  next
    case (DeleteSecret c s)
    with wf [OF changes_by_ops(5) sql_deleteSecret_effect(4) [OF _ t(2)]] show ?thesis by simp
  qed
qed

text \<open>
  C7. The metadata stays well formed. Whatever sequence of metadata operations runs, and
  whatever the engine answers, collection names stay unique, each collection has at
  most one secret of a name, every secret belongs to a recorded collection, and no
  transaction is left open.
\<close>

theorem metadata_wf_invariant:
  assumes "md_good d"
  shows "md_good (fold (\<lambda>op d. snd (md_apply op d)) ops d)"
  using assms by (induction ops arbitrary: d) (simp_all add: md_apply_good)

theorem metadata_wf_invariant_witness:
  "md_good demo_md \<and> md_good (fold (\<lambda>op d. snd (md_apply op d)) [DeleteCollection ''a''] demo_md)"
proof -
  have "md_good demo_md" by code_simp
  with metadata_wf_invariant [OF this, of "[DeleteCollection ''a'']"] show ?thesis by blast
qed

subsection \<open>The master lock\<close>

lemma md_query_keys:
  assumes "md_query q g d = (r, d')"
  shows "db_fileKey d' = db_fileKey d" "db_connKey d' = db_connKey d" "db_isOpen d' = db_isOpen d"
  using assms
  by (auto simp: md_query_def Database_prepare_def Database_execute_def db_write_def Let_def
      split: if_splits option.splits answer.splits prod.splits)

lemma collectionNames_keys:
  assumes "MetadataDatabase_collectionNames b d = (r, cn, d')"
  shows "\<exists>x. md_query selectCollectionNamesQuery (sql_select (\<lambda>t. map c_CollectionName (t_Collections t))) d = (x, d')"
  using assms by (auto simp: MetadataDatabase_collectionNames_def split: prod.splits option.splits)

lemma insertCollection_keys:
  assumes "MetadataDatabase_insertCollectionMetadata m d = (r, d')"
  shows "\<exists>x. md_query insertCollectionQuery (sql_insertCollection (collections_row m)) d = (x, d')"
  using assms by (auto simp: MetadataDatabase_insertCollectionMetadata_def split: prod.splits)

lemma openDatabase_existing:
  assumes "MetadataDatabase_openDatabase key d = (ok, d')" and "db_file d = Some t"
    and "\<not> db_isOpen d" and "db_semaphore d = 0"
  shows "if key = db_fileKey d then db_fileKey d' = key \<and> (ok \<longrightarrow> idle d' \<and> db_connKey d' = key)
         else \<not> ok \<and> \<not> db_isOpen d' \<and> db_file d' = Some t \<and> db_fileKey d' = db_fileKey d"
proof -
  obtain ok1 d1 where d1: "Database_open key 6 2 empty_metadata_tables [] 1 d = (ok1, d1)"
    by (cases "Database_open key 6 2 empty_metadata_tables [] 1 d")
  note o = open_existing [OF d1 assms(2,3)]
  show ?thesis
  proof (cases ok1)
    case False
    with d1 assms(1) have "d' = d1" "\<not> ok" by (auto simp: MetadataDatabase_openDatabase_def)
    with o False show ?thesis by auto
  next
    case True
    obtain r cn d2 where d2: "MetadataDatabase_collectionNames False d1 = (r, cn, d2)"
      by (cases "MetadataDatabase_collectionNames False d1")
    obtain r3 d3 where d3: "MetadataDatabase_insertCollectionMetadata standalone_metadata d2 = (r3, d3)"
      by (cases "MetadataDatabase_insertCollectionMetadata standalone_metadata d2")
    have i1: "idle d1" using o True assms(4) by (simp add: idle_def db_readable_def)
    obtain x where x: "md_query selectCollectionNamesQuery
        (sql_select (\<lambda>t. map c_CollectionName (t_Collections t))) d1 = (x, d2)"
      using collectionNames_keys [OF d2] by blast
    from select_idle [OF i1 o(1) x] have i2: "idle d2" "db_file d2 = Some t" by simp_all
    obtain y where y: "md_query insertCollectionQuery
        (sql_insertCollection (collections_row standalone_metadata)) d2 = (y, d3)"
      using insertCollection_keys [OF d3] by blast
    from md_query_idle [OF i2 y] have i3: "idle d3" by simp
    have "d' = d2 \<or> d' = d3"
      using assms(1) d1 d2 d3 True by (auto simp: MetadataDatabase_openDatabase_def split: if_splits)
    with i2(1) i3 md_query_keys [OF x] md_query_keys [OF y] o True show ?thesis by auto
  qed
qed

lemma unlock_wrong_key:
  assumes "db_file d = Some t" and "\<not> db_isOpen d" and "db_semaphore d = 0" and "key \<noteq> db_fileKey d"
    and "MetadataDatabase_unlock key d = (r, d')"
  shows "res_code r = Failed \<and> db_file d' = Some t \<and> db_fileKey d' = db_fileKey d \<and> \<not> db_isOpen d'"
proof (cases "length key = 64")
  case False
  with assms show ?thesis by (auto simp: MetadataDatabase_unlock_def)
next
  case True
  obtain ok d1 where o: "MetadataDatabase_openDatabase key d = (ok, d1)"
    by (cases "MetadataDatabase_openDatabase key d")
  with openDatabase_existing [OF o assms(1-3)] True assms(2,4,5) show ?thesis
    by (auto simp: MetadataDatabase_unlock_def)
qed

text \<open>
  A locked metadata database opens with its own key only. After
  \<open>MetadataDatabase_lock\<close>, unlocking with a key other than the one the file is encrypted
  under fails whatever the engine answers, and leaves the database locked and its contents as they were.
\<close>

theorem wrong_key_stays_locked:
  assumes "db_file d = Some t" and "db_semaphore d = 0" and "key \<noteq> db_fileKey d"
    and "MetadataDatabase_unlock key (snd (MetadataDatabase_lock d)) = (r, d')"
  shows "\<not> succeeded r \<and> db_file d' = Some t \<and> db_fileKey d' = db_fileKey d
     \<and> MetadataDatabase_isLocked b d' = (success, True, d')"
proof -
  let ?d = "snd (MetadataDatabase_lock d)"
  have c: "db_file ?d = Some t" "\<not> db_isOpen ?d" "db_semaphore ?d = 0" "db_fileKey ?d = db_fileKey d"
    using assms(1,2) by (simp_all add: MetadataDatabase_lock_def Database_close_def)
  with unlock_wrong_key [OF c(1-3) _ assms(4)] assms(3) show ?thesis
    by (auto simp: MetadataDatabase_isLocked_def)
qed

theorem wrong_key_stays_locked_witness:
  "let d' = snd (MetadataDatabase_unlock (replicate 64 CHR ''x'') (snd (MetadataDatabase_lock demo_md)))
   in \<not> succeeded (fst (MetadataDatabase_unlock (replicate 64 CHR ''x'') (snd (MetadataDatabase_lock demo_md))))
      \<and> MetadataDatabase_isLocked False d' = (success, True, d')"
proof -
  have a: "db_file demo_md = Some demo_tables" "db_semaphore demo_md = 0"
    "replicate 64 CHR ''x'' \<noteq> db_fileKey demo_md"
    by (code_simp, code_simp, code_simp)
  show ?thesis
    using wrong_key_stays_locked [OF a prod.collapse [symmetric], of False] by (simp add: Let_def)
qed

lemma prepare_keys:
  assumes "Database_prepare q d = (ok, d')"
  shows "db_fileKey d' = db_fileKey d" "db_connKey d' = db_connKey d" "db_isOpen d' = db_isOpen d"
  using assms by (auto simp: Database_prepare_def split: if_splits)

lemma begin_keys:
  assumes "Database_beginTransaction d = (ok, d')"
  shows "db_fileKey d' = db_fileKey d" "db_connKey d' = db_connKey d"
  using assms by (auto simp: Database_beginTransaction_def sql_begin_def Let_def split: if_splits)

lemma isLocked_idle:
  assumes "idle d" and "MetadataDatabase_isLocked b d = (r, l, d')"
  shows "idle d' \<and> db_fileKey d' = db_fileKey d"
proof -
  obtain t where t: "db_file d = Some t" using idle_file [OF assms(1)] ..
  obtain p d1 where p: "Database_prepare lockedQuery d = (p, d1)" by (cases "Database_prepare lockedQuery d")
  obtain x d2 where x: "Database_execute (sql_select (\<lambda>t. ())) d1 = (x, d2)"
    by (cases "Database_execute (sql_select (\<lambda>t::metadata_tables. ())) d1")
  have i1: "idle d1" "db_file d1 = Some t" using prepare_idle [OF p assms(1)] prepare_file [OF p] t by simp_all
  have "db_fileKey d2 = db_fileKey d1"
    using x by (auto simp: Database_execute_def db_write_def split: option.splits answer.splits if_splits)
  with execute_idle [OF i1 x] i1 p x prepare_keys [OF p] assms show ?thesis
    by (auto simp: MetadataDatabase_isLocked_def split: if_splits)
qed

text \<open>What a successful \<open>unlock\<close> leaves, of a closed database or of an open one outside a transaction: the connection has the key.\<close>

lemma unlock_success:
  assumes "db_file d = Some t" and "db_semaphore d = 0" and "db_isOpen d \<longrightarrow> db_work d = None"
    and "MetadataDatabase_unlock key d = (r, d')" and "succeeded r"
  shows "db_file d' \<noteq> None \<and> db_fileKey d' = db_fileKey d \<and> db_semaphore d' = 0 \<and> db_work d' = None
    \<and> db_isOpen d' \<and> db_connKey d' = key"
proof (cases "db_isOpen d")
  case False
  obtain ok o1 where o: "MetadataDatabase_openDatabase key d = (ok, o1)"
    by (cases "MetadataDatabase_openDatabase key d")
  from assms(4,5) o False have "ok" "d' = o1" by (auto simp: MetadataDatabase_unlock_def split: if_splits)
  with openDatabase_existing [OF o assms(1) False assms(2)] show ?thesis
    by (auto simp: idle_def db_readable_def split: if_splits)
next
  case True
  obtain p d1 where p: "Database_prepare (setupKeyStatement key) d = (p, d1)" by (cases "Database_prepare (setupKeyStatement key) d")
  obtain b d2 where b: "Database_beginTransaction d1 = (b, d2)" by (cases "Database_beginTransaction d1")
  obtain c d4 where c: "Database_commitTransaction ((drop_answer d2)\<lparr>db_connKey := key\<rparr>) = (c, d4)"
    by (cases "Database_commitTransaction ((drop_answer d2)\<lparr>db_connKey := key\<rparr>)")
  have s: "b" "c" "d' = d4"
    using assms(4,5) True p b c by (auto simp: MetadataDatabase_unlock_def engine_ok_def split: if_splits)
  have "db_file d2 = Some t" "db_fileKey d2 = db_fileKey d" "db_semaphore d2 = 1" "db_work d2 = Some t" "db_isOpen d2"
    using b s(1) True assms(1,2) prepare_keys [OF p] prepare_keeps [OF p]
    by (auto simp: Database_beginTransaction_def sql_begin_def Let_def split: if_splits)
  with c s(2,3) show ?thesis
    by (auto simp: Database_commitTransaction_def sql_commit_def Let_def split: answer.splits)
qed

lemma isLocked_no:
  assumes "MetadataDatabase_isLocked b d = (r, False, d')" and "succeeded r"
  shows "db_isOpen d \<and> (db_file d \<noteq> None \<longrightarrow> db_connKey d = db_fileKey d)"
proof -
  obtain p d1 where p: "Database_prepare lockedQuery d = (p, d1)" by (cases "Database_prepare lockedQuery d")
  obtain x d2 where x: "Database_execute (sql_select (\<lambda>t. ())) d1 = (x, d2)"
    by (cases "Database_execute (sql_select (\<lambda>t::metadata_tables. ())) d1")
  have "db_isOpen d" "x \<noteq> None" using assms p x by (auto simp: MetadataDatabase_isLocked_def split: if_splits)
  moreover from this(2) x have "db_readable d1" by (auto simp: Database_execute_def split: option.splits if_splits)
  ultimately show ?thesis using prepare_readable [OF p] by (auto simp: db_readable_def)
qed

lemma reencrypt_success:
  assumes "db_file d = Some t" and "db_semaphore d = 0" and "db_isOpen d \<longrightarrow> db_work d = None"
    and "MetadataDatabase_reencrypt old new d = (r, d')" and "succeeded r"
  shows "old = db_fileKey d \<and> db_fileKey d' = new \<and> db_semaphore d' = 0 \<and> (\<exists>t'. db_file d' = Some t')"
proof -
  obtain r1 d1 where d1: "MetadataDatabase_unlock old d = (r1, d1)" by (cases "MetadataDatabase_unlock old d")
  with assms(4,5) have r1: "succeeded r1" by (auto simp: MetadataDatabase_reencrypt_def split: if_splits)
  note u = unlock_success [OF assms(1-3) d1 r1]
  obtain r2 l d2 where d2: "MetadataDatabase_isLocked False d1 = (r2, l, d2)"
    by (cases "MetadataDatabase_isLocked False d1")
  with assms(4,5) d1 r1 have l: "succeeded r2" "\<not> l" by (auto simp: MetadataDatabase_reencrypt_def split: if_splits)
  with isLocked_no d2 u have k1: "old = db_fileKey d" and i1: "idle d1" by (auto simp: idle_def db_readable_def)
  have i2: "idle d2" using isLocked_idle [OF i1 d2] by simp
  obtain p d3 where d3: "Database_prepare (setupReKeyStatement new) d2 = (p, d3)"
    by (cases "Database_prepare (setupReKeyStatement new) d2")
  have i3: "idle d3" using prepare_idle [OF d3 i2] .
  obtain t3 where t3: "db_file d3 = Some t3" using idle_file [OF i3] ..
  obtain b d4 where d4: "Database_beginTransaction d3 = (b, d4)" by (cases "Database_beginTransaction d3")
  define d5 where "d5 = (drop_answer d4)\<lparr>db_connKey := new\<rparr>"
  obtain c d6 where d6: "Database_commitTransaction d5 = (c, d6)" by (cases "Database_commitTransaction d5")
  have "b" "c" "d' = d6\<lparr>db_fileKey := new\<rparr>"
    using assms(4,5) d1 r1 d2 l d3 d4 d6
    by (auto simp: MetadataDatabase_reencrypt_def engine_ok_def d5_def split: if_splits)
  moreover have "in_tx t3 t3 d4" using begin_idle [OF i3 t3 d4] \<open>b\<close> by simp
  then have "db_semaphore d6 = 0" "\<exists>t'. db_file d6 = Some t'"
    using d6 \<open>c\<close> by (auto simp: d5_def in_tx_def Database_commitTransaction_def sql_commit_def Let_def
        split: answer.splits)
  ultimately show ?thesis using k1 by simp
qed

text \<open>
  C9. Changing the master key, of a metadata database that is closed, as \<open>lock\<close> leaves it, or open outside any
  transaction, as the daemon has it when it has unlocked it before: when
  \<open>MetadataDatabase_reencrypt\<close> reports success, the old key given was the one the file was encrypted under, and once the
  database is locked again it can be unlocked with the new key only. The engine may refuse what it likes.
\<close>

theorem master_key_change:
  assumes "db_file d = Some t" and "db_semaphore d = 0" and "db_isOpen d \<longrightarrow> db_work d = None"
    and "MetadataDatabase_reencrypt old new d = (r, d1)" and "succeeded r"
    and "MetadataDatabase_unlock key (snd (MetadataDatabase_lock d1)) = (r2, d2)" and "succeeded r2"
  shows "old = db_fileKey d \<and> key = new"
proof -
  from reencrypt_success [OF assms(1-5)] obtain t' where
    d1: "old = db_fileKey d" "db_fileKey d1 = new" "db_semaphore d1 = 0" "db_file d1 = Some t'" by blast
  let ?d = "snd (MetadataDatabase_lock d1)"
  have c: "db_file ?d = Some t'" "\<not> db_isOpen ?d" "db_semaphore ?d = 0" "db_fileKey ?d = new"
    using d1 by (simp_all add: MetadataDatabase_lock_def Database_close_def)
  obtain ok d3 where o: "MetadataDatabase_openDatabase key ?d = (ok, d3)"
    by (cases "MetadataDatabase_openDatabase key ?d")
  have "ok" using assms(6,7) c(2) o by (auto simp: MetadataDatabase_unlock_def split: if_splits)
  with openDatabase_existing [OF o c(1-3)] c(4) d1 show ?thesis by (auto split: if_splits)
qed

definition demo_locked :: metadata_db where
  "demo_locked = (snd (MetadataDatabase_lock demo_md))\<lparr>db_fileKey := replicate 64 CHR ''a''\<rparr>"

text \<open>The way the daemon takes: the database is unlocked first, and then the key is changed.\<close>

definition demo_relocked :: metadata_db where
  "demo_relocked = snd (MetadataDatabase_unlock (replicate 64 CHR ''a'') demo_locked)"

theorem master_key_change_witness:
  "db_isOpen demo_relocked
   \<and> (let (r, d1) = MetadataDatabase_reencrypt (replicate 64 CHR ''a'') (replicate 64 CHR ''b'') demo_relocked
      in succeeded r \<and> \<not> succeeded (fst (MetadataDatabase_unlock (replicate 64 CHR ''a'')
                                               (snd (MetadataDatabase_lock d1))))
         \<and> succeeded (fst (MetadataDatabase_unlock (replicate 64 CHR ''b'') (snd (MetadataDatabase_lock d1)))))"
proof -
  let ?a = "replicate 64 CHR ''a''" and ?b = "replicate 64 CHR ''b''"
  obtain r d1 where r: "MetadataDatabase_reencrypt ?a ?b demo_relocked = (r, d1)" by fastforce
  have "map_option (\<lambda>t. ()) (db_file demo_relocked) = Some () \<and> db_semaphore demo_relocked = 0
      \<and> (db_isOpen demo_relocked \<longrightarrow> db_work demo_relocked = None) \<and> db_isOpen demo_relocked" by code_simp
  then obtain t where t: "db_file demo_relocked = Some t" "db_semaphore demo_relocked = 0"
    "db_isOpen demo_relocked \<longrightarrow> db_work demo_relocked = None" "db_isOpen demo_relocked" by auto
  have s: "succeeded (fst (MetadataDatabase_reencrypt ?a ?b demo_relocked))
      \<and> succeeded (fst (MetadataDatabase_unlock ?b (snd (MetadataDatabase_lock
           (snd (MetadataDatabase_reencrypt ?a ?b demo_relocked))))))" by code_simp
  have "?a \<noteq> ?b" by code_simp
  with master_key_change [OF t(1-3) r _ prod.collapse [symmetric], of ?a] s r t(4)
  show ?thesis by auto
qed

lemma reopening_openDatabase:
  assumes "reopening t key d" and "\<not> db_isOpen d" and "standalone \<in> collection_set t"
  shows "\<exists>d'. MetadataDatabase_openDatabase key d = (True, d') \<and> idle d' \<and> db_file d' = Some t \<and> engine_ready d'"
proof -
  from reopening_open [OF assms(1,2)] obtain d1 where
    d1: "Database_open key 6 2 empty_metadata_tables [] 1 d = (True, d1)" "idle d1" "db_file d1 = Some t"
      "engine_ready d1" by blast
  let ?g = "sql_select (\<lambda>t. map c_CollectionName (t_Collections t))"
  obtain x d2 where x: "md_query selectCollectionNamesQuery ?g d1 = (x, d2)"
    by (cases "md_query selectCollectionNamesQuery ?g d1")
  have "db_readable d1" "db_view d1 = Some t" using d1(2,3) by (simp_all add: idle_def db_view_def)
  from md_query_ready [OF d1(4) this, of selectCollectionNamesQuery ?g] x have
    x2: "x = Some (map c_CollectionName (t_Collections t))" "engine_ready d2" by (simp_all add: sql_select_def)
  with md_query_idle [OF d1(2,3) x] have "idle d2" "db_file d2 = Some t" by (auto simp: sql_select_def)
  with d1 x x2 assms(3) show ?thesis
    by (auto simp: MetadataDatabase_openDatabase_def MetadataDatabase_collectionNames_def collection_set_def)
qed

end
