(* ===== verification/Sqlite_Plugin.thy ===== *)
theory Sqlite_Plugin
  imports Transactions Storage_Plugin
begin

section \<open>The SQLite storage plugin\<close>

text \<open>
  \<^verbatim>\<open>Daemon::Plugins::SqlitePlugin\<close> (src/plugins/sqliteplugin/plugin.cpp,
  sqlitedatabase_p.h): collections, secrets and the field-value pairs secrets are found by, in three
  tables. The foreign keys cascade, so deleting a collection deletes its secrets and their
  filter data. The timestamp column, which no statement reads, is left out.

  The theory gives every operation of the plugin, shows that the plugin meets the contract
  of \<open>Storage_Plugin\<close>, and shows where its transaction handling leaves the
  connection unusable after a refused request.
\<close>

subsection \<open>Tables and statements\<close>

record SqliteSecretsRow =
  q_CollectionName :: qstring
  q_SecretName :: qstring
  q_Secret :: qbytes

record SqliteFilterRow =
  f_CollectionName :: qstring
  f_SecretName :: qstring
  f_Field :: qstring
  f_Value :: qstring

record sqlite_tables =
  st_Collections :: "qstring list"
  st_Secrets :: "SqliteSecretsRow list"
  st_FilterData :: "SqliteFilterRow list"

datatype sqlite_stmt =
    sq_selectCollectionNames | sq_selectCollectionsCount | sq_insertCollection | sq_deleteCollection
  | sq_selectSecretsCount | sq_updateSecret | sq_insertSecret | sq_deleteFilterData
  | sq_insertFilterData | sq_selectSecret | sq_selectSecretFilterData | sq_selectSecretNames
  | sq_selectCollectionFilterData | sq_deleteSecret | sq_selectStandaloneSecrets | sq_selectSecrets

type_synonym sqlite_db = "(sqlite_stmt, sqlite_tables) database"

abbreviation q_key :: "SqliteSecretsRow \<Rightarrow> qstring \<times> qstring" where
  "q_key r \<equiv> (q_CollectionName r, q_SecretName r)"

abbreviation f_key :: "SqliteFilterRow \<Rightarrow> qstring \<times> qstring" where
  "f_key r \<equiv> (f_CollectionName r, f_SecretName r)"

definition sqlite_empty :: sqlite_tables where
  "sqlite_empty = \<lparr>st_Collections = [], st_Secrets = [], st_FilterData = []\<rparr>"

definition sqlite_insertCollection :: "qstring \<Rightarrow> sqlite_tables \<Rightarrow> (unit \<times> sqlite_tables) option" where
  "sqlite_insertCollection c t =
     (if c \<in> set (st_Collections t) then None
      else Some ((), t\<lparr>st_Collections := st_Collections t @ [c]\<rparr>))"

definition sqlite_deleteCollection :: "qstring \<Rightarrow> sqlite_tables \<Rightarrow> (unit \<times> sqlite_tables) option" where
  "sqlite_deleteCollection c t =
     Some ((), if c \<in> set (st_Collections t)
               then t\<lparr>st_Collections := filter (\<lambda>x. x \<noteq> c) (st_Collections t),
                      st_Secrets := filter (\<lambda>r. q_CollectionName r \<noteq> c) (st_Secrets t),
                      st_FilterData := filter (\<lambda>r. f_CollectionName r \<noteq> c) (st_FilterData t)\<rparr>
               else t)"

definition sqlite_insertSecret ::
    "qstring \<Rightarrow> qstring \<Rightarrow> qbytes \<Rightarrow> sqlite_tables \<Rightarrow> (unit \<times> sqlite_tables) option" where
  "sqlite_insertSecret c n x t =
     (if c \<notin> set (st_Collections t) \<or> (c, n) \<in> q_key ` set (st_Secrets t) then None
      else Some ((), t\<lparr>st_Secrets := st_Secrets t @
              [\<lparr>q_CollectionName = c, q_SecretName = n, q_Secret = x\<rparr>]\<rparr>))"

definition sqlite_updateSecret ::
    "qstring \<Rightarrow> qstring \<Rightarrow> qbytes \<Rightarrow> sqlite_tables \<Rightarrow> (unit \<times> sqlite_tables) option" where
  "sqlite_updateSecret c n x t =
     Some ((), t\<lparr>st_Secrets := map (\<lambda>r. if q_key r = (c, n) then r\<lparr>q_Secret := x\<rparr> else r) (st_Secrets t)\<rparr>)"

definition sqlite_deleteSecret ::
    "qstring \<Rightarrow> qstring \<Rightarrow> sqlite_tables \<Rightarrow> (unit \<times> sqlite_tables) option" where
  "sqlite_deleteSecret c n t =
     Some ((), if (c, n) \<in> q_key ` set (st_Secrets t)
               then t\<lparr>st_Secrets := filter (\<lambda>r. q_key r \<noteq> (c, n)) (st_Secrets t),
                      st_FilterData := filter (\<lambda>r. f_key r \<noteq> (c, n)) (st_FilterData t)\<rparr>
               else t)"

definition sqlite_deleteFilterData ::
    "qstring \<Rightarrow> qstring \<Rightarrow> sqlite_tables \<Rightarrow> (unit \<times> sqlite_tables) option" where
  "sqlite_deleteFilterData c n t =
     Some ((), t\<lparr>st_FilterData := filter (\<lambda>r. f_key r \<noteq> (c, n)) (st_FilterData t)\<rparr>)"

definition sqlite_insertFilterData ::
    "qstring \<Rightarrow> qstring \<Rightarrow> qstring \<times> qstring \<Rightarrow> sqlite_tables \<Rightarrow> (unit \<times> sqlite_tables) option" where
  "sqlite_insertFilterData c n e t =
     (if (c, n) \<notin> q_key ` set (st_Secrets t)
         \<or> (c, n, fst e) \<in> (\<lambda>r. (f_CollectionName r, f_SecretName r, f_Field r)) ` set (st_FilterData t)
      then None
      else Some ((), t\<lparr>st_FilterData := st_FilterData t @
              [\<lparr>f_CollectionName = c, f_SecretName = n, f_Field = fst e, f_Value = snd e\<rparr>]\<rparr>))"

subsection \<open>Opening\<close>

text \<open>
  Five setup statements and three tables. The reserved collection is added every time the
  database is opened; where it exists already the statement fails and is rolled back. A
  query that could not be prepared fails when it is executed.
\<close>

definition SqlitePlugin_openDatabaseIfNecessary :: "sqlite_db \<Rightarrow> sqlite_db" where
  "SqlitePlugin_openDatabaseIfNecessary d =
     (if db_isOpen d then d
      else let (opened, d1) = Database_open [] 5 3 sqlite_empty [] 1 d
           in if \<not> opened then d1
              else let (prepared, d2) = Database_prepare sq_insertCollection d1;
                       (begun, d3) = Database_beginTransaction d2
                   in if \<not> begun then d3
                      else if \<not> prepared then rollback_db d3
                      else case Database_execute (sqlite_insertCollection standalone) d3 of
                             (Some _, d4) \<Rightarrow> commit_db d4
                           | (None, d4) \<Rightarrow> rollback_db d4)"

subsection \<open>Operations\<close>

definition SqlitePlugin_collectionNames :: "sqlite_db \<Rightarrow> Result \<times> qstring list \<times> sqlite_db" where
  "SqlitePlugin_collectionNames d =
     (let d0 = SqlitePlugin_openDatabaseIfNecessary d;
          (prepared, d1) = Database_prepare sq_selectCollectionNames d0
      in if \<not> prepared then (failure DatabaseQueryError, [], d1)
         else case Database_execute (sql_select st_Collections) d1 of
                (None, d2) \<Rightarrow> (failure DatabaseQueryError, [], rollback_db d2)
              | (Some cnames, d2) \<Rightarrow> (success, filter (\<lambda>c. c \<noteq> standalone) cnames, d2))"

definition SqlitePlugin_createCollection :: "qstring \<Rightarrow> sqlite_db \<Rightarrow> Result \<times> sqlite_db" where
  "SqlitePlugin_createCollection collectionName d =
     (let d0 = SqlitePlugin_openDatabaseIfNecessary d
      in if collectionName = [] then (failure InvalidCollectionError, d0)
         else if same_ignoring_case collectionName standalone then (failure InvalidCollectionError, d0)
         else let (prepared, d1) = Database_prepare sq_selectCollectionsCount d0
         in if \<not> prepared then (failure DatabaseQueryError, d1)
         else let (begun, d2) = Database_beginTransaction d1
         in if \<not> begun then (failure DatabaseTransactionError, d2)
         else case Database_execute (sql_select (\<lambda>t. length (filter (\<lambda>x. x = collectionName) (st_Collections t)))) d2 of
           (None, d3) \<Rightarrow> query_failed d3
         | (Some n, d3) \<Rightarrow>
             if n > 0 then (failure CollectionAlreadyExistsError, rollback_db d3)
             else let (prepared2, d4) = Database_prepare sq_insertCollection d3
             in if \<not> prepared2 then query_failed d4
             else case Database_execute (sqlite_insertCollection collectionName) d4 of
               (None, d5) \<Rightarrow> query_failed d5
             | (Some _, d5) \<Rightarrow> commit_result d5)"

definition SqlitePlugin_removeCollection :: "qstring \<Rightarrow> sqlite_db \<Rightarrow> Result \<times> sqlite_db" where
  "SqlitePlugin_removeCollection collectionName d =
     (let d0 = SqlitePlugin_openDatabaseIfNecessary d
      in if collectionName = [] then (failure InvalidCollectionError, d0)
         else if same_ignoring_case collectionName standalone then (failure InvalidCollectionError, d0)
         else let (prepared, d1) = Database_prepare sq_deleteCollection d0
         in if \<not> prepared then (failure DatabaseQueryError, d1)
         else let (begun, d2) = Database_beginTransaction d1
         in if \<not> begun then (failure DatabaseTransactionError, d2)
         else case Database_execute (sqlite_deleteCollection collectionName) d2 of
           (None, d3) \<Rightarrow> query_failed d3
         | (Some _, d3) \<Rightarrow> commit_result d3)"

definition SqlitePlugin_setSecret ::
    "qstring \<Rightarrow> qstring \<Rightarrow> qbytes \<Rightarrow> filter_data \<Rightarrow> sqlite_db \<Rightarrow> Result \<times> sqlite_db" where
  "SqlitePlugin_setSecret collectionName secretName secret filterData d =
     (let d0 = SqlitePlugin_openDatabaseIfNecessary d
      in if secretName = [] then (failure InvalidSecretError, d0)
         else if collectionName = [] then (failure InvalidCollectionError, d0)
         else let (prepared, d1) = Database_prepare sq_selectSecretsCount d0
         in if \<not> prepared then (failure DatabaseQueryError, d1)
         else let (begun, d2) = Database_beginTransaction d1
         in if \<not> begun then (failure DatabaseTransactionError, d2)
         else case Database_execute (sql_select (\<lambda>t. length (filter (\<lambda>r. q_key r = (collectionName, secretName)) (st_Secrets t)))) d2 of
           (None, d3) \<Rightarrow> query_failed d3
         | (Some count, d3) \<Rightarrow>
             let found = count > 0;
                 (prepared2, d4) = Database_prepare (if found then sq_updateSecret else sq_insertSecret) d3
             in if \<not> prepared2 then query_failed d4
             else case Database_execute
                   (if found then sqlite_updateSecret collectionName secretName secret
                    else sqlite_insertSecret collectionName secretName secret) d4 of
               (None, d5) \<Rightarrow> query_failed d5
             | (Some _, d5) \<Rightarrow>
                 let (prepared3, d6) = Database_prepare sq_deleteFilterData d5
                 in if \<not> prepared3 then query_failed d6
                 else case Database_execute (sqlite_deleteFilterData collectionName secretName) d6 of
                   (None, d7) \<Rightarrow> query_failed d7
                 | (Some _, d7) \<Rightarrow>
                     let (prepared4, d8) = Database_prepare sq_insertFilterData d7
                     in if \<not> prepared4 then query_failed d8
                     else let (inserted, d9) =
                            run_statements (map (sqlite_insertFilterData collectionName secretName) filterData) d8
                          in if \<not> inserted then query_failed d9 else commit_result d9)"

text \<open>
  \<open>getSecret\<close> returns from inside the transaction when the query for the filter data cannot be
  prepared.
\<close>

definition SqlitePlugin_getSecret ::
    "qstring \<Rightarrow> qstring \<Rightarrow> sqlite_db \<Rightarrow> Result \<times> (qbytes \<times> filter_data) option \<times> sqlite_db" where
  "SqlitePlugin_getSecret collectionName secretName d =
     (let d0 = SqlitePlugin_openDatabaseIfNecessary d
      in if secretName = [] then (failure InvalidSecretError, None, d0)
         else if collectionName = [] then (failure InvalidCollectionError, None, d0)
         else let (prepared, d1) = Database_prepare sq_selectSecret d0
         in if \<not> prepared then (failure DatabaseQueryError, None, d1)
         else let (begun, d2) = Database_beginTransaction d1
         in if \<not> begun then (failure DatabaseTransactionError, None, d2)
         else case Database_execute (sql_select (\<lambda>t. find (\<lambda>r. q_key r = (collectionName, secretName)) (st_Secrets t))) d2 of
           (None, d3) \<Rightarrow> (failure DatabaseQueryError, None, rollback_db d3)
         | (Some None, d3) \<Rightarrow>
             let (r, d4) = commit_result d3
             in if \<not> succeeded r then (r, None, d4) else (failure InvalidSecretError, None, d4)
         | (Some (Some row), d3) \<Rightarrow>
             let (prepared2, d4) = Database_prepare sq_selectSecretFilterData d3
             in if \<not> prepared2 then (failure DatabaseQueryError, None, d4)
             else case Database_execute (sql_select (\<lambda>t. filter (\<lambda>r. f_key r = (collectionName, secretName)) (st_FilterData t))) d4 of
               (None, d5) \<Rightarrow> (failure DatabaseQueryError, None, rollback_db d5)
             | (Some rows, d5) \<Rightarrow>
                 let fd = fold (\<lambda>r. qmap_insert (f_Field r) (f_Value r)) rows [];
                     (r, d6) = commit_result d5
                 in if \<not> succeeded r then (r, None, d6) else (success, Some (q_Secret row, fd), d6))"

definition SqlitePlugin_secretNames :: "qstring \<Rightarrow> sqlite_db \<Rightarrow> Result \<times> qstring list \<times> sqlite_db" where
  "SqlitePlugin_secretNames collectionName d =
     (let d0 = SqlitePlugin_openDatabaseIfNecessary d;
          (prepared, d1) = Database_prepare sq_selectSecretNames d0
      in if \<not> prepared then (failure DatabaseQueryError, [], d1)
         else case Database_execute (sql_select (\<lambda>t. map q_SecretName (filter (\<lambda>r. q_CollectionName r = collectionName) (st_Secrets t)))) d1 of
                (None, d2) \<Rightarrow> (failure DatabaseQueryError, [], rollback_db d2)
              | (Some names, d2) \<Rightarrow> (success, names, d2))"

text \<open>The in-memory filter of \<open>findSecrets\<close>: the loop over the filter, with its early exit.\<close>

fun sqlite_matches :: "FilterOperator \<Rightarrow> filter_data \<Rightarrow> filter_data \<Rightarrow> bool \<Rightarrow> bool" where
  "sqlite_matches filterOperator [] currFilterData matches = matches"
| "sqlite_matches filterOperator ((k, v) # fs) currFilterData matches =
     (case find (\<lambda>m. same_ignoring_case k (fst m)) currFilterData of
        None \<Rightarrow>
          if filterOperator = OperatorAnd then False
          else sqlite_matches filterOperator fs currFilterData matches
      | Some m \<Rightarrow>
          sqlite_matches filterOperator fs currFilterData
            (if same_ignoring_case v (snd m)
             then (if filterOperator = OperatorOr then True else matches)
             else (if filterOperator = OperatorAnd then False else matches)))"

definition filter_data_map :: "SqliteFilterRow list \<Rightarrow> (qstring \<times> filter_data) list" where
  "filter_data_map rows =
     fold (\<lambda>r m. qmap_insert (f_SecretName r)
             (qmap_insert (f_Field r) (f_Value r) (qmap_value m (f_SecretName r) [])) m) rows []"

definition SqlitePlugin_findSecrets ::
    "qstring \<Rightarrow> filter_data \<Rightarrow> FilterOperator \<Rightarrow> sqlite_db \<Rightarrow> Result \<times> qstring list \<times> sqlite_db" where
  "SqlitePlugin_findSecrets collectionName flt filterOperator d =
     (let d0 = SqlitePlugin_openDatabaseIfNecessary d
      in if collectionName = [] then (failure InvalidCollectionError, [], d0)
         else if flt = [] then (failure InvalidFilterError, [], d0)
         else let (prepared, d1) = Database_prepare sq_selectCollectionFilterData d0
         in if \<not> prepared then (failure DatabaseQueryError, [], d1)
         else let (begun, d2) = Database_beginTransaction d1
         in if \<not> begun then (failure DatabaseTransactionError, [], d2)
         else case Database_execute (sql_select (\<lambda>t. filter (\<lambda>r. f_CollectionName r = collectionName) (st_FilterData t))) d2 of
           (None, d3) \<Rightarrow> (failure DatabaseQueryError, [], rollback_db d3)
         | (Some rows, d3) \<Rightarrow>
             let names = map fst (filter (\<lambda>e. sqlite_matches filterOperator flt (snd e) (filterOperator \<noteq> OperatorOr))
                                    (filter_data_map rows));
                 (r, d4) = commit_result d3
             in (r, names, d4))"

definition SqlitePlugin_removeSecret :: "qstring \<Rightarrow> qstring \<Rightarrow> sqlite_db \<Rightarrow> Result \<times> sqlite_db" where
  "SqlitePlugin_removeSecret collectionName secretName d =
     (let d0 = SqlitePlugin_openDatabaseIfNecessary d
      in if secretName = [] then (failure InvalidSecretError, d0)
         else if collectionName = [] then (failure InvalidCollectionError, d0)
         else let (prepared, d1) = Database_prepare sq_deleteSecret d0
         in if \<not> prepared then (failure DatabaseQueryError, d1)
         else let (begun, d2) = Database_beginTransaction d1
         in if \<not> begun then (failure DatabaseTransactionError, d2)
         else case Database_execute (sqlite_deleteSecret collectionName secretName) d2 of
           (None, d3) \<Rightarrow> query_failed d3
         | (Some _, d3) \<Rightarrow> commit_result d3)"

text \<open>
  \<open>reencrypt\<close> decrypts every selected secret with the old key and encrypts it with the new one before it
  writes any of them back, one update per secret.
\<close>

primrec reencrypt_rows ::
    "EncryptionPlugin \<Rightarrow> qbytes \<Rightarrow> qbytes \<Rightarrow> SqliteSecretsRow list
     \<Rightarrow> Result + (qstring \<times> qstring \<times> qbytes) list" where
  "reencrypt_rows e oldkey newkey [] = Inr []"
| "reencrypt_rows e oldkey newkey (row # rows) =
     (let (r, plaintext) = ep_decryptSecret e (q_Secret row) oldkey
      in if \<not> succeeded r then Inl r
         else let (r2, newEncrypted) = ep_encryptSecret e plaintext newkey
              in if \<not> succeeded r2 then Inl r2
                 else case reencrypt_rows e oldkey newkey rows of
                        Inl r3 \<Rightarrow> Inl r3
                      | Inr us \<Rightarrow> Inr ((q_CollectionName row, q_SecretName row, newEncrypted) # us))"

definition SqlitePlugin_reencrypt ::
    "qstring \<Rightarrow> qstring \<Rightarrow> qbytes \<Rightarrow> qbytes \<Rightarrow> EncryptionPlugin \<Rightarrow> sqlite_db \<Rightarrow> Result \<times> sqlite_db" where
  "SqlitePlugin_reencrypt collectionName secretName oldkey newkey plugin d =
     (let d0 = SqlitePlugin_openDatabaseIfNecessary d
      in if collectionName = [] \<and> secretName = [] then (failure InvalidSecretError, d0)
         else let (stmt, select) =
                (if collectionName = []
                 then (sq_selectStandaloneSecrets, \<lambda>r. q_key r = (standalone, secretName))
                 else (sq_selectSecrets, \<lambda>r. q_CollectionName r = collectionName));
              (prepared, d1) = Database_prepare stmt d0
         in if \<not> prepared then (failure DatabaseQueryError, d1)
         else let (begun, d2) = Database_beginTransaction d1
         in if \<not> begun then (failure DatabaseTransactionError, d2)
         else case Database_execute (sql_select (\<lambda>t. filter select (st_Secrets t))) d2 of
           (None, d3) \<Rightarrow> query_failed d3
         | (Some rows, d3) \<Rightarrow>
             (case reencrypt_rows plugin oldkey newkey rows of
                Inl r \<Rightarrow> (r, rollback_db d3)
              | Inr us \<Rightarrow>
                  let (prepared2, d4) = Database_prepare sq_updateSecret d3
                  in if \<not> prepared2 then query_failed d4
                  else let (updated, d5) =
                         run_statements (map (\<lambda>(c, n, x). sqlite_updateSecret c n x) us) d4
                       in if \<not> updated then query_failed d5 else commit_result d5))"

text \<open>
  The plugin as the daemon sees it. It does not override the lock operations of the base
  class (src/lib/Secrets/Plugins/extensionplugins.cpp): it is never locked, and locking fails.
\<close>

definition sqlite_plugin :: "sqlite_db StoragePlugin" where
  "sqlite_plugin =
     \<lparr>pb_supportsLocking = (\<lambda>_. False),
      pb_isAvailable = (\<lambda>_. True),
      pb_isLocked = (\<lambda>_. False),
      pb_lock = (\<lambda>s. (False, s)),
      pb_unlock = (\<lambda>_ s. (False, s)),
      pb_setLockCode = (\<lambda>_ _ s. (False, s)),
      sp_collectionNames = SqlitePlugin_collectionNames,
      sp_createCollection = SqlitePlugin_createCollection,
      sp_removeCollection = SqlitePlugin_removeCollection,
      sp_setSecret = SqlitePlugin_setSecret,
      sp_getSecret = SqlitePlugin_getSecret,
      sp_secretNames = SqlitePlugin_secretNames,
      sp_findSecrets = SqlitePlugin_findSecrets,
      sp_removeSecret = SqlitePlugin_removeSecret,
      sp_reencrypt = SqlitePlugin_reencrypt\<rparr>"

subsection \<open>What the tables store\<close>

definition filter_data_of :: "sqlite_tables \<Rightarrow> qstring \<times> qstring \<Rightarrow> filter_data" where
  "filter_data_of t i =
     fold (\<lambda>r. qmap_insert (f_Field r) (f_Value r)) (filter (\<lambda>r. f_key r = i) (st_FilterData t)) []"

definition tables_stored :: "sqlite_tables \<Rightarrow> qstring \<times> qstring \<rightharpoonup> qbytes \<times> filter_data" where
  "tables_stored t i =
     map_option (\<lambda>r. (q_Secret r, filter_data_of t i)) (find (\<lambda>r. q_key r = i) (st_Secrets t))"

abbreviation field_key :: "SqliteFilterRow \<Rightarrow> (qstring \<times> qstring) \<times> qstring" where
  "field_key r \<equiv> (f_key r, f_Field r)"

definition sqlite_wf :: "sqlite_tables \<Rightarrow> bool" where
  "sqlite_wf t \<longleftrightarrow>
     distinct (st_Collections t)
     \<and> distinct (map q_key (st_Secrets t))
     \<and> distinct (map field_key (st_FilterData t))
     \<and> set (map q_CollectionName (st_Secrets t)) \<subseteq> set (st_Collections t)
     \<and> set (map f_key (st_FilterData t)) \<subseteq> set (map q_key (st_Secrets t))
     \<and> list_all (\<lambda>c. hidden c \<longrightarrow> c = standalone) (st_Collections t)"

definition sqlite_ready :: "sqlite_db \<Rightarrow> bool" where
  "sqlite_ready d \<longleftrightarrow> idle d \<and> (case db_file d of None \<Rightarrow> False | Some t \<Rightarrow> sqlite_wf t)"

definition sqlite_collections :: "sqlite_db \<Rightarrow> qstring set" where
  "sqlite_collections d = (case db_file d of None \<Rightarrow> {} | Some t \<Rightarrow> set (st_Collections t))"

definition sqlite_stored :: "sqlite_db \<Rightarrow> qstring \<times> qstring \<rightharpoonup> qbytes \<times> filter_data" where
  "sqlite_stored d = (case db_file d of None \<Rightarrow> Map.empty | Some t \<Rightarrow> tables_stored t)"

lemma sqlite_readyE:
  assumes "sqlite_ready d"
  obtains t where "idle d" and "db_file d = Some t" and "sqlite_wf t"
  using assms by (auto simp: sqlite_ready_def split: option.splits)

lemma sqlite_readyI: "idle d \<Longrightarrow> db_file d = Some t \<Longrightarrow> sqlite_wf t \<Longrightarrow> sqlite_ready d"
  by (simp add: sqlite_ready_def)

lemma sqlite_views [simp]:
  "db_file d = Some t \<Longrightarrow> sqlite_collections d = set (st_Collections t)"
  "db_file d = Some t \<Longrightarrow> sqlite_stored d = tables_stored t"
  by (simp_all add: sqlite_collections_def sqlite_stored_def)

lemma dom_tables_stored: "i \<in> dom (tables_stored t) \<longleftrightarrow> i \<in> q_key ` set (st_Secrets t)"
proof -
  have "tables_stored t i = None \<longleftrightarrow> i \<notin> q_key ` set (st_Secrets t)"
    unfolding tables_stored_def using find_None_iff_key [of q_key i "st_Secrets t"] by simp
  then show ?thesis by auto
qed

lemma tables_stored_None: "tables_stored t i = None \<longleftrightarrow> i \<notin> q_key ` set (st_Secrets t)"
  using dom_tables_stored [of i t] by auto

text \<open>Finding the row of a key in a filtered, extended or updated table.\<close>

lemma find_filter_key:
  assumes "\<And>x. x \<in> set xs \<Longrightarrow> k x = i \<Longrightarrow> P x"
  shows "find (\<lambda>x. k x = i) (filter P xs) = find (\<lambda>x. k x = i) xs"
  using assms by (induction xs) auto

lemma find_map_key:
  assumes "\<And>x. k (f x) = k x"
  shows "find (\<lambda>x. k x = i) (map f xs) = map_option f (find (\<lambda>x. k x = i) xs)"
  using assms by (induction xs) auto

lemma find_append_other: "k y \<noteq> i \<Longrightarrow> find (\<lambda>x. k x = i) (xs @ [y]) = find (\<lambda>x. k x = i) xs"
  by (induction xs) auto

lemma filter_data_of_cong:
  "filter (\<lambda>r. f_key r = i) (st_FilterData t) = filter (\<lambda>r. f_key r = i) (st_FilterData t')
   \<Longrightarrow> filter_data_of t i = filter_data_of t' i"
  unfolding filter_data_of_def by simp

lemma stored_cong:
  assumes "find (\<lambda>r. q_key r = i) (st_Secrets t') = find (\<lambda>r. q_key r = i) (st_Secrets t)"
    and "filter (\<lambda>r. f_key r = i) (st_FilterData t') = filter (\<lambda>r. f_key r = i) (st_FilterData t)"
  shows "tables_stored t' i = tables_stored t i"
  unfolding tables_stored_def assms(1) filter_data_of_cong [OF assms(2)] ..

subsection \<open>What the statements do\<close>

lemma sqlite_insertCollection_effect:
  assumes "sqlite_insertCollection c t = Some (u, t')"
  shows "set (st_Collections t') = insert c (set (st_Collections t))"
    "tables_stored t' = tables_stored t" "sqlite_wf t \<Longrightarrow> hidden c \<longrightarrow> c = standalone \<Longrightarrow> sqlite_wf t'"
proof -
  have t': "t' = t\<lparr>st_Collections := st_Collections t @ [c]\<rparr>" and n: "c \<notin> set (st_Collections t)"
    using assms by (auto simp: sqlite_insertCollection_def split: if_splits)
  show "set (st_Collections t') = insert c (set (st_Collections t))" by (simp add: t')
  show "tables_stored t' = tables_stored t" by (rule ext) (rule stored_cong; simp add: t')
  show "sqlite_wf t \<Longrightarrow> hidden c \<longrightarrow> c = standalone \<Longrightarrow> sqlite_wf t'" using n by (auto simp: t' sqlite_wf_def)
qed

lemma sqlite_deleteCollection_effect:
  assumes "sqlite_deleteCollection c t = Some (u, t')" and "sqlite_wf t"
  shows "set (st_Collections t') = set (st_Collections t) - {c}"
    "tables_stored t' = tables_stored t |` {i. fst i \<noteq> c}" "sqlite_wf t'"
proof -
  have sub: "\<And>r. r \<in> set (st_Secrets t) \<Longrightarrow> q_CollectionName r \<in> set (st_Collections t)"
    "\<And>r. r \<in> set (st_FilterData t) \<Longrightarrow> f_key r \<in> q_key ` set (st_Secrets t)"
    using assms(2) by (auto simp: sqlite_wf_def)
  then have subf: "\<And>r. r \<in> set (st_FilterData t) \<Longrightarrow> f_CollectionName r \<in> set (st_Collections t)"
    by force
  have t': "t' = t\<lparr>st_Collections := filter (\<lambda>x. x \<noteq> c) (st_Collections t),
      st_Secrets := filter (\<lambda>r. q_CollectionName r \<noteq> c) (st_Secrets t),
      st_FilterData := filter (\<lambda>r. f_CollectionName r \<noteq> c) (st_FilterData t)\<rparr>"
    (is "_ = ?t")
  proof (cases "c \<in> set (st_Collections t)")
    case False
    then have "?t = t" using sub(1) subf
      by (intro sqlite_tables.equality) (auto intro!: filter_True)
    with False assms(1) show ?thesis by (simp add: sqlite_deleteCollection_def)
  next
    case True
    with assms(1) show ?thesis by (simp add: sqlite_deleteCollection_def)
  qed
  show "set (st_Collections t') = set (st_Collections t) - {c}" by (auto simp: t')
  show "tables_stored t' = tables_stored t |` {i. fst i \<noteq> c}"
  proof (rule ext)
    fix i :: "qstring \<times> qstring"
    show "tables_stored t' i = (tables_stored t |` {i. fst i \<noteq> c}) i"
    proof (cases "fst i = c")
      case True
      then have "i \<notin> q_key ` set (st_Secrets t')" by (auto simp: t')
      then have "tables_stored t' i = None" by (simp only: tables_stored_None not_False_eq_True)
      with True show ?thesis by (simp add: restrict_map_def)
    next
      case False
      have "tables_stored t' i = tables_stored t i"
      proof (rule stored_cong)
        show "find (\<lambda>r. q_key r = i) (st_Secrets t') = find (\<lambda>r. q_key r = i) (st_Secrets t)"
          unfolding t' by (simp, rule find_filter_key) (use False in auto)
        show "filter (\<lambda>r. f_key r = i) (st_FilterData t') = filter (\<lambda>r. f_key r = i) (st_FilterData t)"
          unfolding t' by (simp, rule filter_cong [OF refl]) (use False in auto)
      qed
      with False show ?thesis by (simp add: restrict_map_def)
    qed
  qed
  have "f_key r \<in> q_key ` {r \<in> set (st_Secrets t). q_CollectionName r \<noteq> c}"
    if "r \<in> set (st_FilterData t)" "f_CollectionName r \<noteq> c" for r
    using sub(2) [OF that(1)] that(2) by auto
  then show "sqlite_wf t'" using assms(2) sub(1)
    by (auto simp: t' sqlite_wf_def distinct_map_filter image_subset_iff list_all_iff)
qed

lemma sqlite_deleteSecret_effect:
  assumes "sqlite_deleteSecret c n t = Some (u, t')" and "sqlite_wf t"
  shows "st_Collections t' = st_Collections t"
    "tables_stored t' = (tables_stored t)((c, n) := None)" "sqlite_wf t'"
proof -
  have sub: "\<And>r. r \<in> set (st_FilterData t) \<Longrightarrow> f_key r \<in> q_key ` set (st_Secrets t)"
    using assms(2) by (auto simp: sqlite_wf_def)
  have t': "t' = t\<lparr>st_Secrets := filter (\<lambda>r. q_key r \<noteq> (c, n)) (st_Secrets t),
      st_FilterData := filter (\<lambda>r. f_key r \<noteq> (c, n)) (st_FilterData t)\<rparr>"
    (is "_ = ?t")
  proof (cases "(c, n) \<in> q_key ` set (st_Secrets t)")
    case False
    have a: "filter (\<lambda>r. q_key r \<noteq> (c, n)) (st_Secrets t) = st_Secrets t"
      by (rule filter_True) (use False in force)
    have b: "filter (\<lambda>r. f_key r \<noteq> (c, n)) (st_FilterData t) = st_FilterData t"
      by (rule filter_True) (use False sub in force)
    show ?thesis unfolding a b using False assms(1) by (simp add: sqlite_deleteSecret_def)
  next
    case True
    with assms(1) show ?thesis by (simp add: sqlite_deleteSecret_def)
  qed
  show "st_Collections t' = st_Collections t" by (simp add: t')
  show "tables_stored t' = (tables_stored t)((c, n) := None)"
  proof (rule ext)
    fix i :: "qstring \<times> qstring"
    show "tables_stored t' i = ((tables_stored t)((c, n) := None)) i"
    proof (cases "i = (c, n)")
      case True
      then have "i \<notin> q_key ` set (st_Secrets t')" by (auto simp: t')
      then have "tables_stored t' i = None" by (simp only: tables_stored_None not_False_eq_True)
      with True show ?thesis by simp
    next
      case False
      have "tables_stored t' i = tables_stored t i"
      proof (rule stored_cong)
        show "find (\<lambda>r. q_key r = i) (st_Secrets t') = find (\<lambda>r. q_key r = i) (st_Secrets t)"
          unfolding t' by (simp del: Pair_inject prod.inject, rule find_filter_key) (use False in auto)
        show "filter (\<lambda>r. f_key r = i) (st_FilterData t') = filter (\<lambda>r. f_key r = i) (st_FilterData t)"
          unfolding t' by (simp del: prod.inject, rule filter_cong [OF refl]) (use False in auto)
      qed
      with False show ?thesis by simp
    qed
  qed
  have "f_key r \<in> q_key ` {r \<in> set (st_Secrets t). q_key r \<noteq> (c, n)}"
    if "r \<in> set (st_FilterData t)" "f_key r \<noteq> (c, n)" for r
    using sub [OF that(1)] that(2) by auto
  then show "sqlite_wf t'" using assms(2)
    by (auto simp: t' sqlite_wf_def distinct_map_filter image_subset_iff)
qed

text \<open>
  The statements of \<open>setSecret\<close>, as one change of the tables: the secret is written, the old filter
  data goes and the new filter data is added.
\<close>

definition write_secret :: "qstring \<Rightarrow> qstring \<Rightarrow> qbytes \<Rightarrow> sqlite_tables \<Rightarrow> (unit \<times> sqlite_tables) option" where
  "write_secret c n x t =
     (if (c, n) \<in> q_key ` set (st_Secrets t) then sqlite_updateSecret c n x t else sqlite_insertSecret c n x t)"

lemma write_secret_None:
  "write_secret c n x t = None \<longleftrightarrow> (c, n) \<notin> q_key ` set (st_Secrets t) \<and> c \<notin> set (st_Collections t)"
  unfolding write_secret_def sqlite_updateSecret_def sqlite_insertSecret_def by auto

lemma write_secret_effect:
  assumes "write_secret c n x t = Some (u, t')" and "sqlite_wf t"
  shows "st_Collections t' = st_Collections t" "st_FilterData t' = st_FilterData t"
    "(c, n) \<in> q_key ` set (st_Secrets t')"
    "find (\<lambda>r. q_key r = i) (st_Secrets t') =
       (if i = (c, n) then Some \<lparr>q_CollectionName = c, q_SecretName = n, q_Secret = x\<rparr>
        else find (\<lambda>r. q_key r = i) (st_Secrets t))"
    "sqlite_wf t'"
proof -
  let ?row = "\<lparr>q_CollectionName = c, q_SecretName = n, q_Secret = x\<rparr>"
  let ?upd = "\<lambda>r. if q_key r = (c, n) then r\<lparr>q_Secret := x\<rparr> else r"
  have "st_Collections t' = st_Collections t \<and> st_FilterData t' = st_FilterData t
    \<and> (c, n) \<in> q_key ` set (st_Secrets t')
    \<and> find (\<lambda>r. q_key r = i) (st_Secrets t') =
       (if i = (c, n) then Some ?row else find (\<lambda>r. q_key r = i) (st_Secrets t)) \<and> sqlite_wf t'"
  proof (cases "(c, n) \<in> q_key ` set (st_Secrets t)")
    case True
    then have t': "t' = t\<lparr>st_Secrets := map ?upd (st_Secrets t)\<rparr>"
      using assms(1) unfolding write_secret_def sqlite_updateSecret_def by simp
    have key: "q_key (?upd r) = q_key r" for r by simp
    have keys: "map q_key (st_Secrets t') = map q_key (st_Secrets t)"
      "map q_CollectionName (st_Secrets t') = map q_CollectionName (st_Secrets t)" by (simp_all add: t')
    have "find (\<lambda>r. q_key r = i) (st_Secrets t') = map_option ?upd (find (\<lambda>r. q_key r = i) (st_Secrets t))"
      using find_map_key [where k = q_key and f = ?upd, OF key] unfolding t' by (simp del: prod.inject)
    also have "\<dots> = (if i = (c, n) then Some ?row else find (\<lambda>r. q_key r = i) (st_Secrets t))"
    proof (cases "find (\<lambda>r. q_key r = i) (st_Secrets t)")
      case None
      with True have "i \<noteq> (c, n)" using find_None_iff_key [of q_key i "st_Secrets t"] by blast
      with None show ?thesis by simp
    next
      case (Some r)
      then have "q_key r = i" using find_Some_in [OF Some] by simp
      with Some show ?thesis by (cases r) auto
    qed
    finally have f: "find (\<lambda>r. q_key r = i) (st_Secrets t') =
        (if i = (c, n) then Some ?row else find (\<lambda>r. q_key r = i) (st_Secrets t))" .
    have "(c, n) \<in> q_key ` set (st_Secrets t')" using True arg_cong [OF keys(1), of set] by (simp only: set_map)
    moreover have "st_Collections t' = st_Collections t" "st_FilterData t' = st_FilterData t" by (simp_all add: t')
    moreover from this have "sqlite_wf t'" using assms(2) unfolding sqlite_wf_def keys by simp
    ultimately show ?thesis using f by blast
  next
    case False
    then have t': "t' = t\<lparr>st_Secrets := st_Secrets t @ [?row]\<rparr>" and c: "c \<in> set (st_Collections t)"
      using assms(1) unfolding write_secret_def sqlite_insertSecret_def by (auto split: if_splits)
    have "find (\<lambda>r. q_key r = i) (st_Secrets t @ [?row]) =
        (if i = (c, n) then Some ?row else find (\<lambda>r. q_key r = i) (st_Secrets t))"
    proof (cases "i = (c, n)")
      case True
      have "find (\<lambda>r. q_key r = (c, n)) (st_Secrets t @ [?row]) = Some ?row"
        by (rule find_snoc_fresh [OF False]) simp
      then show ?thesis unfolding True by (simp del: prod.inject)
    next
      case neq: False
      have "find (\<lambda>r. q_key r = i) (st_Secrets t @ [?row]) = find (\<lambda>r. q_key r = i) (st_Secrets t)"
        by (rule find_append_other) (use neq in simp)
      with neq show ?thesis by simp
    qed
    moreover have "sqlite_wf t'" using False c assms(2) by (auto simp: t' sqlite_wf_def image_iff)
    ultimately show ?thesis by (simp add: t')
  qed
  then show "st_Collections t' = st_Collections t" "st_FilterData t' = st_FilterData t"
    "(c, n) \<in> q_key ` set (st_Secrets t')"
    "find (\<lambda>r. q_key r = i) (st_Secrets t') =
       (if i = (c, n) then Some ?row else find (\<lambda>r. q_key r = i) (st_Secrets t))" "sqlite_wf t'"
    by blast+
qed

lemma sqlite_deleteFilterData_effect:
  assumes "sqlite_deleteFilterData c n t = Some (u, t')"
  shows "t' = t\<lparr>st_FilterData := filter (\<lambda>r. f_key r \<noteq> (c, n)) (st_FilterData t)\<rparr>"
    "sqlite_wf t \<Longrightarrow> sqlite_wf t'"
  using assms by (simp_all add: sqlite_deleteFilterData_def)
    (auto simp: sqlite_wf_def distinct_map_filter image_subset_iff)

abbreviation filter_row :: "qstring \<Rightarrow> qstring \<Rightarrow> qstring \<times> qstring \<Rightarrow> SqliteFilterRow" where
  "filter_row c n e \<equiv> \<lparr>f_CollectionName = c, f_SecretName = n, f_Field = fst e, f_Value = snd e\<rparr>"

lemma apply_insertFilterData:
  assumes "apply_statements (map (sqlite_insertFilterData c n) fd) t = Some t'"
  shows "t' = t\<lparr>st_FilterData := st_FilterData t @ map (filter_row c n) fd\<rparr> \<and> (sqlite_wf t \<longrightarrow> sqlite_wf t')"
  using assms
proof (induction fd arbitrary: t)
  case (Cons e fd)
  from Cons.prems obtain s where s: "sqlite_insertFilterData c n e t = Some ((), s)"
    "apply_statements (map (sqlite_insertFilterData c n) fd) s = Some t'"
    by (auto split: option.splits)
  have k: "(c, n) \<in> q_key ` set (st_Secrets t)"
    "(c, n, fst e) \<notin> (\<lambda>r. (f_CollectionName r, f_SecretName r, f_Field r)) ` set (st_FilterData t)"
    and e: "s = t\<lparr>st_FilterData := st_FilterData t @ [filter_row c n e]\<rparr>"
    using s(1) by (auto simp: sqlite_insertFilterData_def split: if_splits)
  have "sqlite_wf t \<longrightarrow> sqlite_wf s"
    using k by (auto simp: e sqlite_wf_def image_iff)
  moreover have "t' = t\<lparr>st_FilterData := st_FilterData t @ map (filter_row c n) (e # fd)\<rparr>"
    using Cons.IH [OF s(2)] by (simp add: e)
  ultimately show ?case using Cons.IH [OF s(2)] by blast
qed simp

lemma apply_insertFilterData_total:
  assumes "(c, n) \<in> q_key ` set (st_Secrets t)" and "distinct (map fst fd)"
    and "\<And>r. r \<in> set (st_FilterData t) \<Longrightarrow> f_key r = (c, n) \<Longrightarrow> f_Field r \<notin> fst ` set fd"
  shows "apply_statements (map (sqlite_insertFilterData c n) fd) t \<noteq> None"
  using assms
proof (induction fd arbitrary: t)
  case (Cons e fd)
  have "(c, n, fst e) \<notin> (\<lambda>r. (f_CollectionName r, f_SecretName r, f_Field r)) ` set (st_FilterData t)"
    using Cons.prems(3) by force
  with Cons.prems(1) have e: "sqlite_insertFilterData c n e t =
      Some ((), t\<lparr>st_FilterData := st_FilterData t @ [filter_row c n e]\<rparr>)"
    by (simp add: sqlite_insertFilterData_def)
  have "apply_statements (map (sqlite_insertFilterData c n) fd)
      (t\<lparr>st_FilterData := st_FilterData t @ [filter_row c n e]\<rparr>) \<noteq> None"
    by (rule Cons.IH) (use Cons.prems in \<open>auto simp: image_iff\<close>)
  with e show ?case by simp
qed simp

lemma qmap_refill:
  assumes "qmap_ok fd"
  shows "fold (\<lambda>e. qmap_insert (fst e) (snd e)) fd [] = fd"
proof (rule qmap_ext [OF _ assms])
  have "qmap_ok m \<Longrightarrow> qmap_ok (fold (\<lambda>e. qmap_insert (fst e) (snd e)) fd m)" for m
    by (induction fd arbitrary: m) simp_all
  then show "qmap_ok (fold (\<lambda>e. qmap_insert (fst e) (snd e)) fd [])" by simp
  have gen: "distinct (map fst fd) \<Longrightarrow>
      map_of (fold (\<lambda>e. qmap_insert (fst e) (snd e)) fd m) = map_of m ++ map_of fd" for m
  proof (induction fd arbitrary: m)
    case (Cons e fd)
    have "map_of fd (fst e) = None" using Cons.prems by (simp add: map_of_eq_None_iff)
    with Cons show ?case by (auto simp: fun_eq_iff map_add_def split: option.splits)
  qed simp
  from gen [OF qmap_ok_distinct [OF assms], of "[]"]
  show "map_of (fold (\<lambda>e. qmap_insert (fst e) (snd e)) fd []) = map_of fd" by simp
qed

lemma set_secret_effect:
  assumes "write_secret c n x t = Some (u1, t1)" and "sqlite_deleteFilterData c n t1 = Some (u2, t2)"
    and "apply_statements (map (sqlite_insertFilterData c n) fd) t2 = Some t3"
    and "sqlite_wf t" and "qmap_ok fd"
  shows "st_Collections t3 = st_Collections t"
    "tables_stored t3 = (tables_stored t)((c, n) \<mapsto> (x, fd))" "sqlite_wf t3"
proof -
  note w = write_secret_effect [OF assms(1,4)]
  note e2 = sqlite_deleteFilterData_effect [OF assms(2)]
  note e3 = apply_insertFilterData [OF assms(3)]
  show "st_Collections t3 = st_Collections t" using e3 by (simp add: e2(1) w(1))
  show "sqlite_wf t3" using e3 e2(2) w(5) by blast
  have s3: "st_Secrets t3 = st_Secrets t1"
    and f3: "st_FilterData t3 = filter (\<lambda>r. f_key r \<noteq> (c, n)) (st_FilterData t) @ map (filter_row c n) fd"
    using e3 by (simp_all add: e2(1) w(2))
  show "tables_stored t3 = (tables_stored t)((c, n) \<mapsto> (x, fd))"
  proof (rule ext)
    fix i :: "qstring \<times> qstring"
    show "tables_stored t3 i = ((tables_stored t)((c, n) \<mapsto> (x, fd))) i"
    proof (cases "i = (c, n)")
      case True
      have "filter (\<lambda>r. f_key r = (c, n)) (st_FilterData t3) = map (filter_row c n) fd"
        unfolding f3 by (simp add: filter_empty_conv comp_def)
      then have "filter_data_of t3 (c, n) = fold (\<lambda>e. qmap_insert (fst e) (snd e)) fd []"
        unfolding filter_data_of_def by (simp add: fold_map comp_def)
      with True w(4) [of "(c, n)"] qmap_refill [OF assms(5)] show ?thesis
        unfolding tables_stored_def s3 by simp
    next
      case False
      have "tables_stored t3 i = tables_stored t i"
      proof (rule stored_cong)
        show "find (\<lambda>r. q_key r = i) (st_Secrets t3) = find (\<lambda>r. q_key r = i) (st_Secrets t)"
          unfolding s3 using w(4) [of i] False by simp
        show "filter (\<lambda>r. f_key r = i) (st_FilterData t3) = filter (\<lambda>r. f_key r = i) (st_FilterData t)"
          unfolding f3 using False
          by (auto simp: filter_empty_conv simp del: prod.inject intro!: filter_cong)
      qed
      with False show ?thesis by simp
    qed
  qed
qed

lemma opened: "idle d \<Longrightarrow> SqlitePlugin_openDatabaseIfNecessary d = d"
  by (simp add: SqlitePlugin_openDatabaseIfNecessary_def idle_def db_readable_def)

subsection \<open>The outcome of every operation\<close>

lemma count_collections: "0 < length (filter (\<lambda>x. x = c) xs) \<longleftrightarrow> c \<in> set xs"
  by (auto simp: filter_empty_conv)

lemma count_secrets: 
  "0 < length (filter (\<lambda>r. q_CollectionName r = c \<and> q_SecretName r = n) xs) \<longleftrightarrow> (c, n) \<in> q_key ` set xs"
  by (force simp: filter_empty_conv)

lemma write_secret_fold:
  "(if (c, n) \<in> q_key ` set (st_Secrets t) then sqlite_updateSecret c n x else sqlite_insertSecret c n x) t
   = write_secret c n x t"
  by (simp add: write_secret_def)

lemma createCollection_outcome:
  assumes "idle d" and "db_file d = Some t" and "er \<longrightarrow> engine_ready d"
  shows "outcome er t (\<lambda>t'. c \<noteq> [] \<and> \<not> same_ignoring_case c standalone \<and> sqlite_insertCollection c t = Some ((), t'))
    (\<lambda>r. if c = [] \<or> same_ignoring_case c standalone then r = failure InvalidCollectionError
         else c \<in> set (st_Collections t) \<and> r = failure CollectionAlreadyExistsError)
    (SqlitePlugin_createCollection c d)"
proof (cases "c = [] \<or> same_ignoring_case c standalone")
  case True
  then show ?thesis using assms
    by (auto simp: SqlitePlugin_createCollection_def opened intro!: outcome_now)
next
  case False
  show ?thesis
    unfolding SqlitePlugin_createCollection_def Let_def opened [OF assms(1)]
    using False assms
    apply (simp only: if_False de_Morgan_disj simp_thms)
    apply (rule outcome_begin, assumption, assumption, assumption)
    apply (rule outcome_execute, assumption)
    subgoal for d1 n t1 d2
      apply (clarsimp simp only: sql_select_def option.inject prod.inject count_collections split: if_split)
      apply (intro conjI impI)
       apply (erule tx_rollback; simp)
      apply (rule outcome_prepare, assumption)
      apply (rule outcome_execute, assumption)
       apply (rule outcome_commit, assumption, simp)
      apply (simp add: sqlite_insertCollection_def)
      done
    apply (simp add: sql_select_def)
    done
qed

lemma removeCollection_outcome:
  assumes "idle d" and "db_file d = Some t" and "er \<longrightarrow> engine_ready d"
  shows "outcome er t (\<lambda>t'. c \<noteq> [] \<and> \<not> same_ignoring_case c standalone \<and> sqlite_deleteCollection c t = Some ((), t'))
    (\<lambda>r. (c = [] \<or> same_ignoring_case c standalone) \<and> r = failure InvalidCollectionError)
    (SqlitePlugin_removeCollection c d)"
proof (cases "c = [] \<or> same_ignoring_case c standalone")
  case True
  then show ?thesis using assms
    by (auto simp: SqlitePlugin_removeCollection_def opened intro!: outcome_now)
next
  case False
  show ?thesis
    unfolding SqlitePlugin_removeCollection_def Let_def opened [OF assms(1)]
    using False assms
    apply (simp only: if_False de_Morgan_disj simp_thms)
    apply (rule outcome_begin, assumption, assumption, assumption)
    apply (rule outcome_execute, assumption)
     apply (rule outcome_commit, assumption, simp)
    apply (simp add: sqlite_deleteCollection_def)
    done
qed

lemma removeSecret_outcome:
  assumes "idle d" and "db_file d = Some t" and "er \<longrightarrow> engine_ready d"
  shows "outcome er t (\<lambda>t'. n \<noteq> [] \<and> c \<noteq> [] \<and> sqlite_deleteSecret c n t = Some ((), t'))
    (\<lambda>r. n = [] \<and> r = failure InvalidSecretError \<or> n \<noteq> [] \<and> c = [] \<and> r = failure InvalidCollectionError)
    (SqlitePlugin_removeSecret c n d)"
proof (cases "n = [] \<or> c = []")
  case True
  then show ?thesis using assms
    by (auto simp: SqlitePlugin_removeSecret_def opened intro!: outcome_now)
next
  case False
  show ?thesis
    unfolding SqlitePlugin_removeSecret_def Let_def opened [OF assms(1)]
    using False assms
    apply (simp only: if_False de_Morgan_disj simp_thms)
    apply (rule outcome_begin, assumption, assumption, assumption)
    apply (rule outcome_execute, assumption)
     apply (rule outcome_commit, assumption, simp)
    apply (simp add: sqlite_deleteSecret_def)
    done
qed

text \<open>What a successful \<open>setSecret\<close> does to the tables, and when it cannot succeed.\<close>

definition set_secret_tables ::
    "qstring \<Rightarrow> qstring \<Rightarrow> qbytes \<Rightarrow> filter_data \<Rightarrow> sqlite_tables \<Rightarrow> sqlite_tables option" where
  "set_secret_tables c n x fd t =
     (case write_secret c n x t of
        None \<Rightarrow> None
      | Some (_, t1) \<Rightarrow>
          (case sqlite_deleteFilterData c n t1 of
             None \<Rightarrow> None
           | Some (_, t2) \<Rightarrow> apply_statements (map (sqlite_insertFilterData c n) fd) t2))"

lemma setSecret_outcome:
  assumes "idle d" and "db_file d = Some t" and "er \<longrightarrow> engine_ready d"
  shows "outcome er t (\<lambda>t'. n \<noteq> [] \<and> c \<noteq> [] \<and> set_secret_tables c n x fd t = Some t')
    (\<lambda>r. n = [] \<and> r = failure InvalidSecretError \<or> n \<noteq> [] \<and> c = [] \<and> r = failure InvalidCollectionError
       \<or> set_secret_tables c n x fd t = None \<and> r = failure DatabaseQueryError)
    (SqlitePlugin_setSecret c n x fd d)"
proof (cases "n = [] \<or> c = []")
  case True
  then show ?thesis using assms
    by (auto simp: SqlitePlugin_setSecret_def opened intro!: outcome_now)
next
  case False
  show ?thesis
    unfolding SqlitePlugin_setSecret_def Let_def opened [OF assms(1)]
    using False assms
    apply (simp only: if_False de_Morgan_disj simp_thms)
    apply (rule outcome_begin, assumption, assumption, assumption)
    apply (rule outcome_execute, assumption)
    subgoal for d1 n t1 d2
      apply (clarsimp simp only: sql_select_def option.inject prod.inject count_secrets)
      apply (rule outcome_prepare, assumption)
      apply (rule outcome_execute, assumption)
       apply (rule outcome_prepare, assumption)
       apply (rule outcome_execute, assumption)
        apply (rule outcome_prepare, assumption)
        apply (rule outcome_statements, assumption)
         apply (rule outcome_commit, assumption)
      by (simp_all add: write_secret_fold set_secret_tables_def del: prod.inject)
    apply (simp add: sql_select_def)
    done
qed

subsection \<open>The outcome of the queries\<close>

lemma getSecret_outcome:
  assumes "idle d" and "db_file d = Some t" and "er \<longrightarrow> engine_ready d"
  shows "read_outcome er t (\<lambda>y. y = tables_stored t (c, n) \<and> y \<noteq> None)
    (\<lambda>r. n = [] \<and> r = failure InvalidSecretError \<or> n \<noteq> [] \<and> c = [] \<and> r = failure InvalidCollectionError
       \<or> tables_stored t (c, n) = None \<and> r = failure InvalidSecretError)
    (SqlitePlugin_getSecret c n d)"
proof (cases "n = [] \<or> c = []")
  case True
  then show ?thesis using assms
    by (auto simp: SqlitePlugin_getSecret_def opened intro!: read_now)
next
  case False
  show ?thesis
  proof (cases "find (\<lambda>r. q_key r = (c, n)) (st_Secrets t)")
    case None
    then have s: "tables_stored t (c, n) = None" unfolding tables_stored_def by simp
    show ?thesis
      unfolding SqlitePlugin_getSecret_def Let_def opened [OF assms(1)]
      using False assms
      apply (simp only: if_False de_Morgan_disj simp_thms)
      apply (rule read_begin, assumption, assumption, assumption)
      apply (rule read_execute, assumption)
      unfolding None option.case
      apply (rule read_commit, assumption)
      by (simp_all add: s)
  next
    case (Some row)
    then have s: "tables_stored t (c, n) = Some (q_Secret row,
        fold (\<lambda>r. qmap_insert (f_Field r) (f_Value r)) (filter (\<lambda>r. f_key r = (c, n)) (st_FilterData t)) [])"
      unfolding tables_stored_def filter_data_of_def by simp
    show ?thesis
      unfolding SqlitePlugin_getSecret_def Let_def opened [OF assms(1)]
      using False assms
      apply (simp only: if_False de_Morgan_disj simp_thms)
      apply (rule read_begin, assumption, assumption, assumption)
      apply (rule read_execute, assumption)
      unfolding Some option.case
      apply (rule read_prepare_leaky, assumption)
      apply (rule read_execute, assumption)
      apply (rule read_commit, assumption)
      by (simp_all only: s) simp_all
  qed
qed

text \<open>The queries outside a transaction.\<close>

lemma collectionNames_outcome:
  assumes "idle d" and "db_file d = Some t" and "er \<longrightarrow> engine_ready d"
  shows "read_outcome er t (\<lambda>y. y = filter (\<lambda>c. c \<noteq> standalone) (st_Collections t)) (\<lambda>_. False)
    (SqlitePlugin_collectionNames d)"
  unfolding SqlitePlugin_collectionNames_def Let_def opened [OF assms(1)]
  by (rule select_outcome [OF assms]) simp

lemma secretNames_outcome:
  assumes "idle d" and "db_file d = Some t" and "er \<longrightarrow> engine_ready d"
  shows "read_outcome er t
    (\<lambda>y. y = map q_SecretName (filter (\<lambda>r. q_CollectionName r = c) (st_Secrets t))) (\<lambda>_. False)
    (SqlitePlugin_secretNames c d)"
  unfolding SqlitePlugin_secretNames_def Let_def opened [OF assms(1)]
  by (rule select_outcome [OF assms, where k = "\<lambda>x. x"]) simp

subsection \<open>The plugin meets its contract\<close>

lemma distinct_secret_names:
  assumes "sqlite_wf t"
  shows "distinct (map q_SecretName (filter (\<lambda>r. q_CollectionName r = c) (st_Secrets t)))"
proof -
  have "distinct (map q_key (st_Secrets t))" using assms by (simp add: sqlite_wf_def)
  then show ?thesis by (induction "st_Secrets t" rule: list.induct) (auto simp: distinct_map inj_on_def)
qed

lemma secret_names_stored:
  "set (map q_SecretName (filter (\<lambda>r. q_CollectionName r = c) (st_Secrets t))) = {n. (c, n) \<in> dom (tables_stored t)}"
  unfolding dom_tables_stored by force

lemma set_secret_tables_effect:
  assumes "set_secret_tables c n x fd t = Some t'" and "sqlite_wf t" and "qmap_ok fd"
  shows "st_Collections t' = st_Collections t"
    "tables_stored t' = (tables_stored t)((c, n) \<mapsto> (x, fd))" "sqlite_wf t'"
proof -
  from assms(1) obtain t1 t2 where w: "write_secret c n x t = Some ((), t1)"
    "sqlite_deleteFilterData c n t1 = Some ((), t2)"
    "apply_statements (map (sqlite_insertFilterData c n) fd) t2 = Some t'"
    by (auto simp: set_secret_tables_def split: option.splits prod.splits)
  show "st_Collections t' = st_Collections t"
    "tables_stored t' = (tables_stored t)((c, n) \<mapsto> (x, fd))" "sqlite_wf t'"
    using set_secret_effect [OF w assms(2,3)] by simp_all
qed

lemma sqlite_createCollection_contract:
  assumes "sqlite_ready s" and "sp_createCollection sqlite_plugin c s = (r, s')"
  shows "succeeded r \<Longrightarrow> sqlite_ready s' \<and> c \<noteq> standalone
      \<and> sqlite_collections s' = insert c (sqlite_collections s) \<and> sqlite_stored s' = sqlite_stored s"
    and "\<not> succeeded r \<Longrightarrow> sqlite_collections s' = sqlite_collections s \<and> sqlite_stored s' = sqlite_stored s"
proof -
  obtain t where t: "idle s" "db_file s = Some t" "sqlite_wf t" using assms(1) by (rule sqlite_readyE)
  note o = createCollection_outcome [OF t(1,2), of False c, simplified, unfolded assms(2) [unfolded sqlite_plugin_def, simplified]]
  show "\<not> succeeded r \<Longrightarrow> sqlite_collections s' = sqlite_collections s \<and> sqlite_stored s' = sqlite_stored s"
    using outcome_fails [OF o] t by simp
  show "sqlite_ready s' \<and> c \<noteq> standalone \<and> sqlite_collections s' = insert c (sqlite_collections s)
      \<and> sqlite_stored s' = sqlite_stored s" if "succeeded r"
  proof (rule outcome_ok [OF o that])
    fix t'
    assume t': "idle s'" "db_file s' = Some t'"
      "c \<noteq> [] \<and> \<not> same_ignoring_case c standalone \<and> sqlite_insertCollection c t = Some ((), t')"
    then have "sqlite_insertCollection c t = Some ((), t')" by simp
    note e = sqlite_insertCollection_effect [OF this]
    have "c \<noteq> standalone" "\<not> hidden c" using t'(3) by (auto simp: hidden_def)
    with e t t'(1,2) show ?thesis by (simp add: sqlite_readyI)
  qed
qed

lemma sqlite_removeCollection_contract:
  assumes "sqlite_ready s" and "sp_removeCollection sqlite_plugin c s = (r, s')"
  shows "succeeded r \<Longrightarrow> sqlite_ready s' \<and> c \<noteq> standalone \<and> sqlite_collections s' = sqlite_collections s - {c}
      \<and> sqlite_stored s' = sqlite_stored s |` {i. fst i \<noteq> c}"
    and "\<not> succeeded r \<Longrightarrow> sqlite_collections s' = sqlite_collections s \<and> sqlite_stored s' = sqlite_stored s"
proof -
  obtain t where t: "idle s" "db_file s = Some t" "sqlite_wf t" using assms(1) by (rule sqlite_readyE)
  note o = removeCollection_outcome [OF t(1,2), of False c, simplified, unfolded assms(2) [unfolded sqlite_plugin_def, simplified]]
  show "\<not> succeeded r \<Longrightarrow> sqlite_collections s' = sqlite_collections s \<and> sqlite_stored s' = sqlite_stored s"
    using outcome_fails [OF o] t by simp
  show "sqlite_ready s' \<and> c \<noteq> standalone \<and> sqlite_collections s' = sqlite_collections s - {c}
      \<and> sqlite_stored s' = sqlite_stored s |` {i. fst i \<noteq> c}" if "succeeded r"
  proof (rule outcome_ok [OF o that])
    fix t'
    assume t': "idle s'" "db_file s' = Some t'"
      "c \<noteq> [] \<and> \<not> same_ignoring_case c standalone \<and> sqlite_deleteCollection c t = Some ((), t')"
    then have "sqlite_deleteCollection c t = Some ((), t')" by simp
    note e = sqlite_deleteCollection_effect [OF this t(3)]
    have "c \<noteq> standalone" using t'(3) by auto
    with e t t'(1,2) show ?thesis by (simp add: sqlite_readyI)
  qed
qed

lemma sqlite_removeSecret_contract:
  assumes "sqlite_ready s" and "sp_removeSecret sqlite_plugin c n s = (r, s')"
  shows "succeeded r \<Longrightarrow> sqlite_ready s' \<and> sqlite_collections s' = sqlite_collections s
      \<and> sqlite_stored s' = (sqlite_stored s)((c, n) := None)"
    and "\<not> succeeded r \<Longrightarrow> sqlite_collections s' = sqlite_collections s \<and> sqlite_stored s' = sqlite_stored s"
proof -
  obtain t where t: "idle s" "db_file s = Some t" "sqlite_wf t" using assms(1) by (rule sqlite_readyE)
  note o = removeSecret_outcome [OF t(1,2), of False n c, simplified, unfolded assms(2) [unfolded sqlite_plugin_def, simplified]]
  show "\<not> succeeded r \<Longrightarrow> sqlite_collections s' = sqlite_collections s \<and> sqlite_stored s' = sqlite_stored s"
    using outcome_fails [OF o] t by simp
  show "sqlite_ready s' \<and> sqlite_collections s' = sqlite_collections s
      \<and> sqlite_stored s' = (sqlite_stored s)((c, n) := None)" if "succeeded r"
  proof (rule outcome_ok [OF o that])
    fix t'
    assume t': "idle s'" "db_file s' = Some t'"
      "n \<noteq> [] \<and> c \<noteq> [] \<and> sqlite_deleteSecret c n t = Some ((), t')"
    then have "sqlite_deleteSecret c n t = Some ((), t')" by simp
    from sqlite_deleteSecret_effect [OF this t(3)] t t'(1,2) show ?thesis by (simp add: sqlite_readyI)
  qed
qed

lemma sqlite_setSecret_contract:
  assumes "sqlite_ready s" and "sp_setSecret sqlite_plugin c n x fd s = (r, s')"
  shows "succeeded r \<Longrightarrow> qmap_ok fd \<Longrightarrow> sqlite_ready s' \<and> sqlite_collections s' = sqlite_collections s
      \<and> sqlite_stored s' = (sqlite_stored s)((c, n) \<mapsto> (x, fd))"
    and "\<not> succeeded r \<Longrightarrow> sqlite_collections s' = sqlite_collections s \<and> sqlite_stored s' = sqlite_stored s"
proof -
  obtain t where t: "idle s" "db_file s = Some t" "sqlite_wf t" using assms(1) by (rule sqlite_readyE)
  note o = setSecret_outcome [OF t(1,2), of False n c x fd, simplified, unfolded assms(2) [unfolded sqlite_plugin_def, simplified]]
  show "\<not> succeeded r \<Longrightarrow> sqlite_collections s' = sqlite_collections s \<and> sqlite_stored s' = sqlite_stored s"
    using outcome_fails [OF o] t by simp
  show "sqlite_ready s' \<and> sqlite_collections s' = sqlite_collections s
      \<and> sqlite_stored s' = (sqlite_stored s)((c, n) \<mapsto> (x, fd))" if "succeeded r" "qmap_ok fd"
  proof (rule outcome_ok [OF o that(1)])
    fix t'
    assume t': "idle s'" "db_file s' = Some t'"
      "n \<noteq> [] \<and> c \<noteq> [] \<and> set_secret_tables c n x fd t = Some t'"
    then have "set_secret_tables c n x fd t = Some t'" by simp
    from set_secret_tables_effect [OF this t(3) that(2)] t t'(1,2) show ?thesis by (simp add: sqlite_readyI)
  qed
qed

lemma sqlite_getSecret_contract:
  assumes "sqlite_ready s" and "sp_getSecret sqlite_plugin c n s = (r, y, s')"
  shows "succeeded r \<Longrightarrow> sqlite_ready s' \<and> y = sqlite_stored s (c, n) \<and> y \<noteq> None"
    and "sqlite_collections s' = sqlite_collections s \<and> sqlite_stored s' = sqlite_stored s"
proof -
  obtain t where t: "idle s" "db_file s = Some t" "sqlite_wf t" using assms(1) by (rule sqlite_readyE)
  note o = getSecret_outcome [OF t(1,2), of False c n, simplified, unfolded assms(2) [unfolded sqlite_plugin_def, simplified]]
  show "sqlite_collections s' = sqlite_collections s \<and> sqlite_stored s' = sqlite_stored s"
    using o t by (simp add: read_outcome_def)
  show "sqlite_ready s' \<and> y = sqlite_stored s (c, n) \<and> y \<noteq> None" if "succeeded r"
    using o t that by (auto simp: read_outcome_def intro: sqlite_readyI)
qed

lemma sqlite_collectionNames_contract:
  assumes "sqlite_ready s" and "sp_collectionNames sqlite_plugin s = (r, names, s')"
  shows "succeeded r \<Longrightarrow> sqlite_ready s' \<and> distinct names \<and> set names = sqlite_collections s - {standalone}"
    and "sqlite_collections s' = sqlite_collections s \<and> sqlite_stored s' = sqlite_stored s"
proof -
  obtain t where t: "idle s" "db_file s = Some t" "sqlite_wf t" using assms(1) by (rule sqlite_readyE)
  note o = collectionNames_outcome [OF t(1,2), of False, simplified, unfolded assms(2) [unfolded sqlite_plugin_def, simplified]]
  show "sqlite_collections s' = sqlite_collections s \<and> sqlite_stored s' = sqlite_stored s"
    using o t by (simp add: read_outcome_def)
  show "sqlite_ready s' \<and> distinct names \<and> set names = sqlite_collections s - {standalone}" if "succeeded r"
    using o t that by (auto simp: read_outcome_def sqlite_wf_def sqlite_ready_def)
qed

lemma sqlite_secretNames_contract:
  assumes "sqlite_ready s" and "sp_secretNames sqlite_plugin c s = (r, names, s')"
  shows "succeeded r \<Longrightarrow> sqlite_ready s' \<and> distinct names \<and> set names = {n. (c, n) \<in> dom (sqlite_stored s)}"
    and "sqlite_collections s' = sqlite_collections s \<and> sqlite_stored s' = sqlite_stored s"
proof -
  obtain t where t: "idle s" "db_file s = Some t" "sqlite_wf t" using assms(1) by (rule sqlite_readyE)
  note o = secretNames_outcome [OF t(1,2), of False c, simplified, unfolded assms(2) [unfolded sqlite_plugin_def, simplified]]
  show "sqlite_collections s' = sqlite_collections s \<and> sqlite_stored s' = sqlite_stored s"
    using o t by (simp add: read_outcome_def)
  show "sqlite_ready s' \<and> distinct names \<and> set names = {n. (c, n) \<in> dom (sqlite_stored s)}" if "succeeded r"
  proof -
    have r: "idle s'" "db_file s' = Some t"
      "names = map q_SecretName (filter (\<lambda>r. q_CollectionName r = c) (st_Secrets t))"
      using o that by (simp_all add: read_outcome_def)
    have "set names = {n. (c, n) \<in> dom (sqlite_stored s)}" "distinct names"
      unfolding r(3) sqlite_views(2) [OF t(2)]
      by (rule secret_names_stored, rule distinct_secret_names [OF t(3)])
    with sqlite_readyI [OF r(1,2) t(3)] show ?thesis by (intro conjI)
  qed
qed

lemma sqlite_stored_in_collections:
  assumes "sqlite_ready s" and "(c, n) \<in> dom (sqlite_stored s)"
  shows "c \<in> sqlite_collections s"
proof -
  obtain t where t: "idle s" "db_file s = Some t" "sqlite_wf t" using assms(1) by (rule sqlite_readyE)
  have "(c, n) \<in> q_key ` set (st_Secrets t)" using assms(2) t dom_tables_stored [of "(c, n)" t] by simp
  then show ?thesis using t by (auto simp: sqlite_wf_def)
qed

interpretation sqlite: storage_plugin sqlite_plugin sqlite_ready sqlite_collections sqlite_stored
proof (unfold_locales, goal_cases)
  case 1
  then show ?case using sqlite_createCollection_contract(1) [OF 1(1,2)] by blast
next
  case 2
  then show ?case using sqlite_createCollection_contract(2) [OF 2(1,2)] by blast
next
  case 3
  then show ?case using sqlite_removeCollection_contract(1) [OF 3(1,2)] by blast
next
  case 4
  then show ?case using sqlite_removeCollection_contract(2) [OF 4(1,2)] by blast
next
  case 5
  then show ?case using sqlite_setSecret_contract(1) [OF 5(1,3)] by blast
next
  case 6
  then show ?case using sqlite_setSecret_contract(2) [OF 6(1,2)] by blast
next
  case 7
  then show ?case using sqlite_removeSecret_contract(1) [OF 7(1,2)] by blast
next
  case 8
  then show ?case using sqlite_removeSecret_contract(2) [OF 8(1,2)] by blast
next
  case 9
  then show ?case using sqlite_getSecret_contract [OF 9(1,2)] by blast
next
  case 10
  then show ?case using sqlite_getSecret_contract(2) [OF 10(1,2)] by blast
next
  case 11
  then show ?case using sqlite_collectionNames_contract [OF 11(1,2)] by blast
next
  case 12
  then show ?case using sqlite_collectionNames_contract(2) [OF 12(1,2)] by blast
next
  case 13
  then show ?case using sqlite_secretNames_contract [OF 13(1,2)] by blast
next
  case 14
  then show ?case using sqlite_secretNames_contract(2) [OF 14(1,2)] by blast
next
  case (15 s c)
  then show ?case by (elim sqlite_readyE) (simp add: sqlite_wf_def list_all_iff)
next
  case 16
  then show ?case by (rule sqlite_stored_in_collections)
qed

subsection \<open>The plugin implements a store of secrets\<close>

text \<open>The operations that change the contents, and what they do to a plain store of secrets.\<close>

datatype storage_op =
    CreateCollection qstring | RemoveCollection qstring
  | SetSecret qstring qstring qbytes filter_data | RemoveSecret qstring qstring

type_synonym store = "qstring set \<times> (qstring \<times> qstring \<rightharpoonup> qbytes \<times> filter_data)"

primrec sp_apply :: "'s StoragePlugin \<Rightarrow> storage_op \<Rightarrow> 's \<Rightarrow> Result \<times> 's" where
  "sp_apply p (CreateCollection c) = sp_createCollection p c"
| "sp_apply p (RemoveCollection c) = sp_removeCollection p c"
| "sp_apply p (SetSecret c n x fd) = sp_setSecret p c n x fd"
| "sp_apply p (RemoveSecret c n) = sp_removeSecret p c n"

primrec store_apply :: "storage_op \<Rightarrow> store \<Rightarrow> store" where
  "store_apply (CreateCollection c) s = (insert c (fst s), snd s)"
| "store_apply (RemoveCollection c) s = (fst s - {c}, snd s |` {i. fst i \<noteq> c})"
| "store_apply (SetSecret c n x fd) s = (fst s, (snd s)((c, n) \<mapsto> (x, fd)))"
| "store_apply (RemoveSecret c n) s = (fst s, (snd s)((c, n) := None))"

definition sqlite_store :: "sqlite_db \<Rightarrow> store" where
  "sqlite_store d = (sqlite_collections d, sqlite_stored d)"

fun filter_data_ok :: "storage_op \<Rightarrow> bool" where
  "filter_data_ok (SetSecret c n x fd) = qmap_ok fd"
| "filter_data_ok _ = True"

text \<open>
  C10. The SQLite plugin implements a store of secrets. Whatever the engine answers, an
  operation on an idle plugin that reports success has exactly the effect of the abstract
  operation on the durable contents and leaves the plugin idle with its schema's constraints intact, and an operation that
  reports failure leaves the durable contents as they were.
\<close>

theorem sqlite_refines_store:
  assumes "sqlite_ready d" and "filter_data_ok op" and "sp_apply sqlite_plugin op d = (r, d')"
  shows "if succeeded r then sqlite_ready d' \<and> sqlite_store d' = store_apply op (sqlite_store d)
         else sqlite_store d' = sqlite_store d"
proof (cases op)
  case (CreateCollection c)
  with assms(3) have "sp_createCollection sqlite_plugin c d = (r, d')" by simp
  from sqlite.createCollection_ok [OF assms(1) this] sqlite.createCollection_fails [OF assms(1) this]
  show ?thesis by (simp add: CreateCollection sqlite_store_def)
next
  case (RemoveCollection c)
  with assms(3) have "sp_removeCollection sqlite_plugin c d = (r, d')" by simp
  from sqlite.removeCollection_ok [OF assms(1) this] sqlite.removeCollection_fails [OF assms(1) this]
  show ?thesis by (simp add: RemoveCollection sqlite_store_def)
next
  case (SetSecret c n x fd)
  with assms(2,3) have "qmap_ok fd" "sp_setSecret sqlite_plugin c n x fd d = (r, d')" by simp_all
  from sqlite.setSecret_ok [OF assms(1) this] sqlite.setSecret_fails [OF assms(1) this(2)]
  show ?thesis by (simp add: SetSecret sqlite_store_def)
next
  case (RemoveSecret c n)
  with assms(3) have "sp_removeSecret sqlite_plugin c n d = (r, d')" by simp
  from sqlite.removeSecret_ok [OF assms(1) this] sqlite.removeSecret_fails [OF assms(1) this]
  show ?thesis by (simp add: RemoveSecret sqlite_store_def)
qed

text \<open>A small database: a collection with one secret that has one field, and an empty collection.\<close>

definition demo_sqlite :: "answer list \<Rightarrow> sqlite_db" where
  "demo_sqlite as =
     \<lparr>db_file = Some \<lparr>st_Collections = [standalone, ''c'', ''e''],
        st_Secrets = [\<lparr>q_CollectionName = ''c'', q_SecretName = ''s'', q_Secret = ''x''\<rparr>],
        st_FilterData = [\<lparr>f_CollectionName = ''c'', f_SecretName = ''s'', f_Field = ''kind'', f_Value = ''web''\<rparr>]\<rparr>,
      db_fileKey = [], db_userVersion = 1, db_isOpen = True, db_connKey = [], db_work = None,
      db_semaphore = 0, db_prepared = [], db_localeName = ''C'', db_answers = as\<rparr>"

theorem sqlite_refines_store_witness:
  "sqlite_ready (demo_sqlite [])
   \<and> sqlite_store (snd (sp_apply sqlite_plugin (RemoveSecret ''c'' ''s'') (demo_sqlite [])))
       = store_apply (RemoveSecret ''c'' ''s'') (sqlite_store (demo_sqlite []))
   \<and> sqlite_store (snd (sp_apply sqlite_plugin (RemoveSecret ''c'' ''s'') (demo_sqlite [Ok, Ok, Refused])))
       = sqlite_store (demo_sqlite [Ok, Ok, Refused])"
proof -
  have r: "sqlite_ready (demo_sqlite [])" "sqlite_ready (demo_sqlite [Ok, Ok, Refused])"
    by (code_simp, code_simp)
  have s: "succeeded (fst (sp_apply sqlite_plugin (RemoveSecret ''c'' ''s'') (demo_sqlite [])))"
    "\<not> succeeded (fst (sp_apply sqlite_plugin (RemoveSecret ''c'' ''s'') (demo_sqlite [Ok, Ok, Refused])))"
    by (code_simp, code_simp)
  have f: "filter_data_ok (RemoveSecret ''c'' ''s'')" by simp
  show ?thesis
    using sqlite_refines_store [OF r(1) f prod.collapse [symmetric]]
      sqlite_refines_store [OF r(2) f prod.collapse [symmetric]] r(1) s
    by (simp only: if_True if_False simp_thms)
qed

lemma set_secret_tables_total:
  assumes "sqlite_wf t" and "c \<in> set (st_Collections t)" and "qmap_ok fd"
  shows "set_secret_tables c n x fd t \<noteq> None"
proof -
  obtain t1 where t1: "write_secret c n x t = Some ((), t1)"
    using write_secret_None [of c n x t] assms(2) by (cases "write_secret c n x t") auto
  note e = write_secret_effect [OF t1 assms(1)]
  let ?t2 = "t1\<lparr>st_FilterData := filter (\<lambda>r. f_key r \<noteq> (c, n)) (st_FilterData t1)\<rparr>"
  have "apply_statements (map (sqlite_insertFilterData c n) fd) ?t2 \<noteq> None"
    by (rule apply_insertFilterData_total) (use e(3) qmap_ok_distinct [OF assms(3)] in auto)
  then show ?thesis by (simp add: set_secret_tables_def t1 sqlite_deleteFilterData_def)
qed

text \<open>
  C11. Storing a secret and reading it back. With an engine that refuses nothing,
  \<open>SqlitePlugin_setSecret\<close> in an existing collection succeeds, and \<open>SqlitePlugin_getSecret\<close>
  then returns the secret and its filter data; every other secret is as before.
\<close>

theorem sqlite_set_get:
  assumes "sqlite_ready d" and "engine_ready d" and "c \<in> sqlite_collections d" and "c \<noteq> []" and "n \<noteq> []"
    and "qmap_ok fd"
  shows "\<exists>d1 d2 r1 r2. SqlitePlugin_setSecret c n x fd d = (r1, d1) \<and> succeeded r1
       \<and> SqlitePlugin_getSecret c n d1 = (r2, Some (x, fd), d2) \<and> succeeded r2
       \<and> (\<forall>i. i \<noteq> (c, n) \<longrightarrow> sqlite_stored d2 i = sqlite_stored d i)"
proof -
  obtain t where t: "idle d" "db_file d = Some t" "sqlite_wf t" using assms(1) by (rule sqlite_readyE)
  have e: "True \<longrightarrow> engine_ready d" using assms(2) by simp
  obtain r1 d1 where s: "SqlitePlugin_setSecret c n x fd d = (r1, d1)"
    by (cases "SqlitePlugin_setSecret c n x fd d")
  have tot: "set_secret_tables c n x fd t \<noteq> None"
    using set_secret_tables_total [OF t(3) _ assms(6)] assms(3) t(2) by simp
  have r1: "succeeded r1" and e1: "engine_ready d1"
    using setSecret_outcome [OF t(1,2) e, of n c x fd] s tot assms(4,5)
    by (auto simp: outcome_def split: if_splits)
  have "sp_setSecret sqlite_plugin c n x fd d = (r1, d1)" using s by (simp add: sqlite_plugin_def)
  from sqlite.setSecret_ok [OF assms(1,6) this r1]
  have d1: "sqlite_ready d1" "sqlite_stored d1 = (sqlite_stored d)((c, n) \<mapsto> (x, fd))" by simp_all
  then obtain t1 where t1: "idle d1" "db_file d1 = Some t1" by (elim sqlite_readyE)
  obtain r2 y d2 where g: "SqlitePlugin_getSecret c n d1 = (r2, y, d2)"
    by (cases "SqlitePlugin_getSecret c n d1")
  have y: "tables_stored t1 (c, n) = Some (x, fd)" using d1(2) t1(2) by simp
  have r2: "succeeded r2"
    using getSecret_outcome [OF t1, of True c n] e1 g y assms(4,5)
    by (auto simp: read_outcome_def split: if_splits)
  have "sp_getSecret sqlite_plugin c n d1 = (r2, y, d2)" using g by (simp add: sqlite_plugin_def)
  from sqlite.getSecret_ok [OF d1(1) this r2] d1(2) s r1 g r2 show ?thesis by auto
qed

theorem sqlite_set_get_witness:
  "\<exists>d1 d2 r1 r2. SqlitePlugin_setSecret ''e'' ''s'' ''y'' [(''kind'', ''app'')] (demo_sqlite []) = (r1, d1) \<and> succeeded r1
     \<and> SqlitePlugin_getSecret ''e'' ''s'' d1 = (r2, Some (''y'', [(''kind'', ''app'')]), d2) \<and> succeeded r2
     \<and> sqlite_stored d2 (''c'', ''s'') = Some (''x'', [(''kind'', ''web'')])"
proof -
  have a: "sqlite_ready (demo_sqlite [])" "engine_ready (demo_sqlite [])" by (code_simp, code_simp)
  have b: "''e'' \<in> sqlite_collections (demo_sqlite [])" "''e'' \<noteq> []" "''s'' \<noteq> []" "qmap_ok [(''kind'', ''app'')]"
    by (code_simp, simp, simp, code_simp)
  have c: "sqlite_stored (demo_sqlite []) (''c'', ''s'') = Some (''x'', [(''kind'', ''web'')])" by code_simp
  from sqlite_set_get [OF a b, of "''y''"] c show ?thesis by fastforce
qed

subsection \<open>Finding secrets\<close>

text \<open>A filter entry matches where the first field of that name, ignoring case, has the value, ignoring case.\<close>

definition field_matches :: "filter_data \<Rightarrow> qstring \<times> qstring \<Rightarrow> bool" where
  "field_matches fd e \<longleftrightarrow>
     (case find (\<lambda>m. same_ignoring_case (fst e) (fst m)) fd of
        None \<Rightarrow> False | Some m \<Rightarrow> same_ignoring_case (snd e) (snd m))"

primrec filter_matches :: "FilterOperator \<Rightarrow> filter_data \<Rightarrow> filter_data \<Rightarrow> bool" where
  "filter_matches OperatorOr flt fd = list_ex (field_matches fd) flt"
| "filter_matches OperatorAnd flt fd = list_all (field_matches fd) flt"

lemma sqlite_matches_or: "sqlite_matches OperatorOr flt fd b \<longleftrightarrow> b \<or> filter_matches OperatorOr flt fd"
proof (induction flt arbitrary: b)
  case (Cons e flt)
  then show ?case by (cases e) (auto simp: field_matches_def split: option.splits)
qed simp

lemma sqlite_matches_and: "sqlite_matches OperatorAnd flt fd b \<longleftrightarrow> b \<and> filter_matches OperatorAnd flt fd"
proof (induction flt arbitrary: b)
  case (Cons e flt)
  then show ?case by (cases e) (auto simp: field_matches_def split: option.splits)
qed simp

lemma sqlite_matches_filter: "sqlite_matches op flt fd (op \<noteq> OperatorOr) \<longleftrightarrow> filter_matches op flt fd"
  by (cases op) (simp_all add: sqlite_matches_or sqlite_matches_and)

lemma filter_matches_no_data: "flt \<noteq> [] \<Longrightarrow> \<not> filter_matches op flt []"
  by (cases op; cases flt) (auto simp: field_matches_def list_ex_iff)

lemma filter_data_map_lookup:
  "qmap_ok (filter_data_map rows)"
  "map_of (filter_data_map rows) n =
     (if n \<in> f_SecretName ` set rows
      then Some (fold (\<lambda>r. qmap_insert (f_Field r) (f_Value r)) (filter (\<lambda>r. f_SecretName r = n) rows) [])
      else None)"
proof -
  let ?step = "\<lambda>r m. qmap_insert (f_SecretName r)
             (qmap_insert (f_Field r) (f_Value r) (qmap_value m (f_SecretName r) [])) m"
  have "qmap_ok m \<Longrightarrow> qmap_ok (fold ?step rows m)" for m
    by (induction rows arbitrary: m) simp_all
  then show "qmap_ok (filter_data_map rows)" by (simp add: filter_data_map_def)
  have "map_of (fold ?step rows m) n =
     (if n \<in> f_SecretName ` set rows
      then Some (fold (\<lambda>r. qmap_insert (f_Field r) (f_Value r)) (filter (\<lambda>r. f_SecretName r = n) rows) (qmap_value m n []))
      else map_of m n)" for m
  proof (induction rows arbitrary: m)
    case (Cons a rows)
    have "n \<notin> f_SecretName ` set rows \<Longrightarrow> filter (\<lambda>r. f_SecretName r = n) rows = []"
      by (rule filter_False) auto
    with Cons show ?case by (auto simp: qmap_value_def)
  qed simp
  from this [of "[]"] show "map_of (filter_data_map rows) n =
     (if n \<in> f_SecretName ` set rows
      then Some (fold (\<lambda>r. qmap_insert (f_Field r) (f_Value r)) (filter (\<lambda>r. f_SecretName r = n) rows) [])
      else None)" by (simp add: filter_data_map_def qmap_value_def)
qed

lemma qmap_entry: "qmap_ok m \<Longrightarrow> (k, v) \<in> set m \<longleftrightarrow> map_of m k = Some v"
  by (meson map_of_SomeD map_of_is_SomeI qmap_ok_distinct)

definition find_result :: "qstring \<Rightarrow> filter_data \<Rightarrow> FilterOperator \<Rightarrow> sqlite_tables \<Rightarrow> qstring list" where
  "find_result c flt op t =
     map fst (filter (\<lambda>e. sqlite_matches op flt (snd e) (op \<noteq> OperatorOr))
       (filter_data_map (filter (\<lambda>r. f_CollectionName r = c) (st_FilterData t))))"

lemma find_result_sorted: "sorted_wrt (<) (find_result c flt op t)"
proof -
  let ?m = "filter_data_map (filter (\<lambda>r. f_CollectionName r = c) (st_FilterData t))"
  have "sorted_wrt (\<lambda>e e'. fst e < fst e') ?m"
    using filter_data_map_lookup(1) [of "filter (\<lambda>r. f_CollectionName r = c) (st_FilterData t)"]
    by (simp add: qmap_ok_def sorted_wrt_map)
  then show ?thesis by (simp add: find_result_def sorted_wrt_map sorted_wrt_filter)
qed

lemma find_result_spec:
  assumes "sqlite_wf t" and "flt \<noteq> []"
  shows "n \<in> set (find_result c flt op t) \<longleftrightarrow>
    (\<exists>x fd. tables_stored t (c, n) = Some (x, fd) \<and> filter_matches op flt fd)"
proof -
  let ?rows = "filter (\<lambda>r. f_CollectionName r = c) (st_FilterData t)"
  let ?fd = "filter_data_of t (c, n)"
  have l: "map_of (filter_data_map ?rows) n = (if n \<in> f_SecretName ` set ?rows then Some ?fd else None)"
    unfolding filter_data_map_lookup(2) filter_data_of_def by (simp add: conj_commute)
  have "n \<in> set (find_result c flt op t) \<longleftrightarrow>
      (\<exists>fd. (n, fd) \<in> set (filter_data_map ?rows) \<and> filter_matches op flt fd)"
    unfolding find_result_def sqlite_matches_filter by force
  also have "\<dots> \<longleftrightarrow> n \<in> f_SecretName ` set ?rows \<and> filter_matches op flt ?fd"
    unfolding qmap_entry [OF filter_data_map_lookup(1)] l by simp
  finally have r: "n \<in> set (find_result c flt op t) \<longleftrightarrow> n \<in> f_SecretName ` set ?rows \<and> filter_matches op flt ?fd" .
  have s: "(\<exists>x fd. tables_stored t (c, n) = Some (x, fd) \<and> filter_matches op flt fd)
      \<longleftrightarrow> (c, n) \<in> q_key ` set (st_Secrets t) \<and> filter_matches op flt ?fd"
  proof -
    have "tables_stored t (c, n) = Some (x, fd) \<Longrightarrow> fd = ?fd" for x fd
      unfolding tables_stored_def by auto
    then show ?thesis using dom_tables_stored [of "(c, n)" t] by force
  qed
  have "n \<notin> f_SecretName ` set ?rows \<Longrightarrow> ?fd = []"
    unfolding filter_data_of_def by (subst filter_False) auto
  then have "n \<notin> f_SecretName ` set ?rows \<Longrightarrow> \<not> filter_matches op flt ?fd"
    using filter_matches_no_data [OF assms(2)] by simp
  moreover have "n \<in> f_SecretName ` set ?rows \<Longrightarrow> (c, n) \<in> q_key ` set (st_Secrets t)"
    using assms(1) unfolding sqlite_wf_def by auto
  ultimately show ?thesis unfolding r s by blast
qed

lemma findSecrets_outcome:
  assumes "idle d" and "db_file d = Some t" and "er \<longrightarrow> engine_ready d"
  shows "read_outcome er t (\<lambda>y. c \<noteq> [] \<and> flt \<noteq> [] \<and> y = find_result c flt op t)
    (\<lambda>r. c = [] \<and> r = failure InvalidCollectionError \<or> c \<noteq> [] \<and> flt = [] \<and> r = failure InvalidFilterError)
    (SqlitePlugin_findSecrets c flt op d)"
proof (cases "c = [] \<or> flt = []")
  case True
  then show ?thesis using assms
    by (auto simp: SqlitePlugin_findSecrets_def opened intro!: read_now)
next
  case False
  have commit: "read_outcome er t Q E (case commit_result d' of (r, d4) \<Rightarrow> (r, y, d4))"
    if "tx er t t d'" "Q y" for Q E y d'
    using outcome_commit [OF that(1), of "\<lambda>u. u = t" E] that(2)
    by (cases "commit_result d'") (auto intro: read_of_outcome)
  show ?thesis
    unfolding SqlitePlugin_findSecrets_def Let_def opened [OF assms(1)]
    using False assms
    apply (simp only: if_False de_Morgan_disj simp_thms)
    apply (rule read_begin, assumption, assumption, assumption)
    apply (rule read_execute, assumption)
    apply (rule commit, assumption)
    by (simp add: find_result_def)
qed

text \<open>
  C12. \<open>SqlitePlugin_findSecrets\<close> finds exactly the matching secrets. When it succeeds, it
  returns, in order and without repetition, the names of the secrets stored in the collection
  whose filter data matches some entry of the filter (\<open>OperatorOr\<close>) or all of them
  (\<open>OperatorAnd\<close>), and with an engine that refuses nothing it succeeds for every non-empty
  filter; the stored contents are as before.
\<close>

theorem findSecrets_exact:
  assumes "sqlite_ready d" and "SqlitePlugin_findSecrets c flt op d = (r, names, d')"
  shows "(succeeded r \<longrightarrow> sorted_wrt (<) names \<and> sqlite_ready d'
            \<and> set names = {n. \<exists>x fd. sqlite_stored d (c, n) = Some (x, fd) \<and> filter_matches op flt fd})
         \<and> sqlite_store d' = sqlite_store d
         \<and> (engine_ready d \<and> c \<noteq> [] \<and> flt \<noteq> [] \<longrightarrow> succeeded r)"
proof -
  obtain t where t: "idle d" "db_file d = Some t" "sqlite_wf t" using assms(1) by (rule sqlite_readyE)
  note o = findSecrets_outcome [OF t(1,2), of "engine_ready d" c flt op, simplified, unfolded assms(2)]
  have f: "db_file d' = Some t" using o by (simp add: read_outcome_def)
  have s: "idle d' \<and> flt \<noteq> [] \<and> names = find_result c flt op t" if "succeeded r"
    using o that by (simp add: read_outcome_def)
  have "engine_ready d \<and> c \<noteq> [] \<and> flt \<noteq> [] \<longrightarrow> succeeded r"
    using o by (auto simp: read_outcome_def split: if_splits)
  moreover have "sqlite_store d' = sqlite_store d" using f t(2) by (simp add: sqlite_store_def)
  moreover have "sorted_wrt (<) names \<and> sqlite_ready d'
      \<and> set names = {n. \<exists>x fd. sqlite_stored d (c, n) = Some (x, fd) \<and> filter_matches op flt fd}" if "succeeded r"
  proof (intro conjI)
    have n: "names = find_result c flt op t" "idle d'" "flt \<noteq> []" using s [OF that] by simp_all
    show "sorted_wrt (<) names" unfolding n(1) by (rule find_result_sorted)
    show "sqlite_ready d'" by (rule sqlite_readyI [OF n(2) f t(3)])
    show "set names = {n. \<exists>x fd. sqlite_stored d (c, n) = Some (x, fd) \<and> filter_matches op flt fd}"
      unfolding n(1) sqlite_views(2) [OF t(2)] using find_result_spec [OF t(3) n(3)] by blast
  qed
  ultimately show ?thesis by blast
qed

theorem findSecrets_exact_witness:
  "sqlite_ready (demo_sqlite []) \<and> engine_ready (demo_sqlite [])
   \<and> succeeded (fst (SqlitePlugin_findSecrets ''c'' [(''Kind'', ''WEB'')] OperatorAnd (demo_sqlite [])))
   \<and> fst (snd (SqlitePlugin_findSecrets ''c'' [(''Kind'', ''WEB'')] OperatorAnd (demo_sqlite []))) = [''s'']
   \<and> ''s'' \<in> {n. \<exists>x fd. sqlite_stored (demo_sqlite []) (''c'', n) = Some (x, fd)
                   \<and> filter_matches OperatorAnd [(''Kind'', ''WEB'')] fd}"
proof -
  have a: "sqlite_ready (demo_sqlite [])" "engine_ready (demo_sqlite [])" by (code_simp, code_simp)
  obtain r names d' where f: "SqlitePlugin_findSecrets ''c'' [(''Kind'', ''WEB'')] OperatorAnd (demo_sqlite []) = (r, names, d')"
    by (metis prod_cases3)
  have n: "fst (snd (SqlitePlugin_findSecrets ''c'' [(''Kind'', ''WEB'')] OperatorAnd (demo_sqlite []))) = [''s'']"
    by code_simp
  have k: "names = [''s'']" using n f by simp
  have "succeeded r" using findSecrets_exact [OF a(1) f] a(2) by simp
  then show ?thesis using findSecrets_exact [OF a(1) f] a n f k by auto
qed

subsection \<open>Re-encryption\<close>

text \<open>Which secrets are re-encrypted: those of a collection, or one standalone secret.\<close>

definition reencrypted :: "qstring \<Rightarrow> qstring \<Rightarrow> qstring \<times> qstring \<Rightarrow> bool" where
  "reencrypted c n i = (if c = [] then i = (standalone, n) else fst i = c)"

definition update_key :: "qstring \<times> qstring \<times> qbytes \<Rightarrow> (qstring \<times> qstring) \<times> qbytes" where
  "update_key u = ((fst u, fst (snd u)), snd (snd u))"

abbreviation update_statement :: "qstring \<times> qstring \<times> qbytes \<Rightarrow> sqlite_tables \<Rightarrow> (unit \<times> sqlite_tables) option" where
  "update_statement \<equiv> \<lambda>(c, n, x). sqlite_updateSecret c n x"

lemma updateSecret_write:
  "(c, n) \<in> q_key ` set (st_Secrets t) \<Longrightarrow> sqlite_updateSecret c n x t = write_secret c n x t"
  by (simp add: write_secret_def)

lemma write_secret_stored:
  assumes "write_secret c n x t = Some (u, t')" and "sqlite_wf t"
  shows "tables_stored t' i =
    (if i = (c, n) then Some (x, filter_data_of t i) else tables_stored t i)"
    "filter_data_of t' = filter_data_of t"
proof -
  note e = write_secret_effect [OF assms]
  show f: "filter_data_of t' = filter_data_of t"
    by (rule ext) (rule filter_data_of_cong, simp add: e(2))
  show "tables_stored t' i = (if i = (c, n) then Some (x, filter_data_of t i) else tables_stored t i)"
    unfolding tables_stored_def e(4) f by simp
qed

lemma apply_updates:
  assumes "sqlite_wf t" and "distinct (map (fst \<circ> update_key) us)"
    and "fst ` update_key ` set us \<subseteq> q_key ` set (st_Secrets t)"
  shows "\<exists>t'. apply_statements (map update_statement us) t = Some t' \<and> sqlite_wf t'
    \<and> st_Collections t' = st_Collections t
    \<and> (\<forall>i. tables_stored t' i =
         (case map_of (map update_key us) i of
            None \<Rightarrow> tables_stored t i | Some y \<Rightarrow> Some (y, filter_data_of t i)))"
  using assms
proof (induction us arbitrary: t)
  case (Cons u us)
  obtain c n x where u: "u = (c, n, x)" by (cases u)
  have k: "(c, n) \<in> q_key ` set (st_Secrets t)" using Cons.prems(3) by (simp add: u update_key_def)
  then obtain t1 where w: "write_secret c n x t = Some ((), t1)"
    using write_secret_None [of c n x t] by (cases "write_secret c n x t") auto
  note e = write_secret_effect [OF w Cons.prems(1)] and s = write_secret_stored [OF w Cons.prems(1)]
  have dom: "q_key ` set (st_Secrets t) \<subseteq> q_key ` set (st_Secrets t1)"
  proof
    fix i assume "i \<in> q_key ` set (st_Secrets t)"
    then have "tables_stored t i \<noteq> None" using tables_stored_None [of t i] by simp
    then have "tables_stored t1 i \<noteq> None" unfolding s by simp
    then show "i \<in> q_key ` set (st_Secrets t1)" using tables_stored_None [of t1 i] by simp
  qed
  have "\<exists>t'. apply_statements (map update_statement us) t1 = Some t' \<and> sqlite_wf t'
      \<and> st_Collections t' = st_Collections t1
      \<and> (\<forall>i. tables_stored t' i = (case map_of (map update_key us) i of
            None \<Rightarrow> tables_stored t1 i | Some y \<Rightarrow> Some (y, filter_data_of t1 i)))"
  proof (rule Cons.IH [OF e(5)])
    show "distinct (map (fst \<circ> update_key) us)" using Cons.prems(2) by (simp add: comp_def)
    show "fst ` update_key ` set us \<subseteq> q_key ` set (st_Secrets t1)"
      using Cons.prems(3) dom by (simp only: list.set image_insert insert_subset) (elim conjE, rule subset_trans)
  qed
  then obtain t' where t': "apply_statements (map update_statement us) t1 = Some t'" "sqlite_wf t'"
    "st_Collections t' = st_Collections t1"
    "\<And>i. tables_stored t' i = (case map_of (map update_key us) i of
            None \<Rightarrow> tables_stored t1 i | Some y \<Rightarrow> Some (y, filter_data_of t1 i))" by blast
  have fresh: "map_of (map update_key us) (c, n) = None"
    using Cons.prems(2) by (simp add: map_of_eq_None_iff image_comp u) (simp add: update_key_def)
  have "tables_stored t' i = (case map_of (map update_key (u # us)) i of
            None \<Rightarrow> tables_stored t i | Some y \<Rightarrow> Some (y, filter_data_of t i))" for i
    unfolding t'(4) [of i] s using fresh by (cases "i = (c, n)") (simp_all add: u update_key_def)
  with t'(1-3) e(1) k show ?case by (simp add: u updateSecret_write w)
qed simp

lemma reencrypt_rows_ok:
  assumes "reencrypt_rows e old new rows = Inr us" and "distinct (map q_key rows)"
  shows "map (fst \<circ> update_key) us = map q_key rows
    \<and> (\<forall>row \<in> set rows. \<exists>p r1 r2 y. ep_decryptSecret e (q_Secret row) old = (r1, p) \<and> succeeded r1
         \<and> ep_encryptSecret e p new = (r2, y) \<and> succeeded r2
         \<and> map_of (map update_key us) (q_key row) = Some y)"
  using assms
proof (induction rows arbitrary: us)
  case (Cons row rows)
  obtain r1 p where d: "ep_decryptSecret e (q_Secret row) old = (r1, p)" by fastforce
  obtain r2 y where n: "ep_encryptSecret e p new = (r2, y)" by fastforce
  from Cons.prems(1) d n obtain us' where us: "succeeded r1" "succeeded r2"
    "reencrypt_rows e old new rows = Inr us'" "us = (q_CollectionName row, q_SecretName row, y) # us'"
    by (simp split: if_splits sum.splits)
  note ih = Cons.IH [OF us(3)]
  have k: "update_key (q_CollectionName row, q_SecretName row, y) = (q_key row, y)"
    by (simp add: update_key_def)
  have "q_key r \<noteq> q_key row" if "r \<in> set rows" for r
  proof
    assume eq: "q_key r = q_key row"
    have "q_key r \<in> q_key ` set rows" using that by (rule imageI)
    then have "q_key row \<in> set (map q_key rows)" unfolding eq set_map .
    then show False using Cons.prems(2) by (simp only: list.map distinct.simps) simp
  qed
  note fresh = this
  have keys: "map (fst \<circ> update_key) us = map q_key (row # rows)" using ih Cons.prems(2) us(4) k by (simp add: comp_def)
  have "\<exists>p r1 r2 y. ep_decryptSecret e (q_Secret r) old = (r1, p) \<and> succeeded r1
         \<and> ep_encryptSecret e p new = (r2, y) \<and> succeeded r2 \<and> map_of (map update_key us) (q_key r) = Some y"
    if "r \<in> set (row # rows)" for r
  proof (cases "r = row")
    case True
    have "map_of (map update_key us) (q_key row) = Some y" by (simp add: us(4) k)
    with d n us(1,2) True show ?thesis by blast
  next
    case False
    with that have r: "r \<in> set rows" by simp
    have "map_of (map update_key us) (q_key r) = map_of (map update_key us') (q_key r)"
      using fresh [OF r] by (simp add: us(4) k del: prod.inject)
    moreover have "distinct (map q_key rows)" using Cons.prems(2) by simp
    ultimately show ?thesis using conjunct2 [OF ih] r by simp
  qed
  with keys show ?case by blast
qed simp

lemma reencrypt_outcome:
  assumes "idle d" and "db_file d = Some t"
  shows "outcome False t
    (\<lambda>t'. \<exists>us. reencrypt_rows e old new (filter (\<lambda>r. reencrypted c n (q_key r)) (st_Secrets t)) = Inr us
          \<and> apply_statements (map update_statement us) t = Some t')
    (\<lambda>r. True) (SqlitePlugin_reencrypt c n old new e d)"
proof (cases "c = [] \<and> n = []")
  case True
  then show ?thesis using assms
    by (auto simp: SqlitePlugin_reencrypt_def opened intro!: outcome_now)
next
  case False
  have f: "False \<longrightarrow> engine_ready d" by simp
  let ?sel = "if c = [] then (sq_selectStandaloneSecrets, \<lambda>r. q_key r = (standalone, n))
     else (sq_selectSecrets, \<lambda>r. q_CollectionName r = c)"
  have sel: "?sel = (fst ?sel, \<lambda>r. reencrypted c n (q_key r))"
    by (simp add: reencrypted_def)
  show ?thesis
    unfolding SqlitePlugin_reencrypt_def Let_def opened [OF assms(1)] if_not_P [OF False]
    apply (subst sel, simp only: prod.case)
    apply (rule outcome_begin [OF assms f])
    apply (rule outcome_execute, assumption)
    subgoal for d1 rows t1 d2
    proof -
      assume "sql_select (\<lambda>t. filter (\<lambda>r. reencrypted c n (q_key r)) (st_Secrets t)) t = Some (rows, t1)"
        and tx: "tx False t t1 d2"
      then have rows: "rows = filter (\<lambda>r. reencrypted c n (q_key r)) (st_Secrets t)" "t1 = t"
        by (auto simp: sql_select_def)
      show ?thesis
      proof (cases "reencrypt_rows e old new rows")
        case (Inl r)
        have "\<not> succeeded r" using Inl
          by (induction rows arbitrary: r) (auto split: prod.splits if_splits sum.splits)
        with Inl show ?thesis using tx_rollback [OF tx] by (simp add: rows(2))
      next
        case (Inr us)
        show ?thesis unfolding Inr sum.case
          apply (rule outcome_prepare [OF tx])
          apply (rule outcome_statements, assumption)
           apply (rule outcome_commit, assumption)
          using Inr by (simp_all add: rows)
      qed
    qed
    by (simp add: sql_select_def)
qed

lemma reencrypt_tables_effect:
  assumes "sqlite_wf t"
    and "reencrypt_rows e old new (filter (\<lambda>r. reencrypted c n (q_key r)) (st_Secrets t)) = Inr us"
    and "apply_statements (map update_statement us) t = Some t'"
  shows "sqlite_wf t'" "st_Collections t' = st_Collections t" "dom (tables_stored t') = dom (tables_stored t)"
    "\<not> reencrypted c n i \<Longrightarrow> tables_stored t' i = tables_stored t i"
    "tables_stored t i = Some (x, fd) \<Longrightarrow> reencrypted c n i \<Longrightarrow>
       \<exists>p r1 r2 y. tables_stored t' i = Some (y, fd) \<and> ep_decryptSecret e x old = (r1, p) \<and> succeeded r1
         \<and> ep_encryptSecret e p new = (r2, y) \<and> succeeded r2"
proof -
  let ?rows = "filter (\<lambda>r. reencrypted c n (q_key r)) (st_Secrets t)"
  have dist: "distinct (map q_key ?rows)" using assms(1) by (auto simp: sqlite_wf_def distinct_map_filter)
  note ro = reencrypt_rows_ok [OF assms(2) dist]
  have keys: "fst ` update_key ` set us = q_key ` set ?rows"
    using arg_cong [of _ _ set, OF conjunct1 [OF ro]] by (simp add: image_comp)
  have "distinct (map (fst \<circ> update_key) us)" using ro dist by simp
  moreover have "fst ` update_key ` set us \<subseteq> q_key ` set (st_Secrets t)" unfolding keys by auto
  ultimately have a: "sqlite_wf t'" "st_Collections t' = st_Collections t"
    "\<And>i. tables_stored t' i = (case map_of (map update_key us) i of
       None \<Rightarrow> tables_stored t i | Some y \<Rightarrow> Some (y, filter_data_of t i))"
    using apply_updates [OF assms(1), of us] assms(3) by auto
  show "sqlite_wf t'" "st_Collections t' = st_Collections t" by (rule a(1), rule a(2))
  show "tables_stored t' i = tables_stored t i" if "\<not> reencrypted c n i"
  proof -
    have "i \<notin> fst ` update_key ` set us" unfolding keys using that by auto
    then have "map_of (map update_key us) i = None" by (simp add: map_of_eq_None_iff image_comp)
    then show ?thesis by (simp add: a(3))
  qed
  show "dom (tables_stored t') = dom (tables_stored t)"
  proof (intro set_eqI)
    fix i
    have "map_of (map update_key us) i = None \<or> i \<in> dom (tables_stored t)"
      unfolding dom_tables_stored using keys by (auto simp: map_of_eq_None_iff image_comp)
    then show "i \<in> dom (tables_stored t') \<longleftrightarrow> i \<in> dom (tables_stored t)"
      unfolding domIff a(3) by (auto split: option.splits)
  qed
  show "\<exists>p r1 r2 y. tables_stored t' i = Some (y, fd) \<and> ep_decryptSecret e x old = (r1, p) \<and> succeeded r1
         \<and> ep_encryptSecret e p new = (r2, y) \<and> succeeded r2"
    if i: "tables_stored t i = Some (x, fd)" "reencrypted c n i"
  proof -
    from i(1) obtain row where row: "find (\<lambda>r. q_key r = i) (st_Secrets t) = Some row"
      "x = q_Secret row" "fd = filter_data_of t i" unfolding tables_stored_def by auto
    from find_Some_in [OF row(1)] i(2) have k: "row \<in> set ?rows" "q_key row = i" by auto
    with ro obtain p r1 r2 y where p: "ep_decryptSecret e x old = (r1, p)" "succeeded r1"
      "ep_encryptSecret e p new = (r2, y)" "succeeded r2" "map_of (map update_key us) (q_key row) = Some y"
      unfolding row(2) by blast
    have "tables_stored t' i = Some (y, fd)" using p(5) k(2) by (simp add: a(3) row(3))
    with p(1-4) show ?thesis by blast
  qed
qed

text \<open>What a successful re-encryption did to every secret: those it selected are encrypted anew, the others are untouched.\<close>

definition reencrypted_secrets ::
    "qstring \<Rightarrow> qstring \<Rightarrow> qbytes \<Rightarrow> qbytes \<Rightarrow> EncryptionPlugin \<Rightarrow> sqlite_db \<Rightarrow> sqlite_db \<Rightarrow> bool" where
  "reencrypted_secrets c n old new e d d' \<longleftrightarrow>
     sqlite_collections d' = sqlite_collections d \<and> dom (sqlite_stored d') = dom (sqlite_stored d)
     \<and> (\<forall>i x fd. sqlite_stored d i = Some (x, fd) \<longrightarrow>
          (if reencrypted c n i
           then \<exists>y p r1 r2. sqlite_stored d' i = Some (y, fd)
                  \<and> ep_decryptSecret e x old = (r1, p) \<and> succeeded r1
                  \<and> ep_encryptSecret e p new = (r2, y) \<and> succeeded r2
           else sqlite_stored d' i = Some (x, fd)))"

lemma reencrypt_effect:
  assumes "sqlite_ready d" and "SqlitePlugin_reencrypt c n old new e d = (r, d')"
  shows "if succeeded r then sqlite_ready d' \<and> reencrypted_secrets c n old new e d d' else sqlite_store d' = sqlite_store d"
proof -
  obtain t where t: "idle d" "db_file d = Some t" "sqlite_wf t" using assms(1) by (rule sqlite_readyE)
  note o = reencrypt_outcome [OF t(1,2), of e old new c n, unfolded assms(2)]
  show ?thesis
  proof (cases "succeeded r")
    case False
    then show ?thesis using outcome_fails [OF o] t(2) by (simp add: sqlite_store_def)
  next
    case True
    from o True obtain t' us where t': "idle d'" "db_file d' = Some t'"
      "reencrypt_rows e old new (filter (\<lambda>r. reencrypted c n (q_key r)) (st_Secrets t)) = Inr us"
      "apply_statements (map update_statement us) t = Some t'"
      by (auto elim: outcome_ok)
    note a = reencrypt_tables_effect [OF t(3) t'(3,4)]
    have new: "\<exists>y p r1 r2. tables_stored t' i = Some (y, fd) \<and> ep_decryptSecret e x old = (r1, p) \<and> succeeded r1
        \<and> ep_encryptSecret e p new = (r2, y) \<and> succeeded r2"
      if "tables_stored t i = Some (x, fd)" "reencrypted c n i" for i x fd
      using a(5) [OF that] by blast
    show ?thesis
      unfolding if_P [OF True] reencrypted_secrets_def sqlite_views(1) [OF t'(2)] sqlite_views(2) [OF t'(2)]
        sqlite_views(1) [OF t(2)] sqlite_views(2) [OF t(2)] a(2)
      using sqlite_readyI [OF t'(1,2) a(1)] a(3,4) new by simp
  qed
qed

text \<open>
  C13. Re-encryption keeps the secrets, with any encryption plugin. When \<open>SqlitePlugin_reencrypt\<close> succeeds, every
  selected secret decrypted successfully under the old key, and what is stored now is what the plugin returned when it
  encrypted this plaintext under the new key, with the filter data kept; every other secret and every collection is untouched. So a
  selected secret decrypts under the new key to its old plaintext wherever the plugin decrypts its own encryption of it. When
  the operation fails, nothing has changed.
\<close>

theorem reencrypt_keeps_plaintext:
  assumes "sqlite_ready d" and "SqlitePlugin_reencrypt c n old new e d = (r, d')"
  shows "if succeeded r
         then sqlite_ready d' \<and> sqlite_collections d' = sqlite_collections d
              \<and> dom (sqlite_stored d') = dom (sqlite_stored d)
              \<and> (\<forall>i x fd. sqlite_stored d i = Some (x, fd) \<longrightarrow>
                   (if reencrypted c n i
                    then \<exists>y p r1 r2. sqlite_stored d' i = Some (y, fd)
                           \<and> ep_decryptSecret e x old = (r1, p) \<and> succeeded r1
                           \<and> ep_encryptSecret e p new = (r2, y) \<and> succeeded r2
                    else sqlite_stored d' i = Some (x, fd)))
         else sqlite_store d' = sqlite_store d"
  using reencrypt_effect [OF assms] unfolding reencrypted_secrets_def .

text \<open>A cipher to exhibit the theorem: the key is put in front of the plaintext, and decryption checks it.\<close>

definition demo_cipher :: EncryptionPlugin where
  "demo_cipher =
     \<lparr>ep_deriveKeyFromCode = (\<lambda>code salt. (success, code @ salt)),
      ep_encryptSecret = (\<lambda>p k. (success, k @ p)),
      ep_decryptSecret = (\<lambda>y k. if take (length k) y = k then (success, drop (length k) y)
                                else (failure SecretsPluginDecryptionError, []))\<rparr>"

theorem reencrypt_keeps_plaintext_witness:
  "\<exists>y p. sqlite_stored (snd (SqlitePlugin_reencrypt ''c'' [] ''x'' ''zz'' demo_cipher (demo_sqlite []))) (''c'', ''s'')
       = Some (y, [(''kind'', ''web'')])
     \<and> snd (ep_decryptSecret demo_cipher ''x'' ''x'') = p \<and> snd (ep_encryptSecret demo_cipher p ''zz'') = y
     \<and> snd (ep_decryptSecret demo_cipher y ''zz'') = p"
proof -
  have a: "sqlite_ready (demo_sqlite [])" by code_simp
  have s: "succeeded (fst (SqlitePlugin_reencrypt ''c'' [] ''x'' ''zz'' demo_cipher (demo_sqlite [])))" by code_simp
  have c: "sqlite_stored (demo_sqlite []) (''c'', ''s'') = Some (''x'', [(''kind'', ''web'')])" by code_simp
  have e: "reencrypted ''c'' [] (''c'', ''s'')" by code_simp
  note th = reencrypt_keeps_plaintext [OF a prod.collapse [symmetric],
      where c = "''c''" and n = "[]" and old = "''x''" and new = "''zz''" and e = demo_cipher, unfolded if_P [OF s]]
  from th [THEN conjunct2, THEN conjunct2, THEN conjunct2, rule_format, OF c, unfolded if_P [OF e]]
  obtain y p r1 r2 where y: "sqlite_stored (snd (SqlitePlugin_reencrypt ''c'' [] ''x'' ''zz'' demo_cipher (demo_sqlite []))) (''c'', ''s'')
       = Some (y, [(''kind'', ''web'')])" "ep_decryptSecret demo_cipher ''x'' ''x'' = (r1, p)" "ep_encryptSecret demo_cipher p ''zz'' = (r2, y)"
    by blast
  moreover from y(3) have "snd (ep_decryptSecret demo_cipher y ''zz'') = p" by (auto simp: demo_cipher_def)
  ultimately show ?thesis by (intro exI [of _ y] exI [of _ p]) simp
qed

subsection \<open>Where a refused request upsets the transaction counter\<close>

lemma opened_readable: "db_readable d \<Longrightarrow> SqlitePlugin_openDatabaseIfNecessary d = d"
  by (simp add: SqlitePlugin_openDatabaseIfNecessary_def db_readable_def)

text \<open>
  A refused \<^verbatim>\<open>SELECT\<close> in \<open>SqlitePlugin_collectionNames\<close> makes the next transaction fail.
  The query is not run inside a transaction, but its failure is followed by a rollback, which
  takes the counter below zero. With an engine that refuses nothing any more, the next
  \<open>SqlitePlugin_createCollection\<close> is then refused with a transaction error, and only the one
  after it runs.
\<close>

theorem stray_rollback_refuses_next:
  assumes "idle d" and "sq_selectCollectionNames \<in> set (db_prepared d)"
    and "SqlitePlugin_collectionNames d = (r, names, d1)" and "\<not> succeeded r"
    and "engine_ready d1" and "c \<noteq> []" and "\<not> same_ignoring_case c standalone"
    and "SqlitePlugin_createCollection c d1 = (r2, d2)"
  shows "r2 = failure DatabaseTransactionError \<and> idle d2 \<and> db_file d2 = db_file d"
proof -
  obtain t where t: "db_file d = Some t" using idle_file [OF assms(1)] ..
  have p: "Database_prepare sq_selectCollectionNames d = (True, d)"
    using assms(2) by (simp add: Database_prepare_def)
  obtain x e where x: "Database_execute (sql_select st_Collections) d = (x, e)"
    by (cases "Database_execute (sql_select st_Collections) d")
  have "x = None" and d1: "d1 = rollback_db e"
    using assms(3,4) p x by (auto simp: SqlitePlugin_collectionNames_def opened [OF assms(1)] split: option.splits)
  with execute_idle [OF assms(1) t x] have e: "idle e" "db_file e = Some t" by simp_all
  then have i1: "db_readable d1" "db_file d1 = Some t" "db_work d1 = None" "db_semaphore d1 = - 1"
    by (auto simp: d1 idle_def Database_rollbackTransaction_def)
  obtain q d3 where d3: "Database_prepare sq_selectCollectionsCount d1 = (q, d3)"
    by (cases "Database_prepare sq_selectCollectionsCount d1")
  with ready_prepare [OF assms(5) i1(1), of sq_selectCollectionsCount] have q by simp
  note k = prepare_keeps [OF d3]
  have b: "Database_beginTransaction d3 = (False, d3\<lparr>db_semaphore := 0\<rparr>)"
    using k(3) i1(4) by (simp add: Database_beginTransaction_def)
  have "r2 = failure DatabaseTransactionError" "d2 = d3\<lparr>db_semaphore := 0\<rparr>"
    using assms(6-8) d3 \<open>q\<close> b
    by (auto simp: SqlitePlugin_createCollection_def opened_readable [OF i1(1)])
  with k i1 t show ?thesis by (simp add: idle_def)
qed

theorem stray_rollback_refuses_next_witness:
  "let d = (demo_sqlite [Refused])\<lparr>db_prepared := [sq_selectCollectionNames]\<rparr>;
       d1 = snd (snd (SqlitePlugin_collectionNames d))
   in idle d \<and> fst (SqlitePlugin_createCollection ''n'' d1) = failure DatabaseTransactionError"
proof -
  let ?d = "(demo_sqlite [Refused])\<lparr>db_prepared := [sq_selectCollectionNames]\<rparr>"
  obtain r names d1 where n: "SqlitePlugin_collectionNames ?d = (r, names, d1)" by (metis prod_cases3)
  obtain r2 d2 where c: "SqlitePlugin_createCollection ''n'' d1 = (r2, d2)" by fastforce
  have a: "idle ?d" "sq_selectCollectionNames \<in> set (db_prepared ?d)" by (code_simp, simp)
  have b: "\<not> succeeded (fst (SqlitePlugin_collectionNames ?d))"
    "engine_ready (snd (snd (SqlitePlugin_collectionNames ?d)))" by (code_simp, code_simp)
  have e: "''n'' \<noteq> []" "\<not> same_ignoring_case ''n'' standalone" by (simp, code_simp)
  have "r2 = failure DatabaseTransactionError"
    using stray_rollback_refuses_next [OF a n _ _ e c] b n by simp
  with a(1) n c show ?thesis by simp
qed

text \<open>
  A query that cannot be prepared in \<open>SqlitePlugin_getSecret\<close> loses later changes. When the engine
  refuses to prepare the query for the filter data, the operation returns from inside its
  transaction. A later \<open>SqlitePlugin_removeSecret\<close>, which the engine carries
  out in full, reports success, but the transaction it believes to have committed is
  still open: the durable contents still hold the secret, and it is there again when the
  database is closed and opened.
\<close>

theorem leaked_transaction_loses_removal:
  assumes "sqlite_ready d" and "db_prepared d = []" and "db_answers d = [Ok, Ok, Ok, Refused]"
    and "sqlite_stored d (c, n) = Some v" and "c \<noteq> []" and "n \<noteq> []"
    and "SqlitePlugin_getSecret c n d = (r1, y, d1)"
    and "SqlitePlugin_removeSecret c n d1 = (r2, d2)"
  shows "\<not> succeeded r1 \<and> succeeded r2 \<and> sqlite_stored (Database_close d2) (c, n) = Some v"
proof -
  obtain t where t: "idle d" "db_file d = Some t" "sqlite_wf t" using assms(1) by (rule sqlite_readyE)
  have w: "db_work d = None" "db_semaphore d = 0" "db_readable d" using t(1) by (simp_all add: idle_def)
  have "(c, n) \<in> dom (tables_stored t)" using assms(4) t(2) by auto
  then obtain row where row: "find (\<lambda>r. q_key r = (c, n)) (st_Secrets t) = Some row"
    unfolding tables_stored_def by auto
  have g: "\<not> succeeded r1" "d1 = d\<lparr>db_work := Some t, db_semaphore := 1, db_prepared := [sq_selectSecret], db_answers := []\<rparr>"
    using assms(2,3,5,6,7) t(2) w row
    by (simp_all add: SqlitePlugin_getSecret_def opened [OF t(1)] Database_prepare_def next_answer_def
        drop_answer_def Database_beginTransaction_def sql_begin_def Database_execute_def db_view_def
        sql_select_def db_write_def Let_def del: prod.inject) auto
  have r: "db_readable d1" using w(3) by (simp add: g(2))
  obtain t' where t': "sqlite_deleteSecret c n t = Some ((), t')" by (simp add: sqlite_deleteSecret_def)
  have "succeeded r2" "db_file d2 = Some t"
    using assms(5,6,8) t(2) t' r w(3)
    by (simp_all add: SqlitePlugin_removeSecret_def opened_readable [OF r])
      (auto simp: g(2) Database_prepare_def next_answer_def drop_answer_def Database_beginTransaction_def
        Database_execute_def db_view_def db_write_def commit_result_def Database_commitTransaction_def Let_def)
  then show ?thesis using g(1) assms(4) t(2) by (simp add: Database_close_def)
qed

theorem leaked_transaction_loses_removal_witness:
  "let d = demo_sqlite [Ok, Ok, Ok, Refused];
       d1 = snd (snd (SqlitePlugin_getSecret ''c'' ''s'' d));
       (r2, d2) = SqlitePlugin_removeSecret ''c'' ''s'' d1
   in succeeded r2 \<and> sqlite_stored (Database_close d2) (''c'', ''s'') = Some (''x'', [(''kind'', ''web'')])"
proof -
  let ?d = "demo_sqlite [Ok, Ok, Ok, Refused]"
  have a: "sqlite_ready ?d" "db_prepared ?d = []" "db_answers ?d = [Ok, Ok, Ok, Refused]"
    by (code_simp, simp_all add: demo_sqlite_def)
  have b: "sqlite_stored ?d (''c'', ''s'') = Some (''x'', [(''kind'', ''web'')])" by code_simp
  obtain r1 y d1 where g: "SqlitePlugin_getSecret ''c'' ''s'' ?d = (r1, y, d1)" by (metis prod_cases3)
  obtain r2 d2 where m: "SqlitePlugin_removeSecret ''c'' ''s'' d1 = (r2, d2)" by fastforce
  from leaked_transaction_loses_removal [OF a b _ _ g m] g m show ?thesis by simp
qed

end
