(* ===== verification/Plugin_Wrapper.thy ===== *)
theory Plugin_Wrapper
  imports Metadata_Db Sqlite_Plugin
begin

section \<open>The plugin wrappers\<close>

text \<open>
  \<^verbatim>\<open>Daemon::ApiImpl::PluginWrapper\<close>, \<^verbatim>\<open>StoragePluginWrapper\<close> and
  \<^verbatim>\<open>EncryptedStoragePluginWrapper\<close> (src/daemon/SecretsImpl/pluginwrapper.cpp): the daemon
  calls a storage plugin only through its wrapper, which keeps the metadata database in
  step with what the plugin stores. A change is made in the metadata inside a transaction, then in the
  plugin, and the transaction is committed or rolled back.

  A wrapper is the metadata database, the flag that says whether metadata and plugin
  have been synchronised, and the plugin's state; the plugin's operations are an argument.
  The theory gives every operation of the three classes, and shows what the wrapper keeps
  of the metadata and of the agreement between metadata and plugin, for every
  behaviour of the plugin or for every plugin with the contract of \<open>Storage_Plugin\<close>, and so for the SQLite plugin.
\<close>

record 's PluginWrapper =
  pw_metadataDb :: metadata_db
  pw_initialized :: bool
  pw_plugin :: 's

subsection \<open>Operations common to both wrappers\<close>

definition PluginWrapper_isMasterLocked :: "'s PluginWrapper \<Rightarrow> bool \<times> 's PluginWrapper" where
  "PluginWrapper_isMasterLocked w =
     (let (result, locked, d) = MetadataDatabase_isLocked False (pw_metadataDb w);
          w1 = w\<lparr>pw_metadataDb := d\<rparr>
      in if \<not> succeeded result then (True, w1) else (locked, w1))"

definition PluginWrapper_masterLock :: "'s PluginWrapper \<Rightarrow> bool \<times> 's PluginWrapper" where
  "PluginWrapper_masterLock w =
     (let (result, d) = MetadataDatabase_lock (pw_metadataDb w);
          w1 = w\<lparr>pw_metadataDb := d\<rparr>
      in (succeeded result, w1))"

text \<open>\<open>initialize\<close> is a virtual function: the derived class's is an argument of the operations that call it.\<close>

definition PluginWrapper_masterUnlock ::
    "(qbytes \<Rightarrow> 's PluginWrapper \<Rightarrow> bool \<times> 's PluginWrapper) \<Rightarrow> qbytes \<Rightarrow> 's PluginWrapper
     \<Rightarrow> bool \<times> 's PluginWrapper" where
  "PluginWrapper_masterUnlock initialize masterLockKey w =
     (let (result, d) = MetadataDatabase_unlock masterLockKey (pw_metadataDb w);
          w1 = w\<lparr>pw_metadataDb := d\<rparr>
      in if res_code result = Failed then (False, w1) else initialize masterLockKey w1)"

definition PluginWrapper_setMasterLockKey ::
    "(qbytes \<Rightarrow> 's PluginWrapper \<Rightarrow> bool \<times> 's PluginWrapper) \<Rightarrow> qbytes \<Rightarrow> qbytes \<Rightarrow> 's PluginWrapper
     \<Rightarrow> bool \<times> 's PluginWrapper" where
  "PluginWrapper_setMasterLockKey initialize oldMasterLockKey newMasterLockKey w =
     (let (result, d) = MetadataDatabase_reencrypt oldMasterLockKey newMasterLockKey (pw_metadataDb w);
          w1 = w\<lparr>pw_metadataDb := d\<rparr>
      in if res_code result = Failed then (False, w1) else initialize newMasterLockKey w1)"

definition PluginWrapper_lock :: "('s, 'x) PluginBase_scheme \<Rightarrow> 's PluginWrapper \<Rightarrow> bool \<times> 's PluginWrapper" where
  "PluginWrapper_lock p w = (let (ok, s) = pb_lock p (pw_plugin w) in (ok, w\<lparr>pw_plugin := s\<rparr>))"

definition PluginWrapper_unlock ::
    "('s, 'x) PluginBase_scheme \<Rightarrow> (qbytes \<Rightarrow> 's PluginWrapper \<Rightarrow> bool \<times> 's PluginWrapper) \<Rightarrow> qbytes
     \<Rightarrow> 's PluginWrapper \<Rightarrow> bool \<times> 's PluginWrapper" where
  "PluginWrapper_unlock p initialize lockCode w =
     (let (ps, s) = pb_unlock p lockCode (pw_plugin w)
      in (ps, snd (initialize [] (w\<lparr>pw_plugin := s\<rparr>))))"

definition PluginWrapper_setLockCode ::
    "('s, 'x) PluginBase_scheme \<Rightarrow> (qbytes \<Rightarrow> 's PluginWrapper \<Rightarrow> bool \<times> 's PluginWrapper) \<Rightarrow> qbytes \<Rightarrow> qbytes
     \<Rightarrow> 's PluginWrapper \<Rightarrow> bool \<times> 's PluginWrapper" where
  "PluginWrapper_setLockCode p initialize oldLockCode newLockCode w =
     (let (ps, s) = pb_setLockCode p oldLockCode newLockCode (pw_plugin w)
      in (ps, snd (initialize [] (w\<lparr>pw_plugin := s\<rparr>))))"

text \<open>The status flags, as the set of those that are raised.\<close>

datatype PluginStatus = MasterUnlocked | PluginUnlocked

definition PluginWrapper_status ::
    "('s, 'x) PluginBase_scheme \<Rightarrow> 's PluginWrapper \<Rightarrow> PluginStatus list \<times> 's PluginWrapper" where
  "PluginWrapper_status p w =
     (let (locked, w1) = PluginWrapper_isMasterLocked w
      in ((if \<not> locked then [MasterUnlocked] else [])
          @ (if \<not> pb_supportsLocking p (pw_plugin w1) \<or> \<not> pb_isLocked p (pw_plugin w1)
             then [PluginUnlocked] else []), w1))"

text \<open>
  The steps every change ends with: the metadata change and then the plugin's change, inside one
  metadata transaction. The result of the commit is not looked at.
\<close>

definition metadata_transaction ::
    "(metadata_db \<Rightarrow> Result \<times> metadata_db) \<Rightarrow> ('s \<Rightarrow> Result \<times> 's) \<Rightarrow> 's PluginWrapper
     \<Rightarrow> Result \<times> 's PluginWrapper" where
  "metadata_transaction change_metadata change_plugin w =
     (let (begun, d1) = Database_beginTransaction (pw_metadataDb w)
      in if \<not> begun then (failure DatabaseTransactionError, w\<lparr>pw_metadataDb := d1\<rparr>)
         else let (result, d2) = change_metadata d1
              in if \<not> succeeded result then (result, w\<lparr>pw_metadataDb := rollback_db d2\<rparr>)
                 else let (result2, s) = change_plugin (pw_plugin w)
                      in if \<not> succeeded result2
                         then (result2, w\<lparr>pw_metadataDb := rollback_db d2, pw_plugin := s\<rparr>)
                         else (success, w\<lparr>pw_metadataDb := commit_db d2, pw_plugin := s\<rparr>))"

text \<open>The checks every change starts with.\<close>

definition unless_locked ::
    "('s, 'x) PluginBase_scheme \<Rightarrow> ('s PluginWrapper \<Rightarrow> Result \<times> 's PluginWrapper) \<Rightarrow> 's PluginWrapper
     \<Rightarrow> Result \<times> 's PluginWrapper" where
  "unless_locked p k w =
     (if pb_isLocked p (pw_plugin w) then (failure SecretsPluginIsLockedError, w)
      else let (masterLocked, w1) = PluginWrapper_isMasterLocked w
           in if masterLocked then (failure SecretsPluginIsLockedError, w1) else k w1)"

text \<open>Local metadata variables before a query fills them; their contents are never read.\<close>

definition unset_collection_metadata :: CollectionMetadata where
  "unset_collection_metadata =
     \<lparr>cm_collectionName = [], cm_ownerApplicationId = [], cm_usesDeviceLockKey = False,
      cm_encryptionPluginName = [], cm_authenticationPluginName = [], cm_unlockSemantic = 0,
      cm_accessControlMode = OwnerOnlyMode\<rparr>"

definition unset_secret_metadata :: SecretMetadata where
  "unset_secret_metadata =
     \<lparr>sm_collectionName = [], sm_secretName = [], sm_ownerApplicationId = [], sm_usesDeviceLockKey = False,
      sm_encryptionPluginName = [], sm_authenticationPluginName = [], sm_unlockSemantic = 0,
      sm_accessControlMode = OwnerOnlyMode, sm_secretType = [], sm_cryptoPluginName = []\<rparr>"

text \<open>Metadata queries, the same in both wrappers: a query that fails reports a missing collection or secret.\<close>

definition PluginWrapper_collectionMetadata ::
    "qstring \<Rightarrow> CollectionMetadata \<Rightarrow> 's PluginWrapper \<Rightarrow> Result \<times> CollectionMetadata \<times> 's PluginWrapper" where
  "PluginWrapper_collectionMetadata collectionName metadata w =
     (let (masterLocked, w1) = PluginWrapper_isMasterLocked w
      in if masterLocked then (failure SecretsPluginIsLockedError, metadata, w1)
         else let (result, m, exists, d) =
                MetadataDatabase_collectionMetadata collectionName metadata False (pw_metadataDb w1)
              in (if exists then result else failure InvalidCollectionError, m, w1\<lparr>pw_metadataDb := d\<rparr>))"

definition PluginWrapper_secretMetadata ::
    "qstring \<Rightarrow> qstring \<Rightarrow> SecretMetadata \<Rightarrow> 's PluginWrapper \<Rightarrow> Result \<times> SecretMetadata \<times> 's PluginWrapper" where
  "PluginWrapper_secretMetadata collectionName secretName metadata w =
     (let (masterLocked, w1) = PluginWrapper_isMasterLocked w
      in if masterLocked then (failure SecretsPluginIsLockedError, metadata, w1)
         else let (result, m, exists, d) =
                MetadataDatabase_secretMetadata collectionName secretName metadata False (pw_metadataDb w1)
              in (if exists then result else failure InvalidSecretError, m, w1\<lparr>pw_metadataDb := d\<rparr>))"

definition PluginWrapper_keyNames ::
    "qstring \<Rightarrow> 's PluginWrapper \<Rightarrow> Result \<times> qstring list \<times> 's PluginWrapper" where
  "PluginWrapper_keyNames collectionName w =
     (let (result, names, d) = MetadataDatabase_keyNames collectionName (pw_metadataDb w)
      in (result, names, w\<lparr>pw_metadataDb := d\<rparr>))"

subsection \<open>The wrapper of a storage plugin\<close>

text \<open>The map of collection names to their lock state: storage plugins do not lock collections.\<close>

definition StoragePluginWrapper_collectionNames ::
    "'s StoragePlugin \<Rightarrow> 's PluginWrapper \<Rightarrow> Result \<times> (qstring \<times> bool) list \<times> 's PluginWrapper" where
  "StoragePluginWrapper_collectionNames p w =
     (let (result, cnames, s) = sp_collectionNames p (pw_plugin w)
      in (result, fold (\<lambda>cname. qmap_insert cname False) cnames [], w\<lparr>pw_plugin := s\<rparr>))"

definition StoragePluginWrapper_secretNames ::
    "'s StoragePlugin \<Rightarrow> qstring \<Rightarrow> 's PluginWrapper \<Rightarrow> Result \<times> qstring list \<times> 's PluginWrapper" where
  "StoragePluginWrapper_secretNames p collectionName w =
     (let (result, names, s) = sp_secretNames p collectionName (pw_plugin w)
      in (result, names, w\<lparr>pw_plugin := s\<rparr>))"

primrec StoragePluginWrapper_identifiers ::
    "'s StoragePlugin \<Rightarrow> qstring list \<Rightarrow> (qstring \<times> qstring) list \<Rightarrow> 's PluginWrapper
     \<Rightarrow> (qstring \<times> qstring) list option \<times> 's PluginWrapper" where
  "StoragePluginWrapper_identifiers p [] identifiers w = (Some identifiers, w)"
| "StoragePluginWrapper_identifiers p (cname # cnames) identifiers w =
     (let (result, snames, w1) = StoragePluginWrapper_secretNames p cname w
      in if \<not> succeeded result then (None, w1)
         else StoragePluginWrapper_identifiers p cnames (identifiers @ map (Pair cname) snames) w1)"

text \<open>
  Step three of \<open>initialize\<close>, for both wrappers: the metadata is brought in line with what
  the plugin reported.
\<close>

definition PluginWrapper_synchronise ::
    "MetadataConfig \<Rightarrow> qstring list \<Rightarrow> (qstring \<times> qstring) list \<Rightarrow> qstring list \<Rightarrow> 's PluginWrapper
     \<Rightarrow> bool \<times> 's PluginWrapper" where
  "PluginWrapper_synchronise cfg cnames identifiers lockedCollections w =
     (let (begun, d1) = Database_beginTransaction (pw_metadataDb w)
      in if \<not> begun then (False, w\<lparr>pw_metadataDb := d1\<rparr>)
         else let (initCollections, d2) =
                    MetadataDatabase_initializeCollectionsFromPluginData cfg cnames d1;
                  (initSecrets, d3) =
                    MetadataDatabase_initializeSecretsFromPluginData cfg identifiers lockedCollections d2
              in (True, w\<lparr>pw_metadataDb := commit_db d3,
                          pw_initialized := initCollections \<and> initSecrets \<and> lockedCollections = []\<rparr>))"

definition StoragePluginWrapper_initialize ::
    "'s StoragePlugin \<Rightarrow> MetadataConfig \<Rightarrow> qbytes \<Rightarrow> 's PluginWrapper \<Rightarrow> bool \<times> 's PluginWrapper" where
  "StoragePluginWrapper_initialize p cfg masterLockKey w =
     (if pw_initialized w then (True, w)
      else let (opened, d1) = (if db_isOpen (pw_metadataDb w) then (True, pw_metadataDb w)
                               else MetadataDatabase_openDatabase masterLockKey (pw_metadataDb w));
               w1 = w\<lparr>pw_metadataDb := d1\<rparr>
      in if \<not> opened then (False, w1)
      else if pb_isLocked p (pw_plugin w1) then (False, w1)
      else let (result, cnamesMap, w2) = StoragePluginWrapper_collectionNames p w1;
               cnames = map fst cnamesMap
      in if \<not> succeeded result then (False, w2)
      else let (identifiers, w3) = StoragePluginWrapper_identifiers p cnames [] w2
      in case identifiers of
           None \<Rightarrow> (False, w3)
         | Some ids \<Rightarrow> PluginWrapper_synchronise cfg cnames ids [] w3)"

definition StoragePluginWrapper_getSecret ::
    "'s StoragePlugin \<Rightarrow> qstring \<Rightarrow> qstring \<Rightarrow> 's PluginWrapper
     \<Rightarrow> Result \<times> (qbytes \<times> filter_data) option \<times> 's PluginWrapper" where
  "StoragePluginWrapper_getSecret p collectionName secretName w =
     (let (result, x, s) = sp_getSecret p collectionName secretName (pw_plugin w)
      in (result, x, w\<lparr>pw_plugin := s\<rparr>))"

definition StoragePluginWrapper_findSecrets ::
    "'s StoragePlugin \<Rightarrow> qstring \<Rightarrow> filter_data \<Rightarrow> FilterOperator \<Rightarrow> 's PluginWrapper
     \<Rightarrow> Result \<times> qstring list \<times> 's PluginWrapper" where
  "StoragePluginWrapper_findSecrets p collectionName flt filterOperator w =
     (let (result, names, s) = sp_findSecrets p collectionName flt filterOperator (pw_plugin w)
      in (result, names, w\<lparr>pw_plugin := s\<rparr>))"

definition StoragePluginWrapper_reencrypt ::
    "'s StoragePlugin \<Rightarrow> qstring \<Rightarrow> qstring \<Rightarrow> qbytes \<Rightarrow> qbytes \<Rightarrow> EncryptionPlugin \<Rightarrow> 's PluginWrapper
     \<Rightarrow> Result \<times> 's PluginWrapper" where
  "StoragePluginWrapper_reencrypt p collectionName secretName oldkey newkey e w =
     (let (result, s) = sp_reencrypt p collectionName secretName oldkey newkey e (pw_plugin w)
      in (result, w\<lparr>pw_plugin := s\<rparr>))"

definition StoragePluginWrapper_createCollection ::
    "'s StoragePlugin \<Rightarrow> CollectionMetadata \<Rightarrow> 's PluginWrapper \<Rightarrow> Result \<times> 's PluginWrapper" where
  "StoragePluginWrapper_createCollection p metadata =
     unless_locked p (\<lambda>w.
       let (result, _, exists, d) = MetadataDatabase_collectionMetadata (cm_collectionName metadata)
              unset_collection_metadata False (pw_metadataDb w);
           w1 = w\<lparr>pw_metadataDb := d\<rparr>
       in if exists then (failure CollectionAlreadyExistsError, w1)
          else if \<not> succeeded result then (result, w1)
          else metadata_transaction (MetadataDatabase_insertCollectionMetadata metadata)
                 (sp_createCollection p (cm_collectionName metadata)) w1)"

definition StoragePluginWrapper_removeCollection ::
    "'s StoragePlugin \<Rightarrow> qstring \<Rightarrow> 's PluginWrapper \<Rightarrow> Result \<times> 's PluginWrapper" where
  "StoragePluginWrapper_removeCollection p collectionName =
     unless_locked p (metadata_transaction (MetadataDatabase_deleteCollectionMetadata collectionName)
                        (sp_removeCollection p collectionName))"

text \<open>The two queries \<open>setSecret\<close> makes before it changes anything: the collection must exist and the secret must not.\<close>

definition unless_secret_exists ::
    "SecretMetadata \<Rightarrow> ('s PluginWrapper \<Rightarrow> Result \<times> 's PluginWrapper) \<Rightarrow> 's PluginWrapper
     \<Rightarrow> Result \<times> 's PluginWrapper" where
  "unless_secret_exists metadata k w =
     (let (result, _, exists, d) = MetadataDatabase_collectionMetadata (sm_collectionName metadata)
            unset_collection_metadata False (pw_metadataDb w);
          w1 = w\<lparr>pw_metadataDb := d\<rparr>
      in if \<not> succeeded result then (result, w1)
         else if \<not> exists then (failure InvalidCollectionError, w1)
         else let (result2, _, exists2, d2) = MetadataDatabase_secretMetadata (sm_collectionName metadata)
                    (sm_secretName metadata) unset_secret_metadata False (pw_metadataDb w1);
                  w2 = w1\<lparr>pw_metadataDb := d2\<rparr>
              in if \<not> succeeded result2 then (result2, w2)
                 else if exists2 then (failure SecretAlreadyExistsError, w2)
                 else k w2)"

definition StoragePluginWrapper_setSecret ::
    "'s StoragePlugin \<Rightarrow> SecretMetadata \<Rightarrow> qbytes \<Rightarrow> filter_data \<Rightarrow> 's PluginWrapper
     \<Rightarrow> Result \<times> 's PluginWrapper" where
  "StoragePluginWrapper_setSecret p metadata secret filterData =
     unless_locked p (unless_secret_exists metadata
       (metadata_transaction (MetadataDatabase_insertSecretMetadata metadata)
          (sp_setSecret p (sm_collectionName metadata) (sm_secretName metadata) secret filterData)))"

definition StoragePluginWrapper_removeSecret ::
    "'s StoragePlugin \<Rightarrow> qstring \<Rightarrow> qstring \<Rightarrow> 's PluginWrapper \<Rightarrow> Result \<times> 's PluginWrapper" where
  "StoragePluginWrapper_removeSecret p collectionName secretName =
     unless_locked p (metadata_transaction (MetadataDatabase_deleteSecretMetadata collectionName secretName)
                        (sp_removeSecret p collectionName secretName))"

subsection \<open>The wrapper of an encrypted storage plugin\<close>

primrec EncryptedStoragePluginWrapper_lockStates ::
    "'s EncryptedStoragePlugin \<Rightarrow> qstring list \<Rightarrow> (qstring \<times> bool) list \<Rightarrow> 's \<Rightarrow> (qstring \<times> bool) list \<times> 's" where
  "EncryptedStoragePluginWrapper_lockStates p [] names s = (names, s)"
| "EncryptedStoragePluginWrapper_lockStates p (cname # cnames) names s =
     (let (lockedResult, locked, s1) = es_isCollectionLocked p cname False s
      in EncryptedStoragePluginWrapper_lockStates p cnames
           (qmap_insert cname (locked \<or> \<not> succeeded lockedResult) names) s1)"

definition EncryptedStoragePluginWrapper_collectionNames ::
    "'s EncryptedStoragePlugin \<Rightarrow> 's PluginWrapper \<Rightarrow> Result \<times> (qstring \<times> bool) list \<times> 's PluginWrapper" where
  "EncryptedStoragePluginWrapper_collectionNames p w =
     (let (result, cnames, s) = es_collectionNames p (pw_plugin w)
      in if \<not> succeeded result then (result, [], w\<lparr>pw_plugin := s\<rparr>)
         else let (names, s1) = EncryptedStoragePluginWrapper_lockStates p cnames [] s
              in (result, names, w\<lparr>pw_plugin := s1\<rparr>))"

definition EncryptedStoragePluginWrapper_secretNames ::
    "'s EncryptedStoragePlugin \<Rightarrow> qstring \<Rightarrow> 's PluginWrapper \<Rightarrow> Result \<times> qstring list \<times> 's PluginWrapper" where
  "EncryptedStoragePluginWrapper_secretNames p collectionName w =
     (let (result, names, s) = es_secretNames p collectionName (pw_plugin w)
      in (result, names, w\<lparr>pw_plugin := s\<rparr>))"

text \<open>The loop of \<open>initialize\<close>: the identifiers found and the collections that are locked.\<close>

primrec EncryptedStoragePluginWrapper_identifiers ::
    "'s EncryptedStoragePlugin \<Rightarrow> qstring list \<Rightarrow> (qstring \<times> qstring) list \<Rightarrow> qstring list \<Rightarrow> 's PluginWrapper
     \<Rightarrow> ((qstring \<times> qstring) list \<times> qstring list) option \<times> 's PluginWrapper" where
  "EncryptedStoragePluginWrapper_identifiers p [] identifiers lockedCollections w =
     (Some (identifiers, lockedCollections), w)"
| "EncryptedStoragePluginWrapper_identifiers p (cname # cnames) identifiers lockedCollections w =
     (let (result, locked, s) = es_isCollectionLocked p cname False (pw_plugin w);
          w1 = w\<lparr>pw_plugin := s\<rparr>
      in if locked \<or> \<not> succeeded result
         then EncryptedStoragePluginWrapper_identifiers p cnames identifiers (lockedCollections @ [cname]) w1
         else let (result2, snames, w2) = EncryptedStoragePluginWrapper_secretNames p cname w1
              in if \<not> succeeded result2 then (None, w2)
                 else EncryptedStoragePluginWrapper_identifiers p cnames
                        (identifiers @ map (Pair cname) snames) lockedCollections w2)"

definition EncryptedStoragePluginWrapper_initialize ::
    "'s EncryptedStoragePlugin \<Rightarrow> MetadataConfig \<Rightarrow> qbytes \<Rightarrow> 's PluginWrapper \<Rightarrow> bool \<times> 's PluginWrapper" where
  "EncryptedStoragePluginWrapper_initialize p cfg masterLockKey w =
     (if pw_initialized w then (True, w)
      else let (opened, d1) = (if db_isOpen (pw_metadataDb w) then (True, pw_metadataDb w)
                               else MetadataDatabase_openDatabase masterLockKey (pw_metadataDb w));
               w1 = w\<lparr>pw_metadataDb := d1\<rparr>
      in if \<not> opened then (False, w1)
      else if pb_isLocked p (pw_plugin w1) then (True, w1)
      else let (result, cnamesMap, w2) = EncryptedStoragePluginWrapper_collectionNames p w1;
               cnames = map fst cnamesMap
      in if \<not> succeeded result then (False, w2)
      else let (identifiers, w3) = EncryptedStoragePluginWrapper_identifiers p cnames [] [] w2
      in case identifiers of
           None \<Rightarrow> (False, w3)
         | Some (ids, lockedCollections) \<Rightarrow> PluginWrapper_synchronise cfg cnames ids lockedCollections w3)"

definition EncryptedStoragePluginWrapper_isCollectionLocked ::
    "'s EncryptedStoragePlugin \<Rightarrow> qstring \<Rightarrow> bool \<Rightarrow> 's PluginWrapper \<Rightarrow> Result \<times> bool \<times> 's PluginWrapper" where
  "EncryptedStoragePluginWrapper_isCollectionLocked p collectionName locked w =
     (let (result, l, s) = es_isCollectionLocked p collectionName locked (pw_plugin w)
      in (result, l, w\<lparr>pw_plugin := s\<rparr>))"

definition EncryptedStoragePluginWrapper_deriveKeyFromCode ::
    "'s EncryptedStoragePlugin \<Rightarrow> qbytes \<Rightarrow> qbytes \<Rightarrow> 's PluginWrapper \<Rightarrow> Result \<times> qbytes \<times> 's PluginWrapper" where
  "EncryptedStoragePluginWrapper_deriveKeyFromCode p authenticationCode salt w =
     (let (result, key, s) = es_deriveKeyFromCode p authenticationCode salt (pw_plugin w)
      in (result, key, w\<lparr>pw_plugin := s\<rparr>))"

definition EncryptedStoragePluginWrapper_setEncryptionKey ::
    "'s EncryptedStoragePlugin \<Rightarrow> MetadataConfig \<Rightarrow> qstring \<Rightarrow> qbytes \<Rightarrow> 's PluginWrapper
     \<Rightarrow> Result \<times> 's PluginWrapper" where
  "EncryptedStoragePluginWrapper_setEncryptionKey p cfg collectionName key w =
     (let (masterLocked, w1) = PluginWrapper_isMasterLocked w
      in if masterLocked then (failure SecretsPluginIsLockedError, w1)
         else let (result, s) = es_setEncryptionKey p collectionName key (pw_plugin w1)
              in (result, snd (EncryptedStoragePluginWrapper_initialize p cfg [] (w1\<lparr>pw_plugin := s\<rparr>))))"

definition EncryptedStoragePluginWrapper_reencrypt ::
    "'s EncryptedStoragePlugin \<Rightarrow> qstring \<Rightarrow> qbytes \<Rightarrow> qbytes \<Rightarrow> 's PluginWrapper \<Rightarrow> Result \<times> 's PluginWrapper" where
  "EncryptedStoragePluginWrapper_reencrypt p collectionName oldkey newkey w =
     (let (result, s) = es_reencrypt p collectionName oldkey newkey (pw_plugin w)
      in (result, w\<lparr>pw_plugin := s\<rparr>))"

definition EncryptedStoragePluginWrapper_getSecret ::
    "'s EncryptedStoragePlugin \<Rightarrow> qstring \<Rightarrow> qstring \<Rightarrow> 's PluginWrapper
     \<Rightarrow> Result \<times> (qbytes \<times> filter_data) option \<times> 's PluginWrapper" where
  "EncryptedStoragePluginWrapper_getSecret p collectionName secretName w =
     (let (result, x, s) = es_getSecret p collectionName secretName (pw_plugin w)
      in (result, x, w\<lparr>pw_plugin := s\<rparr>))"

definition EncryptedStoragePluginWrapper_findSecrets ::
    "'s EncryptedStoragePlugin \<Rightarrow> qstring \<Rightarrow> filter_data \<Rightarrow> FilterOperator \<Rightarrow> 's PluginWrapper
     \<Rightarrow> Result \<times> (qstring \<times> qstring) list \<times> 's PluginWrapper" where
  "EncryptedStoragePluginWrapper_findSecrets p collectionName flt filterOperator w =
     (let (result, ids, s) = es_findSecrets p collectionName flt filterOperator (pw_plugin w)
      in (result, ids, w\<lparr>pw_plugin := s\<rparr>))"

definition EncryptedStoragePluginWrapper_accessSecret ::
    "'s EncryptedStoragePlugin \<Rightarrow> qstring \<Rightarrow> qbytes \<Rightarrow> 's PluginWrapper
     \<Rightarrow> Result \<times> (qbytes \<times> filter_data) option \<times> 's PluginWrapper" where
  "EncryptedStoragePluginWrapper_accessSecret p secretName key w =
     (let (result, x, s) = es_accessSecret p secretName key (pw_plugin w)
      in (result, x, w\<lparr>pw_plugin := s\<rparr>))"

text \<open>A collection whose unlock semantic is not to be kept unlocked is locked again once it is created.\<close>

definition relocks :: "CollectionMetadata \<Rightarrow> bool" where
  "relocks metadata \<longleftrightarrow>
     (cm_usesDeviceLockKey metadata \<and> cm_unlockSemantic metadata \<noteq> DeviceLockKeepUnlocked)
     \<or> (\<not> cm_usesDeviceLockKey metadata \<and> cm_unlockSemantic metadata \<noteq> CustomLockKeepUnlocked)"

definition EncryptedStoragePluginWrapper_createCollection ::
    "'s EncryptedStoragePlugin \<Rightarrow> CollectionMetadata \<Rightarrow> qbytes \<Rightarrow> 's PluginWrapper
     \<Rightarrow> Result \<times> 's PluginWrapper" where
  "EncryptedStoragePluginWrapper_createCollection p metadata key =
     unless_locked p (\<lambda>w.
       let (result, _, exists, d) = MetadataDatabase_collectionMetadata (cm_collectionName metadata)
              unset_collection_metadata False (pw_metadataDb w);
           w1 = w\<lparr>pw_metadataDb := d\<rparr>
       in if exists then (failure CollectionAlreadyExistsError, w1)
          else if \<not> succeeded result then (result, w1)
          else let (result2, w2) = metadata_transaction (MetadataDatabase_insertCollectionMetadata metadata)
                     (es_createCollection p (cm_collectionName metadata) key) w1
               in if succeeded result2 \<and> relocks metadata
                  then (result2, w2\<lparr>pw_plugin := snd (es_setEncryptionKey p (cm_collectionName metadata) [] (pw_plugin w2))\<rparr>)
                  else (result2, w2))"

definition EncryptedStoragePluginWrapper_removeCollection ::
    "'s EncryptedStoragePlugin \<Rightarrow> qstring \<Rightarrow> 's PluginWrapper \<Rightarrow> Result \<times> 's PluginWrapper" where
  "EncryptedStoragePluginWrapper_removeCollection p collectionName =
     unless_locked p (metadata_transaction (MetadataDatabase_deleteCollectionMetadata collectionName)
                        (es_removeCollection p collectionName))"

definition unless_collection_locked ::
    "'s EncryptedStoragePlugin \<Rightarrow> qstring \<Rightarrow> ('s PluginWrapper \<Rightarrow> Result \<times> 's PluginWrapper) \<Rightarrow> 's PluginWrapper
     \<Rightarrow> Result \<times> 's PluginWrapper" where
  "unless_collection_locked p collectionName k w =
     (let (result, locked, s) = es_isCollectionLocked p collectionName False (pw_plugin w);
          w1 = w\<lparr>pw_plugin := s\<rparr>
      in if locked then (failure CollectionIsLockedError, w1)
         else if \<not> succeeded result then (result, w1)
         else k w1)"

definition EncryptedStoragePluginWrapper_setSecret ::
    "'s EncryptedStoragePlugin \<Rightarrow> SecretMetadata \<Rightarrow> qbytes \<Rightarrow> filter_data \<Rightarrow> 's PluginWrapper
     \<Rightarrow> Result \<times> 's PluginWrapper" where
  "EncryptedStoragePluginWrapper_setSecret p metadata secret filterData =
     unless_locked p (unless_collection_locked p (sm_collectionName metadata)
       (metadata_transaction (MetadataDatabase_insertSecretMetadata metadata)
          (es_setSecret p (sm_collectionName metadata) (sm_secretName metadata) secret filterData)))"

definition EncryptedStoragePluginWrapper_removeSecret ::
    "'s EncryptedStoragePlugin \<Rightarrow> qstring \<Rightarrow> qstring \<Rightarrow> 's PluginWrapper \<Rightarrow> Result \<times> 's PluginWrapper" where
  "EncryptedStoragePluginWrapper_removeSecret p collectionName secretName =
     unless_locked p (unless_collection_locked p collectionName
       (metadata_transaction (MetadataDatabase_deleteSecretMetadata collectionName secretName)
          (es_removeSecret p collectionName secretName)))"

text \<open>The overload of \<open>setSecret\<close> for standalone secrets, encrypted under a key of their own.\<close>

definition EncryptedStoragePluginWrapper_setStandaloneSecret ::
    "'s EncryptedStoragePlugin \<Rightarrow> SecretMetadata \<Rightarrow> qbytes \<Rightarrow> filter_data \<Rightarrow> qbytes \<Rightarrow> 's PluginWrapper
     \<Rightarrow> Result \<times> 's PluginWrapper" where
  "EncryptedStoragePluginWrapper_setStandaloneSecret p metadata secret filterData key =
     unless_locked p (unless_secret_exists metadata
       (metadata_transaction (MetadataDatabase_insertSecretMetadata metadata)
          (es_setStandaloneSecret p (sm_secretName metadata) secret filterData key)))"

subsection \<open>A refused change leaves the metadata alone\<close>

text \<open>
  \<open>keeps f\<close>: an operation started on an idle metadata database with contents \<open>f\<close> leaves
  them committed unless it reports success.
\<close>

definition keeps :: "metadata_tables \<Rightarrow> ('s PluginWrapper \<Rightarrow> Result \<times> 's PluginWrapper) \<Rightarrow> bool" where
  "keeps f op \<longleftrightarrow>
     (\<forall>w. idle (pw_metadataDb w) \<and> db_file (pw_metadataDb w) = Some f \<longrightarrow>
        \<not> succeeded (fst (op w)) \<longrightarrow> db_file (pw_metadataDb (snd (op w))) = Some f)"

lemma keepsI:
  assumes "\<And>w r w'. idle (pw_metadataDb w) \<Longrightarrow> db_file (pw_metadataDb w) = Some f \<Longrightarrow> op w = (r, w')
      \<Longrightarrow> \<not> succeeded r \<Longrightarrow> db_file (pw_metadataDb w') = Some f"
  shows "keeps f op"
  unfolding keeps_def using assms by (metis prod.collapse)

lemma keepsD:
  assumes "keeps f op" and "op w = (r, w')" and "idle (pw_metadataDb w)" and "db_file (pw_metadataDb w) = Some f"
    and "\<not> succeeded r"
  shows "db_file (pw_metadataDb w') = Some f"
  using assms by (force simp: keeps_def)

lemma isLocked_keeps:
  assumes "idle d" and "db_file d = Some t" and "MetadataDatabase_isLocked b d = (r, l, d')"
  shows "idle d' \<and> db_file d' = Some t"
proof -
  obtain p d1 where p: "Database_prepare lockedQuery d = (p, d1)" by (cases "Database_prepare lockedQuery d")
  obtain x d2 where x: "Database_execute (sql_select (\<lambda>t. ())) d1 = (x, d2)"
    by (cases "Database_execute (sql_select (\<lambda>t::metadata_tables. ())) d1")
  have i1: "idle d1" "db_file d1 = Some t" using prepare_idle [OF p assms(1)] prepare_file [OF p] assms(2) by simp_all
  have "idle d2 \<and> db_file d2 = Some t"
    using execute_idle [OF i1 x] by (cases x) (auto simp: sql_select_def)
  with i1 p x assms show ?thesis
    by (auto simp: MetadataDatabase_isLocked_def split: if_splits)
qed

lemma isMasterLocked_keeps:
  assumes "idle (pw_metadataDb w)" and "db_file (pw_metadataDb w) = Some t"
    and "PluginWrapper_isMasterLocked w = (l, w')"
  shows "idle (pw_metadataDb w') \<and> db_file (pw_metadataDb w') = Some t
    \<and> pw_plugin w' = pw_plugin w \<and> pw_initialized w' = pw_initialized w"
proof -
  obtain r b d where d: "MetadataDatabase_isLocked False (pw_metadataDb w) = (r, b, d)"
    by (cases "MetadataDatabase_isLocked False (pw_metadataDb w)")
  from isLocked_keeps [OF assms(1,2) d] d assms(3) show ?thesis
    by (auto simp: PluginWrapper_isMasterLocked_def Let_def split: if_splits)
qed

lemma collectionMetadata_keeps:
  assumes "idle d" and "db_file d = Some t"
    and "MetadataDatabase_collectionMetadata c m e d = (r, m', e', d')"
  shows "idle d' \<and> db_file d' = Some t \<and> (succeeded r \<longrightarrow> (e' \<longleftrightarrow> c \<in> collection_set t))"
proof -
  let ?g = "sql_select (\<lambda>t. find (\<lambda>r. c_CollectionName r = c) (t_Collections t))"
  obtain x d1 where x: "md_query selectCollectionQuery ?g d = (x, d1)"
    by (cases "md_query selectCollectionQuery ?g d")
  have f: "find (\<lambda>r. c_CollectionName r = c) (t_Collections t) = None \<longleftrightarrow> c \<notin> collection_set t"
    by (simp add: collection_set_def find_None_iff_key)
  show ?thesis
    using md_query_idle [OF assms(1,2) x] x assms(3) f
    by (auto simp: MetadataDatabase_collectionMetadata_def sql_select_def split: option.splits)
qed

lemma secretMetadata_keeps:
  assumes "idle d" and "db_file d = Some t"
    and "MetadataDatabase_secretMetadata c n m e d = (r, m', e', d')"
  shows "idle d' \<and> db_file d' = Some t \<and> (succeeded r \<longrightarrow> (e' \<longleftrightarrow> (c, n) \<in> secret_set t))"
proof -
  let ?g = "sql_select (\<lambda>t. find (\<lambda>r. secret_key r = (c, n)) (t_Secrets t))"
  obtain x d1 where x: "md_query selectSecretsQuery ?g d = (x, d1)"
    by (cases "md_query selectSecretsQuery ?g d")
  have f: "find (\<lambda>r. secret_key r = (c, n)) (t_Secrets t) = None \<longleftrightarrow> (c, n) \<notin> secret_set t"
    unfolding secret_set_def by (rule find_None_iff_key)
  show ?thesis
  proof (cases x)
    case None
    with md_query_idle [OF assms(1,2) x] x assms(3) show ?thesis
      by (auto simp: MetadataDatabase_secretMetadata_def)
  next
    case (Some y)
    with md_query_idle [OF assms(1,2) x]
    have y: "idle d1" "db_file d1 = Some t" "y = find (\<lambda>r. secret_key r = (c, n)) (t_Secrets t)"
      by (auto simp: sql_select_def)
    have "d' = d1" "e' \<longleftrightarrow> y \<noteq> None" using x Some assms(3)
      by (auto simp: MetadataDatabase_secretMetadata_def split: option.splits)
    moreover have "y = None \<longleftrightarrow> (c, n) \<notin> secret_set t" unfolding y(3) by (rule f)
    ultimately show ?thesis using y(1,2) by simp
  qed
qed

lemma metadata_transaction_keeps:
  assumes "changes_by change g"
  shows "keeps f (metadata_transaction change pl)"
proof (rule keepsI)
  fix w r w'
  assume i: "idle (pw_metadataDb w)" "db_file (pw_metadataDb w) = Some f"
    and op: "metadata_transaction change pl w = (r, w')" and r: "\<not> succeeded r"
  obtain b d1 where b: "Database_beginTransaction (pw_metadataDb w) = (b, d1)"
    by (cases "Database_beginTransaction (pw_metadataDb w)")
  note d1 = begin_idle [OF i b]
  show "db_file (pw_metadataDb w') = Some f"
  proof (cases b)
    case False
    with op b d1 show ?thesis by (auto simp: metadata_transaction_def)
  next
    case True
    obtain r2 d2 where m: "change d1 = (r2, d2)" by (cases "change d1")
    have t1: "in_tx f f d1" using d1 True by simp
    have p2: "pending f d2"
      using changes_by_in_tx [OF assms t1 m] by (auto split: if_splits intro: in_tx_pending)
    obtain r3 s where s: "pl (pw_plugin w) = (r3, s)" by (cases "pl (pw_plugin w)")
    have "pw_metadataDb w' = rollback_db d2"
      using op b True m s r by (auto simp: metadata_transaction_def split: if_splits)
    with rollback_pending_file [OF p2] show ?thesis by simp
  qed
qed

lemma unless_locked_keeps:
  assumes "keeps f k"
  shows "keeps f (unless_locked p k)"
proof (rule keepsI)
  fix w r w'
  assume i: "idle (pw_metadataDb w)" "db_file (pw_metadataDb w) = Some f"
    and op: "unless_locked p k w = (r, w')" and r: "\<not> succeeded r"
  obtain l w1 where l: "PluginWrapper_isMasterLocked w = (l, w1)" by (cases "PluginWrapper_isMasterLocked w")
  with isMasterLocked_keeps [OF i l] op r assms i show "db_file (pw_metadataDb w') = Some f"
    by (auto simp: unless_locked_def split: if_splits intro: keepsD [OF assms])
qed

lemma unless_secret_exists_keeps:
  assumes "keeps f k"
  shows "keeps f (unless_secret_exists m k)"
proof (rule keepsI)
  fix w r w'
  assume i: "idle (pw_metadataDb w)" "db_file (pw_metadataDb w) = Some f"
    and op: "unless_secret_exists m k w = (r, w')" and r: "\<not> succeeded r"
  obtain r1 m1 e1 d1 where q: "MetadataDatabase_collectionMetadata (sm_collectionName m)
      unset_collection_metadata False (pw_metadataDb w) = (r1, m1, e1, d1)" by (metis prod_cases4)
  note i1 = collectionMetadata_keeps [OF i q]
  obtain r2 m2 e2 d2 where q2: "MetadataDatabase_secretMetadata (sm_collectionName m) (sm_secretName m)
      unset_secret_metadata False d1 = (r2, m2, e2, d2)" by (metis prod_cases4)
  have i2: "idle d2 \<and> db_file d2 = Some f" using secretMetadata_keeps [OF _ _ q2] i1 by simp
  from op q q2 r i1 i2 assms show "db_file (pw_metadataDb w') = Some f"
    by (auto simp: unless_secret_exists_def Let_def split: if_splits intro: keepsD [OF assms])
qed

lemma unless_collection_locked_keeps:
  assumes "keeps f k"
  shows "keeps f (unless_collection_locked p c k)"
proof (rule keepsI)
  fix w r w'
  assume i: "idle (pw_metadataDb w)" "db_file (pw_metadataDb w) = Some f"
    and op: "unless_collection_locked p c k w = (r, w')" and r: "\<not> succeeded r"
  with assms show "db_file (pw_metadataDb w') = Some f"
    by (auto simp: unless_collection_locked_def Let_def split: if_splits prod.splits intro: keepsD [OF assms])
qed

lemmas keeps_rules = unless_locked_keeps unless_secret_exists_keeps unless_collection_locked_keeps
  metadata_transaction_keeps [OF changes_by_ops(1)] metadata_transaction_keeps [OF changes_by_ops(2)]
  metadata_transaction_keeps [OF changes_by_ops(3)] metadata_transaction_keeps [OF changes_by_ops(5)]

text \<open>The changes of each wrapper.\<close>

datatype wrapper_op =
    Wrapper_createCollection CollectionMetadata | Wrapper_removeCollection qstring
  | Wrapper_setSecret SecretMetadata qbytes filter_data | Wrapper_removeSecret qstring qstring

primrec wrapper_apply :: "'s StoragePlugin \<Rightarrow> wrapper_op \<Rightarrow> 's PluginWrapper \<Rightarrow> Result \<times> 's PluginWrapper" where
  "wrapper_apply p (Wrapper_createCollection m) = StoragePluginWrapper_createCollection p m"
| "wrapper_apply p (Wrapper_removeCollection c) = StoragePluginWrapper_removeCollection p c"
| "wrapper_apply p (Wrapper_setSecret m x fd) = StoragePluginWrapper_setSecret p m x fd"
| "wrapper_apply p (Wrapper_removeSecret c n) = StoragePluginWrapper_removeSecret p c n"

datatype encrypted_wrapper_op =
    Encrypted_createCollection CollectionMetadata qbytes | Encrypted_removeCollection qstring
  | Encrypted_setSecret SecretMetadata qbytes filter_data | Encrypted_removeSecret qstring qstring
  | Encrypted_setStandaloneSecret SecretMetadata qbytes filter_data qbytes

primrec encrypted_wrapper_apply ::
    "'s EncryptedStoragePlugin \<Rightarrow> encrypted_wrapper_op \<Rightarrow> 's PluginWrapper \<Rightarrow> Result \<times> 's PluginWrapper" where
  "encrypted_wrapper_apply p (Encrypted_createCollection m key) = EncryptedStoragePluginWrapper_createCollection p m key"
| "encrypted_wrapper_apply p (Encrypted_removeCollection c) = EncryptedStoragePluginWrapper_removeCollection p c"
| "encrypted_wrapper_apply p (Encrypted_setSecret m x fd) = EncryptedStoragePluginWrapper_setSecret p m x fd"
| "encrypted_wrapper_apply p (Encrypted_removeSecret c n) = EncryptedStoragePluginWrapper_removeSecret p c n"
| "encrypted_wrapper_apply p (Encrypted_setStandaloneSecret m x fd key) =
     EncryptedStoragePluginWrapper_setStandaloneSecret p m x fd key"

lemma createCollection_keeps: "keeps f (StoragePluginWrapper_createCollection p m)"
  unfolding StoragePluginWrapper_createCollection_def
proof (rule unless_locked_keeps, rule keepsI, goal_cases)
  case (1 w r w')
  obtain r1 m1 e1 d1 where q: "MetadataDatabase_collectionMetadata (cm_collectionName m)
      unset_collection_metadata False (pw_metadataDb w) = (r1, m1, e1, d1)" by (metis prod_cases4)
  from collectionMetadata_keeps [OF 1(1,2) q] 1(3,4) q show ?case
    by (auto simp: Let_def split: if_splits intro: keepsD [OF keeps_rules(4)])
qed

lemma encrypted_createCollection_keeps: "keeps f (EncryptedStoragePluginWrapper_createCollection p m key)"
  unfolding EncryptedStoragePluginWrapper_createCollection_def
proof (rule unless_locked_keeps, rule keepsI, goal_cases)
  case (1 w r w')
  obtain r1 m1 e1 d1 where q: "MetadataDatabase_collectionMetadata (cm_collectionName m)
      unset_collection_metadata False (pw_metadataDb w) = (r1, m1, e1, d1)" by (metis prod_cases4)
  from collectionMetadata_keeps [OF 1(1,2) q] 1(3,4) q show ?case
    by (auto simp: Let_def split: if_splits prod.splits intro: keepsD [OF keeps_rules(4)])
qed

text \<open>
  C16. A change that fails leaves the metadata alone. Whatever the storage plugin does and
  whatever the engine of the metadata database answers: when an operation of
  \<open>StoragePluginWrapper\<close> or of \<open>EncryptedStoragePluginWrapper\<close>
  that creates or removes a collection or a secret does not report success, the committed metadata is as before.
\<close>

theorem failed_change_keeps_metadata:
  assumes "idle (pw_metadataDb w)" and "db_file (pw_metadataDb w) = Some t"
  shows "(wrapper_apply p op w = (r, w') \<and> \<not> succeeded r \<longrightarrow> db_file (pw_metadataDb w') = Some t)
       \<and> (encrypted_wrapper_apply q eop w = (r, w') \<and> \<not> succeeded r \<longrightarrow> db_file (pw_metadataDb w') = Some t)"
proof -
  have "keeps t (wrapper_apply p op)"
    by (cases op)
      (simp_all add: createCollection_keeps StoragePluginWrapper_removeCollection_def
        StoragePluginWrapper_setSecret_def StoragePluginWrapper_removeSecret_def keeps_rules)
  moreover have "keeps t (encrypted_wrapper_apply q eop)"
    by (cases eop)
      (simp_all add: encrypted_createCollection_keeps EncryptedStoragePluginWrapper_removeCollection_def
        EncryptedStoragePluginWrapper_setSecret_def EncryptedStoragePluginWrapper_removeSecret_def
        EncryptedStoragePluginWrapper_setStandaloneSecret_def keeps_rules)
  ultimately show ?thesis using assms by (auto intro: keepsD)
qed

text \<open>A wrapper whose plugin holds what its metadata says: a collection and a secret in it.\<close>

definition demo_wrapper :: "answer list \<Rightarrow> answer list \<Rightarrow> sqlite_db PluginWrapper" where
  "demo_wrapper md_answers plugin_answers =
     \<lparr>pw_metadataDb =
        \<lparr>db_file = Some \<lparr>t_Collections = [collections_row standalone_metadata,
             collections_row (standalone_metadata\<lparr>cm_collectionName := ''c''\<rparr>),
             collections_row (standalone_metadata\<lparr>cm_collectionName := ''e''\<rparr>)],
           t_Secrets = [secrets_row (imported_secret demo_cfg (''c'', ''s''))]\<rparr>,
         db_fileKey = [], db_userVersion = 1, db_isOpen = True, db_connKey = [], db_work = None,
         db_semaphore = 0, db_prepared = [], db_localeName = ''C'', db_answers = md_answers\<rparr>,
      pw_initialized = True, pw_plugin = demo_sqlite plugin_answers\<rparr>"

theorem failed_change_keeps_metadata_witness:
  "let w = demo_wrapper [] [Ok, Ok, Refused];
       (r, w') = wrapper_apply sqlite_plugin (Wrapper_removeSecret ''c'' ''s'') w
   in \<not> succeeded r \<and> db_file (pw_metadataDb w') = db_file (pw_metadataDb w)"
proof -
  let ?w = "demo_wrapper [] [Ok, Ok, Refused]" and ?op = "Wrapper_removeSecret ''c'' ''s''"
  obtain t where t: "db_file (pw_metadataDb ?w) = Some t" by (simp add: demo_wrapper_def)
  have i: "idle (pw_metadataDb ?w)" by code_simp
  have f: "\<not> succeeded (fst (wrapper_apply sqlite_plugin ?op ?w))" by code_simp
  obtain r w' where a: "wrapper_apply sqlite_plugin ?op ?w = (r, w')" by fastforce
  from failed_change_keeps_metadata [OF i t, of sqlite_plugin ?op r w'] a f t show ?thesis by simp
qed

subsection \<open>Existing secrets and locked wrappers\<close>

lemma metadata_transaction_present:
  assumes "idle (pw_metadataDb w)" and "db_file (pw_metadataDb w) = Some t"
    and "(sm_collectionName m, sm_secretName m) \<in> secret_set t"
    and "metadata_transaction (MetadataDatabase_insertSecretMetadata m) pl w = (r, w')"
  shows "\<not> succeeded r \<and> pw_plugin w' = pw_plugin w"
proof -
  obtain b d1 where b: "Database_beginTransaction (pw_metadataDb w) = (b, d1)"
    by (cases "Database_beginTransaction (pw_metadataDb w)")
  note d1 = begin_idle [OF assms(1,2) b]
  show ?thesis
  proof (cases b)
    case False
    with b assms(4) show ?thesis by (auto simp: metadata_transaction_def)
  next
    case True
    obtain r2 d2 where i: "MetadataDatabase_insertSecretMetadata m d1 = (r2, d2)"
      by (cases "MetadataDatabase_insertSecretMetadata m d1")
    have t1: "in_tx t t d1" using d1 True by simp
    have "\<not> succeeded r2"
      using changes_by_in_tx [OF changes_by_ops(3) t1 i] assms(3)
        sql_insertSecret_effect(1) [of "secrets_row m" t] by (auto split: if_splits)
    with b True i assms(4) show ?thesis by (auto simp: metadata_transaction_def)
  qed
qed

definition never_changes_plugin ::
    "metadata_tables \<Rightarrow> ('s PluginWrapper \<Rightarrow> Result \<times> 's PluginWrapper) \<Rightarrow> bool" where
  "never_changes_plugin t op \<longleftrightarrow>
     (\<forall>w. idle (pw_metadataDb w) \<and> db_file (pw_metadataDb w) = Some t \<longrightarrow>
        \<not> succeeded (fst (op w)) \<and> pw_plugin (snd (op w)) = pw_plugin w)"

lemma never_unless_locked: "never_changes_plugin t k \<Longrightarrow> never_changes_plugin t (unless_locked p k)"
  unfolding never_changes_plugin_def
proof (intro allI impI, goal_cases)
  case (1 w)
  obtain l w1 where l: "PluginWrapper_isMasterLocked w = (l, w1)" by (cases "PluginWrapper_isMasterLocked w")
  with isMasterLocked_keeps [OF _ _ l, of t] 1 show ?case by (auto simp: unless_locked_def)
qed

lemma never_unless_secret_exists:
  "never_changes_plugin t k \<Longrightarrow> never_changes_plugin t (unless_secret_exists m k)"
  unfolding never_changes_plugin_def
proof (intro allI impI, goal_cases)
  case (1 w)
  obtain r1 m1 e1 d1 where q: "MetadataDatabase_collectionMetadata (sm_collectionName m)
      unset_collection_metadata False (pw_metadataDb w) = (r1, m1, e1, d1)" by (metis prod_cases4)
  note i1 = collectionMetadata_keeps [OF _ _ q, of t]
  obtain r2 m2 e2 d2 where q2: "MetadataDatabase_secretMetadata (sm_collectionName m) (sm_secretName m)
      unset_secret_metadata False d1 = (r2, m2, e2, d2)" by (metis prod_cases4)
  have "idle d2 \<and> db_file d2 = Some t" using secretMetadata_keeps [OF _ _ q2, of t] i1 1(2) by simp
  with 1 q q2 i1 show ?case by (auto simp: unless_secret_exists_def Let_def)
qed

text \<open>
  An existing secret is never overwritten. When the metadata records a secret,
  \<open>StoragePluginWrapper_setSecret\<close> and \<open>EncryptedStoragePluginWrapper_setStandaloneSecret\<close> of
  the same name fail and the plugin is not called, whatever it does and whatever the engine answers.
\<close>

theorem existing_secret_not_overwritten:
  assumes "idle (pw_metadataDb w)" and "db_file (pw_metadataDb w) = Some t"
    and "(sm_collectionName m, sm_secretName m) \<in> secret_set t"
  shows "(StoragePluginWrapper_setSecret p m x fd w = (r, w') \<longrightarrow> \<not> succeeded r \<and> pw_plugin w' = pw_plugin w)
       \<and> (EncryptedStoragePluginWrapper_setStandaloneSecret q m x fd key w = (r, w') \<longrightarrow>
            \<not> succeeded r \<and> pw_plugin w' = pw_plugin w)"
proof -
  have n: "never_changes_plugin t (metadata_transaction (MetadataDatabase_insertSecretMetadata m) pl)" for pl
    using metadata_transaction_present [OF _ _ assms(3)] unfolding never_changes_plugin_def
    by (metis prod.collapse)
  have "never_changes_plugin t (StoragePluginWrapper_setSecret p m x fd)"
    "never_changes_plugin t (EncryptedStoragePluginWrapper_setStandaloneSecret q m x fd key)"
    unfolding StoragePluginWrapper_setSecret_def EncryptedStoragePluginWrapper_setStandaloneSecret_def
    by (intro never_unless_locked never_unless_secret_exists n)+
  then show ?thesis using assms(1,2) by (auto simp: never_changes_plugin_def)
qed

theorem existing_secret_not_overwritten_witness:
  "let w = demo_wrapper [] [];
       (r, w') = StoragePluginWrapper_setSecret sqlite_plugin (imported_secret demo_cfg (''c'', ''s'')) ''new'' [] w
   in idle (pw_metadataDb w) \<and> \<not> succeeded r \<and> pw_plugin w' = pw_plugin w"
proof -
  let ?w = "demo_wrapper [] []" and ?m = "imported_secret demo_cfg (''c'', ''s'')"
  obtain t where t: "db_file (pw_metadataDb ?w) = Some t" by (simp add: demo_wrapper_def)
  have i: "idle (pw_metadataDb ?w)" by code_simp
  have e: "(sm_collectionName ?m, sm_secretName ?m) \<in> secret_set t"
    using t by (auto simp: demo_wrapper_def secret_set_def imported_secret_def)
  obtain r w' where a: "StoragePluginWrapper_setSecret sqlite_plugin ?m ''new'' [] ?w = (r, w')" by fastforce
  from existing_secret_not_overwritten [OF i t e, of sqlite_plugin "''new''" "[]" r w'] a i show ?thesis by simp
qed

lemma master_locked_closed:
  "\<not> db_isOpen (pw_metadataDb w) \<Longrightarrow> PluginWrapper_isMasterLocked w = (True, w)"
  by (simp add: PluginWrapper_isMasterLocked_def MetadataDatabase_isLocked_def)

lemma unless_locked_closed:
  "\<not> db_isOpen (pw_metadataDb w) \<Longrightarrow> unless_locked p k w = (failure SecretsPluginIsLockedError, w)"
  by (simp add: unless_locked_def master_locked_closed)

lemma wrapper_apply_closed:
  "\<not> db_isOpen (pw_metadataDb w) \<Longrightarrow> wrapper_apply p op w = (failure SecretsPluginIsLockedError, w)"
  by (cases op) (simp_all add: unless_locked_closed StoragePluginWrapper_createCollection_def
      StoragePluginWrapper_removeCollection_def StoragePluginWrapper_setSecret_def
      StoragePluginWrapper_removeSecret_def)

lemma encrypted_wrapper_apply_closed:
  "\<not> db_isOpen (pw_metadataDb w) \<Longrightarrow> encrypted_wrapper_apply q eop w = (failure SecretsPluginIsLockedError, w)"
  by (cases eop) (simp_all add: unless_locked_closed EncryptedStoragePluginWrapper_createCollection_def
      EncryptedStoragePluginWrapper_removeCollection_def EncryptedStoragePluginWrapper_setSecret_def
      EncryptedStoragePluginWrapper_removeSecret_def EncryptedStoragePluginWrapper_setStandaloneSecret_def)

text \<open>
  A master-locked wrapper changes nothing. While the metadata database is closed, every
  change is refused with \<open>SecretsPluginIsLockedError\<close>, and so are the metadata queries; the wrapper is as it was.
\<close>

theorem master_locked_refuses:
  assumes "\<not> db_isOpen (pw_metadataDb w)"
  shows "wrapper_apply p op w = (failure SecretsPluginIsLockedError, w)
       \<and> encrypted_wrapper_apply q eop w = (failure SecretsPluginIsLockedError, w)
       \<and> EncryptedStoragePluginWrapper_setEncryptionKey q cfg c key w = (failure SecretsPluginIsLockedError, w)
       \<and> PluginWrapper_collectionMetadata c cm w = (failure SecretsPluginIsLockedError, cm, w)
       \<and> PluginWrapper_secretMetadata c n sm w = (failure SecretsPluginIsLockedError, sm, w)"
  using assms
  by (simp add: wrapper_apply_closed encrypted_wrapper_apply_closed master_locked_closed
      EncryptedStoragePluginWrapper_setEncryptionKey_def PluginWrapper_collectionMetadata_def
      PluginWrapper_secretMetadata_def)

theorem master_locked_refuses_witness:
  "let w = snd (PluginWrapper_masterLock (demo_wrapper [] []))
   in \<not> db_isOpen (pw_metadataDb w)
      \<and> wrapper_apply sqlite_plugin (Wrapper_removeCollection ''c'') w = (failure SecretsPluginIsLockedError, w)"
proof -
  let ?w = "snd (PluginWrapper_masterLock (demo_wrapper [] []))"
  have "\<not> db_isOpen (pw_metadataDb ?w)" by code_simp
  with master_locked_refuses [OF this, of sqlite_plugin "Wrapper_removeCollection ''c''"] show ?thesis
    unfolding Let_def by blast
qed

subsection \<open>Metadata and plugin stay in step\<close>

text \<open>
  \<open>in_sync t C S\<close>: the metadata \<open>t\<close> records exactly the visible ones of the
  collections \<open>C\<close> and exactly the secrets of \<open>S\<close> in visible collections.
  \<open>settled t s w\<close>: the metadata database is idle with contents \<open>t\<close> and an engine that
  refuses nothing, and the plugin is in state \<open>s\<close>.
\<close>

definition in_sync :: "metadata_tables \<Rightarrow> qstring set \<Rightarrow> (qstring \<times> qstring) set \<Rightarrow> bool" where
  "in_sync t C S \<longleftrightarrow>
     {c \<in> collection_set t. \<not> hidden c} = {c \<in> C. \<not> hidden c}
     \<and> {i \<in> secret_set t. \<not> hidden (fst i)} = {i \<in> S. \<not> hidden (fst i)}"

definition settled :: "metadata_tables \<Rightarrow> 's \<Rightarrow> 's PluginWrapper \<Rightarrow> bool" where
  "settled t s w \<longleftrightarrow> idle (pw_metadataDb w) \<and> db_file (pw_metadataDb w) = Some t
     \<and> engine_ready (pw_metadataDb w) \<and> pw_plugin w = s"

definition wrapper_outcome ::
    "metadata_tables \<Rightarrow> 's \<Rightarrow> (metadata_tables \<Rightarrow> (unit \<times> metadata_tables) option) \<Rightarrow> ('s \<Rightarrow> Result \<times> 's)
     \<Rightarrow> Result \<times> 's PluginWrapper \<Rightarrow> bool" where
  "wrapper_outcome t s g pl rw \<longleftrightarrow>
     (\<exists>t'. settled t' (pw_plugin (snd rw)) (snd rw)
       \<and> (if succeeded (fst rw)
          then g t = Some ((), t') \<and> (\<exists>r. pl s = (r, pw_plugin (snd rw)) \<and> succeeded r)
          else t' = t \<and> (pw_plugin (snd rw) = s \<or> (\<exists>r. pl s = (r, pw_plugin (snd rw)) \<and> \<not> succeeded r))))"

lemma settled_fails: "settled t s w \<Longrightarrow> \<not> succeeded r \<Longrightarrow> wrapper_outcome t s g pl (r, w)"
  by (auto simp: wrapper_outcome_def settled_def)

lemma md_query_ready_in_tx:
  assumes "in_tx f t d" and "engine_ready d" and "md_query q g d = (x, d')"
  shows "x = map_option fst (g t) \<and> engine_ready d' \<and> (x = None \<longrightarrow> in_tx f t d')"
proof -
  have v: "db_readable d" "db_view d = Some t" using assms(1) by (simp_all add: in_tx_def db_view_def)
  obtain p d1 where p: "Database_prepare q d = (p, d1)" by (cases "Database_prepare q d")
  have p1: p "engine_ready d1" using ready_prepare [OF assms(2) v(1), of q] p by simp_all
  have t1: "in_tx f t d1" using prepare_in_tx [OF p assms(1)] .
  have "x = None \<longrightarrow> in_tx f t d'"
    using assms(3) p p1 t1
    by (auto simp: md_query_def Database_execute_def in_tx_def db_view_def split: option.splits)
  with md_query_ready [OF assms(2) v, of q g] assms(3) show ?thesis by simp
qed

lemma changes_by_ready_fails:
  assumes "changes_by op g" and "in_tx f t d" and "engine_ready d" and "g t = None"
  shows "\<exists>r d'. op d = (r, d') \<and> \<not> succeeded r \<and> engine_ready d' \<and> in_tx f t d'"
proof -
  obtain q where q: "op d = (let (r, d1) = md_query q g d in (query_result r, d1))"
    using assms(1) by (auto simp: changes_by_def)
  obtain x d1 where x: "md_query q g d = (x, d1)" by (cases "md_query q g d")
  from md_query_ready_in_tx [OF assms(2,3) x] assms(4) q x show ?thesis by simp
qed

lemma rollback_ready:
  assumes "in_tx f t d" and "engine_ready d"
  shows "idle (rollback_db d) \<and> db_file (rollback_db d) = Some f \<and> engine_ready (rollback_db d)"
  using ready_rollback [OF assms(2,1)] rollback_pending [OF in_tx_pending [OF assms(1)] prod.collapse [symmetric]]
  by simp

lemma commit_ready:
  assumes "in_tx f t d" and "engine_ready d"
  shows "idle (commit_db d) \<and> db_file (commit_db d) = Some t \<and> engine_ready (commit_db d)"
  using ready_commit [OF assms(2,1)] commit_in_tx [OF assms(1) prod.collapse [symmetric]] by simp

lemma begin_settled:
  assumes "settled t s w"
  shows "\<exists>d. Database_beginTransaction (pw_metadataDb w) = (True, d) \<and> in_tx t t d \<and> engine_ready d"
proof -
  have i: "idle (pw_metadataDb w)" "db_file (pw_metadataDb w) = Some t" "engine_ready (pw_metadataDb w)"
    using assms by (simp_all add: settled_def)
  from ready_begin [OF i(3,1)] begin_idle [OF i(1,2) prod.collapse [symmetric]] show ?thesis
    by (metis prod.collapse)
qed

lemma metadata_transaction_outcome:
  assumes "changes_by change g" and "settled t s w"
  shows "wrapper_outcome t s g pl (metadata_transaction change pl w)"
    and "g t = Some ((), t') \<Longrightarrow> succeeded (fst (pl s)) \<Longrightarrow>
           succeeded (fst (metadata_transaction change pl w))"
proof -
  have s: "pw_plugin w = s" using assms(2) by (simp add: settled_def)
  obtain d1 where b: "Database_beginTransaction (pw_metadataDb w) = (True, d1)" "in_tx t t d1" "engine_ready d1"
    using begin_settled [OF assms(2)] by blast
  obtain r3 s3 where pl: "pl s = (r3, s3)" by (cases "pl s")
  show "wrapper_outcome t s g pl (metadata_transaction change pl w)"
  proof (cases "g t")
    case None
    from changes_by_ready_fails [OF assms(1) b(2,3) None] obtain r d2 where
      c: "change d1 = (r, d2)" "\<not> succeeded r" "engine_ready d2" "in_tx t t d2" by blast
    have "settled t s (w\<lparr>pw_metadataDb := rollback_db d2\<rparr>)"
      using rollback_ready [OF c(4,3)] s by (simp add: settled_def)
    with b(1) c(1,2) show ?thesis by (simp add: metadata_transaction_def settled_fails)
  next
    case (Some u)
    then obtain t' where t': "g t = Some ((), t')" by (cases u) simp
    from changes_by_ready [OF assms(1) b(2,3) t'] obtain r d2 where
      c: "change d1 = (r, d2)" "succeeded r" "engine_ready d2" "in_tx t t' d2" by blast
    show ?thesis
      using b(1) c(1,2) s pl t' rollback_ready [OF c(4,3)] commit_ready [OF c(4,3)]
      by (auto simp: metadata_transaction_def wrapper_outcome_def settled_def)
  qed
  show "succeeded (fst (metadata_transaction change pl w))"
    if t': "g t = Some ((), t')" and "succeeded (fst (pl s))"
  proof -
    from changes_by_ready [OF assms(1) b(2,3) t'] obtain r d2 where "change d1 = (r, d2)" "succeeded r" by blast
    with b(1) s pl that(2) show ?thesis by (simp add: metadata_transaction_def)
  qed
qed

lemma isMasterLocked_settled:
  assumes "settled t s w"
  shows "\<exists>w1. PluginWrapper_isMasterLocked w = (False, w1) \<and> settled t s w1"
proof -
  let ?d = "pw_metadataDb w"
  have i: "idle ?d" "db_file ?d = Some t" "engine_ready ?d" "db_readable ?d" "db_isOpen ?d"
    using assms by (auto simp: settled_def idle_def db_readable_def)
  obtain p d1 where p: "Database_prepare lockedQuery ?d = (p, d1)" by (cases "Database_prepare lockedQuery ?d")
  with ready_prepare [OF i(3,4), of lockedQuery] have p1: p "engine_ready d1" by simp_all
  have i1: "idle d1" "db_file d1 = Some t" using prepare_idle [OF p i(1)] prepare_file [OF p] i(2) by simp_all
  have v: "db_readable d1" "db_view d1 = Some t" using i1 by (simp_all add: idle_def db_view_def)
  obtain x d2 where x: "Database_execute (sql_select (\<lambda>t. ())) d1 = (x, d2)"
    by (cases "Database_execute (sql_select (\<lambda>t::metadata_tables. ())) d1")
  have "x = Some ()" "engine_ready d2"
    using ready_execute [OF p1(2) v, of "sql_select (\<lambda>t. ())"] x by (simp_all add: sql_select_def)
  with execute_idle [OF i1 x] p p1(1) x i(5) assms show ?thesis
    by (auto simp: PluginWrapper_isMasterLocked_def MetadataDatabase_isLocked_def settled_def sql_select_def)
qed

lemma unless_locked_settled:
  assumes "settled t s w"
  shows "(\<exists>w1. settled t s w1 \<and> unless_locked p k w = k w1)
    \<or> pb_isLocked p s \<and> unless_locked p k w = (failure SecretsPluginIsLockedError, w)"
  using isMasterLocked_settled [OF assms] assms by (auto simp: unless_locked_def settled_def)

lemma collectionMetadata_settled:
  assumes "settled t s w"
  shows "\<exists>r m' d. MetadataDatabase_collectionMetadata c m e (pw_metadataDb w) = (r, m', c \<in> collection_set t, d)
    \<and> succeeded r \<and> settled t s (w\<lparr>pw_metadataDb := d\<rparr>)"
proof -
  let ?d = "pw_metadataDb w" and ?g = "sql_select (\<lambda>t. find (\<lambda>r. c_CollectionName r = c) (t_Collections t))"
  have i: "idle ?d" "db_file ?d = Some t" "engine_ready ?d" "db_readable ?d" "db_view ?d = Some t"
    using assms by (simp_all add: settled_def idle_def db_view_def)
  obtain r m' e' d where q: "MetadataDatabase_collectionMetadata c m e ?d = (r, m', e', d)" by (metis prod_cases4)
  from md_query_ready [OF i(3-5), of selectCollectionQuery ?g] q
  have "succeeded r" "engine_ready d"
    by (auto simp: MetadataDatabase_collectionMetadata_def sql_select_def split: prod.splits option.splits)
  with collectionMetadata_keeps [OF i(1,2) q] q assms show ?thesis by (simp add: settled_def)
qed

lemma secretMetadata_settled:
  assumes "settled t s w"
  shows "\<exists>r m' d. MetadataDatabase_secretMetadata c n m e (pw_metadataDb w) = (r, m', (c, n) \<in> secret_set t, d)
    \<and> succeeded r \<and> settled t s (w\<lparr>pw_metadataDb := d\<rparr>)"
proof -
  let ?d = "pw_metadataDb w" and ?g = "sql_select (\<lambda>t. find (\<lambda>r. secret_key r = (c, n)) (t_Secrets t))"
  have i: "idle ?d" "db_file ?d = Some t" "engine_ready ?d" "db_readable ?d" "db_view ?d = Some t"
    using assms by (simp_all add: settled_def idle_def db_view_def)
  obtain r m' e' d where q: "MetadataDatabase_secretMetadata c n m e ?d = (r, m', e', d)" by (metis prod_cases4)
  from md_query_ready [OF i(3-5), of selectSecretsQuery ?g] q
  have "succeeded r" "engine_ready d"
    by (auto simp: MetadataDatabase_secretMetadata_def sql_select_def split: prod.splits option.splits)
  with secretMetadata_keeps [OF i(1,2) q] q assms show ?thesis by (simp add: settled_def)
qed

lemma unless_secret_exists_settled:
  assumes "settled t s w"
  shows "(\<exists>w1. settled t s w1 \<and> unless_secret_exists m k w = k w1)
    \<or> (\<exists>w1 r. settled t s w1 \<and> \<not> succeeded r \<and> unless_secret_exists m k w = (r, w1)
         \<and> (sm_collectionName m \<notin> collection_set t \<or> (sm_collectionName m, sm_secretName m) \<in> secret_set t))"
proof -
  obtain r1 m1 d1 where q1: "MetadataDatabase_collectionMetadata (sm_collectionName m) unset_collection_metadata
      False (pw_metadataDb w) = (r1, m1, sm_collectionName m \<in> collection_set t, d1)"
    "succeeded r1" "settled t s (w\<lparr>pw_metadataDb := d1\<rparr>)"
    using collectionMetadata_settled [OF assms] by blast
  obtain r2 m2 d2 where q2: "MetadataDatabase_secretMetadata (sm_collectionName m) (sm_secretName m)
      unset_secret_metadata False d1 = (r2, m2, (sm_collectionName m, sm_secretName m) \<in> secret_set t, d2)"
    "succeeded r2" "settled t s (w\<lparr>pw_metadataDb := d2\<rparr>)"
    using secretMetadata_settled [OF q1(3)] by fastforce
  show ?thesis
    using q1 q2 by (cases "sm_collectionName m \<in> collection_set t";
        cases "(sm_collectionName m, sm_secretName m) \<in> secret_set t")
      (auto simp: unless_secret_exists_def Let_def)
qed

primrec op_metadata :: "wrapper_op \<Rightarrow> metadata_tables \<Rightarrow> (unit \<times> metadata_tables) option" where
  "op_metadata (Wrapper_createCollection m) = sql_insertCollection (collections_row m)"
| "op_metadata (Wrapper_removeCollection c) = sql_deleteCollection c"
| "op_metadata (Wrapper_setSecret m x fd) = sql_insertSecret (secrets_row m)"
| "op_metadata (Wrapper_removeSecret c n) = sql_deleteSecret c n"

primrec op_plugin :: "'s StoragePlugin \<Rightarrow> wrapper_op \<Rightarrow> 's \<Rightarrow> Result \<times> 's" where
  "op_plugin p (Wrapper_createCollection m) = sp_createCollection p (cm_collectionName m)"
| "op_plugin p (Wrapper_removeCollection c) = sp_removeCollection p c"
| "op_plugin p (Wrapper_setSecret m x fd) = sp_setSecret p (sm_collectionName m) (sm_secretName m) x fd"
| "op_plugin p (Wrapper_removeSecret c n) = sp_removeSecret p c n"

fun op_filter_ok :: "wrapper_op \<Rightarrow> bool" where
  "op_filter_ok (Wrapper_setSecret m x fd) = qmap_ok fd"
| "op_filter_ok _ = True"

lemma locked_or_continue:
  assumes "settled t s w" and "\<And>w1. settled t s w1 \<Longrightarrow> wrapper_outcome t s g pl (k w1)"
  shows "wrapper_outcome t s g pl (unless_locked p k w)"
  using unless_locked_settled [OF assms(1), of p k] assms by (auto intro!: settled_fails)

lemma exists_or_continue:
  assumes "settled t s w" and "\<And>w1. settled t s w1 \<Longrightarrow> wrapper_outcome t s g pl (k w1)"
  shows "wrapper_outcome t s g pl (unless_secret_exists m k w)"
  using unless_secret_exists_settled [OF assms(1), of m k] assms by (auto intro!: settled_fails)

lemma wrapper_apply_outcome:
  assumes "settled t s w"
  shows "wrapper_outcome t s (op_metadata op) (op_plugin p op) (wrapper_apply p op w)"
proof (cases op)
  case (Wrapper_createCollection m)
  have "wrapper_outcome t s (op_metadata op) (op_plugin p op) (StoragePluginWrapper_createCollection p m w)"
    unfolding StoragePluginWrapper_createCollection_def
  proof (rule locked_or_continue [OF assms], goal_cases)
    case (1 w1)
    obtain r m' d where q: "MetadataDatabase_collectionMetadata (cm_collectionName m) unset_collection_metadata
        False (pw_metadataDb w1) = (r, m', cm_collectionName m \<in> collection_set t, d)"
      "succeeded r" "settled t s (w1\<lparr>pw_metadataDb := d\<rparr>)"
      using collectionMetadata_settled [OF 1] by blast
    with metadata_transaction_outcome(1) [OF changes_by_ops(1) q(3)] show ?case
      by (simp add: Wrapper_createCollection settled_fails Let_def)
  qed
  then show ?thesis by (simp add: Wrapper_createCollection)
next
  case (Wrapper_removeCollection c)
  then show ?thesis
    by (simp add: StoragePluginWrapper_removeCollection_def)
      (intro locked_or_continue [OF assms] metadata_transaction_outcome(1) [OF changes_by_ops(2)])
next
  case (Wrapper_setSecret m x fd)
  then show ?thesis
    by (simp add: StoragePluginWrapper_setSecret_def)
      (intro locked_or_continue [OF assms] exists_or_continue metadata_transaction_outcome(1) [OF changes_by_ops(3)])
next
  case (Wrapper_removeSecret c n)
  then show ?thesis
    by (simp add: StoragePluginWrapper_removeSecret_def)
      (intro locked_or_continue [OF assms] metadata_transaction_outcome(1) [OF changes_by_ops(5)])
qed

lemma in_sync_insertCollection:
  "in_sync t C S \<Longrightarrow> sql_insertCollection (collections_row m) t = Some (u, t') \<Longrightarrow>
   in_sync t' (insert (cm_collectionName m) C) S"
  using sql_insertCollection_effect [of "collections_row m" t u t'] by (auto simp: in_sync_def)

lemma in_sync_deleteCollection:
  assumes "in_sync t C S" and "sql_deleteCollection c t = Some (u, t')" and "md_wf t"
  shows "in_sync t' (C - {c}) {i \<in> S. fst i \<noteq> c}"
proof -
  note e = sql_deleteCollection_effect(1) [OF assms(2)] sql_deleteCollection_effect(3) [OF assms(2,3)]
  have "{x \<in> collection_set t'. \<not> hidden x} = {x \<in> collection_set t. \<not> hidden x} - {c}"
    "{i \<in> secret_set t'. \<not> hidden (fst i)} = {i \<in> secret_set t. \<not> hidden (fst i)} - {i. fst i = c}"
    by (auto simp: e)
  with assms(1) show ?thesis by (auto simp: in_sync_def)
qed

lemma in_sync_insertSecret:
  assumes "in_sync t C S" and "sql_insertSecret (secrets_row m) t = Some (u, t')"
  shows "in_sync t' C (insert (sm_collectionName m, sm_secretName m) S)"
proof -
  note e = sql_insertSecret_effect(5,6) [OF assms(2)]
  have "{i \<in> secret_set t'. \<not> hidden (fst i)} =
      {i \<in> secret_set t. \<not> hidden (fst i)} \<union> {i \<in> {(sm_collectionName m, sm_secretName m)}. \<not> hidden (fst i)}"
    by (auto simp: e)
  with assms(1) show ?thesis by (auto simp: in_sync_def e)
qed

lemma in_sync_deleteSecret:
  assumes "in_sync t C S" and "sql_deleteSecret c n t = Some (u, t')"
  shows "in_sync t' C (S - {(c, n)})"
proof -
  note e = sql_deleteSecret_effect(1,3) [OF assms(2)]
  have "{i \<in> secret_set t'. \<not> hidden (fst i)} = {i \<in> secret_set t. \<not> hidden (fst i)} - {(c, n)}"
    by (auto simp: e)
  with assms(1) show ?thesis by (auto simp: in_sync_def e)
qed

lemma op_metadata_wf:
  assumes "op_metadata op t = Some ((), t')" and "md_wf t"
  shows "md_wf t'"
proof (cases op)
  case (Wrapper_createCollection m)
  with assms show ?thesis using sql_insertCollection_effect(6) by simp
next
  case (Wrapper_removeCollection c)
  with assms show ?thesis using sql_deleteCollection_effect(4) by simp
next
  case (Wrapper_setSecret m x fd)
  with assms show ?thesis using sql_insertSecret_effect(7) by simp
next
  case (Wrapper_removeSecret c n)
  with assms show ?thesis using sql_deleteSecret_effect(4) by simp
qed

context storage_plugin
begin

lemma plugin_fails:
  assumes "ready s" and "op_plugin plugin op s = (r, s')" and "\<not> succeeded r"
  shows "collections s' = collections s \<and> stored s' = stored s"
proof (cases op)
  case (Wrapper_createCollection m)
  with assms(2) have "sp_createCollection plugin (cm_collectionName m) s = (r, s')" by simp
  from createCollection_fails [OF assms(1) this assms(3)] show ?thesis .
next
  case (Wrapper_removeCollection c)
  with assms(2) have "sp_removeCollection plugin c s = (r, s')" by simp
  from removeCollection_fails [OF assms(1) this assms(3)] show ?thesis .
next
  case (Wrapper_setSecret m x fd)
  with assms(2) have "sp_setSecret plugin (sm_collectionName m) (sm_secretName m) x fd s = (r, s')" by simp
  from setSecret_fails [OF assms(1) this assms(3)] show ?thesis .
next
  case (Wrapper_removeSecret c n)
  with assms(2) have "sp_removeSecret plugin c n s = (r, s')" by simp
  from removeSecret_fails [OF assms(1) this assms(3)] show ?thesis .
qed

lemma sync_step:
  assumes "ready s" and "in_sync t (collections s) (dom (stored s))" and "md_wf t" and "op_filter_ok op"
    and "op_metadata op t = Some ((), t')" and "op_plugin plugin op s = (r, s')" and "succeeded r"
  shows "ready s' \<and> in_sync t' (collections s') (dom (stored s'))"
proof (cases op)
  case (Wrapper_createCollection m)
  with assms(6) have "sp_createCollection plugin (cm_collectionName m) s = (r, s')" by simp
  from createCollection_ok [OF assms(1) this assms(7)] in_sync_insertCollection assms(2,5) Wrapper_createCollection
  show ?thesis by simp
next
  case (Wrapper_removeCollection c)
  with assms(6) have "sp_removeCollection plugin c s = (r, s')" by simp
  note e = removeCollection_ok [OF assms(1) this assms(7)]
  have d: "dom (stored s') = {i \<in> dom (stored s). fst i \<noteq> c}" using e by auto
  from in_sync_deleteCollection [OF _ _ assms(3)] assms(2,5) Wrapper_removeCollection e
  show ?thesis unfolding d by simp
next
  case (Wrapper_setSecret m x fd)
  with assms(4,6) have "qmap_ok fd" "sp_setSecret plugin (sm_collectionName m) (sm_secretName m) x fd s = (r, s')"
    by simp_all
  note e = setSecret_ok [OF assms(1) this assms(7)]
  have d: "dom (stored s') = insert (sm_collectionName m, sm_secretName m) (dom (stored s))" using e by simp
  from in_sync_insertSecret assms(2,5) Wrapper_setSecret e show ?thesis unfolding d by simp
next
  case (Wrapper_removeSecret c n)
  with assms(6) have "sp_removeSecret plugin c n s = (r, s')" by simp
  note e = removeSecret_ok [OF assms(1) this assms(7)]
  have d: "dom (stored s') = dom (stored s) - {(c, n)}" using e by simp
  from in_sync_deleteSecret assms(2,5) Wrapper_removeSecret e show ?thesis unfolding d by simp
qed

lemma wrapper_keeps_sync:
  assumes "settled t s w" and "ready s" and "md_wf t" and "in_sync t (collections s) (dom (stored s))" and "op_filter_ok op"
    and "wrapper_apply plugin op w = (r, w')"
  shows "\<exists>t'. settled t' (pw_plugin w') w' \<and> md_wf t' \<and> in_sync t' (collections (pw_plugin w')) (dom (stored (pw_plugin w')))
    \<and> (succeeded r \<longrightarrow> ready (pw_plugin w'))
    \<and> (\<not> succeeded r \<longrightarrow> t' = t \<and> collections (pw_plugin w') = collections s \<and> stored (pw_plugin w') = stored s)"
proof -
  from wrapper_apply_outcome [OF assms(1), of op plugin] obtain t' where
    t': "settled t' (pw_plugin w') w'"
    and o: "if succeeded r
       then op_metadata op t = Some ((), t') \<and> (\<exists>r2. op_plugin plugin op s = (r2, pw_plugin w') \<and> succeeded r2)
       else t' = t \<and> (pw_plugin w' = s \<or> (\<exists>r2. op_plugin plugin op s = (r2, pw_plugin w') \<and> \<not> succeeded r2))"
    unfolding wrapper_outcome_def assms(6) fst_conv snd_conv by blast
  show ?thesis
  proof (cases "succeeded r")
    case True
    with o obtain r2 where "op_metadata op t = Some ((), t')" "op_plugin plugin op s = (r2, pw_plugin w')" "succeeded r2"
      by auto
    with sync_step [OF assms(2,4,3,5)] op_metadata_wf assms(3) t' True show ?thesis by blast
  next
    case False
    with o plugin_fails [OF assms(2), of op] have "t' = t" "collections (pw_plugin w') = collections s"
      "stored (pw_plugin w') = stored s" by auto
    with t' False assms(3,4) show ?thesis by auto
  qed
qed

end

subsection \<open>Initialisation\<close>

lemma fold_insert_keys:
  "qmap_ok m \<Longrightarrow> qmap_ok (fold (\<lambda>c. qmap_insert c v) cs m)
   \<and> set (map fst (fold (\<lambda>c. qmap_insert c v) cs m)) = set (map fst m) \<union> set cs"
  by (induction cs arbitrary: m) (auto simp del: set_map simp add: set_map)

lemma synchronise_settled:
  assumes "settled t s w" and "md_wf t" and "\<forall>c \<in> set cnames. \<not> hidden c" and "distinct cnames"
    and "\<forall>i \<in> set ids. fst i \<in> set cnames" and "distinct ids"
  shows "\<exists>t' w'. PluginWrapper_synchronise cfg cnames ids [] w = (True, w') \<and> settled t' s w' \<and> md_wf t'
    \<and> pw_initialized w' \<and> {c \<in> collection_set t'. \<not> hidden c} = set cnames
    \<and> {i \<in> secret_set t'. \<not> hidden (fst i)} = set ids"
proof -
  obtain d1 where b: "Database_beginTransaction (pw_metadataDb w) = (True, d1)" "in_tx t t d1" "engine_ready d1"
    using begin_settled [OF assms(1)] by blast
  obtain d2 where c: "MetadataDatabase_initializeCollectionsFromPluginData cfg cnames d1 = (True, d2)" "engine_ready d2"
    using initializeCollections_ready [OF b(2,3) assms(2-4)] by blast
  obtain t2 where t2: "in_tx t t2 d2" "collections_synced cnames t t2"
    using initializeCollections_synced [OF b(2) assms(2,3) c(1)] by blast
  have w2: "md_wf t2" and n2: "\<forall>i \<in> set ids. \<not> hidden (fst i) \<and> fst i \<in> collection_set t2"
    using t2(2) assms(3,5) by (auto simp: collections_synced_def)
  obtain d3 where e: "MetadataDatabase_initializeSecretsFromPluginData cfg ids [] d2 = (True, d3)" "engine_ready d3"
    using initializeSecrets_ready [OF t2(1) c(2) w2 assms(6) n2] by blast
  obtain t3 where t3: "in_tx t t3 d3" "secrets_synced ids [] t2 t3"
    using initializeSecrets_synced [OF t2(1) w2 e(1)] by blast
  note m = commit_ready [OF t3(1) e(2)]
  have cs: "collection_set t3 = collection_set t2" using t3(2) by (simp add: secrets_synced_def collection_set_def)
  show ?thesis
  proof (intro exI conjI)
    show "PluginWrapper_synchronise cfg cnames ids [] w =
        (True, w\<lparr>pw_metadataDb := commit_db d3, pw_initialized := True\<rparr>)"
      using b(1) c(1) e(1) by (simp add: PluginWrapper_synchronise_def)
    show "settled t3 s (w\<lparr>pw_metadataDb := commit_db d3, pw_initialized := True\<rparr>)"
      using m assms(1) by (simp add: settled_def)
    show "md_wf t3" using t3(2) by (simp add: secrets_synced_def)
    show "{c \<in> collection_set t3. \<not> hidden c} = set cnames" using t2(2) by (simp add: cs collections_synced_def)
    show "{i \<in> secret_set t3. \<not> hidden (fst i)} = set ids" using t3(2) n2 by (auto simp: secrets_synced_def)
  qed simp
qed

context storage_plugin
begin

lemma identifiers_ok:
  assumes "StoragePluginWrapper_identifiers plugin cnames ids w = (Some ids', w')"
    and "settled t s w" and "ready s" and "distinct cnames" and "distinct ids" and "fst ` set ids \<inter> set cnames = {}"
  shows "\<exists>s'. settled t s' w' \<and> ready s' \<and> collections s' = collections s \<and> stored s' = stored s
    \<and> distinct ids' \<and> set ids' = set ids \<union> {i \<in> dom (stored s). fst i \<in> set cnames}"
  using assms
proof (induction cnames arbitrary: ids w s)
  case Nil
  then show ?case by (auto simp: settled_def)
next
  case (Cons c cnames)
  obtain r names s1 where n: "sp_secretNames plugin c s = (r, names, s1)" by (cases "sp_secretNames plugin c s")
  have pw: "pw_plugin w = s" using Cons.prems(2) by (simp add: settled_def)
  have r: "succeeded r" and rest: "StoragePluginWrapper_identifiers plugin cnames (ids @ map (Pair c) names)
      (w\<lparr>pw_plugin := s1\<rparr>) = (Some ids', w')"
    using Cons.prems(1) n pw by (auto simp: StoragePluginWrapper_secretNames_def split: if_splits)
  note k = secretNames_ok [OF Cons.prems(3) n r]
  have "settled t s1 (w\<lparr>pw_plugin := s1\<rparr>)" using Cons.prems(2) by (simp add: settled_def)
  moreover have "distinct (ids @ map (Pair c) names)"
  proof -
    have "(c, x) \<notin> set ids" for x using Cons.prems(6) by force
    then have "set ids \<inter> set (map (Pair c) names) = {}" by auto
    moreover have "distinct (map (Pair c) names)" using k by (simp add: distinct_map inj_on_def)
    ultimately show ?thesis using Cons.prems(5) by simp
  qed
  moreover have "fst ` set (ids @ map (Pair c) names) \<inter> set cnames = {}"
    using Cons.prems(4,6) by auto
  ultimately obtain s' where s': "settled t s' w'" "ready s'" "collections s' = collections s1" "stored s' = stored s1"
    "distinct ids'" "set ids' = set (ids @ map (Pair c) names) \<union> {i \<in> dom (stored s1). fst i \<in> set cnames}"
    using Cons.IH [OF rest, of s1] k Cons.prems(4) by auto
  have "set (map (Pair c) names) = {i \<in> dom (stored s). fst i = c}" using k by auto
  then have "set ids' = set ids \<union> {i \<in> dom (stored s). fst i \<in> set (c # cnames)}"
    using s'(6) k by auto
  with s' k show ?case by auto
qed

lemma initialize_syncs:
  assumes "settled t s w" and "ready s" and "md_wf t" and "\<not> pw_initialized w"
    and "StoragePluginWrapper_initialize plugin cfg key w = (True, w')"
  shows "\<exists>t'. settled t' (pw_plugin w') w' \<and> ready (pw_plugin w') \<and> md_wf t' \<and> pw_initialized w'
    \<and> collections (pw_plugin w') = collections s \<and> stored (pw_plugin w') = stored s
    \<and> in_sync t' (collections s) (dom (stored s))"
proof -
  have op: "db_isOpen (pw_metadataDb w)" "pw_plugin w = s"
    using assms(1) by (auto simp: settled_def idle_def db_readable_def)
  obtain r names s1 where n: "sp_collectionNames plugin s = (r, names, s1)" by (cases "sp_collectionNames plugin s")
  let ?map = "fold (\<lambda>c. qmap_insert c False) names []"
  define w1 where "w1 = w\<lparr>pw_plugin := s1\<rparr>"
  obtain ids w2 where i: "StoragePluginWrapper_identifiers plugin (map fst ?map) [] w1 = (ids, w2)"
    by (cases "StoragePluginWrapper_identifiers plugin (map fst ?map) [] w1")
  have r: "succeeded r" and "ids \<noteq> None"
    and sync: "PluginWrapper_synchronise cfg (map fst ?map) (the ids) [] w2 = (True, w')"
    using assms(4,5) op n i
    by (auto simp: StoragePluginWrapper_initialize_def StoragePluginWrapper_collectionNames_def w1_def Let_def
        split: if_splits option.splits)
  then obtain ids' where ids: "ids = Some ids'" by auto
  note k = collectionNames_ok [OF assms(2) n r]
  have q: "qmap_ok ?map" "set (map fst ?map) = collections s - {standalone}"
    using fold_insert_keys [of "[]" False names] k by simp_all
  have st1: "settled t s1 w1" using assms(1) by (simp add: settled_def w1_def)
  obtain s2 where s2: "settled t s2 w2" "ready s2" "collections s2 = collections s1" "stored s2 = stored s1"
    "distinct ids'" "set ids' = {i \<in> dom (stored s1). fst i \<in> set (map fst ?map)}"
    using identifiers_ok [OF i [unfolded ids] st1] k qmap_ok_distinct [OF q(1)] by auto
  have nh: "\<forall>c \<in> set (map fst ?map). \<not> hidden c" unfolding q(2) using reserved_name [OF assms(2)] by auto
  obtain t' where t': "settled t' s2 w'" "md_wf t'" "pw_initialized w'"
    "{c \<in> collection_set t'. \<not> hidden c} = set (map fst ?map)" "{i \<in> secret_set t'. \<not> hidden (fst i)} = set ids'"
    using synchronise_settled [OF s2(1) assms(3) nh qmap_ok_distinct [OF q(1)] _ s2(5), of cfg] sync ids s2(6) by auto
  have "{c \<in> collections s. \<not> hidden c} = set (map fst ?map)"
    using nh unfolding q(2) by auto
  moreover have "{i \<in> dom (stored s). \<not> hidden (fst i)} = set ids'"
  proof -
    have "fst i \<in> collections s" if "i \<in> dom (stored s)" for i
      using stored_in_collections [OF assms(2), of "fst i" "snd i"] that by simp
    then show ?thesis unfolding s2(6) q(2) using k reserved_name [OF assms(2)] by (auto simp del: domIff)
  qed
  ultimately have "in_sync t' (collections s) (dom (stored s))" using t'(4,5) by (simp add: in_sync_def)
  moreover have "pw_plugin w' = s2" using t'(1) by (simp add: settled_def)
  ultimately show ?thesis using t' s2 k by auto
qed

end

subsection \<open>The wrapper of the SQLite plugin\<close>

definition sqlite_in_sync :: "metadata_tables \<Rightarrow> sqlite_db \<Rightarrow> bool" where
  "sqlite_in_sync t s \<longleftrightarrow> in_sync t (sqlite_collections s) (dom (sqlite_stored s))"

lemma in_syncD:
  assumes "in_sync t C S" and "\<not> hidden c"
  shows "c \<in> collection_set t \<longleftrightarrow> c \<in> C" and "(c, n) \<in> secret_set t \<longleftrightarrow> (c, n) \<in> S"
proof -
  have "c \<in> {c \<in> collection_set t. \<not> hidden c} \<longleftrightarrow> c \<in> {c \<in> C. \<not> hidden c}"
    "(c, n) \<in> {i \<in> secret_set t. \<not> hidden (fst i)} \<longleftrightarrow> (c, n) \<in> {i \<in> S. \<not> hidden (fst i)}"
    using assms(1) by (simp_all only: in_sync_def)
  with assms(2) show "c \<in> collection_set t \<longleftrightarrow> c \<in> C" "(c, n) \<in> secret_set t \<longleftrightarrow> (c, n) \<in> S" by simp_all
qed

text \<open>
  C19. Metadata and plugin stay in step. Let the engine of the metadata database refuse
  nothing, and the engine under the SQLite plugin answer anything. A change through the
  wrapper leaves the metadata idle, well formed and in agreement with what the plugin durably
  stores, whether the change succeeds or fails; when it fails neither side has changed.
\<close>

theorem wrapper_sync_invariant:
  assumes "settled t s w" and "sqlite_ready s" and "md_wf t" and "sqlite_in_sync t s" and "op_filter_ok op"
    and "wrapper_apply sqlite_plugin op w = (r, w')"
  shows "\<exists>t'. settled t' (pw_plugin w') w' \<and> md_wf t' \<and> sqlite_in_sync t' (pw_plugin w')
    \<and> (succeeded r \<longrightarrow> sqlite_ready (pw_plugin w'))
    \<and> (\<not> succeeded r \<longrightarrow> t' = t \<and> sqlite_store (pw_plugin w') = sqlite_store s)"
  using sqlite.wrapper_keeps_sync [OF assms(1-3) assms(4) [unfolded sqlite_in_sync_def] assms(5,6)]
  by (auto simp: sqlite_in_sync_def sqlite_store_def)

lemma demo_in_sync: "sqlite_in_sync t (demo_sqlite as)"
  if "t = \<lparr>t_Collections = [collections_row standalone_metadata,
             collections_row (standalone_metadata\<lparr>cm_collectionName := ''c''\<rparr>),
             collections_row (standalone_metadata\<lparr>cm_collectionName := ''e''\<rparr>)],
           t_Secrets = [secrets_row (imported_secret demo_cfg (''c'', ''s''))]\<rparr>"
proof -
  have "collection_set t = {standalone, ''c'', ''e''}" "secret_set t = {(''c'', ''s'')}"
    using that by (auto simp: collection_set_def secret_set_def standalone_metadata_def imported_secret_def)
  moreover have "sqlite_collections (demo_sqlite as) = {standalone, ''c'', ''e''}"
    by (auto simp: demo_sqlite_def)
  moreover have "dom (sqlite_stored (demo_sqlite as)) = {(''c'', ''s'')}"
  proof -
    obtain u where u: "db_file (demo_sqlite as) = Some u" "q_key ` set (st_Secrets u) = {(''c'', ''s'')}"
      by (simp add: demo_sqlite_def)
    show ?thesis unfolding sqlite_views(2) [OF u(1)] by (intro set_eqI) (simp only: dom_tables_stored u(2))
  qed
  ultimately show ?thesis by (simp add: sqlite_in_sync_def in_sync_def)
qed

lemma demo_wrapper_settled:
  "\<exists>t. settled t (demo_sqlite as) (demo_wrapper [] as) \<and> md_wf t \<and> sqlite_in_sync t (demo_sqlite as)"
proof -
  obtain t where t: "db_file (pw_metadataDb (demo_wrapper [] as)) = Some t" by (simp add: demo_wrapper_def)
  have i: "idle (pw_metadataDb (demo_wrapper [] as))" "engine_ready (pw_metadataDb (demo_wrapper [] as))"
    by (simp_all add: demo_wrapper_def idle_def db_readable_def engine_ready_def)
  have "sqlite_in_sync t (demo_sqlite as)" by (rule demo_in_sync) (use t in \<open>simp add: demo_wrapper_def\<close>)
  moreover have "md_wf t"
    using t by (auto simp: demo_wrapper_def md_wf_def collection_set_def standalone_metadata_def imported_secret_def standalone_def)
  moreover have "settled t (demo_sqlite as) (demo_wrapper [] as)"
    using i t by (simp add: settled_def) (simp add: demo_wrapper_def)
  ultimately show ?thesis by blast
qed

theorem wrapper_sync_invariant_witness:
  "\<exists>t'. let w' = snd (wrapper_apply sqlite_plugin (Wrapper_removeCollection ''c'') (demo_wrapper [] []))
        in settled t' (pw_plugin w') w' \<and> sqlite_in_sync t' (pw_plugin w')"
proof -
  obtain t where t: "settled t (demo_sqlite []) (demo_wrapper [] [])" "md_wf t" "sqlite_in_sync t (demo_sqlite [])"
    using demo_wrapper_settled by blast
  have r: "sqlite_ready (demo_sqlite [])" by code_simp
  from wrapper_sync_invariant [OF t(1) r t(2,3) _ prod.collapse [symmetric], of "Wrapper_removeCollection ''c''"]
  show ?thesis by (auto simp: Let_def)
qed

text \<open>
  Initialisation brings metadata and plugin in step, whatever they held before. When
  \<open>StoragePluginWrapper_initialize\<close> succeeds on an open metadata database whose engine refuses
  nothing, the metadata records exactly the collections and secrets the SQLite plugin stores,
  the wrapper is marked as initialised, and the plugin's contents are untouched.
\<close>

theorem initialize_establishes_sync:
  assumes "settled t s w" and "sqlite_ready s" and "md_wf t" and "\<not> pw_initialized w"
    and "StoragePluginWrapper_initialize sqlite_plugin cfg key w = (True, w')"
  shows "\<exists>t'. settled t' (pw_plugin w') w' \<and> md_wf t' \<and> sqlite_in_sync t' (pw_plugin w')
    \<and> pw_initialized w' \<and> sqlite_ready (pw_plugin w') \<and> sqlite_store (pw_plugin w') = sqlite_store s"
  using sqlite.initialize_syncs [OF assms] by (auto simp: sqlite_in_sync_def sqlite_store_def)

text \<open>A wrapper whose metadata is empty but for the reserved collection.\<close>

definition demo_fresh_wrapper :: "sqlite_db PluginWrapper" where
  "demo_fresh_wrapper =
     \<lparr>pw_metadataDb =
        \<lparr>db_file = Some \<lparr>t_Collections = [collections_row standalone_metadata], t_Secrets = []\<rparr>,
         db_fileKey = [], db_userVersion = 1, db_isOpen = True, db_connKey = [], db_work = None,
         db_semaphore = 0, db_prepared = [], db_localeName = ''C'', db_answers = []\<rparr>,
      pw_initialized = False, pw_plugin = demo_sqlite []\<rparr>"

theorem initialize_establishes_sync_witness:
  "\<exists>t'. let w' = snd (StoragePluginWrapper_initialize sqlite_plugin demo_cfg [] demo_fresh_wrapper)
        in settled t' (pw_plugin w') w' \<and> sqlite_in_sync t' (pw_plugin w') \<and> pw_initialized w'"
proof -
  obtain t where t: "db_file (pw_metadataDb demo_fresh_wrapper) = Some t" by (simp add: demo_fresh_wrapper_def)
  have s: "settled t (demo_sqlite []) demo_fresh_wrapper"
    using t by (auto simp: demo_fresh_wrapper_def settled_def idle_def db_readable_def engine_ready_def)
  have wf: "md_wf t" using t by (auto simp: demo_fresh_wrapper_def md_wf_def)
  have r: "sqlite_ready (demo_sqlite [])" and n: "\<not> pw_initialized demo_fresh_wrapper" by (code_simp, code_simp)
  have "fst (StoragePluginWrapper_initialize sqlite_plugin demo_cfg [] demo_fresh_wrapper)" by code_simp
  then obtain w' where "StoragePluginWrapper_initialize sqlite_plugin demo_cfg [] demo_fresh_wrapper = (True, w')"
    by (metis prod.collapse)
  from initialize_establishes_sync [OF s r wf n this] this show ?thesis by (auto simp: Let_def)
qed

lemma setSecret_succeeds:
  assumes "sqlite_ready s" and "engine_ready s" and "c \<in> sqlite_collections s" and "c \<noteq> []" and "n \<noteq> []"
    and "qmap_ok fd"
  shows "succeeded (fst (SqlitePlugin_setSecret c n x fd s)) \<and> engine_ready (snd (SqlitePlugin_setSecret c n x fd s))"
proof -
  obtain t where t: "idle s" "db_file s = Some t" "sqlite_wf t" using assms(1) by (rule sqlite_readyE)
  have "set_secret_tables c n x fd t \<noteq> None"
    using set_secret_tables_total [OF t(3) _ assms(6)] assms(3) t(2) by simp
  with setSecret_outcome [OF t(1,2), of True n c x fd] assms(2,4,5) show ?thesis
    by (auto simp: outcome_def split: if_splits)
qed

text \<open>
  A stored secret can be read through the wrapper. With engines that refuse nothing, on a
  wrapper in step with its plugin: storing a secret that does not exist yet in an existing visible
  collection succeeds, is recorded in the metadata, and \<open>StoragePluginWrapper_getSecret\<close>
  then returns the secret and its filter data.
\<close>

theorem wrapper_set_then_get:
  assumes "settled t s w" and "sqlite_ready s" and "md_wf t" and "sqlite_in_sync t s" and "engine_ready s"
    and "sm_collectionName m \<in> sqlite_collections s" and "\<not> hidden (sm_collectionName m)"
    and "sqlite_stored s (sm_collectionName m, sm_secretName m) = None" and "sm_secretName m \<noteq> []"
    and "qmap_ok fd"
  shows "\<exists>w1 w2 r2 t'. StoragePluginWrapper_setSecret sqlite_plugin m x fd w = (success, w1)
     \<and> StoragePluginWrapper_getSecret sqlite_plugin (sm_collectionName m) (sm_secretName m) w1 = (r2, Some (x, fd), w2)
     \<and> succeeded r2 \<and> db_file (pw_metadataDb w1) = Some t' \<and> secrets_row m \<in> set (t_Secrets t')"
proof -
  let ?c = "sm_collectionName m" and ?n = "sm_secretName m"
  have i: "?c \<in> collection_set t" "(?c, ?n) \<notin> secret_set t"
    using in_syncD [OF assms(4) [unfolded sqlite_in_sync_def] assms(7)] assms(6,8) by (simp_all add: domIff)
  obtain t' where g: "sql_insertSecret (secrets_row m) t = Some ((), t')"
    using i by (auto simp: sql_insertSecret_def collection_set_def secret_set_def)
  let ?k = "metadata_transaction (MetadataDatabase_insertSecretMetadata m) (sp_setSecret sqlite_plugin ?c ?n x fd)"
  obtain w1 where w1: "settled t s w1" "StoragePluginWrapper_setSecret sqlite_plugin m x fd w = unless_secret_exists m ?k w1"
    using unless_locked_settled [OF assms(1), of sqlite_plugin "unless_secret_exists m ?k"]
    by (auto simp: StoragePluginWrapper_setSecret_def sqlite_plugin_def)
  obtain w2 where w2: "settled t s w2" "unless_secret_exists m ?k w1 = ?k w2"
    using unless_secret_exists_settled [OF w1(1), of m ?k] i by auto
  have c: "?c \<noteq> []" using assms(7) by (auto simp: hidden_def)
  note set = setSecret_succeeds [OF assms(2,5,6) c assms(9,10), of x]
  have "succeeded (fst (?k w2))"
    by (rule metadata_transaction_outcome(2) [OF changes_by_ops(3) w2(1) g]) (use set in \<open>simp add: sqlite_plugin_def\<close>)
  then obtain w3 r3 where w3: "?k w2 = (r3, w3)" "succeeded r3" by (metis prod.collapse)
  then have r3: "r3 = success" by (auto simp: metadata_transaction_def split: prod.splits if_splits)
  from metadata_transaction_outcome(1) [OF changes_by_ops(3) w2(1), of m "sp_setSecret sqlite_plugin ?c ?n x fd"] w3 g
  obtain r4 where s3: "settled t' (pw_plugin w3) w3" "sp_setSecret sqlite_plugin ?c ?n x fd s = (r4, pw_plugin w3)" "succeeded r4"
    by (auto simp: wrapper_outcome_def)
  note p = sqlite.setSecret_ok [OF assms(2,10) s3(2,3)]
  obtain u where u: "idle (pw_plugin w3)" "db_file (pw_plugin w3) = Some u"
    using p by (auto elim: sqlite_readyE)
  have er: "engine_ready (pw_plugin w3)" using set s3(2) by (simp add: sqlite_plugin_def)
  obtain r5 y s5 where get: "SqlitePlugin_getSecret ?c ?n (pw_plugin w3) = (r5, y, s5)"
    by (metis prod_cases3)
  have y: "tables_stored u (?c, ?n) = Some (x, fd)" using p sqlite_views(2) [OF u(2)] by simp
  have "succeeded r5 \<and> y = Some (x, fd)"
    using getSecret_outcome [OF u, of True ?c ?n] get er y c assms(9) by (auto simp: read_outcome_def split: if_splits)
  then have "StoragePluginWrapper_getSecret sqlite_plugin ?c ?n w3 = (r5, Some (x, fd), w3\<lparr>pw_plugin := s5\<rparr>)" "succeeded r5"
    using get by (simp_all add: StoragePluginWrapper_getSecret_def sqlite_plugin_def)
  moreover have "db_file (pw_metadataDb w3) = Some t'" "secrets_row m \<in> set (t_Secrets t')"
    using s3(1) sql_insertSecret_effect(3) [OF g] by (simp_all add: settled_def)
  ultimately show ?thesis using w1(2) w2(2) w3 r3 by auto
qed

theorem wrapper_set_then_get_witness:
  "\<exists>w1 w2 r2. StoragePluginWrapper_setSecret sqlite_plugin (imported_secret demo_cfg (''e'', ''n'')) ''x''
       [(''kind'', ''app'')] (demo_wrapper [] []) = (success, w1)
     \<and> StoragePluginWrapper_getSecret sqlite_plugin ''e'' ''n'' w1 = (r2, Some (''x'', [(''kind'', ''app'')]), w2)
     \<and> succeeded r2"
proof -
  let ?m = "imported_secret demo_cfg (''e'', ''n'')"
  obtain t where t: "settled t (demo_sqlite []) (demo_wrapper [] [])" "md_wf t" "sqlite_in_sync t (demo_sqlite [])"
    using demo_wrapper_settled by blast
  have a: "sqlite_ready (demo_sqlite [])" "engine_ready (demo_sqlite [])" by (code_simp, code_simp)
  have b: "sm_collectionName ?m \<in> sqlite_collections (demo_sqlite [])" "\<not> hidden (sm_collectionName ?m)"
    "sqlite_stored (demo_sqlite []) (sm_collectionName ?m, sm_secretName ?m) = None" "sm_secretName ?m \<noteq> []"
    "qmap_ok [(''kind'', ''app'')]"
    by (code_simp, code_simp, code_simp, code_simp, code_simp)
  from wrapper_set_then_get [OF t(1) a(1) t(2,3) a(2) b, of "''x''"] show ?thesis
    by (auto simp: imported_secret_def)
qed

text \<open>
  A commit that fails goes unnoticed. When the engine refuses only the commit of the
  metadata transaction, \<open>StoragePluginWrapper_createCollection\<close> reports success, the plugin
  has the new collection, and the committed metadata does not record it; metadata and plugin were in step before and are not afterwards.
\<close>

theorem refused_commit_goes_unnoticed:
  "\<exists>answers m t t' w'.
     answers = replicate 7 Ok @ [Refused] \<and> db_file (pw_metadataDb (demo_wrapper answers [])) = Some t
     \<and> idle (pw_metadataDb (demo_wrapper answers [])) \<and> sqlite_in_sync t (pw_plugin (demo_wrapper answers []))
     \<and> StoragePluginWrapper_createCollection sqlite_plugin m (demo_wrapper answers []) = (success, w')
     \<and> db_file (pw_metadataDb w') = Some t' \<and> \<not> sqlite_in_sync t' (pw_plugin w')"
proof -
  let ?as = "replicate 7 Ok @ [Refused]" and ?m = "imported_collection demo_cfg ''new''"
  let ?w = "demo_wrapper ?as []"
  let ?w' = "snd (StoragePluginWrapper_createCollection sqlite_plugin ?m ?w)"
  obtain t where t: "db_file (pw_metadataDb ?w) = Some t" by (simp add: demo_wrapper_def)
  have i: "idle (pw_metadataDb ?w)" by code_simp
  have s: "sqlite_in_sync t (pw_plugin ?w)"
    unfolding demo_wrapper_def PluginWrapper.simps by (rule demo_in_sync) (use t in \<open>simp add: demo_wrapper_def\<close>)
  have r: "fst (StoragePluginWrapper_createCollection sqlite_plugin ?m ?w) = success" by code_simp
  have c: "''new'' \<in> sqlite_collections (pw_plugin ?w')" "\<not> hidden ''new''" by (code_simp, code_simp)
  have d: "db_file (pw_metadataDb ?w') = db_file (pw_metadataDb ?w)" by code_simp
  have "''new'' \<notin> collection_set t"
    using t by (auto simp: demo_wrapper_def collection_set_def standalone_metadata_def standalone_def)
  with c have "\<not> sqlite_in_sync t (pw_plugin ?w')" by (auto simp: sqlite_in_sync_def in_sync_def)
  with t i s r d show ?thesis by (intro exI [of _ ?as] exI [of _ ?m] exI [of _ t] exI [of _ ?w']) (simp add: prod_eq_iff)
qed

end
