(* ===== verification/Crypto_Wrapper.thy ===== *)
theory Crypto_Wrapper
  imports Crypto_Plugin Plugin_Wrapper
begin

section \<open>The wrapper of a plugin that stores keys\<close>

text \<open>
  \<^verbatim>\<open>CryptoStoragePluginWrapper\<close> (src/daemon/CryptoImpl/cryptopluginwrapper.cpp) extends the wrapper
  of an encrypted storage plugin with the operations that create a key inside the plugin, and
  \<^verbatim>\<open>CryptoPluginFunctionWrapper\<close> (src/daemon/CryptoImpl/cryptopluginfunctionwrappers.cpp) is what
  the cryptography request processor runs on the plugin's thread: it unlocks the collection of a stored
  key, uses the key and locks the collection again.
\<close>

subsection \<open>CryptoStoragePluginWrapper\<close>

text \<open>The error code an integer is cast to.\<close>

definition error_codes :: "ErrorCode list" where
  "error_codes =
     [NoError, UnknownError, SerializationError, PermissionsError, IncorrectAuthenticationCodeError,
      AuthenticationTimeoutError, OperationNotSupportedError, OperationRequiresUserInteraction,
      OperationRequiresApplicationUserInteraction, OperationRequiresSystemUserInteraction,
      SecretManagerNotInitializedError, SecretsDaemonRequestPidError, SecretsDaemonRequestQueueFullError,
      SecretsDaemonLockedError, SecretsDaemonNotLockedError, SecretsPluginEncryptionError,
      SecretsPluginDecryptionError, SecretsPluginKeyDerivationError, SecretsPluginIsLockedError,
      InvalidSecretError, InvalidSecretIdentifierError, InvalidFilterError, InvalidCollectionError,
      InvalidExtensionPluginError, InvalidApplicationIdError, CollectionAlreadyExistsError,
      SecretAlreadyExistsError, CollectionIsLockedError, CollectionIsBusyError, DatabaseQueryError,
      DatabaseTransactionError, DatabaseError, InteractionServiceUnknownError,
      InteractionServiceUnavailableError, InteractionServiceRequestInvalidError,
      InteractionServiceRequestFailedError, InteractionServiceRequestBusyError,
      InteractionServiceResponseInvalidError, InteractionViewUnavailableError, InteractionViewRequestError,
      InteractionViewParentError, InteractionViewChildError, InteractionViewError,
      InteractionViewUserCanceledError, NetworkError, NetworkSslError]"

definition error_code_of :: "int \<Rightarrow> ErrorCode" where
  "error_code_of i = (case find (\<lambda>e. error_value e = i) error_codes of None \<Rightarrow> OtherCode i | Some e \<Rightarrow> e)"

text \<open>The names of the stored keys: those in the metadata, then those only the plugin knows of.\<close>

definition CryptoStoragePluginWrapper_keyNames ::
    "('s, 'x) CryptoPlugin_scheme \<Rightarrow> qstring \<Rightarrow> variant_map \<Rightarrow> 's PluginWrapper
     \<Rightarrow> Result \<times> qstring list \<times> 's PluginWrapper" where
  "CryptoStoragePluginWrapper_keyNames e collectionName customParameters w =
     (let (sresult, knownKeys, d) = MetadataDatabase_keyNames collectionName (pw_metadataDb w);
          w1 = w\<lparr>pw_metadataDb := d\<rparr>
      in if \<not> succeeded sresult then (sresult, [], w1)
         else if \<not> cp_canStoreKeys e then (success, knownKeys, w1)
         else let (result, identifiers, s) = cp_storedKeyIdentifiers e collectionName customParameters (pw_plugin w1);
                  w2 = w1\<lparr>pw_plugin := s\<rparr>
              in if result \<noteq> crypto_success
                 then (if cr_storageErrorCode result \<noteq> 0 then failure (error_code_of (cr_storageErrorCode result))
                       else failure UnknownError, [], w2)
                 else (success,
                       fold (\<lambda>ident ks. if id_collectionName ident = collectionName \<and> id_name ident \<notin> set ks
                                        then ks @ [id_name ident] else ks) identifiers knownKeys, w2))"

definition CryptoStoragePluginWrapper_storedKeyIdentifiers ::
    "('s, 'x) CryptoPlugin_scheme \<Rightarrow> qstring \<Rightarrow> variant_map \<Rightarrow> 's PluginWrapper
     \<Rightarrow> CryptoResult \<times> Identifier list \<times> 's PluginWrapper" where
  "CryptoStoragePluginWrapper_storedKeyIdentifiers e collectionName customParameters w =
     (let (result, identifiers, s) = cp_storedKeyIdentifiers e collectionName customParameters (pw_plugin w)
      in (result, identifiers, w\<lparr>pw_plugin := s\<rparr>))"

text \<open>
  \<open>prepareToStoreKey\<close> ends inside a metadata transaction when it succeeds. The collection is
  unlocked through the plugin itself, not through its wrapper, so the metadata is not synchronised with it.
  Both copies of \<open>locked\<close> are one variable in the source; the second query starts from \<open>False\<close>.
\<close>

definition CryptoStoragePluginWrapper_prepareInsert ::
    "SecretMetadata \<Rightarrow> bool \<Rightarrow> 's PluginWrapper \<Rightarrow> CryptoResult \<times> bool \<times> 's PluginWrapper" where
  "CryptoStoragePluginWrapper_prepareInsert metadata wasLocked w =
     (let (sresult, _, exists, d) = MetadataDatabase_secretMetadata (sm_collectionName metadata)
            (sm_secretName metadata) unset_secret_metadata False (pw_metadataDb w);
          w1 = w\<lparr>pw_metadataDb := d\<rparr>
      in if \<not> succeeded sresult then (transformSecretsResult sresult, wasLocked, w1)
         else if exists then (crypto_failure Crypto_DuplicateKeyIdentifier, wasLocked, w1)
         else let (begun, d2) = Database_beginTransaction (pw_metadataDb w1);
                  w2 = w1\<lparr>pw_metadataDb := d2\<rparr>
              in if \<not> begun then (transformSecretsResult (failure DatabaseTransactionError), wasLocked, w2)
                 else let (sresult2, d3) = MetadataDatabase_insertSecretMetadata metadata (pw_metadataDb w2)
                      in if \<not> succeeded sresult2
                         then (transformSecretsResult sresult2, wasLocked, w2\<lparr>pw_metadataDb := rollback_db d3\<rparr>)
                         else (crypto_success, wasLocked, w2\<lparr>pw_metadataDb := d3\<rparr>))"

definition CryptoStoragePluginWrapper_prepareToStoreKey ::
    "'s EncryptedStoragePlugin \<Rightarrow> ('s, 'x) CryptoPlugin_scheme \<Rightarrow> SecretMetadata \<Rightarrow> qbytes \<Rightarrow> 's PluginWrapper
     \<Rightarrow> CryptoResult \<times> bool \<times> 's PluginWrapper" where
  "CryptoStoragePluginWrapper_prepareToStoreKey p e metadata collectionUnlockKey w =
     (if pb_isLocked p (pw_plugin w) then (crypto_failure Crypto_CryptoPluginIsLockedError, False, w)
      else let (masterLocked, w1) = PluginWrapper_isMasterLocked w
      in if masterLocked then (crypto_failure Crypto_CryptoPluginIsLockedError, False, w1)
      else if \<not> cp_canStoreKeys e then (crypto_failure Crypto_OperationNotSupportedError, False, w1)
      else let (sresult, locked, s) = es_isCollectionLocked p (sm_collectionName metadata) False (pw_plugin w1);
               w2 = w1\<lparr>pw_plugin := s\<rparr>
      in if \<not> succeeded sresult then (transformSecretsResult sresult, False, w2)
      else if \<not> locked then CryptoStoragePluginWrapper_prepareInsert metadata False w2
      else let (sresult2, s2) = es_setEncryptionKey p (sm_collectionName metadata) collectionUnlockKey (pw_plugin w2);
               w3 = w2\<lparr>pw_plugin := s2\<rparr>
      in if \<not> succeeded sresult2 then (transformSecretsResult sresult2, True, w3)
      else let (_, locked2, s3) = es_isCollectionLocked p (sm_collectionName metadata) False (pw_plugin w3);
               w4 = w3\<lparr>pw_plugin := s3\<rparr>
      in if locked2 then (transformSecretsResult (failure CollectionIsLockedError), True, w4)
      else CryptoStoragePluginWrapper_prepareInsert metadata True w4)"

text \<open>
  The two operations that store a key have the same body around the plugin's own function; the result of
  the commit is not looked at, and a collection that was locked is locked again in every case.
\<close>

definition store_key ::
    "'s EncryptedStoragePlugin \<Rightarrow> ('s, 'x) CryptoPlugin_scheme \<Rightarrow> ('s \<Rightarrow> CryptoResult \<times> Key \<times> 's)
     \<Rightarrow> SecretMetadata \<Rightarrow> qbytes \<Rightarrow> Key \<Rightarrow> 's PluginWrapper \<Rightarrow> CryptoResult \<times> Key \<times> 's PluginWrapper" where
  "store_key p e plugin_function metadata collectionUnlockKey keyReference w =
     (let (result, wasLocked, w1) = CryptoStoragePluginWrapper_prepareToStoreKey p e metadata collectionUnlockKey w;
          (result2, key, w2) =
            (if \<not> crypto_succeeded result then (result, keyReference, w1)
             else let (r, k, s) = plugin_function (pw_plugin w1)
                  in if \<not> crypto_succeeded r
                     then (r, k, w1\<lparr>pw_plugin := s, pw_metadataDb := rollback_db (pw_metadataDb w1)\<rparr>)
                     else (r, k, w1\<lparr>pw_plugin := s, pw_metadataDb := commit_db (pw_metadataDb w1)\<rparr>))
      in (result2, key,
          if wasLocked
          then w2\<lparr>pw_plugin := snd (es_setEncryptionKey p (sm_collectionName metadata) [] (pw_plugin w2))\<rparr>
          else w2))"

definition CryptoStoragePluginWrapper_generateAndStoreKey ::
    "'s EncryptedStoragePlugin \<Rightarrow> ('s, 'x) CryptoPlugin_scheme \<Rightarrow> SecretMetadata \<Rightarrow> Key \<Rightarrow> KeyPairGenerationParameters
     \<Rightarrow> KeyDerivationParameters \<Rightarrow> variant_map \<Rightarrow> qbytes \<Rightarrow> Key \<Rightarrow> 's PluginWrapper
     \<Rightarrow> CryptoResult \<times> Key \<times> 's PluginWrapper" where
  "CryptoStoragePluginWrapper_generateAndStoreKey p e metadata keyTemplate kpgParams skdfParams customParameters
       collectionUnlockKey keyReference =
     store_key p e (cp_generateAndStoreKey e keyTemplate kpgParams skdfParams customParameters keyReference)
       metadata collectionUnlockKey keyReference"

definition CryptoStoragePluginWrapper_importAndStoreKey ::
    "'s EncryptedStoragePlugin \<Rightarrow> ('s, 'x) CryptoPlugin_scheme \<Rightarrow> SecretMetadata \<Rightarrow> qbytes \<Rightarrow> Key \<Rightarrow> qbytes
     \<Rightarrow> variant_map \<Rightarrow> qbytes \<Rightarrow> Key \<Rightarrow> 's PluginWrapper \<Rightarrow> CryptoResult \<times> Key \<times> 's PluginWrapper" where
  "CryptoStoragePluginWrapper_importAndStoreKey p e metadata data keyTemplate importPassphrase customParameters
       collectionUnlockKey keyReference =
     store_key p e (cp_importAndStoreKey e data keyTemplate importPassphrase customParameters keyReference)
       metadata collectionUnlockKey keyReference"

subsection \<open>The cryptography function wrappers\<close>

text \<open>Where an operation runs: on a wrapped plugin that stores keys, on a plugin that does not, or nowhere.\<close>

datatype ('s, 'c) crypto_target =
    CryptoWrapper "'s EncryptedStoragePlugin" MetadataConfig "'s CryptoPlugin" "'s PluginWrapper"
  | PlainCrypto "'c CryptoPlugin" 'c
  | NoCryptoPlugin

definition unlockCollection ::
    "'s EncryptedStoragePlugin \<Rightarrow> MetadataConfig \<Rightarrow> qstring \<Rightarrow> qbytes \<Rightarrow> 's PluginWrapper
     \<Rightarrow> Result \<times> bool \<times> 's PluginWrapper" where
  "unlockCollection p cfg collectionName collectionKey w =
     (let (lockedResult, locked, w1) = EncryptedStoragePluginWrapper_isCollectionLocked p collectionName False w
      in if \<not> succeeded lockedResult then (lockedResult, False, w1)
         else if \<not> locked then (lockedResult, False, w1)
         else let (lockedResult2, w2) = EncryptedStoragePluginWrapper_setEncryptionKey p cfg collectionName collectionKey w1
              in if \<not> succeeded lockedResult2 then (lockedResult2, True, w2)
                 else let (lockedResult3, locked3, w3) =
                        EncryptedStoragePluginWrapper_isCollectionLocked p collectionName True w2
                      in (if succeeded lockedResult3 \<and> locked3 then failure IncorrectAuthenticationCodeError
                          else lockedResult3, True, w3))"

text \<open>
  The common body of \<open>sign\<close>, \<open>verify\<close>, \<open>encrypt\<close>, \<open>decrypt\<close> and
  \<open>initializeCipherSession\<close>: \<open>keyMissing\<close> says that the given key lacks the components the
  operation needs, \<open>unset\<close> is the value of the output parameters before the call.
\<close>

definition use_key ::
    "bool \<Rightarrow> Key \<Rightarrow> qbytes \<Rightarrow> 'a \<Rightarrow> ('s CryptoPlugin \<Rightarrow> 's \<Rightarrow> CryptoResult \<times> 'a \<times> 's)
     \<Rightarrow> ('c CryptoPlugin \<Rightarrow> 'c \<Rightarrow> CryptoResult \<times> 'a \<times> 'c) \<Rightarrow> ('s, 'c) crypto_target
     \<Rightarrow> CryptoResult \<times> 'a \<times> ('s, 'c) crypto_target" where
  "use_key keyMissing key collectionKey unset on_wrapped on_plain target =
     (case target of
        CryptoWrapper p cfg e w \<Rightarrow>
          let collectionName = id_collectionName (key_identifier key);
              (lockedResult, wasLocked, w1) =
                (if keyMissing then unlockCollection p cfg collectionName collectionKey w else (success, False, w));
              result = (if res_code lockedResult = Failed then transformSecretsResult lockedResult else crypto_success);
              (result2, x, w2) =
                (if crypto_succeeded result
                 then let (r, y, s) = on_wrapped e (pw_plugin w1) in (r, y, w1\<lparr>pw_plugin := s\<rparr>)
                 else (result, unset, w1));
              w3 = (if wasLocked then snd (EncryptedStoragePluginWrapper_setEncryptionKey p cfg collectionName [] w2) else w2)
          in (result2, x, CryptoWrapper p cfg e w3)
      | PlainCrypto e c \<Rightarrow> let (r, y, c1) = on_plain e c in (r, y, PlainCrypto e c1)
      | NoCryptoPlugin \<Rightarrow> (crypto_failure Crypto_InvalidCryptographicServiceProvider, unset, NoCryptoPlugin))"

definition no_private_part :: "Key \<Rightarrow> bool" where
  "no_private_part key \<longleftrightarrow> key_privateKey key = [] \<and> key_secretKey key = []"

definition no_part :: "Key \<Rightarrow> bool" where
  "no_part key \<longleftrightarrow> key_publicKey key = [] \<and> key_privateKey key = [] \<and> key_secretKey key = []"

definition CryptoPluginFunctionWrapper_sign ::
    "variant_map \<Rightarrow> qbytes \<Rightarrow> Key \<Rightarrow> qbytes \<Rightarrow> int \<Rightarrow> int \<Rightarrow> ('s, 'c) crypto_target
     \<Rightarrow> CryptoResult \<times> qbytes \<times> ('s, 'c) crypto_target" where
  "CryptoPluginFunctionWrapper_sign customParameters data key collectionKey signaturePadding digestFunction =
     use_key (no_private_part key) key collectionKey []
       (\<lambda>e. cp_sign e data key signaturePadding digestFunction customParameters)
       (\<lambda>e. cp_sign e data key signaturePadding digestFunction customParameters)"

definition CryptoPluginFunctionWrapper_verify ::
    "variant_map \<Rightarrow> qbytes \<Rightarrow> qbytes \<Rightarrow> Key \<Rightarrow> qbytes \<Rightarrow> int \<Rightarrow> int \<Rightarrow> ('s, 'c) crypto_target
     \<Rightarrow> CryptoResult \<times> int \<times> ('s, 'c) crypto_target" where
  "CryptoPluginFunctionWrapper_verify customParameters signature data key collectionKey signaturePadding digestFunction =
     use_key (no_part key) key collectionKey 0
       (\<lambda>e. cp_verify e signature data key signaturePadding digestFunction customParameters)
       (\<lambda>e. cp_verify e signature data key signaturePadding digestFunction customParameters)"

definition CryptoPluginFunctionWrapper_encrypt ::
    "variant_map \<Rightarrow> qbytes \<Rightarrow> qbytes \<Rightarrow> Key \<Rightarrow> qbytes \<Rightarrow> int \<Rightarrow> int \<Rightarrow> qbytes \<Rightarrow> ('s, 'c) crypto_target
     \<Rightarrow> CryptoResult \<times> (qbytes \<times> qbytes) \<times> ('s, 'c) crypto_target" where
  "CryptoPluginFunctionWrapper_encrypt customParameters data initVector key collectionKey blockMode encryptionPadding
       authenticationData =
     use_key (no_part key) key collectionKey ([], [])
       (\<lambda>e. cp_encrypt e data initVector key blockMode encryptionPadding authenticationData customParameters)
       (\<lambda>e. cp_encrypt e data initVector key blockMode encryptionPadding authenticationData customParameters)"

definition CryptoPluginFunctionWrapper_decrypt ::
    "variant_map \<Rightarrow> qbytes \<Rightarrow> qbytes \<Rightarrow> Key \<Rightarrow> qbytes \<Rightarrow> int \<Rightarrow> int \<Rightarrow> qbytes \<Rightarrow> qbytes \<Rightarrow> ('s, 'c) crypto_target
     \<Rightarrow> CryptoResult \<times> (qbytes \<times> int) \<times> ('s, 'c) crypto_target" where
  "CryptoPluginFunctionWrapper_decrypt customParameters data initVector key collectionKey blockMode encryptionPadding
       authData tag =
     use_key (no_private_part key) key collectionKey ([], 0)
       (\<lambda>e. cp_decrypt e data initVector key blockMode encryptionPadding authData tag customParameters)
       (\<lambda>e. cp_decrypt e data initVector key blockMode encryptionPadding authData tag customParameters)"

definition OperationSign :: int where "OperationSign = 2"
definition OperationVerify :: int where "OperationVerify = 4"
definition OperationEncrypt :: int where "OperationEncrypt = 8"
definition OperationDecrypt :: int where "OperationDecrypt = 16"

definition CryptoPluginFunctionWrapper_initializeCipherSession ::
    "variant_map \<Rightarrow> nat \<Rightarrow> qbytes \<Rightarrow> Key \<Rightarrow> qbytes \<Rightarrow> int \<Rightarrow> int \<Rightarrow> int \<Rightarrow> int \<Rightarrow> int \<Rightarrow> ('s, 'c) crypto_target
     \<Rightarrow> CryptoResult \<times> nat \<times> ('s, 'c) crypto_target" where
  "CryptoPluginFunctionWrapper_initializeCipherSession customParameters clientId iv key collectionKey operation blockMode
       encryptionPadding signaturePadding digestFunction =
     use_key ((operation = OperationSign \<or> operation = OperationDecrypt) \<and> no_private_part key
              \<or> (operation = OperationVerify \<or> operation = OperationEncrypt) \<and> no_part key) key collectionKey 0
       (\<lambda>e. cp_initializeCipherSession e clientId iv key operation blockMode encryptionPadding signaturePadding
              digestFunction customParameters)
       (\<lambda>e. cp_initializeCipherSession e clientId iv key operation blockMode encryptionPadding signaturePadding
              digestFunction customParameters)"

text \<open>The metadata of a key that is stored: everything but the name and the type comes from its collection.\<close>

definition key_metadata :: "Key \<Rightarrow> CollectionMetadata \<Rightarrow> qstring \<Rightarrow> SecretMetadata" where
  "key_metadata keyTemplate collectionMetadata pluginName =
     \<lparr>sm_collectionName = id_collectionName (key_identifier keyTemplate),
      sm_secretName = id_name (key_identifier keyTemplate),
      sm_ownerApplicationId = cm_ownerApplicationId collectionMetadata,
      sm_usesDeviceLockKey = cm_usesDeviceLockKey collectionMetadata,
      sm_encryptionPluginName = cm_encryptionPluginName collectionMetadata,
      sm_authenticationPluginName = cm_authenticationPluginName collectionMetadata,
      sm_unlockSemantic = cm_unlockSemantic collectionMetadata,
      sm_accessControlMode = cm_accessControlMode collectionMetadata,
      sm_secretType = TypeCryptoKey, sm_cryptoPluginName = pluginName\<rparr>"

definition CryptoPluginFunctionWrapper_importAndStoreKey ::
    "'s EncryptedStoragePlugin \<Rightarrow> ('s, 'x) CryptoPlugin_scheme \<Rightarrow> variant_map \<Rightarrow> qbytes \<Rightarrow> Key \<Rightarrow> qbytes \<Rightarrow> qbytes
     \<Rightarrow> 's PluginWrapper \<Rightarrow> CryptoResult \<times> Key \<times> 's PluginWrapper" where
  "CryptoPluginFunctionWrapper_importAndStoreKey p e customParameters keyData keyTemplate passphrase
       collectionDecryptionKey w =
     (let (sresult, collectionMetadata, w1) =
            PluginWrapper_collectionMetadata (id_collectionName (key_identifier keyTemplate)) unset_collection_metadata w
      in if \<not> succeeded sresult then (transformSecretsResult sresult, keyTemplate, w1)
         else CryptoStoragePluginWrapper_importAndStoreKey p e (key_metadata keyTemplate collectionMetadata (cp_name e))
                keyData keyTemplate passphrase customParameters collectionDecryptionKey keyTemplate w1)"

definition CryptoPluginFunctionWrapper_generateAndStoreKey ::
    "'s EncryptedStoragePlugin \<Rightarrow> ('s, 'x) CryptoPlugin_scheme \<Rightarrow> variant_map \<Rightarrow> Key \<Rightarrow> KeyPairGenerationParameters
     \<Rightarrow> KeyDerivationParameters \<Rightarrow> qbytes \<Rightarrow> 's PluginWrapper \<Rightarrow> CryptoResult \<times> Key \<times> 's PluginWrapper" where
  "CryptoPluginFunctionWrapper_generateAndStoreKey p e customParameters keyTemplate kpgParams skdfParams
       collectionUnlockCode w =
     (let (sresult, collectionMetadata, w1) =
            PluginWrapper_collectionMetadata (id_collectionName (key_identifier keyTemplate)) unset_collection_metadata w
      in if \<not> succeeded sresult then (transformSecretsResult sresult, keyTemplate, w1)
         else CryptoStoragePluginWrapper_generateAndStoreKey p e (key_metadata keyTemplate collectionMetadata (cp_name e))
                keyTemplate kpgParams skdfParams customParameters collectionUnlockCode keyTemplate w1)"

end
