(* ===== verification/Sqlcipher_Plugin.thy ===== *)
theory Sqlcipher_Plugin
  imports Sqlite_Plugin
begin

section \<open>The SQLCipher storage plugin\<close>

text \<open>
  The encrypted storage part of \<^verbatim>\<open>Daemon::Plugins::SqlCipherPlugin\<close>
  (src/plugins/sqlcipherplugin/encryptedstorageplugin.cpp): every collection is a database file of its own, encrypted
  under a key of its own. A collection is unlocked while the plugin holds an open
  connection to its file, and locked when it does not.

  The plugin's state maps the name of each collection file to the file and the connection to it; a file
  that is not open stands there as the connection object that would open it. The answers of the engine and the file
  system, one list for the whole plugin, are handed to the connection an operation uses. The file of the metadata
  database, which lies in the same directory, is not part of this state.
  The hash, the key derivation, the iteration order of \<^verbatim>\<open>QSet\<close> and the system locale are parameters.

  The operations on an open collection are the statements of the SQLite plugin without the collection column; \<open>embed\<close>
  maps the tables of a collection to tables of that plugin, and the effect of every statement is carried over.
\<close>

subsection \<open>Tables and statements\<close>

record CipherSecretsRow =
  cs_SecretName :: qstring
  cs_Secret :: qbytes

record CipherFilterRow =
  cf_SecretName :: qstring
  cf_Field :: qstring
  cf_Value :: qstring

record cipher_tables =
  ct_Secrets :: "CipherSecretsRow list"
  ct_FilterData :: "CipherFilterRow list"

datatype cipher_stmt =
    cq_locked | cq_rekey qbytes | cq_selectSecretsCount | cq_updateSecret | cq_insertSecret | cq_deleteFilterData
  | cq_insertFilterData | cq_selectSecret | cq_selectSecretFilterData | cq_selectSecretNames
  | cq_selectFilterData | cq_deleteSecret

type_synonym cipher_db = "(cipher_stmt, cipher_tables) database"

definition cipher_empty :: cipher_tables where
  "cipher_empty = \<lparr>ct_Secrets = [], ct_FilterData = []\<rparr>"

definition cipher_insertSecret :: "qstring \<Rightarrow> qbytes \<Rightarrow> cipher_tables \<Rightarrow> (unit \<times> cipher_tables) option" where
  "cipher_insertSecret n x t =
     (if n \<in> cs_SecretName ` set (ct_Secrets t) then None
      else Some ((), t\<lparr>ct_Secrets := ct_Secrets t @ [\<lparr>cs_SecretName = n, cs_Secret = x\<rparr>]\<rparr>))"

definition cipher_updateSecret :: "qstring \<Rightarrow> qbytes \<Rightarrow> cipher_tables \<Rightarrow> (unit \<times> cipher_tables) option" where
  "cipher_updateSecret n x t =
     Some ((), t\<lparr>ct_Secrets := map (\<lambda>r. if cs_SecretName r = n then r\<lparr>cs_Secret := x\<rparr> else r) (ct_Secrets t)\<rparr>)"

definition cipher_deleteSecret :: "qstring \<Rightarrow> cipher_tables \<Rightarrow> (unit \<times> cipher_tables) option" where
  "cipher_deleteSecret n t =
     Some ((), if n \<in> cs_SecretName ` set (ct_Secrets t)
               then t\<lparr>ct_Secrets := filter (\<lambda>r. cs_SecretName r \<noteq> n) (ct_Secrets t),
                      ct_FilterData := filter (\<lambda>r. cf_SecretName r \<noteq> n) (ct_FilterData t)\<rparr>
               else t)"

definition cipher_deleteFilterData :: "qstring \<Rightarrow> cipher_tables \<Rightarrow> (unit \<times> cipher_tables) option" where
  "cipher_deleteFilterData n t =
     Some ((), t\<lparr>ct_FilterData := filter (\<lambda>r. cf_SecretName r \<noteq> n) (ct_FilterData t)\<rparr>)"

definition cipher_insertFilterData ::
    "qstring \<Rightarrow> qstring \<times> qstring \<Rightarrow> cipher_tables \<Rightarrow> (unit \<times> cipher_tables) option" where
  "cipher_insertFilterData n e t =
     (if n \<notin> cs_SecretName ` set (ct_Secrets t)
         \<or> (n, fst e) \<in> (\<lambda>r. (cf_SecretName r, cf_Field r)) ` set (ct_FilterData t)
      then None
      else Some ((), t\<lparr>ct_FilterData := ct_FilterData t @
              [\<lparr>cf_SecretName = n, cf_Field = fst e, cf_Value = snd e\<rparr>]\<rparr>))"

subsection \<open>State\<close>

record cipher_env =
  ce_sha256 :: "qbytes \<Rightarrow> qbytes"
  ce_pbkdf2 :: "qbytes \<Rightarrow> qbytes \<Rightarrow> qbytes option"
  ce_setOrder :: "qstring list \<Rightarrow> qstring list"
  ce_localeName :: qstring

record SqlCipherPlugin =
  sc_databases :: "(qstring \<times> cipher_db) list"
  sc_answers :: "answer list"

definition file_exists :: "SqlCipherPlugin \<Rightarrow> qstring \<Rightarrow> bool" where
  "file_exists s c \<longleftrightarrow> qmap_contains (sc_databases s) c"

text \<open>\<^verbatim>\<open>m_collectionDatabases.value(collectionName)\<close>: the open connection, if there is one.\<close>

definition connection :: "SqlCipherPlugin \<Rightarrow> qstring \<Rightarrow> cipher_db option" where
  "connection s c =
     (case map_of (sc_databases s) c of
        None \<Rightarrow> None
      | Some d \<Rightarrow> if db_isOpen d then Some (d\<lparr>db_answers := sc_answers s\<rparr>) else None)"

definition put_database :: "qstring \<Rightarrow> cipher_db \<Rightarrow> SqlCipherPlugin \<Rightarrow> SqlCipherPlugin" where
  "put_database c d s =
     s\<lparr>sc_databases := qmap_insert c (d\<lparr>db_answers := []\<rparr>) (sc_databases s), sc_answers := db_answers d\<rparr>"

text \<open>A new connection object for a file, and for a file that does not exist.\<close>

definition new_connection :: "cipher_env \<Rightarrow> cipher_db \<Rightarrow> cipher_db" where
  "new_connection env d =
     d\<lparr>db_isOpen := False, db_connKey := [], db_work := None, db_semaphore := 0, db_prepared := [],
       db_localeName := ce_localeName env\<rparr>"

definition no_file :: cipher_db where
  "no_file = \<lparr>db_file = None, db_fileKey = [], db_userVersion = 0, db_isOpen = False, db_connKey = [],
     db_work = None, db_semaphore = 0, db_prepared = [], db_localeName = [], db_answers = []\<rparr>"

text \<open>The connection is closed and deleted.\<close>

definition drop_connection :: "cipher_env \<Rightarrow> qstring \<Rightarrow> SqlCipherPlugin \<Rightarrow> SqlCipherPlugin" where
  "drop_connection env c s =
     (case connection s c of
        None \<Rightarrow> s
      | Some d \<Rightarrow> put_database c (new_connection env (Database_close d)) s)"

subsection \<open>Keys\<close>

definition hex_digit :: "nat \<Rightarrow> char" where
  "hex_digit i = ''0123456789abcdef'' ! i"

definition toHex :: "qbytes \<Rightarrow> qbytes" where
  "toHex bs = concat (map (\<lambda>b. let n = of_char b in [hex_digit (n div 16), hex_digit (n mod 16)]) bs)"

text \<open>A key of another length than 256 bits is hashed to one.\<close>

definition cipher_key :: "cipher_env \<Rightarrow> qbytes \<Rightarrow> qbytes" where
  "cipher_key env key = (if length (toHex key) = 64 then toHex key else toHex (ce_sha256 env key))"

subsection \<open>Collections\<close>

definition SqlCipherPlugin_openCollectionDatabase ::
    "cipher_env \<Rightarrow> qstring \<Rightarrow> qbytes \<Rightarrow> bool \<Rightarrow> SqlCipherPlugin \<Rightarrow> Result \<times> SqlCipherPlugin" where
  "SqlCipherPlugin_openCollectionDatabase env collectionName key createIfNotExists s =
     (let hexKey = cipher_key env key
      in if length hexKey \<noteq> 64 then (failure IncorrectAuthenticationCodeError, s)
         else if \<not> file_exists s collectionName \<and> \<not> createIfNotExists then (failure DatabaseError, s)
         else if connection s collectionName \<noteq> None then (failure DatabaseError, s)
         else let d = new_connection env (qmap_value (sc_databases s) collectionName no_file);
                  (opened, d1) = Database_open hexKey 6 2 cipher_empty [] 1 (d\<lparr>db_answers := sc_answers s\<rparr>)
              in if opened then (success, put_database collectionName d1 s)
                 else (failure DatabaseError,
                       if file_exists s collectionName then put_database collectionName (new_connection env d1) s
                       else s\<lparr>sc_answers := db_answers d1\<rparr>))"

definition SqlCipherPlugin_collectionNames :: "SqlCipherPlugin \<Rightarrow> Result \<times> qstring list \<times> SqlCipherPlugin" where
  "SqlCipherPlugin_collectionNames s =
     (success, filter (\<lambda>c. c \<noteq> ''metadata'' \<and> c \<noteq> standalone \<and> c \<noteq> []) (map fst (sc_databases s)), s)"

definition alphanumeric :: "char \<Rightarrow> bool" where
  "alphanumeric ch =
     (let n = (of_char ch :: nat)
      in 48 \<le> n \<and> n \<le> 57 \<or> 65 \<le> n \<and> n \<le> 90 \<or> 97 \<le> n \<and> n \<le> 122)"

definition SqlCipherPlugin_createCollection ::
    "cipher_env \<Rightarrow> qstring \<Rightarrow> qbytes \<Rightarrow> SqlCipherPlugin \<Rightarrow> Result \<times> SqlCipherPlugin" where
  "SqlCipherPlugin_createCollection env collectionName key s =
     (if \<not> (length collectionName \<le> 31 \<and> collectionName \<noteq> ''metadata'' \<and> collectionName \<noteq> ''metadata.db'')
      then (failure InvalidCollectionError, s)
      else if \<not> list_all alphanumeric collectionName then (failure InvalidCollectionError, s)
      else if file_exists s collectionName \<or> connection s collectionName \<noteq> None
      then (failure CollectionAlreadyExistsError, s)
      else SqlCipherPlugin_openCollectionDatabase env collectionName key True s)"

definition SqlCipherPlugin_removeCollection ::
    "cipher_env \<Rightarrow> qstring \<Rightarrow> SqlCipherPlugin \<Rightarrow> Result \<times> SqlCipherPlugin" where
  "SqlCipherPlugin_removeCollection env collectionName s =
     (let s1 = drop_connection env collectionName s
      in case map_of (sc_databases s1) collectionName of
           None \<Rightarrow> (success, s1)
         | Some d \<Rightarrow>
             let (removed, d1) = engine_ok (d\<lparr>db_answers := sc_answers s1\<rparr>)
             in if removed
                then (success, s1\<lparr>sc_databases := filter (\<lambda>e. fst e \<noteq> collectionName) (sc_databases s1),
                                  sc_answers := db_answers d1\<rparr>)
                else (failure UnknownError, s1\<lparr>sc_answers := db_answers d1\<rparr>))"

definition SqlCipherPlugin_isCollectionLocked ::
    "qstring \<Rightarrow> bool \<Rightarrow> SqlCipherPlugin \<Rightarrow> Result \<times> bool \<times> SqlCipherPlugin" where
  "SqlCipherPlugin_isCollectionLocked collectionName locked s =
     (case connection s collectionName of
        None \<Rightarrow> if file_exists s collectionName then (success, True, s)
                else (failure InvalidCollectionError, locked, s)
      | Some d \<Rightarrow>
          let (prepared, d1) = Database_prepare cq_locked d
          in if \<not> prepared then (failure DatabaseQueryError, locked, put_database collectionName d1 s)
             else let (r, d2) = Database_execute (sql_select (\<lambda>t. ())) d1
                  in (success, r = None, put_database collectionName d2 s))"

definition SqlCipherPlugin_deriveKeyFromCode ::
    "cipher_env \<Rightarrow> qbytes \<Rightarrow> qbytes \<Rightarrow> SqlCipherPlugin \<Rightarrow> Result \<times> qbytes \<times> SqlCipherPlugin" where
  "SqlCipherPlugin_deriveKeyFromCode env authenticationCode salt s =
     (case ce_pbkdf2 env (if authenticationCode = [] then [CHR 0x00] else authenticationCode) salt of
        None \<Rightarrow> (failure SecretsPluginKeyDerivationError, [], s)
      | Some key \<Rightarrow> (success, key, s))"

definition SqlCipherPlugin_setEncryptionKey ::
    "cipher_env \<Rightarrow> qstring \<Rightarrow> qbytes \<Rightarrow> SqlCipherPlugin \<Rightarrow> Result \<times> SqlCipherPlugin" where
  "SqlCipherPlugin_setEncryptionKey env collectionName key s =
     (let s1 = drop_connection env collectionName s
      in if key = [] then (success, s1)
         else SqlCipherPlugin_openCollectionDatabase env collectionName key False s1)"

text \<open>As in the metadata database, the new key takes effect on the file when the transaction is committed.\<close>

definition cipher_rekey :: "qbytes \<Rightarrow> cipher_db \<Rightarrow> Result \<times> cipher_db" where
  "cipher_rekey hexKey d =
     (let (prepared, d1) = Database_prepare (cq_rekey hexKey) d
      in if \<not> prepared then (failure DatabaseQueryError, d1)
         else let (begun, d2) = Database_beginTransaction d1
              in if \<not> begun then (failure DatabaseTransactionError, d2)
                 else let (executed, d3) = engine_ok d2
                      in if \<not> executed then (failure DatabaseQueryError, rollback_db d3)
                         else let (committed, d4) = Database_commitTransaction (d3\<lparr>db_connKey := hexKey\<rparr>)
                              in if \<not> committed then (failure DatabaseTransactionError, rollback_db d4)
                                 else (success, d4\<lparr>db_fileKey := hexKey\<rparr>))"

definition SqlCipherPlugin_reencrypt ::
    "cipher_env \<Rightarrow> qstring \<Rightarrow> qbytes \<Rightarrow> qbytes \<Rightarrow> SqlCipherPlugin \<Rightarrow> Result \<times> SqlCipherPlugin" where
  "SqlCipherPlugin_reencrypt env collectionName oldkey newkey s =
     (let (retn, s1) = SqlCipherPlugin_setEncryptionKey env collectionName oldkey s
      in if \<not> succeeded retn then (retn, s1)
         else case connection s1 collectionName of
                None \<Rightarrow> (failure UnknownError, s1)
              | Some d \<Rightarrow>
                  let hexKey = cipher_key env newkey
                  in if length hexKey \<noteq> 64 then (failure IncorrectAuthenticationCodeError, s1)
                     else let (r, d1) = cipher_rekey hexKey d
                          in (r, put_database collectionName d1 s1))"


subsection \<open>Secrets\<close>

text \<open>
  Operations on a collection start with the lookup of its connection: without one the
  collection is locked or does not exist.
\<close>

definition no_connection :: "SqlCipherPlugin \<Rightarrow> qstring \<Rightarrow> Result" where
  "no_connection s c = (if file_exists s c then failure CollectionIsLockedError else failure InvalidCollectionError)"

definition change_collection ::
    "qstring \<Rightarrow> (cipher_db \<Rightarrow> Result \<times> cipher_db) \<Rightarrow> SqlCipherPlugin \<Rightarrow> Result \<times> SqlCipherPlugin" where
  "change_collection c f s =
     (case connection s c of
        None \<Rightarrow> (no_connection s c, s)
      | Some d \<Rightarrow> let (r, d1) = f d in (r, put_database c d1 s))"

definition read_collection ::
    "qstring \<Rightarrow> 'a \<Rightarrow> (cipher_db \<Rightarrow> Result \<times> 'a \<times> cipher_db) \<Rightarrow> SqlCipherPlugin \<Rightarrow> Result \<times> 'a \<times> SqlCipherPlugin" where
  "read_collection c z f s =
     (case connection s c of
        None \<Rightarrow> (no_connection s c, z, s)
      | Some d \<Rightarrow> let (r, x, d1) = f d in (r, x, put_database c d1 s))"

definition cipher_setSecret :: "qstring \<Rightarrow> qbytes \<Rightarrow> filter_data \<Rightarrow> cipher_db \<Rightarrow> Result \<times> cipher_db" where
  "cipher_setSecret secretName secret filterData d =
     (let (prepared, d1) = Database_prepare cq_selectSecretsCount d
      in if \<not> prepared then (failure DatabaseQueryError, d1)
      else let (begun, d2) = Database_beginTransaction d1
      in if \<not> begun then (failure DatabaseTransactionError, d2)
      else case Database_execute (sql_select (\<lambda>t. length (filter (\<lambda>r. cs_SecretName r = secretName) (ct_Secrets t)))) d2 of
        (None, d3) \<Rightarrow> query_failed d3
      | (Some count, d3) \<Rightarrow>
          let found = count > 0;
              (prepared2, d4) = Database_prepare (if found then cq_updateSecret else cq_insertSecret) d3
          in if \<not> prepared2 then query_failed d4
          else case Database_execute
                (if found then cipher_updateSecret secretName secret else cipher_insertSecret secretName secret) d4 of
            (None, d5) \<Rightarrow> query_failed d5
          | (Some _, d5) \<Rightarrow>
              let (prepared3, d6) = Database_prepare cq_deleteFilterData d5
              in if \<not> prepared3 then query_failed d6
              else case Database_execute (cipher_deleteFilterData secretName) d6 of
                (None, d7) \<Rightarrow> query_failed d7
              | (Some _, d7) \<Rightarrow>
                  let (prepared4, d8) = Database_prepare cq_insertFilterData d7
                  in if \<not> prepared4 then query_failed d8
                  else let (inserted, d9) = run_statements (map (cipher_insertFilterData secretName) filterData) d8
                       in if \<not> inserted then query_failed d9 else commit_result d9)"

definition SqlCipherPlugin_setSecret ::
    "qstring \<Rightarrow> qstring \<Rightarrow> qbytes \<Rightarrow> filter_data \<Rightarrow> SqlCipherPlugin \<Rightarrow> Result \<times> SqlCipherPlugin" where
  "SqlCipherPlugin_setSecret collectionName secretName secret filterData s =
     (if secretName = [] then (failure InvalidSecretError, s)
      else if collectionName = [] then (failure InvalidCollectionError, s)
      else change_collection collectionName (cipher_setSecret secretName secret filterData) s)"

text \<open>As in the SQLite plugin, a filter data query that cannot be prepared leaves the transaction open.\<close>

definition cipher_getSecret ::
    "qstring \<Rightarrow> cipher_db \<Rightarrow> Result \<times> (qbytes \<times> filter_data) option \<times> cipher_db" where
  "cipher_getSecret secretName d =
     (let (prepared, d1) = Database_prepare cq_selectSecret d
      in if \<not> prepared then (failure DatabaseQueryError, None, d1)
      else let (begun, d2) = Database_beginTransaction d1
      in if \<not> begun then (failure DatabaseTransactionError, None, d2)
      else case Database_execute (sql_select (\<lambda>t. find (\<lambda>r. cs_SecretName r = secretName) (ct_Secrets t))) d2 of
        (None, d3) \<Rightarrow> (failure DatabaseQueryError, None, rollback_db d3)
      | (Some None, d3) \<Rightarrow>
          let (r, d4) = commit_result d3
          in if \<not> succeeded r then (r, None, d4) else (failure InvalidSecretError, None, d4)
      | (Some (Some row), d3) \<Rightarrow>
          let (prepared2, d4) = Database_prepare cq_selectSecretFilterData d3
          in if \<not> prepared2 then (failure DatabaseQueryError, None, d4)
          else case Database_execute (sql_select (\<lambda>t. filter (\<lambda>r. cf_SecretName r = secretName) (ct_FilterData t))) d4 of
            (None, d5) \<Rightarrow> (failure DatabaseQueryError, None, rollback_db d5)
          | (Some rows, d5) \<Rightarrow>
              let fd = fold (\<lambda>r. qmap_insert (cf_Field r) (cf_Value r)) rows [];
                  (r, d6) = commit_result d5
              in if \<not> succeeded r then (r, None, d6) else (success, Some (cs_Secret row, fd), d6))"

definition SqlCipherPlugin_getSecret ::
    "qstring \<Rightarrow> qstring \<Rightarrow> SqlCipherPlugin \<Rightarrow> Result \<times> (qbytes \<times> filter_data) option \<times> SqlCipherPlugin" where
  "SqlCipherPlugin_getSecret collectionName secretName s =
     (if secretName = [] then (failure InvalidSecretError, None, s)
      else if collectionName = [] then (failure InvalidCollectionError, None, s)
      else read_collection collectionName None (cipher_getSecret secretName) s)"

definition SqlCipherPlugin_secretNames ::
    "qstring \<Rightarrow> SqlCipherPlugin \<Rightarrow> Result \<times> qstring list \<times> SqlCipherPlugin" where
  "SqlCipherPlugin_secretNames collectionName s =
     (if collectionName = [] then (failure InvalidCollectionError, [], s)
      else read_collection collectionName [] (\<lambda>d.
        let (prepared, d1) = Database_prepare cq_selectSecretNames d
        in if \<not> prepared then (failure DatabaseQueryError, [], d1)
           else case Database_execute (sql_select (\<lambda>t. map cs_SecretName (ct_Secrets t))) d1 of
                  (None, d2) \<Rightarrow> (failure DatabaseQueryError, [], d2)
                | (Some names, d2) \<Rightarrow> (success, names, d2)) s)"

definition cipher_filter_data_map :: "CipherFilterRow list \<Rightarrow> (qstring \<times> filter_data) list" where
  "cipher_filter_data_map rows =
     fold (\<lambda>r m. qmap_insert (cf_SecretName r)
        (qmap_insert (cf_Field r) (cf_Value r) (qmap_value m (cf_SecretName r) [])) m) rows []"

definition SqlCipherPlugin_findSecrets ::
    "cipher_env \<Rightarrow> qstring \<Rightarrow> filter_data \<Rightarrow> FilterOperator \<Rightarrow> SqlCipherPlugin
     \<Rightarrow> Result \<times> (qstring \<times> qstring) list \<times> SqlCipherPlugin" where
  "SqlCipherPlugin_findSecrets env collectionName flt filterOperator s =
     (if collectionName = [] then (failure InvalidCollectionError, [], s)
      else if flt = [] then (failure InvalidFilterError, [], s)
      else read_collection collectionName [] (\<lambda>d.
        let (prepared, d1) = Database_prepare cq_selectFilterData d
        in if \<not> prepared then (failure DatabaseQueryError, [], d1)
        else let (begun, d2) = Database_beginTransaction d1
        in if \<not> begun then (failure DatabaseTransactionError, [], d2)
        else case Database_execute (sql_select ct_FilterData) d2 of
          (None, d3) \<Rightarrow> (failure DatabaseQueryError, [], rollback_db d3)
        | (Some rows, d3) \<Rightarrow>
            let matchingSecretNames = map fst (filter (\<lambda>e.
                  sqlite_matches filterOperator flt (snd e) (filterOperator \<noteq> OperatorOr)) (cipher_filter_data_map rows));
                retn = map (Pair collectionName) (ce_setOrder env matchingSecretNames);
                (r, d4) = commit_result d3
            in if \<not> succeeded r then (r, [], d4) else (success, retn, d4)) s)"

definition cipher_removeSecret :: "qstring \<Rightarrow> cipher_db \<Rightarrow> Result \<times> cipher_db" where
  "cipher_removeSecret secretName d =
     (let (prepared, d1) = Database_prepare cq_deleteSecret d
      in if \<not> prepared then (failure DatabaseQueryError, d1)
      else let (begun, d2) = Database_beginTransaction d1
      in if \<not> begun then (failure DatabaseTransactionError, d2)
      else case Database_execute (cipher_deleteSecret secretName) d2 of
        (None, d3) \<Rightarrow> query_failed d3
      | (Some _, d3) \<Rightarrow> commit_result d3)"

definition SqlCipherPlugin_removeSecret ::
    "qstring \<Rightarrow> qstring \<Rightarrow> SqlCipherPlugin \<Rightarrow> Result \<times> SqlCipherPlugin" where
  "SqlCipherPlugin_removeSecret collectionName secretName s =
     (if secretName = [] then (failure InvalidSecretError, s)
      else if collectionName = [] then (failure InvalidCollectionError, s)
      else change_collection collectionName (cipher_removeSecret secretName) s)"

text \<open>
  The plugin as the daemon sees it. It does not override the lock operations of the base class, and it
  does not support standalone secrets.
\<close>

definition sqlcipher_plugin :: "cipher_env \<Rightarrow> SqlCipherPlugin EncryptedStoragePlugin" where
  "sqlcipher_plugin env =
     \<lparr>pb_supportsLocking = (\<lambda>_. False),
      pb_isAvailable = (\<lambda>_. True),
      pb_isLocked = (\<lambda>_. False),
      pb_lock = (\<lambda>s. (False, s)),
      pb_unlock = (\<lambda>_ s. (False, s)),
      pb_setLockCode = (\<lambda>_ _ s. (False, s)),
      es_collectionNames = SqlCipherPlugin_collectionNames,
      es_createCollection = SqlCipherPlugin_createCollection env,
      es_removeCollection = SqlCipherPlugin_removeCollection env,
      es_isCollectionLocked = SqlCipherPlugin_isCollectionLocked,
      es_deriveKeyFromCode = SqlCipherPlugin_deriveKeyFromCode env,
      es_setEncryptionKey = SqlCipherPlugin_setEncryptionKey env,
      es_reencrypt = SqlCipherPlugin_reencrypt env,
      es_setSecret = SqlCipherPlugin_setSecret,
      es_getSecret = SqlCipherPlugin_getSecret,
      es_secretNames = SqlCipherPlugin_secretNames,
      es_findSecrets = SqlCipherPlugin_findSecrets env,
      es_removeSecret = SqlCipherPlugin_removeSecret,
      es_setStandaloneSecret = (\<lambda>_ _ _ _ s. (failure OperationNotSupportedError, s)),
      es_accessSecret = (\<lambda>_ _ s. (failure OperationNotSupportedError, None, s))\<rparr>"

subsection \<open>The tables of a collection as tables of the SQLite plugin\<close>

abbreviation the_collection :: qstring where
  "the_collection \<equiv> ''c''"

definition embed_secret :: "CipherSecretsRow \<Rightarrow> SqliteSecretsRow" where
  "embed_secret r = \<lparr>q_CollectionName = the_collection, q_SecretName = cs_SecretName r, q_Secret = cs_Secret r\<rparr>"

definition embed_filter :: "CipherFilterRow \<Rightarrow> SqliteFilterRow" where
  "embed_filter r =
     \<lparr>f_CollectionName = the_collection, f_SecretName = cf_SecretName r, f_Field = cf_Field r, f_Value = cf_Value r\<rparr>"

definition embed :: "cipher_tables \<Rightarrow> sqlite_tables" where
  "embed t = \<lparr>st_Collections = [the_collection], st_Secrets = map embed_secret (ct_Secrets t),
              st_FilterData = map embed_filter (ct_FilterData t)\<rparr>"

lemma embed_sel [simp]:
  "st_Collections (embed t) = [the_collection]" "st_Secrets (embed t) = map embed_secret (ct_Secrets t)"
  "st_FilterData (embed t) = map embed_filter (ct_FilterData t)"
  "q_CollectionName (embed_secret r) = the_collection" "q_SecretName (embed_secret r) = cs_SecretName r"
  "q_Secret (embed_secret r) = cs_Secret r" "f_CollectionName (embed_filter e) = the_collection"
  "f_SecretName (embed_filter e) = cf_SecretName e" "f_Field (embed_filter e) = cf_Field e"
  "f_Value (embed_filter e) = cf_Value e"
  by (simp_all add: embed_def embed_secret_def embed_filter_def)

lemma embed_names:
  "(the_collection, n) \<in> q_key ` set (st_Secrets (embed t)) \<longleftrightarrow> n \<in> cs_SecretName ` set (ct_Secrets t)"
  by (auto simp: image_iff)

abbreviation lifted :: "(unit \<times> cipher_tables) option \<Rightarrow> (unit \<times> sqlite_tables) option" where
  "lifted \<equiv> map_option (map_prod (\<lambda>u. u) embed)"

lemma embed_statements:
  "lifted (cipher_insertSecret n x t) = sqlite_insertSecret the_collection n x (embed t)"
  "lifted (cipher_updateSecret n x t) = sqlite_updateSecret the_collection n x (embed t)"
  "lifted (cipher_deleteSecret n t) = sqlite_deleteSecret the_collection n (embed t)"
  "lifted (cipher_deleteFilterData n t) = sqlite_deleteFilterData the_collection n (embed t)"
  "lifted (cipher_insertFilterData n e t) = sqlite_insertFilterData the_collection n e (embed t)"
proof -
  show "lifted (cipher_insertSecret n x t) = sqlite_insertSecret the_collection n x (embed t)"
    by (auto simp: cipher_insertSecret_def sqlite_insertSecret_def embed_def embed_secret_def image_iff)
  show "lifted (cipher_updateSecret n x t) = sqlite_updateSecret the_collection n x (embed t)"
    by (auto simp: cipher_updateSecret_def sqlite_updateSecret_def embed_def embed_secret_def)
  show "lifted (cipher_deleteSecret n t) = sqlite_deleteSecret the_collection n (embed t)"
    by (auto simp: cipher_deleteSecret_def sqlite_deleteSecret_def embed_def embed_secret_def embed_filter_def
        image_iff filter_map comp_def)
  show "lifted (cipher_deleteFilterData n t) = sqlite_deleteFilterData the_collection n (embed t)"
    by (simp add: cipher_deleteFilterData_def sqlite_deleteFilterData_def embed_def filter_map comp_def)
  show "lifted (cipher_insertFilterData n e t) = sqlite_insertFilterData the_collection n e (embed t)"
    by (auto simp: cipher_insertFilterData_def sqlite_insertFilterData_def embed_def embed_secret_def
        embed_filter_def image_iff)
qed

definition cipher_stored :: "cipher_tables \<Rightarrow> qstring \<rightharpoonup> qbytes \<times> filter_data" where
  "cipher_stored t n =
     map_option (\<lambda>r. (cs_Secret r,
         fold (\<lambda>r. qmap_insert (cf_Field r) (cf_Value r)) (filter (\<lambda>r. cf_SecretName r = n) (ct_FilterData t)) []))
       (find (\<lambda>r. cs_SecretName r = n) (ct_Secrets t))"

definition cipher_wf :: "cipher_tables \<Rightarrow> bool" where
  "cipher_wf t \<longleftrightarrow>
     distinct (map cs_SecretName (ct_Secrets t))
     \<and> distinct (map (\<lambda>r. (cf_SecretName r, cf_Field r)) (ct_FilterData t))
     \<and> set (map cf_SecretName (ct_FilterData t)) \<subseteq> set (map cs_SecretName (ct_Secrets t))"

lemma find_embed: "find P (map f xs) = map_option f (find (\<lambda>x. P (f x)) xs)"
  by (induction xs) auto

lemma cipher_stored_embed: "cipher_stored t n = tables_stored (embed t) (the_collection, n)"
  by (simp add: cipher_stored_def tables_stored_def filter_data_of_def find_embed filter_map comp_def fold_map
      option.map_comp)

lemma cipher_wf_embed: "cipher_wf t \<longleftrightarrow> sqlite_wf (embed t)"
proof -
  have "distinct (map q_key (st_Secrets (embed t))) = distinct (map cs_SecretName (ct_Secrets t))"
    by (simp add: distinct_map comp_def inj_on_def)
  moreover have "distinct (map field_key (st_FilterData (embed t)))
      = distinct (map (\<lambda>r. (cf_SecretName r, cf_Field r)) (ct_FilterData t))"
    by (simp add: distinct_map comp_def inj_on_def)
  moreover have "\<not> hidden the_collection" by (simp add: hidden_def same_ignoring_case_def standalone_def)
  ultimately show ?thesis
    unfolding cipher_wf_def sqlite_wf_def by (auto simp: image_iff subset_iff)
qed

subsection \<open>The outcome of the operations on an open collection\<close>

definition cipher_set_tables :: "qstring \<Rightarrow> qbytes \<Rightarrow> filter_data \<Rightarrow> cipher_tables \<Rightarrow> cipher_tables option" where
  "cipher_set_tables n x fd t =
     (case (if n \<in> cs_SecretName ` set (ct_Secrets t) then cipher_updateSecret n x else cipher_insertSecret n x) t of
        None \<Rightarrow> None
      | Some (_, t1) \<Rightarrow>
          (case cipher_deleteFilterData n t1 of
             None \<Rightarrow> None
           | Some (_, t2) \<Rightarrow> apply_statements (map (cipher_insertFilterData n) fd) t2))"

lemma apply_statements_embed:
  "map_option embed (apply_statements (map (cipher_insertFilterData n) fd) t)
   = apply_statements (map (sqlite_insertFilterData the_collection n) fd) (embed t)"
proof (induction fd arbitrary: t)
  case (Cons e fd)
  show ?case
    by (cases "cipher_insertFilterData n e t")
      (use embed_statements(5) [of n e t, symmetric] Cons.IH in \<open>auto split: prod.splits\<close>)
qed simp

lemma cipher_set_tables_embed:
  "map_option embed (cipher_set_tables n x fd t) = set_secret_tables the_collection n x fd (embed t)"
proof -
  let ?f = "if n \<in> cs_SecretName ` set (ct_Secrets t) then cipher_updateSecret n x else cipher_insertSecret n x"
  have w: "lifted (?f t) = write_secret the_collection n x (embed t)"
    by (simp only: write_secret_def embed_names embed_statements if_distrib [of "\<lambda>f. f t"] if_distrib [of lifted])
  show ?thesis
  proof (cases "?f t")
    case None
    with w show ?thesis by (simp add: cipher_set_tables_def set_secret_tables_def)
  next
    case (Some p)
    then obtain t1 where p: "?f t = Some ((), t1)" by (cases p) auto
    with w have w1: "write_secret the_collection n x (embed t) = Some ((), embed t1)" by simp
    obtain t2 where t2: "cipher_deleteFilterData n t1 = Some ((), t2)" by (simp add: cipher_deleteFilterData_def)
    with embed_statements(4) [of n t1]
    have d: "sqlite_deleteFilterData the_collection n (embed t1) = Some ((), embed t2)" by simp
    show ?thesis by (simp add: cipher_set_tables_def set_secret_tables_def p w1 t2 d apply_statements_embed)
  qed
qed

lemma cipher_set_tables_effect:
  assumes "cipher_set_tables n x fd t = Some t'" and "cipher_wf t" and "qmap_ok fd"
  shows "cipher_stored t' = (cipher_stored t)(n \<mapsto> (x, fd))" and "cipher_wf t'"
proof -
  have e: "set_secret_tables the_collection n x fd (embed t) = Some (embed t')"
    using cipher_set_tables_embed [of n x fd t] assms(1) by simp
  note f = set_secret_tables_effect [OF e assms(2) [unfolded cipher_wf_embed] assms(3)]
  show "cipher_wf t'" using f(3) by (simp add: cipher_wf_embed)
  show "cipher_stored t' = (cipher_stored t)(n \<mapsto> (x, fd))"
    by (rule ext) (simp add: cipher_stored_embed f(2))
qed

lemma cipher_set_tables_total:
  assumes "cipher_wf t" and "qmap_ok fd"
  shows "cipher_set_tables n x fd t \<noteq> None"
proof -
  have "set_secret_tables the_collection n x fd (embed t) \<noteq> None"
    by (rule set_secret_tables_total) (use assms cipher_wf_embed in simp_all)
  then show ?thesis using cipher_set_tables_embed [of n x fd t] by auto
qed

lemma cipher_deleteSecret_effect:
  assumes "cipher_deleteSecret n t = Some (u, t')" and "cipher_wf t"
  shows "cipher_stored t' = (cipher_stored t)(n := None)" and "cipher_wf t'"
proof -
  have e: "sqlite_deleteSecret the_collection n (embed t) = Some ((), embed t')"
    using embed_statements(3) [of n t] assms(1) by simp
  note f = sqlite_deleteSecret_effect [OF e assms(2) [unfolded cipher_wf_embed]]
  show "cipher_wf t'" using f(3) by (simp add: cipher_wf_embed)
  show "cipher_stored t' = (cipher_stored t)(n := None)"
    by (rule ext) (simp add: cipher_stored_embed f(2))
qed

lemma cipher_count: "0 < length (filter (\<lambda>r. cs_SecretName r = n) xs) \<longleftrightarrow> n \<in> cs_SecretName ` set xs"
  by (force simp: filter_empty_conv)

lemma cipher_setSecret_outcome:
  assumes "idle d" and "db_file d = Some t" and "er \<longrightarrow> engine_ready d"
  shows "outcome er t (\<lambda>t'. cipher_set_tables n x fd t = Some t')
    (\<lambda>r. cipher_set_tables n x fd t = None \<and> r = failure DatabaseQueryError) (cipher_setSecret n x fd d)"
  unfolding cipher_setSecret_def Let_def
  using assms
  apply -
  apply (rule outcome_begin, assumption, assumption, assumption)
  apply (rule outcome_execute, assumption)
  subgoal for d1 c t1 d2
    apply (clarsimp simp only: sql_select_def option.inject prod.inject cipher_count)
    apply (rule outcome_prepare, assumption)
    apply (rule outcome_execute, assumption)
     apply (rule outcome_prepare, assumption)
     apply (rule outcome_execute, assumption)
      apply (rule outcome_prepare, assumption)
      apply (rule outcome_statements, assumption)
       apply (rule outcome_commit, assumption)
    by (simp_all add: cipher_set_tables_def)
  apply (simp add: sql_select_def)
  done

lemma cipher_removeSecret_outcome:
  assumes "idle d" and "db_file d = Some t" and "er \<longrightarrow> engine_ready d"
  shows "outcome er t (\<lambda>t'. cipher_deleteSecret n t = Some ((), t')) (\<lambda>_. False) (cipher_removeSecret n d)"
  unfolding cipher_removeSecret_def Let_def
  using assms
  apply -
  apply (rule outcome_begin, assumption, assumption, assumption)
  apply (rule outcome_execute, assumption)
   apply (rule outcome_commit, assumption, simp)
  apply (simp add: cipher_deleteSecret_def)
  done

lemma cipher_getSecret_outcome:
  assumes "idle d" and "db_file d = Some t" and "er \<longrightarrow> engine_ready d"
  shows "read_outcome er t (\<lambda>y. y = cipher_stored t n \<and> y \<noteq> None)
    (\<lambda>r. cipher_stored t n = None \<and> r = failure InvalidSecretError) (cipher_getSecret n d)"
proof (cases "find (\<lambda>r. cs_SecretName r = n) (ct_Secrets t)")
  case None
  then have s: "cipher_stored t n = None" by (simp add: cipher_stored_def)
  show ?thesis
    unfolding cipher_getSecret_def Let_def
    using assms
    apply -
    apply (rule read_begin, assumption, assumption, assumption)
    apply (rule read_execute, assumption)
    unfolding None option.case
    apply (rule read_commit, assumption)
    by (simp_all add: s)
next
  case (Some row)
  then have s: "cipher_stored t n = Some (cs_Secret row,
      fold (\<lambda>r. qmap_insert (cf_Field r) (cf_Value r)) (filter (\<lambda>r. cf_SecretName r = n) (ct_FilterData t)) [])"
    by (simp add: cipher_stored_def)
  show ?thesis
    unfolding cipher_getSecret_def Let_def
    using assms
    apply -
    apply (rule read_begin, assumption, assumption, assumption)
    apply (rule read_execute, assumption)
    unfolding Some option.case
    apply (rule read_prepare_leaky, assumption)
    apply (rule read_execute, assumption)
    apply (rule read_commit, assumption)
    by (simp_all add: s)
qed

subsection \<open>What the plugin stores\<close>

text \<open>
  \<open>file_ready\<close>: the file exists at the current schema version and its tables satisfy the schema, no transaction is open, and a connection
  to the file has the file's key.
\<close>

definition file_ready :: "cipher_db \<Rightarrow> bool" where
  "file_ready d \<longleftrightarrow>
     (case db_file d of None \<Rightarrow> False | Some t \<Rightarrow> cipher_wf t)
     \<and> db_userVersion d = 1 \<and> db_work d = None \<and> db_semaphore d = 0
     \<and> (db_isOpen d \<longrightarrow> db_connKey d = db_fileKey d)"

definition sc_ready :: "SqlCipherPlugin \<Rightarrow> bool" where
  "sc_ready s \<longleftrightarrow> qmap_ok (sc_databases s) \<and> list_all (\<lambda>e. file_ready (snd e)) (sc_databases s)"

definition sc_collections :: "SqlCipherPlugin \<Rightarrow> qstring set" where
  "sc_collections s = fst ` set (sc_databases s)"

definition sc_unlocked :: "SqlCipherPlugin \<Rightarrow> qstring set" where
  "sc_unlocked s = {c \<in> sc_collections s. connection s c \<noteq> None}"

definition sc_stored :: "SqlCipherPlugin \<Rightarrow> qstring \<times> qstring \<rightharpoonup> qbytes \<times> filter_data" where
  "sc_stored s i =
     (case map_of (sc_databases s) (fst i) of
        None \<Rightarrow> None
      | Some d \<Rightarrow> (case db_file d of None \<Rightarrow> None | Some t \<Rightarrow> cipher_stored t (snd i)))"

definition sc_key :: "SqlCipherPlugin \<Rightarrow> qstring \<rightharpoonup> qbytes" where
  "sc_key s c = map_option db_fileKey (map_of (sc_databases s) c)"

lemma file_readyE:
  assumes "file_ready d"
  obtains t where "db_file d = Some t" and "cipher_wf t" and "db_userVersion d = 1"
  using assms by (auto simp: file_ready_def split: option.splits)

lemma file_ready_idle: "file_ready d \<Longrightarrow> db_isOpen d \<Longrightarrow> idle d"
  by (auto simp: file_ready_def idle_def db_readable_def split: option.splits)

lemma idle_file_ready:
  "idle d \<Longrightarrow> db_file d = Some t \<Longrightarrow> cipher_wf t \<Longrightarrow> db_userVersion d = 1 \<Longrightarrow> file_ready d"
  by (simp add: file_ready_def idle_def db_readable_def)

lemma file_ready_closed:
  assumes "db_file d = Some t" and "cipher_wf t" and "db_userVersion d = 1"
  shows "file_ready (new_connection env d)"
  using assms by (simp add: file_ready_def new_connection_def)

lemma answers_update [simp]:
  "file_ready (d\<lparr>db_answers := as\<rparr>) = file_ready d" "idle (d\<lparr>db_answers := as\<rparr>) = idle d"
  by (simp_all add: file_ready_def idle_def)

lemma in_collections: "c \<in> sc_collections s \<longleftrightarrow> map_of (sc_databases s) c \<noteq> None"
  by (simp add: sc_collections_def map_of_eq_None_iff)

lemma in_unlocked: "c \<in> sc_unlocked s \<longleftrightarrow> (\<exists>d. map_of (sc_databases s) c = Some d \<and> db_isOpen d)"
  unfolding sc_unlocked_def in_collections connection_def by (auto split: option.splits)

lemma connection_unlocked: "connection s c \<noteq> None \<longleftrightarrow> c \<in> sc_unlocked s"
  unfolding in_unlocked by (auto simp: connection_def split: option.splits)

lemma sc_ready_file:
  assumes "sc_ready s" and "map_of (sc_databases s) c = Some d"
  shows "file_ready d"
  using assms map_of_SomeD [of "sc_databases s" c d] by (auto simp: sc_ready_def list_all_iff)

lemma sc_connectionE:
  assumes "sc_ready s" and "connection s c = Some d"
  obtains t where "idle d" and "db_file d = Some t" and "cipher_wf t" and "db_answers d = sc_answers s"
    and "map_of (sc_databases s) c \<noteq> None" and "c \<in> sc_unlocked s" and "\<And>n. sc_stored s (c, n) = cipher_stored t n"
    and "sc_key s c = Some (db_fileKey d)" and "db_userVersion d = 1"
proof -
  from assms(2) obtain e where e: "map_of (sc_databases s) c = Some e" "db_isOpen e" "d = e\<lparr>db_answers := sc_answers s\<rparr>"
    by (auto simp: connection_def split: option.splits if_splits)
  note f = sc_ready_file [OF assms(1) e(1)]
  from f obtain t where "db_file e = Some t" "cipher_wf t" "db_userVersion e = 1" by (rule file_readyE)
  with e file_ready_idle [OF f e(2)] assms(2) connection_unlocked [of s c]
  show ?thesis by (intro that [of t]) (auto simp: sc_stored_def sc_key_def)
qed

subsection \<open>Writing a connection back\<close>

lemma databases_put: "sc_databases (put_database c d s) = qmap_insert c (d\<lparr>db_answers := []\<rparr>) (sc_databases s)"
  by (simp add: put_database_def)

lemma answers_put [simp]: "sc_answers (put_database c d s) = db_answers d"
  by (simp add: put_database_def)

lemma list_all_qmap_insert:
  "list_all (\<lambda>e. P (snd e)) m \<Longrightarrow> P v \<Longrightarrow> list_all (\<lambda>e. P (snd e)) (qmap_insert k v m)"
  by (induction k v m rule: qmap_insert.induct) auto

lemma put_ready [intro]: "sc_ready s \<Longrightarrow> file_ready d \<Longrightarrow> sc_ready (put_database c d s)"
  by (simp add: sc_ready_def databases_put list_all_qmap_insert)

lemma put_views:
  "sc_collections (put_database c d s) = insert c (sc_collections s)"
  "sc_unlocked (put_database c d s) = (if db_isOpen d then insert c (sc_unlocked s) else sc_unlocked s - {c})"
  "sc_key (put_database c d s) = (sc_key s)(c \<mapsto> db_fileKey d)"
  "db_file d = Some t \<Longrightarrow> sc_stored (put_database c d s) i = (if fst i = c then cipher_stored t (snd i) else sc_stored s i)"
proof -
  show "sc_collections (put_database c d s) = insert c (sc_collections s)"
    by (simp add: sc_collections_def databases_put)
  show "sc_unlocked (put_database c d s) = (if db_isOpen d then insert c (sc_unlocked s) else sc_unlocked s - {c})"
    by (intro set_eqI) (simp add: in_unlocked databases_put)
  show "sc_key (put_database c d s) = (sc_key s)(c \<mapsto> db_fileKey d)"
    by (rule ext) (simp add: sc_key_def databases_put)
  show "sc_stored (put_database c d s) i = (if fst i = c then cipher_stored t (snd i) else sc_stored s i)"
    if "db_file d = Some t" using that by (simp add: sc_stored_def databases_put)
qed

lemma answers_views [simp]:
  "sc_ready (s\<lparr>sc_answers := as\<rparr>) = sc_ready s" "sc_collections (s\<lparr>sc_answers := as\<rparr>) = sc_collections s"
  "sc_unlocked (s\<lparr>sc_answers := as\<rparr>) = sc_unlocked s" "sc_stored (s\<lparr>sc_answers := as\<rparr>) = sc_stored s"
  "sc_key (s\<lparr>sc_answers := as\<rparr>) = sc_key s"
  by (simp_all add: sc_ready_def sc_collections_def set_eq_iff in_unlocked sc_stored_def sc_key_def fun_eq_iff)

lemma put_same_stored:
  assumes "db_file d = Some t" and "\<And>n. sc_stored s (c, n) = cipher_stored t n"
  shows "sc_stored (put_database c d s) = sc_stored s"
proof (rule ext)
  fix i show "sc_stored (put_database c d s) i = sc_stored s i"
    using assms by (cases i) (simp add: put_views(4))
qed

text \<open>
  \<open>same_contents\<close>: the collections, their secrets and their keys are the same.
\<close>

definition same_contents :: "SqlCipherPlugin \<Rightarrow> SqlCipherPlugin \<Rightarrow> bool" where
  "same_contents s s' \<longleftrightarrow>
     sc_collections s' = sc_collections s \<and> sc_stored s' = sc_stored s \<and> sc_key s' = sc_key s"

lemma same_contents_refl [simp]: "same_contents s s"
  by (simp add: same_contents_def)

lemma same_contents_answers [simp]: "same_contents s (s'\<lparr>sc_answers := as\<rparr>) = same_contents s s'"
  by (simp add: same_contents_def)

lemma same_contents_trans: "same_contents s s' \<Longrightarrow> same_contents s' s'' \<Longrightarrow> same_contents s s''"
  by (simp add: same_contents_def)

lemma put_same_contents:
  assumes "db_file d = Some t" and "\<And>n. sc_stored s (c, n) = cipher_stored t n" and "sc_key s c = Some (db_fileKey d)"
  shows "same_contents s (put_database c d s)"
proof -
  have "c \<in> sc_collections s" using assms(3) by (auto simp: sc_key_def in_collections)
  then show ?thesis
    using put_same_stored [OF assms(1,2)] assms(3) by (auto simp: same_contents_def put_views)
qed

subsection \<open>Opening and closing a collection\<close>

lemma drop_connection_effect:
  assumes "sc_ready s"
  shows "sc_ready (drop_connection env c s)" "same_contents s (drop_connection env c s)"
    "sc_unlocked (drop_connection env c s) = sc_unlocked s - {c}"
    "sc_answers (drop_connection env c s) = sc_answers s"
proof -
  have "sc_ready (drop_connection env c s) \<and> same_contents s (drop_connection env c s)
    \<and> sc_unlocked (drop_connection env c s) = sc_unlocked s - {c} \<and> sc_answers (drop_connection env c s) = sc_answers s"
  proof (cases "connection s c")
    case None
    then have "c \<notin> sc_unlocked s" using connection_unlocked [of s c] by auto
    with None assms show ?thesis by (simp add: drop_connection_def)
  next
    case (Some d)
    from sc_connectionE [OF assms Some] obtain t where
      t: "db_file d = Some t" "cipher_wf t" "\<And>n. sc_stored s (c, n) = cipher_stored t n" "db_answers d = sc_answers s"
        "sc_key s c = Some (db_fileKey d)" "db_userVersion d = 1" by blast
    let ?d = "new_connection env (Database_close d)"
    have d: "db_file ?d = Some t" "\<not> db_isOpen ?d" "db_answers ?d = sc_answers s" "db_fileKey ?d = db_fileKey d"
      using t(1,4) by (simp_all add: new_connection_def Database_close_def)
    have "file_ready ?d"
      by (rule file_ready_closed [OF _ t(2)]) (simp_all add: Database_close_def t)
    moreover have "same_contents s (put_database c ?d s)"
      by (rule put_same_contents [OF d(1) t(3)]) (simp add: d(4) t(5))
    moreover have "drop_connection env c s = put_database c ?d s" by (simp add: drop_connection_def Some)
    ultimately show ?thesis using put_ready [OF assms] d(2,3) by (simp add: put_views(2))
  qed
  then show "sc_ready (drop_connection env c s)" "same_contents s (drop_connection env c s)"
    "sc_unlocked (drop_connection env c s) = sc_unlocked s - {c}"
    "sc_answers (drop_connection env c s) = sc_answers s" by simp_all
qed


lemma cipher_empty_wf: "cipher_wf cipher_empty" "cipher_stored cipher_empty n = None"
  by (simp_all add: cipher_wf_def cipher_empty_def cipher_stored_def)

lemma openCollectionDatabase_existing:
  assumes "sc_ready s" and "SqlCipherPlugin_openCollectionDatabase env c key create s = (r, s')" and "file_exists s c"
  shows "sc_ready s'" "same_contents s s'"
    "succeeded r \<Longrightarrow> sc_key s c = Some (cipher_key env key) \<and> sc_unlocked s' = insert c (sc_unlocked s)"
    "\<not> succeeded r \<Longrightarrow> sc_unlocked s' = sc_unlocked s"
proof -
  obtain d where d: "map_of (sc_databases s) c = Some d"
    using assms(3) by (auto simp: file_exists_def qmap_contains_def)
  obtain t where t: "db_file d = Some t" "cipher_wf t" "db_userVersion d = 1"
    using sc_ready_file [OF assms(1) d] by (rule file_readyE)
  let ?key = "cipher_key env key" and ?d = "(new_connection env d)\<lparr>db_answers := sc_answers s\<rparr>"
  obtain ok d1 where o: "Database_open ?key 6 2 cipher_empty [] 1 ?d = (ok, d1)"
    by (cases "Database_open ?key 6 2 cipher_empty [] 1 ?d")
  have nd: "db_file ?d = Some t" "\<not> db_isOpen ?d" "db_fileKey ?d = db_fileKey d" "db_semaphore ?d = 0"
    using t by (simp_all add: new_connection_def)
  note e = open_existing [OF o nd(1,2)]
  have ver: "db_userVersion d1 = 1"
    by (rule open_existing_version [OF o nd(1)]) (simp add: new_connection_def t)
  have k: "sc_key s c = Some (db_fileKey d)" by (simp add: sc_key_def d)
  have st: "sc_stored s (c, n) = cipher_stored t n" for n by (simp add: sc_stored_def d t)
  have nc: "file_ready (new_connection env d1)" "db_file (new_connection env d1) = Some t"
    "db_fileKey (new_connection env d1) = db_fileKey d" "\<not> db_isOpen (new_connection env d1)"
    using file_ready_closed [OF e(1) t(2) ver] e nd by (simp_all add: new_connection_def)
  have fails: "sc_ready s1 \<and> same_contents s s1 \<and> sc_unlocked s1 = sc_unlocked s"
    if "c \<notin> sc_unlocked s" "s1 = put_database c (new_connection env d1) s" for s1
    using put_ready [OF assms(1) nc(1)] put_same_contents [OF nc(2) st, unfolded nc(3), OF k] nc(4) that
    by (simp add: put_views(2))
  have opens: "sc_ready s1 \<and> same_contents s s1 \<and> sc_unlocked s1 = insert c (sc_unlocked s) \<and> ?key = db_fileKey d"
    if "ok" "s1 = put_database c d1 s" for s1
  proof -
    have "idle d1" using that(1) e nd by (simp add: idle_def db_readable_def)
    from idle_file_ready [OF this e(1) t(2) ver] have f: "file_ready d1" .
    show ?thesis using put_ready [OF assms(1) f] put_same_contents [OF e(1) st, unfolded e(2) nd(3), OF k] e(4,5) that nd(3)
      by (simp add: put_views(2))
  qed
  have v: "qmap_value (sc_databases s) c no_file = d" by (simp add: qmap_value_def d)
  have all: "sc_ready s' \<and> same_contents s s'
    \<and> (if succeeded r then sc_key s c = Some ?key \<and> sc_unlocked s' = insert c (sc_unlocked s)
       else sc_unlocked s' = sc_unlocked s)"
  proof (cases "length ?key = 64 \<and> connection s c = None")
    case False
    with assms(2) have "\<not> succeeded r \<and> s' = s"
      by (simp only: SqlCipherPlugin_openCollectionDatabase_def Let_def de_Morgan_conj assms(3) simp_thms)
        (auto split: if_splits)
    with assms(1) show ?thesis by simp
  next
    case True
    then have "c \<notin> sc_unlocked s" using connection_unlocked [of s c] by simp
    moreover have r: "succeeded r \<longleftrightarrow> ok"
      and s': "s' = put_database c (if ok then d1 else new_connection env d1) s"
      using assms(2,3) True o v
      by (auto simp: SqlCipherPlugin_openCollectionDatabase_def Let_def split: if_splits)
    ultimately show ?thesis
      using fails [of s'] opens [of s'] by (cases ok) (simp_all add: k)
  qed
  then show "sc_ready s'" "same_contents s s'"
    "succeeded r \<Longrightarrow> sc_key s c = Some (cipher_key env key) \<and> sc_unlocked s' = insert c (sc_unlocked s)"
    "\<not> succeeded r \<Longrightarrow> sc_unlocked s' = sc_unlocked s" by simp_all
qed

lemma openCollectionDatabase_new:
  assumes "sc_ready s" and "SqlCipherPlugin_openCollectionDatabase env c key create s = (r, s')" and "\<not> file_exists s c"
  shows "succeeded r \<Longrightarrow> sc_ready s' \<and> sc_collections s' = insert c (sc_collections s) \<and> sc_stored s' = sc_stored s
      \<and> sc_key s' = (sc_key s)(c \<mapsto> cipher_key env key) \<and> sc_unlocked s' = insert c (sc_unlocked s)"
    "\<not> succeeded r \<Longrightarrow> sc_ready s' \<and> same_contents s s' \<and> sc_unlocked s' = sc_unlocked s"
proof -
  have n: "map_of (sc_databases s) c = None" using assms(3) by (simp add: file_exists_def qmap_contains_def)
  let ?key = "cipher_key env key" and ?d = "(new_connection env no_file)\<lparr>db_answers := sc_answers s\<rparr>"
  obtain ok d1 where o: "Database_open ?key 6 2 cipher_empty [] 1 ?d = (ok, d1)"
    by (cases "Database_open ?key 6 2 cipher_empty [] 1 ?d")
  have nd: "db_file ?d = None" "db_work ?d = None" "db_semaphore ?d = 0" by (simp_all add: new_connection_def no_file_def)
  have v: "qmap_value (sc_databases s) c no_file = no_file" by (simp add: qmap_value_def n)
  have r: "succeeded r \<longleftrightarrow> length ?key = 64 \<and> create \<and> connection s c = None \<and> ok"
    and s': "s' = (if length ?key = 64 \<and> create \<and> connection s c = None
      then (if ok then put_database c d1 s else s\<lparr>sc_answers := db_answers d1\<rparr>) else s)"
    using assms(2,3) o v by (auto simp: SqlCipherPlugin_openCollectionDatabase_def Let_def split: if_splits)
  show "sc_ready s' \<and> sc_collections s' = insert c (sc_collections s) \<and> sc_stored s' = sc_stored s
      \<and> sc_key s' = (sc_key s)(c \<mapsto> cipher_key env key) \<and> sc_unlocked s' = insert c (sc_unlocked s)"
    if "succeeded r"
  proof -
    have ok: "ok" and s1: "s' = put_database c d1 s" using that r s' by auto
    note e = open_new [OF o [unfolded eqTrueI [OF ok]] nd]
    have "db_isOpen d1" using e(1) by (simp add: idle_def db_readable_def)
    moreover have "sc_stored (put_database c d1 s) = sc_stored s"
      by (rule put_same_stored [OF e(2)]) (simp add: sc_stored_def n cipher_empty_wf)
    ultimately show ?thesis
      unfolding s1 using put_ready [OF assms(1) idle_file_ready [OF e(1,2) cipher_empty_wf(1) e(4)]] e(3) by (simp add: put_views)
  qed
  show "sc_ready s' \<and> same_contents s s' \<and> sc_unlocked s' = sc_unlocked s" if "\<not> succeeded r"
    using that r s' assms(1) by auto
qed

subsection \<open>The connection an operation leaves behind\<close>

definition conn_keys :: "('q, 't) database \<Rightarrow> bool \<times> qbytes \<times> qbytes \<times> nat" where
  "conn_keys d = (db_isOpen d, db_connKey d, db_fileKey d, db_userVersion d)"

lemma conn_keys_steps:
  "Database_prepare q d = (p, d') \<Longrightarrow> conn_keys d' = conn_keys d"
  "Database_beginTransaction d = (b, d') \<Longrightarrow> conn_keys d' = conn_keys d"
  "Database_execute f d = (x, d') \<Longrightarrow> conn_keys d' = conn_keys d"
  "conn_keys (rollback_db d) = conn_keys d"
  "commit_result d = (r, d') \<Longrightarrow> conn_keys d' = conn_keys d"
proof -
  show "Database_prepare q d = (p, d') \<Longrightarrow> conn_keys d' = conn_keys d"
    by (auto simp: Database_prepare_def conn_keys_def split: if_splits)
  show "Database_beginTransaction d = (b, d') \<Longrightarrow> conn_keys d' = conn_keys d"
    by (auto simp: Database_beginTransaction_def sql_begin_def Let_def conn_keys_def split: if_splits)
  show "Database_execute f d = (x, d') \<Longrightarrow> conn_keys d' = conn_keys d"
    by (auto simp: Database_execute_def db_write_def conn_keys_def split: if_splits option.splits answer.splits)
  show r: "conn_keys (rollback_db d) = conn_keys d" for d :: "('q, 't) database"
    by (auto simp: Database_rollbackTransaction_def sql_rollback_def Let_def conn_keys_def split: answer.splits)
  have c: "conn_keys (snd (Database_commitTransaction d)) = conn_keys d"
    by (auto simp: Database_commitTransaction_def sql_commit_def Let_def conn_keys_def split: option.splits answer.splits)
  show "conn_keys d' = conn_keys d" if "commit_result d = (r, d')"
    using that c by (cases "Database_commitTransaction d") (auto simp: commit_result_def r split: if_splits)
qed

lemma conn_keys_query_failed: "query_failed d = (r, d') \<Longrightarrow> conn_keys d' = conn_keys d"
  by (auto simp: query_failed_def conn_keys_steps(4))

lemma conn_keys_statements: "run_statements fs d = (ok, d') \<Longrightarrow> conn_keys d' = conn_keys d"
proof (induction fs arbitrary: d)
  case (Cons f fs)
  then show ?case using conn_keys_steps(3) by (fastforce split: prod.splits option.splits)
qed simp

lemmas conn_keys_rules = conn_keys_steps(1,2,3,5) conn_keys_query_failed conn_keys_statements

lemma cipher_setSecret_keys:
  assumes "cipher_setSecret n x fd d = (r, d')"
  shows "conn_keys d' = conn_keys d"
  using assms unfolding cipher_setSecret_def Let_def
  by (auto split: prod.splits if_splits option.splits dest!: conn_keys_rules)

lemma cipher_removeSecret_keys:
  assumes "cipher_removeSecret n d = (r, d')"
  shows "conn_keys d' = conn_keys d"
  using assms unfolding cipher_removeSecret_def Let_def
  by (auto split: prod.splits if_splits option.splits dest!: conn_keys_rules)

lemma cipher_getSecret_keys:
  assumes "cipher_getSecret n d = (r, y, d')"
  shows "conn_keys d' = conn_keys d"
  using assms unfolding cipher_getSecret_def Let_def
  by (auto simp: conn_keys_steps(4) split: prod.splits if_splits option.splits dest!: conn_keys_rules)

subsection \<open>Operations on an unlocked collection\<close>

lemma unlocked_in_collections: "sc_unlocked s \<subseteq> sc_collections s"
  by (auto simp: sc_unlocked_def)

lemma keys_put:
  assumes "sc_ready s" and "connection s c = Some d" and "conn_keys d' = conn_keys d"
  shows "sc_unlocked (put_database c d' s) = sc_unlocked s" "sc_key (put_database c d' s) = sc_key s"
    "sc_collections (put_database c d' s) = sc_collections s"
proof -
  from sc_connectionE [OF assms(1,2)] have a: "c \<in> sc_unlocked s" "sc_key s c = Some (db_fileKey d)" "db_isOpen d"
    by (metis, metis, metis idle_def db_readable_def)
  have k: "db_isOpen d'" "db_fileKey d' = db_fileKey d" using assms(3) a(3) by (simp_all add: conn_keys_def)
  have "c \<in> sc_collections s" using a(1) unlocked_in_collections by blast
  with a(1,2) k show "sc_unlocked (put_database c d' s) = sc_unlocked s" "sc_key (put_database c d' s) = sc_key s"
    "sc_collections (put_database c d' s) = sc_collections s"
    by (auto simp: put_views insert_absorb)
qed

text \<open>An operation on the connection of a collection that fails changes nothing; one that succeeds changes one secret.\<close>

lemma change_collection_cases:
  assumes "sc_ready s" and "change_collection c f s = (r, s')"
  obtains (none) "\<not> succeeded r" and "s' = s"
  | (some) d t d' where "connection s c = Some d" and "idle d" and "db_file d = Some t" and "cipher_wf t"
      and "c \<in> sc_unlocked s" and "\<And>n. sc_stored s (c, n) = cipher_stored t n" and "db_userVersion d = 1"
      and "f d = (r, d')" and "s' = put_database c d' s"
proof (cases "connection s c")
  case None
  with assms(2) show ?thesis by (intro none) (auto simp: change_collection_def no_connection_def split: if_splits)
next
  case (Some d)
  obtain d' where d': "f d = (r, d')" "s' = put_database c d' s"
    using assms(2) Some by (auto simp: change_collection_def split: prod.splits)
  show ?thesis by (rule sc_connectionE [OF assms(1) Some], rule some [OF Some _ _ _ _ _ _ d'])
qed

lemma change_collection_fails:
  assumes "sc_ready s" and "change_collection c f s = (r, s')"
    and "\<And>d t. idle d \<Longrightarrow> db_file d = Some t \<Longrightarrow> outcome False t (P t) (E t) (f d)"
    and "\<And>d r d'. f d = (r, d') \<Longrightarrow> conn_keys d' = conn_keys d" and "\<not> succeeded r"
  shows "same_contents s s' \<and> sc_unlocked s' = sc_unlocked s"
  using assms(1,2)
proof (cases rule: change_collection_cases)
  case (some d t d')
  note o = assms(3) [OF some(2,3), unfolded some(8)]
  from put_same_stored [OF outcome_fails [OF o assms(5)] some(6)] keys_put [OF assms(1) some(1) assms(4) [OF some(8)]]
  show ?thesis by (simp add: same_contents_def some(9))
qed simp

lemma change_collection_ok:
  assumes "sc_ready s" and "change_collection c f s = (r, s')"
    and "\<And>d t. idle d \<Longrightarrow> db_file d = Some t \<Longrightarrow> outcome False t (P t) (E t) (f d)"
    and "\<And>d r d'. f d = (r, d') \<Longrightarrow> conn_keys d' = conn_keys d" and "succeeded r"
    and "\<And>t t'. P t t' \<Longrightarrow> cipher_wf t \<Longrightarrow> cipher_wf t' \<and> cipher_stored t' = (cipher_stored t)(n := v)"
  shows "sc_ready s' \<and> c \<in> sc_unlocked s \<and> sc_unlocked s' = sc_unlocked s
    \<and> sc_collections s' = sc_collections s \<and> sc_key s' = sc_key s \<and> sc_stored s' = (sc_stored s)((c, n) := v)"
  using assms(1,2)
proof (cases rule: change_collection_cases)
  case none
  with assms(5) show ?thesis by simp
next
  case (some d t d')
  note o = assms(3) [OF some(2,3), unfolded some(8)] and k = assms(4) [OF some(8)]
  obtain t' where t': "idle d'" "db_file d' = Some t'" "P t t'" using outcome_ok [OF o assms(5)] by blast
  from assms(6) [OF t'(3) some(4)] have w: "cipher_wf t'" "cipher_stored t' = (cipher_stored t)(n := v)" by blast+
  have "db_userVersion d' = 1" using k some(7) by (simp add: conn_keys_def)
  from put_ready [OF assms(1) idle_file_ready [OF t'(1,2) w(1) this]] have "sc_ready s'" by (simp add: some(9))
  moreover have "sc_stored s' i = ((sc_stored s)((c, n) := v)) i" for i
    by (cases i) (simp add: some(9) put_views(4) [OF t'(2)] w(2) some(6))
  ultimately show ?thesis using keys_put [OF assms(1) some(1) k] some(5,9) by auto
qed

lemma sc_setSecret_effect:
  assumes "sc_ready s" and "SqlCipherPlugin_setSecret c n x fd s = (r, s')"
  shows "\<not> succeeded r \<Longrightarrow> same_contents s s' \<and> sc_unlocked s' = sc_unlocked s"
    "succeeded r \<Longrightarrow> qmap_ok fd \<Longrightarrow> sc_ready s' \<and> c \<in> sc_unlocked s \<and> sc_unlocked s' = sc_unlocked s
       \<and> sc_collections s' = sc_collections s \<and> sc_key s' = sc_key s
       \<and> sc_stored s' = (sc_stored s)((c, n) \<mapsto> (x, fd))"
proof -
  consider (bad) "\<not> succeeded r" "s' = s" | (go) "change_collection c (cipher_setSecret n x fd) s = (r, s')"
    using assms(2) by (auto simp: SqlCipherPlugin_setSecret_def split: if_splits)
  note cases = this
  have o: "outcome False t (\<lambda>t'. cipher_set_tables n x fd t = Some t')
      (\<lambda>r. cipher_set_tables n x fd t = None \<and> r = failure DatabaseQueryError) (cipher_setSecret n x fd d)"
    if "idle d" "db_file d = Some t" for d t
    by (rule cipher_setSecret_outcome [OF that]) simp
  show "same_contents s s' \<and> sc_unlocked s' = sc_unlocked s" if "\<not> succeeded r"
    by (rule cases) (simp, rule change_collection_fails [OF assms(1) _ o cipher_setSecret_keys that])
  show "sc_ready s' \<and> c \<in> sc_unlocked s \<and> sc_unlocked s' = sc_unlocked s
       \<and> sc_collections s' = sc_collections s \<and> sc_key s' = sc_key s
       \<and> sc_stored s' = (sc_stored s)((c, n) \<mapsto> (x, fd))" if "succeeded r" "qmap_ok fd"
  proof (rule cases)
    assume "change_collection c (cipher_setSecret n x fd) s = (r, s')"
    from change_collection_ok [OF assms(1) this o cipher_setSecret_keys that(1),
        OF _ _ _ conjI [OF cipher_set_tables_effect(2,1) [OF _ _ that(2)]]]
    show ?thesis by simp
  qed (use that in simp)
qed

lemma sc_removeSecret_effect:
  assumes "sc_ready s" and "SqlCipherPlugin_removeSecret c n s = (r, s')"
  shows "\<not> succeeded r \<Longrightarrow> same_contents s s' \<and> sc_unlocked s' = sc_unlocked s"
    "succeeded r \<Longrightarrow> sc_ready s' \<and> c \<in> sc_unlocked s \<and> sc_unlocked s' = sc_unlocked s
       \<and> sc_collections s' = sc_collections s \<and> sc_key s' = sc_key s \<and> sc_stored s' = (sc_stored s)((c, n) := None)"
proof -
  consider (bad) "\<not> succeeded r" "s' = s" | (go) "change_collection c (cipher_removeSecret n) s = (r, s')"
    using assms(2) by (auto simp: SqlCipherPlugin_removeSecret_def split: if_splits)
  note cases = this
  have o: "outcome False t (\<lambda>t'. cipher_deleteSecret n t = Some ((), t')) (\<lambda>_. False) (cipher_removeSecret n d)"
    if "idle d" "db_file d = Some t" for d t
    by (rule cipher_removeSecret_outcome [OF that]) simp
  show "same_contents s s' \<and> sc_unlocked s' = sc_unlocked s" if "\<not> succeeded r"
    by (rule cases) (simp, rule change_collection_fails [OF assms(1) _ o cipher_removeSecret_keys that])
  show "sc_ready s' \<and> c \<in> sc_unlocked s \<and> sc_unlocked s' = sc_unlocked s
       \<and> sc_collections s' = sc_collections s \<and> sc_key s' = sc_key s \<and> sc_stored s' = (sc_stored s)((c, n) := None)"
    if "succeeded r"
  proof (rule cases)
    assume "change_collection c (cipher_removeSecret n) s = (r, s')"
    from change_collection_ok [OF assms(1) this o cipher_removeSecret_keys that,
        OF _ _ _ conjI [OF cipher_deleteSecret_effect(2,1)]]
    show ?thesis by simp
  qed (use that in simp)
qed

lemma sc_getSecret_effect:
  assumes "sc_ready s" and "SqlCipherPlugin_getSecret c n s = (r, y, s')"
  shows "same_contents s s'" "sc_unlocked s' = sc_unlocked s"
    "succeeded r \<Longrightarrow> sc_ready s' \<and> c \<in> sc_unlocked s \<and> y = sc_stored s (c, n) \<and> y \<noteq> None"
proof -
  have "same_contents s s' \<and> sc_unlocked s' = sc_unlocked s
    \<and> (succeeded r \<longrightarrow> sc_ready s' \<and> c \<in> sc_unlocked s \<and> y = sc_stored s (c, n) \<and> y \<noteq> None)"
  proof (cases "n = [] \<or> c = [] \<or> connection s c = None")
    case True
    then have "s' = s \<and> \<not> succeeded r"
      using assms(2) by (auto simp: SqlCipherPlugin_getSecret_def read_collection_def no_connection_def split: if_splits)
    then show ?thesis by simp
  next
    case False
    then obtain d where d: "connection s c = Some d" by blast
    from sc_connectionE [OF assms(1) d] obtain t where
      t: "idle d" "db_file d = Some t" "cipher_wf t" "c \<in> sc_unlocked s" "\<And>n. sc_stored s (c, n) = cipher_stored t n"
        "db_userVersion d = 1" by blast
    obtain d' where d': "cipher_getSecret n d = (r, y, d')" "s' = put_database c d' s"
      using assms(2) False d by (auto simp: SqlCipherPlugin_getSecret_def read_collection_def split: prod.splits)
    have o: "read_outcome False t (\<lambda>y. y = cipher_stored t n \<and> y \<noteq> None)
        (\<lambda>r. cipher_stored t n = None \<and> r = failure InvalidSecretError) (r, y, d')"
      using cipher_getSecret_outcome [OF t(1,2), of False n] d'(1) by simp
    then have f: "db_file d' = Some t" by (simp add: read_outcome_def)
    note k = cipher_getSecret_keys [OF d'(1)]
    have "sc_ready s'" if "succeeded r"
      using put_ready [OF assms(1) idle_file_ready [OF _ f t(3)], of c] o that k t(6)
      by (simp add: d'(2) read_outcome_def conn_keys_def)
    with put_same_stored [OF f t(5)] keys_put [OF assms(1) d k] o t(4,5) d'(2)
    show ?thesis by (auto simp: same_contents_def read_outcome_def)
  qed
  then show "same_contents s s'" "sc_unlocked s' = sc_unlocked s"
    "succeeded r \<Longrightarrow> sc_ready s' \<and> c \<in> sc_unlocked s \<and> y = sc_stored s (c, n) \<and> y \<noteq> None" by blast+
qed

subsection \<open>Operations on collections\<close>

lemma file_exists_collections: "file_exists s c \<longleftrightarrow> c \<in> sc_collections s"
  by (simp add: file_exists_def qmap_contains_def in_collections)

lemma sc_createCollection_effect:
  assumes "sc_ready s" and "SqlCipherPlugin_createCollection env c key s = (r, s')"
  shows "\<not> succeeded r \<Longrightarrow> sc_ready s' \<and> same_contents s s' \<and> sc_unlocked s' = sc_unlocked s"
    "succeeded r \<Longrightarrow> sc_ready s' \<and> c \<notin> sc_collections s \<and> sc_collections s' = insert c (sc_collections s)
       \<and> sc_stored s' = sc_stored s \<and> sc_key s' = (sc_key s)(c \<mapsto> cipher_key env key)
       \<and> sc_unlocked s' = insert c (sc_unlocked s)"
proof -
  consider (bad) "\<not> succeeded r" "s' = s"
    | (go) "\<not> file_exists s c" "SqlCipherPlugin_openCollectionDatabase env c key True s = (r, s')"
    using assms(2) by (auto simp: SqlCipherPlugin_createCollection_def split: if_splits)
  note cases = this
  show "sc_ready s' \<and> same_contents s s' \<and> sc_unlocked s' = sc_unlocked s" if "\<not> succeeded r"
    using cases openCollectionDatabase_new(2) [OF assms(1) _ _ that] assms(1) by cases auto
  show "sc_ready s' \<and> c \<notin> sc_collections s \<and> sc_collections s' = insert c (sc_collections s)
       \<and> sc_stored s' = sc_stored s \<and> sc_key s' = (sc_key s)(c \<mapsto> cipher_key env key)
       \<and> sc_unlocked s' = insert c (sc_unlocked s)" if "succeeded r"
    using cases
  proof cases
    case go
    from openCollectionDatabase_new(1) [OF assms(1) go(2,1) that] go(1) show ?thesis
      by (simp add: file_exists_collections)
  qed (use that in simp)
qed

lemma sc_removeCollection_effect:
  assumes "sc_ready s" and "SqlCipherPlugin_removeCollection env c s = (r, s')"
  shows "\<not> succeeded r \<Longrightarrow> sc_ready s' \<and> same_contents s s' \<and> sc_unlocked s' = sc_unlocked s - {c}"
    "succeeded r \<Longrightarrow> sc_ready s' \<and> sc_collections s' = sc_collections s - {c}
       \<and> sc_stored s' = sc_stored s |` {i. fst i \<noteq> c} \<and> sc_key s' = (sc_key s)(c := None)
       \<and> sc_unlocked s' = sc_unlocked s - {c}"
proof -
  let ?s = "drop_connection env c s"
  note d = drop_connection_effect [OF assms(1), of env c]
  let ?dbs = "filter (\<lambda>e. fst e \<noteq> c) (sc_databases ?s)"
  have m: "map_of ?dbs = (map_of (sc_databases ?s))(c := None)"
    using map_of_filter_key [of "\<lambda>k. k \<noteq> c" "sc_databases ?s"] by (auto simp: fun_eq_iff case_prod_unfold)
  have gone: "sc_ready s1 \<and> sc_collections s1 = sc_collections s - {c}
       \<and> sc_stored s1 = sc_stored s |` {i. fst i \<noteq> c} \<and> sc_key s1 = (sc_key s)(c := None)
       \<and> sc_unlocked s1 = sc_unlocked s - {c}" if s1: "sc_databases s1 = ?dbs" for s1
  proof -
    have "map fst ?dbs = filter (\<lambda>k. k \<noteq> c) (map fst (sc_databases ?s))" by (simp add: filter_map comp_def)
    then have "sc_ready s1" using d(1)
      by (simp add: sc_ready_def s1 qmap_ok_def list_all_iff sorted_wrt_filter)
    moreover have "sc_collections s1 = sc_collections ?s - {c}" by (auto simp: sc_collections_def s1)
    moreover have "sc_stored s1 = sc_stored ?s |` {i. fst i \<noteq> c}"
      by (auto simp: fun_eq_iff sc_stored_def s1 m restrict_map_def)
    moreover have "sc_key s1 = (sc_key ?s)(c := None)" by (simp add: fun_eq_iff sc_key_def s1 m)
    moreover have "sc_unlocked s1 = sc_unlocked ?s - {c}" by (simp add: set_eq_iff in_unlocked s1 m)
    ultimately show ?thesis using d(2,3) by (simp add: same_contents_def)
  qed
  consider (absent) "map_of (sc_databases ?s) c = None" "succeeded r" "s' = ?s"
    | (removed) "succeeded r" "sc_databases s' = ?dbs"
    | (kept) as where "\<not> succeeded r" "s' = ?s\<lparr>sc_answers := as\<rparr>"
    using assms(2) by (auto simp: SqlCipherPlugin_removeCollection_def engine_ok_def Let_def
        split: option.splits if_splits)
  note cases = this
  show "sc_ready s' \<and> same_contents s s' \<and> sc_unlocked s' = sc_unlocked s - {c}" if "\<not> succeeded r"
    using cases by cases (use that d in simp_all)
  show "sc_ready s' \<and> sc_collections s' = sc_collections s - {c}
       \<and> sc_stored s' = sc_stored s |` {i. fst i \<noteq> c} \<and> sc_key s' = (sc_key s)(c := None)
       \<and> sc_unlocked s' = sc_unlocked s - {c}" if "succeeded r"
    using cases
  proof cases
    case absent
    then have "c \<notin> fst ` set (sc_databases ?s)" by (simp add: map_of_eq_None_iff)
    then have "?dbs = sc_databases ?s" by (intro filter_True) force
    with gone [of s'] absent(3) show ?thesis by simp
  next
    case removed
    with gone show ?thesis by simp
  qed (use that in simp)
qed

lemma sc_setEncryptionKey_effect:
  assumes "sc_ready s" and "SqlCipherPlugin_setEncryptionKey env c key s = (r, s')"
  shows "sc_ready s'" "same_contents s s'" "key = [] \<Longrightarrow> succeeded r \<and> sc_unlocked s' = sc_unlocked s - {c}"
    "succeeded r \<Longrightarrow> key \<noteq> [] \<Longrightarrow>
       c \<in> sc_collections s \<and> sc_key s c = Some (cipher_key env key) \<and> sc_unlocked s' = insert c (sc_unlocked s)"
    "\<not> succeeded r \<Longrightarrow> sc_unlocked s' = sc_unlocked s - {c}"
proof -
  let ?s = "drop_connection env c s"
  note d = drop_connection_effect [OF assms(1), of env c]
  have same: "sc_key ?s = sc_key s" "sc_collections ?s = sc_collections s" using d(2) by (simp_all add: same_contents_def)
  have "sc_ready s' \<and> same_contents s s' \<and> (key = [] \<longrightarrow> succeeded r \<and> sc_unlocked s' = sc_unlocked s - {c})
    \<and> (succeeded r \<longrightarrow> key \<noteq> [] \<longrightarrow>
       c \<in> sc_collections s \<and> sc_key s c = Some (cipher_key env key) \<and> sc_unlocked s' = insert c (sc_unlocked s))
    \<and> (\<not> succeeded r \<longrightarrow> sc_unlocked s' = sc_unlocked s - {c})"
  proof (cases "key = []")
    case True
    with assms(2) have "r = success" "s' = ?s" by (simp_all add: SqlCipherPlugin_setEncryptionKey_def)
    with True d show ?thesis by simp
  next
    case False
    then have o: "SqlCipherPlugin_openCollectionDatabase env c key False ?s = (r, s')"
      using assms(2) by (simp add: SqlCipherPlugin_setEncryptionKey_def)
    show ?thesis
    proof (cases "file_exists ?s c")
      case True
      note e = openCollectionDatabase_existing [OF d(1) o True]
      have "c \<in> sc_collections s" using True by (simp add: file_exists_collections same)
      with e d False show ?thesis by (auto simp: same intro: same_contents_trans)
    next
      case False
      then have "\<not> succeeded r" "s' = ?s"
        using o by (auto simp: SqlCipherPlugin_openCollectionDatabase_def Let_def split: if_splits)
      with d \<open>key \<noteq> []\<close> show ?thesis by simp
    qed
  qed
  then show "sc_ready s'" "same_contents s s'" "key = [] \<Longrightarrow> succeeded r \<and> sc_unlocked s' = sc_unlocked s - {c}"
    "succeeded r \<Longrightarrow> key \<noteq> [] \<Longrightarrow>
       c \<in> sc_collections s \<and> sc_key s c = Some (cipher_key env key) \<and> sc_unlocked s' = insert c (sc_unlocked s)"
    "\<not> succeeded r \<Longrightarrow> sc_unlocked s' = sc_unlocked s - {c}" by blast+
qed

lemma sc_isCollectionLocked_effect:
  assumes "sc_ready s" and "SqlCipherPlugin_isCollectionLocked c b s = (r, locked, s')"
  shows "sc_ready s'" "same_contents s s'" "sc_unlocked s' = sc_unlocked s"
    "succeeded r \<Longrightarrow> \<not> locked \<Longrightarrow> c \<in> sc_unlocked s"
proof -
  have "sc_ready s' \<and> same_contents s s' \<and> sc_unlocked s' = sc_unlocked s \<and> (succeeded r \<and> \<not> locked \<longrightarrow> c \<in> sc_unlocked s)"
  proof (cases "connection s c")
    case None
    with assms show ?thesis by (auto simp: SqlCipherPlugin_isCollectionLocked_def split: if_splits)
  next
    case (Some d)
    from sc_connectionE [OF assms(1) Some] obtain t where
      t: "idle d" "db_file d = Some t" "cipher_wf t" "c \<in> sc_unlocked s" "\<And>n. sc_stored s (c, n) = cipher_stored t n"
        "db_userVersion d = 1" by blast
    obtain p d1 where p: "Database_prepare cq_locked d = (p, d1)" by (cases "Database_prepare cq_locked d")
    obtain x d2 where x: "Database_execute (sql_select (\<lambda>t. ())) d1 = (x, d2)"
      by (cases "Database_execute (sql_select (\<lambda>t. ())) d1")
    have i1: "idle d1" "db_file d1 = Some t" using prepare_idle [OF p t(1)] prepare_file [OF p] t(2) by simp_all
    have i2: "idle d2" "db_file d2 = Some t" using execute_idle [OF i1 x] by (cases x; simp add: sql_select_def)+
    have k: "conn_keys d1 = conn_keys d" "conn_keys d2 = conn_keys d"
      using conn_keys_steps(1) [OF p] conn_keys_steps(3) [OF x] by simp_all
    define d' where "d' = (if p then d2 else d1)"
    have d': "idle d'" "db_file d' = Some t" "conn_keys d' = conn_keys d" using i1 i2 k by (simp_all add: d'_def)
    have "s' = put_database c d' s"
      using assms(2) Some p x by (auto simp: SqlCipherPlugin_isCollectionLocked_def d'_def split: if_splits)
    moreover have "db_userVersion d' = 1" using d'(3) t(6) by (simp add: conn_keys_def)
    ultimately show ?thesis
      using put_ready [OF assms(1) idle_file_ready [OF d'(1,2) t(3)], of c] put_same_stored [OF d'(2) t(5)]
        keys_put [OF assms(1) Some d'(3)] t(4) by (simp add: same_contents_def)
  qed
  then show "sc_ready s'" "same_contents s s'" "sc_unlocked s' = sc_unlocked s"
    "succeeded r \<Longrightarrow> \<not> locked \<Longrightarrow> c \<in> sc_unlocked s" by blast+
qed

interpretation sqlcipher: encrypted_storage_plugin "sqlcipher_plugin env" sc_ready sc_collections sc_unlocked sc_stored
proof (unfold_locales, goal_cases)
  case (1 s c key r s')
  then show ?case using sc_createCollection_effect(2) [OF 1(1), of env c key r s'] by (simp add: sqlcipher_plugin_def)
next
  case (2 s c key r s')
  then show ?case using sc_createCollection_effect(1) [OF 2(1), of env c key r s']
    by (simp add: sqlcipher_plugin_def same_contents_def)
next
  case (3 s c r s')
  then show ?case using sc_removeCollection_effect(2) [OF 3(1), of env c r s'] by (simp add: sqlcipher_plugin_def)
next
  case (4 s c r s')
  then show ?case using sc_removeCollection_effect(1) [OF 4(1), of env c r s']
    by (simp add: sqlcipher_plugin_def same_contents_def)
next
  case (5 s c b r l s')
  then show ?case using sc_isCollectionLocked_effect [OF 5(1), of c b r l s']
    by (simp add: sqlcipher_plugin_def same_contents_def)
next
  case (6 s c key r s')
  then show ?case using sc_setEncryptionKey_effect(1,2) [OF 6(1), of env c key r s']
    by (simp add: sqlcipher_plugin_def same_contents_def)
next
  case (7 s c r s')
  then show ?case using sc_setEncryptionKey_effect(3) [OF 7(1), of env c "[]" r s'] by (simp add: sqlcipher_plugin_def)
next
  case (8 s c key r s')
  then show ?case using sc_setEncryptionKey_effect(4) [OF 8(1), of env c key r s'] by (simp add: sqlcipher_plugin_def)
next
  case (9 s fd c n x r s')
  then show ?case using sc_setSecret_effect(2) [OF 9(1), of c n x fd r s'] by (simp add: sqlcipher_plugin_def)
next
  case (10 s c n x fd r s')
  then show ?case using sc_setSecret_effect(1) [OF 10(1), of c n x fd r s']
    by (simp add: sqlcipher_plugin_def same_contents_def)
next
  case (11 s c n r s')
  then show ?case using sc_removeSecret_effect(2) [OF 11(1), of c n r s'] by (simp add: sqlcipher_plugin_def)
next
  case (12 s c n r s')
  then show ?case using sc_removeSecret_effect(1) [OF 12(1), of c n r s']
    by (simp add: sqlcipher_plugin_def same_contents_def)
next
  case (13 s c n r y s')
  then show ?case using sc_getSecret_effect(3) [OF 13(1), of c n r y s'] by (auto simp: sqlcipher_plugin_def)
next
  case (14 s c n r y s')
  then show ?case using sc_getSecret_effect(1,2) [OF 14(1), of c n r y s']
    by (simp add: sqlcipher_plugin_def same_contents_def)
next
  case (15 n x fd key s)
  then show ?case by (simp add: sqlcipher_plugin_def)
next
  case (16 s)
  then show ?case by (simp add: unlocked_in_collections)
qed

subsection \<open>Only a key unlocks a collection\<close>

lemma put_unlocked:
  "sc_unlocked (put_database c d s) = (if db_isOpen d then insert c (sc_unlocked s) else sc_unlocked s - {c})"
  unfolding in_unlocked set_eq_iff by (auto simp: databases_put in_unlocked)

lemma put_unlocks_none: "connection s c \<noteq> None \<Longrightarrow> sc_unlocked (put_database c d s) \<subseteq> sc_unlocked s"
  unfolding connection_unlocked by (auto simp: put_unlocked)

lemma drop_connection_unlocked: "sc_unlocked (drop_connection env c s) = sc_unlocked s - {c}"
  using connection_unlocked [of s c]
  by (auto simp: drop_connection_def put_unlocked new_connection_def Database_close_def split: option.splits)

lemma open_unlocks_one:
  "SqlCipherPlugin_openCollectionDatabase env c key b s = (r, s') \<Longrightarrow> sc_unlocked s' \<subseteq> insert c (sc_unlocked s)"
  by (auto simp: SqlCipherPlugin_openCollectionDatabase_def Let_def put_unlocked split: if_splits prod.splits)

lemma change_unlocks_none: "change_collection c f s = (r, s') \<Longrightarrow> sc_unlocked s' \<subseteq> sc_unlocked s"
  using put_unlocks_none [of s c] by (fastforce simp: change_collection_def split: option.splits prod.splits)

lemma read_unlocks_none: "read_collection c z f s = (r, x, s') \<Longrightarrow> sc_unlocked s' \<subseteq> sc_unlocked s"
  using put_unlocks_none [of s c] by (fastforce simp: read_collection_def split: option.splits prod.splits)

lemma isCollectionLocked_put:
  "SqlCipherPlugin_isCollectionLocked c b s = (r, l, s') \<Longrightarrow> sc_unlocked s' \<subseteq> sc_unlocked s"
  using put_unlocks_none [of s c]
  by (fastforce simp: SqlCipherPlugin_isCollectionLocked_def Let_def split: option.splits prod.splits if_splits)

interpretation sqlcipher_lock: collection_lock "sqlcipher_plugin env" sc_unlocked
proof (unfold_locales, goal_cases)
  case (1 c key s r s')
  then show ?case
    using open_unlocks_one [of env c key False "drop_connection env c s" r s']
    by (auto simp: sqlcipher_plugin_def SqlCipherPlugin_setEncryptionKey_def Let_def drop_connection_unlocked split: if_splits)
next
  case (2 c s r s')
  then show ?case by (auto simp: sqlcipher_plugin_def SqlCipherPlugin_setEncryptionKey_def drop_connection_unlocked)
next
  case (3 c b s r l s')
  then show ?case by (simp add: sqlcipher_plugin_def isCollectionLocked_put)
next
  case (4 s r cs s')
  then show ?case by (simp add: sqlcipher_plugin_def SqlCipherPlugin_collectionNames_def)
next
  case (5 c s r ns s')
  then show ?case
    by (auto simp: sqlcipher_plugin_def SqlCipherPlugin_secretNames_def split: if_splits dest!: read_unlocks_none)
next
  case (6 c n s r x s')
  then show ?case
    by (auto simp: sqlcipher_plugin_def SqlCipherPlugin_getSecret_def split: if_splits dest!: read_unlocks_none)
next
  case (7 c n v fd s r s')
  then show ?case
    by (auto simp: sqlcipher_plugin_def SqlCipherPlugin_setSecret_def split: if_splits dest!: change_unlocks_none)
next
  case (8 c n s r s')
  then show ?case
    by (auto simp: sqlcipher_plugin_def SqlCipherPlugin_removeSecret_def split: if_splits dest!: change_unlocks_none)
next
  case (9 c flt op s r ids s')
  then show ?case
    by (auto simp: sqlcipher_plugin_def SqlCipherPlugin_findSecrets_def split: if_splits dest!: read_unlocks_none)
qed

subsection \<open>Changing the key of a collection\<close>

lemma rekeyed_in_tx:
  assumes "in_tx t t d"
  shows "Database_commitTransaction (d\<lparr>db_connKey := k\<rparr>) = (ok, d') \<Longrightarrow>
    if ok then db_file d' = Some t \<and> db_work d' = None \<and> db_semaphore d' = 0 \<and> db_isOpen d' \<and> db_connKey d' = k
              \<and> db_userVersion d' = db_userVersion d
    else db_file d' = Some t \<and> db_fileKey d' = db_fileKey d"
  using assms
  by (auto simp: Database_commitTransaction_def sql_commit_def in_tx_def db_readable_def next_answer_def drop_answer_def Let_def
      split: answer.splits list.splits)

lemma rollback_file:
  "db_file (rollback_db d) = db_file d" "db_fileKey (rollback_db d) = db_fileKey d"
  by (auto simp: Database_rollbackTransaction_def sql_rollback_def Let_def split: answer.splits)

lemma cipher_rekey_effect:
  assumes "idle d" and "db_file d = Some t" and "cipher_rekey k d = (r, d')"
  shows "db_file d' = Some t"
    "succeeded r \<Longrightarrow> idle d' \<and> db_fileKey d' = k \<and> db_userVersion d' = db_userVersion d"
    "\<not> succeeded r \<Longrightarrow> db_fileKey d' = db_fileKey d"
proof -
  obtain p d1 where p: "Database_prepare (cq_rekey k) d = (p, d1)" by (cases "Database_prepare (cq_rekey k) d")
  obtain b d2 where b: "Database_beginTransaction d1 = (b, d2)" by (cases "Database_beginTransaction d1")
  have i1: "idle d1" "db_file d1 = Some t" using prepare_idle [OF p assms(1)] prepare_file [OF p] assms(2) by simp_all
  note d2 = begin_idle [OF i1 b]
  have k2: "conn_keys d1 = conn_keys d" "conn_keys d2 = conn_keys d"
    using conn_keys_steps(1) [OF p] conn_keys_steps(2) [OF b] by simp_all
  let ?d3 = "drop_answer d2"
  obtain ok d4 where c: "Database_commitTransaction (?d3\<lparr>db_connKey := k\<rparr>) = (ok, d4)"
    by (cases "Database_commitTransaction (?d3\<lparr>db_connKey := k\<rparr>)")
  have t3: "in_tx t t ?d3" if b using d2 that by (simp add: in_tx_def)
  have "db_file d' = Some t \<and> (if succeeded r then idle d' \<and> db_fileKey d' = k \<and> db_userVersion d' = db_userVersion d
     else db_fileKey d' = db_fileKey d)"
  proof (cases "p \<and> b \<and> next_answer d2 = Ok")
    case False
    then have "\<not> succeeded r \<and> (d' = d1 \<or> d' = d2 \<or> (b \<and> d' = rollback_db ?d3))"
      using assms(3) p b by (auto simp: cipher_rekey_def engine_ok_def split: if_splits)
    then show ?thesis using i1 d2 k2 by (auto simp: rollback_file conn_keys_def in_tx_def split: if_splits)
  next
    case True
    then have d': "succeeded r \<longleftrightarrow> ok" "d' = (if ok then d4\<lparr>db_fileKey := k\<rparr> else rollback_db d4)"
      using assms(3) p b c by (auto simp: cipher_rekey_def engine_ok_def split: if_splits)
    show ?thesis using d' rekeyed_in_tx [OF t3 c] True k2
      by (cases ok) (auto simp: rollback_file idle_def db_readable_def conn_keys_def)
  qed
  then show "db_file d' = Some t"
    "succeeded r \<Longrightarrow> idle d' \<and> db_fileKey d' = k \<and> db_userVersion d' = db_userVersion d"
    "\<not> succeeded r \<Longrightarrow> db_fileKey d' = db_fileKey d" by auto
qed

lemma sc_reencrypt_effect:
  assumes "sc_ready s" and "SqlCipherPlugin_reencrypt env c old new s = (r, s')"
  shows "\<not> succeeded r \<Longrightarrow> same_contents s s'"
    "succeeded r \<Longrightarrow> sc_ready s' \<and> sc_collections s' = sc_collections s \<and> sc_stored s' = sc_stored s
       \<and> old \<noteq> [] \<and> sc_key s c = Some (cipher_key env old) \<and> sc_key s' = (sc_key s)(c \<mapsto> cipher_key env new)
       \<and> sc_unlocked s' = insert c (sc_unlocked s)"
proof -
  obtain r1 s1 where s1: "SqlCipherPlugin_setEncryptionKey env c old s = (r1, s1)"
    by (cases "SqlCipherPlugin_setEncryptionKey env c old s")
  note e = sc_setEncryptionKey_effect [OF assms(1) s1]
  have "(if succeeded r then sc_ready s' \<and> sc_collections s' = sc_collections s \<and> sc_stored s' = sc_stored s
       \<and> old \<noteq> [] \<and> sc_key s c = Some (cipher_key env old) \<and> sc_key s' = (sc_key s)(c \<mapsto> cipher_key env new)
       \<and> sc_unlocked s' = insert c (sc_unlocked s) else same_contents s s')"
  proof (cases "succeeded r1 \<and> connection s1 c \<noteq> None \<and> length (cipher_key env new) = 64")
    case False
    then have "\<not> succeeded r \<and> s' = s1"
      using assms(2) s1 by (auto simp: SqlCipherPlugin_reencrypt_def Let_def split: option.splits if_splits)
    with e(2) show ?thesis by simp
  next
    case True
    then obtain d where d: "connection s1 c = Some d" by blast
    from sc_connectionE [OF e(1) d] obtain t where
      t: "idle d" "db_file d = Some t" "cipher_wf t" "c \<in> sc_unlocked s1" "\<And>n. sc_stored s1 (c, n) = cipher_stored t n"
        "sc_key s1 c = Some (db_fileKey d)" "db_userVersion d = 1" by blast
    obtain d' where d': "cipher_rekey (cipher_key env new) d = (r, d')" "s' = put_database c d' s1"
      using assms(2) s1 d True
      by (cases "cipher_rekey (cipher_key env new) d") (auto simp: SqlCipherPlugin_reencrypt_def Let_def)
    note k = cipher_rekey_effect [OF t(1,2) d'(1)]
    have "old \<noteq> []" using e(3) t(4) by auto
    with e(4) True have u: "c \<in> sc_collections s" "sc_key s c = Some (cipher_key env old)"
      "sc_unlocked s1 = insert c (sc_unlocked s)" by auto
    show ?thesis
    proof (cases "succeeded r")
      case r: True
      then have i: "idle d'" "db_fileKey d' = cipher_key env new" "db_userVersion d' = 1" using k(2) t(7) by auto
      have "db_isOpen d'" using i(1) by (simp add: idle_def db_readable_def)
      moreover have "sc_ready s'" unfolding d'(2) by (rule put_ready [OF e(1) idle_file_ready [OF i(1) k(1) t(3) i(3)]])
      ultimately show ?thesis
        using r u \<open>old \<noteq> []\<close> e(2) i(2) put_same_stored [OF k(1) t(5)]
        by (simp add: d'(2) put_views(1-3) same_contents_def insert_absorb)
    next
      case False
      with put_same_contents [OF k(1) t(5)] t(6) k(3) e(2) show ?thesis
        by (auto simp: d'(2) intro: same_contents_trans)
    qed
  qed
  then show "\<not> succeeded r \<Longrightarrow> same_contents s s'"
    "succeeded r \<Longrightarrow> sc_ready s' \<and> sc_collections s' = sc_collections s \<and> sc_stored s' = sc_stored s
       \<and> old \<noteq> [] \<and> sc_key s c = Some (cipher_key env old) \<and> sc_key s' = (sc_key s)(c \<mapsto> cipher_key env new)
       \<and> sc_unlocked s' = insert c (sc_unlocked s)" by simp_all
qed

subsection \<open>The plugin implements a vault\<close>

text \<open>
  A vault: the key each collection is sealed with, the secrets, and which collections are open. The key of an operation
  is the one the plugin computes from the key it is given.
\<close>

record vault =
  v_key :: "qstring \<rightharpoonup> qbytes"
  v_stored :: "qstring \<times> qstring \<rightharpoonup> qbytes \<times> filter_data"
  v_open :: "qstring set"

datatype vault_op =
    Create qstring qbytes | Destroy qstring | Seal qstring | Unseal qstring qbytes | Rekey qstring qbytes qbytes
  | Put qstring qstring qbytes filter_data | Delete qstring qstring

fun vault_run :: "cipher_env \<Rightarrow> vault_op \<Rightarrow> SqlCipherPlugin \<Rightarrow> Result \<times> SqlCipherPlugin" where
  "vault_run env (Create c key) = SqlCipherPlugin_createCollection env c key"
| "vault_run env (Destroy c) = SqlCipherPlugin_removeCollection env c"
| "vault_run env (Seal c) = SqlCipherPlugin_setEncryptionKey env c []"
| "vault_run env (Unseal c key) = SqlCipherPlugin_setEncryptionKey env c key"
| "vault_run env (Rekey c old new) = SqlCipherPlugin_reencrypt env c old new"
| "vault_run env (Put c n x fd) = SqlCipherPlugin_setSecret c n x fd"
| "vault_run env (Delete c n) = SqlCipherPlugin_removeSecret c n"

text \<open>When an operation on a vault is allowed, and what it does.\<close>

fun vault_allows :: "(qbytes \<Rightarrow> qbytes) \<Rightarrow> vault_op \<Rightarrow> vault \<Rightarrow> bool" where
  "vault_allows h (Create c key) v \<longleftrightarrow> v_key v c = None"
| "vault_allows h (Destroy c) v \<longleftrightarrow> True"
| "vault_allows h (Seal c) v \<longleftrightarrow> True"
| "vault_allows h (Unseal c key) v \<longleftrightarrow> v_key v c = Some (h key)"
| "vault_allows h (Rekey c old new) v \<longleftrightarrow> v_key v c = Some (h old)"
| "vault_allows h (Put c n x fd) v \<longleftrightarrow> c \<in> v_open v"
| "vault_allows h (Delete c n) v \<longleftrightarrow> c \<in> v_open v"

fun vault_effect :: "(qbytes \<Rightarrow> qbytes) \<Rightarrow> vault_op \<Rightarrow> vault \<Rightarrow> vault" where
  "vault_effect h (Create c key) v = v\<lparr>v_key := (v_key v)(c \<mapsto> h key), v_open := insert c (v_open v)\<rparr>"
| "vault_effect h (Destroy c) v =
     v\<lparr>v_key := (v_key v)(c := None), v_stored := v_stored v |` {i. fst i \<noteq> c}, v_open := v_open v - {c}\<rparr>"
| "vault_effect h (Seal c) v = v\<lparr>v_open := v_open v - {c}\<rparr>"
| "vault_effect h (Unseal c key) v = v\<lparr>v_open := insert c (v_open v)\<rparr>"
| "vault_effect h (Rekey c old new) v = v\<lparr>v_key := (v_key v)(c \<mapsto> h new), v_open := insert c (v_open v)\<rparr>"
| "vault_effect h (Put c n x fd) v = v\<lparr>v_stored := (v_stored v)((c, n) \<mapsto> (x, fd))\<rparr>"
| "vault_effect h (Delete c n) v = v\<lparr>v_stored := (v_stored v)((c, n) := None)\<rparr>"

fun vault_op_ok :: "vault_op \<Rightarrow> bool" where
  "vault_op_ok (Unseal c key) = (key \<noteq> [])"
| "vault_op_ok (Put c n x fd) = qmap_ok fd"
| "vault_op_ok _ = True"

definition vault_of :: "SqlCipherPlugin \<Rightarrow> vault" where
  "vault_of s = \<lparr>v_key = sc_key s, v_stored = sc_stored s, v_open = sc_unlocked s\<rparr>"

lemma no_key: "c \<notin> sc_collections s \<longleftrightarrow> sc_key s c = None"
  by (simp add: in_collections sc_key_def)

text \<open>
  C32. The SQLCipher plugin implements a vault. Whatever the engine and the file system answer, an operation that
  reports success was allowed by the vault's rules (a new collection has no file yet, a collection is opened or
  re-encrypted only with its key, secrets are changed only in an open collection), has exactly the abstract effect on
  the keys, the secrets and the set of open collections, and leaves the plugin ready; an operation that reports failure
  changes neither a key nor a secret.
\<close>

theorem sqlcipher_refines_vault:
  assumes "sc_ready s" and "vault_op_ok op" and "vault_run env op s = (r, s')"
  shows "if succeeded r
         then sc_ready s' \<and> vault_allows (cipher_key env) op (vault_of s)
              \<and> vault_of s' = vault_effect (cipher_key env) op (vault_of s)
         else v_key (vault_of s') = v_key (vault_of s) \<and> v_stored (vault_of s') = v_stored (vault_of s)"
proof (cases op)
  case (Create c key)
  with assms(3) have "SqlCipherPlugin_createCollection env c key s = (r, s')" by simp
  from sc_createCollection_effect [OF assms(1) this] show ?thesis
    by (simp add: Create vault_of_def same_contents_def no_key)
next
  case (Destroy c)
  with assms(3) have "SqlCipherPlugin_removeCollection env c s = (r, s')" by simp
  from sc_removeCollection_effect [OF assms(1) this] show ?thesis
    by (simp add: Destroy vault_of_def same_contents_def)
next
  case (Seal c)
  with assms(3) have "SqlCipherPlugin_setEncryptionKey env c [] s = (r, s')" by simp
  from sc_setEncryptionKey_effect [OF assms(1) this] show ?thesis
    by (simp add: Seal vault_of_def same_contents_def)
next
  case (Unseal c key)
  with assms have "SqlCipherPlugin_setEncryptionKey env c key s = (r, s')" "key \<noteq> []" by simp_all
  from sc_setEncryptionKey_effect [OF assms(1) this(1)] this(2) show ?thesis
    by (simp add: Unseal vault_of_def same_contents_def)
next
  case (Rekey c old new)
  with assms(3) have "SqlCipherPlugin_reencrypt env c old new s = (r, s')" by simp
  from sc_reencrypt_effect [OF assms(1) this] show ?thesis
    by (simp add: Rekey vault_of_def same_contents_def)
next
  case (Put c n x fd)
  with assms have "SqlCipherPlugin_setSecret c n x fd s = (r, s')" "qmap_ok fd" by simp_all
  from sc_setSecret_effect [OF assms(1) this(1)] this(2) show ?thesis
    by (simp add: Put vault_of_def same_contents_def)
next
  case (Delete c n)
  with assms(3) have "SqlCipherPlugin_removeSecret c n s = (r, s')" by simp
  from sc_removeSecret_effect [OF assms(1) this] show ?thesis
    by (simp add: Delete vault_of_def same_contents_def)
qed

text \<open>A plugin with one locked collection that holds one secret; the hash repeats the first byte.\<close>

definition demo_env :: cipher_env where
  "demo_env = \<lparr>ce_sha256 = (\<lambda>k. replicate 32 (case k of [] \<Rightarrow> CHR ''-'' | a # _ \<Rightarrow> a)),
     ce_pbkdf2 = (\<lambda>code salt. Some (code @ salt)), ce_setOrder = (\<lambda>ns. ns), ce_localeName = ''C''\<rparr>"

definition demo_vault :: "answer list \<Rightarrow> SqlCipherPlugin" where
  "demo_vault as =
     \<lparr>sc_databases = [(''box'',
        \<lparr>db_file = Some \<lparr>ct_Secrets = [\<lparr>cs_SecretName = ''s'', cs_Secret = ''x''\<rparr>], ct_FilterData = []\<rparr>,
         db_fileKey = cipher_key demo_env ''k'', db_userVersion = 1, db_isOpen = False, db_connKey = [], db_work = None,
         db_semaphore = 0, db_prepared = [], db_localeName = ''C'', db_answers = []\<rparr>)],
      sc_answers = as\<rparr>"

theorem sqlcipher_refines_vault_witness:
  "vault_of (snd (vault_run demo_env (Unseal ''box'' ''k'') (demo_vault [])))
     = vault_effect (cipher_key demo_env) (Unseal ''box'' ''k'') (vault_of (demo_vault []))
   \<and> v_stored (vault_of (snd (vault_run demo_env (Unseal ''box'' ''j'') (demo_vault [])))) = v_stored (vault_of (demo_vault []))"
proof -
  have a: "sc_ready (demo_vault [])" by code_simp
  have o: "vault_op_ok (Unseal ''box'' ''k'')" "vault_op_ok (Unseal ''box'' ''j'')" by simp_all
  have r: "succeeded (fst (vault_run demo_env (Unseal ''box'' ''k'') (demo_vault [])))"
    "\<not> succeeded (fst (vault_run demo_env (Unseal ''box'' ''j'') (demo_vault [])))" by (code_simp, code_simp)
  show ?thesis
    using sqlcipher_refines_vault [OF a o(1) prod.collapse [symmetric], where env = demo_env]
      sqlcipher_refines_vault [OF a o(2) prod.collapse [symmetric], where env = demo_env] r
    by (simp only: if_True if_False simp_thms)
qed

subsection \<open>With an engine that refuses nothing\<close>

definition sc_engine_ready :: "SqlCipherPlugin \<Rightarrow> bool" where
  "sc_engine_ready s \<longleftrightarrow> set (sc_answers s) \<subseteq> {Ok}"

lemma length_toHex: "length (toHex bs) = 2 * length bs"
  by (induction bs) (simp_all add: toHex_def Let_def)

lemma length_cipher_key:
  assumes "\<And>x. length (ce_sha256 env x) = 32"
  shows "length (cipher_key env key) = 64"
  using assms by (simp add: cipher_key_def length_toHex)

lemma openCollectionDatabase_right_key:
  assumes "sc_ready s" and "sc_engine_ready s" and "sc_key s c = Some (cipher_key env key)"
    and "length (cipher_key env key) = 64" and "c \<notin> sc_unlocked s"
    and "SqlCipherPlugin_openCollectionDatabase env c key create s = (r, s')"
  shows "succeeded r \<and> sc_engine_ready s'"
proof -
  from assms(3) obtain d where d: "map_of (sc_databases s) c = Some d" "db_fileKey d = cipher_key env key"
    by (auto simp: sc_key_def)
  obtain t where t: "db_file d = Some t" "db_userVersion d = 1"
    using sc_ready_file [OF assms(1) d(1)] by (rule file_readyE)
  let ?d = "(new_connection env d)\<lparr>db_answers := sc_answers s\<rparr>"
  have "reopening t (cipher_key env key) ?d" "\<not> db_isOpen ?d"
    using t d(2) assms(2) by (simp_all add: reopening_def new_connection_def engine_ready_def sc_engine_ready_def)
  from reopening_open [OF this] obtain d1 where
    d1: "Database_open (cipher_key env key) 6 2 cipher_empty [] 1 ?d = (True, d1)" "engine_ready d1" by blast
  have "connection s c = None" "file_exists s c" "qmap_value (sc_databases s) c no_file = d"
    using assms(5) connection_unlocked [of s c] d(1) by (auto simp: file_exists_def qmap_contains_def qmap_value_def)
  with assms(4,6) d1 show ?thesis
    by (auto simp: SqlCipherPlugin_openCollectionDatabase_def Let_def sc_engine_ready_def engine_ready_def)
qed

lemma sc_setEncryptionKey_ready:
  assumes "sc_ready s" and "sc_engine_ready s" and "length (cipher_key env key) = 64"
    and "SqlCipherPlugin_setEncryptionKey env c key s = (r, s')"
  shows "key \<noteq> [] \<Longrightarrow> succeeded r \<longleftrightarrow> sc_key s c = Some (cipher_key env key)"
    "key \<noteq> [] \<Longrightarrow> \<not> succeeded r \<Longrightarrow> r = failure DatabaseError"
    "succeeded r \<Longrightarrow> sc_engine_ready s'"
proof -
  let ?s = "drop_connection env c s"
  note d = drop_connection_effect [OF assms(1), of env c]
  have k: "sc_key ?s c = sc_key s c" using d(2) by (simp add: same_contents_def)
  have e: "sc_engine_ready ?s" using assms(2) d(4) by (simp add: sc_engine_ready_def)
  have n: "c \<notin> sc_unlocked ?s" "connection ?s c = None" using d(3) connection_unlocked [of ?s c] by auto
  have o: "SqlCipherPlugin_openCollectionDatabase env c key False ?s = (r, s')" if "key \<noteq> []"
    using that assms(4) by (simp add: SqlCipherPlugin_setEncryptionKey_def)
  show i: "succeeded r \<longleftrightarrow> sc_key s c = Some (cipher_key env key)" if "key \<noteq> []"
    using sc_setEncryptionKey_effect(4) [OF assms(1,4) _ that]
      openCollectionDatabase_right_key [OF d(1) e _ assms(3) n(1) o [OF that]] k by auto
  show "r = failure DatabaseError" if "key \<noteq> []" "\<not> succeeded r"
    using o [OF that(1)] that(2) assms(3) n(2)
    by (auto simp: SqlCipherPlugin_openCollectionDatabase_def Let_def split: if_splits prod.splits)
  show "sc_engine_ready s'" if "succeeded r"
  proof (cases "key = []")
    case True
    with assms(4) e show ?thesis by (simp add: SqlCipherPlugin_setEncryptionKey_def)
  next
    case False
    then show ?thesis
      using openCollectionDatabase_right_key [OF d(1) e _ assms(3) n(1) o [OF False]] i that k by simp
  qed
qed

lemma sc_getSecret_locked:
  assumes "c \<notin> sc_unlocked s" and "c \<noteq> []" and "n \<noteq> []"
  shows "SqlCipherPlugin_getSecret c n s =
    (if c \<in> sc_collections s then failure CollectionIsLockedError else failure InvalidCollectionError, None, s)"
  using assms connection_unlocked [of s c]
  by (simp add: SqlCipherPlugin_getSecret_def read_collection_def no_connection_def file_exists_collections)

lemma sc_getSecret_ready:
  assumes "sc_ready s" and "sc_engine_ready s" and "c \<in> sc_unlocked s" and "sc_stored s (c, n) = Some v"
    and "c \<noteq> []" and "n \<noteq> []" and "SqlCipherPlugin_getSecret c n s = (r, y, s')"
  shows "succeeded r \<and> y = Some v"
proof -
  obtain d where d: "connection s c = Some d" using assms(3) connection_unlocked [of s c] by auto
  from sc_connectionE [OF assms(1) d] obtain t where
    t: "idle d" "db_file d = Some t" "db_answers d = sc_answers s" "\<And>n. sc_stored s (c, n) = cipher_stored t n" by blast
  have e: "engine_ready d" using assms(2) t(3) by (simp add: sc_engine_ready_def engine_ready_def)
  obtain d' where d': "cipher_getSecret n d = (r, y, d')"
    using assms(5-7) d by (auto simp: SqlCipherPlugin_getSecret_def read_collection_def split: prod.splits)
  have "read_outcome True t (\<lambda>y. y = cipher_stored t n \<and> y \<noteq> None)
      (\<lambda>r. cipher_stored t n = None \<and> r = failure InvalidSecretError) (r, y, d')"
    using cipher_getSecret_outcome [OF t(1,2), of True n] e d' by simp
  with assms(4) t(4) show ?thesis by (auto simp: read_outcome_def split: if_splits)
qed

lemma sc_setSecret_ready:
  assumes "sc_ready s" and "sc_engine_ready s" and "c \<in> sc_unlocked s" and "qmap_ok fd"
    and "c \<noteq> []" and "n \<noteq> []" and "SqlCipherPlugin_setSecret c n x fd s = (r, s')"
  shows "succeeded r \<and> sc_engine_ready s'"
proof -
  obtain d where d: "connection s c = Some d" using assms(3) connection_unlocked [of s c] by auto
  from sc_connectionE [OF assms(1) d] obtain t where
    t: "idle d" "db_file d = Some t" "cipher_wf t" "db_answers d = sc_answers s" by blast
  have e: "engine_ready d" using assms(2) t(4) by (simp add: sc_engine_ready_def engine_ready_def)
  obtain d' where d': "cipher_setSecret n x fd d = (r, d')" "s' = put_database c d' s"
    using assms(5-7) d by (auto simp: SqlCipherPlugin_setSecret_def change_collection_def split: prod.splits)
  have "outcome True t (\<lambda>t'. cipher_set_tables n x fd t = Some t')
      (\<lambda>r. cipher_set_tables n x fd t = None \<and> r = failure DatabaseQueryError) (r, d')"
    using cipher_setSecret_outcome [OF t(1,2), of True n x fd] e d'(1) by simp
  with cipher_set_tables_total [OF t(3) assms(4), of n x] show ?thesis
    by (auto simp: outcome_def d'(2) sc_engine_ready_def engine_ready_def split: if_splits)
qed

text \<open>
  C33. A collection opens with its own key only. Let the digest have 256 bits and the engine refuse nothing. Giving a
  collection a key that is not empty succeeds if and only if the collection exists and the key computed from the given one is the
  key its file is encrypted under, and then opens this collection and no other; a refused key is reported as a database error. The empty
  key is always accepted, and locks the collection. Where the collection is not opened it is locked afterwards, whatever
  it was before: a read of any secret name is refused, as of a locked collection where it exists, as of an invalid one where it does
  not. Nothing that is stored changes.
\<close>

theorem collection_opens_with_its_key_only:
  assumes "sc_ready s" and "sc_engine_ready s" and "\<And>x. length (ce_sha256 env x) = 32"
    and "c \<noteq> []" and "n \<noteq> []" and "SqlCipherPlugin_setEncryptionKey env c key s = (r, s')"
  shows "(succeeded r \<longleftrightarrow> key = [] \<or> c \<in> sc_collections s \<and> sc_key s c = Some (cipher_key env key))
    \<and> (\<not> succeeded r \<longrightarrow> r = failure DatabaseError)
    \<and> sc_unlocked s' = (if succeeded r \<and> key \<noteq> [] then insert c (sc_unlocked s) else sc_unlocked s - {c})
    \<and> sc_stored s' = sc_stored s
    \<and> (c \<notin> sc_unlocked s' \<longrightarrow> fst (SqlCipherPlugin_getSecret c n s')
         = (if c \<in> sc_collections s then failure CollectionIsLockedError else failure InvalidCollectionError))"
proof -
  note l = length_cipher_key [OF assms(3)]
  note a = sc_setEncryptionKey_ready [OF assms(1,2) l assms(6)] and e = sc_setEncryptionKey_effect [OF assms(1,6)]
  have s: "sc_stored s' = sc_stored s" "sc_collections s' = sc_collections s" using e(2) by (simp_all add: same_contents_def)
  have "fst (SqlCipherPlugin_getSecret c n s')
      = (if c \<in> sc_collections s then failure CollectionIsLockedError else failure InvalidCollectionError)" if "c \<notin> sc_unlocked s'"
    using sc_getSecret_locked [OF that assms(4,5)] by (simp add: s(2))
  moreover have "succeeded r \<longleftrightarrow> key = [] \<or> c \<in> sc_collections s \<and> sc_key s c = Some (cipher_key env key)"
    using a(1) e(3) no_key [of c s] by (cases "key = []") auto
  moreover have "sc_unlocked s' = (if succeeded r \<and> key \<noteq> [] then insert c (sc_unlocked s) else sc_unlocked s - {c})"
    using e(3-5) by auto
  moreover have "\<not> succeeded r \<longrightarrow> r = failure DatabaseError" using a(2) e(3) by (cases "key = []") auto
  ultimately show ?thesis using s(1) by blast
qed

theorem collection_opens_with_its_key_only_witness:
  "succeeded (fst (SqlCipherPlugin_setEncryptionKey demo_env ''box'' ''k'' (demo_vault [])))
   \<and> fst (SqlCipherPlugin_setEncryptionKey demo_env ''box'' ''j'' (demo_vault [])) = failure DatabaseError
   \<and> fst (SqlCipherPlugin_getSecret ''box'' ''s'' (snd (SqlCipherPlugin_setEncryptionKey demo_env ''box'' [] (demo_vault []))))
       = failure CollectionIsLockedError"
proof -
  have a: "sc_ready (demo_vault [])" "sc_engine_ready (demo_vault [])" by (code_simp, code_simp)
  have l: "\<And>x. length (ce_sha256 demo_env x) = 32" by (simp add: demo_env_def)
  have k: "sc_key (demo_vault []) ''box'' = Some (cipher_key demo_env ''k'')"
    "\<not> sc_key (demo_vault []) ''box'' = Some (cipher_key demo_env ''j'')" "''box'' \<in> sc_collections (demo_vault [])"
    by (code_simp, code_simp, code_simp)
  note th = collection_opens_with_its_key_only [OF a l _ _ prod.collapse [symmetric], where c = "''box''" and n = "''s''"]
  have "succeeded (fst (SqlCipherPlugin_setEncryptionKey demo_env ''box'' ''k'' (demo_vault [])))"
    using th [where key = "''k''"] k(1,3) by simp
  moreover have "fst (SqlCipherPlugin_setEncryptionKey demo_env ''box'' ''j'' (demo_vault [])) = failure DatabaseError"
    using th [where key = "''j''"] k(2) by simp
  moreover have "fst (SqlCipherPlugin_getSecret ''box'' ''s'' (snd (SqlCipherPlugin_setEncryptionKey demo_env ''box'' [] (demo_vault []))))
      = failure CollectionIsLockedError"
    using th [where key = "[]"] k(3) by simp
  ultimately show ?thesis by blast
qed

text \<open>
  C34. A secret survives sealing. With an engine that refuses nothing, a secret stored in an open collection is refused
  as locked once the collection has been locked, and reads back with its filter data once
  the collection is unlocked again with its key.
\<close>

theorem secret_survives_sealing:
  assumes "sc_ready s" and "sc_engine_ready s" and "\<And>x. length (ce_sha256 env x) = 32"
    and "c \<in> sc_unlocked s" and "sc_key s c = Some (cipher_key env key)" and "key \<noteq> []" and "c \<noteq> []" and "n \<noteq> []"
    and "qmap_ok fd"
    and "SqlCipherPlugin_setSecret c n x fd s = (r1, s1)"
    and "SqlCipherPlugin_setEncryptionKey env c [] s1 = (r2, s2)"
    and "SqlCipherPlugin_getSecret c n s2 = (r3, y3, s3)"
    and "SqlCipherPlugin_setEncryptionKey env c key s3 = (r4, s4)"
    and "SqlCipherPlugin_getSecret c n s4 = (r5, y5, s5)"
  shows "succeeded r1 \<and> succeeded r2 \<and> r3 = failure CollectionIsLockedError \<and> y3 = None
    \<and> succeeded r4 \<and> succeeded r5 \<and> y5 = Some (x, fd)"
proof -
  note l = length_cipher_key [OF assms(3)]
  from sc_setSecret_ready [OF assms(1,2,4,9,7,8,10)] have r1: "succeeded r1" "sc_engine_ready s1" by simp_all
  from sc_setSecret_effect(2) [OF assms(1,10) r1(1) assms(9)] have s1: "sc_ready s1" "sc_key s1 = sc_key s"
    "sc_stored s1 (c, n) = Some (x, fd)" by simp_all
  note e2 = sc_setEncryptionKey_effect [OF s1(1) assms(11)]
  from e2(3) have r2: "succeeded r2" "c \<notin> sc_unlocked s2" by simp_all
  have s2: "sc_key s2 = sc_key s" "sc_stored s2 (c, n) = Some (x, fd)"
    using e2(2) s1 by (simp_all add: same_contents_def)
  have er2: "sc_engine_ready s2" using sc_setEncryptionKey_ready(3) [OF s1(1) r1(2) l assms(11) r2(1)] .
  have "c \<in> sc_collections s2" using no_key [of c s2] s2(1) assms(5) by auto
  with sc_getSecret_locked [OF r2(2) assms(7,8)] assms(12)
  have r3: "r3 = failure CollectionIsLockedError" "y3 = None" "s3 = s2" by simp_all
  note u = assms(13) [unfolded r3(3)]
  have r4: "succeeded r4" using sc_setEncryptionKey_ready(1) [OF e2(1) er2 l u assms(6)] s2(1) assms(5) by simp
  note e4 = sc_setEncryptionKey_effect [OF e2(1) u]
  have "sc_stored s4 (c, n) = Some (x, fd)" "c \<in> sc_unlocked s4"
    using e4(2) s2(2) e4(4) [OF r4 assms(6)] by (simp_all add: same_contents_def)
  from sc_getSecret_ready [OF e4(1) sc_setEncryptionKey_ready(3) [OF e2(1) er2 l u r4] this(2,1) assms(7,8,14)]
  show ?thesis using r1 r2 r3 r4 by simp
qed

theorem secret_survives_sealing_witness:
  "let s = snd (SqlCipherPlugin_setEncryptionKey demo_env ''box'' ''k'' (demo_vault []));
       s1 = snd (SqlCipherPlugin_setSecret ''box'' ''t'' ''y'' [(''a'', ''b'')] s);
       s2 = snd (SqlCipherPlugin_setEncryptionKey demo_env ''box'' [] s1);
       (r3, y3, s3) = SqlCipherPlugin_getSecret ''box'' ''t'' s2;
       s4 = snd (SqlCipherPlugin_setEncryptionKey demo_env ''box'' ''k'' s3)
   in r3 = failure CollectionIsLockedError
      \<and> fst (snd (SqlCipherPlugin_getSecret ''box'' ''t'' s4)) = Some (''y'', [(''a'', ''b'')])"
proof -
  define s where "s = snd (SqlCipherPlugin_setEncryptionKey demo_env ''box'' ''k'' (demo_vault []))"
  have a: "sc_ready s" "sc_engine_ready s" unfolding s_def by (code_simp, code_simp)
  have l: "\<And>x. length (ce_sha256 demo_env x) = 32" by (simp add: demo_env_def)
  have u: "''box'' \<in> sc_unlocked s" "sc_key s ''box'' = Some (cipher_key demo_env ''k'')" "qmap_ok [(''a'', ''b'')]"
    unfolding s_def by (code_simp, code_simp, simp add: qmap_ok_def)
  obtain r1 s1 where 1: "SqlCipherPlugin_setSecret ''box'' ''t'' ''y'' [(''a'', ''b'')] s = (r1, s1)" by fastforce
  obtain r2 s2 where 2: "SqlCipherPlugin_setEncryptionKey demo_env ''box'' [] s1 = (r2, s2)" by fastforce
  obtain r3 y3 s3 where 3: "SqlCipherPlugin_getSecret ''box'' ''t'' s2 = (r3, y3, s3)" by (metis prod_cases3)
  obtain r4 s4 where 4: "SqlCipherPlugin_setEncryptionKey demo_env ''box'' ''k'' s3 = (r4, s4)" by fastforce
  obtain r5 y5 s5 where 5: "SqlCipherPlugin_getSecret ''box'' ''t'' s4 = (r5, y5, s5)" by (metis prod_cases3)
  from secret_survives_sealing [OF a l u(1,2) _ _ _ u(3) 1 2 3 4 5] show ?thesis
    unfolding s_def [symmetric] by (simp add: 1 2 3 4 5)
qed

end
