(* ===== verification/Encrypted_Wrapper.thy ===== *)
theory Encrypted_Wrapper
  imports Plugin_Wrapper Sqlcipher_Plugin
begin

section \<open>The wrapper of an encrypted storage plugin in step with its plugin\<close>

text \<open>
  The operations of \<^verbatim>\<open>EncryptedStoragePluginWrapper\<close> (src/daemon/SecretsImpl/pluginwrapper.cpp, given in
  \<open>Plugin_Wrapper\<close>) on a plugin with the contract \<open>encrypted_storage_plugin\<close>: metadata and plugin
  stay in step. The result holds for every such plugin, and so for the SQLCipher plugin.
\<close>

subsection \<open>What each change does\<close>

fun encrypted_metadata :: "encrypted_wrapper_op \<Rightarrow> metadata_tables \<Rightarrow> (unit \<times> metadata_tables) option" where
  "encrypted_metadata (Encrypted_createCollection m key) = sql_insertCollection (collections_row m)"
| "encrypted_metadata (Encrypted_removeCollection c) = sql_deleteCollection c"
| "encrypted_metadata (Encrypted_setSecret m x fd) = sql_insertSecret (secrets_row m)"
| "encrypted_metadata (Encrypted_removeSecret c n) = sql_deleteSecret c n"
| "encrypted_metadata (Encrypted_setStandaloneSecret m x fd key) = sql_insertSecret (secrets_row m)"

fun encrypted_plugin :: "'s EncryptedStoragePlugin \<Rightarrow> encrypted_wrapper_op \<Rightarrow> 's \<Rightarrow> Result \<times> 's" where
  "encrypted_plugin p (Encrypted_createCollection m key) s = es_createCollection p (cm_collectionName m) key s"
| "encrypted_plugin p (Encrypted_removeCollection c) s = es_removeCollection p c s"
| "encrypted_plugin p (Encrypted_setSecret m x fd) s = es_setSecret p (sm_collectionName m) (sm_secretName m) x fd s"
| "encrypted_plugin p (Encrypted_removeSecret c n) s = es_removeSecret p c n s"
| "encrypted_plugin p (Encrypted_setStandaloneSecret m x fd key) s =
     es_setStandaloneSecret p (sm_secretName m) x fd key s"

fun encrypted_filter_ok :: "encrypted_wrapper_op \<Rightarrow> bool" where
  "encrypted_filter_ok (Encrypted_setSecret m x fd) = qmap_ok fd"
| "encrypted_filter_ok _ = True"

lemma encrypted_metadata_wf:
  "encrypted_metadata op t = Some ((), t') \<Longrightarrow> md_wf t \<Longrightarrow> md_wf t'"
  using sql_insertCollection_effect(6) sql_deleteCollection_effect(4) sql_insertSecret_effect(7)
    sql_deleteSecret_effect(4) by (cases op) auto

context encrypted_storage_plugin
begin

lemma encrypted_plugin_fails:
  assumes "ready s" and "encrypted_plugin plugin op s = (r, s')" and "\<not> succeeded r"
  shows "collections s' = collections s \<and> stored s' = stored s"
proof (cases op)
  case (Encrypted_createCollection m key)
  with assms(2) have "es_createCollection plugin (cm_collectionName m) key s = (r, s')" by simp
  from createCollection_fails [OF assms(1) this assms(3)] show ?thesis .
next
  case (Encrypted_removeCollection c)
  with assms(2) have "es_removeCollection plugin c s = (r, s')" by simp
  from removeCollection_fails [OF assms(1) this assms(3)] show ?thesis .
next
  case (Encrypted_setSecret m x fd)
  with assms(2) have "es_setSecret plugin (sm_collectionName m) (sm_secretName m) x fd s = (r, s')" by simp
  from setSecret_fails [OF assms(1) this assms(3)] show ?thesis .
next
  case (Encrypted_removeSecret c n)
  with assms(2) have "es_removeSecret plugin c n s = (r, s')" by simp
  from removeSecret_fails [OF assms(1) this assms(3)] show ?thesis .
next
  case (Encrypted_setStandaloneSecret m x fd key)
  with assms(2) have "s' = s" using setStandaloneSecret_refused [of "sm_secretName m" x fd key s] by simp
  then show ?thesis by simp
qed

lemma encrypted_sync_step:
  assumes "ready s" and "in_sync t (collections s) (dom (stored s))" and "md_wf t" and "encrypted_filter_ok op"
    and "encrypted_metadata op t = Some ((), t')" and "encrypted_plugin plugin op s = (r, s')" and "succeeded r"
  shows "ready s' \<and> in_sync t' (collections s') (dom (stored s'))"
proof (cases op)
  case (Encrypted_createCollection m key)
  with assms(6) have "es_createCollection plugin (cm_collectionName m) key s = (r, s')" by simp
  from createCollection_ok [OF assms(1) this assms(7)] in_sync_insertCollection assms(2,5) Encrypted_createCollection
  show ?thesis by simp
next
  case (Encrypted_removeCollection c)
  with assms(6) have "es_removeCollection plugin c s = (r, s')" by simp
  note e = removeCollection_ok [OF assms(1) this assms(7)]
  have d: "dom (stored s') = {i \<in> dom (stored s). fst i \<noteq> c}" using e by auto
  from in_sync_deleteCollection [OF _ _ assms(3)] assms(2,5) Encrypted_removeCollection e
  show ?thesis unfolding d by simp
next
  case (Encrypted_setSecret m x fd)
  with assms(4,6) have "qmap_ok fd" "es_setSecret plugin (sm_collectionName m) (sm_secretName m) x fd s = (r, s')"
    by simp_all
  note e = setSecret_ok [OF assms(1) this assms(7)]
  have d: "dom (stored s') = insert (sm_collectionName m, sm_secretName m) (dom (stored s))" using e by simp
  from in_sync_insertSecret assms(2,5) Encrypted_setSecret e show ?thesis unfolding d by simp
next
  case (Encrypted_removeSecret c n)
  with assms(6) have "es_removeSecret plugin c n s = (r, s')" by simp
  note e = removeSecret_ok [OF assms(1) this assms(7)]
  have d: "dom (stored s') = dom (stored s) - {(c, n)}" using e by simp
  from in_sync_deleteSecret assms(2,5) Encrypted_removeSecret e show ?thesis unfolding d by simp
next
  case (Encrypted_setStandaloneSecret m x fd key)
  with assms(6,7) have False using setStandaloneSecret_refused [of "sm_secretName m" x fd key s] by simp
  then show ?thesis ..
qed

text \<open>
  The two sides agree after an operation: \<open>t'\<close> is the metadata, and on a failure neither side has changed.
\<close>

definition sync_after :: "metadata_tables \<Rightarrow> 's \<Rightarrow> Result \<times> 's PluginWrapper \<Rightarrow> bool" where
  "sync_after t s rw \<longleftrightarrow>
     (\<exists>t'. settled t' (pw_plugin (snd rw)) (snd rw) \<and> md_wf t'
       \<and> in_sync t' (collections (pw_plugin (snd rw))) (dom (stored (pw_plugin (snd rw))))
       \<and> (if succeeded (fst rw) then ready (pw_plugin (snd rw))
          else t' = t \<and> collections (pw_plugin (snd rw)) = collections s \<and> stored (pw_plugin (snd rw)) = stored s))"

definition synced :: "metadata_tables \<Rightarrow> 's \<Rightarrow> 's PluginWrapper \<Rightarrow> bool" where
  "synced t s w \<longleftrightarrow> settled t (pw_plugin w) w \<and> ready (pw_plugin w) \<and> md_wf t
     \<and> collections (pw_plugin w) = collections s \<and> stored (pw_plugin w) = stored s
     \<and> in_sync t (collections s) (dom (stored s))"

lemma sync_after_refused: "synced t s w \<Longrightarrow> \<not> succeeded r \<Longrightarrow> sync_after t s (r, w)"
  by (auto simp: sync_after_def synced_def)

lemma sync_after_locked:
  assumes "synced t s w" and "\<And>w1. synced t s w1 \<Longrightarrow> sync_after t s (k w1)"
  shows "sync_after t s (unless_locked p k w)"
proof -
  have "settled t (pw_plugin w) w" using assms(1) by (simp add: synced_def)
  moreover have "synced t s w1" if "settled t (pw_plugin w) w1" for w1
    using that assms(1) by (simp add: synced_def settled_def)
  ultimately show ?thesis
    using unless_locked_settled [of t "pw_plugin w" w p k] assms by (auto intro!: sync_after_refused)
qed

lemma sync_after_collection_locked:
  assumes "synced t s w" and "\<And>w1. synced t s w1 \<Longrightarrow> sync_after t s (k w1)"
  shows "sync_after t s (unless_collection_locked plugin c k w)"
proof -
  obtain r l s1 where q: "es_isCollectionLocked plugin c False (pw_plugin w) = (r, l, s1)" by (metis prod_cases3)
  have "ready (pw_plugin w)" using assms(1) by (simp add: synced_def)
  note k = isCollectionLocked_keeps [OF this q]
  have "synced t s (w\<lparr>pw_plugin := s1\<rparr>)" using k assms(1) by (simp add: synced_def settled_def)
  with assms(2) q show ?thesis by (auto simp: unless_collection_locked_def Let_def intro: sync_after_refused)
qed

lemma sync_after_exists:
  assumes "synced t s w" and "\<And>w1. synced t s w1 \<Longrightarrow> sync_after t s (k w1)"
  shows "sync_after t s (unless_secret_exists m k w)"
proof -
  have "settled t (pw_plugin w) w" using assms(1) by (simp add: synced_def)
  moreover have "synced t s w1" if "settled t (pw_plugin w) w1" for w1
    using that assms(1) by (simp add: synced_def settled_def)
  ultimately show ?thesis
    using unless_secret_exists_settled [of t "pw_plugin w" w m k] assms by (auto intro!: sync_after_refused)
qed

lemma sync_after_transaction:
  assumes "synced t s w" and "changes_by change (encrypted_metadata op)" and "encrypted_filter_ok op"
  shows "sync_after t s (metadata_transaction change (encrypted_plugin plugin op) w)"
proof -
  let ?s = "pw_plugin w"
  have w: "settled t ?s w" "ready ?s" "md_wf t" "in_sync t (collections ?s) (dom (stored ?s))"
    "collections ?s = collections s" "stored ?s = stored s" using assms(1) by (simp_all add: synced_def)
  obtain r w' where rw: "metadata_transaction change (encrypted_plugin plugin op) w = (r, w')"
    by (cases "metadata_transaction change (encrypted_plugin plugin op) w")
  from metadata_transaction_outcome(1) [OF assms(2) w(1), of "encrypted_plugin plugin op"] obtain t' where
    t': "settled t' (pw_plugin w') w'"
    and o: "if succeeded r
       then encrypted_metadata op t = Some ((), t') \<and> (\<exists>r2. encrypted_plugin plugin op ?s = (r2, pw_plugin w') \<and> succeeded r2)
       else t' = t \<and> (pw_plugin w' = ?s \<or> (\<exists>r2. encrypted_plugin plugin op ?s = (r2, pw_plugin w') \<and> \<not> succeeded r2))"
    unfolding wrapper_outcome_def rw fst_conv snd_conv by blast
  show ?thesis
  proof (cases "succeeded r")
    case True
    with o obtain r2 where x: "encrypted_metadata op t = Some ((), t')" "encrypted_plugin plugin op ?s = (r2, pw_plugin w')"
      "succeeded r2" by auto
    from encrypted_sync_step [OF w(2,4,3) assms(3) x] encrypted_metadata_wf [OF x(1) w(3)] t' True rw
    show ?thesis by (auto simp: sync_after_def)
  next
    case False
    with o encrypted_plugin_fails [OF w(2), of op] have "t' = t" "collections (pw_plugin w') = collections ?s"
      "stored (pw_plugin w') = stored ?s" by auto
    with t' False w rw show ?thesis by (auto simp: sync_after_def)
  qed
qed

lemma sync_after_create:
  assumes "synced t s w"
  shows "sync_after t s (EncryptedStoragePluginWrapper_createCollection plugin m key w)"
  unfolding EncryptedStoragePluginWrapper_createCollection_def
proof (rule sync_after_locked [OF assms], goal_cases)
  case (1 w1)
  have "settled t (pw_plugin w1) w1" using 1 by (simp add: synced_def)
  from collectionMetadata_settled [OF this, of "cm_collectionName m" unset_collection_metadata False]
  obtain r m' d where q: "MetadataDatabase_collectionMetadata (cm_collectionName m) unset_collection_metadata
      False (pw_metadataDb w1) = (r, m', cm_collectionName m \<in> collection_set t, d)"
    "succeeded r" "settled t (pw_plugin w1) (w1\<lparr>pw_metadataDb := d\<rparr>)"
    by blast
  define w2 where "w2 = w1\<lparr>pw_metadataDb := d\<rparr>"
  have w2: "synced t s w2" using q(3) 1 by (simp add: synced_def w2_def)
  obtain r3 w3 where x: "metadata_transaction (MetadataDatabase_insertCollectionMetadata m)
      (es_createCollection plugin (cm_collectionName m) key) w2 = (r3, w3)"
    by (cases "metadata_transaction (MetadataDatabase_insertCollectionMetadata m)
      (es_createCollection plugin (cm_collectionName m) key) w2")
  have "encrypted_plugin plugin (Encrypted_createCollection m key) = es_createCollection plugin (cm_collectionName m) key"
    by (rule ext) simp
  then have a: "sync_after t s (r3, w3)"
    using sync_after_transaction [OF w2, of "MetadataDatabase_insertCollectionMetadata m" "Encrypted_createCollection m key"]
      changes_by_ops(1) x by simp
  have "sync_after t s (r3, w3\<lparr>pw_plugin := snd (es_setEncryptionKey plugin (cm_collectionName m) [] (pw_plugin w3))\<rparr>)"
    if r3: "succeeded r3"
  proof -
    obtain r4 s4 where k: "es_setEncryptionKey plugin (cm_collectionName m) [] (pw_plugin w3) = (r4, s4)"
      by (cases "es_setEncryptionKey plugin (cm_collectionName m) [] (pw_plugin w3)")
    have "ready (pw_plugin w3)" using a r3 by (auto simp: sync_after_def)
    from setEncryptionKey_keeps [OF this k] a r3 k show ?thesis by (auto simp: sync_after_def settled_def)
  qed
  with a q x w2 show ?case by (auto simp: w2_def [symmetric] intro: sync_after_refused)
qed

lemma encrypted_keeps_sync:
  assumes "synced t s w" and "encrypted_filter_ok op"
  shows "sync_after t s (encrypted_wrapper_apply plugin op w)"
proof -
  note tx = sync_after_transaction [where op = op, OF _ _ assms(2)]
  show ?thesis
  proof (cases op)
    case (Encrypted_createCollection m key)
    with sync_after_create [OF assms(1)] show ?thesis by simp
  next
    case (Encrypted_removeCollection c)
    then have "encrypted_plugin plugin op = es_removeCollection plugin c" by (auto simp: fun_eq_iff)
    with tx [of t s _ "MetadataDatabase_deleteCollectionMetadata c"] changes_by_ops(2) Encrypted_removeCollection
    show ?thesis by (simp add: EncryptedStoragePluginWrapper_removeCollection_def)
        (intro sync_after_locked [OF assms(1)]; simp)
  next
    case (Encrypted_setSecret m x fd)
    then have "encrypted_plugin plugin op = es_setSecret plugin (sm_collectionName m) (sm_secretName m) x fd"
      by (auto simp: fun_eq_iff)
    with tx [of t s _ "MetadataDatabase_insertSecretMetadata m"] changes_by_ops(3) Encrypted_setSecret
    show ?thesis by (simp add: EncryptedStoragePluginWrapper_setSecret_def)
        (intro sync_after_locked [OF assms(1)] sync_after_collection_locked; simp)
  next
    case (Encrypted_removeSecret c n)
    then have "encrypted_plugin plugin op = es_removeSecret plugin c n" by (auto simp: fun_eq_iff)
    with tx [of t s _ "MetadataDatabase_deleteSecretMetadata c n"] changes_by_ops(5) Encrypted_removeSecret
    show ?thesis by (simp add: EncryptedStoragePluginWrapper_removeSecret_def)
        (intro sync_after_locked [OF assms(1)] sync_after_collection_locked; simp)
  next
    case (Encrypted_setStandaloneSecret m x fd key)
    then have "encrypted_plugin plugin op = es_setStandaloneSecret plugin (sm_secretName m) x fd key"
      by (auto simp: fun_eq_iff)
    with tx [of t s _ "MetadataDatabase_insertSecretMetadata m"] changes_by_ops(3) Encrypted_setStandaloneSecret
    show ?thesis by (simp add: EncryptedStoragePluginWrapper_setStandaloneSecret_def)
        (intro sync_after_locked [OF assms(1)] sync_after_exists; simp)
  qed
qed

end

text \<open>
  C35. Metadata and the SQLCipher plugin stay in step. Let the engine of the metadata database refuse nothing, and
  the engine and the file system under the plugin answer anything. A change through
  \<open>EncryptedStoragePluginWrapper\<close> (creating a collection includes locking it again where its unlock
  semantic asks for that) leaves the metadata idle, well formed and in agreement with the collections and
  secrets the plugin durably stores, in locked collections too; when the change fails neither side has changed.
\<close>

theorem encrypted_wrapper_sync_invariant:
  assumes "settled t s w" and "sc_ready s" and "md_wf t" and "in_sync t (sc_collections s) (dom (sc_stored s))"
    and "encrypted_filter_ok op" and "encrypted_wrapper_apply (sqlcipher_plugin env) op w = (r, w')"
  shows "\<exists>t'. settled t' (pw_plugin w') w' \<and> md_wf t'
    \<and> in_sync t' (sc_collections (pw_plugin w')) (dom (sc_stored (pw_plugin w')))
    \<and> (succeeded r \<longrightarrow> sc_ready (pw_plugin w'))
    \<and> (\<not> succeeded r \<longrightarrow> t' = t \<and> sc_collections (pw_plugin w') = sc_collections s \<and> sc_stored (pw_plugin w') = sc_stored s)"
proof -
  have "pw_plugin w = s" using assms(1) by (simp add: settled_def)
  with assms have "sqlcipher.synced t s w" by (simp add: sqlcipher.synced_def)
  from sqlcipher.encrypted_keeps_sync [OF this assms(5), of env] assms(6) show ?thesis
    by (auto simp: sqlcipher.sync_after_def split: if_splits)
qed

text \<open>A wrapper whose SQLCipher plugin holds what its metadata says, with the collection locked.\<close>

definition demo_encrypted_wrapper :: "answer list \<Rightarrow> SqlCipherPlugin PluginWrapper" where
  "demo_encrypted_wrapper as =
     \<lparr>pw_metadataDb =
        \<lparr>db_file = Some \<lparr>t_Collections = [collections_row (standalone_metadata\<lparr>cm_collectionName := ''box''\<rparr>)],
           t_Secrets = [secrets_row (imported_secret demo_cfg (''box'', ''s''))]\<rparr>,
         db_fileKey = [], db_userVersion = 1, db_isOpen = True, db_connKey = [], db_work = None,
         db_semaphore = 0, db_prepared = [], db_localeName = ''C'', db_answers = []\<rparr>,
      pw_initialized = True, pw_plugin = demo_vault as\<rparr>"

lemma demo_encrypted_settled:
  "\<exists>t. settled t (demo_vault as) (demo_encrypted_wrapper as) \<and> md_wf t
     \<and> in_sync t (sc_collections (demo_vault as)) (dom (sc_stored (demo_vault as)))"
proof -
  let ?w = "demo_encrypted_wrapper as" and ?s = "demo_vault as"
  obtain t where t: "db_file (pw_metadataDb ?w) = Some t" by (simp add: demo_encrypted_wrapper_def)
  have i: "idle (pw_metadataDb ?w)" "engine_ready (pw_metadataDb ?w)" "pw_plugin ?w = ?s"
    by (simp_all add: demo_encrypted_wrapper_def idle_def db_readable_def engine_ready_def)
  have "md_wf t" "collection_set t = {''box''}" "secret_set t = {(''box'', ''s'')}"
    using t by (auto simp: demo_encrypted_wrapper_def md_wf_def collection_set_def secret_set_def standalone_metadata_def
        imported_secret_def)
  moreover have "sc_collections ?s = {''box''}" by (simp add: sc_collections_def demo_vault_def)
  moreover have "sc_stored ?s i \<noteq> None \<longleftrightarrow> i = (''box'', ''s'')" for i
    by (cases i) (auto simp: sc_stored_def demo_vault_def cipher_stored_def)
  then have "dom (sc_stored ?s) = {(''box'', ''s'')}" by (auto simp: dom_def)
  ultimately show ?thesis using i t by (auto simp: settled_def in_sync_def)
qed

theorem encrypted_wrapper_sync_invariant_witness:
  "\<exists>t'. let w' = snd (encrypted_wrapper_apply (sqlcipher_plugin demo_env) (Encrypted_removeCollection ''box'')
                     (demo_encrypted_wrapper []))
        in settled t' (pw_plugin w') w' \<and> in_sync t' (sc_collections (pw_plugin w')) (dom (sc_stored (pw_plugin w')))"
proof -
  obtain t where t: "settled t (demo_vault []) (demo_encrypted_wrapper [])" "md_wf t"
    "in_sync t (sc_collections (demo_vault [])) (dom (sc_stored (demo_vault [])))"
    using demo_encrypted_settled by blast
  have r: "sc_ready (demo_vault [])" by code_simp
  from encrypted_wrapper_sync_invariant [OF t(1) r t(2,3) _ prod.collapse [symmetric],
      of "Encrypted_removeCollection ''box''" demo_env]
  show ?thesis by (auto simp: Let_def)
qed

end
