(* ===== verification/Function_Wrappers.thy ===== *)
theory Function_Wrappers
  imports Crypto_Wrapper Encrypted_Wrapper
begin

section \<open>The plugin function wrappers\<close>

text \<open>
  The functions the request processor runs on the plugin thread
  (src/daemon/SecretsImpl/pluginfunctionwrappers.cpp). Most of them call one operation of a plugin
  wrapper; the others combine several: find the plugin a lock code is meant for, lock and unlock all metadata databases,
  encrypt a secret before it is stored, and unlock a collection, use it and lock it again.

  A plugin the daemon has loaded is a host record: the plugin's operations, the configuration of its
  metadata database and the wrapper's state. Lists of plugins are the values of the daemon's maps, in order of the names.
\<close>

subsection \<open>Loaded plugins\<close>

record 's StorageHost =
  sh_plugin :: "'s StoragePlugin"
  sh_config :: MetadataConfig
  sh_wrapper :: "'s PluginWrapper"

record 's EncryptedHost =
  eh_plugin :: "'s EncryptedStoragePlugin"
  eh_config :: MetadataConfig
  eh_wrapper :: "'s PluginWrapper"

record 'e EncryptionHost =
  nh_base :: "'e PluginBase"
  nh_encryption :: EncryptionPlugin
  nh_state :: 'e

record ('e, 's, 'c) plugin_maps =
  pm_encryption :: "(qstring \<times> 'e EncryptionHost) list"
  pm_storage :: "(qstring \<times> 's StorageHost) list"
  pm_encryptedStorage :: "(qstring \<times> 'c EncryptedHost) list"

text \<open>
  A wrapper is itself a plugin: it overrides the locking functions of \<^verbatim>\<open>PluginBase\<close> with calls
  of its plugin's, and inherits \<open>isAvailable\<close>.
\<close>

definition StorageHost_base :: "'s StorageHost \<Rightarrow> 's PluginWrapper PluginBase" where
  "StorageHost_base h =
     \<lparr>pb_supportsLocking = (\<lambda>w. pb_supportsLocking (sh_plugin h) (pw_plugin w)),
      pb_isAvailable = (\<lambda>_. True),
      pb_isLocked = (\<lambda>w. pb_isLocked (sh_plugin h) (pw_plugin w)),
      pb_lock = PluginWrapper_lock (sh_plugin h),
      pb_unlock = PluginWrapper_unlock (sh_plugin h) (StoragePluginWrapper_initialize (sh_plugin h) (sh_config h)),
      pb_setLockCode = PluginWrapper_setLockCode (sh_plugin h) (StoragePluginWrapper_initialize (sh_plugin h) (sh_config h))\<rparr>"

definition EncryptedHost_base :: "'s EncryptedHost \<Rightarrow> 's PluginWrapper PluginBase" where
  "EncryptedHost_base h =
     \<lparr>pb_supportsLocking = (\<lambda>w. pb_supportsLocking (eh_plugin h) (pw_plugin w)),
      pb_isAvailable = (\<lambda>_. True),
      pb_isLocked = (\<lambda>w. pb_isLocked (eh_plugin h) (pw_plugin w)),
      pb_lock = PluginWrapper_lock (eh_plugin h),
      pb_unlock = PluginWrapper_unlock (eh_plugin h) (EncryptedStoragePluginWrapper_initialize (eh_plugin h) (eh_config h)),
      pb_setLockCode = PluginWrapper_setLockCode (eh_plugin h)
        (EncryptedStoragePluginWrapper_initialize (eh_plugin h) (eh_config h))\<rparr>"

definition pluginState :: "('s, 'x) PluginBase_scheme \<Rightarrow> 's \<Rightarrow> bool \<times> bool" where
  "pluginState p s = (pb_isAvailable p s, pb_isLocked p s)"

subsection \<open>The lock code of one plugin\<close>

datatype LockStatus = Unknown | Unsupported | Unlocked | Locked

definition lock_status :: "('s, 'x) PluginBase_scheme \<Rightarrow> 's \<Rightarrow> LockStatus" where
  "lock_status p s =
     (if \<not> pb_supportsLocking p s then Unsupported else if pb_isLocked p s then Locked else Unlocked)"

text \<open>The lookup among the encryption plugins has no effect: its result is not assigned.\<close>

definition queryLockSpecificPlugin :: "qstring \<Rightarrow> ('e, 's, 'c) plugin_maps \<Rightarrow> bool \<times> LockStatus \<times> Result" where
  "queryLockSpecificPlugin lockCodeTarget ps =
     (case map_of (pm_storage ps) lockCodeTarget of
        Some h \<Rightarrow> (True, lock_status (StorageHost_base h) (sh_wrapper h), success)
      | None \<Rightarrow>
          (case map_of (pm_encryptedStorage ps) lockCodeTarget of
             Some h \<Rightarrow> (True, lock_status (EncryptedHost_base h) (eh_wrapper h), success)
           | None \<Rightarrow> (False, Unknown, success)))"

text \<open>The target of a lock code is looked up among the storage, the encrypted storage and the encryption plugins.\<close>

definition on_specific_plugin ::
    "('s PluginWrapper PluginBase \<Rightarrow> 's PluginWrapper \<Rightarrow> Result \<times> 's PluginWrapper)
     \<Rightarrow> ('c PluginWrapper PluginBase \<Rightarrow> 'c PluginWrapper \<Rightarrow> Result \<times> 'c PluginWrapper)
     \<Rightarrow> ('e PluginBase \<Rightarrow> 'e \<Rightarrow> Result \<times> 'e) \<Rightarrow> qstring \<Rightarrow> ('e, 's, 'c) plugin_maps
     \<Rightarrow> (bool \<times> Result) \<times> ('e, 's, 'c) plugin_maps" where
  "on_specific_plugin fs fc fe target ps =
     (case map_of (pm_storage ps) target of
        Some h \<Rightarrow>
          let (r, w) = fs (StorageHost_base h) (sh_wrapper h)
          in ((True, r), ps\<lparr>pm_storage := qmap_insert target (h\<lparr>sh_wrapper := w\<rparr>) (pm_storage ps)\<rparr>)
      | None \<Rightarrow>
          (case map_of (pm_encryptedStorage ps) target of
             Some h \<Rightarrow>
               let (r, w) = fc (EncryptedHost_base h) (eh_wrapper h)
               in ((True, r), ps\<lparr>pm_encryptedStorage := qmap_insert target (h\<lparr>eh_wrapper := w\<rparr>) (pm_encryptedStorage ps)\<rparr>)
           | None \<Rightarrow>
               (case map_of (pm_encryption ps) target of
                  Some h \<Rightarrow>
                    let (r, e) = fe (nh_base h) (nh_state h)
                    in ((True, r), ps\<lparr>pm_encryption := qmap_insert target (h\<lparr>nh_state := e\<rparr>) (pm_encryption ps)\<rparr>)
                | None \<Rightarrow> ((False, success), ps))))"

definition lock_plugin :: "'s PluginBase \<Rightarrow> 's \<Rightarrow> Result \<times> 's" where
  "lock_plugin p s =
     (if \<not> pb_supportsLocking p s then (failure OperationNotSupportedError, s)
      else if pb_isLocked p s then (success, s)
      else let (ok, s1) = pb_lock p s in (if ok then success else failure UnknownError, s1))"

definition unlock_plugin :: "qbytes \<Rightarrow> 's PluginBase \<Rightarrow> 's \<Rightarrow> Result \<times> 's" where
  "unlock_plugin lockCode p s =
     (if \<not> pb_supportsLocking p s then (failure OperationNotSupportedError, s)
      else if \<not> pb_isLocked p s then (success, s)
      else let (ok, s1) = pb_unlock p lockCode s in (if ok then success else failure UnknownError, s1))"

definition modify_lock_plugin :: "qbytes \<Rightarrow> qbytes \<Rightarrow> 's PluginBase \<Rightarrow> 's \<Rightarrow> Result \<times> 's" where
  "modify_lock_plugin oldLockCode newLockCode p s =
     (if \<not> pb_supportsLocking p s then (failure OperationNotSupportedError, s)
      else let (ok, s1) = pb_setLockCode p oldLockCode newLockCode s
           in (if ok then success else failure UnknownError, s1))"

definition lockSpecificPlugin ::
    "qstring \<Rightarrow> ('e, 's, 'c) plugin_maps \<Rightarrow> (bool \<times> Result) \<times> ('e, 's, 'c) plugin_maps" where
  "lockSpecificPlugin = on_specific_plugin lock_plugin lock_plugin lock_plugin"

definition unlockSpecificPlugin ::
    "qstring \<Rightarrow> qbytes \<Rightarrow> ('e, 's, 'c) plugin_maps \<Rightarrow> (bool \<times> Result) \<times> ('e, 's, 'c) plugin_maps" where
  "unlockSpecificPlugin lockCodeTarget lockCode =
     on_specific_plugin (unlock_plugin lockCode) (unlock_plugin lockCode) (unlock_plugin lockCode) lockCodeTarget"

definition modifyLockSpecificPlugin ::
    "qstring \<Rightarrow> qbytes \<times> qbytes \<Rightarrow> ('e, 's, 'c) plugin_maps \<Rightarrow> (bool \<times> Result) \<times> ('e, 's, 'c) plugin_maps" where
  "modifyLockSpecificPlugin lockCodeTarget newAndOldLockCode =
     (case newAndOldLockCode of (oldCode, newCode) \<Rightarrow>
        on_specific_plugin (modify_lock_plugin oldCode newCode) (modify_lock_plugin oldCode newCode)
          (modify_lock_plugin oldCode newCode) lockCodeTarget)"

subsection \<open>The master lock of all metadata databases\<close>

text \<open>Every plugin is tried; the result says whether all of them succeeded.\<close>

primrec for_each_plugin :: "('h \<Rightarrow> bool \<times> 'h) \<Rightarrow> 'h list \<Rightarrow> bool \<times> 'h list" where
  "for_each_plugin f [] = (True, [])"
| "for_each_plugin f (h # hs) =
     (let (ok, h1) = f h; (oks, hs1) = for_each_plugin f hs in (ok \<and> oks, h1 # hs1))"

definition master_lock :: "'s PluginWrapper \<Rightarrow> bool \<times> 's PluginWrapper" where
  "master_lock w =
     (let (locked, w1) = PluginWrapper_isMasterLocked w
      in if locked then (True, w1) else PluginWrapper_masterLock w1)"

definition master_unlock ::
    "(qbytes \<Rightarrow> 's PluginWrapper \<Rightarrow> bool \<times> 's PluginWrapper) \<Rightarrow> qbytes \<Rightarrow> 's PluginWrapper \<Rightarrow> bool \<times> 's PluginWrapper" where
  "master_unlock initialize key w =
     (let (locked, w1) = PluginWrapper_isMasterLocked w
      in if locked then PluginWrapper_masterUnlock initialize key w1 else (True, w1))"

definition modify_master_lock ::
    "(qbytes \<Rightarrow> 's PluginWrapper \<Rightarrow> bool \<times> 's PluginWrapper) \<Rightarrow> qbytes \<Rightarrow> qbytes \<Rightarrow> 's PluginWrapper
     \<Rightarrow> bool \<times> 's PluginWrapper" where
  "modify_master_lock initialize oldKey newKey w =
     (let (locked, w1) = PluginWrapper_isMasterLocked w;
          w2 = (if locked then snd (PluginWrapper_masterUnlock initialize oldKey w1) else w1)
      in PluginWrapper_setMasterLockKey initialize oldKey newKey w2)"

definition on_storage ::
    "('s StorageHost \<Rightarrow> 's PluginWrapper \<Rightarrow> bool \<times> 's PluginWrapper) \<Rightarrow> 's StorageHost \<Rightarrow> bool \<times> 's StorageHost" where
  "on_storage f h = (let (ok, w) = f h (sh_wrapper h) in (ok, h\<lparr>sh_wrapper := w\<rparr>))"

definition on_encrypted ::
    "('s EncryptedHost \<Rightarrow> 's PluginWrapper \<Rightarrow> bool \<times> 's PluginWrapper) \<Rightarrow> 's EncryptedHost \<Rightarrow> bool \<times> 's EncryptedHost" where
  "on_encrypted f h = (let (ok, w) = f h (eh_wrapper h) in (ok, h\<lparr>eh_wrapper := w\<rparr>))"

abbreviation initialize_storage :: "'s StorageHost \<Rightarrow> qbytes \<Rightarrow> 's PluginWrapper \<Rightarrow> bool \<times> 's PluginWrapper" where
  "initialize_storage h \<equiv> StoragePluginWrapper_initialize (sh_plugin h) (sh_config h)"

abbreviation initialize_encrypted :: "'s EncryptedHost \<Rightarrow> qbytes \<Rightarrow> 's PluginWrapper \<Rightarrow> bool \<times> 's PluginWrapper" where
  "initialize_encrypted h \<equiv> EncryptedStoragePluginWrapper_initialize (eh_plugin h) (eh_config h)"

definition masterLockPlugins ::
    "'s StorageHost list \<Rightarrow> 'c EncryptedHost list \<Rightarrow> bool \<times> 's StorageHost list \<times> 'c EncryptedHost list" where
  "masterLockPlugins storagePlugins encryptedStoragePlugins =
     (let (ok, hs) = for_each_plugin (on_storage (\<lambda>_. master_lock)) storagePlugins;
          (ok2, es) = for_each_plugin (on_encrypted (\<lambda>_. master_lock)) encryptedStoragePlugins
      in (ok \<and> ok2, hs, es))"

definition masterUnlockPlugins ::
    "'s StorageHost list \<Rightarrow> 'c EncryptedHost list \<Rightarrow> qbytes
     \<Rightarrow> bool \<times> 's StorageHost list \<times> 'c EncryptedHost list" where
  "masterUnlockPlugins storagePlugins encryptedStoragePlugins encryptionKey =
     (let (ok, hs) = for_each_plugin (on_storage (\<lambda>h. master_unlock (initialize_storage h) encryptionKey)) storagePlugins;
          (ok2, es) = for_each_plugin (on_encrypted (\<lambda>h. master_unlock (initialize_encrypted h) encryptionKey))
                        encryptedStoragePlugins
      in (ok \<and> ok2, hs, es))"

definition modifyMasterLockPlugins ::
    "'s StorageHost list \<Rightarrow> 'c EncryptedHost list \<Rightarrow> qbytes \<Rightarrow> qbytes
     \<Rightarrow> bool \<times> 's StorageHost list \<times> 'c EncryptedHost list" where
  "modifyMasterLockPlugins storagePlugins encryptedStoragePlugins oldEncryptionKey newEncryptionKey =
     (let (ok, hs) = for_each_plugin
            (on_storage (\<lambda>h. modify_master_lock (initialize_storage h) oldEncryptionKey newEncryptionKey)) storagePlugins;
          (ok2, es) = for_each_plugin
            (on_encrypted (\<lambda>h. modify_master_lock (initialize_encrypted h) oldEncryptionKey newEncryptionKey))
            encryptedStoragePlugins
      in (ok \<and> ok2, hs, es))"

subsection \<open>Stored keys\<close>

definition identifiers_in :: "qstring \<Rightarrow> qstring \<Rightarrow> qstring list \<Rightarrow> Identifier list" where
  "identifiers_in name cname = map (\<lambda>n. \<lparr>id_name = n, id_collectionName = cname, id_storagePluginName = name\<rparr>)"

text \<open>
  The loop over the collections of a plugin. A collection that is locked is passed over; any other
  error ends the loop, with the identifiers found so far.
\<close>

primrec stored_keys_of_collections ::
    "(qstring \<Rightarrow> 'w \<Rightarrow> Result \<times> qstring list \<times> 'w) \<Rightarrow> qstring \<Rightarrow> qstring list \<Rightarrow> Result \<Rightarrow> Identifier list \<Rightarrow> 'w
     \<Rightarrow> Result \<times> Identifier list \<times> 'w" where
  "stored_keys_of_collections keyNames name [] result idents w = (result, idents, w)"
| "stored_keys_of_collections keyNames name (cname # cnames) result idents w =
     (let (r, knames, w1) = keyNames cname w
      in if \<not> succeeded r \<and> res_errorCode r \<noteq> CollectionIsLockedError then (r, idents, w1)
         else stored_keys_of_collections keyNames name cnames success
                (idents @ identifiers_in name cname knames) w1)"

definition stored_keys_of_plugin ::
    "('w \<Rightarrow> Result \<times> (qstring \<times> bool) list \<times> 'w) \<Rightarrow> (qstring \<Rightarrow> 'w \<Rightarrow> Result \<times> qstring list \<times> 'w) \<Rightarrow> qstring \<Rightarrow> 'w
     \<Rightarrow> Result \<times> Identifier list \<times> 'w" where
  "stored_keys_of_plugin collectionNames keyNames name w =
     (let (result, cnamesMap, w1) = collectionNames w
      in if \<not> succeeded result then (result, [], w1)
         else stored_keys_of_collections keyNames name (map fst cnamesMap) result [] w1)"

text \<open>The plugin the keys are asked of; a crypto storage plugin is asked as such, and not as the encrypted storage plugin it also is.\<close>

datatype ('s, 'c) key_store =
    NoKeyStore
  | KeyStorage "'s StorageHost"
  | KeyCryptoStorage "'c EncryptedHost" "'c CryptoPlugin"
  | KeyEncryptedStorage "'c EncryptedHost"

definition storedKeyIdentifiers ::
    "variant_map \<Rightarrow> ('s, 'c) key_store \<Rightarrow> Result \<times> Identifier list \<times> ('s, 'c) key_store" where
  "storedKeyIdentifiers customParameters store =
     (case store of
        NoKeyStore \<Rightarrow> (failure InvalidExtensionPluginError, [], NoKeyStore)
      | KeyStorage h \<Rightarrow>
          let (r, ids, w) = stored_keys_of_plugin (StoragePluginWrapper_collectionNames (sh_plugin h))
                PluginWrapper_keyNames (mc_storagePluginName (sh_config h)) (sh_wrapper h)
          in (r, ids, KeyStorage (h\<lparr>sh_wrapper := w\<rparr>))
      | KeyCryptoStorage h e \<Rightarrow>
          let (r, ids, w) = stored_keys_of_plugin (EncryptedStoragePluginWrapper_collectionNames (eh_plugin h))
                (\<lambda>c. CryptoStoragePluginWrapper_keyNames e c customParameters)
                (mc_storagePluginName (eh_config h)) (eh_wrapper h)
          in (r, ids, KeyCryptoStorage (h\<lparr>eh_wrapper := w\<rparr>) e)
      | KeyEncryptedStorage h \<Rightarrow>
          let (r, ids, w) = stored_keys_of_plugin (EncryptedStoragePluginWrapper_collectionNames (eh_plugin h))
                PluginWrapper_keyNames (mc_storagePluginName (eh_config h)) (eh_wrapper h)
          in (r, ids, KeyEncryptedStorage (h\<lparr>eh_wrapper := w\<rparr>)))"

record CollectionInfo =
  ci_collectionName :: qstring
  ci_collectionKey :: qbytes
  ci_relockRequired :: bool

text \<open>The first lambda of \<open>storedKeyIdentifiersFromCollection\<close>; its result carries the flag \<open>wasLocked\<close>.\<close>

definition unlock_and_list_keys ::
    "'c EncryptedHost \<Rightarrow> (qstring \<Rightarrow> 'c PluginWrapper \<Rightarrow> Result \<times> qstring list \<times> 'c PluginWrapper) \<Rightarrow> qstring \<Rightarrow> qbytes
     \<Rightarrow> 'c PluginWrapper \<Rightarrow> Result \<times> bool \<times> Identifier list \<times> 'c PluginWrapper" where
  "unlock_and_list_keys h keyNames cname key w =
     (let (r, knames, w1) = keyNames cname w;
          name = mc_storagePluginName (eh_config h)
      in if \<not> succeeded r \<and> res_errorCode r = CollectionIsLockedError
         then let (r2, w2) = EncryptedStoragePluginWrapper_setEncryptionKey (eh_plugin h) (eh_config h) cname key w1
              in if \<not> succeeded r2 then (r2, True, [], w2)
                 else let (r3, knames3, w3) = keyNames cname w2
                      in (r3, True, if succeeded r3 then identifiers_in name cname knames3 else [], w3)
         else (r, False, if succeeded r then identifiers_in name cname knames else [], w1))"

text \<open>
  In the last branch the collection is locked again through the pointer to the crypto storage plugin,
  which is null there: \<open>None\<close> is the call on the null pointer.
\<close>

definition storedKeyIdentifiersFromCollection ::
    "CollectionInfo \<Rightarrow> variant_map \<Rightarrow> ('s, 'c) key_store \<Rightarrow> (Result \<times> Identifier list \<times> ('s, 'c) key_store) option" where
  "storedKeyIdentifiersFromCollection info customParameters store =
     (case store of
        NoKeyStore \<Rightarrow> Some (failure InvalidExtensionPluginError, [], NoKeyStore)
      | KeyStorage h \<Rightarrow>
          let (r, knames, w) = PluginWrapper_keyNames (ci_collectionName info) (sh_wrapper h)
          in Some (r, identifiers_in (mc_storagePluginName (sh_config h)) (ci_collectionName info) knames,
                   KeyStorage (h\<lparr>sh_wrapper := w\<rparr>))
      | KeyCryptoStorage h e \<Rightarrow>
          let (r, wasLocked, _, w) = unlock_and_list_keys h
                (\<lambda>c. CryptoStoragePluginWrapper_keyNames e c customParameters)
                (ci_collectionName info) (ci_collectionKey info) (eh_wrapper h)
          in if \<not> succeeded r then Some (r, [], KeyCryptoStorage (h\<lparr>eh_wrapper := w\<rparr>) e)
             else let (cresult, cidents, w1) =
                        CryptoStoragePluginWrapper_storedKeyIdentifiers e (ci_collectionName info) customParameters w;
                      w2 = (if wasLocked \<and> ci_relockRequired info
                            then snd (EncryptedStoragePluginWrapper_setEncryptionKey (eh_plugin h) (eh_config h)
                                        (ci_collectionName info) [] w1)
                            else w1);
                      store' = KeyCryptoStorage (h\<lparr>eh_wrapper := w2\<rparr>) e
                  in if cr_code cresult = Failed
                     then Some (r\<lparr>res_code := Failed, res_errorCode := UnknownError, res_errorMessage := cr_errorMessage cresult\<rparr>, [], store')
                     else Some (success, cidents, store')
      | KeyEncryptedStorage h \<Rightarrow>
          let (r, wasLocked, ids, w) = unlock_and_list_keys h PluginWrapper_keyNames
                (ci_collectionName info) (ci_collectionKey info) (eh_wrapper h)
          in if wasLocked \<and> ci_relockRequired info then None
             else Some (r, ids, KeyEncryptedStorage (h\<lparr>eh_wrapper := w\<rparr>)))"

subsection \<open>Operations on a storage plugin\<close>

text \<open>What a plugin leaves in the two output parameters of a secret.\<close>

definition secret_data :: "(qbytes \<times> filter_data) option \<Rightarrow> qbytes \<times> filter_data" where
  "secret_data x = (case x of None \<Rightarrow> ([], []) | Some y \<Rightarrow> y)"

definition StoragePluginFunctionWrapper_collectionMetadata ::
    "qstring \<Rightarrow> 's PluginWrapper \<Rightarrow> Result \<times> CollectionMetadata \<times> 's PluginWrapper" where
  "StoragePluginFunctionWrapper_collectionMetadata collectionName =
     PluginWrapper_collectionMetadata collectionName unset_collection_metadata"

definition StoragePluginFunctionWrapper_secretMetadata ::
    "qstring \<Rightarrow> qstring \<Rightarrow> 's PluginWrapper \<Rightarrow> Result \<times> SecretMetadata \<times> 's PluginWrapper" where
  "StoragePluginFunctionWrapper_secretMetadata collectionName secretName =
     PluginWrapper_secretMetadata collectionName secretName unset_secret_metadata"

definition StoragePluginFunctionWrapper_getSecret ::
    "'s StorageHost \<Rightarrow> qstring \<Rightarrow> qstring \<Rightarrow> 's PluginWrapper \<Rightarrow> Result \<times> (qbytes \<times> filter_data) \<times> 's PluginWrapper" where
  "StoragePluginFunctionWrapper_getSecret h collectionName secretName w =
     (let (r, x, w1) = StoragePluginWrapper_getSecret (sh_plugin h) collectionName secretName w
      in (r, secret_data x, w1))"

definition StoragePluginFunctionWrapper_encryptAndStoreSecret ::
    "EncryptionPlugin \<Rightarrow> 's StorageHost \<Rightarrow> SecretMetadata \<Rightarrow> Secret \<Rightarrow> qbytes \<Rightarrow> 's PluginWrapper
     \<Rightarrow> Result \<times> 's PluginWrapper" where
  "StoragePluginFunctionWrapper_encryptAndStoreSecret encryptionPlugin h secretMetadata secret encryptionKey w =
     (let (pluginResult, encrypted) = ep_encryptSecret encryptionPlugin (se_data secret) encryptionKey
      in if succeeded pluginResult
         then StoragePluginWrapper_setSecret (sh_plugin h) secretMetadata encrypted (se_filterData secret) w
         else (pluginResult, w))"

definition StoragePluginFunctionWrapper_getAndDecryptSecret ::
    "EncryptionPlugin \<Rightarrow> 's StorageHost \<Rightarrow> Identifier \<Rightarrow> qbytes \<Rightarrow> 's PluginWrapper
     \<Rightarrow> Result \<times> Secret \<times> 's PluginWrapper" where
  "StoragePluginFunctionWrapper_getAndDecryptSecret encryptionPlugin h identifier encryptionKey w =
     (let (pluginResult, x, w1) = StoragePluginWrapper_getSecret (sh_plugin h) (id_collectionName identifier)
            (id_name identifier) w;
          (encrypted, filterData) = secret_data x
      in if succeeded pluginResult
         then let (pluginResult2, decrypted) = ep_decryptSecret encryptionPlugin encrypted encryptionKey
              in (pluginResult2, \<lparr>se_identifier = identifier, se_data = decrypted, se_filterData = filterData\<rparr>, w1)
         else (pluginResult, new_Secret, w1))"

definition StoragePluginFunctionWrapper_findSecrets ::
    "'s StorageHost \<Rightarrow> qstring \<Rightarrow> filter_data \<Rightarrow> FilterOperator \<Rightarrow> 's PluginWrapper
     \<Rightarrow> Result \<times> Identifier list \<times> 's PluginWrapper" where
  "StoragePluginFunctionWrapper_findSecrets h collectionName flt filterOp w =
     (let (r, secretNames, w1) = StoragePluginWrapper_findSecrets (sh_plugin h) collectionName flt filterOp w
      in (r, identifiers_in (mc_storagePluginName (sh_config h)) collectionName secretNames, w1))"

text \<open>
  The first two loops of \<open>reencryptDeviceLockedCollectionsAndSecrets\<close> collect what is locked with the device lock key, with the
  encryption plugin that encrypted it; an entry in the metadata that cannot be read, or that names
  an unknown plugin, ends the operation.
\<close>

primrec device_locked_entries ::
    "(qstring \<Rightarrow> 'w \<Rightarrow> Result \<times> (bool \<times> qstring) \<times> 'w) \<Rightarrow> (qstring \<times> EncryptionPlugin) list \<Rightarrow> qstring list
     \<Rightarrow> Result \<Rightarrow> (qstring \<times> EncryptionPlugin) list \<Rightarrow> 'w
     \<Rightarrow> (Result + Result \<times> (qstring \<times> EncryptionPlugin) list) \<times> 'w" where
  "device_locked_entries metadataOf encryptionPlugins [] result found w = (Inr (result, found), w)"
| "device_locked_entries metadataOf encryptionPlugins (name # names) result found w =
     (let (r, (usesDeviceLockKey, encryptionPluginName), w1) = metadataOf name w
      in if \<not> succeeded r then (Inl r, w1)
         else if usesDeviceLockKey
         then (case map_of encryptionPlugins encryptionPluginName of
                 None \<Rightarrow> (Inl (failure InvalidExtensionPluginError), w1)
               | Some e \<Rightarrow> device_locked_entries metadataOf encryptionPlugins names r (qmap_insert name e found) w1)
         else device_locked_entries metadataOf encryptionPlugins names r found w1)"

definition collection_lock_entry :: "qstring \<Rightarrow> 's PluginWrapper \<Rightarrow> Result \<times> (bool \<times> qstring) \<times> 's PluginWrapper" where
  "collection_lock_entry cname w =
     (let (r, m, w1) = PluginWrapper_collectionMetadata cname unset_collection_metadata w
      in (r, (cm_usesDeviceLockKey m, cm_encryptionPluginName m), w1))"

definition secret_lock_entry :: "qstring \<Rightarrow> 's PluginWrapper \<Rightarrow> Result \<times> (bool \<times> qstring) \<times> 's PluginWrapper" where
  "secret_lock_entry sname w =
     (let (r, m, w1) = PluginWrapper_secretMetadata [] sname unset_secret_metadata w
      in (r, (sm_usesDeviceLockKey m, sm_encryptionPluginName m), w1))"

text \<open>The last two loops; the condition \<^verbatim>\<open>!result.code() == Result::Succeeded\<close> holds exactly when the result is not a success.\<close>

primrec reencrypt_entries ::
    "(qstring \<Rightarrow> EncryptionPlugin \<Rightarrow> 'w \<Rightarrow> Result \<times> 'w) \<Rightarrow> (qstring \<times> EncryptionPlugin) list \<Rightarrow> Result \<Rightarrow> 'w \<Rightarrow> Result \<times> 'w" where
  "reencrypt_entries reencrypt [] result w = (result, w)"
| "reencrypt_entries reencrypt (entry # entries) result w =
     (let (r, w1) = reencrypt (fst entry) (snd entry) w
      in reencrypt_entries reencrypt entries (if succeeded r then result else r) w1)"

definition StoragePluginFunctionWrapper_reencryptDeviceLockedCollectionsAndSecrets ::
    "'s StorageHost \<Rightarrow> (qstring \<times> EncryptionPlugin) list \<Rightarrow> qbytes \<Rightarrow> qbytes \<Rightarrow> 's PluginWrapper
     \<Rightarrow> Result \<times> 's PluginWrapper" where
  "StoragePluginFunctionWrapper_reencryptDeviceLockedCollectionsAndSecrets h encryptionPlugins oldEncryptionKey
       newEncryptionKey w =
     (let (result, cnamesMap, w1) = StoragePluginWrapper_collectionNames (sh_plugin h) w
      in if \<not> succeeded result then (result, w1)
      else let (cs, w2) = device_locked_entries collection_lock_entry encryptionPlugins (map fst cnamesMap) result [] w1
      in case cs of Inl r \<Rightarrow> (r, w2) | Inr (_, reencryptCollections) \<Rightarrow>
      let (result2, snames, w3) = StoragePluginWrapper_secretNames (sh_plugin h) [] w2
      in if \<not> succeeded result2 then (result2, w3)
      else let (ss, w4) = device_locked_entries secret_lock_entry encryptionPlugins snames result2 [] w3
      in case ss of Inl r \<Rightarrow> (r, w4) | Inr (result4, reencryptSecrets) \<Rightarrow>
      let (result3, w5) = reencrypt_entries (\<lambda>cname e. StoragePluginWrapper_reencrypt (sh_plugin h) cname [] oldEncryptionKey
                            newEncryptionKey e) reencryptCollections result4 w4
      in reencrypt_entries (\<lambda>sname e. StoragePluginWrapper_reencrypt (sh_plugin h) [] sname oldEncryptionKey
                            newEncryptionKey e) reencryptSecrets result3 w5)"

text \<open>The end of both pre-checks. A secret that is to be used may be missing from the metadata: the plugin will report it.\<close>

definition pre_check_result :: "bool \<Rightarrow> Result \<Rightarrow> Result" where
  "pre_check_result newSecret result =
     (if succeeded result then (if newSecret then failure SecretAlreadyExistsError else success)
      else if res_errorCode result = InvalidSecretError then success
      else result)"

definition StoragePluginFunctionWrapper_collectionSecretPreCheck ::
    "'s StorageHost \<Rightarrow> qstring \<Rightarrow> qstring \<Rightarrow> bool \<Rightarrow> 's PluginWrapper \<Rightarrow> Result \<times> 's PluginWrapper" where
  "StoragePluginFunctionWrapper_collectionSecretPreCheck h collectionName secretName newSecret w =
     (let (result, cnamesMap, w1) = StoragePluginWrapper_collectionNames (sh_plugin h) w
      in if \<not> succeeded result then (result, w1)
         else if \<not> qmap_contains cnamesMap collectionName then (failure InvalidCollectionError, w1)
         else let (result2, _, w2) = PluginWrapper_secretMetadata collectionName secretName unset_secret_metadata w1
              in (pre_check_result newSecret result2, w2))"

subsection \<open>Operations on an encrypted storage plugin\<close>

text \<open>These two functions fill in the names the caller knows already.\<close>

definition EncryptedStoragePluginFunctionWrapper_collectionMetadata ::
    "qstring \<Rightarrow> 's PluginWrapper \<Rightarrow> Result \<times> CollectionMetadata \<times> 's PluginWrapper" where
  "EncryptedStoragePluginFunctionWrapper_collectionMetadata collectionName w =
     (let (r, m, w1) = PluginWrapper_collectionMetadata collectionName unset_collection_metadata w
      in (r, m\<lparr>cm_collectionName := collectionName\<rparr>, w1))"

definition EncryptedStoragePluginFunctionWrapper_secretMetadata ::
    "qstring \<Rightarrow> qstring \<Rightarrow> 's PluginWrapper \<Rightarrow> Result \<times> SecretMetadata \<times> 's PluginWrapper" where
  "EncryptedStoragePluginFunctionWrapper_secretMetadata collectionName secretName w =
     (let (r, m, w1) = PluginWrapper_secretMetadata collectionName secretName unset_secret_metadata w
      in (r, m\<lparr>sm_collectionName := collectionName, sm_secretName := secretName\<rparr>, w1))"

definition EncryptedStoragePluginFunctionWrapper_isCollectionLocked ::
    "'s EncryptedHost \<Rightarrow> qstring \<Rightarrow> 's PluginWrapper \<Rightarrow> Result \<times> bool \<times> 's PluginWrapper" where
  "EncryptedStoragePluginFunctionWrapper_isCollectionLocked h collectionName =
     EncryptedStoragePluginWrapper_isCollectionLocked (eh_plugin h) collectionName False"

definition EncryptedStoragePluginFunctionWrapper_getSecret ::
    "'s EncryptedHost \<Rightarrow> qstring \<Rightarrow> qstring \<Rightarrow> 's PluginWrapper \<Rightarrow> Result \<times> (qbytes \<times> filter_data) \<times> 's PluginWrapper" where
  "EncryptedStoragePluginFunctionWrapper_getSecret h collectionName secretName w =
     (let (r, x, w1) = EncryptedStoragePluginWrapper_getSecret (eh_plugin h) collectionName secretName w
      in (r, secret_data x, w1))"

definition EncryptedStoragePluginFunctionWrapper_setStandaloneSecret ::
    "'s EncryptedHost \<Rightarrow> SecretMetadata \<Rightarrow> Secret \<Rightarrow> qbytes \<Rightarrow> 's PluginWrapper \<Rightarrow> Result \<times> 's PluginWrapper" where
  "EncryptedStoragePluginFunctionWrapper_setStandaloneSecret h secretMetadata secret key =
     EncryptedStoragePluginWrapper_setStandaloneSecret (eh_plugin h) secretMetadata (se_data secret) (se_filterData secret) key"

definition EncryptedStoragePluginFunctionWrapper_accessStandaloneSecret ::
    "'s EncryptedHost \<Rightarrow> qstring \<Rightarrow> qbytes \<Rightarrow> 's PluginWrapper \<Rightarrow> Result \<times> (qbytes \<times> filter_data) \<times> 's PluginWrapper" where
  "EncryptedStoragePluginFunctionWrapper_accessStandaloneSecret h secretName key w =
     (let (r, x, w1) = EncryptedStoragePluginWrapper_accessSecret (eh_plugin h) secretName key w
      in (r, secret_data x, w1))"

text \<open>
  The steps the four compound operations start with: a collection that is locked is unlocked with the given key.
  The result is the flag \<open>originallyLocked\<close>, or the error the operation ends with; after a failure
  to unlock, the key is taken away again.
\<close>

abbreviation set_key :: "'s EncryptedHost \<Rightarrow> qstring \<Rightarrow> qbytes \<Rightarrow> 's PluginWrapper \<Rightarrow> Result \<times> 's PluginWrapper" where
  "set_key h \<equiv> EncryptedStoragePluginWrapper_setEncryptionKey (eh_plugin h) (eh_config h)"

definition unlock_collection ::
    "'s EncryptedHost \<Rightarrow> qstring \<Rightarrow> qbytes \<Rightarrow> 's PluginWrapper \<Rightarrow> (Result + bool) \<times> 's PluginWrapper" where
  "unlock_collection h collectionName encryptionKey w =
     (let (pluginResult, locked, w1) = EncryptedStoragePluginWrapper_isCollectionLocked (eh_plugin h) collectionName False w
      in if \<not> succeeded pluginResult then (Inl pluginResult, w1)
      else if \<not> locked then (Inr False, w1)
      else let (pluginResult2, w2) = set_key h collectionName encryptionKey w1
      in if \<not> succeeded pluginResult2
         then (Inl (failure SecretsPluginDecryptionError), snd (set_key h collectionName [] w2))
      else let (pluginResult3, locked3, w3) =
             EncryptedStoragePluginWrapper_isCollectionLocked (eh_plugin h) collectionName True w2
      in if \<not> succeeded pluginResult3
         then (Inl (failure SecretsPluginDecryptionError), snd (set_key h collectionName [] w3))
      else if locked3
         then (Inl (failure IncorrectAuthenticationCodeError), snd (set_key h collectionName [] w3))
      else (Inr True, w3))"

text \<open>The step they end with; its result is only logged.\<close>

definition relock_collection :: "'s EncryptedHost \<Rightarrow> qstring \<Rightarrow> bool \<Rightarrow> 's PluginWrapper \<Rightarrow> 's PluginWrapper" where
  "relock_collection h collectionName needed w = (if needed then snd (set_key h collectionName [] w) else w)"

definition relocks_secret :: "SecretMetadata \<Rightarrow> bool" where
  "relocks_secret metadata \<longleftrightarrow>
     (sm_usesDeviceLockKey metadata \<and> sm_unlockSemantic metadata \<noteq> DeviceLockKeepUnlocked)
     \<or> (\<not> sm_usesDeviceLockKey metadata \<and> sm_unlockSemantic metadata \<noteq> CustomLockKeepUnlocked)"

definition EncryptedStoragePluginFunctionWrapper_unlockCollectionAndStoreSecret ::
    "'s EncryptedHost \<Rightarrow> SecretMetadata \<Rightarrow> Secret \<Rightarrow> qbytes \<Rightarrow> 's PluginWrapper \<Rightarrow> Result \<times> 's PluginWrapper" where
  "EncryptedStoragePluginFunctionWrapper_unlockCollectionAndStoreSecret h secretMetadata secret encryptionKey w =
     (let collectionName = id_collectionName (se_identifier secret);
          (unlocked, w1) = unlock_collection h collectionName encryptionKey w
      in case unlocked of
           Inl result \<Rightarrow> (result, w1)
         | Inr originallyLocked \<Rightarrow>
             let (pluginResult, w2) = EncryptedStoragePluginWrapper_setSecret (eh_plugin h) secretMetadata
                   (se_data secret) (se_filterData secret) w1
             in (pluginResult, relock_collection h collectionName (originallyLocked \<and> relocks_secret secretMetadata) w2))"

definition EncryptedStoragePluginFunctionWrapper_unlockCollectionAndReadSecret ::
    "'s EncryptedHost \<Rightarrow> CollectionMetadata \<Rightarrow> Identifier \<Rightarrow> qbytes \<Rightarrow> 's PluginWrapper
     \<Rightarrow> Result \<times> Secret \<times> 's PluginWrapper" where
  "EncryptedStoragePluginFunctionWrapper_unlockCollectionAndReadSecret h collectionMetadata identifier encryptionKey w =
     (let (unlocked, w1) = unlock_collection h (id_collectionName identifier) encryptionKey w
      in case unlocked of
           Inl result \<Rightarrow> (result, new_Secret, w1)
         | Inr originallyLocked \<Rightarrow>
             let (pluginResult, x, w2) = EncryptedStoragePluginWrapper_getSecret (eh_plugin h)
                   (id_collectionName identifier) (id_name identifier) w1;
                 (secretData, secretFilterdata) = secret_data x
             in (pluginResult,
                 \<lparr>se_identifier = identifier, se_data = secretData, se_filterData = secretFilterdata\<rparr>,
                 relock_collection h (id_collectionName identifier) (originallyLocked \<and> relocks collectionMetadata) w2))"

definition EncryptedStoragePluginFunctionWrapper_unlockCollectionAndRemoveSecret ::
    "'s EncryptedHost \<Rightarrow> CollectionMetadata \<Rightarrow> Identifier \<Rightarrow> qbytes \<Rightarrow> 's PluginWrapper \<Rightarrow> Result \<times> 's PluginWrapper" where
  "EncryptedStoragePluginFunctionWrapper_unlockCollectionAndRemoveSecret h collectionMetadata identifier encryptionKey w =
     (let (unlocked, w1) = unlock_collection h (id_collectionName identifier) encryptionKey w
      in case unlocked of
           Inl result \<Rightarrow> (result, w1)
         | Inr originallyLocked \<Rightarrow>
             let (pluginResult, w2) = EncryptedStoragePluginWrapper_removeSecret (eh_plugin h)
                   (id_collectionName identifier) (id_name identifier) w1
             in (pluginResult,
                 relock_collection h (id_collectionName identifier) (originallyLocked \<and> relocks collectionMetadata) w2))"

definition EncryptedStoragePluginFunctionWrapper_findSecrets ::
    "'s EncryptedHost \<Rightarrow> qstring \<Rightarrow> filter_data \<Rightarrow> FilterOperator \<Rightarrow> 's PluginWrapper
     \<Rightarrow> Result \<times> Identifier list \<times> 's PluginWrapper" where
  "EncryptedStoragePluginFunctionWrapper_findSecrets h collectionName flt filterOperator w =
     (let (r, ids, w1) = EncryptedStoragePluginWrapper_findSecrets (eh_plugin h) collectionName flt filterOperator w
      in (r, map (\<lambda>i. \<lparr>id_name = snd i, id_collectionName = fst i,
                        id_storagePluginName = mc_storagePluginName (eh_config h)\<rparr>) ids, w1))"

definition EncryptedStoragePluginFunctionWrapper_unlockAndFindSecrets ::
    "'s EncryptedHost \<Rightarrow> CollectionMetadata \<Rightarrow> filter_data \<Rightarrow> FilterOperator \<Rightarrow> qbytes \<Rightarrow> 's PluginWrapper
     \<Rightarrow> Result \<times> Identifier list \<times> 's PluginWrapper" where
  "EncryptedStoragePluginFunctionWrapper_unlockAndFindSecrets h collectionMetadata flt filterOperator encryptionKey w =
     (let (unlocked, w1) = unlock_collection h (cm_collectionName collectionMetadata) encryptionKey w
      in case unlocked of
           Inl result \<Rightarrow> (result, [], w1)
         | Inr originallyLocked \<Rightarrow>
             let (pluginResult, identifiers, w2) =
                   EncryptedStoragePluginFunctionWrapper_findSecrets h (cm_collectionName collectionMetadata) flt filterOperator w1
             in (pluginResult, identifiers,
                 relock_collection h (cm_collectionName collectionMetadata) (originallyLocked \<and> relocks collectionMetadata) w2))"

text \<open>Re-encryption of the device-locked collections; only a failed re-encryption changes the result.\<close>

primrec device_locked_collections ::
    "qstring list \<Rightarrow> Result \<Rightarrow> qstring list \<Rightarrow> 's PluginWrapper \<Rightarrow> (Result + Result \<times> qstring list) \<times> 's PluginWrapper" where
  "device_locked_collections [] result found w = (Inr (result, found), w)"
| "device_locked_collections (cname # cnames) result found w =
     (let (r, m, w1) = PluginWrapper_collectionMetadata cname unset_collection_metadata w
      in if \<not> succeeded r then (Inl r, w1)
         else device_locked_collections cnames r (if cm_usesDeviceLockKey m then found @ [cname] else found) w1)"

primrec reencrypt_collections ::
    "'s EncryptedHost \<Rightarrow> qbytes \<Rightarrow> qbytes \<Rightarrow> qstring list \<Rightarrow> Result \<Rightarrow> 's PluginWrapper \<Rightarrow> Result \<times> 's PluginWrapper" where
  "reencrypt_collections h oldKey newKey [] result w = (result, w)"
| "reencrypt_collections h oldKey newKey (c # cs) result w =
     (let (_, locked, w1) = EncryptedStoragePluginWrapper_isCollectionLocked (eh_plugin h) c True w;
          w2 = (if locked
                then let (_, w3) = set_key h c oldKey w1;
                         (_, _, w4) = EncryptedStoragePluginWrapper_isCollectionLocked (eh_plugin h) c True w3
                     in w4
                else w1);
          (r, w5) = EncryptedStoragePluginWrapper_reencrypt (eh_plugin h) c oldKey newKey w2
      in reencrypt_collections h oldKey newKey cs (if succeeded r then result else r) w5)"

definition EncryptedStoragePluginFunctionWrapper_unlockDeviceLockedCollectionsAndReencrypt ::
    "'s EncryptedHost \<Rightarrow> qbytes \<Rightarrow> qbytes \<Rightarrow> 's PluginWrapper \<Rightarrow> Result \<times> 's PluginWrapper" where
  "EncryptedStoragePluginFunctionWrapper_unlockDeviceLockedCollectionsAndReencrypt h oldEncryptionKey newEncryptionKey w =
     (let (result, cnamesMap, w1) = EncryptedStoragePluginWrapper_collectionNames (eh_plugin h) w
      in if \<not> succeeded result then (result, w1)
         else let (cs, w2) = device_locked_collections (map fst cnamesMap) result [] w1
              in case cs of
                   Inl r \<Rightarrow> (r, w2)
                 | Inr (result2, reencryptCNames) \<Rightarrow>
                     reencrypt_collections h oldEncryptionKey newEncryptionKey reencryptCNames result2 w2)"

text \<open>
  The unlocking steps of the operations below, which pass the errors of the plugin on and do not take the key away again.
\<close>

definition unlock_or_report ::
    "'s EncryptedHost \<Rightarrow> qstring \<Rightarrow> qbytes \<Rightarrow> 's PluginWrapper \<Rightarrow> Result option \<times> 's PluginWrapper" where
  "unlock_or_report h collectionName key w =
     (let (result, w1) = set_key h collectionName key w
      in if \<not> succeeded result then (Some result, w1)
         else let (result2, locked, w2) =
                EncryptedStoragePluginWrapper_isCollectionLocked (eh_plugin h) collectionName False w1
              in (if \<not> succeeded result2 then Some result2
                  else if locked then Some (failure CollectionIsLockedError) else None, w2))"

definition EncryptedStoragePluginFunctionWrapper_unlockAndRemoveCollection ::
    "'s EncryptedHost \<Rightarrow> qstring \<Rightarrow> qbytes \<Rightarrow> 's PluginWrapper \<Rightarrow> Result \<times> 's PluginWrapper" where
  "EncryptedStoragePluginFunctionWrapper_unlockAndRemoveCollection h collectionName encryptionKey w =
     (let (result, locked, w1) = EncryptedStoragePluginWrapper_isCollectionLocked (eh_plugin h) collectionName False w
      in if \<not> succeeded result then (result, w1)
         else let (error, w2) = (if locked then unlock_or_report h collectionName encryptionKey w1 else (None, w1))
              in case error of
                   Some r \<Rightarrow> (r, w2)
                 | None \<Rightarrow> EncryptedStoragePluginWrapper_removeCollection (eh_plugin h) collectionName w2)"

definition EncryptedStoragePluginFunctionWrapper_deriveKeyUnlockAndRemoveCollection ::
    "'s EncryptedHost \<Rightarrow> qstring \<Rightarrow> qbytes \<Rightarrow> qbytes \<Rightarrow> 's PluginWrapper \<Rightarrow> Result \<times> 's PluginWrapper" where
  "EncryptedStoragePluginFunctionWrapper_deriveKeyUnlockAndRemoveCollection h collectionName lockCode salt w =
     (let (result, locked, w1) = EncryptedStoragePluginWrapper_isCollectionLocked (eh_plugin h) collectionName False w
      in if \<not> succeeded result then (result, w1)
         else let (error, w2) =
                (if locked
                 then let (r, derivedKey, w3) = EncryptedStoragePluginWrapper_deriveKeyFromCode (eh_plugin h) lockCode salt w1
                      in if \<not> succeeded r then (Some r, w3) else unlock_or_report h collectionName derivedKey w3
                 else (None, w1))
              in case error of
                   Some r \<Rightarrow> (r, w2)
                 | None \<Rightarrow> EncryptedStoragePluginWrapper_removeCollection (eh_plugin h) collectionName w2)"

definition EncryptedStoragePluginFunctionWrapper_collectionSecretPreCheck ::
    "'s EncryptedHost \<Rightarrow> CollectionInfo \<Rightarrow> qstring \<Rightarrow> bool \<Rightarrow> 's PluginWrapper \<Rightarrow> Result \<times> 's PluginWrapper" where
  "EncryptedStoragePluginFunctionWrapper_collectionSecretPreCheck h info secretName newSecret w =
     (let (result, cnamesMap, w1) = EncryptedStoragePluginWrapper_collectionNames (eh_plugin h) w
      in if \<not> succeeded result then (result, w1)
      else if \<not> qmap_contains cnamesMap (ci_collectionName info) then (failure InvalidCollectionError, w1)
      else let (result2, locked, w2) =
             EncryptedStoragePluginWrapper_isCollectionLocked (eh_plugin h) (ci_collectionName info) False w1
      in if \<not> succeeded result2 then (result2, w2)
      else let (error, w3) = (if locked then unlock_or_report h (ci_collectionName info) (ci_collectionKey info) w2 else (None, w2))
      in case error of
           Some r \<Rightarrow> (r, w3)
         | None \<Rightarrow>
             let (result3, _, w4) = PluginWrapper_secretMetadata (ci_collectionName info) secretName unset_secret_metadata w3
             in (pre_check_result newSecret result3,
                 relock_collection h (ci_collectionName info) (locked \<and> ci_relockRequired info) w4))"

end
