(* ===== verification/Event_Loop.thy ===== *)
theory Event_Loop
  imports Prelude
begin

section \<open>The main thread and the plugin thread\<close>

text \<open>
  How the daemon runs its request processor. Everything that touches a plugin runs on one plugin thread
  (\<^verbatim>\<open>secretsThreadPool\<close> has one thread): \<^verbatim>\<open>QtConcurrent::run\<close> queues a job, and when the job has run, the lambda connected to
  the watcher's signal \<^verbatim>\<open>finished\<close> is called on the main thread with its result. Where the
  code calls \<^verbatim>\<open>waitForFinished\<close> instead, the main thread blocks until that job has run, and goes on with
  the result before it handles anything else.

  A run of the main thread is a value of type \<open>thread\<close>: it ends with the main thread's state, it queues
  a job and goes on, or it waits for a job. \<open>Crash\<close> is a call through a null pointer. A job is a function on the plugins' state \<open>'p\<close>; its result is
  the lambda that gets the job's outcome, or \<open>None\<close> when the job itself crashes.
\<close>

datatype ('p, 'm) thread =
    Return 'm
  | Crash
  | Post "'p \<Rightarrow> (('m \<Rightarrow> ('p, 'm) thread) \<times> 'p) option" "('p, 'm) thread"
  | Await "'p \<Rightarrow> (('m \<Rightarrow> ('p, 'm) thread) \<times> 'p) option" 'm

type_synonym ('p, 'm) job = "'p \<Rightarrow> (('m \<Rightarrow> ('p, 'm) thread) \<times> 'p) option"

text \<open>\<open>run f c k\<close> queues \<open>f\<close> with the lambda \<open>c\<close> and goes on with \<open>k\<close>; \<open>await f c m\<close> waits for \<open>f\<close>.\<close>

definition run :: "('p \<Rightarrow> ('x \<times> 'p) option) \<Rightarrow> ('x \<Rightarrow> 'm \<Rightarrow> ('p, 'm) thread) \<Rightarrow> ('p, 'm) thread \<Rightarrow> ('p, 'm) thread" where
  "run f c k = Post (\<lambda>p. map_option (map_prod c id) (f p)) k"

definition await :: "('p \<Rightarrow> ('x \<times> 'p) option) \<Rightarrow> ('x \<Rightarrow> 'm \<Rightarrow> ('p, 'm) thread) \<Rightarrow> 'm \<Rightarrow> ('p, 'm) thread" where
  "await f c m = Await (\<lambda>p. map_option (map_prod c id) (f p)) m"

subsection \<open>The system\<close>

text \<open>
  The two threads together: the jobs waiting for the plugin thread, the lambdas waiting for the
  main thread, and whether the main thread waits, for the job queued last.
\<close>

record ('p, 'm) system =
  sy_plugins :: 'p
  sy_main :: 'm
  sy_jobs :: "('p, 'm) job list"
  sy_events :: "('m \<Rightarrow> ('p, 'm) thread) list"
  sy_waiting :: bool

primrec execute :: "('p, 'm) thread \<Rightarrow> ('p, 'm) system \<Rightarrow> ('p, 'm) system option" where
  "execute (Return m) s = Some (s\<lparr>sy_main := m, sy_waiting := False\<rparr>)"
| "execute Crash s = None"
| "execute (Post j k) s = execute k (s\<lparr>sy_jobs := sy_jobs s @ [j]\<rparr>)"
| "execute (Await j m) s = Some (s\<lparr>sy_main := m, sy_jobs := sy_jobs s @ [j], sy_waiting := True\<rparr>)"

text \<open>
  The plugin thread runs the first job. A main thread that waits for it goes on at once; otherwise the lambda waits for the event loop.
\<close>

definition plugin_step :: "('p, 'm) system \<Rightarrow> ('p, 'm) system option" where
  "plugin_step s =
     (case sy_jobs s of
        [] \<Rightarrow> Some s
      | j # js \<Rightarrow>
          (case j (sy_plugins s) of
             None \<Rightarrow> None
           | Some (c, p) \<Rightarrow>
               let s1 = s\<lparr>sy_plugins := p, sy_jobs := js\<rparr>
               in if sy_waiting s \<and> js = [] then execute (c (sy_main s)) s1
                  else Some (s1\<lparr>sy_events := sy_events s @ [c]\<rparr>)))"

definition main_step :: "('p, 'm) system \<Rightarrow> ('p, 'm) system option" where
  "main_step s =
     (case sy_events s of
        [] \<Rightarrow> Some s
      | c # cs \<Rightarrow> if sy_waiting s then Some s else execute (c (sy_main s)) (s\<lparr>sy_events := cs\<rparr>))"

text \<open>
  A step of the system. From outside come calls of handlers on the main thread (requests, and the signals of authentication plugins),
  taken from the set \<open>H\<close>.
\<close>

inductive step :: "('m \<Rightarrow> ('p, 'm) thread) set \<Rightarrow> ('p, 'm) system \<Rightarrow> ('p, 'm) system option \<Rightarrow> bool" for H where
  plugin: "sy_jobs s \<noteq> [] \<Longrightarrow> step H s (plugin_step s)"
| main: "sy_events s \<noteq> [] \<Longrightarrow> \<not> sy_waiting s \<Longrightarrow> step H s (main_step s)"
| call: "h \<in> H \<Longrightarrow> \<not> sy_waiting s \<Longrightarrow> step H s (execute (h (sy_main s)) s)"

inductive reaches :: "('m \<Rightarrow> ('p, 'm) thread) set \<Rightarrow> ('p, 'm) system \<Rightarrow> ('p, 'm) system option \<Rightarrow> bool" for H s0 where
  start: "reaches H s0 (Some s0)"
| more: "reaches H s0 (Some s) \<Longrightarrow> step H s s' \<Longrightarrow> reaches H s0 s'"

subsection \<open>Invariants\<close>

text \<open>
  \<open>keeps P M th\<close>: whatever the schedule, the run \<open>th\<close> and everything it queues keep \<open>P\<close> of the plugins and \<open>M\<close>
  of the main thread, and nothing of it crashes.
\<close>

inductive keeps :: "('p \<Rightarrow> bool) \<Rightarrow> ('m \<Rightarrow> bool) \<Rightarrow> ('p, 'm) thread \<Rightarrow> bool" for P M where
  keeps_Return: "M m \<Longrightarrow> keeps P M (Return m)"
| keeps_Post: "(\<And>p. P p \<Longrightarrow> \<exists>c p'. j p = Some (c, p') \<and> P p' \<and> (\<forall>m. M m \<longrightarrow> keeps P M (c m)))
    \<Longrightarrow> keeps P M k \<Longrightarrow> keeps P M (Post j k)"
| keeps_Await: "(\<And>p. P p \<Longrightarrow> \<exists>c p'. j p = Some (c, p') \<and> P p' \<and> (\<forall>m. M m \<longrightarrow> keeps P M (c m)))
    \<Longrightarrow> M m \<Longrightarrow> keeps P M (Await j m)"

inductive_simps keeps_simps [simp]:
  "keeps P M (Return m)" "keeps P M Crash" "keeps P M (Post j k)" "keeps P M (Await j m)"

definition job_keeps :: "('p \<Rightarrow> bool) \<Rightarrow> ('m \<Rightarrow> bool) \<Rightarrow> ('p, 'm) job \<Rightarrow> bool" where
  "job_keeps P M j \<longleftrightarrow> (\<forall>p. P p \<longrightarrow> (\<exists>c p'. j p = Some (c, p') \<and> P p' \<and> (\<forall>m. M m \<longrightarrow> keeps P M (c m))))"

definition system_keeps :: "('p \<Rightarrow> bool) \<Rightarrow> ('m \<Rightarrow> bool) \<Rightarrow> ('p, 'm) system \<Rightarrow> bool" where
  "system_keeps P M s \<longleftrightarrow> P (sy_plugins s) \<and> M (sy_main s) \<and> list_all (job_keeps P M) (sy_jobs s)
     \<and> list_all (\<lambda>c. \<forall>m. M m \<longrightarrow> keeps P M (c m)) (sy_events s)"

lemma execute_keeps:
  assumes "keeps P M th" and "system_keeps P M s"
  shows "\<exists>s'. execute th s = Some s' \<and> system_keeps P M s'"
  using assms by (induction th arbitrary: s rule: thread.induct) (auto simp: system_keeps_def job_keeps_def)

lemma plugin_step_keeps:
  assumes "system_keeps P M s"
  shows "\<exists>s'. plugin_step s = Some s' \<and> system_keeps P M s'"
proof (cases "sy_jobs s")
  case Nil
  with assms show ?thesis by (simp add: plugin_step_def)
next
  case (Cons j js)
  with assms obtain c p where j: "j (sy_plugins s) = Some (c, p)" "P p" "\<forall>m. M m \<longrightarrow> keeps P M (c m)"
    by (auto simp: system_keeps_def job_keeps_def)
  moreover have "system_keeps P M (s\<lparr>sy_plugins := p, sy_jobs := js\<rparr>)"
    and "system_keeps P M (s\<lparr>sy_plugins := p, sy_jobs := js, sy_events := sy_events s @ [c]\<rparr>)"
    using assms Cons j by (auto simp: system_keeps_def)
  moreover have "keeps P M (c (sy_main s))"
    using assms j(3) by (simp add: system_keeps_def)
  ultimately show ?thesis
    using Cons execute_keeps by (auto simp: plugin_step_def Let_def)
qed

lemma main_step_keeps:
  assumes "system_keeps P M s"
  shows "\<exists>s'. main_step s = Some s' \<and> system_keeps P M s'"
proof (cases "sy_events s")
  case Nil
  with assms show ?thesis by (simp add: main_step_def)
next
  case (Cons c cs)
  with assms have "system_keeps P M (s\<lparr>sy_events := cs\<rparr>)" and "keeps P M (c (sy_main s))"
    by (auto simp: system_keeps_def)
  with execute_keeps Cons assms show ?thesis by (auto simp: main_step_def)
qed

text \<open>Handlers that keep an invariant keep it in every schedule.\<close>

lemma system_invariant:
  assumes "reaches H s0 s" and "system_keeps P M s0"
    and "\<And>h m. h \<in> H \<Longrightarrow> M m \<Longrightarrow> keeps P M (h m)"
  shows "\<exists>s'. s = Some s' \<and> system_keeps P M s'"
  using assms(1)
proof induction
  case start
  with assms(2) show ?case by simp
next
  case (more s s')
  then have i: "system_keeps P M s" by simp
  from \<open>step H s s'\<close> show ?case
  proof cases
    case plugin
    with plugin_step_keeps [OF i] show ?thesis by simp
  next
    case main
    with main_step_keeps [OF i] show ?thesis by simp
  next
    case (call h)
    with i assms(3) have "keeps P M (h (sy_main s))" by (simp add: system_keeps_def)
    from execute_keeps [OF this i] call show ?thesis by simp
  qed
qed

text \<open>Rules for the combinators the handlers are written with.\<close>

lemma keeps_run:
  assumes "keeps P M k" and "\<And>p. P p \<Longrightarrow> \<exists>x p'. f p = Some (x, p') \<and> P p' \<and> (\<forall>m. M m \<longrightarrow> keeps P M (c x m))"
  shows "keeps P M (run f c k)"
  using assms by (fastforce simp: run_def)

lemma keeps_await:
  assumes "M m" and "\<And>p. P p \<Longrightarrow> \<exists>x p'. f p = Some (x, p') \<and> P p' \<and> (\<forall>m. M m \<longrightarrow> keeps P M (c x m))"
  shows "keeps P M (await f c m)"
  using assms by (fastforce simp: await_def)

text \<open>A request that needs two jobs, one after the other, on a system that has nothing else to do.\<close>

lemma two_jobs:
  assumes "sy_jobs s = []" and "sy_events s = []" and "\<not> sy_waiting s"
    and "th = run f c (Return (sy_main s))" and "f (sy_plugins s) = Some (x, p)"
    and "c x (sy_main s) = run g c' (Return (sy_main s))" and "g p = Some (y, p')" and "c' y (sy_main s) = Return m"
  shows "\<exists>s1 s2 s3 s4 s5. execute th s = Some s1 \<and> plugin_step s1 = Some s2 \<and> main_step s2 = Some s3
    \<and> plugin_step s3 = Some s4 \<and> main_step s4 = Some s5 \<and> sy_main s5 = m"
  using assms by (cases s) (simp add: run_def plugin_step_def main_step_def)

end
