(* ===== verification/Data_Protector.thy ===== *)
theory Data_Protector
  imports Prelude
begin

section \<open>The data protector\<close>

text \<open>
  \<^verbatim>\<open>Daemon::ApiImpl::DataProtector\<close> (src/daemon/SecretsImpl/dataprotector.cpp): small files
  the daemon cannot do without (the salt, the lock code check) are written three times into a
  fresh directory, and read back by majority.

  The protected root is the list of its subdirectories, each with its modification time and its files by
  name; \<open>None\<close> means there is no root. What the file system answers is an argument:
  whether a directory can be made, a file opened, written and committed, and what is
  left of a directory that is removed recursively. A \<^verbatim>\<open>QSaveFile\<close> that is not committed leaves no
  file behind. \<^verbatim>\<open>QDir::Time\<close> sorts the most recently modified entry first.

  \<^verbatim>\<open>std::remove_if\<close> is called without \<^verbatim>\<open>erase\<close>: the vector keeps its size, and the
  elements behind the ones that are kept have unspecified values. They are an argument, \<open>leftover\<close>.
\<close>

subsection \<open>Data\<close>

datatype data_file = Readable qbytes | Unopenable

record data_dir =
  dd_name :: qstring
  dd_time :: nat
  dd_files :: "(qstring \<times> data_file) list"

datatype DataProtectorStatus =
    Success | Irretrievable | ErrorGotNullptr | ErrorCannotCreateDirectory | ErrorCannotDeleteDirectory
  | ErrorCannotCreateFile | ErrorCannotOpenFile | ErrorCannotWriteFile

record DataProtector =
  dp_root :: "data_dir list option"
  dp_data :: qbytes                    \<comment> \<open>m\_data\<close>

record file_system =
  fs_mkpath :: bool
  fs_mkdir :: bool
  fs_uuid :: qstring
  fs_now :: nat
  fs_open :: "nat \<Rightarrow> bool"
  fs_write :: "nat \<Rightarrow> bool"
  fs_commit :: "nat \<Rightarrow> bool"
  fs_remove :: "data_dir \<Rightarrow> data_dir option"  \<comment> \<open>None: removed; otherwise what is left\<close>
  fs_rmdir :: "data_dir \<Rightarrow> bool"

subsection \<open>Reading\<close>

text \<open>Sorting by time, the newest first, and by name where times are equal.\<close>

definition newer :: "data_dir \<Rightarrow> data_dir \<Rightarrow> bool" where
  "newer a b \<longleftrightarrow> dd_time b < dd_time a \<or> dd_time a = dd_time b \<and> dd_name a < dd_name b"

fun insert_by_time :: "data_dir \<Rightarrow> data_dir list \<Rightarrow> data_dir list" where
  "insert_by_time d [] = [d]"
| "insert_by_time d (e # es) = (if newer d e then d # e # es else e # insert_by_time d es)"

definition sort_by_time :: "data_dir list \<Rightarrow> data_dir list" where
  "sort_by_time ds = fold insert_by_time ds []"

primrec read_file :: "data_file \<Rightarrow> qbytes" where
  "read_file (Readable bs) = bs"
| "read_file Unopenable = []"

text \<open>The vector of file contents after \<^verbatim>\<open>remove_if\<close>.\<close>

definition after_remove_if :: "(nat \<Rightarrow> qbytes) \<Rightarrow> qbytes list \<Rightarrow> qbytes list" where
  "after_remove_if leftover xs =
     (let kept = filter (\<lambda>x. x \<noteq> []) xs
      in kept @ map leftover [0..<length xs - length kept])"

text \<open>The counters: each content is counted at the first place it occurs.\<close>

primrec first_index :: "qbytes \<Rightarrow> qbytes list \<Rightarrow> nat" where
  "first_index x [] = 0"
| "first_index x (y # ys) = (if x = y then 0 else Suc (first_index x ys))"

definition count_occurrences :: "qbytes list \<Rightarrow> nat list" where
  "count_occurrences fileContents =
     fold (\<lambda>currentData occ. let i = first_index currentData fileContents in occ[i := occ ! i + 1])
       fileContents (replicate (length fileContents) 0)"

definition max_occurrence_index :: "nat list \<Rightarrow> nat" where
  "max_occurrence_index occ = fold (\<lambda>i m. if occ ! i > occ ! m then i else m) [0..<length occ] 0"

definition majority :: "qbytes list \<Rightarrow> qbytes option" where
  "majority fileContents =
     (let occ = count_occurrences fileContents;
          i = max_occurrence_index occ
      in if occ ! i < length fileContents div 2 + 1 then None else Some (fileContents ! i))"

definition DataProtector_getData ::
    "file_system \<Rightarrow> (nat \<Rightarrow> qbytes) \<Rightarrow> bool \<Rightarrow> DataProtector \<Rightarrow> DataProtectorStatus \<times> qbytes \<times> DataProtector" where
  "DataProtector_getData fs leftover resultGiven p =
     (if \<not> resultGiven then (ErrorGotNullptr, [], p)
      else if dp_data p \<noteq> [] then (Success, dp_data p, p)
      else case dp_root p of
        None \<Rightarrow> (Success, [], p)
      | Some ds \<Rightarrow>
          (case sort_by_time ds of
             [] \<Rightarrow> (Success, [], p)
           | d # others \<Rightarrow>
               let removed = (\<lambda>e. e \<in> set others \<and> dd_files e = [] \<and> fs_rmdir fs e);
                   p1 = p\<lparr>dp_root := Some (filter (\<lambda>e. \<not> removed e) ds)\<rparr>;
                   files = map snd (dd_files d)
               in if files = [] then (Irretrievable, [], p1)
                  else if list_all (\<lambda>f. f = Unopenable) files then (Irretrievable, [], p1)
                  else let fileContents = after_remove_if leftover (map read_file files)
                       in if fileContents = [] then (Irretrievable, [], p1)
                          else case majority fileContents of
                                 None \<Rightarrow> (Irretrievable, [], p1)
                               | Some bs \<Rightarrow> (Success, bs, p1\<lparr>dp_data := bs\<rparr>)))"

subsection \<open>Writing\<close>

definition data_file_name :: "nat \<Rightarrow> qstring" where
  "data_file_name i = ''file'' @ [char_of (48 + i)]"

text \<open>The redundant files are written one after the other; the first failure stops.\<close>

primrec put_files ::
    "file_system \<Rightarrow> qbytes \<Rightarrow> nat list \<Rightarrow> (qstring \<times> data_file) list \<Rightarrow> bool \<times> (qstring \<times> data_file) list" where
  "put_files fs bytes [] written = (True, written)"
| "put_files fs bytes (i # is) written =
     (if \<not> fs_write fs i then (False, written)
      else if \<not> fs_commit fs i then (False, written)
      else put_files fs bytes is (written @ [(data_file_name i, Readable bytes)]))"

text \<open>The old directories are removed one after the other; the first failure stops.\<close>

primrec remove_dirs :: "file_system \<Rightarrow> data_dir list \<Rightarrow> data_dir list \<Rightarrow> bool \<times> data_dir list" where
  "remove_dirs fs [] ds = (True, ds)"
| "remove_dirs fs (old # olds) ds =
     (case fs_remove fs old of
        None \<Rightarrow> remove_dirs fs olds (filter (\<lambda>e. dd_name e \<noteq> dd_name old) ds)
      | Some rest \<Rightarrow> (False, map (\<lambda>e. if dd_name e = dd_name old then rest else e) ds))"

definition DataProtector_putData ::
    "file_system \<Rightarrow> qbytes \<Rightarrow> DataProtector \<Rightarrow> DataProtectorStatus \<times> DataProtector" where
  "DataProtector_putData fs bytes p =
     (if dp_root p = None \<and> \<not> fs_mkpath fs then (ErrorCannotCreateDirectory, p)
      else let oldDirectories = (case dp_root p of None \<Rightarrow> [] | Some ds \<Rightarrow> ds);
               p0 = p\<lparr>dp_root := Some oldDirectories\<rparr>
      in if \<not> fs_mkdir fs then (ErrorCannotCreateDirectory, p0)
      else let newDir = (\<lambda>files. \<lparr>dd_name = fs_uuid fs, dd_time = fs_now fs, dd_files = files\<rparr>)
      in if \<not> list_all (fs_open fs) [0, 1, 2]
         then (ErrorCannotOpenFile, p0\<lparr>dp_root := Some (oldDirectories @ [newDir []])\<rparr>)
      else let (written, files) = put_files fs bytes [0, 1, 2] [];
               ds = oldDirectories @ [newDir files]
      in if \<not> written then (ErrorCannotWriteFile, p0\<lparr>dp_root := Some ds\<rparr>)
      else let (removed, ds2) = remove_dirs fs oldDirectories ds
      in if \<not> removed then (ErrorCannotDeleteDirectory, p0\<lparr>dp_root := Some ds2\<rparr>)
         else (Success, p0\<lparr>dp_root := Some ds2, dp_data := []\<rparr>))"

subsection \<open>The majority decision\<close>

lemma first_index_props:
  "x \<in> set xs \<Longrightarrow> first_index x xs < length xs \<and> xs ! first_index x xs = x"
  by (induction xs) auto

lemma length_count [simp]:
  "length (fold (\<lambda>x occ. let i = g x in occ[i := occ ! i + 1]) ys occ) = length (occ :: nat list)"
  by (induction ys arbitrary: occ) (simp_all add: Let_def)

lemma count_fold:
  assumes "\<And>y. y \<in> set ys \<Longrightarrow> g y < length occ" and "j < length occ"
  shows "fold (\<lambda>x occ. let i = g x in occ[i := occ ! i + 1]) ys occ ! j
    = occ ! j + length (filter (\<lambda>y. g y = j) ys)"
  using assms
proof (induction ys arbitrary: occ)
  case (Cons y ys)
  have "fold (\<lambda>x occ. let i = g x in occ[i := occ ! i + 1]) ys (occ[g y := occ ! g y + 1]) ! j
      = occ[g y := occ ! g y + 1] ! j + length (filter (\<lambda>y. g y = j) ys)"
    by (rule Cons.IH) (use Cons.prems in auto)
  then show ?case using Cons.prems by (auto simp: Let_def nth_list_update)
qed simp

lemma count_occurrences_nth:
  assumes "j < length xs"
  shows "count_occurrences xs ! j = length (filter (\<lambda>y. first_index y xs = j) xs)"
  unfolding count_occurrences_def
  by (subst count_fold) (use assms first_index_props in auto)

lemma length_count_occurrences [simp]: "length (count_occurrences xs) = length xs"
  unfolding count_occurrences_def by (subst length_count) simp

text \<open>A content that fills more than half of the vector wins.\<close>

lemma more_than_half:
  assumes "length xs < 2 * length (filter (\<lambda>y. y = x) xs)" and "length (filter P xs) > length xs div 2"
  shows "\<exists>y \<in> set xs. P y \<and> y = x"
proof (rule ccontr)
  assume "\<not> ?thesis"
  then have "filter P xs = filter P (filter (\<lambda>y. y \<noteq> x) xs)" by (auto simp: filter_eq_Cons_iff intro!: filter_cong)
  then have "length (filter P xs) \<le> length (filter (\<lambda>y. y \<noteq> x) xs)"
    using length_filter_le [of P "filter (\<lambda>y. y \<noteq> x) xs"] by (simp only:)
  moreover have "length (filter (\<lambda>y. y = x) xs) + length (filter (\<lambda>y. y \<noteq> x) xs) = length xs"
    by (rule sum_length_filter_compl)
  ultimately show False using assms by linarith
qed

lemma max_index_ge:
  assumes "m < length occ" and "\<forall>i \<in> set is. i < length occ"
  shows "fold (\<lambda>i m. if occ ! i > occ ! m then i else m) is m < length occ
    \<and> occ ! m \<le> occ ! fold (\<lambda>i m. if occ ! i > occ ! m then i else m) is m
    \<and> (\<forall>i \<in> set is. occ ! i \<le> (occ :: nat list) ! fold (\<lambda>i m. if occ ! i > occ ! m then i else m) is m)"
  using assms
proof (induction "is" arbitrary: m)
  case (Cons i "is")
  have "(if occ ! i > occ ! m then i else m) < length occ" using Cons.prems by simp
  with Cons.IH [OF this] Cons.prems(2) show ?case by (auto split: if_splits)
qed simp

lemma max_occurrence:
  assumes "occ \<noteq> []"
  shows "max_occurrence_index occ < length occ" and "i < length occ \<Longrightarrow> occ ! i \<le> occ ! max_occurrence_index occ"
  using max_index_ge [of 0 occ "[0..<length occ]"] assms by (auto simp: max_occurrence_index_def)

lemma majority_wins:
  assumes "length xs < 2 * length (filter (\<lambda>y. y = x) xs)"
  shows "majority xs = Some x"
proof -
  let ?occ = "count_occurrences xs" and ?i = "max_occurrence_index (count_occurrences xs)"
  have "filter (\<lambda>y. y = x) xs \<noteq> []" using assms by auto
  then have x: "x \<in> set xs" by (metis (mono_tags) filter_empty_conv)
  then have ne: "?occ \<noteq> []" by (metis length_count_occurrences length_greater_0_conv length_pos_if_in_set)
  note f = first_index_props [OF x]
  have "length (filter (\<lambda>y. y = x) xs) \<le> length (filter (\<lambda>y. first_index y xs = first_index x xs) xs)"
  proof -
    have "filter (\<lambda>y. y = x) xs = filter (\<lambda>y. y = x) (filter (\<lambda>y. first_index y xs = first_index x xs) xs)"
      by (auto intro!: filter_cong)
    then show ?thesis by (metis length_filter_le)
  qed
  then have "length xs div 2 < ?occ ! first_index x xs"
    using assms count_occurrences_nth [of "first_index x xs" xs] f by linarith
  also have "\<dots> \<le> ?occ ! ?i" using max_occurrence(2) [OF ne] f by simp
  finally have big: "length xs div 2 < ?occ ! ?i" .
  have i: "?i < length xs" using max_occurrence(1) [OF ne] by simp
  with big have "length (filter (\<lambda>y. first_index y xs = ?i) xs) > length xs div 2"
    using count_occurrences_nth by simp
  from more_than_half [OF assms this] obtain y where "first_index y xs = ?i" "y = x" by blast
  with f big show ?thesis by (simp add: majority_def Let_def)
qed

subsection \<open>Properties\<close>

lemma set_insert_by_time: "set (insert_by_time d ds) = insert d (set ds)"
  by (induction d ds rule: insert_by_time.induct) auto

lemma set_sort_by_time [simp]: "set (sort_by_time ds) = set ds"
proof -
  have "set (fold insert_by_time ds es) = set ds \<union> set es" for es
    by (induction ds arbitrary: es) (auto simp: set_insert_by_time)
  then show ?thesis by (simp add: sort_by_time_def)
qed

lemma insert_newest: "\<forall>e \<in> set ds. newer d e \<Longrightarrow> insert_by_time d ds = d # ds"
  by (cases ds) auto

lemma sort_newest: "\<forall>e \<in> set ds. dd_time e < dd_time d \<Longrightarrow> sort_by_time (ds @ [d]) = d # sort_by_time ds"
  using set_sort_by_time [of ds]
  by (simp add: sort_by_time_def insert_newest newer_def)

lemma count_readable:
  "length (filter (\<lambda>f. snd f = Readable bs) fs) \<le> length (filter (\<lambda>y. y = bs) (map read_file (map snd fs)))"
  by (induction fs) auto

lemma getData_majority:
  assumes "dp_data p = []" and "dp_root p = Some ds" and "sort_by_time ds = d # others"
    and "length (dd_files d) < 2 * length (filter (\<lambda>f. snd f = Readable bs) (dd_files d))" and "bs \<noteq> []"
  shows "\<exists>p'. DataProtector_getData fs leftover True p = (Success, bs, p')"
proof -
  let ?xs = "map read_file (map snd (dd_files d))"
  let ?v = "after_remove_if leftover ?xs"
  have "length (filter (\<lambda>f. snd f = Readable bs) (dd_files d)) \<le> length (filter (\<lambda>y. y = bs) ?xs)"
    by (rule count_readable)
  also have "length (filter (\<lambda>y. y = bs) ?xs) \<le> length (filter (\<lambda>y. y = bs) ?v)"
  proof -
    have "filter (\<lambda>y. y = bs) (filter (\<lambda>x. x \<noteq> []) ?xs) = filter (\<lambda>y. y = bs) ?xs"
      using assms(5) by (auto intro: filter_cong)
    then show ?thesis by (simp add: after_remove_if_def Let_def del: filter_filter)
  qed
  finally have "length ?v < 2 * length (filter (\<lambda>y. y = bs) ?v)"
    using assms(4) length_filter_le [of "\<lambda>x. x \<noteq> []" ?xs] by (simp add: after_remove_if_def Let_def del: length_filter_le)
  then have m: "majority ?v = Some bs" and "?v \<noteq> []" using majority_wins [of ?v bs] by auto
  obtain f where f: "f \<in> set (dd_files d)" "snd f = Readable bs"
  proof -
    have "filter (\<lambda>f. snd f = Readable bs) (dd_files d) \<noteq> []" using assms(4) by auto
    then show thesis using that by (auto simp: filter_empty_conv)
  qed
  then have "dd_files d \<noteq> []" "\<not> list_all (\<lambda>f. f = Unopenable) (map snd (dd_files d))"
    by (auto simp: list_all_iff) (metis data_file.distinct(1) imageI)
  with assms m \<open>?v \<noteq> []\<close> show ?thesis by (simp add: DataProtector_getData_def Let_def)
qed

text \<open>
  C27. The majority decides. Where nothing is cached from an earlier call and more than half of the files in the newest data directory can be read
  and hold the same non-empty bytes, \<open>DataProtector_getData\<close> returns these bytes, whatever
  the other files hold, whether they can be opened or not, and whatever is left in the vector behind the
  elements \<^verbatim>\<open>remove_if\<close> keeps. In particular, one of three files may be lost or corrupted. (A cached value is returned without
  looking at the files. The comments of the source speak of the oldest directory; \<^verbatim>\<open>QDir::Time\<close> lists the most recent one first.)
\<close>

theorem majority_is_returned:
  assumes "dp_data p = []" and "dp_root p = Some ds" and "sort_by_time ds = d # others"
    and "length (dd_files d) < 2 * length (filter (\<lambda>f. snd f = Readable bs) (dd_files d))" and "bs \<noteq> []"
  shows "\<exists>p'. DataProtector_getData fs leftover True p = (Success, bs, p')"
  using getData_majority [OF assms] .

definition demo_fs :: file_system where
  "demo_fs = \<lparr>fs_mkpath = True, fs_mkdir = True, fs_uuid = ''new'', fs_now = 9, fs_open = (\<lambda>i. True),
     fs_write = (\<lambda>i. True), fs_commit = (\<lambda>i. True), fs_remove = (\<lambda>d. None), fs_rmdir = (\<lambda>d. True)\<rparr>"

definition demo_dir :: "data_file list \<Rightarrow> data_dir" where
  "demo_dir fs = \<lparr>dd_name = ''old'', dd_time = 5, dd_files = zip [''file0'', ''file1'', ''file2''] fs\<rparr>"

definition demo_protector :: "data_file list \<Rightarrow> DataProtector" where
  "demo_protector fs = \<lparr>dp_root = Some [demo_dir fs], dp_data = []\<rparr>"

theorem majority_is_returned_witness:
  "\<exists>p'. DataProtector_getData demo_fs (\<lambda>i. ''junk'') True
     (demo_protector [Readable ''salt'', Unopenable, Readable ''salt'']) = (Success, ''salt'', p')"
  by (rule majority_is_returned [where ds = "[demo_dir [Readable ''salt'', Unopenable, Readable ''salt'']]"
        and d = "demo_dir [Readable ''salt'', Unopenable, Readable ''salt'']" and others = "[]"])
    (simp_all add: demo_protector_def demo_dir_def sort_by_time_def)

lemma put_files_all:
  "put_files fs bytes is written = (True, files) \<Longrightarrow>
   files = written @ map (\<lambda>i. (data_file_name i, Readable bytes)) is"
proof (induction "is" arbitrary: written)
  case (Cons i "is")
  then have "put_files fs bytes is (written @ [(data_file_name i, Readable bytes)]) = (True, files)"
    by (simp split: if_splits)
  from Cons.IH [OF this] show ?case by simp
qed simp

lemma remove_dirs_all:
  "remove_dirs fs olds ds = (True, ds') \<Longrightarrow> ds' = filter (\<lambda>e. dd_name e \<notin> dd_name ` set olds) ds"
proof (induction olds arbitrary: ds)
  case (Cons old olds)
  from Cons.prems have "remove_dirs fs olds (filter (\<lambda>e. dd_name e \<noteq> dd_name old) ds) = (True, ds')"
    by (simp split: option.splits)
  from Cons.IH [OF this]
  have "ds' = filter (\<lambda>e. dd_name e \<notin> dd_name ` set olds) (filter (\<lambda>e. dd_name e \<noteq> dd_name old) ds)" .
  then show ?case by (simp add: conj_commute)
qed (auto intro: filter_True [symmetric])

text \<open>A root that holds the same bytes in each of the three files of its only directory, as a successful write leaves it.\<close>

definition keeps_data :: "data_dir list option \<Rightarrow> qbytes \<Rightarrow> bool" where
  "keeps_data root bytes \<longleftrightarrow>
     (\<exists>d. root = Some [d] \<and> dd_files d = map (\<lambda>i. (data_file_name i, Readable bytes)) [0, 1, 2])"

lemma putData_keeps:
  assumes "DataProtector_putData fs bytes p = (Success, p1)"
    and "\<forall>ds. dp_root p = Some ds \<longrightarrow> fs_uuid fs \<notin> dd_name ` set ds"
  shows "keeps_data (dp_root p1) bytes \<and> dp_data p1 = [] \<and> (\<exists>d. dp_root p1 = Some [d] \<and> dd_name d = fs_uuid fs)"
proof -
  define olds where "olds = (case dp_root p of None \<Rightarrow> [] | Some ds \<Rightarrow> ds)"
  define d where "d = \<lparr>dd_name = fs_uuid fs, dd_time = fs_now fs,
      dd_files = map (\<lambda>i. (data_file_name i, Readable bytes)) [0, 1, 2]\<rparr>"
  obtain w files where w: "put_files fs bytes [0, 1, 2] [] = (w, files)" by fastforce
  obtain r ds2 where r: "remove_dirs fs olds (olds @ [\<lparr>dd_name = fs_uuid fs, dd_time = fs_now fs, dd_files = files\<rparr>]) = (r, ds2)"
    by fastforce
  have p1: w r "p1 = p\<lparr>dp_root := Some ds2, dp_data := []\<rparr>"
    using assms(1) w r by (auto simp: DataProtector_putData_def olds_def Let_def split: if_splits)
  have f: "files = map (\<lambda>i. (data_file_name i, Readable bytes)) [0, 1, 2]"
    using put_files_all [of fs bytes "[0, 1, 2]" "[]" files] w p1(1) by simp
  have "fs_uuid fs \<notin> dd_name ` set olds" using assms(2) by (cases "dp_root p") (simp_all add: olds_def)
  moreover have "remove_dirs fs olds (olds @ [d]) = (True, ds2)" using r p1(2) by (simp add: d_def f)
  note remove_dirs_all [OF this]
  ultimately have "ds2 = [d]" by (simp add: d_def filter_empty_conv)
  with p1(3) show ?thesis by (simp add: d_def keeps_data_def)
qed

lemma getData_keeps:
  assumes "keeps_data root bytes" and "bytes \<noteq> []"
  shows "DataProtector_getData fs leftover True \<lparr>dp_root = root, dp_data = []\<rparr> = (Success, bytes, \<lparr>dp_root = root, dp_data = bytes\<rparr>)"
proof -
  from assms(1) obtain d where d: "root = Some [d]" "dd_files d = map (\<lambda>i. (data_file_name i, Readable bytes)) [0, 1, 2]"
    unfolding keeps_data_def by blast
  have "majority [bytes, bytes, bytes] = Some bytes"
    by (rule majority_wins) simp
  with d assms(2) show ?thesis
    by (simp add: DataProtector_getData_def sort_by_time_def after_remove_if_def Let_def)
qed

text \<open>
  C28. What is put is got. When \<open>DataProtector_putData\<close> of non-empty bytes reports success, only
  the new directory is left, and the next \<open>DataProtector_getData\<close> returns the bytes.
\<close>

theorem put_then_get:
  assumes "DataProtector_putData fs bytes p = (Success, p1)" and "bytes \<noteq> []"
    and "\<forall>ds. dp_root p = Some ds \<longrightarrow> fs_uuid fs \<notin> dd_name ` set ds"
  shows "\<exists>p2 d. dp_root p1 = Some [d] \<and> dd_name d = fs_uuid fs
     \<and> DataProtector_getData fs2 leftover True p1 = (Success, bytes, p2)"
proof -
  from putData_keeps [OF assms(1,3)] have k: "keeps_data (dp_root p1) bytes"
    and "\<exists>d. dp_root p1 = Some [d] \<and> dd_name d = fs_uuid fs" and "p1 = \<lparr>dp_root = dp_root p1, dp_data = []\<rparr>"
    by simp_all
  with getData_keeps [OF k assms(2)] show ?thesis by metis
qed

theorem put_then_get_witness:
  "\<exists>p1 p2. DataProtector_putData demo_fs ''pepper'' (demo_protector [Readable ''salt'']) = (Success, p1)
     \<and> DataProtector_getData demo_fs (\<lambda>i. []) True p1 = (Success, ''pepper'', p2)"
proof -
  have "fst (DataProtector_putData demo_fs ''pepper'' (demo_protector [Readable ''salt''])) = Success" by code_simp
  then obtain p1 where p1: "DataProtector_putData demo_fs ''pepper'' (demo_protector [Readable ''salt'']) = (Success, p1)"
    by (metis prod.collapse)
  from put_then_get [OF p1, of demo_fs "\<lambda>i. []"] p1 show ?thesis
    by (auto simp: demo_protector_def demo_fs_def demo_dir_def)
qed

text \<open>
  A failed write hides the old data. When \<open>DataProtector_putData\<close> cannot open its files, it
  leaves the new directory behind, empty. It is the newest one, so after a restart
  \<open>DataProtector_getData\<close> looks there and reports the data as irretrievable, although the old
  directory is still there with all its files. The same happens where the daemon is stopped between the creation
  of the directory and of its first file, which is the case the class is meant to protect from.
\<close>

theorem failed_put_hides_data:
  assumes "dp_root p = Some ds" and "\<forall>e \<in> set ds. dd_time e < fs_now fs"
    and "DataProtector_putData fs bytes p = (ErrorCannotOpenFile, p1)"
    and "DataProtector_getData fs2 leftover True (p1\<lparr>dp_data := []\<rparr>) = (status, result, p2)"
  shows "status = Irretrievable
     \<and> (\<exists>ds2. dp_root p2 = Some ds2 \<and> {e \<in> set ds. dd_files e \<noteq> []} \<subseteq> set ds2)"
proof -
  let ?d = "\<lparr>dd_name = fs_uuid fs, dd_time = fs_now fs, dd_files = []\<rparr>"
  have p1: "dp_root p1 = Some (ds @ [?d])"
    using assms(1,3) by (auto simp: DataProtector_putData_def Let_def split: if_splits prod.splits)
  have s: "sort_by_time (ds @ [?d]) = ?d # sort_by_time ds"
    by (rule sort_newest) (use assms(2) in simp)
  from assms(4) p1 s show ?thesis by (auto simp: DataProtector_getData_def Let_def)
qed

theorem failed_put_hides_data_witness:
  "let p = demo_protector [Readable ''salt'', Readable ''salt'', Readable ''salt''];
       fs = demo_fs\<lparr>fs_open := (\<lambda>i. False)\<rparr>;
       p1 = snd (DataProtector_putData fs ''pepper'' p);
       (status, result, p2) = DataProtector_getData demo_fs (\<lambda>i. []) True (p1\<lparr>dp_data := []\<rparr>)
   in fst (snd (DataProtector_getData demo_fs (\<lambda>i. []) True p)) = ''salt'' \<and> status = Irretrievable"
proof -
  let ?p = "demo_protector [Readable ''salt'', Readable ''salt'', Readable ''salt'']"
  let ?fs = "demo_fs\<lparr>fs_open := (\<lambda>i. False)\<rparr>"
  have "fst (DataProtector_putData ?fs ''pepper'' ?p) = ErrorCannotOpenFile" by code_simp
  then obtain p1 where p1: "DataProtector_putData ?fs ''pepper'' ?p = (ErrorCannotOpenFile, p1)"
    by (metis prod.collapse)
  obtain st re p2 where g: "DataProtector_getData demo_fs (\<lambda>i. []) True (p1\<lparr>dp_data := []\<rparr>) = (st, re, p2)"
    by (metis prod_cases3)
  have r: "dp_root ?p = Some [demo_dir [Readable ''salt'', Readable ''salt'', Readable ''salt'']]"
    "\<forall>e \<in> set [demo_dir [Readable ''salt'', Readable ''salt'', Readable ''salt'']]. dd_time e < fs_now ?fs"
    by (simp_all add: demo_protector_def demo_dir_def demo_fs_def)
  have s: "fst (snd (DataProtector_getData demo_fs (\<lambda>i. []) True ?p)) = ''salt''" by code_simp
  show ?thesis using failed_put_hides_data [OF r p1 g] s g p1 by (simp add: Let_def)
qed

text \<open>
  A cached value outlives the data. When \<open>DataProtector_putData\<close> has written the new files but
  cannot remove an old directory, it returns before it clears the copy in memory:
  \<open>DataProtector_getData\<close> goes on returning the old bytes, and after a restart it returns the new ones.
\<close>

theorem cached_value_outlives_data:
  assumes "dp_root p = Some ds" and "\<forall>e \<in> set ds. dd_time e < fs_now fs"
    and "\<forall>e e'. fs_remove fs e = Some e' \<longrightarrow> dd_time e' \<le> dd_time e" and "fs_uuid fs \<notin> dd_name ` set ds"
    and "dp_data p = old" and "old \<noteq> []" and "bytes \<noteq> []"
    and "DataProtector_putData fs bytes p = (ErrorCannotDeleteDirectory, p1)"
  shows "DataProtector_getData fs2 leftover True p1 = (Success, old, p1)
     \<and> (\<exists>p2. DataProtector_getData fs2 leftover True (p1\<lparr>dp_data := []\<rparr>) = (Success, bytes, p2))"
proof -
  let ?files = "map (\<lambda>i. (data_file_name i, Readable bytes)) [0, 1, 2]"
  let ?d = "\<lparr>dd_name = fs_uuid fs, dd_time = fs_now fs, dd_files = ?files\<rparr>"
  obtain w files where w: "put_files fs bytes [0, 1, 2] [] = (w, files)" by fastforce
  obtain r ds2 where r: "remove_dirs fs ds (ds @ [\<lparr>dd_name = fs_uuid fs, dd_time = fs_now fs, dd_files = files\<rparr>]) = (r, ds2)"
    by fastforce
  have p1: w "\<not> r" "p1 = p\<lparr>dp_root := Some ds2\<rparr>"
    using assms(1,8) w r by (auto simp: DataProtector_putData_def Let_def split: if_splits)
  have f: "files = ?files" using put_files_all [of fs bytes "[0, 1, 2]" "[]" files] w p1(1) by simp
  have gen: "\<exists>es. ds2 = es @ [?d] \<and> (\<forall>e \<in> set es. dd_time e < fs_now fs)"
    if "remove_dirs fs olds (es @ [?d]) = (False, ds2)" "set olds \<subseteq> set ds" "\<forall>e \<in> set es. dd_time e < fs_now fs" for olds es
    using that
  proof (induction olds arbitrary: es)
    case (Cons old olds)
    have n: "fs_uuid fs \<noteq> dd_name old" "dd_time old < fs_now fs" using Cons.prems(2) assms(2,4) by auto
    show ?case
    proof (cases "fs_remove fs old")
      case None
      then show ?thesis using Cons.IH [of "filter (\<lambda>e. dd_name e \<noteq> dd_name old) es"] Cons.prems n by simp
    next
      case (Some rest)
      with assms(3) n(2) have "dd_time rest < fs_now fs" by fastforce
      with Some Cons.prems n(1) show ?thesis by auto
    qed
  qed simp
  obtain es where es: "ds2 = es @ [?d]" "\<forall>e \<in> set es. dd_time e < fs_now fs"
    using gen [of ds ds] r p1(2) f assms(2) by auto
  have "sort_by_time ds2 = ?d # sort_by_time es" unfolding es(1) by (rule sort_newest) (use es(2) in simp)
  then have "\<exists>p2. DataProtector_getData fs2 leftover True (p1\<lparr>dp_data := []\<rparr>) = (Success, bytes, p2)"
    by (intro getData_majority [where ds = ds2 and d = ?d and others = "sort_by_time es"])
      (use assms(7) in \<open>simp_all add: p1(3)\<close>)
  with p1(3) assms(5,6) show ?thesis by (simp add: DataProtector_getData_def)
qed

theorem cached_value_outlives_data_witness:
  "let p = (demo_protector [Readable ''salt''])\<lparr>dp_data := ''salt''\<rparr>;
       fs = demo_fs\<lparr>fs_remove := (\<lambda>d. Some d)\<rparr>;
       p1 = snd (DataProtector_putData fs ''pepper'' p)
   in DataProtector_getData demo_fs (\<lambda>i. []) True p1 = (Success, ''salt'', p1)
      \<and> (\<exists>p2. DataProtector_getData demo_fs (\<lambda>i. []) True (p1\<lparr>dp_data := []\<rparr>) = (Success, ''pepper'', p2))"
proof -
  let ?p = "(demo_protector [Readable ''salt''])\<lparr>dp_data := ''salt''\<rparr>"
  let ?fs = "demo_fs\<lparr>fs_remove := (\<lambda>d. Some d)\<rparr>"
  have "fst (DataProtector_putData ?fs ''pepper'' ?p) = ErrorCannotDeleteDirectory" by code_simp
  then obtain p1 where p1: "DataProtector_putData ?fs ''pepper'' ?p = (ErrorCannotDeleteDirectory, p1)"
    by (metis prod.collapse)
  have a: "dp_root ?p = Some [demo_dir [Readable ''salt'']]" "\<forall>e \<in> set [demo_dir [Readable ''salt'']]. dd_time e < fs_now ?fs"
    "\<forall>e e'. fs_remove ?fs e = Some e' \<longrightarrow> dd_time e' \<le> dd_time e"
    "fs_uuid ?fs \<notin> dd_name ` set [demo_dir [Readable ''salt'']]" "dp_data ?p = ''salt''" "''salt'' \<noteq> []" "''pepper'' \<noteq> []"
    by (simp_all add: demo_protector_def demo_dir_def demo_fs_def)
  show ?thesis using cached_value_outlives_data [OF a p1, of demo_fs "\<lambda>i. []"] p1 by (simp add: Let_def)
qed

end
