(* ===== verification/Application_Permissions.thy ===== *)
theory Application_Permissions
  imports Prelude
begin

section \<open>Who is calling, and which plugin is meant\<close>

text \<open>
  The class \<^verbatim>\<open>ApplicationPermissions\<close> (src/daemon/SecretsImpl/applicationpermissions.cpp), which turns the process
  identifier of a caller into the name of an application, and \<^verbatim>\<open>Controller::mappedPluginName\<close>
  (src/daemon/controller.cpp), which turns the symbolic plugin names of the client library into those of installed plugins. The process file
  system and the daemon's environment variables are arguments.
\<close>

subsection \<open>Applications\<close>

text \<open>
  What the process file system shows of a process: the contents of \<^verbatim>\<open>cgroup\<close> and \<^verbatim>\<open>cmdline\<close> (or that the file cannot be read), the
  size \<^verbatim>\<open>lstat\<close> reports for the link \<^verbatim>\<open>exe\<close> with the target \<^verbatim>\<open>readlink\<close> gives, and the owner and
  group of the directory. \<open>pr_heap\<close> is what the freshly allocated buffer for the link's name holds.
\<close>

record process =
  pr_cgroup :: "qbytes option"
  pr_exe :: "(nat \<times> qbytes option) option"
  pr_cmdline :: "qbytes option"
  pr_heap :: qbytes
  pr_group :: qstring
  pr_owner :: qstring

definition is_space :: "char \<Rightarrow> bool" where
  "is_space c \<longleftrightarrow> (let n = (of_char c :: nat) in n = 32 \<or> 9 \<le> n \<and> n \<le> 13)"

definition trimmed :: "qstring \<Rightarrow> qstring" where
  "trimmed s = rev (dropWhile is_space (rev (dropWhile is_space s)))"

text \<open>\<^verbatim>\<open>QByteArray::split\<close>, and what follows the first occurrence of a substring.\<close>

fun split_lines :: "qbytes \<Rightarrow> qbytes list" where
  "split_lines [] = [[]]"
| "split_lines (c # cs) =
     (if c = CHR 0x0A then [] # split_lines cs
      else case split_lines cs of [] \<Rightarrow> [[c]] | l # ls \<Rightarrow> (c # l) # ls)"

fun after_marker :: "qbytes \<Rightarrow> qbytes \<Rightarrow> qbytes option" where
  "after_marker pat [] = (if pat = [] then Some [] else None)"
| "after_marker pat (c # cs) =
     (if take (length pat) (c # cs) = pat then Some (drop (length pat) (c # cs)) else after_marker pat cs)"

primrec booster_name :: "qbytes list \<Rightarrow> qstring" where
  "booster_name [] = []"
| "booster_name (line # lines) =
     (case after_marker '':name=booster:'' line of
        None \<Rightarrow> booster_name lines
      | Some cgroupName \<Rightarrow>
          if cgroupName \<noteq> [] \<and> cgroupName \<noteq> ''/'' then trimmed cgroupName else booster_name lines)"

definition readBoosterCgroup :: "process \<Rightarrow> qstring" where
  "readBoosterCgroup pr = (case pr_cgroup pr of None \<Rightarrow> [] | Some contents \<Rightarrow> booster_name (split_lines contents))"

text \<open>The buffer has one byte more than the reported size, and its byte at the reported size is set to zero whatever \<^verbatim>\<open>readlink\<close> wrote.\<close>

definition readExeSymlink :: "process \<Rightarrow> qstring" where
  "readExeSymlink pr =
     (case pr_exe pr of
        None \<Rightarrow> []
      | Some (st_size, None) \<Rightarrow> []
      | Some (st_size, Some target) \<Rightarrow>
          let written = take (st_size + 1) target
          in takeWhile (\<lambda>c. c \<noteq> CHR 0x00) (take st_size (written @ drop (length written) (pr_heap pr))))"

definition readCmdline :: "process \<Rightarrow> qstring" where
  "readCmdline pr =
     (case pr_cmdline pr of
        None \<Rightarrow> []
      | Some contents \<Rightarrow> trimmed (map (\<lambda>c. if c = CHR 0x00 then CHR 0x20 else c) contents))"

definition platformApplicationId :: qstring where
  "platformApplicationId = ''Sailfish OS''"

definition applicationId :: "(int \<Rightarrow> process) \<Rightarrow> int \<Rightarrow> qstring" where
  "applicationId proc pid =
     (if pid = 0 then platformApplicationId
      else if readBoosterCgroup (proc pid) \<noteq> [] then readBoosterCgroup (proc pid)
      else if readExeSymlink (proc pid) \<noteq> [] then readExeSymlink (proc pid)
      else readCmdline (proc pid))"

definition applicationIsPlatformApplication :: "(int \<Rightarrow> process) \<Rightarrow> int \<Rightarrow> bool" where
  "applicationIsPlatformApplication proc pid \<longleftrightarrow>
     pid = 0 \<or> \<not> (pr_group (proc pid) \<noteq> ''privileged'' \<and> pr_group (proc pid) \<noteq> ''disk'' \<and> pr_owner (proc pid) \<noteq> ''root'')"

text \<open>The identity every request is checked against.\<close>

definition callerApplicationId :: "(int \<Rightarrow> process) \<Rightarrow> int \<Rightarrow> qstring" where
  "callerApplicationId proc pid =
     (if applicationIsPlatformApplication proc pid then platformApplicationId else applicationId proc pid)"

text \<open>
  The process file system reports the size 0 for \<^verbatim>\<open>exe\<close> links. The name of the executable is then
  never used: an application outside the booster is identified by its command line, which the application chooses.
\<close>

lemma exe_link_of_size_zero_ignored:
  assumes "pr_exe (proc pid) = Some (0, target)" and "pid \<noteq> 0" and "readBoosterCgroup (proc pid) = []"
  shows "applicationId proc pid = readCmdline (proc pid)"
  using assms by (cases target) (simp_all add: applicationId_def readExeSymlink_def)

lemma platform_caller [simp]:
  "applicationIsPlatformApplication proc pid \<Longrightarrow> callerApplicationId proc pid = platformApplicationId"
  by (simp add: callerApplicationId_def)

subsection \<open>Plugin names\<close>

definition InAppAuthenticationPluginName :: qstring where
  "InAppAuthenticationPluginName = ''plugin.authentication.inapp''"

definition DefaultAuthenticationPluginName :: qstring where
  "DefaultAuthenticationPluginName = ''plugin.authentication.default''"

definition testSuffix :: qstring where
  "testSuffix = ''.test''"

definition starts_with :: "qstring \<Rightarrow> qstring \<Rightarrow> bool" where
  "starts_with pre s \<longleftrightarrow> take (length pre) s = pre"

definition ends_with :: "qstring \<Rightarrow> qstring \<Rightarrow> bool" where
  "ends_with suf s \<longleftrightarrow> length suf \<le> length s \<and> drop (length s - length suf) s = suf"

text \<open>The symbolic names in the order they are tried, with the environment variable and the plugin each stands for.\<close>

definition plugin_mappings :: "(qstring \<times> qstring \<times> qstring) list" where
  "plugin_mappings =
     [(''plugin.crypto.default'', ''SAILFISH_SECRETSD_DEFAULT_CRYPTO_PLUGIN'',
       ''org.sailfishos.crypto.plugin.crypto.openssl''),
      (''plugin.cryptostorage.default'', ''SAILFISH_SECRETSD_DEFAULT_CRYPTOSTORAGE_PLUGIN'',
       ''org.sailfishos.secrets.plugin.encryptedstorage.sqlcipher''),
      (''plugin.storage.default'', ''SAILFISH_SECRETSD_DEFAULT_STORAGE_PLUGIN'',
       ''org.sailfishos.secrets.plugin.storage.sqlite''),
      (''plugin.encryption.default'', ''SAILFISH_SECRETSD_DEFAULT_ENCRYPTION_PLUGIN'',
       ''org.sailfishos.secrets.plugin.encryption.openssl''),
      (''plugin.encryptedstorage.default'', ''SAILFISH_SECRETSD_DEFAULT_ENCRYPTEDSTORAGE_PLUGIN'',
       ''org.sailfishos.secrets.plugin.encryptedstorage.sqlcipher''),
      (DefaultAuthenticationPluginName, ''SAILFISH_SECRETSD_DEFAULT_AUTHENTICATION_PLUGIN'',
       ''org.sailfishos.secrets.plugin.authentication.passwordagent''),
      (InAppAuthenticationPluginName, ''SAILFISH_SECRETSD_INAPP_AUTHENTICATION_PLUGIN'',
       ''org.sailfishos.secrets.plugin.authentication.inapp'')]"

definition setting :: "(qstring \<Rightarrow> qbytes) \<Rightarrow> qstring \<Rightarrow> qstring \<Rightarrow> qstring" where
  "setting environment variable fallback = (if environment variable = [] then fallback else environment variable)"

definition mappedPluginName :: "(qstring \<Rightarrow> qbytes) \<Rightarrow> qstring \<Rightarrow> qstring" where
  "mappedPluginName environment pluginName =
     (if pluginName \<noteq> [] \<and> setting environment ''SAILFISH_SECRETSD_PERFORM_PLUGIN_MAPPING'' ''true''
           \<in> {''1'', ''true'', ''yes''}
      then (case find (\<lambda>(symbol, _). starts_with symbol pluginName) plugin_mappings of
              None \<Rightarrow> pluginName
            | Some (_, variable, fallback) \<Rightarrow>
                setting environment variable fallback @ (if ends_with testSuffix pluginName then testSuffix else []))
      else pluginName)"

text \<open>A plugin that a client chooses for authentication. In-app authentication is open to the owner and to the platform only.\<close>

definition determineAuthPlugin ::
    "(qstring \<Rightarrow> qbytes) \<Rightarrow> qstring \<Rightarrow> qstring \<Rightarrow> bool \<Rightarrow> qstring \<Rightarrow> qstring \<Rightarrow> bool \<Rightarrow> qstring" where
  "determineAuthPlugin environment ownerApplicationId callerId callerIsPlatformApplication authPluginName
       interactionServiceAddress autotestMode =
     (let suffix = (if autotestMode then testSuffix else []);
          mappedDefault = mappedPluginName environment (DefaultAuthenticationPluginName @ suffix);
          mappedInApp = mappedPluginName environment (InAppAuthenticationPluginName @ suffix)
      in if authPluginName = InAppAuthenticationPluginName \<or> authPluginName = InAppAuthenticationPluginName @ testSuffix
            \<or> authPluginName = mappedInApp
         then (if interactionServiceAddress = [] \<or> ownerApplicationId \<noteq> callerId \<and> \<not> callerIsPlatformApplication
               then mappedDefault else mappedInApp)
         else if authPluginName = DefaultAuthenticationPluginName \<or> authPluginName = DefaultAuthenticationPluginName @ testSuffix
            \<or> authPluginName = mappedDefault
         then mappedDefault
         else authPluginName)"

text \<open>A stranger is never sent to an application's own dialog, unless the default plugin is configured to be that one.\<close>

lemma stranger_never_in_app:
  assumes "owner \<noteq> caller"
    and "mappedPluginName environment (InAppAuthenticationPluginName @ (if test then testSuffix else []))
       \<noteq> mappedPluginName environment (DefaultAuthenticationPluginName @ (if test then testSuffix else []))"
  shows "determineAuthPlugin environment owner caller False plugin address test
       \<noteq> mappedPluginName environment (InAppAuthenticationPluginName @ (if test then testSuffix else []))"
  using assms by (auto simp: determineAuthPlugin_def Let_def)

end
