(* ===== verification/Master_Lock.thy ===== *)
theory Master_Lock
  imports Data_Protector Sqlcipher_Plugin Application_Permissions
begin

section \<open>The master lock\<close>

text \<open>
  The keys the daemon works with and the check of the master lock code: the functions of \<^verbatim>\<open>SecretsRequestQueue\<close>
  (src/daemon/SecretsImpl/secrets.cpp) that derive two keys from the lock code (one for the metadata databases, one for
  everything under the device lock), compare a test text with the one on the device and keep the keys in a locked block of memory.

  The cryptography plugins are arguments: the derivation of a 256-bit key with PBKDF2 over HMAC and SHA-512 from input data, a salt and a number
  of iterations, and the encryption of the test text, each of which may fail. The salt and the test text are kept by data protectors; the answers of the
  file system, the bytes of \<^verbatim>\<open>/dev/urandom\<close> and the date are arguments too.
\<close>

subsection \<open>State\<close>

record cipher_plugin =
  cp_generateKey :: "qbytes \<Rightarrow> qbytes \<Rightarrow> nat \<Rightarrow> qbytes option"
  cp_encrypt :: "qbytes \<Rightarrow> qbytes \<Rightarrow> qbytes \<Rightarrow> qbytes option"

record lock_env =
  le_environment :: "qstring \<Rightarrow> qbytes"
  le_autotestMode :: bool
  le_plugins :: "(qstring \<times> cipher_plugin) list"
  le_sha512 :: "qbytes \<Rightarrow> qbytes"
  le_mkpath :: bool
  le_saltFiles :: file_system
  le_checkFiles :: file_system
  le_leftover :: "nat \<Rightarrow> qbytes"
  le_notifications :: bool              \<comment> \<open>HAS\_NEMO\_NOTIFICATIONS\<close>
  le_removes :: bool                    \<comment> \<open>removeRecursively\<close>
  le_urandom :: "qbytes option"
  le_date :: qbytes

text \<open>The block both keys are copied into is allocated once, with the sizes of the first two keys.\<close>

record key_memory =
  km_bytes :: qbytes
  km_device :: nat

record MasterLock =
  ml_locked :: bool
  ml_noLockCode :: bool
  ml_saltData :: qbytes
  ml_saltRoot :: "data_dir list option"
  ml_checkRoot :: "data_dir list option"
  ml_memory :: "key_memory option"
  ml_bkdbLockKeyLen :: nat
  ml_deviceLockKeyLen :: nat

datatype InitializationMode = ModifyLockMode | UnlockMode | LockMode

definition MasterLock_bkdbLockKey :: "MasterLock \<Rightarrow> qbytes" where
  "MasterLock_bkdbLockKey s =
     (case ml_memory s of None \<Rightarrow> [] | Some mem \<Rightarrow> take (ml_bkdbLockKeyLen s) (km_bytes mem))"

definition MasterLock_deviceLockKey :: "MasterLock \<Rightarrow> qbytes" where
  "MasterLock_deviceLockKey s =
     (case ml_memory s of None \<Rightarrow> [] | Some mem \<Rightarrow> take (ml_deviceLockKeyLen s) (drop (km_device mem) (km_bytes mem)))"

text \<open>Data that cannot be read any more is left for the user to reset, or deleted with everything else in the secrets directory.\<close>

definition dealWithDataCorruption :: "lock_env \<Rightarrow> MasterLock \<Rightarrow> MasterLock" where
  "dealWithDataCorruption env s =
     (if le_notifications env \<or> \<not> le_removes env then s else s\<lparr>ml_saltRoot := None, ml_checkRoot := None\<rparr>)"

subsection \<open>The salt\<close>

definition xor_char :: "char \<Rightarrow> char \<Rightarrow> char" where
  "xor_char a b = char_of (xor (of_char a) (of_char b :: nat))"

fun xor_onto :: "qbytes \<Rightarrow> qbytes \<Rightarrow> qbytes" where
  "xor_onto (b # bs) (k # ks) = xor_char b k # xor_onto bs ks"
| "xor_onto bs _ = bs"

definition saltData :: "lock_env \<Rightarrow> MasterLock \<Rightarrow> qbytes \<times> MasterLock" where
  "saltData env s =
     (if ml_saltData s \<noteq> [] then (ml_saltData s, s)
      else if \<not> le_mkpath env then ([], s)
      else let (status, salt, p) = DataProtector_getData (le_saltFiles env) (le_leftover env) True
                 \<lparr>dp_root = ml_saltRoot s, dp_data = []\<rparr>;
               s1 = s\<lparr>ml_saltRoot := dp_root p\<rparr>
           in if status = Irretrievable then ([], dealWithDataCorruption env s1)
              else if status \<noteq> Success then ([], s1)
              else if salt \<noteq> [] then (salt, s1\<lparr>ml_saltData := salt\<rparr>)
              else case le_urandom env of
                     None \<Rightarrow> ([], s1)
                   | Some random \<Rightarrow>
                       let fresh = xor_onto random (le_date env);
                           (status2, p2) = DataProtector_putData (le_saltFiles env) fresh p
                       in if status2 \<noteq> Success then ([], s1\<lparr>ml_saltRoot := dp_root p2\<rparr>)
                          else (fresh, s1\<lparr>ml_saltRoot := dp_root p2, ml_saltData := fresh\<rparr>))"

subsection \<open>Deriving the keys\<close>

definition test_plaintext :: qbytes where
  "test_plaintext = ''The quick brown fox jumps over the lazy dog''"

definition no_plugin :: qstring where
  "no_plugin = ''no-key-derivation-cipher-plugin''"

text \<open>The keys of a daemon without cryptography plugins: the lock code over a fixed text.\<close>

definition specifyDummyMasterlockKeys :: "qbytes \<Rightarrow> qbytes \<times> qbytes \<times> qbytes" where
  "specifyDummyMasterlockKeys lockCode =
     (let bkdbKey = xor_onto (replicate 64 CHR ''f'') (toHex lockCode);
          deviceLockKey = xor_onto (replicate 32 CHR ''f'') lockCode
      in (xor_onto test_plaintext bkdbKey, bkdbKey, deviceLockKey))"

text \<open>
  The first plugin that derives both keys. The number of iterations is set for the second key and not set back, so that the next
  plugin derives both keys with the second number.
\<close>

fun first_generating ::
    "qbytes \<Rightarrow> qbytes \<Rightarrow> nat \<Rightarrow> (qstring \<times> cipher_plugin) list \<Rightarrow> (qstring \<times> cipher_plugin \<times> qbytes \<times> qbytes) option" where
  "first_generating input salt iterations [] = None"
| "first_generating input salt iterations ((n, p) # ps) =
     (case cp_generateKey p input salt iterations of
        None \<Rightarrow> first_generating input salt iterations ps
      | Some bookkeepingdbKey \<Rightarrow>
          (case cp_generateKey p input salt 16000 of
             None \<Rightarrow> first_generating input salt 16000 ps
           | Some devicelockKey \<Rightarrow> Some (n, p, bookkeepingdbKey, devicelockKey)))"

definition lookup_plugin :: "lock_env \<Rightarrow> qstring \<Rightarrow> (qstring \<times> cipher_plugin) option" where
  "lookup_plugin env name = map_option (\<lambda>p. (name, p)) (map_of (le_plugins env) name)"

text \<open>The plugin that is to derive the keys; \<open>Some None\<close> leaves the choice to the search above, and \<open>None\<close> is a failure.\<close>

definition choose_plugin :: "lock_env \<Rightarrow> qstring \<Rightarrow> (qstring \<times> cipher_plugin) option option" where
  "choose_plugin env cipherPluginName =
     (let suffix = (if le_autotestMode env then testSuffix else []);
          named = (if cipherPluginName = [] then None else lookup_plugin env cipherPluginName);
          envName = le_environment env ''SAILFISH_SECRETSD_MASTERLOCK_CRYPTOPLUGIN''
      in if named = None \<and> cipherPluginName \<noteq> [] then None
         else if envName \<noteq> []
         then (case lookup_plugin env envName of
                 Some p \<Rightarrow> Some (Some p)
               | None \<Rightarrow>
                   (case (if le_autotestMode env then lookup_plugin env (envName @ testSuffix) else None) of
                      Some p \<Rightarrow> Some (Some p)
                    | None \<Rightarrow> None))
         else case named of
                Some p \<Rightarrow> Some (Some p)
              | None \<Rightarrow> Some (lookup_plugin env (mappedPluginName (le_environment env) (''plugin.crypto.default'' @ suffix))))"

definition derive_keys :: "lock_env \<Rightarrow> qbytes \<Rightarrow> qbytes \<Rightarrow> qstring \<Rightarrow> (qstring \<times> cipher_plugin \<times> qbytes \<times> qbytes) option" where
  "derive_keys env input salt cipherPluginName =
     (case choose_plugin env cipherPluginName of
        None \<Rightarrow> None
      | Some None \<Rightarrow> first_generating input salt 12000 (le_plugins env)
      | Some (Some (n, p)) \<Rightarrow>
          (case cp_generateKey p input salt 12000 of
             None \<Rightarrow> None
           | Some bookkeepingdbKey \<Rightarrow>
               map_option (\<lambda>devicelockKey. (n, p, bookkeepingdbKey, devicelockKey)) (cp_generateKey p input salt 16000)))"

text \<open>The keys in the form they are used in, the test text, and the plugin that was used.\<close>

definition generateKeyData ::
    "lock_env \<Rightarrow> qbytes \<Rightarrow> qstring \<Rightarrow> MasterLock \<Rightarrow> (qbytes \<times> qbytes \<times> qbytes \<times> qstring) option \<times> MasterLock" where
  "generateKeyData env lockCode cipherPluginName s =
     (let (salt, s1) = saltData env s
      in if salt = [] then (None, s1)
         else case derive_keys env (if lockCode = [] then [CHR 0x00] else lockCode) salt cipherPluginName of
                None \<Rightarrow> (None, s1)
              | Some (n, p, bookkeepingdbKey, devicelockKey) \<Rightarrow>
                  (case cp_encrypt p test_plaintext (take 16 (le_sha512 env (salt @ bookkeepingdbKey))) bookkeepingdbKey of
                     None \<Rightarrow> (None, s1)
                   | Some testCipherText \<Rightarrow> (Some (toHex bookkeepingdbKey, devicelockKey, testCipherText, n), s1)))"

subsection \<open>The check on the device\<close>

definition newline :: char where
  "newline = CHR 0x0A"

definition before_newline :: "qbytes \<Rightarrow> qbytes" where
  "before_newline bs = takeWhile (\<lambda>c. c \<noteq> newline) bs"

definition after_newline :: "qbytes \<Rightarrow> qbytes" where
  "after_newline bs = (if newline \<in> set bs then tl (dropWhile (\<lambda>c. c \<noteq> newline) bs) else bs)"

definition check_protector :: "MasterLock \<Rightarrow> DataProtector" where
  "check_protector s = \<lparr>dp_root = ml_checkRoot s, dp_data = []\<rparr>"

definition writeTestCipherText :: "lock_env \<Rightarrow> qbytes \<Rightarrow> qstring \<Rightarrow> MasterLock \<Rightarrow> bool \<times> MasterLock" where
  "writeTestCipherText env testCipherText cipherPluginName s =
     (if \<not> le_mkpath env then (False, s)
      else let (status, p) = DataProtector_putData (le_checkFiles env) (cipherPluginName @ [newline] @ testCipherText)
                 (check_protector s)
           in (status = Success, s\<lparr>ml_checkRoot := dp_root p\<rparr>))"

definition read_check :: "lock_env \<Rightarrow> MasterLock \<Rightarrow> qbytes option \<times> DataProtector \<times> MasterLock" where
  "read_check env s =
     (if \<not> le_mkpath env then (None, check_protector s, s)
      else let (status, previousData, p) = DataProtector_getData (le_checkFiles env) (le_leftover env) True (check_protector s);
               s1 = s\<lparr>ml_checkRoot := dp_root p\<rparr>
           in if status = Irretrievable then (None, p, dealWithDataCorruption env s1)
              else if status \<noteq> Success then (None, p, s1)
              else (Some previousData, p, s1))"

definition determineTestCipherPlugin :: "lock_env \<Rightarrow> MasterLock \<Rightarrow> qstring option \<times> MasterLock" where
  "determineTestCipherPlugin env s =
     (let (previousData, p, s1) = read_check env s in (map_option before_newline previousData, s1))"

definition compareTestCipherText :: "lock_env \<Rightarrow> qbytes \<Rightarrow> bool \<Rightarrow> qstring \<Rightarrow> MasterLock \<Rightarrow> bool \<times> MasterLock" where
  "compareTestCipherText env testCipherText writeIfNotExists cipherPluginName s =
     (case read_check env s of
        (None, p, s1) \<Rightarrow> (False, s1)
      | (Some previousData, p, s1) \<Rightarrow>
          if previousData = []
          then (if writeIfNotExists
                then let (status, p2) = DataProtector_putData (le_checkFiles env) (cipherPluginName @ [newline] @ testCipherText) p
                     in (status = Success, s1\<lparr>ml_checkRoot := dp_root p2\<rparr>)
                else (False, s1))
          else (after_newline previousData = testCipherText, s1))"

subsection \<open>Keys in memory\<close>

text \<open>\<^verbatim>\<open>memcpy\<close> into the block; \<open>None\<close> is a write outside of it.\<close>

definition memcpy :: "nat \<Rightarrow> qbytes \<Rightarrow> qbytes \<Rightarrow> qbytes option" where
  "memcpy offset bytes block =
     (if offset + length bytes \<le> length block
      then Some (take offset block @ bytes @ drop (offset + length bytes) block) else None)"

definition initializeKeyData :: "qbytes \<Rightarrow> qbytes \<Rightarrow> MasterLock \<Rightarrow> MasterLock option" where
  "initializeKeyData bkdbKey deviceLockKey s =
     (let mem = (case ml_memory s of
                   Some mem \<Rightarrow> mem
                 | None \<Rightarrow> \<lparr>km_bytes = replicate (length bkdbKey + length deviceLockKey) CHR 0x00, km_device = length bkdbKey\<rparr>)
      in case memcpy 0 bkdbKey (km_bytes mem) of
           None \<Rightarrow> None
         | Some block \<Rightarrow>
             (case memcpy (km_device mem) deviceLockKey block of
                None \<Rightarrow> None
              | Some block2 \<Rightarrow> Some (s\<lparr>ml_memory := Some (mem\<lparr>km_bytes := block2\<rparr>),
                    ml_bkdbLockKeyLen := length bkdbKey, ml_deviceLockKeyLen := length deviceLockKey\<rparr>)))"

subsection \<open>Setting and testing the lock code\<close>

text \<open>The keys, the test text and the plugin to record; \<open>None\<close> when the plugin the keys were derived with before is gone.\<close>

definition lock_code_keys ::
    "lock_env \<Rightarrow> qbytes \<Rightarrow> MasterLock \<Rightarrow> (qbytes \<times> qbytes \<times> qbytes \<times> qstring) option \<times> MasterLock" where
  "lock_code_keys env lockCode s =
     (let (recorded, s1) = determineTestCipherPlugin env s;
          firstTime = (recorded = None \<or> recorded = Some []);
          cipherPluginName = (case recorded of None \<Rightarrow> [] | Some n \<Rightarrow> n);
          (dummyText, bkdb, device) = specifyDummyMasterlockKeys lockCode
      in if cipherPluginName = no_plugin then (Some (bkdb, device, dummyText, []), s1)
         else case generateKeyData env lockCode cipherPluginName s1 of
                (None, s2) \<Rightarrow> if firstTime then (Some (bkdb, device, dummyText, no_plugin), s2) else (None, s2)
              | (Some (bkdbKey, deviceLockKey, testCipherText, used), s2) \<Rightarrow>
                  if used = no_plugin then (Some (bkdb, device, dummyText, used), s2)
                  else (Some (bkdbKey, deviceLockKey, testCipherText, used), s2))"

definition initialize_lock :: "lock_env \<Rightarrow> qbytes \<Rightarrow> InitializationMode \<Rightarrow> MasterLock \<Rightarrow> (bool \<times> MasterLock) option" where
  "initialize_lock env lockCode mode s =
     (case lock_code_keys env lockCode s of
        (None, s1) \<Rightarrow> Some (False, s1)
      | (Some (bkdbKey, deviceLockKey, testCipherText, used), s1) \<Rightarrow>
          let (ok, s2) =
                (case mode of
                   ModifyLockMode \<Rightarrow> writeTestCipherText env testCipherText used s1
                 | UnlockMode \<Rightarrow> compareTestCipherText env testCipherText True used s1
                 | LockMode \<Rightarrow> (True, s1))
          in if \<not> ok then Some (False, s2)
             else case initializeKeyData bkdbKey deviceLockKey s2 of
                    None \<Rightarrow> None
                  | Some s3 \<Rightarrow>
                      Some (True, if mode = LockMode then s3\<lparr>ml_locked := True\<rparr>
                                  else s3\<lparr>ml_locked := False, ml_noLockCode := (lockCode = [])\<rparr>))"

definition testLockCode :: "lock_env \<Rightarrow> qbytes \<Rightarrow> MasterLock \<Rightarrow> bool \<times> MasterLock" where
  "testLockCode env lockCode s =
     (case determineTestCipherPlugin env s of
        (None, s1) \<Rightarrow> (False, s1)
      | (Some cipherPluginName, s1) \<Rightarrow>
          if cipherPluginName = no_plugin
          then compareTestCipherText env (fst (specifyDummyMasterlockKeys lockCode)) False cipherPluginName s1
          else case generateKeyData env lockCode cipherPluginName s1 of
                 (None, s2) \<Rightarrow> (False, s2)
               | (Some (bkdbKey, deviceLockKey, testCipherText, used), s2) \<Rightarrow>
                   compareTestCipherText env testCipherText False cipherPluginName s2)"

subsection \<open>The check is what was written\<close>

lemma getData_shrinks:
  assumes "DataProtector_getData fs leftover given p = (status, bytes, p1)" and "dp_root p1 = Some ds1"
  shows "\<exists>ds. dp_root p = Some ds \<and> set ds1 \<subseteq> set ds"
  using assms by (auto simp: DataProtector_getData_def Let_def split: if_splits option.splits list.splits)

lemma dealWithDataCorruption_salt [simp]: "ml_saltData (dealWithDataCorruption env s) = ml_saltData s"
  by (simp add: dealWithDataCorruption_def)

lemma read_check_kept:
  assumes "le_mkpath env" and "keeps_data (ml_checkRoot s) bytes" and "bytes \<noteq> []"
  shows "read_check env s = (Some bytes, \<lparr>dp_root = ml_checkRoot s, dp_data = bytes\<rparr>, s)"
  using getData_keeps [OF assms(2,3)] assms(1) by (simp add: read_check_def check_protector_def)

text \<open>A directory name that was not there before reading the check is not there afterwards.\<close>

definition check_names :: "MasterLock \<Rightarrow> qstring set" where
  "check_names s = (case ml_checkRoot s of None \<Rightarrow> {} | Some ds \<Rightarrow> dd_name ` set ds)"

lemma read_check_names: "read_check env s = (previous, p, s1) \<Longrightarrow> check_names s1 \<subseteq> check_names s"
  using getData_shrinks [of "le_checkFiles env" "le_leftover env" True "check_protector s"]
  by (fastforce simp: read_check_def check_names_def check_protector_def dealWithDataCorruption_def Let_def
      split: if_splits option.splits prod.splits)

lemma saltData_names: "check_names (snd (saltData env s)) \<subseteq> check_names s"
  by (auto simp: saltData_def check_names_def dealWithDataCorruption_def Let_def split: option.splits prod.splits)

lemma generateKeyData_names: "generateKeyData env code n s = (keys, s1) \<Longrightarrow> check_names s1 \<subseteq> check_names s"
  using saltData_names [of env s]
  by (auto simp: generateKeyData_def Let_def split: if_splits option.splits prod.splits)

lemma lock_code_keys_names:
  assumes "lock_code_keys env code s = (keys, s1)"
  shows "check_names s1 \<subseteq> check_names s"
proof -
  obtain r s0 where r: "determineTestCipherPlugin env s = (r, s0)" by fastforce
  then have "check_names s0 \<subseteq> check_names s"
    using read_check_names [of env s] by (fastforce simp: determineTestCipherPlugin_def split: prod.splits)
  with assms r show ?thesis
    by (auto simp: lock_code_keys_def Let_def dest!: generateKeyData_names split: if_splits option.splits prod.splits)
qed

lemma writeTestCipherText_kept:
  assumes "writeTestCipherText env tct n s = (True, s1)" and "fs_uuid (le_checkFiles env) \<notin> check_names s"
  shows "keeps_data (ml_checkRoot s1) (n @ [newline] @ tct) \<and> le_mkpath env \<and> ml_saltData s1 = ml_saltData s"
  using assms putData_keeps [of "le_checkFiles env" "n @ [newline] @ tct" "check_protector s"]
  by (auto simp: writeTestCipherText_def check_names_def check_protector_def split: if_splits prod.splits option.splits)

lemma check_parts [simp]:
  "newline \<notin> set n \<Longrightarrow> before_newline (n @ newline # tct) = n"
  "newline \<notin> set n \<Longrightarrow> after_newline (n @ newline # tct) = tct"
  "after_newline (newline # tct) = tct" "before_newline (newline # tct) = []"
  by (auto simp: before_newline_def after_newline_def takeWhile_append dropWhile_append)

text \<open>The text a plugin derives from a lock code; an empty lock code is a zero byte.\<close>

definition lock_input :: "qbytes \<Rightarrow> qbytes" where
  "lock_input lockCode = (if lockCode = [] then [CHR 0x00] else lockCode)"

definition test_text :: "lock_env \<Rightarrow> cipher_plugin \<Rightarrow> qbytes \<Rightarrow> qbytes \<Rightarrow> qbytes option" where
  "test_text env p salt lockCode =
     (case (cp_generateKey p (lock_input lockCode) salt 12000, cp_generateKey p (lock_input lockCode) salt 16000) of
        (Some k, Some _) \<Rightarrow> cp_encrypt p test_plaintext (take 16 (le_sha512 env (salt @ k))) k
      | _ \<Rightarrow> None)"

lemma choose_recorded:
  assumes "n \<noteq> []" and "map_of (le_plugins env) n = Some p" and "le_environment env ''SAILFISH_SECRETSD_MASTERLOCK_CRYPTOPLUGIN'' = []"
  shows "choose_plugin env n = Some (Some (n, p))"
  using assms by (simp add: choose_plugin_def lookup_plugin_def)

lemma generateKeyData_recorded:
  assumes "choose_plugin env n = Some (Some (n, p))" and "saltData env s = (salt, s1)"
  shows "map_option (\<lambda>(b, d, tct, used). (tct, used)) (fst (generateKeyData env code n s))
       = (if salt = [] then None else map_option (\<lambda>tct. (tct, n)) (test_text env p salt code))"
    and "snd (generateKeyData env code n s) = s1"
  using assms
  by (auto simp: generateKeyData_def derive_keys_def test_text_def lock_input_def Let_def split: option.splits prod.splits)

lemma saltData_cached: "saltData env s = (salt, s1) \<Longrightarrow> salt \<noteq> [] \<Longrightarrow> ml_saltData s1 = salt"
  by (auto simp: saltData_def Let_def split: if_splits option.splits prod.splits)

lemma saltData_again [simp]: "ml_saltData s \<noteq> [] \<Longrightarrow> saltData env s = (ml_saltData s, s)"
  by (simp add: saltData_def)

lemma initializeKeyData_frame:
  "initializeKeyData b d s = Some s1 \<Longrightarrow> ml_checkRoot s1 = ml_checkRoot s \<and> ml_saltData s1 = ml_saltData s"
  by (auto simp: initializeKeyData_def Let_def split: option.splits)

lemma initialize_modify:
  assumes "initialize_lock env code ModifyLockMode s = Some (True, s1)" and "fs_uuid (le_checkFiles env) \<notin> check_names s"
  shows "\<exists>b d tct used s0. lock_code_keys env code s = (Some (b, d, tct, used), s0)
     \<and> keeps_data (ml_checkRoot s1) (used @ [newline] @ tct) \<and> le_mkpath env \<and> ml_saltData s1 = ml_saltData s0
     \<and> \<not> ml_locked s1"
proof -
  from assms(1) obtain b d tct used s0 s2 s3 where k: "lock_code_keys env code s = (Some (b, d, tct, used), s0)"
    and w: "writeTestCipherText env tct used s0 = (True, s2)" and i: "initializeKeyData b d s2 = Some s3"
    and s1: "s1 = s3\<lparr>ml_locked := False, ml_noLockCode := (code = [])\<rparr>"
    by (auto simp: initialize_lock_def split: prod.splits option.splits if_splits)
  from lock_code_keys_names [OF k] assms(2) have "fs_uuid (le_checkFiles env) \<notin> check_names s0" by blast
  from writeTestCipherText_kept [OF w this] initializeKeyData_frame [OF i] k s1 show ?thesis by simp
qed

text \<open>
  C14. The lock code that was set is the one that is accepted. Let the check on the device name a plugin that is loaded and is not the
  substitute (for which \<open>dummy_lock_code_is_lost\<close> shows the contrary), the environment not override it, and the name of the new check
  directory be fresh. When \<open>initialize_lock\<close> changes the code successfully, \<open>testLockCode\<close> then accepts exactly the new code (the empty code and
  a zero byte are the same code), provided that the plugin's test texts for other codes differ from the text of the new one.
\<close>

theorem lock_code_is_checked:
  assumes "determineTestCipherPlugin env s = (Some n, s0)" and "n \<noteq> []" and "n \<noteq> no_plugin" and "newline \<notin> set n"
    and "map_of (le_plugins env) n = Some p" and "le_environment env ''SAILFISH_SECRETSD_MASTERLOCK_CRYPTOPLUGIN'' = []"
    and "fs_uuid (le_checkFiles env) \<notin> check_names s"
    and "initialize_lock env newCode ModifyLockMode s = Some (True, s1)"
    and "\<And>c. lock_input c \<noteq> lock_input newCode
           \<Longrightarrow> test_text env p (ml_saltData s1) c \<noteq> test_text env p (ml_saltData s1) newCode"
  shows "fst (testLockCode env code s1) \<longleftrightarrow> lock_input code = lock_input newCode"
proof -
  note c = choose_recorded [OF assms(2,5,6)]
  obtain salt s2 where salt: "saltData env s0 = (salt, s2)" by fastforce
  note g = generateKeyData_recorded [OF c salt]
  from initialize_modify [OF assms(8,7)] obtain b d tct used s3 where
    k: "lock_code_keys env newCode s = (Some (b, d, tct, used), s3)"
    and kept: "keeps_data (ml_checkRoot s1) (used @ [newline] @ tct)" and mk: "le_mkpath env"
    and sd: "ml_saltData s1 = ml_saltData s3" by blast
  obtain keys s4 where kd: "generateKeyData env newCode n s0 = (keys, s4)" by fastforce
  with g [of newCode] have "u = n" if "keys = Some (b', d', t', u)" for b' d' t' u
    using that kd by (cases "test_text env p salt newCode") (auto split: if_splits)
  with kd k assms(1-3) have keys: "keys = Some (b, d, tct, used)" "s3 = s4"
    by (auto simp: lock_code_keys_def Let_def split: option.splits if_splits prod.splits)
  with g [of newCode] kd have t: "salt \<noteq> []" "test_text env p salt newCode = Some tct" "used = n" "s4 = s2"
    by (cases "test_text env p salt newCode"; auto split: if_splits)+
  with saltData_cached [OF salt] sd keys have sd1: "ml_saltData s1 = salt" by simp
  have r: "read_check env s1 = (Some (n @ [newline] @ tct), \<lparr>dp_root = ml_checkRoot s1, dp_data = n @ [newline] @ tct\<rparr>, s1)"
    using read_check_kept [OF mk kept] t(3) by simp
  obtain keys1 s5 where kd1: "generateKeyData env code n s1 = (keys1, s5)" by fastforce
  with generateKeyData_recorded [OF c, of s1 salt s1 code] sd1 t(1) have k1: "s5 = s1"
    "map_option (\<lambda>(b, d, tct, used). (tct, used)) keys1 = map_option (\<lambda>tct. (tct, n)) (test_text env p salt code)" by auto
  have "fst (testLockCode env code s1) \<longleftrightarrow> test_text env p salt code = Some tct"
    using r kd1 k1 assms(3,4) by (cases "test_text env p salt code")
      (auto simp: testLockCode_def determineTestCipherPlugin_def compareTestCipherText_def split: option.splits prod.splits)
  moreover have "test_text env p salt code = test_text env p salt newCode" if "lock_input code = lock_input newCode"
    using that by (simp add: test_text_def)
  ultimately show ?thesis using assms(9) [of code] sd1 t(2) by auto
qed

definition demo_cipher_plugin :: cipher_plugin where
  "demo_cipher_plugin = \<lparr>cp_generateKey = (\<lambda>input salt i. Some input), cp_encrypt = (\<lambda>bytes iv key. Some key)\<rparr>"

definition demo_lock_env :: lock_env where
  "demo_lock_env = \<lparr>le_environment = (\<lambda>_. []), le_autotestMode = False, le_plugins = [(''aes'', demo_cipher_plugin)],
     le_sha512 = id, le_mkpath = True, le_saltFiles = demo_fs, le_checkFiles = demo_fs, le_leftover = (\<lambda>_. []),
     le_notifications = True, le_removes = True, le_urandom = None, le_date = []\<rparr>"

definition demo_files :: "qbytes \<Rightarrow> data_dir list option" where
  "demo_files bytes = Some [demo_dir [Readable bytes, Readable bytes, Readable bytes]]"

definition demo_lock :: "qstring \<Rightarrow> qbytes \<Rightarrow> MasterLock" where
  "demo_lock n tct = \<lparr>ml_locked = False, ml_noLockCode = True, ml_saltData = ''salt'', ml_saltRoot = demo_files ''salt'',
     ml_checkRoot = demo_files (n @ [newline] @ tct), ml_memory = None, ml_bkdbLockKeyLen = 0, ml_deviceLockKeyLen = 0\<rparr>"

theorem lock_code_is_checked_witness:
  "let s1 = snd (the (initialize_lock demo_lock_env ''1234'' ModifyLockMode (demo_lock ''aes'' ''x'')))
   in fst (testLockCode demo_lock_env ''1234'' s1) \<and> \<not> fst (testLockCode demo_lock_env ''0000'' s1)"
proof -
  have ok: "map_option fst (initialize_lock demo_lock_env ''1234'' ModifyLockMode (demo_lock ''aes'' ''x'')) = Some True"
    by code_simp
  then obtain s1 where s1: "initialize_lock demo_lock_env ''1234'' ModifyLockMode (demo_lock ''aes'' ''x'') = Some (True, s1)"
    by auto
  have d: "fst (determineTestCipherPlugin demo_lock_env (demo_lock ''aes'' ''x'')) = Some ''aes''" by code_simp
  have f: "fs_uuid (le_checkFiles demo_lock_env) \<notin> check_names (demo_lock ''aes'' ''x'')" by code_simp
  have t: "test_text demo_lock_env demo_cipher_plugin salt c = Some (lock_input c)" for salt c
    by (simp add: test_text_def demo_cipher_plugin_def)
  have n: "''aes'' \<noteq> no_plugin" "newline \<notin> set ''aes''" by code_simp+
  have p: "map_of (le_plugins demo_lock_env) ''aes'' = Some demo_cipher_plugin"
    "le_environment demo_lock_env ''SAILFISH_SECRETSD_MASTERLOCK_CRYPTOPLUGIN'' = []"
    by (simp_all add: demo_lock_env_def)
  note w = lock_code_is_checked [OF prod.collapse [symmetric, of "determineTestCipherPlugin demo_lock_env (demo_lock ''aes'' ''x'')",
        unfolded d] _ n p f s1]
  have "fst (testLockCode demo_lock_env c s1) \<longleftrightarrow> lock_input c = lock_input ''1234''" for c
    by (rule w) (auto simp: t)
  then show ?thesis by (simp add: s1 lock_input_def)
qed

text \<open>
  A daemon without cryptography plugins loses its lock code when the code is changed. The check on the device is then written with an
  empty plugin name instead of the reserved name, so that \<open>testLockCode\<close> looks for a plugin to derive keys with, finds none
  and refuses every code, the new one included.
\<close>

theorem dummy_lock_code_is_lost:
  assumes "determineTestCipherPlugin env s = (Some no_plugin, s0)" and "le_plugins env = []"
    and "fs_uuid (le_checkFiles env) \<notin> check_names s"
    and "initialize_lock env newCode ModifyLockMode s = Some (True, s1)"
  shows "\<not> fst (testLockCode env code s1)"
proof -
  from initialize_modify [OF assms(4,3)] obtain b d tct used s3 where
    k: "lock_code_keys env newCode s = (Some (b, d, tct, used), s3)"
    and kept: "keeps_data (ml_checkRoot s1) (used @ [newline] @ tct)" and mk: "le_mkpath env" by blast
  from k assms(1) have "used = []" by (auto simp: lock_code_keys_def Let_def split: prod.splits)
  with read_check_kept [OF mk kept] have "determineTestCipherPlugin env s1 = (Some [], s1)"
    by (simp add: determineTestCipherPlugin_def)
  moreover have "fst (generateKeyData env code [] s1) = None"
    using assms(2) by (auto simp: generateKeyData_def derive_keys_def choose_plugin_def lookup_plugin_def Let_def
        split: prod.splits option.splits if_splits)
  moreover have "[] \<noteq> no_plugin" by (simp add: no_plugin_def)
  ultimately show ?thesis by (auto simp: testLockCode_def split: prod.splits option.splits)
qed

theorem dummy_lock_code_is_lost_witness:
  "let env = demo_lock_env\<lparr>le_plugins := []\<rparr>; s = demo_lock no_plugin (fst (specifyDummyMasterlockKeys ''old''));
       s1 = snd (the (initialize_lock env ''new'' ModifyLockMode s))
   in fst (testLockCode env ''old'' s) \<and> \<not> fst (testLockCode env ''new'' s1)"
proof -
  let ?env = "demo_lock_env\<lparr>le_plugins := []\<rparr>" and ?s = "demo_lock no_plugin (fst (specifyDummyMasterlockKeys ''old''))"
  have a: "fst (testLockCode ?env ''old'' ?s)" "fst (determineTestCipherPlugin ?env ?s) = Some no_plugin"
    "fs_uuid (le_checkFiles ?env) \<notin> check_names ?s" by code_simp+
  have "map_option fst (initialize_lock ?env ''new'' ModifyLockMode ?s) = Some True" by code_simp
  then obtain s1 where s1: "initialize_lock ?env ''new'' ModifyLockMode ?s = Some (True, s1)" by auto
  from dummy_lock_code_is_lost [OF prod.collapse [symmetric, of "determineTestCipherPlugin ?env ?s", unfolded a(2)] _ a(3) s1]
  have "\<not> fst (testLockCode ?env ''new'' s1)" by simp
  with a(1) s1 show ?thesis by (simp add: Let_def)
qed

text \<open>
  Where a plugin derives the first key and not the second, the plugin that is tried next derives both keys with the same number of iterations,
  and the first key will differ once the plugin is recorded and asked by name.
\<close>

lemma next_plugin_gets_other_iterations:
  assumes "cp_generateKey p1 input salt 12000 = Some k" and "cp_generateKey p1 input salt 16000 = None"
  shows "first_generating input salt 12000 ((n1, p1) # (n2, p2) # ps)
       = (case cp_generateKey p2 input salt 16000 of
            None \<Rightarrow> first_generating input salt 16000 ps
          | Some k2 \<Rightarrow> Some (n2, p2, k2, k2))"
  using assms by (simp split: option.split)

subsection \<open>Keys and their memory\<close>

definition memory_ok :: "MasterLock \<Rightarrow> bool" where
  "memory_ok s \<longleftrightarrow> (case ml_memory s of None \<Rightarrow> True | Some mem \<Rightarrow> length (km_bytes mem) = 96 \<and> km_device mem = 64)"

definition derives_256_bits :: "lock_env \<Rightarrow> bool" where
  "derives_256_bits env \<longleftrightarrow>
     (\<forall>(n, p) \<in> set (le_plugins env). \<forall>input salt i. case cp_generateKey p input salt i of None \<Rightarrow> True | Some k \<Rightarrow> length k = 32)"

lemma length_xor_onto [simp]: "length (xor_onto bs ks) = length bs"
  by (induction bs ks rule: xor_onto.induct) simp_all

lemma memory_frame:
  "ml_memory (snd (saltData env s)) = ml_memory s"
  "ml_memory (snd (snd (read_check env s))) = ml_memory s"
  "ml_memory (snd (writeTestCipherText env tct n s)) = ml_memory s"
  by (auto simp: saltData_def read_check_def writeTestCipherText_def dealWithDataCorruption_def Let_def
      split: option.splits prod.splits)

lemma memory_frame_steps:
  "generateKeyData env code n s = (keys, s1) \<Longrightarrow> ml_memory s1 = ml_memory s"
  "determineTestCipherPlugin env s = (r, s1) \<Longrightarrow> ml_memory s1 = ml_memory s"
  "compareTestCipherText env tct write n s = (ok, s1) \<Longrightarrow> ml_memory s1 = ml_memory s"
  using memory_frame(1,2) [of env s]
  by (auto simp: generateKeyData_def determineTestCipherPlugin_def compareTestCipherText_def Let_def
      split: option.splits prod.splits if_splits)

lemma first_generating_from:
  "first_generating input salt i ps = Some (n, p, k1, k2) \<Longrightarrow>
   (n, p) \<in> set ps \<and> (\<exists>j. cp_generateKey p input salt j = Some k1) \<and> cp_generateKey p input salt 16000 = Some k2"
  by (induction input salt i ps rule: first_generating.induct) (auto split: option.splits)

lemma lookup_plugin_from: "lookup_plugin env n = Some (u, p) \<Longrightarrow> (u, p) \<in> set (le_plugins env)"
  by (auto simp: lookup_plugin_def dest: map_of_SomeD)

lemma choose_plugin_from: "choose_plugin env n = Some (Some (u, p)) \<Longrightarrow> (u, p) \<in> set (le_plugins env)"
  unfolding choose_plugin_def Let_def by (auto dest: lookup_plugin_from split: option.splits if_splits)

lemma derive_keys_from:
  assumes "derive_keys env input salt n = Some (u, p, k1, k2)"
  shows "(u, p) \<in> set (le_plugins env) \<and> (\<exists>j. cp_generateKey p input salt j = Some k1) \<and> cp_generateKey p input salt 16000 = Some k2"
  using assms unfolding derive_keys_def by (auto dest: first_generating_from choose_plugin_from split: option.splits)

lemma lock_code_keys_memory: "lock_code_keys env code s = (keys, s1) \<Longrightarrow> ml_memory s1 = ml_memory s"
  by (auto simp: lock_code_keys_def Let_def dest!: memory_frame_steps split: prod.splits option.splits if_splits)

lemma lock_code_keys_fit:
  assumes "derives_256_bits env" and "lock_code_keys env code s = (Some (b, d, tct, used), s1)"
  shows "length b = 64 \<and> length d = 32"
proof -
  have g: "length b' = 64 \<and> length d' = 32" if "generateKeyData env code n s0 = (Some (b', d', t', u'), s2)" for b' d' t' u' n s0 s2
  proof -
    from that obtain p k1 where "derive_keys env (if code = [] then [CHR 0x00] else code) (fst (saltData env s0)) n = Some (u', p, k1, d')"
      "b' = toHex k1"
      by (auto simp: generateKeyData_def Let_def split: prod.splits option.splits if_splits)
    with derive_keys_from assms(1) show ?thesis
      by (fastforce simp: derives_256_bits_def length_toHex split: option.splits)
  qed
  show ?thesis using assms(2)
    by (auto simp: lock_code_keys_def specifyDummyMasterlockKeys_def Let_def dest: g
        split: prod.splits option.splits if_splits)
qed

lemma initializeKeyData_fits:
  assumes "length b = 64" and "length d = 32" and "memory_ok s"
  shows "\<exists>s1. initializeKeyData b d s = Some s1 \<and> memory_ok s1 \<and> MasterLock_bkdbLockKey s1 = b \<and> MasterLock_deviceLockKey s1 = d"
  using assms by (cases "ml_memory s")
    (auto simp: initializeKeyData_def memcpy_def memory_ok_def MasterLock_bkdbLockKey_def MasterLock_deviceLockKey_def Let_def)

lemma keys_flags [simp]:
  "MasterLock_bkdbLockKey (ml_locked_update f s) = MasterLock_bkdbLockKey s"
  "MasterLock_deviceLockKey (ml_locked_update f s) = MasterLock_deviceLockKey s"
  "MasterLock_bkdbLockKey (ml_noLockCode_update f s) = MasterLock_bkdbLockKey s"
  "MasterLock_deviceLockKey (ml_noLockCode_update f s) = MasterLock_deviceLockKey s"
  by (simp_all add: MasterLock_bkdbLockKey_def MasterLock_deviceLockKey_def cong: option.case_cong)

text \<open>
  The keys fit into their block of memory. Where plugins derive keys of 256 bits, \<open>initialize_lock\<close> never copies a key out of the bounds of the
  block, whatever the mode and however often the code changes between derived and substitute keys, and the two keys read back are the ones that were derived.
\<close>

theorem keys_fit_their_memory:
  assumes "derives_256_bits env" and "memory_ok s"
  shows "\<exists>ok s1. initialize_lock env code mode s = Some (ok, s1) \<and> memory_ok s1
     \<and> (ok \<longrightarrow> (\<exists>b d tct used. fst (lock_code_keys env code s) = Some (b, d, tct, used)
          \<and> MasterLock_bkdbLockKey s1 = b \<and> MasterLock_deviceLockKey s1 = d))"
proof -
  obtain keys s0 where k: "lock_code_keys env code s = (keys, s0)" by fastforce
  with lock_code_keys_memory assms(2) have m0: "memory_ok s0" by (simp add: memory_ok_def)
  show ?thesis
  proof (cases keys)
    case None
    with k m0 show ?thesis by (auto simp: initialize_lock_def)
  next
    case (Some ks)
    then obtain b d tct used where ks: "keys = Some (b, d, tct, used)" by (cases ks) auto
    obtain ok s2 where ok: "(case mode of ModifyLockMode \<Rightarrow> writeTestCipherText env tct used s0
        | UnlockMode \<Rightarrow> compareTestCipherText env tct True used s0 | LockMode \<Rightarrow> (True, s0)) = (ok, s2)" by fastforce
    then have "ml_memory s2 = ml_memory s0"
      using memory_frame(3) [of env tct used s0] by (cases mode) (auto dest: memory_frame_steps)
    with m0 have m2: "memory_ok s2" by (simp add: memory_ok_def)
    from lock_code_keys_fit [OF assms(1) k [unfolded ks]] initializeKeyData_fits [OF _ _ m2, of b d]
    obtain s3 where s3: "initializeKeyData b d s2 = Some s3" "memory_ok s3" "MasterLock_bkdbLockKey s3 = b" "MasterLock_deviceLockKey s3 = d"
      by blast
    then have i: "initialize_lock env code mode s = Some (ok, if ok then (if mode = LockMode then s3\<lparr>ml_locked := True\<rparr>
        else s3\<lparr>ml_locked := False, ml_noLockCode := (code = [])\<rparr>) else s2)"
      using k ks ok by (simp add: initialize_lock_def)
    have "memory_ok (if ok then (if mode = LockMode then s3\<lparr>ml_locked := True\<rparr>
        else s3\<lparr>ml_locked := False, ml_noLockCode := (code = [])\<rparr>) else s2)"
      using m2 s3(2) by (simp add: memory_ok_def)
    with i k ks s3(3,4) show ?thesis by auto
  qed
qed

definition demo_aes_env :: lock_env where
  "demo_aes_env = demo_lock_env\<lparr>le_plugins := [(''aes'', demo_cipher_plugin\<lparr>cp_generateKey :=
     (\<lambda>input salt i. Some (replicate 32 (hd input))), cp_encrypt := (\<lambda>bytes iv key. Some [hd key])\<rparr>)]\<rparr>"

theorem keys_fit_their_memory_witness:
  "\<exists>s1. initialize_lock demo_aes_env ''1234'' ModifyLockMode (demo_lock ''aes'' ''x'') = Some (True, s1)
     \<and> MasterLock_deviceLockKey s1 = replicate 32 CHR ''1''"
proof -
  have d: "derives_256_bits demo_aes_env" by (simp add: derives_256_bits_def demo_aes_env_def)
  have m: "memory_ok (demo_lock ''aes'' ''x'')" by (simp add: memory_ok_def demo_lock_def)
  have "map_option fst (initialize_lock demo_aes_env ''1234'' ModifyLockMode (demo_lock ''aes'' ''x'')) = Some True"
    and "map_option (fst \<circ> snd) (fst (lock_code_keys demo_aes_env ''1234'' (demo_lock ''aes'' ''x''))) = Some (replicate 32 CHR ''1'')"
    by code_simp+
  with keys_fit_their_memory [OF d m, of "''1234''" ModifyLockMode] show ?thesis by auto
qed

end
