(* ===== verification/Request_Processor.thy ===== *)
theory Request_Processor
  imports Function_Wrappers Event_Loop Master_Lock "HOL-Library.Word"
begin

section \<open>The request processor\<close>

text \<open>
  The class \<^verbatim>\<open>RequestProcessor\<close> (src/daemon/SecretsImpl/secretsrequestprocessor.cpp): its state, the steps its
  methods share, and the methods that create and delete collections.

  A method of the class is a function of its arguments, of what its caller does with the \<^verbatim>\<open>Result\<close> it returns (\<open>k\<close>), and
  of the processor's state \<open>m\<close>; its value is a run of the main thread. A method without a result takes what the caller does next.
  \<^verbatim>\<open>requestFinished\<close> is recorded in \<open>rp_replies\<close>. The texts of prompts are left out,
  and so is the thread of the call: \<^verbatim>\<open>Q_UNUSED\<close> parameters are kept.
\<close>

subsection \<open>Requests and replies\<close>

type_synonym request_id = "64 word"
type_synonym pid = int

datatype UserInteractionMode = PreventInteraction | SystemInteraction | ApplicationInteraction

datatype InteractionOperation =
    UnknownOperation | RequestUserData
  | UnlockDatabase | LockDatabase | ModifyLockDatabase
  | UnlockPlugin | LockPlugin | ModifyLockPlugin
  | CreateCollection | UnlockCollection | LockCollection | ModifyLockCollection | DeleteCollection
  | ReadSecret | StoreSecret | UnlockSecret | LockSecret | ModifyLockSecret | DeleteSecret
  | Encrypt | Decrypt | Sign | Verify | DeriveDigest | DeriveMac | DeriveKey | StoreKey | ImportKey

definition UnknownInput :: int where "UnknownInput = 0"
definition AlphaNumericInput :: int where "AlphaNumericInput = 8"
definition PasswordEcho :: int where "PasswordEcho = 2"

record InteractionParameters =
  ip_secretName :: qstring
  ip_collectionName :: qstring
  ip_pluginName :: qstring
  ip_applicationId :: qstring
  ip_operation :: InteractionOperation
  ip_authenticationPluginName :: qstring
  ip_inputType :: int
  ip_echoMode :: int

definition InteractionParameters_isValid :: "InteractionParameters \<Rightarrow> bool" where
  "InteractionParameters_isValid p \<longleftrightarrow> ip_inputType p \<noteq> UnknownInput"

datatype LockCodeTargetType = TargetMetadataDatabase | TargetExtensionPlugin

datatype Health = HealthOK | HealthUnknown | HealthCorrupted | HealthOtherError

datatype out_param =
    OutResult Result
  | OutSecret Secret
  | OutIdentifiers "Identifier list"
  | OutNames "(qstring \<times> bool) list"
  | OutBytes qbytes
  | OutLockStatus LockStatus
  | OutHealth Health

text \<open>
  A request that waits for the user: its type and the list of its parameters. Where one type of request has lists of two lengths, it
  has two constructors.
\<close>

datatype PendingParameters =
    CreateCustomLockCollectionRequest qstring qstring qstring qstring int AccessControlMode UserInteractionMode qstring
  | DeleteCollectionRequest qstring qstring UserInteractionMode qstring CollectionMetadata
  | StoredKeyIdentifiersRequest qstring qstring variant_map UserInteractionMode qstring CollectionMetadata
  | UserInputRequest InteractionParameters
  | SetCollectionUserInputSecretRequest Secret InteractionParameters UserInteractionMode qstring CollectionMetadata
  | SetCollectionSecretRequest Secret UserInteractionMode qstring CollectionMetadata
  | SetStandaloneDeviceLockUserInputSecretRequest Secret SecretMetadata
  | SetStandaloneCustomLockUserInputSecretRequest Secret UserInteractionMode qstring SecretMetadata
  | SetStandaloneCustomLockSecretRequest Secret SecretMetadata
  | GetCollectionSecretRequest Identifier UserInteractionMode qstring CollectionMetadata
  | GetStandaloneSecretRequest Identifier UserInteractionMode qstring SecretMetadata
  | FindCollectionSecretsRequest qstring qstring filter_data FilterOperator UserInteractionMode qstring CollectionMetadata
  | DeleteCollectionSecretRequest Identifier UserInteractionMode qstring CollectionMetadata
  | ModifyLockCodeRequest LockCodeTargetType qstring InteractionParameters UserInteractionMode qstring
  | ModifyLockCodeRequestWithOldCode LockCodeTargetType qstring InteractionParameters UserInteractionMode qstring qbytes
  | ProvideLockCodeRequest LockCodeTargetType qstring InteractionParameters UserInteractionMode qstring
  | UseCollectionKeyPreCheckRequest Identifier int qstring UserInteractionMode CollectionMetadata
  | UseCollectionKeyPreCheckRequestDeviceLock Identifier CollectionMetadata
  | SetCollectionKeyPreCheckRequest Identifier UserInteractionMode CollectionMetadata
  | SetCollectionKeyPreCheckRequestDeviceLock Identifier CollectionMetadata

record PendingRequest =
  pr_callerPid :: pid
  pr_requestId :: request_id
  pr_parameters :: PendingParameters

subsection \<open>State\<close>

text \<open>The interface \<^verbatim>\<open>AuthenticationPlugin\<close>; the plugin answers the request later with a signal.\<close>

record 'a AuthenticationPlugin =
  ap_supportsLocking :: "'a \<Rightarrow> bool"
  ap_isLocked :: "'a \<Rightarrow> bool"
  ap_lock :: "'a \<Rightarrow> bool \<times> 'a"
  ap_unlock :: "qbytes \<Rightarrow> 'a \<Rightarrow> bool \<times> 'a"
  ap_setLockCode :: "qbytes \<Rightarrow> qbytes \<Rightarrow> 'a \<Rightarrow> bool \<times> 'a"
  ap_authenticationTypes :: "'a \<Rightarrow> 32 word"
  ap_beginAuthentication :: "pid \<Rightarrow> request_id \<Rightarrow> 'a \<Rightarrow> Result \<times> 'a"
  ap_beginUserInputInteraction :: "pid \<Rightarrow> request_id \<Rightarrow> InteractionParameters \<Rightarrow> qstring \<Rightarrow> 'a \<Rightarrow> Result \<times> 'a"

record 'a AuthenticationHost =
  ah_plugin :: "'a AuthenticationPlugin"
  ah_state :: 'a

definition applicationSpecific :: "'a AuthenticationHost \<Rightarrow> bool" where
  "applicationSpecific h \<longleftrightarrow> and (ap_authenticationTypes (ah_plugin h) (ah_state h)) 1 \<noteq> 0"

text \<open>
  What does not change after start-up: the process file system and the environment, SHA-512 in base 64, and the names of the
  loaded plugins, which are the keys of the plugin maps; a crypto storage plugin is given with its cryptographic half, and a plugin of the
  cryptography daemon with whether it can be locked. \<open>pe_lock n\<close> is what the \<open>n\<close>-th use of the master lock finds.
\<close>

record 'c processor_env =
  pe_proc :: "int \<Rightarrow> process"
  pe_environment :: "qstring \<Rightarrow> qbytes"
  pe_hash :: "qbytes \<Rightarrow> qstring"
  pe_autotestMode :: bool
  pe_encryption :: "qstring set"
  pe_storage :: "qstring set"
  pe_encryptedStorage :: "qstring set"
  pe_cryptoStorage :: "qstring \<rightharpoonup> 'c CryptoPlugin"
  pe_cryptoPlugins :: "qstring \<rightharpoonup> bool"
  pe_lock :: "nat \<Rightarrow> lock_env"

record 'a RequestProcessor =
  rp_authenticationPlugins :: "(qstring \<times> 'a AuthenticationHost) list"
  rp_collectionEncryptionKeys :: "(qstring \<times> qbytes) list"
  rp_standaloneSecretEncryptionKeys :: "(qstring \<times> qbytes) list"
  rp_pendingRequests :: "(request_id \<times> PendingRequest) list"
  rp_lock :: MasterLock
  rp_lockUses :: nat
  rp_replies :: "(request_id \<times> out_param list) list"

definition rp_deviceLockKey :: "'a RequestProcessor \<Rightarrow> qbytes" where
  "rp_deviceLockKey m = MasterLock_deviceLockKey (rp_lock m)"

definition rp_saltData :: "'a RequestProcessor \<Rightarrow> qbytes" where
  "rp_saltData m = ml_saltData (rp_lock m)"

type_synonym ('e, 's, 'c, 'a) main_run = "(('e, 's, 'c) plugin_maps, 'a RequestProcessor) thread"
type_synonym ('e, 's, 'c, 'a) handler = "'a RequestProcessor \<Rightarrow> ('e, 's, 'c, 'a) main_run"
type_synonym ('e, 's, 'c, 'a) rp_method = "(Result \<Rightarrow> ('e, 's, 'c, 'a) handler) \<Rightarrow> ('e, 's, 'c, 'a) handler"

abbreviation pending :: Result where
  "pending \<equiv> Result_of_code Pending"

definition requestFinished_call :: "request_id \<Rightarrow> out_param list \<Rightarrow> 'a RequestProcessor \<Rightarrow> 'a RequestProcessor" where
  "requestFinished_call requestId outParams m = m\<lparr>rp_replies := rp_replies m @ [(requestId, outParams)]\<rparr>"

definition finish :: "request_id \<Rightarrow> out_param list \<Rightarrow> ('e, 's, 'c, 'a) handler" where
  "finish requestId outParams m = Return (requestFinished_call requestId outParams m)"

text \<open>The lambdas after the first job of a method: a result other than \<^verbatim>\<open>Pending\<close> ends the request, with the other output parameters the lambda appends.\<close>

definition finish_unless_pending :: "request_id \<Rightarrow> out_param list \<Rightarrow> Result \<Rightarrow> ('e, 's, 'c, 'a) handler" where
  "finish_unless_pending requestId others result m =
     (if res_code result = Pending then Return m else finish requestId (OutResult result # others) m)"

definition caller :: "'c processor_env \<Rightarrow> pid \<Rightarrow> qstring" where
  "caller env callerPid = callerApplicationId (pe_proc env) callerPid"

definition calculateSecretNameHash :: "'c processor_env \<Rightarrow> Identifier \<Rightarrow> qstring" where
  "calculateSecretNameHash env ident = pe_hash env (id_storagePluginName ident @ id_collectionName ident @ id_name ident)"

definition collection_hash :: "'c processor_env \<Rightarrow> qstring \<Rightarrow> qstring \<Rightarrow> qstring" where
  "collection_hash env collectionName storagePluginName =
     calculateSecretNameHash env \<lparr>id_name = [], id_collectionName = collectionName, id_storagePluginName = storagePluginName\<rparr>"

definition system_authentication_plugin :: "'c processor_env \<Rightarrow> qstring" where
  "system_authentication_plugin env =
     mappedPluginName (pe_environment env) (DefaultAuthenticationPluginName @ (if pe_autotestMode env then testSuffix else []))"

definition authentication_plugin_for :: "'c processor_env \<Rightarrow> qstring \<Rightarrow> pid \<Rightarrow> qstring \<Rightarrow> qstring \<Rightarrow> qstring" where
  "authentication_plugin_for env ownerApplicationId callerPid authPluginName interactionServiceAddress =
     determineAuthPlugin (pe_environment env) ownerApplicationId (caller env callerPid)
       (applicationIsPlatformApplication (pe_proc env) callerPid) authPluginName interactionServiceAddress (pe_autotestMode env)"

definition has_authentication_plugin :: "'a RequestProcessor \<Rightarrow> qstring \<Rightarrow> bool" where
  "has_authentication_plugin m name \<longleftrightarrow> qmap_contains (rp_authenticationPlugins m) name"

subsection \<open>Jobs on loaded plugins\<close>

text \<open>A function wrapper is given a pointer from one of the plugin maps; a name the map does not have is a null pointer.\<close>

definition on_storage_plugin ::
    "qstring \<Rightarrow> ('s StorageHost \<Rightarrow> 's PluginWrapper \<Rightarrow> 'x \<times> 's PluginWrapper) \<Rightarrow> ('e, 's, 'c) plugin_maps
     \<Rightarrow> ('x \<times> ('e, 's, 'c) plugin_maps) option" where
  "on_storage_plugin name f p =
     (case map_of (pm_storage p) name of
        None \<Rightarrow> None
      | Some h \<Rightarrow> let (x, w) = f h (sh_wrapper h)
                  in Some (x, p\<lparr>pm_storage := qmap_insert name (h\<lparr>sh_wrapper := w\<rparr>) (pm_storage p)\<rparr>))"

definition on_encrypted_plugin ::
    "qstring \<Rightarrow> ('c EncryptedHost \<Rightarrow> 'c PluginWrapper \<Rightarrow> 'x \<times> 'c PluginWrapper) \<Rightarrow> ('e, 's, 'c) plugin_maps
     \<Rightarrow> ('x \<times> ('e, 's, 'c) plugin_maps) option" where
  "on_encrypted_plugin name f p =
     (case map_of (pm_encryptedStorage p) name of
        None \<Rightarrow> None
      | Some h \<Rightarrow> let (x, w) = f h (eh_wrapper h)
                  in Some (x, p\<lparr>pm_encryptedStorage := qmap_insert name (h\<lparr>eh_wrapper := w\<rparr>) (pm_encryptedStorage p)\<rparr>))"

definition on_encryption_plugin ::
    "qstring \<Rightarrow> (EncryptionPlugin \<Rightarrow> 'x) \<Rightarrow> ('e, 's, 'c) plugin_maps \<Rightarrow> ('x \<times> ('e, 's, 'c) plugin_maps) option" where
  "on_encryption_plugin name f p =
     (case map_of (pm_encryption p) name of None \<Rightarrow> None | Some h \<Rightarrow> Some (f (nh_encryption h), p))"

definition on_encryption_and_storage_plugin ::
    "qstring \<Rightarrow> qstring \<Rightarrow> (EncryptionPlugin \<Rightarrow> 's StorageHost \<Rightarrow> 's PluginWrapper \<Rightarrow> 'x \<times> 's PluginWrapper)
     \<Rightarrow> ('e, 's, 'c) plugin_maps \<Rightarrow> ('x \<times> ('e, 's, 'c) plugin_maps) option" where
  "on_encryption_and_storage_plugin encryptionPluginName storagePluginName f p =
     (case map_of (pm_encryption p) encryptionPluginName of
        None \<Rightarrow> None
      | Some e \<Rightarrow> on_storage_plugin storagePluginName (f (nh_encryption e)) p)"

text \<open>A result with an output parameter, as one value.\<close>

definition with_output :: "Result \<times> 'x \<times> 'w \<Rightarrow> (Result \<times> 'x) \<times> 'w" where
  "with_output t = ((fst t, fst (snd t)), snd (snd t))"

text \<open>The first job of most methods: the metadata of a collection, or of a standalone secret, from the plugin with the name.\<close>

definition collection_metadata_job ::
    "'c processor_env \<Rightarrow> qstring \<Rightarrow> qstring \<Rightarrow> ('e, 's, 'c) plugin_maps
     \<Rightarrow> ((Result \<times> CollectionMetadata) \<times> ('e, 's, 'c) plugin_maps) option" where
  "collection_metadata_job env storagePluginName collectionName =
     (if storagePluginName \<in> pe_encryptedStorage env
      then on_encrypted_plugin storagePluginName
             (\<lambda>h w. with_output (EncryptedStoragePluginFunctionWrapper_collectionMetadata collectionName w))
      else on_storage_plugin storagePluginName
             (\<lambda>h w. with_output (StoragePluginFunctionWrapper_collectionMetadata collectionName w)))"

definition standalone_metadata_job ::
    "'c processor_env \<Rightarrow> qstring \<Rightarrow> qstring \<Rightarrow> ('e, 's, 'c) plugin_maps
     \<Rightarrow> ((Result \<times> SecretMetadata) \<times> ('e, 's, 'c) plugin_maps) option" where
  "standalone_metadata_job env storagePluginName secretName =
     (if storagePluginName \<in> pe_encryptedStorage env
      then on_encrypted_plugin storagePluginName
             (\<lambda>h w. with_output (EncryptedStoragePluginFunctionWrapper_secretMetadata standalone secretName w))
      else on_storage_plugin storagePluginName
             (\<lambda>h w. with_output (StoragePluginFunctionWrapper_secretMetadata standalone secretName w)))"

definition is_locked_job ::
    "qstring \<Rightarrow> qstring \<Rightarrow> ('e, 's, 'c) plugin_maps \<Rightarrow> ((Result \<times> bool) \<times> ('e, 's, 'c) plugin_maps) option" where
  "is_locked_job storagePluginName collectionName =
     on_encrypted_plugin storagePluginName
       (\<lambda>h w. with_output (EncryptedStoragePluginFunctionWrapper_isCollectionLocked h collectionName w))"

text \<open>The job that derives a key: by the encrypted storage plugin itself when it encrypts, otherwise by the encryption plugin.\<close>

definition derive_key_job ::
    "bool \<Rightarrow> qstring \<Rightarrow> qstring \<Rightarrow> qbytes \<Rightarrow> qbytes \<Rightarrow> ('e, 's, 'c) plugin_maps
     \<Rightarrow> ((Result \<times> qbytes) \<times> ('e, 's, 'c) plugin_maps) option" where
  "derive_key_job encryptsItself storagePluginName encryptionPluginName authenticationCode salt =
     (if encryptsItself
      then on_encrypted_plugin storagePluginName
             (\<lambda>h w. with_output (EncryptedStoragePluginWrapper_deriveKeyFromCode (eh_plugin h) authenticationCode salt w))
      else on_encryption_plugin encryptionPluginName (\<lambda>e. ep_deriveKeyFromCode e authenticationCode salt))"

subsection \<open>Asking the user\<close>

definition put_authentication_plugin :: "qstring \<Rightarrow> 'a AuthenticationHost \<Rightarrow> 'a \<Rightarrow> 'a RequestProcessor \<Rightarrow> 'a RequestProcessor" where
  "put_authentication_plugin name h s m =
     m\<lparr>rp_authenticationPlugins := qmap_insert name (h\<lparr>ah_state := s\<rparr>) (rp_authenticationPlugins m)\<rparr>"

definition insert_pending :: "pid \<Rightarrow> request_id \<Rightarrow> PendingParameters \<Rightarrow> 'a RequestProcessor \<Rightarrow> 'a RequestProcessor" where
  "insert_pending callerPid requestId parameters m =
     m\<lparr>rp_pendingRequests := qmap_insert requestId
         \<lparr>pr_callerPid = callerPid, pr_requestId = requestId, pr_parameters = parameters\<rparr> (rp_pendingRequests m)\<rparr>"

text \<open>
  The two ways to ask. \<open>begin_authentication\<close> has the system's plugin verify the user and returns what the plugin answered;
  \<open>begin_user_input\<close> has a plugin ask for data, and its result is \<^verbatim>\<open>Pending\<close> unless the plugin failed.
\<close>

definition begin_authentication ::
    "'c processor_env \<Rightarrow> pid \<Rightarrow> request_id \<Rightarrow> PendingParameters \<Rightarrow> ('e, 's, 'c, 'a) rp_method" where
  "begin_authentication env callerPid requestId parameters k m =
     (let name = system_authentication_plugin env
      in case map_of (rp_authenticationPlugins m) name of
           None \<Rightarrow> Crash
         | Some h \<Rightarrow>
             let (result, s) = ap_beginAuthentication (ah_plugin h) callerPid requestId (ah_state h);
                 m1 = put_authentication_plugin name h s m
             in k result (if res_code result = Failed then m1 else insert_pending callerPid requestId parameters m1))"

definition begin_user_input ::
    "qstring \<Rightarrow> pid \<Rightarrow> request_id \<Rightarrow> InteractionParameters \<Rightarrow> qstring \<Rightarrow> PendingParameters \<Rightarrow> ('e, 's, 'c, 'a) rp_method" where
  "begin_user_input name callerPid requestId promptParams interactionServiceAddress parameters k m =
     (case map_of (rp_authenticationPlugins m) name of
        None \<Rightarrow> Crash
      | Some h \<Rightarrow>
          let (result, s) = ap_beginUserInputInteraction (ah_plugin h) callerPid requestId promptParams
                interactionServiceAddress (ah_state h);
              m1 = put_authentication_plugin name h s m
          in if res_code result = Failed then k result m1
             else k pending (insert_pending callerPid requestId parameters m1))"

definition code_prompt :: "qstring \<Rightarrow> qstring \<Rightarrow> qstring \<Rightarrow> qstring \<Rightarrow> InteractionOperation \<Rightarrow> InteractionParameters" where
  "code_prompt appId pluginName collectionName secretName operation =
     \<lparr>ip_secretName = secretName, ip_collectionName = collectionName, ip_pluginName = pluginName,
      ip_applicationId = appId, ip_operation = operation, ip_authenticationPluginName = [],
      ip_inputType = AlphaNumericInput, ip_echoMode = PasswordEcho\<rparr>"

text \<open>
  What every method does with something locked. A device lock is verified by the system; another lock needs its code,
  asked for by the plugin \<open>authPluginName\<close>. Where \<open>checkTypes\<close> holds, a plugin that asks inside the application needs
  the application's own dialog.
\<close>

definition ask_to_unlock ::
    "'c processor_env \<Rightarrow> bool \<Rightarrow> pid \<Rightarrow> request_id \<Rightarrow> bool \<Rightarrow> UserInteractionMode \<Rightarrow> qstring \<Rightarrow> qstring \<Rightarrow> InteractionParameters
     \<Rightarrow> PendingParameters \<Rightarrow> PendingParameters \<Rightarrow> ('e, 's, 'c, 'a) rp_method" where
  "ask_to_unlock env checkTypes callerPid requestId usesDeviceLockKey userInteractionMode authPluginName interactionServiceAddress
       promptParams whenVerified whenEntered k m =
     (if usesDeviceLockKey
      then if userInteractionMode = PreventInteraction then k (failure CollectionIsLockedError) m
           else begin_authentication env callerPid requestId whenVerified k m
      else if userInteractionMode = PreventInteraction then k (failure OperationRequiresUserInteraction) m
      else if \<not> has_authentication_plugin m authPluginName then k (failure InvalidExtensionPluginError) m
      else if checkTypes \<and> applicationSpecific (the (map_of (rp_authenticationPlugins m) authPluginName))
              \<and> (userInteractionMode \<noteq> ApplicationInteraction \<or> interactionServiceAddress = [])
      then k (failure OperationRequiresApplicationUserInteraction) m
      else begin_user_input authPluginName callerPid requestId promptParams interactionServiceAddress whenEntered k m)"

text \<open>The access control check. Access control by the system is not implemented in the daemon.\<close>

definition access_denied :: "'c processor_env \<Rightarrow> pid \<Rightarrow> AccessControlMode \<Rightarrow> qstring \<Rightarrow> Result option" where
  "access_denied env callerPid accessControlMode ownerApplicationId =
     (if accessControlMode = SystemAccessControlMode then Some (failure OperationNotSupportedError)
      else if accessControlMode = OwnerOnlyMode \<and> ownerApplicationId \<noteq> caller env callerPid then Some (failure PermissionsError)
      else None)"

definition collection_access_denied :: "'c processor_env \<Rightarrow> pid \<Rightarrow> CollectionMetadata \<Rightarrow> Result option" where
  "collection_access_denied env callerPid metadata =
     access_denied env callerPid (cm_accessControlMode metadata) (cm_ownerApplicationId metadata)"

subsection \<open>Names of collections\<close>

definition RequestProcessor_collectionNames ::
    "'c processor_env \<Rightarrow> pid \<Rightarrow> request_id \<Rightarrow> qstring \<Rightarrow> ('e, 's, 'c, 'a) rp_method" where
  "RequestProcessor_collectionNames env callerPid requestId storagePluginName k m =
     (if storagePluginName = [] then k (failure InvalidExtensionPluginError) m
      else if storagePluginName \<notin> pe_encryptedStorage env \<and> storagePluginName \<notin> pe_storage env
      then k (failure InvalidExtensionPluginError) m
      else run (if storagePluginName \<in> pe_encryptedStorage env
                then on_encrypted_plugin storagePluginName
                       (\<lambda>h w. with_output (EncryptedStoragePluginWrapper_collectionNames (eh_plugin h) w))
                else on_storage_plugin storagePluginName
                       (\<lambda>h w. with_output (StoragePluginWrapper_collectionNames (sh_plugin h) w)))
             (\<lambda>(result, names). finish requestId [OutResult result, OutNames names])
             (k pending m))"

subsection \<open>Creating a collection\<close>

definition create_collection_job ::
    "qstring \<Rightarrow> qstring \<Rightarrow> CollectionMetadata \<Rightarrow> qbytes \<Rightarrow> ('e, 's, 'c) plugin_maps
     \<Rightarrow> (Result \<times> ('e, 's, 'c) plugin_maps) option" where
  "create_collection_job storagePluginName encryptionPluginName metadata key =
     (if storagePluginName = encryptionPluginName
      then on_encrypted_plugin storagePluginName
             (\<lambda>h. EncryptedStoragePluginWrapper_createCollection (eh_plugin h) metadata key)
      else on_storage_plugin storagePluginName (\<lambda>h. StoragePluginWrapper_createCollection (sh_plugin h) metadata))"

definition createDeviceLockCollection ::
    "'c processor_env \<Rightarrow> pid \<Rightarrow> request_id \<Rightarrow> qstring \<Rightarrow> qstring \<Rightarrow> qstring \<Rightarrow> int \<Rightarrow> AccessControlMode
     \<Rightarrow> ('e, 's, 'c, 'a) rp_method" where
  "createDeviceLockCollection env callerPid requestId collectionName storagePluginName encryptionPluginName unlockSemantic
       accessControlMode k m =
     (if same_ignoring_case collectionName standalone then k (failure InvalidCollectionError) m
      else if storagePluginName = encryptionPluginName \<and> storagePluginName \<notin> pe_encryptedStorage env
      then k (failure InvalidExtensionPluginError) m
      else if storagePluginName \<noteq> encryptionPluginName \<and> storagePluginName \<notin> pe_storage env
      then k (failure InvalidExtensionPluginError) m
      else if storagePluginName \<noteq> encryptionPluginName \<and> encryptionPluginName \<notin> pe_encryption env
      then k (failure InvalidExtensionPluginError) m
      else run (create_collection_job storagePluginName encryptionPluginName
                  \<lparr>cm_collectionName = collectionName, cm_ownerApplicationId = caller env callerPid,
                   cm_usesDeviceLockKey = True, cm_encryptionPluginName = encryptionPluginName,
                   cm_authenticationPluginName = system_authentication_plugin env,
                   cm_unlockSemantic = unlockSemantic, cm_accessControlMode = accessControlMode\<rparr>
                  (rp_deviceLockKey m))
             (\<lambda>pluginResult m'. finish requestId [OutResult pluginResult]
                (if succeeded pluginResult \<and> storagePluginName \<noteq> encryptionPluginName \<and> unlockSemantic = DeviceLockKeepUnlocked
                 then m'\<lparr>rp_collectionEncryptionKeys := qmap_insert (collection_hash env collectionName storagePluginName)
                            (rp_deviceLockKey m') (rp_collectionEncryptionKeys m')\<rparr>
                 else m'))
             (k pending m))"

definition createCustomLockCollection ::
    "'c processor_env \<Rightarrow> pid \<Rightarrow> request_id \<Rightarrow> qstring \<Rightarrow> qstring \<Rightarrow> qstring \<Rightarrow> qstring \<Rightarrow> int \<Rightarrow> AccessControlMode
     \<Rightarrow> UserInteractionMode \<Rightarrow> qstring \<Rightarrow> ('e, 's, 'c, 'a) rp_method" where
  "createCustomLockCollection env callerPid requestId collectionName storagePluginName encryptionPluginName
       authenticationPluginName unlockSemantic accessControlMode userInteractionMode interactionServiceAddress k m =
     (if same_ignoring_case collectionName standalone then k (failure InvalidCollectionError) m
      else if storagePluginName = encryptionPluginName \<and> storagePluginName \<notin> pe_encryptedStorage env
      then k (failure InvalidExtensionPluginError) m
      else if storagePluginName \<noteq> encryptionPluginName \<and> storagePluginName \<notin> pe_storage env
      then k (failure InvalidExtensionPluginError) m
      else if storagePluginName \<noteq> encryptionPluginName \<and> encryptionPluginName \<notin> pe_encryption env
      then k (failure InvalidExtensionPluginError) m
      else if \<not> has_authentication_plugin m authenticationPluginName then k (failure InvalidExtensionPluginError) m
      else if applicationSpecific (the (map_of (rp_authenticationPlugins m) authenticationPluginName))
              \<and> (userInteractionMode \<noteq> ApplicationInteraction \<or> interactionServiceAddress = [])
      then k (failure OperationRequiresApplicationUserInteraction) m
      else if userInteractionMode = PreventInteraction then k (failure OperationRequiresUserInteraction) m
      else begin_user_input authenticationPluginName callerPid requestId
             (code_prompt (caller env callerPid) [] collectionName [] CreateCollection) interactionServiceAddress
             (CreateCustomLockCollectionRequest collectionName storagePluginName encryptionPluginName authenticationPluginName
                unlockSemantic accessControlMode userInteractionMode interactionServiceAddress)
             k m)"

definition createCustomLockCollectionWithEncryptionKey ::
    "'c processor_env \<Rightarrow> pid \<Rightarrow> request_id \<Rightarrow> qstring \<Rightarrow> qstring \<Rightarrow> qstring \<Rightarrow> qstring \<Rightarrow> int \<Rightarrow> AccessControlMode
     \<Rightarrow> UserInteractionMode \<Rightarrow> qstring \<Rightarrow> qbytes \<Rightarrow> ('e, 's, 'c, 'a) handler \<Rightarrow> ('e, 's, 'c, 'a) handler" where
  "createCustomLockCollectionWithEncryptionKey env callerPid requestId collectionName storagePluginName encryptionPluginName
       authenticationPluginName unlockSemantic accessControlMode userInteractionMode interactionServiceAddress encryptionKey
       continue m =
     run (create_collection_job storagePluginName encryptionPluginName
            \<lparr>cm_collectionName = collectionName, cm_ownerApplicationId = caller env callerPid,
             cm_usesDeviceLockKey = False, cm_encryptionPluginName = encryptionPluginName,
             cm_authenticationPluginName = authenticationPluginName,
             cm_unlockSemantic = unlockSemantic, cm_accessControlMode = accessControlMode\<rparr>
            encryptionKey)
       (\<lambda>pluginResult m'. finish requestId [OutResult pluginResult]
          (if succeeded pluginResult \<and> storagePluginName \<noteq> encryptionPluginName \<and> unlockSemantic = CustomLockKeepUnlocked
           then m'\<lparr>rp_collectionEncryptionKeys := qmap_insert (collection_hash env collectionName storagePluginName)
                      encryptionKey (rp_collectionEncryptionKeys m')\<rparr>
           else m'))
       (continue m)"

definition createCustomLockCollectionWithAuthenticationCode ::
    "'c processor_env \<Rightarrow> pid \<Rightarrow> request_id \<Rightarrow> qstring \<Rightarrow> qstring \<Rightarrow> qstring \<Rightarrow> qstring \<Rightarrow> int \<Rightarrow> AccessControlMode
     \<Rightarrow> UserInteractionMode \<Rightarrow> qstring \<Rightarrow> qbytes \<Rightarrow> ('e, 's, 'c, 'a) rp_method" where
  "createCustomLockCollectionWithAuthenticationCode env callerPid requestId collectionName storagePluginName encryptionPluginName
       authenticationPluginName unlockSemantic accessControlMode userInteractionMode interactionServiceAddress authenticationCode
       k m =
     run (derive_key_job (storagePluginName = encryptionPluginName) encryptionPluginName encryptionPluginName
            authenticationCode (rp_saltData m))
       (\<lambda>(result, key) m'.
          if \<not> succeeded result then finish requestId [OutResult result] m'
          else createCustomLockCollectionWithEncryptionKey env callerPid requestId collectionName storagePluginName
                 encryptionPluginName authenticationPluginName unlockSemantic accessControlMode userInteractionMode
                 interactionServiceAddress key Return m')
       (k pending m)"

subsection \<open>Deleting a collection\<close>

text \<open>The lambda both ways of deletion end with.\<close>

definition collection_deleted ::
    "'c processor_env \<Rightarrow> request_id \<Rightarrow> qstring \<Rightarrow> qstring \<Rightarrow> Result \<Rightarrow> ('e, 's, 'c, 'a) handler" where
  "collection_deleted env requestId collectionName storagePluginName pluginResult m =
     finish requestId [OutResult pluginResult]
       (if succeeded pluginResult
        then m\<lparr>rp_collectionEncryptionKeys :=
                 filter (\<lambda>e. fst e \<noteq> collection_hash env collectionName storagePluginName) (rp_collectionEncryptionKeys m)\<rparr>
        else m)"

definition deleteCollectionWithLockCode ::
    "'c processor_env \<Rightarrow> pid \<Rightarrow> request_id \<Rightarrow> qstring \<Rightarrow> qstring \<Rightarrow> UserInteractionMode \<Rightarrow> qstring \<Rightarrow> CollectionMetadata \<Rightarrow> qbytes
     \<Rightarrow> ('e, 's, 'c, 'a) handler \<Rightarrow> ('e, 's, 'c, 'a) handler" where
  "deleteCollectionWithLockCode env callerPid requestId collectionName storagePluginName userInteractionMode
       interactionServiceAddress collectionMetadata lockCode continue m =
     run (if storagePluginName \<in> pe_encryptedStorage env
          then on_encrypted_plugin storagePluginName (\<lambda>h.
                 EncryptedStoragePluginFunctionWrapper_deriveKeyUnlockAndRemoveCollection h collectionName lockCode (rp_saltData m))
          else on_storage_plugin storagePluginName (\<lambda>h. StoragePluginWrapper_removeCollection (sh_plugin h) collectionName))
       (collection_deleted env requestId collectionName storagePluginName)
       (continue m)"

definition deleteCollectionWithEncryptionKey ::
    "'c processor_env \<Rightarrow> pid \<Rightarrow> request_id \<Rightarrow> qstring \<Rightarrow> qstring \<Rightarrow> UserInteractionMode \<Rightarrow> qstring \<Rightarrow> CollectionMetadata \<Rightarrow> qbytes
     \<Rightarrow> ('e, 's, 'c, 'a) handler \<Rightarrow> ('e, 's, 'c, 'a) handler" where
  "deleteCollectionWithEncryptionKey env callerPid requestId collectionName storagePluginName userInteractionMode
       interactionServiceAddress collectionMetadata encryptionKey continue m =
     run (if storagePluginName \<in> pe_encryptedStorage env
          then on_encrypted_plugin storagePluginName (\<lambda>h.
                 EncryptedStoragePluginFunctionWrapper_unlockAndRemoveCollection h collectionName encryptionKey)
          else on_storage_plugin storagePluginName (\<lambda>h. StoragePluginWrapper_removeCollection (sh_plugin h) collectionName))
       (collection_deleted env requestId collectionName storagePluginName)
       (continue m)"

text \<open>
  The steps the methods that delete a collection and list its keys share after the access check: the collection's lock state, known
  at once where the plugin does not encrypt, decides between asking the user and going on.
\<close>

definition when_unlocked ::
    "'c processor_env \<Rightarrow> qstring \<Rightarrow> qstring \<Rightarrow> (Result \<Rightarrow> ('e, 's, 'c, 'a) handler) \<Rightarrow> ('e, 's, 'c, 'a) handler
     \<Rightarrow> ('e, 's, 'c, 'a) handler \<Rightarrow> ('e, 's, 'c, 'a) handler" where
  "when_unlocked env storagePluginName collectionName k whenLocked whenOpen m =
     (if storagePluginName \<in> pe_encryptedStorage env
      then await (is_locked_job storagePluginName collectionName)
             (\<lambda>(result, locked) m'. if \<not> succeeded result then k result m' else if locked then whenLocked m' else whenOpen m') m
      else whenOpen m)"

definition deleteCollectionWithMetadata ::
    "'c processor_env \<Rightarrow> pid \<Rightarrow> request_id \<Rightarrow> qstring \<Rightarrow> qstring \<Rightarrow> UserInteractionMode \<Rightarrow> qstring \<Rightarrow> CollectionMetadata
     \<Rightarrow> ('e, 's, 'c, 'a) rp_method" where
  "deleteCollectionWithMetadata env callerPid requestId collectionName storagePluginName userInteractionMode
       interactionServiceAddress collectionMetadata k m =
     (case collection_access_denied env callerPid collectionMetadata of
        Some denied \<Rightarrow> k denied m
      | None \<Rightarrow>
          if \<not> has_authentication_plugin m (cm_authenticationPluginName collectionMetadata)
          then k (failure InvalidExtensionPluginError) m
          else when_unlocked env storagePluginName collectionName k
                 (let parameters = DeleteCollectionRequest collectionName storagePluginName userInteractionMode
                        interactionServiceAddress collectionMetadata
                  in ask_to_unlock env False callerPid requestId (cm_usesDeviceLockKey collectionMetadata) userInteractionMode
                       (authentication_plugin_for env (cm_ownerApplicationId collectionMetadata) callerPid
                          (cm_authenticationPluginName collectionMetadata) interactionServiceAddress)
                       interactionServiceAddress
                       (code_prompt (caller env callerPid) storagePluginName collectionName [] DeleteCollection)
                       parameters parameters k)
                 (deleteCollectionWithLockCode env callerPid requestId collectionName storagePluginName userInteractionMode
                    interactionServiceAddress collectionMetadata [] (k pending))
                 m)"

definition deleteCollection ::
    "'c processor_env \<Rightarrow> pid \<Rightarrow> request_id \<Rightarrow> qstring \<Rightarrow> qstring \<Rightarrow> UserInteractionMode \<Rightarrow> qstring \<Rightarrow> ('e, 's, 'c, 'a) rp_method" where
  "deleteCollection env callerPid requestId collectionName storagePluginName userInteractionMode interactionServiceAddress k m =
     (if storagePluginName = [] then k (failure InvalidExtensionPluginError) m
      else if storagePluginName \<notin> pe_encryptedStorage env \<and> storagePluginName \<notin> pe_storage env
      then k (failure InvalidExtensionPluginError) m
      else if same_ignoring_case collectionName standalone then k (failure InvalidCollectionError) m
      else if collectionName = [] then k (failure InvalidCollectionError) m
      else run (collection_metadata_job env storagePluginName collectionName)
             (\<lambda>(result, metadata).
                if \<not> succeeded result then finish_unless_pending requestId [] result
                else deleteCollectionWithMetadata env callerPid requestId collectionName storagePluginName userInteractionMode
                       interactionServiceAddress metadata (finish_unless_pending requestId []))
             (k pending m))"

end
