(* ===== verification/Secret_Requests.thy ===== *)
theory Secret_Requests
  imports Request_Processor
begin

section \<open>Requests on the secrets of a collection\<close>

text \<open>
  The methods of \<^verbatim>\<open>RequestProcessor\<close> that list keys, and that store, read, find and delete the secrets of a collection. Each
  comes in steps: the request itself, \<^verbatim>\<open>WithMetadata\<close> when the collection's metadata is known, where access is checked and
  the lock state decides whether the user is asked, \<^verbatim>\<open>WithAuthenticationCode\<close> when the user has entered a code, and
  \<^verbatim>\<open>WithEncryptionKey\<close> when the key is known.
\<close>

subsection \<open>Steps the methods share\<close>

text \<open>Whether the storage plugin encrypts what it stores, as the metadata says.\<close>

definition encrypts_itself :: "qstring \<Rightarrow> qstring \<Rightarrow> bool" where
  "encrypts_itself storagePluginName encryptionPluginName \<longleftrightarrow>
     storagePluginName = encryptionPluginName \<or> encryptionPluginName = []"

text \<open>
  What decides between asking the user (\<open>ask\<close>) and going on with a key (\<open>use\<close>): the lock state of the collection, or whether its key is known.
  The main thread waits for the lock state.
\<close>

definition with_collection_key ::
    "'c processor_env \<Rightarrow> bool \<Rightarrow> qstring \<Rightarrow> qstring \<Rightarrow> (Result \<Rightarrow> ('e, 's, 'c, 'a) handler)
     \<Rightarrow> ('a RequestProcessor \<Rightarrow> qbytes) \<Rightarrow> ('e, 's, 'c, 'a) handler \<Rightarrow> ('e, 's, 'c, 'a) handler
     \<Rightarrow> (qbytes \<Rightarrow> ('e, 's, 'c, 'a) handler) \<Rightarrow> ('e, 's, 'c, 'a) handler" where
  "with_collection_key env viaPlugin storagePluginName collectionName k openKey askPlugin ask use m =
     (if viaPlugin
      then await (is_locked_job storagePluginName collectionName)
             (\<lambda>(result, locked) m'.
                if \<not> succeeded result then k result m' else if locked then askPlugin m' else use (openKey m') m') m
      else case map_of (rp_collectionEncryptionKeys m) (collection_hash env collectionName storagePluginName) of
             None \<Rightarrow> ask m
           | Some key \<Rightarrow> use key m)"

text \<open>The key of a collection that stays unlocked is kept, untested, when no other is.\<close>

definition remember_key :: "'c processor_env \<Rightarrow> qstring \<Rightarrow> qstring \<Rightarrow> bool \<Rightarrow> qbytes \<Rightarrow> 'a RequestProcessor \<Rightarrow> 'a RequestProcessor" where
  "remember_key env collectionName storagePluginName requiresRelock key m =
     (let h = collection_hash env collectionName storagePluginName
      in if \<not> qmap_contains (rp_collectionEncryptionKeys m) h \<and> \<not> requiresRelock
         then m\<lparr>rp_collectionEncryptionKeys := qmap_insert h key (rp_collectionEncryptionKeys m)\<rparr> else m)"

text \<open>The checks every request on a secret of a collection starts with.\<close>

definition invalid_identifier :: "'c processor_env \<Rightarrow> Identifier \<Rightarrow> Result option" where
  "invalid_identifier env ident =
     (if id_name ident = [] then Some (failure InvalidSecretError)
      else if id_collectionName ident = [] then Some (failure InvalidCollectionError)
      else if same_ignoring_case (id_collectionName ident) standalone then Some (failure InvalidCollectionError)
      else if id_storagePluginName ident = [] then Some (failure InvalidExtensionPluginError)
      else if id_storagePluginName ident \<notin> pe_storage env \<and> id_storagePluginName ident \<notin> pe_encryptedStorage env
      then Some (failure InvalidExtensionPluginError)
      else None)"

text \<open>The first job and its lambda, for a method that goes on with the collection's metadata.\<close>

definition with_collection_metadata ::
    "'c processor_env \<Rightarrow> request_id \<Rightarrow> out_param list \<Rightarrow> qstring \<Rightarrow> qstring
     \<Rightarrow> (CollectionMetadata \<Rightarrow> ('e, 's, 'c, 'a) rp_method) \<Rightarrow> ('e, 's, 'c, 'a) rp_method" where
  "with_collection_metadata env requestId others storagePluginName collectionName proceed k m =
     run (collection_metadata_job env storagePluginName collectionName)
       (\<lambda>(result, metadata).
          if \<not> succeeded result then finish_unless_pending requestId others result
          else proceed metadata (finish_unless_pending requestId others))
       (k pending m)"

text \<open>The job that derives the key from an entered code, and its lambda.\<close>

definition with_derived_key ::
    "request_id \<Rightarrow> out_param list \<Rightarrow> qstring \<Rightarrow> qstring \<Rightarrow> qbytes \<Rightarrow> (qbytes \<Rightarrow> ('e, 's, 'c, 'a) handler)
     \<Rightarrow> ('e, 's, 'c, 'a) rp_method" where
  "with_derived_key requestId others storagePluginName encryptionPluginName authenticationCode proceed k m =
     run (derive_key_job (encrypts_itself storagePluginName encryptionPluginName) storagePluginName encryptionPluginName
            authenticationCode (rp_saltData m))
       (\<lambda>(result, key). if \<not> succeeded result then finish requestId (OutResult result # others) else proceed key)
       (k pending m)"

definition unknown_encryption :: "'c processor_env \<Rightarrow> qstring \<Rightarrow> qstring \<Rightarrow> bool" where
  "unknown_encryption env storagePluginName encryptionPluginName \<longleftrightarrow>
     \<not> encrypts_itself storagePluginName encryptionPluginName \<and> encryptionPluginName \<notin> pe_encryption env"

subsection \<open>Listing stored keys\<close>

text \<open>The store the keys are asked of, from the three plugin maps, and the maps after the operation.\<close>

definition key_store_of :: "'c processor_env \<Rightarrow> qstring \<Rightarrow> ('e, 's, 'c) plugin_maps \<Rightarrow> ('s, 'c) key_store" where
  "key_store_of env name p =
     (case map_of (pm_storage p) name of
        Some h \<Rightarrow> KeyStorage h
      | None \<Rightarrow>
          (case map_of (pm_encryptedStorage p) name of
             None \<Rightarrow> NoKeyStore
           | Some h \<Rightarrow> (case pe_cryptoStorage env name of Some c \<Rightarrow> KeyCryptoStorage h c | None \<Rightarrow> KeyEncryptedStorage h)))"

primrec put_key_store :: "qstring \<Rightarrow> ('e, 's, 'c) plugin_maps \<Rightarrow> ('s, 'c) key_store \<Rightarrow> ('e, 's, 'c) plugin_maps" where
  "put_key_store name p NoKeyStore = p"
| "put_key_store name p (KeyStorage h) = p\<lparr>pm_storage := qmap_insert name h (pm_storage p)\<rparr>"
| "put_key_store name p (KeyCryptoStorage h c) = p\<lparr>pm_encryptedStorage := qmap_insert name h (pm_encryptedStorage p)\<rparr>"
| "put_key_store name p (KeyEncryptedStorage h) = p\<lparr>pm_encryptedStorage := qmap_insert name h (pm_encryptedStorage p)\<rparr>"

definition storedKeyIdentifiersWithEncryptionKey ::
    "'c processor_env \<Rightarrow> pid \<Rightarrow> request_id \<Rightarrow> qstring \<Rightarrow> qstring \<Rightarrow> variant_map \<Rightarrow> UserInteractionMode \<Rightarrow> qstring
     \<Rightarrow> CollectionMetadata \<Rightarrow> qbytes \<Rightarrow> bool \<Rightarrow> ('e, 's, 'c, 'a) handler \<Rightarrow> ('e, 's, 'c, 'a) handler" where
  "storedKeyIdentifiersWithEncryptionKey env callerPid requestId collectionName storagePluginName customParameters
       userInteractionMode interactionServiceAddress collectionMetadata collectionKey collectionWasLocked continue m =
     (let requiresRelock = (collectionWasLocked \<and> relocks collectionMetadata)
      in run (\<lambda>p. map_option (\<lambda>(r, ids, store). ((r, ids), put_key_store storagePluginName p store))
                (storedKeyIdentifiersFromCollection
                   \<lparr>ci_collectionName = collectionName, ci_collectionKey = collectionKey, ci_relockRequired = requiresRelock\<rparr>
                   customParameters (key_store_of env storagePluginName p)))
           (\<lambda>(pluginResult, identifiers) m'.
              finish requestId [OutResult pluginResult, OutIdentifiers identifiers]
                (if succeeded pluginResult \<and> \<not> requiresRelock
                 then m'\<lparr>rp_collectionEncryptionKeys := qmap_insert (collection_hash env collectionName storagePluginName)
                            collectionKey (rp_collectionEncryptionKeys m')\<rparr>
                 else m'))
           (continue m))"

definition storedKeyIdentifiersWithAuthenticationCode ::
    "'c processor_env \<Rightarrow> pid \<Rightarrow> request_id \<Rightarrow> qstring \<Rightarrow> qstring \<Rightarrow> variant_map \<Rightarrow> UserInteractionMode \<Rightarrow> qstring
     \<Rightarrow> CollectionMetadata \<Rightarrow> qbytes \<Rightarrow> ('e, 's, 'c, 'a) rp_method" where
  "storedKeyIdentifiersWithAuthenticationCode env callerPid requestId collectionName storagePluginName customParameters
       userInteractionMode interactionServiceAddress collectionMetadata authenticationCode =
     with_derived_key requestId [OutIdentifiers []] storagePluginName (cm_encryptionPluginName collectionMetadata)
       authenticationCode
       (\<lambda>key. storedKeyIdentifiersWithEncryptionKey env callerPid requestId collectionName storagePluginName customParameters
                userInteractionMode interactionServiceAddress collectionMetadata key True Return)"

definition storedKeyIdentifiersWithMetadata ::
    "'c processor_env \<Rightarrow> pid \<Rightarrow> request_id \<Rightarrow> qstring \<Rightarrow> qstring \<Rightarrow> variant_map \<Rightarrow> UserInteractionMode \<Rightarrow> qstring
     \<Rightarrow> CollectionMetadata \<Rightarrow> ('e, 's, 'c, 'a) rp_method" where
  "storedKeyIdentifiersWithMetadata env callerPid requestId collectionName storagePluginName customParameters
       userInteractionMode interactionServiceAddress collectionMetadata k m =
     (case collection_access_denied env callerPid collectionMetadata of
        Some denied \<Rightarrow> k denied m
      | None \<Rightarrow>
          if \<not> has_authentication_plugin m (cm_authenticationPluginName collectionMetadata)
          then k (failure InvalidExtensionPluginError) m
          else when_unlocked env storagePluginName collectionName k
                 (let parameters = StoredKeyIdentifiersRequest collectionName storagePluginName customParameters
                        userInteractionMode interactionServiceAddress collectionMetadata
                  in ask_to_unlock env False callerPid requestId (cm_usesDeviceLockKey collectionMetadata) userInteractionMode
                       (authentication_plugin_for env (cm_ownerApplicationId collectionMetadata) callerPid
                          (cm_authenticationPluginName collectionMetadata) interactionServiceAddress)
                       interactionServiceAddress
                       (code_prompt (caller env callerPid) storagePluginName collectionName [] UnlockCollection)
                       parameters parameters k)
                 (storedKeyIdentifiersWithEncryptionKey env callerPid requestId collectionName storagePluginName
                    customParameters userInteractionMode interactionServiceAddress collectionMetadata [] False (k pending))
                 m)"

text \<open>Without a collection name the main thread waits for the keys of all collections, which are output parameters of the call itself.\<close>

definition RequestProcessor_storedKeyIdentifiers ::
    "'c processor_env \<Rightarrow> pid \<Rightarrow> request_id \<Rightarrow> qstring \<Rightarrow> qstring \<Rightarrow> variant_map \<Rightarrow> UserInteractionMode \<Rightarrow> qstring
     \<Rightarrow> (Result \<times> Identifier list \<Rightarrow> ('e, 's, 'c, 'a) handler) \<Rightarrow> ('e, 's, 'c, 'a) handler" where
  "RequestProcessor_storedKeyIdentifiers env callerPid requestId collectionName storagePluginName customParameters
       userInteractionMode interactionServiceAddress k m =
     (if storagePluginName = [] then k (failure InvalidExtensionPluginError, []) m
      else if storagePluginName \<notin> pe_encryptedStorage env \<and> storagePluginName \<notin> pe_storage env
      then k (failure InvalidExtensionPluginError, []) m
      else if same_ignoring_case collectionName standalone then k (failure InvalidCollectionError, []) m
      else if collectionName = []
      then await (\<lambda>p. let (r, ids, store) = storedKeyIdentifiers customParameters (key_store_of env storagePluginName p)
                      in Some ((r, ids), put_key_store storagePluginName p store)) k m
      else with_collection_metadata env requestId [] storagePluginName collectionName
             (storedKeyIdentifiersWithMetadata env callerPid requestId collectionName storagePluginName customParameters
                userInteractionMode interactionServiceAddress)
             (\<lambda>r. k (r, [])) m)"

subsection \<open>Input from the user\<close>

text \<open>The plugin an application's prompt is shown by.\<close>

definition user_input_plugin :: "'c processor_env \<Rightarrow> InteractionParameters \<Rightarrow> qstring" where
  "user_input_plugin env uiParams =
     mappedPluginName (pe_environment env)
       (if ip_authenticationPluginName uiParams = []
        then DefaultAuthenticationPluginName @ (if pe_autotestMode env then testSuffix else [])
        else ip_authenticationPluginName uiParams)"

definition userInput :: "'c processor_env \<Rightarrow> pid \<Rightarrow> request_id \<Rightarrow> InteractionParameters \<Rightarrow> ('e, 's, 'c, 'a) rp_method" where
  "userInput env callerPid requestId uiParams k m =
     (let plugin = user_input_plugin env uiParams;
          promptParams = uiParams\<lparr>ip_applicationId := caller env callerPid\<rparr>
      in if \<not> has_authentication_plugin m plugin then k (failure InvalidExtensionPluginError) m
         else begin_user_input plugin callerPid requestId promptParams [] (UserInputRequest promptParams) k m)"

subsection \<open>Storing a secret\<close>

definition setCollectionSecretWithEncryptionKey ::
    "'c processor_env \<Rightarrow> pid \<Rightarrow> request_id \<Rightarrow> Secret \<Rightarrow> UserInteractionMode \<Rightarrow> qstring \<Rightarrow> CollectionMetadata \<Rightarrow> qbytes
     \<Rightarrow> ('e, 's, 'c, 'a) handler \<Rightarrow> ('e, 's, 'c, 'a) handler" where
  "setCollectionSecretWithEncryptionKey env callerPid requestId secret userInteractionMode interactionServiceAddress
       collectionMetadata encryptionKey continue m =
     (let ident = se_identifier secret;
          sp = id_storagePluginName ident;
          secretMetadata =
            \<lparr>sm_collectionName = id_collectionName ident, sm_secretName = id_name ident,
             sm_ownerApplicationId = cm_ownerApplicationId collectionMetadata,
             sm_usesDeviceLockKey = cm_usesDeviceLockKey collectionMetadata,
             sm_encryptionPluginName = cm_encryptionPluginName collectionMetadata,
             sm_authenticationPluginName = cm_authenticationPluginName collectionMetadata,
             sm_unlockSemantic = cm_unlockSemantic collectionMetadata,
             sm_accessControlMode = cm_accessControlMode collectionMetadata,
             sm_secretType = Secret_type secret, sm_cryptoPluginName = []\<rparr>;
          done = (\<lambda>pluginResult. finish requestId [OutResult pluginResult])
      in if encrypts_itself sp (cm_encryptionPluginName collectionMetadata)
         then run (on_encrypted_plugin sp (\<lambda>h.
                EncryptedStoragePluginFunctionWrapper_unlockCollectionAndStoreSecret h secretMetadata secret encryptionKey))
                done (continue m)
         else run (on_encryption_and_storage_plugin (sm_encryptionPluginName secretMetadata) sp (\<lambda>e h.
                StoragePluginFunctionWrapper_encryptAndStoreSecret e h secretMetadata secret encryptionKey))
                done (continue (remember_key env (id_collectionName ident) sp (relocks_secret secretMetadata) encryptionKey m)))"

definition setCollectionSecretWithAuthenticationCode ::
    "'c processor_env \<Rightarrow> pid \<Rightarrow> request_id \<Rightarrow> Secret \<Rightarrow> UserInteractionMode \<Rightarrow> qstring \<Rightarrow> CollectionMetadata \<Rightarrow> qbytes
     \<Rightarrow> ('e, 's, 'c, 'a) rp_method" where
  "setCollectionSecretWithAuthenticationCode env callerPid requestId secret userInteractionMode interactionServiceAddress
       collectionMetadata authenticationCode k m =
     (let sp = id_storagePluginName (se_identifier secret);
          ep = cm_encryptionPluginName collectionMetadata
      in if encrypts_itself sp ep \<and> sp \<notin> pe_encryptedStorage env then k (failure InvalidExtensionPluginError) m
         else if unknown_encryption env sp ep then k (failure InvalidExtensionPluginError) m
         else with_derived_key requestId [] sp ep authenticationCode
                (\<lambda>key. setCollectionSecretWithEncryptionKey env callerPid requestId secret userInteractionMode
                         interactionServiceAddress collectionMetadata key Return) k m)"

definition setCollectionSecretGetAuthenticationCode ::
    "'c processor_env \<Rightarrow> pid \<Rightarrow> request_id \<Rightarrow> Secret \<Rightarrow> UserInteractionMode \<Rightarrow> qstring \<Rightarrow> CollectionMetadata
     \<Rightarrow> ('e, 's, 'c, 'a) rp_method" where
  "setCollectionSecretGetAuthenticationCode env callerPid requestId secret userInteractionMode interactionServiceAddress
       collectionMetadata k m =
     (let ident = se_identifier secret;
          sp = id_storagePluginName ident;
          parameters = SetCollectionSecretRequest secret userInteractionMode interactionServiceAddress collectionMetadata;
          ask = ask_to_unlock env False callerPid requestId (cm_usesDeviceLockKey collectionMetadata) userInteractionMode
                  (authentication_plugin_for env (cm_ownerApplicationId collectionMetadata) callerPid
                     (cm_authenticationPluginName collectionMetadata) interactionServiceAddress)
                  interactionServiceAddress
                  (code_prompt (caller env callerPid) sp (id_collectionName ident) (id_name ident) StoreSecret)
                  parameters parameters k
      in with_collection_key env (sp \<in> pe_encryptedStorage env) sp (id_collectionName ident) k (\<lambda>_. []) ask ask
           (\<lambda>key. setCollectionSecretWithEncryptionKey env callerPid requestId secret userInteractionMode
                    interactionServiceAddress collectionMetadata key (k pending)) m)"

definition setCollectionSecretWithMetadata ::
    "'c processor_env \<Rightarrow> pid \<Rightarrow> request_id \<Rightarrow> Secret \<Rightarrow> InteractionParameters \<Rightarrow> UserInteractionMode \<Rightarrow> qstring
     \<Rightarrow> CollectionMetadata \<Rightarrow> ('e, 's, 'c, 'a) rp_method" where
  "setCollectionSecretWithMetadata env callerPid requestId secret uiParams userInteractionMode interactionServiceAddress
       collectionMetadata k m =
     (case collection_access_denied env callerPid collectionMetadata of
        Some denied \<Rightarrow> k denied m
      | None \<Rightarrow>
          if \<not> InteractionParameters_isValid uiParams
          then setCollectionSecretGetAuthenticationCode env callerPid requestId secret userInteractionMode
                 interactionServiceAddress collectionMetadata k m
          else if \<not> has_authentication_plugin m (user_input_plugin env uiParams) then k (failure InvalidExtensionPluginError) m
          else let modifiedUiParams = uiParams\<lparr>ip_applicationId := caller env callerPid,
                     ip_collectionName := id_collectionName (se_identifier secret),
                     ip_secretName := id_name (se_identifier secret), ip_operation := RequestUserData\<rparr>
               in begin_user_input (user_input_plugin env uiParams) callerPid requestId modifiedUiParams
                    interactionServiceAddress
                    (SetCollectionUserInputSecretRequest secret modifiedUiParams userInteractionMode
                       interactionServiceAddress collectionMetadata) k m)"

definition setCollectionSecret ::
    "'c processor_env \<Rightarrow> pid \<Rightarrow> request_id \<Rightarrow> Secret \<Rightarrow> InteractionParameters \<Rightarrow> UserInteractionMode \<Rightarrow> qstring
     \<Rightarrow> ('e, 's, 'c, 'a) rp_method" where
  "setCollectionSecret env callerPid requestId secret uiParams userInteractionMode interactionServiceAddress k m =
     (case invalid_identifier env (se_identifier secret) of
        Some invalid \<Rightarrow> k invalid m
      | None \<Rightarrow> with_collection_metadata env requestId [] (id_storagePluginName (se_identifier secret))
                  (id_collectionName (se_identifier secret))
                  (setCollectionSecretWithMetadata env callerPid requestId secret uiParams userInteractionMode
                     interactionServiceAddress) k m)"

subsection \<open>Reading a secret\<close>

definition getCollectionSecretWithEncryptionKey ::
    "'c processor_env \<Rightarrow> pid \<Rightarrow> request_id \<Rightarrow> Identifier \<Rightarrow> UserInteractionMode \<Rightarrow> qstring \<Rightarrow> CollectionMetadata \<Rightarrow> qbytes
     \<Rightarrow> ('e, 's, 'c, 'a) handler \<Rightarrow> ('e, 's, 'c, 'a) handler" where
  "getCollectionSecretWithEncryptionKey env callerPid requestId ident userInteractionMode interactionServiceAddress
       collectionMetadata encryptionKey continue m =
     (let sp = id_storagePluginName ident;
          done = (\<lambda>(result, secret). finish requestId [OutResult result, OutSecret secret])
      in if encrypts_itself sp (cm_encryptionPluginName collectionMetadata)
         then run (on_encrypted_plugin sp (\<lambda>h w. with_output
                (EncryptedStoragePluginFunctionWrapper_unlockCollectionAndReadSecret h collectionMetadata ident encryptionKey w)))
                done (continue m)
         else run (on_encryption_and_storage_plugin (cm_encryptionPluginName collectionMetadata) sp (\<lambda>e h w. with_output
                (StoragePluginFunctionWrapper_getAndDecryptSecret e h ident encryptionKey w)))
                done (continue (remember_key env (id_collectionName ident) sp (relocks collectionMetadata) encryptionKey m)))"

definition getCollectionSecretWithAuthenticationCode ::
    "'c processor_env \<Rightarrow> pid \<Rightarrow> request_id \<Rightarrow> Identifier \<Rightarrow> UserInteractionMode \<Rightarrow> qstring \<Rightarrow> CollectionMetadata \<Rightarrow> qbytes
     \<Rightarrow> ('e, 's, 'c, 'a) rp_method" where
  "getCollectionSecretWithAuthenticationCode env callerPid requestId ident userInteractionMode interactionServiceAddress
       collectionMetadata authenticationCode k m =
     (let sp = id_storagePluginName ident;
          ep = cm_encryptionPluginName collectionMetadata
      in if encrypts_itself sp ep \<and> sp \<notin> pe_encryptedStorage env then k (failure InvalidExtensionPluginError) m
         else if unknown_encryption env sp ep then k (failure InvalidExtensionPluginError) m
         else with_derived_key requestId [] sp ep authenticationCode
                (\<lambda>key. getCollectionSecretWithEncryptionKey env callerPid requestId ident userInteractionMode
                         interactionServiceAddress collectionMetadata key Return) k m)"

definition getCollectionSecretWithMetadata ::
    "'c processor_env \<Rightarrow> pid \<Rightarrow> request_id \<Rightarrow> Identifier \<Rightarrow> UserInteractionMode \<Rightarrow> qstring \<Rightarrow> CollectionMetadata
     \<Rightarrow> ('e, 's, 'c, 'a) rp_method" where
  "getCollectionSecretWithMetadata env callerPid requestId ident userInteractionMode interactionServiceAddress
       collectionMetadata k m =
     (case collection_access_denied env callerPid collectionMetadata of
        Some denied \<Rightarrow> k denied m
      | None \<Rightarrow>
          let sp = id_storagePluginName ident;
              parameters = GetCollectionSecretRequest ident userInteractionMode interactionServiceAddress collectionMetadata;
              ask = ask_to_unlock env True callerPid requestId (cm_usesDeviceLockKey collectionMetadata) userInteractionMode
                  (authentication_plugin_for env (cm_ownerApplicationId collectionMetadata) callerPid
                     (cm_authenticationPluginName collectionMetadata) interactionServiceAddress)
                  interactionServiceAddress
                  (code_prompt (caller env callerPid) [] (id_collectionName ident) (id_name ident) ReadSecret)
                  parameters parameters k
          in with_collection_key env (encrypts_itself sp (cm_encryptionPluginName collectionMetadata)) sp
               (id_collectionName ident) k (\<lambda>_. []) ask ask
               (\<lambda>key. getCollectionSecretWithEncryptionKey env callerPid requestId ident userInteractionMode
                        interactionServiceAddress collectionMetadata key (k pending)) m)"

definition getCollectionSecret ::
    "'c processor_env \<Rightarrow> pid \<Rightarrow> request_id \<Rightarrow> Identifier \<Rightarrow> UserInteractionMode \<Rightarrow> qstring \<Rightarrow> ('e, 's, 'c, 'a) rp_method" where
  "getCollectionSecret env callerPid requestId ident userInteractionMode interactionServiceAddress k m =
     (case invalid_identifier env ident of
        Some invalid \<Rightarrow> k invalid m
      | None \<Rightarrow> with_collection_metadata env requestId [] (id_storagePluginName ident) (id_collectionName ident)
                  (getCollectionSecretWithMetadata env callerPid requestId ident userInteractionMode
                     interactionServiceAddress) k m)"

subsection \<open>Finding secrets\<close>

definition findCollectionSecretsWithEncryptionKey ::
    "'c processor_env \<Rightarrow> pid \<Rightarrow> request_id \<Rightarrow> qstring \<Rightarrow> qstring \<Rightarrow> filter_data \<Rightarrow> FilterOperator \<Rightarrow> UserInteractionMode \<Rightarrow> qstring
     \<Rightarrow> CollectionMetadata \<Rightarrow> qbytes \<Rightarrow> ('e, 's, 'c, 'a) handler \<Rightarrow> ('e, 's, 'c, 'a) handler" where
  "findCollectionSecretsWithEncryptionKey env callerPid requestId collectionName storagePluginName flt filterOperator
       userInteractionMode interactionServiceAddress collectionMetadata encryptionKey continue m =
     (let done = (\<lambda>(result, identifiers). finish requestId [OutResult result, OutIdentifiers identifiers])
      in if encrypts_itself storagePluginName (cm_encryptionPluginName collectionMetadata)
         then run (on_encrypted_plugin storagePluginName (\<lambda>h w. with_output
                (EncryptedStoragePluginFunctionWrapper_unlockAndFindSecrets h collectionMetadata flt filterOperator encryptionKey w)))
                done (continue m)
         else run (on_storage_plugin storagePluginName (\<lambda>h w. with_output
                (StoragePluginFunctionWrapper_findSecrets h collectionName flt filterOperator w)))
                done (continue (remember_key env collectionName storagePluginName (relocks collectionMetadata) encryptionKey m)))"

definition findCollectionSecretsWithAuthenticationCode ::
    "'c processor_env \<Rightarrow> pid \<Rightarrow> request_id \<Rightarrow> qstring \<Rightarrow> qstring \<Rightarrow> filter_data \<Rightarrow> FilterOperator \<Rightarrow> UserInteractionMode \<Rightarrow> qstring
     \<Rightarrow> CollectionMetadata \<Rightarrow> qbytes \<Rightarrow> ('e, 's, 'c, 'a) rp_method" where
  "findCollectionSecretsWithAuthenticationCode env callerPid requestId collectionName storagePluginName flt filterOperator
       userInteractionMode interactionServiceAddress collectionMetadata authenticationCode k m =
     (if unknown_encryption env storagePluginName (cm_encryptionPluginName collectionMetadata)
      then k (failure InvalidExtensionPluginError) m
      else with_derived_key requestId [] storagePluginName (cm_encryptionPluginName collectionMetadata) authenticationCode
             (\<lambda>key. findCollectionSecretsWithEncryptionKey env callerPid requestId collectionName storagePluginName flt
                      filterOperator userInteractionMode interactionServiceAddress collectionMetadata key Return) k m)"

definition findCollectionSecretsWithMetadata ::
    "'c processor_env \<Rightarrow> pid \<Rightarrow> request_id \<Rightarrow> qstring \<Rightarrow> qstring \<Rightarrow> filter_data \<Rightarrow> FilterOperator \<Rightarrow> UserInteractionMode \<Rightarrow> qstring
     \<Rightarrow> CollectionMetadata \<Rightarrow> ('e, 's, 'c, 'a) rp_method" where
  "findCollectionSecretsWithMetadata env callerPid requestId collectionName storagePluginName flt filterOperator
       userInteractionMode interactionServiceAddress collectionMetadata k m =
     (let authPluginName = authentication_plugin_for env (cm_ownerApplicationId collectionMetadata) callerPid
            (cm_authenticationPluginName collectionMetadata) interactionServiceAddress
      in case collection_access_denied env callerPid collectionMetadata of
        Some denied \<Rightarrow> k denied m
      | None \<Rightarrow>
          if \<not> has_authentication_plugin m authPluginName then k (failure InvalidExtensionPluginError) m
          else let parameters = FindCollectionSecretsRequest collectionName storagePluginName flt filterOperator
                     userInteractionMode interactionServiceAddress collectionMetadata;
                   ask = ask_to_unlock env True callerPid requestId (cm_usesDeviceLockKey collectionMetadata) userInteractionMode
                     authPluginName interactionServiceAddress
                     (code_prompt (caller env callerPid) storagePluginName collectionName [] UnlockCollection)
                     parameters parameters k
               in with_collection_key env (encrypts_itself storagePluginName (cm_encryptionPluginName collectionMetadata))
                    storagePluginName collectionName k (\<lambda>_. []) ask ask
                    (\<lambda>key. findCollectionSecretsWithEncryptionKey env callerPid requestId collectionName storagePluginName flt
                             filterOperator userInteractionMode interactionServiceAddress collectionMetadata key (k pending)) m)"

definition findCollectionSecrets ::
    "'c processor_env \<Rightarrow> pid \<Rightarrow> request_id \<Rightarrow> qstring \<Rightarrow> qstring \<Rightarrow> filter_data \<Rightarrow> FilterOperator \<Rightarrow> UserInteractionMode \<Rightarrow> qstring
     \<Rightarrow> ('e, 's, 'c, 'a) rp_method" where
  "findCollectionSecrets env callerPid requestId collectionName storagePluginName flt filterOperator userInteractionMode
       interactionServiceAddress k m =
     (if storagePluginName = [] then k (failure InvalidExtensionPluginError) m
      else if storagePluginName \<notin> pe_encryptedStorage env \<and> storagePluginName \<notin> pe_storage env
      then k (failure InvalidExtensionPluginError) m
      else if collectionName = [] then k (failure InvalidCollectionError) m
      else if same_ignoring_case collectionName standalone then k (failure InvalidCollectionError) m
      else if flt = [] then k (failure InvalidFilterError) m
      else with_collection_metadata env requestId [] storagePluginName collectionName
             (findCollectionSecretsWithMetadata env callerPid requestId collectionName storagePluginName flt filterOperator
                userInteractionMode interactionServiceAddress) k m)"

definition findStandaloneSecrets ::
    "'c processor_env \<Rightarrow> pid \<Rightarrow> request_id \<Rightarrow> qstring \<Rightarrow> filter_data \<Rightarrow> FilterOperator \<Rightarrow> UserInteractionMode \<Rightarrow> qstring
     \<Rightarrow> ('e, 's, 'c, 'a) rp_method" where
  "findStandaloneSecrets env callerPid requestId storagePluginName flt filterOperator userInteractionMode
       interactionServiceAddress k m = k (failure OperationNotSupportedError) m"

subsection \<open>Deleting a secret\<close>

definition deleteCollectionSecretWithEncryptionKey ::
    "'c processor_env \<Rightarrow> pid \<Rightarrow> request_id \<Rightarrow> Identifier \<Rightarrow> UserInteractionMode \<Rightarrow> qstring \<Rightarrow> CollectionMetadata \<Rightarrow> qbytes
     \<Rightarrow> ('e, 's, 'c, 'a) handler \<Rightarrow> ('e, 's, 'c, 'a) handler" where
  "deleteCollectionSecretWithEncryptionKey env callerPid requestId ident userInteractionMode interactionServiceAddress
       collectionMetadata encryptionKey continue m =
     (let sp = id_storagePluginName ident;
          done = (\<lambda>pluginResult. finish requestId [OutResult pluginResult])
      in if encrypts_itself sp (cm_encryptionPluginName collectionMetadata)
         then run (on_encrypted_plugin sp (\<lambda>h.
                EncryptedStoragePluginFunctionWrapper_unlockCollectionAndRemoveSecret h collectionMetadata ident encryptionKey))
                done (continue m)
         else run (on_storage_plugin sp (\<lambda>h.
                StoragePluginWrapper_removeSecret (sh_plugin h) (id_collectionName ident) (id_name ident)))
                done (continue (remember_key env (id_collectionName ident) sp (relocks collectionMetadata) encryptionKey m)))"

definition deleteCollectionSecretWithAuthenticationCode ::
    "'c processor_env \<Rightarrow> pid \<Rightarrow> request_id \<Rightarrow> Identifier \<Rightarrow> UserInteractionMode \<Rightarrow> qstring \<Rightarrow> CollectionMetadata \<Rightarrow> qbytes
     \<Rightarrow> ('e, 's, 'c, 'a) rp_method" where
  "deleteCollectionSecretWithAuthenticationCode env callerPid requestId ident userInteractionMode interactionServiceAddress
       collectionMetadata authenticationCode k m =
     (if unknown_encryption env (id_storagePluginName ident) (cm_encryptionPluginName collectionMetadata)
      then k (failure InvalidExtensionPluginError) m
      else with_derived_key requestId [] (id_storagePluginName ident) (cm_encryptionPluginName collectionMetadata)
             authenticationCode
             (\<lambda>key. deleteCollectionSecretWithEncryptionKey env callerPid requestId ident userInteractionMode
                      interactionServiceAddress collectionMetadata key Return) k m)"

text \<open>Where the plugin reports the collection locked, a missing authentication plugin is noticed before the interaction mode is.\<close>

definition deleteCollectionSecretWithMetadata ::
    "'c processor_env \<Rightarrow> pid \<Rightarrow> request_id \<Rightarrow> Identifier \<Rightarrow> UserInteractionMode \<Rightarrow> qstring \<Rightarrow> CollectionMetadata
     \<Rightarrow> ('e, 's, 'c, 'a) rp_method" where
  "deleteCollectionSecretWithMetadata env callerPid requestId ident userInteractionMode interactionServiceAddress
       collectionMetadata k m =
     (let sp = id_storagePluginName ident;
          authPluginName = authentication_plugin_for env (cm_ownerApplicationId collectionMetadata) callerPid
            (cm_authenticationPluginName collectionMetadata) interactionServiceAddress
      in case collection_access_denied env callerPid collectionMetadata of
        Some denied \<Rightarrow> k denied m
      | None \<Rightarrow>
          if unknown_encryption env sp (cm_encryptionPluginName collectionMetadata)
          then k (failure InvalidExtensionPluginError) m
          else let parameters = DeleteCollectionSecretRequest ident userInteractionMode interactionServiceAddress
                     collectionMetadata;
                   ask = ask_to_unlock env False callerPid requestId (cm_usesDeviceLockKey collectionMetadata) userInteractionMode
                     authPluginName interactionServiceAddress
                     (code_prompt (caller env callerPid) sp (id_collectionName ident) (id_name ident) DeleteSecret)
                     parameters parameters k
               in with_collection_key env (encrypts_itself sp (cm_encryptionPluginName collectionMetadata)) sp
                    (id_collectionName ident) k rp_deviceLockKey
                    (\<lambda>m'. if \<not> cm_usesDeviceLockKey collectionMetadata \<and> \<not> has_authentication_plugin m' authPluginName
                          then k (failure InvalidExtensionPluginError) m' else ask m')
                    ask
                    (\<lambda>key. deleteCollectionSecretWithEncryptionKey env callerPid requestId ident userInteractionMode
                             interactionServiceAddress collectionMetadata key (k pending)) m)"

definition deleteCollectionSecret ::
    "'c processor_env \<Rightarrow> pid \<Rightarrow> request_id \<Rightarrow> Identifier \<Rightarrow> UserInteractionMode \<Rightarrow> qstring \<Rightarrow> ('e, 's, 'c, 'a) rp_method" where
  "deleteCollectionSecret env callerPid requestId ident userInteractionMode interactionServiceAddress k m =
     (case invalid_identifier env ident of
        Some invalid \<Rightarrow> k invalid m
      | None \<Rightarrow> with_collection_metadata env requestId [] (id_storagePluginName ident) (id_collectionName ident)
                  (deleteCollectionSecretWithMetadata env callerPid requestId ident userInteractionMode
                     interactionServiceAddress) k m)"

end
