(* ===== verification/Standalone_Requests.thy ===== *)
theory Standalone_Requests
  imports Secret_Requests
begin

section \<open>Requests on standalone secrets\<close>

text \<open>
  The methods of \<^verbatim>\<open>RequestProcessor\<close> for secrets outside collections, which plugins keep under the reserved
  collection name, each with a key of its own.
\<close>

definition standalone_identifier :: "Identifier \<Rightarrow> Identifier" where
  "standalone_identifier ident = ident\<lparr>id_collectionName := standalone\<rparr>"

definition standalone_secret :: "Secret \<Rightarrow> Secret" where
  "standalone_secret secret = secret\<lparr>se_identifier := standalone_identifier (se_identifier secret)\<rparr>"

definition standalone_hash :: "'c processor_env \<Rightarrow> Identifier \<Rightarrow> qstring" where
  "standalone_hash env ident = calculateSecretNameHash env (standalone_identifier ident)"

definition remember_standalone_key :: "'c processor_env \<Rightarrow> Identifier \<Rightarrow> qbytes \<Rightarrow> 'a RequestProcessor \<Rightarrow> 'a RequestProcessor" where
  "remember_standalone_key env ident key m =
     m\<lparr>rp_standaloneSecretEncryptionKeys := qmap_insert (standalone_hash env ident) key (rp_standaloneSecretEncryptionKeys m)\<rparr>"

text \<open>A standalone secret can be stored only where the metadata has none of its name.\<close>

definition unless_standalone_exists ::
    "'c processor_env \<Rightarrow> request_id \<Rightarrow> Identifier \<Rightarrow> ('e, 's, 'c, 'a) rp_method \<Rightarrow> ('e, 's, 'c, 'a) rp_method" where
  "unless_standalone_exists env requestId ident proceed k m =
     run (standalone_metadata_job env (id_storagePluginName ident) (id_name ident))
       (\<lambda>(result, metadata).
          if res_code result = Failed \<and> res_errorCode result = InvalidSecretError
          then proceed (finish_unless_pending requestId [])
          else if res_code result = Failed then finish_unless_pending requestId [] result
          else finish_unless_pending requestId [] (failure SecretAlreadyExistsError))
       (k pending m)"

text \<open>The checks on the plugins a new standalone secret names.\<close>

definition invalid_standalone :: "'c processor_env \<Rightarrow> Identifier \<Rightarrow> qstring \<Rightarrow> Result option" where
  "invalid_standalone env ident encryptionPluginName =
     (let sp = id_storagePluginName ident
      in if id_name ident = [] then Some (failure InvalidSecretError)
         else if sp = encryptionPluginName \<and> sp \<notin> pe_encryptedStorage env then Some (failure InvalidExtensionPluginError)
         else if sp \<noteq> encryptionPluginName \<and> sp \<notin> pe_storage env then Some (failure InvalidExtensionPluginError)
         else if sp \<noteq> encryptionPluginName \<and> encryptionPluginName \<notin> pe_encryption env
         then Some (failure InvalidExtensionPluginError)
         else None)"

definition data_prompt :: "InteractionParameters \<Rightarrow> qstring \<Rightarrow> Identifier \<Rightarrow> InteractionParameters" where
  "data_prompt uiParams ownerApplicationId ident =
     uiParams\<lparr>ip_applicationId := ownerApplicationId, ip_pluginName := id_storagePluginName ident,
       ip_collectionName := standalone, ip_secretName := id_name ident, ip_operation := RequestUserData\<rparr>"

subsection \<open>Secrets under the device lock\<close>

definition writeStandaloneDeviceLockSecret ::
    "'c processor_env \<Rightarrow> pid \<Rightarrow> request_id \<Rightarrow> Secret \<Rightarrow> SecretMetadata \<Rightarrow> ('e, 's, 'c, 'a) rp_method" where
  "writeStandaloneDeviceLockSecret env callerPid requestId secret secretMetadata k m =
     run (on_encryption_and_storage_plugin (sm_encryptionPluginName secretMetadata)
            (id_storagePluginName (se_identifier secret))
            (\<lambda>e h. StoragePluginFunctionWrapper_encryptAndStoreSecret e h secretMetadata (standalone_secret secret)
                     (rp_deviceLockKey m)))
       (\<lambda>pluginResult m'. finish requestId [OutResult pluginResult]
          (if succeeded pluginResult then remember_standalone_key env (se_identifier secret) (rp_deviceLockKey m') m' else m'))
       (k pending m)"

definition setStandaloneDeviceLockSecretWithMetadata ::
    "'c processor_env \<Rightarrow> pid \<Rightarrow> request_id \<Rightarrow> Secret \<Rightarrow> InteractionParameters \<Rightarrow> qstring \<Rightarrow> SecretMetadata
     \<Rightarrow> ('e, 's, 'c, 'a) rp_method" where
  "setStandaloneDeviceLockSecretWithMetadata env callerPid requestId secret uiParams interactionServiceAddress newMetadata k m =
     (if \<not> InteractionParameters_isValid uiParams
      then writeStandaloneDeviceLockSecret env callerPid requestId secret newMetadata k m
      else if \<not> has_authentication_plugin m (user_input_plugin env uiParams) then k (failure InvalidExtensionPluginError) m
      else begin_user_input (user_input_plugin env uiParams) callerPid requestId
             (data_prompt uiParams (sm_ownerApplicationId newMetadata) (se_identifier secret)) interactionServiceAddress
             (SetStandaloneDeviceLockUserInputSecretRequest secret newMetadata) k m)"

definition setStandaloneDeviceLockSecret ::
    "'c processor_env \<Rightarrow> pid \<Rightarrow> request_id \<Rightarrow> Secret \<Rightarrow> qstring \<Rightarrow> InteractionParameters \<Rightarrow> int \<Rightarrow> AccessControlMode
     \<Rightarrow> UserInteractionMode \<Rightarrow> qstring \<Rightarrow> ('e, 's, 'c, 'a) rp_method" where
  "setStandaloneDeviceLockSecret env callerPid requestId secret encryptionPluginName uiParams unlockSemantic accessControlMode
       userInteractionMode interactionServiceAddress k m =
     (let ident = se_identifier secret;
          sp = id_storagePluginName ident
      in case invalid_standalone env ident encryptionPluginName of
           Some invalid \<Rightarrow> k invalid m
         | None \<Rightarrow>
             if accessControlMode = SystemAccessControlMode then k (failure OperationNotSupportedError) m
             else if InteractionParameters_isValid uiParams \<and> userInteractionMode = PreventInteraction
             then k (failure OperationRequiresUserInteraction) m
             else if sp = encryptionPluginName \<or> sp \<in> pe_encryptedStorage env then k (failure OperationNotSupportedError) m
             else unless_standalone_exists env requestId ident
                    (setStandaloneDeviceLockSecretWithMetadata env callerPid requestId secret uiParams interactionServiceAddress
                       \<lparr>sm_collectionName = standalone, sm_secretName = id_name ident,
                        sm_ownerApplicationId = caller env callerPid, sm_usesDeviceLockKey = True,
                        sm_encryptionPluginName = encryptionPluginName,
                        sm_authenticationPluginName = system_authentication_plugin env,
                        sm_unlockSemantic = unlockSemantic, sm_accessControlMode = accessControlMode,
                        sm_secretType = Secret_type secret, sm_cryptoPluginName = []\<rparr>) k m)"

subsection \<open>Secrets under a lock of their own\<close>

definition setStandaloneCustomLockSecretWithEncryptionKey ::
    "'c processor_env \<Rightarrow> pid \<Rightarrow> request_id \<Rightarrow> Secret \<Rightarrow> SecretMetadata \<Rightarrow> qbytes
     \<Rightarrow> ('e, 's, 'c, 'a) handler \<Rightarrow> ('e, 's, 'c, 'a) handler" where
  "setStandaloneCustomLockSecretWithEncryptionKey env callerPid requestId secret secretMetadata encryptionKey continue m =
     (let sp = id_storagePluginName (se_identifier secret);
          ep = sm_encryptionPluginName secretMetadata
      in run (if encrypts_itself sp ep
              then on_encrypted_plugin sp (\<lambda>h. EncryptedStoragePluginFunctionWrapper_setStandaloneSecret h secretMetadata
                     (standalone_secret secret) encryptionKey)
              else on_encryption_and_storage_plugin ep sp (\<lambda>e h. StoragePluginFunctionWrapper_encryptAndStoreSecret e h
                     secretMetadata (standalone_secret secret) encryptionKey))
           (\<lambda>pluginResult m'. finish requestId [OutResult pluginResult]
              (if succeeded pluginResult \<and> sp \<noteq> ep then remember_standalone_key env (se_identifier secret) encryptionKey m'
               else m'))
           (continue m))"

definition setStandaloneCustomLockSecretWithAuthenticationCode ::
    "'c processor_env \<Rightarrow> pid \<Rightarrow> request_id \<Rightarrow> Secret \<Rightarrow> SecretMetadata \<Rightarrow> qbytes \<Rightarrow> ('e, 's, 'c, 'a) rp_method" where
  "setStandaloneCustomLockSecretWithAuthenticationCode env callerPid requestId secret secretMetadata authenticationCode =
     with_derived_key requestId [] (id_storagePluginName (se_identifier secret)) (sm_encryptionPluginName secretMetadata)
       authenticationCode
       (\<lambda>key. setStandaloneCustomLockSecretWithEncryptionKey env callerPid requestId secret secretMetadata key Return)"

definition setStandaloneCustomLockSecretGetAuthenticationCode ::
    "'c processor_env \<Rightarrow> pid \<Rightarrow> request_id \<Rightarrow> Secret \<Rightarrow> UserInteractionMode \<Rightarrow> qstring \<Rightarrow> SecretMetadata
     \<Rightarrow> ('e, 's, 'c, 'a) rp_method" where
  "setStandaloneCustomLockSecretGetAuthenticationCode env callerPid requestId secret userInteractionMode
       interactionServiceAddress secretMetadata =
     begin_user_input (sm_authenticationPluginName secretMetadata) callerPid requestId
       (code_prompt (sm_ownerApplicationId secretMetadata) (id_storagePluginName (se_identifier secret)) standalone
          (id_name (se_identifier secret)) StoreSecret)
       interactionServiceAddress (SetStandaloneCustomLockSecretRequest secret secretMetadata)"

definition setStandaloneCustomLockSecretWithMetadata ::
    "'c processor_env \<Rightarrow> pid \<Rightarrow> request_id \<Rightarrow> Secret \<Rightarrow> InteractionParameters \<Rightarrow> UserInteractionMode \<Rightarrow> qstring \<Rightarrow> SecretMetadata
     \<Rightarrow> ('e, 's, 'c, 'a) rp_method" where
  "setStandaloneCustomLockSecretWithMetadata env callerPid requestId secret uiParams userInteractionMode
       interactionServiceAddress newMetadata k m =
     (if \<not> InteractionParameters_isValid uiParams
      then setStandaloneCustomLockSecretGetAuthenticationCode env callerPid requestId secret userInteractionMode
             interactionServiceAddress newMetadata k m
      else if \<not> has_authentication_plugin m (user_input_plugin env uiParams) then k (failure InvalidExtensionPluginError) m
      else begin_user_input (user_input_plugin env uiParams) callerPid requestId
             (data_prompt uiParams (sm_ownerApplicationId newMetadata) (se_identifier secret)) interactionServiceAddress
             (SetStandaloneCustomLockUserInputSecretRequest secret userInteractionMode interactionServiceAddress newMetadata) k m)"

text \<open>The authentication plugin is used before anything checks that there is one with the name.\<close>

definition setStandaloneCustomLockSecret ::
    "'c processor_env \<Rightarrow> pid \<Rightarrow> request_id \<Rightarrow> Secret \<Rightarrow> qstring \<Rightarrow> qstring \<Rightarrow> InteractionParameters \<Rightarrow> int \<Rightarrow> AccessControlMode
     \<Rightarrow> UserInteractionMode \<Rightarrow> qstring \<Rightarrow> ('e, 's, 'c, 'a) rp_method" where
  "setStandaloneCustomLockSecret env callerPid requestId secret encryptionPluginName authenticationPluginName uiParams
       unlockSemantic accessControlMode userInteractionMode interactionServiceAddress k m =
     (let ident = se_identifier secret
      in case invalid_standalone env ident encryptionPluginName of
           Some invalid \<Rightarrow> k invalid m
         | None \<Rightarrow>
             (case map_of (rp_authenticationPlugins m) authenticationPluginName of
                None \<Rightarrow> Crash
              | Some h \<Rightarrow>
                  if applicationSpecific h \<and> (userInteractionMode \<noteq> ApplicationInteraction \<or> interactionServiceAddress = [])
                  then k (failure OperationRequiresApplicationUserInteraction) m
                  else if userInteractionMode = PreventInteraction then k (failure OperationRequiresUserInteraction) m
                  else if accessControlMode = SystemAccessControlMode then k (failure OperationNotSupportedError) m
                  else unless_standalone_exists env requestId ident
                         (setStandaloneCustomLockSecretWithMetadata env callerPid requestId secret uiParams userInteractionMode
                            interactionServiceAddress
                            \<lparr>sm_collectionName = standalone, sm_secretName = id_name ident,
                             sm_ownerApplicationId = caller env callerPid, sm_usesDeviceLockKey = False,
                             sm_encryptionPluginName = encryptionPluginName,
                             sm_authenticationPluginName = authenticationPluginName,
                             sm_unlockSemantic = unlockSemantic, sm_accessControlMode = accessControlMode,
                             sm_secretType = Secret_type secret, sm_cryptoPluginName = []\<rparr>) k m))"

subsection \<open>Reading\<close>

definition getStandaloneSecretWithEncryptionKey ::
    "'c processor_env \<Rightarrow> pid \<Rightarrow> request_id \<Rightarrow> Identifier \<Rightarrow> UserInteractionMode \<Rightarrow> qstring \<Rightarrow> SecretMetadata \<Rightarrow> qbytes
     \<Rightarrow> ('e, 's, 'c, 'a) handler \<Rightarrow> ('e, 's, 'c, 'a) handler" where
  "getStandaloneSecretWithEncryptionKey env callerPid requestId ident userInteractionMode interactionServiceAddress
       secretMetadata encryptionKey continue m =
     (let sp = id_storagePluginName ident;
          ep = sm_encryptionPluginName secretMetadata
      in if encrypts_itself sp ep
         then run (on_encrypted_plugin sp (\<lambda>h w. with_output
                (EncryptedStoragePluginFunctionWrapper_accessStandaloneSecret h (id_name ident) encryptionKey w)))
                (\<lambda>(result, secretData, secretFilterData).
                   finish requestId [OutResult result,
                     OutSecret \<lparr>se_identifier = standalone_identifier ident, se_data = secretData,
                                se_filterData = secretFilterData\<rparr>])
                (continue m)
         else let m1 = (if qmap_contains (rp_standaloneSecretEncryptionKeys m) (standalone_hash env ident) then m
                        else remember_standalone_key env ident encryptionKey m)
              in run (on_encryption_and_storage_plugin ep sp (\<lambda>e h w. with_output
                   (StoragePluginFunctionWrapper_getAndDecryptSecret e h (standalone_identifier ident)
                      (qmap_value (rp_standaloneSecretEncryptionKeys m1) (standalone_hash env ident) []) w)))
                   (\<lambda>(result, secret).
                      finish requestId [OutResult result,
                        OutSecret (secret\<lparr>se_identifier := (se_identifier secret)\<lparr>id_collectionName := []\<rparr>\<rparr>)])
                   (continue m1))"

definition getStandaloneSecretWithAuthenticationCode ::
    "'c processor_env \<Rightarrow> pid \<Rightarrow> request_id \<Rightarrow> Identifier \<Rightarrow> UserInteractionMode \<Rightarrow> qstring \<Rightarrow> SecretMetadata \<Rightarrow> qbytes
     \<Rightarrow> ('e, 's, 'c, 'a) rp_method" where
  "getStandaloneSecretWithAuthenticationCode env callerPid requestId ident userInteractionMode interactionServiceAddress
       secretMetadata authenticationCode k m =
     (let sp = id_storagePluginName ident;
          ep = sm_encryptionPluginName secretMetadata
      in if encrypts_itself sp ep \<and> sp \<notin> pe_encryptedStorage env then k (failure InvalidExtensionPluginError) m
         else if unknown_encryption env sp ep then k (failure InvalidExtensionPluginError) m
         else with_derived_key requestId [] sp ep authenticationCode
                (\<lambda>key. getStandaloneSecretWithEncryptionKey env callerPid requestId ident userInteractionMode
                         interactionServiceAddress secretMetadata key Return) k m)"

text \<open>There is no access check here.\<close>

definition getStandaloneSecretWithMetadata ::
    "'c processor_env \<Rightarrow> pid \<Rightarrow> request_id \<Rightarrow> Identifier \<Rightarrow> UserInteractionMode \<Rightarrow> qstring \<Rightarrow> SecretMetadata
     \<Rightarrow> ('e, 's, 'c, 'a) rp_method" where
  "getStandaloneSecretWithMetadata env callerPid requestId ident userInteractionMode interactionServiceAddress
       secretMetadata k m =
     (case map_of (rp_standaloneSecretEncryptionKeys m) (standalone_hash env ident) of
        Some key \<Rightarrow> getStandaloneSecretWithEncryptionKey env callerPid requestId ident userInteractionMode
                      interactionServiceAddress secretMetadata key (k pending) m
      | None \<Rightarrow>
          let parameters = GetStandaloneSecretRequest ident userInteractionMode interactionServiceAddress secretMetadata
          in ask_to_unlock env False callerPid requestId (sm_usesDeviceLockKey secretMetadata) userInteractionMode
               (authentication_plugin_for env (sm_ownerApplicationId secretMetadata) callerPid
                  (sm_authenticationPluginName secretMetadata) interactionServiceAddress)
               interactionServiceAddress
               (code_prompt (caller env callerPid) (id_storagePluginName ident) [] (id_name ident) ReadSecret)
               parameters parameters k m)"

definition getStandaloneSecret ::
    "'c processor_env \<Rightarrow> pid \<Rightarrow> request_id \<Rightarrow> Identifier \<Rightarrow> UserInteractionMode \<Rightarrow> qstring \<Rightarrow> ('e, 's, 'c, 'a) rp_method" where
  "getStandaloneSecret env callerPid requestId ident userInteractionMode interactionServiceAddress k m =
     (if id_name ident = [] then k (failure InvalidSecretError) m
      else if id_collectionName ident \<noteq> [] then k (failure InvalidCollectionError) m
      else if id_storagePluginName ident = [] then k (failure InvalidExtensionPluginError) m
      else if id_storagePluginName ident \<notin> pe_encryptedStorage env \<and> id_storagePluginName ident \<notin> pe_storage env
      then k (failure InvalidExtensionPluginError) m
      else run (standalone_metadata_job env (id_storagePluginName ident) (id_name ident))
             (\<lambda>(result, metadata).
                if \<not> succeeded result then finish_unless_pending requestId [] result
                else getStandaloneSecretWithMetadata env callerPid requestId ident userInteractionMode
                       interactionServiceAddress metadata (finish_unless_pending requestId []))
             (k pending m))"

subsection \<open>Deleting\<close>

text \<open>The encrypted storage plugin is asked for the identifier's own collection name, which is empty.\<close>

definition deleteStandaloneSecretWithMetadata ::
    "'c processor_env \<Rightarrow> pid \<Rightarrow> request_id \<Rightarrow> Identifier \<Rightarrow> UserInteractionMode \<Rightarrow> SecretMetadata \<Rightarrow> ('e, 's, 'c, 'a) rp_method" where
  "deleteStandaloneSecretWithMetadata env callerPid requestId ident userInteractionMode secretMetadata k m =
     (let sp = id_storagePluginName ident;
          ep = sm_encryptionPluginName secretMetadata
      in case access_denied env callerPid (sm_accessControlMode secretMetadata) (sm_ownerApplicationId secretMetadata) of
           Some denied \<Rightarrow> k denied m
         | None \<Rightarrow>
             if unknown_encryption env sp ep then k (failure InvalidExtensionPluginError) m
             else run (if encrypts_itself sp ep
                       then on_encrypted_plugin sp (\<lambda>h. EncryptedStoragePluginWrapper_removeSecret (eh_plugin h)
                              (id_collectionName ident) (id_name ident))
                       else on_storage_plugin sp (\<lambda>h. StoragePluginWrapper_removeSecret (sh_plugin h) standalone (id_name ident)))
                    (\<lambda>pluginResult m'. finish requestId [OutResult pluginResult]
                       (if succeeded pluginResult \<and> \<not> encrypts_itself sp ep
                        then m'\<lparr>rp_standaloneSecretEncryptionKeys :=
                                  filter (\<lambda>e. fst e \<noteq> standalone_hash env ident) (rp_standaloneSecretEncryptionKeys m')\<rparr>
                        else m'))
                    (k pending m))"

text \<open>Nothing checks that there is a storage plugin with the identifier's plugin name.\<close>

definition deleteStandaloneSecret ::
    "'c processor_env \<Rightarrow> pid \<Rightarrow> request_id \<Rightarrow> Identifier \<Rightarrow> UserInteractionMode \<Rightarrow> qstring \<Rightarrow> ('e, 's, 'c, 'a) rp_method" where
  "deleteStandaloneSecret env callerPid requestId ident userInteractionMode interactionServiceAddress k m =
     run (standalone_metadata_job env (id_storagePluginName ident) (id_name ident))
       (\<lambda>(result, metadata).
          if \<not> succeeded result then finish_unless_pending requestId [] result
          else deleteStandaloneSecretWithMetadata env callerPid requestId ident userInteractionMode metadata
                 (finish_unless_pending requestId []))
       (k pending m)"

end
