(* ===== verification/Lock_Codes.thy ===== *)
theory Lock_Codes
  imports Secret_Requests
begin

section \<open>Requests on lock codes\<close>

text \<open>
  The methods of \<^verbatim>\<open>RequestProcessor\<close> that query, change, provide and forget lock codes, of the daemon itself (the master lock over all
  metadata databases) or of one plugin, with the functions of \<^verbatim>\<open>SecretsRequestQueue\<close> they call for the plugins of the cryptography daemon.
  Only platform applications may call the methods that change anything.

  The main thread waits for every job here. Between jobs it waits for one after the other nothing else can run, since it queues nothing meanwhile:
  they are one job.
\<close>

subsection \<open>Plugins of the cryptography daemon\<close>

text \<open>
  The request processor of the cryptography daemon (src/daemon/CryptoImpl/cryptorequestprocessor.cpp) refuses when it knows the
  plugin, and would call through a null pointer (\<open>None\<close>) when it does not.
\<close>

definition crypto_queryLockStatusPlugin :: "'c processor_env \<Rightarrow> qstring \<Rightarrow> LockStatus option" where
  "crypto_queryLockStatusPlugin env pluginName = (if pe_cryptoPlugins env pluginName \<noteq> None then Some Unknown else None)"

definition crypto_lockPlugin :: "'c processor_env \<Rightarrow> qstring \<Rightarrow> bool option" where
  "crypto_lockPlugin env pluginName = (if pe_cryptoPlugins env pluginName \<noteq> None then Some False else None)"

definition crypto_unlockPlugin :: "'c processor_env \<Rightarrow> qstring \<Rightarrow> qbytes \<Rightarrow> bool option" where
  "crypto_unlockPlugin env pluginName lockCode = (if pe_cryptoPlugins env pluginName \<noteq> None then Some False else None)"

definition crypto_setLockCodePlugin :: "'c processor_env \<Rightarrow> qstring \<Rightarrow> qbytes \<Rightarrow> qbytes \<Rightarrow> bool option" where
  "crypto_setLockCodePlugin env pluginName oldCode newCode = (if pe_cryptoPlugins env pluginName \<noteq> None then Some False else None)"

definition lock_crypto_plugin :: "'c processor_env \<Rightarrow> qstring \<Rightarrow> bool option \<Rightarrow> Result option" where
  "lock_crypto_plugin env pluginName answer =
     (case pe_cryptoPlugins env pluginName of
        None \<Rightarrow> Some (failure InvalidExtensionPluginError)
      | Some supportsLocking \<Rightarrow>
          if \<not> supportsLocking then Some (failure OperationNotSupportedError)
          else map_option (\<lambda>ok. if ok then success else failure UnknownError) answer)"

definition lockCryptoPlugin :: "'c processor_env \<Rightarrow> qstring \<Rightarrow> Result option" where
  "lockCryptoPlugin env pluginName = lock_crypto_plugin env pluginName (crypto_lockPlugin env pluginName)"

definition unlockCryptoPlugin :: "'c processor_env \<Rightarrow> qstring \<Rightarrow> qbytes \<Rightarrow> Result option" where
  "unlockCryptoPlugin env pluginName lockCode = lock_crypto_plugin env pluginName (crypto_unlockPlugin env pluginName lockCode)"

definition setLockCodeCryptoPlugin :: "'c processor_env \<Rightarrow> qstring \<Rightarrow> qbytes \<Rightarrow> qbytes \<Rightarrow> Result option" where
  "setLockCodeCryptoPlugin env pluginName oldCode newCode =
     lock_crypto_plugin env pluginName (crypto_setLockCodePlugin env pluginName oldCode newCode)"

definition queryLockStatusCryptoPlugin :: "'c processor_env \<Rightarrow> qstring \<Rightarrow> (Result \<times> LockStatus) option" where
  "queryLockStatusCryptoPlugin env pluginName =
     (case pe_cryptoPlugins env pluginName of
        None \<Rightarrow> Some (failure InvalidExtensionPluginError, Unknown)
      | Some supportsLocking \<Rightarrow>
          if \<not> supportsLocking then Some (success, Unsupported)
          else map_option (\<lambda>status. (success, status)) (crypto_queryLockStatusPlugin env pluginName))"

subsection \<open>The lock of one plugin\<close>

text \<open>The target is a plugin of the three plugin maps, which the job finds, else an authentication plugin, else a plugin of the cryptography daemon.\<close>

definition lock_authentication_plugin ::
    "('a AuthenticationPlugin \<Rightarrow> 'a \<Rightarrow> bool \<times> 'a) \<Rightarrow> qstring \<Rightarrow> 'a AuthenticationHost \<Rightarrow> ('e, 's, 'c, 'a) rp_method" where
  "lock_authentication_plugin f name h k m =
     (if \<not> ap_supportsLocking (ah_plugin h) (ah_state h) then k (failure OperationNotSupportedError) m
      else let (ok, s) = f (ah_plugin h) (ah_state h)
           in k (if ok then success else failure UnknownError) (put_authentication_plugin name h s m))"

definition lock_target ::
    "(('e, 's, 'c) plugin_maps \<Rightarrow> (bool \<times> Result) \<times> ('e, 's, 'c) plugin_maps)
     \<Rightarrow> ('a AuthenticationPlugin \<Rightarrow> 'a \<Rightarrow> bool \<times> 'a) \<Rightarrow> Result option \<Rightarrow> qstring \<Rightarrow> ('e, 's, 'c, 'a) rp_method" where
  "lock_target job f crypto target k m =
     await (\<lambda>p. Some (job p))
       (\<lambda>(found, result) m'.
          if found then k result m'
          else case map_of (rp_authenticationPlugins m') target of
                 Some h \<Rightarrow> lock_authentication_plugin f target h k m'
               | None \<Rightarrow> (case crypto of None \<Rightarrow> Crash | Some r \<Rightarrow> k r m'))
       m"

definition queryLockStatus ::
    "'c processor_env \<Rightarrow> pid \<Rightarrow> request_id \<Rightarrow> LockCodeTargetType \<Rightarrow> qstring
     \<Rightarrow> (Result \<times> LockStatus \<Rightarrow> ('e, 's, 'c, 'a) handler) \<Rightarrow> ('e, 's, 'c, 'a) handler" where
  "queryLockStatus env callerPid requestId lockCodeTargetType lockCodeTarget k m =
     (if lockCodeTargetType = TargetMetadataDatabase
      then k (success, if ml_locked (rp_lock m) then Locked else Unlocked) m
      else await (\<lambda>p. Some (queryLockSpecificPlugin lockCodeTarget p, p))
             (\<lambda>(found, status, result) m'.
                if found then k (result, status) m'
                else case map_of (rp_authenticationPlugins m') lockCodeTarget of
                       Some h \<Rightarrow>
                         k (success, if \<not> ap_supportsLocking (ah_plugin h) (ah_state h) then Unsupported
                                     else if ap_isLocked (ah_plugin h) (ah_state h) then Locked else Unlocked) m'
                     | None \<Rightarrow>
                         (case queryLockStatusCryptoPlugin env lockCodeTarget of None \<Rightarrow> Crash | Some r \<Rightarrow> k r m'))
             m)"

subsection \<open>The master lock\<close>

text \<open>A use of the master lock, and the jobs on all metadata databases.\<close>

definition use_lock :: "'c processor_env \<Rightarrow> (lock_env \<Rightarrow> MasterLock \<Rightarrow> 'x \<times> MasterLock) \<Rightarrow> 'a RequestProcessor
    \<Rightarrow> 'x \<times> 'a RequestProcessor" where
  "use_lock env f m =
     (let (x, l) = f (pe_lock env (rp_lockUses m)) (rp_lock m)
      in (x, m\<lparr>rp_lock := l, rp_lockUses := rp_lockUses m + 1\<rparr>))"

definition initialize_master_lock ::
    "'c processor_env \<Rightarrow> qbytes \<Rightarrow> InitializationMode \<Rightarrow> (bool \<Rightarrow> ('e, 's, 'c, 'a) handler) \<Rightarrow> ('e, 's, 'c, 'a) handler" where
  "initialize_master_lock env lockCode mode k m =
     (case initialize_lock (pe_lock env (rp_lockUses m)) lockCode mode (rp_lock m) of
        None \<Rightarrow> Crash
      | Some (ok, l) \<Rightarrow> k ok (m\<lparr>rp_lock := l, rp_lockUses := rp_lockUses m + 1\<rparr>))"

definition on_all_metadata ::
    "('s StorageHost list \<Rightarrow> 'c EncryptedHost list \<Rightarrow> bool \<times> 's StorageHost list \<times> 'c EncryptedHost list)
     \<Rightarrow> ('e, 's, 'c) plugin_maps \<Rightarrow> bool \<times> ('e, 's, 'c) plugin_maps" where
  "on_all_metadata f p =
     (let (ok, hs, es) = f (map snd (pm_storage p)) (map snd (pm_encryptedStorage p))
      in (ok, p\<lparr>pm_storage := zip (map fst (pm_storage p)) hs, pm_encryptedStorage := zip (map fst (pm_encryptedStorage p)) es\<rparr>))"

text \<open>Everything under the device lock is encrypted anew, plugin after plugin; failures are only logged.\<close>

definition reencrypt_device_locked :: "qbytes \<Rightarrow> qbytes \<Rightarrow> ('e, 's, 'c) plugin_maps \<Rightarrow> ('e, 's, 'c) plugin_maps" where
  "reencrypt_device_locked oldKey newKey p =
     p\<lparr>pm_encryptedStorage := map (\<lambda>(n, h). (n, h\<lparr>eh_wrapper :=
          snd (EncryptedStoragePluginFunctionWrapper_unlockDeviceLockedCollectionsAndReencrypt h oldKey newKey (eh_wrapper h))\<rparr>))
          (pm_encryptedStorage p),
       pm_storage := map (\<lambda>(n, h). (n, h\<lparr>sh_wrapper :=
          snd (StoragePluginFunctionWrapper_reencryptDeviceLockedCollectionsAndSecrets h
                 (map (\<lambda>(en, e). (en, nh_encryption e)) (pm_encryption p)) oldKey newKey (sh_wrapper h))\<rparr>))
          (pm_storage p)\<rparr>"

definition platform_only :: "'c processor_env \<Rightarrow> pid \<Rightarrow> LockCodeTargetType \<Rightarrow> qstring \<Rightarrow> Result option" where
  "platform_only env callerPid lockCodeTargetType lockCodeTarget =
     (if \<not> applicationIsPlatformApplication (pe_proc env) callerPid then Some (failure PermissionsError)
      else if lockCodeTargetType = TargetMetadataDatabase \<and> lockCodeTarget \<noteq> [] then Some (failure OperationNotSupportedError)
      else None)"

text \<open>The prompt for a lock code.\<close>

definition ask_lock_code ::
    "'c processor_env \<Rightarrow> pid \<Rightarrow> request_id \<Rightarrow> InteractionParameters \<Rightarrow> qstring \<Rightarrow> (InteractionParameters \<Rightarrow> PendingParameters)
     \<Rightarrow> InteractionParameters \<Rightarrow> ('e, 's, 'c, 'a) rp_method" where
  "ask_lock_code env callerPid requestId interactionParams interactionServiceAddress parameters prompt k m =
     (let plugin = user_input_plugin env interactionParams;
          prompt1 = prompt\<lparr>ip_authenticationPluginName := plugin\<rparr>
      in if \<not> has_authentication_plugin m plugin then k (failure InvalidExtensionPluginError) m
         else begin_user_input plugin callerPid requestId prompt1 interactionServiceAddress (parameters prompt1) k m)"

subsection \<open>Changing a lock code\<close>

definition modify_operation :: "LockCodeTargetType \<Rightarrow> InteractionOperation" where
  "modify_operation lockCodeTargetType = (if lockCodeTargetType = TargetExtensionPlugin then ModifyLockPlugin else ModifyLockDatabase)"

definition modifyLockCode ::
    "'c processor_env \<Rightarrow> pid \<Rightarrow> request_id \<Rightarrow> LockCodeTargetType \<Rightarrow> qstring \<Rightarrow> InteractionParameters \<Rightarrow> UserInteractionMode \<Rightarrow> qstring
     \<Rightarrow> ('e, 's, 'c, 'a) rp_method" where
  "modifyLockCode env callerPid requestId lockCodeTargetType lockCodeTarget interactionParams userInteractionMode
       interactionServiceAddress k m =
     (case platform_only env callerPid lockCodeTargetType lockCodeTarget of
        Some denied \<Rightarrow> k denied m
      | None \<Rightarrow>
          ask_lock_code env callerPid requestId interactionParams interactionServiceAddress
            (\<lambda>prompt. ModifyLockCodeRequest lockCodeTargetType lockCodeTarget prompt userInteractionMode interactionServiceAddress)
            (interactionParams\<lparr>ip_applicationId := caller env callerPid, ip_operation := modify_operation lockCodeTargetType\<rparr>) k m)"

definition modifyLockCodeWithLockCode ::
    "'c processor_env \<Rightarrow> pid \<Rightarrow> request_id \<Rightarrow> LockCodeTargetType \<Rightarrow> qstring \<Rightarrow> InteractionParameters \<Rightarrow> UserInteractionMode \<Rightarrow> qstring
     \<Rightarrow> qbytes \<Rightarrow> ('e, 's, 'c, 'a) rp_method" where
  "modifyLockCodeWithLockCode env callerPid requestId lockCodeTargetType lockCodeTarget interactionParams userInteractionMode
       interactionServiceAddress oldLockCode =
     ask_lock_code env callerPid requestId interactionParams interactionServiceAddress
       (\<lambda>prompt. ModifyLockCodeRequestWithOldCode lockCodeTargetType lockCodeTarget prompt userInteractionMode
          interactionServiceAddress oldLockCode)
       (interactionParams\<lparr>ip_operation := modify_operation lockCodeTargetType\<rparr>)"

text \<open>
  The old code is tested, the new one is set (whether that succeeds is not looked at), and all databases, collections and secrets are
  encrypted anew. The keys the processor keeps of unlocked collections stay as they are.
\<close>

definition modifyLockCodeWithLockCodes ::
    "'c processor_env \<Rightarrow> pid \<Rightarrow> request_id \<Rightarrow> LockCodeTargetType \<Rightarrow> qstring \<Rightarrow> InteractionParameters \<Rightarrow> UserInteractionMode \<Rightarrow> qstring
     \<Rightarrow> qbytes \<Rightarrow> qbytes \<Rightarrow> ('e, 's, 'c, 'a) rp_method" where
  "modifyLockCodeWithLockCodes env callerPid requestId lockCodeTargetType lockCodeTarget interactionParams userInteractionMode
       interactionServiceAddress oldLockCode newLockCode k m =
     (if lockCodeTargetType = TargetExtensionPlugin
      then lock_target (modifyLockSpecificPlugin lockCodeTarget (oldLockCode, newLockCode))
             (\<lambda>p. ap_setLockCode p oldLockCode newLockCode)
             (setLockCodeCryptoPlugin env lockCodeTarget oldLockCode newLockCode) lockCodeTarget k m
      else let (correct, m1) = use_lock env (\<lambda>e. testLockCode e oldLockCode) m;
               oldBkdbLockKey = MasterLock_bkdbLockKey (rp_lock m1);
               oldDeviceLockKey = rp_deviceLockKey m1
           in if \<not> correct then k (failure IncorrectAuthenticationCodeError) m1
              else initialize_master_lock env newLockCode ModifyLockMode
                     (\<lambda>ok m2. await (\<lambda>p. let (reencrypted, p1) = on_all_metadata (\<lambda>hs es.
                                              modifyMasterLockPlugins hs es oldBkdbLockKey (MasterLock_bkdbLockKey (rp_lock m2))) p
                                         in Some (reencrypted, reencrypt_device_locked oldDeviceLockKey (rp_deviceLockKey m2) p1))
                                (\<lambda>reencrypted. k success) m2)
                     m1)"

subsection \<open>Providing a lock code\<close>

text \<open>At the start of the daemon all metadata databases are opened with the key in memory; a daemon that is unlocked does the same and ignores the result.\<close>

definition initializePlugins :: "(bool \<Rightarrow> ('e, 's, 'c, 'a) handler) \<Rightarrow> ('e, 's, 'c, 'a) handler" where
  "initializePlugins k m =
     await (\<lambda>p. Some (on_all_metadata (\<lambda>hs es. masterUnlockPlugins hs es (MasterLock_bkdbLockKey (rp_lock m))) p)) k m"

definition unlock_metadata :: "('e, 's, 'c, 'a) rp_method" where
  "unlock_metadata k m =
     await (\<lambda>p. Some (on_all_metadata (\<lambda>hs es. masterUnlockPlugins hs es (MasterLock_bkdbLockKey (rp_lock m))) p))
       (\<lambda>unlocked. k success) m"

definition provideLockCode ::
    "'c processor_env \<Rightarrow> pid \<Rightarrow> request_id \<Rightarrow> LockCodeTargetType \<Rightarrow> qstring \<Rightarrow> InteractionParameters \<Rightarrow> UserInteractionMode \<Rightarrow> qstring
     \<Rightarrow> ('e, 's, 'c, 'a) rp_method" where
  "provideLockCode env callerPid requestId lockCodeTargetType lockCodeTarget interactionParams userInteractionMode
       interactionServiceAddress k m =
     (case platform_only env callerPid lockCodeTargetType lockCodeTarget of
        Some denied \<Rightarrow> k denied m
      | None \<Rightarrow>
          if lockCodeTargetType = TargetMetadataDatabase \<and> ml_noLockCode (rp_lock m)
          then initialize_master_lock env [] UnlockMode
                 (\<lambda>ok m1. if \<not> ok then k (failure UnknownError) m1 else unlock_metadata k m1) m
          else ask_lock_code env callerPid requestId interactionParams interactionServiceAddress
                 (\<lambda>prompt. ProvideLockCodeRequest lockCodeTargetType lockCodeTarget prompt userInteractionMode
                    interactionServiceAddress)
                 (interactionParams\<lparr>ip_applicationId := caller env callerPid,
                    ip_operation := (if lockCodeTargetType = TargetExtensionPlugin then UnlockPlugin else UnlockDatabase)\<rparr>) k m)"

definition provideLockCodeWithLockCode ::
    "'c processor_env \<Rightarrow> pid \<Rightarrow> request_id \<Rightarrow> LockCodeTargetType \<Rightarrow> qstring \<Rightarrow> InteractionParameters \<Rightarrow> UserInteractionMode \<Rightarrow> qstring
     \<Rightarrow> qbytes \<Rightarrow> ('e, 's, 'c, 'a) rp_method" where
  "provideLockCodeWithLockCode env callerPid requestId lockCodeTargetType lockCodeTarget interactionParams userInteractionMode
       interactionServiceAddress lockCode k m =
     (if lockCodeTargetType = TargetExtensionPlugin
      then lock_target (unlockSpecificPlugin lockCodeTarget lockCode) (\<lambda>p. ap_unlock p lockCode)
             (unlockCryptoPlugin env lockCodeTarget lockCode) lockCodeTarget k m
      else let (correct, m1) = use_lock env (\<lambda>e. testLockCode e lockCode) m
           in if \<not> correct then k (failure IncorrectAuthenticationCodeError) m1
              else initialize_master_lock env lockCode UnlockMode
                     (\<lambda>ok m2. if \<not> ok then k (failure UnknownError) m2 else unlock_metadata k m2) m1)"

subsection \<open>Forgetting a lock code\<close>

definition forgotten_lock_code :: qbytes where
  "forgotten_lock_code = replicate 64 CHR ''f''"

definition forgetLockCode ::
    "'c processor_env \<Rightarrow> pid \<Rightarrow> request_id \<Rightarrow> LockCodeTargetType \<Rightarrow> qstring \<Rightarrow> InteractionParameters \<Rightarrow> UserInteractionMode \<Rightarrow> qstring
     \<Rightarrow> ('e, 's, 'c, 'a) rp_method" where
  "forgetLockCode env callerPid requestId lockCodeTargetType lockCodeTarget interactionParams userInteractionMode
       interactionServiceAddress k m =
     (case platform_only env callerPid lockCodeTargetType lockCodeTarget of
        Some denied \<Rightarrow> k denied m
      | None \<Rightarrow>
          if lockCodeTargetType = TargetExtensionPlugin
          then lock_target (lockSpecificPlugin lockCodeTarget) ap_lock (lockCryptoPlugin env lockCodeTarget) lockCodeTarget k m
          else initialize_master_lock env forgotten_lock_code LockMode
                 (\<lambda>ok m1. if \<not> ok then k (failure UnknownError) m1
                          else await (\<lambda>p. Some (on_all_metadata masterLockPlugins p)) (\<lambda>locked. k success) m1)
                 m)"

end
