(* ===== verification/Interaction.thy ===== *)
theory Interaction
  imports Standalone_Requests Lock_Codes
begin

section \<open>Checks for the cryptography daemon, and the answers of the user\<close>

text \<open>
  The pre-checks the cryptography daemon asks for before it uses or stores a key of a collection, and the two slots of
  \<^verbatim>\<open>RequestProcessor\<close> that authentication plugins call when the user has answered.
\<close>

subsection \<open>Pre-checks\<close>

text \<open>Both pre-checks are the same but for the flag \<open>newSecret\<close> and what they keep while the user is asked.\<close>

definition key_pre_check ::
    "bool \<Rightarrow> request_id \<Rightarrow> Identifier \<Rightarrow> CollectionMetadata \<Rightarrow> qbytes \<Rightarrow> ('e, 's, 'c, 'a) handler \<Rightarrow> ('e, 's, 'c, 'a) handler" where
  "key_pre_check newSecret requestId ident collectionMetadata collectionDecryptionKey continue m =
     (let sp = id_storagePluginName ident
      in run (if encrypts_itself sp (cm_encryptionPluginName collectionMetadata)
              then on_encrypted_plugin sp (\<lambda>h. EncryptedStoragePluginFunctionWrapper_collectionSecretPreCheck h
                     \<lparr>ci_collectionName = id_collectionName ident, ci_collectionKey = collectionDecryptionKey,
                      ci_relockRequired = (collectionDecryptionKey \<noteq> [] \<and> relocks collectionMetadata)\<rparr>
                     (id_name ident) newSecret)
              else on_storage_plugin sp (\<lambda>h. StoragePluginFunctionWrapper_collectionSecretPreCheck h
                     (id_collectionName ident) (id_name ident) newSecret))
           (\<lambda>result. finish requestId [OutResult result, OutBytes collectionDecryptionKey])
           (continue m))"

definition key_pre_check_with_code ::
    "'c processor_env \<Rightarrow> bool \<Rightarrow> request_id \<Rightarrow> Identifier \<Rightarrow> CollectionMetadata \<Rightarrow> qbytes \<Rightarrow> ('e, 's, 'c, 'a) rp_method" where
  "key_pre_check_with_code env newSecret requestId ident collectionMetadata authenticationCode k m =
     (let sp = id_storagePluginName ident;
          ep = cm_encryptionPluginName collectionMetadata
      in if encrypts_itself sp ep \<and> sp \<notin> pe_encryptedStorage env then k (failure InvalidExtensionPluginError) m
         else if unknown_encryption env sp ep then k (failure InvalidExtensionPluginError) m
         else with_derived_key requestId [] sp ep authenticationCode
                (\<lambda>key. key_pre_check newSecret requestId ident collectionMetadata key Return) k m)"

definition key_pre_check_with_metadata ::
    "'c processor_env \<Rightarrow> bool \<Rightarrow> pid \<Rightarrow> request_id \<Rightarrow> Identifier \<Rightarrow> UserInteractionMode \<Rightarrow> PendingParameters \<Rightarrow> PendingParameters
     \<Rightarrow> CollectionMetadata \<Rightarrow> ('e, 's, 'c, 'a) rp_method" where
  "key_pre_check_with_metadata env newSecret callerPid requestId ident userInteractionMode whenVerified whenEntered
       collectionMetadata k m =
     (case collection_access_denied env callerPid collectionMetadata of
        Some denied \<Rightarrow> k denied m
      | None \<Rightarrow>
          let sp = id_storagePluginName ident;
              ask = (\<lambda>operation. ask_to_unlock env False callerPid requestId (cm_usesDeviceLockKey collectionMetadata)
                userInteractionMode
                (authentication_plugin_for env (cm_ownerApplicationId collectionMetadata) callerPid
                   (cm_authenticationPluginName collectionMetadata) [])
                [] (code_prompt (caller env callerPid) sp (id_collectionName ident) (id_name ident) operation)
                whenVerified whenEntered k)
          in with_collection_key env (sp \<in> pe_encryptedStorage env) sp (id_collectionName ident) k (\<lambda>_. [])
               (ask StoreKey) (ask StoreSecret)
               (\<lambda>key. key_pre_check newSecret requestId ident collectionMetadata key (k pending)) m)"

definition useCollectionKeyPreCheckWithEncryptionKey ::
    "pid \<Rightarrow> request_id \<Rightarrow> Identifier \<Rightarrow> CollectionMetadata \<Rightarrow> qbytes \<Rightarrow> ('e, 's, 'c, 'a) handler \<Rightarrow> ('e, 's, 'c, 'a) handler" where
  "useCollectionKeyPreCheckWithEncryptionKey callerPid = key_pre_check False"

definition useCollectionKeyPreCheckWithAuthenticationCode ::
    "'c processor_env \<Rightarrow> pid \<Rightarrow> request_id \<Rightarrow> Identifier \<Rightarrow> int \<Rightarrow> qstring \<Rightarrow> UserInteractionMode \<Rightarrow> CollectionMetadata \<Rightarrow> qbytes
     \<Rightarrow> ('e, 's, 'c, 'a) rp_method" where
  "useCollectionKeyPreCheckWithAuthenticationCode env callerPid requestId ident operation cryptoPluginName userInteractionMode =
     key_pre_check_with_code env False requestId ident"

definition useCollectionKeyPreCheckWithMetadata ::
    "'c processor_env \<Rightarrow> pid \<Rightarrow> request_id \<Rightarrow> Identifier \<Rightarrow> int \<Rightarrow> qstring \<Rightarrow> UserInteractionMode \<Rightarrow> CollectionMetadata
     \<Rightarrow> ('e, 's, 'c, 'a) rp_method" where
  "useCollectionKeyPreCheckWithMetadata env callerPid requestId ident operation cryptoPluginName userInteractionMode
       collectionMetadata =
     key_pre_check_with_metadata env False callerPid requestId ident userInteractionMode
       (UseCollectionKeyPreCheckRequestDeviceLock ident collectionMetadata)
       (UseCollectionKeyPreCheckRequest ident operation cryptoPluginName userInteractionMode collectionMetadata)
       collectionMetadata"

definition useCollectionKeyPreCheck ::
    "'c processor_env \<Rightarrow> pid \<Rightarrow> request_id \<Rightarrow> Identifier \<Rightarrow> int \<Rightarrow> qstring \<Rightarrow> UserInteractionMode \<Rightarrow> ('e, 's, 'c, 'a) rp_method" where
  "useCollectionKeyPreCheck env callerPid requestId ident operation cryptoPluginName userInteractionMode k m =
     (case invalid_identifier env ident of
        Some invalid \<Rightarrow> k invalid m
      | None \<Rightarrow> with_collection_metadata env requestId [OutBytes []] (id_storagePluginName ident) (id_collectionName ident)
                  (useCollectionKeyPreCheckWithMetadata env callerPid requestId ident operation cryptoPluginName
                     userInteractionMode) k m)"

definition setCollectionKeyPreCheckWithEncryptionKey ::
    "pid \<Rightarrow> request_id \<Rightarrow> Identifier \<Rightarrow> CollectionMetadata \<Rightarrow> qbytes \<Rightarrow> ('e, 's, 'c, 'a) handler \<Rightarrow> ('e, 's, 'c, 'a) handler" where
  "setCollectionKeyPreCheckWithEncryptionKey callerPid = key_pre_check True"

definition setCollectionKeyPreCheckWithAuthenticationCode ::
    "'c processor_env \<Rightarrow> pid \<Rightarrow> request_id \<Rightarrow> Identifier \<Rightarrow> UserInteractionMode \<Rightarrow> CollectionMetadata \<Rightarrow> qbytes
     \<Rightarrow> ('e, 's, 'c, 'a) rp_method" where
  "setCollectionKeyPreCheckWithAuthenticationCode env callerPid requestId ident userInteractionMode =
     key_pre_check_with_code env True requestId ident"

definition setCollectionKeyPreCheckWithMetadata ::
    "'c processor_env \<Rightarrow> pid \<Rightarrow> request_id \<Rightarrow> Identifier \<Rightarrow> UserInteractionMode \<Rightarrow> CollectionMetadata \<Rightarrow> ('e, 's, 'c, 'a) rp_method" where
  "setCollectionKeyPreCheckWithMetadata env callerPid requestId ident userInteractionMode collectionMetadata =
     key_pre_check_with_metadata env True callerPid requestId ident userInteractionMode
       (SetCollectionKeyPreCheckRequestDeviceLock ident collectionMetadata)
       (SetCollectionKeyPreCheckRequest ident userInteractionMode collectionMetadata)
       collectionMetadata"

definition setCollectionKeyPreCheck ::
    "'c processor_env \<Rightarrow> pid \<Rightarrow> request_id \<Rightarrow> Identifier \<Rightarrow> UserInteractionMode \<Rightarrow> ('e, 's, 'c, 'a) rp_method" where
  "setCollectionKeyPreCheck env callerPid requestId ident userInteractionMode k m =
     (case invalid_identifier env ident of
        Some invalid \<Rightarrow> k invalid m
      | None \<Rightarrow> with_collection_metadata env requestId [OutBytes []] (id_storagePluginName ident) (id_collectionName ident)
                  (setCollectionKeyPreCheckWithMetadata env callerPid requestId ident userInteractionMode) k m)"

subsection \<open>The user has answered\<close>

text \<open>
  A pending request goes on where it stopped. Its parameters are taken off their list one by one in the argument list of a call, which
  gives them to the right parameters only if arguments are evaluated from left to right; the model takes this order.
\<close>

definition take_pending :: "request_id \<Rightarrow> 'a RequestProcessor \<Rightarrow> 'a RequestProcessor" where
  "take_pending requestId m = m\<lparr>rp_pendingRequests := filter (\<lambda>e. fst e \<noteq> requestId) (rp_pendingRequests m)\<rparr>"

definition with_user_input ::
    "'c processor_env \<Rightarrow> PendingRequest \<Rightarrow> qbytes \<Rightarrow> ('e, 's, 'c, 'a) rp_method" where
  "with_user_input env pr input k m =
     (let pid = pr_callerPid pr; rid = pr_requestId pr
      in case pr_parameters pr of
           CreateCustomLockCollectionRequest cname sp ep ap sem acm mode addr \<Rightarrow>
             createCustomLockCollectionWithAuthenticationCode env pid rid cname sp ep ap sem acm mode addr input k m
         | SetCollectionUserInputSecretRequest secret uiParams mode addr cm \<Rightarrow>
             setCollectionSecretGetAuthenticationCode env pid rid (secret\<lparr>se_data := input\<rparr>) mode addr cm k m
         | SetCollectionSecretRequest secret mode addr cm \<Rightarrow>
             setCollectionSecretWithAuthenticationCode env pid rid secret mode addr cm input k m
         | SetStandaloneDeviceLockUserInputSecretRequest secret sm \<Rightarrow>
             writeStandaloneDeviceLockSecret env pid rid (secret\<lparr>se_data := input\<rparr>) sm k m
         | SetStandaloneCustomLockUserInputSecretRequest secret mode addr sm \<Rightarrow>
             setStandaloneCustomLockSecretGetAuthenticationCode env pid rid (secret\<lparr>se_data := input\<rparr>) mode addr sm k m
         | SetStandaloneCustomLockSecretRequest secret sm \<Rightarrow>
             setStandaloneCustomLockSecretWithAuthenticationCode env pid rid secret sm input k m
         | GetCollectionSecretRequest ident mode addr cm \<Rightarrow>
             getCollectionSecretWithAuthenticationCode env pid rid ident mode addr cm input k m
         | GetStandaloneSecretRequest ident mode addr sm \<Rightarrow>
             getStandaloneSecretWithAuthenticationCode env pid rid ident mode addr sm input k m
         | FindCollectionSecretsRequest cname sp flt op mode addr cm \<Rightarrow>
             findCollectionSecretsWithAuthenticationCode env pid rid cname sp flt op mode addr cm input k m
         | DeleteCollectionRequest cname sp mode addr cm \<Rightarrow>
             deleteCollectionWithLockCode env pid rid cname sp mode addr cm input (k pending) m
         | DeleteCollectionSecretRequest ident mode addr cm \<Rightarrow>
             deleteCollectionSecretWithAuthenticationCode env pid rid ident mode addr cm input k m
         | ModifyLockCodeRequest ty target uiParams mode addr \<Rightarrow>
             modifyLockCodeWithLockCode env pid rid ty target uiParams mode addr input k m
         | ModifyLockCodeRequestWithOldCode ty target uiParams mode addr oldCode \<Rightarrow>
             modifyLockCodeWithLockCodes env pid rid ty target uiParams mode addr oldCode input k m
         | ProvideLockCodeRequest ty target uiParams mode addr \<Rightarrow>
             provideLockCodeWithLockCode env pid rid ty target uiParams mode addr input k m
         | UserInputRequest uiParams \<Rightarrow> k success m
         | UseCollectionKeyPreCheckRequest ident operation cryptoPluginName mode cm \<Rightarrow>
             useCollectionKeyPreCheckWithAuthenticationCode env pid rid ident operation cryptoPluginName mode cm input k m
         | UseCollectionKeyPreCheckRequestDeviceLock ident cm \<Rightarrow> k (failure UnknownError) m
         | SetCollectionKeyPreCheckRequest ident mode cm \<Rightarrow>
             setCollectionKeyPreCheckWithAuthenticationCode env pid rid ident mode cm input k m
         | SetCollectionKeyPreCheckRequestDeviceLock ident cm \<Rightarrow> k (failure UnknownError) m
         | StoredKeyIdentifiersRequest cname sp customParameters mode addr cm \<Rightarrow>
             storedKeyIdentifiersWithAuthenticationCode env pid rid cname sp customParameters mode addr cm input k m)"

definition returns_user_input :: "PendingParameters \<Rightarrow> bool" where
  "returns_user_input parameters \<longleftrightarrow> (case parameters of UserInputRequest uiParams \<Rightarrow> True | _ \<Rightarrow> False)"

definition userInputInteractionCompleted ::
    "'c processor_env \<Rightarrow> pid \<Rightarrow> request_id \<Rightarrow> InteractionParameters \<Rightarrow> qstring \<Rightarrow> Result \<Rightarrow> qbytes \<Rightarrow> ('e, 's, 'c, 'a) handler" where
  "userInputInteractionCompleted env callerPid requestId interactionParameters interactionServiceAddress
       result input m =
     (if \<not> succeeded result then finish_unless_pending requestId [] result m
      else case map_of (rp_pendingRequests m) requestId of
             None \<Rightarrow> finish_unless_pending requestId [] (failure UnknownError) m
           | Some pr \<Rightarrow>
               with_user_input env pr input
                 (finish_unless_pending requestId (if returns_user_input (pr_parameters pr) then [OutBytes input] else []))
                 (take_pending requestId m))"

definition when_authenticated :: "'c processor_env \<Rightarrow> PendingRequest \<Rightarrow> ('e, 's, 'c, 'a) rp_method" where
  "when_authenticated env pr k m =
     (let pid = pr_callerPid pr; rid = pr_requestId pr; key = rp_deviceLockKey m
      in case pr_parameters pr of
           DeleteCollectionRequest cname sp mode addr cm \<Rightarrow>
             deleteCollectionWithEncryptionKey env pid rid cname sp mode addr cm key (k pending) m
         | StoredKeyIdentifiersRequest cname sp customParameters mode addr cm \<Rightarrow>
             storedKeyIdentifiersWithEncryptionKey env pid rid cname sp customParameters mode addr cm key True (k pending) m
         | SetCollectionSecretRequest secret mode addr cm \<Rightarrow>
             setCollectionSecretWithEncryptionKey env pid rid secret mode addr cm key (k pending) m
         | GetCollectionSecretRequest ident mode addr cm \<Rightarrow>
             getCollectionSecretWithEncryptionKey env pid rid ident mode addr cm key (k pending) m
         | GetStandaloneSecretRequest ident mode addr sm \<Rightarrow>
             getStandaloneSecretWithEncryptionKey env pid rid ident mode addr sm key (k pending) m
         | FindCollectionSecretsRequest cname sp flt op mode addr cm \<Rightarrow>
             findCollectionSecretsWithEncryptionKey env pid rid cname sp flt op mode addr cm key (k pending) m
         | DeleteCollectionSecretRequest ident mode addr cm \<Rightarrow>
             deleteCollectionSecretWithEncryptionKey env pid rid ident mode addr cm key (k pending) m
         | UseCollectionKeyPreCheckRequestDeviceLock ident cm \<Rightarrow>
             useCollectionKeyPreCheckWithEncryptionKey pid rid ident cm key (k pending) m
         | SetCollectionKeyPreCheckRequestDeviceLock ident cm \<Rightarrow>
             setCollectionKeyPreCheckWithEncryptionKey pid rid ident cm key (k pending) m
         | _ \<Rightarrow> k (failure UnknownError) m)"

definition authenticationCompleted ::
    "'c processor_env \<Rightarrow> pid \<Rightarrow> request_id \<Rightarrow> Result \<Rightarrow> ('e, 's, 'c, 'a) handler" where
  "authenticationCompleted env callerPid requestId result m =
     (if \<not> succeeded result then finish_unless_pending requestId [] result m
      else case map_of (rp_pendingRequests m) requestId of
             None \<Rightarrow> finish_unless_pending requestId [] (failure UnknownError) m
           | Some pr \<Rightarrow> when_authenticated env pr (finish_unless_pending requestId []) (take_pending requestId m))"

end
