(* ===== verification/Secrets_Queue.thy ===== *)
theory Secrets_Queue
  imports Interaction
begin

section \<open>The requests of the secrets daemon\<close>

text \<open>
  How a call of a client becomes a method of the request processor: the D-Bus object \<^verbatim>\<open>SecretsDBusObject\<close>, which replaces symbolic plugin
  names and chooses the type of request, and \<^verbatim>\<open>SecretsRequestQueue::handlePendingRequest\<close> and \<^verbatim>\<open>handleFinishedRequest\<close>
  (src/daemon/SecretsImpl/secrets.cpp). The list of input parameters of a request is complete and typed here. Requests for information on plugins are left out.

  A result that is not \<^verbatim>\<open>Pending\<close> is sent to the caller at once, with the output parameters of the call; otherwise the reply follows
  when \<^verbatim>\<open>requestFinished\<close> has been called. Both are entries of \<open>rp_replies\<close>.
\<close>

subsection \<open>Requests\<close>

datatype SecretsRequest =
    GetHealthInfo
  | CollectionNames qstring
  | CreateDeviceLockCollection qstring qstring qstring int AccessControlMode
  | CreateCustomLockCollection qstring qstring qstring qstring int AccessControlMode UserInteractionMode qstring
  | RemoveCollection qstring qstring UserInteractionMode qstring
  | SetCollectionSecret Secret InteractionParameters UserInteractionMode qstring
  | SetStandaloneDeviceLockSecret Secret qstring InteractionParameters int AccessControlMode UserInteractionMode qstring
  | SetStandaloneCustomLockSecret Secret qstring qstring InteractionParameters int AccessControlMode UserInteractionMode qstring
  | GetCollectionSecret Identifier UserInteractionMode qstring
  | GetStandaloneSecret Identifier UserInteractionMode qstring
  | FindCollectionSecrets qstring qstring filter_data FilterOperator UserInteractionMode qstring
  | FindStandaloneSecrets qstring filter_data FilterOperator UserInteractionMode qstring
  | DeleteCollectionSecret Identifier UserInteractionMode qstring
  | DeleteStandaloneSecret Identifier UserInteractionMode qstring
  | QueryLockStatus LockCodeTargetType qstring
  | ModifyLockCode LockCodeTargetType qstring InteractionParameters UserInteractionMode qstring
  | ProvideLockCode LockCodeTargetType qstring InteractionParameters UserInteractionMode qstring
  | ForgetLockCode LockCodeTargetType qstring InteractionParameters UserInteractionMode qstring
  | UseCollectionKeyPreCheck Identifier int qstring UserInteractionMode
  | SetCollectionKeyPreCheck Identifier UserInteractionMode
  | SetCollectionKey Secret UserInteractionMode qbytes
  | StoredKeyIdentifiers qstring qstring variant_map UserInteractionMode qstring
  | UserInput InteractionParameters

subsection \<open>Calls over D-Bus\<close>

definition mapped :: "'c processor_env \<Rightarrow> qstring \<Rightarrow> qstring" where
  "mapped env = mappedPluginName (pe_environment env)"

definition map_secret :: "'c processor_env \<Rightarrow> Secret \<Rightarrow> Secret" where
  "map_secret env secret = secret\<lparr>se_identifier := (se_identifier secret)
     \<lparr>id_storagePluginName := mapped env (id_storagePluginName (se_identifier secret))\<rparr>\<rparr>"

definition map_identifier :: "'c processor_env \<Rightarrow> Identifier \<Rightarrow> Identifier" where
  "map_identifier env ident = ident\<lparr>id_storagePluginName := mapped env (id_storagePluginName ident)\<rparr>"

definition map_parameters :: "'c processor_env \<Rightarrow> InteractionParameters \<Rightarrow> InteractionParameters" where
  "map_parameters env uiParams = uiParams\<lparr>ip_pluginName := mapped env (ip_pluginName uiParams),
     ip_authenticationPluginName := mapped env (ip_authenticationPluginName uiParams)\<rparr>"

text \<open>
  An application's request for input never carries names that could pass for another purpose; secrets without a collection are standalone ones.
\<close>

definition dbus_userInput :: "'c processor_env \<Rightarrow> InteractionParameters \<Rightarrow> SecretsRequest" where
  "dbus_userInput env uiParams =
     UserInput (uiParams\<lparr>ip_operation := RequestUserData, ip_pluginName := [], ip_collectionName := [], ip_secretName := [],
       ip_authenticationPluginName := mapped env (ip_authenticationPluginName uiParams)\<rparr>)"

definition dbus_collectionNames :: "'c processor_env \<Rightarrow> qstring \<Rightarrow> SecretsRequest" where
  "dbus_collectionNames env storagePluginName = CollectionNames (mapped env storagePluginName)"

definition dbus_createDeviceLockCollection ::
    "'c processor_env \<Rightarrow> qstring \<Rightarrow> qstring \<Rightarrow> qstring \<Rightarrow> int \<Rightarrow> AccessControlMode \<Rightarrow> SecretsRequest" where
  "dbus_createDeviceLockCollection env collectionName storagePluginName encryptionPluginName =
     CreateDeviceLockCollection collectionName (mapped env storagePluginName) (mapped env encryptionPluginName)"

definition dbus_createCustomLockCollection ::
    "'c processor_env \<Rightarrow> qstring \<Rightarrow> qstring \<Rightarrow> qstring \<Rightarrow> qstring \<Rightarrow> int \<Rightarrow> AccessControlMode \<Rightarrow> UserInteractionMode \<Rightarrow> qstring
     \<Rightarrow> SecretsRequest" where
  "dbus_createCustomLockCollection env collectionName storagePluginName encryptionPluginName authenticationPluginName =
     CreateCustomLockCollection collectionName (mapped env storagePluginName) (mapped env encryptionPluginName)
       (mapped env authenticationPluginName)"

definition dbus_deleteCollection :: "'c processor_env \<Rightarrow> qstring \<Rightarrow> qstring \<Rightarrow> UserInteractionMode \<Rightarrow> qstring \<Rightarrow> SecretsRequest" where
  "dbus_deleteCollection env collectionName storagePluginName = RemoveCollection collectionName (mapped env storagePluginName)"

definition dbus_setSecret :: "'c processor_env \<Rightarrow> Secret \<Rightarrow> InteractionParameters \<Rightarrow> UserInteractionMode \<Rightarrow> qstring \<Rightarrow> SecretsRequest" where
  "dbus_setSecret env secret = SetCollectionSecret (map_secret env secret)"

definition dbus_setDeviceLockSecret ::
    "'c processor_env \<Rightarrow> Secret \<Rightarrow> qstring \<Rightarrow> InteractionParameters \<Rightarrow> int \<Rightarrow> AccessControlMode \<Rightarrow> UserInteractionMode \<Rightarrow> qstring
     \<Rightarrow> SecretsRequest" where
  "dbus_setDeviceLockSecret env secret encryptionPluginName uiParams =
     SetStandaloneDeviceLockSecret (map_secret env secret) (mapped env encryptionPluginName) (map_parameters env uiParams)"

definition dbus_setCustomLockSecret ::
    "'c processor_env \<Rightarrow> Secret \<Rightarrow> qstring \<Rightarrow> qstring \<Rightarrow> InteractionParameters \<Rightarrow> int \<Rightarrow> AccessControlMode \<Rightarrow> UserInteractionMode
     \<Rightarrow> qstring \<Rightarrow> SecretsRequest" where
  "dbus_setCustomLockSecret env secret encryptionPluginName authenticationPluginName uiParams =
     SetStandaloneCustomLockSecret (map_secret env secret) (mapped env encryptionPluginName) (mapped env authenticationPluginName)
       (map_parameters env uiParams)"

definition dbus_getSecret :: "'c processor_env \<Rightarrow> Identifier \<Rightarrow> UserInteractionMode \<Rightarrow> qstring \<Rightarrow> SecretsRequest" where
  "dbus_getSecret env ident =
     (if Identifier_identifiesStandaloneSecret ident then GetStandaloneSecret (map_identifier env ident)
      else GetCollectionSecret (map_identifier env ident))"

definition dbus_findSecrets ::
    "'c processor_env \<Rightarrow> qstring \<Rightarrow> qstring \<Rightarrow> filter_data \<Rightarrow> FilterOperator \<Rightarrow> UserInteractionMode \<Rightarrow> qstring \<Rightarrow> SecretsRequest" where
  "dbus_findSecrets env collectionName storagePluginName =
     (if collectionName = [] then FindStandaloneSecrets (mapped env storagePluginName)
      else FindCollectionSecrets collectionName (mapped env storagePluginName))"

definition dbus_deleteSecret :: "'c processor_env \<Rightarrow> Identifier \<Rightarrow> UserInteractionMode \<Rightarrow> qstring \<Rightarrow> SecretsRequest" where
  "dbus_deleteSecret env ident =
     (if Identifier_identifiesStandaloneSecret ident then DeleteStandaloneSecret (map_identifier env ident)
      else DeleteCollectionSecret (map_identifier env ident))"

definition dbus_queryLockStatus :: "'c processor_env \<Rightarrow> LockCodeTargetType \<Rightarrow> qstring \<Rightarrow> SecretsRequest" where
  "dbus_queryLockStatus env lockCodeTargetType lockCodeTarget = QueryLockStatus lockCodeTargetType (mapped env lockCodeTarget)"

definition dbus_modifyLockCode ::
    "'c processor_env \<Rightarrow> LockCodeTargetType \<Rightarrow> qstring \<Rightarrow> InteractionParameters \<Rightarrow> UserInteractionMode \<Rightarrow> qstring \<Rightarrow> SecretsRequest" where
  "dbus_modifyLockCode env lockCodeTargetType lockCodeTarget uiParams =
     ModifyLockCode lockCodeTargetType (mapped env lockCodeTarget) (map_parameters env uiParams)"

definition dbus_provideLockCode ::
    "'c processor_env \<Rightarrow> LockCodeTargetType \<Rightarrow> qstring \<Rightarrow> InteractionParameters \<Rightarrow> UserInteractionMode \<Rightarrow> qstring \<Rightarrow> SecretsRequest" where
  "dbus_provideLockCode env lockCodeTargetType lockCodeTarget uiParams =
     ProvideLockCode lockCodeTargetType (mapped env lockCodeTarget) (map_parameters env uiParams)"

definition dbus_forgetLockCode ::
    "'c processor_env \<Rightarrow> LockCodeTargetType \<Rightarrow> qstring \<Rightarrow> InteractionParameters \<Rightarrow> UserInteractionMode \<Rightarrow> qstring \<Rightarrow> SecretsRequest" where
  "dbus_forgetLockCode env lockCodeTargetType lockCodeTarget uiParams =
     ForgetLockCode lockCodeTargetType (mapped env lockCodeTarget) (map_parameters env uiParams)"

subsection \<open>Health\<close>

primrec dataProtectorStatusToHealth :: "DataProtectorStatus \<Rightarrow> Health" where
  "dataProtectorStatusToHealth Success = HealthOK"
| "dataProtectorStatusToHealth Irretrievable = HealthCorrupted"
| "dataProtectorStatusToHealth ErrorGotNullptr = HealthOtherError"
| "dataProtectorStatusToHealth ErrorCannotCreateDirectory = HealthOtherError"
| "dataProtectorStatusToHealth ErrorCannotDeleteDirectory = HealthOtherError"
| "dataProtectorStatusToHealth ErrorCannotCreateFile = HealthOtherError"
| "dataProtectorStatusToHealth ErrorCannotOpenFile = HealthOtherError"
| "dataProtectorStatusToHealth ErrorCannotWriteFile = HealthOtherError"

definition getHealthInfo :: "lock_env \<Rightarrow> MasterLock \<Rightarrow> (Health \<times> Health) \<times> MasterLock" where
  "getHealthInfo env s =
     (let (saltStatus, salt, p) = DataProtector_getData (le_saltFiles env) (le_leftover env) True
            \<lparr>dp_root = ml_saltRoot s, dp_data = []\<rparr>;
          (checkStatus, check, q) = DataProtector_getData (le_checkFiles env) (le_leftover env) True (check_protector s)
      in ((dataProtectorStatusToHealth saltStatus, dataProtectorStatusToHealth checkStatus),
          s\<lparr>ml_saltRoot := dp_root p, ml_checkRoot := dp_root q\<rparr>))"

subsection \<open>Handling a request\<close>

definition unless_daemon_locked ::
    "request_id \<Rightarrow> out_param list \<Rightarrow> ('e, 's, 'c, 'a) rp_method \<Rightarrow> ('e, 's, 'c, 'a) handler" where
  "unless_daemon_locked requestId outs f m =
     (if ml_locked (rp_lock m) then finish_unless_pending requestId outs (failure SecretsDaemonLockedError) m
      else f (finish_unless_pending requestId outs) m)"

definition no_parameters :: InteractionParameters where
  "no_parameters = \<lparr>ip_secretName = [], ip_collectionName = [], ip_pluginName = [], ip_applicationId = [], ip_operation = UnknownOperation,
     ip_authenticationPluginName = [], ip_inputType = UnknownInput, ip_echoMode = PasswordEcho\<rparr>"

text \<open>A master lock is queried, changed and provided while the daemon is locked; everything else is refused.\<close>

definition unless_plugin_locked ::
    "LockCodeTargetType \<Rightarrow> request_id \<Rightarrow> ('e, 's, 'c, 'a) rp_method \<Rightarrow> ('e, 's, 'c, 'a) handler" where
  "unless_plugin_locked lockCodeTargetType requestId f m =
     (if lockCodeTargetType = TargetMetadataDatabase then f (finish_unless_pending requestId []) m
      else unless_daemon_locked requestId [] f m)"

primrec handlePendingRequest :: "'c processor_env \<Rightarrow> pid \<Rightarrow> request_id \<Rightarrow> SecretsRequest \<Rightarrow> ('e, 's, 'c, 'a) handler" where
  "handlePendingRequest env pid i GetHealthInfo =
     (\<lambda>m. let ((salt, lock), m1) = use_lock env getHealthInfo m
          in finish_unless_pending i [OutHealth salt, OutHealth lock] success m1)"
| "handlePendingRequest env pid i (CollectionNames sp) =
     unless_daemon_locked i [OutNames []] (RequestProcessor_collectionNames env pid i sp)"
| "handlePendingRequest env pid i (CreateDeviceLockCollection c sp ep sem acm) =
     unless_daemon_locked i [] (createDeviceLockCollection env pid i c sp ep sem acm)"
| "handlePendingRequest env pid i (CreateCustomLockCollection c sp ep ap sem acm mode addr) =
     unless_daemon_locked i [] (createCustomLockCollection env pid i c sp ep ap sem acm mode addr)"
| "handlePendingRequest env pid i (RemoveCollection c sp mode addr) =
     unless_daemon_locked i [] (deleteCollection env pid i c sp mode addr)"
| "handlePendingRequest env pid i (SetCollectionSecret secret ui mode addr) =
     unless_daemon_locked i [] (setCollectionSecret env pid i secret ui mode addr)"
| "handlePendingRequest env pid i (SetStandaloneDeviceLockSecret secret ep ui sem acm mode addr) =
     unless_daemon_locked i [] (setStandaloneDeviceLockSecret env pid i secret ep ui sem acm mode addr)"
| "handlePendingRequest env pid i (SetStandaloneCustomLockSecret secret ep ap ui sem acm mode addr) =
     unless_daemon_locked i [] (setStandaloneCustomLockSecret env pid i secret ep ap ui sem acm mode addr)"
| "handlePendingRequest env pid i (GetCollectionSecret ident mode addr) =
     unless_daemon_locked i [OutSecret new_Secret] (getCollectionSecret env pid i ident mode addr)"
| "handlePendingRequest env pid i (GetStandaloneSecret ident mode addr) =
     unless_daemon_locked i [OutSecret new_Secret] (getStandaloneSecret env pid i ident mode addr)"
| "handlePendingRequest env pid i (FindCollectionSecrets c sp flt op mode addr) =
     unless_daemon_locked i [OutIdentifiers []] (findCollectionSecrets env pid i c sp flt op mode addr)"
| "handlePendingRequest env pid i (FindStandaloneSecrets sp flt op mode addr) =
     unless_daemon_locked i [OutIdentifiers []] (findStandaloneSecrets env pid i sp flt op mode addr)"
| "handlePendingRequest env pid i (DeleteCollectionSecret ident mode addr) =
     unless_daemon_locked i [] (deleteCollectionSecret env pid i ident mode addr)"
| "handlePendingRequest env pid i (DeleteStandaloneSecret ident mode addr) =
     unless_daemon_locked i [] (deleteStandaloneSecret env pid i ident mode addr)"
| "handlePendingRequest env pid i (QueryLockStatus ty target) =
     (\<lambda>m. if ml_locked (rp_lock m) \<and> ty \<noteq> TargetMetadataDatabase
          then finish_unless_pending i [OutLockStatus Unknown] (failure SecretsDaemonLockedError) m
          else queryLockStatus env pid i ty target (\<lambda>(r, status). finish_unless_pending i [OutLockStatus status] r) m)"
| "handlePendingRequest env pid i (ModifyLockCode ty target ui mode addr) =
     unless_plugin_locked ty i (modifyLockCode env pid i ty target ui mode addr)"
| "handlePendingRequest env pid i (ProvideLockCode ty target ui mode addr) =
     unless_plugin_locked ty i (provideLockCode env pid i ty target ui mode addr)"
| "handlePendingRequest env pid i (ForgetLockCode ty target ui mode addr) =
     unless_daemon_locked i [] (forgetLockCode env pid i ty target ui mode addr)"
| "handlePendingRequest env pid i (UseCollectionKeyPreCheck ident operation cp mode) =
     unless_daemon_locked i [OutBytes []] (useCollectionKeyPreCheck env pid i ident operation cp mode)"
| "handlePendingRequest env pid i (SetCollectionKeyPreCheck ident mode) =
     unless_daemon_locked i [OutBytes []] (setCollectionKeyPreCheck env pid i ident mode)"
| "handlePendingRequest env pid i (SetCollectionKey secret mode key) =
     unless_daemon_locked i [] (setCollectionSecret env pid i secret no_parameters mode [])"
| "handlePendingRequest env pid i (StoredKeyIdentifiers c sp custom mode addr) =
     (\<lambda>m. if ml_locked (rp_lock m) then finish_unless_pending i [OutIdentifiers []] (failure SecretsDaemonLockedError) m
          else RequestProcessor_storedKeyIdentifiers env pid i c sp custom mode addr
                 (\<lambda>(r, ids). finish_unless_pending i [OutIdentifiers ids] r) m)"
| "handlePendingRequest env pid i (UserInput ui) = unless_daemon_locked i [OutBytes []] (userInput env pid i ui)"

subsection \<open>Replying to a finished request\<close>

text \<open>
  What a caller is sent: the result, which a list without one replaces by \<^verbatim>\<open>UnknownError\<close>, and the output parameters of the request's type, by default
  empty. \<open>None\<close> means that no reply is sent; a request for health information is answered when it is handled.
\<close>

definition default_outputs :: "SecretsRequest \<Rightarrow> out_param list" where
  "default_outputs req =
     (case req of
        CollectionNames sp \<Rightarrow> [OutNames []]
      | GetCollectionSecret ident mode addr \<Rightarrow> [OutSecret new_Secret]
      | GetStandaloneSecret ident mode addr \<Rightarrow> [OutSecret new_Secret]
      | FindCollectionSecrets c sp flt op mode addr \<Rightarrow> [OutIdentifiers []]
      | FindStandaloneSecrets sp flt op mode addr \<Rightarrow> [OutIdentifiers []]
      | QueryLockStatus ty target \<Rightarrow> [OutLockStatus Unknown]
      | UserInput ui \<Rightarrow> [OutBytes []]
      | UseCollectionKeyPreCheck ident operation cp mode \<Rightarrow> [OutBytes []]
      | SetCollectionKeyPreCheck ident mode \<Rightarrow> [OutBytes []]
      | StoredKeyIdentifiers c sp custom mode addr \<Rightarrow> [OutIdentifiers []]
      | _ \<Rightarrow> [])"

definition handleFinishedRequest :: "SecretsRequest \<Rightarrow> out_param list \<Rightarrow> out_param list option" where
  "handleFinishedRequest req outParams =
     (let (result, rest) = (case outParams of OutResult r # os \<Rightarrow> (r, os) | _ \<Rightarrow> (failure UnknownError, []))
      in if req = GetHealthInfo \<or> res_code result = Pending then None
         else Some (OutResult result # (if rest = [] then default_outputs req else take (length (default_outputs req)) rest)))"

subsection \<open>A small daemon\<close>

text \<open>
  A daemon with one storage plugin, two applications and no pending requests, for examples. Its lock code is \<open>''1234''\<close>.
\<close>

definition demo_processor_env :: "unit processor_env" where
  "demo_processor_env =
     \<lparr>pe_proc = (\<lambda>pid. \<lparr>pr_cgroup = None, pr_exe = None, pr_cmdline = Some (if pid = 1 then ''notes'' else ''game''), pr_heap = [],
        pr_group = ''users'', pr_owner = ''user''\<rparr>),
      pe_environment = (\<lambda>_. []), pe_hash = (\<lambda>bytes. bytes), pe_autotestMode = False, pe_encryption = {}, pe_storage = {''plug''},
      pe_encryptedStorage = {}, pe_cryptoStorage = (\<lambda>_. None), pe_cryptoPlugins = (\<lambda>_. None), pe_lock = (\<lambda>_. demo_aes_env)\<rparr>"

definition demo_unlocked :: MasterLock where
  "demo_unlocked = (demo_lock ''aes'' ''1'' )
     \<lparr>ml_memory := Some \<lparr>km_bytes = concat (replicate 32 ''31'') @ replicate 32 CHR ''1'', km_device = 64\<rparr>,
      ml_bkdbLockKeyLen := 64, ml_deviceLockKeyLen := 32\<rparr>"

definition demo_processor :: "unit RequestProcessor" where
  "demo_processor = \<lparr>rp_authenticationPlugins = [], rp_collectionEncryptionKeys = [],
     rp_standaloneSecretEncryptionKeys = [(''plugstandalonepin'', ''key'')], rp_pendingRequests = [], rp_lock = demo_unlocked,
     rp_lockUses = 0, rp_replies = []\<rparr>"

definition demo_plugins :: "sqlite_db PluginWrapper \<Rightarrow> (unit, sqlite_db, unit) plugin_maps" where
  "demo_plugins w = \<lparr>pm_encryption = [], pm_storage = [(''plug'', \<lparr>sh_plugin = sqlite_plugin, sh_config = demo_cfg, sh_wrapper = w\<rparr>)],
     pm_encryptedStorage = []\<rparr>"

end
