(* ===== verification/Access_Control.thy ===== *)
theory Access_Control
  imports Secrets_Queue
begin

section \<open>Who may do what\<close>

text \<open>
  What the checks of the request processor guarantee, and two places where they fall short: standalone secrets are handed out without a check, and
  changing the master lock code while the daemon is locked loses the metadata.
\<close>

subsection \<open>The owner of a collection\<close>

text \<open>The collection a request is about, as its storage plugin and its name.\<close>

definition collection_of :: "SecretsRequest \<Rightarrow> (qstring \<times> qstring) option" where
  "collection_of req =
     (let of_identifier = (\<lambda>ident. Some (id_storagePluginName ident, id_collectionName ident))
      in case req of
           RemoveCollection c sp mode addr \<Rightarrow> Some (sp, c)
         | SetCollectionSecret secret ui mode addr \<Rightarrow> of_identifier (se_identifier secret)
         | GetCollectionSecret ident mode addr \<Rightarrow> of_identifier ident
         | FindCollectionSecrets c sp flt op mode addr \<Rightarrow> Some (sp, c)
         | DeleteCollectionSecret ident mode addr \<Rightarrow> of_identifier ident
         | UseCollectionKeyPreCheck ident operation cp mode \<Rightarrow> of_identifier ident
         | SetCollectionKeyPreCheck ident mode \<Rightarrow> of_identifier ident
         | SetCollectionKey secret mode key \<Rightarrow> of_identifier (se_identifier secret)
         | StoredKeyIdentifiers c sp custom mode addr \<Rightarrow> (if c = [] then None else Some (sp, c))
         | _ \<Rightarrow> None)"

text \<open>What a request does for a stranger: it is refused at once, or it reads the collection's metadata and is then refused.\<close>

definition stranger_refused ::
    "'c processor_env \<Rightarrow> pid \<Rightarrow> request_id \<Rightarrow> qstring \<Rightarrow> qstring \<Rightarrow> 'a RequestProcessor \<Rightarrow> ('e, 's, 'c, 'a) main_run \<Rightarrow> bool" where
  "stranger_refused env pid i sp c m th \<longleftrightarrow>
     (\<exists>r outs. res_code r = Failed \<and> th = finish i (OutResult r # outs) m)
     \<or> (\<exists>F. th = run (collection_metadata_job env sp c) F (Return m)
          \<and> (\<forall>r cm m'. succeeded r \<longrightarrow> cm_accessControlMode cm = OwnerOnlyMode \<longrightarrow> cm_ownerApplicationId cm \<noteq> caller env pid
               \<longrightarrow> (\<exists>outs. F (r, cm) m' = finish i (OutResult (failure PermissionsError) # outs) m')))"

lemma owner_only_denied:
  "cm_accessControlMode cm = OwnerOnlyMode \<Longrightarrow> cm_ownerApplicationId cm \<noteq> caller env pid
   \<Longrightarrow> collection_access_denied env pid cm = Some (failure PermissionsError)"
  by (simp add: collection_access_denied_def access_denied_def)

lemma denied_methods:
  assumes "collection_access_denied env pid cm = Some denied"
  shows "deleteCollectionWithMetadata env pid i c sp mode addr cm k m = k denied m"
    and "storedKeyIdentifiersWithMetadata env pid i c sp params mode addr cm k m = k denied m"
    and "setCollectionSecretWithMetadata env pid i secret ui mode addr cm k m = k denied m"
    and "getCollectionSecretWithMetadata env pid i ident mode addr cm k m = k denied m"
    and "findCollectionSecretsWithMetadata env pid i c sp flt op mode addr cm k m = k denied m"
    and "deleteCollectionSecretWithMetadata env pid i ident mode addr cm k m = k denied m"
    and "useCollectionKeyPreCheckWithMetadata env pid i ident operation cp mode cm k m = k denied m"
    and "setCollectionKeyPreCheckWithMetadata env pid i ident mode cm k m = k denied m"
  using assms by (simp_all add: deleteCollectionWithMetadata_def storedKeyIdentifiersWithMetadata_def setCollectionSecretWithMetadata_def
      getCollectionSecretWithMetadata_def findCollectionSecretsWithMetadata_def deleteCollectionSecretWithMetadata_def
      useCollectionKeyPreCheckWithMetadata_def setCollectionKeyPreCheckWithMetadata_def key_pre_check_with_metadata_def)

lemma refused_at_once:
  "res_code r = Failed \<Longrightarrow> stranger_refused env pid i sp c m (finish_unless_pending i outs r m)"
  by (auto simp: stranger_refused_def finish_unless_pending_def)

lemma refused_with_metadata:
  assumes "\<And>cm k m. collection_access_denied env pid cm = Some (failure PermissionsError)
      \<Longrightarrow> proceed cm k m = k (failure PermissionsError) m"
  shows "stranger_refused env pid i sp c m (with_collection_metadata env i outs sp c proceed (finish_unless_pending i outs') m)"
proof -
  let ?F = "\<lambda>(result, metadata). if \<not> succeeded result then finish_unless_pending i outs result
          else proceed metadata (finish_unless_pending i outs)"
  have "?F (r, cm) m' = finish i (OutResult (failure PermissionsError) # outs) m'"
    if "succeeded r" "cm_accessControlMode cm = OwnerOnlyMode" "cm_ownerApplicationId cm \<noteq> caller env pid" for r cm m'
    using that assms [OF owner_only_denied] by (simp add: finish_unless_pending_def Result_of_error_def)
  then show ?thesis
    unfolding stranger_refused_def with_collection_metadata_def by (intro disjI2 exI [of _ ?F]) (auto simp: finish_unless_pending_def)
qed

lemma deleteCollection_shared:
  "deleteCollection env pid i c sp mode addr k m =
     (if sp = [] then k (failure InvalidExtensionPluginError) m
      else if sp \<notin> pe_encryptedStorage env \<and> sp \<notin> pe_storage env then k (failure InvalidExtensionPluginError) m
      else if same_ignoring_case c standalone then k (failure InvalidCollectionError) m
      else if c = [] then k (failure InvalidCollectionError) m
      else with_collection_metadata env i [] sp c (deleteCollectionWithMetadata env pid i c sp mode addr) k m)"
  by (simp add: deleteCollection_def with_collection_metadata_def)

lemma invalid_identifier_failed: "invalid_identifier env ident = Some r \<Longrightarrow> res_code r = Failed"
  by (auto simp: invalid_identifier_def split: if_splits)

lemma stranger_refused_unless_locked:
  assumes "\<And>outs. stranger_refused env pid i sp c m (f (finish_unless_pending i outs) m)"
  shows "stranger_refused env pid i sp c m (unless_daemon_locked i outs f m)"
  using assms by (simp add: unless_daemon_locked_def refused_at_once)

text \<open>
  C8. A collection that its owner keeps to itself is closed to everyone else. A request on a collection is refused at once, or it queues a single
  job, which reads the collection's metadata; when the metadata says that only the owner has access and the caller is another
  application, the request ends there with \<^verbatim>\<open>PermissionsError\<close>: no key is derived, nobody is asked, and no plugin is touched again.
\<close>

theorem stranger_is_refused:
  assumes "collection_of req = Some (sp, c)"
  shows "stranger_refused env pid i sp c m (handlePendingRequest env pid i req m)"
proof -
  note methods = deleteCollection_shared setCollectionSecret_def getCollectionSecret_def findCollectionSecrets_def
    deleteCollectionSecret_def useCollectionKeyPreCheck_def setCollectionKeyPreCheck_def
    RequestProcessor_storedKeyIdentifiers_def
  show ?thesis using assms
    by (cases req)
      (auto simp: collection_of_def methods denied_methods
        dest!: invalid_identifier_failed intro!: stranger_refused_unless_locked refused_at_once refused_with_metadata
        split: option.split if_splits)
qed

theorem stranger_is_refused_witness:
  "stranger_refused demo_processor_env 2 7 ''plug'' ''c'' demo_processor
     (handlePendingRequest demo_processor_env 2 7
        (GetCollectionSecret \<lparr>id_name = ''s'', id_collectionName = ''c'', id_storagePluginName = ''plug''\<rparr> PreventInteraction [])
        demo_processor :: (unit, sqlite_db, unit, unit) main_run)
   \<and> caller demo_processor_env 2 \<noteq> caller demo_processor_env 1"
proof
  show "caller demo_processor_env 2 \<noteq> caller demo_processor_env 1" by code_simp
qed (rule stranger_is_refused, simp add: collection_of_def)

subsection \<open>Standalone secrets\<close>

text \<open>
  A standalone secret as the daemon has it: the storage plugin of the identifier has metadata and encrypted bytes for it, and the encryption plugin the
  metadata name decrypts the bytes with the key the request processor remembers.
\<close>

definition has_standalone ::
    "'c processor_env \<Rightarrow> Identifier \<Rightarrow> SecretMetadata \<Rightarrow> qbytes \<Rightarrow> filter_data
     \<Rightarrow> (('e, 's, 'c) plugin_maps, 'a RequestProcessor) system \<Rightarrow> bool" where
  "has_standalone env ident sm plaintext filterData s \<longleftrightarrow>
     (\<exists>h e key r w1 r2 encrypted w2. map_of (pm_storage (sy_plugins s)) (id_storagePluginName ident) = Some h
        \<and> StoragePluginFunctionWrapper_secretMetadata standalone (id_name ident) (sh_wrapper h) = (r, sm, w1) \<and> succeeded r
        \<and> StoragePluginWrapper_getSecret (sh_plugin h) standalone (id_name ident) w1 = (r2, Some (encrypted, filterData), w2) \<and> succeeded r2
        \<and> map_of (pm_encryption (sy_plugins s)) (sm_encryptionPluginName sm) = Some e
        \<and> map_of (rp_standaloneSecretEncryptionKeys (sy_main s)) (standalone_hash env ident) = Some key
        \<and> ep_decryptSecret (nh_encryption e) encrypted key = (success, plaintext))"

text \<open>
  C29. A standalone secret whose key is known is handed to every caller. Let the daemon be unlocked and have nothing else to do, and let it have a
  standalone secret in a storage plugin, with a key it remembers. Let the metadata say that only the owner has access, and the caller be
  another application, so that the check all requests on collections make (C8) would refuse it. The request for the secret is nevertheless answered with success and the
  decrypted secret: after the request has been handled, each of the two threads makes two steps, and the caller has its reply.
\<close>

theorem standalone_secret_open_to_all:
  assumes "has_standalone env ident sm plaintext filterData s" and "\<not> ml_locked (rp_lock (sy_main s))"
    and "sy_jobs s = []" and "sy_events s = []" and "\<not> sy_waiting s"
    and "id_name ident \<noteq> []" and "id_collectionName ident = []" and "id_storagePluginName ident \<noteq> []"
    and "id_storagePluginName ident \<in> pe_storage env" and "id_storagePluginName ident \<notin> pe_encryptedStorage env"
    and "\<not> encrypts_itself (id_storagePluginName ident) (sm_encryptionPluginName sm)"
    and "sm_accessControlMode sm = OwnerOnlyMode" and "sm_ownerApplicationId sm \<noteq> caller env stranger"
  shows "access_denied env stranger (sm_accessControlMode sm) (sm_ownerApplicationId sm) = Some (failure PermissionsError)
    \<and> (\<exists>s1 s2 s3 s4 s5. execute (handlePendingRequest env stranger i (GetStandaloneSecret ident mode addr) (sy_main s)) s = Some s1
         \<and> plugin_step s1 = Some s2 \<and> main_step s2 = Some s3 \<and> plugin_step s3 = Some s4 \<and> main_step s4 = Some s5
         \<and> rp_replies (sy_main s5) = rp_replies (sy_main s) @ [(i, [OutResult success,
              OutSecret \<lparr>se_identifier = ident, se_data = plaintext, se_filterData = filterData\<rparr>])])"
proof -
  let ?m = "sy_main s" and ?p = "sy_plugins s" and ?sp = "id_storagePluginName ident" and ?ep = "sm_encryptionPluginName sm"
  obtain h e key r w1 r2 encrypted w2 where h: "map_of (pm_storage ?p) ?sp = Some h"
    and md: "StoragePluginFunctionWrapper_secretMetadata standalone (id_name ident) (sh_wrapper h) = (r, sm, w1)" "succeeded r"
    and rd: "StoragePluginWrapper_getSecret (sh_plugin h) standalone (id_name ident) w1 = (r2, Some (encrypted, filterData), w2)" "succeeded r2"
    and e: "map_of (pm_encryption ?p) ?ep = Some e"
    and key: "map_of (rp_standaloneSecretEncryptionKeys ?m) (standalone_hash env ident) = Some key"
    and dec: "ep_decryptSecret (nh_encryption e) encrypted key = (success, plaintext)"
    using assms(1) unfolding has_standalone_def by blast
  let ?J = "standalone_metadata_job env ?sp (id_name ident)"
  let ?K = "on_encryption_and_storage_plugin ?ep ?sp (\<lambda>e h w. with_output
        (StoragePluginFunctionWrapper_getAndDecryptSecret e h (standalone_identifier ident) key w))"
  have job1: "?J ?p
      = Some ((r, sm), ?p\<lparr>pm_storage := qmap_insert ?sp (h\<lparr>sh_wrapper := w1\<rparr>) (pm_storage ?p)\<rparr>)" (is "_ = Some (_, ?p1)")
    using assms(10) h md(1) by (simp add: standalone_metadata_job_def on_storage_plugin_def with_output_def)
  have job2: "?K ?p1
      = Some ((success, \<lparr>se_identifier = standalone_identifier ident, se_data = plaintext, se_filterData = filterData\<rparr>),
          ?p1\<lparr>pm_storage := qmap_insert ?sp (h\<lparr>sh_wrapper := w2\<rparr>) (pm_storage ?p1)\<rparr>)"
    using e rd dec by (simp add: on_encryption_and_storage_plugin_def on_storage_plugin_def with_output_def
        StoragePluginFunctionWrapper_getAndDecryptSecret_def standalone_identifier_def secret_data_def)
  have ident: "ident\<lparr>id_collectionName := []\<rparr> = ident" using assms(7) by (cases ident) simp
  let ?m' = "requestFinished_call i [OutResult success, OutSecret \<lparr>se_identifier = ident, se_data = plaintext, se_filterData = filterData\<rparr>] ?m"
  let ?F = "\<lambda>(result, metadata). if \<not> succeeded result then finish_unless_pending i [] result
      else getStandaloneSecretWithMetadata env stranger i ident mode addr metadata (finish_unless_pending i [])"
  let ?G = "\<lambda>(result, secret). finish i [OutResult result, OutSecret (secret\<lparr>se_identifier := (se_identifier secret)\<lparr>id_collectionName := []\<rparr>\<rparr>)]"
  have "\<exists>s1 s2 s3 s4 s5. execute (handlePendingRequest env stranger i (GetStandaloneSecret ident mode addr) ?m) s = Some s1
      \<and> plugin_step s1 = Some s2 \<and> main_step s2 = Some s3 \<and> plugin_step s3 = Some s4 \<and> main_step s4 = Some s5 \<and> sy_main s5 = ?m'"
  proof (rule two_jobs [where f = ?J and c = ?F and g = ?K and c' = ?G, OF assms(3-5) _ job1 _ job2])
    show "handlePendingRequest env stranger i (GetStandaloneSecret ident mode addr) ?m
        = run ?J ?F (Return ?m)"
      using assms(2,6-9) by (simp add: unless_daemon_locked_def getStandaloneSecret_def finish_unless_pending_def)
  qed (use md(2) key assms(7,11) in \<open>simp_all add: getStandaloneSecretWithMetadata_def getStandaloneSecretWithEncryptionKey_def
      qmap_contains_def qmap_value_def finish_unless_pending_def finish_def standalone_identifier_def ident\<close>)
  moreover have "access_denied env stranger (sm_accessControlMode sm) (sm_ownerApplicationId sm) = Some (failure PermissionsError)"
    using assms(12,13) by (simp add: access_denied_def)
  ultimately show ?thesis by (fastforce simp: requestFinished_call_def)
qed

text \<open>The application of process 1 has a standalone secret of its own; process 2 asks for it.\<close>

definition demo_standalone_metadata :: SecretMetadata where
  "demo_standalone_metadata = \<lparr>sm_collectionName = standalone, sm_secretName = ''pin'', sm_ownerApplicationId = ''notes'',
     sm_usesDeviceLockKey = True, sm_encryptionPluginName = ''enc'', sm_authenticationPluginName = [], sm_unlockSemantic = 0,
     sm_accessControlMode = OwnerOnlyMode, sm_secretType = [], sm_cryptoPluginName = []\<rparr>"

definition demo_standalone_wrapper :: "sqlite_db PluginWrapper" where
  "demo_standalone_wrapper = snd (StoragePluginWrapper_setSecret sqlite_plugin demo_standalone_metadata ''key4711'' [] (demo_wrapper [] []))"

definition demo_encryption_host :: "unit EncryptionHost" where
  "demo_encryption_host = \<lparr>nh_base = \<lparr>pb_supportsLocking = (\<lambda>_. False), pb_isAvailable = (\<lambda>_. True), pb_isLocked = (\<lambda>_. False),
      pb_lock = (\<lambda>u. (False, u)), pb_unlock = (\<lambda>_ u. (False, u)), pb_setLockCode = (\<lambda>_ _ u. (False, u))\<rparr>,
     nh_encryption = demo_cipher, nh_state = ()\<rparr>"

definition demo_standalone_daemon :: "((unit, sqlite_db, unit) plugin_maps, unit RequestProcessor) system" where
  "demo_standalone_daemon = \<lparr>sy_plugins = (demo_plugins demo_standalone_wrapper)\<lparr>pm_encryption := [(''enc'', demo_encryption_host)]\<rparr>,
     sy_main = demo_processor, sy_jobs = [], sy_events = [], sy_waiting = False\<rparr>"

definition demo_pin :: Identifier where
  "demo_pin = \<lparr>id_name = ''pin'', id_collectionName = [], id_storagePluginName = ''plug''\<rparr>"

theorem standalone_secret_open_to_all_witness:
  "caller demo_processor_env 2 \<noteq> ''notes''
   \<and> (\<exists>s1 s2 s3 s4 s5. execute (handlePendingRequest demo_processor_env 2 7 (GetStandaloneSecret demo_pin PreventInteraction []) demo_processor)
          demo_standalone_daemon = Some s1
        \<and> plugin_step s1 = Some s2 \<and> main_step s2 = Some s3 \<and> plugin_step s3 = Some s4 \<and> main_step s4 = Some s5
        \<and> rp_replies (sy_main s5) = [(7, [OutResult success, OutSecret \<lparr>se_identifier = demo_pin, se_data = ''4711'', se_filterData = []\<rparr>])])"
proof -
  let ?md = "StoragePluginFunctionWrapper_secretMetadata standalone ''pin'' demo_standalone_wrapper"
  let ?rd = "StoragePluginWrapper_getSecret sqlite_plugin standalone ''pin'' (snd (snd ?md))"
  let ?sm = "demo_standalone_metadata\<lparr>sm_collectionName := [], sm_secretName := []\<rparr>"
  have md: "succeeded (fst ?md) \<and> fst (snd ?md) = ?sm" by code_simp
  have rd: "succeeded (fst ?rd) \<and> fst (snd ?rd) = Some (''key4711'', [])" by code_simp
  have key: "map_of (rp_standaloneSecretEncryptionKeys demo_processor) (standalone_hash demo_processor_env demo_pin) = Some ''key''" by code_simp
  have dec: "ep_decryptSecret demo_cipher ''key4711'' ''key'' = (success, ''4711'')" by (simp add: demo_cipher_def)
  have "has_standalone demo_processor_env demo_pin ?sm ''4711'' [] demo_standalone_daemon"
    unfolding has_standalone_def
    using md rd key dec
    by (intro exI [of _ "\<lparr>sh_plugin = sqlite_plugin, sh_config = demo_cfg, sh_wrapper = demo_standalone_wrapper\<rparr>"]
        exI [of _ demo_encryption_host] exI [of _ "''key''"] exI [of _ "fst ?md"] exI [of _ "snd (snd ?md)"] exI [of _ "fst ?rd"]
        exI [of _ "''key4711''"] exI [of _ "snd (snd ?rd)"])
      (simp add: demo_standalone_daemon_def demo_plugins_def demo_pin_def demo_standalone_metadata_def demo_encryption_host_def prod_eq_iff)
  moreover have "\<not> ml_locked (rp_lock demo_processor)" "caller demo_processor_env 2 \<noteq> ''notes''" by code_simp+
  ultimately show ?thesis
    using standalone_secret_open_to_all [of demo_processor_env demo_pin ?sm "''4711''" "[]" demo_standalone_daemon 2 7
        PreventInteraction "[]"]
    by (simp add: demo_standalone_daemon_def demo_pin_def demo_standalone_metadata_def demo_processor_env_def encrypts_itself_def demo_processor_def)
qed

subsection \<open>Changing the lock code of a locked daemon\<close>

definition locked_under :: "qbytes \<Rightarrow> 's PluginWrapper \<Rightarrow> bool" where
  "locked_under key w \<longleftrightarrow> \<not> db_isOpen (pw_metadataDb w) \<and> db_semaphore (pw_metadataDb w) = 0
     \<and> db_file (pw_metadataDb w) \<noteq> None \<and> db_fileKey (pw_metadataDb w) = key"

lemma unlock_wrong_key_again:
  assumes "locked_under key w" and "other \<noteq> key" and "MetadataDatabase_unlock other (pw_metadataDb w) = (r, d)"
  shows "res_code r = Failed \<and> locked_under key (w\<lparr>pw_metadataDb := d\<rparr>)"
proof -
  obtain t where t: "db_file (pw_metadataDb w) = Some t" "\<not> db_isOpen (pw_metadataDb w)" "db_semaphore (pw_metadataDb w) = 0"
      "other \<noteq> db_fileKey (pw_metadataDb w)" using assms(1,2) by (auto simp: locked_under_def)
  obtain ok d1 where o: "Database_open other 6 2 empty_metadata_tables [] 1 (pw_metadataDb w) = (ok, d1)" by fastforce
  from open_existing [OF o t(1,2)] t(4) have "\<not> ok" by blast
  with assms(3) o t(2) have "d = pw_metadataDb w \<or> d = d1"
    by (auto simp: MetadataDatabase_unlock_def MetadataDatabase_openDatabase_def split: if_splits)
  with open_existing(3) [OF o t(1,2)] unlock_wrong_key [OF t assms(3)] assms(1) t(3) show ?thesis
    by (auto simp: locked_under_def)
qed

lemma modify_master_lock_wrong_key:
  assumes "locked_under key w" and "other \<noteq> key"
  shows "\<not> fst (modify_master_lock initialize other new w) \<and> locked_under key (snd (modify_master_lock initialize other new w))"
proof -
  obtain r d where u: "MetadataDatabase_unlock other (pw_metadataDb w) = (r, d)" by fastforce
  note u1 = unlock_wrong_key_again [OF assms u]
  obtain r2 d2 where v: "MetadataDatabase_unlock other d = (r2, d2)" by fastforce
  with unlock_wrong_key_again [of key "w\<lparr>pw_metadataDb := d\<rparr>" other r2 d2] u1 assms(2)
  have "res_code r2 = Failed" "locked_under key (w\<lparr>pw_metadataDb := d2\<rparr>)" by simp_all
  moreover have "\<not> db_isOpen (pw_metadataDb w)" using assms(1) by (simp add: locked_under_def)
  ultimately show ?thesis using u u1 v
    by (simp add: modify_master_lock_def PluginWrapper_isMasterLocked_def MetadataDatabase_isLocked_def PluginWrapper_masterUnlock_def
        PluginWrapper_setMasterLockKey_def MetadataDatabase_reencrypt_def)
qed

lemma for_each_plugin_fails:
  assumes "\<And>h. Q h \<Longrightarrow> \<not> fst (f h) \<and> Q (snd (f h))" and "\<forall>h \<in> set hs. Q h"
  shows "(fst (for_each_plugin f hs) \<longleftrightarrow> hs = []) \<and> length (snd (for_each_plugin f hs)) = length hs
    \<and> (\<forall>h \<in> set (snd (for_each_plugin f hs)). Q h)"
  using assms(2) by (induction hs) (auto simp: case_prod_unfold Let_def assms(1))

text \<open>With closed metadata the re-encryption of collections and secrets does not come to any of them.\<close>

lemma closed_metadata:
  assumes "\<not> db_isOpen (pw_metadataDb w)"
  shows "PluginWrapper_collectionMetadata c cm w = (failure SecretsPluginIsLockedError, cm, w)"
    and "PluginWrapper_secretMetadata c n sm w = (failure SecretsPluginIsLockedError, sm, w)"
  using assms by (simp_all add: PluginWrapper_collectionMetadata_def PluginWrapper_secretMetadata_def PluginWrapper_isMasterLocked_def
      MetadataDatabase_isLocked_def)

lemma closed_entries:
  assumes "\<not> db_isOpen (pw_metadataDb w)"
  shows "device_locked_collections cs r [] w = (if cs = [] then Inr (r, []) else Inl (failure SecretsPluginIsLockedError), w)"
    and "device_locked_entries collection_lock_entry es cs r [] w
      = (if cs = [] then Inr (r, []) else Inl (failure SecretsPluginIsLockedError), w)"
    and "device_locked_entries secret_lock_entry es cs r [] w
      = (if cs = [] then Inr (r, []) else Inl (failure SecretsPluginIsLockedError), w)"
  using assms by (cases cs; simp add: closed_metadata collection_lock_entry_def secret_lock_entry_def)+

lemma closed_reencrypt:
  assumes "\<not> db_isOpen (pw_metadataDb w)"
  shows "pw_metadataDb (snd (EncryptedStoragePluginFunctionWrapper_unlockDeviceLockedCollectionsAndReencrypt e old new w)) = pw_metadataDb w"
    and "pw_metadataDb (snd (StoragePluginFunctionWrapper_reencryptDeviceLockedCollectionsAndSecrets h eps old new w)) = pw_metadataDb w"
  using assms
  by (auto simp: EncryptedStoragePluginFunctionWrapper_unlockDeviceLockedCollectionsAndReencrypt_def
      StoragePluginFunctionWrapper_reencryptDeviceLockedCollectionsAndSecrets_def EncryptedStoragePluginWrapper_collectionNames_def
      StoragePluginWrapper_collectionNames_def StoragePluginWrapper_secretNames_def closed_entries case_prod_unfold Let_def)

text \<open>All metadata databases of the daemon are locked, under the key given.\<close>

definition all_locked_under :: "qbytes \<Rightarrow> ('e, 's, 'c) plugin_maps \<Rightarrow> bool" where
  "all_locked_under key p \<longleftrightarrow> (\<forall>(n, h) \<in> set (pm_storage p). locked_under key (sh_wrapper h))
     \<and> (\<forall>(n, h) \<in> set (pm_encryptedStorage p). locked_under key (eh_wrapper h))"

lemma reencrypt_device_locked_closed:
  "all_locked_under key p \<Longrightarrow> all_locked_under key (reencrypt_device_locked old new p)"
  by (fastforce simp: all_locked_under_def reencrypt_device_locked_def locked_under_def closed_reencrypt)

lemma modify_all_wrong_key:
  assumes "all_locked_under key p" and "other \<noteq> key"
  shows "all_locked_under key (snd (on_all_metadata (\<lambda>hs es. modifyMasterLockPlugins hs es other new) p))"
proof -
  have s: "\<forall>h \<in> set (snd (for_each_plugin (on_storage (\<lambda>h. modify_master_lock (initialize_storage h) other new))
      (map snd (pm_storage p)))). locked_under key (sh_wrapper h)"
    using assms by (intro for_each_plugin_fails [THEN conjunct2, THEN conjunct2])
      (auto simp: on_storage_def modify_master_lock_wrong_key all_locked_under_def case_prod_unfold Let_def)
  have e: "\<forall>h \<in> set (snd (for_each_plugin (on_encrypted (\<lambda>h. modify_master_lock (initialize_encrypted h) other new))
      (map snd (pm_encryptedStorage p)))). locked_under key (eh_wrapper h)"
    using assms by (intro for_each_plugin_fails [THEN conjunct2, THEN conjunct2])
      (auto simp: on_encrypted_def modify_master_lock_wrong_key all_locked_under_def case_prod_unfold Let_def)
  from s e show ?thesis
    by (auto simp: all_locked_under_def on_all_metadata_def modifyMasterLockPlugins_def case_prod_unfold Let_def dest: set_zip_rightD)
qed

text \<open>
  C22. A lock code that is changed while the daemon is locked makes the metadata unreadable. The old key is taken from memory, where
  \<open>forgetLockCode\<close> has left the key of another code; so although the old code is right and a new check text is written, every metadata
  database stays locked under its old key, and the answer is \<^verbatim>\<open>Succeeded\<close>.
\<close>

theorem lock_code_change_of_locked_daemon:
  assumes "use_lock env (\<lambda>e. testLockCode e oldCode) m = (True, m1)"
    and "initialize_lock (pe_lock env (rp_lockUses m1)) newCode ModifyLockMode (rp_lock m1) = Some (True, l)"
    and "all_locked_under key p" and "MasterLock_bkdbLockKey (rp_lock m1) \<noteq> key"
  shows "\<exists>job m2 (x :: bool) p'. modifyLockCodeWithLockCodes env pid i TargetMetadataDatabase [] ui mode addr oldCode newCode k m
      = await job (\<lambda>_. k success) m2 \<and> rp_lock m2 = l \<and> job p = Some (x, p') \<and> all_locked_under key p'"
proof -
  let ?m2 = "m1\<lparr>rp_lock := l, rp_lockUses := rp_lockUses m1 + 1\<rparr>"
  let ?old = "MasterLock_bkdbLockKey (rp_lock m1)"
  let ?job = "\<lambda>p. let (reencrypted, p1) = on_all_metadata (\<lambda>hs es. modifyMasterLockPlugins hs es ?old (MasterLock_bkdbLockKey l)) p
     in Some (reencrypted, reencrypt_device_locked (rp_deviceLockKey m1) (rp_deviceLockKey ?m2) p1)"
  have "modifyLockCodeWithLockCodes env pid i TargetMetadataDatabase [] ui mode addr oldCode newCode k m
      = await ?job (\<lambda>_. k success) ?m2"
    using assms(1,2) by (simp add: modifyLockCodeWithLockCodes_def initialize_master_lock_def)
  moreover have "\<exists>x p'. ?job p = Some (x, p') \<and> all_locked_under key p'"
    by (simp add: case_prod_unfold Let_def reencrypt_device_locked_closed [OF modify_all_wrong_key [OF assms(3,4)]])
  moreover have "rp_lock ?m2 = l" by simp
  ultimately show ?thesis by blast
qed

text \<open>The lock after \<open>forgetLockCode\<close>: the check text is that of the old code, the keys in memory are those of the forgotten one.\<close>

definition demo_forgotten :: MasterLock where
  "demo_forgotten = demo_unlocked\<lparr>ml_locked := True,
     ml_memory := Some \<lparr>km_bytes = replicate 64 CHR ''6'' @ replicate 32 CHR ''f'', km_device = 64\<rparr>\<rparr>"

definition demo_locked_wrapper :: "sqlite_db PluginWrapper" where
  "demo_locked_wrapper = (demo_wrapper [] [])\<lparr>pw_metadataDb := (Database_close (pw_metadataDb (demo_wrapper [] [])))
     \<lparr>db_fileKey := MasterLock_bkdbLockKey demo_unlocked\<rparr>\<rparr>"

theorem lock_code_change_of_locked_daemon_witness:
  "\<exists>job m2 (x :: bool) p'. modifyLockCodeWithLockCodes demo_processor_env 0 7 TargetMetadataDatabase [] no_parameters SystemInteraction []
       ''1234'' ''5678'' (finish_unless_pending 7 []) (demo_processor\<lparr>rp_lock := demo_forgotten\<rparr>)
     = await job (\<lambda>_. finish_unless_pending 7 [] success) m2
     \<and> job (demo_plugins demo_locked_wrapper) = Some (x, p') \<and> all_locked_under (MasterLock_bkdbLockKey demo_unlocked) p'"
proof -
  let ?m = "demo_processor\<lparr>rp_lock := demo_forgotten\<rparr>"
  obtain m1 where u: "use_lock demo_processor_env (\<lambda>e. testLockCode e ''1234'') ?m = (fst (testLockCode demo_aes_env ''1234'' demo_forgotten), m1)"
    and m1: "rp_lock m1 = snd (testLockCode demo_aes_env ''1234'' demo_forgotten)"
    by (simp add: use_lock_def demo_processor_env_def demo_processor_def case_prod_unfold Let_def)
  have t: "fst (testLockCode demo_aes_env ''1234'' demo_forgotten) = True" by code_simp
  have "map_option fst (initialize_lock demo_aes_env ''5678'' ModifyLockMode (snd (testLockCode demo_aes_env ''1234'' demo_forgotten))) = Some True"
    by code_simp
  then obtain l where l: "initialize_lock (pe_lock demo_processor_env (rp_lockUses m1)) ''5678'' ModifyLockMode (rp_lock m1) = Some (True, l)"
    by (auto simp: m1 demo_processor_env_def)
  have p: "all_locked_under (MasterLock_bkdbLockKey demo_unlocked) (demo_plugins demo_locked_wrapper)"
    by (simp add: all_locked_under_def demo_plugins_def locked_under_def demo_locked_wrapper_def demo_wrapper_def Database_close_def)
  have "map_option km_bytes (ml_memory (rp_lock m1)) = map_option km_bytes (ml_memory demo_forgotten)"
    "ml_bkdbLockKeyLen (rp_lock m1) = 64" unfolding m1 by code_simp+
  then have k: "MasterLock_bkdbLockKey (rp_lock m1) \<noteq> MasterLock_bkdbLockKey demo_unlocked"
    by (auto simp: MasterLock_bkdbLockKey_def demo_forgotten_def demo_unlocked_def numeral_eq_Suc)
  show ?thesis
    using lock_code_change_of_locked_daemon [OF u [unfolded t] l p k, of 0 7 no_parameters SystemInteraction "[]" "finish_unless_pending 7 []"]
    by blast
qed

end
