(* ===== verification/Request_Queue.thy ===== *)
theory Request_Queue
  imports Results "HOL-Library.Word"
begin

section \<open>The request queue\<close>

text \<open>
  \<^verbatim>\<open>Daemon::ApiImpl::RequestQueue\<close> (src/daemon/requestqueue.cpp, requestqueue_p.h): the queue of
  client requests of each of the daemon's two interfaces. A request is given an identifier,
  waits in a map until an event appends it to the queue, is handled when a further event runs over the queue, and
  leaves it when its handler has sent the reply.

  Identifiers are 64-bit words and wrap around. The calls the queue posts to itself through
  the event loop (\<^verbatim>\<open>QMetaObject::invokeMethod\<close> with a queued connection) are a
  list that is delivered from the front. The two virtual handlers, which the derived
  classes implement, are arguments: they read the request, say whether it is completed, and
  change a state of their own. The clock is an argument too: whether more than 100 ms have
  passed after each request handled. The values in a request's parameter lists and the bus message are type parameters;
  logging and the registration of the bus object are left out.
\<close>

subsection \<open>Data\<close>

datatype RequestStatus = RequestPending | RequestInProgress | RequestFinished

record ('v, 'm) RequestData =
  rd_requestId :: "64 word"
  rd_remotePid :: int
  rd_type :: int
  rd_status :: RequestStatus
  rd_inParams :: "'v list"
  rd_outParams :: "'v list"
  rd_message :: "'m option"
  rd_cryptoRequestId :: "64 word"
  rd_isSecretsCryptoRequest :: bool

datatype invocation = FinishEnqueueRequest "64 word" | HandleRequests

record ('v, 'm) RequestQueue =
  rq_requestId :: "64 word"           \<comment> \<open>the static counter of \<open>enqueueRequest\<close>\<close>
  rq_enqueuingRequests :: "(64 word \<times> ('v, 'm) RequestData) list"
  rq_requests :: "('v, 'm) RequestData list"
  rq_invocations :: "invocation list"

subsection \<open>Operations\<close>

definition id_in_use :: "('v, 'm) RequestQueue \<Rightarrow> 64 word \<Rightarrow> bool" where
  "id_in_use q i \<longleftrightarrow> qmap_contains (rq_enqueuingRequests q) i \<or> list_ex (\<lambda>r. rd_requestId r = i) (rq_requests q)"

text \<open>
  The search for a free identifier. It gives up when it comes round to the identifier it
  started from; \<open>found\<close> says whether the last identifier tried was in use.
\<close>

function free_id_loop :: "(64 word \<Rightarrow> bool) \<Rightarrow> 64 word \<Rightarrow> 64 word \<Rightarrow> bool \<Rightarrow> bool \<times> 64 word" where
  "free_id_loop used prevId nextFreeId found =
     (if nextFreeId = prevId then (found, nextFreeId)
      else if used nextFreeId then free_id_loop used prevId (nextFreeId + 1) True
      else (False, nextFreeId))"
  by pat_completeness auto
termination
proof (relation "measure (\<lambda>(used, prevId, nextFreeId, found). unat (prevId - nextFreeId))", goal_cases)
  case (2 used prevId nextFreeId found)
  then have "unat (prevId - nextFreeId - 1) < unat (prevId - nextFreeId)"
    by (intro measure_unat) auto
  then show ?case by (simp add: algebra_simps)
qed simp

declare free_id_loop.simps [simp del]

definition enqueueRequest ::
    "('v, 'm) RequestData \<Rightarrow> ('v, 'm) RequestQueue \<Rightarrow> Result \<times> ('v, 'm) RequestQueue" where
  "enqueueRequest request q =
     (let prevId = rq_requestId q;
          q1 = q\<lparr>rq_requestId := prevId + 1\<rparr>;
          (found, nextFreeId) = free_id_loop (id_in_use q) prevId (prevId + 1) False
      in if found then (failure SecretsDaemonRequestQueueFullError, q1)
         else (success,
               q1\<lparr>rq_enqueuingRequests :=
                      qmap_insert nextFreeId (request\<lparr>rd_requestId := nextFreeId\<rparr>) (rq_enqueuingRequests q),
                   rq_invocations := rq_invocations q @ [FinishEnqueueRequest nextFreeId]\<rparr>))"

definition finishEnqueueRequest :: "64 word \<Rightarrow> ('v, 'm) RequestQueue \<Rightarrow> ('v, 'm) RequestQueue" where
  "finishEnqueueRequest requestId q =
     (case map_of (rq_enqueuingRequests q) requestId of
        None \<Rightarrow> q
      | Some request \<Rightarrow>
          q\<lparr>rq_enqueuingRequests := filter (\<lambda>e. fst e \<noteq> requestId) (rq_enqueuingRequests q),
            rq_requests := rq_requests q @ [request],
            rq_invocations := rq_invocations q @ [HandleRequests]\<rparr>)"

text \<open>The first request with the identifier is marked; an unknown identifier is only logged.\<close>

fun finish_first :: "64 word \<Rightarrow> 'v list \<Rightarrow> ('v, 'm) RequestData list \<Rightarrow> ('v, 'm) RequestData list option" where
  "finish_first requestId outParams [] = None"
| "finish_first requestId outParams (r # rs) =
     (if rd_requestId r = requestId
      then Some (r\<lparr>rd_status := RequestFinished, rd_outParams := outParams\<rparr> # rs)
      else map_option ((#) r) (finish_first requestId outParams rs))"

definition requestFinished ::
    "64 word \<Rightarrow> 'v list \<Rightarrow> ('v, 'm) RequestQueue \<Rightarrow> ('v, 'm) RequestQueue" where
  "requestFinished requestId outParams q =
     (case finish_first requestId outParams (rq_requests q) of
        None \<Rightarrow> q
      | Some rs \<Rightarrow> q\<lparr>rq_requests := rs, rq_invocations := rq_invocations q @ [HandleRequests]\<rparr>)"

type_synonym ('v, 'm, 'h) handler = "('v, 'm) RequestData \<Rightarrow> 'h \<Rightarrow> bool \<times> 'h"

text \<open>
  One request of the run over the queue: what is left of it (nothing, if it was completed) and
  the handlers' state.
\<close>

definition handle_one ::
    "('v, 'm, 'h) handler \<Rightarrow> ('v, 'm, 'h) handler \<Rightarrow> ('v, 'm) RequestData \<Rightarrow> 'h
     \<Rightarrow> ('v, 'm) RequestData list \<times> 'h" where
  "handle_one handlePendingRequest handleFinishedRequest request h =
     (case rd_status request of
        RequestPending \<Rightarrow>
          (let request1 = request\<lparr>rd_status := RequestInProgress\<rparr>;
               (completed, h1) = handlePendingRequest request1 h
           in (if completed then [] else [request1], h1))
      | RequestFinished \<Rightarrow>
          (let (completed, h1) = handleFinishedRequest request h
           in (if completed then [] else [request], h1))
      | RequestInProgress \<Rightarrow> ([request], h))"

text \<open>
  The run: \<open>seen\<close> are the requests before the iterator. The flag of the result says
  whether the run yielded to the event loop.
\<close>

fun handle_loop ::
    "('v, 'm, 'h) handler \<Rightarrow> ('v, 'm, 'h) handler \<Rightarrow> bool list \<Rightarrow> ('v, 'm) RequestData list
     \<Rightarrow> ('v, 'm) RequestData list \<Rightarrow> 'h \<Rightarrow> bool \<times> ('v, 'm) RequestData list \<times> 'h" where
  "handle_loop hp hf elapsed seen [] h = (False, seen, h)"
| "handle_loop hp hf elapsed seen (r # rs) h =
     (let (kept, h1) = handle_one hp hf r h
      in if seen @ kept @ rs \<noteq> [] \<and> elapsed \<noteq> [] \<and> hd elapsed
         then (True, seen @ kept @ rs, h1)
         else handle_loop hp hf (tl elapsed) (seen @ kept) rs h1)"

definition handleRequests ::
    "('v, 'm, 'h) handler \<Rightarrow> ('v, 'm, 'h) handler \<Rightarrow> bool list \<Rightarrow> ('v, 'm) RequestQueue \<times> 'h
     \<Rightarrow> ('v, 'm) RequestQueue \<times> 'h" where
  "handleRequests hp hf elapsed s =
     (let (yielded, rs, h) = handle_loop hp hf elapsed [] (rq_requests (fst s)) (snd s)
      in ((fst s)\<lparr>rq_requests := rs,
           rq_invocations := rq_invocations (fst s) @ (if yielded then [HandleRequests] else [])\<rparr>, h))"

subsection \<open>Requests from clients\<close>

definition new_request :: "int \<Rightarrow> int \<Rightarrow> 'v list \<Rightarrow> ('v, 'm) RequestData" where
  "new_request remotePid requestType inParams =
     \<lparr>rd_requestId = 0, rd_remotePid = remotePid, rd_type = requestType, rd_status = RequestPending,
      rd_inParams = inParams, rd_outParams = [], rd_message = None, rd_cryptoRequestId = 0,
      rd_isSecretsCryptoRequest = False\<rparr>"

text \<open>
  The message is stored in the request once the request is enqueued. The answer to the bus: an error
  reply where the caller's process is unknown, a delayed reply, or the result at once.
\<close>

datatype bus_answer = ErrorReply | DelayedReply | Immediate Result

definition attach_message :: "'m \<Rightarrow> ('v, 'm) RequestQueue \<Rightarrow> ('v, 'm) RequestQueue" where
  "attach_message message q =
     (case rev (rq_invocations q) of
        FinishEnqueueRequest i # _ \<Rightarrow>
          q\<lparr>rq_enqueuingRequests :=
              map (\<lambda>e. if fst e = i then (fst e, (snd e)\<lparr>rd_message := Some message\<rparr>) else e)
                (rq_enqueuingRequests q)\<rparr>
      | _ \<Rightarrow> q)"

definition handleRequest_secrets ::
    "int option \<Rightarrow> int \<Rightarrow> 'v list \<Rightarrow> 'm \<Rightarrow> ('v, 'm) RequestQueue \<Rightarrow> bus_answer \<times> ('v, 'm) RequestQueue" where
  "handleRequest_secrets dbusRemotePid requestType inParams message q =
     (case dbusRemotePid of
        None \<Rightarrow> (ErrorReply, q)
      | Some pid \<Rightarrow>
          (let (result, q1) = enqueueRequest (new_request pid requestType inParams) q
           in if succeeded result then (DelayedReply, attach_message message q1) else (Immediate result, q1)))"

text \<open>The crypto interface gives its clients an error of its own, with the message of the queue's result.\<close>

datatype crypto_answer = CryptoErrorReply | CryptoDelayedReply | CryptoDaemonError qstring

definition handleRequest_crypto ::
    "int option \<Rightarrow> int \<Rightarrow> 'v list \<Rightarrow> 'm \<Rightarrow> ('v, 'm) RequestQueue \<Rightarrow> crypto_answer \<times> ('v, 'm) RequestQueue" where
  "handleRequest_crypto dbusRemotePid requestType inParams message q =
     (case dbusRemotePid of
        None \<Rightarrow> (CryptoErrorReply, q)
      | Some pid \<Rightarrow>
          (let (result, q1) = enqueueRequest (new_request pid requestType inParams) q
           in if succeeded result then (CryptoDelayedReply, attach_message message q1)
              else (CryptoDaemonError (res_errorMessage result), q1)))"

text \<open>A secrets request that is part of a crypto request.\<close>

definition handleRequest_secretsCrypto ::
    "int \<Rightarrow> 64 word \<Rightarrow> int \<Rightarrow> 'v list \<Rightarrow> ('v, 'm) RequestQueue \<Rightarrow> Result \<times> ('v, 'm) RequestQueue" where
  "handleRequest_secretsCrypto callerPid cryptoRequestId requestType inParams q =
     enqueueRequest ((new_request callerPid requestType inParams)
       \<lparr>rd_isSecretsCryptoRequest := True, rd_cryptoRequestId := cryptoRequestId\<rparr>) q"

subsection \<open>Finding a free identifier\<close>

lemma free_id_loop_spec:
  "free_id_loop used prevId i found = (f, j) \<Longrightarrow>
   (f \<longrightarrow> (\<forall>k. unat (k - i) < unat (prevId - i) \<longrightarrow> used k))
   \<and> (\<not> f \<longrightarrow> (j \<noteq> prevId \<and> \<not> used j) \<or> (j = prevId \<and> i = prevId \<and> \<not> found))"
proof (induction used prevId i found rule: free_id_loop.induct)
  case (1 used prevId i found)
  show ?case
  proof (cases "i = prevId")
    case True
    then show ?thesis using "1.prems" by (auto simp: free_id_loop.simps)
  next
    case neq: False
    show ?thesis
    proof (cases "used i")
      case False
      then show ?thesis using "1.prems" neq by (auto simp: free_id_loop.simps)
    next
      case True
      then have l: "free_id_loop used prevId (i + 1) True = (f, j)"
        using "1.prems" neq by (simp add: free_id_loop.simps [of used prevId i])
      note ih = "1.IH" [OF neq True l]
      have "used k" if f and k: "unat (k - i) < unat (prevId - i)" for k
      proof (cases "k = i")
        case False
        have "unat (k - (i + 1)) = unat (k - i) - 1" "unat (prevId - (i + 1)) = unat (prevId - i) - 1"
          using unat_minus_one [of "k - i"] unat_minus_one [of "prevId - i"] False neq
          by (simp_all add: diff_diff_eq)
        moreover have "unat (k - i) \<noteq> 0" using False by (simp add: unat_eq_0)
        ultimately have "unat (k - (i + 1)) < unat (prevId - (i + 1))" using k by simp
        with ih that(1) show ?thesis by blast
      qed (use True in simp)
      with ih show ?thesis by blast
    qed
  qed
qed

lemma free_id_found:
  assumes "free_id_loop used prevId (prevId + 1) False = (f, j)"
  shows "if f then (\<forall>k. k \<noteq> prevId \<longrightarrow> used k) else j \<noteq> prevId \<and> \<not> used j"
proof (cases f)
  case True
  have "used k" if "k \<noteq> prevId" for k
  proof -
    have m: "prevId - (prevId + 1) = (- 1 :: 64 word)" by simp
    have "k - (prevId + 1) \<noteq> - 1"
    proof
      assume "k - (prevId + 1) = - 1"
      then have "k = - 1 + (prevId + 1)" by (simp only: diff_eq_eq)
      with that show False by simp
    qed
    then have "unat (k - (prevId + 1)) \<noteq> unat (- 1 :: 64 word)" by (simp only: word_unat_eq_iff not_False_eq_True)
    moreover have "unat (k - (prevId + 1)) \<le> unat (- 1 :: 64 word)"
      by (metis word_le_nat_alt word_order.extremum)
    ultimately have "unat (k - (prevId + 1)) < unat (prevId - (prevId + 1))" unfolding m by simp
    with free_id_loop_spec [OF assms] True show ?thesis by blast
  qed
  with True show ?thesis by simp
next
  case False
  with free_id_loop_spec [OF assms] show ?thesis by auto
qed

lemma id_in_use_iff:
  "id_in_use q i \<longleftrightarrow> i \<in> fst ` set (rq_enqueuingRequests q) \<union> rd_requestId ` set (rq_requests q)"
  by (auto simp: id_in_use_def qmap_contains_def list_ex_iff map_of_eq_None_iff)

lemma enqueueRequest_cases:
  assumes "enqueueRequest request q = (r, q')"
  shows "if succeeded r
         then \<exists>i. \<not> id_in_use q i \<and> i \<noteq> rq_requestId q
           \<and> q' = q\<lparr>rq_requestId := rq_requestId q + 1,
                   rq_enqueuingRequests := qmap_insert i (request\<lparr>rd_requestId := i\<rparr>) (rq_enqueuingRequests q),
                   rq_invocations := rq_invocations q @ [FinishEnqueueRequest i]\<rparr>
         else r = failure SecretsDaemonRequestQueueFullError
           \<and> q' = q\<lparr>rq_requestId := rq_requestId q + 1\<rparr> \<and> (\<forall>i. i \<noteq> rq_requestId q \<longrightarrow> id_in_use q i)"
proof -
  obtain f j where l: "free_id_loop (id_in_use q) (rq_requestId q) (rq_requestId q + 1) False = (f, j)"
    by (cases "free_id_loop (id_in_use q) (rq_requestId q) (rq_requestId q + 1) False")
  from free_id_found [OF l] l assms show ?thesis
    by (cases f) (auto simp: enqueueRequest_def)
qed

text \<open>
  C23. A request is refused only when the identifiers have run out. \<open>enqueueRequest\<close>
  always returns; it gives the request an identifier that no waiting or queued request has, and it reports
  \<open>SecretsDaemonRequestQueueFullError\<close>, leaving the requests alone, exactly when
  every identifier but the counter's own is in use.
\<close>

theorem enqueue_refused_iff_full:
  "case enqueueRequest request q of (r, q') \<Rightarrow>
     (succeeded r \<longleftrightarrow> (\<exists>i. i \<noteq> rq_requestId q \<and> \<not> id_in_use q i))
     \<and> (if succeeded r
        then \<exists>i. \<not> id_in_use q i \<and> map_of (rq_enqueuingRequests q') i = Some (request\<lparr>rd_requestId := i\<rparr>)
               \<and> (\<forall>j. j \<noteq> i \<longrightarrow> map_of (rq_enqueuingRequests q') j = map_of (rq_enqueuingRequests q) j)
               \<and> FinishEnqueueRequest i \<in> set (rq_invocations q')
        else r = failure SecretsDaemonRequestQueueFullError
             \<and> rq_enqueuingRequests q' = rq_enqueuingRequests q)
     \<and> rq_requests q' = rq_requests q"
proof -
  obtain r q' where e: "enqueueRequest request q = (r, q')" by fastforce
  from enqueueRequest_cases [OF e] show ?thesis unfolding e by (auto split: if_splits)
qed

theorem enqueue_refused_iff_full_witness:
  "\<exists>r (q' :: (int, string) RequestQueue). enqueueRequest (new_request 7 1 []) \<lparr>rq_requestId = 0, rq_enqueuingRequests = [],
       rq_requests = [(new_request 7 1 [])\<lparr>rd_requestId := 1\<rparr>], rq_invocations = []\<rparr> = (r, q')
     \<and> succeeded r \<and> rq_requests q' = [(new_request 7 1 [])\<lparr>rd_requestId := 1\<rparr>]"
proof -
  let ?q = "\<lparr>rq_requestId = 0, rq_enqueuingRequests = [],
       rq_requests = [(new_request 7 1 [])\<lparr>rd_requestId := 1\<rparr>], rq_invocations = []\<rparr> :: (int, string) RequestQueue"
  obtain r q' where e: "enqueueRequest (new_request 7 1 []) ?q = (r, q')" by fastforce
  have "(2 :: 64 word) \<noteq> rq_requestId ?q \<and> \<not> id_in_use ?q 2"
    by (simp add: id_in_use_def qmap_contains_def)
  then have "\<exists>i. i \<noteq> rq_requestId ?q \<and> \<not> id_in_use ?q i" by blast
  with enqueue_refused_iff_full [where request = "new_request 7 1 []" and q = ?q, unfolded e prod.case]
  have "succeeded r" "rq_requests q' = rq_requests ?q" by blast+
  with e show ?thesis by auto
qed

subsection \<open>The event loop\<close>

text \<open>
  The steps of the queue: a client's request is enqueued, a handler elsewhere finishes a
  request, the event loop delivers the first call posted to the queue, or the daemon's other
  queue moves the counter of \<open>enqueueRequest\<close>, a static variable the two queues share.
\<close>

inductive queue_step ::
    "('v, 'm, 'h) handler \<Rightarrow> ('v, 'm, 'h) handler \<Rightarrow> ('v, 'm) RequestQueue \<times> 'h \<Rightarrow> ('v, 'm) RequestQueue \<times> 'h \<Rightarrow> bool"
    for hp hf where
  enqueue: "rd_status request = RequestPending \<Longrightarrow> enqueueRequest request q = (r, q')
     \<Longrightarrow> queue_step hp hf (q, h) (q', h)"
| finished: "queue_step hp hf (q, h) (requestFinished i outParams q, h)"
| deliver_enqueue: "rq_invocations q = FinishEnqueueRequest i # is
     \<Longrightarrow> queue_step hp hf (q, h) (finishEnqueueRequest i (q\<lparr>rq_invocations := is\<rparr>), h)"
| deliver_handle: "rq_invocations q = HandleRequests # is
     \<Longrightarrow> queue_step hp hf (q, h) (handleRequests hp hf elapsed (q\<lparr>rq_invocations := is\<rparr>, h))"
| other_queue: "queue_step hp hf (q, h) (q\<lparr>rq_requestId := j\<rparr>, h)"

inductive_cases queue_stepE: "queue_step hp hf s s'"

text \<open>The queue at the start, with any value of the shared counter.\<close>

definition empty_queue :: "64 word \<Rightarrow> ('v, 'm) RequestQueue" where
  "empty_queue i = \<lparr>rq_requestId = i, rq_enqueuingRequests = [], rq_requests = [], rq_invocations = []\<rparr>"

inductive queue_reachable ::
    "('v, 'm, 'h) handler \<Rightarrow> ('v, 'm, 'h) handler \<Rightarrow> ('v, 'm) RequestQueue \<times> 'h \<Rightarrow> bool" for hp hf where
  start: "queue_reachable hp hf (empty_queue i, h)"
| step: "queue_reachable hp hf s \<Longrightarrow> queue_step hp hf s s' \<Longrightarrow> queue_reachable hp hf s'"

definition queue_ids :: "('v, 'm) RequestQueue \<Rightarrow> 64 word list" where
  "queue_ids q = map fst (rq_enqueuingRequests q) @ map rd_requestId (rq_requests q)"

definition finish_ids :: "('v, 'm) RequestQueue \<Rightarrow> 64 word list" where
  "finish_ids q = concat (map (\<lambda>i. case i of FinishEnqueueRequest j \<Rightarrow> [j] | HandleRequests \<Rightarrow> []) (rq_invocations q))"

text \<open>The invariant.\<close>

definition queue_inv :: "('v, 'm) RequestQueue \<Rightarrow> bool" where
  "queue_inv q \<longleftrightarrow>
     qmap_ok (rq_enqueuingRequests q)
     \<and> distinct (queue_ids q)
     \<and> (\<forall>e \<in> set (rq_enqueuingRequests q). rd_requestId (snd e) = fst e \<and> rd_status (snd e) = RequestPending)
     \<and> distinct (finish_ids q) \<and> set (finish_ids q) = fst ` set (rq_enqueuingRequests q)"

lemma finish_ids_append [simp]:
  "finish_ids (q\<lparr>rq_invocations := is @ [FinishEnqueueRequest i]\<rparr>) = finish_ids (q\<lparr>rq_invocations := is\<rparr>) @ [i]"
  "finish_ids (q\<lparr>rq_invocations := is @ [HandleRequests]\<rparr>) = finish_ids (q\<lparr>rq_invocations := is\<rparr>)"
  "finish_ids (q\<lparr>rq_invocations := FinishEnqueueRequest i # is\<rparr>) = i # finish_ids (q\<lparr>rq_invocations := is\<rparr>)"
  "finish_ids (q\<lparr>rq_invocations := HandleRequests # is\<rparr>) = finish_ids (q\<lparr>rq_invocations := is\<rparr>)"
  "finish_ids (q\<lparr>rq_requests := rs\<rparr>) = finish_ids q"
  "finish_ids (q\<lparr>rq_requestId := c\<rparr>) = finish_ids q"
  "finish_ids (q\<lparr>rq_enqueuingRequests := m\<rparr>) = finish_ids q"
  by (simp_all add: finish_ids_def)

lemma qmap_insert_set:
  "k \<notin> fst ` set m \<Longrightarrow> set (qmap_insert k v m) = insert (k, v) (set m)"
  by (induction k v m rule: qmap_insert.induct) auto

lemma inv_enqueue:
  assumes "queue_inv q" and "rd_status request = RequestPending" and "enqueueRequest request q = (r, q')"
  shows "queue_inv q'"
proof (cases "succeeded r")
  case False
  with enqueueRequest_cases [OF assms(3)] assms(1) show ?thesis
    by (auto simp: queue_inv_def queue_ids_def)
next
  case True
  with enqueueRequest_cases [OF assms(3)] obtain i where
    i: "\<not> id_in_use q i" and q': "q' = q\<lparr>rq_requestId := rq_requestId q + 1,
       rq_enqueuingRequests := qmap_insert i (request\<lparr>rd_requestId := i\<rparr>) (rq_enqueuingRequests q),
       rq_invocations := rq_invocations q @ [FinishEnqueueRequest i]\<rparr>" by auto
  have n: "i \<notin> fst ` set (rq_enqueuingRequests q)" "i \<notin> rd_requestId ` set (rq_requests q)"
    using i by (simp_all add: id_in_use_iff)
  have f: "finish_ids q' = finish_ids q @ [i]" by (simp add: q' finish_ids_def)
  have ok: "qmap_ok (rq_enqueuingRequests q')" using assms(1) by (simp add: q' queue_inv_def)
  have "distinct (queue_ids q')"
    using assms(1) n qmap_ok_distinct [OF ok]
    by (auto simp: queue_inv_def queue_ids_def q')
  with ok assms(1,2) n f show ?thesis
    unfolding queue_inv_def by (auto simp: q' qmap_insert_set [OF n(1)])
qed

lemma finish_first_ids:
  "finish_first i out rs = Some rs' \<Longrightarrow> map rd_requestId rs' = map rd_requestId rs"
  by (induction rs arbitrary: rs') (auto split: if_splits)

lemma inv_requestFinished:
  assumes "queue_inv q"
  shows "queue_inv (requestFinished i out q)"
proof (cases "finish_first i out (rq_requests q)")
  case None
  with assms show ?thesis by (simp add: requestFinished_def)
next
  case (Some rs)
  have "finish_ids (requestFinished i out q) = finish_ids q"
    by (simp add: requestFinished_def Some finish_ids_def)
  moreover have "queue_ids (requestFinished i out q) = queue_ids q"
    using finish_first_ids [OF Some] by (simp add: requestFinished_def Some queue_ids_def)
  moreover have "rq_enqueuingRequests (requestFinished i out q) = rq_enqueuingRequests q"
    by (simp add: requestFinished_def Some)
  ultimately show ?thesis using assms by (simp add: queue_inv_def)
qed

lemma distinct_map_filter_fst: "distinct (map fst m) \<Longrightarrow> distinct (map fst (filter P m))"
  by (rule distinct_map_filter)

lemma inv_finishEnqueue:
  assumes "queue_inv q" and "rq_invocations q = FinishEnqueueRequest i # is"
  shows "queue_inv (finishEnqueueRequest i (q\<lparr>rq_invocations := is\<rparr>))"
    and "\<exists>request. map_of (rq_enqueuingRequests q) i = Some request"
proof -
  let ?m = "rq_enqueuingRequests q"
  have f: "finish_ids q = i # finish_ids (q\<lparr>rq_invocations := is\<rparr>)"
    using assms(2) by (simp add: finish_ids_def)
  have "i \<in> fst ` set ?m" using assms(1) f by (auto simp: queue_inv_def)
  then obtain request where r: "map_of ?m i = Some request"
    by (cases "map_of ?m i") (auto simp: map_of_eq_None_iff)
  then show "\<exists>request. map_of ?m i = Some request" ..
  have rs: "rd_requestId request = i" "(i, request) \<in> set ?m"
    using assms(1) map_of_SomeD [OF r] by (auto simp: queue_inv_def)
  define q' where "q' = finishEnqueueRequest i (q\<lparr>rq_invocations := is\<rparr>)"
  have q': "rq_enqueuingRequests q' = filter (\<lambda>e. fst e \<noteq> i) ?m" "rq_requests q' = rq_requests q @ [request]"
    "finish_ids q' = finish_ids (q\<lparr>rq_invocations := is\<rparr>)"
    by (simp_all add: q'_def finishEnqueueRequest_def r finish_ids_def)
  have ok: "qmap_ok (filter (\<lambda>e. fst e \<noteq> i) ?m)"
    using assms(1) by (simp add: queue_inv_def qmap_ok_def sorted_wrt_map sorted_wrt_filter)
  have d: "distinct (queue_ids q)" and f2: "distinct (finish_ids q)" "set (finish_ids q) = fst ` set ?m"
    using assms(1) by (simp_all add: queue_inv_def)
  have "i \<notin> rd_requestId ` set (rq_requests q)" using d rs(2) by (force simp: queue_ids_def)
  then have "distinct (queue_ids q')"
    using d qmap_ok_distinct [OF ok] rs(1) by (auto simp: queue_ids_def q')
  moreover have "distinct (finish_ids q')" using f2(1) f q'(3) by simp
  moreover have "set (finish_ids q') = fst ` set (rq_enqueuingRequests q')"
  proof -
    have "set (finish_ids q') = set (finish_ids q) - {i}" using f2(1) f q'(3) by auto
    also have "\<dots> = fst ` set (rq_enqueuingRequests q')" unfolding f2(2) q'(1) by auto
    finally show ?thesis .
  qed
  ultimately have "queue_inv q'" using ok assms(1) by (auto simp: queue_inv_def q'(1))
  then show "queue_inv (finishEnqueueRequest i (q\<lparr>rq_invocations := is\<rparr>))" by (simp add: q'_def)
qed

lemma handle_one_ids:
  "handle_one hp hf r h = (kept, h1) \<Longrightarrow> kept = [] \<or> (\<exists>r'. kept = [r'] \<and> rd_requestId r' = rd_requestId r)"
  by (auto simp: handle_one_def Let_def split: RequestStatus.splits prod.splits if_splits)

lemma handle_loop_ids:
  assumes "handle_loop hp hf el seen rs h = (y, rs', h')" and "distinct (ids @ map rd_requestId (seen @ rs))"
  shows "distinct (ids @ map rd_requestId rs')"
  using assms
proof (induction rs arbitrary: el seen h)
  case (Cons r rs)
  obtain kept h1 where k: "handle_one hp hf r h = (kept, h1)" by (cases "handle_one hp hf r h")
  have d: "distinct (ids @ map rd_requestId ((seen @ kept) @ rs))"
    using handle_one_ids [OF k] Cons.prems(2) by (auto simp: image_iff)
  show ?case
  proof (cases "seen @ kept @ rs \<noteq> [] \<and> el \<noteq> [] \<and> hd el")
    case True
    with Cons.prems(1) k have "rs' = seen @ kept @ rs" by auto
    with d show ?thesis by (simp only: append_assoc)
  next
    case False
    with Cons.prems(1) k have "handle_loop hp hf (tl el) (seen @ kept) rs h1 = (y, rs', h')" by auto
    from Cons.IH [OF this d] show ?thesis .
  qed
qed simp

lemma inv_handleRequests:
  assumes "queue_inv q"
  shows "queue_inv (fst (handleRequests hp hf el (q, h)))"
proof -
  obtain y rs h' where l: "handle_loop hp hf el [] (rq_requests q) h = (y, rs, h')" by (metis prod_cases3)
  have "distinct (queue_ids (q\<lparr>rq_requests := rs\<rparr>))"
    using handle_loop_ids [OF l, of "map fst (rq_enqueuingRequests q)"] assms
    by (simp add: queue_inv_def queue_ids_def)
  with assms l show ?thesis
    by (cases y) (simp_all add: handleRequests_def queue_inv_def queue_ids_def finish_ids_def)
qed

lemma reachable_inv:
  assumes "queue_reachable hp hf s"
  shows "queue_inv (fst s)"
  using assms
proof (induction rule: queue_reachable.induct)
  case (start i h)
  show ?case by (simp add: queue_inv_def empty_queue_def queue_ids_def finish_ids_def)
next
  case (step s s')
  from step(2) step(3) show ?case
  proof (cases rule: queue_step.cases)
    case (deliver_enqueue q i "is" h)
    with step(3) inv_finishEnqueue(1) show ?thesis by simp
  next
    case (deliver_handle q "is" h elapsed)
    have "queue_inv (q\<lparr>rq_invocations := is\<rparr>)"
      using step(3) deliver_handle by (simp add: queue_inv_def queue_ids_def finish_ids_def)
    with deliver_handle inv_handleRequests show ?thesis by metis
  next
    case (other_queue q h j)
    with step(3) show ?thesis by (simp add: queue_inv_def queue_ids_def finish_ids_def)
  qed (auto intro: inv_enqueue inv_requestFinished)
qed

text \<open>
  C24. Identifiers are unique and no request is lost on its way into the queue. In every reachable
  state, whatever the handlers do and the clock says, no two requests that wait or
  are queued have the same identifier, and a posted \<open>finishEnqueueRequest\<close> always finds its request.
\<close>

theorem request_ids_unique:
  assumes "queue_reachable hp hf s"
  shows "distinct (queue_ids (fst s))
     \<and> (FinishEnqueueRequest i \<in> set (rq_invocations (fst s)) \<longrightarrow> qmap_contains (rq_enqueuingRequests (fst s)) i)"
proof -
  have inv: "queue_inv (fst s)" by (rule reachable_inv [OF assms])
  have "i \<in> set (finish_ids (fst s))" if "FinishEnqueueRequest i \<in> set (rq_invocations (fst s))"
    using that by (auto simp: finish_ids_def intro!: bexI [of _ "FinishEnqueueRequest i"])
  with inv show ?thesis
    by (auto simp: queue_inv_def qmap_contains_def map_of_eq_None_iff)
qed

text \<open>Handlers to exhibit the theorems: pending requests are answered later, finished ones are completed.\<close>

definition demo_pending :: "(int, string, nat) handler" where
  "demo_pending request h = (False, h + 1)"

definition demo_finished :: "(int, string, nat) handler" where
  "demo_finished request h = (True, h)"

definition demo_queue :: "(int, string) RequestQueue" where
  "demo_queue = snd (enqueueRequest (new_request 7 1 [5]) (empty_queue 0))"

lemma demo_queue_reachable: "queue_reachable demo_pending demo_finished (demo_queue, 0)"
proof -
  have p: "rd_status (new_request 7 1 [5]) = RequestPending" by (simp add: new_request_def)
  have "queue_step demo_pending demo_finished (empty_queue 0, 0) (demo_queue, 0)"
    unfolding demo_queue_def by (rule queue_step.enqueue [OF p prod.collapse [symmetric]])
  with queue_reachable.start show ?thesis by (rule queue_reachable.step)
qed

lemma demo_queue_eq:
  "demo_queue = \<lparr>rq_requestId = 1, rq_enqueuingRequests = [(1, (new_request 7 1 [5])\<lparr>rd_requestId := 1\<rparr>)],
     rq_requests = [], rq_invocations = [FinishEnqueueRequest 1]\<rparr>"
  by (simp add: demo_queue_def enqueueRequest_def empty_queue_def free_id_loop.simps id_in_use_def qmap_contains_def)

theorem request_ids_unique_witness:
  "queue_reachable demo_pending demo_finished (demo_queue, 0) \<and> distinct (queue_ids demo_queue)
   \<and> qmap_contains (rq_enqueuingRequests demo_queue) 1"
  using request_ids_unique [OF demo_queue_reachable, of 1] demo_queue_reachable
  by (simp add: demo_queue_eq)

subsection \<open>Requests that are handled\<close>

text \<open>
  The handlers of finished requests of the two derived classes. Both are a switch over the request's type that sends the reply and sets
  \<^verbatim>\<open>completed\<close>, for a result of every kind; only the case for health information, which \<^verbatim>\<open>handlePendingRequest\<close> has answered
  already, and the default case do not complete the request. \<open>reply\<close> is what sending does.
\<close>

definition finished_handler :: "(int \<Rightarrow> bool) \<Rightarrow> (('v, 'm) RequestData \<Rightarrow> 'h \<Rightarrow> 'h) \<Rightarrow> ('v, 'm, 'h) handler" where
  "finished_handler completes reply request h = (completes (rd_type request), reply request h)"

definition secrets_completes :: "int \<Rightarrow> bool" where
  "secrets_completes requestType \<longleftrightarrow> requestType \<in> {1} \<union> {3..20} \<union> {24..27}"

definition crypto_completes :: "int \<Rightarrow> bool" where
  "crypto_completes requestType \<longleftrightarrow> requestType \<in> {1..24}"

definition secrets_sendReply :: "(('v, 'm) RequestData \<Rightarrow> 'h \<Rightarrow> 'h) \<Rightarrow> ('v, 'm, 'h) handler" where
  "secrets_sendReply reply = finished_handler secrets_completes reply"

definition crypto_sendReply :: "(('v, 'm) RequestData \<Rightarrow> 'h \<Rightarrow> 'h) \<Rightarrow> ('v, 'm, 'h) handler" where
  "crypto_sendReply reply = finished_handler crypto_completes reply"

text \<open>Whether a queued request waits for a run over the queue: it is new, or its result is still to be sent.\<close>

definition needs_handling :: "(int \<Rightarrow> bool) \<Rightarrow> ('v, 'm) RequestData \<Rightarrow> bool" where
  "needs_handling completes r \<longleftrightarrow>
     rd_status r = RequestPending \<or> rd_status r = RequestFinished \<and> completes (rd_type r)"

lemma handle_one_progress:
  assumes "handle_one hp (finished_handler completes reply) r h = (kept, h1)"
  shows "\<not> list_ex (needs_handling completes) kept"
  using assms
  by (auto simp: handle_one_def finished_handler_def needs_handling_def Let_def split: RequestStatus.splits prod.splits if_splits)

lemma handle_loop_progress:
  assumes "handle_loop hp (finished_handler completes reply) el seen rs h = (False, rs', h')"
    and "\<not> list_ex (needs_handling completes) seen"
  shows "\<not> list_ex (needs_handling completes) rs'"
  using assms
proof (induction rs arbitrary: el seen h)
  case (Cons r rs)
  obtain kept h1 where k: "handle_one hp (finished_handler completes reply) r h = (kept, h1)"
    by (cases "handle_one hp (finished_handler completes reply) r h")
  with Cons.prems(1) have "handle_loop hp (finished_handler completes reply) (tl el) (seen @ kept) rs h1 = (False, rs', h')"
    by (auto split: if_splits)
  from Cons.IH [OF this] handle_one_progress [OF k] Cons.prems(2) show ?case by auto
qed simp

lemma handleRequests_progress:
  assumes "list_ex (needs_handling completes) (rq_requests (fst (handleRequests hp (finished_handler completes reply) el (q, h))))"
  shows "HandleRequests \<in> set (rq_invocations (fst (handleRequests hp (finished_handler completes reply) el (q, h))))"
proof -
  obtain y rs h' where l: "handle_loop hp (finished_handler completes reply) el [] (rq_requests q) h = (y, rs, h')"
    by (metis prod_cases3)
  have "y" using assms l handle_loop_progress [of hp completes reply el "[]" "rq_requests q" h rs h']
    by (auto simp: handleRequests_def)
  with l show ?thesis by (simp add: handleRequests_def)
qed

lemma handling_is_posted:
  assumes "queue_reachable hp (finished_handler completes reply) s"
  shows "list_ex (needs_handling completes) (rq_requests (fst s)) \<longrightarrow> HandleRequests \<in> set (rq_invocations (fst s))"
  using assms
proof (induction rule: queue_reachable.induct)
  case (start i h)
  show ?case by (simp add: empty_queue_def)
next
  case (step s s')
  from step(2) show ?case
  proof (cases rule: queue_step.cases)
    case (enqueue request q r q' h)
    with step(3) enqueueRequest_cases [OF enqueue(4)] show ?thesis by (auto split: if_splits)
  next
    case (finished q h j out)
    with step(3) show ?thesis by (auto simp: requestFinished_def split: option.splits)
  next
    case (deliver_enqueue q j "is" h)
    with step(3) show ?thesis by (auto simp: finishEnqueueRequest_def split: option.splits)
  next
    case (deliver_handle q "is" h el)
    with handleRequests_progress [of completes hp reply el "q\<lparr>rq_invocations := is\<rparr>" h] show ?thesis by simp
  next
    case (other_queue q h j)
    with step(3) show ?thesis by simp
  qed
qed

text \<open>
  C25. No request is forgotten, in the queue of the secrets daemon or in that of the cryptography daemon. In every reachable
  state, for every handler of new requests and whatever sending a reply does: while a queued request is new, or is
  finished and of a type the handler of finished requests completes, a run over the queue has been posted; and a request that waits to
  enter the queue has its call posted. The types left out are health information, which is answered when it is handled, and types
  no call of a client has.
\<close>

theorem no_request_forgotten:
  assumes "queue_reachable hp hf s" and "hf = secrets_sendReply reply \<or> hf = crypto_sendReply reply"
  shows "(\<forall>r \<in> set (rq_requests (fst s)).
            rd_status r = RequestPending \<or> rd_status r = RequestFinished \<and> fst (hf r h)
            \<longrightarrow> HandleRequests \<in> set (rq_invocations (fst s)))
     \<and> (qmap_contains (rq_enqueuingRequests (fst s)) i \<longrightarrow>
          FinishEnqueueRequest i \<in> set (rq_invocations (fst s)))"
proof -
  obtain completes where hf: "hf = finished_handler completes reply"
    using assms(2) by (auto simp: secrets_sendReply_def crypto_sendReply_def)
  have "FinishEnqueueRequest i \<in> set (rq_invocations (fst s))"
    if "qmap_contains (rq_enqueuingRequests (fst s)) i"
  proof -
    have "set (finish_ids (fst s)) = fst ` set (rq_enqueuingRequests (fst s))"
      using reachable_inv [OF assms(1)] by (simp add: queue_inv_def)
    with that have "i \<in> set (finish_ids (fst s))" by (simp add: qmap_contains_def map_of_eq_None_iff)
    then show ?thesis by (auto simp: finish_ids_def split: invocation.splits)
  qed
  with handling_is_posted [OF assms(1) [unfolded hf]] show ?thesis
    by (auto simp: list_ex_iff needs_handling_def hf finished_handler_def)
qed

text \<open>The secrets daemon's queue in which a request (of type 4, the names of the collections) has been enqueued, has entered the queue and is finished.\<close>

abbreviation demo_sender :: "(int, string, nat) handler" where
  "demo_sender \<equiv> secrets_sendReply (\<lambda>r h. h + 1)"

definition demo_served :: "(int, string) RequestQueue" where
  "demo_served = requestFinished 1 [9] (finishEnqueueRequest 1
     ((snd (enqueueRequest (new_request 7 4 [5]) (empty_queue 0)))\<lparr>rq_invocations := []\<rparr>))"

lemma demo_served_eq:
  "demo_served = \<lparr>rq_requestId = 1, rq_enqueuingRequests = [],
     rq_requests = [(new_request 7 4 [5])\<lparr>rd_requestId := 1, rd_status := RequestFinished, rd_outParams := [9]\<rparr>],
     rq_invocations = [HandleRequests, HandleRequests]\<rparr>"
  by (simp add: demo_served_def enqueueRequest_def empty_queue_def free_id_loop.simps id_in_use_def qmap_contains_def
      finishEnqueueRequest_def requestFinished_def)

lemma demo_served_reachable: "queue_reachable demo_pending demo_sender (demo_served, 0)"
proof -
  let ?q = "snd (enqueueRequest (new_request 7 4 [5]) (empty_queue 0 :: (int, string) RequestQueue))"
  have p: "rd_status (new_request 7 4 [5]) = RequestPending" by (simp add: new_request_def)
  have i: "rq_invocations ?q = [FinishEnqueueRequest 1]"
    by (simp add: enqueueRequest_def empty_queue_def free_id_loop.simps id_in_use_def qmap_contains_def)
  have "queue_step demo_pending demo_sender (empty_queue 0, 0) (?q, 0)"
    by (rule queue_step.enqueue [OF p prod.collapse [symmetric]])
  with queue_reachable.start have "queue_reachable demo_pending demo_sender (?q, 0)" by (rule queue_reachable.step)
  from queue_reachable.step [OF queue_reachable.step [OF this queue_step.deliver_enqueue [OF i]] queue_step.finished]
  show ?thesis unfolding demo_served_def .
qed

theorem no_request_forgotten_witness:
  "\<exists>r \<in> set (rq_requests demo_served). rd_status r = RequestFinished \<and> rd_type r = 4
     \<and> HandleRequests \<in> set (rq_invocations demo_served)"
proof -
  let ?r = "(new_request 7 4 [5])\<lparr>rd_requestId := 1, rd_status := RequestFinished, rd_outParams := [9]\<rparr>"
  have "?r \<in> set (rq_requests demo_served)" by (simp add: demo_served_eq)
  moreover have "rd_status ?r = RequestFinished" "rd_type ?r = 4" by (simp_all add: new_request_def)
  moreover have "fst (demo_sender ?r 0)"
    by (simp add: secrets_sendReply_def finished_handler_def secrets_completes_def new_request_def)
  ultimately show ?thesis
    using no_request_forgotten [OF demo_served_reachable disjI1 [OF refl], of 0 1] by (metis fst_conv)
qed

lemma finish_first_map:
  "distinct (map rd_requestId rs) \<Longrightarrow> i \<in> rd_requestId ` set rs \<Longrightarrow>
   finish_first i out rs = Some (map (\<lambda>r. if rd_requestId r = i
      then r\<lparr>rd_status := RequestFinished, rd_outParams := out\<rparr> else r) rs)"
proof (induction rs)
  case (Cons r rs)
  have "map (\<lambda>r. if rd_requestId r = i then r\<lparr>rd_status := RequestFinished, rd_outParams := out\<rparr> else r) rs = rs"
    if "rd_requestId r = i"
    using Cons.prems(1) that by (intro map_idI) (auto simp: image_iff)
  with Cons show ?case by auto
qed simp

lemma finish_first_unknown: "i \<notin> rd_requestId ` set rs \<Longrightarrow> finish_first i out rs = None"
  by (induction rs) auto

text \<open>
  Results reach their request. In every reachable state \<open>requestFinished\<close> marks the one
  request with the identifier as finished, stores its results and posts a run over the queue; with an
  identifier no queued request has, it changes nothing.
\<close>

theorem result_reaches_its_request:
  assumes "queue_reachable hp hf s"
  shows "if i \<in> rd_requestId ` set (rq_requests (fst s))
         then requestFinished i out (fst s) = (fst s)
           \<lparr>rq_requests := map (\<lambda>r. if rd_requestId r = i
               then r\<lparr>rd_status := RequestFinished, rd_outParams := out\<rparr> else r) (rq_requests (fst s)),
            rq_invocations := rq_invocations (fst s) @ [HandleRequests]\<rparr>
         else requestFinished i out (fst s) = fst s"
proof -
  have "distinct (map rd_requestId (rq_requests (fst s)))"
    using reachable_inv [OF assms] by (simp add: queue_inv_def queue_ids_def)
  then show ?thesis
    using finish_first_map [of "rq_requests (fst s)" i out] finish_first_unknown [of i "rq_requests (fst s)" out]
    by (simp add: requestFinished_def)
qed

theorem result_reaches_its_request_witness:
  "let q = finishEnqueueRequest 1 (demo_queue\<lparr>rq_invocations := []\<rparr>)
   in queue_reachable demo_pending demo_finished (q, 0)
      \<and> map rd_outParams (rq_requests (requestFinished 1 [9] q)) = [[9]]
      \<and> map rd_status (rq_requests (requestFinished 1 [9] q)) = [RequestFinished]"
proof -
  let ?q = "finishEnqueueRequest 1 (demo_queue\<lparr>rq_invocations := []\<rparr>)"
  have "queue_step demo_pending demo_finished (demo_queue, 0) (?q, 0)"
    by (rule queue_step.deliver_enqueue) (simp add: demo_queue_eq)
  with demo_queue_reachable have r: "queue_reachable demo_pending demo_finished (?q, 0)"
    by (rule queue_reachable.step)
  have e: "rq_requests ?q = [(new_request 7 1 [5])\<lparr>rd_requestId := 1\<rparr>]"
    by (simp add: demo_queue_eq finishEnqueueRequest_def)
  show ?thesis using result_reaches_its_request [OF r, of 1 "[9]"] r e by (simp add: Let_def)
qed

end
