(* ===== verification/Crypto_Bridge.thy ===== *)
theory Crypto_Bridge
  imports Secrets_Queue Request_Queue
begin

section \<open>The bridge from the cryptography daemon\<close>

text \<open>
  The methods of \<^verbatim>\<open>SecretsRequestQueue\<close> that serve the cryptography daemon (src/daemon/SecretsImpl/secretscryptohelpers.cpp). Each puts
  a secrets request into the secrets queue under the identifier of the crypto request, and remembers which helper it was; when the secrets daemon has
  the answer, \<^verbatim>\<open>asynchronousCryptoRequestCompleted\<close> emits the signal of that helper.

  The only input parameter of a queued request is the typed \<open>SecretsRequest\<close>. The identifier of a key has the fields of the identifier of a secret.
\<close>

subsection \<open>State\<close>

datatype CryptoApiHelperRequestType =
    StoredKeyCryptoApiHelperRequest
  | StoredKeyIdentifiersCryptoApiHelperRequest
  | DeleteStoredKeyCryptoApiHelperRequest
  | UseKeyPreCheckCryptoApiHelperRequest
  | StoreKeyPreCheckCryptoApiHelperRequest
  | StoreKeyCryptoApiHelperRequest
  | UserInputCryptoApiHelperRequest
  | QueryLockStatusCryptoApiHelperRequest
  | ModifyLockCodeCryptoApiHelperRequest
  | ProvideLockCodeCryptoApiHelperRequest
  | ForgetLockCodeCryptoApiHelperRequest

record SecretsBridge =
  sb_queue :: "(SecretsRequest, unit) RequestQueue"
  sb_cryptoApiHelperRequests :: "(request_id \<times> CryptoApiHelperRequestType) list"

primrec request_type :: "SecretsRequest \<Rightarrow> int" where
  "request_type GetHealthInfo = 2"
| "request_type (UserInput ui) = 3"
| "request_type (CollectionNames sp) = 4"
| "request_type (CreateDeviceLockCollection c sp ep sem acm) = 5"
| "request_type (CreateCustomLockCollection c sp ep ap sem acm mode addr) = 6"
| "request_type (RemoveCollection c sp mode addr) = 7"
| "request_type (SetCollectionSecret secret ui mode addr) = 8"
| "request_type (SetStandaloneDeviceLockSecret secret ep ui sem acm mode addr) = 9"
| "request_type (SetStandaloneCustomLockSecret secret ep ap ui sem acm mode addr) = 10"
| "request_type (GetCollectionSecret ident mode addr) = 11"
| "request_type (GetStandaloneSecret ident mode addr) = 12"
| "request_type (FindCollectionSecrets c sp flt op mode addr) = 13"
| "request_type (FindStandaloneSecrets sp flt op mode addr) = 14"
| "request_type (DeleteCollectionSecret ident mode addr) = 15"
| "request_type (DeleteStandaloneSecret ident mode addr) = 16"
| "request_type (QueryLockStatus ty target) = 17"
| "request_type (ModifyLockCode ty target ui mode addr) = 18"
| "request_type (ProvideLockCode ty target ui mode addr) = 19"
| "request_type (ForgetLockCode ty target ui mode addr) = 20"
| "request_type (UseCollectionKeyPreCheck ident operation cp mode) = 24"
| "request_type (SetCollectionKeyPreCheck ident mode) = 25"
| "request_type (SetCollectionKey secret mode key) = 26"
| "request_type (StoredKeyIdentifiers c sp custom mode addr) = 27"

subsection \<open>Asking the secrets daemon\<close>

text \<open>What every helper does with its request.\<close>

definition enqueue_helper ::
    "pid \<Rightarrow> request_id \<Rightarrow> SecretsRequest \<Rightarrow> CryptoApiHelperRequestType \<Rightarrow> SecretsBridge \<Rightarrow> Result \<times> SecretsBridge" where
  "enqueue_helper callerPid cryptoRequestId request helper b =
     (let (enqueueResult, q) = handleRequest_secretsCrypto callerPid cryptoRequestId (request_type request) [request] (sb_queue b);
          b1 = b\<lparr>sb_queue := q\<rparr>
      in if res_code enqueueResult = Failed then (enqueueResult, b1)
         else (pending, b1\<lparr>sb_cryptoApiHelperRequests :=
                             qmap_insert cryptoRequestId helper (sb_cryptoApiHelperRequests b1)\<rparr>))"

definition storeKeyPreCheck :: "pid \<Rightarrow> request_id \<Rightarrow> Identifier \<Rightarrow> SecretsBridge \<Rightarrow> Result \<times> SecretsBridge" where
  "storeKeyPreCheck callerPid cryptoRequestId ident =
     enqueue_helper callerPid cryptoRequestId (SetCollectionKeyPreCheck ident SystemInteraction) StoreKeyPreCheckCryptoApiHelperRequest"

text \<open>The secret a key is stored as.\<close>

definition key_secret :: "Identifier \<Rightarrow> qbytes \<Rightarrow> filter_data \<Rightarrow> Secret" where
  "key_secret ident serializedKey filterData =
     Secret_setType TypeCryptoKey ((new_Secret_identified ident)\<lparr>se_filterData := filterData\<rparr>)\<lparr>se_data := serializedKey\<rparr>"

definition storeKey ::
    "pid \<Rightarrow> request_id \<Rightarrow> Identifier \<Rightarrow> qbytes \<Rightarrow> filter_data \<Rightarrow> qbytes \<Rightarrow> SecretsBridge \<Rightarrow> Result \<times> SecretsBridge" where
  "storeKey callerPid cryptoRequestId ident serializedKey filterData collectionDecryptionKey =
     enqueue_helper callerPid cryptoRequestId
       (SetCollectionKey (key_secret ident serializedKey filterData) SystemInteraction collectionDecryptionKey)
       StoreKeyCryptoApiHelperRequest"

definition bridge_deleteStoredKey :: "pid \<Rightarrow> request_id \<Rightarrow> Identifier \<Rightarrow> SecretsBridge \<Rightarrow> Result \<times> SecretsBridge" where
  "bridge_deleteStoredKey callerPid cryptoRequestId ident =
     enqueue_helper callerPid cryptoRequestId (DeleteCollectionSecret ident SystemInteraction []) DeleteStoredKeyCryptoApiHelperRequest"

definition bridge_storedKeyIdentifiers ::
    "pid \<Rightarrow> request_id \<Rightarrow> qstring \<Rightarrow> qstring \<Rightarrow> variant_map \<Rightarrow> SecretsBridge \<Rightarrow> Result \<times> SecretsBridge" where
  "bridge_storedKeyIdentifiers callerPid cryptoRequestId collectionName storagePluginName customParameters =
     enqueue_helper callerPid cryptoRequestId
       (StoredKeyIdentifiers collectionName storagePluginName customParameters SystemInteraction [])
       StoredKeyIdentifiersCryptoApiHelperRequest"

definition useKeyPreCheck :: "pid \<Rightarrow> request_id \<Rightarrow> Identifier \<Rightarrow> int \<Rightarrow> qstring \<Rightarrow> SecretsBridge \<Rightarrow> Result \<times> SecretsBridge" where
  "useKeyPreCheck callerPid cryptoRequestId ident operation cryptoPluginName =
     enqueue_helper callerPid cryptoRequestId (UseCollectionKeyPreCheck ident operation cryptoPluginName SystemInteraction)
       UseKeyPreCheckCryptoApiHelperRequest"

definition bridge_storedKey :: "pid \<Rightarrow> request_id \<Rightarrow> Identifier \<Rightarrow> SecretsBridge \<Rightarrow> Result \<times> SecretsBridge" where
  "bridge_storedKey callerPid cryptoRequestId ident =
     enqueue_helper callerPid cryptoRequestId (GetCollectionSecret ident SystemInteraction []) StoredKeyCryptoApiHelperRequest"

definition bridge_userInput :: "pid \<Rightarrow> request_id \<Rightarrow> InteractionParameters \<Rightarrow> SecretsBridge \<Rightarrow> Result \<times> SecretsBridge" where
  "bridge_userInput callerPid cryptoRequestId uiParams =
     enqueue_helper callerPid cryptoRequestId (UserInput uiParams) UserInputCryptoApiHelperRequest"

definition queryCryptoPluginLockStatus :: "pid \<Rightarrow> request_id \<Rightarrow> qstring \<Rightarrow> SecretsBridge \<Rightarrow> Result \<times> SecretsBridge" where
  "queryCryptoPluginLockStatus callerPid cryptoRequestId cryptoPluginName =
     enqueue_helper callerPid cryptoRequestId
       (QueryLockStatus (if cryptoPluginName = [] then TargetMetadataDatabase else TargetExtensionPlugin) cryptoPluginName)
       QueryLockStatusCryptoApiHelperRequest"

definition modifyCryptoPluginLockCode ::
    "pid \<Rightarrow> request_id \<Rightarrow> qstring \<Rightarrow> InteractionParameters \<Rightarrow> SecretsBridge \<Rightarrow> Result \<times> SecretsBridge" where
  "modifyCryptoPluginLockCode callerPid cryptoRequestId cryptoPluginName uiParams =
     enqueue_helper callerPid cryptoRequestId (ModifyLockCode TargetExtensionPlugin cryptoPluginName uiParams SystemInteraction [])
       ModifyLockCodeCryptoApiHelperRequest"

definition provideCryptoPluginLockCode ::
    "pid \<Rightarrow> request_id \<Rightarrow> qstring \<Rightarrow> InteractionParameters \<Rightarrow> SecretsBridge \<Rightarrow> Result \<times> SecretsBridge" where
  "provideCryptoPluginLockCode callerPid cryptoRequestId cryptoPluginName uiParams =
     enqueue_helper callerPid cryptoRequestId (ProvideLockCode TargetExtensionPlugin cryptoPluginName uiParams SystemInteraction [])
       ProvideLockCodeCryptoApiHelperRequest"

definition forgetCryptoPluginLockCode ::
    "pid \<Rightarrow> request_id \<Rightarrow> qstring \<Rightarrow> InteractionParameters \<Rightarrow> SecretsBridge \<Rightarrow> Result \<times> SecretsBridge" where
  "forgetCryptoPluginLockCode callerPid cryptoRequestId cryptoPluginName uiParams =
     enqueue_helper callerPid cryptoRequestId (ForgetLockCode TargetExtensionPlugin cryptoPluginName uiParams SystemInteraction [])
       ForgetLockCodeCryptoApiHelperRequest"

subsection \<open>The answer\<close>

datatype crypto_signal =
    storedKeyCompleted Result qbytes filter_data
  | storedKeyIdentifiersCompleted Result "Identifier list"
  | deleteStoredKeyCompleted Result
  | useKeyPreCheckCompleted Result qbytes
  | storeKeyPreCheckCompleted Result qbytes
  | storeKeyCompleted Result
  | userInputCompleted Result qbytes
  | cryptoPluginLockStatusRequestCompleted Result LockStatus
  | cryptoPluginLockCodeRequestCompleted Result

text \<open>The first parameter, or the default of its type where there is none or one of another type.\<close>

definition first_secret :: "out_param list \<Rightarrow> Secret" where
  "first_secret ps = (case ps of OutSecret s # _ \<Rightarrow> s | _ \<Rightarrow> new_Secret)"

definition first_identifiers :: "out_param list \<Rightarrow> Identifier list" where
  "first_identifiers ps = (case ps of OutIdentifiers ids # _ \<Rightarrow> ids | _ \<Rightarrow> [])"

definition first_bytes :: "out_param list \<Rightarrow> qbytes" where
  "first_bytes ps = (case ps of OutBytes bs # _ \<Rightarrow> bs | _ \<Rightarrow> [])"

definition first_lock_status :: "out_param list \<Rightarrow> LockStatus" where
  "first_lock_status ps = (case ps of OutLockStatus s # _ \<Rightarrow> s | _ \<Rightarrow> Unknown)"

primrec signal_of :: "CryptoApiHelperRequestType \<Rightarrow> Result \<Rightarrow> out_param list \<Rightarrow> crypto_signal" where
  "signal_of StoredKeyCryptoApiHelperRequest r ps = storedKeyCompleted r (se_data (first_secret ps)) (se_filterData (first_secret ps))"
| "signal_of StoredKeyIdentifiersCryptoApiHelperRequest r ps = storedKeyIdentifiersCompleted r (first_identifiers ps)"
| "signal_of DeleteStoredKeyCryptoApiHelperRequest r ps = deleteStoredKeyCompleted r"
| "signal_of UseKeyPreCheckCryptoApiHelperRequest r ps = useKeyPreCheckCompleted r (first_bytes ps)"
| "signal_of StoreKeyPreCheckCryptoApiHelperRequest r ps = storeKeyPreCheckCompleted r (first_bytes ps)"
| "signal_of StoreKeyCryptoApiHelperRequest r ps = storeKeyCompleted r"
| "signal_of UserInputCryptoApiHelperRequest r ps = userInputCompleted r (first_bytes ps)"
| "signal_of QueryLockStatusCryptoApiHelperRequest r ps = cryptoPluginLockStatusRequestCompleted r (first_lock_status ps)"
| "signal_of ModifyLockCodeCryptoApiHelperRequest r ps = cryptoPluginLockCodeRequestCompleted r"
| "signal_of ProvideLockCodeCryptoApiHelperRequest r ps = cryptoPluginLockCodeRequestCompleted r"
| "signal_of ForgetLockCodeCryptoApiHelperRequest r ps = cryptoPluginLockCodeRequestCompleted r"

definition asynchronousCryptoRequestCompleted ::
    "request_id \<Rightarrow> Result \<Rightarrow> out_param list \<Rightarrow> SecretsBridge \<Rightarrow> crypto_signal option \<times> SecretsBridge" where
  "asynchronousCryptoRequestCompleted cryptoRequestId result parameters b =
     (case map_of (sb_cryptoApiHelperRequests b) cryptoRequestId of
        None \<Rightarrow> (None, b)
      | Some helper \<Rightarrow>
          (Some (signal_of helper result parameters),
           b\<lparr>sb_cryptoApiHelperRequests := filter (\<lambda>e. fst e \<noteq> cryptoRequestId) (sb_cryptoApiHelperRequests b)\<rparr>))"

end
