(* ===== verification/Key_Serialization.thy ===== *)
theory Key_Serialization
  imports Crypto_Plugin "HOL-Library.Word"
begin

section \<open>Serialised keys\<close>

text \<open>
  \<^verbatim>\<open>Key::serialize\<close> and \<^verbatim>\<open>Key::deserialize\<close> (src/lib/Crypto/serialization.cpp): the byte
  format in which keys are stored as secrets and sent over the bus. The format is that of
  \<^verbatim>\<open>QDataStream\<close>, version 5.6, of which the operators in use are modelled: 32-bit integers in
  big-endian order, strings as their length in bytes and two bytes per character, byte arrays,
  vectors, and maps, which are written from the last entry to the first.

  The model does not tell a null string or byte array from an empty one and writes both as null. Strings are of 8-bit
  characters, so a character above 255 in the input is read as a question mark. A read past the end of the data sets the stream's status and gives the value zero or empty; the status is not looked at by
  \<open>deserialize\<close>.
\<close>

subsection \<open>Data streams\<close>

record data_stream =
  ds_bytes :: qbytes
  ds_ok :: bool

definition write_u32 :: "32 word \<Rightarrow> qbytes" where
  "write_u32 w = map (\<lambda>k. char_of (uint w div 2 ^ k)) [24, 16, 8, 0]"

definition read_u32 :: "data_stream \<Rightarrow> 32 word \<times> data_stream" where
  "read_u32 s =
     (case ds_bytes s of
        a # b # c # d # rest \<Rightarrow>
          (of_int (((of_char a * 256 + of_char b) * 256 + of_char c) * 256 + of_char d), s\<lparr>ds_bytes := rest\<rparr>)
      | _ \<Rightarrow> (0, \<lparr>ds_bytes = [], ds_ok = False\<rparr>))"

definition write_int :: "int \<Rightarrow> qbytes" where
  "write_int i = write_u32 (of_int i)"

definition read_int :: "data_stream \<Rightarrow> int \<times> data_stream" where
  "read_int s = (let (w, s1) = read_u32 s in (sint w, s1))"

definition null_length :: "32 word" where
  "null_length = 0xFFFFFFFF"

text \<open>The block of bytes after a length; a block that is cut short is dropped.\<close>

definition read_block :: "nat \<Rightarrow> data_stream \<Rightarrow> qbytes \<times> data_stream" where
  "read_block n s =
     (if n \<le> length (ds_bytes s) then (take n (ds_bytes s), s\<lparr>ds_bytes := drop n (ds_bytes s)\<rparr>)
      else ([], \<lparr>ds_bytes = [], ds_ok = False\<rparr>))"

definition write_bytes :: "qbytes \<Rightarrow> qbytes" where
  "write_bytes b = (if b = [] then write_u32 null_length else write_u32 (of_nat (length b)) @ b)"

definition read_bytes :: "data_stream \<Rightarrow> qbytes \<times> data_stream" where
  "read_bytes s =
     (let (len, s1) = read_u32 s
      in if len = null_length then ([], s1) else read_block (unat len) s1)"

definition utf16 :: "qstring \<Rightarrow> qbytes" where
  "utf16 s = concat (map (\<lambda>c. [CHR 0x00, c]) s)"

fun from_utf16 :: "qbytes \<Rightarrow> qstring" where
  "from_utf16 (h # l # bs) = (if h = CHR 0x00 then l else CHR ''?'') # from_utf16 bs"
| "from_utf16 _ = []"

definition write_string :: "qstring \<Rightarrow> qbytes" where
  "write_string s = (if s = [] then write_u32 null_length else write_u32 (of_nat (2 * length s)) @ utf16 s)"

definition read_string :: "data_stream \<Rightarrow> qstring \<times> data_stream" where
  "read_string s =
     (let (len, s1) = read_u32 s
      in if len = null_length then ([], s1)
         else if odd (unat len) then ([], s1\<lparr>ds_ok := False\<rparr>)
         else let (block, s2) = read_block (unat len) s1 in (from_utf16 block, s2))"

definition write_vector :: "qbytes list \<Rightarrow> qbytes" where
  "write_vector v = write_u32 (of_nat (length v)) @ concat (map write_bytes v)"

primrec read_elements :: "nat \<Rightarrow> data_stream \<Rightarrow> qbytes list \<times> data_stream" where
  "read_elements 0 s = ([], s)"
| "read_elements (Suc n) s =
     (let (b, s1) = read_bytes s; (bs, s2) = read_elements n s1 in (b # bs, s2))"

definition read_vector :: "data_stream \<Rightarrow> qbytes list \<times> data_stream" where
  "read_vector s = (let (n, s1) = read_u32 s in read_elements (unat n) s1)"

definition write_map :: "(qstring \<times> qstring) list \<Rightarrow> qbytes" where
  "write_map m = write_u32 (of_nat (length m)) @ concat (map (\<lambda>(k, v). write_string k @ write_string v) (rev m))"

text \<open>\<^verbatim>\<open>insertMulti\<close> puts an entry before those that have the same key.\<close>

fun qmap_insertMulti :: "'k::linorder \<Rightarrow> 'v \<Rightarrow> ('k \<times> 'v) list \<Rightarrow> ('k \<times> 'v) list" where
  "qmap_insertMulti k v [] = [(k, v)]"
| "qmap_insertMulti k v ((k', v') # m) =
     (if k \<le> k' then (k, v) # (k', v') # m else (k', v') # qmap_insertMulti k v m)"

primrec read_entries :: "nat \<Rightarrow> (qstring \<times> qstring) list \<Rightarrow> data_stream \<Rightarrow> (qstring \<times> qstring) list \<times> data_stream" where
  "read_entries 0 m s = (m, s)"
| "read_entries (Suc n) m s =
     (if \<not> ds_ok s then (m, s)
      else let (k, s1) = read_string s; (v, s2) = read_string s1 in read_entries n (qmap_insertMulti k v m) s2)"

definition read_map :: "data_stream \<Rightarrow> (qstring \<times> qstring) list \<times> data_stream" where
  "read_map s =
     (let (n, s1) = read_u32 (s\<lparr>ds_ok := True\<rparr>);
          (m, s2) = read_entries (unat n) [] s1
      in (if ds_ok s2 then m else [], s2\<lparr>ds_ok := ds_ok s \<and> ds_ok s2\<rparr>))"

subsection \<open>Keys\<close>

datatype SerializationMode = LosslessSerializationMode | LossySerializationMode

definition key_magic :: "32 word" where
  "key_magic = 0x4B657900"

definition Key_serialize :: "Key \<Rightarrow> SerializationMode \<Rightarrow> qbytes" where
  "Key_serialize key serializationMode =
     write_u32 key_magic @ write_int 100
     @ (if serializationMode = LosslessSerializationMode
        then write_string (id_name (key_identifier key)) @ write_string (id_collectionName (key_identifier key))
             @ write_string (id_storagePluginName (key_identifier key))
        else write_string [] @ write_string [] @ write_string [])
     @ write_int (key_origin key) @ write_int (key_algorithm key) @ write_int (key_operations key)
     @ write_int (key_componentConstraints key) @ write_int (key_size key)
     @ write_bytes (key_publicKey key) @ write_bytes (key_privateKey key) @ write_bytes (key_secretKey key)
     @ write_vector (key_customParameters key)
     @ (if serializationMode = LosslessSerializationMode then write_map (key_filterData key) else write_map [])"

definition Key_deserialize :: "qbytes \<Rightarrow> Key \<times> bool" where
  "Key_deserialize data =
     (let (magic, s1) = read_u32 \<lparr>ds_bytes = data, ds_ok = True\<rparr>
      in if magic \<noteq> key_magic then (new_Key, False)
      else let (version, s2) = read_int s1
      in if version \<noteq> 100 then (new_Key, False)
      else let (name, s3) = read_string s2; (collectionName, s4) = read_string s3; (storagePluginName, s5) = read_string s4;
               (iorigin, s6) = read_int s5; (ialgorithm, s7) = read_int s6; (ioperations, s8) = read_int s7;
               (icomponentConstraints, s9) = read_int s8; (isize, s10) = read_int s9;
               (publicKey, s11) = read_bytes s10; (privateKey, s12) = read_bytes s11; (secretKey, s13) = read_bytes s12;
               (customParameters, s14) = read_vector s13; (filterData, s15) = read_map s14
      in (Key_setFilterData filterData
            \<lparr>key_identifier = \<lparr>id_name = name, id_collectionName = collectionName, id_storagePluginName = storagePluginName\<rparr>,
             key_origin = iorigin, key_algorithm = ialgorithm, key_operations = ioperations,
             key_componentConstraints = icomponentConstraints, key_size = isize,
             key_publicKey = publicKey, key_privateKey = privateKey, key_secretKey = secretKey,
             key_customParameters = customParameters, key_filterData = []\<rparr>, True))"

subsection \<open>Reading back what was written\<close>

lemma bytes_of_u32:
  fixes n :: int
  assumes "0 \<le> n" and "n < 2 ^ 32"
  shows "(((n div 2 ^ 24 mod 256) * 256 + n div 2 ^ 16 mod 256) * 256 + n div 2 ^ 8 mod 256) * 256 + n mod 256 = n"
proof -
  have a: "n div 2 ^ 24 mod 256 = n div 2 ^ 24" using assms by simp
  have b: "n div 2 ^ 24 = n div 2 ^ 16 div 256" "n div 2 ^ 16 = n div 2 ^ 8 div 256" "n div 2 ^ 8 = n div 256"
    by (simp_all add: zdiv_zmult2_eq [symmetric])
  show ?thesis unfolding a unfolding b by (simp add: algebra_simps) 
qed

lemma read_write_u32 [simp]: "read_u32 \<lparr>ds_bytes = write_u32 w @ rest, ds_ok = b\<rparr> = (w, \<lparr>ds_bytes = rest, ds_ok = b\<rparr>)"
proof -
  let ?n = "uint w"
  have "read_u32 \<lparr>ds_bytes = write_u32 w @ rest, ds_ok = b\<rparr> =
      (of_int ((((?n div 2 ^ 24 mod 256) * 256 + ?n div 2 ^ 16 mod 256) * 256 + ?n div 2 ^ 8 mod 256) * 256 + ?n mod 256),
       \<lparr>ds_bytes = rest, ds_ok = b\<rparr>)"
    by (simp add: write_u32_def read_u32_def del: of_int_add of_int_mult)
  also have "0 \<le> ?n" "?n < 2 ^ 32" using unsigned_less [of w, where ?'a = int] by simp_all
  then have "(((?n div 2 ^ 24 mod 256) * 256 + ?n div 2 ^ 16 mod 256) * 256 + ?n div 2 ^ 8 mod 256) * 256 + ?n mod 256 = ?n"
    by (rule bytes_of_u32)
  finally show ?thesis by simp
qed

lemma read_write_int [simp]:
  assumes "- (2 ^ 31) \<le> i" and "i < 2 ^ 31"
  shows "read_int \<lparr>ds_bytes = write_int i @ rest, ds_ok = b\<rparr> = (i, \<lparr>ds_bytes = rest, ds_ok = b\<rparr>)"
  using assms signed_take_bit_int_eq_self [of 31 i] by (simp add: write_int_def read_int_def sint_sbintrunc')

definition block_fits :: "nat \<Rightarrow> bool" where
  "block_fits n \<longleftrightarrow> n < 2 ^ 32 - 1"

lemma length_word:
  assumes "block_fits n"
  shows "unat (of_nat n :: 32 word) = n" "n \<noteq> 0 \<Longrightarrow> (of_nat n :: 32 word) \<noteq> null_length"
proof -
  show u: "unat (of_nat n :: 32 word) = n"
    using assms by (simp add: block_fits_def unat_of_nat take_bit_nat_eq_self)
  have "unat null_length = 2 ^ 32 - 1" by (simp add: null_length_def)
  then show "(of_nat n :: 32 word) \<noteq> null_length" using u assms unfolding block_fits_def by auto
qed

lemma read_write_bytes [simp]:
  assumes "block_fits (length x)"
  shows "read_bytes \<lparr>ds_bytes = write_bytes x @ rest, ds_ok = b\<rparr> = (x, \<lparr>ds_bytes = rest, ds_ok = b\<rparr>)"
  using length_word [OF assms] by (auto simp: write_bytes_def read_bytes_def read_block_def)

lemma from_utf16_utf16 [simp]: "from_utf16 (utf16 s) = s"
  by (induction s) (simp_all add: utf16_def)

lemma length_utf16 [simp]: "length (utf16 s) = 2 * length s"
  by (induction s) (simp_all add: utf16_def)

lemma read_write_string [simp]:
  assumes "block_fits (2 * length x)"
  shows "read_string \<lparr>ds_bytes = write_string x @ rest, ds_ok = b\<rparr> = (x, \<lparr>ds_bytes = rest, ds_ok = b\<rparr>)"
  using length_word [OF assms] by (auto simp: write_string_def read_string_def read_block_def)

lemma read_write_elements:
  assumes "list_all (\<lambda>x. block_fits (length x)) v"
  shows "read_elements (length v) \<lparr>ds_bytes = concat (map write_bytes v) @ rest, ds_ok = b\<rparr> = (v, \<lparr>ds_bytes = rest, ds_ok = b\<rparr>)"
  using assms by (induction v) simp_all

lemma read_write_vector [simp]:
  assumes "block_fits (length v)" and "list_all (\<lambda>x. block_fits (length x)) v"
  shows "read_vector \<lparr>ds_bytes = write_vector v @ rest, ds_ok = b\<rparr> = (v, \<lparr>ds_bytes = rest, ds_ok = b\<rparr>)"
  using length_word(1) [OF assms(1)] read_write_elements [OF assms(2), of rest b]
  by (simp add: read_vector_def write_vector_def)

lemma insertMulti_first: "\<forall>k' \<in> fst ` set m. k < k' \<Longrightarrow> qmap_insertMulti k v m = (k, v) # m"
  by (cases m) auto

text \<open>The entries come in descending order, so each goes in front of those read before it.\<close>

lemma read_write_entries:
  assumes "qmap_ok (xs @ m)" and "list_all (\<lambda>(k, v). block_fits (2 * length k) \<and> block_fits (2 * length v)) xs"
  shows "read_entries (length xs) m
      \<lparr>ds_bytes = concat (map (\<lambda>(k, v). write_string k @ write_string v) (rev xs)) @ rest, ds_ok = True\<rparr>
    = (xs @ m, \<lparr>ds_bytes = rest, ds_ok = True\<rparr>)"
  using assms
proof (induction xs arbitrary: m rule: rev_induct)
  case (snoc x xs)
  obtain k v where x: "x = (k, v)" by (cases x)
  have "qmap_insertMulti k v m = (k, v) # m"
    using snoc.prems(1) x by (intro insertMulti_first) (auto simp: qmap_ok_def sorted_wrt_append)
  with snoc.IH [of "(k, v) # m"] snoc.prems x show ?case by simp
qed simp

lemma read_write_map [simp]:
  assumes "qmap_ok m" and "block_fits (length m)"
    and "list_all (\<lambda>(k, v). block_fits (2 * length k) \<and> block_fits (2 * length v)) m"
  shows "read_map \<lparr>ds_bytes = write_map m @ rest, ds_ok = b\<rparr> = (m, \<lparr>ds_bytes = rest, ds_ok = b\<rparr>)"
  using length_word(1) [OF assms(2)] read_write_entries [of m "[]" rest] assms
  by (simp add: read_map_def write_map_def)

definition int_fits :: "int \<Rightarrow> bool" where
  "int_fits i \<longleftrightarrow> - (2 ^ 31) \<le> i \<and> i < 2 ^ 31"

text \<open>A key whose integers have 32 bits and whose strings, arrays and maps have lengths the format can express.\<close>

definition key_fits :: "Key \<Rightarrow> bool" where
  "key_fits key \<longleftrightarrow>
     list_all int_fits [key_origin key, key_algorithm key, key_operations key, key_componentConstraints key, key_size key]
     \<and> list_all (\<lambda>s. block_fits (2 * length s))
         [id_name (key_identifier key), id_collectionName (key_identifier key), id_storagePluginName (key_identifier key)]
     \<and> list_all (\<lambda>x. block_fits (length x)) [key_publicKey key, key_privateKey key, key_secretKey key]
     \<and> block_fits (length (key_customParameters key)) \<and> list_all (\<lambda>x. block_fits (length x)) (key_customParameters key)
     \<and> qmap_ok (key_filterData key) \<and> block_fits (length (key_filterData key))
     \<and> list_all (\<lambda>(k, v). block_fits (2 * length k) \<and> block_fits (2 * length v)) (key_filterData key)"

lemma deserialize_serialize:
  assumes "key_fits key"
  shows "Key_deserialize (Key_serialize key mode) =
    (if mode = LosslessSerializationMode then Key_setFilterData (key_filterData key) key
     else Key_setFilterData [] (key\<lparr>key_identifier := no_identifier\<rparr>), True)"
proof -
  have r: "read_map \<lparr>ds_bytes = write_map m, ds_ok = b\<rparr> = (m, \<lparr>ds_bytes = [], ds_ok = b\<rparr>)"
    if "qmap_ok m" "block_fits (length m)" "list_all (\<lambda>(k, v). block_fits (2 * length k) \<and> block_fits (2 * length v)) m" for m b
    using read_write_map [OF that, of "[]" b] by simp
  have f: "block_fits 0" "int_fits 100" by (simp_all add: block_fits_def int_fits_def)
  show ?thesis
    using assms f
    by (cases mode)
      (simp_all add: key_fits_def int_fits_def Key_deserialize_def Key_serialize_def Key_setFilterData_def no_identifier_def r)
qed

end
