(* ===== verification/Crypto_Processor.thy ===== *)
theory Crypto_Processor
  imports Crypto_Bridge Key_Serialization
begin

section \<open>The cryptography request processor\<close>

text \<open>
  The class \<^verbatim>\<open>Crypto::Daemon::ApiImpl::RequestProcessor\<close> (src/daemon/CryptoImpl/cryptorequestprocessor.cpp): its state, and the
  methods for random data and for keys. It has no store of its own: keys that are not in a cryptography plugin are stored, read and deleted through the bridge to the
  secrets daemon, and so are the questions to the user.

  As in the secrets daemon, a method is a function of its arguments, of what its caller does with the result (\<open>k\<close>) and of the state; its
  value is a run of the main thread. The plugins' state is the map of the loaded cryptography plugins, each with its wrapper when it
  stores keys. The texts of prompts are left out, and so are error messages.
\<close>

subsection \<open>Functions that run on the plugin thread\<close>

text \<open>The simple function wrappers (src/daemon/CryptoImpl/cryptopluginfunctionwrappers.cpp): a call of the plugin and its outputs.\<close>

definition CryptoPluginFunctionWrapper_generateRandomData ::
    "variant_map \<Rightarrow> nat \<Rightarrow> qstring \<Rightarrow> nat \<Rightarrow> 's CryptoPlugin \<Rightarrow> 's \<Rightarrow> (CryptoResult \<times> qbytes) \<times> 's" where
  "CryptoPluginFunctionWrapper_generateRandomData customParameters callerIdent csprngEngineName numberBytes plugin s =
     (let (result, randomData, s1) = cp_generateRandomData plugin callerIdent csprngEngineName numberBytes customParameters s
      in ((result, randomData), s1))"

definition CryptoPluginFunctionWrapper_seedRandomDataGenerator ::
    "variant_map \<Rightarrow> nat \<Rightarrow> qstring \<Rightarrow> qbytes \<Rightarrow> double \<Rightarrow> 's CryptoPlugin \<Rightarrow> 's \<Rightarrow> CryptoResult \<times> 's" where
  "CryptoPluginFunctionWrapper_seedRandomDataGenerator customParameters callerIdent csprngEngineName seedData entropyEstimate plugin =
     cp_seedRandomDataGenerator plugin callerIdent csprngEngineName seedData entropyEstimate customParameters"

definition CryptoPluginFunctionWrapper_generateInitializationVector ::
    "variant_map \<Rightarrow> int \<Rightarrow> int \<Rightarrow> int \<Rightarrow> 's CryptoPlugin \<Rightarrow> 's \<Rightarrow> (CryptoResult \<times> qbytes) \<times> 's" where
  "CryptoPluginFunctionWrapper_generateInitializationVector customParameters algorithm blockMode keySize plugin s =
     (let (result, iv, s1) = cp_generateInitializationVector plugin algorithm blockMode keySize customParameters s
      in ((result, iv), s1))"

definition CryptoPluginFunctionWrapper_importKey ::
    "variant_map \<Rightarrow> qbytes \<Rightarrow> qbytes \<Rightarrow> 's CryptoPlugin \<Rightarrow> 's \<Rightarrow> (CryptoResult \<times> Key) \<times> 's" where
  "CryptoPluginFunctionWrapper_importKey customParameters keyData passphrase plugin s =
     (let (result, key, s1) = cp_importKey plugin keyData passphrase customParameters new_Key s in ((result, key), s1))"

definition CryptoPluginFunctionWrapper_generateKey ::
    "variant_map \<Rightarrow> Key \<Rightarrow> KeyPairGenerationParameters \<Rightarrow> KeyDerivationParameters \<Rightarrow> 's CryptoPlugin \<Rightarrow> 's
     \<Rightarrow> (CryptoResult \<times> Key) \<times> 's" where
  "CryptoPluginFunctionWrapper_generateKey customParameters keyTemplate kpgParams skdfParams plugin s =
     (let (result, key, s1) = CryptoPlugin.cp_generateKey plugin keyTemplate kpgParams skdfParams customParameters keyTemplate s
      in ((result, key), s1))"

definition CryptoPluginFunctionWrapper_storedKey ::
    "Identifier \<Rightarrow> int \<Rightarrow> variant_map \<Rightarrow> 's CryptoPlugin \<Rightarrow> 's \<Rightarrow> (CryptoResult \<times> Key) \<times> 's" where
  "CryptoPluginFunctionWrapper_storedKey ident keyComponents customParameters plugin s =
     (let (result, key, s1) = cp_storedKey plugin ident keyComponents customParameters (new_Key\<lparr>key_identifier := ident\<rparr>) s
      in ((result, key), s1))"

definition CryptoPluginFunctionWrapper_calculateDigest ::
    "variant_map \<Rightarrow> qbytes \<Rightarrow> int \<Rightarrow> int \<Rightarrow> 's CryptoPlugin \<Rightarrow> 's \<Rightarrow> (CryptoResult \<times> qbytes) \<times> 's" where
  "CryptoPluginFunctionWrapper_calculateDigest customParameters data signaturePadding digestFunction plugin s =
     (let (result, digest, s1) = cp_calculateDigest plugin data signaturePadding digestFunction customParameters s
      in ((result, digest), s1))"

definition CryptoPluginFunctionWrapper_updateCipherSessionAuthentication ::
    "variant_map \<Rightarrow> nat \<Rightarrow> qbytes \<Rightarrow> nat \<Rightarrow> 's CryptoPlugin \<Rightarrow> 's \<Rightarrow> CryptoResult \<times> 's" where
  "CryptoPluginFunctionWrapper_updateCipherSessionAuthentication customParameters clientId authenticationData cipherSessionToken plugin =
     cp_updateCipherSessionAuthentication plugin clientId authenticationData customParameters cipherSessionToken"

definition CryptoPluginFunctionWrapper_updateCipherSession ::
    "variant_map \<Rightarrow> nat \<Rightarrow> qbytes \<Rightarrow> nat \<Rightarrow> 's CryptoPlugin \<Rightarrow> 's \<Rightarrow> (CryptoResult \<times> qbytes) \<times> 's" where
  "CryptoPluginFunctionWrapper_updateCipherSession customParameters clientId data cipherSessionToken plugin s =
     (let (result, generatedData, s1) = cp_updateCipherSession plugin clientId data customParameters cipherSessionToken s
      in ((result, generatedData), s1))"

definition CryptoPluginFunctionWrapper_finalizeCipherSession ::
    "variant_map \<Rightarrow> nat \<Rightarrow> qbytes \<Rightarrow> nat \<Rightarrow> 's CryptoPlugin \<Rightarrow> 's \<Rightarrow> (CryptoResult \<times> qbytes \<times> int) \<times> 's" where
  "CryptoPluginFunctionWrapper_finalizeCipherSession customParameters clientId data cipherSessionToken plugin s =
     (let (result, generated, s1) = cp_finalizeCipherSession plugin clientId data customParameters cipherSessionToken s
      in ((result, generated), s1))"

subsection \<open>State\<close>

record CryptoInteractionParameters =
  ci_keyName :: qstring
  ci_collectionName :: qstring
  ci_pluginName :: qstring
  ci_applicationId :: qstring
  ci_operation :: InteractionOperation
  ci_authenticationPluginName :: qstring
  ci_inputType :: int
  ci_echoMode :: int

definition CryptoInteractionParameters_isValid :: "CryptoInteractionParameters \<Rightarrow> bool" where
  "CryptoInteractionParameters_isValid p \<longleftrightarrow> ci_inputType p \<noteq> 0"

definition KeyDerivationParameters_isValid :: "KeyDerivationParameters \<Rightarrow> bool" where
  "KeyDerivationParameters_isValid p \<longleftrightarrow> kdf_function p \<noteq> 0 \<and> kdf_outputKeySize p > 0 \<and> kdf_outputKeySize p \<le> 65536"

datatype crypto_out =
    CryptoOutResult CryptoResult
  | OutKey Key
  | OutData qbytes
  | OutVerificationStatus int
  | OutCipherSessionToken nat
  | OutKeyIdentifiers "Identifier list"
  | OutCryptoLockStatus LockStatus

text \<open>
  A request that waits for the secrets daemon: the type of the request and the list of its parameters. Where one type of request waits with lists of
  several shapes, each has its own constructor, named after what the request waits for.
\<close>

datatype CryptoPendingParameters =
    GenerateStoredKey_check Key KeyPairGenerationParameters KeyDerivationParameters CryptoInteractionParameters variant_map qstring
  | GenerateStoredKey_input Key KeyPairGenerationParameters KeyDerivationParameters variant_map qstring qbytes
  | GenerateStoredKey_store Key
  | ImportKey_input qbytes CryptoInteractionParameters variant_map qstring
  | ImportStoredKey_check qbytes Key CryptoInteractionParameters variant_map qstring
  | ImportStoredKey_input qbytes Key CryptoInteractionParameters variant_map qstring qbytes
  | ImportStoredKey_store Key
  | StoredKey_read Identifier int
  | DeleteStoredKey_delete Identifier
  | StoredKeyIdentifiers_list
  | Sign_check qbytes Key int int variant_map qstring
  | Sign_read qbytes int int variant_map qstring
  | Verify_check qbytes qbytes Key int int variant_map qstring
  | Verify_read qbytes qbytes int int variant_map qstring
  | Encrypt_check qbytes qbytes Key int int qbytes variant_map qstring
  | Encrypt_read qbytes qbytes int int qbytes variant_map qstring
  | Decrypt_check qbytes qbytes Key int int qbytes qbytes variant_map qstring
  | Decrypt_read qbytes qbytes int int qbytes qbytes variant_map qstring
  | InitializeCipherSession_check qbytes Key int int int int int variant_map qstring
  | InitializeCipherSession_read pid qbytes int int int int int variant_map qstring
  | QueryLockStatus_ask pid LockCodeTargetType qstring
  | ModifyLockCode_ask pid LockCodeTargetType qstring CryptoInteractionParameters
  | ProvideLockCode_ask pid LockCodeTargetType qstring CryptoInteractionParameters
  | ForgetLockCode_ask pid LockCodeTargetType qstring CryptoInteractionParameters

record CryptoPendingRequest =
  cr_callerPid :: pid
  cr_requestId :: request_id
  cr_parameters :: CryptoPendingParameters

text \<open>
  What does not change after start-up: the environment, the loaded cryptography plugins with whether they can store keys, the names of the storage plugins of
  the secrets daemon, and the cryptography plugins that have a wrapper there.
\<close>

record crypto_env =
  ce_environment :: "qstring \<Rightarrow> qbytes"
  ce_cryptoPlugins :: "qstring \<rightharpoonup> bool"
  ce_storagePluginNames :: "qstring set"
  ce_encryptedStoragePluginNames :: "qstring set"
  ce_cryptoStoragePluginWrappers :: "qstring set"

record CryptoProcessor =
  cx_pendingRequests :: "(request_id \<times> CryptoPendingRequest) list"
  cx_secrets :: SecretsBridge
  cx_replies :: "(request_id \<times> crypto_out list) list"

type_synonym ('c, 'k) crypto_plugins = "(qstring \<times> ('c, 'k) crypto_target) list"
type_synonym ('c, 'k) crypto_run = "(('c, 'k) crypto_plugins, CryptoProcessor) thread"
type_synonym ('c, 'k) crypto_handler = "CryptoProcessor \<Rightarrow> ('c, 'k) crypto_run"
type_synonym ('c, 'k) crypto_fun = "(CryptoResult \<Rightarrow> ('c, 'k) crypto_handler) \<Rightarrow> ('c, 'k) crypto_handler"

abbreviation crypto_pending :: CryptoResult where
  "crypto_pending \<equiv> CryptoResult_of_code Pending"

definition crypto_finish :: "request_id \<Rightarrow> crypto_out list \<Rightarrow> ('c, 'k) crypto_handler" where
  "crypto_finish requestId outParams m = Return (m\<lparr>cx_replies := cx_replies m @ [(requestId, outParams)]\<rparr>)"

definition crypto_finish_unless_pending :: "request_id \<Rightarrow> crypto_out list \<Rightarrow> CryptoResult \<Rightarrow> ('c, 'k) crypto_handler" where
  "crypto_finish_unless_pending requestId others result m =
     (if cr_code result = Pending then Return m else crypto_finish requestId (CryptoOutResult result # others) m)"

definition insert_crypto_pending :: "pid \<Rightarrow> request_id \<Rightarrow> CryptoPendingParameters \<Rightarrow> CryptoProcessor \<Rightarrow> CryptoProcessor" where
  "insert_crypto_pending callerPid requestId parameters m =
     m\<lparr>cx_pendingRequests := qmap_insert requestId
         \<lparr>cr_callerPid = callerPid, cr_requestId = requestId, cr_parameters = parameters\<rparr> (cx_pendingRequests m)\<rparr>"

text \<open>A call of the bridge, its result translated into one of the cryptography library.\<close>

definition ask_secrets :: "(SecretsBridge \<Rightarrow> Result \<times> SecretsBridge) \<Rightarrow> ('c, 'k) crypto_fun" where
  "ask_secrets call k m = (let (r, b) = call (cx_secrets m) in k (transformSecretsResult r) (m\<lparr>cx_secrets := b\<rparr>))"

subsection \<open>Jobs on cryptography plugins\<close>

text \<open>
  A job is given the pointer the map of plugins has under a name; a name without an entry is inserted with a null pointer. Functions that only need the plugin
  run on either kind; those that need the wrapper crash without one.
\<close>

definition on_target ::
    "qstring \<Rightarrow> (('c, 'k) crypto_target \<Rightarrow> ('x \<times> ('c, 'k) crypto_target) option) \<Rightarrow> ('c, 'k) crypto_plugins
     \<Rightarrow> ('x \<times> ('c, 'k) crypto_plugins) option" where
  "on_target name f p =
     map_option (\<lambda>(x, t). (x, qmap_insert name t p)) (f (case map_of p name of None \<Rightarrow> NoCryptoPlugin | Some t \<Rightarrow> t))"

definition on_crypto_plugin ::
    "('c CryptoPlugin \<Rightarrow> 'c \<Rightarrow> 'x \<times> 'c) \<Rightarrow> ('k CryptoPlugin \<Rightarrow> 'k \<Rightarrow> 'x \<times> 'k) \<Rightarrow> ('c, 'k) crypto_target
     \<Rightarrow> ('x \<times> ('c, 'k) crypto_target) option" where
  "on_crypto_plugin f g target =
     (case target of
        CryptoWrapper p cfg e w \<Rightarrow> let (x, s) = f e (pw_plugin w) in Some (x, CryptoWrapper p cfg e (w\<lparr>pw_plugin := s\<rparr>))
      | PlainCrypto e c \<Rightarrow> let (x, c1) = g e c in Some (x, PlainCrypto e c1)
      | NoCryptoPlugin \<Rightarrow> None)"

definition on_crypto_wrapper ::
    "('c EncryptedStoragePlugin \<Rightarrow> 'c CryptoPlugin \<Rightarrow> 'c PluginWrapper \<Rightarrow> CryptoResult \<times> 'x \<times> 'c PluginWrapper) \<Rightarrow> ('c, 'k) crypto_target
     \<Rightarrow> ((CryptoResult \<times> 'x) \<times> ('c, 'k) crypto_target) option" where
  "on_crypto_wrapper f target =
     (case target of
        CryptoWrapper p cfg e w \<Rightarrow> let (r, x, w1) = f p e w in Some ((r, x), CryptoWrapper p cfg e w1)
      | _ \<Rightarrow> None)"

definition with_key ::
    "(('c, 'k) crypto_target \<Rightarrow> CryptoResult \<times> 'x \<times> ('c, 'k) crypto_target) \<Rightarrow> ('c, 'k) crypto_target
     \<Rightarrow> ((CryptoResult \<times> 'x) \<times> ('c, 'k) crypto_target) option" where
  "with_key f target = (let (r, x, t) = f target in Some ((r, x), t))"

definition start_job ::
    "qstring \<Rightarrow> (('c, 'k) crypto_target \<Rightarrow> ('x \<times> ('c, 'k) crypto_target) option) \<Rightarrow> ('x \<Rightarrow> ('c, 'k) crypto_handler) \<Rightarrow> ('c, 'k) crypto_fun" where
  "start_job name f finished k m = run (on_target name f) finished (k crypto_pending m)"

text \<open>The lambdas that only pass on what the plugin returned.\<close>

definition finish_with_data :: "request_id \<Rightarrow> CryptoResult \<times> qbytes \<Rightarrow> ('c, 'k) crypto_handler" where
  "finish_with_data requestId = (\<lambda>(r, d). crypto_finish requestId [CryptoOutResult r, OutData d])"

definition finish_with_key :: "request_id \<Rightarrow> CryptoResult \<times> Key \<Rightarrow> ('c, 'k) crypto_handler" where
  "finish_with_key requestId = (\<lambda>(r, key). crypto_finish requestId [CryptoOutResult r, OutKey key])"

definition caller_ident :: "pid \<Rightarrow> nat" where
  "caller_ident callerPid = nat (callerPid mod 2 ^ 64)"

subsection \<open>Random data and keys that are not stored\<close>

definition has_crypto_plugin :: "crypto_env \<Rightarrow> qstring \<Rightarrow> bool" where
  "has_crypto_plugin env name \<longleftrightarrow> ce_cryptoPlugins env name \<noteq> None"

definition CryptoProcessor_generateRandomData ::
    "crypto_env \<Rightarrow> pid \<Rightarrow> request_id \<Rightarrow> nat \<Rightarrow> qstring \<Rightarrow> variant_map \<Rightarrow> qstring \<Rightarrow> ('c, 'k) crypto_fun" where
  "CryptoProcessor_generateRandomData env callerPid requestId numberBytes csprngEngineName customParameters provider k m =
     (if \<not> has_crypto_plugin env provider then k (crypto_failure Crypto_InvalidCryptographicServiceProvider) m
      else start_job provider
             (on_crypto_plugin
               (CryptoPluginFunctionWrapper_generateRandomData customParameters (caller_ident callerPid) csprngEngineName numberBytes)
               (CryptoPluginFunctionWrapper_generateRandomData customParameters (caller_ident callerPid) csprngEngineName numberBytes))
             (finish_with_data requestId) k m)"

definition CryptoProcessor_seedRandomDataGenerator ::
    "crypto_env \<Rightarrow> pid \<Rightarrow> request_id \<Rightarrow> qbytes \<Rightarrow> double \<Rightarrow> qstring \<Rightarrow> variant_map \<Rightarrow> qstring \<Rightarrow> ('c, 'k) crypto_fun" where
  "CryptoProcessor_seedRandomDataGenerator env callerPid requestId seedData entropyEstimate csprngEngineName customParameters provider k m =
     (if \<not> has_crypto_plugin env provider then k (crypto_failure Crypto_InvalidCryptographicServiceProvider) m
      else start_job provider
             (on_crypto_plugin
               (CryptoPluginFunctionWrapper_seedRandomDataGenerator customParameters (caller_ident callerPid) csprngEngineName seedData
                  entropyEstimate)
               (CryptoPluginFunctionWrapper_seedRandomDataGenerator customParameters (caller_ident callerPid) csprngEngineName seedData
                  entropyEstimate))
             (\<lambda>r. crypto_finish requestId [CryptoOutResult r]) k m)"

definition CryptoProcessor_generateInitializationVector ::
    "crypto_env \<Rightarrow> pid \<Rightarrow> request_id \<Rightarrow> int \<Rightarrow> int \<Rightarrow> int \<Rightarrow> variant_map \<Rightarrow> qstring \<Rightarrow> ('c, 'k) crypto_fun" where
  "CryptoProcessor_generateInitializationVector env callerPid requestId algorithm blockMode keySize customParameters provider k m =
     (if \<not> has_crypto_plugin env provider then k (crypto_failure Crypto_InvalidCryptographicServiceProvider) m
      else start_job provider
             (on_crypto_plugin
               (CryptoPluginFunctionWrapper_generateInitializationVector customParameters algorithm blockMode keySize)
               (CryptoPluginFunctionWrapper_generateInitializationVector customParameters algorithm blockMode keySize))
             (finish_with_data requestId) k m)"

definition generate_key_job ::
    "variant_map \<Rightarrow> Key \<Rightarrow> KeyPairGenerationParameters \<Rightarrow> KeyDerivationParameters \<Rightarrow> ('c, 'k) crypto_target
     \<Rightarrow> ((CryptoResult \<times> Key) \<times> ('c, 'k) crypto_target) option" where
  "generate_key_job customParameters keyTemplate kpgParams skdfParams =
     on_crypto_plugin (CryptoPluginFunctionWrapper_generateKey customParameters keyTemplate kpgParams skdfParams)
       (CryptoPluginFunctionWrapper_generateKey customParameters keyTemplate kpgParams skdfParams)"

definition CryptoProcessor_generateKey ::
    "crypto_env \<Rightarrow> pid \<Rightarrow> request_id \<Rightarrow> Key \<Rightarrow> KeyPairGenerationParameters \<Rightarrow> KeyDerivationParameters \<Rightarrow> variant_map \<Rightarrow> qstring
     \<Rightarrow> ('c, 'k) crypto_fun" where
  "CryptoProcessor_generateKey env callerPid requestId keyTemplate kpgParams skdfParams customParameters provider k m =
     (if \<not> has_crypto_plugin env provider then k (crypto_failure Crypto_InvalidCryptographicServiceProvider) m
      else start_job provider (generate_key_job customParameters keyTemplate kpgParams skdfParams) (finish_with_key requestId) k m)"

definition CryptoProcessor_calculateDigest ::
    "crypto_env \<Rightarrow> pid \<Rightarrow> request_id \<Rightarrow> qbytes \<Rightarrow> int \<Rightarrow> int \<Rightarrow> variant_map \<Rightarrow> qstring \<Rightarrow> ('c, 'k) crypto_fun" where
  "CryptoProcessor_calculateDigest env callerPid requestId data padding digestFunction customParameters provider k m =
     (if \<not> has_crypto_plugin env provider then k (crypto_failure Crypto_InvalidCryptographicServiceProvider) m
      else start_job provider
             (on_crypto_plugin (CryptoPluginFunctionWrapper_calculateDigest customParameters data padding digestFunction)
               (CryptoPluginFunctionWrapper_calculateDigest customParameters data padding digestFunction))
             (finish_with_data requestId) k m)"

subsection \<open>Generating a stored key\<close>

definition without_private_part :: "Key \<Rightarrow> Key" where
  "without_private_part key = key\<lparr>key_privateKey := [], key_secretKey := []\<rparr>"

text \<open>The checks both methods that create a stored key begin with; \<open>None\<close> when they are passed.\<close>

definition check_key_template :: "crypto_env \<Rightarrow> Key \<Rightarrow> qstring \<Rightarrow> CryptoResult option" where
  "check_key_template env keyTemplate provider =
     (let ident = key_identifier keyTemplate
      in if id_name ident = [] then Some (crypto_failure Crypto_InvalidKeyIdentifier)
         else if id_collectionName ident = [] then Some (crypto_failure Crypto_InvalidKeyIdentifier)
         else if id_collectionName ident = ''standalone'' then Some (crypto_failure Crypto_InvalidKeyIdentifier)
         else if provider = [] then Some (crypto_failure Crypto_InvalidCryptographicServiceProvider)
         else if \<not> has_crypto_plugin env provider then Some (crypto_failure Crypto_InvalidCryptographicServiceProvider)
         else if id_storagePluginName ident = [] then Some (crypto_failure Crypto_InvalidStorageProvider)
         else if id_storagePluginName ident \<notin> ce_encryptedStoragePluginNames env
              \<and> id_storagePluginName ident \<notin> ce_storagePluginNames env then Some (crypto_failure Crypto_InvalidStorageProvider)
         else if provider = id_storagePluginName ident \<and> ce_cryptoPlugins env provider \<noteq> Some True
              then Some (crypto_failure Crypto_StorageError)
         else None)"

definition CryptoProcessor_generateStoredKey ::
    "crypto_env \<Rightarrow> pid \<Rightarrow> request_id \<Rightarrow> Key \<Rightarrow> KeyPairGenerationParameters \<Rightarrow> KeyDerivationParameters \<Rightarrow> CryptoInteractionParameters
     \<Rightarrow> variant_map \<Rightarrow> qstring \<Rightarrow> ('c, 'k) crypto_fun" where
  "CryptoProcessor_generateStoredKey env callerPid requestId keyTemplate kpgParams skdfParams uiParams customParameters provider k m =
     (case check_key_template env keyTemplate provider of
        Some r \<Rightarrow> k r m
      | None \<Rightarrow> ask_secrets (storeKeyPreCheck callerPid requestId (key_identifier keyTemplate))
          (\<lambda>r m. if cr_code r = Failed then k r m
                 else k crypto_pending (insert_crypto_pending callerPid requestId
                        (GenerateStoredKey_check keyTemplate kpgParams skdfParams uiParams customParameters provider) m)) m)"

definition generateStoredKey_inStoragePlugin :: "request_id \<Rightarrow> CryptoResult \<Rightarrow> Key \<Rightarrow> ('c, 'k) crypto_handler" where
  "generateStoredKey_inStoragePlugin requestId result fullKey =
     crypto_finish requestId [CryptoOutResult result, OutKey (without_private_part fullKey)]"

definition generateStoredKey_inCryptoPlugin ::
    "crypto_env \<Rightarrow> pid \<Rightarrow> request_id \<Rightarrow> Key \<Rightarrow> KeyPairGenerationParameters \<Rightarrow> KeyDerivationParameters \<Rightarrow> variant_map \<Rightarrow> qstring \<Rightarrow> qbytes
     \<Rightarrow> ('c, 'k) crypto_fun" where
  "generateStoredKey_inCryptoPlugin env callerPid requestId keyTemplate kpgParams skdfParams customParameters provider
       collectionDecryptionKey k m =
     (if provider \<notin> ce_cryptoStoragePluginWrappers env then Crash
      else start_job provider
             (on_crypto_wrapper (\<lambda>p e. CryptoPluginFunctionWrapper_generateAndStoreKey p e customParameters keyTemplate kpgParams
                skdfParams collectionDecryptionKey))
             (\<lambda>(r, key). crypto_finish requestId [CryptoOutResult r, OutKey (without_private_part key)]) k m)"

definition generateStoredKey_withKdfData ::
    "crypto_env \<Rightarrow> pid \<Rightarrow> request_id \<Rightarrow> Key \<Rightarrow> KeyPairGenerationParameters \<Rightarrow> KeyDerivationParameters \<Rightarrow> variant_map \<Rightarrow> qstring \<Rightarrow> qbytes
     \<Rightarrow> ('c, 'k) crypto_fun" where
  "generateStoredKey_withKdfData env callerPid requestId keyTemplate kpgParams skdfParams customParameters provider
       collectionDecryptionKey k m =
     (if id_storagePluginName (key_identifier keyTemplate) = provider
      then generateStoredKey_inCryptoPlugin env callerPid requestId keyTemplate kpgParams skdfParams customParameters provider
             collectionDecryptionKey k m
      else start_job provider (generate_key_job customParameters keyTemplate kpgParams skdfParams)
             (\<lambda>(r, key). if cr_code r = Failed then crypto_finish requestId [CryptoOutResult r]
                else ask_secrets (storeKey callerPid requestId (key_identifier key) (Key_serialize key LossySerializationMode)
                       (key_filterData key) collectionDecryptionKey)
                       (\<lambda>r m. if cr_code r = Failed then crypto_finish requestId [CryptoOutResult r] m
                              else Return (insert_crypto_pending callerPid requestId (GenerateStoredKey_store key) m))) k m)"

definition derive_key_prompt :: "Key \<Rightarrow> CryptoInteractionParameters \<Rightarrow> InteractionParameters" where
  "derive_key_prompt keyTemplate uiParams =
     \<lparr>ip_secretName = id_name (key_identifier keyTemplate), ip_collectionName = id_collectionName (key_identifier keyTemplate),
      ip_pluginName = id_storagePluginName (key_identifier keyTemplate), ip_applicationId = [], ip_operation = DeriveKey,
      ip_authenticationPluginName = ci_authenticationPluginName uiParams, ip_inputType = ci_inputType uiParams,
      ip_echoMode = ci_echoMode uiParams\<rparr>"

definition generateStoredKey_afterPreCheck ::
    "crypto_env \<Rightarrow> pid \<Rightarrow> request_id \<Rightarrow> Key \<Rightarrow> KeyPairGenerationParameters \<Rightarrow> KeyDerivationParameters \<Rightarrow> CryptoInteractionParameters
     \<Rightarrow> variant_map \<Rightarrow> qstring \<Rightarrow> CryptoResult \<Rightarrow> qbytes \<Rightarrow> ('c, 'k) crypto_handler" where
  "generateStoredKey_afterPreCheck env callerPid requestId keyTemplate kpgParams skdfParams uiParams customParameters provider
       preCheckResult collectionDecryptionKey m =
     (if \<not> crypto_succeeded preCheckResult then crypto_finish_unless_pending requestId [OutKey keyTemplate] preCheckResult m
      else if \<not> KeyDerivationParameters_isValid skdfParams \<or> \<not> CryptoInteractionParameters_isValid uiParams
      then generateStoredKey_withKdfData env callerPid requestId keyTemplate kpgParams skdfParams customParameters provider
             collectionDecryptionKey (crypto_finish_unless_pending requestId [OutKey keyTemplate]) m
      else ask_secrets (bridge_userInput callerPid requestId (derive_key_prompt keyTemplate uiParams))
             (\<lambda>r m. crypto_finish_unless_pending requestId [OutKey keyTemplate] r
                (if cr_code r = Pending
                 then insert_crypto_pending callerPid requestId
                        (GenerateStoredKey_input keyTemplate kpgParams skdfParams customParameters provider collectionDecryptionKey) m
                 else m)) m)"

definition generateStoredKey_withInputData ::
    "crypto_env \<Rightarrow> pid \<Rightarrow> request_id \<Rightarrow> CryptoResult \<Rightarrow> Key \<Rightarrow> KeyPairGenerationParameters \<Rightarrow> KeyDerivationParameters \<Rightarrow> variant_map
     \<Rightarrow> qstring \<Rightarrow> qbytes \<Rightarrow> ('c, 'k) crypto_handler" where
  "generateStoredKey_withInputData env callerPid requestId result keyTemplate kpgParams skdfParams customParameters provider
       collectionDecryptionKey =
     (if crypto_succeeded result
      then generateStoredKey_withKdfData env callerPid requestId keyTemplate kpgParams skdfParams customParameters provider
             collectionDecryptionKey (crypto_finish_unless_pending requestId [OutKey keyTemplate])
      else crypto_finish_unless_pending requestId [OutKey keyTemplate] result)"

end
