(* ===== verification/Crypto_Keys.thy ===== *)
theory Crypto_Keys
  imports Crypto_Processor
begin

section \<open>Importing and storing keys\<close>

text \<open>
  The methods of the cryptography request processor that import keys, and that read, delete and list stored keys
  (src/daemon/CryptoImpl/cryptorequestprocessor.cpp, from \<^verbatim>\<open>promptForKeyPassphrase\<close> to \<^verbatim>\<open>storedKeyIdentifiers2\<close>).
\<close>

subsection \<open>Importing a key\<close>

definition import_key_prompt :: "Key \<Rightarrow> CryptoInteractionParameters \<Rightarrow> InteractionParameters" where
  "import_key_prompt key uiParams =
     \<lparr>ip_secretName = (if KeyIdentifier_isValid (key_identifier key) then id_name (key_identifier key) else []),
      ip_collectionName = (if KeyIdentifier_isValid (key_identifier key) then id_collectionName (key_identifier key) else []),
      ip_pluginName = [], ip_applicationId = [], ip_operation = ImportKey,
      ip_authenticationPluginName = ci_authenticationPluginName uiParams, ip_inputType = ci_inputType uiParams,
      ip_echoMode = ci_echoMode uiParams\<rparr>"

definition promptForKeyPassphrase :: "pid \<Rightarrow> request_id \<Rightarrow> Key \<Rightarrow> CryptoInteractionParameters \<Rightarrow> ('c, 'k) crypto_fun" where
  "promptForKeyPassphrase callerPid requestId key uiParams =
     ask_secrets (bridge_userInput callerPid requestId (import_key_prompt key uiParams))"

definition Key_OriginImported :: int where "Key_OriginImported = 1"

definition imported :: "Key \<Rightarrow> Key" where
  "imported key = key\<lparr>key_origin := Key_OriginImported\<rparr>"

definition needs_passphrase :: "CryptoResult \<Rightarrow> CryptoInteractionParameters \<Rightarrow> bool" where
  "needs_passphrase result uiParams \<longleftrightarrow>
     cr_code result = Failed \<and> cr_errorCode result = Crypto_CryptoPluginIncorrectPassphrase \<and> CryptoInteractionParameters_isValid uiParams"

definition import_key_job ::
    "variant_map \<Rightarrow> qbytes \<Rightarrow> qbytes \<Rightarrow> ('c, 'k) crypto_target \<Rightarrow> ((CryptoResult \<times> Key) \<times> ('c, 'k) crypto_target) option" where
  "import_key_job customParameters data passphrase =
     on_crypto_plugin (CryptoPluginFunctionWrapper_importKey customParameters data passphrase)
       (CryptoPluginFunctionWrapper_importKey customParameters data passphrase)"

definition importKey_finished ::
    "pid \<Rightarrow> request_id \<Rightarrow> qbytes \<Rightarrow> CryptoInteractionParameters \<Rightarrow> variant_map \<Rightarrow> qstring \<Rightarrow> CryptoResult \<times> Key \<Rightarrow> ('c, 'k) crypto_handler" where
  "importKey_finished callerPid requestId data uiParams customParameters provider kr =
     (let rest = (\<lambda>result m.
            let outputKey = (if cr_code result \<noteq> Failed then imported (snd kr) else snd kr)
            in if cr_code result = Pending
               then Return (insert_crypto_pending callerPid requestId (ImportKey_input data uiParams customParameters provider) m)
               else crypto_finish requestId [CryptoOutResult result, OutKey outputKey] m)
      in if needs_passphrase (fst kr) uiParams then promptForKeyPassphrase callerPid requestId new_Key uiParams rest
         else rest (fst kr))"

definition CryptoProcessor_importKey ::
    "crypto_env \<Rightarrow> pid \<Rightarrow> request_id \<Rightarrow> qbytes \<Rightarrow> CryptoInteractionParameters \<Rightarrow> variant_map \<Rightarrow> qstring \<Rightarrow> qbytes \<Rightarrow> ('c, 'k) crypto_fun" where
  "CryptoProcessor_importKey env callerPid requestId data uiParams customParameters provider passphrase k m =
     (if \<not> has_crypto_plugin env provider then k (crypto_failure Crypto_InvalidCryptographicServiceProvider) m
      else start_job provider (import_key_job customParameters data passphrase)
             (importKey_finished callerPid requestId data uiParams customParameters provider) k m)"

definition importKey_withPassphrase ::
    "crypto_env \<Rightarrow> pid \<Rightarrow> request_id \<Rightarrow> qbytes \<Rightarrow> CryptoInteractionParameters \<Rightarrow> variant_map \<Rightarrow> qstring \<Rightarrow> CryptoResult \<Rightarrow> qbytes
     \<Rightarrow> ('c, 'k) crypto_handler" where
  "importKey_withPassphrase env callerPid requestId data uiParams customParameters provider result passphrase =
     (if crypto_succeeded result
      then CryptoProcessor_importKey env callerPid requestId data uiParams customParameters provider passphrase
             (crypto_finish_unless_pending requestId [OutKey new_Key])
      else crypto_finish_unless_pending requestId [OutKey new_Key] result)"

subsection \<open>Importing a key into a collection\<close>

definition CryptoProcessor_importStoredKey ::
    "crypto_env \<Rightarrow> pid \<Rightarrow> request_id \<Rightarrow> qbytes \<Rightarrow> Key \<Rightarrow> CryptoInteractionParameters \<Rightarrow> variant_map \<Rightarrow> qstring \<Rightarrow> ('c, 'k) crypto_fun" where
  "CryptoProcessor_importStoredKey env callerPid requestId data keyTemplate uiParams customParameters provider k m =
     (case check_key_template env keyTemplate provider of
        Some r \<Rightarrow> k r m
      | None \<Rightarrow> ask_secrets (storeKeyPreCheck callerPid requestId (key_identifier keyTemplate))
          (\<lambda>r m. if cr_code r = Failed then k r m
                 else k crypto_pending (insert_crypto_pending callerPid requestId
                        (ImportStoredKey_check data keyTemplate uiParams customParameters provider) m)) m)"

text \<open>The key goes into the cryptography plugin itself: a missing passphrase is asked for.\<close>

definition importStoredKey_inCryptoPlugin_finished ::
    "pid \<Rightarrow> request_id \<Rightarrow> qbytes \<Rightarrow> Key \<Rightarrow> CryptoInteractionParameters \<Rightarrow> variant_map \<Rightarrow> qstring \<Rightarrow> qbytes \<Rightarrow> CryptoResult \<times> Key
     \<Rightarrow> ('c, 'k) crypto_handler" where
  "importStoredKey_inCryptoPlugin_finished callerPid requestId data keyTemplate uiParams customParameters provider
       collectionDecryptionKey kr =
     (if cr_code (fst kr) \<noteq> Failed
      then crypto_finish_unless_pending requestId [OutKey (imported (snd kr))] (fst kr)
      else if needs_passphrase (fst kr) uiParams
      then promptForKeyPassphrase callerPid requestId keyTemplate uiParams
             (\<lambda>r m. crypto_finish_unless_pending requestId [OutKey (snd kr)] r
                (if cr_code r = Pending
                 then insert_crypto_pending callerPid requestId
                        (ImportStoredKey_input data keyTemplate uiParams customParameters provider collectionDecryptionKey) m
                 else m))
      else crypto_finish_unless_pending requestId [OutKey (snd kr)] (fst kr))"

text \<open>
  The key is imported by the plugin and then stored by the secrets daemon. Where a passphrase is missing the request is filed as waiting for it, but nobody is asked.
\<close>

definition importStoredKey_inStorage_finished ::
    "pid \<Rightarrow> request_id \<Rightarrow> qbytes \<Rightarrow> Key \<Rightarrow> CryptoInteractionParameters \<Rightarrow> variant_map \<Rightarrow> qstring \<Rightarrow> qbytes \<Rightarrow> CryptoResult \<times> Key
     \<Rightarrow> ('c, 'k) crypto_handler" where
  "importStoredKey_inStorage_finished callerPid requestId data keyTemplate uiParams customParameters provider
       collectionDecryptionKey kr m =
     (if needs_passphrase (fst kr) uiParams
      then Return (insert_crypto_pending callerPid requestId
             (ImportStoredKey_input data keyTemplate uiParams customParameters provider collectionDecryptionKey) m)
      else if crypto_succeeded (fst kr)
      then let outputKey = imported (snd kr)
           in ask_secrets (storeKey callerPid requestId (key_identifier outputKey) (Key_serialize outputKey LossySerializationMode)
                (key_filterData outputKey) collectionDecryptionKey)
                (\<lambda>r m. crypto_finish_unless_pending requestId [OutKey outputKey] r
                   (if cr_code r \<noteq> Failed then insert_crypto_pending callerPid requestId (ImportStoredKey_store keyTemplate) m
                    else m)) m
      else crypto_finish_unless_pending requestId [OutKey (snd kr)] (fst kr) m)"

definition importStoredKey_withPassphrase ::
    "crypto_env \<Rightarrow> pid \<Rightarrow> request_id \<Rightarrow> qbytes \<Rightarrow> Key \<Rightarrow> CryptoInteractionParameters \<Rightarrow> variant_map \<Rightarrow> qstring \<Rightarrow> qbytes
     \<Rightarrow> CryptoResult \<Rightarrow> qbytes \<Rightarrow> ('c, 'k) crypto_handler" where
  "importStoredKey_withPassphrase env callerPid requestId data keyTemplate uiParams customParameters provider collectionDecryptionKey
       passphraseResult passphrase m =
     (if \<not> crypto_succeeded passphraseResult then crypto_finish requestId [CryptoOutResult passphraseResult, OutKey keyTemplate] m
      else if provider = id_storagePluginName (key_identifier keyTemplate)
      then if provider \<notin> ce_cryptoStoragePluginWrappers env then Crash
           else run (on_target provider
                  (on_crypto_wrapper (\<lambda>p e. CryptoPluginFunctionWrapper_importAndStoreKey p e customParameters data keyTemplate passphrase
                     collectionDecryptionKey)))
                  (importStoredKey_inCryptoPlugin_finished callerPid requestId data keyTemplate uiParams customParameters provider
                     collectionDecryptionKey) (Return m)
      else run (on_target provider (import_key_job customParameters data passphrase))
             (importStoredKey_inStorage_finished callerPid requestId data keyTemplate uiParams customParameters provider
                collectionDecryptionKey) (Return m))"

definition importStoredKey_afterPreCheck ::
    "crypto_env \<Rightarrow> pid \<Rightarrow> request_id \<Rightarrow> qbytes \<Rightarrow> Key \<Rightarrow> CryptoInteractionParameters \<Rightarrow> variant_map \<Rightarrow> qstring \<Rightarrow> CryptoResult \<Rightarrow> qbytes
     \<Rightarrow> ('c, 'k) crypto_handler" where
  "importStoredKey_afterPreCheck env callerPid requestId data keyTemplate uiParams customParameters provider preCheckResult
       collectionDecryptionKey =
     (if \<not> crypto_succeeded preCheckResult then crypto_finish requestId [CryptoOutResult preCheckResult, OutKey keyTemplate]
      else importStoredKey_withPassphrase env callerPid requestId data keyTemplate uiParams customParameters provider
             collectionDecryptionKey crypto_success [])"

definition importStoredKey_inStoragePlugin :: "request_id \<Rightarrow> CryptoResult \<Rightarrow> Key \<Rightarrow> ('c, 'k) crypto_handler" where
  "importStoredKey_inStoragePlugin requestId result fullKey =
     crypto_finish requestId [CryptoOutResult result, OutKey (without_private_part fullKey)]"

subsection \<open>Stored keys\<close>

definition MetaData :: int where "MetaData = 1"
definition PublicKeyData :: int where "PublicKeyData = 2"
definition PrivateKeyData :: int where "PrivateKeyData = 4"

text \<open>Fields of a key that were not asked for, or that its component constraints keep back, are emptied.\<close>

definition has_component :: "int \<Rightarrow> int \<Rightarrow> bool" where
  "has_component components component \<longleftrightarrow> and components component \<noteq> 0"

definition readable :: "int \<Rightarrow> Key \<Rightarrow> int \<Rightarrow> bool" where
  "readable keep key component \<longleftrightarrow> has_component keep component \<and> has_component (key_componentConstraints key) component"

definition processor_nullifyKeyFields :: "int \<Rightarrow> Key \<Rightarrow> Key" where
  "processor_nullifyKeyFields keep key =
     (let key1 = (if readable keep key MetaData then key
                  else Key_setFilterData [] (key\<lparr>key_identifier := no_identifier, key_origin := 0, key_algorithm := 0, key_operations := 0,
                         key_componentConstraints := 0\<rparr>));
          key2 = (if readable keep key PublicKeyData then key1 else key1\<lparr>key_customParameters := [], key_publicKey := []\<rparr>)
      in if readable keep key PrivateKeyData then key2 else without_private_part key2)"

definition CryptoProcessor_storedKey ::
    "crypto_env \<Rightarrow> pid \<Rightarrow> request_id \<Rightarrow> Identifier \<Rightarrow> int \<Rightarrow> variant_map \<Rightarrow> (CryptoResult \<Rightarrow> Key \<Rightarrow> ('c, 'k) crypto_handler)
     \<Rightarrow> ('c, 'k) crypto_handler" where
  "CryptoProcessor_storedKey env callerPid requestId ident keyComponents customParameters k m =
     (if id_storagePluginName ident = [] then k (crypto_failure Crypto_InvalidStorageProvider) new_Key m
      else if id_storagePluginName ident \<notin> ce_encryptedStoragePluginNames env \<and> id_storagePluginName ident \<notin> ce_storagePluginNames env
      then k (crypto_failure Crypto_InvalidStorageProvider) new_Key m
      else if has_crypto_plugin env (id_storagePluginName ident)
      then start_job (id_storagePluginName ident)
             (on_crypto_plugin (CryptoPluginFunctionWrapper_storedKey ident keyComponents customParameters)
               (CryptoPluginFunctionWrapper_storedKey ident keyComponents customParameters))
             (finish_with_key requestId) (\<lambda>r. k r new_Key) m
      else ask_secrets (bridge_storedKey callerPid requestId ident)
             (\<lambda>r m. if cr_code r = Failed then k r new_Key m
                    else if cr_code r = Pending
                    then k r new_Key (insert_crypto_pending callerPid requestId (StoredKey_read ident keyComponents) m)
                    else k r (processor_nullifyKeyFields keyComponents (Key_setFilterData [] (fst (Key_deserialize [])))) m) m)"

definition storedKey2 :: "request_id \<Rightarrow> int \<Rightarrow> CryptoResult \<Rightarrow> qbytes \<Rightarrow> filter_data \<Rightarrow> ('c, 'k) crypto_handler" where
  "storedKey2 requestId keyComponents result serializedKey filterData =
     crypto_finish requestId [CryptoOutResult result,
       OutKey (processor_nullifyKeyFields keyComponents (Key_setFilterData filterData (fst (Key_deserialize serializedKey))))]"

definition CryptoProcessor_deleteStoredKey :: "crypto_env \<Rightarrow> pid \<Rightarrow> request_id \<Rightarrow> Identifier \<Rightarrow> ('c, 'k) crypto_fun" where
  "CryptoProcessor_deleteStoredKey env callerPid requestId ident k =
     ask_secrets (bridge_deleteStoredKey callerPid requestId ident)
       (\<lambda>r m. k r (if cr_code r = Pending then insert_crypto_pending callerPid requestId (DeleteStoredKey_delete ident) m else m))"

definition deleteStoredKey2 :: "request_id \<Rightarrow> CryptoResult \<Rightarrow> ('c, 'k) crypto_handler" where
  "deleteStoredKey2 requestId result = crypto_finish requestId [CryptoOutResult result]"

definition CryptoProcessor_storedKeyIdentifiers ::
    "crypto_env \<Rightarrow> pid \<Rightarrow> request_id \<Rightarrow> qstring \<Rightarrow> qstring \<Rightarrow> variant_map \<Rightarrow> ('c, 'k) crypto_fun" where
  "CryptoProcessor_storedKeyIdentifiers env callerPid requestId storagePluginName collectionName customParameters k =
     ask_secrets (bridge_storedKeyIdentifiers callerPid requestId collectionName storagePluginName customParameters)
       (\<lambda>r m. k r (if cr_code r = Pending then insert_crypto_pending callerPid requestId StoredKeyIdentifiers_list m else m))"

definition storedKeyIdentifiers2 :: "request_id \<Rightarrow> CryptoResult \<Rightarrow> Identifier list \<Rightarrow> ('c, 'k) crypto_handler" where
  "storedKeyIdentifiers2 requestId result identifiers = crypto_finish requestId [CryptoOutResult result, OutKeyIdentifiers identifiers]"

end
