(* ===== verification/Crypto_Operations.thy ===== *)
theory Crypto_Operations
  imports Crypto_Keys
begin

section \<open>Cryptographic operations\<close>

text \<open>
  The methods of the cryptography request processor that use a key, the cipher sessions, the lock code requests and the slots for the answers of the
  secrets daemon (src/daemon/CryptoImpl/cryptorequestprocessor.cpp, from \<^verbatim>\<open>sign\<close> to the end).
\<close>

subsection \<open>Finding the key\<close>

text \<open>
  How each operation comes by its key. A key that lacks the parts the operation needs is a reference to a stored key: when the plugin itself has it, the
  collection may have to be unlocked (the pre-check), otherwise the secrets daemon reads it. \<open>whenChecked\<close> and \<open>whenRead\<close> are what the request waits with,
  \<open>operate\<close> goes on with a complete key.
\<close>

definition with_complete_key ::
    "crypto_env \<Rightarrow> pid \<Rightarrow> request_id \<Rightarrow> bool \<Rightarrow> Key \<Rightarrow> int \<Rightarrow> qstring \<Rightarrow> CryptoPendingParameters \<Rightarrow> CryptoPendingParameters
     \<Rightarrow> (Key \<Rightarrow> ('c, 'k) crypto_fun) \<Rightarrow> ('c, 'k) crypto_fun" where
  "with_complete_key env callerPid requestId isReference key operation provider whenChecked whenRead operate k m =
     (let ident = key_identifier key
      in if \<not> has_crypto_plugin env provider then k (crypto_failure Crypto_InvalidCryptographicServiceProvider) m
      else if \<not> isReference then operate key k m
      else if id_name ident = [] then k (crypto_failure Crypto_InvalidKeyIdentifier) m
      else if id_collectionName ident = [] then k (crypto_failure Crypto_InvalidKeyIdentifier) m
      else if id_storagePluginName ident = [] then k (crypto_failure Crypto_InvalidKeyIdentifier) m
      else if id_storagePluginName ident \<notin> ce_encryptedStoragePluginNames env \<and> id_storagePluginName ident \<notin> ce_storagePluginNames env
      then k (crypto_failure Crypto_InvalidStorageProvider) m
      else if id_storagePluginName ident = provider
      then ask_secrets (useKeyPreCheck callerPid requestId ident operation provider)
             (\<lambda>r m. if cr_code r = Failed then k r m else k r (insert_crypto_pending callerPid requestId whenChecked m)) m
      else ask_secrets (bridge_storedKey callerPid requestId ident)
             (\<lambda>r m. if cr_code r = Failed then k r m
                    else if cr_code r = Pending then k r (insert_crypto_pending callerPid requestId whenRead m)
                    else operate (fst (Key_deserialize [])) k m) m)"

text \<open>What the continuations do: a failure of the secrets daemon ends the request with it and the outputs \<open>unset\<close>, otherwise the operation starts.\<close>

definition when_succeeded :: "request_id \<Rightarrow> CryptoResult \<Rightarrow> crypto_out list \<Rightarrow> ('c, 'k) crypto_fun \<Rightarrow> ('c, 'k) crypto_handler" where
  "when_succeeded requestId result unset operate m =
     (if \<not> crypto_succeeded result then crypto_finish requestId (CryptoOutResult result # unset) m
      else operate (\<lambda>r. Return) m)"

definition key_of :: "qbytes \<Rightarrow> Key" where
  "key_of serializedKey = fst (Key_deserialize serializedKey)"

definition VerificationFailed :: int where "VerificationFailed = 2"

subsection \<open>Signing\<close>

definition run_sign ::
    "request_id \<Rightarrow> qbytes \<Rightarrow> Key \<Rightarrow> qbytes \<Rightarrow> int \<Rightarrow> int \<Rightarrow> variant_map \<Rightarrow> qstring \<Rightarrow> ('c, 'k) crypto_fun" where
  "run_sign requestId data key collectionKey padding digestFunction customParameters provider =
     start_job provider (with_key (CryptoPluginFunctionWrapper_sign customParameters data key collectionKey padding digestFunction))
       (finish_with_data requestId)"

definition CryptoProcessor_sign ::
    "crypto_env \<Rightarrow> pid \<Rightarrow> request_id \<Rightarrow> qbytes \<Rightarrow> Key \<Rightarrow> int \<Rightarrow> int \<Rightarrow> variant_map \<Rightarrow> qstring \<Rightarrow> ('c, 'k) crypto_fun" where
  "CryptoProcessor_sign env callerPid requestId data key padding digestFunction customParameters provider =
     with_complete_key env callerPid requestId (no_private_part key) key OperationSign provider
       (Sign_check data key padding digestFunction customParameters provider)
       (Sign_read data padding digestFunction customParameters provider)
       (\<lambda>fullKey. run_sign requestId data fullKey [] padding digestFunction customParameters provider)"

definition sign_withKey ::
    "request_id \<Rightarrow> CryptoResult \<Rightarrow> qbytes \<Rightarrow> qbytes \<Rightarrow> int \<Rightarrow> int \<Rightarrow> variant_map \<Rightarrow> qstring \<Rightarrow> ('c, 'k) crypto_handler" where
  "sign_withKey requestId result serializedKey data padding digestFunction customParameters cryptoPluginName =
     when_succeeded requestId result [OutData []]
       (run_sign requestId data (key_of serializedKey) [] padding digestFunction customParameters cryptoPluginName)"

definition sign_withCollectionKey ::
    "request_id \<Rightarrow> qbytes \<Rightarrow> Key \<Rightarrow> int \<Rightarrow> int \<Rightarrow> variant_map \<Rightarrow> qstring \<Rightarrow> CryptoResult \<Rightarrow> qbytes \<Rightarrow> ('c, 'k) crypto_handler" where
  "sign_withCollectionKey requestId data key padding digestFunction customParameters cryptoPluginName result collectionKey =
     when_succeeded requestId result [OutData []]
       (run_sign requestId data key collectionKey padding digestFunction customParameters cryptoPluginName)"

subsection \<open>Verifying\<close>

definition run_verify ::
    "request_id \<Rightarrow> qbytes \<Rightarrow> qbytes \<Rightarrow> Key \<Rightarrow> qbytes \<Rightarrow> int \<Rightarrow> int \<Rightarrow> variant_map \<Rightarrow> qstring \<Rightarrow> ('c, 'k) crypto_fun" where
  "run_verify requestId signature data key collectionKey padding digestFunction customParameters provider =
     start_job provider
       (with_key (CryptoPluginFunctionWrapper_verify customParameters signature data key collectionKey padding digestFunction))
       (\<lambda>(r, status). crypto_finish requestId [CryptoOutResult r, OutVerificationStatus status])"

definition CryptoProcessor_verify ::
    "crypto_env \<Rightarrow> pid \<Rightarrow> request_id \<Rightarrow> qbytes \<Rightarrow> qbytes \<Rightarrow> Key \<Rightarrow> int \<Rightarrow> int \<Rightarrow> variant_map \<Rightarrow> qstring \<Rightarrow> ('c, 'k) crypto_fun" where
  "CryptoProcessor_verify env callerPid requestId signature data key padding digestFunction customParameters provider =
     with_complete_key env callerPid requestId (no_part key) key OperationVerify provider
       (Verify_check signature data key padding digestFunction customParameters provider)
       (Verify_read signature data padding digestFunction customParameters provider)
       (\<lambda>fullKey. run_verify requestId signature data fullKey [] padding digestFunction customParameters provider)"

definition verify_withKey ::
    "request_id \<Rightarrow> CryptoResult \<Rightarrow> qbytes \<Rightarrow> qbytes \<Rightarrow> qbytes \<Rightarrow> int \<Rightarrow> int \<Rightarrow> variant_map \<Rightarrow> qstring \<Rightarrow> ('c, 'k) crypto_handler" where
  "verify_withKey requestId result serializedKey signature data padding digestFunction customParameters cryptoPluginName =
     when_succeeded requestId result [OutVerificationStatus VerificationFailed]
       (run_verify requestId signature data (key_of serializedKey) [] padding digestFunction customParameters cryptoPluginName)"

definition verify_withCollectionKey ::
    "request_id \<Rightarrow> qbytes \<Rightarrow> qbytes \<Rightarrow> Key \<Rightarrow> int \<Rightarrow> int \<Rightarrow> variant_map \<Rightarrow> qstring \<Rightarrow> CryptoResult \<Rightarrow> qbytes \<Rightarrow> ('c, 'k) crypto_handler" where
  "verify_withCollectionKey requestId signature data key padding digestFunction customParameters cryptoPluginName result collectionKey =
     when_succeeded requestId result [OutVerificationStatus VerificationFailed]
       (run_verify requestId signature data key collectionKey padding digestFunction customParameters cryptoPluginName)"

subsection \<open>Encrypting\<close>

definition run_encrypt ::
    "request_id \<Rightarrow> qbytes \<Rightarrow> qbytes \<Rightarrow> Key \<Rightarrow> qbytes \<Rightarrow> int \<Rightarrow> int \<Rightarrow> qbytes \<Rightarrow> variant_map \<Rightarrow> qstring \<Rightarrow> ('c, 'k) crypto_fun" where
  "run_encrypt requestId data iv key collectionKey blockMode padding authenticationData customParameters provider =
     start_job provider
       (with_key (CryptoPluginFunctionWrapper_encrypt customParameters data iv key collectionKey blockMode padding authenticationData))
       (\<lambda>(r, encrypted, tag). crypto_finish requestId [CryptoOutResult r, OutData encrypted, OutData tag])"

definition CryptoProcessor_encrypt ::
    "crypto_env \<Rightarrow> pid \<Rightarrow> request_id \<Rightarrow> qbytes \<Rightarrow> qbytes \<Rightarrow> Key \<Rightarrow> int \<Rightarrow> int \<Rightarrow> qbytes \<Rightarrow> variant_map \<Rightarrow> qstring \<Rightarrow> ('c, 'k) crypto_fun" where
  "CryptoProcessor_encrypt env callerPid requestId data iv key blockMode padding authenticationData customParameters provider =
     with_complete_key env callerPid requestId (no_part key) key OperationEncrypt provider
       (Encrypt_check data iv key blockMode padding authenticationData customParameters provider)
       (Encrypt_read data iv blockMode padding authenticationData customParameters provider)
       (\<lambda>fullKey. run_encrypt requestId data iv fullKey [] blockMode padding authenticationData customParameters provider)"

definition encrypt_withKey ::
    "request_id \<Rightarrow> CryptoResult \<Rightarrow> qbytes \<Rightarrow> qbytes \<Rightarrow> qbytes \<Rightarrow> int \<Rightarrow> int \<Rightarrow> qbytes \<Rightarrow> variant_map \<Rightarrow> qstring \<Rightarrow> ('c, 'k) crypto_handler" where
  "encrypt_withKey requestId result serializedKey data iv blockMode padding authenticationData customParameters cryptoPluginName m =
     (if \<not> crypto_succeeded result then crypto_finish requestId [CryptoOutResult result, OutData [], OutData []] m
      else let (fullKey, ok) = Key_deserialize serializedKey
      in if \<not> ok
         then crypto_finish requestId [CryptoOutResult (crypto_failure Crypto_SerializationError), OutData [], OutData []] m
         else run_encrypt requestId data iv fullKey [] blockMode padding authenticationData customParameters cryptoPluginName (\<lambda>r. Return) m)"

definition encrypt_withCollectionKey ::
    "request_id \<Rightarrow> qbytes \<Rightarrow> qbytes \<Rightarrow> Key \<Rightarrow> int \<Rightarrow> int \<Rightarrow> qbytes \<Rightarrow> variant_map \<Rightarrow> qstring \<Rightarrow> CryptoResult \<Rightarrow> qbytes
     \<Rightarrow> ('c, 'k) crypto_handler" where
  "encrypt_withCollectionKey requestId data iv key blockMode padding authenticationData customParameters cryptoPluginName result
       collectionKey =
     when_succeeded requestId result [OutData [], OutData []]
       (run_encrypt requestId data iv key collectionKey blockMode padding authenticationData customParameters cryptoPluginName)"

subsection \<open>Decrypting\<close>

definition run_decrypt ::
    "request_id \<Rightarrow> qbytes \<Rightarrow> qbytes \<Rightarrow> Key \<Rightarrow> qbytes \<Rightarrow> int \<Rightarrow> int \<Rightarrow> qbytes \<Rightarrow> qbytes \<Rightarrow> variant_map \<Rightarrow> qstring
     \<Rightarrow> ('c, 'k) crypto_fun" where
  "run_decrypt requestId data iv key collectionKey blockMode padding authenticationData authenticationTag customParameters provider =
     start_job provider
       (with_key (CryptoPluginFunctionWrapper_decrypt customParameters data iv key collectionKey blockMode padding authenticationData
          authenticationTag))
       (\<lambda>(r, decrypted, status). crypto_finish requestId [CryptoOutResult r, OutData decrypted, OutVerificationStatus status])"

definition CryptoProcessor_decrypt ::
    "crypto_env \<Rightarrow> pid \<Rightarrow> request_id \<Rightarrow> qbytes \<Rightarrow> qbytes \<Rightarrow> Key \<Rightarrow> int \<Rightarrow> int \<Rightarrow> qbytes \<Rightarrow> qbytes \<Rightarrow> variant_map \<Rightarrow> qstring
     \<Rightarrow> ('c, 'k) crypto_fun" where
  "CryptoProcessor_decrypt env callerPid requestId data iv key blockMode padding authenticationData authenticationTag customParameters
       provider =
     with_complete_key env callerPid requestId (no_private_part key) key OperationDecrypt provider
       (Decrypt_check data iv key blockMode padding authenticationData authenticationTag customParameters provider)
       (Decrypt_read data iv blockMode padding authenticationData authenticationTag customParameters provider)
       (\<lambda>fullKey. run_decrypt requestId data iv fullKey [] blockMode padding authenticationData authenticationTag customParameters provider)"

definition decrypt_withKey ::
    "request_id \<Rightarrow> CryptoResult \<Rightarrow> qbytes \<Rightarrow> qbytes \<Rightarrow> qbytes \<Rightarrow> int \<Rightarrow> int \<Rightarrow> qbytes \<Rightarrow> qbytes \<Rightarrow> variant_map \<Rightarrow> qstring
     \<Rightarrow> ('c, 'k) crypto_handler" where
  "decrypt_withKey requestId result serializedKey data iv blockMode padding authenticationData authenticationTag customParameters
       cryptoPluginName =
     when_succeeded requestId result [OutData [], OutVerificationStatus VerificationFailed]
       (run_decrypt requestId data iv (key_of serializedKey) [] blockMode padding authenticationData authenticationTag customParameters
          cryptoPluginName)"

definition decrypt_withCollectionKey ::
    "request_id \<Rightarrow> qbytes \<Rightarrow> qbytes \<Rightarrow> Key \<Rightarrow> int \<Rightarrow> int \<Rightarrow> qbytes \<Rightarrow> qbytes \<Rightarrow> variant_map \<Rightarrow> qstring \<Rightarrow> CryptoResult \<Rightarrow> qbytes
     \<Rightarrow> ('c, 'k) crypto_handler" where
  "decrypt_withCollectionKey requestId data iv key blockMode padding authenticationData authenticationTag customParameters
       cryptoPluginName result collectionKey =
     when_succeeded requestId result [OutData [], OutVerificationStatus VerificationFailed]
       (run_decrypt requestId data iv key collectionKey blockMode padding authenticationData authenticationTag customParameters
          cryptoPluginName)"

subsection \<open>Cipher sessions\<close>

definition run_initializeCipherSession ::
    "request_id \<Rightarrow> pid \<Rightarrow> qbytes \<Rightarrow> Key \<Rightarrow> qbytes \<Rightarrow> int \<Rightarrow> int \<Rightarrow> int \<Rightarrow> int \<Rightarrow> int \<Rightarrow> variant_map \<Rightarrow> qstring
     \<Rightarrow> ('c, 'k) crypto_fun" where
  "run_initializeCipherSession requestId callerPid iv key collectionKey operation blockMode encryptionPadding signaturePadding
       digestFunction customParameters provider =
     start_job provider
       (with_key (CryptoPluginFunctionWrapper_initializeCipherSession customParameters (caller_ident callerPid) iv key collectionKey
          operation blockMode encryptionPadding signaturePadding digestFunction))
       (\<lambda>(r, token). crypto_finish requestId [CryptoOutResult r, OutCipherSessionToken token])"

definition CryptoProcessor_initializeCipherSession ::
    "crypto_env \<Rightarrow> pid \<Rightarrow> request_id \<Rightarrow> qbytes \<Rightarrow> Key \<Rightarrow> int \<Rightarrow> int \<Rightarrow> int \<Rightarrow> int \<Rightarrow> int \<Rightarrow> variant_map \<Rightarrow> qstring
     \<Rightarrow> ('c, 'k) crypto_fun" where
  "CryptoProcessor_initializeCipherSession env callerPid requestId iv key operation blockMode encryptionPadding signaturePadding
       digestFunction customParameters provider =
     with_complete_key env callerPid requestId (no_private_part key) key operation provider
       (InitializeCipherSession_check iv key operation blockMode encryptionPadding signaturePadding digestFunction customParameters provider)
       (InitializeCipherSession_read callerPid iv operation blockMode encryptionPadding signaturePadding digestFunction customParameters
          provider)
       (\<lambda>fullKey. run_initializeCipherSession requestId callerPid iv fullKey [] operation blockMode encryptionPadding signaturePadding
          digestFunction customParameters provider)"

definition initializeCipherSession_withKey ::
    "request_id \<Rightarrow> CryptoResult \<Rightarrow> qbytes \<Rightarrow> pid \<Rightarrow> qbytes \<Rightarrow> int \<Rightarrow> int \<Rightarrow> int \<Rightarrow> int \<Rightarrow> int \<Rightarrow> variant_map \<Rightarrow> qstring
     \<Rightarrow> ('c, 'k) crypto_handler" where
  "initializeCipherSession_withKey requestId result serializedKey callerPid iv operation blockMode encryptionPadding signaturePadding
       digestFunction customParameters cryptoPluginName =
     when_succeeded requestId result [OutCipherSessionToken 0]
       (run_initializeCipherSession requestId callerPid iv (key_of serializedKey) [] operation blockMode encryptionPadding
          signaturePadding digestFunction customParameters cryptoPluginName)"

definition initializeCipherSession_withCollectionKey ::
    "request_id \<Rightarrow> pid \<Rightarrow> qbytes \<Rightarrow> Key \<Rightarrow> int \<Rightarrow> int \<Rightarrow> int \<Rightarrow> int \<Rightarrow> int \<Rightarrow> variant_map \<Rightarrow> qstring \<Rightarrow> CryptoResult \<Rightarrow> qbytes
     \<Rightarrow> ('c, 'k) crypto_handler" where
  "initializeCipherSession_withCollectionKey requestId callerPid iv key operation blockMode encryptionPadding signaturePadding
       digestFunction customParameters cryptoPluginName result collectionKey =
     when_succeeded requestId result [OutCipherSessionToken 0]
       (run_initializeCipherSession requestId callerPid iv key collectionKey operation blockMode encryptionPadding
          signaturePadding digestFunction customParameters cryptoPluginName)"

definition CryptoProcessor_updateCipherSessionAuthentication ::
    "crypto_env \<Rightarrow> pid \<Rightarrow> request_id \<Rightarrow> qbytes \<Rightarrow> variant_map \<Rightarrow> qstring \<Rightarrow> nat \<Rightarrow> ('c, 'k) crypto_fun" where
  "CryptoProcessor_updateCipherSessionAuthentication env callerPid requestId authenticationData customParameters provider
       cipherSessionToken k m =
     (if \<not> has_crypto_plugin env provider then k (crypto_failure Crypto_InvalidCryptographicServiceProvider) m
      else start_job provider
             (on_crypto_plugin
               (CryptoPluginFunctionWrapper_updateCipherSessionAuthentication customParameters (caller_ident callerPid)
                  authenticationData cipherSessionToken)
               (CryptoPluginFunctionWrapper_updateCipherSessionAuthentication customParameters (caller_ident callerPid)
                  authenticationData cipherSessionToken))
             (\<lambda>r. crypto_finish requestId [CryptoOutResult r]) k m)"

definition CryptoProcessor_updateCipherSession ::
    "crypto_env \<Rightarrow> pid \<Rightarrow> request_id \<Rightarrow> qbytes \<Rightarrow> variant_map \<Rightarrow> qstring \<Rightarrow> nat \<Rightarrow> ('c, 'k) crypto_fun" where
  "CryptoProcessor_updateCipherSession env callerPid requestId data customParameters provider cipherSessionToken k m =
     (if \<not> has_crypto_plugin env provider then k (crypto_failure Crypto_InvalidCryptographicServiceProvider) m
      else start_job provider
             (on_crypto_plugin
               (CryptoPluginFunctionWrapper_updateCipherSession customParameters (caller_ident callerPid) data cipherSessionToken)
               (CryptoPluginFunctionWrapper_updateCipherSession customParameters (caller_ident callerPid) data cipherSessionToken))
             (finish_with_data requestId) k m)"

definition CryptoProcessor_finalizeCipherSession ::
    "crypto_env \<Rightarrow> pid \<Rightarrow> request_id \<Rightarrow> qbytes \<Rightarrow> variant_map \<Rightarrow> qstring \<Rightarrow> nat \<Rightarrow> ('c, 'k) crypto_fun" where
  "CryptoProcessor_finalizeCipherSession env callerPid requestId data customParameters provider cipherSessionToken k m =
     (if \<not> has_crypto_plugin env provider then k (crypto_failure Crypto_InvalidCryptographicServiceProvider) m
      else start_job provider
             (on_crypto_plugin
               (CryptoPluginFunctionWrapper_finalizeCipherSession customParameters (caller_ident callerPid) data cipherSessionToken)
               (CryptoPluginFunctionWrapper_finalizeCipherSession customParameters (caller_ident callerPid) data cipherSessionToken))
             (\<lambda>(r, generated, status). crypto_finish requestId [CryptoOutResult r, OutData generated, OutVerificationStatus status]) k m)"

subsection \<open>Lock codes\<close>

definition CryptoProcessor_queryLockStatus ::
    "crypto_env \<Rightarrow> pid \<Rightarrow> request_id \<Rightarrow> LockCodeTargetType \<Rightarrow> qstring \<Rightarrow> ('c, 'k) crypto_fun" where
  "CryptoProcessor_queryLockStatus env callerPid requestId lockCodeTargetType lockCodeTarget k m =
     (if lockCodeTargetType = TargetExtensionPlugin \<and> \<not> has_crypto_plugin env lockCodeTarget
      then k (crypto_failure Crypto_InvalidCryptographicServiceProvider) m
      else ask_secrets (queryCryptoPluginLockStatus callerPid requestId
             (if lockCodeTargetType = TargetExtensionPlugin then lockCodeTarget else []))
             (\<lambda>r m. k r (if cr_code r = Pending
                then insert_crypto_pending callerPid requestId (QueryLockStatus_ask callerPid lockCodeTargetType lockCodeTarget) m
                else m)) m)"

text \<open>The prompt the three lock code requests pass on, for the plugin and the operation.\<close>

definition lock_code_prompt :: "qstring \<Rightarrow> InteractionOperation \<Rightarrow> CryptoInteractionParameters \<Rightarrow> InteractionParameters" where
  "lock_code_prompt lockCodeTarget operation interactionParameters =
     \<lparr>ip_secretName = [], ip_collectionName = [], ip_pluginName = lockCodeTarget, ip_applicationId = [], ip_operation = operation,
      ip_authenticationPluginName = ci_authenticationPluginName interactionParameters,
      ip_inputType = ci_inputType interactionParameters, ip_echoMode = ci_echoMode interactionParameters\<rparr>"

definition lock_code_request ::
    "crypto_env \<Rightarrow> pid \<Rightarrow> request_id \<Rightarrow> qstring \<Rightarrow> (SecretsBridge \<Rightarrow> Result \<times> SecretsBridge) \<Rightarrow> CryptoPendingParameters
     \<Rightarrow> ('c, 'k) crypto_fun" where
  "lock_code_request env callerPid requestId lockCodeTarget call parameters k m =
     (if \<not> has_crypto_plugin env lockCodeTarget then k (crypto_failure Crypto_InvalidCryptographicServiceProvider) m
      else ask_secrets call
             (\<lambda>r m. k r (if cr_code r = Pending then insert_crypto_pending callerPid requestId parameters m else m)) m)"

definition CryptoProcessor_modifyLockCode ::
    "crypto_env \<Rightarrow> pid \<Rightarrow> request_id \<Rightarrow> LockCodeTargetType \<Rightarrow> qstring \<Rightarrow> CryptoInteractionParameters \<Rightarrow> ('c, 'k) crypto_fun" where
  "CryptoProcessor_modifyLockCode env callerPid requestId lockCodeTargetType lockCodeTarget interactionParameters =
     lock_code_request env callerPid requestId lockCodeTarget
       (modifyCryptoPluginLockCode callerPid requestId lockCodeTarget (lock_code_prompt lockCodeTarget ModifyLockPlugin interactionParameters))
       (ModifyLockCode_ask callerPid lockCodeTargetType lockCodeTarget interactionParameters)"

definition CryptoProcessor_provideLockCode ::
    "crypto_env \<Rightarrow> pid \<Rightarrow> request_id \<Rightarrow> LockCodeTargetType \<Rightarrow> qstring \<Rightarrow> CryptoInteractionParameters \<Rightarrow> ('c, 'k) crypto_fun" where
  "CryptoProcessor_provideLockCode env callerPid requestId lockCodeTargetType lockCodeTarget interactionParameters =
     lock_code_request env callerPid requestId lockCodeTarget
       (provideCryptoPluginLockCode callerPid requestId lockCodeTarget (lock_code_prompt lockCodeTarget UnlockPlugin interactionParameters))
       (ProvideLockCode_ask callerPid lockCodeTargetType lockCodeTarget interactionParameters)"

definition CryptoProcessor_forgetLockCode ::
    "crypto_env \<Rightarrow> pid \<Rightarrow> request_id \<Rightarrow> LockCodeTargetType \<Rightarrow> qstring \<Rightarrow> CryptoInteractionParameters \<Rightarrow> ('c, 'k) crypto_fun" where
  "CryptoProcessor_forgetLockCode env callerPid requestId lockCodeTargetType lockCodeTarget interactionParameters =
     lock_code_request env callerPid requestId lockCodeTarget
       (forgetCryptoPluginLockCode callerPid requestId lockCodeTarget (lock_code_prompt lockCodeTarget LockPlugin interactionParameters))
       (ForgetLockCode_ask callerPid lockCodeTargetType lockCodeTarget interactionParameters)"

subsection \<open>Answers of the secrets daemon\<close>

text \<open>
  The slots for the signals of the bridge. An answer for a request that does not wait is only logged. The request is taken from the waiting ones and
  its type says how it goes on; for a type the signal does not belong to, the code logs and the request is gone. A parameter list of the right type but of the shape
  of another step would be read as other values; such a case is \<open>Crash\<close> here, and never met.
\<close>

definition take_crypto_pending :: "request_id \<Rightarrow> CryptoProcessor \<Rightarrow> CryptoProcessor" where
  "take_crypto_pending requestId m = m\<lparr>cx_pendingRequests := filter (\<lambda>e. fst e \<noteq> requestId) (cx_pendingRequests m)\<rparr>"

definition with_waiting :: "request_id \<Rightarrow> (CryptoPendingRequest \<Rightarrow> ('c, 'k) crypto_handler) \<Rightarrow> ('c, 'k) crypto_handler" where
  "with_waiting requestId go_on m =
     (case map_of (cx_pendingRequests m) requestId of
        None \<Rightarrow> Return m
      | Some pr \<Rightarrow> go_on pr (take_crypto_pending requestId m))"

definition secretsStoredKeyCompleted :: "request_id \<Rightarrow> Result \<Rightarrow> qbytes \<Rightarrow> filter_data \<Rightarrow> ('c, 'k) crypto_handler" where
  "secretsStoredKeyCompleted i result serializedKey filterData =
     with_waiting i (\<lambda>pr. let returnResult = transformSecretsResult result in
       (case cr_parameters pr of
          StoredKey_read ident keyComponents \<Rightarrow> storedKey2 i keyComponents returnResult serializedKey filterData
        | Sign_read data padding digestFunction custom name \<Rightarrow>
            sign_withKey i returnResult serializedKey data padding digestFunction custom name
        | Verify_read signature data padding digestFunction custom name \<Rightarrow>
            verify_withKey i returnResult serializedKey signature data padding digestFunction custom name
        | Encrypt_read data iv blockMode padding authData custom name \<Rightarrow>
            encrypt_withKey i returnResult serializedKey data iv blockMode padding authData custom name
        | Decrypt_read data iv blockMode padding authData tag custom name \<Rightarrow>
            decrypt_withKey i returnResult serializedKey data iv blockMode padding authData tag custom name
        | InitializeCipherSession_read pid iv operation blockMode encPadding sigPadding digestFunction custom name \<Rightarrow>
            initializeCipherSession_withKey i returnResult serializedKey pid iv operation blockMode encPadding sigPadding digestFunction
              custom name
        | Sign_check _ _ _ _ _ _ \<Rightarrow> (\<lambda>m. Crash)
        | Verify_check _ _ _ _ _ _ _ \<Rightarrow> (\<lambda>m. Crash)
        | Encrypt_check _ _ _ _ _ _ _ _ \<Rightarrow> (\<lambda>m. Crash)
        | Decrypt_check _ _ _ _ _ _ _ _ _ \<Rightarrow> (\<lambda>m. Crash)
        | InitializeCipherSession_check _ _ _ _ _ _ _ _ _ \<Rightarrow> (\<lambda>m. Crash)
        | _ \<Rightarrow> Return))"

definition secretsUseKeyPreCheckCompleted :: "request_id \<Rightarrow> Result \<Rightarrow> qbytes \<Rightarrow> ('c, 'k) crypto_handler" where
  "secretsUseKeyPreCheckCompleted i result collectionDecryptionKey =
     with_waiting i (\<lambda>pr. let returnResult = transformSecretsResult result in
       (case cr_parameters pr of
          Sign_check data key padding digestFunction custom provider \<Rightarrow>
            sign_withCollectionKey i data key padding digestFunction custom provider returnResult collectionDecryptionKey
        | Verify_check signature data key padding digestFunction custom provider \<Rightarrow>
            verify_withCollectionKey i signature data key padding digestFunction custom provider returnResult collectionDecryptionKey
        | Encrypt_check data iv key blockMode padding authData custom provider \<Rightarrow>
            encrypt_withCollectionKey i data iv key blockMode padding authData custom provider returnResult collectionDecryptionKey
        | Decrypt_check data iv key blockMode padding authData tag custom provider \<Rightarrow>
            decrypt_withCollectionKey i data iv key blockMode padding authData tag custom provider returnResult collectionDecryptionKey
        | InitializeCipherSession_check iv key operation blockMode encPadding sigPadding digestFunction custom provider \<Rightarrow>
            initializeCipherSession_withCollectionKey i (cr_callerPid pr) iv key operation blockMode encPadding sigPadding digestFunction
              custom provider returnResult collectionDecryptionKey
        | Sign_read _ _ _ _ _ \<Rightarrow> (\<lambda>m. Crash)
        | Verify_read _ _ _ _ _ _ \<Rightarrow> (\<lambda>m. Crash)
        | Encrypt_read _ _ _ _ _ _ _ \<Rightarrow> (\<lambda>m. Crash)
        | Decrypt_read _ _ _ _ _ _ _ _ \<Rightarrow> (\<lambda>m. Crash)
        | InitializeCipherSession_read _ _ _ _ _ _ _ _ _ \<Rightarrow> (\<lambda>m. Crash)
        | _ \<Rightarrow> Return))"

definition secretsStoreKeyPreCheckCompleted :: "crypto_env \<Rightarrow> request_id \<Rightarrow> Result \<Rightarrow> qbytes \<Rightarrow> ('c, 'k) crypto_handler" where
  "secretsStoreKeyPreCheckCompleted env i result collectionDecryptionKey =
     with_waiting i (\<lambda>pr. let returnResult = transformSecretsResult result in
       (case cr_parameters pr of
          GenerateStoredKey_check keyTemplate kpgParams skdfParams uiParams custom provider \<Rightarrow>
            generateStoredKey_afterPreCheck env (cr_callerPid pr) i keyTemplate kpgParams skdfParams uiParams custom provider
              returnResult collectionDecryptionKey
        | ImportStoredKey_check data keyTemplate uiParams custom provider \<Rightarrow>
            importStoredKey_afterPreCheck env (cr_callerPid pr) i data keyTemplate uiParams custom provider returnResult
              collectionDecryptionKey
        | GenerateStoredKey_input _ _ _ _ _ _ \<Rightarrow> (\<lambda>m. Crash)
        | GenerateStoredKey_store _ \<Rightarrow> (\<lambda>m. Crash)
        | ImportStoredKey_input _ _ _ _ _ _ \<Rightarrow> (\<lambda>m. Crash)
        | ImportStoredKey_store _ \<Rightarrow> (\<lambda>m. Crash)
        | _ \<Rightarrow> Return))"

definition secretsStoreKeyCompleted :: "request_id \<Rightarrow> Result \<Rightarrow> ('c, 'k) crypto_handler" where
  "secretsStoreKeyCompleted i result =
     with_waiting i (\<lambda>pr. let returnResult = transformSecretsResult result in
       (case cr_parameters pr of
          GenerateStoredKey_store fullKey \<Rightarrow> generateStoredKey_inStoragePlugin i returnResult fullKey
        | ImportStoredKey_store key \<Rightarrow> importStoredKey_inStoragePlugin i returnResult key
        | GenerateStoredKey_check _ _ _ _ _ _ \<Rightarrow> (\<lambda>m. Crash)
        | GenerateStoredKey_input _ _ _ _ _ _ \<Rightarrow> (\<lambda>m. Crash)
        | ImportStoredKey_check _ _ _ _ _ \<Rightarrow> (\<lambda>m. Crash)
        | ImportStoredKey_input _ _ _ _ _ _ \<Rightarrow> (\<lambda>m. Crash)
        | _ \<Rightarrow> Return))"

definition secretsDeleteStoredKeyCompleted :: "request_id \<Rightarrow> Result \<Rightarrow> ('c, 'k) crypto_handler" where
  "secretsDeleteStoredKeyCompleted i result =
     with_waiting i (\<lambda>pr. case cr_parameters pr of
          DeleteStoredKey_delete ident \<Rightarrow> deleteStoredKey2 i (transformSecretsResult result)
        | _ \<Rightarrow> Return)"

definition secretsStoredKeyIdentifiersCompleted :: "request_id \<Rightarrow> Result \<Rightarrow> Identifier list \<Rightarrow> ('c, 'k) crypto_handler" where
  "secretsStoredKeyIdentifiersCompleted i result idents =
     with_waiting i (\<lambda>pr. case cr_parameters pr of
          StoredKeyIdentifiers_list \<Rightarrow> storedKeyIdentifiers2 i (transformSecretsResult result) idents
        | _ \<Rightarrow> Return)"

definition secretsUserInputCompleted :: "crypto_env \<Rightarrow> request_id \<Rightarrow> Result \<Rightarrow> qbytes \<Rightarrow> ('c, 'k) crypto_handler" where
  "secretsUserInputCompleted env i result input =
     with_waiting i (\<lambda>pr. let returnResult = transformSecretsResult result in
       (case cr_parameters pr of
          GenerateStoredKey_input keyTemplate kpgParams skdfParams custom provider collectionDecryptionKey \<Rightarrow>
            generateStoredKey_withInputData env (cr_callerPid pr) i returnResult keyTemplate kpgParams (skdfParams\<lparr>kdf_inputData := input\<rparr>)
              custom provider collectionDecryptionKey
        | ImportKey_input data uiParams custom provider \<Rightarrow>
            importKey_withPassphrase env (cr_callerPid pr) i data uiParams custom provider returnResult input
        | ImportStoredKey_input data keyTemplate uiParams custom provider collectionDecryptionKey \<Rightarrow>
            importStoredKey_withPassphrase env (cr_callerPid pr) i data keyTemplate uiParams custom provider collectionDecryptionKey
              returnResult input
        | GenerateStoredKey_check _ _ _ _ _ _ \<Rightarrow> (\<lambda>m. Crash)
        | GenerateStoredKey_store _ \<Rightarrow> (\<lambda>m. Crash)
        | ImportStoredKey_check _ _ _ _ _ \<Rightarrow> (\<lambda>m. Crash)
        | ImportStoredKey_store _ \<Rightarrow> (\<lambda>m. Crash)
        | _ \<Rightarrow> Return))"

definition secretsCryptoPluginLockStatusRequestCompleted :: "request_id \<Rightarrow> Result \<Rightarrow> LockStatus \<Rightarrow> ('c, 'k) crypto_handler" where
  "secretsCryptoPluginLockStatusRequestCompleted i result lockStatus =
     with_waiting i (\<lambda>pr. case cr_parameters pr of
          QueryLockStatus_ask pid ty target \<Rightarrow>
            crypto_finish i [CryptoOutResult (transformSecretsResult result), OutCryptoLockStatus lockStatus]
        | _ \<Rightarrow> Return)"

definition secretsCryptoPluginLockCodeRequestCompleted :: "request_id \<Rightarrow> Result \<Rightarrow> ('c, 'k) crypto_handler" where
  "secretsCryptoPluginLockCodeRequestCompleted i result =
     with_waiting i (\<lambda>pr. case cr_parameters pr of
          ModifyLockCode_ask pid ty target ui \<Rightarrow> crypto_finish i [CryptoOutResult (transformSecretsResult result)]
        | ProvideLockCode_ask pid ty target ui \<Rightarrow> crypto_finish i [CryptoOutResult (transformSecretsResult result)]
        | ForgetLockCode_ask pid ty target ui \<Rightarrow> crypto_finish i [CryptoOutResult (transformSecretsResult result)]
        | _ \<Rightarrow> Return)"

text \<open>The connections between the signals and the slots, made when the processor is constructed; and the delivery of an answer.\<close>

primrec deliver_signal :: "crypto_env \<Rightarrow> request_id \<Rightarrow> crypto_signal \<Rightarrow> ('c, 'k) crypto_handler" where
  "deliver_signal env i (storedKeyCompleted r serializedKey filterData) = secretsStoredKeyCompleted i r serializedKey filterData"
| "deliver_signal env i (storedKeyIdentifiersCompleted r idents) = secretsStoredKeyIdentifiersCompleted i r idents"
| "deliver_signal env i (deleteStoredKeyCompleted r) = secretsDeleteStoredKeyCompleted i r"
| "deliver_signal env i (useKeyPreCheckCompleted r key) = secretsUseKeyPreCheckCompleted i r key"
| "deliver_signal env i (storeKeyPreCheckCompleted r key) = secretsStoreKeyPreCheckCompleted env i r key"
| "deliver_signal env i (storeKeyCompleted r) = secretsStoreKeyCompleted i r"
| "deliver_signal env i (userInputCompleted r input) = secretsUserInputCompleted env i r input"
| "deliver_signal env i (cryptoPluginLockStatusRequestCompleted r status) = secretsCryptoPluginLockStatusRequestCompleted i r status"
| "deliver_signal env i (cryptoPluginLockCodeRequestCompleted r) = secretsCryptoPluginLockCodeRequestCompleted i r"

definition deliver_answer :: "crypto_env \<Rightarrow> request_id \<Rightarrow> Result \<Rightarrow> out_param list \<Rightarrow> ('c, 'k) crypto_handler" where
  "deliver_answer env i result parameters m =
     (let (signal, b) = asynchronousCryptoRequestCompleted i result parameters (cx_secrets m);
          m1 = m\<lparr>cx_secrets := b\<rparr>
      in case signal of None \<Rightarrow> Return m1 | Some s \<Rightarrow> deliver_signal env i s m1)"

end
