(* ===== verification/Crypto_Queue.thy ===== *)
theory Crypto_Queue
  imports Crypto_Operations
begin

section \<open>The requests of the cryptography daemon\<close>

text \<open>
  How a call of a client becomes a method of the cryptography request processor: the D-Bus object \<^verbatim>\<open>CryptoDBusObject\<close>, which replaces symbolic
  plugin names, and \<^verbatim>\<open>CryptoRequestQueue::handlePendingRequest\<close> and \<^verbatim>\<open>handleFinishedRequest\<close>
  (src/daemon/CryptoImpl/crypto.cpp). Requests for information on plugins are left out.
\<close>

subsection \<open>Requests\<close>

datatype CryptoRequest =
    GenerateRandomDataRequest nat qstring variant_map qstring
  | SeedRandomDataGeneratorRequest qbytes double qstring variant_map qstring
  | GenerateInitializationVectorRequest int int int variant_map qstring
  | GenerateKeyRequest Key KeyPairGenerationParameters KeyDerivationParameters variant_map qstring
  | GenerateStoredKeyRequest Key KeyPairGenerationParameters KeyDerivationParameters CryptoInteractionParameters variant_map qstring
  | ImportKeyRequest qbytes CryptoInteractionParameters variant_map qstring
  | ImportStoredKeyRequest qbytes Key CryptoInteractionParameters variant_map qstring
  | StoredKeyRequest Identifier int variant_map
  | DeleteStoredKeyRequest Identifier
  | Crypto_StoredKeyIdentifiersRequest qstring qstring variant_map
  | CalculateDigestRequest qbytes int int variant_map qstring
  | SignRequest qbytes Key int int variant_map qstring
  | VerifyRequest qbytes qbytes Key int int variant_map qstring
  | EncryptRequest qbytes qbytes Key int int qbytes variant_map qstring
  | DecryptRequest qbytes qbytes Key int int qbytes qbytes variant_map qstring
  | InitializeCipherSessionRequest qbytes Key int int int int int variant_map qstring
  | UpdateCipherSessionAuthenticationRequest qbytes variant_map qstring nat
  | UpdateCipherSessionRequest qbytes variant_map qstring nat
  | FinalizeCipherSessionRequest qbytes variant_map qstring nat
  | Crypto_QueryLockStatusRequest LockCodeTargetType qstring
  | Crypto_ModifyLockCodeRequest LockCodeTargetType qstring CryptoInteractionParameters
  | Crypto_ProvideLockCodeRequest LockCodeTargetType qstring CryptoInteractionParameters
  | Crypto_ForgetLockCodeRequest LockCodeTargetType qstring CryptoInteractionParameters

subsection \<open>Calls over D-Bus\<close>

definition crypto_mapped :: "crypto_env \<Rightarrow> qstring \<Rightarrow> qstring" where
  "crypto_mapped env = mappedPluginName (ce_environment env)"

definition map_key_identifier :: "crypto_env \<Rightarrow> Identifier \<Rightarrow> Identifier" where
  "map_key_identifier env ident = ident\<lparr>id_storagePluginName := crypto_mapped env (id_storagePluginName ident)\<rparr>"

definition map_key :: "crypto_env \<Rightarrow> Key \<Rightarrow> Key" where
  "map_key env key = key\<lparr>key_identifier := map_key_identifier env (key_identifier key)\<rparr>"

definition map_crypto_parameters :: "crypto_env \<Rightarrow> CryptoInteractionParameters \<Rightarrow> CryptoInteractionParameters" where
  "map_crypto_parameters env ui = ui\<lparr>ci_pluginName := crypto_mapped env (ci_pluginName ui),
     ci_authenticationPluginName := crypto_mapped env (ci_authenticationPluginName ui)\<rparr>"

text \<open>The names inside the interaction parameters of \<open>generateStoredKey\<close> are passed on as they are; all other calls replace them.\<close>

definition crypto_dbus_generateRandomData ::
    "crypto_env \<Rightarrow> nat \<Rightarrow> qstring \<Rightarrow> variant_map \<Rightarrow> qstring \<Rightarrow> CryptoRequest" where
  "crypto_dbus_generateRandomData env n engine custom provider =
     GenerateRandomDataRequest n engine custom (crypto_mapped env provider)"

definition crypto_dbus_seedRandomDataGenerator ::
    "crypto_env \<Rightarrow> qbytes \<Rightarrow> double \<Rightarrow> qstring \<Rightarrow> variant_map \<Rightarrow> qstring \<Rightarrow> CryptoRequest" where
  "crypto_dbus_seedRandomDataGenerator env seed entropy engine custom provider =
     SeedRandomDataGeneratorRequest seed entropy engine custom (crypto_mapped env provider)"

definition crypto_dbus_generateInitializationVector ::
    "crypto_env \<Rightarrow> int \<Rightarrow> int \<Rightarrow> int \<Rightarrow> variant_map \<Rightarrow> qstring \<Rightarrow> CryptoRequest" where
  "crypto_dbus_generateInitializationVector env algorithm blockMode keySize custom provider =
     GenerateInitializationVectorRequest algorithm blockMode keySize custom (crypto_mapped env provider)"

definition crypto_dbus_generateKey ::
    "crypto_env \<Rightarrow> Key \<Rightarrow> KeyPairGenerationParameters \<Rightarrow> KeyDerivationParameters \<Rightarrow> variant_map \<Rightarrow> qstring \<Rightarrow> CryptoRequest" where
  "crypto_dbus_generateKey env key kpg skdf custom provider =
     GenerateKeyRequest (map_key env key) kpg skdf custom (crypto_mapped env provider)"

definition crypto_dbus_generateStoredKey ::
    "crypto_env \<Rightarrow> Key \<Rightarrow> KeyPairGenerationParameters \<Rightarrow> KeyDerivationParameters \<Rightarrow> CryptoInteractionParameters \<Rightarrow> variant_map \<Rightarrow> qstring \<Rightarrow> CryptoRequest" where
  "crypto_dbus_generateStoredKey env key kpg skdf ui custom provider =
     GenerateStoredKeyRequest (map_key env key) kpg skdf ui custom (crypto_mapped env provider)"

definition crypto_dbus_importKey ::
    "crypto_env \<Rightarrow> qbytes \<Rightarrow> CryptoInteractionParameters \<Rightarrow> variant_map \<Rightarrow> qstring \<Rightarrow> CryptoRequest" where
  "crypto_dbus_importKey env data ui custom provider =
     ImportKeyRequest data (map_crypto_parameters env ui) custom (crypto_mapped env provider)"

definition crypto_dbus_importStoredKey ::
    "crypto_env \<Rightarrow> qbytes \<Rightarrow> Key \<Rightarrow> CryptoInteractionParameters \<Rightarrow> variant_map \<Rightarrow> qstring \<Rightarrow> CryptoRequest" where
  "crypto_dbus_importStoredKey env data key ui custom provider =
     ImportStoredKeyRequest data (map_key env key) (map_crypto_parameters env ui) custom (crypto_mapped env provider)"

definition crypto_dbus_storedKey ::
    "crypto_env \<Rightarrow> Identifier \<Rightarrow> int \<Rightarrow> variant_map \<Rightarrow> CryptoRequest" where
  "crypto_dbus_storedKey env ident comps custom =
     StoredKeyRequest (map_key_identifier env ident) comps custom"

definition crypto_dbus_deleteStoredKey ::
    "crypto_env \<Rightarrow> Identifier \<Rightarrow> CryptoRequest" where
  "crypto_dbus_deleteStoredKey env ident =
     DeleteStoredKeyRequest (map_key_identifier env ident)"

definition crypto_dbus_storedKeyIdentifiers ::
    "crypto_env \<Rightarrow> qstring \<Rightarrow> qstring \<Rightarrow> variant_map \<Rightarrow> CryptoRequest" where
  "crypto_dbus_storedKeyIdentifiers env sp c custom =
     Crypto_StoredKeyIdentifiersRequest (crypto_mapped env sp) c custom"

definition crypto_dbus_calculateDigest ::
    "crypto_env \<Rightarrow> qbytes \<Rightarrow> int \<Rightarrow> int \<Rightarrow> variant_map \<Rightarrow> qstring \<Rightarrow> CryptoRequest" where
  "crypto_dbus_calculateDigest env data padding digest custom provider =
     CalculateDigestRequest data padding digest custom (crypto_mapped env provider)"

definition crypto_dbus_sign ::
    "crypto_env \<Rightarrow> qbytes \<Rightarrow> Key \<Rightarrow> int \<Rightarrow> int \<Rightarrow> variant_map \<Rightarrow> qstring \<Rightarrow> CryptoRequest" where
  "crypto_dbus_sign env data key padding digest custom provider =
     SignRequest data (map_key env key) padding digest custom (crypto_mapped env provider)"

definition crypto_dbus_verify ::
    "crypto_env \<Rightarrow> qbytes \<Rightarrow> qbytes \<Rightarrow> Key \<Rightarrow> int \<Rightarrow> int \<Rightarrow> variant_map \<Rightarrow> qstring \<Rightarrow> CryptoRequest" where
  "crypto_dbus_verify env signature data key padding digest custom provider =
     VerifyRequest signature data (map_key env key) padding digest custom (crypto_mapped env provider)"

definition crypto_dbus_encrypt ::
    "crypto_env \<Rightarrow> qbytes \<Rightarrow> qbytes \<Rightarrow> Key \<Rightarrow> int \<Rightarrow> int \<Rightarrow> qbytes \<Rightarrow> variant_map \<Rightarrow> qstring \<Rightarrow> CryptoRequest" where
  "crypto_dbus_encrypt env data iv key blockMode padding auth custom provider =
     EncryptRequest data iv (map_key env key) blockMode padding auth custom (crypto_mapped env provider)"

definition crypto_dbus_decrypt ::
    "crypto_env \<Rightarrow> qbytes \<Rightarrow> qbytes \<Rightarrow> Key \<Rightarrow> int \<Rightarrow> int \<Rightarrow> qbytes \<Rightarrow> qbytes \<Rightarrow> variant_map \<Rightarrow> qstring \<Rightarrow> CryptoRequest" where
  "crypto_dbus_decrypt env data iv key blockMode padding auth tag custom provider =
     DecryptRequest data iv (map_key env key) blockMode padding auth tag custom (crypto_mapped env provider)"

definition crypto_dbus_initializeCipherSession ::
    "crypto_env \<Rightarrow> qbytes \<Rightarrow> Key \<Rightarrow> int \<Rightarrow> int \<Rightarrow> int \<Rightarrow> int \<Rightarrow> int \<Rightarrow> variant_map \<Rightarrow> qstring \<Rightarrow> CryptoRequest" where
  "crypto_dbus_initializeCipherSession env iv key operation blockMode encPadding sigPadding digest custom provider =
     InitializeCipherSessionRequest iv (map_key env key) operation blockMode encPadding sigPadding digest custom (crypto_mapped env provider)"

definition crypto_dbus_updateCipherSessionAuthentication ::
    "crypto_env \<Rightarrow> qbytes \<Rightarrow> variant_map \<Rightarrow> qstring \<Rightarrow> nat \<Rightarrow> CryptoRequest" where
  "crypto_dbus_updateCipherSessionAuthentication env auth custom provider token =
     UpdateCipherSessionAuthenticationRequest auth custom (crypto_mapped env provider) token"

definition crypto_dbus_updateCipherSession ::
    "crypto_env \<Rightarrow> qbytes \<Rightarrow> variant_map \<Rightarrow> qstring \<Rightarrow> nat \<Rightarrow> CryptoRequest" where
  "crypto_dbus_updateCipherSession env data custom provider token =
     UpdateCipherSessionRequest data custom (crypto_mapped env provider) token"

definition crypto_dbus_finalizeCipherSession ::
    "crypto_env \<Rightarrow> qbytes \<Rightarrow> variant_map \<Rightarrow> qstring \<Rightarrow> nat \<Rightarrow> CryptoRequest" where
  "crypto_dbus_finalizeCipherSession env data custom provider token =
     FinalizeCipherSessionRequest data custom (crypto_mapped env provider) token"

definition crypto_dbus_queryLockStatus ::
    "crypto_env \<Rightarrow> LockCodeTargetType \<Rightarrow> qstring \<Rightarrow> CryptoRequest" where
  "crypto_dbus_queryLockStatus env ty target =
     Crypto_QueryLockStatusRequest ty (crypto_mapped env target)"

definition crypto_dbus_modifyLockCode ::
    "crypto_env \<Rightarrow> LockCodeTargetType \<Rightarrow> qstring \<Rightarrow> CryptoInteractionParameters \<Rightarrow> CryptoRequest" where
  "crypto_dbus_modifyLockCode env ty target ui =
     Crypto_ModifyLockCodeRequest ty (crypto_mapped env target) (map_crypto_parameters env ui)"

definition crypto_dbus_provideLockCode ::
    "crypto_env \<Rightarrow> LockCodeTargetType \<Rightarrow> qstring \<Rightarrow> CryptoInteractionParameters \<Rightarrow> CryptoRequest" where
  "crypto_dbus_provideLockCode env ty target ui =
     Crypto_ProvideLockCodeRequest ty (crypto_mapped env target) (map_crypto_parameters env ui)"

definition crypto_dbus_forgetLockCode ::
    "crypto_env \<Rightarrow> LockCodeTargetType \<Rightarrow> qstring \<Rightarrow> CryptoInteractionParameters \<Rightarrow> CryptoRequest" where
  "crypto_dbus_forgetLockCode env ty target ui =
     Crypto_ForgetLockCodeRequest ty (crypto_mapped env target) (map_crypto_parameters env ui)"

subsection \<open>Handling a request\<close>

text \<open>
  A result other than \<^verbatim>\<open>Pending\<close> is sent at once, with the unset outputs of the request. The lock status of a refused query is an uninitialised
  variable, whatever memory holds: \<open>garbage\<close>.
\<close>

primrec crypto_handlePendingRequest ::
    "crypto_env \<Rightarrow> LockStatus \<Rightarrow> pid \<Rightarrow> request_id \<Rightarrow> CryptoRequest \<Rightarrow> ('c, 'k) crypto_handler" where
  "crypto_handlePendingRequest env garbage pid i (GenerateRandomDataRequest n engine custom provider) =
     CryptoProcessor_generateRandomData env pid i n engine custom provider (crypto_finish_unless_pending i [OutData []])"
| "crypto_handlePendingRequest env garbage pid i (SeedRandomDataGeneratorRequest seed entropy engine custom provider) =
     CryptoProcessor_seedRandomDataGenerator env pid i seed entropy engine custom provider (crypto_finish_unless_pending i [])"
| "crypto_handlePendingRequest env garbage pid i (GenerateInitializationVectorRequest algorithm blockMode keySize custom provider) =
     CryptoProcessor_generateInitializationVector env pid i algorithm blockMode keySize custom provider
       (crypto_finish_unless_pending i [OutData []])"
| "crypto_handlePendingRequest env garbage pid i (GenerateKeyRequest key kpg skdf custom provider) =
     CryptoProcessor_generateKey env pid i key kpg skdf custom provider (crypto_finish_unless_pending i [OutKey new_Key])"
| "crypto_handlePendingRequest env garbage pid i (GenerateStoredKeyRequest key kpg skdf ui custom provider) =
     CryptoProcessor_generateStoredKey env pid i key kpg skdf ui custom provider (crypto_finish_unless_pending i [OutKey new_Key])"
| "crypto_handlePendingRequest env garbage pid i (ImportKeyRequest data ui custom provider) =
     CryptoProcessor_importKey env pid i data ui custom provider [] (crypto_finish_unless_pending i [OutKey new_Key])"
| "crypto_handlePendingRequest env garbage pid i (ImportStoredKeyRequest data key ui custom provider) =
     CryptoProcessor_importStoredKey env pid i data key ui custom provider (crypto_finish_unless_pending i [OutKey new_Key])"
| "crypto_handlePendingRequest env garbage pid i (StoredKeyRequest ident comps custom) =
     CryptoProcessor_storedKey env pid i ident comps custom (\<lambda>r key. crypto_finish_unless_pending i [OutKey key] r)"
| "crypto_handlePendingRequest env garbage pid i (DeleteStoredKeyRequest ident) =
     CryptoProcessor_deleteStoredKey env pid i ident (crypto_finish_unless_pending i [])"
| "crypto_handlePendingRequest env garbage pid i (Crypto_StoredKeyIdentifiersRequest sp c custom) =
     CryptoProcessor_storedKeyIdentifiers env pid i sp c custom (crypto_finish_unless_pending i [OutKeyIdentifiers []])"
| "crypto_handlePendingRequest env garbage pid i (CalculateDigestRequest data padding digest custom provider) =
     CryptoProcessor_calculateDigest env pid i data padding digest custom provider (crypto_finish_unless_pending i [OutData []])"
| "crypto_handlePendingRequest env garbage pid i (SignRequest data key padding digest custom provider) =
     CryptoProcessor_sign env pid i data key padding digest custom provider (crypto_finish_unless_pending i [OutData []])"
| "crypto_handlePendingRequest env garbage pid i (VerifyRequest signature data key padding digest custom provider) =
     CryptoProcessor_verify env pid i signature data key padding digest custom provider
       (crypto_finish_unless_pending i [OutVerificationStatus 0])"
| "crypto_handlePendingRequest env garbage pid i (EncryptRequest data iv key blockMode padding auth custom provider) =
     CryptoProcessor_encrypt env pid i data iv key blockMode padding auth custom provider
       (crypto_finish_unless_pending i [OutData [], OutData []])"
| "crypto_handlePendingRequest env garbage pid i (DecryptRequest data iv key blockMode padding auth tag custom provider) =
     CryptoProcessor_decrypt env pid i data iv key blockMode padding auth tag custom provider
       (crypto_finish_unless_pending i [OutData [], OutVerificationStatus 0])"
| "crypto_handlePendingRequest env garbage pid i
       (InitializeCipherSessionRequest iv key operation blockMode encPadding sigPadding digest custom provider) =
     CryptoProcessor_initializeCipherSession env pid i iv key operation blockMode encPadding sigPadding digest custom provider
       (crypto_finish_unless_pending i [OutCipherSessionToken 0])"
| "crypto_handlePendingRequest env garbage pid i (UpdateCipherSessionAuthenticationRequest auth custom provider token) =
     CryptoProcessor_updateCipherSessionAuthentication env pid i auth custom provider token (crypto_finish_unless_pending i [])"
| "crypto_handlePendingRequest env garbage pid i (UpdateCipherSessionRequest data custom provider token) =
     CryptoProcessor_updateCipherSession env pid i data custom provider token (crypto_finish_unless_pending i [OutData []])"
| "crypto_handlePendingRequest env garbage pid i (FinalizeCipherSessionRequest data custom provider token) =
     CryptoProcessor_finalizeCipherSession env pid i data custom provider token
       (crypto_finish_unless_pending i [OutData [], OutVerificationStatus 0])"
| "crypto_handlePendingRequest env garbage pid i (Crypto_QueryLockStatusRequest ty target) =
     CryptoProcessor_queryLockStatus env pid i ty target (crypto_finish_unless_pending i [OutCryptoLockStatus garbage])"
| "crypto_handlePendingRequest env garbage pid i (Crypto_ModifyLockCodeRequest ty target ui) =
     CryptoProcessor_modifyLockCode env pid i ty target ui (crypto_finish_unless_pending i [])"
| "crypto_handlePendingRequest env garbage pid i (Crypto_ProvideLockCodeRequest ty target ui) =
     CryptoProcessor_provideLockCode env pid i ty target ui (crypto_finish_unless_pending i [])"
| "crypto_handlePendingRequest env garbage pid i (Crypto_ForgetLockCodeRequest ty target ui) =
     CryptoProcessor_forgetLockCode env pid i ty target ui (crypto_finish_unless_pending i [])"

subsection \<open>Replying to a finished request\<close>

text \<open>
  The outputs of a request's type, with what stands in for one that is missing. A finished cipher session has a third output,
  an initialisation vector, that the interface does not declare.
\<close>

primrec crypto_default_outputs :: "CryptoRequest \<Rightarrow> crypto_out list" where
  "crypto_default_outputs (GenerateRandomDataRequest n engine custom provider) = [OutData []]"
| "crypto_default_outputs (SeedRandomDataGeneratorRequest seed entropy engine custom provider) = []"
| "crypto_default_outputs (GenerateInitializationVectorRequest algorithm blockMode keySize custom provider) = [OutData []]"
| "crypto_default_outputs (GenerateKeyRequest key kpg skdf custom provider) = [OutKey new_Key]"
| "crypto_default_outputs (GenerateStoredKeyRequest key kpg skdf ui custom provider) = [OutKey new_Key]"
| "crypto_default_outputs (ImportKeyRequest data ui custom provider) = [OutKey new_Key]"
| "crypto_default_outputs (ImportStoredKeyRequest data key ui custom provider) = [OutKey new_Key]"
| "crypto_default_outputs (StoredKeyRequest ident comps custom) = [OutKey new_Key]"
| "crypto_default_outputs (DeleteStoredKeyRequest ident) = []"
| "crypto_default_outputs (Crypto_StoredKeyIdentifiersRequest sp c custom) = [OutKeyIdentifiers []]"
| "crypto_default_outputs (CalculateDigestRequest data padding digest custom provider) = [OutData []]"
| "crypto_default_outputs (SignRequest data key padding digest custom provider) = [OutData []]"
| "crypto_default_outputs (VerifyRequest signature data key padding digest custom provider) = [OutVerificationStatus 0]"
| "crypto_default_outputs (EncryptRequest data iv key blockMode padding auth custom provider) = [OutData [], OutData []]"
| "crypto_default_outputs (DecryptRequest data iv key blockMode padding auth tag custom provider) = [OutData [], OutVerificationStatus 0]"
| "crypto_default_outputs (InitializeCipherSessionRequest iv key operation blockMode encPadding sigPadding digest custom provider) =
     [OutCipherSessionToken 0, OutData []]"
| "crypto_default_outputs (UpdateCipherSessionAuthenticationRequest auth custom provider token) = []"
| "crypto_default_outputs (UpdateCipherSessionRequest data custom provider token) = [OutData []]"
| "crypto_default_outputs (FinalizeCipherSessionRequest data custom provider token) = [OutData [], OutVerificationStatus 0]"
| "crypto_default_outputs (Crypto_QueryLockStatusRequest ty target) = [OutCryptoLockStatus Unknown]"
| "crypto_default_outputs (Crypto_ModifyLockCodeRequest ty target ui) = []"
| "crypto_default_outputs (Crypto_ProvideLockCodeRequest ty target ui) = []"
| "crypto_default_outputs (Crypto_ForgetLockCodeRequest ty target ui) = []"

definition crypto_handleFinishedRequest :: "CryptoRequest \<Rightarrow> crypto_out list \<Rightarrow> crypto_out list option" where
  "crypto_handleFinishedRequest req outParams =
     (let (result, rest) = (case outParams of CryptoOutResult r # os \<Rightarrow> (r, os) | _ \<Rightarrow> (crypto_failure Crypto_UnknownError, []));
          defaults = crypto_default_outputs req
      in if cr_code result = Pending then None
         else Some (CryptoOutResult result # take (length defaults) rest @ drop (length rest) defaults))"

end
