(* ===== verification/Request_Protocol.thy ===== *)
theory Request_Protocol
  imports Secrets_Queue
begin

section \<open>Every request is answered once\<close>

text \<open>
  What the request queue and its clients rely on: however jobs come out, a request is answered by one call of
  \<^verbatim>\<open>requestFinished\<close>, or it is kept among the pending requests for the answer of the user. A crash of the daemon is the only other way out.
\<close>

subsection \<open>The protocol\<close>

text \<open>
  The state of the processor. The pending requests are a map, each under its own identifier, and authentication plugins behave as documented:
  \<open>beginAuthentication\<close> has not succeeded when it returns, since the success is reported by the signal.
\<close>

definition processor_ok :: "'a RequestProcessor \<Rightarrow> bool" where
  "processor_ok m \<longleftrightarrow> qmap_ok (rp_pendingRequests m) \<and> list_all (\<lambda>(i, pr). pr_requestId pr = i) (rp_pendingRequests m)
     \<and> (\<forall>n h pid i s. map_of (rp_authenticationPlugins m) n = Some h
          \<longrightarrow> res_code (fst (ap_beginAuthentication (ah_plugin h) pid i s)) \<noteq> Succeeded)"

text \<open>
  The documented behaviour of storage plugins: the questions for the names of their collections and for the lock state of a collection
  are answered at once. A job keeps it when it exchanges no plugin.
\<close>

definition prompt_storage :: "'s StorageHost \<Rightarrow> bool" where
  "prompt_storage h \<longleftrightarrow> (\<forall>s. res_code (fst (sp_collectionNames (sh_plugin h) s)) \<noteq> Pending)"

definition prompt_encrypted :: "'c EncryptedHost \<Rightarrow> bool" where
  "prompt_encrypted h \<longleftrightarrow> (\<forall>s. res_code (fst (es_collectionNames (eh_plugin h) s)) \<noteq> Pending)
     \<and> (\<forall>c l s. res_code (fst (es_isCollectionLocked (eh_plugin h) c l s)) \<noteq> Pending)"

definition answering :: "('e, 's, 'c) plugin_maps \<Rightarrow> bool" where
  "answering p \<longleftrightarrow> (\<forall>(n, h) \<in> set (pm_storage p). prompt_storage h) \<and> (\<forall>(n, h) \<in> set (pm_encryptedStorage p). prompt_encrypted h)"

definition keeps_answering :: "(('e, 's, 'c) plugin_maps \<Rightarrow> ('x \<times> ('e, 's, 'c) plugin_maps) option) \<Rightarrow> bool" where
  "keeps_answering f \<longleftrightarrow> (\<forall>p x p'. answering p \<longrightarrow> f p = Some (x, p') \<longrightarrow> answering p')"

definition same_requests :: "'a RequestProcessor \<Rightarrow> 'a RequestProcessor \<Rightarrow> bool" where
  "same_requests m m' \<longleftrightarrow> rp_replies m' = rp_replies m \<and> rp_pendingRequests m' = rp_pendingRequests m"

text \<open>From \<open>m\<close> to \<open>m'\<close> the request \<open>i\<close> has been answered, or is waiting for the user; no other request has been touched.\<close>

definition settled_by :: "request_id \<Rightarrow> 'a RequestProcessor \<Rightarrow> 'a RequestProcessor \<Rightarrow> bool" where
  "settled_by i m m' \<longleftrightarrow>
     (\<exists>outs. rp_replies m' = rp_replies m @ [(i, outs)]) \<and> rp_pendingRequests m' = rp_pendingRequests m
     \<or> rp_replies m' = rp_replies m \<and> (\<exists>pr. rp_pendingRequests m' = qmap_insert i pr (rp_pendingRequests m))"

text \<open>
  A run settles the request when it does so itself and queues nothing, or touches no request and leaves it to the
  lambda of the one job it queues or waits for, in whatever state the lambda finds.
\<close>

inductive settles :: "request_id \<Rightarrow> 'a RequestProcessor \<Rightarrow> ('e, 's, 'c, 'a) main_run \<Rightarrow> bool" for i where
  settles_Return: "settled_by i m m' \<Longrightarrow> processor_ok m' \<Longrightarrow> settles i m (Return m')"
| settles_Crash: "settles i m Crash"
| settles_Post: "same_requests m m' \<Longrightarrow> processor_ok m' \<Longrightarrow> keeps_answering j
    \<Longrightarrow> (\<And>p c p' m1. answering p \<Longrightarrow> j p = Some (c, p') \<Longrightarrow> processor_ok m1 \<Longrightarrow> settles i m1 (c m1)) \<Longrightarrow> settles i m (Post j (Return m'))"
| settles_Await: "same_requests m m' \<Longrightarrow> processor_ok m' \<Longrightarrow> keeps_answering j
    \<Longrightarrow> (\<And>p c p'. answering p \<Longrightarrow> j p = Some (c, p') \<Longrightarrow> settles i m (c m')) \<Longrightarrow> settles i m (Await j m')"

text \<open>What a method may be continued with: \<^verbatim>\<open>Pending\<close> means that there is nothing more to do.\<close>

definition answers :: "request_id \<Rightarrow> (Result \<Rightarrow> ('e, 's, 'c, 'a) handler) \<Rightarrow> bool" where
  "answers i k \<longleftrightarrow> (\<forall>r m. if res_code r = Pending then k r m = Return m else processor_ok m \<longrightarrow> settles i m (k r m))"

subsection \<open>Jobs exchange no plugin\<close>

lemma set_qmap_insert: "set (qmap_insert k v m) \<subseteq> insert (k, v) (set m)"
  by (induction k v m rule: qmap_insert.induct) auto

lemma keeps_answering_if [simp]:
  "keeps_answering (if b then f else g) = (if b then keeps_answering f else keeps_answering g)"
  by simp

lemma keeps_answering_map [simp]: "keeps_answering f \<Longrightarrow> keeps_answering (\<lambda>p. map_option (map_prod c id) (f p))"
  by (auto simp: keeps_answering_def)

lemma answering_storage:
  "answering p \<Longrightarrow> prompt_storage h \<Longrightarrow> answering (p\<lparr>pm_storage := qmap_insert n h (pm_storage p)\<rparr>)"
  using set_qmap_insert [of n h "pm_storage p"] by (auto simp: answering_def)

lemma answering_encrypted:
  "answering p \<Longrightarrow> prompt_encrypted h \<Longrightarrow> answering (p\<lparr>pm_encryptedStorage := qmap_insert n h (pm_encryptedStorage p)\<rparr>)"
  using set_qmap_insert [of n h "pm_encryptedStorage p"] by (auto simp: answering_def)

lemma answering_lookup:
  "answering p \<Longrightarrow> map_of (pm_storage p) n = Some h \<Longrightarrow> prompt_storage h"
  "answering p \<Longrightarrow> map_of (pm_encryptedStorage p) n = Some e \<Longrightarrow> prompt_encrypted e"
  by (auto simp: answering_def dest!: map_of_SomeD)

lemma prompt_wrapper [simp]:
  "prompt_storage (sh_wrapper_update f h) = prompt_storage h"
  "prompt_encrypted (eh_wrapper_update g e) = prompt_encrypted e"
  by (simp_all add: prompt_storage_def prompt_encrypted_def)

lemma keeps_answering_on_plugin [simp]:
  "keeps_answering (on_storage_plugin n f)"
  "keeps_answering (on_encrypted_plugin n g)"
  "keeps_answering (on_encryption_plugin n u)"
  "keeps_answering (on_encryption_and_storage_plugin n' n v)"
  by (auto simp: keeps_answering_def on_storage_plugin_def on_encrypted_plugin_def on_encryption_plugin_def
      on_encryption_and_storage_plugin_def case_prod_unfold Let_def
      intro!: answering_storage answering_encrypted dest: answering_lookup split: option.splits)

lemma keeps_answering_jobs [simp]:
  "keeps_answering (collection_metadata_job env sp c)"
  "keeps_answering (standalone_metadata_job env sp n)"
  "keeps_answering (is_locked_job sp c)"
  "keeps_answering (derive_key_job itself sp ep code salt)"
  "keeps_answering (create_collection_job sp ep cm key)"
  by (simp_all add: collection_metadata_job_def standalone_metadata_job_def is_locked_job_def derive_key_job_def
      create_collection_job_def)

lemma answering_specific:
  "answering p \<Longrightarrow> answering (snd (on_specific_plugin fs fc fe target p))"
  by (auto simp: on_specific_plugin_def case_prod_unfold Let_def
      intro!: answering_storage answering_encrypted dest: answering_lookup split: option.splits)
     (simp add: answering_def)

primrec prompt_store :: "('s, 'c) key_store \<Rightarrow> bool" where
  "prompt_store NoKeyStore = True"
| "prompt_store (KeyStorage h) = prompt_storage h"
| "prompt_store (KeyCryptoStorage h c) = prompt_encrypted h"
| "prompt_store (KeyEncryptedStorage h) = prompt_encrypted h"

lemma prompt_store_of: "answering p \<Longrightarrow> prompt_store (key_store_of env n p)"
  by (auto simp: key_store_of_def dest: answering_lookup split: option.split)

lemma answering_put_key_store: "answering p \<Longrightarrow> prompt_store store \<Longrightarrow> answering (put_key_store n p store)"
  by (cases store) (auto intro: answering_storage answering_encrypted)

lemma storedKeyIdentifiers_store:
  "prompt_store store \<Longrightarrow> prompt_store (snd (snd (storedKeyIdentifiers params store)))"
  by (cases store) (auto simp: storedKeyIdentifiers_def case_prod_unfold Let_def)

lemma storedKeyIdentifiersFromCollection_store:
  "prompt_store store \<Longrightarrow> storedKeyIdentifiersFromCollection info params store = Some (r, ids, store') \<Longrightarrow> prompt_store store'"
  by (cases store) (auto simp: storedKeyIdentifiersFromCollection_def case_prod_unfold Let_def split: if_splits)

lemma for_each_plugin_all:
  assumes "\<And>h. Q h \<Longrightarrow> Q (snd (f h))" and "\<forall>h \<in> set hs. Q h"
  shows "\<forall>h \<in> set (snd (for_each_plugin f hs)). Q h"
  using assms(2) by (induction hs) (auto simp: case_prod_unfold Let_def assms(1))

definition keeps_prompt ::
    "('s StorageHost list \<Rightarrow> 'c EncryptedHost list \<Rightarrow> bool \<times> 's StorageHost list \<times> 'c EncryptedHost list) \<Rightarrow> bool" where
  "keeps_prompt f \<longleftrightarrow> (\<forall>hs es ok hs' es'. f hs es = (ok, hs', es')
     \<longrightarrow> (\<forall>h \<in> set hs. prompt_storage h) \<longrightarrow> (\<forall>e \<in> set es. prompt_encrypted e)
     \<longrightarrow> (\<forall>h \<in> set hs'. prompt_storage h) \<and> (\<forall>e \<in> set es'. prompt_encrypted e))"

lemma prompt_on_host [simp]:
  "prompt_storage (snd (on_storage f h)) = prompt_storage h"
  "prompt_encrypted (snd (on_encrypted g e)) = prompt_encrypted e"
  by (simp_all add: on_storage_def on_encrypted_def case_prod_unfold Let_def)

lemma keeps_prompt_master [simp]:
  "keeps_prompt masterLockPlugins"
  "keeps_prompt (\<lambda>hs es. masterUnlockPlugins hs es key)"
  "keeps_prompt (\<lambda>hs es. modifyMasterLockPlugins hs es oldKey newKey)"
  unfolding keeps_prompt_def masterLockPlugins_def masterUnlockPlugins_def modifyMasterLockPlugins_def case_prod_unfold Let_def
  by (clarsimp, intro conjI for_each_plugin_all, simp_all)+

lemma answering_all_metadata:
  assumes "keeps_prompt f" and "answering p"
  shows "answering (snd (on_all_metadata f p))"
proof -
  obtain ok hs es where f: "f (map snd (pm_storage p)) (map snd (pm_encryptedStorage p)) = (ok, hs, es)"
    by (metis prod_cases3)
  have "\<forall>h \<in> set (map snd (pm_storage p)). prompt_storage h" "\<forall>e \<in> set (map snd (pm_encryptedStorage p)). prompt_encrypted e"
    using assms(2) by (auto simp: answering_def)
  with assms(1) f have "\<forall>h \<in> set hs. prompt_storage h" "\<forall>e \<in> set es. prompt_encrypted e"
    unfolding keeps_prompt_def by blast+
  with f show ?thesis by (auto simp: answering_def on_all_metadata_def dest: set_zip_rightD)
qed

lemma answering_reencrypt: "answering p \<Longrightarrow> answering (reencrypt_device_locked oldKey newKey p)"
  by (auto simp: answering_def reencrypt_device_locked_def)

lemma keeps_answering_specific_plugin [simp]: "keeps_answering (\<lambda>p. Some (on_specific_plugin fs fc fe target p))"
  using answering_specific [of _ fs fc fe target] by (auto simp: keeps_answering_def) (metis snd_conv)

lemma keeps_answering_metadata [simp]:
  assumes "keeps_prompt f"
  shows "keeps_answering (\<lambda>p. Some (on_all_metadata f p))"
    and "keeps_answering (\<lambda>p. Some (fst (on_all_metadata f p), reencrypt_device_locked oldKey newKey (snd (on_all_metadata f p))))"
  using answering_all_metadata [OF assms] answering_reencrypt unfolding keeps_answering_def by (metis option.inject snd_conv)+

lemma keeps_answering_question [simp]: "keeps_answering (\<lambda>p. Some (u p, p))"
  by (simp add: keeps_answering_def)

lemma keeps_answering_keys [simp]:
  "keeps_answering (\<lambda>p. map_option (\<lambda>(r, ids, store). ((r, ids), put_key_store n p store))
     (storedKeyIdentifiersFromCollection info params (key_store_of env n p)))"
  by (auto simp: keeps_answering_def
      intro!: answering_put_key_store dest!: storedKeyIdentifiersFromCollection_store [OF prompt_store_of, rotated])

lemma keeps_answering_all_keys [simp]:
  "keeps_answering (\<lambda>p. let (r, ids, store) = storedKeyIdentifiers params (key_store_of env n p) in Some ((r, ids), put_key_store n p store))"
  using storedKeyIdentifiers_store [OF prompt_store_of]
  by (auto simp: keeps_answering_def case_prod_unfold Let_def intro!: answering_put_key_store)

subsection \<open>The steps keep to it\<close>

lemma same_requests_refl [simp]: "same_requests m m"
  by (simp add: same_requests_def)

lemma answers_pending [simp]: "answers i k \<Longrightarrow> res_code r = Pending \<Longrightarrow> k r m = Return m"
  by (auto simp: answers_def split: if_splits)

lemma answers_result [intro]: "answers i k \<Longrightarrow> res_code r \<noteq> Pending \<Longrightarrow> processor_ok m \<Longrightarrow> settles i m (k r m)"
  by (auto simp: answers_def split: if_splits)

lemma settles_finish [simp, intro]: "processor_ok m \<Longrightarrow> settles i m (finish i outs m)"
  by (auto simp: finish_def requestFinished_call_def settled_by_def processor_ok_def intro!: settles_Return)

lemma settles_finish_changed: "processor_ok m' \<Longrightarrow> same_requests m m' \<Longrightarrow> settles i m (finish i outs m')"
  by (auto simp: finish_def requestFinished_call_def settled_by_def same_requests_def processor_ok_def intro!: settles_Return)

lemma answers_finish_unless_pending [simp, intro]: "answers i (finish_unless_pending i others)"
  by (simp add: answers_def finish_unless_pending_def)

lemma settles_cong:
  assumes "settles i m th" and "same_requests m0 m"
  shows "settles i m0 th"
  using assms by (induction arbitrary: m0)
    (auto simp: settled_by_def same_requests_def intro!: settles.intros)

lemma settles_run:
  assumes "processor_ok m'" and "same_requests m m'" and "keeps_answering f"
    and "\<And>p x p' m1. answering p \<Longrightarrow> f p = Some (x, p') \<Longrightarrow> processor_ok m1 \<Longrightarrow> settles i m1 (c x m1)"
  shows "settles i m (run f c (Return m'))"
  using assms by (auto simp: run_def intro!: settles_Post)

lemma settles_await:
  assumes "processor_ok m" and "keeps_answering f" and "\<And>p x p'. answering p \<Longrightarrow> f p = Some (x, p') \<Longrightarrow> settles i m (c x m)"
  shows "settles i m (await f c m)"
  using assms by (auto simp: await_def intro!: settles_Await)

text \<open>The metadata is never still to come, and neither is a lock state.\<close>

lemma metadata_not_pending [simp]:
  "res_code (fst (PluginWrapper_collectionMetadata c cm w)) \<noteq> Pending"
  "res_code (fst (PluginWrapper_secretMetadata c n sm w)) \<noteq> Pending"
  by (auto simp: PluginWrapper_collectionMetadata_def PluginWrapper_secretMetadata_def MetadataDatabase_collectionMetadata_def
      MetadataDatabase_secretMetadata_def case_prod_unfold Let_def split: if_splits option.splits)

lemma collection_metadata_job_not_pending:
  "collection_metadata_job env sp c p = Some ((r, cm), p') \<Longrightarrow> res_code r \<noteq> Pending"
  by (auto simp: collection_metadata_job_def on_encrypted_plugin_def on_storage_plugin_def with_output_def
      EncryptedStoragePluginFunctionWrapper_collectionMetadata_def StoragePluginFunctionWrapper_collectionMetadata_def
      case_prod_unfold Let_def split: if_splits option.splits)

lemma standalone_metadata_job_not_pending:
  "standalone_metadata_job env sp n p = Some ((r, sm), p') \<Longrightarrow> res_code r \<noteq> Pending"
  by (auto simp: standalone_metadata_job_def on_encrypted_plugin_def on_storage_plugin_def with_output_def
      EncryptedStoragePluginFunctionWrapper_secretMetadata_def StoragePluginFunctionWrapper_secretMetadata_def
      case_prod_unfold Let_def split: if_splits option.splits)

lemma is_locked_job_not_pending:
  "answering p \<Longrightarrow> is_locked_job sp c p = Some ((r, locked), p') \<Longrightarrow> res_code r \<noteq> Pending"
  by (auto simp: is_locked_job_def on_encrypted_plugin_def with_output_def prompt_encrypted_def
      EncryptedStoragePluginFunctionWrapper_isCollectionLocked_def EncryptedStoragePluginWrapper_isCollectionLocked_def
      case_prod_unfold Let_def dest!: answering_lookup(2) split: option.splits)

text \<open>So a result of these jobs that is handed on ends the request.\<close>

lemma locked_result_settles [intro]:
  "is_locked_job sp c p = Some ((r, locked), p') \<Longrightarrow> answering p \<Longrightarrow> answers i k \<Longrightarrow> processor_ok m \<Longrightarrow> settles i m (k r m)"
  using is_locked_job_not_pending answers_result by blast

lemma metadata_result_settles [intro]:
  "collection_metadata_job env sp c p = Some ((r, cm), p') \<Longrightarrow> processor_ok m
   \<Longrightarrow> settles i m (finish_unless_pending i others r m)"
  "standalone_metadata_job env sp n p = Some ((r, sm), p') \<Longrightarrow> processor_ok m
   \<Longrightarrow> settles i m (finish_unless_pending i others r m)"
  using collection_metadata_job_not_pending standalone_metadata_job_not_pending answers_result [OF answers_finish_unless_pending]
  by blast+

lemma answers_pending_fun [simp]: "answers i k \<Longrightarrow> k pending = Return"
  by (rule ext) simp

lemma processor_ok_updates [simp]:
  "processor_ok (rp_collectionEncryptionKeys_update f m) = processor_ok m"
  "processor_ok (rp_standaloneSecretEncryptionKeys_update g m) = processor_ok m"
  "processor_ok (remember_key env c sp relock key m) = processor_ok m"
  "processor_ok (remember_standalone_key env ident key m) = processor_ok m"
  "processor_ok (rp_lock_update u m) = processor_ok m"
  "processor_ok (rp_lockUses_update v m) = processor_ok m"
  by (simp_all add: processor_ok_def remember_key_def remember_standalone_key_def Let_def)

lemma processor_ok_insert_pending [simp]: "processor_ok m \<Longrightarrow> processor_ok (insert_pending pid i parameters m)"
  using set_qmap_insert [of i "\<lparr>pr_callerPid = pid, pr_requestId = i, pr_parameters = parameters\<rparr>" "rp_pendingRequests m"]
  by (fastforce simp: processor_ok_def insert_pending_def list_all_iff)

lemma processor_ok_take_pending [simp]: "processor_ok m \<Longrightarrow> processor_ok (take_pending i m)"
  by (auto simp: processor_ok_def take_pending_def list_all_iff qmap_ok_filter)

lemma same_requests_updates [simp]:
  "same_requests m (rp_collectionEncryptionKeys_update f m)"
  "same_requests m (rp_standaloneSecretEncryptionKeys_update g m)"
  "same_requests m (remember_key env c sp relock key m)"
  "same_requests m (remember_standalone_key env ident key m)"
  "same_requests m (put_authentication_plugin name h s m)"
  "same_requests m (rp_lock_update u m)"
  "same_requests m (rp_lockUses_update v (rp_lock_update u m))"
  by (simp_all add: same_requests_def remember_key_def remember_standalone_key_def put_authentication_plugin_def Let_def)

lemma processor_ok_put [simp]:
  assumes "processor_ok m" and "map_of (rp_authenticationPlugins m) name = Some h"
  shows "processor_ok (put_authentication_plugin name h s m)"
  using assms by (simp add: processor_ok_def put_authentication_plugin_def)

lemma settled_by_pending [simp]: "same_requests m m' \<Longrightarrow> settled_by i m (insert_pending pid i parameters m')"
  by (auto simp: settled_by_def same_requests_def insert_pending_def)

lemma begin_authentication_settles [intro]:
  assumes "answers i k" and "processor_ok m"
  shows "settles i m (begin_authentication env pid i parameters k m)"
proof (cases "map_of (rp_authenticationPlugins m) (system_authentication_plugin env)")
  case None
  then show ?thesis by (simp add: begin_authentication_def settles_Crash)
next
  case (Some h)
  obtain r s where r: "ap_beginAuthentication (ah_plugin h) pid i (ah_state h) = (r, s)" by fastforce
  with Some assms(2) have "res_code r \<noteq> Succeeded" unfolding processor_ok_def by (metis fst_conv)
  then consider "res_code r = Failed" | "res_code r = Pending" by (cases "res_code r") auto
  then show ?thesis
  proof cases
    case 1
    with assms Some have "settles i (put_authentication_plugin (system_authentication_plugin env) h s m)
      (k r (put_authentication_plugin (system_authentication_plugin env) h s m))" by auto
    with 1 Some r show ?thesis by (auto simp: begin_authentication_def intro: settles_cong)
  next
    case 2
    with assms Some r show ?thesis by (auto simp: begin_authentication_def intro!: settles_Return)
  qed
qed

lemma begin_user_input_settles [intro]:
  assumes "answers i k" and "processor_ok m"
  shows "settles i m (begin_user_input name pid i prompt address parameters k m)"
proof (cases "map_of (rp_authenticationPlugins m) name")
  case None
  then show ?thesis by (simp add: begin_user_input_def settles_Crash)
next
  case (Some h)
  obtain r s where r: "ap_beginUserInputInteraction (ah_plugin h) pid i prompt address (ah_state h) = (r, s)" by fastforce
  have "settles i m (k r (put_authentication_plugin name h s m))" if "res_code r = Failed"
    using settles_cong [OF answers_result [OF assms(1), of r "put_authentication_plugin name h s m"]] that assms(2) Some by simp
  with assms Some r show ?thesis by (auto simp: begin_user_input_def Let_def intro!: settles_Return)
qed

lemma ask_to_unlock_settles [intro]:
  "answers i k \<Longrightarrow> processor_ok m
   \<Longrightarrow> settles i m (ask_to_unlock env check pid i device mode auth address prompt verified entered k m)"
  by (auto simp: ask_to_unlock_def)

lemma with_collection_key_settles [intro]:
  assumes "answers i k" and "processor_ok m" and "\<And>m. processor_ok m \<Longrightarrow> settles i m (askPlugin m)"
    and "\<And>m. processor_ok m \<Longrightarrow> settles i m (ask m)" and "\<And>key m. processor_ok m \<Longrightarrow> settles i m (use key m)"
  shows "settles i m (with_collection_key env viaPlugin sp c k openKey askPlugin ask use m)"
  using assms by (auto simp: with_collection_key_def intro!: settles_await split: option.split)

lemma when_unlocked_settles [intro]:
  assumes "answers i k" and "processor_ok m" and "\<And>m. processor_ok m \<Longrightarrow> settles i m (whenLocked m)"
    and "\<And>m. processor_ok m \<Longrightarrow> settles i m (whenOpen m)"
  shows "settles i m (when_unlocked env sp c k whenLocked whenOpen m)"
  using assms by (auto simp: when_unlocked_def intro!: settles_await)

lemma with_collection_metadata_settles [intro]:
  assumes "answers i k" and "processor_ok m"
    and "\<And>metadata k m. answers i k \<Longrightarrow> processor_ok m \<Longrightarrow> settles i m (proceed metadata k m)"
  shows "settles i m (with_collection_metadata env i others sp c proceed k m)"
    using assms by (auto simp: with_collection_metadata_def intro!: settles_run)

lemma with_derived_key_settles [intro]:
  assumes "answers i k" and "processor_ok m" and "\<And>key m. processor_ok m \<Longrightarrow> settles i m (proceed key m)"
  shows "settles i m (with_derived_key i others sp ep code proceed k m)"
  using assms by (auto simp: with_derived_key_def intro!: settles_run)

subsection \<open>The methods keep to it\<close>

text \<open>The last step of a request: one job, whose lambda answers.\<close>

lemma last_steps_settle [intro]:
  assumes "processor_ok m"
  shows "settles i m (createCustomLockCollectionWithEncryptionKey env pid i c sp ep ap sem acm mode addr key Return m)"
    and "settles i m (deleteCollectionWithLockCode env pid i c sp mode addr cm key Return m)"
    and "settles i m (deleteCollectionWithEncryptionKey env pid i c sp mode addr cm key Return m)"
    and "settles i m (storedKeyIdentifiersWithEncryptionKey env pid i c sp cp mode addr cm key locked Return m)"
    and "settles i m (setCollectionSecretWithEncryptionKey env pid i secret mode addr cm key Return m)"
    and "settles i m (getCollectionSecretWithEncryptionKey env pid i ident mode addr cm key Return m)"
    and "settles i m (findCollectionSecretsWithEncryptionKey env pid i c sp flt op mode addr cm key Return m)"
    and "settles i m (deleteCollectionSecretWithEncryptionKey env pid i ident mode addr cm key Return m)"
    and "settles i m (setStandaloneCustomLockSecretWithEncryptionKey env pid i secret sm key Return m)"
    and "settles i m (getStandaloneSecretWithEncryptionKey env pid i ident mode addr sm key Return m)"
    and "settles i m (key_pre_check newSecret i ident cm key Return m)"
  using assms
  by (auto simp: createCustomLockCollectionWithEncryptionKey_def deleteCollectionWithLockCode_def
      deleteCollectionWithEncryptionKey_def collection_deleted_def storedKeyIdentifiersWithEncryptionKey_def
      setCollectionSecretWithEncryptionKey_def getCollectionSecretWithEncryptionKey_def
      findCollectionSecretsWithEncryptionKey_def deleteCollectionSecretWithEncryptionKey_def
      setStandaloneCustomLockSecretWithEncryptionKey_def getStandaloneSecretWithEncryptionKey_def key_pre_check_def Let_def
      intro!: settles_run settles_finish_changed)

text \<open>The step before, with a code the user has entered.\<close>

lemma code_steps_settle [intro]:
  assumes "answers i k" and "processor_ok m"
  shows "settles i m (createCustomLockCollectionWithAuthenticationCode env pid i c sp ep ap sem acm mode addr code k m)"
    and "settles i m (storedKeyIdentifiersWithAuthenticationCode env pid i c sp cp mode addr cm code k m)"
    and "settles i m (setCollectionSecretWithAuthenticationCode env pid i secret mode addr cm code k m)"
    and "settles i m (getCollectionSecretWithAuthenticationCode env pid i ident mode addr cm code k m)"
    and "settles i m (findCollectionSecretsWithAuthenticationCode env pid i c sp flt op mode addr cm code k m)"
    and "settles i m (deleteCollectionSecretWithAuthenticationCode env pid i ident mode addr cm code k m)"
    and "settles i m (setStandaloneCustomLockSecretWithAuthenticationCode env pid i secret sm code k m)"
    and "settles i m (getStandaloneSecretWithAuthenticationCode env pid i ident mode addr sm code k m)"
    and "settles i m (key_pre_check_with_code env newSecret i ident cm code k m)"
  using assms
  by (auto simp: createCustomLockCollectionWithAuthenticationCode_def storedKeyIdentifiersWithAuthenticationCode_def
      setCollectionSecretWithAuthenticationCode_def getCollectionSecretWithAuthenticationCode_def
      findCollectionSecretsWithAuthenticationCode_def deleteCollectionSecretWithAuthenticationCode_def
      setStandaloneCustomLockSecretWithAuthenticationCode_def getStandaloneSecretWithAuthenticationCode_def
      key_pre_check_with_code_def Let_def intro!: settles_run)

text \<open>The steps that check access and lock state.\<close>

lemma access_denied_not_pending [dest]: "access_denied env pid acm owner = Some r \<Longrightarrow> res_code r \<noteq> Pending"
  by (auto simp: access_denied_def split: if_splits)

lemma access_denied_settles [intro]:
  "access_denied env pid acm owner = Some r \<Longrightarrow> answers i k \<Longrightarrow> processor_ok m \<Longrightarrow> settles i m (k r m)"
  by auto

lemma finish_unless_pending_settles [intro]:
  "res_code r \<noteq> Pending \<Longrightarrow> processor_ok m \<Longrightarrow> settles i m (finish_unless_pending i others r m)"
  by (rule answers_result [OF answers_finish_unless_pending])

lemma deleteCollectionWithMetadata_settles [intro]:
  "answers i k \<Longrightarrow> processor_ok m \<Longrightarrow> settles i m (deleteCollectionWithMetadata env pid i c sp mode addr cm k m)"
  by (auto simp: deleteCollectionWithMetadata_def collection_access_denied_def Let_def split: option.split)

lemma storedKeyIdentifiersWithMetadata_settles [intro]:
  "answers i k \<Longrightarrow> processor_ok m \<Longrightarrow> settles i m (storedKeyIdentifiersWithMetadata env pid i c sp cp mode addr cm k m)"
  by (auto simp: storedKeyIdentifiersWithMetadata_def collection_access_denied_def Let_def split: option.split)

lemma setCollectionSecretGetAuthenticationCode_settles [intro]:
  "answers i k \<Longrightarrow> processor_ok m \<Longrightarrow> settles i m (setCollectionSecretGetAuthenticationCode env pid i secret mode addr cm k m)"
  by (auto simp: setCollectionSecretGetAuthenticationCode_def Let_def)

lemma setCollectionSecretWithMetadata_settles [intro]:
  "answers i k \<Longrightarrow> processor_ok m \<Longrightarrow> settles i m (setCollectionSecretWithMetadata env pid i secret ui mode addr cm k m)"
  by (auto simp: setCollectionSecretWithMetadata_def collection_access_denied_def Let_def split: option.split)

lemma getCollectionSecretWithMetadata_settles [intro]:
  "answers i k \<Longrightarrow> processor_ok m \<Longrightarrow> settles i m (getCollectionSecretWithMetadata env pid i ident mode addr cm k m)"
  by (auto simp: getCollectionSecretWithMetadata_def collection_access_denied_def Let_def split: option.split)

lemma findCollectionSecretsWithMetadata_settles [intro]:
  "answers i k \<Longrightarrow> processor_ok m \<Longrightarrow> settles i m (findCollectionSecretsWithMetadata env pid i c sp flt op mode addr cm k m)"
  by (auto simp: findCollectionSecretsWithMetadata_def collection_access_denied_def Let_def split: option.split)

lemma deleteCollectionSecretWithMetadata_settles [intro]:
  "answers i k \<Longrightarrow> processor_ok m \<Longrightarrow> settles i m (deleteCollectionSecretWithMetadata env pid i ident mode addr cm k m)"
  by (auto simp: deleteCollectionSecretWithMetadata_def collection_access_denied_def Let_def
      intro!: with_collection_key_settles answers_result [of i k] ask_to_unlock_settles split: option.split)

lemma key_pre_check_with_metadata_settles [intro]:
  "answers i k \<Longrightarrow> processor_ok m
   \<Longrightarrow> settles i m (key_pre_check_with_metadata env newSecret pid i ident mode verified entered cm k m)"
  by (auto simp: key_pre_check_with_metadata_def collection_access_denied_def Let_def split: option.split)

lemma key_pre_checks_with_metadata_settle [intro]:
  assumes "answers i k" and "processor_ok m"
  shows "settles i m (useCollectionKeyPreCheckWithMetadata env pid i ident operation cp mode cm k m)"
    and "settles i m (setCollectionKeyPreCheckWithMetadata env pid i ident mode cm k m)"
  using assms by (auto simp: useCollectionKeyPreCheckWithMetadata_def setCollectionKeyPreCheckWithMetadata_def)

lemma getStandaloneSecretWithMetadata_settles [intro]:
  "answers i k \<Longrightarrow> processor_ok m \<Longrightarrow> settles i m (getStandaloneSecretWithMetadata env pid i ident mode addr sm k m)"
  by (auto simp: getStandaloneSecretWithMetadata_def Let_def split: option.split)

lemma deleteStandaloneSecretWithMetadata_settles [intro]:
  "answers i k \<Longrightarrow> processor_ok m \<Longrightarrow> settles i m (deleteStandaloneSecretWithMetadata env pid i ident mode sm k m)"
  by (auto simp: deleteStandaloneSecretWithMetadata_def Let_def intro!: settles_run settles_finish_changed split: option.split)

lemma writeStandaloneDeviceLockSecret_settles [intro]:
  "answers i k \<Longrightarrow> processor_ok m \<Longrightarrow> settles i m (writeStandaloneDeviceLockSecret env pid i secret sm k m)"
  by (auto simp: writeStandaloneDeviceLockSecret_def intro!: settles_run settles_finish_changed)

lemma setStandaloneDeviceLockSecretWithMetadata_settles [intro]:
  "answers i k \<Longrightarrow> processor_ok m \<Longrightarrow> settles i m (setStandaloneDeviceLockSecretWithMetadata env pid i secret ui addr sm k m)"
  by (auto simp: setStandaloneDeviceLockSecretWithMetadata_def)

lemma setStandaloneCustomLockSecretGetAuthenticationCode_settles [intro]:
  "answers i k \<Longrightarrow> processor_ok m
   \<Longrightarrow> settles i m (setStandaloneCustomLockSecretGetAuthenticationCode env pid i secret mode addr sm k m)"
  by (auto simp: setStandaloneCustomLockSecretGetAuthenticationCode_def)

lemma setStandaloneCustomLockSecretWithMetadata_settles [intro]:
  "answers i k \<Longrightarrow> processor_ok m \<Longrightarrow> settles i m (setStandaloneCustomLockSecretWithMetadata env pid i secret ui mode addr sm k m)"
  by (auto simp: setStandaloneCustomLockSecretWithMetadata_def)

lemma unless_standalone_exists_settles [intro]:
  assumes "answers i k" and "processor_ok m" and "\<And>k m. answers i k \<Longrightarrow> processor_ok m \<Longrightarrow> settles i m (proceed k m)"
  shows "settles i m (unless_standalone_exists env i ident proceed k m)"
  using assms by (auto simp: unless_standalone_exists_def intro!: settles_run finish_unless_pending_settles)

subsection \<open>Requests\<close>

lemma invalid_identifier_settles [intro]:
  "invalid_identifier env ident = Some r \<Longrightarrow> answers i k \<Longrightarrow> processor_ok m \<Longrightarrow> settles i m (k r m)"
  by (auto simp: invalid_identifier_def split: if_splits)

lemma invalid_standalone_settles [intro]:
  "invalid_standalone env ident ep = Some r \<Longrightarrow> answers i k \<Longrightarrow> processor_ok m \<Longrightarrow> settles i m (k r m)"
  by (auto simp: invalid_standalone_def Let_def split: if_splits)

lemmas metadata_jobs_not_pending = collection_metadata_job_not_pending standalone_metadata_job_not_pending

lemma create_collection_settles:
  "answers i k \<Longrightarrow> processor_ok m \<Longrightarrow> settles i m (createDeviceLockCollection env pid i c sp ep sem acm k m)"
  by (simp add: createDeviceLockCollection_def answers_result settles_run settles_finish_changed)

lemma create_custom_collection_settles:
  "answers i k \<Longrightarrow> processor_ok m \<Longrightarrow> settles i m (createCustomLockCollection env pid i c sp ep ap sem acm mode addr k m)"
  by (simp add: createCustomLockCollection_def answers_result begin_user_input_settles)

lemma collection_requests_settle:
  assumes "answers i k" and "processor_ok m"
  shows "settles i m (RequestProcessor_collectionNames env pid i sp k m)"
    and "settles i m (deleteCollection env pid i c sp mode addr k m)"
    and "settles i m (userInput env pid i ui k m)"
  using assms
  by (auto simp: RequestProcessor_collectionNames_def deleteCollection_def userInput_def Let_def dest: metadata_jobs_not_pending
      intro!: settles_run settles_finish_changed finish_unless_pending_settles deleteCollectionWithMetadata_settles)

lemma secret_requests_settle:
  assumes "answers i k" and "processor_ok m"
  shows "settles i m (setCollectionSecret env pid i secret ui mode addr k m)"
    and "settles i m (getCollectionSecret env pid i ident mode addr k m)"
    and "settles i m (findCollectionSecrets env pid i c sp flt op mode addr k m)"
    and "settles i m (findStandaloneSecrets env pid i sp flt op mode addr k m)"
    and "settles i m (deleteCollectionSecret env pid i ident mode addr k m)"
    and "settles i m (useCollectionKeyPreCheck env pid i ident operation cp mode k m)"
    and "settles i m (setCollectionKeyPreCheck env pid i ident mode k m)"
  using assms
  by (auto simp: setCollectionSecret_def getCollectionSecret_def findCollectionSecrets_def findStandaloneSecrets_def
      deleteCollectionSecret_def useCollectionKeyPreCheck_def setCollectionKeyPreCheck_def split: option.split)

lemma standalone_requests_settle:
  assumes "answers i k" and "processor_ok m"
  shows "settles i m (setStandaloneDeviceLockSecret env pid i secret ep ui sem acm mode addr k m)"
    and "settles i m (setStandaloneCustomLockSecret env pid i secret ep ap ui sem acm mode addr k m)"
    and "settles i m (getStandaloneSecret env pid i ident mode addr k m)"
    and "settles i m (deleteStandaloneSecret env pid i ident mode addr k m)"
  using assms
  by (auto simp: setStandaloneDeviceLockSecret_def setStandaloneCustomLockSecret_def getStandaloneSecret_def
      deleteStandaloneSecret_def settles_Crash Let_def dest: metadata_jobs_not_pending
      intro!: settles_run finish_unless_pending_settles getStandaloneSecretWithMetadata_settles
        deleteStandaloneSecretWithMetadata_settles split: option.split)

subsection \<open>Lock codes\<close>

lemma specific_plugin_not_pending:
  "lockSpecificPlugin target p = ((found, r), p') \<Longrightarrow> res_code r \<noteq> Pending"
  "unlockSpecificPlugin target code p = ((found, r), p') \<Longrightarrow> res_code r \<noteq> Pending"
  "modifyLockSpecificPlugin target codes p = ((found, r), p') \<Longrightarrow> res_code r \<noteq> Pending"
  by (auto simp: lockSpecificPlugin_def unlockSpecificPlugin_def modifyLockSpecificPlugin_def on_specific_plugin_def lock_plugin_def
      unlock_plugin_def modify_lock_plugin_def case_prod_unfold Let_def split: option.splits if_splits)

lemma keeps_answering_specific [simp]:
  "keeps_answering (\<lambda>p. Some (lockSpecificPlugin target p))"
  "keeps_answering (\<lambda>p. Some (unlockSpecificPlugin target code p))"
  "keeps_answering (\<lambda>p. Some (modifyLockSpecificPlugin target codes p))"
  by (cases codes; simp add: lockSpecificPlugin_def unlockSpecificPlugin_def modifyLockSpecificPlugin_def)+

lemma crypto_lock_not_pending:
  "lock_crypto_plugin env n answer = Some r \<Longrightarrow> res_code r \<noteq> Pending"
  by (auto simp: lock_crypto_plugin_def split: option.splits if_splits)

lemma lock_authentication_plugin_settles:
  assumes "answers i k" and "processor_ok m" and "map_of (rp_authenticationPlugins m) n = Some h"
  shows "settles i m (lock_authentication_plugin f n h k m)"
proof -
  obtain ok s where s: "f (ah_plugin h) (ah_state h) = (ok, s)" by fastforce
  have "settles i m (k r (put_authentication_plugin n h s m))" if "res_code r \<noteq> Pending" for r
    by (rule settles_cong [OF answers_result [OF assms(1) that]]) (simp_all add: assms)
  with assms s show ?thesis by (auto simp: lock_authentication_plugin_def)
qed

lemma lock_target_settles:
  assumes "answers i k" and "processor_ok m" and "keeps_answering (\<lambda>p. Some (job p))"
    and "\<And>p found r p'. job p = ((found, r), p') \<Longrightarrow> res_code r \<noteq> Pending"
    and "\<And>r. crypto = Some r \<Longrightarrow> res_code r \<noteq> Pending"
  shows "settles i m (lock_target job f crypto target k m)"
  using assms by (fastforce simp: lock_target_def intro!: settles_await settles_Crash lock_authentication_plugin_settles split: option.split)

lemma use_lock_ok [simp]:
  "use_lock env f m = (x, m') \<Longrightarrow> processor_ok m \<Longrightarrow> processor_ok m'"
  "use_lock env f m = (x, m') \<Longrightarrow> same_requests m m'"
  by (auto simp: use_lock_def case_prod_unfold Let_def)

lemma initialize_master_lock_settles:
  assumes "processor_ok m" and "\<And>ok m'. processor_ok m' \<Longrightarrow> same_requests m m' \<Longrightarrow> settles i m (k ok m')"
  shows "settles i m (initialize_master_lock env code mode k m)"
  using assms by (auto simp: initialize_master_lock_def intro!: settles_Crash split: option.split)

lemma ask_lock_code_settles [intro]:
  "answers i k \<Longrightarrow> processor_ok m \<Longrightarrow> settles i m (ask_lock_code env pid i ui addr parameters prompt k m)"
  by (auto simp: ask_lock_code_def Let_def)

lemma platform_only_not_pending: "platform_only env pid ty target = Some r \<Longrightarrow> res_code r \<noteq> Pending"
  by (auto simp: platform_only_def split: if_splits)

lemma answers_result_changed:
  "answers i k \<Longrightarrow> res_code r \<noteq> Pending \<Longrightarrow> processor_ok m' \<Longrightarrow> same_requests m m' \<Longrightarrow> settles i m (k r m')"
  using settles_cong answers_result by blast

lemma settles_await_changed:
  assumes "processor_ok m'" and "same_requests m m'" and "keeps_answering f"
    and "\<And>p x p'. answering p \<Longrightarrow> f p = Some (x, p') \<Longrightarrow> settles i m' (c x m')"
  shows "settles i m (await f c m')"
  using settles_cong [OF settles_await [OF assms(1,3)]] assms(2,4) by blast

lemma unlock_metadata_settles:
  "answers i k \<Longrightarrow> processor_ok m' \<Longrightarrow> same_requests m m' \<Longrightarrow> settles i m (unlock_metadata k m')"
  by (auto simp: unlock_metadata_def intro!: settles_await_changed)

lemma lock_code_questions_settle:
  assumes "answers i k" and "processor_ok m"
  shows "settles i m (modifyLockCode env pid i ty target ui mode addr k m)"
    and "settles i m (modifyLockCodeWithLockCode env pid i ty target ui mode addr code k m)"
  using assms by (auto simp: modifyLockCode_def modifyLockCodeWithLockCode_def dest: platform_only_not_pending split: option.split)

lemma provideLockCode_settles:
  "answers i k \<Longrightarrow> processor_ok m \<Longrightarrow> settles i m (provideLockCode env pid i ty target ui mode addr k m)"
  by (auto simp: provideLockCode_def dest: platform_only_not_pending
      intro!: ask_lock_code_settles initialize_master_lock_settles split: option.split)
     (auto intro: answers_result_changed unlock_metadata_settles)

lemma forgetLockCode_settles:
  "answers i k \<Longrightarrow> processor_ok m \<Longrightarrow> settles i m (forgetLockCode env pid i ty target ui mode addr k m)"
  by (auto simp: forgetLockCode_def lockCryptoPlugin_def dest: platform_only_not_pending crypto_lock_not_pending specific_plugin_not_pending
      intro!: lock_target_settles initialize_master_lock_settles split: option.split)
     (auto intro!: settles_await_changed intro: answers_result_changed)

lemma modifyLockCodeWithLockCodes_settles [intro]:
  assumes "answers i k" and "processor_ok m"
  shows "settles i m (modifyLockCodeWithLockCodes env pid i ty target ui mode addr old new k m)"
proof (cases "ty = TargetExtensionPlugin")
  case True
  with assms show ?thesis
    by (auto simp: modifyLockCodeWithLockCodes_def setLockCodeCryptoPlugin_def
        dest: crypto_lock_not_pending specific_plugin_not_pending intro!: lock_target_settles)
next
  case False
  obtain correct m1 where m1: "use_lock env (\<lambda>e. testLockCode e old) m = (correct, m1)" by fastforce
  with assms(2) have "processor_ok m1" "same_requests m m1" by auto
  with False m1 assms(1) show ?thesis
    by (auto simp: modifyLockCodeWithLockCodes_def case_prod_unfold Let_def
        intro!: answers_result_changed initialize_master_lock_settles settles_await_changed settles_cong [of i m1 _ m])
qed

lemma provideLockCodeWithLockCode_settles [intro]:
  assumes "answers i k" and "processor_ok m"
  shows "settles i m (provideLockCodeWithLockCode env pid i ty target ui mode addr code k m)"
proof (cases "ty = TargetExtensionPlugin")
  case True
  with assms show ?thesis
    by (auto simp: provideLockCodeWithLockCode_def unlockCryptoPlugin_def
        dest: crypto_lock_not_pending specific_plugin_not_pending intro!: lock_target_settles)
next
  case False
  obtain correct m1 where m1: "use_lock env (\<lambda>e. testLockCode e code) m = (correct, m1)" by fastforce
  with assms(2) have "processor_ok m1" "same_requests m m1" by auto
  with False m1 assms(1) show ?thesis
    by (auto simp: provideLockCodeWithLockCode_def intro: answers_result_changed
        intro!: initialize_master_lock_settles settles_cong [of i m1 _ m])
       (auto intro: answers_result_changed unlock_metadata_settles)
qed


text \<open>Requests with an answer of their own.\<close>

lemma queryLockStatus_settles:
  assumes "\<And>r status m. res_code r \<noteq> Pending \<Longrightarrow> processor_ok m \<Longrightarrow> settles i m (k (r, status) m)" and "processor_ok m"
  shows "settles i m (queryLockStatus env pid i ty target k m)"
  using assms
  by (auto simp: queryLockStatus_def queryLockSpecificPlugin_def queryLockStatusCryptoPlugin_def intro!: settles_await settles_Crash
      split: option.splits)

lemma keyNames_not_pending:
  "res_code (fst (PluginWrapper_keyNames c w)) \<noteq> Pending"
  "res_code (fst (CryptoStoragePluginWrapper_keyNames e c params w)) \<noteq> Pending"
  by (auto simp: PluginWrapper_keyNames_def CryptoStoragePluginWrapper_keyNames_def MetadataDatabase_keyNames_def
      case_prod_unfold Let_def split: option.splits)

lemma stored_keys_of_collections_not_pending:
  assumes "\<And>c w. res_code (fst (names c w)) \<noteq> Pending" and "res_code r \<noteq> Pending"
  shows "res_code (fst (stored_keys_of_collections names n cs r ids w)) \<noteq> Pending"
  using assms(2) by (induction cs arbitrary: r ids w) (auto simp: assms(1) case_prod_unfold Let_def)

lemma stored_keys_of_plugin_not_pending:
  assumes "\<And>c w. res_code (fst (names c w)) \<noteq> Pending" and "res_code (fst (cnames w)) \<noteq> Pending"
  shows "res_code (fst (stored_keys_of_plugin cnames names n w)) \<noteq> Pending"
  using assms by (simp add: stored_keys_of_plugin_def stored_keys_of_collections_not_pending case_prod_unfold Let_def)

lemma collectionNames_not_pending:
  "prompt_storage h \<Longrightarrow> res_code (fst (StoragePluginWrapper_collectionNames (sh_plugin h) w)) \<noteq> Pending"
  "prompt_encrypted e \<Longrightarrow> res_code (fst (EncryptedStoragePluginWrapper_collectionNames (eh_plugin e) v)) \<noteq> Pending"
  by (simp_all add: prompt_storage_def prompt_encrypted_def StoragePluginWrapper_collectionNames_def
      EncryptedStoragePluginWrapper_collectionNames_def case_prod_unfold Let_def)

lemma storedKeyIdentifiers_not_pending:
  "prompt_store store \<Longrightarrow> res_code (fst (storedKeyIdentifiers params store)) \<noteq> Pending"
  by (cases store) (simp_all add: storedKeyIdentifiers_def case_prod_unfold Let_def keyNames_not_pending
      collectionNames_not_pending stored_keys_of_plugin_not_pending)

lemma storedKeyIdentifiers_settles:
  assumes "\<And>ids. answers i (\<lambda>r. k (r, ids))" and "processor_ok m"
  shows "settles i m (RequestProcessor_storedKeyIdentifiers env pid i c sp params mode addr k m)"
proof -
  let ?job = "\<lambda>p. let (r, ids, store) = storedKeyIdentifiers params (key_store_of env sp p) in Some ((r, ids), put_key_store sp p store)"
  have "settles i m (k x m)" if "answering p" and "?job p = Some (x, p')" for p x p'
  proof -
    obtain r ids store where s: "storedKeyIdentifiers params (key_store_of env sp p) = (r, ids, store)" by (metis prod_cases3)
    with storedKeyIdentifiers_not_pending [OF prompt_store_of [OF that(1)], of params env sp] have "res_code r \<noteq> Pending" by simp
    with answers_result [OF assms(1)] assms(2) that(2) s show ?thesis by auto
  qed
  then have "settles i m (await ?job k m)"
    by (rule settles_await [OF assms(2) keeps_answering_all_keys])
  with assms answers_result [OF assms(1)] show ?thesis
    by (auto simp: RequestProcessor_storedKeyIdentifiers_def)
qed

subsection \<open>Every request settles\<close>

lemma unless_daemon_locked_settles:
  assumes "processor_ok m" and "\<And>k m. answers i k \<Longrightarrow> processor_ok m \<Longrightarrow> settles i m (f k m)"
  shows "settles i m (unless_daemon_locked i outs f m)"
  using assms by (auto simp: unless_daemon_locked_def)

lemma unless_plugin_locked_settles:
  assumes "processor_ok m" and "\<And>k m. answers i k \<Longrightarrow> processor_ok m \<Longrightarrow> settles i m (f k m)"
  shows "settles i m (unless_plugin_locked ty i f m)"
  using assms by (auto simp: unless_plugin_locked_def unless_daemon_locked_settles)

lemma handlePendingRequest_settles:
  assumes "processor_ok m"
  shows "settles i m (handlePendingRequest env pid i req m)"
proof (cases req)
  case GetHealthInfo
  obtain h g m1 where u: "use_lock env getHealthInfo m = ((h, g), m1)" by (metis surj_pair)
  with assms have "processor_ok m1" "same_requests m m1" by auto
  with GetHealthInfo u show ?thesis
    by (auto simp: finish_unless_pending_def intro: settles_finish_changed)
next
  case (QueryLockStatus ty target)
  with assms show ?thesis by (auto intro!: queryLockStatus_settles)
next
  case (StoredKeyIdentifiers c sp custom mode addr)
  with assms show ?thesis by (auto intro!: storedKeyIdentifiers_settles)
qed (auto intro!: unless_daemon_locked_settles unless_plugin_locked_settles assms create_collection_settles create_custom_collection_settles
    collection_requests_settle secret_requests_settle
    standalone_requests_settle lock_code_questions_settle provideLockCode_settles forgetLockCode_settles)

lemma with_user_input_settles:
  assumes "answers (pr_requestId pr) k" and "processor_ok m"
  shows "settles (pr_requestId pr) m (with_user_input env pr input k m)"
  using assms
  by (cases "pr_parameters pr")
    (auto simp: with_user_input_def Let_def useCollectionKeyPreCheckWithAuthenticationCode_def
      setCollectionKeyPreCheckWithAuthenticationCode_def
      intro!: last_steps_settle code_steps_settle lock_code_questions_settle)

lemma when_authenticated_settles:
  assumes "answers (pr_requestId pr) k" and "processor_ok m"
  shows "settles (pr_requestId pr) m (when_authenticated env pr k m)"
  using assms
  by (cases "pr_parameters pr")
    (auto simp: when_authenticated_def Let_def useCollectionKeyPreCheckWithEncryptionKey_def
      setCollectionKeyPreCheckWithEncryptionKey_def intro!: last_steps_settle)

end
