(* ===== verification/Crypto_Protocol.thy ===== *)
theory Crypto_Protocol
  imports Crypto_Queue Request_Protocol "HOL-Library.Multiset"
begin

section \<open>The protocol of the cryptography daemon\<close>

text \<open>
  What the cryptography queue and its clients rely on: a request is answered by one call of \<^verbatim>\<open>requestFinished\<close>, or it waits for an answer of
  the secrets daemon that has been asked for. One step of the code breaks this rule, and it is named here: a key that is to be imported into another plugin's
  collection and turns out to need a passphrase.
\<close>

subsection \<open>Requests that wait\<close>

text \<open>Which helper of the bridge answers a waiting request.\<close>

primrec waits_for :: "CryptoPendingParameters \<Rightarrow> CryptoApiHelperRequestType" where
  "waits_for (GenerateStoredKey_check key kpg skdf ui custom provider) = StoreKeyPreCheckCryptoApiHelperRequest"
| "waits_for (GenerateStoredKey_input key kpg skdf custom provider dk) = UserInputCryptoApiHelperRequest"
| "waits_for (GenerateStoredKey_store key) = StoreKeyCryptoApiHelperRequest"
| "waits_for (ImportKey_input data ui custom provider) = UserInputCryptoApiHelperRequest"
| "waits_for (ImportStoredKey_check data key ui custom provider) = StoreKeyPreCheckCryptoApiHelperRequest"
| "waits_for (ImportStoredKey_input data key ui custom provider dk) = UserInputCryptoApiHelperRequest"
| "waits_for (ImportStoredKey_store key) = StoreKeyCryptoApiHelperRequest"
| "waits_for (StoredKey_read ident comps) = StoredKeyCryptoApiHelperRequest"
| "waits_for (DeleteStoredKey_delete ident) = DeleteStoredKeyCryptoApiHelperRequest"
| "waits_for StoredKeyIdentifiers_list = StoredKeyIdentifiersCryptoApiHelperRequest"
| "waits_for (Sign_check data key padding digest custom provider) = UseKeyPreCheckCryptoApiHelperRequest"
| "waits_for (Sign_read data padding digest custom provider) = StoredKeyCryptoApiHelperRequest"
| "waits_for (Verify_check signature data key padding digest custom provider) = UseKeyPreCheckCryptoApiHelperRequest"
| "waits_for (Verify_read signature data padding digest custom provider) = StoredKeyCryptoApiHelperRequest"
| "waits_for (Encrypt_check data iv key mode padding auth custom provider) = UseKeyPreCheckCryptoApiHelperRequest"
| "waits_for (Encrypt_read data iv mode padding auth custom provider) = StoredKeyCryptoApiHelperRequest"
| "waits_for (Decrypt_check data iv key mode padding auth tag custom provider) = UseKeyPreCheckCryptoApiHelperRequest"
| "waits_for (Decrypt_read data iv mode padding auth tag custom provider) = StoredKeyCryptoApiHelperRequest"
| "waits_for (InitializeCipherSession_check iv key operation mode enc sig digest custom provider) = UseKeyPreCheckCryptoApiHelperRequest"
| "waits_for (InitializeCipherSession_read pid iv operation mode enc sig digest custom provider) = StoredKeyCryptoApiHelperRequest"
| "waits_for (QueryLockStatus_ask pid ty target) = QueryLockStatusCryptoApiHelperRequest"
| "waits_for (ModifyLockCode_ask pid ty target ui) = ModifyLockCodeCryptoApiHelperRequest"
| "waits_for (ProvideLockCode_ask pid ty target ui) = ProvideLockCodeCryptoApiHelperRequest"
| "waits_for (ForgetLockCode_ask pid ty target ui) = ForgetLockCodeCryptoApiHelperRequest"

text \<open>The request nobody will answer.\<close>

definition forgotten :: "CryptoPendingParameters \<Rightarrow> bool" where
  "forgotten parameters \<longleftrightarrow>
     (case parameters of
        ImportStoredKey_input data key ui custom provider dk \<Rightarrow> provider \<noteq> id_storagePluginName (key_identifier key)
      | _ \<Rightarrow> False)"

lemma forgotten_simps [simp]:
  "forgotten (ImportStoredKey_input data key ui custom provider dk) \<longleftrightarrow> provider \<noteq> id_storagePluginName (key_identifier key)"
  by (simp add: forgotten_def)

lemma not_forgotten [simp]: "waits_for parameters \<noteq> UserInputCryptoApiHelperRequest \<Longrightarrow> \<not> forgotten parameters"
  by (cases parameters) (simp_all add: forgotten_def)

lemma not_forgotten_input [simp]:
  "\<not> forgotten (GenerateStoredKey_input template kpg skdf custom provider dk)"
  "\<not> forgotten (ImportKey_input data ui custom provider)"
  by (simp_all add: forgotten_def)

abbreviation cx_helpers :: "CryptoProcessor \<Rightarrow> (request_id \<times> CryptoApiHelperRequestType) list" where
  "cx_helpers m \<equiv> sb_cryptoApiHelperRequests (cx_secrets m)"

abbreviation cx_queue :: "CryptoProcessor \<Rightarrow> (SecretsRequest, unit) RequestQueue" where
  "cx_queue m \<equiv> sb_queue (cx_secrets m)"

text \<open>No request has been touched; the bridge has been asked for the request \<open>i\<close>; the request \<open>i\<close> has been settled.\<close>

definition same_waiting :: "CryptoProcessor \<Rightarrow> CryptoProcessor \<Rightarrow> bool" where
  "same_waiting m m' \<longleftrightarrow>
     cx_replies m' = cx_replies m \<and> cx_pendingRequests m' = cx_pendingRequests m \<and> cx_helpers m' = cx_helpers m"

definition just_queued :: "request_id \<Rightarrow> (SecretsRequest, unit) RequestQueue \<Rightarrow> bool" where
  "just_queued i q' \<longleftrightarrow> (\<exists>q pid req. handleRequest_secretsCrypto pid i (request_type req) [req] q = (success, q'))"

definition asked :: "request_id \<Rightarrow> CryptoApiHelperRequestType \<Rightarrow> CryptoProcessor \<Rightarrow> CryptoProcessor \<Rightarrow> bool" where
  "asked i helper m m' \<longleftrightarrow>
     cx_replies m' = cx_replies m \<and> cx_helpers m' = qmap_insert i helper (cx_helpers m) \<and> just_queued i (cx_queue m')"

definition crypto_settled :: "request_id \<Rightarrow> CryptoProcessor \<Rightarrow> CryptoProcessor \<Rightarrow> bool" where
  "crypto_settled i m m' \<longleftrightarrow>
     (\<exists>outs. cx_replies m' = cx_replies m @ [(i, outs)]) \<and> cx_pendingRequests m' = cx_pendingRequests m \<and> cx_helpers m' = cx_helpers m
     \<or> (\<exists>pr. cr_requestId pr = i \<and> cx_pendingRequests m' = qmap_insert i pr (cx_pendingRequests m)
          \<and> (\<not> forgotten (cr_parameters pr) \<and> asked i (waits_for (cr_parameters pr)) m m'
             \<or> forgotten (cr_parameters pr) \<and> cx_replies m' = cx_replies m \<and> cx_secrets m' = cx_secrets m))"

text \<open>
  Cryptography plugins work synchronously: what they return of an import is a success or a failure. So is what a storage plugin says when a key is stored in it.
\<close>

definition prompt_crypto :: "'s CryptoPlugin \<Rightarrow> bool" where
  "prompt_crypto e \<longleftrightarrow> (\<forall>data pass custom key s. cr_code (fst (cp_importKey e data pass custom key s)) \<noteq> Pending)
     \<and> (\<forall>data key pass custom ref s. cr_code (fst (cp_importAndStoreKey e data key pass custom ref s)) \<noteq> Pending)"

definition prompt_key_store :: "'s EncryptedStoragePlugin \<Rightarrow> bool" where
  "prompt_key_store p \<longleftrightarrow> (\<forall>c l s. res_code (fst (es_isCollectionLocked p c l s)) \<noteq> Pending)
     \<and> (\<forall>c key s. res_code (fst (es_setEncryptionKey p c key s)) \<noteq> Pending)"

primrec prompt_target :: "('c, 'k) crypto_target \<Rightarrow> bool" where
  "prompt_target (CryptoWrapper p cfg e w) \<longleftrightarrow> prompt_crypto e \<and> prompt_key_store p"
| "prompt_target (PlainCrypto e c) \<longleftrightarrow> prompt_crypto e"
| "prompt_target NoCryptoPlugin \<longleftrightarrow> True"

definition prompt_plugins :: "('c, 'k) crypto_plugins \<Rightarrow> bool" where
  "prompt_plugins p \<longleftrightarrow> (\<forall>(n, t) \<in> set p. prompt_target t)"

definition keeps_prompts :: "(('c, 'k) crypto_plugins \<Rightarrow> ('x \<times> ('c, 'k) crypto_plugins) option) \<Rightarrow> bool" where
  "keeps_prompts f \<longleftrightarrow> (\<forall>p x p'. prompt_plugins p \<longrightarrow> f p = Some (x, p') \<longrightarrow> prompt_plugins p')"

text \<open>
  A run settles the request when it does so itself, or touches nothing and leaves it to the lambda of the one job it queues.
\<close>

inductive crypto_settles :: "request_id \<Rightarrow> CryptoProcessor \<Rightarrow> ('c, 'k) crypto_run \<Rightarrow> bool" for i where
  settles_now: "crypto_settled i m m' \<Longrightarrow> crypto_settles i m (Return m')"
| settles_crash: "crypto_settles i m Crash"
| settles_later: "same_waiting m m' \<Longrightarrow> keeps_prompts j
    \<Longrightarrow> (\<And>p c p' m1. prompt_plugins p \<Longrightarrow> j p = Some (c, p') \<Longrightarrow> crypto_settles i m1 (c m1)) \<Longrightarrow> crypto_settles i m (Post j (Return m'))"

definition crypto_answers :: "request_id \<Rightarrow> (CryptoResult \<Rightarrow> ('c, 'k) crypto_handler) \<Rightarrow> bool" where
  "crypto_answers i k \<longleftrightarrow> (\<forall>r m. if cr_code r = Pending then k r m = Return m
     else \<forall>m0. same_waiting m0 m \<longrightarrow> crypto_settles i m0 (k r m))"

subsection \<open>Jobs exchange no plugin\<close>

lemma prompt_lookup: "prompt_plugins p \<Longrightarrow> prompt_target (case map_of p n of None \<Rightarrow> NoCryptoPlugin | Some t \<Rightarrow> t)"
  by (auto simp: prompt_plugins_def dest!: map_of_SomeD split: option.split)

lemma keeps_prompts_on_target:
  assumes "\<And>t x t'. prompt_target t \<Longrightarrow> f t = Some (x, t') \<Longrightarrow> prompt_target t'"
  shows "keeps_prompts (on_target n f)"
proof (unfold keeps_prompts_def, intro allI impI)
  fix p x p'
  assume p: "prompt_plugins p" and f: "on_target n f p = Some (x, p')"
  then obtain t where "f (case map_of p n of None \<Rightarrow> NoCryptoPlugin | Some t \<Rightarrow> t) = Some (x, t)" "p' = qmap_insert n t p"
    by (auto simp: on_target_def)
  with assms [OF prompt_lookup [OF p]] p set_qmap_insert [of n t p] show "prompt_plugins p'"
    by (auto simp: prompt_plugins_def)
qed

lemma keeps_prompts_jobs [simp]:
  "keeps_prompts (on_target n (on_crypto_plugin f g))"
  "keeps_prompts (on_target n (on_crypto_wrapper h))"
  by (auto intro!: keeps_prompts_on_target simp: on_crypto_plugin_def on_crypto_wrapper_def case_prod_unfold Let_def
      split: crypto_target.splits)

lemma keeps_prompts_use_key [simp]:
  "keeps_prompts (on_target n (with_key (use_key missing key ck unset f g)))"
  by (auto intro!: keeps_prompts_on_target simp: with_key_def use_key_def case_prod_unfold Let_def split: crypto_target.splits)

lemma keeps_prompts_lambda [simp]: "keeps_prompts f \<Longrightarrow> keeps_prompts (\<lambda>p. map_option (map_prod c id) (f p))"
  by (auto simp: keeps_prompts_def)

lemma metadata_results_not_pending [simp]:
  "res_code (fst (MetadataDatabase_secretMetadata c n sm b d)) \<noteq> Pending"
  "res_code (fst (MetadataDatabase_insertSecretMetadata sm d)) \<noteq> Pending"
  by (auto simp: MetadataDatabase_secretMetadata_def MetadataDatabase_insertSecretMetadata_def query_result_def case_prod_unfold Let_def
      split: option.split)

lemma prepare_not_pending:
  assumes "prompt_key_store p"
  shows "cr_code (fst (CryptoStoragePluginWrapper_prepareToStoreKey p e metadata key w)) \<noteq> Pending"
  using assms unfolding CryptoStoragePluginWrapper_prepareToStoreKey_def CryptoStoragePluginWrapper_prepareInsert_def case_prod_unfold Let_def
  by (auto simp: prompt_key_store_def CryptoResult_of_error_def)

lemma importAndStoreKey_not_pending:
  assumes "prompt_crypto e" and "prompt_key_store p"
  shows "cr_code (fst (CryptoPluginFunctionWrapper_importAndStoreKey p e custom data key pass dk w)) \<noteq> Pending"
  using assms(1) prepare_not_pending [OF assms(2)]
  by (auto simp: CryptoPluginFunctionWrapper_importAndStoreKey_def CryptoStoragePluginWrapper_importAndStoreKey_def store_key_def
      prompt_crypto_def case_prod_unfold Let_def)

lemma import_jobs_not_pending:
  assumes "prompt_plugins p"
  shows "on_target n (import_key_job custom data pass) p = Some (kr, p') \<Longrightarrow> cr_code (fst kr) \<noteq> Pending"
    and "on_target n (on_crypto_wrapper (\<lambda>p e. CryptoPluginFunctionWrapper_importAndStoreKey p e custom data key pass dk)) p = Some (kr, p')
       \<Longrightarrow> cr_code (fst kr) \<noteq> Pending"
  using prompt_lookup [OF assms, of n]
  by (auto simp: on_target_def import_key_job_def on_crypto_plugin_def on_crypto_wrapper_def CryptoPluginFunctionWrapper_importKey_def
      prompt_crypto_def importAndStoreKey_not_pending case_prod_unfold Let_def split: crypto_target.splits)

subsection \<open>The steps keep to it\<close>

lemma same_waiting_refl [simp]: "same_waiting m m"
  by (simp add: same_waiting_def)

lemma transform_pending [simp]: "transformSecretsResult pending = crypto_pending"
  by (simp add: transformSecretsResult_def CryptoResult_of_code_def Let_def)

lemma enqueue_result: "fst (enqueueRequest r q) = success \<or> fst (enqueueRequest r q) = failure SecretsDaemonRequestQueueFullError"
  by (simp add: enqueueRequest_def case_prod_unfold Let_def)

lemma enqueue_failed_code: "res_code (failure SecretsDaemonRequestQueueFullError) = Failed"
  by (simp add: Result_of_error_def)

lemma settles_ask:
  assumes "\<And>r m'. cr_code r = Failed \<Longrightarrow> same_waiting m m' \<Longrightarrow> crypto_settles i m0 (k r m')"
    and "\<And>m'. asked i helper m m' \<Longrightarrow> cx_pendingRequests m' = cx_pendingRequests m \<Longrightarrow> crypto_settles i m0 (k crypto_pending m')"
  shows "crypto_settles i m0 (ask_secrets (enqueue_helper pid i req helper) k m)"
proof -
  obtain r q where h: "handleRequest_secretsCrypto pid i (request_type req) [req] (cx_queue m) = (r, q)" by fastforce
  then have "r = success \<or> res_code r = Failed"
    using enqueue_result [of _ "cx_queue m"] by (metis fst_conv handleRequest_secretsCrypto_def enqueue_failed_code)
  moreover have "r = success \<Longrightarrow> just_queued i q"
    using h by (auto simp: just_queued_def)
  ultimately show ?thesis using h
    by (auto simp: ask_secrets_def enqueue_helper_def same_waiting_def asked_def intro!: assms)
qed

lemma settles_asked:
  "asked i (waits_for parameters) m m' \<Longrightarrow> \<not> forgotten parameters \<Longrightarrow> cx_pendingRequests m' = cx_pendingRequests m
   \<Longrightarrow> crypto_settles i m (Return (insert_crypto_pending pid i parameters m'))"
  by (rule settles_now, unfold crypto_settled_def insert_crypto_pending_def, rule disjI2,
      rule exI [of _ "\<lparr>cr_callerPid = pid, cr_requestId = i, cr_parameters = parameters\<rparr>"]) (simp add: asked_def)

lemma settles_crypto_finish [simp]: "same_waiting m m' \<Longrightarrow> crypto_settles i m (crypto_finish i outs m')"
  by (auto simp: crypto_finish_def same_waiting_def crypto_settled_def intro!: settles_now)

lemma answers_crypto_finish [simp]: "crypto_answers i (crypto_finish_unless_pending i outs)"
  by (simp add: crypto_answers_def crypto_finish_unless_pending_def)

lemma crypto_answers_pending [simp]: "crypto_answers i k \<Longrightarrow> cr_code r = Pending \<Longrightarrow> k r m = Return m"
  by (auto simp: crypto_answers_def split: if_splits)

lemma crypto_answers_result: "crypto_answers i k \<Longrightarrow> cr_code r \<noteq> Pending \<Longrightarrow> same_waiting m0 m \<Longrightarrow> crypto_settles i m0 (k r m)"
  by (auto simp: crypto_answers_def split: if_splits)

lemma crypto_failure_not_pending [simp]: "cr_code (CryptoResult_of_error e msg) \<noteq> Pending"
  by (simp add: CryptoResult_of_error_def)

lemma settles_job:
  assumes "same_waiting m m'" and "keeps_prompts (on_target n f)"
    and "\<And>p x p' m1. prompt_plugins p \<Longrightarrow> on_target n f p = Some (x, p') \<Longrightarrow> crypto_settles i m1 (c x m1)"
  shows "crypto_settles i m (run (on_target n f) c (Return m'))"
  using assms by (auto simp: run_def intro!: settles_later)

lemma settles_start_job:
  assumes "same_waiting m m'" and "k crypto_pending m' = Return m'" and "keeps_prompts (on_target n f)"
    and "\<And>p x p' m1. prompt_plugins p \<Longrightarrow> on_target n f p = Some (x, p') \<Longrightarrow> crypto_settles i m1 (c x m1)"
  shows "crypto_settles i m (start_job n f c k m')"
  unfolding start_job_def assms(2) using assms(1,3,4) by (rule settles_job)

lemma settles_finish_lambdas [simp]:
  "crypto_settles i m (finish_with_data i x m)"
  "crypto_settles i m (finish_with_key i y m)"
  by (simp_all add: finish_with_data_def finish_with_key_def case_prod_unfold)

lemmas bridge_defs = storeKeyPreCheck_def storeKey_def bridge_deleteStoredKey_def bridge_storedKeyIdentifiers_def useKeyPreCheck_def
  bridge_storedKey_def bridge_userInput_def queryCryptoPluginLockStatus_def modifyCryptoPluginLockCode_def
  provideCryptoPluginLockCode_def forgetCryptoPluginLockCode_def

lemmas use_key_wrapper_defs = CryptoPluginFunctionWrapper_sign_def CryptoPluginFunctionWrapper_verify_def
  CryptoPluginFunctionWrapper_encrypt_def CryptoPluginFunctionWrapper_decrypt_def CryptoPluginFunctionWrapper_initializeCipherSession_def

text \<open>A method that asks, waits when the bridge has taken the question, and returns the result.\<close>

lemma settles_ask_or_wait:
  assumes k: "crypto_answers i k" and "waits_for parameters = helper" and "\<not> forgotten parameters"
  shows "crypto_settles i m (ask_secrets (enqueue_helper pid i req helper)
     (\<lambda>r m. k r (if cr_code r = Pending then insert_crypto_pending pid' i parameters m else m)) m)"
proof (rule settles_ask)
  fix r :: CryptoResult and m'
  assume "cr_code r = Failed" "same_waiting m m'"
  then show "crypto_settles i m (k r (if cr_code r = Pending then insert_crypto_pending pid' i parameters m' else m'))"
    using crypto_answers_result [OF k] by simp
next
  fix m'
  assume "asked i helper m m'" "cx_pendingRequests m' = cx_pendingRequests m"
  then show "crypto_settles i m (k crypto_pending (if cr_code crypto_pending = Pending
      then insert_crypto_pending pid' i parameters m' else m'))"
    using settles_asked [of i parameters m m'] assms by simp
qed

text \<open>Methods that only start a job.\<close>

lemma plain_methods_settle:
  assumes "crypto_answers i k"
  shows "crypto_settles i m (CryptoProcessor_generateRandomData env pid i n engine custom provider k m)"
    and "crypto_settles i m (CryptoProcessor_seedRandomDataGenerator env pid i seed entropy engine custom provider k m)"
    and "crypto_settles i m (CryptoProcessor_generateInitializationVector env pid i algorithm mode keySize custom provider k m)"
    and "crypto_settles i m (CryptoProcessor_generateKey env pid i key kpg skdf custom provider k m)"
    and "crypto_settles i m (CryptoProcessor_calculateDigest env pid i data padding digest custom provider k m)"
    and "crypto_settles i m (CryptoProcessor_updateCipherSessionAuthentication env pid i auth custom provider token k m)"
    and "crypto_settles i m (CryptoProcessor_updateCipherSession env pid i data custom provider token k m)"
    and "crypto_settles i m (CryptoProcessor_finalizeCipherSession env pid i data custom provider token k m)"
  using assms
  by (auto simp: CryptoProcessor_generateRandomData_def CryptoProcessor_seedRandomDataGenerator_def
      CryptoProcessor_generateInitializationVector_def CryptoProcessor_generateKey_def generate_key_job_def
      CryptoProcessor_calculateDigest_def CryptoProcessor_updateCipherSessionAuthentication_def
      CryptoProcessor_updateCipherSession_def CryptoProcessor_finalizeCipherSession_def
      intro!: settles_start_job crypto_answers_result [OF assms])

text \<open>Operations with a key.\<close>

lemma runs_settle:
  assumes "k crypto_pending m = Return m"
  shows "crypto_settles i m (run_sign i data key ck padding digest custom provider k m)"
    and "crypto_settles i m (run_verify i signature data key ck padding digest custom provider k m)"
    and "crypto_settles i m (run_encrypt i data iv key ck mode padding auth custom provider k m)"
    and "crypto_settles i m (run_decrypt i data iv key ck mode padding auth tag custom provider k m)"
    and "crypto_settles i m (run_initializeCipherSession i pid iv key ck operation mode enc sig digest custom provider k m)"
  using assms
  by (auto simp: run_sign_def run_verify_def run_encrypt_def run_decrypt_def run_initializeCipherSession_def use_key_wrapper_defs
      intro!: settles_start_job)

lemma with_complete_key_settles:
  assumes k: "crypto_answers i k" and "waits_for whenChecked = UseKeyPreCheckCryptoApiHelperRequest"
    and "waits_for whenRead = StoredKeyCryptoApiHelperRequest"
    and "\<And>fullKey. crypto_settles i m (operate fullKey k m)"
  shows "crypto_settles i m (with_complete_key env pid i isReference key operation provider whenChecked whenRead operate k m)"
  unfolding with_complete_key_def bridge_defs Let_def
  using assms
  by (auto intro!: settles_ask crypto_answers_result [OF k] settles_asked)

lemma key_methods_settle:
  assumes k: "crypto_answers i k"
  shows "crypto_settles i m (CryptoProcessor_sign env pid i data key padding digest custom provider k m)"
    and "crypto_settles i m (CryptoProcessor_verify env pid i signature data key padding digest custom provider k m)"
    and "crypto_settles i m (CryptoProcessor_encrypt env pid i data iv key mode padding auth custom provider k m)"
    and "crypto_settles i m (CryptoProcessor_decrypt env pid i data iv key mode padding auth tag custom provider k m)"
    and "crypto_settles i m (CryptoProcessor_initializeCipherSession env pid i iv key operation mode enc sig digest custom provider k m)"
  using assms
  by (auto simp: CryptoProcessor_sign_def CryptoProcessor_verify_def CryptoProcessor_encrypt_def CryptoProcessor_decrypt_def
      CryptoProcessor_initializeCipherSession_def intro!: with_complete_key_settles runs_settle)

lemma when_succeeded_settles:
  assumes "\<And>k. k crypto_pending m = Return m \<Longrightarrow> crypto_settles i m (operate k m)"
  shows "crypto_settles i m (when_succeeded i r unset operate m)"
  using assms by (simp add: when_succeeded_def)

lemma key_continuations_settle:
  "crypto_settles i m (sign_withKey i r ser data padding digest custom provider m)"
  "crypto_settles i m (sign_withCollectionKey i data key padding digest custom provider r ck m)"
  "crypto_settles i m (verify_withKey i r ser signature data padding digest custom provider m)"
  "crypto_settles i m (verify_withCollectionKey i signature data key padding digest custom provider r ck m)"
  "crypto_settles i m (encrypt_withKey i r ser data iv mode padding auth custom provider m)"
  "crypto_settles i m (encrypt_withCollectionKey i data iv key mode padding auth custom provider r ck m)"
  "crypto_settles i m (decrypt_withKey i r ser data iv mode padding auth tag custom provider m)"
  "crypto_settles i m (decrypt_withCollectionKey i data iv key mode padding auth tag custom provider r ck m)"
  "crypto_settles i m (initializeCipherSession_withKey i r ser pid iv operation mode enc sig digest custom provider m)"
  "crypto_settles i m (initializeCipherSession_withCollectionKey i pid iv key operation mode enc sig digest custom provider r ck m)"
  by (auto simp: sign_withKey_def sign_withCollectionKey_def verify_withKey_def verify_withCollectionKey_def encrypt_withKey_def
      encrypt_withCollectionKey_def decrypt_withKey_def decrypt_withCollectionKey_def initializeCipherSession_withKey_def
      initializeCipherSession_withCollectionKey_def case_prod_unfold Let_def intro!: when_succeeded_settles runs_settle)

text \<open>Creating keys.\<close>

lemma settles_forgotten:
  "forgotten parameters \<Longrightarrow> crypto_settles i m (Return (insert_crypto_pending pid i parameters m))"
  by (rule settles_now, unfold crypto_settled_def insert_crypto_pending_def, rule disjI2,
      rule exI [of _ "\<lparr>cr_callerPid = pid, cr_requestId = i, cr_parameters = parameters\<rparr>"]) simp

lemma settles_finish_or_wait:
  assumes "cr_code r \<noteq> Pending" and "same_waiting m m'"
  shows "crypto_settles i m (crypto_finish_unless_pending i outs r m')"
  using assms by (simp add: crypto_finish_unless_pending_def)

lemma finish_pending [simp]: "crypto_finish_unless_pending i outs crypto_pending m = Return m"
  by (simp add: crypto_finish_unless_pending_def)

lemma generateStoredKey_withKdfData_settles:
  assumes "k crypto_pending m = Return m"
  shows "crypto_settles i m (generateStoredKey_withKdfData env pid i key kpg skdf custom provider dk k m)"
  using assms unfolding generateStoredKey_withKdfData_def generateStoredKey_inCryptoPlugin_def generate_key_job_def bridge_defs Let_def
  by (auto simp: case_prod_unfold intro!: settles_start_job settles_crash settles_ask settles_asked)

lemma import_lambdas_settle:
  assumes "cr_code (fst kr) \<noteq> Pending"
  shows "crypto_settles i m (importKey_finished pid i data ui custom provider kr m)"
    and "provider = id_storagePluginName (key_identifier key)
      \<Longrightarrow> crypto_settles i m (importStoredKey_inCryptoPlugin_finished pid i data key ui custom provider dk kr m)"
    and "provider \<noteq> id_storagePluginName (key_identifier key)
      \<Longrightarrow> crypto_settles i m (importStoredKey_inStorage_finished pid i data key ui custom provider dk kr m)"
  using assms
  by (auto simp: importKey_finished_def importStoredKey_inCryptoPlugin_finished_def importStoredKey_inStorage_finished_def
      promptForKeyPassphrase_def bridge_defs Let_def forgotten_def crypto_finish_unless_pending_def
      intro!: settles_ask settles_asked settles_forgotten settles_finish_or_wait)

lemma keeps_prompts_import [simp]: "keeps_prompts (on_target n (import_key_job custom data pass))"
  by (simp add: import_key_job_def)

lemma importKey_settles:
  assumes k: "crypto_answers i k"
  shows "crypto_settles i m (CryptoProcessor_importKey env pid i data ui custom provider pass k m)"
  unfolding CryptoProcessor_importKey_def
  using k by (auto intro!: crypto_answers_result [OF k] settles_start_job import_lambdas_settle dest: import_jobs_not_pending(1))

lemma importStoredKey_withPassphrase_settles:
  "crypto_settles i m (importStoredKey_withPassphrase env pid i data key ui custom provider dk r pass m)"
  unfolding importStoredKey_withPassphrase_def
  by (auto intro!: settles_crash settles_job import_lambdas_settle dest: import_jobs_not_pending)

lemma check_key_template_fails: "check_key_template env key provider = Some r \<Longrightarrow> cr_code r \<noteq> Pending"
  by (auto simp: check_key_template_def Let_def split: if_splits)

lemma creating_methods_settle:
  assumes k: "crypto_answers i k"
  shows "crypto_settles i m (CryptoProcessor_generateStoredKey env pid i key kpg skdf ui custom provider k m)"
    and "crypto_settles i m (CryptoProcessor_importStoredKey env pid i data key ui custom provider k m)"
  using k unfolding CryptoProcessor_generateStoredKey_def CryptoProcessor_importStoredKey_def bridge_defs
  by (auto split: option.split dest: check_key_template_fails
      intro!: crypto_answers_result [OF k] settles_ask settles_asked)

lemma asking_methods_settle:
  assumes k: "crypto_answers i k"
  shows "crypto_settles i m (CryptoProcessor_deleteStoredKey env pid i ident k m)"
    and "crypto_settles i m (CryptoProcessor_storedKeyIdentifiers env pid i sp c custom k m)"
    and "crypto_settles i m (CryptoProcessor_queryLockStatus env pid i ty target k m)"
    and "crypto_settles i m (CryptoProcessor_modifyLockCode env pid i ty target cui k m)"
    and "crypto_settles i m (CryptoProcessor_provideLockCode env pid i ty target cui k m)"
    and "crypto_settles i m (CryptoProcessor_forgetLockCode env pid i ty target cui k m)"
  unfolding CryptoProcessor_deleteStoredKey_def CryptoProcessor_storedKeyIdentifiers_def CryptoProcessor_queryLockStatus_def
    CryptoProcessor_modifyLockCode_def CryptoProcessor_provideLockCode_def CryptoProcessor_forgetLockCode_def lock_code_request_def
    bridge_defs
  by (simp_all add: settles_ask_or_wait [OF k] crypto_answers_result [OF k])

lemma storedKey_settles:
  assumes k: "\<And>key. crypto_answers i (\<lambda>r. k r key)"
  shows "crypto_settles i m (CryptoProcessor_storedKey env pid i ident comps custom k m)"
  using crypto_answers_pending [OF k] unfolding CryptoProcessor_storedKey_def bridge_defs
  by (auto intro!: crypto_answers_result [OF k] settles_start_job settles_ask settles_asked)

lemma stored_key_continuations_settle:
  assumes "cr_code r \<noteq> Pending"
  shows "crypto_settles i m (generateStoredKey_afterPreCheck env pid i key kpg skdf ui custom provider r dk m)"
    and "crypto_settles i m (generateStoredKey_withInputData env pid i r key kpg skdf custom provider dk m)"
    and "crypto_settles i m (importKey_withPassphrase env pid i data ui custom provider r pass m)"
    and "crypto_settles i m (importStoredKey_afterPreCheck env pid i data key ui custom provider r dk m)"
  using assms
  unfolding generateStoredKey_afterPreCheck_def generateStoredKey_withInputData_def importKey_withPassphrase_def
    importStoredKey_afterPreCheck_def bridge_defs
  by (auto intro!: settles_ask_or_wait settles_finish_or_wait generateStoredKey_withKdfData_settles importKey_settles
      importStoredKey_withPassphrase_settles)

subsection \<open>Requests and answers\<close>

theorem crypto_handlePendingRequest_settles: "crypto_settles i m (crypto_handlePendingRequest env garbage pid i req m)"
  by (cases req) (auto intro!: plain_methods_settle key_methods_settle creating_methods_settle asking_methods_settle importKey_settles storedKey_settles)

text \<open>The answer the request waits for goes on with it; the answer is delivered to the slot of the helper that was asked.\<close>

theorem deliver_answer_settles:
  assumes "map_of (cx_pendingRequests m) i = Some pr" and "map_of (cx_helpers m) i = Some (waits_for (cr_parameters pr))"
    and "res_code r \<noteq> Pending"
  shows "crypto_settles i (take_crypto_pending i (m\<lparr>cx_secrets := (cx_secrets m)\<lparr>sb_cryptoApiHelperRequests :=
             filter (\<lambda>e. fst e \<noteq> i) (cx_helpers m)\<rparr>\<rparr>)) (deliver_answer env i r ps m)"
  using assms
  by (cases "cr_parameters pr")
    (simp_all add: deliver_answer_def asynchronousCryptoRequestCompleted_def with_waiting_def secretsStoredKeyCompleted_def
      secretsUseKeyPreCheckCompleted_def secretsStoreKeyPreCheckCompleted_def secretsStoreKeyCompleted_def
      secretsDeleteStoredKeyCompleted_def secretsStoredKeyIdentifiersCompleted_def secretsUserInputCompleted_def
      secretsCryptoPluginLockStatusRequestCompleted_def secretsCryptoPluginLockCodeRequestCompleted_def storedKey2_def
      generateStoredKey_inStoragePlugin_def importStoredKey_inStoragePlugin_def deleteStoredKey2_def storedKeyIdentifiers2_def Let_def
      key_continuations_settle stored_key_continuations_settle importStoredKey_withPassphrase_settles)

end
