(* ===== verification/Daemon_Runs.thy ===== *)
theory Daemon_Runs
  imports Request_Protocol "HOL-Library.Multiset"
begin

section \<open>Runs of the daemon\<close>

text \<open>
  The request processor between the two threads: requests arrive, authentication plugins report the answers of users, jobs and lambdas are
  interleaved in any way. Every request is accounted for at every moment, and answered at most once.
\<close>


subsection \<open>Histories\<close>

text \<open>
  The requests whose answer is open at the user: those that are pending and have no reply.
\<close>

definition open_questions :: "'a RequestProcessor \<Rightarrow> request_id list" where
  "open_questions m = filter (\<lambda>i. i \<notin> fst ` set (rp_replies m)) (map fst (rp_pendingRequests m))"

text \<open>
  The daemon at work: requests arrive under new identifiers (the request queue gives them, C24), an authentication plugin reports once for an open
  question what has come of it, success or not, and the two threads make their steps in any order. The list is of the requests so far.
\<close>

inductive daemon ::
    "'c processor_env \<Rightarrow> (('e, 's, 'c) plugin_maps, 'a RequestProcessor) system \<Rightarrow> request_id list
     \<Rightarrow> (('e, 's, 'c) plugin_maps, 'a RequestProcessor) system option \<Rightarrow> bool" for env s0 where
  daemon_start: "daemon env s0 [] (Some s0)"
| daemon_request: "daemon env s0 ids (Some s) \<Longrightarrow> \<not> sy_waiting s \<Longrightarrow> i \<notin> set ids
    \<Longrightarrow> daemon env s0 (i # ids) (execute (handlePendingRequest env pid i req (sy_main s)) s)"
| daemon_input: "daemon env s0 ids (Some s) \<Longrightarrow> \<not> sy_waiting s \<Longrightarrow> i \<in> set (open_questions (sy_main s))
    \<Longrightarrow> daemon env s0 ids (execute (userInputInteractionCompleted env pid i ui addr r input (sy_main s)) s)"
| daemon_verified: "daemon env s0 ids (Some s) \<Longrightarrow> \<not> sy_waiting s \<Longrightarrow> i \<in> set (open_questions (sy_main s))
    \<Longrightarrow> daemon env s0 ids (execute (authenticationCompleted env pid i r (sy_main s)) s)"
| daemon_plugin: "daemon env s0 ids (Some s) \<Longrightarrow> daemon env s0 ids (plugin_step s)"
| daemon_main: "daemon env s0 ids (Some s) \<Longrightarrow> \<not> sy_waiting s \<Longrightarrow> daemon env s0 ids (main_step s)"

text \<open>What the queued jobs and lambdas will do.\<close>

definition event_settles :: "request_id \<Rightarrow> ('e, 's, 'c, 'a) handler \<Rightarrow> bool" where
  "event_settles i c \<longleftrightarrow> (\<forall>m. processor_ok m \<longrightarrow> settles i m (c m))"

definition job_settles :: "request_id \<Rightarrow> (('e, 's, 'c) plugin_maps, 'a RequestProcessor) job \<Rightarrow> bool" where
  "job_settles i j \<longleftrightarrow> keeps_answering j \<and> (\<forall>p c p'. answering p \<longrightarrow> j p = Some (c, p') \<longrightarrow> event_settles i c)"

definition awaited_settles ::
    "request_id \<Rightarrow> 'a RequestProcessor \<Rightarrow> (('e, 's, 'c) plugin_maps, 'a RequestProcessor) job \<Rightarrow> bool" where
  "awaited_settles i m j \<longleftrightarrow> keeps_answering j \<and> (\<forall>p c p'. answering p \<longrightarrow> j p = Some (c, p') \<longrightarrow> settles i m (c m))"

text \<open>
  The jobs with the requests they are for; the one the main thread waits for is the last.
\<close>

definition jobs_settle ::
    "request_id list \<Rightarrow> (('e, 's, 'c) plugin_maps, 'a RequestProcessor) system \<Rightarrow> bool" where
  "jobs_settle is s \<longleftrightarrow>
     (if sy_waiting s
      then \<exists>is' i js j. is = is' @ [i] \<and> sy_jobs s = js @ [j] \<and> list_all2 job_settles is' js \<and> awaited_settles i (sy_main s) j
      else list_all2 job_settles is (sy_jobs s))"

text \<open>
  Every request is in exactly one place: a job, a lambda, the replies or an open question.
\<close>

definition accounted :: "request_id list \<Rightarrow> (('e, 's, 'c) plugin_maps, 'a RequestProcessor) system \<Rightarrow> bool" where
  "accounted ids s \<longleftrightarrow> distinct ids \<and> answering (sy_plugins s) \<and> processor_ok (sy_main s)
     \<and> (\<exists>is es. jobs_settle is s \<and> list_all2 event_settles es (sy_events s)
          \<and> mset ids = mset is + mset es + (mset (map fst (rp_replies (sy_main s))) + mset (open_questions (sy_main s))))"

lemma mset_qmap_insert_fresh: "k \<notin> fst ` set m \<Longrightarrow> mset (map fst (qmap_insert k v m)) = add_mset k (mset (map fst m))"
  by (induction k v m rule: qmap_insert.induct) auto

text \<open>A step of the main thread on behalf of request \<open>i\<close>, which is in no place at the moment.\<close>

lemma open_questions_reply:
  assumes "rp_replies m' = rp_replies m @ [(i, outs)]" and "rp_pendingRequests m' = rp_pendingRequests m"
    and "i \<notin> set (open_questions m)"
  shows "open_questions m' = open_questions m"
  using assms by (auto simp: open_questions_def intro!: filter_cong)

lemma open_questions_pending:
  assumes "rp_replies m' = rp_replies m" and "rp_pendingRequests m' = qmap_insert i pr (rp_pendingRequests m)"
    and "i \<notin> set (open_questions m)" and "i \<notin> fst ` set (rp_replies m)"
  shows "mset (open_questions m') = add_mset i (mset (open_questions m))"
proof -
  have "i \<notin> fst ` set (rp_pendingRequests m)" using assms(3,4) by (auto simp: open_questions_def)
  from mset_qmap_insert_fresh [OF this, of pr] assms show ?thesis
    by (simp add: open_questions_def mset_filter del: mset_map)
qed

lemma settled_by_accounts:
  assumes "settled_by i m m'" and "i \<notin> set (open_questions m)" and "i \<notin> fst ` set (rp_replies m)"
  shows "mset (map fst (rp_replies m')) + mset (open_questions m')
    = add_mset i (mset (map fst (rp_replies m)) + mset (open_questions m))"
  using assms open_questions_reply open_questions_pending
  unfolding settled_by_def by fastforce

lemma same_requests_questions: "same_requests m m' \<Longrightarrow> open_questions m' = open_questions m \<and> rp_replies m' = rp_replies m"
  by (simp add: same_requests_def open_questions_def)

definition owing :: "request_id \<Rightarrow> request_id list \<Rightarrow> (('e, 's, 'c) plugin_maps, 'a RequestProcessor) system \<Rightarrow> 'a RequestProcessor \<Rightarrow> bool" where
  "owing i ids s m \<longleftrightarrow> \<not> sy_waiting s \<and> distinct ids \<and> answering (sy_plugins s)
     \<and> (\<exists>is es. list_all2 job_settles is (sy_jobs s) \<and> list_all2 event_settles es (sy_events s)
          \<and> mset ids = add_mset i (mset is + mset es + (mset (map fst (rp_replies m)) + mset (open_questions m))))"

lemma accountedI:
  assumes "distinct ids" and "answering (sy_plugins s)" and "processor_ok (sy_main s)" and "jobs_settle is s"
    and "list_all2 event_settles es (sy_events s)"
    and "mset ids = mset is + mset es + (mset (map fst (rp_replies (sy_main s))) + mset (open_questions (sy_main s)))"
  shows "accounted ids s"
  using assms unfolding accounted_def by blast

lemma owingI:
  assumes "\<not> sy_waiting s" and "distinct ids" and "answering (sy_plugins s)"
    and "list_all2 job_settles is (sy_jobs s)" and "list_all2 event_settles es (sy_events s)"
    and "mset ids = add_mset i (mset is + mset es + (mset (map fst (rp_replies m)) + mset (open_questions m)))"
  shows "owing i ids s m"
  using assms unfolding owing_def by blast

lemma count_distinct: "distinct xs \<Longrightarrow> count (mset xs) x \<le> 1"
  by (simp add: distinct_count_atmost_1)

lemma distinct_of_count: "(\<And>x. count (mset xs) x \<le> 1) \<Longrightarrow> distinct xs"
proof (induction xs)
  case (Cons x xs)
  have "x \<notin> set xs" using Cons.prems [of x] by (auto simp flip: set_mset_mset simp: count_eq_zero_iff)
  moreover have "count (mset xs) y \<le> count (mset (x # xs)) y" for y by simp
  then have "count (mset xs) y \<le> 1" for y using Cons.prems [of y] le_trans by blast
  ultimately show ?case using Cons.IH by simp
qed simp

lemma owing_fresh:
  assumes "owing i ids s m"
  shows "i \<notin> set (open_questions m)" and "i \<notin> fst ` set (rp_replies m)"
proof -
  from assms obtain ms where m: "mset ids = add_mset i (ms + (mset (map fst (rp_replies m)) + mset (open_questions m)))"
    and "distinct ids" by (auto simp: owing_def)
  from count_distinct [OF this(2), of i] have "count (mset (open_questions m)) i = 0" "count (mset (map fst (rp_replies m))) i = 0"
    unfolding m by simp_all
  then show "i \<notin> set (open_questions m)" and "i \<notin> fst ` set (rp_replies m)"
    by (auto simp: count_eq_zero_iff)
qed

lemma execute_settles:
  assumes "settles i m th" and "owing i ids s m" and "execute th s = Some s'"
  shows "accounted ids s'"
proof -
  from assms(2) obtain "is" es where j: "\<not> sy_waiting s" "distinct ids" "answering (sy_plugins s)"
      "list_all2 job_settles is (sy_jobs s)" "list_all2 event_settles es (sy_events s)"
    and ids: "mset ids = add_mset i (mset is + mset es + (mset (map fst (rp_replies m)) + mset (open_questions m)))"
    by (auto simp: owing_def)
  from assms(1) show ?thesis
  proof cases
    case (settles_Return m')
    from settled_by_accounts [OF settles_Return(2) owing_fresh [OF assms(2)]] ids
    have "mset ids = mset is + mset es + (mset (map fst (rp_replies m')) + mset (open_questions m'))" by simp
    with settles_Return assms(3) j show ?thesis
      by (intro accountedI [of ids s' "is" es]) (auto simp: jobs_settle_def)
  next
    case settles_Crash
    with assms(3) show ?thesis by simp
  next
    case (settles_Post m' j)
    then have "job_settles i j" by (auto simp: job_settles_def event_settles_def)
    with j(4) have "list_all2 job_settles (is @ [i]) (sy_jobs s @ [j])" by (simp add: list_all2_appendI)
    with settles_Post same_requests_questions [of m m'] assms(3) j ids show ?thesis
      by (intro accountedI [of ids s' "is @ [i]" es]) (auto simp: jobs_settle_def)
  next
    case (settles_Await m' j)
    then have "awaited_settles i m' j"
      by (auto simp: awaited_settles_def same_requests_def intro!: settles_cong [of i m _ m'])
    with settles_Await same_requests_questions [of m m'] assms(3) j ids show ?thesis
      by (intro accountedI [of ids s' "is @ [i]" es]) (auto simp: jobs_settle_def)
  qed
qed

lemma owing_new: "accounted ids s \<Longrightarrow> \<not> sy_waiting s \<Longrightarrow> i \<notin> set ids \<Longrightarrow> owing i (i # ids) s (sy_main s)"
  by (auto simp: accounted_def owing_def jobs_settle_def)

text \<open>The answer to an open question takes it off the list first.\<close>

lemma take_pending_questions:
  "rp_replies (take_pending i m) = rp_replies m"
  "open_questions (take_pending i m) = filter (\<lambda>j. j \<noteq> i) (open_questions m)"
  by (auto simp: take_pending_def open_questions_def filter_map comp_def conj_commute)

lemma mset_filter_once: "count (mset xs) i = 1 \<Longrightarrow> mset xs = add_mset i (mset (filter (\<lambda>j. j \<noteq> i) xs))"
  by (rule multiset_eqI) (auto simp: mset_filter)

lemma owing_answer:
  assumes "accounted ids s" and "\<not> sy_waiting s" and "i \<in> set (open_questions (sy_main s))"
  shows "owing i ids s (take_pending i (sy_main s))"
proof -
  from assms(1,2) obtain "is" es where j: "list_all2 job_settles is (sy_jobs s)" "list_all2 event_settles es (sy_events s)"
    and m: "mset ids = mset is + mset es + (mset (map fst (rp_replies (sy_main s))) + mset (open_questions (sy_main s)))"
    by (auto simp: accounted_def jobs_settle_def)
  have "count (mset ids) i \<le> 1" using assms(1) unfolding accounted_def by (blast intro: count_distinct)
  with m have "count (mset (open_questions (sy_main s))) i \<le> 1" by simp
  moreover have "0 < count (mset (open_questions (sy_main s))) i" using assms(3) by simp
  ultimately have "count (mset (open_questions (sy_main s))) i = 1" by linarith
  from mset_filter_once [OF this] m have
    "mset ids = add_mset i (mset is + mset es + (mset (map fst (rp_replies (take_pending i (sy_main s))))
       + mset (open_questions (take_pending i (sy_main s)))))"
    by (simp add: take_pending_questions)
  with j assms(1,2) show ?thesis by (intro owingI [of s ids "is" es]) (simp_all add: accounted_def)
qed

lemma accounted_reply:
  assumes "owing i ids s (take_pending i (sy_main s))" and "processor_ok (sy_main s)" and "execute (finish i outs (sy_main s)) s = Some s'"
  shows "accounted ids s'"
proof -
  let ?m = "requestFinished_call i outs (sy_main s)"
  have "open_questions ?m = open_questions (take_pending i (sy_main s))"
    by (auto simp: open_questions_def requestFinished_call_def take_pending_def filter_map comp_def intro!: filter_cong)
  moreover have "s' = s\<lparr>sy_main := ?m, sy_waiting := False\<rparr>" "processor_ok ?m"
    using assms(2,3) by (simp_all add: finish_def requestFinished_call_def processor_ok_def)
  moreover from assms(1) obtain "is" es where "distinct ids" "answering (sy_plugins s)"
      "list_all2 job_settles is (sy_jobs s)" "list_all2 event_settles es (sy_events s)"
    "mset ids = add_mset i (mset is + mset es + (mset (map fst (rp_replies (sy_main s))) + mset (open_questions (take_pending i (sy_main s)))))"
    by (auto simp: owing_def take_pending_questions(1))
  ultimately show ?thesis
    by (intro accountedI [of ids s' "is" es]) (auto simp: jobs_settle_def requestFinished_call_def)
qed


subsection \<open>The steps keep the account\<close>

lemma execute_ignores_waiting: "execute th (s\<lparr>sy_waiting := b\<rparr>) = execute th s"
proof (induction th arbitrary: s)
  case (Post j k)
  from Post.IH(2) [of "s\<lparr>sy_jobs := sy_jobs s @ [j]\<rparr>"] show ?case by (cases s) simp
qed simp_all

lemma pending_entry:
  assumes "i \<in> set (open_questions m)" and "processor_ok m"
  shows "\<exists>pr. map_of (rp_pendingRequests m) i = Some pr \<and> pr_requestId pr = i"
proof -
  from assms(1) obtain pr where pr: "map_of (rp_pendingRequests m) i = Some pr"
    by (auto simp: open_questions_def) (metis weak_map_of_SomeI)
  with assms(2) map_of_SomeD [OF pr] show ?thesis by (auto simp: processor_ok_def list_all_iff)
qed

lemma not_waiting [simp]: "\<not> sy_waiting s \<Longrightarrow> s\<lparr>sy_waiting := False\<rparr> = s"
  by (cases s) simp

lemma userInputInteractionCompleted_settles:
  assumes "map_of (rp_pendingRequests m) i = Some pr" and "pr_requestId pr = i" and "processor_ok m" and "succeeded r"
  shows "settles i (take_pending i m) (userInputInteractionCompleted env pid i ui addr r input m)"
  using assms(1,3,4) by (simp add: userInputInteractionCompleted_def with_user_input_settles [of pr, unfolded assms(2)])

lemma authenticationCompleted_settles:
  assumes "map_of (rp_pendingRequests m) i = Some pr" and "pr_requestId pr = i" and "processor_ok m" and "succeeded r"
  shows "settles i (take_pending i m) (authenticationCompleted env pid i r m)"
  using assms(1,3,4) by (simp add: authenticationCompleted_def when_authenticated_settles [of pr, unfolded assms(2)])

text \<open>Both slots end a request that failed with its result, and leave everything as it is when there is none yet.\<close>

lemma accounted_slot:
  assumes "accounted ids s" and "\<not> sy_waiting s" and "i \<in> set (open_questions (sy_main s))" and "execute th s = Some s'"
    and "\<And>pr. map_of (rp_pendingRequests (sy_main s)) i = Some pr \<Longrightarrow> pr_requestId pr = i \<Longrightarrow> succeeded r
           \<Longrightarrow> settles i (take_pending i (sy_main s)) th"
    and "\<not> succeeded r \<Longrightarrow> th = finish_unless_pending i [] r (sy_main s)"
  shows "accounted ids s'"
proof -
  have ok: "processor_ok (sy_main s)" using assms(1) by (simp add: accounted_def)
  note o = owing_answer [OF assms(1-3)]
  obtain pr where pr: "map_of (rp_pendingRequests (sy_main s)) i = Some pr" "pr_requestId pr = i"
    using assms(3) ok pending_entry by blast
  show ?thesis
  proof (cases "res_code r")
    case Succeeded
    with execute_settles [OF assms(5) [OF pr] o assms(4)] show ?thesis by simp
  next
    case Pending
    with assms show ?thesis by (simp add: finish_unless_pending_def)
  next
    case Failed
    with accounted_reply [OF o ok] assms(4,6) show ?thesis by (simp add: finish_unless_pending_def)
  qed
qed

lemma accounted_input:
  assumes "accounted ids s" and "\<not> sy_waiting s" and "i \<in> set (open_questions (sy_main s))"
    and "execute (userInputInteractionCompleted env pid i ui addr r input (sy_main s)) s = Some s'"
  shows "accounted ids s'"
proof (rule accounted_slot [OF assms])
  fix pr
  assume "map_of (rp_pendingRequests (sy_main s)) i = Some pr" "pr_requestId pr = i" "succeeded r"
  with assms(1) show "settles i (take_pending i (sy_main s)) (userInputInteractionCompleted env pid i ui addr r input (sy_main s))"
    by (auto simp: accounted_def intro!: userInputInteractionCompleted_settles)
qed (simp add: userInputInteractionCompleted_def)

lemma accounted_verified:
  assumes "accounted ids s" and "\<not> sy_waiting s" and "i \<in> set (open_questions (sy_main s))"
    and "execute (authenticationCompleted env pid i r (sy_main s)) s = Some s'"
  shows "accounted ids s'"
proof (rule accounted_slot [OF assms])
  fix pr
  assume "map_of (rp_pendingRequests (sy_main s)) i = Some pr" "pr_requestId pr = i" "succeeded r"
  with assms(1) show "settles i (take_pending i (sy_main s)) (authenticationCompleted env pid i r (sy_main s))"
    by (auto simp: accounted_def intro!: authenticationCompleted_settles)
qed (simp add: authenticationCompleted_def)

lemma accounted_main_step:
  assumes "accounted ids s" and "\<not> sy_waiting s" and "main_step s = Some s'"
  shows "accounted ids s'"
proof (cases "sy_events s")
  case Nil
  with assms show ?thesis by (simp add: main_step_def)
next
  case (Cons c cs)
  let ?s = "s\<lparr>sy_events := cs\<rparr>"
  from assms(1,2) Cons obtain "is" i es where "list_all2 job_settles is (sy_jobs s)" "event_settles i c"
      "list_all2 event_settles es cs"
      "mset ids = mset is + mset (i # es) + (mset (map fst (rp_replies (sy_main s))) + mset (open_questions (sy_main s)))"
    by (auto simp: accounted_def jobs_settle_def list_all2_Cons2)
  with assms(1,2) have "owing i ids ?s (sy_main s)" "settles i (sy_main s) (c (sy_main s))"
    by (auto simp: owing_def accounted_def event_settles_def)
  moreover have "execute (c (sy_main s)) ?s = Some s'" using assms(2,3) Cons by (simp add: main_step_def)
  ultimately show ?thesis using execute_settles by blast
qed

lemma accounted_plugin_step:
  assumes "accounted ids s" and "plugin_step s = Some s'"
  shows "accounted ids s'"
proof (cases "sy_jobs s")
  case Nil
  with assms show ?thesis by (simp add: plugin_step_def)
next
  case (Cons j js)
  from assms(1) obtain "is" es where a: "distinct ids" "answering (sy_plugins s)" "processor_ok (sy_main s)" "jobs_settle is s"
      "list_all2 event_settles es (sy_events s)"
    and ids: "mset ids = mset is + mset es + (mset (map fst (rp_replies (sy_main s))) + mset (open_questions (sy_main s)))"
    by (auto simp: accounted_def)
  from assms(2) Cons obtain c p where j: "j (sy_plugins s) = Some (c, p)"
    by (auto simp: plugin_step_def split: option.splits)
  let ?s = "s\<lparr>sy_plugins := p, sy_jobs := js\<rparr>"
  show ?thesis
  proof (cases "sy_waiting s \<and> js = []")
    case True
    with a(4) Cons obtain i where i: "is = [i]" "awaited_settles i (sy_main s) j"
      by (auto simp: jobs_settle_def)
    with j a(2) have "settles i (sy_main s) (c (sy_main s))" "answering p"
      by (auto simp: awaited_settles_def keeps_answering_def)
    moreover have "execute (c (sy_main s)) (?s\<lparr>sy_waiting := False\<rparr>) = Some s'"
      using assms(2) True Cons j execute_ignores_waiting [where th = "c (sy_main s)" and s = ?s] by (simp add: plugin_step_def)
    ultimately show ?thesis
      using execute_settles [of i "sy_main s" "c (sy_main s)" ids "?s\<lparr>sy_waiting := False\<rparr>" s'] i a ids True
      by (auto simp: owing_def)
  next
    case False
    with a(4) Cons obtain i is' where i: "is = i # is'" "job_settles i j" "jobs_settle is' (s\<lparr>sy_jobs := js\<rparr>)"
      by (auto simp: jobs_settle_def list_all2_Cons2 Cons_eq_append_conv split: if_splits)
    with j a(2) have "event_settles i c" "answering p"
      by (auto simp: job_settles_def keeps_answering_def)
    moreover have "s' = ?s\<lparr>sy_events := sy_events s @ [c]\<rparr>"
      using assms(2) Cons j False by (auto simp: plugin_step_def Let_def)
    ultimately show ?thesis using i a ids
      by (intro accountedI [of ids s' is' "es @ [i]"]) (auto simp: jobs_settle_def list_all2_appendI)
  qed
qed


lemma daemon_accounted:
  assumes "daemon env s0 ids r" and "accounted [] s0" and "r = Some s"
  shows "accounted ids s"
  using assms(1,3)
proof (induction arbitrary: s)
  case daemon_start
  with assms(2) show ?case by simp
next
  case (daemon_request ids t i pid req)
  from daemon_request.IH [OF refl] have a: "accounted ids t" .
  then have "processor_ok (sy_main t)" by (simp add: accounted_def)
  from execute_settles [OF handlePendingRequest_settles [OF this] owing_new [OF a daemon_request(2,3)] daemon_request.prems]
  show ?case .
next
  case (daemon_input ids t i pid ui addr r input)
  with accounted_input show ?case by blast
next
  case (daemon_verified ids t i pid r)
  with accounted_verified show ?case by blast
next
  case (daemon_plugin ids t)
  with accounted_plugin_step show ?case by blast
next
  case (daemon_main ids t)
  with accounted_main_step show ?case by blast
qed

text \<open>The daemon after its start.\<close>

definition fresh_daemon :: "(('e, 's, 'c) plugin_maps, 'a RequestProcessor) system \<Rightarrow> bool" where
  "fresh_daemon s \<longleftrightarrow> answering (sy_plugins s) \<and> processor_ok (sy_main s) \<and> rp_replies (sy_main s) = []
     \<and> rp_pendingRequests (sy_main s) = [] \<and> sy_jobs s = [] \<and> sy_events s = [] \<and> \<not> sy_waiting s"

lemma fresh_daemon_accounted:
  assumes "fresh_daemon s0" and "daemon env s0 ids (Some s)"
  shows "accounted ids s"
proof (rule daemon_accounted [OF assms(2) _ refl])
  show "accounted [] s0" using assms(1) by (simp add: fresh_daemon_def accounted_def jobs_settle_def open_questions_def)
qed

lemma accounted_ids:
  assumes "accounted ids s"
  shows "set (map fst (rp_replies (sy_main s))) \<subseteq> set ids" and "set (open_questions (sy_main s)) \<subseteq> set ids"
    and "distinct (map fst (rp_replies (sy_main s)))"
proof -
  from assms obtain "is" es where "distinct ids"
    and ids: "mset ids = mset is + mset es + (mset (map fst (rp_replies (sy_main s))) + mset (open_questions (sy_main s)))"
    by (auto simp: accounted_def)
  have "count (mset (map fst (rp_replies (sy_main s)))) x \<le> count (mset ids) x" for x
    unfolding ids by simp
  then show "distinct (map fst (rp_replies (sy_main s)))"
    using count_distinct [OF \<open>distinct ids\<close>] by (metis distinct_of_count le_trans)
  have "set_mset (mset ids) = set is \<union> set es \<union> (set (map fst (rp_replies (sy_main s))) \<union> set (open_questions (sy_main s)))"
    unfolding ids by simp
  then show "set (map fst (rp_replies (sy_main s))) \<subseteq> set ids" and "set (open_questions (sy_main s)) \<subseteq> set ids" by auto
qed

text \<open>
  C40. Every request is answered exactly once. In every run of the daemon, whatever the callers ask, the plugins return, the users answer and
  in whatever order the threads make their steps, no request has two replies and nothing is replied to that was not asked; and when the threads have nothing left to do, every
  request has its one reply or is the open question of exactly one prompt. The daemon may only crash. Three things are asked of the plugins: a
  storage plugin answers \<^verbatim>\<open>collectionNames\<close> and \<^verbatim>\<open>isCollectionLocked\<close> at once, never with \<^verbatim>\<open>Pending\<close> (\<open>sqlite_prompt\<close> and
  \<open>sqlcipher_prompt\<close> show it of the repository's own); \<^verbatim>\<open>beginAuthentication\<close> answers \<^verbatim>\<open>Pending\<close> or fails, since success is
  reported later by a signal; and an authentication plugin reports once on each question it has open, and on no other. A second report on a failed
  question would be answered again, because the request stays in the table.
\<close>

theorem every_request_is_answered_once:
  assumes "fresh_daemon s0" and "daemon env s0 ids (Some s)"
  shows "distinct (map fst (rp_replies (sy_main s))) \<and> set (map fst (rp_replies (sy_main s))) \<subseteq> set ids
    \<and> (sy_jobs s = [] \<and> sy_events s = []
         \<longrightarrow> mset ids = mset (map fst (rp_replies (sy_main s))) + mset (open_questions (sy_main s)))"
proof -
  note a = fresh_daemon_accounted [OF assms]
  then obtain "is" es where j: "jobs_settle is s" "list_all2 event_settles es (sy_events s)"
    and ids: "mset ids = mset is + mset es + (mset (map fst (rp_replies (sy_main s))) + mset (open_questions (sy_main s)))"
    by (auto simp: accounted_def)
  have "is = [] \<and> es = []" if "sy_jobs s = []" "sy_events s = []"
    using j that by (auto simp: jobs_settle_def split: if_splits)
  with ids accounted_ids [OF a] show ?thesis by auto
qed


subsection \<open>The storage plugins answer\<close>

text \<open>
  The storage plugins of the repository answer the questions for the names and the lock state of their collections at once, in every
  state and whatever the engine under them answers: a daemon with these plugins meets what \<open>fresh_daemon\<close> asks of storage plugins.
\<close>

lemma sqlite_prompt: "sh_plugin h = sqlite_plugin \<Longrightarrow> prompt_storage h"
  by (auto simp: prompt_storage_def sqlite_plugin_def SqlitePlugin_collectionNames_def SqlitePlugin_openDatabaseIfNecessary_def
      query_failed_def commit_result_def case_prod_unfold Let_def split: option.splits if_splits)

lemma sqlcipher_lock_query_prompt: "res_code (fst (SqlCipherPlugin_isCollectionLocked c l s)) \<noteq> Pending"
  by (simp add: SqlCipherPlugin_isCollectionLocked_def case_prod_unfold Let_def split: option.split)

lemma sqlcipher_prompt: "eh_plugin h = sqlcipher_plugin env \<Longrightarrow> prompt_encrypted h"
  by (simp add: prompt_encrypted_def sqlcipher_plugin_def SqlCipherPlugin_collectionNames_def sqlcipher_lock_query_prompt)

subsection \<open>An example\<close>

definition demo_daemon :: "((unit, sqlite_db, unit) plugin_maps, unit RequestProcessor) system" where
  "demo_daemon = \<lparr>sy_plugins = demo_plugins (demo_wrapper [] []), sy_main = demo_processor, sy_jobs = [], sy_events = [],
     sy_waiting = False\<rparr>"

lemma demo_daemon_fresh: "fresh_daemon demo_daemon"
  by (simp add: fresh_daemon_def demo_daemon_def demo_plugins_def demo_processor_def answering_def processor_ok_def sqlite_prompt)

text \<open>A request for the names of the collections: the job runs, then its lambda.\<close>

lemma demo_run:
  "\<exists>s. daemon demo_processor_env demo_daemon [7] (Some s) \<and> sy_jobs s = [] \<and> sy_events s = []"
proof -
  let ?h = "handlePendingRequest demo_processor_env 1 7 (CollectionNames ''plug'') demo_processor"
  obtain s1 j where s1: "execute ?h demo_daemon = Some s1" "sy_jobs s1 = [j]" "sy_events s1 = []" "\<not> sy_waiting s1"
    and j: "\<And>p. j p = map_option (map_prod (\<lambda>(result, names). finish 7 [OutResult result, OutNames names]) id)
        (on_storage_plugin ''plug'' (\<lambda>h w. with_output (StoragePluginWrapper_collectionNames (sh_plugin h) w)) p)"
    and p1: "sy_plugins s1 = demo_plugins (demo_wrapper [] [])"
    by (auto simp: unless_daemon_locked_def RequestProcessor_collectionNames_def demo_processor_env_def demo_processor_def demo_unlocked_def
        demo_lock_def run_def finish_unless_pending_def demo_daemon_def)
  have d1: "daemon demo_processor_env demo_daemon [7] (Some s1)"
    using daemon_request [OF daemon_start, of demo_daemon 7 demo_processor_env 1 "CollectionNames ''plug''"] s1
    by (simp add: demo_daemon_def)
  obtain outs p where "j (sy_plugins s1) = Some (finish 7 outs, p)"
    by (simp add: j p1 on_storage_plugin_def demo_plugins_def case_prod_unfold Let_def)
  then obtain s2 where s2: "plugin_step s1 = Some s2" "sy_jobs s2 = []" "sy_events s2 = [finish 7 outs]" "\<not> sy_waiting s2"
    using s1 by (simp add: plugin_step_def Let_def)
  from daemon_plugin [OF d1] s2 have d2: "daemon demo_processor_env demo_daemon [7] (Some s2)" by simp
  obtain s3 where "main_step s2 = Some s3" "sy_jobs s3 = []" "sy_events s3 = []"
    using s2 by (simp add: main_step_def finish_def)
  with daemon_main [OF d2 s2(4)] show ?thesis by auto
qed

theorem every_request_is_answered_once_witness:
  "\<exists>s. daemon demo_processor_env demo_daemon [7] (Some s)
     \<and> {#7#} = mset (map fst (rp_replies (sy_main s))) + mset (open_questions (sy_main s))"
proof -
  obtain s where s: "daemon demo_processor_env demo_daemon [7] (Some s)" "sy_jobs s = []" "sy_events s = []"
    using demo_run by blast
  with every_request_is_answered_once [OF demo_daemon_fresh s(1)] show ?thesis by auto
qed


end
