(* ===== verification/Collection_Lock.thy ===== *)
theory Collection_Lock
  imports Function_Wrappers
begin

section \<open>Locked collections are locked again\<close>

text \<open>
  What the function wrappers promise about locked collections. The locale \<open>collection_lock\<close> is the part of an
  encrypted storage plugin's contract that this needs: only \<open>setEncryptionKey\<close> unlocks a collection, and
  without a key it locks it. The operations of the wrapper and the compound operations of
  the function wrappers are proved once in the locale, and the SQLCipher plugin is an instance.

  \<open>serving d\<close>: the database is open with the right key and its engine refuses nothing. Every
  operation keeps that, and a wrapper whose metadata is serving never takes itself for master-locked.
\<close>

subsection \<open>A database that serves requests\<close>

definition serving :: "('q, 't) database \<Rightarrow> bool" where
  "serving d \<longleftrightarrow> db_readable d \<and> db_file d \<noteq> None \<and> engine_ready d"

lemma serving_view: "serving d \<Longrightarrow> \<exists>t. db_view d = Some t"
  by (auto simp: serving_def db_view_def split: option.splits)

lemma serving_drop [simp]: "serving d \<Longrightarrow> serving (drop_answer d)"
  by (simp add: serving_def db_readable_def)

lemma serving_prepare:
  assumes "serving d"
  shows "fst (Database_prepare q d)" "serving (snd (Database_prepare q d))"
  using assms serving_drop [OF assms]
  by (auto simp: Database_prepare_def serving_def db_readable_def engine_ready_def)

lemma serving_execute:
  assumes "serving d"
  shows "serving (snd (Database_execute f d))"
  using assms serving_drop [OF assms]
  by (auto simp: Database_execute_def serving_def db_readable_def db_write_def engine_ready_def split: option.splits)

lemma answers_tl: "x \<in> set (tl xs) \<Longrightarrow> set xs \<subseteq> {Ok} \<Longrightarrow> x = Ok"
  by (cases xs) auto

lemma serving_begin: "serving d \<Longrightarrow> serving (snd (Database_beginTransaction d))"
  by (auto simp: Database_beginTransaction_def sql_begin_def Let_def serving_def db_readable_def engine_ready_def
      drop_answer_def intro: answers_tl)

lemma serving_commit: "serving d \<Longrightarrow> serving (commit_db d)"
  by (auto simp: Database_commitTransaction_def sql_commit_def Let_def serving_def db_readable_def engine_ready_def
      drop_answer_def intro: answers_tl
      split: option.splits answer.splits)

lemma serving_rollback: "serving d \<Longrightarrow> serving (rollback_db d)"
  by (auto simp: Database_rollbackTransaction_def sql_rollback_def Let_def serving_def db_readable_def engine_ready_def
      drop_answer_def intro: answers_tl
      split: answer.splits)

lemma serving_query: "serving d \<Longrightarrow> serving (snd (md_query q f d))"
  using serving_prepare [of d q] serving_execute
  by (cases "Database_prepare q d") (auto simp: md_query_def)

lemmas serving_steps = serving_prepare(2) serving_execute serving_begin serving_commit serving_rollback serving_query

lemma serving_changes:
  assumes "serving d"
  shows "serving (snd (MetadataDatabase_insertCollectionMetadata cm d))"
    "serving (snd (MetadataDatabase_deleteCollectionMetadata c d))"
    "serving (snd (MetadataDatabase_insertSecretMetadata sm d))"
    "serving (snd (MetadataDatabase_deleteSecretMetadata c n d))"
  using serving_query [OF assms]
  by (simp_all add: MetadataDatabase_insertCollectionMetadata_def MetadataDatabase_deleteCollectionMetadata_def
      MetadataDatabase_insertSecretMetadata_def MetadataDatabase_deleteSecretMetadata_def case_prod_unfold Let_def)

lemma serving_reads:
  assumes "serving d"
  shows "MetadataDatabase_collectionMetadata c cm b d = (r1, cm', b1, d1) \<Longrightarrow> serving d1"
    "MetadataDatabase_secretMetadata c n sm b d = (r2, sm', b2, d2) \<Longrightarrow> serving d2"
    "MetadataDatabase_collectionNames st d = (r3, cs, d3) \<Longrightarrow> serving d3"
    "MetadataDatabase_secretNames c d = (r4, ns, d4) \<Longrightarrow> serving d4"
    "MetadataDatabase_keyNames c d = (r5, ks, d5) \<Longrightarrow> serving d5"
  using serving_query [OF assms]
  by (auto simp: MetadataDatabase_collectionMetadata_def MetadataDatabase_secretMetadata_def
      MetadataDatabase_collectionNames_def MetadataDatabase_secretNames_def MetadataDatabase_keyNames_def
      case_prod_unfold Let_def split: option.splits)

lemma serving_isLocked:
  assumes "serving d"
  shows "\<exists>d'. MetadataDatabase_isLocked b d = (success, False, d') \<and> serving d'"
proof -
  obtain p d1 where p: "Database_prepare lockedQuery d = (p, d1)" by (cases "Database_prepare lockedQuery d")
  have d1: p "serving d1" using serving_prepare [OF assms, of lockedQuery] p by simp_all
  obtain t where "db_view d1 = Some t" using serving_view [OF d1(2)] ..
  then obtain d2 where x: "Database_execute (sql_select (\<lambda>t. ())) d1 = (Some (), d2)"
    using d1(2) by (auto simp: Database_execute_def serving_def sql_select_def)
  have "serving d2" using serving_execute [OF d1(2), of "sql_select (\<lambda>t. ())"] x by simp
  with p d1 x assms show ?thesis by (auto simp: MetadataDatabase_isLocked_def serving_def db_readable_def)
qed

lemma serving_forEach:
  assumes "\<And>x d. serving d \<Longrightarrow> serving (snd (f x d))"
  shows "serving (snd s) \<Longrightarrow> serving (snd (md_forEach f xs s))"
proof (induction xs arbitrary: s)
  case (Cons x xs)
  obtain b d where s: "s = (b, d)" by (cases s)
  have "serving (snd (f x d))" using assms Cons.prems s by simp
  then show ?case using Cons.IH [of "(b \<and> succeeded (fst (f x d)), snd (f x d))"] by (simp add: s case_prod_unfold Let_def)
qed simp

lemma serving_secretNamesMap: "serving d \<Longrightarrow> serving (snd (md_secretNamesMap cs m d))"
proof (induction cs arbitrary: m d)
  case (Cons c cs)
  then show ?case
    using serving_reads(4) [OF Cons.prems, of c] by (auto simp: Let_def Cons.IH split: prod.splits)
qed simp

lemma serving_initialize:
  assumes "serving d"
  shows "serving (snd (MetadataDatabase_initializeCollectionsFromPluginData cfg cs d))"
    "serving (snd (MetadataDatabase_initializeSecretsFromPluginData cfg ids locked d))"
proof -
  obtain r ns d1 where n: "MetadataDatabase_collectionNames True d = (r, ns, d1)" by (metis prod_cases3)
  have d1: "serving d1" using serving_reads(3) [OF assms n] .
  show "serving (snd (MetadataDatabase_initializeCollectionsFromPluginData cfg cs d))"
    using d1 n by (auto simp: MetadataDatabase_initializeCollectionsFromPluginData_def Let_def
        intro!: serving_forEach serving_changes)
  obtain m d2 where m: "md_secretNamesMap ns [] d1 = (m, d2)" by (cases "md_secretNamesMap ns [] d1")
  have "serving d2" using serving_secretNamesMap [OF d1, of ns "[]"] m by simp
  then show "serving (snd (MetadataDatabase_initializeSecretsFromPluginData cfg ids locked d))"
    using d1 n m by (auto simp: MetadataDatabase_initializeSecretsFromPluginData_def Let_def
        intro!: serving_forEach serving_changes split: option.splits)
qed

lemma serving_master_locked:
  assumes "serving (pw_metadataDb w)"
  shows "\<exists>d. PluginWrapper_isMasterLocked w = (False, w\<lparr>pw_metadataDb := d\<rparr>) \<and> serving d"
  using serving_isLocked [OF assms, of False] by (auto simp: PluginWrapper_isMasterLocked_def)

subsection \<open>The contract and the wrapper\<close>

context collection_lock
begin

text \<open>\<open>sealed C w\<close>: the metadata is serving and at most the collections in \<open>C\<close> are unlocked.\<close>

definition sealed :: "qstring set \<Rightarrow> 's PluginWrapper \<Rightarrow> bool" where
  "sealed C w \<longleftrightarrow> serving (pw_metadataDb w) \<and> unlocked (pw_plugin w) \<subseteq> C"

lemma sealed_mono: "sealed C w \<Longrightarrow> C \<subseteq> D \<Longrightarrow> sealed D w"
  by (auto simp: sealed_def)

lemma sealed_plugin: "sealed C w \<Longrightarrow> unlocked s \<subseteq> C \<Longrightarrow> sealed C (w\<lparr>pw_plugin := s\<rparr>)"
  by (simp add: sealed_def)

lemma sealed_metadata: "sealed C w \<Longrightarrow> serving d \<Longrightarrow> sealed C (w\<lparr>pw_metadataDb := d\<rparr>)"
  by (simp add: sealed_def)

lemma sealed_unlocked: "sealed C w \<Longrightarrow> unlocked (pw_plugin w) \<subseteq> C"
  by (simp add: sealed_def)

lemma sealed_master_locked:
  assumes "sealed C w"
  shows "\<exists>w1. PluginWrapper_isMasterLocked w = (False, w1) \<and> sealed C w1 \<and> pw_plugin w1 = pw_plugin w"
  using serving_master_locked [of w] assms by (auto simp: sealed_def)

lemma sealed_isCollectionLocked:
  assumes "sealed C w" and "EncryptedStoragePluginWrapper_isCollectionLocked plugin c b w = (r, l, w')"
  shows "sealed C w'"
  using assms isCollectionLocked_unlocks_none sealed_unlocked [OF assms(1)]
  by (auto simp: EncryptedStoragePluginWrapper_isCollectionLocked_def split: prod.splits intro!: sealed_plugin) blast

lemma sealed_lockStates:
  "EncryptedStoragePluginWrapper_lockStates plugin cs m s = (m', s') \<Longrightarrow> unlocked s' \<subseteq> unlocked s"
proof (induction cs arbitrary: m s)
  case (Cons c cs)
  obtain r l s1 where q: "es_isCollectionLocked plugin c False s = (r, l, s1)" by (metis prod_cases3)
  from Cons.prems q have "unlocked s' \<subseteq> unlocked s1" by (intro Cons.IH) simp
  with isCollectionLocked_unlocks_none [OF q] show ?case by blast
qed simp

lemma sealed_collectionNames:
  assumes "sealed C w" and "EncryptedStoragePluginWrapper_collectionNames plugin w = (r, m, w')"
  shows "sealed C w'"
proof -
  obtain r1 cs s1 where q: "es_collectionNames plugin (pw_plugin w) = (r1, cs, s1)" by (metis prod_cases3)
  obtain m2 s2 where l: "EncryptedStoragePluginWrapper_lockStates plugin cs [] s1 = (m2, s2)"
    by (cases "EncryptedStoragePluginWrapper_lockStates plugin cs [] s1")
  have "unlocked s1 \<subseteq> C" "unlocked s2 \<subseteq> C"
    using collectionNames_unlocks_none [OF q] sealed_lockStates [OF l] sealed_unlocked [OF assms(1)] by auto
  then show ?thesis
    using assms q l by (auto simp: EncryptedStoragePluginWrapper_collectionNames_def Let_def intro: sealed_plugin split: if_splits)
qed

lemma sealed_secretNames:
  assumes "sealed C w" and "EncryptedStoragePluginWrapper_secretNames plugin c w = (r, ns, w')"
  shows "sealed C w'"
proof -
  obtain r1 ns1 s1 where q: "es_secretNames plugin c (pw_plugin w) = (r1, ns1, s1)" by (metis prod_cases3)
  with secretNames_unlocks_none [OF q] sealed_unlocked [OF assms(1)] assms show ?thesis
    by (auto simp: EncryptedStoragePluginWrapper_secretNames_def intro!: sealed_plugin)
qed

lemma sealed_identifiers:
  assumes "sealed C w"
  shows "sealed C (snd (EncryptedStoragePluginWrapper_identifiers plugin cs ids locked w))"
  using assms
proof (induction cs arbitrary: ids locked w)
  case (Cons c cs)
  obtain r l s1 where q: "es_isCollectionLocked plugin c False (pw_plugin w) = (r, l, s1)" by (metis prod_cases3)
  define w1 where "w1 = w\<lparr>pw_plugin := s1\<rparr>"
  have w1: "sealed C w1" using isCollectionLocked_unlocks_none [OF q] sealed_unlocked [OF Cons.prems] Cons.prems
    unfolding w1_def by (intro sealed_plugin) auto
  obtain r2 ns w2 where n: "EncryptedStoragePluginWrapper_secretNames plugin c w1 = (r2, ns, w2)" by (metis prod_cases3)
  have "sealed C w2" using sealed_secretNames [OF w1 n] .
  with q n w1 Cons.IH show ?case by (simp add: w1_def [symmetric])
qed simp

lemma sealed_initialize:
  assumes "sealed C w"
  shows "sealed C (snd (EncryptedStoragePluginWrapper_initialize plugin cfg key w))"
proof -
  have o: "db_isOpen (pw_metadataDb w)" using assms by (simp add: sealed_def serving_def db_readable_def)
  obtain r m w2 where c: "EncryptedStoragePluginWrapper_collectionNames plugin w = (r, m, w2)" by (metis prod_cases3)
  have w2: "sealed C w2" using sealed_collectionNames [OF assms c] .
  obtain ids w3 where i: "EncryptedStoragePluginWrapper_identifiers plugin (map fst m) [] [] w2 = (ids, w3)"
    by (cases "EncryptedStoragePluginWrapper_identifiers plugin (map fst m) [] [] w2")
  have w3: "sealed C w3" using sealed_identifiers [OF w2, of "map fst m" "[]" "[]"] i by simp
  have "sealed C (snd (PluginWrapper_synchronise cfg cs is ls w3))" for cs "is" ls
  proof -
    have b: "serving (snd (Database_beginTransaction (pw_metadataDb w3)))"
      using w3 serving_begin [of "pw_metadataDb w3"] by (simp add: sealed_def)
    show ?thesis
      using w3 b serving_commit [OF serving_initialize(2) [OF serving_initialize(1) [OF b]]]
      by (auto simp: PluginWrapper_synchronise_def sealed_def case_prod_unfold Let_def)
  qed
  with assms o c i w2 w3 show ?thesis
    by (auto simp: EncryptedStoragePluginWrapper_initialize_def Let_def split: option.splits)
qed

lemma sealed_setEncryptionKey:
  assumes "sealed C w" and "EncryptedStoragePluginWrapper_setEncryptionKey plugin cfg c key w = (r, w')"
  shows "sealed (insert c C) w'"
proof -
  obtain w1 where m: "PluginWrapper_isMasterLocked w = (False, w1)" "sealed C w1" "pw_plugin w1 = pw_plugin w"
    using sealed_master_locked [OF assms(1)] by blast
  obtain r1 s1 where k: "es_setEncryptionKey plugin c key (pw_plugin w1) = (r1, s1)"
    by (cases "es_setEncryptionKey plugin c key (pw_plugin w1)")
  have "sealed (insert c C) (w1\<lparr>pw_plugin := s1\<rparr>)"
    using setEncryptionKey_one [OF k] sealed_unlocked [OF m(2)] m(2) by (auto simp: sealed_def)
  from sealed_initialize [OF this, of cfg "[]"] assms(2) m(1) k show ?thesis
    by (auto simp: EncryptedStoragePluginWrapper_setEncryptionKey_def)
qed

lemma sealed_take_key:
  assumes "sealed (insert c C) w" and "EncryptedStoragePluginWrapper_setEncryptionKey plugin cfg c [] w = (r, w')"
  shows "sealed C w'"
proof -
  obtain w1 where m: "PluginWrapper_isMasterLocked w = (False, w1)" "sealed (insert c C) w1" "pw_plugin w1 = pw_plugin w"
    using sealed_master_locked [OF assms(1)] by blast
  obtain r1 s1 where k: "es_setEncryptionKey plugin c [] (pw_plugin w1) = (r1, s1)"
    by (cases "es_setEncryptionKey plugin c [] (pw_plugin w1)")
  have "sealed C (w1\<lparr>pw_plugin := s1\<rparr>)"
    using setEncryptionKey_none [OF k] sealed_unlocked [OF m(2)] m(2) by (auto simp: sealed_def)
  from sealed_initialize [OF this, of cfg "[]"] assms(2) m(1) k show ?thesis
    by (auto simp: EncryptedStoragePluginWrapper_setEncryptionKey_def)
qed

text \<open>The operations of the wrapper on secrets.\<close>

lemma sealed_getSecret:
  assumes "sealed C w" and "EncryptedStoragePluginWrapper_getSecret plugin c n w = (r, x, w')"
  shows "sealed C w'"
proof -
  obtain r1 x1 s1 where q: "es_getSecret plugin c n (pw_plugin w) = (r1, x1, s1)" by (metis prod_cases3)
  with getSecret_unlocks_none [OF q] sealed_unlocked [OF assms(1)] assms show ?thesis
    by (auto simp: EncryptedStoragePluginWrapper_getSecret_def intro!: sealed_plugin)
qed

lemma sealed_findSecrets:
  assumes "sealed C w" and "EncryptedStoragePluginWrapper_findSecrets plugin c flt op w = (r, x, w')"
  shows "sealed C w'"
proof -
  obtain r1 x1 s1 where q: "es_findSecrets plugin c flt op (pw_plugin w) = (r1, x1, s1)" by (metis prod_cases3)
  with findSecrets_unlocks_none [OF q] sealed_unlocked [OF assms(1)] assms show ?thesis
    by (auto simp: EncryptedStoragePluginWrapper_findSecrets_def intro!: sealed_plugin)
qed

lemma sealed_unless_locked:
  assumes "sealed C w" and "\<And>w1. sealed C w1 \<Longrightarrow> sealed C (snd (k w1))"
  shows "sealed C (snd (unless_locked plugin k w))"
  using sealed_master_locked [OF assms(1)] assms by (auto simp: unless_locked_def)

lemma sealed_unless_collection_locked:
  assumes "sealed C w" and "\<And>w1. sealed C w1 \<Longrightarrow> sealed C (snd (k w1))"
  shows "sealed C (snd (unless_collection_locked plugin c k w))"
proof -
  obtain r l s1 where q: "es_isCollectionLocked plugin c False (pw_plugin w) = (r, l, s1)" by (metis prod_cases3)
  have "sealed C (w\<lparr>pw_plugin := s1\<rparr>)"
    using isCollectionLocked_unlocks_none [OF q] sealed_unlocked [OF assms(1)] assms(1) by (intro sealed_plugin) auto
  with q assms(2) show ?thesis by (auto simp: unless_collection_locked_def Let_def)
qed

lemma sealed_transaction:
  assumes "sealed C w" and "\<And>d. serving d \<Longrightarrow> serving (snd (change_metadata d))"
    and "\<And>s. unlocked (snd (change_plugin s)) \<subseteq> unlocked s"
  shows "sealed C (snd (metadata_transaction change_metadata change_plugin w))"
proof -
  have b: "serving (snd (Database_beginTransaction (pw_metadataDb w)))"
    using assms(1) serving_begin [of "pw_metadataDb w"] by (simp add: sealed_def)
  note m = assms(2) [OF b]
  have "unlocked (snd (change_plugin (pw_plugin w))) \<subseteq> C" using assms(3) sealed_unlocked [OF assms(1)] by blast
  with assms(1) b m serving_commit [OF m] serving_rollback [OF m] show ?thesis
    by (auto simp: metadata_transaction_def sealed_def case_prod_unfold Let_def)
qed

lemma unlocks_none_changes:
  "unlocked (snd (es_setSecret plugin c n v fd s)) \<subseteq> unlocked s"
  "unlocked (snd (es_removeSecret plugin c n s)) \<subseteq> unlocked s"
  using setSecret_unlocks_none removeSecret_unlocks_none by (metis prod.collapse)+

lemma sealed_setSecret:
  "sealed C w \<Longrightarrow> sealed C (snd (EncryptedStoragePluginWrapper_setSecret plugin m v fd w))"
  unfolding EncryptedStoragePluginWrapper_setSecret_def
  by (intro sealed_unless_locked sealed_unless_collection_locked sealed_transaction serving_changes unlocks_none_changes)

lemma sealed_removeSecret:
  "sealed C w \<Longrightarrow> sealed C (snd (EncryptedStoragePluginWrapper_removeSecret plugin c n w))"
  unfolding EncryptedStoragePluginWrapper_removeSecret_def
  by (intro sealed_unless_locked sealed_unless_collection_locked sealed_transaction serving_changes unlocks_none_changes)

lemma sealed_secretMetadata:
  assumes "sealed C w" and "PluginWrapper_secretMetadata c n m w = (r, m', w')"
  shows "sealed C w'"
proof -
  obtain w1 where l: "PluginWrapper_isMasterLocked w = (False, w1)" "sealed C w1"
    using sealed_master_locked [OF assms(1)] by blast
  obtain r1 m1 b d where q: "MetadataDatabase_secretMetadata c n m False (pw_metadataDb w1) = (r1, m1, b, d)"
    by (metis prod_cases4)
  have "serving d" using serving_reads(2) [OF _ q] l(2) by (simp add: sealed_def)
  with l q assms(2) show ?thesis by (auto simp: PluginWrapper_secretMetadata_def sealed_def)
qed

subsection \<open>The compound operations\<close>

text \<open>Unlocking leaves at most the one collection unlocked, and only when it reports that it did.\<close>

lemma sealed_unlock_collection:
  assumes "sealed C w" and "eh_plugin h = plugin" and "unlock_collection h c key w = (u, w')"
  shows "u = Inr True \<Longrightarrow> sealed (insert c C) w'" "u \<noteq> Inr True \<Longrightarrow> sealed C w'"
proof -
  obtain r1 l1 w1 where q1: "EncryptedStoragePluginWrapper_isCollectionLocked plugin c False w = (r1, l1, w1)"
    by (metis prod_cases3)
  have w1: "sealed C w1" using sealed_isCollectionLocked [OF assms(1) q1] .
  obtain r2 w2 where k: "EncryptedStoragePluginWrapper_setEncryptionKey plugin (eh_config h) c key w1 = (r2, w2)" by fastforce
  have w2: "sealed (insert c C) w2" using sealed_setEncryptionKey [OF w1 k] .
  obtain r3 l3 w3 where q3: "EncryptedStoragePluginWrapper_isCollectionLocked plugin c True w2 = (r3, l3, w3)"
    by (metis prod_cases3)
  have w3: "sealed (insert c C) w3" using sealed_isCollectionLocked [OF w2 q3] .
  have t: "sealed C (snd (EncryptedStoragePluginWrapper_setEncryptionKey plugin (eh_config h) c [] w2))"
    "sealed C (snd (EncryptedStoragePluginWrapper_setEncryptionKey plugin (eh_config h) c [] w3))"
    using sealed_take_key [OF w2] sealed_take_key [OF w3] by (metis prod.collapse)+
  show "u = Inr True \<Longrightarrow> sealed (insert c C) w'" "u \<noteq> Inr True \<Longrightarrow> sealed C w'"
    using assms(2,3) q1 k q3 w1 w3 t by (auto simp: unlock_collection_def Let_def split: if_splits)
qed

lemma sealed_relock:
  assumes "sealed (if b then insert c C else C) w" and "eh_plugin h = plugin"
  shows "sealed C (relock_collection h c b w)" 
  using assms sealed_take_key [of c C w "eh_config h"]
  by (cases "EncryptedStoragePluginWrapper_setEncryptionKey plugin (eh_config h) c [] w")
    (auto simp: relock_collection_def split: if_splits)

text \<open>
  What is common to the four operations: unlock, do something that unlocks nothing, and lock again if
  that is asked for.
\<close>

lemma sealed_compound:
  assumes "sealed C w" and "eh_plugin h = plugin" and "unlock_collection h c key w = (u, w1)"
    and "\<And>D. sealed D w1 \<Longrightarrow> sealed D w2" and "u = Inr b"
  shows "sealed (if relock then C else insert c C) (relock_collection h c (b \<and> relock) w2)"
proof (cases b)
  case True
  have "sealed (insert c C) w2" using assms(4) sealed_unlock_collection(1) [OF assms(1-3)] assms(5) True by simp
  then show ?thesis using True sealed_relock [of True c C w2 h] assms(2) by (auto simp: relock_collection_def)
next
  case False
  have "sealed C w2" using assms(4) sealed_unlock_collection(2) [OF assms(1-3)] assms(5) False by simp
  then show ?thesis using False by (auto simp: relock_collection_def intro: sealed_mono)
qed

lemma sealed_store:
  assumes "sealed C w" and "eh_plugin h = plugin"
  shows "sealed (if relocks_secret m then C else insert (id_collectionName (se_identifier x)) C)
    (snd (EncryptedStoragePluginFunctionWrapper_unlockCollectionAndStoreSecret h m x key w))"
proof -
  let ?c = "id_collectionName (se_identifier x)"
  obtain u w1 where u: "unlock_collection h ?c key w = (u, w1)" by (cases "unlock_collection h ?c key w")
  show ?thesis
  proof (cases u)
    case (Inl r)
    with sealed_unlock_collection(2) [OF assms u] u show ?thesis
      by (auto simp: EncryptedStoragePluginFunctionWrapper_unlockCollectionAndStoreSecret_def intro: sealed_mono)
  next
    case (Inr b)
    from sealed_compound [OF assms u sealed_setSecret [where m = m and v = "se_data x" and fd = "se_filterData x"] Inr,
        where relock = "relocks_secret m"]
      Inr u assms(2) show ?thesis
      by (simp add: EncryptedStoragePluginFunctionWrapper_unlockCollectionAndStoreSecret_def Let_def case_prod_unfold)
  qed
qed

lemma sealed_read:
  assumes "sealed C w" and "eh_plugin h = plugin"
  shows "sealed (if relocks m then C else insert (id_collectionName i) C)
    (snd (snd (EncryptedStoragePluginFunctionWrapper_unlockCollectionAndReadSecret h m i key w)))"
proof -
  let ?c = "id_collectionName i"
  obtain u w1 where u: "unlock_collection h ?c key w = (u, w1)" by (cases "unlock_collection h ?c key w")
  obtain r x w2 where g: "EncryptedStoragePluginWrapper_getSecret plugin ?c (id_name i) w1 = (r, x, w2)" by (metis prod_cases3)
  show ?thesis
  proof (cases u)
    case (Inl r)
    with sealed_unlock_collection(2) [OF assms u] u show ?thesis
      by (auto simp: EncryptedStoragePluginFunctionWrapper_unlockCollectionAndReadSecret_def intro: sealed_mono)
  next
    case (Inr b)
    from sealed_compound [OF assms u sealed_getSecret [OF _ g] Inr, of "relocks m"] Inr u g assms(2) show ?thesis
      by (simp add: EncryptedStoragePluginFunctionWrapper_unlockCollectionAndReadSecret_def Let_def case_prod_unfold)
  qed
qed

lemma sealed_remove:
  assumes "sealed C w" and "eh_plugin h = plugin"
  shows "sealed (if relocks m then C else insert (id_collectionName i) C)
    (snd (EncryptedStoragePluginFunctionWrapper_unlockCollectionAndRemoveSecret h m i key w))"
proof -
  let ?c = "id_collectionName i"
  obtain u w1 where u: "unlock_collection h ?c key w = (u, w1)" by (cases "unlock_collection h ?c key w")
  show ?thesis
  proof (cases u)
    case (Inl r)
    with sealed_unlock_collection(2) [OF assms u] u show ?thesis
      by (auto simp: EncryptedStoragePluginFunctionWrapper_unlockCollectionAndRemoveSecret_def intro: sealed_mono)
  next
    case (Inr b)
    from sealed_compound [OF assms u sealed_removeSecret [where c = ?c and n = "id_name i"] Inr, where relock = "relocks m"] Inr u assms(2) show ?thesis
      by (simp add: EncryptedStoragePluginFunctionWrapper_unlockCollectionAndRemoveSecret_def Let_def case_prod_unfold)
  qed
qed

lemma sealed_find:
  assumes "sealed C w" and "eh_plugin h = plugin"
  shows "sealed (if relocks m then C else insert (cm_collectionName m) C)
    (snd (snd (EncryptedStoragePluginFunctionWrapper_unlockAndFindSecrets h m flt op key w)))"
proof -
  let ?c = "cm_collectionName m"
  obtain u w1 where u: "unlock_collection h ?c key w = (u, w1)" by (cases "unlock_collection h ?c key w")
  obtain r x w2 where g: "EncryptedStoragePluginWrapper_findSecrets plugin ?c flt op w1 = (r, x, w2)" by (metis prod_cases3)
  show ?thesis
  proof (cases u)
    case (Inl r)
    with sealed_unlock_collection(2) [OF assms u] u show ?thesis
      by (auto simp: EncryptedStoragePluginFunctionWrapper_unlockAndFindSecrets_def intro: sealed_mono)
  next
    case (Inr b)
    from sealed_compound [OF assms u sealed_findSecrets [OF _ g] Inr, of "relocks m"] Inr u g assms(2) show ?thesis
      by (simp add: EncryptedStoragePluginFunctionWrapper_unlockAndFindSecrets_def
          EncryptedStoragePluginFunctionWrapper_findSecrets_def Let_def case_prod_unfold)
  qed
qed

text \<open>The cryptography side: a key is used, or stored, in a collection that may have to be unlocked first.\<close>

lemma sealed_unlockCollection:
  assumes "sealed C w" and "unlockCollection plugin cfg c key w = (r, b, w')"
  shows "sealed (if b then insert c C else C) w'"
proof -
  obtain r1 l1 w1 where q1: "EncryptedStoragePluginWrapper_isCollectionLocked plugin c False w = (r1, l1, w1)"
    by (metis prod_cases3)
  have w1: "sealed C w1" using sealed_isCollectionLocked [OF assms(1) q1] .
  obtain r2 w2 where k: "EncryptedStoragePluginWrapper_setEncryptionKey plugin cfg c key w1 = (r2, w2)" by fastforce
  have w2: "sealed (insert c C) w2" using sealed_setEncryptionKey [OF w1 k] .
  obtain r3 l3 w3 where q3: "EncryptedStoragePluginWrapper_isCollectionLocked plugin c True w2 = (r3, l3, w3)"
    by (metis prod_cases3)
  have "sealed (insert c C) w3" using sealed_isCollectionLocked [OF w2 q3] .
  with assms(2) q1 k q3 w1 w2 show ?thesis by (auto simp: unlockCollection_def split: if_splits)
qed

lemma sealed_use_key:
  assumes "sealed C w" and "\<And>s. unlocked (snd (snd (f e s))) \<subseteq> unlocked s"
  shows "\<exists>r x w'. use_key missing key ckey unset f g (CryptoWrapper plugin cfg e w) = (r, x, CryptoWrapper plugin cfg e w')
    \<and> sealed C w'"
proof -
  let ?c = "id_collectionName (key_identifier key)"
  define u where "u = (if missing then unlockCollection plugin cfg ?c ckey w else (success, False, w))"
  obtain r1 b w1 where u: "u = (r1, b, w1)" by (cases u)
  have w1: "sealed (if b then insert ?c C else C) w1"
    using assms(1) u sealed_unlockCollection [OF assms(1), of cfg ?c ckey r1 b w1] by (cases missing) (auto simp: u_def)
  have w2: "sealed (if b then insert ?c C else C) (w1\<lparr>pw_plugin := snd (snd (f e (pw_plugin w1)))\<rparr>)"
    using assms(2) [of "pw_plugin w1"] sealed_unlocked [OF w1] w1 by (intro sealed_plugin) auto
  have t: "sealed C (if b then snd (EncryptedStoragePluginWrapper_setEncryptionKey plugin cfg ?c [] v) else v)"
    if "sealed (if b then insert ?c C else C) v" for v
    using that sealed_take_key by (cases b) (simp, metis prod.collapse, simp)
  show ?thesis
    using t [OF w1] t [OF w2]
    by (auto simp: use_key_def u_def [symmetric] u Let_def case_prod_unfold)
qed

lemma sealed_prepareInsert:
  assumes "sealed C w"
  shows "sealed C (snd (snd (CryptoStoragePluginWrapper_prepareInsert m b w)))"
    "fst (snd (CryptoStoragePluginWrapper_prepareInsert m b w)) = b"
proof -
  obtain r x e d where q: "MetadataDatabase_secretMetadata (sm_collectionName m) (sm_secretName m) unset_secret_metadata
      False (pw_metadataDb w) = (r, x, e, d)" by (metis prod_cases4)
  have d: "serving d" using serving_reads(2) [OF _ q] assms by (simp add: sealed_def)
  note b = serving_begin [OF d] and i = serving_changes(3) [OF serving_begin [OF d], of m]
  show "sealed C (snd (snd (CryptoStoragePluginWrapper_prepareInsert m b w)))"
    "fst (snd (CryptoStoragePluginWrapper_prepareInsert m b w)) = b"
    using assms q d b i serving_rollback [OF i]
    by (simp_all add: CryptoStoragePluginWrapper_prepareInsert_def sealed_def case_prod_unfold Let_def)
qed

lemma sealed_prepareToStoreKey:
  assumes "sealed C w" and "CryptoStoragePluginWrapper_prepareToStoreKey plugin e m key w = (r, b, w')"
  shows "sealed (if b then insert (sm_collectionName m) C else C) w'"
proof -
  let ?c = "sm_collectionName m"
  obtain w1 where l: "PluginWrapper_isMasterLocked w = (False, w1)" "sealed C w1" "pw_plugin w1 = pw_plugin w"
    using sealed_master_locked [OF assms(1)] by blast
  obtain r1 l1 s1 where q1: "es_isCollectionLocked plugin ?c False (pw_plugin w1) = (r1, l1, s1)" by (metis prod_cases3)
  define w2 where "w2 = w1\<lparr>pw_plugin := s1\<rparr>"
  have w2: "sealed C w2"
    using isCollectionLocked_unlocks_none [OF q1] sealed_unlocked [OF l(2)] l(2) unfolding w2_def by (intro sealed_plugin) auto
  obtain r2 s2 where k: "es_setEncryptionKey plugin ?c key s1 = (r2, s2)" by fastforce
  obtain r3 l3 s3 where q3: "es_isCollectionLocked plugin ?c False s2 = (r3, l3, s3)" by (metis prod_cases3)
  define w3 where "w3 = w2\<lparr>pw_plugin := s2\<rparr>"
  define w4 where "w4 = w3\<lparr>pw_plugin := s3\<rparr>"
  have "unlocked s2 \<subseteq> insert ?c C"
    using setEncryptionKey_one [OF k] sealed_unlocked [OF w2] by (auto simp: w2_def)
  then have w34: "sealed (insert ?c C) w3" "sealed (insert ?c C) w4"
    using isCollectionLocked_unlocks_none [OF q3] w2 by (auto simp: w3_def w4_def sealed_def)
  note i = sealed_prepareInsert [OF w2, of m False] sealed_prepareInsert [OF w34(2), of m True]
  have s: "pw_plugin w2 = s1" "pw_plugin w3 = s2" by (simp_all add: w2_def w3_def)
  from assms(2) l(1) q1 k q3 show ?thesis
    unfolding CryptoStoragePluginWrapper_prepareToStoreKey_def
    using assms(1) l(2) w2 w34 i s
    by (auto simp: w2_def [symmetric] w3_def [symmetric] w4_def [symmetric] Let_def split: if_splits)
qed

lemma sealed_store_key:
  assumes "sealed C w" and "\<And>s. unlocked (snd (snd (f s))) \<subseteq> unlocked s"
  shows "sealed C (snd (snd (store_key plugin e f m key k w)))"
proof -
  let ?c = "sm_collectionName m"
  obtain r b w1 where p: "CryptoStoragePluginWrapper_prepareToStoreKey plugin e m key w = (r, b, w1)" by (metis prod_cases3)
  have w1: "sealed (if b then insert ?c C else C) w1" using sealed_prepareToStoreKey [OF assms(1) p] .
  obtain r2 k2 s2 where f: "f (pw_plugin w1) = (r2, k2, s2)" by (metis prod_cases3)
  have "unlocked s2 \<subseteq> (if b then insert ?c C else C)" using assms(2) [of "pw_plugin w1"] f sealed_unlocked [OF w1] by auto
  then have w2: "sealed (if b then insert ?c C else C) (w1\<lparr>pw_plugin := s2, pw_metadataDb := rollback_db (pw_metadataDb w1)\<rparr>)"
    "sealed (if b then insert ?c C else C) (w1\<lparr>pw_plugin := s2, pw_metadataDb := commit_db (pw_metadataDb w1)\<rparr>)"
    using w1 serving_rollback [of "pw_metadataDb w1"] serving_commit [of "pw_metadataDb w1"] by (simp_all add: sealed_def)
  have t: "sealed C (if b then v\<lparr>pw_plugin := snd (es_setEncryptionKey plugin ?c [] (pw_plugin v))\<rparr> else v)"
    if "sealed (if b then insert ?c C else C) v" for v
  proof (cases b)
    case True
    have "unlocked (snd (es_setEncryptionKey plugin ?c [] (pw_plugin v))) \<subseteq> unlocked (pw_plugin v) - {?c}"
      using setEncryptionKey_none by (metis prod.collapse)
    with that True show ?thesis by (auto simp: sealed_def)
  qed (use that in simp)
  show ?thesis using t [OF w1] t [OF w2(1)] t [OF w2(2)] p f by (auto simp: store_key_def Let_def)
qed

end

subsection \<open>No operation leaves a collection unlocked\<close>

datatype compound_op =
    Unlock_storeSecret SecretMetadata Secret qbytes
  | Unlock_readSecret CollectionMetadata Identifier qbytes
  | Unlock_removeSecret CollectionMetadata Identifier qbytes
  | Unlock_findSecrets CollectionMetadata filter_data FilterOperator qbytes

primrec compound_run :: "'s EncryptedHost \<Rightarrow> compound_op \<Rightarrow> 's PluginWrapper \<Rightarrow> Result \<times> 's PluginWrapper" where
  "compound_run h (Unlock_storeSecret m x key) w =
     EncryptedStoragePluginFunctionWrapper_unlockCollectionAndStoreSecret h m x key w"
| "compound_run h (Unlock_readSecret m i key) w =
     (let (r, _, w1) = EncryptedStoragePluginFunctionWrapper_unlockCollectionAndReadSecret h m i key w in (r, w1))"
| "compound_run h (Unlock_removeSecret m i key) w =
     EncryptedStoragePluginFunctionWrapper_unlockCollectionAndRemoveSecret h m i key w"
| "compound_run h (Unlock_findSecrets m flt f key) w =
     (let (r, _, w1) = EncryptedStoragePluginFunctionWrapper_unlockAndFindSecrets h m flt f key w in (r, w1))"

primrec compound_keeps_unlocked :: "compound_op \<Rightarrow> qstring set" where
  "compound_keeps_unlocked (Unlock_storeSecret m x key) =
     (if relocks_secret m then {} else {id_collectionName (se_identifier x)})"
| "compound_keeps_unlocked (Unlock_readSecret m i key) = (if relocks m then {} else {id_collectionName i})"
| "compound_keeps_unlocked (Unlock_removeSecret m i key) = (if relocks m then {} else {id_collectionName i})"
| "compound_keeps_unlocked (Unlock_findSecrets m flt f key) = (if relocks m then {} else {cm_collectionName m})"

context collection_lock
begin

lemma sealed_compound_run:
  assumes "sealed C w" and "eh_plugin h = plugin"
  shows "sealed (C \<union> compound_keeps_unlocked op) (snd (compound_run h op w))"
proof (cases op)
  case (Unlock_storeSecret m x key)
  with sealed_store [OF assms, of m x key] show ?thesis by (simp split: if_splits)
next
  case (Unlock_readSecret m i key)
  with sealed_read [OF assms, of m i key] show ?thesis by (simp add: case_prod_unfold Let_def split: if_splits)
next
  case (Unlock_removeSecret m i key)
  with sealed_remove [OF assms, of m i key] show ?thesis by (simp split: if_splits)
next
  case (Unlock_findSecrets m flt f key)
  with sealed_find [OF assms, of m flt f key] show ?thesis by (simp add: case_prod_unfold Let_def split: if_splits)
qed

end

text \<open>
  C36. A collection that was locked is locked again. Storing, reading, removing and finding secrets
  unlock the collection when they find it locked. Whatever key they are given, and whatever the engine and the
  file system under the plugin answer, no collection is unlocked afterwards that was not unlocked before, except
  the one they work on when its unlock semantic is to keep it unlocked. The metadata database must serve requests,
  and does so afterwards: with one that refuses the query for its lock state the wrapper takes itself for
  master-locked and does not lock the collection.
\<close>

theorem locked_collection_is_locked_again:
  assumes "serving (pw_metadataDb w)" and "eh_plugin h = sqlcipher_plugin env" and "compound_run h op w = (r, w')"
  shows "sc_unlocked (pw_plugin w') \<subseteq> sc_unlocked (pw_plugin w) \<union> compound_keeps_unlocked op
    \<and> serving (pw_metadataDb w')"
proof -
  have "sqlcipher_lock.sealed (sc_unlocked (pw_plugin w)) w" using assms(1) by (simp add: sqlcipher_lock.sealed_def)
  from sqlcipher_lock.sealed_compound_run [OF this assms(2), of op] assms(3) show ?thesis
    by (simp add: sqlcipher_lock.sealed_def)
qed

text \<open>A host of the SQLCipher plugin, whose collection is locked, and a request to read a secret that is not kept unlocked.\<close>

definition demo_host :: "SqlCipherPlugin EncryptedHost" where
  "demo_host =
     \<lparr>eh_plugin = sqlcipher_plugin demo_env, eh_config = demo_cfg, eh_wrapper = demo_encrypted_wrapper []\<rparr>"

definition demo_read :: compound_op where
  "demo_read =
     Unlock_readSecret (standalone_metadata\<lparr>cm_collectionName := ''box'', cm_unlockSemantic := 9\<rparr>)
       \<lparr>id_name = ''s'', id_collectionName = ''box'', id_storagePluginName = []\<rparr> ''k''"

lemma demo_read_succeeds: "succeeded (fst (compound_run demo_host demo_read (eh_wrapper demo_host)))"
  by code_simp

theorem locked_collection_is_locked_again_witness:
  "let (r, w') = compound_run demo_host demo_read (eh_wrapper demo_host)
   in succeeded r \<and> sc_unlocked (pw_plugin w') = {}"
proof -
  have "serving (pw_metadataDb (eh_wrapper demo_host))" by code_simp
  moreover have "eh_plugin demo_host = sqlcipher_plugin demo_env" by (simp add: demo_host_def)
  ultimately have "sc_unlocked (pw_plugin (snd (compound_run demo_host demo_read (eh_wrapper demo_host))))
      \<subseteq> sc_unlocked (pw_plugin (eh_wrapper demo_host)) \<union> compound_keeps_unlocked demo_read"
    using locked_collection_is_locked_again [OF _ _ prod.collapse [symmetric]] by blast
  moreover have "sc_unlocked (pw_plugin (eh_wrapper demo_host)) = {}" "compound_keeps_unlocked demo_read = {}"
    by (auto simp: demo_host_def demo_encrypted_wrapper_def demo_vault_def sc_unlocked_def connection_def in_collections)
      (simp add: demo_read_def relocks_def standalone_metadata_def CustomLockKeepUnlocked_def)
  ultimately show ?thesis using demo_read_succeeds by (simp add: case_prod_unfold Let_def)
qed

subsection \<open>A locked collection opens with its key\<close>

lemma sc_isCollectionLocked_locked:
  assumes "c \<in> sc_collections s" and "c \<notin> sc_unlocked s"
  shows "SqlCipherPlugin_isCollectionLocked c b s = (success, True, s)"
  using assms connection_unlocked [of s c] by (simp add: SqlCipherPlugin_isCollectionLocked_def file_exists_collections)

lemma sc_isCollectionLocked_unlocked:
  assumes "sc_ready s" and "sc_engine_ready s" and "c \<in> sc_unlocked s"
  shows "\<exists>s'. SqlCipherPlugin_isCollectionLocked c b s = (success, False, s') \<and> sc_engine_ready s'"
proof -
  obtain d where d: "connection s c = Some d" using assms(3) connection_unlocked [of s c] by auto
  from sc_connectionE [OF assms(1) d] obtain t where t: "idle d" "db_file d = Some t" "db_answers d = sc_answers s" by blast
  have s: "serving d" using t assms(2) by (simp add: serving_def idle_def sc_engine_ready_def engine_ready_def)
  obtain p d1 where p: "Database_prepare cq_locked d = (p, d1)" by (cases "Database_prepare cq_locked d")
  have d1: p "serving d1" using serving_prepare [OF s, of cq_locked] p by simp_all
  obtain t1 where "db_view d1 = Some t1" using serving_view [OF d1(2)] ..
  then obtain d2 where x: "Database_execute (sql_select (\<lambda>t. ())) d1 = (Some (), d2)"
    using d1(2) by (auto simp: Database_execute_def serving_def sql_select_def)
  have "serving d2" using serving_execute [OF d1(2), of "sql_select (\<lambda>t. ())"] x by simp
  then have "sc_engine_ready (put_database c d2 s)" by (simp add: serving_def engine_ready_def sc_engine_ready_def)
  with d p d1(1) x show ?thesis by (simp add: SqlCipherPlugin_isCollectionLocked_def)
qed

text \<open>Through the wrapper of an initialised plugin, whose metadata serves requests, only the key matters.\<close>

lemma set_key_initialized:
  assumes "serving (pw_metadataDb w)" and "pw_initialized w"
  shows "\<exists>d. EncryptedStoragePluginWrapper_setEncryptionKey p cfg c key w =
      (fst (es_setEncryptionKey p c key (pw_plugin w)),
       w\<lparr>pw_metadataDb := d, pw_plugin := snd (es_setEncryptionKey p c key (pw_plugin w))\<rparr>) \<and> serving d"
  using serving_master_locked [OF assms(1)] assms(2)
  by (auto simp: EncryptedStoragePluginWrapper_setEncryptionKey_def EncryptedStoragePluginWrapper_initialize_def
      case_prod_unfold Let_def)

lemma unlock_collection_key:
  assumes "serving (pw_metadataDb w)" and "pw_initialized w" and "eh_plugin h = sqlcipher_plugin env"
    and "sc_ready (pw_plugin w)" and "sc_engine_ready (pw_plugin w)" and "\<And>x. length (ce_sha256 env x) = 32"
    and "c \<in> sc_collections (pw_plugin w)" and "c \<notin> sc_unlocked (pw_plugin w)" and "key \<noteq> []"
    and "unlock_collection h c key w = (u, w')"
  shows "sc_stored (pw_plugin w') = sc_stored (pw_plugin w) \<and> pw_initialized w' \<and> serving (pw_metadataDb w')
    \<and> (if sc_key (pw_plugin w) c = Some (cipher_key env key)
       then u = Inr True \<and> sc_ready (pw_plugin w') \<and> sc_engine_ready (pw_plugin w') \<and> c \<in> sc_unlocked (pw_plugin w')
       else u = Inl (failure SecretsPluginDecryptionError))"
proof -
  let ?s = "pw_plugin w"
  note l = length_cipher_key [OF assms(6)]
  obtain r1 s1 where k: "SqlCipherPlugin_setEncryptionKey env c key ?s = (r1, s1)" by fastforce
  note e = sc_setEncryptionKey_effect [OF assms(4) k] and f = sc_setEncryptionKey_ready [OF assms(4,5) l k]
  obtain d1 where w1: "EncryptedStoragePluginWrapper_setEncryptionKey (sqlcipher_plugin env) (eh_config h) c key w
      = (r1, w\<lparr>pw_metadataDb := d1, pw_plugin := s1\<rparr>)" "serving d1"
    using set_key_initialized [OF assms(1,2), of "sqlcipher_plugin env" "eh_config h" c key] k by (auto simp: sqlcipher_plugin_def)
  have q: "EncryptedStoragePluginWrapper_isCollectionLocked (sqlcipher_plugin env) c False w = (success, True, w)"
    using sc_isCollectionLocked_locked [OF assms(7,8), of False]
    by (simp add: EncryptedStoragePluginWrapper_isCollectionLocked_def sqlcipher_plugin_def)
  have st: "sc_stored s1 = sc_stored ?s" using e(2) by (simp add: same_contents_def)
  show ?thesis
  proof (cases "succeeded r1")
    case True
    have c1: "c \<in> sc_unlocked s1" using e(4) [OF True assms(9)] by simp
    obtain s2 where q2: "SqlCipherPlugin_isCollectionLocked c True s1 = (success, False, s2)" "sc_engine_ready s2"
      using sc_isCollectionLocked_unlocked [OF e(1) f(3) [OF True] c1] by blast
    note i = sc_isCollectionLocked_effect [OF e(1) q2(1)]
    have "EncryptedStoragePluginWrapper_isCollectionLocked (sqlcipher_plugin env) c True (w\<lparr>pw_metadataDb := d1, pw_plugin := s1\<rparr>)
        = (success, False, w\<lparr>pw_metadataDb := d1, pw_plugin := s2\<rparr>)"
      using q2(1) by (simp add: EncryptedStoragePluginWrapper_isCollectionLocked_def sqlcipher_plugin_def)
    then have "u = Inr True" "w' = w\<lparr>pw_metadataDb := d1, pw_plugin := s2\<rparr>"
      using assms(3,10) q w1(1) True by (simp_all add: unlock_collection_def)
    moreover have "sc_stored s2 = sc_stored ?s" "sc_ready s2" "c \<in> sc_unlocked s2"
      using i st c1 by (simp_all add: same_contents_def)
    ultimately show ?thesis using f(1) [OF assms(9)] True q2(2) w1(2) assms(2) by simp
  next
    case False
    let ?w1 = "w\<lparr>pw_metadataDb := d1, pw_plugin := s1\<rparr>"
    obtain r2 s2 where k2: "SqlCipherPlugin_setEncryptionKey env c [] s1 = (r2, s2)" by fastforce
    obtain d2 where w2: "EncryptedStoragePluginWrapper_setEncryptionKey (sqlcipher_plugin env) (eh_config h) c [] ?w1
        = (r2, ?w1\<lparr>pw_metadataDb := d2, pw_plugin := s2\<rparr>)" "serving d2"
      using set_key_initialized [of ?w1 "sqlcipher_plugin env" "eh_config h" c "[]"] k2 w1(2) assms(2)
      by (auto simp: sqlcipher_plugin_def)
    have "u = Inl (failure SecretsPluginDecryptionError)" "w' = ?w1\<lparr>pw_metadataDb := d2, pw_plugin := s2\<rparr>"
      using assms(3,10) q w1(1) w2(1) False by (simp_all add: unlock_collection_def)
    moreover have "sc_stored s2 = sc_stored ?s"
      using sc_setEncryptionKey_effect(2) [OF e(1) k2] st by (simp add: same_contents_def)
    ultimately show ?thesis using f(1) [OF assms(9)] False w2(2) assms(2) by simp
  qed
qed

text \<open>
  Reading from a locked collection. Let the engines under the metadata and under the SQLCipher plugin
  refuse nothing and the plugin be initialised. \<open>unlockCollectionAndReadSecret\<close> on a locked collection returns
  the stored secret with its filter data if the key is the collection's, and otherwise reports a
  decryption error and an empty secret. Nothing that is stored changes in either case.
\<close>

theorem locked_collection_read:
  assumes "serving (pw_metadataDb w)" and "pw_initialized w" and "eh_plugin h = sqlcipher_plugin env"
    and "sc_ready (pw_plugin w)" and "sc_engine_ready (pw_plugin w)" and "\<And>x. length (ce_sha256 env x) = 32"
    and "id_collectionName i \<notin> sc_unlocked (pw_plugin w)" and "key \<noteq> []"
    and "id_collectionName i \<noteq> []" and "id_name i \<noteq> []"
    and "sc_stored (pw_plugin w) (id_collectionName i, id_name i) = Some (x, fd)"
    and "EncryptedStoragePluginFunctionWrapper_unlockCollectionAndReadSecret h m i key w = (r, secret, w')"
  shows "(if sc_key (pw_plugin w) (id_collectionName i) = Some (cipher_key env key)
       then succeeded r \<and> secret = \<lparr>se_identifier = i, se_data = x, se_filterData = fd\<rparr>
       else r = failure SecretsPluginDecryptionError \<and> secret = new_Secret)
    \<and> sc_stored (pw_plugin w') = sc_stored (pw_plugin w)"
proof -
  let ?c = "id_collectionName i" and ?s = "pw_plugin w"
  have c: "?c \<in> sc_collections ?s" using assms(11) by (auto simp: sc_stored_def in_collections split: option.splits)
  obtain u w1 where u: "unlock_collection h ?c key w = (u, w1)" by fastforce
  note k = unlock_collection_key [OF assms(1-6) c assms(7,8) u]
  show ?thesis
  proof (cases "sc_key ?s ?c = Some (cipher_key env key)")
    case True
    obtain r1 y s1 where g: "SqlCipherPlugin_getSecret ?c (id_name i) (pw_plugin w1) = (r1, y, s1)" by (metis prod_cases3)
    have o: "succeeded r1 \<and> y = Some (x, fd)"
      using sc_getSecret_ready [OF _ _ _ _ assms(9,10) g] k True assms(11) by simp
    have w2: "sc_stored s1 = sc_stored ?s" "sc_ready s1"
      using sc_getSecret_effect(1,3) [of "pw_plugin w1" ?c "id_name i" r1 y s1] k True g o by (auto simp: same_contents_def)
    let ?w2 = "w1\<lparr>pw_plugin := s1\<rparr>"
    obtain r3 s3 where k3: "SqlCipherPlugin_setEncryptionKey env ?c [] s1 = (r3, s3)" by fastforce
    have "sc_stored s3 = sc_stored ?s"
      using sc_setEncryptionKey_effect(2) [OF w2(2) k3] w2(1) by (simp add: same_contents_def)
    then have "sc_stored (pw_plugin (relock_collection h ?c b ?w2)) = sc_stored ?s" for b
      using set_key_initialized [of ?w2 "sqlcipher_plugin env" "eh_config h" ?c "[]"] k w2(1) k3 assms(3)
      by (auto simp: relock_collection_def sqlcipher_plugin_def)
    then show ?thesis
      using assms(3,12) u k True g o
      by (auto simp: EncryptedStoragePluginFunctionWrapper_unlockCollectionAndReadSecret_def
          EncryptedStoragePluginWrapper_getSecret_def sqlcipher_plugin_def secret_data_def Let_def)
  next
    case False
    with k u assms(12) show ?thesis
      by (auto simp: EncryptedStoragePluginFunctionWrapper_unlockCollectionAndReadSecret_def)
  qed
qed

theorem locked_collection_read_witness:
  "let i = \<lparr>id_name = ''s'', id_collectionName = ''box'', id_storagePluginName = []\<rparr>;
       read = (\<lambda>key. EncryptedStoragePluginFunctionWrapper_unlockCollectionAndReadSecret demo_host standalone_metadata i key
                 (eh_wrapper demo_host))
   in succeeded (fst (read ''k'')) \<and> se_data (fst (snd (read ''k''))) = ''x''
      \<and> fst (read ''j'') = failure SecretsPluginDecryptionError \<and> fst (snd (read ''j'')) = new_Secret"
proof -
  let ?w = "eh_wrapper demo_host" and ?i = "\<lparr>id_name = ''s'', id_collectionName = ''box'', id_storagePluginName = []\<rparr>"
  have a: "serving (pw_metadataDb ?w)" "pw_initialized ?w" "sc_ready (pw_plugin ?w)" "sc_engine_ready (pw_plugin ?w)"
    by (code_simp, code_simp, code_simp, code_simp)
  have p: "eh_plugin demo_host = sqlcipher_plugin demo_env" by (simp add: demo_host_def)
  have l: "length (ce_sha256 demo_env x) = 32" for x by (simp add: demo_env_def)
  have u: "id_collectionName ?i \<notin> sc_unlocked (pw_plugin ?w)"
    by (simp add: demo_host_def demo_encrypted_wrapper_def demo_vault_def sc_unlocked_def connection_def)
  have st: "sc_stored (pw_plugin ?w) (id_collectionName ?i, id_name ?i) = Some (''x'', [])" by code_simp
  have k: "sc_key (pw_plugin ?w) (id_collectionName ?i) = Some (cipher_key demo_env ''k'')"
    "\<not> sc_key (pw_plugin ?w) (id_collectionName ?i) = Some (cipher_key demo_env ''j'')" by (code_simp, code_simp)
  note t = locked_collection_read [OF a(1,2) p a(3,4) l u _ _ _ st, where r = "fst x" and secret = "fst (snd x)"
      and w' = "snd (snd x)" for x, OF _ _ _ prod.collapse [symmetric, THEN trans]]
  show ?thesis
    using t [where key = "''k''" and m = standalone_metadata] t [where key = "''j''" and m = standalone_metadata] k
    by (simp add: Let_def)
qed

end
