(* ===== verification/Sqlcipher_Crypto.thy ===== *)
theory Sqlcipher_Crypto
  imports Collection_Lock Key_Serialization
begin

section \<open>The SQLCipher plugin as a cryptography plugin\<close>

text \<open>
  The cryptography half of the SQLCipher plugin (src/plugins/sqlcipherplugin/cryptoplugin.cpp). A key is stored as a
  secret, in its lossy serialised form; every operation with a key that refers to a stored one reads it first. The
  cryptographic operations themselves are those of the OpenSSL plugin the class owns, an argument here:
  the state of the whole plugin is the pair of the storage half and of that plugin's state \<open>'o\<close>.
\<close>

type_synonym 'o sqlcipher_crypto_state = "SqlCipherPlugin \<times> 'o"

subsection \<open>The storage half within the whole plugin\<close>

definition on_storage_half :: "('s \<Rightarrow> 'r \<times> 's) \<Rightarrow> 's \<times> 'o \<Rightarrow> 'r \<times> 's \<times> 'o" where
  "on_storage_half f z = (case z of (s, o1) \<Rightarrow> let (r, s1) = f s in (r, s1, o1))"

definition query_storage_half :: "('s \<Rightarrow> 'r \<times> 'x \<times> 's) \<Rightarrow> 's \<times> 'o \<Rightarrow> 'r \<times> 'x \<times> 's \<times> 'o" where
  "query_storage_half f z = (case z of (s, o1) \<Rightarrow> let (r, x, s1) = f s in (r, x, s1, o1))"

definition on_crypto_half :: "('o \<Rightarrow> 'r \<times> 'x \<times> 'o) \<Rightarrow> 's \<times> 'o \<Rightarrow> 'r \<times> 'x \<times> 's \<times> 'o" where
  "on_crypto_half f z = (case z of (s, o1) \<Rightarrow> let (r, x, o2) = f o1 in (r, x, s, o2))"

definition sqlcipher_full :: "cipher_env \<Rightarrow> 'o sqlcipher_crypto_state EncryptedStoragePlugin" where
  "sqlcipher_full env =
     (let p = sqlcipher_plugin env
      in \<lparr>pb_supportsLocking = (\<lambda>z. pb_supportsLocking p (fst z)),
          pb_isAvailable = (\<lambda>z. pb_isAvailable p (fst z)),
          pb_isLocked = (\<lambda>z. pb_isLocked p (fst z)),
          pb_lock = on_storage_half (pb_lock p),
          pb_unlock = (\<lambda>code. on_storage_half (pb_unlock p code)),
          pb_setLockCode = (\<lambda>old new. on_storage_half (pb_setLockCode p old new)),
          es_collectionNames = query_storage_half (es_collectionNames p),
          es_createCollection = (\<lambda>c key. on_storage_half (es_createCollection p c key)),
          es_removeCollection = (\<lambda>c. on_storage_half (es_removeCollection p c)),
          es_isCollectionLocked = (\<lambda>c b. query_storage_half (es_isCollectionLocked p c b)),
          es_deriveKeyFromCode = (\<lambda>code salt. query_storage_half (es_deriveKeyFromCode p code salt)),
          es_setEncryptionKey = (\<lambda>c key. on_storage_half (es_setEncryptionKey p c key)),
          es_reencrypt = (\<lambda>c old new. on_storage_half (es_reencrypt p c old new)),
          es_setSecret = (\<lambda>c n x fd. on_storage_half (es_setSecret p c n x fd)),
          es_getSecret = (\<lambda>c n. query_storage_half (es_getSecret p c n)),
          es_secretNames = (\<lambda>c. query_storage_half (es_secretNames p c)),
          es_findSecrets = (\<lambda>c flt f. query_storage_half (es_findSecrets p c flt f)),
          es_removeSecret = (\<lambda>c n. on_storage_half (es_removeSecret p c n)),
          es_setStandaloneSecret = (\<lambda>n x fd key. on_storage_half (es_setStandaloneSecret p n x fd key)),
          es_accessSecret = (\<lambda>n key. query_storage_half (es_accessSecret p n key))\<rparr>)"

subsection \<open>Stored keys\<close>

text \<open>The bits of \<^verbatim>\<open>Key::Components\<close>: meta data, public and private key data.\<close>

definition nullifyKeyFields :: "int \<Rightarrow> Key \<Rightarrow> Key" where
  "nullifyKeyFields keep key =
     (let kcc = key_componentConstraints key;
          k1 = (if \<not> bit keep 0 \<or> \<not> bit kcc 0
                then Key_setFilterData [] (key\<lparr>key_identifier := no_identifier, key_origin := 0, key_algorithm := 0,
                       key_operations := 0, key_componentConstraints := 0\<rparr>)
                else key);
          k2 = (if \<not> bit keep 1 \<or> \<not> bit kcc 1 then k1\<lparr>key_customParameters := [], key_publicKey := []\<rparr> else k1)
      in if \<not> bit keep 2 \<or> \<not> bit kcc 2 then k2\<lparr>key_privateKey := [], key_secretKey := []\<rparr> else k2)"

definition invalid_key_identifier :: "Identifier \<Rightarrow> bool" where
  "invalid_key_identifier i \<longleftrightarrow>
     id_name i = [] \<or> id_collectionName i = [] \<or> same_ignoring_case (id_collectionName i) standalone"

definition SqlCipherPlugin_storedKey_internal ::
    "qstring \<Rightarrow> Identifier \<Rightarrow> Key \<Rightarrow> SqlCipherPlugin \<Rightarrow> CryptoResult \<times> Key \<times> SqlCipherPlugin" where
  "SqlCipherPlugin_storedKey_internal pluginName identifier key s =
     (if invalid_key_identifier identifier then (crypto_failure Crypto_InvalidKeyIdentifier, key, s)
      else let (storageResult, x, s1) = SqlCipherPlugin_getSecret (id_collectionName identifier) (id_name identifier) s;
               (secret, filterData) = secret_data x
      in if res_code storageResult = Failed then (transformSecretsResult storageResult, key, s1)
      else let (fullKey, ok) = Key_deserialize secret
      in if \<not> ok then (crypto_failure Crypto_SerializationError, key, s1)
      else (crypto_success,
            Key_setFilterData filterData (fullKey\<lparr>key_identifier :=
              \<lparr>id_name = id_name identifier, id_collectionName = id_collectionName identifier,
               id_storagePluginName = pluginName\<rparr>\<rparr>), s1))"

definition SqlCipherPlugin_storedKey ::
    "qstring \<Rightarrow> Identifier \<Rightarrow> int \<Rightarrow> variant_map \<Rightarrow> SqlCipherPlugin \<Rightarrow> CryptoResult \<times> Key \<times> SqlCipherPlugin" where
  "SqlCipherPlugin_storedKey pluginName identifier keyComponents customParameters s =
     (let (retn, fullKey, s1) = SqlCipherPlugin_storedKey_internal pluginName identifier new_Key s
      in (retn, nullifyKeyFields keyComponents fullKey, s1))"

primrec key_identifiers ::
    "qstring \<Rightarrow> qstring \<Rightarrow> qstring list \<Rightarrow> SqlCipherPlugin \<Rightarrow> Identifier list \<times> SqlCipherPlugin" where
  "key_identifiers pluginName collectionName [] s = ([], s)"
| "key_identifiers pluginName collectionName (sname # snames) s =
     (let keyIdent = \<lparr>id_name = sname, id_collectionName = collectionName, id_storagePluginName = pluginName\<rparr>;
          (keyResult, _, s1) = SqlCipherPlugin_storedKey_internal pluginName keyIdent new_Key s;
          (ids, s2) = key_identifiers pluginName collectionName snames s1
      in (if crypto_succeeded keyResult then keyIdent # ids else ids, s2))"

definition SqlCipherPlugin_storedKeyIdentifiers ::
    "qstring \<Rightarrow> qstring \<Rightarrow> variant_map \<Rightarrow> SqlCipherPlugin \<Rightarrow> CryptoResult \<times> Identifier list \<times> SqlCipherPlugin" where
  "SqlCipherPlugin_storedKeyIdentifiers pluginName collectionName customParameters s =
     (let (result, locked, s1) = SqlCipherPlugin_isCollectionLocked collectionName False s
      in if \<not> succeeded result then (transformSecretsResult result, [], s1)
      else if locked then (transformSecretsResult (failure CollectionIsLockedError), [], s1)
      else let (result2, snames, s2) = SqlCipherPlugin_secretNames collectionName s1
      in if \<not> succeeded result2 then (transformSecretsResult result2, [], s2)
      else let (ids, s3) = key_identifiers pluginName collectionName snames s2 in (crypto_success, ids, s3))"

definition SqlCipherPlugin_getFullKey ::
    "qstring \<Rightarrow> Key \<Rightarrow> SqlCipherPlugin \<Rightarrow> CryptoResult \<times> Key \<times> SqlCipherPlugin" where
  "SqlCipherPlugin_getFullKey pluginName key s =
     (if id_name (key_identifier key) \<noteq> [] \<and> id_storagePluginName (key_identifier key) = pluginName
      then let (result, readKey, s1) = SqlCipherPlugin_storedKey_internal pluginName (key_identifier key) new_Key s
           in (result, if crypto_succeeded result then readKey else new_Key, s1)
      else (crypto_success, key, s))"

text \<open>The end of both operations that store a key: the key is stored, and its secret parts are not returned.\<close>

definition store_full_key ::
    "CryptoResult \<Rightarrow> Key \<Rightarrow> Key \<Rightarrow> SqlCipherPlugin \<Rightarrow> CryptoResult \<times> Key \<times> SqlCipherPlugin" where
  "store_full_key retn fullKey keyMetadata s =
     (let (storeResult, s1) = SqlCipherPlugin_setSecret (id_collectionName (key_identifier fullKey))
            (id_name (key_identifier fullKey)) (Key_serialize fullKey LossySerializationMode) (key_filterData fullKey) s
      in if res_code storeResult = Failed
         then (retn\<lparr>cr_code := Failed, cr_errorCode := Crypto_StorageError,
                   cr_storageErrorCode := error_value (res_errorCode storeResult),
                   cr_errorMessage := res_errorMessage storeResult\<rparr>, keyMetadata, s1)
         else (retn, fullKey\<lparr>key_secretKey := [], key_privateKey := []\<rparr>, s1))"

definition SqlCipherPlugin_generateAndStoreKey ::
    "'o CryptoPlugin \<Rightarrow> Key \<Rightarrow> KeyPairGenerationParameters \<Rightarrow> KeyDerivationParameters \<Rightarrow> variant_map \<Rightarrow> Key
     \<Rightarrow> 'o sqlcipher_crypto_state \<Rightarrow> CryptoResult \<times> Key \<times> 'o sqlcipher_crypto_state" where
  "SqlCipherPlugin_generateAndStoreKey ossl keyTemplate kpgParams skdfParams customParameters keyMetadata z =
     (if invalid_key_identifier (key_identifier keyTemplate)
      then (crypto_failure Crypto_InvalidKeyIdentifier, keyMetadata, z)
      else let (retn, fullKey, z1) =
             on_crypto_half (cp_generateKey ossl keyTemplate kpgParams skdfParams customParameters keyTemplate) z
      in if cr_code retn = Failed then (retn, keyMetadata, z1)
      else query_storage_half (store_full_key retn fullKey keyMetadata) z1)"

definition OriginImported :: int where "OriginImported = 1"

definition SqlCipherPlugin_importAndStoreKey ::
    "'o CryptoPlugin \<Rightarrow> qbytes \<Rightarrow> Key \<Rightarrow> qbytes \<Rightarrow> variant_map \<Rightarrow> Key
     \<Rightarrow> 'o sqlcipher_crypto_state \<Rightarrow> CryptoResult \<times> Key \<times> 'o sqlcipher_crypto_state" where
  "SqlCipherPlugin_importAndStoreKey ossl data keyTemplate passphrase customParameters keyMetadata z =
     (if invalid_key_identifier (key_identifier keyTemplate)
      then (crypto_failure Crypto_InvalidKeyIdentifier, keyMetadata, z)
      else let (retn, importedKey, z1) = on_crypto_half (cp_importKey ossl data passphrase customParameters keyTemplate) z
      in if cr_code retn = Failed then (retn, keyMetadata, z1)
      else query_storage_half (store_full_key retn (importedKey\<lparr>key_origin := OriginImported\<rparr>) keyMetadata) z1)"

text \<open>The operations with a key start by reading the key it refers to.\<close>

definition with_full_key ::
    "qstring \<Rightarrow> Key \<Rightarrow> 'a \<Rightarrow> (Key \<Rightarrow> 'o \<Rightarrow> CryptoResult \<times> 'a \<times> 'o) \<Rightarrow> 'o sqlcipher_crypto_state
     \<Rightarrow> CryptoResult \<times> 'a \<times> 'o sqlcipher_crypto_state" where
  "with_full_key pluginName key unset f z =
     (let (keyResult, fullKey, z1) = query_storage_half (SqlCipherPlugin_getFullKey pluginName key) z
      in if \<not> crypto_succeeded keyResult then (keyResult, unset, z1)
         else on_crypto_half (f fullKey) z1)"

definition sqlcipher_crypto :: "qstring \<Rightarrow> cipher_env \<Rightarrow> 'o CryptoPlugin \<Rightarrow> 'o sqlcipher_crypto_state CryptoPlugin" where
  "sqlcipher_crypto pluginName env ossl =
     \<lparr>pb_supportsLocking = pb_supportsLocking (sqlcipher_full env),
      pb_isAvailable = pb_isAvailable (sqlcipher_full env),
      pb_isLocked = pb_isLocked (sqlcipher_full env),
      pb_lock = pb_lock (sqlcipher_full env),
      pb_unlock = pb_unlock (sqlcipher_full env),
      pb_setLockCode = pb_setLockCode (sqlcipher_full env),
      cp_name = pluginName,
      cp_canStoreKeys = True,
      cp_generateRandomData = (\<lambda>caller engine n v. on_crypto_half (cp_generateRandomData ossl caller engine n v)),
      cp_seedRandomDataGenerator = (\<lambda>_ _ _ _ _ z. (crypto_failure Crypto_CryptoPluginRandomDataError, z)),
      cp_generateInitializationVector = (\<lambda>a b n v. on_crypto_half (cp_generateInitializationVector ossl a b n v)),
      cp_importKey = (\<lambda>data pass v k. on_crypto_half (cp_importKey ossl data pass v k)),
      cp_generateKey = (\<lambda>t kpg skdf v k. on_crypto_half (cp_generateKey ossl t kpg skdf v k)),
      cp_storedKey = (\<lambda>i comps v _. query_storage_half (SqlCipherPlugin_storedKey pluginName i comps v)),
      cp_calculateDigest = (\<lambda>data pad dig v. on_crypto_half (cp_calculateDigest ossl data pad dig v)),
      cp_generateAndStoreKey = SqlCipherPlugin_generateAndStoreKey ossl,
      cp_importAndStoreKey = SqlCipherPlugin_importAndStoreKey ossl,
      cp_storedKeyIdentifiers = (\<lambda>c v. query_storage_half (SqlCipherPlugin_storedKeyIdentifiers pluginName c v)),
      cp_sign = (\<lambda>data key pad dig v. with_full_key pluginName key [] (\<lambda>k. cp_sign ossl data k pad dig v)),
      cp_verify = (\<lambda>sig data key pad dig v. with_full_key pluginName key 0 (\<lambda>k. cp_verify ossl sig data k pad dig v)),
      cp_encrypt = (\<lambda>data iv key bm pad auth v.
        with_full_key pluginName key ([], []) (\<lambda>k. cp_encrypt ossl data iv k bm pad auth v)),
      cp_decrypt = (\<lambda>data iv key bm pad auth tag v.
        with_full_key pluginName key ([], 0) (\<lambda>k. cp_decrypt ossl data iv k bm pad auth tag v)),
      cp_initializeCipherSession = (\<lambda>client iv key op bm epad spad dig v.
        with_full_key pluginName key 0 (\<lambda>k. cp_initializeCipherSession ossl client iv k op bm epad spad dig v)),
      cp_updateCipherSessionAuthentication = (\<lambda>client auth v token z.
        case z of (s, o1) \<Rightarrow> let (r, o2) = cp_updateCipherSessionAuthentication ossl client auth v token o1 in (r, s, o2)),
      cp_updateCipherSession = (\<lambda>client data v token. on_crypto_half (cp_updateCipherSession ossl client data v token)),
      cp_finalizeCipherSession = (\<lambda>client data v token. on_crypto_half (cp_finalizeCipherSession ossl client data v token))\<rparr>"

subsection \<open>The operations unlock nothing\<close>

lemma sqlcipher_full_ops [simp]:
  "pb_isLocked (sqlcipher_full env) z = pb_isLocked (sqlcipher_plugin env) (fst z)"
  "es_collectionNames (sqlcipher_full env) = query_storage_half (es_collectionNames (sqlcipher_plugin env))"
  "es_isCollectionLocked (sqlcipher_full env) c b = query_storage_half (es_isCollectionLocked (sqlcipher_plugin env) c b)"
  "es_setEncryptionKey (sqlcipher_full env) c key = on_storage_half (es_setEncryptionKey (sqlcipher_plugin env) c key)"
  "es_setSecret (sqlcipher_full env) c n x fd = on_storage_half (es_setSecret (sqlcipher_plugin env) c n x fd)"
  "es_getSecret (sqlcipher_full env) c n = query_storage_half (es_getSecret (sqlcipher_plugin env) c n)"
  "es_secretNames (sqlcipher_full env) c = query_storage_half (es_secretNames (sqlcipher_plugin env) c)"
  "es_findSecrets (sqlcipher_full env) c flt f = query_storage_half (es_findSecrets (sqlcipher_plugin env) c flt f)"
  "es_removeSecret (sqlcipher_full env) c n = on_storage_half (es_removeSecret (sqlcipher_plugin env) c n)"
  by (simp_all add: sqlcipher_full_def Let_def)

lemma on_storage_halfE:
  assumes "on_storage_half f z = (r, z')"
  shows "f (fst z) = (r, fst z')" "snd z' = snd z"
  using assms by (auto simp: on_storage_half_def case_prod_unfold Let_def)

lemma query_storage_halfE:
  assumes "query_storage_half f z = (r, x, z')"
  shows "f (fst z) = (r, x, fst z')" "snd z' = snd z"
  using assms by (auto simp: query_storage_half_def case_prod_unfold Let_def)

lemma on_crypto_halfE:
  assumes "on_crypto_half f z = (r, x, z')"
  shows "f (snd z) = (r, x, snd z')" "fst z' = fst z"
  using assms by (auto simp: on_crypto_half_def case_prod_unfold Let_def)

interpretation sqlcipher_full_lock: collection_lock "sqlcipher_full env" "\<lambda>z. sc_unlocked (fst z)"
proof (unfold_locales, unfold sqlcipher_full_ops, goal_cases)
  case 1 show ?case by (rule sqlcipher_lock.setEncryptionKey_one [OF on_storage_halfE(1) [OF 1]])
next
  case 2 show ?case by (rule sqlcipher_lock.setEncryptionKey_none [OF on_storage_halfE(1) [OF 2]])
next
  case 3 show ?case by (rule sqlcipher_lock.isCollectionLocked_unlocks_none [OF query_storage_halfE(1) [OF 3]])
next
  case 4 show ?case by (rule sqlcipher_lock.collectionNames_unlocks_none [OF query_storage_halfE(1) [OF 4]])
next
  case 5 show ?case by (rule sqlcipher_lock.secretNames_unlocks_none [OF query_storage_halfE(1) [OF 5]])
next
  case 6 show ?case by (rule sqlcipher_lock.getSecret_unlocks_none [OF query_storage_halfE(1) [OF 6]])
next
  case 7 show ?case by (rule sqlcipher_lock.setSecret_unlocks_none [OF on_storage_halfE(1) [OF 7]])
next
  case 8 show ?case by (rule sqlcipher_lock.removeSecret_unlocks_none [OF on_storage_halfE(1) [OF 8]])
next
  case 9 show ?case by (rule sqlcipher_lock.findSecrets_unlocks_none [OF query_storage_halfE(1) [OF 9]])
qed

lemma plugin_unlocks_none:
  "sc_unlocked (snd (snd (SqlCipherPlugin_getSecret c n s))) \<subseteq> sc_unlocked s"
  "sc_unlocked (snd (SqlCipherPlugin_setSecret c n x fd s)) \<subseteq> sc_unlocked s"
  using sqlcipher_lock.getSecret_unlocks_none [of undefined c n s] sqlcipher_lock.setSecret_unlocks_none [of undefined c n x fd s]
  by (metis sqlcipher_plugin_def EncryptedStoragePlugin.select_convs prod.collapse)+

lemma stored_key_unlocks_none:
  "sc_unlocked (snd (snd (SqlCipherPlugin_storedKey_internal pn i k s))) \<subseteq> sc_unlocked s"
  using plugin_unlocks_none(1) [of "id_collectionName i" "id_name i" s]
  by (simp add: SqlCipherPlugin_storedKey_internal_def case_prod_unfold Let_def)

lemma full_key_unlocks_none:
  "sc_unlocked (snd (snd (SqlCipherPlugin_getFullKey pn k s))) \<subseteq> sc_unlocked s"
  using stored_key_unlocks_none [of pn "key_identifier k" new_Key s]
  by (simp add: SqlCipherPlugin_getFullKey_def case_prod_unfold Let_def)

lemma halves_fst [simp]:
  "fst (snd (snd (query_storage_half f z))) = snd (snd (f (fst z)))"
  "fst (snd (snd (on_crypto_half g z))) = fst z"
  by (simp_all add: query_storage_half_def on_crypto_half_def case_prod_unfold Let_def)

lemma with_full_key_unlocks_none:
  "sc_unlocked (fst (snd (snd (with_full_key pn k unset f z)))) \<subseteq> sc_unlocked (fst z)"
  using full_key_unlocks_none [of pn k "fst z"] by (simp add: with_full_key_def case_prod_unfold Let_def)

lemma store_full_key_unlocks_none:
  "sc_unlocked (snd (snd (store_full_key r k km s))) \<subseteq> sc_unlocked s"
  by (simp add: store_full_key_def case_prod_unfold Let_def plugin_unlocks_none(2))

lemma store_operations_unlock_none:
  "sc_unlocked (fst (snd (snd (SqlCipherPlugin_generateAndStoreKey ossl t kpg skdf v km z)))) \<subseteq> sc_unlocked (fst z)"
  "sc_unlocked (fst (snd (snd (SqlCipherPlugin_importAndStoreKey ossl d t pass v km z)))) \<subseteq> sc_unlocked (fst z)"
  using store_full_key_unlocks_none [where s = "fst z"]
  by (simp_all add: SqlCipherPlugin_generateAndStoreKey_def SqlCipherPlugin_importAndStoreKey_def case_prod_unfold Let_def)

text \<open>
  The contract of the cryptography half towards the function wrappers, and the wrappers' operations with
  a key: a collection that was unlocked for the key is locked again.
\<close>

locale crypto_lock = collection_lock plugin unlocked
  for plugin :: "'s EncryptedStoragePlugin" and unlocked :: "'s \<Rightarrow> qstring set" +
  fixes crypto :: "'s CryptoPlugin"
  assumes sign_unlocks_none: "unlocked (snd (snd (cp_sign crypto d k p g v s))) \<subseteq> unlocked s"
    and verify_unlocks_none: "unlocked (snd (snd (cp_verify crypto x d k p g v s))) \<subseteq> unlocked s"
    and encrypt_unlocks_none: "unlocked (snd (snd (cp_encrypt crypto d iv k m p a v s))) \<subseteq> unlocked s"
    and decrypt_unlocks_none: "unlocked (snd (snd (cp_decrypt crypto d iv k m p a t v s))) \<subseteq> unlocked s"
    and session_unlocks_none:
      "unlocked (snd (snd (cp_initializeCipherSession crypto i iv k m1 m2 m3 m4 m5 v s))) \<subseteq> unlocked s"
    and generate_unlocks_none: "unlocked (snd (snd (cp_generateAndStoreKey crypto k kpg kdf v k' s))) \<subseteq> unlocked s"
    and import_unlocks_none: "unlocked (snd (snd (cp_importAndStoreKey crypto d k pass v k' s))) \<subseteq> unlocked s"

datatype key_op =
    Key_sign variant_map qbytes Key qbytes int int
  | Key_verify variant_map qbytes qbytes Key qbytes int int
  | Key_encrypt variant_map qbytes qbytes Key qbytes int int qbytes
  | Key_decrypt variant_map qbytes qbytes Key qbytes int int qbytes qbytes
  | Key_session variant_map nat qbytes Key qbytes int int int int int
  | Key_generateAndStore variant_map Key KeyPairGenerationParameters KeyDerivationParameters qbytes
  | Key_importAndStore variant_map qbytes Key qbytes qbytes

text \<open>The result of an operation and the wrapper it leaves; the output of the operation is dropped.\<close>

definition wrapper_of :: "'s PluginWrapper \<Rightarrow> ('s, unit) crypto_target \<Rightarrow> 's PluginWrapper" where
  "wrapper_of w target = (case target of CryptoWrapper _ _ _ w1 \<Rightarrow> w1 | _ \<Rightarrow> w)"

primrec key_op_run ::
    "'s EncryptedStoragePlugin \<Rightarrow> MetadataConfig \<Rightarrow> 's CryptoPlugin \<Rightarrow> key_op \<Rightarrow> 's PluginWrapper \<Rightarrow> CryptoResult \<times> 's PluginWrapper" where
  "key_op_run p cfg e (Key_sign v d k ck pad dig) w =
     (let (r, _, t) = CryptoPluginFunctionWrapper_sign v d k ck pad dig (CryptoWrapper p cfg e w) in (r, wrapper_of w t))"
| "key_op_run p cfg e (Key_verify v x d k ck pad dig) w =
     (let (r, _, t) = CryptoPluginFunctionWrapper_verify v x d k ck pad dig (CryptoWrapper p cfg e w) in (r, wrapper_of w t))"
| "key_op_run p cfg e (Key_encrypt v d iv k ck bm pad a) w =
     (let (r, _, t) = CryptoPluginFunctionWrapper_encrypt v d iv k ck bm pad a (CryptoWrapper p cfg e w) in (r, wrapper_of w t))"
| "key_op_run p cfg e (Key_decrypt v d iv k ck bm pad a tag) w =
     (let (r, _, t) = CryptoPluginFunctionWrapper_decrypt v d iv k ck bm pad a tag (CryptoWrapper p cfg e w) in (r, wrapper_of w t))"
| "key_op_run p cfg e (Key_session v i iv k ck op bm ep sp dig) w =
     (let (r, _, t) = CryptoPluginFunctionWrapper_initializeCipherSession v i iv k ck op bm ep sp dig (CryptoWrapper p cfg e w)
      in (r, wrapper_of w t))"
| "key_op_run p cfg e (Key_generateAndStore v k kpg kdf ck) w =
     (let (r, _, w1) = CryptoPluginFunctionWrapper_generateAndStoreKey p e v k kpg kdf ck w in (r, w1))"
| "key_op_run p cfg e (Key_importAndStore v d k pass ck) w =
     (let (r, _, w1) = CryptoPluginFunctionWrapper_importAndStoreKey p e v d k pass ck w in (r, w1))"

context crypto_lock
begin

lemma sealed_collectionMetadata:
  assumes "sealed C w"
  shows "sealed C (snd (snd (PluginWrapper_collectionMetadata c m w)))"
proof -
  obtain w1 where l: "PluginWrapper_isMasterLocked w = (False, w1)" "sealed C w1"
    using sealed_master_locked [OF assms] by blast
  obtain r1 m1 b d where q: "MetadataDatabase_collectionMetadata c m False (pw_metadataDb w1) = (r1, m1, b, d)"
    by (metis prod_cases4)
  have "serving d" using serving_reads(1) [OF _ q] l(2) by (simp add: sealed_def)
  with l q show ?thesis by (simp add: PluginWrapper_collectionMetadata_def sealed_def)
qed

lemma sealed_use:
  assumes "sealed C w" and "\<And>s. unlocked (snd (snd (f crypto s))) \<subseteq> unlocked s"
  shows "sealed C (wrapper_of w (snd (snd (use_key missing key ckey unset f g (CryptoWrapper plugin cfg crypto w)))))"
  using sealed_use_key [where f = f and e = crypto, OF assms, of missing key ckey unset g cfg] by (auto simp: wrapper_of_def)

lemma sealed_key_op_run:
  assumes "sealed C w"
  shows "sealed C (snd (key_op_run plugin cfg crypto op w))"
proof -
  note u = sealed_use [OF assms] and s = sealed_store_key [OF sealed_collectionMetadata [OF assms]]
  show ?thesis
    using sealed_collectionMetadata [OF assms]
    by (cases op)
      (simp_all add: case_prod_unfold Let_def CryptoPluginFunctionWrapper_sign_def CryptoPluginFunctionWrapper_verify_def
        CryptoPluginFunctionWrapper_encrypt_def CryptoPluginFunctionWrapper_decrypt_def
        CryptoPluginFunctionWrapper_initializeCipherSession_def CryptoPluginFunctionWrapper_generateAndStoreKey_def
        CryptoPluginFunctionWrapper_importAndStoreKey_def CryptoStoragePluginWrapper_generateAndStoreKey_def
        CryptoStoragePluginWrapper_importAndStoreKey_def u s sign_unlocks_none verify_unlocks_none encrypt_unlocks_none
        decrypt_unlocks_none session_unlocks_none generate_unlocks_none import_unlocks_none)
qed

end

interpretation sqlcipher_crypto_lock: crypto_lock "sqlcipher_full env" "\<lambda>z. sc_unlocked (fst z)" "sqlcipher_crypto pn env ossl"
  by unfold_locales
    (simp_all add: sqlcipher_crypto_def with_full_key_unlocks_none store_operations_unlock_none)

subsection \<open>Keys stay where they are stored\<close>

text \<open>
  C38. Using a stored key leaves its collection locked. Signing, verifying, encrypting, decrypting and starting a
  cipher session with a key of the SQLCipher plugin, and generating or importing a key into it, unlock the key's collection
  when they find it locked. Whatever key they are given, and whatever the engine, the file system and the
  OpenSSL plugin answer, no collection is unlocked afterwards that was not unlocked before, whatever its unlock semantic.
  The metadata database must serve requests, and does so afterwards: with one that refuses the query for its lock state
  the wrapper takes itself for master-locked and does not lock the collection.
\<close>

theorem key_collection_is_locked_again:
  assumes "serving (pw_metadataDb w)"
    and "key_op_run (sqlcipher_full env) cfg (sqlcipher_crypto pluginName env ossl) op w = (r, w')"
  shows "sc_unlocked (fst (pw_plugin w')) \<subseteq> sc_unlocked (fst (pw_plugin w)) \<and> serving (pw_metadataDb w')"
proof -
  have "sqlcipher_full_lock.sealed (sc_unlocked (fst (pw_plugin w))) w"
    using assms(1) by (simp add: sqlcipher_full_lock.sealed_def)
  from sqlcipher_crypto_lock.sealed_key_op_run [OF this, of env cfg pluginName ossl op] assms(2) show ?thesis
    by (simp add: sqlcipher_full_lock.sealed_def)
qed

definition demo_ossl :: "unit CryptoPlugin" where
  "demo_ossl =
     \<lparr>pb_supportsLocking = (\<lambda>_. False), pb_isAvailable = (\<lambda>_. True), pb_isLocked = (\<lambda>_. False),
      pb_lock = (\<lambda>u. (False, u)), pb_unlock = (\<lambda>_ u. (False, u)), pb_setLockCode = (\<lambda>_ _ u. (False, u)),
      cp_name = ''openssl'', cp_canStoreKeys = False,
      cp_generateRandomData = (\<lambda>_ _ n _ u. (crypto_success, replicate n CHR ''r'', u)),
      cp_seedRandomDataGenerator = (\<lambda>_ _ _ _ _ u. (crypto_success, u)),
      cp_generateInitializationVector = (\<lambda>_ _ _ _ u. (crypto_success, ''iv'', u)),
      cp_importKey = (\<lambda>d _ _ k u. (crypto_success, k\<lparr>key_secretKey := d\<rparr>, u)),
      cp_generateKey = (\<lambda>t _ _ _ _ u. (crypto_success, t\<lparr>key_secretKey := ''K''\<rparr>, u)),
      cp_storedKey = (\<lambda>_ _ _ k u. (crypto_failure Crypto_OperationNotSupportedError, k, u)),
      cp_calculateDigest = (\<lambda>d _ _ _ u. (crypto_success, d, u)),
      cp_generateAndStoreKey = (\<lambda>_ _ _ _ k u. (crypto_failure Crypto_OperationNotSupportedError, k, u)),
      cp_importAndStoreKey = (\<lambda>_ _ _ _ k u. (crypto_failure Crypto_OperationNotSupportedError, k, u)),
      cp_storedKeyIdentifiers = (\<lambda>_ _ u. (crypto_success, [], u)),
      cp_sign = (\<lambda>d k _ _ _ u. (crypto_success, key_secretKey k @ d, u)),
      cp_verify = (\<lambda>x d k _ _ _ u. (crypto_success, if x = key_secretKey k @ d then 1 else 2, u)),
      cp_encrypt = (\<lambda>d _ k _ _ _ _ u. (crypto_success, (key_secretKey k @ d, []), u)),
      cp_decrypt = (\<lambda>d _ k _ _ _ _ _ u. (crypto_success, (drop (length (key_secretKey k)) d, 0), u)),
      cp_initializeCipherSession = (\<lambda>_ _ _ _ _ _ _ _ _ u. (crypto_success, 1, u)),
      cp_updateCipherSessionAuthentication = (\<lambda>_ _ _ _ u. (crypto_success, u)),
      cp_updateCipherSession = (\<lambda>_ d _ _ u. (crypto_success, d, u)),
      cp_finalizeCipherSession = (\<lambda>_ d _ _ u. (crypto_success, (d, 0), u))\<rparr>"

definition demo_key :: Key where
  "demo_key = new_Key\<lparr>key_identifier := \<lparr>id_name = ''key'', id_collectionName = ''box'', id_storagePluginName = ''sc''\<rparr>\<rparr>"

definition demo_kdf :: KeyDerivationParameters where
  "demo_kdf = \<lparr>kdf_inputData = [], kdf_salt = [], kdf_function = 0, kdf_mac = 0, kdf_algorithm = 0, kdf_digestFunction = 0,
     kdf_memorySize = 0, kdf_iterations = 0, kdf_parallelism = 0, kdf_outputKeySize = 0, kdf_customParameters = []\<rparr>"

definition demo_kpg :: KeyPairGenerationParameters where
  "demo_kpg = \<lparr>kpg_keyPairType = 0, kpg_customParameters = [], kpg_subclassParameters = []\<rparr>"

definition demo_crypto_wrapper :: "unit sqlcipher_crypto_state PluginWrapper" where
  "demo_crypto_wrapper =
     \<lparr>pw_metadataDb = pw_metadataDb (demo_encrypted_wrapper []), pw_initialized = True, pw_plugin = (demo_vault [], ())\<rparr>"

abbreviation demo_key_op :: "key_op \<Rightarrow> unit sqlcipher_crypto_state PluginWrapper \<Rightarrow> CryptoResult \<times> unit sqlcipher_crypto_state PluginWrapper" where
  "demo_key_op \<equiv> key_op_run (sqlcipher_full demo_env) demo_cfg (sqlcipher_crypto ''sc'' demo_env demo_ossl)"

lemma demo_key_generated:
  "crypto_succeeded (fst (demo_key_op (Key_generateAndStore [] demo_key demo_kpg demo_kdf ''k'') demo_crypto_wrapper))"
  by code_simp

theorem key_collection_is_locked_again_witness:
  "let (r, w') = demo_key_op (Key_generateAndStore [] demo_key demo_kpg demo_kdf ''k'') demo_crypto_wrapper
   in crypto_succeeded r \<and> sc_unlocked (fst (pw_plugin w')) = {}"
proof -
  have "serving (pw_metadataDb demo_crypto_wrapper)" by code_simp
  from key_collection_is_locked_again [OF this prod.collapse [symmetric], of demo_env demo_cfg "''sc''" demo_ossl
      "Key_generateAndStore [] demo_key demo_kpg demo_kdf ''k''"]
  have "sc_unlocked (fst (pw_plugin (snd (demo_key_op (Key_generateAndStore [] demo_key demo_kpg demo_kdf ''k'')
      demo_crypto_wrapper)))) \<subseteq> sc_unlocked (demo_vault [])" by (simp add: demo_crypto_wrapper_def)
  moreover have "sc_unlocked (demo_vault []) = {}"
    by (auto simp: demo_vault_def sc_unlocked_def connection_def in_collections)
  ultimately show ?thesis using demo_key_generated by (simp add: case_prod_unfold Let_def)
qed

lemma nullify_private:
  "key_privateKey (nullifyKeyFields keep k) = (if bit keep 2 \<and> bit (key_componentConstraints k) 2 then key_privateKey k else [])"
  "key_secretKey (nullifyKeyFields keep k) = (if bit keep 2 \<and> bit (key_componentConstraints k) 2 then key_secretKey k else [])"
  by (simp_all add: nullifyKeyFields_def Let_def Key_setFilterData_def)

text \<open>A key as the plugin reports it: with its own name as that of the storage plugin.\<close>

definition reported_key :: "qstring \<Rightarrow> Key \<Rightarrow> Key" where
  "reported_key pluginName k =
     Key_setFilterData (key_filterData k) (k\<lparr>key_identifier := (key_identifier k)\<lparr>id_storagePluginName := pluginName\<rparr>\<rparr>)"

lemma reported_key_private [simp]:
  "key_privateKey (reported_key pn k) = key_privateKey k" "key_secretKey (reported_key pn k) = key_secretKey k"
  "key_componentConstraints (reported_key pn k) = key_componentConstraints k"
  by (simp_all add: reported_key_def Key_setFilterData_def)

lemma store_full_key_ready:
  assumes "sc_ready s" and "sc_engine_ready s" and "id_collectionName (key_identifier k) \<in> sc_unlocked s"
    and "\<not> invalid_key_identifier (key_identifier k)" and "key_fits k" and "store_full_key r k km s = (r1, k1, s1)"
  shows "r1 = r \<and> k1 = k\<lparr>key_secretKey := [], key_privateKey := []\<rparr> \<and> sc_ready s1 \<and> sc_engine_ready s1
    \<and> sc_unlocked s1 = sc_unlocked s
    \<and> sc_stored s1 (id_collectionName (key_identifier k), id_name (key_identifier k))
        = Some (Key_serialize k LossySerializationMode, key_filterData k)"
proof -
  let ?c = "id_collectionName (key_identifier k)" and ?n = "id_name (key_identifier k)"
    and ?x = "Key_serialize k LossySerializationMode"
  have n: "?c \<noteq> []" "?n \<noteq> []" and f: "qmap_ok (key_filterData k)"
    using assms(4,5) by (auto simp: invalid_key_identifier_def key_fits_def)
  obtain q t where x: "SqlCipherPlugin_setSecret ?c ?n ?x (key_filterData k) s = (q, t)" by fastforce
  have q: "succeeded q" "sc_engine_ready t" using sc_setSecret_ready [OF assms(1-3) f n x] by simp_all
  from sc_setSecret_effect(2) [OF assms(1) x q(1) f] q x assms(6) show ?thesis
    by (auto simp: store_full_key_def)
qed

lemma storedKey_internal_ready:
  assumes "sc_ready s" and "sc_engine_ready s" and "id_collectionName (key_identifier k) \<in> sc_unlocked s"
    and "\<not> invalid_key_identifier (key_identifier k)" and "key_fits k"
    and "sc_stored s (id_collectionName (key_identifier k), id_name (key_identifier k))
        = Some (Key_serialize k LossySerializationMode, key_filterData k)"
    and "SqlCipherPlugin_storedKey_internal pn (key_identifier k) k0 s = (r, k1, s1)"
  shows "r = crypto_success \<and> k1 = reported_key pn k"
proof -
  let ?c = "id_collectionName (key_identifier k)" and ?n = "id_name (key_identifier k)"
  have n: "?c \<noteq> []" "?n \<noteq> []" using assms(4) by (auto simp: invalid_key_identifier_def)
  obtain q y t where x: "SqlCipherPlugin_getSecret ?c ?n s = (q, y, t)" by (metis prod_cases3)
  have q: "succeeded q" "y = Some (Key_serialize k LossySerializationMode, key_filterData k)"
    using sc_getSecret_ready [OF assms(1-3,6) n x] by simp_all
  from q(1) have "res_code q \<noteq> Failed" by simp
  with assms(4,7) x q(2) show ?thesis
    by (cases "key_identifier k")
      (auto simp: SqlCipherPlugin_storedKey_internal_def secret_data_def deserialize_serialize [OF assms(5)]
        reported_key_def Key_setFilterData_def no_identifier_def)
qed

text \<open>
  C39. A stored key reads back, and its private part only with leave. Let the engine refuse nothing, the key's collection be
  unlocked, and the OpenSSL plugin generate a key that keeps the identifier of the template and fits the serialised format.
  Then \<open>generateAndStoreKey\<close> stores the key, and returns it without its private and secret parts.
  \<open>storedKey\<close> afterwards returns the generated key with the requested components, and the private and secret
  parts exactly when the caller asks for them and the constraints of the key allow it; an operation that
  uses the key by reference is given the whole key.
\<close>

theorem stored_key_reads_back:
  assumes "sc_ready s" and "sc_engine_ready s" and "id_collectionName (key_identifier t) \<in> sc_unlocked s"
    and "\<not> invalid_key_identifier (key_identifier t)"
    and "cp_generateKey ossl t kpg kdf v t o1 = (r0, k, o2)" and "crypto_succeeded r0"
    and "key_identifier k = key_identifier t" and "key_fits k" and "id_storagePluginName (key_identifier t) = pluginName"
    and "SqlCipherPlugin_generateAndStoreKey ossl t kpg kdf v km (s, o1) = (r1, k1, s1, o3)"
    and "SqlCipherPlugin_storedKey pluginName (key_identifier t) components v2 s1 = (r2, k2, s2)"
    and "SqlCipherPlugin_getFullKey pluginName t s1 = (r3, k3, s3)"
  shows "crypto_succeeded r1 \<and> k1 = k\<lparr>key_secretKey := [], key_privateKey := []\<rparr>
    \<and> crypto_succeeded r2 \<and> k2 = nullifyKeyFields components (reported_key pluginName k)
    \<and> (key_privateKey k2, key_secretKey k2) =
        (if bit components 2 \<and> bit (key_componentConstraints k) 2 then (key_privateKey k, key_secretKey k) else ([], []))
    \<and> crypto_succeeded r3 \<and> k3 = reported_key pluginName k"
proof -
  obtain r4 k4 s4 where x: "store_full_key r0 k km s = (r4, k4, s4)" by (metis prod_cases3)
  have g: "r1 = r4" "k1 = k4" "s1 = s4"
    using assms(4-6,10) x
    by (auto simp: SqlCipherPlugin_generateAndStoreKey_def on_crypto_half_def query_storage_half_def)
  note st = store_full_key_ready [OF assms(1,2) _ _ assms(8) x, unfolded assms(7), OF assms(3,4)]
  have rd: "q = crypto_success \<and> k5 = reported_key pluginName k"
    if "SqlCipherPlugin_storedKey_internal pluginName (key_identifier t) k0 s1 = (q, k5, s5)" for q k0 k5 s5
    using storedKey_internal_ready [of s1 k pluginName k0 q k5 s5] st that assms(3,4,8) g unfolding assms(7) by simp
  obtain q k5 s5 where e: "SqlCipherPlugin_storedKey_internal pluginName (key_identifier t) new_Key s1 = (q, k5, s5)"
    by (metis prod_cases3)
  have "crypto_succeeded r2 \<and> k2 = nullifyKeyFields components (reported_key pluginName k)"
    using rd [OF e] e assms(11) by (auto simp: SqlCipherPlugin_storedKey_def)
  moreover have "id_name (key_identifier t) \<noteq> []" using assms(4) by (simp add: invalid_key_identifier_def)
  then have "crypto_succeeded r3 \<and> k3 = reported_key pluginName k"
    using rd [OF e] e assms(9,12) by (auto simp: SqlCipherPlugin_getFullKey_def)
  ultimately show ?thesis using st g assms(6) by (simp add: nullify_private)
qed

definition demo_open_vault :: SqlCipherPlugin where
  "demo_open_vault = snd (SqlCipherPlugin_setEncryptionKey demo_env ''box'' ''k'' (demo_vault []))"

lemma demo_open_vault_member: "''box'' \<in> sc_unlocked demo_open_vault" "id_collectionName (key_identifier demo_key) = ''box''"
proof -
  have "connection demo_open_vault ''box'' \<noteq> None" by code_simp
  then show "''box'' \<in> sc_unlocked demo_open_vault" using connection_unlocked [of demo_open_vault "''box''"] by simp
qed (simp add: demo_key_def)

lemma demo_key_fits: "key_fits (demo_key\<lparr>key_componentConstraints := 7, key_secretKey := ''K''\<rparr>)"
  by (simp add: key_fits_def demo_key_def new_Key_def int_fits_def block_fits_def FilterDataFieldType_def TypeCryptoKey_def qmap_ok_def)

theorem stored_key_reads_back_witness:
  "let (r1, k1, z1) = SqlCipherPlugin_generateAndStoreKey demo_ossl (demo_key\<lparr>key_componentConstraints := 7\<rparr>) demo_kpg demo_kdf []
         demo_key (demo_open_vault, ());
       read = (\<lambda>components. SqlCipherPlugin_storedKey ''sc'' (key_identifier demo_key) components [] (fst z1))
   in crypto_succeeded r1 \<and> key_secretKey k1 = [] \<and> key_secretKey (fst (snd (read 3))) = []
      \<and> key_secretKey (fst (snd (read 7))) = ''K''"
proof -
  let ?t = "demo_key\<lparr>key_componentConstraints := 7\<rparr>"
  have a: "sc_ready demo_open_vault" "sc_engine_ready demo_open_vault"
    "id_collectionName (key_identifier ?t) \<in> sc_unlocked demo_open_vault" "\<not> invalid_key_identifier (key_identifier ?t)"
    "key_fits (?t\<lparr>key_secretKey := ''K''\<rparr>)"
    by (code_simp, code_simp, simp add: demo_open_vault_member, code_simp, simp add: demo_key_fits)
  have gk: "cp_generateKey demo_ossl ?t demo_kpg demo_kdf [] ?t () = (crypto_success, ?t\<lparr>key_secretKey := ''K''\<rparr>, ())"
    by (simp add: demo_ossl_def)
  obtain r1 k1 s1 o3 where g: "SqlCipherPlugin_generateAndStoreKey demo_ossl ?t demo_kpg demo_kdf [] demo_key (demo_open_vault, ())
      = (r1, k1, s1, o3)" by (metis prod_cases4)
  obtain r2 k2 s2 where p: "SqlCipherPlugin_storedKey ''sc'' (key_identifier ?t) 3 [] s1 = (r2, k2, s2)" by (metis prod_cases3)
  obtain r3 k3 s3 where f: "SqlCipherPlugin_storedKey ''sc'' (key_identifier ?t) 7 [] s1 = (r3, k3, s3)" by (metis prod_cases3)
  obtain r4 k4 s4 where u: "SqlCipherPlugin_getFullKey ''sc'' ?t s1 = (r4, k4, s4)" by (metis prod_cases3)
  have i: "id_storagePluginName (key_identifier ?t) = ''sc''" by (simp add: demo_key_def)
  note th = stored_key_reads_back [OF a(1-4) gk _ _ a(5) i g _ u]
  have bits: "bit (7::int) 2" "\<not> bit (3::int) 2" by (code_simp, code_simp)
  have "crypto_succeeded r1 \<and> key_secretKey k1 = [] \<and> key_secretKey k2 = []" using th [OF _ _ p] bits(2) by (simp add: nullify_private)
  moreover have "key_secretKey k3 = ''K''" using th [OF _ _ f] bits(1) by (simp add: nullify_private)
  ultimately show ?thesis using g p f by simp
qed

end
