(* ===== verification/Crypto_Runs.thy ===== *)
theory Crypto_Runs
  imports Crypto_Protocol Daemon_Runs Sqlcipher_Crypto
begin

section \<open>Runs of the cryptography daemon\<close>

text \<open>
  The cryptography daemon beside the secrets daemon: requests arrive, the secrets daemon answers what it was asked, jobs and lambdas are
  interleaved in any way. Every request is accounted for at every moment; the one kind of request that is lost is lost for good.
\<close>

type_synonym ('c, 'k) crypto_system = "(('c, 'k) crypto_plugins, CryptoProcessor) system"

subsection \<open>Histories\<close>

text \<open>
  Plugins that belong to the secrets daemon are used on its thread, the others on the thread of the cryptography daemon; so the next job to
  run need not be the first.
\<close>

definition job_step :: "nat \<Rightarrow> ('p, 'm) system \<Rightarrow> ('p, 'm) system option" where
  "job_step n s =
     (if n < length (sy_jobs s)
      then case (sy_jobs s ! n) (sy_plugins s) of
             None \<Rightarrow> None
           | Some (c, p) \<Rightarrow> Some (s\<lparr>sy_plugins := p, sy_jobs := take n (sy_jobs s) @ drop (Suc n) (sy_jobs s), sy_events := sy_events s @ [c]\<rparr>)
      else Some s)"

text \<open>
  The daemon at work, from the state \<open>s0\<close> with the requests \<open>ids0\<close> made so far: requests arrive under new identifiers, the secrets daemon
  answers, with any outcome, a question it has been asked, and changes its own queue as it likes; the threads make their steps in any order.
\<close>

inductive crypto_daemon ::
    "crypto_env \<Rightarrow> request_id list \<Rightarrow> ('c, 'k) crypto_system \<Rightarrow> request_id list \<Rightarrow> ('c, 'k) crypto_system option \<Rightarrow> bool" for env ids0 s0 where
  crypto_start: "crypto_daemon env ids0 s0 ids0 (Some s0)"
| crypto_request: "crypto_daemon env ids0 s0 ids (Some s) \<Longrightarrow> i \<notin> set ids
    \<Longrightarrow> crypto_daemon env ids0 s0 (i # ids) (execute (crypto_handlePendingRequest env garbage pid i req (sy_main s)) s)"
| crypto_answer: "crypto_daemon env ids0 s0 ids (Some s) \<Longrightarrow> i \<in> fst ` set (cx_helpers (sy_main s)) \<Longrightarrow> res_code r \<noteq> Pending
    \<Longrightarrow> crypto_daemon env ids0 s0 ids (execute (deliver_answer env i r ps (sy_main s)) s)"
| crypto_secrets: "crypto_daemon env ids0 s0 ids (Some s)
    \<Longrightarrow> crypto_daemon env ids0 s0 ids (Some (s\<lparr>sy_main := (sy_main s)\<lparr>cx_secrets := (cx_secrets (sy_main s))\<lparr>sb_queue := q\<rparr>\<rparr>\<rparr>))"
| crypto_job: "crypto_daemon env ids0 s0 ids (Some s) \<Longrightarrow> crypto_daemon env ids0 s0 ids (job_step n s)"
| crypto_main: "crypto_daemon env ids0 s0 ids (Some s) \<Longrightarrow> crypto_daemon env ids0 s0 ids (main_step s)"

text \<open>The two tables of waiting requests, the processor's and the bridge's, agree but for the forgotten request.\<close>

definition waiting_ok :: "CryptoProcessor \<Rightarrow> bool" where
  "waiting_ok m \<longleftrightarrow> qmap_ok (cx_pendingRequests m) \<and> qmap_ok (cx_helpers m)
     \<and> (\<forall>i pr. map_of (cx_pendingRequests m) i = Some pr \<longrightarrow> cr_requestId pr = i)
     \<and> (\<forall>i. map_of (cx_helpers m) i =
          (case map_of (cx_pendingRequests m) i of
             None \<Rightarrow> None
           | Some pr \<Rightarrow> if forgotten (cr_parameters pr) then None else Some (waits_for (cr_parameters pr))))"

definition event_owes :: "request_id \<Rightarrow> ('c, 'k) crypto_handler \<Rightarrow> bool" where
  "event_owes i c \<longleftrightarrow> (\<forall>m. crypto_settles i m (c m))"

definition job_owes :: "request_id \<Rightarrow> (('c, 'k) crypto_plugins, CryptoProcessor) job \<Rightarrow> bool" where
  "job_owes i j \<longleftrightarrow> keeps_prompts j \<and> (\<forall>p c p'. prompt_plugins p \<longrightarrow> j p = Some (c, p') \<longrightarrow> event_owes i c)"

text \<open>Every request is in exactly one place: a job, a lambda, the replies or the table of waiting requests.\<close>

definition settled_ids :: "CryptoProcessor \<Rightarrow> request_id multiset" where
  "settled_ids m = mset (map fst (cx_replies m)) + mset (map fst (cx_pendingRequests m))"

definition crypto_balanced :: "request_id multiset \<Rightarrow> ('c, 'k) crypto_system \<Rightarrow> CryptoProcessor \<Rightarrow> bool" where
  "crypto_balanced M s m \<longleftrightarrow> prompt_plugins (sy_plugins s) \<and> waiting_ok m \<and> \<not> sy_waiting s
     \<and> (\<exists>js es. list_all2 job_owes js (sy_jobs s) \<and> list_all2 event_owes es (sy_events s) \<and> M = mset js + mset es + settled_ids m)"

definition crypto_accounted :: "request_id list \<Rightarrow> ('c, 'k) crypto_system \<Rightarrow> bool" where
  "crypto_accounted ids s \<longleftrightarrow> distinct ids \<and> crypto_balanced (mset ids) s (sy_main s)"

text \<open>The request \<open>i\<close> is taken up and in no place at the moment.\<close>

definition crypto_owing :: "request_id \<Rightarrow> request_id list \<Rightarrow> ('c, 'k) crypto_system \<Rightarrow> CryptoProcessor \<Rightarrow> bool" where
  "crypto_owing i ids s m \<longleftrightarrow> distinct ids \<and> i \<in> set ids \<and> crypto_balanced (mset ids - {#i#}) s m"

definition keeps_forgotten :: "CryptoProcessor \<Rightarrow> CryptoProcessor \<Rightarrow> bool" where
  "keeps_forgotten m m' \<longleftrightarrow> (\<forall>i pr. map_of (cx_pendingRequests m) i = Some pr \<longrightarrow> forgotten (cr_parameters pr)
     \<longrightarrow> map_of (cx_pendingRequests m') i = Some pr)"

lemma crypto_balancedI:
  assumes "prompt_plugins (sy_plugins s)" and "waiting_ok m" and "\<not> sy_waiting s" and "list_all2 job_owes js (sy_jobs s)"
    and "list_all2 event_owes es (sy_events s)" and "M = mset js + mset es + settled_ids m"
  shows "crypto_balanced M s m"
  using assms unfolding crypto_balanced_def by blast

lemma waiting_requests:
  assumes "crypto_balanced M s m"
  shows "settled_ids m \<subseteq># M"
  using assms by (auto simp: crypto_balanced_def)

lemma owing_unsettled:
  assumes "crypto_owing i ids s m"
  shows "i \<notin># settled_ids m"
proof -
  have "i \<notin># mset ids - {#i#}"
    using assms count_distinct [of ids i] by (auto simp: crypto_owing_def in_diff_count)
  with assms waiting_requests [of _ s m] show ?thesis
    by (auto simp: crypto_owing_def dest: mset_subset_eqD)
qed

lemma owing_not_pending: "crypto_owing i ids s m \<Longrightarrow> map_of (cx_pendingRequests m) i = None"
  using owing_unsettled [of i ids s m] by (auto simp: settled_ids_def map_of_eq_None_iff)

subsection \<open>A step on behalf of one request\<close>

lemma crypto_settled_ids:
  assumes "crypto_settled i m m'" and "map_of (cx_pendingRequests m) i = None"
  shows "settled_ids m' = add_mset i (settled_ids m)"
  using assms mset_qmap_insert_fresh [of i "cx_pendingRequests m"]
  by (auto simp: crypto_settled_def settled_ids_def asked_def map_of_eq_None_iff simp del: mset_map)

lemma crypto_settled_waiting:
  assumes "crypto_settled i m m'" and "map_of (cx_pendingRequests m) i = None" and "waiting_ok m"
  shows "waiting_ok m'"
  using assms by (auto simp: crypto_settled_def waiting_ok_def asked_def split: if_splits)

lemma crypto_settled_keeps:
  assumes "crypto_settled i m m'" and "map_of (cx_pendingRequests m) i = None"
  shows "keeps_forgotten m m'"
  using assms by (auto simp: crypto_settled_def keeps_forgotten_def)

lemma same_waiting_keeps: "same_waiting m m' \<Longrightarrow> keeps_forgotten m m' \<and> settled_ids m' = settled_ids m \<and> waiting_ok m' = waiting_ok m"
  by (simp add: same_waiting_def keeps_forgotten_def settled_ids_def waiting_ok_def)

lemma execute_crypto_settles:
  assumes "crypto_settles i m th" and "crypto_owing i ids s m" and "execute th s = Some s'"
  shows "crypto_accounted ids s' \<and> keeps_forgotten m (sy_main s')"
proof -
  from assms(2) obtain js es where o: "distinct ids" "i \<in> set ids" "prompt_plugins (sy_plugins s)" "waiting_ok m" "\<not> sy_waiting s"
      "list_all2 job_owes js (sy_jobs s)" "list_all2 event_owes es (sy_events s)"
    and ids: "mset ids = add_mset i (mset js + mset es + settled_ids m)"
    by (auto simp: crypto_owing_def crypto_balanced_def) (metis insert_DiffM set_mset_mset)
  note n = owing_not_pending [OF assms(2)]
  from assms(1) show ?thesis
  proof cases
    case (settles_now m')
    with n o ids crypto_settled_ids crypto_settled_waiting crypto_settled_keeps assms(3) show ?thesis
      by (auto simp: crypto_accounted_def intro!: crypto_balancedI [where js = js and es = es])
  next
    case settles_crash
    with assms(3) show ?thesis by simp
  next
    case (settles_later m' j)
    then have "job_owes i j" by (auto simp: job_owes_def event_owes_def)
    with o(6) have "list_all2 job_owes (js @ [i]) (sy_jobs s @ [j])" by (simp add: list_all2_appendI)
    with settles_later o ids same_waiting_keeps [of m m'] assms(3) show ?thesis
      by (auto simp: crypto_accounted_def intro!: crypto_balancedI [where js = "js @ [i]" and es = es])
  qed
qed

subsection \<open>Every step\<close>

lemma owing_request: "crypto_accounted ids s \<Longrightarrow> i \<notin> set ids \<Longrightarrow> crypto_owing i (i # ids) s (sy_main s)"
  by (simp add: crypto_accounted_def crypto_owing_def)

text \<open>The answer takes the request off both tables first.\<close>

abbreviation answered :: "request_id \<Rightarrow> CryptoProcessor \<Rightarrow> CryptoProcessor" where
  "answered i m \<equiv> take_crypto_pending i (m\<lparr>cx_secrets := (cx_secrets m)\<lparr>sb_cryptoApiHelperRequests :=
     filter (\<lambda>e. fst e \<noteq> i) (cx_helpers m)\<rparr>\<rparr>)"

lemma map_of_take_key: "map_of (filter (\<lambda>e. fst e \<noteq> i) m) j = (if j = i then None else map_of m j)"
  by (induction m) auto

lemma waiting_answered: "waiting_ok m \<Longrightarrow> waiting_ok (answered i m)"
  by (simp add: waiting_ok_def take_crypto_pending_def qmap_ok_filter map_of_take_key)

lemma mset_keys_filter:
  assumes "qmap_ok m" and "map_of m i = Some v"
  shows "mset (map fst m) = add_mset i (mset (map fst (filter (\<lambda>e. fst e \<noteq> i) m)))"
proof -
  have "i \<in> set (map fst m)" using assms(2) by (force dest: map_of_SomeD)
  with qmap_ok_distinct [OF assms(1)] have "count (mset (map fst m)) i = 1" by (simp add: distinct_count_atmost_1)
  from mset_filter_once [OF this] show ?thesis by (simp add: filter_map comp_def)
qed

lemma helper_waits:
  assumes "waiting_ok m" and "i \<in> fst ` set (cx_helpers m)"
  obtains pr where "map_of (cx_pendingRequests m) i = Some pr" "map_of (cx_helpers m) i = Some (waits_for (cr_parameters pr))"
    "\<not> forgotten (cr_parameters pr)"
proof -
  from assms(2) have "map_of (cx_helpers m) i \<noteq> None" by (simp add: map_of_eq_None_iff)
  moreover have "map_of (cx_helpers m) i = (case map_of (cx_pendingRequests m) i of None \<Rightarrow> None
      | Some pr \<Rightarrow> if forgotten (cr_parameters pr) then None else Some (waits_for (cr_parameters pr)))"
    using assms(1) by (simp add: waiting_ok_def)
  ultimately show ?thesis using that by (auto split: option.splits if_splits)
qed

lemma owing_answered:
  assumes "crypto_accounted ids s" and "map_of (cx_pendingRequests (sy_main s)) i = Some pr"
  shows "crypto_owing i ids s (answered i (sy_main s))"
proof -
  from assms(1) obtain js es where o: "distinct ids" "prompt_plugins (sy_plugins s)" "waiting_ok (sy_main s)" "\<not> sy_waiting s"
      "list_all2 job_owes js (sy_jobs s)" "list_all2 event_owes es (sy_events s)"
    and ids: "mset ids = mset js + mset es + settled_ids (sy_main s)"
    by (auto simp: crypto_accounted_def crypto_balanced_def)
  have "settled_ids (sy_main s) = add_mset i (settled_ids (answered i (sy_main s)))"
    using o(3) mset_keys_filter [OF _ assms(2)] by (simp add: settled_ids_def take_crypto_pending_def waiting_ok_def del: mset_map)
  with ids have e: "mset ids = add_mset i (mset js + mset es + settled_ids (answered i (sy_main s)))" by simp
  have "i \<in> set ids" by (simp add: e flip: set_mset_mset)
  with e o show ?thesis
    by (auto simp: crypto_owing_def waiting_answered intro!: crypto_balancedI [where js = js and es = es])
qed

lemma answered_keeps: "map_of (cx_pendingRequests m) i = Some pr \<Longrightarrow> \<not> forgotten (cr_parameters pr) \<Longrightarrow> keeps_forgotten m (answered i m)"
  by (auto simp: keeps_forgotten_def take_crypto_pending_def map_of_take_key)

lemma keeps_forgotten_trans: "keeps_forgotten m m' \<Longrightarrow> keeps_forgotten m' m'' \<Longrightarrow> keeps_forgotten m m''"
  by (simp add: keeps_forgotten_def)

lemma crypto_answer_step:
  assumes "crypto_accounted ids s" and "i \<in> fst ` set (cx_helpers (sy_main s))" and "res_code r \<noteq> Pending"
    and "execute (deliver_answer env i r ps (sy_main s)) s = Some s'"
  shows "crypto_accounted ids s' \<and> keeps_forgotten (sy_main s) (sy_main s')"
proof -
  from assms(1) have "waiting_ok (sy_main s)" by (simp add: crypto_accounted_def crypto_balanced_def)
  then obtain pr where pr: "map_of (cx_pendingRequests (sy_main s)) i = Some pr"
      "map_of (cx_helpers (sy_main s)) i = Some (waits_for (cr_parameters pr))" "\<not> forgotten (cr_parameters pr)"
    using assms(2) by (rule helper_waits)
  from execute_crypto_settles [OF deliver_answer_settles [OF pr(1,2) assms(3)] owing_answered [OF assms(1) pr(1)] assms(4)]
    answered_keeps [OF pr(1,3)]
  show ?thesis using keeps_forgotten_trans by blast
qed

lemma crypto_main_step:
  assumes "crypto_accounted ids s" and "main_step s = Some s'"
  shows "crypto_accounted ids s' \<and> keeps_forgotten (sy_main s) (sy_main s')"
proof (cases "sy_events s")
  case Nil
  with assms show ?thesis by (simp add: main_step_def keeps_forgotten_def)
next
  case (Cons c cs)
  let ?s = "s\<lparr>sy_events := cs\<rparr>"
  from assms(1) Cons obtain js i es where o: "distinct ids" "prompt_plugins (sy_plugins s)" "waiting_ok (sy_main s)" "\<not> sy_waiting s"
      "list_all2 job_owes js (sy_jobs s)" "event_owes i c" "list_all2 event_owes es cs"
    and ids: "mset ids = add_mset i (mset js + mset es + settled_ids (sy_main s))"
    by (auto simp: crypto_accounted_def crypto_balanced_def list_all2_Cons2)
  have "i \<in> set ids" by (simp add: ids flip: set_mset_mset)
  with o ids have "crypto_owing i ids ?s (sy_main s)"
    by (auto simp: crypto_owing_def intro!: crypto_balancedI [where js = js and es = es])
  moreover have "crypto_settles i (sy_main s) (c (sy_main s))" using o(6) by (simp add: event_owes_def)
  moreover have "execute (c (sy_main s)) ?s = Some s'" using assms(2) Cons o(4) by (simp add: main_step_def)
  ultimately show ?thesis using execute_crypto_settles by blast
qed

lemma crypto_job_step:
  assumes "crypto_accounted ids s" and "job_step n s = Some s'"
  shows "crypto_accounted ids s' \<and> keeps_forgotten (sy_main s) (sy_main s')"
proof (cases "n < length (sy_jobs s)")
  case False
  with assms show ?thesis by (simp add: job_step_def keeps_forgotten_def)
next
  case True
  with assms(2) obtain c p where j: "(sy_jobs s ! n) (sy_plugins s) = Some (c, p)"
    and s': "s' = s\<lparr>sy_plugins := p, sy_jobs := take n (sy_jobs s) @ drop (Suc n) (sy_jobs s), sy_events := sy_events s @ [c]\<rparr>"
    by (auto simp: job_step_def split: option.splits)
  from assms(1) obtain js es where o: "distinct ids" "prompt_plugins (sy_plugins s)" "waiting_ok (sy_main s)" "\<not> sy_waiting s"
      "list_all2 job_owes js (sy_jobs s)" "list_all2 event_owes es (sy_events s)"
    and ids: "mset ids = mset js + mset es + settled_ids (sy_main s)"
    by (auto simp: crypto_accounted_def crypto_balanced_def)
  have n: "n < length js" using True o(5) by (simp add: list_all2_lengthD)
  have "job_owes (js ! n) (sy_jobs s ! n)" using o(5) n by (simp add: list_all2_nthD)
  with j o(2) have "event_owes (js ! n) c" "prompt_plugins p" by (auto simp: job_owes_def keeps_prompts_def)
  moreover have "list_all2 job_owes (take n js @ drop (Suc n) js) (take n (sy_jobs s) @ drop (Suc n) (sy_jobs s))"
    using o(5) by (intro list_all2_appendI list_all2_takeI list_all2_dropI)
  moreover have "mset js = add_mset (js ! n) (mset (take n js @ drop (Suc n) js))"
    using n by (subst id_take_nth_drop [OF n]) simp
  ultimately show ?thesis using o ids
    by (auto simp: s' crypto_accounted_def keeps_forgotten_def list_all2_appendI
        intro!: crypto_balancedI [where js = "take n js @ drop (Suc n) js" and es = "es @ [js ! n]"])
qed

lemma crypto_secrets_step:
  assumes "crypto_accounted ids s" and "same_waiting (sy_main s) m"
  shows "crypto_accounted ids (s\<lparr>sy_main := m\<rparr>) \<and> keeps_forgotten (sy_main s) m"
  using assms(1) same_waiting_keeps [OF assms(2)] by (simp add: crypto_accounted_def crypto_balanced_def)

lemma crypto_daemon_accounted:
  assumes "crypto_daemon env ids0 s0 ids r" and "crypto_accounted ids0 s0" and "r = Some s"
  shows "crypto_accounted ids s \<and> keeps_forgotten (sy_main s0) (sy_main s)"
  using assms(1,3)
proof (induction arbitrary: s)
  case crypto_start
  with assms(2) show ?case by (simp add: keeps_forgotten_def)
next
  case (crypto_request ids t i garbage pid req)
  then have "crypto_accounted ids t" by blast
  from execute_crypto_settles [OF crypto_handlePendingRequest_settles owing_request [OF this crypto_request(2)] crypto_request.prems]
  show ?case using crypto_request.IH keeps_forgotten_trans by blast
next
  case (crypto_answer ids t i r ps)
  from crypto_answer_step [OF conjunct1 [OF crypto_answer.IH [OF refl]] crypto_answer(2,3) crypto_answer.prems] crypto_answer.IH [OF refl]
  show ?case using keeps_forgotten_trans by blast
next
  case (crypto_secrets ids t q)
  let ?m = "(sy_main t)\<lparr>cx_secrets := (cx_secrets (sy_main t))\<lparr>sb_queue := q\<rparr>\<rparr>"
  have "same_waiting (sy_main t) ?m" by (simp add: same_waiting_def)
  from crypto_secrets_step [OF _ this] crypto_secrets.IH [OF refl]
  have "crypto_accounted ids (t\<lparr>sy_main := ?m\<rparr>)" "keeps_forgotten (sy_main s0) ?m"
    using keeps_forgotten_trans by blast+
  moreover have "s = t\<lparr>sy_main := ?m\<rparr>" using crypto_secrets.prems by simp
  ultimately show ?case by simp
next
  case (crypto_job ids t n)
  from crypto_job_step [OF conjunct1 [OF crypto_job.IH [OF refl]] crypto_job.prems] crypto_job.IH [OF refl]
  show ?case using keeps_forgotten_trans by blast
next
  case (crypto_main ids t)
  from crypto_main_step [OF conjunct1 [OF crypto_main.IH [OF refl]] crypto_main.prems] crypto_main.IH [OF refl]
  show ?case using keeps_forgotten_trans by blast
qed

text \<open>
  The SQLCipher plugin answers at once, in every state and whatever the engine answers, when the plugin it calls for importing keys does.
\<close>

lemma sqlcipher_key_store_prompt: "prompt_key_store (sqlcipher_full env)"
  by (simp add: prompt_key_store_def sqlcipher_plugin_def sqlcipher_lock_query_prompt on_storage_half_def query_storage_half_def
      SqlCipherPlugin_setEncryptionKey_def SqlCipherPlugin_openCollectionDatabase_def case_prod_unfold Let_def)

lemma sqlcipher_crypto_prompt: "prompt_crypto ossl \<Longrightarrow> prompt_crypto (sqlcipher_crypto name env ossl)"
  by (simp add: prompt_crypto_def sqlcipher_crypto_def SqlCipherPlugin_importAndStoreKey_def store_full_key_def on_crypto_half_def
      query_storage_half_def case_prod_unfold Let_def)

text \<open>The daemon after its start.\<close>

definition fresh_crypto :: "('c, 'k) crypto_system \<Rightarrow> bool" where
  "fresh_crypto s \<longleftrightarrow> prompt_plugins (sy_plugins s) \<and> cx_pendingRequests (sy_main s) = [] \<and> cx_helpers (sy_main s) = []
     \<and> cx_replies (sy_main s) = [] \<and> sy_jobs s = [] \<and> sy_events s = [] \<and> \<not> sy_waiting s"

lemma fresh_crypto_accounted:
  assumes "fresh_crypto s0" and "crypto_daemon env [] s0 ids (Some s)"
  shows "crypto_accounted ids s"
proof -
  have "crypto_accounted [] s0"
    using assms(1) by (simp add: fresh_crypto_def crypto_accounted_def crypto_balanced_def waiting_ok_def settled_ids_def)
  from crypto_daemon_accounted [OF assms(2) this refl] show ?thesis ..
qed

lemma accounted_waiting: "crypto_accounted ids s \<Longrightarrow> waiting_ok (sy_main s)"
  by (simp add: crypto_accounted_def crypto_balanced_def)

lemma crypto_accounted_ids:
  assumes "crypto_accounted ids s"
  shows "settled_ids (sy_main s) \<subseteq># mset ids" and "distinct (map fst (cx_replies (sy_main s)))"
    and "fst ` set (cx_replies (sy_main s)) \<subseteq> set ids"
    and "i \<in> fst ` set (cx_pendingRequests (sy_main s)) \<Longrightarrow> i \<notin> fst ` set (cx_replies (sy_main s))"
proof -
  show sub: "settled_ids (sy_main s) \<subseteq># mset ids"
    using assms waiting_requests by (auto simp: crypto_accounted_def)
  have "distinct ids" using assms by (simp add: crypto_accounted_def)
  then have c: "count (settled_ids (sy_main s)) x \<le> 1" for x
    using mset_subset_eq_count [OF sub, of x] count_distinct [of ids x] by linarith
  then show "distinct (map fst (cx_replies (sy_main s)))"
    by (intro distinct_of_count) (metis add_leD1 count_union settled_ids_def)
  show "fst ` set (cx_replies (sy_main s)) \<subseteq> set ids"
    using set_mset_mono [OF sub] by (auto simp: settled_ids_def)
  show "i \<notin> fst ` set (cx_replies (sy_main s))" if "i \<in> fst ` set (cx_pendingRequests (sy_main s))"
  proof
    assume "i \<in> fst ` set (cx_replies (sy_main s))"
    with that have "0 < count (mset (map fst (cx_replies (sy_main s)))) i" "0 < count (mset (map fst (cx_pendingRequests (sy_main s)))) i"
      by (simp_all del: mset_map)
    with c [of i] show False by (simp add: settled_ids_def del: mset_map)
  qed
qed

subsection \<open>Every request is answered once\<close>

text \<open>
  C20. Every request of the cryptography daemon is answered at most once, and waits only for what it has asked for. In every run, whatever the
  callers ask, the plugins return and the secrets daemon answers, and in whatever order the threads make their steps, no request has two
  replies and nothing is replied to that was not asked. When the threads have nothing left to do, every request has its one reply or waits in the
  table; and a request that waits has put exactly the question to the secrets daemon whose answer goes on with it, except the one kind \<open>forgotten\<close> names.
  Of the plugins it is asked that they answer \<^verbatim>\<open>importKey\<close>, \<^verbatim>\<open>importAndStoreKey\<close>, \<^verbatim>\<open>isCollectionLocked\<close> and \<^verbatim>\<open>setEncryptionKey\<close> at once, never with
  \<^verbatim>\<open>Pending\<close> (\<open>sqlcipher_key_store_prompt\<close>, \<open>sqlcipher_crypto_prompt\<close> and \<open>openssl_prompt\<close> show it of the repository's own); of the secrets
  daemon, that it answers only questions it has been asked, and with an outcome.
\<close>

theorem every_crypto_request_is_answered_once:
  assumes "fresh_crypto s0" and "crypto_daemon env [] s0 ids (Some s)"
  shows "distinct (map fst (cx_replies (sy_main s))) \<and> fst ` set (cx_replies (sy_main s)) \<subseteq> set ids
    \<and> (sy_jobs s = [] \<and> sy_events s = []
         \<longrightarrow> mset ids = mset (map fst (cx_replies (sy_main s))) + mset (map fst (cx_pendingRequests (sy_main s))))
    \<and> (\<forall>i. map_of (cx_helpers (sy_main s)) i =
          (case map_of (cx_pendingRequests (sy_main s)) i of
             None \<Rightarrow> None
           | Some pr \<Rightarrow> if forgotten (cr_parameters pr) then None else Some (waits_for (cr_parameters pr))))"
proof -
  note a = fresh_crypto_accounted [OF assms]
  have "mset ids = settled_ids (sy_main s)" if "sy_jobs s = []" "sy_events s = []"
    using a that by (auto simp: crypto_accounted_def crypto_balanced_def)
  with crypto_accounted_ids(2,3) [OF a] accounted_waiting [OF a] show ?thesis
    unfolding settled_ids_def waiting_ok_def by blast
qed

text \<open>
  C18. A key that needs a passphrase and is to go into another plugin's collection is never imported. When the plugin has said that the passphrase
  is wrong, the request is filed as waiting for the user, but no user is asked: in every continuation of the run the request has no reply, stays in
  the table, and there is no question whose answer could end it.
\<close>

theorem passphrase_import_is_never_answered:
  assumes "fresh_crypto s0" and "crypto_daemon env [] s0 ids (Some s)"
    and "sy_events s = importStoredKey_inStorage_finished pid i data key ui custom provider dk kr # cs"
    and "provider \<noteq> id_storagePluginName (key_identifier key)" and "needs_passphrase (fst kr) ui"
    and "main_step s = Some s1" and "crypto_daemon env ids s1 ids' (Some s')"
  shows "i \<notin> fst ` set (cx_replies (sy_main s')) \<and> i \<in> fst ` set (cx_pendingRequests (sy_main s'))
    \<and> i \<notin> fst ` set (cx_helpers (sy_main s'))"
proof -
  note a = fresh_crypto_accounted [OF assms(1,2)]
  let ?pr = "\<lparr>cr_callerPid = pid, cr_requestId = i, cr_parameters = ImportStoredKey_input data key ui custom provider dk\<rparr>"
  have "\<not> sy_waiting s" using a by (simp add: crypto_accounted_def crypto_balanced_def)
  with assms(3,5,6) have "map_of (cx_pendingRequests (sy_main s1)) i = Some ?pr"
    by (auto simp: main_step_def importStoredKey_inStorage_finished_def insert_crypto_pending_def)
  moreover note crypto_daemon_accounted [OF assms(7) conjunct1 [OF crypto_main_step [OF a assms(6)]] refl]
  ultimately have a': "crypto_accounted ids' s'" and p: "map_of (cx_pendingRequests (sy_main s')) i = Some ?pr"
    using assms(4) by (auto simp: keeps_forgotten_def)
  have "i \<in> fst ` set (cx_pendingRequests (sy_main s'))" using p by (force dest: map_of_SomeD)
  moreover have "map_of (cx_helpers (sy_main s')) i = None"
    using accounted_waiting [OF a'] p assms(4) by (simp add: waiting_ok_def)
  ultimately show ?thesis using crypto_accounted_ids(4) [OF a'] by (simp add: map_of_eq_None_iff)
qed

subsection \<open>Keys in storage plugins\<close>

lemma qmap_insert_twice: "qmap_insert k v (qmap_insert k v m) = qmap_insert k v m"
  by (induction k v m rule: qmap_insert.induct) auto

lemma storeKey_queued:
  assumes "storeKey pid i ident ser fd dk b = (r0, b1)" and "res_code r0 = Pending"
  shows "\<exists>n rd. map_of (rq_enqueuingRequests (sb_queue b1)) n = Some rd
    \<and> rd_inParams rd = [SetCollectionKey (key_secret ident ser fd) SystemInteraction dk]"
  using assms
  by (auto simp: storeKey_def enqueue_helper_def handleRequest_secretsCrypto_def enqueueRequest_def new_request_def case_prod_unfold Let_def
      split: if_splits)

text \<open>
  C17. A key that is kept in a storage plugin reads back without its name. Let a key that fits the serialised format (\<open>key_fits\<close>: the fields are within the
  ranges and lengths the stream can hold) be serialised and handed to the secrets daemon as a
  secret, and a later request for the key be answered with that secret. Then the reply has the key as it was, except that a field is emptied when
  it was not asked for, and also when the key's component constraints do not allow it: a part is returned only where both the request and the
  constraints name it. The identifier of the returned key is empty, whatever was asked for. The documentation of
  \<^verbatim>\<open>setComponentConstraints\<close> (src/lib/Crypto/key.cpp) says that the constraints are not enforced for a key in a storage plugin that is
  not a cryptographic one; the code enforces them for every such key.
\<close>

theorem key_in_storage_reads_back:
  assumes "key_fits key"
    and "storeKey pid i ident (Key_serialize key LossySerializationMode) (key_filterData key) dk b = (r0, b1)" and "res_code r0 = Pending"
    and "map_of (cx_pendingRequests m) j = Some pr" and "cr_parameters pr = StoredKey_read ident keep"
    and "map_of (cx_helpers m) j = Some StoredKeyCryptoApiHelperRequest"
  shows "\<exists>secret out.
    (\<exists>n rd. map_of (rq_enqueuingRequests (sb_queue b1)) n = Some rd \<and> rd_inParams rd = [SetCollectionKey secret SystemInteraction dk])
    \<and> se_identifier secret = ident
    \<and> deliver_answer env j r [OutSecret secret] m =
        Return ((answered j m)\<lparr>cx_replies := cx_replies m @ [(j, [CryptoOutResult (transformSecretsResult r), OutKey out])]\<rparr>)
    \<and> out = processor_nullifyKeyFields keep (Key_setFilterData (key_filterData key) (key\<lparr>key_identifier := no_identifier\<rparr>))
    \<and> key_identifier out = no_identifier
    \<and> (key_publicKey out, key_customParameters out) =
        (if readable keep key PublicKeyData then (key_publicKey key, key_customParameters key) else ([], []))
    \<and> (key_privateKey out, key_secretKey out) =
        (if readable keep key PrivateKeyData then (key_privateKey key, key_secretKey key) else ([], []))"
proof -
  let ?s = "key_secret ident (Key_serialize key LossySerializationMode) (key_filterData key)"
  let ?k = "Key_setFilterData (key_filterData key) (key\<lparr>key_identifier := no_identifier\<rparr>)"
  let ?out = "processor_nullifyKeyFields keep ?k"
  have "se_data ?s = Key_serialize key LossySerializationMode" "se_identifier ?s = ident"
    "se_filterData ?s = qmap_insert FilterDataFieldType TypeCryptoKey (key_filterData key)"
    by (simp_all add: key_secret_def new_Secret_identified_def Secret_setType_def)
  moreover have "Key_setFilterData (qmap_insert FilterDataFieldType TypeCryptoKey (key_filterData key))
      (Key_setFilterData [] (key\<lparr>key_identifier := no_identifier\<rparr>)) = ?k"
    by (simp add: Key_setFilterData_def qmap_insert_twice)
  ultimately have "deliver_answer env j r [OutSecret ?s] m =
      Return ((answered j m)\<lparr>cx_replies := cx_replies m @ [(j, [CryptoOutResult (transformSecretsResult r), OutKey ?out])]\<rparr>)"
    using assms(4-6) deserialize_serialize [OF assms(1), of LossySerializationMode]
    by (simp add: deliver_answer_def asynchronousCryptoRequestCompleted_def first_secret_def secretsStoredKeyCompleted_def with_waiting_def
        storedKey2_def crypto_finish_def take_crypto_pending_def)
  moreover have "readable keep ?k c = readable keep key c" for c
    by (simp add: readable_def Key_setFilterData_def)
  then have "key_identifier ?out = no_identifier \<and> (key_publicKey ?out, key_customParameters ?out) =
        (if readable keep key PublicKeyData then (key_publicKey key, key_customParameters key) else ([], []))
      \<and> (key_privateKey ?out, key_secretKey ?out) =
        (if readable keep key PrivateKeyData then (key_privateKey key, key_secretKey key) else ([], []))"
    by (simp add: processor_nullifyKeyFields_def without_private_part_def Key_setFilterData_def Let_def)
  ultimately show ?thesis
    using storeKey_queued [OF assms(2,3)] \<open>se_identifier ?s = ident\<close> by blast
qed

subsection \<open>An example\<close>

text \<open>A plugin that imports nothing without a passphrase, and a storage plugin of another name.\<close>

definition strict_ossl :: "unit CryptoPlugin" where
  "strict_ossl = demo_ossl\<lparr>cp_importKey := (\<lambda>data pass _ key u.
     if pass = [] then (crypto_failure Crypto_CryptoPluginIncorrectPassphrase, key, u) else (crypto_success, key\<lparr>key_secretKey := data\<rparr>, u))\<rparr>"

definition demo_crypto_env :: crypto_env where
  "demo_crypto_env = \<lparr>ce_environment = (\<lambda>_. []), ce_cryptoPlugins = [''openssl'' \<mapsto> False], ce_storagePluginNames = {},
     ce_encryptedStoragePluginNames = {''sc''}, ce_cryptoStoragePluginWrappers = {}\<rparr>"

definition demo_crypto_processor :: CryptoProcessor where
  "demo_crypto_processor = \<lparr>cx_pendingRequests = [], cx_secrets = \<lparr>sb_queue = empty_queue 0, sb_cryptoApiHelperRequests = []\<rparr>,
     cx_replies = []\<rparr>"

definition demo_crypto_daemon :: "(unit, unit) crypto_system" where
  "demo_crypto_daemon = \<lparr>sy_plugins = [(''openssl'', PlainCrypto strict_ossl ())], sy_main = demo_crypto_processor, sy_jobs = [],
     sy_events = [], sy_waiting = False\<rparr>"

definition demo_interaction :: CryptoInteractionParameters where
  "demo_interaction = \<lparr>ci_keyName = [], ci_collectionName = [], ci_pluginName = [], ci_applicationId = [], ci_operation = ImportKey,
     ci_authenticationPluginName = [], ci_inputType = 1, ci_echoMode = 0\<rparr>"

lemma demo_crypto_fresh: "fresh_crypto demo_crypto_daemon"
  by (simp add: fresh_crypto_def demo_crypto_daemon_def demo_crypto_processor_def prompt_plugins_def prompt_crypto_def strict_ossl_def
      demo_ossl_def CryptoResult_of_code_def)

lemma demo_queue_takes: "fst (handleRequest_secretsCrypto pid i t ps (empty_queue 0 :: (SecretsRequest, unit) RequestQueue)) = success"
  by (simp add: handleRequest_secretsCrypto_def enqueueRequest_def empty_queue_def id_in_use_def qmap_contains_def free_id_loop.simps
      case_prod_unfold Let_def)

lemma demo_helper:
  "\<exists>q. enqueue_helper pid i req helper (cx_secrets demo_crypto_processor)
     = (pending, \<lparr>sb_queue = q, sb_cryptoApiHelperRequests = [(i, helper)]\<rparr>)"
  using demo_queue_takes [of pid i "request_type req" "[req]"]
  by (auto simp: enqueue_helper_def demo_crypto_processor_def case_prod_unfold Let_def)

text \<open>A key is deleted: the secrets daemon is asked, and answers.\<close>

lemma demo_delete_run:
  "\<exists>s. crypto_daemon demo_crypto_env [] demo_crypto_daemon [7] (Some s) \<and> sy_jobs s = [] \<and> sy_events s = []
     \<and> cx_pendingRequests (sy_main s) = []"
proof -
  let ?h = "crypto_handlePendingRequest demo_crypto_env Unknown 1 7 (DeleteStoredKeyRequest (key_identifier demo_key))"
  obtain s1 pr where s1: "execute (?h demo_crypto_processor) demo_crypto_daemon = Some s1" "sy_jobs s1 = []" "sy_events s1 = []"
      "cx_helpers (sy_main s1) = [(7, DeleteStoredKeyCryptoApiHelperRequest)]"
    and pr: "cx_pendingRequests (sy_main s1) = [(7, pr)]" "cr_parameters pr = DeleteStoredKey_delete (key_identifier demo_key)"
    using demo_helper [of 1 7 "DeleteCollectionSecret (key_identifier demo_key) SystemInteraction []" DeleteStoredKeyCryptoApiHelperRequest]
    by (auto simp: CryptoProcessor_deleteStoredKey_def ask_secrets_def bridge_deleteStoredKey_def insert_crypto_pending_def
        crypto_finish_unless_pending_def demo_crypto_daemon_def demo_crypto_processor_def)
  from crypto_request [OF crypto_start, where i = 7] s1
  have d1: "crypto_daemon demo_crypto_env [] demo_crypto_daemon [7] (Some s1)"
    by (metis demo_crypto_daemon_def list.set(1) empty_iff system.select_convs(2))
  obtain s2 where "execute (deliver_answer demo_crypto_env 7 success [] (sy_main s1)) s1 = Some s2" "sy_jobs s2 = []" "sy_events s2 = []"
      "cx_pendingRequests (sy_main s2) = []"
    using s1 pr by (auto simp: deliver_answer_def asynchronousCryptoRequestCompleted_def secretsDeleteStoredKeyCompleted_def with_waiting_def
        deleteStoredKey2_def crypto_finish_def take_crypto_pending_def)
  with crypto_answer [OF d1, of 7 success "[]"] s1(4) show ?thesis by fastforce
qed

theorem every_crypto_request_is_answered_once_witness:
  "\<exists>s. crypto_daemon demo_crypto_env [] demo_crypto_daemon [7] (Some s) \<and> {#7#} = mset (map fst (cx_replies (sy_main s)))"
proof -
  obtain s where s: "crypto_daemon demo_crypto_env [] demo_crypto_daemon [7] (Some s)" "sy_jobs s = []" "sy_events s = []"
      "cx_pendingRequests (sy_main s) = []"
    using demo_delete_run by blast
  with every_crypto_request_is_answered_once [OF demo_crypto_fresh s(1)] show ?thesis by auto
qed

text \<open>A key that needs a passphrase is to be imported into a collection of the storage plugin.\<close>

lemma demo_import_run:
  "\<exists>s s1 kr. crypto_daemon demo_crypto_env [] demo_crypto_daemon [7] (Some s)
     \<and> sy_events s = [importStoredKey_inStorage_finished 1 7 ''k'' demo_key demo_interaction [] ''openssl'' [] kr]
     \<and> needs_passphrase (fst kr) demo_interaction \<and> main_step s = Some s1"
proof -
  let ?req = "ImportStoredKeyRequest ''k'' demo_key demo_interaction [] ''openssl''"
  let ?h = "crypto_handlePendingRequest demo_crypto_env Unknown 1 7 ?req"
  have "check_key_template demo_crypto_env demo_key ''openssl'' = None"
    by (simp add: check_key_template_def demo_key_def demo_crypto_env_def has_crypto_plugin_def)
  then obtain s1 pr where s1: "execute (?h demo_crypto_processor) demo_crypto_daemon = Some s1" "sy_jobs s1 = []" "sy_events s1 = []"
      "\<not> sy_waiting s1" "cx_helpers (sy_main s1) = [(7, StoreKeyPreCheckCryptoApiHelperRequest)]"
      "sy_plugins s1 = sy_plugins demo_crypto_daemon"
    and pr: "cx_pendingRequests (sy_main s1) = [(7, pr)]"
      "cr_parameters pr = ImportStoredKey_check ''k'' demo_key demo_interaction [] ''openssl''" "cr_callerPid pr = 1"
    using demo_helper [of 1 7 "SetCollectionKeyPreCheck (key_identifier demo_key) SystemInteraction" StoreKeyPreCheckCryptoApiHelperRequest]
    by (auto simp: CryptoProcessor_importStoredKey_def ask_secrets_def storeKeyPreCheck_def insert_crypto_pending_def
        crypto_finish_unless_pending_def demo_crypto_daemon_def demo_crypto_processor_def)
  from crypto_request [OF crypto_start, where i = 7] s1
  have d1: "crypto_daemon demo_crypto_env [] demo_crypto_daemon [7] (Some s1)"
    by (metis demo_crypto_daemon_def list.set(1) empty_iff system.select_convs(2))
  let ?fin = "importStoredKey_inStorage_finished 1 7 ''k'' demo_key demo_interaction [] ''openssl'' []"
  obtain s2 where s2: "execute (deliver_answer demo_crypto_env 7 success [] (sy_main s1)) s1 = Some s2" "sy_events s2 = []"
      "\<not> sy_waiting s2" "sy_plugins s2 = sy_plugins demo_crypto_daemon"
      "sy_jobs s2 = [\<lambda>p. map_option (map_prod ?fin id) (on_target ''openssl'' (import_key_job [] ''k'' []) p)]"
    using s1 pr by (auto simp: deliver_answer_def asynchronousCryptoRequestCompleted_def secretsStoreKeyPreCheckCompleted_def with_waiting_def
        importStoredKey_afterPreCheck_def importStoredKey_withPassphrase_def run_def take_crypto_pending_def demo_key_def first_bytes_def)
  from crypto_answer [OF d1, of 7 success "[]"] s1(5) s2(1)
  have d2: "crypto_daemon demo_crypto_env [] demo_crypto_daemon [7] (Some s2)" by simp
  let ?kr = "(crypto_failure Crypto_CryptoPluginIncorrectPassphrase, new_Key)"
  have n: "needs_passphrase (fst ?kr) demo_interaction"
    by (simp add: needs_passphrase_def CryptoInteractionParameters_isValid_def demo_interaction_def CryptoResult_of_error_def)
  obtain s3 where s3: "job_step 0 s2 = Some s3" "sy_events s3 = [?fin ?kr]" "\<not> sy_waiting s3"
    using s2 by (auto simp: job_step_def demo_crypto_daemon_def on_target_def import_key_job_def on_crypto_plugin_def
        CryptoPluginFunctionWrapper_importKey_def strict_ossl_def)
  from crypto_job [OF d2, of 0] s3(1) have d3: "crypto_daemon demo_crypto_env [] demo_crypto_daemon [7] (Some s3)" by simp
  have "\<exists>s4. main_step s3 = Some s4"
    using s3 n by (simp add: main_step_def importStoredKey_inStorage_finished_def)
  with d3 s3 n show ?thesis by blast
qed

theorem passphrase_import_is_never_answered_witness:
  "\<exists>s. crypto_daemon demo_crypto_env [] demo_crypto_daemon [7] (Some s) \<and> 7 \<notin> fst ` set (cx_replies (sy_main s))
     \<and> 7 \<in> fst ` set (cx_pendingRequests (sy_main s)) \<and> 7 \<notin> fst ` set (cx_helpers (sy_main s))"
proof -
  let ?run = "crypto_daemon demo_crypto_env [] demo_crypto_daemon [7]"
  let ?fin = "importStoredKey_inStorage_finished 1 7 ''k'' demo_key demo_interaction [] ''openssl'' []"
  obtain s s1 kr where r: "?run (Some s)" "sy_events s = [?fin kr]" "needs_passphrase (fst kr) demo_interaction" "main_step s = Some s1"
    using demo_import_run by blast
  have "''openssl'' \<noteq> id_storagePluginName (key_identifier demo_key)" by (simp add: demo_key_def)
  from passphrase_import_is_never_answered [OF demo_crypto_fresh r(1,2) this r(3,4) crypto_start] crypto_main [OF r(1)] r(4)
  have "?run (Some s1)" "7 \<notin> fst ` set (cx_replies (sy_main s1))" "7 \<in> fst ` set (cx_pendingRequests (sy_main s1))" 
       "7 \<notin> fst ` set (cx_helpers (sy_main s1))"
    by simp_all
  then show ?thesis by blast
qed

theorem key_in_storage_reads_back_witness:
  "let key = demo_key\<lparr>key_componentConstraints := 7, key_secretKey := ''K''\<rparr>;
       pr = \<lparr>cr_callerPid = 1, cr_requestId = 7, cr_parameters = StoredKey_read (key_identifier key) 7\<rparr>;
       m = \<lparr>cx_pendingRequests = [(7, pr)], cx_secrets = \<lparr>sb_queue = empty_queue 0,
             sb_cryptoApiHelperRequests = [(7, StoredKeyCryptoApiHelperRequest)]\<rparr>, cx_replies = []\<rparr>
   in \<exists>secret out. deliver_answer demo_crypto_env 7 success [OutSecret secret] m
        = (Return \<lparr>cx_pendingRequests = [], cx_secrets = \<lparr>sb_queue = empty_queue 0, sb_cryptoApiHelperRequests = []\<rparr>,
             cx_replies = [(7, [CryptoOutResult crypto_success, OutKey out])]\<rparr> :: (unit, unit) crypto_run)
      \<and> se_identifier secret = key_identifier key \<and> key_identifier out = no_identifier \<and> key_secretKey out = ''K''"
proof -
  let ?key = "demo_key\<lparr>key_componentConstraints := 7, key_secretKey := ''K''\<rparr>"
  let ?m = "\<lparr>cx_pendingRequests = [(7, \<lparr>cr_callerPid = 1, cr_requestId = 7, cr_parameters = StoredKey_read (key_identifier ?key) 7\<rparr>)],
     cx_secrets = \<lparr>sb_queue = empty_queue 0, sb_cryptoApiHelperRequests = [(7, StoredKeyCryptoApiHelperRequest)]\<rparr>, cx_replies = []\<rparr>"
  obtain b1 where "storeKey 1 6 (key_identifier ?key) (Key_serialize ?key LossySerializationMode) (key_filterData ?key) []
      (cx_secrets demo_crypto_processor) = (pending, b1)"
    using demo_helper unfolding storeKey_def by blast
  note th = key_in_storage_reads_back [OF demo_key_fits this, of ?m 7 _ 7 demo_crypto_env success]
  have "readable 7 ?key PrivateKeyData" by code_simp
  with th show ?thesis
    by (simp add: take_crypto_pending_def transformSecretsResult_def)
       blast
qed

end
