(* ===== verification/Openssl_Evp.thy ===== *)
theory Openssl_Evp
  imports Crypto_Wrapper "HOL-Library.Monad_Syntax"
begin

section \<open>The functions on top of OpenSSL\<close>

text \<open>
  src/plugins/opensslcryptoplugin/evp: the functions of \<^verbatim>\<open>OpenSslEvp\<close> (evp.cpp), which call the library step by step, and the tables of
  evp_helpers_p.h. The library itself is not in the repository: it is the argument \<open>lib\<close>, a record of the calls the code makes. A context
  is a value, since it has one owner; a call that reports failure returns \<open>None\<close>. What depends on more than its arguments (memory, random numbers) works on the library's state.

  A function of the code is undefined where it would hand a null pointer to the library or free a block twice: its value is then \<open>None\<close>.
\<close>

subsection \<open>Enumerations\<close>

text \<open>Values of the enumerations of \<^verbatim>\<open>CryptoManager\<close>.\<close>

abbreviation AlgorithmUnknown :: int where "AlgorithmUnknown \<equiv> 0"
abbreviation AlgorithmRsa :: int where "AlgorithmRsa \<equiv> 10"
abbreviation AlgorithmDsa :: int where "AlgorithmDsa \<equiv> 20"
abbreviation AlgorithmDh :: int where "AlgorithmDh \<equiv> 30"
abbreviation AlgorithmEc :: int where "AlgorithmEc \<equiv> 40"
abbreviation FirstAsymmetricAlgorithm :: int where "FirstAsymmetricAlgorithm \<equiv> 10"
abbreviation LastAsymmetricAlgorithm :: int where "LastAsymmetricAlgorithm \<equiv> 255"
abbreviation AlgorithmAes :: int where "AlgorithmAes \<equiv> 260"

abbreviation BlockModeUnknown :: int where "BlockModeUnknown \<equiv> 0"
abbreviation BlockModeEcb :: int where "BlockModeEcb \<equiv> 2"
abbreviation BlockModeCbc :: int where "BlockModeCbc \<equiv> 3"
abbreviation BlockModeCfb1 :: int where "BlockModeCfb1 \<equiv> 5"
abbreviation BlockModeCfb8 :: int where "BlockModeCfb8 \<equiv> 6"
abbreviation BlockModeCfb128 :: int where "BlockModeCfb128 \<equiv> 7"
abbreviation BlockModeOfb :: int where "BlockModeOfb \<equiv> 8"
abbreviation BlockModeCtr :: int where "BlockModeCtr \<equiv> 9"
abbreviation BlockModeGcm :: int where "BlockModeGcm \<equiv> 10"
abbreviation BlockModeXts :: int where "BlockModeXts \<equiv> 13"
abbreviation BlockModeCcm :: int where "BlockModeCcm \<equiv> 16"

abbreviation EncryptionPaddingNone :: int where "EncryptionPaddingNone \<equiv> 2"
abbreviation EncryptionPaddingRsaOaep :: int where "EncryptionPaddingRsaOaep \<equiv> 4"
abbreviation EncryptionPaddingRsaPkcs1 :: int where "EncryptionPaddingRsaPkcs1 \<equiv> 6"
abbreviation SignaturePaddingNone :: int where "SignaturePaddingNone \<equiv> 2"

abbreviation DigestMd5 :: int where "DigestMd5 \<equiv> 5"
abbreviation DigestSha1 :: int where "DigestSha1 \<equiv> 10"
abbreviation DigestSha256 :: int where "DigestSha256 \<equiv> 21"
abbreviation DigestSha512 :: int where "DigestSha512 \<equiv> 23"

abbreviation VerificationStatusUnknown :: int where "VerificationStatusUnknown \<equiv> 0"
abbreviation VerificationSucceeded :: int where "VerificationSucceeded \<equiv> 1"
abbreviation StatusVerificationFailed :: int where "StatusVerificationFailed \<equiv> 2"

subsection \<open>The library\<close>

datatype evp_md = EVP_md5 | EVP_sha1 | EVP_sha256 | EVP_sha512

text \<open>The ciphers \<^verbatim>\<open>EVP_aes_<bits>_<mode>\<close>; the mode is the block mode that selects it.\<close>

datatype evp_cipher = EVP_aes (EVP_CIPHER_bits: int) (EVP_CIPHER_mode: int)

datatype rsa_padding = RSA_NO_PADDING | RSA_PKCS1_PADDING | RSA_PKCS1_OAEP_PADDING

datatype pkey_type = EVP_PKEY_RSA | EVP_PKEY_DSA | EVP_PKEY_DH | EVP_PKEY_EC | EVP_PKEY_other

text \<open>The modes with a tag, by which the control commands differ.\<close>

datatype aead = EVP_CTRL_GCM | EVP_CTRL_CCM

text \<open>Calls on a context for public keys that only succeed or fail.\<close>

datatype pkey_call =
    EVP_PKEY_CTX_new | EVP_PKEY_encrypt_init | EVP_PKEY_decrypt_init | EVP_PKEY_CTX_set_rsa_padding rsa_padding
  | EVP_PKEY_encrypt_size qbytes | EVP_PKEY_decrypt_size qbytes

datatype ec_call =
    EVP_PKEY_CTX_new_id | EVP_PKEY_paramgen_init | EVP_PKEY_CTX_set_ec_paramgen_curve_nid | EVP_PKEY_paramgen
  | EVP_PKEY_CTX_new_params | EVP_PKEY_keygen_init | BIO_new_private | BIO_new_public

record ('c, 'm, 'p, 'r) libcrypto =
  RAND_add :: "qbytes \<Rightarrow> double \<Rightarrow> 'r \<Rightarrow> 'r"
  RAND_bytes :: "nat \<Rightarrow> 'r \<Rightarrow> qbytes option \<times> 'r"
  dev_urandom :: "nat \<Rightarrow> 'r \<Rightarrow> qbytes \<times> 'r"
  OPENSSL_malloc :: "'r \<Rightarrow> bool \<times> 'r"
  PKCS5_PBKDF2_HMAC :: "qbytes \<Rightarrow> qbytes \<Rightarrow> int \<Rightarrow> evp_md \<Rightarrow> nat \<Rightarrow> qbytes option"
  EVP_CIPHER_CTX_new :: "'r \<Rightarrow> 'c option \<times> 'r"
  EVP_EncryptInit_ex :: "evp_cipher option \<Rightarrow> (qbytes \<times> qbytes) option \<Rightarrow> 'c \<Rightarrow> 'c option"
  EVP_DecryptInit_ex :: "evp_cipher option \<Rightarrow> (qbytes \<times> qbytes) option \<Rightarrow> 'c \<Rightarrow> 'c option"
  EVP_CTRL_SET_IVLEN :: "aead \<Rightarrow> nat \<Rightarrow> 'c \<Rightarrow> 'c option"
  EVP_CTRL_SET_TAG :: "aead \<Rightarrow> nat \<Rightarrow> qbytes option \<Rightarrow> 'c \<Rightarrow> 'c option"
  EVP_CTRL_GET_TAG :: "aead \<Rightarrow> nat \<Rightarrow> 'c \<Rightarrow> qbytes option"
  EVP_EncryptUpdate :: "qbytes \<Rightarrow> 'c \<Rightarrow> (qbytes \<times> 'c) option"
  EVP_EncryptUpdate_aad :: "qbytes \<Rightarrow> 'c \<Rightarrow> 'c option"
  EVP_EncryptUpdate_length :: "nat \<Rightarrow> 'c \<Rightarrow> 'c option"
  EVP_EncryptFinal_ex :: "'c \<Rightarrow> qbytes option"
  EVP_DecryptUpdate :: "qbytes \<Rightarrow> 'c \<Rightarrow> bool \<times> qbytes \<times> 'c"
  EVP_DecryptUpdate_aad :: "qbytes \<Rightarrow> 'c \<Rightarrow> 'c option"
  EVP_DecryptUpdate_length :: "nat \<Rightarrow> 'c \<Rightarrow> 'c option"
  EVP_DecryptFinal_ex :: "'c \<Rightarrow> bool \<times> qbytes"
  EVP_MD_CTX_create :: "'r \<Rightarrow> 'm option \<times> 'r"
  EVP_DigestInit_ex :: "evp_md \<Rightarrow> 'm \<Rightarrow> 'm option"
  EVP_DigestUpdate :: "qbytes \<Rightarrow> 'm \<Rightarrow> 'm option"
  EVP_DigestFinal_ex :: "'m \<Rightarrow> qbytes option"
  EVP_DigestSignInit :: "evp_md \<Rightarrow> 'p \<Rightarrow> 'm \<Rightarrow> 'm option"
  EVP_DigestSignUpdate :: "qbytes \<Rightarrow> 'm \<Rightarrow> 'm option"
  EVP_DigestSignFinal_size :: "'m \<Rightarrow> bool"
  EVP_DigestSignFinal :: "'m \<Rightarrow> qbytes option"
  EVP_DigestVerifyInit :: "evp_md \<Rightarrow> 'p \<Rightarrow> 'm \<Rightarrow> 'm option"
  EVP_DigestVerifyUpdate :: "qbytes \<Rightarrow> 'm \<Rightarrow> 'm option"
  EVP_DigestVerifyFinal :: "qbytes \<Rightarrow> 'm \<Rightarrow> int"
  BIO_write :: "qbytes \<Rightarrow> nat"
  PEM_read_bio_PrivateKey :: "(nat \<Rightarrow> qbytes) option \<Rightarrow> qbytes \<Rightarrow> 'p option \<times> bool"
  PEM_read_bio_PUBKEY :: "(nat \<Rightarrow> qbytes) option \<Rightarrow> qbytes \<Rightarrow> 'p option \<times> bool"
  PEM_write_bio_PrivateKey :: "'p \<Rightarrow> qbytes option"
  PEM_write_bio_PUBKEY :: "'p \<Rightarrow> qbytes option"
  PEM_write_bio_RSAPrivateKey :: "'p \<Rightarrow> qbytes option"
  PEM_write_bio_RSA_PUBKEY :: "'p \<Rightarrow> qbytes option"
  BN_set_word :: "nat \<Rightarrow> bool"
  RSA_generate_key_ex :: "int \<Rightarrow> nat \<Rightarrow> 'r \<Rightarrow> 'p option \<times> 'r"
  EVP_PKEY_base_id :: "'p \<Rightarrow> pkey_type"
  EVP_PKEY_bits :: "'p \<Rightarrow> int"
  PKEY_call :: "pkey_call \<Rightarrow> 'p \<Rightarrow> 'r \<Rightarrow> bool \<times> 'r"
  EVP_PKEY_encrypt :: "rsa_padding option \<Rightarrow> qbytes \<Rightarrow> 'p \<Rightarrow> 'r \<Rightarrow> qbytes option \<times> 'r"
  EVP_PKEY_decrypt :: "rsa_padding option \<Rightarrow> qbytes \<Rightarrow> 'p \<Rightarrow> 'r \<Rightarrow> qbytes option \<times> 'r"
  EC_call :: "ec_call \<Rightarrow> qstring \<Rightarrow> 'r \<Rightarrow> bool \<times> 'r"
  EVP_PKEY_keygen :: "qstring \<Rightarrow> 'r \<Rightarrow> 'p option \<times> 'r"

subsection \<open>Tables\<close>

definition initializationVectorSize :: "int \<Rightarrow> int \<Rightarrow> int" where
  "initializationVectorSize algorithm blockMode =
     (if blockMode = BlockModeEcb then 0
      else if algorithm = AlgorithmRsa then 0
      else if algorithm = AlgorithmAes
      then (if blockMode = BlockModeGcm then 12 else if blockMode = BlockModeCcm then 7 else 16)
      else - 1)"

definition authenticationTagSize :: "int \<Rightarrow> int \<Rightarrow> nat" where
  "authenticationTagSize algorithm blockMode =
     (if algorithm = AlgorithmAes
      then (if blockMode = BlockModeGcm then 16 else if blockMode = BlockModeCcm then 14 else 0)
      else 0)"

definition getEvpDigestFunction :: "int \<Rightarrow> evp_md option" where
  "getEvpDigestFunction digestFunction =
     (if digestFunction = DigestSha256 then Some EVP_sha256
      else if digestFunction = DigestSha512 then Some EVP_sha512
      else if digestFunction = DigestMd5 then Some EVP_md5
      else None)"

definition getEvpCipher :: "int \<Rightarrow> nat \<Rightarrow> evp_cipher option" where
  "getEvpCipher block_mode key_length_bytes =
     (let key_length_bits = int key_length_bytes * 8
      in if block_mode \<in> {BlockModeEcb, BlockModeCbc, BlockModeCfb1, BlockModeCfb8, BlockModeCfb128, BlockModeOfb, BlockModeCtr,
             BlockModeGcm, BlockModeCcm}
         then (if key_length_bits \<in> {128, 192, 256} then Some (EVP_aes key_length_bits block_mode) else None)
         else if block_mode = BlockModeXts
         then (if key_length_bits \<in> {128, 256} then Some (EVP_aes key_length_bits block_mode) else None)
         else None)"

definition getOpenSslRsaPadding :: "int \<Rightarrow> rsa_padding option" where
  "getOpenSslRsaPadding padding =
     (if padding = EncryptionPaddingNone then Some RSA_NO_PADDING
      else if padding = EncryptionPaddingRsaPkcs1 then Some RSA_PKCS1_PADDING
      else if padding = EncryptionPaddingRsaOaep then Some RSA_PKCS1_OAEP_PADDING
      else None)"

text \<open>Two tables over the curves: the name of the library's constant, and the size of the key.\<close>

definition curve_nids :: "(int \<times> qstring) list" where
  "curve_nids =
     [(150, ''X9_62_c2pnb163v1''), (151, ''X9_62_c2pnb163v2''), (152, ''X9_62_c2pnb163v3''), (153, ''X9_62_c2pnb176v1''),
      (157, ''X9_62_c2pnb208w1''), (161, ''X9_62_c2pnb272w1''), (162, ''X9_62_c2pnb304w1''), (164, ''X9_62_c2pnb368w1''),
      (154, ''X9_62_c2tnb191v1''), (155, ''X9_62_c2tnb191v2''), (156, ''X9_62_c2tnb191v3''), (158, ''X9_62_c2tnb239v1''),
      (159, ''X9_62_c2tnb239v2''), (160, ''X9_62_c2tnb239v3''), (163, ''X9_62_c2tnb359v1''), (165, ''X9_62_c2tnb431r1''),
      (50, ''secp160k1''), (51, ''secp160r1''), (52, ''secp160r2''), (53, ''secp192k1''), (55, ''secp224k1''), (56, ''secp224r1''),
      (57, ''secp256k1''), (59, ''secp384r1''), (60, ''secp521r1'')]"

definition getEllipticCurveNid :: "int \<Rightarrow> qstring option" where
  "getEllipticCurveNid curve = map_of curve_nids curve"

definition curve_key_sizes :: "(int \<times> int) list" where
  "curve_key_sizes =
     [(150, 163), (151, 163), (152, 163), (153, 176), (157, 208), (161, 272), (162, 304), (164, 368), (154, 191), (155, 191), (156, 191),
      (158, 239), (159, 239), (160, 359), (163, 359), (165, 431), (50, 160), (51, 160), (52, 160), (53, 192), (54, 192), (55, 224),
      (56, 224), (57, 256), (58, 256), (59, 384), (60, 521)]"

definition getEllipticCurveKeySize :: "int \<Rightarrow> int" where
  "getEllipticCurveKeySize curve = (case map_of curve_key_sizes curve of None \<Rightarrow> 0 | Some n \<Rightarrow> n)"

text \<open>A reader of keys also says whether it asked for a passphrase; here it has nobody to ask.\<close>

definition readEvpKey ::
    "('c, 'm, 'p, 'r) libcrypto \<Rightarrow> qbytes \<Rightarrow> ((nat \<Rightarrow> qbytes) option \<Rightarrow> qbytes \<Rightarrow> 'p option \<times> bool) \<Rightarrow> 'p option" where
  "readEvpKey lib key read = (if BIO_write lib key \<noteq> length key then None else fst (read None key))"

definition readEvpPrivKey :: "('c, 'm, 'p, 'r) libcrypto \<Rightarrow> qbytes \<Rightarrow> 'p option" where
  "readEvpPrivKey lib privKey = readEvpKey lib privKey (PEM_read_bio_PrivateKey lib)"

definition readEvpPubKey :: "('c, 'm, 'p, 'r) libcrypto \<Rightarrow> qbytes \<Rightarrow> 'p option" where
  "readEvpPubKey lib pubKey = readEvpKey lib pubKey (PEM_read_bio_PUBKEY lib)"

subsection \<open>Key derivation and symmetric encryption\<close>

definition pkcs5_pbkdf2_hmac :: "('c, 'm, 'p, 'r) libcrypto \<Rightarrow> qbytes \<Rightarrow> qbytes \<Rightarrow> int \<Rightarrow> int \<Rightarrow> nat \<Rightarrow> qbytes option" where
  "pkcs5_pbkdf2_hmac lib pass salt iter digestFunction keylen =
     (let md = (if digestFunction = 10 then EVP_sha1 else if digestFunction = 21 then EVP_sha256
                else if digestFunction = 23 then EVP_sha512 else EVP_sha256)
      in PKCS5_PBKDF2_HMAC lib pass salt iter md keylen)"

text \<open>The new context is used unchecked.\<close>

definition with_context :: "('c, 'm, 'p, 'r) libcrypto \<Rightarrow> ('c \<Rightarrow> 'x) \<Rightarrow> 'r \<Rightarrow> ('x \<times> 'r) option" where
  "with_context lib f r = (case EVP_CIPHER_CTX_new lib r of (None, r1) \<Rightarrow> None | (Some c, r1) \<Rightarrow> Some (f c, r1))"

definition aes_encrypt_plaintext ::
    "('c, 'm, 'p, 'r) libcrypto \<Rightarrow> evp_cipher option \<Rightarrow> qbytes \<Rightarrow> qbytes \<Rightarrow> qbytes \<Rightarrow> 'r \<Rightarrow> (qbytes option \<times> 'r) option" where
  "aes_encrypt_plaintext lib evp_cipher init_vector key plaintext r =
     (if evp_cipher = None \<or> plaintext = [] \<or> key = [] then Some (None, r)
      else with_context lib (\<lambda>c. do {
             c1 \<leftarrow> EVP_EncryptInit_ex lib evp_cipher (Some (key, init_vector)) c;
             (update, c2) \<leftarrow> EVP_EncryptUpdate lib plaintext c1;
             last_block \<leftarrow> EVP_EncryptFinal_ex lib c2;
             Some (update @ last_block)
           }) r)"

definition decrypt_update :: "('c, 'm, 'p, 'r) libcrypto \<Rightarrow> qbytes \<Rightarrow> 'c \<Rightarrow> (qbytes \<times> 'c) option" where
  "decrypt_update lib ciphertext c = (let (ok, out, c1) = EVP_DecryptUpdate lib ciphertext c in if ok then Some (out, c1) else None)"

definition decrypt_final :: "('c, 'm, 'p, 'r) libcrypto \<Rightarrow> 'c \<Rightarrow> qbytes option" where
  "decrypt_final lib c = (let (ok, out) = EVP_DecryptFinal_ex lib c in if ok then Some out else None)"

definition aes_decrypt_ciphertext ::
    "('c, 'm, 'p, 'r) libcrypto \<Rightarrow> evp_cipher option \<Rightarrow> qbytes \<Rightarrow> qbytes \<Rightarrow> qbytes \<Rightarrow> 'r \<Rightarrow> (qbytes option \<times> 'r) option" where
  "aes_decrypt_ciphertext lib evp_cipher init_vector key ciphertext r =
     (if evp_cipher = None \<or> ciphertext = [] \<or> key = [] then Some (None, r)
      else with_context lib (\<lambda>c. do {
             c1 \<leftarrow> EVP_DecryptInit_ex lib evp_cipher (Some (key, init_vector)) c;
             (update, c2) \<leftarrow> decrypt_update lib ciphertext c1;
             last_block \<leftarrow> decrypt_final lib c2;
             Some (update @ last_block)
           }) r)"

text \<open>The mode of the cipher is asked for before the cipher is checked.\<close>

definition aead_of :: "evp_cipher \<Rightarrow> aead option" where
  "aead_of e = (if EVP_CIPHER_mode e = BlockModeGcm then Some EVP_CTRL_GCM
                else if EVP_CIPHER_mode e = BlockModeCcm then Some EVP_CTRL_CCM else None)"

definition aes_auth_encrypt_plaintext ::
    "('c, 'm, 'p, 'r) libcrypto \<Rightarrow> evp_cipher option \<Rightarrow> qbytes \<Rightarrow> qbytes \<Rightarrow> qbytes \<Rightarrow> qbytes \<Rightarrow> nat \<Rightarrow> 'r
     \<Rightarrow> ((qbytes \<times> qbytes) option \<times> 'r) option" where
  "aes_auth_encrypt_plaintext lib evp_cipher init_vector key auth plaintext tag_length r =
     (case evp_cipher of
        None \<Rightarrow> None
      | Some e \<Rightarrow>
          if plaintext = [] \<or> auth = [] \<or> key = [] \<or> tag_length = 0 then Some (None, r)
          else with_context lib (\<lambda>c. do {
                 c1 \<leftarrow> EVP_EncryptInit_ex lib (Some e) None c;
                 c2 \<leftarrow> (case aead_of e of None \<Rightarrow> Some c1 | Some a \<Rightarrow> EVP_CTRL_SET_IVLEN lib a (length init_vector) c1);
                 c3 \<leftarrow> (if aead_of e = Some EVP_CTRL_CCM then EVP_CTRL_SET_TAG lib EVP_CTRL_CCM tag_length None c2 else Some c2);
                 c4 \<leftarrow> EVP_EncryptInit_ex lib None (Some (key, init_vector)) c3;
                 c5 \<leftarrow> (if aead_of e = Some EVP_CTRL_CCM then EVP_EncryptUpdate_length lib (length plaintext) c4 else Some c4);
                 c6 \<leftarrow> EVP_EncryptUpdate_aad lib auth c5;
                 (update, c7) \<leftarrow> EVP_EncryptUpdate lib plaintext c6;
                 last_block \<leftarrow> EVP_EncryptFinal_ex lib c7;
                 tag \<leftarrow> (case aead_of e of None \<Rightarrow> Some (replicate tag_length (CHR 0x00)) | Some a \<Rightarrow> EVP_CTRL_GET_TAG lib a tag_length c7);
                 Some (update @ last_block, tag)
               }) r)"

text \<open>In CCM mode the last update decides about the tag, in GCM mode the finalisation. The result also says whether the tag was right.\<close>

definition aes_auth_decrypt_ciphertext ::
    "('c, 'm, 'p, 'r) libcrypto \<Rightarrow> evp_cipher option \<Rightarrow> qbytes \<Rightarrow> qbytes \<Rightarrow> qbytes \<Rightarrow> qbytes \<Rightarrow> qbytes \<Rightarrow> 'r
     \<Rightarrow> ((qbytes \<times> bool) option \<times> 'r) option" where
  "aes_auth_decrypt_ciphertext lib evp_cipher init_vector key auth tag ciphertext r =
     (case evp_cipher of
        None \<Rightarrow> None
      | Some e \<Rightarrow>
          if ciphertext = [] \<or> auth = [] \<or> tag = [] \<or> key = [] then Some (None, r)
          else with_context lib (\<lambda>c. do {
                 c1 \<leftarrow> EVP_DecryptInit_ex lib (Some e) None c;
                 c2 \<leftarrow> (case aead_of e of None \<Rightarrow> Some c1 | Some a \<Rightarrow> EVP_CTRL_SET_IVLEN lib a (length init_vector) c1);
                 c3 \<leftarrow> (if aead_of e = Some EVP_CTRL_CCM then EVP_CTRL_SET_TAG lib EVP_CTRL_CCM (length tag) (Some tag) c2 else Some c2);
                 c4 \<leftarrow> EVP_DecryptInit_ex lib None (Some (key, init_vector)) c3;
                 c5 \<leftarrow> (if aead_of e = Some EVP_CTRL_CCM then EVP_DecryptUpdate_length lib (length ciphertext) c4 else Some c4);
                 c6 \<leftarrow> EVP_DecryptUpdate_aad lib auth c5;
                 let (updated, update, c7) = EVP_DecryptUpdate lib ciphertext c6;
                 case aead_of e of
                   Some EVP_CTRL_GCM \<Rightarrow>
                     if \<not> updated then None
                     else do {
                       c8 \<leftarrow> EVP_CTRL_SET_TAG lib EVP_CTRL_GCM (length tag) (Some tag) c7;
                       let (verified, last_block) = EVP_DecryptFinal_ex lib c8;
                       Some (update @ last_block, verified)
                     }
                 | Some EVP_CTRL_CCM \<Rightarrow> Some (update, updated)
                 | None \<Rightarrow> Some (update, False)
               }) r)"

subsection \<open>Public keys\<close>

fun pkey_calls :: "('c, 'm, 'p, 'r) libcrypto \<Rightarrow> pkey_call list \<Rightarrow> 'p \<Rightarrow> 'r \<Rightarrow> bool \<times> 'r" where
  "pkey_calls lib [] pkey r = (True, r)"
| "pkey_calls lib (c # cs) pkey r = (let (ok, r1) = PKEY_call lib c pkey r in if ok then pkey_calls lib cs pkey r1 else (False, r1))"

definition key_is_rsa :: "('c, 'm, 'p, 'r) libcrypto \<Rightarrow> 'p \<Rightarrow> bool" where
  "key_is_rsa lib pkey \<longleftrightarrow> EVP_PKEY_base_id lib pkey = EVP_PKEY_RSA"

definition pkey_encrypt_plaintext ::
    "('c, 'm, 'p, 'r) libcrypto \<Rightarrow> 'p \<Rightarrow> rsa_padding \<Rightarrow> qbytes \<Rightarrow> 'r \<Rightarrow> qbytes option \<times> 'r" where
  "pkey_encrypt_plaintext lib pkey padding plaintext r =
     (let rsa = key_is_rsa lib pkey;
          (ok, r1) = pkey_calls lib ([EVP_PKEY_CTX_new, EVP_PKEY_encrypt_init] @ (if rsa then [EVP_PKEY_CTX_set_rsa_padding padding] else [])
            @ [EVP_PKEY_encrypt_size plaintext]) pkey r
      in if \<not> ok then (None, r1)
         else let (allocated, r2) = OPENSSL_malloc lib r1
              in if allocated then EVP_PKEY_encrypt lib (if rsa then Some padding else None) plaintext pkey r2 else (None, r2))"

definition pkey_decrypt_ciphertext ::
    "('c, 'm, 'p, 'r) libcrypto \<Rightarrow> 'p \<Rightarrow> rsa_padding \<Rightarrow> qbytes \<Rightarrow> 'r \<Rightarrow> qbytes option \<times> 'r" where
  "pkey_decrypt_ciphertext lib pkey padding ciphertext r =
     (let rsa = key_is_rsa lib pkey;
          (ok, r1) = pkey_calls lib ([EVP_PKEY_CTX_new, EVP_PKEY_decrypt_init] @ (if rsa then [EVP_PKEY_CTX_set_rsa_padding padding] else [])
            @ [EVP_PKEY_decrypt_size ciphertext]) pkey r
      in if \<not> ok then (None, r1)
         else let (allocated, r2) = OPENSSL_malloc lib r1
              in if allocated then EVP_PKEY_decrypt lib (if rsa then Some padding else None) ciphertext pkey r2 else (None, r2))"

subsection \<open>Digests and signatures\<close>

definition digest :: "('c, 'm, 'p, 'r) libcrypto \<Rightarrow> evp_md \<Rightarrow> qbytes \<Rightarrow> 'r \<Rightarrow> qbytes option \<times> 'r" where
  "digest lib digestFunc bytes r =
     (case EVP_MD_CTX_create lib r of
        (None, r1) \<Rightarrow> (None, r1)
      | (Some m, r1) \<Rightarrow>
          (case do { m1 \<leftarrow> EVP_DigestInit_ex lib digestFunc m; EVP_DigestUpdate lib bytes m1 } of
             None \<Rightarrow> (None, r1)
           | Some m2 \<Rightarrow>
               let (allocated, r2) = OPENSSL_malloc lib r1
               in (if allocated then EVP_DigestFinal_ex lib m2 else None, r2)))"

definition sign_session_init :: "('c, 'm, 'p, 'r) libcrypto \<Rightarrow> evp_md \<Rightarrow> 'p \<Rightarrow> 'r \<Rightarrow> 'm option \<times> 'r" where
  "sign_session_init lib digestFunc pkey r =
     (case EVP_MD_CTX_create lib r of
        (None, r1) \<Rightarrow> (None, r1)
      | (Some m, r1) \<Rightarrow> (EVP_DigestSignInit lib digestFunc pkey m, r1))"

text \<open>A context whose update fails has been destroyed.\<close>

definition sign_session_update :: "('c, 'm, 'p, 'r) libcrypto \<Rightarrow> qbytes \<Rightarrow> 'm \<Rightarrow> 'm option" where
  "sign_session_update lib bytes m = EVP_DigestSignUpdate lib bytes m"

text \<open>When the signature cannot be computed, its buffer is freed twice.\<close>

definition sign_session_finalize :: "('c, 'm, 'p, 'r) libcrypto \<Rightarrow> 'm \<Rightarrow> 'r \<Rightarrow> (qbytes option \<times> 'r) option" where
  "sign_session_finalize lib m r =
     (if \<not> EVP_DigestSignFinal_size lib m then Some (None, r)
      else let (allocated, r1) = OPENSSL_malloc lib r
           in if \<not> allocated then Some (None, r1)
              else map_option (\<lambda>signature. (Some signature, r1)) (EVP_DigestSignFinal lib m))"

definition evp_sign :: "('c, 'm, 'p, 'r) libcrypto \<Rightarrow> evp_md \<Rightarrow> 'p \<Rightarrow> qbytes \<Rightarrow> 'r \<Rightarrow> (qbytes option \<times> 'r) option" where
  "evp_sign lib digestFunc pkey bytes r =
     (case sign_session_init lib digestFunc pkey r of
        (None, r1) \<Rightarrow> Some (None, r1)
      | (Some m, r1) \<Rightarrow>
          (case sign_session_update lib bytes m of
             None \<Rightarrow> Some (None, r1)
           | Some m1 \<Rightarrow> sign_session_finalize lib m1 r1))"

definition verify_session_init :: "('c, 'm, 'p, 'r) libcrypto \<Rightarrow> evp_md \<Rightarrow> 'p \<Rightarrow> 'r \<Rightarrow> 'm option \<times> 'r" where
  "verify_session_init lib digestFunc pkey r =
     (case EVP_MD_CTX_create lib r of
        (None, r1) \<Rightarrow> (None, r1)
      | (Some m, r1) \<Rightarrow> (EVP_DigestVerifyInit lib digestFunc pkey m, r1))"

definition verify_session_update :: "('c, 'm, 'p, 'r) libcrypto \<Rightarrow> qbytes \<Rightarrow> 'm \<Rightarrow> 'm option" where
  "verify_session_update lib bytes m = EVP_DigestVerifyUpdate lib bytes m"

definition verify_session_finalize :: "('c, 'm, 'p, 'r) libcrypto \<Rightarrow> qbytes \<Rightarrow> 'm \<Rightarrow> int" where
  "verify_session_finalize lib signature m = EVP_DigestVerifyFinal lib signature m"

definition evp_verify :: "('c, 'm, 'p, 'r) libcrypto \<Rightarrow> evp_md \<Rightarrow> 'p \<Rightarrow> qbytes \<Rightarrow> qbytes \<Rightarrow> 'r \<Rightarrow> int \<times> 'r" where
  "evp_verify lib digestFunc pkey bytes signature r =
     (case verify_session_init lib digestFunc pkey r of
        (None, r1) \<Rightarrow> (- 1, r1)
      | (Some m, r1) \<Rightarrow>
          (case verify_session_update lib bytes m of
             None \<Rightarrow> (- 1, r1)
           | Some m1 \<Rightarrow> (verify_session_finalize lib signature m1, r1)))"

subsection \<open>Elliptic curve keys\<close>

fun ec_calls :: "('c, 'm, 'p, 'r) libcrypto \<Rightarrow> ec_call list \<Rightarrow> qstring \<Rightarrow> 'r \<Rightarrow> bool \<times> 'r" where
  "ec_calls lib [] nid r = (True, r)"
| "ec_calls lib (c # cs) nid r = (let (ok, r1) = EC_call lib c nid r in if ok then ec_calls lib cs nid r1 else (False, r1))"

text \<open>The two keys in PEM format, public before private, or the return code.\<close>

definition write_ec_key :: "('c, 'm, 'p, 'r) libcrypto \<Rightarrow> qstring \<Rightarrow> 'p \<Rightarrow> 'r \<Rightarrow> (int + qbytes \<times> qbytes) \<times> 'r" where
  "write_ec_key lib nid key r =
     (let (ok1, r1) = EC_call lib BIO_new_private nid r
      in if \<not> ok1 then (Inl (- 1), r1)
      else case PEM_write_bio_PrivateKey lib key of
        None \<Rightarrow> (Inl (- 1), r1)
      | Some priv \<Rightarrow>
          let (ok2, r2) = EC_call lib BIO_new_public nid r1
          in if \<not> ok2 then (Inl (- 1), r2)
          else case PEM_write_bio_PUBKEY lib key of
            None \<Rightarrow> (Inl (- 1), r2)
          | Some pub \<Rightarrow>
              let (a1, r3) = OPENSSL_malloc lib r2
              in if \<not> a1 then (Inl (- 1), r3)
              else let (a2, r4) = OPENSSL_malloc lib r3
              in (if a2 then Inr (pub, priv) else Inl (- 1), r4))"

definition generate_ec_key :: "('c, 'm, 'p, 'r) libcrypto \<Rightarrow> qstring \<Rightarrow> 'r \<Rightarrow> (int + qbytes \<times> qbytes) \<times> 'r" where
  "generate_ec_key lib nid r =
     (let (ok1, r1) = ec_calls lib [EVP_PKEY_CTX_new_id, EVP_PKEY_paramgen_init] nid r
      in if \<not> ok1 then (Inl (- 1), r1)
      else let (ok2, r2) = EC_call lib EVP_PKEY_CTX_set_ec_paramgen_curve_nid nid r1
      in if \<not> ok2 then (Inl (- 2), r2)
      else let (ok3, r3) = ec_calls lib [EVP_PKEY_paramgen, EVP_PKEY_CTX_new_params, EVP_PKEY_keygen_init] nid r2
      in if \<not> ok3 then (Inl (- 1), r3)
      else case EVP_PKEY_keygen lib nid r3 of
        (None, r4) \<Rightarrow> (Inl (- 1), r4)
      | (Some key, r4) \<Rightarrow> write_ec_key lib nid key r4)"

end
