(* ===== verification/Openssl_Plugin.thy ===== *)
theory Openssl_Plugin
  imports Openssl_Evp Crypto_Processor
begin

section \<open>The OpenSSL cryptography plugin\<close>

text \<open>
  src/plugins/opensslcryptoplugin/opensslcryptoplugin.cpp: \<^verbatim>\<open>OpenSslCryptoPlugin\<close>, the plugin that generates and imports keys,
  signs, encrypts, and keeps cipher sessions. Its two tables of sessions refer to objects by address, so a stale pointer can be told from a live one;
  a timer has an address too, and its events are steps of their own. An operation is \<open>None\<close> where the code is undefined.

  Conversions of a \<^verbatim>\<open>QVariant\<close> are an argument of the definitions. A call of the library that reports failure leaves its context as it was.
\<close>

subsection \<open>Parameters for key pairs\<close>

record qvariant_conversions =
  qv_toInt :: "qbytes \<Rightarrow> int"
  qv_toULongLong :: "qbytes \<Rightarrow> nat"
  qv_toByteArray :: "qbytes \<Rightarrow> qbytes"

definition subclass_parameter :: "(qbytes \<Rightarrow> 'a) \<Rightarrow> 'a \<Rightarrow> KeyPairGenerationParameters \<Rightarrow> qstring \<Rightarrow> 'a" where
  "subclass_parameter conv missing p name = (case map_of (kpg_subclassParameters p) name of None \<Rightarrow> missing | Some v \<Rightarrow> conv v)"

definition ellipticCurve :: "qvariant_conversions \<Rightarrow> KeyPairGenerationParameters \<Rightarrow> int" where
  "ellipticCurve qv p = subclass_parameter (qv_toInt qv) 0 p ''ellipticCurve''"

definition modulusLength :: "qvariant_conversions \<Rightarrow> KeyPairGenerationParameters \<Rightarrow> int" where
  "modulusLength qv p = subclass_parameter (qv_toInt qv) 0 p ''modulusLength''"

definition numberPrimes :: "qvariant_conversions \<Rightarrow> KeyPairGenerationParameters \<Rightarrow> int" where
  "numberPrimes qv p = subclass_parameter (qv_toInt qv) 0 p ''numberPrimes''"

definition publicExponent :: "qvariant_conversions \<Rightarrow> KeyPairGenerationParameters \<Rightarrow> nat" where
  "publicExponent qv p = subclass_parameter (qv_toULongLong qv) 0 p ''publicExponent''"

definition primeFactorLength :: "qvariant_conversions \<Rightarrow> KeyPairGenerationParameters \<Rightarrow> int" where
  "primeFactorLength qv p = subclass_parameter (qv_toInt qv) 0 p ''primeFactorLength''"

definition privateExponentLength :: "qvariant_conversions \<Rightarrow> KeyPairGenerationParameters \<Rightarrow> int" where
  "privateExponentLength qv p = subclass_parameter (qv_toInt qv) 0 p ''privateExponentLength''"

definition family_parameter :: "qvariant_conversions \<Rightarrow> KeyPairGenerationParameters \<Rightarrow> qstring \<Rightarrow> qbytes" where
  "family_parameter qv p name = subclass_parameter (qv_toByteArray qv) [] p name"

definition DsaKeyPairGenerationParameters_isValid :: "qvariant_conversions \<Rightarrow> KeyPairGenerationParameters \<Rightarrow> bool" where
  "DsaKeyPairGenerationParameters_isValid qv p \<longleftrightarrow>
     family_parameter qv p ''modulus'' \<noteq> [] \<and> family_parameter qv p ''primeFactor'' \<noteq> [] \<and> family_parameter qv p ''base'' \<noteq> []
     \<or> modulusLength qv p > 0 \<and> primeFactorLength qv p > 0"

definition DhKeyPairGenerationParameters_isValid :: "qvariant_conversions \<Rightarrow> KeyPairGenerationParameters \<Rightarrow> bool" where
  "DhKeyPairGenerationParameters_isValid qv p \<longleftrightarrow>
     family_parameter qv p ''modulus'' \<noteq> [] \<and> family_parameter qv p ''base'' \<noteq> []
     \<or> modulusLength qv p > 0 \<and> privateExponentLength qv p > 0"

abbreviation KeyPairCustom :: int where "KeyPairCustom \<equiv> 1"
abbreviation KeyPairRsa :: int where "KeyPairRsa \<equiv> AlgorithmRsa"
abbreviation KeyPairDsa :: int where "KeyPairDsa \<equiv> AlgorithmDsa"
abbreviation KeyPairDh :: int where "KeyPairDh \<equiv> AlgorithmDh"
abbreviation KeyPairEc :: int where "KeyPairEc \<equiv> AlgorithmEc"

definition KeyPairGenerationParameters_isValid :: "qvariant_conversions \<Rightarrow> KeyPairGenerationParameters \<Rightarrow> bool" where
  "KeyPairGenerationParameters_isValid qv p =
     (if kpg_keyPairType p = KeyPairCustom \<and> kpg_customParameters p \<noteq> [] then True
      else if kpg_keyPairType p = KeyPairEc then ellipticCurve qv p \<noteq> 0
      else if kpg_keyPairType p = KeyPairRsa then modulusLength qv p > 0 \<and> numberPrimes qv p \<ge> 2 \<and> publicExponent qv p \<ge> 3
      else if kpg_keyPairType p = KeyPairDsa then DsaKeyPairGenerationParameters_isValid qv p
      else if kpg_keyPairType p = KeyPairDh then DhKeyPairGenerationParameters_isValid qv p
      else False)"

subsection \<open>State\<close>

text \<open>The pointer to a digest context: null, to a live context, or to one that has been destroyed.\<close>

datatype 'm md_pointer = MdNull | MdLive 'm | MdFreed

record ('c, 'm) CipherSessionData =
  csd_iv :: qbytes
  csd_key :: Key
  csd_operation :: int
  csd_blockMode :: int
  csd_encryptionPadding :: int
  csd_signaturePadding :: int
  csd_digestFunction :: int
  csd_cipherSessionToken :: nat
  csd_evp_md_ctx :: "'m md_pointer"
  csd_evp_cipher_ctx :: "'c option"
  csd_timeout :: nat

record CipherSessionLookup =
  csl_csd :: nat
  csl_sessionToken :: nat
  csl_clientId :: nat

text \<open>
  \<open>os_running\<close> are the timers that have been started and not fired, \<open>os_deleteLater\<close> the ones whose deletion is posted;
  \<open>os_undefined\<close> records that the plugin has run into undefined behaviour.
\<close>

record ('c, 'm, 'r) OpenSslCryptoPlugin =
  os_libcrypto :: 'r
  os_objects :: "nat \<rightharpoonup> ('c, 'm) CipherSessionData"
  os_cipherSessions :: "nat \<rightharpoonup> nat \<rightharpoonup> nat"
  os_cipherSessionTimeouts :: "nat \<rightharpoonup> CipherSessionLookup"
  os_running :: "nat set"
  os_deleteLater :: "nat set"
  os_next :: nat
  os_undefined :: bool

definition new_OpenSslCryptoPlugin :: "('c, 'm, 'p, 'r) libcrypto \<Rightarrow> 'r \<Rightarrow> ('c, 'm, 'r) OpenSslCryptoPlugin" where
  "new_OpenSslCryptoPlugin lib r =
     (let (seed, r1) = dev_urandom lib 1024 r
      in \<lparr>os_libcrypto = RAND_add lib seed (1, 0) r1, os_objects = Map.empty, os_cipherSessions = Map.empty,
          os_cipherSessionTimeouts = Map.empty, os_running = {}, os_deleteLater = {}, os_next = 1, os_undefined = False\<rparr>)"

abbreviation with_libcrypto :: "('c, 'm, 'r) OpenSslCryptoPlugin \<Rightarrow> 'r \<Rightarrow> ('c, 'm, 'r) OpenSslCryptoPlugin" where
  "with_libcrypto s r \<equiv> s\<lparr>os_libcrypto := r\<rparr>"

subsection \<open>Random data\<close>

abbreviation DefaultCsprngEngineName :: qstring where "DefaultCsprngEngineName \<equiv> ''default''"
abbreviation DevURandom :: qstring where "DevURandom \<equiv> ''/dev/urandom''"

definition openssl_seedRandomDataGenerator ::
    "('c, 'm, 'p, 'r) libcrypto \<Rightarrow> qstring \<Rightarrow> qbytes \<Rightarrow> double \<Rightarrow> ('c, 'm, 'r) OpenSslCryptoPlugin
     \<Rightarrow> CryptoResult \<times> ('c, 'm, 'r) OpenSslCryptoPlugin" where
  "openssl_seedRandomDataGenerator lib csprngEngineName seedData entropyEstimate s =
     (if csprngEngineName \<noteq> DefaultCsprngEngineName then (crypto_failure Crypto_CryptoPluginRandomDataError, s)
      else (crypto_success, with_libcrypto s (RAND_add lib seedData entropyEstimate (os_libcrypto s))))"

definition openssl_generateRandomData ::
    "('c, 'm, 'p, 'r) libcrypto \<Rightarrow> qstring \<Rightarrow> nat \<Rightarrow> ('c, 'm, 'r) OpenSslCryptoPlugin
     \<Rightarrow> CryptoResult \<times> qbytes \<times> ('c, 'm, 'r) OpenSslCryptoPlugin" where
  "openssl_generateRandomData lib csprngEngineName numberBytes s =
     (if csprngEngineName \<noteq> DevURandom \<and> csprngEngineName \<noteq> DefaultCsprngEngineName
      then (crypto_failure Crypto_CryptoPluginRandomDataError, [], s)
      else if numberBytes = 0 \<or> 4096 < numberBytes then (crypto_failure Crypto_CryptoPluginRandomDataError, [], s)
      else if csprngEngineName = DevURandom
      then let (buf, r) = dev_urandom lib numberBytes (os_libcrypto s) in (crypto_success, buf, with_libcrypto s r)
      else case RAND_bytes lib numberBytes (os_libcrypto s) of
        (None, r) \<Rightarrow> (crypto_failure Crypto_CryptoPluginRandomDataError, [], with_libcrypto s r)
      | (Some buf, r) \<Rightarrow> (crypto_success, buf, with_libcrypto s r))"

definition openssl_generateInitializationVector ::
    "('c, 'm, 'p, 'r) libcrypto \<Rightarrow> int \<Rightarrow> int \<Rightarrow> ('c, 'm, 'r) OpenSslCryptoPlugin
     \<Rightarrow> CryptoResult \<times> qbytes \<times> ('c, 'm, 'r) OpenSslCryptoPlugin" where
  "openssl_generateInitializationVector lib algorithm blockMode s =
     (let ivSize = initializationVectorSize algorithm blockMode
      in if ivSize < 0 then (crypto_failure Crypto_OperationNotSupportedError, [], s)
      else if ivSize = 0 then (crypto_success, [], s)
      else case RAND_bytes lib (nat ivSize) (os_libcrypto s) of
        (None, r) \<Rightarrow> (crypto_failure Crypto_CryptoPluginCipherSessionError, [], with_libcrypto s r)
      | (Some ivBuf, r) \<Rightarrow> (crypto_success, ivBuf, with_libcrypto s r))"

subsection \<open>Keys\<close>

text \<open>A key written to memory must not be empty when it is read back.\<close>

definition written_key :: "qbytes option \<Rightarrow> qbytes option" where
  "written_key x = (if x = Some [] then None else x)"

definition openssl_generateRsaKey ::
    "('c, 'm, 'p, 'r) libcrypto \<Rightarrow> qvariant_conversions \<Rightarrow> Key \<Rightarrow> KeyPairGenerationParameters \<Rightarrow> Key
     \<Rightarrow> ('c, 'm, 'r) OpenSslCryptoPlugin \<Rightarrow> CryptoResult \<times> Key \<times> ('c, 'm, 'r) OpenSslCryptoPlugin" where
  "openssl_generateRsaKey lib qv keyTemplate kpgParams key s =
     (if kpg_keyPairType kpgParams \<noteq> KeyPairRsa \<or> key_algorithm keyTemplate \<noteq> AlgorithmRsa
      then (crypto_failure Crypto_OperationNotSupportedError, key, s)
      else if modulusLength qv kpgParams < 8 \<or> modulusLength qv kpgParams > 8192 \<or> modulusLength qv kpgParams mod 8 \<noteq> 0
      then (crypto_failure Crypto_OperationNotSupportedError, key, s)
      else if publicExponent qv kpgParams > 4294967295 then (crypto_failure Crypto_OperationNotSupportedError, key, s)
      else if numberPrimes qv kpgParams \<noteq> 2 then (crypto_failure Crypto_OperationNotSupportedError, key, s)
      else if \<not> BN_set_word lib (publicExponent qv kpgParams) then (crypto_failure Crypto_CryptoPluginKeyGenerationError, key, s)
      else case RSA_generate_key_ex lib (modulusLength qv kpgParams) (publicExponent qv kpgParams) (os_libcrypto s) of
        (None, r) \<Rightarrow> (crypto_failure Crypto_CryptoPluginKeyGenerationError, key, with_libcrypto s r)
      | (Some rsa, r) \<Rightarrow>
          (case written_key (PEM_write_bio_RSA_PUBKEY lib rsa) of
             None \<Rightarrow> (crypto_failure Crypto_CryptoPluginKeyGenerationError, key, with_libcrypto s r)
           | Some pubdata \<Rightarrow>
               (case written_key (PEM_write_bio_RSAPrivateKey lib rsa) of
                  None \<Rightarrow> (crypto_failure Crypto_CryptoPluginKeyGenerationError, key, with_libcrypto s r)
                | Some privdata \<Rightarrow>
                    (crypto_success,
                     keyTemplate\<lparr>key_publicKey := pubdata, key_privateKey := privdata, key_size := modulusLength qv kpgParams\<rparr>,
                     with_libcrypto s r))))"

definition openssl_generateEcKey ::
    "('c, 'm, 'p, 'r) libcrypto \<Rightarrow> qvariant_conversions \<Rightarrow> Key \<Rightarrow> KeyPairGenerationParameters \<Rightarrow> Key
     \<Rightarrow> ('c, 'm, 'r) OpenSslCryptoPlugin \<Rightarrow> CryptoResult \<times> Key \<times> ('c, 'm, 'r) OpenSslCryptoPlugin" where
  "openssl_generateEcKey lib qv keyTemplate kpgParams key s =
     (if kpg_keyPairType kpgParams \<noteq> KeyPairEc \<or> key_algorithm keyTemplate \<noteq> AlgorithmEc
      then (crypto_failure Crypto_OperationNotSupportedError, key, s)
      else case getEllipticCurveNid (ellipticCurve qv kpgParams) of
        None \<Rightarrow> (crypto_failure Crypto_OperationNotSupportedError, key, s)
      | Some curveNid \<Rightarrow>
          if getEllipticCurveKeySize (ellipticCurve qv kpgParams) = 0 then (crypto_failure Crypto_OperationNotSupportedError, key, s)
          else case generate_ec_key lib curveNid (os_libcrypto s) of
            (Inl code, r) \<Rightarrow>
              (crypto_failure (if code = - 2 then Crypto_OperationNotSupportedError else Crypto_CryptoPluginKeyGenerationError), key,
               with_libcrypto s r)
          | (Inr (publicKey, privateKey), r) \<Rightarrow>
              (crypto_success,
               keyTemplate\<lparr>key_algorithm := AlgorithmEc, key_privateKey := privateKey, key_publicKey := publicKey,
                 key_size := getEllipticCurveKeySize (ellipticCurve qv kpgParams)\<rparr>,
               with_libcrypto s r))"

abbreviation KdfPkcs5Pbkdf2 :: int where "KdfPkcs5Pbkdf2 \<equiv> 10"
abbreviation MacHmac :: int where "MacHmac \<equiv> 10"

definition generate_aes_key ::
    "('c, 'm, 'p, 'r) libcrypto \<Rightarrow> Key \<Rightarrow> Key \<Rightarrow> ('c, 'm, 'r) OpenSslCryptoPlugin
     \<Rightarrow> CryptoResult \<times> Key \<times> ('c, 'm, 'r) OpenSslCryptoPlugin" where
  "generate_aes_key lib keyTemplate key s =
     (if key_algorithm keyTemplate \<noteq> AlgorithmAes then (crypto_failure Crypto_OperationNotSupportedError, key, s)
      else if key_size keyTemplate < 8 \<or> key_size keyTemplate > 2048 \<or> key_size keyTemplate mod 8 \<noteq> 0
      then (crypto_failure Crypto_OperationNotSupportedError, key, s)
      else let (randomResult, randomKey, s1) = openssl_generateRandomData lib DevURandom (nat (key_size keyTemplate div 8)) s
      in if cr_code randomResult = Failed then (randomResult, key, s1)
      else (crypto_success, keyTemplate\<lparr>key_secretKey := randomKey, key_size := key_size keyTemplate\<rparr>, s1))"

definition derive_key ::
    "('c, 'm, 'p, 'r) libcrypto \<Rightarrow> Key \<Rightarrow> KeyDerivationParameters \<Rightarrow> Key \<Rightarrow> CryptoResult \<times> Key" where
  "derive_key lib keyTemplate skdfParams key =
     (if kdf_function skdfParams \<noteq> KdfPkcs5Pbkdf2 \<or> kdf_mac skdfParams \<noteq> MacHmac
        \<or> kdf_digestFunction skdfParams \<notin> {DigestSha1, DigestSha256, DigestSha512}
        \<or> kdf_outputKeySize skdfParams < 8 \<or> kdf_outputKeySize skdfParams > 2048 \<or> kdf_outputKeySize skdfParams mod 8 \<noteq> 0
        \<or> kdf_iterations skdfParams < 0 \<or> kdf_iterations skdfParams > 32768
      then (crypto_failure Crypto_OperationNotSupportedError, key)
      else case pkcs5_pbkdf2_hmac lib (kdf_inputData skdfParams) (kdf_salt skdfParams) (kdf_iterations skdfParams)
             (kdf_digestFunction skdfParams) (nat (kdf_outputKeySize skdfParams div 8)) of
        None \<Rightarrow> (crypto_failure Crypto_CryptoPluginKeyGenerationError, key)
      | Some buf \<Rightarrow> (crypto_success, keyTemplate\<lparr>key_secretKey := buf, key_size := kdf_outputKeySize skdfParams\<rparr>))"

definition openssl_generateKey ::
    "('c, 'm, 'p, 'r) libcrypto \<Rightarrow> qvariant_conversions \<Rightarrow> Key \<Rightarrow> KeyPairGenerationParameters \<Rightarrow> KeyDerivationParameters \<Rightarrow> Key
     \<Rightarrow> ('c, 'm, 'r) OpenSslCryptoPlugin \<Rightarrow> CryptoResult \<times> Key \<times> ('c, 'm, 'r) OpenSslCryptoPlugin" where
  "openssl_generateKey lib qv keyTemplate kpgParams skdfParams key s =
     (if KeyPairGenerationParameters_isValid qv kpgParams
      then (if kpg_keyPairType kpgParams = KeyPairRsa then openssl_generateRsaKey lib qv keyTemplate kpgParams key s
            else if kpg_keyPairType kpgParams = KeyPairEc then openssl_generateEcKey lib qv keyTemplate kpgParams key s
            else (crypto_failure Crypto_OperationNotSupportedError, key, s))
      else if \<not> KeyDerivationParameters_isValid skdfParams then generate_aes_key lib keyTemplate key s
      else let (r, k) = derive_key lib keyTemplate skdfParams key in (r, k, s))"

text \<open>The callback answers the first call only, with as much of the passphrase as the buffer holds.\<close>

definition importKeyPassphraseCallback :: "qbytes \<Rightarrow> nat \<Rightarrow> qbytes" where
  "importKeyPassphraseCallback passphrase bufferSize = take bufferSize passphrase"

definition algorithm_of_pkey :: "pkey_type \<Rightarrow> int" where
  "algorithm_of_pkey t =
     (case t of EVP_PKEY_RSA \<Rightarrow> AlgorithmRsa | EVP_PKEY_DSA \<Rightarrow> AlgorithmDsa | EVP_PKEY_DH \<Rightarrow> AlgorithmDh | EVP_PKEY_EC \<Rightarrow> AlgorithmEc
      | EVP_PKEY_other \<Rightarrow> AlgorithmUnknown)"

definition write_imported_key ::
    "('c, 'm, 'p, 'r) libcrypto \<Rightarrow> bool \<Rightarrow> 'p \<Rightarrow> Key \<Rightarrow> CryptoResult \<times> Key" where
  "write_imported_key lib hasPrivateKeyData pkey importedKey =
     (let k = importedKey\<lparr>key_algorithm := algorithm_of_pkey (EVP_PKEY_base_id lib pkey)\<rparr>
      in case written_key (PEM_write_bio_PUBKEY lib pkey) of
        None \<Rightarrow> (crypto_failure Crypto_CryptoPluginKeyImportError, k)
      | Some publicKey \<Rightarrow>
          (case (if hasPrivateKeyData then written_key (PEM_write_bio_PrivateKey lib pkey) else Some []) of
             None \<Rightarrow> (crypto_failure Crypto_CryptoPluginKeyImportError, k)
           | Some privateKey \<Rightarrow>
               (crypto_success, k\<lparr>key_size := EVP_PKEY_bits lib pkey, key_publicKey := publicKey, key_privateKey := privateKey\<rparr>)))"

text \<open>
  When the library asked for the passphrase while reading a private key, the public key is not tried.
\<close>

definition openssl_importKey ::
    "('c, 'm, 'p, 'r) libcrypto \<Rightarrow> qbytes \<Rightarrow> qbytes \<Rightarrow> Key \<Rightarrow> CryptoResult \<times> Key" where
  "openssl_importKey lib data passphrase importedKey =
     (if data = [] then (crypto_failure Crypto_CryptoPluginKeyImportError, importedKey)
      else case PEM_read_bio_PrivateKey lib (Some (importKeyPassphraseCallback passphrase)) data of
        (Some pkey, requested) \<Rightarrow> write_imported_key lib True pkey importedKey
      | (None, True) \<Rightarrow> (crypto_failure Crypto_CryptoPluginIncorrectPassphrase, importedKey)
      | (None, False) \<Rightarrow>
          (case PEM_read_bio_PUBKEY lib (Some (importKeyPassphraseCallback passphrase)) data of
             (Some pkey, requested) \<Rightarrow> write_imported_key lib False pkey importedKey
           | (None, requested) \<Rightarrow>
               (crypto_failure (if requested then Crypto_CryptoPluginIncorrectPassphrase else Crypto_CryptoPluginKeyImportError), importedKey)))"

subsection \<open>Digests and signatures\<close>

definition openssl_calculateDigest ::
    "('c, 'm, 'p, 'r) libcrypto \<Rightarrow> qbytes \<Rightarrow> int \<Rightarrow> int \<Rightarrow> ('c, 'm, 'r) OpenSslCryptoPlugin
     \<Rightarrow> CryptoResult \<times> qbytes \<times> ('c, 'm, 'r) OpenSslCryptoPlugin" where
  "openssl_calculateDigest lib data padding digestFunction s =
     (if data = [] then (crypto_failure Crypto_EmptyDataError, [], s)
      else if padding \<noteq> SignaturePaddingNone then (crypto_failure Crypto_OperationNotSupportedError, [], s)
      else case getEvpDigestFunction digestFunction of
        None \<Rightarrow> (crypto_failure Crypto_DigestNotSupportedError, [], s)
      | Some md \<Rightarrow>
          (case digest lib md data (os_libcrypto s) of
             (None, r) \<Rightarrow> (crypto_failure Crypto_CryptoPluginDigestError, [], with_libcrypto s r)
           | (Some d, r) \<Rightarrow> (crypto_success, d, with_libcrypto s r)))"

definition openssl_sign ::
    "('c, 'm, 'p, 'r) libcrypto \<Rightarrow> qbytes \<Rightarrow> Key \<Rightarrow> int \<Rightarrow> int \<Rightarrow> ('c, 'm, 'r) OpenSslCryptoPlugin
     \<Rightarrow> (CryptoResult \<times> qbytes \<times> ('c, 'm, 'r) OpenSslCryptoPlugin) option" where
  "openssl_sign lib data key padding digestFunction s =
     (if data = [] then Some (crypto_failure Crypto_EmptyDataError, [], s)
      else if key_privateKey key = [] then Some (crypto_failure Crypto_EmptyPrivateKeyError, [], s)
      else if padding \<noteq> SignaturePaddingNone then Some (crypto_failure Crypto_OperationNotSupportedError, [], s)
      else case getEvpDigestFunction digestFunction of
        None \<Rightarrow> Some (crypto_failure Crypto_DigestNotSupportedError, [], s)
      | Some md \<Rightarrow>
          (case readEvpPrivKey lib (key_privateKey key) of
             None \<Rightarrow> Some (crypto_failure Crypto_CryptoPluginSigningError, [], s)
           | Some pkey \<Rightarrow>
               (case evp_sign lib md pkey data (os_libcrypto s) of
                  None \<Rightarrow> None
                | Some (None, r) \<Rightarrow> Some (crypto_failure Crypto_CryptoPluginSigningError, [], with_libcrypto s r)
                | Some (Some signature, r) \<Rightarrow> Some (crypto_success, signature, with_libcrypto s r))))"

definition openssl_verify ::
    "('c, 'm, 'p, 'r) libcrypto \<Rightarrow> qbytes \<Rightarrow> qbytes \<Rightarrow> Key \<Rightarrow> int \<Rightarrow> int \<Rightarrow> ('c, 'm, 'r) OpenSslCryptoPlugin
     \<Rightarrow> CryptoResult \<times> int \<times> ('c, 'm, 'r) OpenSslCryptoPlugin" where
  "openssl_verify lib signature data key padding digestFunction s =
     (if signature = [] then (crypto_failure Crypto_EmptySignatureError, VerificationStatusUnknown, s)
      else if key_publicKey key = [] then (crypto_failure Crypto_EmptyPublicKeyError, VerificationStatusUnknown, s)
      else if padding \<noteq> SignaturePaddingNone then (crypto_failure Crypto_OperationNotSupportedError, VerificationStatusUnknown, s)
      else case getEvpDigestFunction digestFunction of
        None \<Rightarrow> (crypto_failure Crypto_DigestNotSupportedError, VerificationStatusUnknown, s)
      | Some md \<Rightarrow>
          (case readEvpPubKey lib (key_publicKey key) of
             None \<Rightarrow> (crypto_failure Crypto_CryptoPluginVerificationError, VerificationStatusUnknown, s)
           | Some pkey \<Rightarrow>
               let (v, r) = evp_verify lib md pkey data signature (os_libcrypto s)
               in if v = 1 then (crypto_success, VerificationSucceeded, with_libcrypto s r)
                  else if v = 0 then (crypto_success, StatusVerificationFailed, with_libcrypto s r)
                  else (crypto_failure Crypto_CryptoPluginVerificationError, VerificationStatusUnknown, with_libcrypto s r)))"

subsection \<open>Encryption\<close>

text \<open>The four functions around those of evp.cpp: an empty byte array is the failure.\<close>

definition openssl_aes_encrypt_plaintext ::
    "('c, 'm, 'p, 'r) libcrypto \<Rightarrow> int \<Rightarrow> qbytes \<Rightarrow> qbytes \<Rightarrow> qbytes \<Rightarrow> 'r \<Rightarrow> (qbytes \<times> 'r) option" where
  "openssl_aes_encrypt_plaintext lib blockMode plaintext key init_vector r =
     (case aes_encrypt_plaintext lib (getEvpCipher blockMode (length key)) init_vector key plaintext r of
        None \<Rightarrow> None
      | Some (None, r1) \<Rightarrow> Some ([], r1)
      | Some (Some encrypted, r1) \<Rightarrow> Some (encrypted, r1))"

definition openssl_aes_decrypt_ciphertext ::
    "('c, 'm, 'p, 'r) libcrypto \<Rightarrow> int \<Rightarrow> qbytes \<Rightarrow> qbytes \<Rightarrow> qbytes \<Rightarrow> 'r \<Rightarrow> (qbytes \<times> 'r) option" where
  "openssl_aes_decrypt_ciphertext lib blockMode ciphertext key init_vector r =
     (case aes_decrypt_ciphertext lib (getEvpCipher blockMode (length key)) init_vector key ciphertext r of
        None \<Rightarrow> None
      | Some (None, r1) \<Rightarrow> Some ([], r1)
      | Some (Some decrypted, r1) \<Rightarrow> Some (decrypted, r1))"

definition openssl_aes_auth_encrypt_plaintext ::
    "('c, 'm, 'p, 'r) libcrypto \<Rightarrow> int \<Rightarrow> qbytes \<Rightarrow> qbytes \<Rightarrow> qbytes \<Rightarrow> qbytes \<Rightarrow> nat \<Rightarrow> 'r \<Rightarrow> ((qbytes \<times> qbytes) \<times> 'r) option" where
  "openssl_aes_auth_encrypt_plaintext lib blockMode plaintext key init_vector auth authenticationTagLength r =
     (case aes_auth_encrypt_plaintext lib (getEvpCipher blockMode (length key)) init_vector key auth plaintext authenticationTagLength r of
        None \<Rightarrow> None
      | Some (None, r1) \<Rightarrow> Some (([], []), r1)
      | Some (Some (encrypted, tag), r1) \<Rightarrow> Some (if encrypted = [] then ([], []) else (encrypted, tag), r1))"

definition openssl_aes_auth_decrypt_ciphertext ::
    "('c, 'm, 'p, 'r) libcrypto \<Rightarrow> int \<Rightarrow> qbytes \<Rightarrow> qbytes \<Rightarrow> qbytes \<Rightarrow> qbytes \<Rightarrow> qbytes \<Rightarrow> 'r \<Rightarrow> ((qbytes \<times> bool) \<times> 'r) option" where
  "openssl_aes_auth_decrypt_ciphertext lib blockMode ciphertext key init_vector auth authenticationTag r =
     (case aes_auth_decrypt_ciphertext lib (getEvpCipher blockMode (length key)) init_vector key auth authenticationTag ciphertext r of
        None \<Rightarrow> None
      | Some (None, r1) \<Rightarrow> Some (([], False), r1)
      | Some (Some (decrypted, verified), r1) \<Rightarrow> Some (if decrypted = [] then ([], False) else (decrypted, verified), r1))"

definition wrong_iv :: "qbytes \<Rightarrow> int \<Rightarrow> int \<Rightarrow> bool" where
  "wrong_iv iv algorithm blockMode \<longleftrightarrow>
     (let expectedIvSize = initializationVectorSize algorithm blockMode
      in iv \<noteq> [] \<and> expectedIvSize < 0 \<or> int (length iv) \<noteq> expectedIvSize)"

definition openssl_encryptAes ::
    "('c, 'm, 'p, 'r) libcrypto \<Rightarrow> qbytes \<Rightarrow> qbytes \<Rightarrow> Key \<Rightarrow> int \<Rightarrow> int \<Rightarrow> qbytes \<Rightarrow> ('c, 'm, 'r) OpenSslCryptoPlugin
     \<Rightarrow> (CryptoResult \<times> (qbytes \<times> qbytes) \<times> ('c, 'm, 'r) OpenSslCryptoPlugin) option" where
  "openssl_encryptAes lib data iv key blockMode padding authenticationData s =
     (if key_secretKey key = [] then Some (crypto_failure Crypto_EmptySecretKeyError, ([], []), s)
      else if key_algorithm key \<noteq> AlgorithmAes then Some (crypto_failure Crypto_OperationNotSupportedError, ([], []), s)
      else if padding \<noteq> EncryptionPaddingNone then Some (crypto_failure Crypto_OperationNotSupportedError, ([], []), s)
      else if int (length (key_secretKey key)) * 8 \<noteq> key_size key
      then Some (crypto_failure Crypto_CryptoPluginKeyGenerationError, ([], []), s)
      else if authenticationData \<noteq> [] \<and> authenticationTagSize (key_algorithm key) blockMode = 0
      then Some (crypto_failure Crypto_BlockModeNotSupportedError, ([], []), s)
      else if wrong_iv iv (key_algorithm key) blockMode then Some (crypto_failure Crypto_InvalidInitializationVectorError, ([], []), s)
      else if authenticationData \<noteq> []
      then (case openssl_aes_auth_encrypt_plaintext lib blockMode data (key_secretKey key) iv authenticationData
                   (authenticationTagSize (key_algorithm key) blockMode) (os_libcrypto s) of
              None \<Rightarrow> None
            | Some ((ciphertext, tag), r) \<Rightarrow>
                if tag = [] then Some (crypto_failure Crypto_CryptoPluginAuthenticationTagError, ([], []), with_libcrypto s r)
                else if ciphertext \<noteq> [] then Some (crypto_success, (ciphertext, tag), with_libcrypto s r)
                else Some (crypto_failure Crypto_CryptoPluginEncryptionError, ([], []), with_libcrypto s r))
      else (case openssl_aes_encrypt_plaintext lib blockMode data (key_secretKey key) iv (os_libcrypto s) of
              None \<Rightarrow> None
            | Some (ciphertext, r) \<Rightarrow>
                if ciphertext \<noteq> [] then Some (crypto_success, (ciphertext, []), with_libcrypto s r)
                else Some (crypto_failure Crypto_CryptoPluginEncryptionError, ([], []), with_libcrypto s r)))"

text \<open>A decryption without authentication data reports the verification as failed, but succeeds.\<close>

definition openssl_decryptAes ::
    "('c, 'm, 'p, 'r) libcrypto \<Rightarrow> qbytes \<Rightarrow> qbytes \<Rightarrow> Key \<Rightarrow> int \<Rightarrow> int \<Rightarrow> qbytes \<Rightarrow> qbytes \<Rightarrow> ('c, 'm, 'r) OpenSslCryptoPlugin
     \<Rightarrow> (CryptoResult \<times> (qbytes \<times> int) \<times> ('c, 'm, 'r) OpenSslCryptoPlugin) option" where
  "openssl_decryptAes lib data iv key blockMode padding authenticationData authenticationTag s =
     (let unset = ([], VerificationStatusUnknown)
      in if key_secretKey key = [] then Some (crypto_failure Crypto_EmptySecretKeyError, unset, s)
      else if key_algorithm key \<noteq> AlgorithmAes then Some (crypto_failure Crypto_OperationNotSupportedError, unset, s)
      else if padding \<noteq> EncryptionPaddingNone then Some (crypto_failure Crypto_OperationNotSupportedError, unset, s)
      else if authenticationData \<noteq> [] \<and> blockMode \<noteq> BlockModeGcm \<and> blockMode \<noteq> BlockModeCcm
      then Some (crypto_failure Crypto_BlockModeNotSupportedError, unset, s)
      else if authenticationData \<noteq> [] \<and> length authenticationTag \<noteq> authenticationTagSize (key_algorithm key) blockMode
      then Some (crypto_failure Crypto_InvalidAuthenticationTagError, unset, s)
      else if wrong_iv iv (key_algorithm key) blockMode then Some (crypto_failure Crypto_InvalidInitializationVectorError, unset, s)
      else case (if authenticationData \<noteq> []
                 then openssl_aes_auth_decrypt_ciphertext lib blockMode data (key_secretKey key) iv authenticationData authenticationTag
                        (os_libcrypto s)
                 else map_option (\<lambda>(plaintext, r). ((plaintext, False), r))
                        (openssl_aes_decrypt_ciphertext lib blockMode data (key_secretKey key) iv (os_libcrypto s))) of
        None \<Rightarrow> None
      | Some ((plaintext, verified), r) \<Rightarrow>
          if plaintext = [] \<or> plaintext = [CHR 0x00]
          then Some (crypto_failure Crypto_CryptoPluginDecryptionError, unset, with_libcrypto s r)
          else Some (crypto_success, (plaintext, if verified then VerificationSucceeded else StatusVerificationFailed), with_libcrypto s r))"

definition asymmetric :: "int \<Rightarrow> bool" where
  "asymmetric algorithm \<longleftrightarrow> FirstAsymmetricAlgorithm \<le> algorithm \<and> algorithm \<le> LastAsymmetricAlgorithm"

definition openssl_encryptAsymmetric ::
    "('c, 'm, 'p, 'r) libcrypto \<Rightarrow> qbytes \<Rightarrow> qbytes \<Rightarrow> Key \<Rightarrow> int \<Rightarrow> int \<Rightarrow> ('c, 'm, 'r) OpenSslCryptoPlugin
     \<Rightarrow> CryptoResult \<times> qbytes \<times> ('c, 'm, 'r) OpenSslCryptoPlugin" where
  "openssl_encryptAsymmetric lib data iv key blockMode padding s =
     (if key_publicKey key = [] then (crypto_failure Crypto_EmptyPublicKeyError, [], s)
      else if iv \<noteq> [] \<or> \<not> asymmetric (key_algorithm key) \<or> blockMode \<noteq> BlockModeUnknown
      then (crypto_failure Crypto_OperationNotSupportedError, [], s)
      else case getOpenSslRsaPadding padding of
        None \<Rightarrow> (crypto_failure Crypto_OperationNotSupportedError, [], s)
      | Some opensslPadding \<Rightarrow>
          if key_algorithm key \<noteq> AlgorithmRsa \<and> padding \<noteq> EncryptionPaddingNone
          then (crypto_failure Crypto_OperationNotSupportedError, [], s)
          else case readEvpPubKey lib (key_publicKey key) of
            None \<Rightarrow> (crypto_failure Crypto_CryptoPluginEncryptionError, [], s)
          | Some pkey \<Rightarrow>
              (case pkey_encrypt_plaintext lib pkey opensslPadding data (os_libcrypto s) of
                 (None, r) \<Rightarrow> (crypto_failure Crypto_CryptoPluginEncryptionError, [], with_libcrypto s r)
               | (Some encrypted, r) \<Rightarrow> (crypto_success, encrypted, with_libcrypto s r)))"

definition openssl_decryptAsymmetric ::
    "('c, 'm, 'p, 'r) libcrypto \<Rightarrow> qbytes \<Rightarrow> qbytes \<Rightarrow> Key \<Rightarrow> int \<Rightarrow> int \<Rightarrow> ('c, 'm, 'r) OpenSslCryptoPlugin
     \<Rightarrow> CryptoResult \<times> qbytes \<times> ('c, 'm, 'r) OpenSslCryptoPlugin" where
  "openssl_decryptAsymmetric lib data iv key blockMode padding s =
     (if key_privateKey key = [] then (crypto_failure Crypto_EmptyPrivateKeyError, [], s)
      else if iv \<noteq> [] \<or> \<not> asymmetric (key_algorithm key) \<or> blockMode \<noteq> BlockModeUnknown
      then (crypto_failure Crypto_OperationNotSupportedError, [], s)
      else case getOpenSslRsaPadding padding of
        None \<Rightarrow> (crypto_failure Crypto_OperationNotSupportedError, [], s)
      | Some opensslPadding \<Rightarrow>
          if key_algorithm key \<noteq> AlgorithmRsa \<and> padding \<noteq> EncryptionPaddingNone
          then (crypto_failure Crypto_OperationNotSupportedError, [], s)
          else case readEvpPrivKey lib (key_privateKey key) of
            None \<Rightarrow> (crypto_failure Crypto_CryptoPluginDecryptionError, [], s)
          | Some pkey \<Rightarrow>
              (case pkey_decrypt_ciphertext lib pkey opensslPadding data (os_libcrypto s) of
                 (None, r) \<Rightarrow> (crypto_failure Crypto_CryptoPluginEncryptionError, [], with_libcrypto s r)
               | (Some decrypted, r) \<Rightarrow> (crypto_success, decrypted, with_libcrypto s r)))"

definition openssl_encrypt ::
    "('c, 'm, 'p, 'r) libcrypto \<Rightarrow> qbytes \<Rightarrow> qbytes \<Rightarrow> Key \<Rightarrow> int \<Rightarrow> int \<Rightarrow> qbytes \<Rightarrow> ('c, 'm, 'r) OpenSslCryptoPlugin
     \<Rightarrow> (CryptoResult \<times> (qbytes \<times> qbytes) \<times> ('c, 'm, 'r) OpenSslCryptoPlugin) option" where
  "openssl_encrypt lib data iv key blockMode padding authenticationData s =
     (if key_algorithm key = AlgorithmAes then openssl_encryptAes lib data iv key blockMode padding authenticationData s
      else if asymmetric (key_algorithm key)
      then let (r, encrypted, s1) = openssl_encryptAsymmetric lib data iv key blockMode padding s in Some (r, (encrypted, []), s1)
      else Some (crypto_failure Crypto_OperationNotSupportedError, ([], []), s))"

definition openssl_decrypt ::
    "('c, 'm, 'p, 'r) libcrypto \<Rightarrow> qbytes \<Rightarrow> qbytes \<Rightarrow> Key \<Rightarrow> int \<Rightarrow> int \<Rightarrow> qbytes \<Rightarrow> qbytes \<Rightarrow> ('c, 'm, 'r) OpenSslCryptoPlugin
     \<Rightarrow> (CryptoResult \<times> (qbytes \<times> int) \<times> ('c, 'm, 'r) OpenSslCryptoPlugin) option" where
  "openssl_decrypt lib data iv key blockMode padding authenticationData authenticationTag s =
     (if key_algorithm key = AlgorithmAes
      then openssl_decryptAes lib data iv key blockMode padding authenticationData authenticationTag s
      else if asymmetric (key_algorithm key)
      then let (r, decrypted, s1) = openssl_decryptAsymmetric lib data iv key blockMode padding s
           in Some (r, (decrypted, VerificationStatusUnknown), s1)
      else Some (crypto_failure Crypto_OperationNotSupportedError, ([], VerificationStatusUnknown), s))"

end
