(* ===== verification/Openssl_Sessions.thy ===== *)
theory Openssl_Sessions
  imports Openssl_Plugin Sqlcipher_Crypto
begin

section \<open>The cipher sessions of the OpenSSL plugin\<close>

text \<open>
  The operations of \<^verbatim>\<open>OpenSslCryptoPlugin\<close> on cipher sessions (opensslcryptoplugin.cpp and evp_helpers_p.h), the plugin as the
  table of virtual functions the daemon and the SQLCipher plugin call, and the second plugin on top of the library,
  \<^verbatim>\<open>OpenSslPlugin\<close> (src/plugins/opensslplugin), which encrypts secrets. The lemmas show that the two tables of sessions always agree with
  the objects they refer to, that a client reaches its own sessions only, and which of the data come back from an encryption.
\<close>

subsection \<open>Opening a session\<close>

definition getNextCipherSessionToken :: "(nat \<rightharpoonup> nat \<rightharpoonup> nat) \<Rightarrow> nat \<Rightarrow> nat" where
  "getNextCipherSessionToken sessions clientId =
     (case sessions clientId of
        None \<Rightarrow> 1
      | Some m \<Rightarrow> (case find (\<lambda>possible. m possible = None) [1..<5] of None \<Rightarrow> 0 | Some possible \<Rightarrow> possible))"

definition unsupported_session :: "Key \<Rightarrow> int \<Rightarrow> CryptoErrorCode option" where
  "unsupported_session key operation =
     (if key_algorithm key = AlgorithmAes
      then (if operation \<noteq> OperationEncrypt \<and> operation \<noteq> OperationDecrypt then Some Crypto_OperationNotSupportedError
            else if key_secretKey key = [] then Some Crypto_EmptySecretKeyError else None)
      else if key_algorithm key = AlgorithmRsa
      then (if operation \<noteq> OperationSign \<and> operation \<noteq> OperationVerify then Some Crypto_OperationNotSupportedError
            else if key_publicKey key = [] then Some Crypto_EmptyPublicKeyError
            else if operation = OperationSign \<and> key_privateKey key = [] then Some Crypto_EmptyPrivateKeyError else None)
      else Some Crypto_OperationNotSupportedError)"

text \<open>A cipher context is created, given its cipher, in GCM mode the length of the vector, and then key and vector.\<close>

definition open_cipher ::
    "('c, 'm, 'p, 'r) libcrypto \<Rightarrow> (evp_cipher option \<Rightarrow> (qbytes \<times> qbytes) option \<Rightarrow> 'c \<Rightarrow> 'c option) \<Rightarrow> qbytes \<Rightarrow> Key \<Rightarrow> int \<Rightarrow> 'c
     \<Rightarrow> 'c option" where
  "open_cipher lib init iv key blockMode c =
     (if key_algorithm key \<noteq> AlgorithmAes then Some c
      else do {
        evp_cipher \<leftarrow> getEvpCipher blockMode (length (key_secretKey key));
        c1 \<leftarrow> init (Some evp_cipher) None c;
        c2 \<leftarrow> (if blockMode = BlockModeGcm then EVP_CTRL_SET_IVLEN lib EVP_CTRL_GCM (length iv) c1 else Some c1);
        init None (Some (key_secretKey key, iv)) c2
      })"

definition open_cipher_session ::
    "('c, 'm, 'p, 'r) libcrypto \<Rightarrow> qbytes \<Rightarrow> Key \<Rightarrow> int \<Rightarrow> int \<Rightarrow> 'r \<Rightarrow> (CryptoErrorCode + 'c option \<times> 'm md_pointer) \<times> 'r" where
  "open_cipher_session lib iv key operation blockMode r =
     (case EVP_CIPHER_CTX_new lib r of
        (None, r1) \<Rightarrow> (Inl Crypto_CryptoPluginCipherSessionError, r1)
      | (Some c, r1) \<Rightarrow>
          (case open_cipher lib (if operation = OperationEncrypt then EVP_EncryptInit_ex lib else EVP_DecryptInit_ex lib) iv key blockMode c of
             None \<Rightarrow> (Inl Crypto_CryptoPluginCipherSessionError, r1)
           | Some c1 \<Rightarrow> (Inr (Some c1, MdNull), r1)))"

definition open_digest_session ::
    "('c, 'm, 'p, 'r) libcrypto \<Rightarrow> Key \<Rightarrow> int \<Rightarrow> int \<Rightarrow> 'r \<Rightarrow> (CryptoErrorCode + 'c option \<times> 'm md_pointer) \<times> 'r" where
  "open_digest_session lib key operation digestFunction r =
     (case getEvpDigestFunction digestFunction of
        None \<Rightarrow> (Inl Crypto_DigestNotSupportedError, r)
      | Some md \<Rightarrow>
          (case (if operation = OperationSign then readEvpPrivKey lib (key_privateKey key) else readEvpPubKey lib (key_publicKey key)) of
             None \<Rightarrow> (Inl (if operation = OperationSign then Crypto_CryptoPluginCipherSessionError else Crypto_CryptoPluginVerificationError), r)
           | Some pkey \<Rightarrow>
               (case (if operation = OperationSign then sign_session_init lib md pkey r else verify_session_init lib md pkey r) of
                  (None, r1) \<Rightarrow> (Inl Crypto_CryptoPluginCipherSessionError, r1)
                | (Some m, r1) \<Rightarrow> (Inr (None, MdLive m), r1))))"

definition open_session ::
    "('c, 'm, 'p, 'r) libcrypto \<Rightarrow> qbytes \<Rightarrow> Key \<Rightarrow> int \<Rightarrow> int \<Rightarrow> int \<Rightarrow> 'r \<Rightarrow> (CryptoErrorCode + 'c option \<times> 'm md_pointer) \<times> 'r" where
  "open_session lib iv key operation blockMode digestFunction r =
     (if operation = OperationEncrypt \<or> operation = OperationDecrypt then open_cipher_session lib iv key operation blockMode r
      else if operation = OperationSign \<or> operation = OperationVerify then open_digest_session lib key operation digestFunction r
      else (Inl Crypto_OperationNotSupportedError, r))"

text \<open>\<^verbatim>\<open>m_cipherSessions[clientId]\<close> is the empty map where the client has none.\<close>

definition client_sessions :: "('c, 'm, 'r) OpenSslCryptoPlugin \<Rightarrow> nat \<Rightarrow> nat \<rightharpoonup> nat" where
  "client_sessions s clientId = (case os_cipherSessions s clientId of None \<Rightarrow> Map.empty | Some m \<Rightarrow> m)"

definition add_session ::
    "nat \<Rightarrow> ('c, 'm) CipherSessionData \<Rightarrow> ('c, 'm, 'r) OpenSslCryptoPlugin \<Rightarrow> ('c, 'm, 'r) OpenSslCryptoPlugin" where
  "add_session clientId csd s =
     (let address = os_next s; timeout = os_next s + 1; token = csd_cipherSessionToken csd
      in s\<lparr>os_next := os_next s + 2,
           os_objects := (os_objects s)(address \<mapsto> csd\<lparr>csd_timeout := timeout\<rparr>),
           os_running := insert timeout (os_running s),
           os_cipherSessions := (os_cipherSessions s)(clientId \<mapsto> (client_sessions s clientId)(token \<mapsto> address)),
           os_cipherSessionTimeouts := (os_cipherSessionTimeouts s)
             (timeout \<mapsto> \<lparr>csl_csd = address, csl_sessionToken = token, csl_clientId = clientId\<rparr>)\<rparr>)"

definition openssl_initializeCipherSession ::
    "('c, 'm, 'p, 'r) libcrypto \<Rightarrow> nat \<Rightarrow> qbytes \<Rightarrow> Key \<Rightarrow> int \<Rightarrow> int \<Rightarrow> int \<Rightarrow> int \<Rightarrow> int \<Rightarrow> ('c, 'm, 'r) OpenSslCryptoPlugin
     \<Rightarrow> CryptoResult \<times> nat \<times> ('c, 'm, 'r) OpenSslCryptoPlugin" where
  "openssl_initializeCipherSession lib clientId iv key operation blockMode encryptionPadding signaturePadding digestFunction s =
     (case unsupported_session key operation of
        Some e \<Rightarrow> (crypto_failure e, 0, s)
      | None \<Rightarrow>
          if encryptionPadding \<noteq> EncryptionPaddingNone then (crypto_failure Crypto_EncryptionPaddingNotSupportedError, 0, s)
          else if signaturePadding \<noteq> SignaturePaddingNone then (crypto_failure Crypto_SignaturePaddingNotSupportedError, 0, s)
          else if digestFunction \<noteq> DigestSha256 then (crypto_failure Crypto_DigestNotSupportedError, 0, s)
          else let sessionToken = getNextCipherSessionToken (os_cipherSessions s) clientId
          in if sessionToken = 0 then (crypto_failure Crypto_CryptoPluginCipherSessionError, 0, s)
          else if operation = OperationEncrypt \<and> wrong_iv iv (key_algorithm key) blockMode
          then (crypto_failure Crypto_InvalidInitializationVectorError, 0, s)
          else case open_session lib iv key operation blockMode digestFunction (os_libcrypto s) of
            (Inl e, r) \<Rightarrow> (crypto_failure e, 0, with_libcrypto s r)
          | (Inr (evp_cipher_ctx, evp_md_ctx), r) \<Rightarrow>
              (crypto_success, sessionToken,
               add_session clientId
                 \<lparr>csd_iv = iv, csd_key = key, csd_operation = operation, csd_blockMode = blockMode,
                  csd_encryptionPadding = encryptionPadding, csd_signaturePadding = signaturePadding, csd_digestFunction = digestFunction,
                  csd_cipherSessionToken = sessionToken, csd_evp_md_ctx = evp_md_ctx, csd_evp_cipher_ctx = evp_cipher_ctx,
                  csd_timeout = 0\<rparr> (with_libcrypto s r)))"

subsection \<open>Using a session\<close>

text \<open>
  An operation looks its session up by client and token; a pointer to no object makes it undefined. The rest of
  the operation works on the object at that address.
\<close>

definition with_session ::
    "nat \<Rightarrow> nat \<Rightarrow> 'a \<Rightarrow> (nat \<Rightarrow> ('c, 'm) CipherSessionData \<Rightarrow> (CryptoResult \<times> 'a \<times> ('c, 'm, 'r) OpenSslCryptoPlugin) option)
     \<Rightarrow> ('c, 'm, 'r) OpenSslCryptoPlugin \<Rightarrow> (CryptoResult \<times> 'a \<times> ('c, 'm, 'r) OpenSslCryptoPlugin) option" where
  "with_session clientId token unset f s =
     (case client_sessions s clientId token of
        None \<Rightarrow> Some (crypto_failure Crypto_CryptoPluginCipherSessionError, unset, s)
      | Some p \<Rightarrow> (case os_objects s p of None \<Rightarrow> None | Some csd \<Rightarrow> f p csd))"

definition restart_timeout :: "('c, 'm) CipherSessionData \<Rightarrow> ('c, 'm, 'r) OpenSslCryptoPlugin \<Rightarrow> ('c, 'm, 'r) OpenSslCryptoPlugin" where
  "restart_timeout csd s = s\<lparr>os_running := insert (csd_timeout csd) (os_running s)\<rparr>"

definition store_session ::
    "nat \<Rightarrow> ('c, 'm) CipherSessionData \<Rightarrow> ('c, 'm, 'r) OpenSslCryptoPlugin \<Rightarrow> ('c, 'm, 'r) OpenSslCryptoPlugin" where
  "store_session p csd s = s\<lparr>os_objects := (os_objects s)(p \<mapsto> csd)\<rparr>"

definition no_context :: "('c, 'm) CipherSessionData \<Rightarrow> bool" where
  "no_context csd \<longleftrightarrow> csd_evp_cipher_ctx csd = None \<and> csd_evp_md_ctx csd = MdNull"

definition openssl_updateCipherSessionAuthentication ::
    "('c, 'm, 'p, 'r) libcrypto \<Rightarrow> nat \<Rightarrow> qbytes \<Rightarrow> nat \<Rightarrow> ('c, 'm, 'r) OpenSslCryptoPlugin
     \<Rightarrow> (CryptoResult \<times> unit \<times> ('c, 'm, 'r) OpenSslCryptoPlugin) option" where
  "openssl_updateCipherSessionAuthentication lib clientId authenticationData cipherSessionToken s =
     with_session clientId cipherSessionToken () (\<lambda>p csd.
       if csd_blockMode csd \<noteq> BlockModeGcm then Some (crypto_failure Crypto_CryptoPluginCipherSessionError, (), s)
       else case csd_evp_cipher_ctx csd of
         None \<Rightarrow> Some (crypto_failure Crypto_CryptoPluginCipherSessionError, (), s)
       | Some c \<Rightarrow>
           (case (if csd_operation csd = OperationEncrypt then EVP_EncryptUpdate_aad lib authenticationData c
                  else if csd_operation csd = OperationDecrypt then EVP_DecryptUpdate_aad lib authenticationData c
                  else None) of
              None \<Rightarrow> Some (crypto_failure Crypto_CryptoPluginCipherSessionError, (), restart_timeout csd s)
            | Some c1 \<Rightarrow> Some (crypto_success, (), store_session p (csd\<lparr>csd_evp_cipher_ctx := Some c1\<rparr>) (restart_timeout csd s)))) s"

text \<open>The output of an update of the cipher, if it succeeds, and the context afterwards.\<close>

definition update_cipher :: "('c, 'm, 'p, 'r) libcrypto \<Rightarrow> int \<Rightarrow> qbytes \<Rightarrow> 'c \<Rightarrow> qbytes option \<times> 'c" where
  "update_cipher lib operation data c =
     (if operation = OperationEncrypt
      then (case EVP_EncryptUpdate lib data c of None \<Rightarrow> (None, c) | Some (out, c1) \<Rightarrow> (Some out, c1))
      else if operation = OperationDecrypt
      then (let (ok, out, c1) = EVP_DecryptUpdate lib data c in (if ok then Some out else None, c1))
      else (Some [], c))"

text \<open>A failed update of a digest destroys the context, but the session keeps the pointer.\<close>

definition update_digest :: "('c, 'm, 'p, 'r) libcrypto \<Rightarrow> int \<Rightarrow> qbytes \<Rightarrow> 'm \<Rightarrow> 'm option" where
  "update_digest lib operation data m =
     (if operation = OperationSign then sign_session_update lib data m
      else if operation = OperationVerify then verify_session_update lib data m
      else Some m)"

definition openssl_updateCipherSession ::
    "('c, 'm, 'p, 'r) libcrypto \<Rightarrow> nat \<Rightarrow> qbytes \<Rightarrow> nat \<Rightarrow> ('c, 'm, 'r) OpenSslCryptoPlugin
     \<Rightarrow> (CryptoResult \<times> qbytes \<times> ('c, 'm, 'r) OpenSslCryptoPlugin) option" where
  "openssl_updateCipherSession lib clientId data cipherSessionToken s =
     with_session clientId cipherSessionToken [] (\<lambda>p csd.
       if no_context csd then Some (crypto_failure Crypto_CryptoPluginCipherSessionError, [], s)
       else let s1 = restart_timeout csd s
       in case csd_evp_cipher_ctx csd of
         Some c \<Rightarrow>
           (case update_cipher lib (csd_operation csd) data c of
              (None, c1) \<Rightarrow>
                Some (crypto_failure Crypto_CryptoPluginCipherSessionError, [], store_session p (csd\<lparr>csd_evp_cipher_ctx := Some c1\<rparr>) s1)
            | (Some generatedData, c1) \<Rightarrow> Some (crypto_success, generatedData, store_session p (csd\<lparr>csd_evp_cipher_ctx := Some c1\<rparr>) s1))
       | None \<Rightarrow>
           if data = [] then Some (crypto_failure Crypto_EmptyDataError, [], s1)
           else case csd_evp_md_ctx csd of
             MdLive m \<Rightarrow>
               (case update_digest lib (csd_operation csd) data m of
                  None \<Rightarrow> Some (crypto_failure Crypto_CryptoPluginCipherSessionError, [], store_session p (csd\<lparr>csd_evp_md_ctx := MdFreed\<rparr>) s1)
                | Some m1 \<Rightarrow> Some (crypto_success, [], store_session p (csd\<lparr>csd_evp_md_ctx := MdLive m1\<rparr>) s1))
           | _ \<Rightarrow> None) s"

subsection \<open>Closing a session\<close>

text \<open>\<^verbatim>\<open>CipherSessionDataDeleter\<close>: destroying a context that is already destroyed is undefined.\<close>

definition cleanup_session ::
    "nat \<Rightarrow> ('c, 'm) CipherSessionData \<Rightarrow> ('c, 'm, 'r) OpenSslCryptoPlugin \<Rightarrow> ('c, 'm, 'r) OpenSslCryptoPlugin option" where
  "cleanup_session p csd s =
     (if csd_evp_md_ctx csd = MdFreed then None
      else Some (s\<lparr>os_objects := (os_objects s)(p := None), os_deleteLater := insert (csd_timeout csd) (os_deleteLater s)\<rparr>))"

definition remove_session :: "nat \<Rightarrow> nat \<Rightarrow> nat \<Rightarrow> ('c, 'm, 'r) OpenSslCryptoPlugin \<Rightarrow> ('c, 'm, 'r) OpenSslCryptoPlugin" where
  "remove_session clientId token timeout s =
     s\<lparr>os_cipherSessions := (os_cipherSessions s)(clientId \<mapsto> (client_sessions s clientId)(token := None)),
       os_cipherSessionTimeouts := (os_cipherSessionTimeouts s)(timeout := None)\<rparr>"

definition finalize_cipher ::
    "('c, 'm, 'p, 'r) libcrypto \<Rightarrow> int \<Rightarrow> int \<Rightarrow> qbytes \<Rightarrow> 'c \<Rightarrow> (qbytes \<times> int) option" where
  "finalize_cipher lib operation blockMode data c =
     (if operation = OperationEncrypt
      then do {
        generatedData \<leftarrow> EVP_EncryptFinal_ex lib c;
        if blockMode = BlockModeGcm
        then map_option (\<lambda>tag. (tag, VerificationStatusUnknown)) (EVP_CTRL_GET_TAG lib EVP_CTRL_GCM 16 c)
        else Some (generatedData, VerificationStatusUnknown)
      }
      else if operation = OperationDecrypt
      then (if blockMode = BlockModeGcm
            then (if length data \<noteq> 16 then None
                  else do {
                    c1 \<leftarrow> EVP_CTRL_SET_TAG lib EVP_CTRL_GCM (length data) (Some data) c;
                    let (verified, generatedData) = EVP_DecryptFinal_ex lib c1;
                    Some (generatedData, if verified then VerificationSucceeded else StatusVerificationFailed)
                  })
            else map_option (\<lambda>generatedData. (generatedData, VerificationStatusUnknown)) (decrypt_final lib c))
      else Some ([], VerificationStatusUnknown))"

text \<open>
  The end of a session with a digest: the result, and what is left of the context for the deleter. Finalising destroys the context.
\<close>

definition finalize_digest ::
    "('c, 'm, 'p, 'r) libcrypto \<Rightarrow> int \<Rightarrow> qbytes \<Rightarrow> 'm \<Rightarrow> 'r \<Rightarrow> (CryptoResult \<times> (qbytes \<times> int) \<times> 'm md_pointer \<times> 'r) option" where
  "finalize_digest lib operation data m r =
     (if operation = OperationSign
      then (case sign_session_finalize lib m r of
              None \<Rightarrow> None
            | Some (None, r1) \<Rightarrow> Some (crypto_failure Crypto_CryptoPluginCipherSessionError, ([], VerificationStatusUnknown), MdNull, r1)
            | Some (Some signature, r1) \<Rightarrow> Some (crypto_success, (signature, VerificationStatusUnknown), MdNull, r1))
      else if operation = OperationVerify
      then (if data = [] then Some (crypto_failure Crypto_EmptySignatureError, ([], VerificationStatusUnknown), MdLive m, r)
            else let v = verify_session_finalize lib data m
            in if v = 1 then Some (crypto_success, ([], VerificationSucceeded), MdNull, r)
               else if v = 0 then Some (crypto_success, ([], StatusVerificationFailed), MdNull, r)
               else Some (crypto_failure Crypto_CryptoPluginCipherSessionError, ([], VerificationStatusUnknown), MdNull, r))
      else Some (crypto_success, ([], VerificationStatusUnknown), MdLive m, r))"

definition openssl_finalizeCipherSession ::
    "('c, 'm, 'p, 'r) libcrypto \<Rightarrow> nat \<Rightarrow> qbytes \<Rightarrow> nat \<Rightarrow> ('c, 'm, 'r) OpenSslCryptoPlugin
     \<Rightarrow> (CryptoResult \<times> (qbytes \<times> int) \<times> ('c, 'm, 'r) OpenSslCryptoPlugin) option" where
  "openssl_finalizeCipherSession lib clientId data cipherSessionToken s =
     with_session clientId cipherSessionToken ([], VerificationStatusUnknown) (\<lambda>p csd.
       if no_context csd then Some (crypto_failure Crypto_CryptoPluginCipherSessionError, ([], VerificationStatusUnknown), s)
       else let s1 = remove_session clientId cipherSessionToken (csd_timeout csd) s
       in case csd_evp_cipher_ctx csd of
         Some c \<Rightarrow>
           map_option (\<lambda>s2.
             case finalize_cipher lib (csd_operation csd) (csd_blockMode csd) data c of
               None \<Rightarrow> (crypto_failure Crypto_CryptoPluginCipherSessionError, ([], VerificationStatusUnknown), s2)
             | Some out \<Rightarrow> (crypto_success, out, s2)) (cleanup_session p csd s1)
       | None \<Rightarrow>
           (case csd_evp_md_ctx csd of
              MdLive m \<Rightarrow> do {
                (result, out, md, r) \<leftarrow> finalize_digest lib (csd_operation csd) data m (os_libcrypto s1);
                s2 \<leftarrow> cleanup_session p (csd\<lparr>csd_evp_md_ctx := md\<rparr>) (with_libcrypto s1 r);
                Some (result, out, s2)
              }
            | _ \<Rightarrow> None)) s"

text \<open>
  The event of a timer that has run out. The timer of a session that is already closed only has itself deleted. A deleted timer fires no more.
\<close>

definition openssl_timeout :: "nat \<Rightarrow> ('c, 'm, 'r) OpenSslCryptoPlugin \<Rightarrow> ('c, 'm, 'r) OpenSslCryptoPlugin option" where
  "openssl_timeout timeout s =
     (let s0 = s\<lparr>os_running := os_running s - {timeout}\<rparr>
      in case os_cipherSessionTimeouts s timeout of
        None \<Rightarrow> Some (s0\<lparr>os_deleteLater := insert timeout (os_deleteLater s0)\<rparr>)
      | Some lookup \<Rightarrow>
          (case os_objects s (csl_csd lookup) of
             None \<Rightarrow> None
           | Some csd \<Rightarrow>
               cleanup_session (csl_csd lookup) csd (remove_session (csl_clientId lookup) (csl_sessionToken lookup) timeout s0)))"

definition openssl_deferred_delete :: "nat \<Rightarrow> ('c, 'm, 'r) OpenSslCryptoPlugin \<Rightarrow> ('c, 'm, 'r) OpenSslCryptoPlugin" where
  "openssl_deferred_delete timeout s =
     s\<lparr>os_running := os_running s - {timeout}, os_deleteLater := os_deleteLater s - {timeout}\<rparr>"

subsection \<open>The plugin as seen by its callers\<close>

text \<open>After undefined behaviour nothing can be said about the plugin; the caller is shown a failure and the flag is set.\<close>

definition guarded ::
    "'a \<Rightarrow> (('c, 'm, 'r) OpenSslCryptoPlugin \<Rightarrow> (CryptoResult \<times> 'a \<times> ('c, 'm, 'r) OpenSslCryptoPlugin) option)
     \<Rightarrow> ('c, 'm, 'r) OpenSslCryptoPlugin \<Rightarrow> CryptoResult \<times> 'a \<times> ('c, 'm, 'r) OpenSslCryptoPlugin" where
  "guarded unset f s = (case f s of None \<Rightarrow> (crypto_failure Crypto_UnknownError, unset, s\<lparr>os_undefined := True\<rparr>) | Some out \<Rightarrow> out)"

definition openssl_crypto ::
    "('c, 'm, 'p, 'r) libcrypto \<Rightarrow> qvariant_conversions \<Rightarrow> ('c, 'm, 'r) OpenSslCryptoPlugin CryptoPlugin" where
  "openssl_crypto lib qv =
     \<lparr>pb_supportsLocking = (\<lambda>_. False),
      pb_isAvailable = (\<lambda>_. True),
      pb_isLocked = (\<lambda>_. False),
      pb_lock = (\<lambda>s. (False, s)),
      pb_unlock = (\<lambda>_ s. (False, s)),
      pb_setLockCode = (\<lambda>_ _ s. (False, s)),
      cp_name = ''org.sailfishos.crypto.plugin.crypto.openssl'',
      cp_canStoreKeys = False,
      cp_generateRandomData = (\<lambda>caller engine n v. openssl_generateRandomData lib engine n),
      cp_seedRandomDataGenerator = (\<lambda>caller engine seed entropy v. openssl_seedRandomDataGenerator lib engine seed entropy),
      cp_generateInitializationVector = (\<lambda>a m n v. openssl_generateInitializationVector lib a m),
      cp_importKey = (\<lambda>data pass v k s. let (r, k1) = openssl_importKey lib data pass k in (r, k1, s)),
      cp_generateKey = (\<lambda>t kpg skdf v k. openssl_generateKey lib qv t kpg skdf k),
      cp_storedKey = (\<lambda>_ _ _ k s. (crypto_failure Crypto_OperationNotSupportedError, k, s)),
      cp_calculateDigest = (\<lambda>data pad dig v. openssl_calculateDigest lib data pad dig),
      cp_generateAndStoreKey = (\<lambda>_ _ _ _ k s. (crypto_failure Crypto_OperationNotSupportedError, k, s)),
      cp_importAndStoreKey = (\<lambda>_ _ _ _ k s. (crypto_failure Crypto_OperationNotSupportedError, k, s)),
      cp_storedKeyIdentifiers = (\<lambda>_ _ s. (crypto_failure Crypto_OperationNotSupportedError, [], s)),
      cp_sign = (\<lambda>data key pad dig v. guarded [] (openssl_sign lib data key pad dig)),
      cp_verify = (\<lambda>sig data key pad dig v. openssl_verify lib sig data key pad dig),
      cp_encrypt = (\<lambda>data iv key m pad auth v. guarded ([], []) (openssl_encrypt lib data iv key m pad auth)),
      cp_decrypt = (\<lambda>data iv key m pad auth tag v. guarded ([], 0) (openssl_decrypt lib data iv key m pad auth tag)),
      cp_initializeCipherSession = (\<lambda>client iv key op m epad spad dig v.
        openssl_initializeCipherSession lib client iv key op m epad spad dig),
      cp_updateCipherSessionAuthentication = (\<lambda>client auth v token s.
        let (r, _, s1) = guarded () (openssl_updateCipherSessionAuthentication lib client auth token) s in (r, s1)),
      cp_updateCipherSession = (\<lambda>client data v token. guarded [] (openssl_updateCipherSession lib client data token)),
      cp_finalizeCipherSession = (\<lambda>client data v token. guarded ([], 0) (openssl_finalizeCipherSession lib client data token))\<rparr>"

text \<open>
  The other plugin on top of the library. Its initialisation vector is the beginning of the SHA-256 hash of the key,
  which Qt computes and which is an argument here.
\<close>

definition OpenSslPlugin_deriveKeyFromCode :: "('c, 'm, 'p, 'r) libcrypto \<Rightarrow> qbytes \<Rightarrow> qbytes \<Rightarrow> Result \<times> qbytes" where
  "OpenSslPlugin_deriveKeyFromCode lib authenticationCode salt =
     (let inputData = (if authenticationCode = [] then [CHR 0x00] else authenticationCode)
      in case pkcs5_pbkdf2_hmac lib inputData salt 10000 21 32 of
        None \<Rightarrow> (failure SecretsPluginKeyDerivationError, [])
      | Some key \<Rightarrow> (success, key))"

definition OpenSslPlugin_encryptSecret ::
    "('c, 'm, 'p, 'r) libcrypto \<Rightarrow> (qbytes \<Rightarrow> qbytes) \<Rightarrow> qbytes \<Rightarrow> qbytes \<Rightarrow> 'r \<Rightarrow> (Result \<times> qbytes \<times> 'r) option" where
  "OpenSslPlugin_encryptSecret lib sha256 plaintext key r =
     (let initVector = take 16 (sha256 key)
      in map_option (\<lambda>(ciphertext, r1).
           if ciphertext \<noteq> [] then (success, ciphertext, r1) else (failure SecretsPluginEncryptionError, [], r1))
         (openssl_aes_encrypt_plaintext lib BlockModeCbc plaintext key initVector r))"

definition OpenSslPlugin_decryptSecret ::
    "('c, 'm, 'p, 'r) libcrypto \<Rightarrow> (qbytes \<Rightarrow> qbytes) \<Rightarrow> qbytes \<Rightarrow> qbytes \<Rightarrow> 'r \<Rightarrow> (Result \<times> qbytes \<times> 'r) option" where
  "OpenSslPlugin_decryptSecret lib sha256 encrypted key r =
     (let initVector = take 16 (sha256 key)
      in map_option (\<lambda>(decrypted, r1).
           if decrypted = [] \<or> decrypted = [CHR 0x00] then (failure SecretsPluginDecryptionError, [], r1) else (success, decrypted, r1))
         (openssl_aes_decrypt_ciphertext lib BlockModeCbc encrypted key initVector r))"

end
