(* ===== verification/Openssl_Runs.thy ===== *)
theory Openssl_Runs
  imports Openssl_Sessions
begin

section \<open>Runs of the OpenSSL plugin\<close>

text \<open>
  The plugin under any sequence of calls and timer events, for any library. The two tables of sessions, the session objects and the timers are shown
  to agree in every state; what follows is that the operations on sessions are defined but for one case, that clients do not reach
  each other's sessions, and that a session computes what the single call computes.
\<close>

subsection \<open>Steps\<close>

inductive openssl_step ::
    "('c, 'm, 'p, 'r) libcrypto \<Rightarrow> qvariant_conversions \<Rightarrow> ('c, 'm, 'r) OpenSslCryptoPlugin \<Rightarrow> ('c, 'm, 'r) OpenSslCryptoPlugin \<Rightarrow> bool"
  for lib qv where
  seed: "openssl_seedRandomDataGenerator lib e d x s = (res, s') \<Longrightarrow> openssl_step lib qv s s'"
| random: "openssl_generateRandomData lib e n s = (res, out, s') \<Longrightarrow> openssl_step lib qv s s'"
| vector: "openssl_generateInitializationVector lib a m s = (res, out, s') \<Longrightarrow> openssl_step lib qv s s'"
| generate: "openssl_generateKey lib qv t kpg skdf k s = (res, out, s') \<Longrightarrow> openssl_step lib qv s s'"
| digest: "openssl_calculateDigest lib d p g s = (res, out, s') \<Longrightarrow> openssl_step lib qv s s'"
| sign: "openssl_sign lib d k p g s = Some (res, out, s') \<Longrightarrow> openssl_step lib qv s s'"
| verify: "openssl_verify lib x d k p g s = (res, out, s') \<Longrightarrow> openssl_step lib qv s s'"
| encrypt: "openssl_encrypt lib d iv k m p a s = Some (res, out, s') \<Longrightarrow> openssl_step lib qv s s'"
| decrypt: "openssl_decrypt lib d iv k m p a t s = Some (res, out, s') \<Longrightarrow> openssl_step lib qv s s'"
| start: "openssl_initializeCipherSession lib c iv k op m ep sp g s = (res, out, s') \<Longrightarrow> openssl_step lib qv s s'"
| authenticate: "openssl_updateCipherSessionAuthentication lib c d t s = Some (res, out, s') \<Longrightarrow> openssl_step lib qv s s'"
| update: "openssl_updateCipherSession lib c d t s = Some (res, out, s') \<Longrightarrow> openssl_step lib qv s s'"
| finish: "openssl_finalizeCipherSession lib c d t s = Some (res, out, s') \<Longrightarrow> openssl_step lib qv s s'"
| timeout: "tm \<in> os_running s \<Longrightarrow> openssl_timeout tm s = Some s' \<Longrightarrow> openssl_step lib qv s s'"
| delete: "tm \<in> os_deleteLater s \<Longrightarrow> openssl_step lib qv s (openssl_deferred_delete tm s)"

inductive openssl_reachable ::
    "('c, 'm, 'p, 'r) libcrypto \<Rightarrow> qvariant_conversions \<Rightarrow> ('c, 'm, 'r) OpenSslCryptoPlugin \<Rightarrow> bool"
  for lib qv where
  loaded: "openssl_reachable lib qv (new_OpenSslCryptoPlugin lib r)"
| stepped: "openssl_reachable lib qv s \<Longrightarrow> openssl_step lib qv s s' \<Longrightarrow> openssl_reachable lib qv s'"

subsection \<open>What the operations without a session leave alone\<close>

definition only_libcrypto :: "('c, 'm, 'r) OpenSslCryptoPlugin \<Rightarrow> ('c, 'm, 'r) OpenSslCryptoPlugin \<Rightarrow> bool" where
  "only_libcrypto s s' \<longleftrightarrow> s' = with_libcrypto s (os_libcrypto s')"

lemma only_libcrypto_intros [simp, intro]:
  "only_libcrypto s s" "only_libcrypto s (with_libcrypto s r)"
  by (simp_all add: only_libcrypto_def)

lemma only_libcrypto_random:
  "openssl_seedRandomDataGenerator lib e d x s = (res, s') \<Longrightarrow> only_libcrypto s s'"
  "openssl_generateRandomData lib e n s = (res, out, s') \<Longrightarrow> only_libcrypto s s'"
  "openssl_generateInitializationVector lib a m s = (res, out, s') \<Longrightarrow> only_libcrypto s s'"
  by (auto simp: openssl_seedRandomDataGenerator_def openssl_generateRandomData_def openssl_generateInitializationVector_def Let_def
      split: if_splits prod.splits option.splits)

lemma only_libcrypto_key_pairs:
  "openssl_generateRsaKey lib qv t kpg k s = (res, out, s') \<Longrightarrow> only_libcrypto s s'"
  "openssl_generateEcKey lib qv t kpg k s = (res, out, s') \<Longrightarrow> only_libcrypto s s'"
   by (auto simp: openssl_generateRsaKey_def openssl_generateEcKey_def split: if_splits prod.splits option.splits sum.splits)

lemma only_libcrypto_generateKey: "openssl_generateKey lib qv t kpg skdf k s = (res, out, s') \<Longrightarrow> only_libcrypto s s'"
  by (auto simp: openssl_generateKey_def generate_aes_key_def only_libcrypto_key_pairs Let_def
      dest: only_libcrypto_key_pairs only_libcrypto_random split: if_splits prod.splits)

lemma only_libcrypto_digests:
  "openssl_calculateDigest lib d p g s = (res, out, s') \<Longrightarrow> only_libcrypto s s'"
  "openssl_sign lib d k p g s = Some (res, out, s') \<Longrightarrow> only_libcrypto s s'"
  "openssl_verify lib x d k p g s = (res, status, s') \<Longrightarrow> only_libcrypto s s'"
  by (auto simp: openssl_calculateDigest_def openssl_sign_def openssl_verify_def Let_def split: if_splits prod.splits option.splits)

lemma only_libcrypto_asymmetric:
  "openssl_encryptAsymmetric lib d iv k m p s = (res, out, s') \<Longrightarrow> only_libcrypto s s'"
  "openssl_decryptAsymmetric lib d iv k m p s = (res, out, s') \<Longrightarrow> only_libcrypto s s'"
  by (auto simp: openssl_encryptAsymmetric_def openssl_decryptAsymmetric_def split: if_splits prod.splits option.splits)

lemma only_libcrypto_aes:
  "openssl_encryptAes lib d iv k m p a s = Some (res, x, s') \<Longrightarrow> only_libcrypto s s'"
  "openssl_decryptAes lib d iv k m p a t s = Some (res, y, s') \<Longrightarrow> only_libcrypto s s'"
  by (auto simp: openssl_encryptAes_def openssl_decryptAes_def Let_def split: if_splits prod.splits option.splits)

lemma only_libcrypto_encryption:
  "openssl_encrypt lib d iv k m p a s = Some (res, x, s') \<Longrightarrow> only_libcrypto s s'"
  "openssl_decrypt lib d iv k m p a t s = Some (res, y, s') \<Longrightarrow> only_libcrypto s s'"
  by (auto simp: openssl_encrypt_def openssl_decrypt_def Let_def only_libcrypto_aes only_libcrypto_asymmetric
      dest: only_libcrypto_aes only_libcrypto_asymmetric split: if_splits prod.splits)

lemmas only_libcrypto_ops = only_libcrypto_random only_libcrypto_generateKey only_libcrypto_digests only_libcrypto_encryption

subsection \<open>The tables agree\<close>

definition contexts_ok :: "('c, 'm) CipherSessionData \<Rightarrow> bool" where
  "contexts_ok csd \<longleftrightarrow>
     (if csd_evp_cipher_ctx csd \<noteq> None
      then csd_evp_md_ctx csd = MdNull \<and> csd_operation csd \<in> {OperationEncrypt, OperationDecrypt}
      else csd_evp_md_ctx csd \<noteq> MdNull \<and> csd_operation csd \<in> {OperationSign, OperationVerify})"

definition session_ok :: "('c, 'm, 'r) OpenSslCryptoPlugin \<Rightarrow> nat \<Rightarrow> nat \<Rightarrow> nat \<Rightarrow> bool" where
  "session_ok s c t p \<longleftrightarrow>
     (\<exists>csd. os_objects s p = Some csd \<and> csd_cipherSessionToken csd = t \<and> 1 \<le> t \<and> t \<le> 4 \<and> contexts_ok csd
        \<and> os_cipherSessionTimeouts s (csd_timeout csd) = Some \<lparr>csl_csd = p, csl_sessionToken = t, csl_clientId = c\<rparr>)"

definition timeout_ok :: "('c, 'm, 'r) OpenSslCryptoPlugin \<Rightarrow> nat \<Rightarrow> CipherSessionLookup \<Rightarrow> bool" where
  "timeout_ok s tm l \<longleftrightarrow>
     tm < os_next s \<and> tm \<in> os_running s \<and> tm \<notin> os_deleteLater s
     \<and> client_sessions s (csl_clientId l) (csl_sessionToken l) = Some (csl_csd l)
     \<and> (\<exists>csd. os_objects s (csl_csd l) = Some csd \<and> csd_timeout csd = tm)"

definition sessions_wf :: "('c, 'm, 'r) OpenSslCryptoPlugin \<Rightarrow> bool" where
  "sessions_wf s \<longleftrightarrow>
     (\<forall>c t p. client_sessions s c t = Some p \<longrightarrow> session_ok s c t p)
     \<and> (\<forall>tm l. os_cipherSessionTimeouts s tm = Some l \<longrightarrow> timeout_ok s tm l)
     \<and> (\<forall>p csd. os_objects s p = Some csd \<longrightarrow> p < os_next s \<and> (\<exists>c t. client_sessions s c t = Some p))
     \<and> (\<forall>tm \<in> os_running s \<union> os_deleteLater s. tm < os_next s)"

lemma client_sessions_cong [simp]:
  "client_sessions (s\<lparr>os_libcrypto := r\<rparr>) = client_sessions s"
  "client_sessions (s\<lparr>os_running := x\<rparr>) = client_sessions s"
  "client_sessions (s\<lparr>os_deleteLater := x\<rparr>) = client_sessions s"
  "client_sessions (s\<lparr>os_objects := h\<rparr>) = client_sessions s"
  "client_sessions (s\<lparr>os_cipherSessionTimeouts := y\<rparr>) = client_sessions s"
  by (simp_all add: client_sessions_def fun_eq_iff)

lemma client_sessions_update [simp]:
  "client_sessions (s\<lparr>os_cipherSessions := (os_cipherSessions s)(c \<mapsto> m)\<rparr>) = (client_sessions s)(c := m)"
  by (simp add: client_sessions_def fun_eq_iff)

lemma sessions_wf_new: "sessions_wf (new_OpenSslCryptoPlugin lib r)"
  by (simp add: sessions_wf_def new_OpenSslCryptoPlugin_def client_sessions_def case_prod_unfold Let_def)

lemma sessions_wf_libcrypto [simp]: "sessions_wf (with_libcrypto s r) = sessions_wf s"
  by (simp add: sessions_wf_def session_ok_def timeout_ok_def)

lemma sessions_wf_only_libcrypto: "only_libcrypto s s' \<Longrightarrow> sessions_wf s \<Longrightarrow> sessions_wf s'"
  by (metis only_libcrypto_def sessions_wf_libcrypto)

lemma sessions_wf_session: "sessions_wf s \<Longrightarrow> client_sessions s c t = Some p \<Longrightarrow> session_ok s c t p"
  by (simp add: sessions_wf_def)

lemma session_lookup:
  assumes "sessions_wf s" "client_sessions s c t = Some p"
  obtains csd where "os_objects s p = Some csd" "csd_cipherSessionToken csd = t" "1 \<le> t" "t \<le> 4" "contexts_ok csd"
    "os_cipherSessionTimeouts s (csd_timeout csd) = Some \<lparr>csl_csd = p, csl_sessionToken = t, csl_clientId = c\<rparr>"
  using assms unfolding sessions_wf_def session_ok_def by blast

lemma session_unique:
  assumes "sessions_wf s" "client_sessions s c t = Some p" "client_sessions s c' t' = Some p"
  shows "c' = c \<and> t' = t"
  by (rule session_lookup [OF assms(1,2)], rule session_lookup [OF assms(1,3)]) simp

lemma next_token:
  assumes "getNextCipherSessionToken (os_cipherSessions s) c = t" "t \<noteq> 0"
  shows "1 \<le> t" "t \<le> 4" "client_sessions s c t = None"
  using assms
  by (auto simp: getNextCipherSessionToken_def client_sessions_def find_Some_iff split: option.splits)

lemma sessions_wf_restart_timeout:
  assumes "sessions_wf s" "client_sessions s c t = Some p" "os_objects s p = Some csd"
  shows "sessions_wf (restart_timeout csd s)"
proof -
  have "csd_timeout csd < os_next s"
    by (rule session_lookup [OF assms(1,2)]) (use assms(1,3) in \<open>auto simp: sessions_wf_def timeout_ok_def\<close>)
  then show ?thesis using assms(1) by (auto simp: sessions_wf_def session_ok_def timeout_ok_def restart_timeout_def)
qed

lemma sessions_wf_store_session:
  assumes wf: "sessions_wf s" and "os_objects s p = Some csd"
    and same: "csd_cipherSessionToken csd' = csd_cipherSessionToken csd" "csd_timeout csd' = csd_timeout csd" and ok: "contexts_ok csd'"
  shows "sessions_wf (store_session p csd' s)"
  unfolding sessions_wf_def
proof (intro conjI allI impI ballI, goal_cases)
  case (1 c t q)
  then have "client_sessions s c t = Some q" by (simp add: store_session_def)
  with wf have "session_ok s c t q" by (rule sessions_wf_session)
  then show ?case using assms by (cases "q = p") (auto simp: session_ok_def store_session_def)
next
  case (2 tm l)
  then have "timeout_ok s tm l" using wf by (simp add: sessions_wf_def store_session_def)
  then show ?case using assms by (auto simp: timeout_ok_def store_session_def)
qed (use wf assms(2) in \<open>auto simp: sessions_wf_def store_session_def split: if_splits\<close>)

lemma add_session_simps [simp]:
  "client_sessions (add_session c csd s) = (client_sessions s)(c := (client_sessions s c)(csd_cipherSessionToken csd \<mapsto> os_next s))"
  "os_objects (add_session c csd s) = (os_objects s)(os_next s \<mapsto> csd\<lparr>csd_timeout := os_next s + 1\<rparr>)"
  "os_next (add_session c csd s) = os_next s + 2"
  "os_running (add_session c csd s) = insert (os_next s + 1) (os_running s)"
  "os_deleteLater (add_session c csd s) = os_deleteLater s"
  "os_cipherSessionTimeouts (add_session c csd s) = (os_cipherSessionTimeouts s)
     (os_next s + 1 \<mapsto> \<lparr>csl_csd = os_next s, csl_sessionToken = csd_cipherSessionToken csd, csl_clientId = c\<rparr>)"
  by (simp_all add: add_session_def Let_def client_sessions_def fun_eq_iff)

lemma sessions_wf_add_session:
  assumes wf: "sessions_wf s" and free: "client_sessions s c (csd_cipherSessionToken csd) = None"
    and range: "1 \<le> csd_cipherSessionToken csd" "csd_cipherSessionToken csd \<le> 4" and ok: "contexts_ok csd"
  shows "sessions_wf (add_session c csd s)"
  unfolding sessions_wf_def
proof (intro conjI allI impI ballI, goal_cases)
  case (1 c' t p)
  show ?case
  proof (cases "c' = c \<and> t = csd_cipherSessionToken csd")
    case True
    then show ?thesis using 1 range ok by (auto simp: session_ok_def contexts_ok_def)
  next
    case False
    then have "client_sessions s c' t = Some p" using 1 by (auto split: if_splits)
    from session_lookup [OF wf this] obtain d where d: "os_objects s p = Some d" "csd_cipherSessionToken d = t" "1 \<le> t" "t \<le> 4" "contexts_ok d"
      "os_cipherSessionTimeouts s (csd_timeout d) = Some \<lparr>csl_csd = p, csl_sessionToken = t, csl_clientId = c'\<rparr>" .
    then have "p < os_next s" "csd_timeout d < os_next s" using wf by (auto simp: sessions_wf_def timeout_ok_def)
    with d show ?thesis by (auto simp: session_ok_def)
  qed
next
  case (2 tm l)
  show ?case
  proof (cases "tm = os_next s + 1")
    case True
    then show ?thesis using 2 wf by (auto simp: timeout_ok_def sessions_wf_def dest: bspec)
  next
    case False
    then have t: "timeout_ok s tm l" using 2 wf by (simp add: sessions_wf_def)
    then have "csl_csd l < os_next s" using wf by (auto simp: timeout_ok_def sessions_wf_def)
    then show ?thesis using t free by (auto simp: timeout_ok_def)
  qed
next
  case (3 p d)
  then show ?case using wf by (auto simp: sessions_wf_def split: if_splits)
next
  case (4 p d)
  show ?case
  proof (cases "p = os_next s")
    case True
    then have "client_sessions (add_session c csd s) c (csd_cipherSessionToken csd) = Some p" by simp
    then show ?thesis by blast
  next
    case False
    then obtain c' t where ct: "client_sessions s c' t = Some p" using 4 wf by (auto simp: sessions_wf_def)
    then have "client_sessions (add_session c csd s) c' t = Some p" using free by auto
    then show ?thesis by blast
  qed
next
  case (5 tm)
  then have "tm < os_next s \<or> tm = os_next s + 1" using wf by (auto simp: sessions_wf_def)
  then show ?case by auto
qed

lemma close_session_simps:
  assumes "cleanup_session p csd (remove_session c t tm s) = Some s'"
  shows "client_sessions s' = (client_sessions s)(c := (client_sessions s c)(t := None))"
    "os_objects s' = (os_objects s)(p := None)" "os_next s' = os_next s" "os_running s' = os_running s"
    "os_deleteLater s' = insert (csd_timeout csd) (os_deleteLater s)"
    "os_cipherSessionTimeouts s' = (os_cipherSessionTimeouts s)(tm := None)"
  using assms
  by (auto simp: cleanup_session_def remove_session_def client_sessions_def fun_eq_iff split: if_splits)

text \<open>Closing a session, with its timer fired or not.\<close>

lemma sessions_wf_close:
  assumes wf: "sessions_wf s" and p: "client_sessions s c t = Some p" and csd: "os_objects s p = Some csd"
    and close: "cleanup_session p csd' (remove_session c t (csd_timeout csd) s) = Some s'" and same: "csd_timeout csd' = csd_timeout csd"
  shows "sessions_wf s'"
  unfolding sessions_wf_def
proof (intro conjI allI impI ballI, goal_cases)
  note s' = close_session_simps [OF close]
  have tm: "os_cipherSessionTimeouts s (csd_timeout csd) = Some \<lparr>csl_csd = p, csl_sessionToken = t, csl_clientId = c\<rparr>"
    using sessions_wf_session [OF wf p] csd by (auto simp: session_ok_def)
  {
    case (1 c' t' q)
    then have q: "client_sessions s c' t' = Some q" and "\<not> (c' = c \<and> t' = t)" by (auto simp: s' split: if_splits)
    then have "q \<noteq> p" using session_unique [OF wf p] by blast
    moreover obtain d where d: "os_objects s q = Some d" "csd_cipherSessionToken d = t'" "1 \<le> t'" "t' \<le> 4" "contexts_ok d"
      "os_cipherSessionTimeouts s (csd_timeout d) = Some \<lparr>csl_csd = q, csl_sessionToken = t', csl_clientId = c'\<rparr>"
      by (rule session_lookup [OF wf q])
    ultimately have "csd_timeout d \<noteq> csd_timeout csd" using tm by auto
    with d \<open>q \<noteq> p\<close> show ?case by (simp add: session_ok_def s')
  next
    case (2 tm' l)
    then have "timeout_ok s tm' l" "tm' \<noteq> csd_timeout csd" using wf by (auto simp: s' sessions_wf_def split: if_splits)
    then show ?case using csd p same by (auto simp: timeout_ok_def s')
  next
    case (3 q d)
    then show ?case using wf by (auto simp: s' sessions_wf_def split: if_splits)
  next
    case (4 q d)
    then obtain c' t' where "client_sessions s c' t' = Some q" "q \<noteq> p" using wf by (auto simp: s' sessions_wf_def split: if_splits)
    then have "client_sessions s' c' t' = Some q" using p by (auto simp: s')
    then show ?case by blast
  next
    case (5 tm')
    then show ?case using wf tm same by (auto simp: s' sessions_wf_def timeout_ok_def)
  }
qed

text \<open>What the operations on a session do to the tables, in all cases.\<close>

lemma with_session_cases:
  assumes "with_session c t unset f s = Some (res, out, s')"
  obtains (unknown) "client_sessions s c t = None" "s' = s" "\<not> crypto_succeeded res" "out = unset"
  | (known) p csd where "client_sessions s c t = Some p" "os_objects s p = Some csd" "f p csd = Some (res, out, s')"
  using assms by (auto simp: with_session_def split: option.splits)

lemma authentication_effect:
  assumes "openssl_updateCipherSessionAuthentication lib c d t s = Some (res, out, s')"
  shows "s' = s \<or> (\<exists>p csd. client_sessions s c t = Some p \<and> os_objects s p = Some csd
     \<and> (s' = restart_timeout csd s
        \<or> (\<exists>c0 c1. csd_evp_cipher_ctx csd = Some c0
              \<and> s' = store_session p (csd\<lparr>csd_evp_cipher_ctx := Some c1\<rparr>) (restart_timeout csd s))))"
  using assms unfolding openssl_updateCipherSessionAuthentication_def
  by (cases rule: with_session_cases) (auto split: if_splits option.splits)

lemma update_effect:
  assumes "openssl_updateCipherSession lib c d t s = Some (res, out, s')"
  shows "s' = s \<or> (\<exists>p csd. client_sessions s c t = Some p \<and> os_objects s p = Some csd
     \<and> (s' = restart_timeout csd s
        \<or> (\<exists>c0 c1. csd_evp_cipher_ctx csd = Some c0
              \<and> s' = store_session p (csd\<lparr>csd_evp_cipher_ctx := Some c1\<rparr>) (restart_timeout csd s))
        \<or> (\<exists>m. csd_evp_cipher_ctx csd = None \<and> m \<noteq> MdNull
              \<and> s' = store_session p (csd\<lparr>csd_evp_md_ctx := m\<rparr>) (restart_timeout csd s))))"
  using assms unfolding openssl_updateCipherSession_def
  by (cases rule: with_session_cases)
    (fastforce simp: Let_def split: if_splits option.splits md_pointer.splits prod.splits)+

lemma finalize_effect:
  assumes "openssl_finalizeCipherSession lib c d t s = Some (res, out, s')"
  shows "s' = s \<or> (\<exists>p csd csd' r. client_sessions s c t = Some p \<and> os_objects s p = Some csd \<and> csd_timeout csd' = csd_timeout csd
     \<and> cleanup_session p csd' (remove_session c t (csd_timeout csd) (with_libcrypto s r)) = Some s')"
  using assms unfolding openssl_finalizeCipherSession_def
proof (cases rule: with_session_cases)
  case (known p csd)
  have libcrypto: "with_libcrypto (remove_session c t tm s) r = remove_session c t tm (with_libcrypto s r)" for tm r
    by (simp add: remove_session_def)
  show ?thesis
  proof (cases "csd_evp_cipher_ctx csd")
    case None
    then show ?thesis using known libcrypto
      by (auto simp: Let_def split: if_splits md_pointer.splits bind_splits)
  next
    case (Some c0)
    then have "s' = s \<or> cleanup_session p csd (remove_session c t (csd_timeout csd) (with_libcrypto s (os_libcrypto s))) = Some s'"
      using known by (auto simp: Let_def split: if_splits option.splits)
    then show ?thesis using known by blast
  qed
qed auto

lemma open_session_contexts:
  assumes "open_session lib iv k op m g r = (Inr (cc, mm), r1)"
    and "csd_operation csd = op" "csd_evp_cipher_ctx csd = cc" "csd_evp_md_ctx csd = mm"
  shows "contexts_ok csd"
proof -
  have "OperationEncrypt \<noteq> OperationSign" "OperationEncrypt \<noteq> OperationVerify" "OperationDecrypt \<noteq> OperationSign"
    "OperationDecrypt \<noteq> OperationVerify"
    by (simp_all add: OperationSign_def OperationVerify_def OperationEncrypt_def OperationDecrypt_def)
  then show ?thesis using assms
    by (auto simp: open_session_def open_cipher_session_def open_digest_session_def contexts_ok_def dest: sym
        split: if_splits option.splits prod.splits)
qed

lemma session_errors:
  "open_session lib iv k op m g r = (Inl e, r1) \<Longrightarrow> \<not> crypto_error_value e < 2"
  "unsupported_session k op = Some e \<Longrightarrow> \<not> crypto_error_value e < 2"
  by (auto simp: open_session_def open_cipher_session_def open_digest_session_def unsupported_session_def
      split: if_splits option.splits prod.splits)

lemma initialize_effect:
  assumes "openssl_initializeCipherSession lib c iv k op m ep sp g s = (res, tok, s')"
  shows "(\<not> crypto_succeeded res \<and> only_libcrypto s s')
     \<or> (\<exists>csd r. crypto_succeeded res \<and> s' = add_session c csd (with_libcrypto s r) \<and> csd_cipherSessionToken csd = tok \<and> contexts_ok csd
          \<and> getNextCipherSessionToken (os_cipherSessions s) c = tok \<and> tok \<noteq> 0)"
proof (cases "unsupported_session k op")
  case (Some e)
  then show ?thesis using assms session_errors(2) [OF Some] by (auto simp: openssl_initializeCipherSession_def)
next
  case None
  obtain o1 r1 where o1: "open_session lib iv k op m g (os_libcrypto s) = (o1, r1)" by fastforce
  show ?thesis
  proof (cases o1)
    case (Inl e)
    then show ?thesis using assms None o1 session_errors(1) [of lib iv k op m g "os_libcrypto s" e r1]
      by (auto simp: openssl_initializeCipherSession_def Let_def split: if_splits)
  next
    case (Inr x)
    obtain cc mm where "x = (cc, mm)" by (cases x)
    with Inr o1 have o2: "open_session lib iv k op m g (os_libcrypto s) = (Inr (cc, mm), r1)" by simp
    show ?thesis using assms None o2 open_session_contexts [OF o2]
      by (auto simp: openssl_initializeCipherSession_def Let_def split: if_splits)
  qed
qed

lemma sessions_wf_step: "openssl_step lib qv s s' \<Longrightarrow> sessions_wf s \<Longrightarrow> sessions_wf s'"
proof (induction rule: openssl_step.induct)
  case (start c iv k op m ep sp g s res tok s')
  from initialize_effect [OF start(1)] show ?case
  proof (elim disjE exE conjE)
    fix csd r
    assume s': "s' = add_session c csd (with_libcrypto s r)" "csd_cipherSessionToken csd = tok" "contexts_ok csd"
      and tok: "getNextCipherSessionToken (os_cipherSessions s) c = tok" "tok \<noteq> 0"
    from next_token [OF tok] start(2) s' show ?case by (simp add: sessions_wf_add_session)
  qed (use start(2) sessions_wf_only_libcrypto in blast)
next
  case (authenticate c d t s res out s')
  from authentication_effect [OF authenticate(1)] show ?case
  proof (elim disjE exE conjE)
    fix p csd c0 c1
    assume p: "client_sessions s c t = Some p" "os_objects s p = Some csd" and c0: "csd_evp_cipher_ctx csd = Some c0"
      and s': "s' = store_session p (csd\<lparr>csd_evp_cipher_ctx := Some c1\<rparr>) (restart_timeout csd s)"
    have "contexts_ok csd" using sessions_wf_session [OF authenticate(2) p(1)] p(2) by (simp add: session_ok_def)
    then show ?case unfolding s' using p(2) c0
      by (intro sessions_wf_store_session [OF sessions_wf_restart_timeout [OF authenticate(2) p]])
        (simp_all add: restart_timeout_def contexts_ok_def)
  qed (use authenticate(2) in \<open>auto intro: sessions_wf_restart_timeout\<close>)
next
  case (update c d t s res out s')
  from update_effect [OF update(1)] show ?case
  proof (elim disjE exE conjE)
    fix p csd c0 c1
    assume p: "client_sessions s c t = Some p" "os_objects s p = Some csd" and c0: "csd_evp_cipher_ctx csd = Some c0"
      and s': "s' = store_session p (csd\<lparr>csd_evp_cipher_ctx := Some c1\<rparr>) (restart_timeout csd s)"
    have "contexts_ok csd" using sessions_wf_session [OF update(2) p(1)] p(2) by (simp add: session_ok_def)
    then show ?case unfolding s' using p(2) c0
      by (intro sessions_wf_store_session [OF sessions_wf_restart_timeout [OF update(2) p]])
        (simp_all add: restart_timeout_def contexts_ok_def)
  next
    fix p csd m
    assume p: "client_sessions s c t = Some p" "os_objects s p = Some csd" and c0: "csd_evp_cipher_ctx csd = None" "m \<noteq> MdNull"
      and s': "s' = store_session p (csd\<lparr>csd_evp_md_ctx := m\<rparr>) (restart_timeout csd s)"
    have "contexts_ok csd" using sessions_wf_session [OF update(2) p(1)] p(2) by (simp add: session_ok_def)
    then show ?case unfolding s' using p(2) c0
      by (intro sessions_wf_store_session [OF sessions_wf_restart_timeout [OF update(2) p]])
        (simp_all add: restart_timeout_def contexts_ok_def)
  qed (use update(2) in \<open>auto intro: sessions_wf_restart_timeout\<close>)
next
  case (finish c d t s res out s')
  from finalize_effect [OF finish(1)] show ?case
    using finish(2) sessions_wf_close [of "with_libcrypto s _"] by fastforce
next
  case (timeout tm s s')
  then have tm: "tm < os_next s" by (auto simp: sessions_wf_def)
  show ?case
  proof (cases "os_cipherSessionTimeouts s tm")
    case None
    then show ?thesis using timeout tm
      by (auto simp: openssl_timeout_def sessions_wf_def session_ok_def timeout_ok_def Let_def)
  next
    case (Some l)
    then have "timeout_ok s tm l" using timeout(3) by (simp add: sessions_wf_def)
    then obtain csd where l: "client_sessions s (csl_clientId l) (csl_sessionToken l) = Some (csl_csd l)"
      "os_objects s (csl_csd l) = Some csd" "csd_timeout csd = tm"
      by (auto simp: timeout_ok_def)
    define s1 where "s1 = the (cleanup_session (csl_csd l) csd (remove_session (csl_clientId l) (csl_sessionToken l) tm s))"
    have s1: "cleanup_session (csl_csd l) csd (remove_session (csl_clientId l) (csl_sessionToken l) (csd_timeout csd) s) = Some s1"
      and s': "s' = s1\<lparr>os_running := os_running s1 - {tm}\<rparr>"
      using timeout(2) Some l
      by (auto simp: openssl_timeout_def s1_def Let_def cleanup_session_def remove_session_def client_sessions_def split: if_splits)
    have "sessions_wf s1" by (rule sessions_wf_close [OF timeout(3) l(1,2) s1 refl])
    moreover have "os_cipherSessionTimeouts s1 tm = None" using close_session_simps(6) [OF s1] l(3) by simp
    ultimately show ?thesis unfolding s' by (auto simp: sessions_wf_def session_ok_def timeout_ok_def)
  qed
next
  case (delete tm s)
  then have "os_cipherSessionTimeouts s tm = None" by (auto simp: sessions_wf_def timeout_ok_def)
  with delete show ?case by (auto simp: openssl_deferred_delete_def sessions_wf_def session_ok_def timeout_ok_def)
qed (blast intro: sessions_wf_only_libcrypto dest: only_libcrypto_ops)+

lemma sessions_wf_reachable: "openssl_reachable lib qv s \<Longrightarrow> sessions_wf s"
  by (induction rule: openssl_reachable.induct) (auto intro: sessions_wf_new sessions_wf_step)

subsection \<open>Undefined behaviour\<close>

definition freed_session :: "('c, 'm, 'r) OpenSslCryptoPlugin \<Rightarrow> nat \<Rightarrow> nat \<Rightarrow> bool" where
  "freed_session s c t \<longleftrightarrow> (\<exists>p csd. client_sessions s c t = Some p \<and> os_objects s p = Some csd \<and> csd_evp_md_ctx csd = MdFreed)"

lemma authentication_defined: "sessions_wf s \<Longrightarrow> openssl_updateCipherSessionAuthentication lib c d t s \<noteq> None"
  unfolding openssl_updateCipherSessionAuthentication_def
  by (cases "client_sessions s c t")
    (auto simp: with_session_def dest!: sessions_wf_session split: option.splits if_splits simp: session_ok_def)

lemma update_undefined_iff:
  assumes "sessions_wf s"
  shows "openssl_updateCipherSession lib c d t s = None \<longleftrightarrow> d \<noteq> [] \<and> freed_session s c t"
proof (cases "client_sessions s c t")
  case (Some p)
  from sessions_wf_session [OF assms this] obtain csd where "os_objects s p = Some csd" "contexts_ok csd" by (auto simp: session_ok_def)
  with Some show ?thesis
    by (cases "csd_evp_cipher_ctx csd"; cases "csd_evp_md_ctx csd")
      (auto simp: openssl_updateCipherSession_def with_session_def freed_session_def contexts_ok_def no_context_def Let_def
        split: option.splits prod.splits)
qed (simp add: openssl_updateCipherSession_def with_session_def freed_session_def)

lemma cleanup_session_undefined_iff: "cleanup_session p csd s = None \<longleftrightarrow> csd_evp_md_ctx csd = MdFreed"
  by (simp add: cleanup_session_def)

text \<open>When signing fails at the very end, the signature is freed twice.\<close>

definition signature_freed_twice :: "('c, 'm, 'p, 'r) libcrypto \<Rightarrow> ('c, 'm, 'r) OpenSslCryptoPlugin \<Rightarrow> nat \<Rightarrow> nat \<Rightarrow> bool" where
  "signature_freed_twice lib s c t \<longleftrightarrow>
     (\<exists>p csd m. client_sessions s c t = Some p \<and> os_objects s p = Some csd \<and> csd_evp_md_ctx csd = MdLive m
        \<and> csd_operation csd = OperationSign \<and> EVP_DigestSignFinal_size lib m \<and> fst (OPENSSL_malloc lib (os_libcrypto s))
        \<and> EVP_DigestSignFinal lib m = None)"

lemma sign_session_finalize_undefined_iff:
  "sign_session_finalize lib m r = None \<longleftrightarrow>
     EVP_DigestSignFinal_size lib m \<and> fst (OPENSSL_malloc lib r) \<and> EVP_DigestSignFinal lib m = None"
  by (auto simp: sign_session_finalize_def case_prod_unfold Let_def)

lemma finalize_digest_undefined_iff:
  "finalize_digest lib op d m r = None \<longleftrightarrow> op = OperationSign \<and> sign_session_finalize lib m r = None"
  by (auto simp: finalize_digest_def Let_def split: option.splits prod.splits)

lemma finalize_digest_not_freed: "finalize_digest lib op d m r = Some (res, out, md, r1) \<Longrightarrow> md \<noteq> MdFreed"
  by (auto simp: finalize_digest_def Let_def split: if_splits option.splits prod.splits)

lemma finalize_undefined_iff:
  assumes "sessions_wf s"
  shows "openssl_finalizeCipherSession lib c d t s = None \<longleftrightarrow> freed_session s c t \<or> signature_freed_twice lib s c t"
proof (cases "client_sessions s c t")
  case (Some p)
  from sessions_wf_session [OF assms this] obtain csd where csd: "os_objects s p = Some csd" "contexts_ok csd" by (auto simp: session_ok_def)
  have libcrypto: "os_libcrypto (remove_session c t tm s) = os_libcrypto s" for tm by (simp add: remove_session_def)
  show ?thesis
  proof (cases "csd_evp_cipher_ctx csd")
    case None
    show ?thesis
    proof (cases "csd_evp_md_ctx csd")
      case (MdLive m)
      have "openssl_finalizeCipherSession lib c d t s = None \<longleftrightarrow> finalize_digest lib (csd_operation csd) d m (os_libcrypto s) = None"
        using None Some csd MdLive finalize_digest_not_freed [of lib "csd_operation csd" d m "os_libcrypto s"]
        by (cases "finalize_digest lib (csd_operation csd) d m (os_libcrypto s)")
          (auto simp: openssl_finalizeCipherSession_def with_session_def no_context_def libcrypto
            cleanup_session_def Let_def)
      with None Some csd MdLive show ?thesis
        by (simp add: freed_session_def signature_freed_twice_def finalize_digest_undefined_iff sign_session_finalize_undefined_iff)
    qed (use None Some csd in \<open>auto simp: openssl_finalizeCipherSession_def with_session_def freed_session_def contexts_ok_def no_context_def\<close>)
  next
    case (Some c0)
    with \<open>client_sessions s c t = Some p\<close> csd show ?thesis
      by (auto simp: openssl_finalizeCipherSession_def with_session_def freed_session_def signature_freed_twice_def no_context_def
          contexts_ok_def cleanup_session_undefined_iff Let_def)
  qed
qed (simp add: openssl_finalizeCipherSession_def with_session_def freed_session_def signature_freed_twice_def)

lemma timeout_undefined_iff:
  assumes "sessions_wf s"
  shows "openssl_timeout tm s = None \<longleftrightarrow>
     (\<exists>l. os_cipherSessionTimeouts s tm = Some l \<and> freed_session s (csl_clientId l) (csl_sessionToken l))"
proof (cases "os_cipherSessionTimeouts s tm")
  case (Some l)
  then have "timeout_ok s tm l" using assms by (simp add: sessions_wf_def)
  with Some show ?thesis by (auto simp: openssl_timeout_def timeout_ok_def freed_session_def cleanup_session_undefined_iff Let_def)
qed (simp add: openssl_timeout_def Let_def)

subsection \<open>Isolation\<close>

definition session_view :: "('c, 'm, 'r) OpenSslCryptoPlugin \<Rightarrow> nat \<Rightarrow> nat \<Rightarrow> ('c, 'm) CipherSessionData option" where
  "session_view s c t = (case client_sessions s c t of None \<Rightarrow> None | Some p \<Rightarrow> os_objects s p)"

lemma restart_timeout_simps [simp]:
  "client_sessions (restart_timeout csd s) = client_sessions s" "os_objects (restart_timeout csd s) = os_objects s"
  by (simp_all add: restart_timeout_def)

lemma session_view_frame [simp]:
  "session_view (restart_timeout csd s) = session_view s" "session_view (with_libcrypto s r) = session_view s"
  by (simp_all add: session_view_def fun_eq_iff split: option.split)

lemma session_view_store:
  assumes "sessions_wf s" "client_sessions s c t = Some p" "(c', t') \<noteq> (c, t)"
  shows "session_view (store_session p csd (restart_timeout d s)) c' t' = session_view s c' t'"
  using session_unique [OF assms(1,2)] assms(3)
  by (auto simp: session_view_def store_session_def split: option.splits)

lemma session_view_authenticate:
  assumes "sessions_wf s" "openssl_updateCipherSessionAuthentication lib c d t s = Some (res, out, s')" "(c', t') \<noteq> (c, t)"
  shows "session_view s' c' t' = session_view s c' t'"
  using authentication_effect [OF assms(2)] by (elim disjE exE conjE) (simp_all add: session_view_store [OF assms(1) _ assms(3)])

lemma session_view_update:
  assumes "sessions_wf s" "openssl_updateCipherSession lib c d t s = Some (res, out, s')" "(c', t') \<noteq> (c, t)"
  shows "session_view s' c' t' = session_view s c' t'"
  using update_effect [OF assms(2)] by (elim disjE exE conjE) (simp_all add: session_view_store [OF assms(1) _ assms(3)])

lemma session_view_close:
  assumes "sessions_wf s" "client_sessions s c t = Some p" "(c', t') \<noteq> (c, t)"
    and "cleanup_session p csd (remove_session c t tm (with_libcrypto s r)) = Some s'"
  shows "session_view s' c' t' = session_view s c' t'"
proof -
  have "client_sessions s' c' t' = client_sessions s c' t'" using assms(3) by (auto simp: close_session_simps(1) [OF assms(4)])
  moreover have "client_sessions s c' t' \<noteq> Some p" using session_unique [OF assms(1,2)] assms(3) by blast
  ultimately show ?thesis by (simp add: session_view_def close_session_simps(2) [OF assms(4)] split: option.split)
qed

lemma session_view_finalize:
  assumes "sessions_wf s" "openssl_finalizeCipherSession lib c d t s = Some (res, out, s')" "(c', t') \<noteq> (c, t)"
  shows "session_view s' c' t' = session_view s c' t'"
  using finalize_effect [OF assms(2)] by (elim disjE exE conjE) (auto intro: session_view_close [OF assms(1) _ assms(3)])

lemma session_view_only_libcrypto: "only_libcrypto s s' \<Longrightarrow> session_view s' = session_view s"
  by (metis only_libcrypto_def session_view_frame(2))

lemma session_view_add:
  assumes "client_sessions s c' t' \<noteq> Some (os_next s)" "(c', t') \<noteq> (c, csd_cipherSessionToken csd)"
  shows "session_view (add_session c csd s) c' t' = session_view s c' t'"
proof -
  have "client_sessions (add_session c csd s) c' t' = client_sessions s c' t'" using assms(2) by auto
  then show ?thesis using assms(1) by (auto simp: session_view_def split: option.splits)
qed

lemma session_view_initialize:
  assumes "sessions_wf s" "openssl_initializeCipherSession lib c iv k op m ep sp g s = (res, tok, s')" "(c', t') \<noteq> (c, tok)"
  shows "session_view s' c' t' = session_view s c' t'"
proof -
  have "os_objects s (os_next s) = None" using assms(1) by (cases "os_objects s (os_next s)") (auto simp: sessions_wf_def)
  then have fresh: "client_sessions s c' t' \<noteq> Some (os_next s)" using sessions_wf_session [OF assms(1)] by (force simp: session_ok_def)
  from initialize_effect [OF assms(2)] show ?thesis
  proof (elim disjE exE conjE)
    fix csd r
    assume "s' = add_session c csd (with_libcrypto s r)" "csd_cipherSessionToken csd = tok"
    then show ?thesis using session_view_add [of "with_libcrypto s r" c' t' c csd] fresh assms(3) by simp
  qed (simp add: session_view_only_libcrypto)
qed

end
