(* ===== verification/Openssl_Crypto.thy ===== *)
theory Openssl_Crypto
  imports Openssl_Runs
begin

section \<open>What the OpenSSL plugins compute\<close>

text \<open>
  What comes back when encrypted data is decrypted, for the cryptography plugin, for keys that are kept in an SQLCipher
  collection, and for the plugin that encrypts secrets; that a cipher session computes the same as one call; and how the plugin
  behaves when the library reports an error. What the proofs rely on of the library is stated as predicates on its calls.
\<close>

subsection \<open>What the library promises\<close>

text \<open>The documented behaviour of the cipher functions: decrypting what was encrypted under the same key and vector.\<close>

definition decryption_inverts :: "('c, 'm, 'p, 'r) libcrypto \<Rightarrow> evp_cipher \<Rightarrow> bool" where
  "decryption_inverts lib e \<longleftrightarrow>
     (\<forall>key iv data c c1 c2 out last_block c'.
        EVP_EncryptInit_ex lib (Some e) (Some (key, iv)) c = Some c1 \<and> EVP_EncryptUpdate lib data c1 = Some (out, c2)
          \<and> EVP_EncryptFinal_ex lib c2 = Some last_block
        \<longrightarrow> (\<exists>d1 d2 x y. EVP_DecryptInit_ex lib (Some e) (Some (key, iv)) c' = Some d1
              \<and> EVP_DecryptUpdate lib (out @ last_block) d1 = (True, x, d2) \<and> EVP_DecryptFinal_ex lib d2 = (True, y) \<and> x @ y = data))"

definition contexts_available :: "('c, 'm, 'p, 'r) libcrypto \<Rightarrow> bool" where
  "contexts_available lib \<longleftrightarrow> (\<forall>r. fst (EVP_CIPHER_CTX_new lib r) \<noteq> None)"

definition urandom_fills :: "('c, 'm, 'p, 'r) libcrypto \<Rightarrow> bool" where
  "urandom_fills lib \<longleftrightarrow> (\<forall>n r. length (fst (dev_urandom lib n r)) = n)"

lemma new_context:
  assumes "contexts_available lib"
  obtains c r1 where "EVP_CIPHER_CTX_new lib r = (Some c, r1)"
  using assms by (cases "EVP_CIPHER_CTX_new lib r") (auto simp: contexts_available_def dest!: spec [of _ r])

lemma aes_encrypt_plaintext_steps:
  assumes "aes_encrypt_plaintext lib (Some e) iv key data r = Some (Some x, r1)"
  obtains c c1 c2 out last_block where "EVP_EncryptInit_ex lib (Some e) (Some (key, iv)) c = Some c1"
    "EVP_EncryptUpdate lib data c1 = Some (out, c2)" "EVP_EncryptFinal_ex lib c2 = Some last_block" "x = out @ last_block"
    "key \<noteq> []"
  using assms
  by (auto simp: aes_encrypt_plaintext_def with_context_def split: if_splits prod.splits option.splits bind_splits)

lemma aes_decrypt_inverts:
  assumes "decryption_inverts lib e" "contexts_available lib" "aes_encrypt_plaintext lib (Some e) iv key data r = Some (Some x, r1)" "x \<noteq> []"
  shows "\<exists>r3. aes_decrypt_ciphertext lib (Some e) iv key x r2 = Some (Some data, r3)"
proof -
  obtain c c1 c2 out last_block where enc: "EVP_EncryptInit_ex lib (Some e) (Some (key, iv)) c = Some c1"
    "EVP_EncryptUpdate lib data c1 = Some (out, c2)" "EVP_EncryptFinal_ex lib c2 = Some last_block"
    and x: "x = out @ last_block" and k: "key \<noteq> []"
    by (rule aes_encrypt_plaintext_steps [OF assms(3)])
  obtain c' r3 where c': "EVP_CIPHER_CTX_new lib r2 = (Some c', r3)" by (rule new_context [OF assms(2)])
  obtain d1 d2 a b where "EVP_DecryptInit_ex lib (Some e) (Some (key, iv)) c' = Some d1"
    "EVP_DecryptUpdate lib x d1 = (True, a, d2)" "EVP_DecryptFinal_ex lib d2 = (True, b)" "a @ b = data"
    using assms(1) enc unfolding decryption_inverts_def x by metis
  then show ?thesis using assms(4) k by (simp add: aes_decrypt_ciphertext_def with_context_def c' decrypt_update_def decrypt_final_def)
qed

text \<open>
  The wrapped functions: whatever was encrypted comes back. That the data is one zero byte is only seen by their callers.
\<close>

lemma openssl_aes_round_trip:
  assumes "getEvpCipher m (length key) = Some e" "decryption_inverts lib e" "contexts_available lib"
    and "openssl_aes_encrypt_plaintext lib m data key iv r = Some (x, r1)" "x \<noteq> []"
  shows "\<exists>r3. openssl_aes_decrypt_ciphertext lib m x key iv r2 = Some (data, r3)"
proof -
  have "aes_encrypt_plaintext lib (Some e) iv key data r = Some (Some x, r1)"
    using assms(1,4,5) by (auto simp: openssl_aes_encrypt_plaintext_def split: option.splits)
  from aes_decrypt_inverts [OF assms(2,3) this assms(5), of r2] show ?thesis
    by (auto simp: openssl_aes_decrypt_ciphertext_def assms(1))
qed

subsection \<open>Encryption with a key in hand\<close>

definition plain_mode :: "int \<Rightarrow> bool" where
  "plain_mode m \<longleftrightarrow> m \<in> {BlockModeEcb, BlockModeCbc, BlockModeCfb1, BlockModeCfb8, BlockModeCfb128, BlockModeOfb, BlockModeCtr}"

definition aes_key :: "Key \<Rightarrow> bool" where
  "aes_key k \<longleftrightarrow> key_algorithm k = AlgorithmAes \<and> key_size k \<in> {128, 192, 256} \<and> int (length (key_secretKey k)) * 8 = key_size k"

lemma getEvpCipher_aes_key:
  "aes_key k \<Longrightarrow> plain_mode m \<Longrightarrow> getEvpCipher m (length (key_secretKey k)) = Some (EVP_aes (key_size k) m)"
  by (auto simp: getEvpCipher_def aes_key_def plain_mode_def Let_def)

lemma openssl_encrypt_decrypt:
  assumes "aes_key k" "plain_mode m" "decryption_inverts lib (EVP_aes (key_size k) m)" "contexts_available lib"
    and "openssl_encrypt lib data iv k m EncryptionPaddingNone [] s = Some (res, (x, tag), s1)" "crypto_succeeded res"
  shows "\<exists>s3. openssl_decrypt lib x iv k m EncryptionPaddingNone [] [] s2 =
     (if data = [CHR 0x00] then Some (crypto_failure Crypto_CryptoPluginDecryptionError, ([], VerificationStatusUnknown), s3)
      else Some (crypto_success, (data, StatusVerificationFailed), s3)) \<and> only_libcrypto s2 s3"
proof -
  note e = getEvpCipher_aes_key [OF assms(1,2)]
  have k: "key_algorithm k = AlgorithmAes" "key_secretKey k \<noteq> []" using assms(1) by (auto simp: aes_key_def)
  have enc: "\<not> wrong_iv iv AlgorithmAes m"
    "\<exists>r1. openssl_aes_encrypt_plaintext lib m data (key_secretKey k) iv (os_libcrypto s) = Some (x, r1)" "x \<noteq> []"
    using assms(5,6) k by (auto simp: openssl_encrypt_def openssl_encryptAes_def split: if_splits option.splits)
  then obtain r1 where r1: "openssl_aes_encrypt_plaintext lib m data (key_secretKey k) iv (os_libcrypto s) = Some (x, r1)" by blast
  have "data \<noteq> []"
    using r1 enc(3) by (auto simp: openssl_aes_encrypt_plaintext_def aes_encrypt_plaintext_def)
  moreover obtain r3 where "openssl_aes_decrypt_ciphertext lib m x (key_secretKey k) iv (os_libcrypto s2) = Some (data, r3)"
    using openssl_aes_round_trip [OF e assms(3,4) r1 enc(3)] by blast
  ultimately show ?thesis using k enc(1)
    by (intro exI [of _ "with_libcrypto s2 r3"]) (simp add: openssl_decrypt_def openssl_decryptAes_def)
qed

subsection \<open>Encryption with a key in a collection\<close>

lemma reported_key_aes [simp]:
  "key_algorithm (reported_key pn k) = key_algorithm k" "key_size (reported_key pn k) = key_size k"
  by (simp_all add: reported_key_def Key_setFilterData_def)

lemma aes_key_reported [simp]: "aes_key (reported_key pn k) = aes_key k"
  by (simp add: aes_key_def)

lemma generate_aes_key_success:
  assumes "key_algorithm t = AlgorithmAes" "key_size t \<in> {128, 192, 256}" "urandom_fills lib" "generate_aes_key lib t k s = (res, k1, s1)"
  obtains bytes where "crypto_succeeded res" "k1 = t\<lparr>key_secretKey := bytes\<rparr>" "int (length bytes) * 8 = key_size t" "only_libcrypto s s1"
proof -
  obtain buf r where b: "dev_urandom lib (nat (key_size t div 8)) (os_libcrypto s) = (buf, r)" by fastforce
  have "length buf = nat (key_size t div 8)" using assms(3) b unfolding urandom_fills_def by (metis fst_conv)
  moreover have "openssl_generateRandomData lib DevURandom (nat (key_size t div 8)) s = (crypto_success, buf, with_libcrypto s r)"
    using b assms(2) by (auto simp: openssl_generateRandomData_def)
  ultimately show ?thesis using that [of buf] assms by (auto simp: generate_aes_key_def)
qed

lemma key_fits_secret: "key_fits t \<Longrightarrow> block_fits (length bytes) \<Longrightarrow> key_fits (t\<lparr>key_secretKey := bytes\<rparr>)"
  by (simp add: key_fits_def)

text \<open>A key by reference is read from its collection, which changes nothing there.\<close>

lemma with_full_key_stored:
  assumes "sc_ready s" and "sc_engine_ready s" and "id_collectionName (key_identifier k) \<in> sc_unlocked s"
    and "\<not> invalid_key_identifier (key_identifier k)" and "key_fits k" and "id_storagePluginName (key_identifier k) = pn"
    and "sc_stored s (id_collectionName (key_identifier k), id_name (key_identifier k))
        = Some (Key_serialize k LossySerializationMode, key_filterData k)"
    and "key_identifier t = key_identifier k" and "with_full_key pn t unset f (s, o1) = (res, out, s1, o2)"
  shows "f (reported_key pn k) o1 = (res, out, o2)" "sc_ready s1" "sc_unlocked s1 = sc_unlocked s" "sc_stored s1 = sc_stored s"
proof -
  let ?c = "id_collectionName (key_identifier k)" and ?n = "id_name (key_identifier k)"
  have n: "?c \<noteq> []" "?n \<noteq> []" using assms(4) by (auto simp: invalid_key_identifier_def)
  obtain q k1 s2 where q: "SqlCipherPlugin_storedKey_internal pn (key_identifier k) new_Key s = (q, k1, s2)" by (metis prod_cases3)
  from storedKey_internal_ready [OF assms(1-5,7) q] have k1: "q = crypto_success" "k1 = reported_key pn k" by simp_all
  have f: "f (reported_key pn k) o1 = (res, out, o2) \<and> s1 = s2"
    using assms(6,8,9) n(2) q k1
    by (auto simp: with_full_key_def SqlCipherPlugin_getFullKey_def query_storage_half_def on_crypto_half_def split: prod.splits)
  then show "f (reported_key pn k) o1 = (res, out, o2)" by simp
  obtain g y s3 where x: "SqlCipherPlugin_getSecret ?c ?n s = (g, y, s3)" by (metis prod_cases3)
  moreover have "s1 = s3" using q f x assms(4)
    by (auto simp: SqlCipherPlugin_storedKey_internal_def Let_def split: if_splits prod.splits)
  ultimately have g: "SqlCipherPlugin_getSecret ?c ?n s = (g, y, s1)" by simp
  have "succeeded g" using sc_getSecret_ready [OF assms(1-3,7) n g] by simp
  with sc_getSecret_effect [OF assms(1) g] show "sc_ready s1" "sc_unlocked s1 = sc_unlocked s" "sc_stored s1 = sc_stored s"
    by (simp_all add: same_contents_def)
qed

text \<open>
  C5. Encryption with a key that is kept in an SQLCipher collection, from end to end. Let the template name an unlocked collection of a working
  database and ask for an AES key of 128, 192 or 256 bits, and let OpenSSL do what it documents. Then \<open>generateAndStoreKey\<close> succeeds and
  does not give the secret part away; and what \<open>encrypt\<close> returned for a reference to the key, in a mode without authentication, \<open>decrypt\<close>
  turns back into the data. There is one exception: data of a single zero byte is encrypted, but its decryption is reported as an error.
\<close>

theorem stored_aes_key_round_trip:
  assumes "sc_ready s" and "sc_engine_ready s" and "id_collectionName (key_identifier t) \<in> sc_unlocked s"
    and "\<not> invalid_key_identifier (key_identifier t)" and "id_storagePluginName (key_identifier t) = pn"
    and "key_algorithm t = AlgorithmAes" and "key_size t \<in> {128, 192, 256}" and "key_fits t"
    and "\<not> KeyPairGenerationParameters_isValid qv kpg" and "\<not> KeyDerivationParameters_isValid kdf"
    and "urandom_fills lib" and "contexts_available lib" and "decryption_inverts lib (EVP_aes (key_size t) m)" and "plain_mode m"
    and "plugin = sqlcipher_crypto pn env (openssl_crypto lib qv)"
    and "cp_generateAndStoreKey plugin t kpg kdf v km (s, o1) = (r1, k1, s1, o2)"
    and "CryptoPlugin.cp_encrypt plugin data iv t m EncryptionPaddingNone [] v (s1, o2) = (r2, (x, tag), s2, o3)" and "crypto_succeeded r2"
    and "sc_engine_ready s2"
    and "CryptoPlugin.cp_decrypt plugin x iv t m EncryptionPaddingNone [] [] v (s2, o3) = (r3, (y, status), s3, o4)"
  shows "crypto_succeeded r1 \<and> key_secretKey k1 = []
    \<and> (if data = [CHR 0x00] then cr_errorCode r3 = Crypto_CryptoPluginDecryptionError \<and> y = [] else crypto_succeeded r3 \<and> y = data)"
proof -
  obtain r0 k o5 where g: "openssl_generateKey lib qv t kpg kdf t o1 = (r0, k, o5)" by (metis prod_cases3)
  then have "generate_aes_key lib t t o1 = (r0, k, o5)" using assms(9,10) by (simp add: openssl_generateKey_def)
  with assms(6,7,11) obtain bytes where k: "crypto_succeeded r0" "k = t\<lparr>key_secretKey := bytes\<rparr>" "int (length bytes) * 8 = key_size t"
    by (rule generate_aes_key_success)
  have i: "key_identifier k = key_identifier t" and aes: "aes_key k" using k assms(6,7) by (simp_all add: aes_key_def)
  have fits: "key_fits k" using assms(7,8) k by (auto intro!: key_fits_secret simp: block_fits_def)
  obtain r4 k4 s4 where st: "store_full_key r0 k km s = (r4, k4, s4)" by (metis prod_cases3)
  have gs: "r1 = r4" "k1 = k4" "s1 = s4"
    using assms(4,15,16) g k(1) st
    by (auto simp: sqlcipher_crypto_def openssl_crypto_def SqlCipherPlugin_generateAndStoreKey_def on_crypto_half_def query_storage_half_def)
  note ready = store_full_key_ready [OF assms(1,2) _ _ fits st, unfolded i, OF assms(3,4)]
  have s1: "sc_ready s1" "sc_engine_ready s1" "id_collectionName (key_identifier k) \<in> sc_unlocked s1"
    "sc_stored s1 (id_collectionName (key_identifier k), id_name (key_identifier k)) = Some (Key_serialize k LossySerializationMode, key_filterData k)"
    using ready gs assms(3) i by simp_all
  note id = assms(4) [folded i] fits assms(5) [folded i]
  have e: "with_full_key pn t ([], []) (guarded ([], []) \<circ> (\<lambda>k. openssl_encrypt lib data iv k m EncryptionPaddingNone [])) (s1, o2)
      = (r2, (x, tag), s2, o3)"
    using assms(15,17) by (simp add: sqlcipher_crypto_def openssl_crypto_def comp_def)
  note enc = with_full_key_stored [OF s1(1-3) id s1(4) i [symmetric] e]
  have d: "with_full_key pn t ([], 0) (guarded ([], 0) \<circ> (\<lambda>k. openssl_decrypt lib x iv k m EncryptionPaddingNone [] [])) (s2, o3)
      = (r3, (y, status), s3, o4)"
    using assms(15,20) by (simp add: sqlcipher_crypto_def openssl_crypto_def comp_def)
  have s2: "id_collectionName (key_identifier k) \<in> sc_unlocked s2"
    "sc_stored s2 (id_collectionName (key_identifier k), id_name (key_identifier k)) = Some (Key_serialize k LossySerializationMode, key_filterData k)"
    using s1 enc(3,4) by simp_all
  note dec = with_full_key_stored [OF enc(2) assms(19) s2(1) id s2(2) i [symmetric] d]
  have "openssl_encrypt lib data iv (reported_key pn k) m EncryptionPaddingNone [] o2 = Some (r2, (x, tag), o3)"
    using enc(1) assms(18) by (auto simp: guarded_def split: option.splits)
  moreover have "aes_key (reported_key pn k)" "decryption_inverts lib (EVP_aes (key_size (reported_key pn k)) m)"
    using aes assms(13) k(2) by simp_all
  ultimately obtain o5 where "openssl_decrypt lib x iv (reported_key pn k) m EncryptionPaddingNone [] [] o3 =
     (if data = [CHR 0x00] then Some (crypto_failure Crypto_CryptoPluginDecryptionError, ([], VerificationStatusUnknown), o5)
      else Some (crypto_success, (data, StatusVerificationFailed), o5))"
    using openssl_encrypt_decrypt assms(12,14,18) by blast
  then show ?thesis using dec(1) ready gs k(1) by (auto simp: guarded_def CryptoResult_of_error_def)
qed

text \<open>
  A library that keeps every promise: a cipher that appends one byte, digests that are the data itself, and an update of a signature
  that fails for one input.
\<close>

type_synonym demo_context = "evp_cipher option \<times> (qbytes \<times> qbytes) option"

definition demo_init :: "evp_cipher option \<Rightarrow> (qbytes \<times> qbytes) option \<Rightarrow> demo_context \<Rightarrow> demo_context option" where
  "demo_init e k c = Some (if e = None then fst c else e, if k = None then snd c else k)"

definition demo_libcrypto :: "(demo_context, qbytes, qbytes, nat) libcrypto" where
  "demo_libcrypto =
     \<lparr>RAND_add = (\<lambda>_ _ r. r), RAND_bytes = (\<lambda>n r. (Some (replicate n CHR ''r''), r)),
      dev_urandom = (\<lambda>n r. (replicate n CHR ''u'', r)), OPENSSL_malloc = (\<lambda>r. (True, r)),
      PKCS5_PBKDF2_HMAC = (\<lambda>p s _ _ n. Some (take n (p @ s @ replicate n CHR ''0''))),
      EVP_CIPHER_CTX_new = (\<lambda>r. (Some (None, None), r)),
      EVP_EncryptInit_ex = demo_init, EVP_DecryptInit_ex = demo_init,
      EVP_CTRL_SET_IVLEN = (\<lambda>_ _ c. Some c), EVP_CTRL_SET_TAG = (\<lambda>_ _ _ c. Some c), EVP_CTRL_GET_TAG = (\<lambda>_ n c. Some (replicate n CHR ''t'')),
      EVP_EncryptUpdate = (\<lambda>d c. Some (d, c)), EVP_EncryptUpdate_aad = (\<lambda>_ c. Some c), EVP_EncryptUpdate_length = (\<lambda>_ c. Some c),
      EVP_EncryptFinal_ex = (\<lambda>_. Some ''#''),
      EVP_DecryptUpdate = (\<lambda>d c. (True, butlast d, c)), EVP_DecryptUpdate_aad = (\<lambda>_ c. Some c), EVP_DecryptUpdate_length = (\<lambda>_ c. Some c),
      EVP_DecryptFinal_ex = (\<lambda>_. (True, [])),
      EVP_MD_CTX_create = (\<lambda>r. (Some [], r)), EVP_DigestInit_ex = (\<lambda>_ m. Some m), EVP_DigestUpdate = (\<lambda>d m. Some (m @ d)),
      EVP_DigestFinal_ex = Some,
      EVP_DigestSignInit = (\<lambda>_ _ m. Some m), EVP_DigestSignUpdate = (\<lambda>d m. if d = ''bad'' then None else Some (m @ d)),
      EVP_DigestSignFinal_size = (\<lambda>_. True), EVP_DigestSignFinal = Some,
      EVP_DigestVerifyInit = (\<lambda>_ _ m. Some m), EVP_DigestVerifyUpdate = (\<lambda>d m. Some (m @ d)),
      EVP_DigestVerifyFinal = (\<lambda>x m. if x = m then 1 else 0),
      BIO_write = length,
      PEM_read_bio_PrivateKey = (\<lambda>_ d. (Some d, False)), PEM_read_bio_PUBKEY = (\<lambda>_ d. (Some d, False)),
      PEM_write_bio_PrivateKey = Some, PEM_write_bio_PUBKEY = Some, PEM_write_bio_RSAPrivateKey = Some, PEM_write_bio_RSA_PUBKEY = Some,
      BN_set_word = (\<lambda>_. True), RSA_generate_key_ex = (\<lambda>_ _ r. (Some ''rsa'', r)),
      EVP_PKEY_base_id = (\<lambda>_. EVP_PKEY_RSA), EVP_PKEY_bits = (\<lambda>_. 2048), PKEY_call = (\<lambda>_ _ r. (True, r)),
      EVP_PKEY_encrypt = (\<lambda>_ d _ r. (Some d, r)), EVP_PKEY_decrypt = (\<lambda>_ d _ r. (Some d, r)),
      EC_call = (\<lambda>_ _ r. (True, r)), EVP_PKEY_keygen = (\<lambda>_ r. (Some ''ec'', r))\<rparr>"

definition demo_conversions :: qvariant_conversions where
  "demo_conversions = \<lparr>qv_toInt = int \<circ> length, qv_toULongLong = length, qv_toByteArray = id\<rparr>"

lemma demo_promises:
  "decryption_inverts demo_libcrypto e" "contexts_available demo_libcrypto" "urandom_fills demo_libcrypto"
  by (simp_all add: decryption_inverts_def contexts_available_def urandom_fills_def demo_libcrypto_def demo_init_def butlast_append)

abbreviation demo_openssl_state :: "(demo_context, qbytes, nat) OpenSslCryptoPlugin" where
  "demo_openssl_state \<equiv> new_OpenSslCryptoPlugin demo_libcrypto 0"

abbreviation demo_sqlcipher_openssl :: "(demo_context, qbytes, nat) OpenSslCryptoPlugin sqlcipher_crypto_state CryptoPlugin" where
  "demo_sqlcipher_openssl \<equiv> sqlcipher_crypto ''sc'' demo_env (openssl_crypto demo_libcrypto demo_conversions)"

definition demo_aes_template :: Key where
  "demo_aes_template = demo_key\<lparr>key_algorithm := AlgorithmAes, key_size := 128\<rparr>"

definition demo_generated :: "CryptoResult \<times> Key \<times> (demo_context, qbytes, nat) OpenSslCryptoPlugin sqlcipher_crypto_state" where
  "demo_generated = cp_generateAndStoreKey demo_sqlcipher_openssl demo_aes_template demo_kpg demo_kdf [] demo_key
     (demo_open_vault, demo_openssl_state)"

definition demo_encrypted :: "CryptoResult \<times> (qbytes \<times> qbytes) \<times> (demo_context, qbytes, nat) OpenSslCryptoPlugin sqlcipher_crypto_state" where
  "demo_encrypted = CryptoPlugin.cp_encrypt demo_sqlcipher_openssl ''data'' (replicate 16 CHR ''i'') demo_aes_template BlockModeCbc
     EncryptionPaddingNone [] [] (snd (snd demo_generated))"

lemma demo_encrypted_ok: "crypto_succeeded (fst demo_encrypted)" "sc_engine_ready (fst (snd (snd demo_encrypted)))"
  by (code_simp, code_simp)

theorem stored_aes_key_round_trip_witness:
  "let (r1, k1, z1) = demo_generated; (r2, (x, tag), z2) = demo_encrypted;
       (r3, (y, status), z3) = CryptoPlugin.cp_decrypt demo_sqlcipher_openssl x (replicate 16 CHR ''i'') demo_aes_template BlockModeCbc
          EncryptionPaddingNone [] [] [] z2
   in crypto_succeeded r1 \<and> key_secretKey k1 = [] \<and> crypto_succeeded r3 \<and> y = ''data''"
proof -
  obtain r1 k1 s1 o2 where g: "demo_generated = (r1, k1, s1, o2)" by (metis prod_cases4)
  obtain r2 x tag s2 o3 where e: "demo_encrypted = (r2, (x, tag), s2, o3)" by (metis prod_cases5 prod.collapse)
  obtain r3 y status s3 o4 where d: "CryptoPlugin.cp_decrypt demo_sqlcipher_openssl x (replicate 16 CHR ''i'') demo_aes_template BlockModeCbc
      EncryptionPaddingNone [] [] [] (s2, o3) = (r3, (y, status), s3, o4)"
    by (metis prod.collapse)
  have a: "sc_ready demo_open_vault" "sc_engine_ready demo_open_vault" "id_collectionName (key_identifier demo_aes_template) \<in> sc_unlocked demo_open_vault"
    "\<not> invalid_key_identifier (key_identifier demo_aes_template)" "key_fits demo_aes_template"
    by (code_simp, code_simp, simp add: demo_open_vault_member demo_aes_template_def, code_simp,
        simp add: demo_aes_template_def key_fits_def demo_key_def new_Key_def int_fits_def block_fits_def FilterDataFieldType_def
          TypeCryptoKey_def qmap_ok_def)
  have "crypto_succeeded r2" "sc_engine_ready s2" using demo_encrypted_ok unfolding e by simp_all
  with stored_aes_key_round_trip [OF a(1-4) _ _ _ a(5) _ _ demo_promises(3,2,1) _ refl g [unfolded demo_generated_def]
      e [unfolded demo_encrypted_def g, simplified] _ _ d]
  have "crypto_succeeded r1 \<and> key_secretKey k1 = [] \<and> crypto_succeeded r3 \<and> y = ''data''"
    by (simp add: demo_aes_template_def demo_key_def plain_mode_def KeyPairGenerationParameters_isValid_def demo_kpg_def
        KeyDerivationParameters_isValid_def demo_kdf_def)
  then show ?thesis unfolding g e using d by simp
qed

subsection \<open>Encryption of secrets\<close>

text \<open>
  The plugin that encrypts secrets gives every secret back but one: a secret of a single zero byte is encrypted and can never
  be decrypted again.
\<close>

theorem secret_encryption_round_trip:
  assumes "decryption_inverts lib (EVP_aes 256 BlockModeCbc)" "contexts_available lib" "length key = 32"
    and "OpenSslPlugin_encryptSecret lib sha256 secret key r = Some (res, x, r1)" "succeeded res"
  shows "\<exists>r3. OpenSslPlugin_decryptSecret lib sha256 x key r2 =
     Some (if secret = [CHR 0x00] then (failure SecretsPluginDecryptionError, [], r3) else (success, secret, r3))"
proof -
  have e: "getEvpCipher BlockModeCbc (length key) = Some (EVP_aes 256 BlockModeCbc)" using assms(3) by (simp add: getEvpCipher_def)
  have x: "openssl_aes_encrypt_plaintext lib BlockModeCbc secret key (take 16 (sha256 key)) r = Some (x, r1)" "x \<noteq> []"
    using assms(4,5) by (auto simp: OpenSslPlugin_encryptSecret_def split: if_splits)
  then have "secret \<noteq> []" by (auto simp: openssl_aes_encrypt_plaintext_def aes_encrypt_plaintext_def)
  with openssl_aes_round_trip [OF e assms(1,2) x, of r2] show ?thesis by (auto simp: OpenSslPlugin_decryptSecret_def)
qed

text \<open>
  Re-encryption of the SQLite plugin's secrets with this encryption plugin. An encryption plugin answers as the OpenSSL plugin when each of its answers is one the
  OpenSSL plugin gives in some state of the library.
\<close>

definition answers_as_openssl :: "('c, 'm, 'p, 'r) libcrypto \<Rightarrow> (qbytes \<Rightarrow> qbytes) \<Rightarrow> EncryptionPlugin \<Rightarrow> bool" where
  "answers_as_openssl lib sha256 e \<longleftrightarrow>
     (\<forall>p key. \<exists>r r1. OpenSslPlugin_encryptSecret lib sha256 p key r = Some (fst (ep_encryptSecret e p key), snd (ep_encryptSecret e p key), r1))
     \<and> (\<forall>x key. \<exists>r r1. OpenSslPlugin_decryptSecret lib sha256 x key r = Some (fst (ep_decryptSecret e x key), snd (ep_decryptSecret e x key), r1))"

lemma openssl_reencrypted_secret:
  assumes "answers_as_openssl lib sha256 e" "decryption_inverts lib (EVP_aes 256 BlockModeCbc)" "contexts_available lib" "length new = 32"
    and "ep_decryptSecret e x old = (r1, p)" "succeeded r1" "ep_encryptSecret e p new = (r2, y)" "succeeded r2"
  shows "ep_decryptSecret e y new = (success, p) \<and> r1 = success"
proof -
  have "\<exists>r r0. OpenSslPlugin_encryptSecret lib sha256 p new r = Some (r2, y, r0)"
    "\<exists>r r0. OpenSslPlugin_decryptSecret lib sha256 x old r = Some (r1, p, r0)"
    using assms(1,5,7) unfolding answers_as_openssl_def by (metis fst_conv snd_conv)+
  then obtain r r0 r' r0' where enc: "OpenSslPlugin_encryptSecret lib sha256 p new r = Some (r2, y, r0)"
    and dec: "OpenSslPlugin_decryptSecret lib sha256 x old r' = Some (r1, p, r0')" by blast
  from dec assms(6) have p: "p \<noteq> [CHR 0x00]" "r1 = success" by (auto simp: OpenSslPlugin_decryptSecret_def split: if_splits)
  obtain s s1 where d: "OpenSslPlugin_decryptSecret lib sha256 y new s = Some (fst (ep_decryptSecret e y new), snd (ep_decryptSecret e y new), s1)"
    using assms(1) unfolding answers_as_openssl_def by metis
  from secret_encryption_round_trip [OF assms(2-4) enc assms(8), of s] p(1) d show ?thesis by (simp add: p(2) prod_eq_iff)
qed

text \<open>
  A successful re-encryption loses nothing: every selected secret could be decrypted before, and decrypts to the same plaintext under the new key. A secret of one
  zero byte, which cannot be decrypted, makes the re-encryption of its collection fail.
\<close>

theorem openssl_reencryption_keeps_secrets:
  assumes "sqlite_ready d" "SqlitePlugin_reencrypt c n old new e d = (r, d')"
    and "answers_as_openssl lib sha256 e" "decryption_inverts lib (EVP_aes 256 BlockModeCbc)" "contexts_available lib" "length new = 32"
    and "sqlite_stored d i = Some (x, fd)"
  shows "if succeeded r
    then \<exists>y. sqlite_stored d' i = Some (y, fd)
           \<and> (if reencrypted c n i
              then succeeded (fst (ep_decryptSecret e x old)) \<and> ep_decryptSecret e y new = ep_decryptSecret e x old else y = x)
    else sqlite_store d' = sqlite_store d"
proof (cases "succeeded r \<and> reencrypted c n i")
  case True
  then have "reencrypted_secrets c n old new e d d'" using reencrypt_effect [OF assms(1,2)] by simp
  then obtain y p r1 r2 where "sqlite_stored d' i = Some (y, fd)" "ep_decryptSecret e x old = (r1, p)" "succeeded r1"
    "ep_encryptSecret e p new = (r2, y)" "succeeded r2"
    using assms(7) True unfolding reencrypted_secrets_def by metis
  with openssl_reencrypted_secret [OF assms(3-6)] True show ?thesis by fastforce
next
  case False
  then show ?thesis using reencrypt_effect [OF assms(1,2)] assms(7) by (cases i) (auto simp: reencrypted_secrets_def)
qed

text \<open>An empty lock code and one of a single zero byte are the same code.\<close>

lemma empty_code_is_zero_code:
  "OpenSslPlugin_deriveKeyFromCode lib [] salt = OpenSslPlugin_deriveKeyFromCode lib [CHR 0x00] salt"
  by (simp add: OpenSslPlugin_deriveKeyFromCode_def)

text \<open>
  The plugin generates AES keys of any whole number of bytes up to 256, but asks for the mode of the cipher of a key before it checks that there is
  one: with authentication data such a key runs into a null pointer.
\<close>

theorem odd_key_authenticated_encryption_undefined:
  assumes "key_algorithm k = AlgorithmAes" "int (length (key_secretKey k)) * 8 = key_size k" "key_secretKey k \<noteq> []"
    and "key_size k \<notin> {128, 192, 256}" "length iv = 12" "auth \<noteq> []"
  shows "openssl_encrypt lib data iv k BlockModeGcm EncryptionPaddingNone auth s = None"
  using assms
  by (simp add: openssl_encrypt_def openssl_encryptAes_def authenticationTagSize_def wrong_iv_def initializationVectorSize_def
      openssl_aes_auth_encrypt_plaintext_def aes_auth_encrypt_plaintext_def getEvpCipher_def Let_def)

text \<open>
  In GCM mode \<open>encrypt\<close> works without authentication data but returns no tag, and \<open>decrypt\<close> without authentication data sets none;
  the library documents that finalising a GCM decryption without a tag fails. Such data is lost.
\<close>

definition gcm_needs_tag :: "('c, 'm, 'p, 'r) libcrypto \<Rightarrow> evp_cipher \<Rightarrow> bool" where
  "gcm_needs_tag lib e \<longleftrightarrow>
     (\<forall>key iv c d1 data x d2. EVP_DecryptInit_ex lib (Some e) (Some (key, iv)) c = Some d1 \<and> EVP_DecryptUpdate lib data d1 = (True, x, d2)
        \<longrightarrow> \<not> fst (EVP_DecryptFinal_ex lib d2))"

theorem gcm_without_authentication_is_lost:
  assumes "aes_key k" "contexts_available lib" "gcm_needs_tag lib (EVP_aes (key_size k) BlockModeGcm)" "length iv = 12"
  shows "\<exists>s1. openssl_decrypt lib x iv k BlockModeGcm EncryptionPaddingNone [] tag s =
     Some (crypto_failure Crypto_CryptoPluginDecryptionError, ([], VerificationStatusUnknown), s1)"
proof -
  let ?e = "EVP_aes (key_size k) BlockModeGcm"
  obtain c r1 where c: "EVP_CIPHER_CTX_new lib (os_libcrypto s) = (Some c, r1)" by (rule new_context [OF assms(2)])
  have k: "key_algorithm k = AlgorithmAes" "key_secretKey k \<noteq> []" using assms(1) by (auto simp: aes_key_def)
  have e: "getEvpCipher BlockModeGcm (length (key_secretKey k)) = Some ?e" using assms(1) by (auto simp: getEvpCipher_def aes_key_def)
  have "decrypt_update lib x d1 \<bind> (\<lambda>(u, d2). decrypt_final lib d2 \<bind> (\<lambda>l. Some (u @ l))) = None"
    if "EVP_DecryptInit_ex lib (Some ?e) (Some (key_secretKey k, iv)) c = Some d1" for d1
    using assms(3) that unfolding gcm_needs_tag_def
    by (auto simp: decrypt_update_def decrypt_final_def case_prod_unfold Let_def prod_eq_iff split: bind_splits)
  then have "\<exists>r2. openssl_aes_decrypt_ciphertext lib BlockModeGcm x (key_secretKey k) iv (os_libcrypto s) = Some ([], r2)"
    using c by (cases "EVP_DecryptInit_ex lib (Some ?e) (Some (key_secretKey k, iv)) c")
      (auto simp: openssl_aes_decrypt_ciphertext_def aes_decrypt_ciphertext_def with_context_def e)
  then show ?thesis using k assms(4)
    by (auto simp: openssl_decrypt_def openssl_decryptAes_def wrong_iv_def initializationVectorSize_def)
qed

subsection \<open>A session computes what one call computes\<close>

text \<open>
  What is documented of a cipher that can be fed piece by piece: initialising it in two calls is the same as in one, and so is giving it the data
  in two updates. \<open>C\<close> are the contexts of the cipher.
\<close>

definition encryption_streams :: "('c, 'm, 'p, 'r) libcrypto \<Rightarrow> evp_cipher \<Rightarrow> 'c set \<Rightarrow> bool" where
  "encryption_streams lib e C \<longleftrightarrow>
     (\<forall>key iv c. EVP_EncryptInit_ex lib (Some e) (Some (key, iv)) c =
        EVP_EncryptInit_ex lib (Some e) None c \<bind> EVP_EncryptInit_ex lib None (Some (key, iv)))
     \<and> (\<forall>key iv c c1. EVP_EncryptInit_ex lib (Some e) (Some (key, iv)) c = Some c1 \<longrightarrow> c1 \<in> C)
     \<and> (\<forall>a b c. c \<in> C \<longrightarrow> EVP_EncryptUpdate lib (a @ b) c = do {
          (x, c1) \<leftarrow> EVP_EncryptUpdate lib a c;
          (y, c2) \<leftarrow> EVP_EncryptUpdate lib b c1;
          Some (x @ y, c2)
        })
     \<and> (\<forall>a c x c1. c \<in> C \<and> EVP_EncryptUpdate lib a c = Some (x, c1) \<longrightarrow> c1 \<in> C)"

lemma streams_init:
  assumes "encryption_streams lib e C"
  shows "EVP_EncryptInit_ex lib (Some e) (Some (key, iv)) c =
      EVP_EncryptInit_ex lib (Some e) None c \<bind> EVP_EncryptInit_ex lib None (Some (key, iv))"
    "EVP_EncryptInit_ex lib (Some e) (Some (key, iv)) c = Some c1 \<Longrightarrow> c1 \<in> C"
  using assms [unfolded encryption_streams_def, THEN conjunct1] assms [unfolded encryption_streams_def, THEN conjunct2, THEN conjunct1]
  by blast+

lemma streams_append:
  assumes "encryption_streams lib e C" "c \<in> C"
  shows "EVP_EncryptUpdate lib (a @ b) c = do {
      (x, c1) \<leftarrow> EVP_EncryptUpdate lib a c; (y, c2) \<leftarrow> EVP_EncryptUpdate lib b c1; Some (x @ y, c2) }"
    "EVP_EncryptUpdate lib a c = Some (x, c1) \<Longrightarrow> c1 \<in> C"
  using assms(2) assms(1) [unfolded encryption_streams_def, THEN conjunct2, THEN conjunct2, THEN conjunct1]
    assms(1) [unfolded encryption_streams_def, THEN conjunct2, THEN conjunct2, THEN conjunct2]
  by blast+

text \<open>The output of a sequence of updates that all succeed.\<close>

primrec update_all ::
    "('c, 'm, 'p, 'r) libcrypto \<Rightarrow> nat \<Rightarrow> nat \<Rightarrow> qbytes list \<Rightarrow> ('c, 'm, 'r) OpenSslCryptoPlugin
     \<Rightarrow> (qbytes \<times> ('c, 'm, 'r) OpenSslCryptoPlugin) option" where
  "update_all lib c t [] s = Some ([], s)"
| "update_all lib c t (d # ds) s =
     (case openssl_updateCipherSession lib c d t s of
        None \<Rightarrow> None
      | Some (res, out, s1) \<Rightarrow>
          if crypto_succeeded res then map_option (\<lambda>(more, s2). (out @ more, s2)) (update_all lib c t ds s1) else None)"

definition encrypting :: "('c, 'm, 'r) OpenSslCryptoPlugin \<Rightarrow> nat \<Rightarrow> nat \<Rightarrow> int \<Rightarrow> 'c \<Rightarrow> bool" where
  "encrypting s c t m ctx \<longleftrightarrow>
     (\<exists>p csd. client_sessions s c t = Some p \<and> os_objects s p = Some csd \<and> csd_operation csd = OperationEncrypt \<and> csd_blockMode csd = m
        \<and> csd_evp_cipher_ctx csd = Some ctx \<and> csd_evp_md_ctx csd = MdNull)"

lemma update_encrypting:
  assumes "encrypting s c t m ctx" "EVP_EncryptUpdate lib d ctx = Some (out, ctx1)"
  obtains s1 where "openssl_updateCipherSession lib c d t s = Some (crypto_success, out, s1)" "encrypting s1 c t m ctx1"
proof -
  from assms(1) obtain p csd where p: "client_sessions s c t = Some p" "os_objects s p = Some csd" "csd_operation csd = OperationEncrypt"
    "csd_blockMode csd = m" "csd_evp_cipher_ctx csd = Some ctx" "csd_evp_md_ctx csd = MdNull"
    by (auto simp: encrypting_def)
  let ?s1 = "store_session p (csd\<lparr>csd_evp_cipher_ctx := Some ctx1\<rparr>) (restart_timeout csd s)"
  have "openssl_updateCipherSession lib c d t s = Some (crypto_success, out, ?s1)"
    using p assms(2) by (simp add: openssl_updateCipherSession_def with_session_def no_context_def update_cipher_def Let_def)
  moreover have "encrypting ?s1 c t m ctx1" using p by (simp add: encrypting_def store_session_def)
  ultimately show ?thesis by (rule that)
qed

lemma update_all_encrypting:
  assumes "encryption_streams lib e C"
  shows "ctx \<in> C \<Longrightarrow> encrypting s c t m ctx \<Longrightarrow> EVP_EncryptUpdate lib (concat (d # ds)) ctx = Some (out, ctx1)
    \<Longrightarrow> \<exists>s1. update_all lib c t (d # ds) s = Some (out, s1) \<and> encrypting s1 c t m ctx1"
proof (induction ds arbitrary: d s ctx out)
  case Nil
  then have "EVP_EncryptUpdate lib d ctx = Some (out, ctx1)" by simp
  then obtain s1 where "openssl_updateCipherSession lib c d t s = Some (crypto_success, out, s1)" "encrypting s1 c t m ctx1"
    by (rule update_encrypting [OF Nil(2)])
  then show ?case by simp
next
  case (Cons d2 ds)
  from Cons.prems(3) obtain x c1 y where xy: "EVP_EncryptUpdate lib d ctx = Some (x, c1)"
    "EVP_EncryptUpdate lib (concat (d2 # ds)) c1 = Some (y, ctx1)" "out = x @ y"
    using streams_append(1) [OF assms Cons.prems(1), of d "concat (d2 # ds)"] by (auto split: bind_splits)
  have c1: "c1 \<in> C" by (rule streams_append(2) [OF assms Cons.prems(1) xy(1)])
  obtain s1 where s1: "openssl_updateCipherSession lib c d t s = Some (crypto_success, x, s1)" "encrypting s1 c t m c1"
    by (rule update_encrypting [OF Cons.prems(2) xy(1)])
  from Cons.IH [OF c1 s1(2) xy(2)] obtain s2 where "update_all lib c t (d2 # ds) s1 = Some (y, s2)" "encrypting s2 c t m ctx1" by blast
  moreover from this s1(1) xy(3) have "update_all lib c t (d # d2 # ds) s = Some (out, s2)"
    by (simp only: update_all.simps(2) [of lib c t d]) simp
  ultimately show ?case by blast
qed

lemma finalize_encrypting:
  assumes "encrypting s c t m ctx" "m \<noteq> BlockModeGcm" "EVP_EncryptFinal_ex lib ctx = Some last_block"
  shows "\<exists>s1. openssl_finalizeCipherSession lib c d t s = Some (crypto_success, (last_block, VerificationStatusUnknown), s1)
    \<and> client_sessions s1 c t = None"
proof -
  from assms(1) obtain p csd where p: "client_sessions s c t = Some p" "os_objects s p = Some csd" "csd_operation csd = OperationEncrypt"
    "csd_blockMode csd = m" "csd_evp_cipher_ctx csd = Some ctx" "csd_evp_md_ctx csd = MdNull"
    by (auto simp: encrypting_def)
  obtain s1 where s1: "cleanup_session p csd (remove_session c t (csd_timeout csd) s) = Some s1"
    using p(6) by (simp add: cleanup_session_def)
  have "client_sessions s1 c t = None" by (simp add: close_session_simps(1) [OF s1])
  moreover have "openssl_finalizeCipherSession lib c d t s = Some (crypto_success, (last_block, VerificationStatusUnknown), s1)"
    using p s1 assms(2,3) by (simp add: openssl_finalizeCipherSession_def with_session_def no_context_def finalize_cipher_def Let_def)
  ultimately show ?thesis by blast
qed

text \<open>
  C21. A cipher session computes what a single call computes. Where the library's cipher can be fed piece by piece, the key is an AES key, the
  mode is one without authentication, and \<open>encrypt\<close> succeeds on some data, any client with a free token can open a session with the same key and vector,
  pass the data in pieces of any sizes (empty ones too), and close it: all calls succeed, the outputs put together are the ciphertext of the single
  call, and the session is gone.
\<close>

theorem session_encrypts_like_one_call:
  assumes "aes_key k" "plain_mode m" "encryption_streams lib (EVP_aes (key_size k) m) C"
    and "getNextCipherSessionToken (os_cipherSessions s) c \<noteq> 0" "ds \<noteq> []"
    and "openssl_encrypt lib (concat ds) iv k m EncryptionPaddingNone [] s = Some (res, (x, tag), s0)" "crypto_succeeded res"
  shows "\<exists>t s1 out s2 last_block s3.
    openssl_initializeCipherSession lib c iv k OperationEncrypt m EncryptionPaddingNone SignaturePaddingNone DigestSha256 s = (crypto_success, t, s1)
    \<and> update_all lib c t ds s1 = Some (out, s2)
    \<and> openssl_finalizeCipherSession lib c d t s2 = Some (crypto_success, (last_block, VerificationStatusUnknown), s3)
    \<and> out @ last_block = x \<and> client_sessions s3 c t = None"
proof -
  let ?e = "EVP_aes (key_size k) m"
  note e = getEvpCipher_aes_key [OF assms(1,2)]
  have k: "key_algorithm k = AlgorithmAes" "key_secretKey k \<noteq> []" using assms(1) by (auto simp: aes_key_def)
  have m: "m \<noteq> BlockModeGcm" using assms(2) by (auto simp: plain_mode_def)
  have iv: "\<not> wrong_iv iv AlgorithmAes m"
    and "\<exists>r1. openssl_aes_encrypt_plaintext lib m (concat ds) (key_secretKey k) iv (os_libcrypto s) = Some (x, r1)" "x \<noteq> []"
    using assms(6,7) k by (auto simp: openssl_encrypt_def openssl_encryptAes_def split: if_splits option.splits)
  then obtain r1 where r1: "aes_encrypt_plaintext lib (Some ?e) iv (key_secretKey k) (concat ds) (os_libcrypto s) = Some (Some x, r1)"
    by (auto simp: openssl_aes_encrypt_plaintext_def e split: option.splits)
  then obtain c0 c1 c2 out l where c: "EVP_CIPHER_CTX_new lib (os_libcrypto s) = (Some c0, r1)"
    "EVP_EncryptInit_ex lib (Some ?e) (Some (key_secretKey k, iv)) c0 = Some c1" "EVP_EncryptUpdate lib (concat ds) c1 = Some (out, c2)"
    "EVP_EncryptFinal_ex lib c2 = Some l" "x = out @ l"
    by (auto simp: aes_encrypt_plaintext_def with_context_def split: if_splits prod.splits option.splits bind_splits)
  have o: "open_cipher lib (EVP_EncryptInit_ex lib) iv k m c0 = Some c1"
    using c(2) k m e streams_init(1) [OF assms(3), of "key_secretKey k" iv c0] by (simp add: open_cipher_def)
  let ?t = "getNextCipherSessionToken (os_cipherSessions s) c"
  obtain s1 where s1: "openssl_initializeCipherSession lib c iv k OperationEncrypt m EncryptionPaddingNone SignaturePaddingNone DigestSha256 s
      = (crypto_success, ?t, s1)" "encrypting s1 c ?t m c1"
    using k iv assms(4) c(1) o
    by (simp add: openssl_initializeCipherSession_def unsupported_session_def open_session_def open_cipher_session_def encrypting_def Let_def)
  obtain d1 ds1 where ds: "ds = d1 # ds1" using assms(5) by (cases ds) auto
  obtain s2 where s2: "update_all lib c ?t ds s1 = Some (out, s2)" "encrypting s2 c ?t m c2"
    using update_all_encrypting [OF assms(3) streams_init(2) [OF assms(3) c(2)] s1(2)] c(3) unfolding ds by blast
  from finalize_encrypting [OF s2(2) m c(4)] s1(1) s2(1) c(5) show ?thesis by blast
qed

lemma demo_streams: "encryption_streams demo_libcrypto e UNIV"
  by (simp add: encryption_streams_def demo_libcrypto_def demo_init_def)

definition demo_secret_key :: Key where
  "demo_secret_key = demo_aes_template\<lparr>key_secretKey := replicate 16 CHR ''u''\<rparr>"

theorem session_encrypts_like_one_call_witness:
  "\<exists>t s1 out s2 last_block s3.
    openssl_initializeCipherSession demo_libcrypto 7 (replicate 16 CHR ''i'') demo_secret_key OperationEncrypt BlockModeCbc EncryptionPaddingNone
      SignaturePaddingNone DigestSha256 demo_openssl_state = (crypto_success, t, s1)
    \<and> update_all demo_libcrypto 7 t [''da'', [], ''ta''] s1 = Some (out, s2)
    \<and> openssl_finalizeCipherSession demo_libcrypto 7 [] t s2 = Some (crypto_success, (last_block, VerificationStatusUnknown), s3)
    \<and> out @ last_block = ''data#'' \<and> client_sessions s3 7 t = None"
proof -
  have "aes_key demo_secret_key" "plain_mode BlockModeCbc" by (code_simp, code_simp)
  moreover have "getNextCipherSessionToken (os_cipherSessions demo_openssl_state) 7 \<noteq> 0" by code_simp
  moreover obtain s0 where "openssl_encrypt demo_libcrypto (concat [''da'', [], ''ta'']) (replicate 16 CHR ''i'') demo_secret_key BlockModeCbc
      EncryptionPaddingNone [] demo_openssl_state = Some (crypto_success, (''data#'', []), s0)"
    by (simp add: openssl_encrypt_def openssl_encryptAes_def demo_secret_key_def demo_aes_template_def wrong_iv_def initializationVectorSize_def
        openssl_aes_encrypt_plaintext_def aes_encrypt_plaintext_def with_context_def getEvpCipher_def demo_libcrypto_def demo_init_def)
  ultimately show ?thesis
    using session_encrypts_like_one_call [OF _ _ demo_streams _ _ _ , of demo_secret_key BlockModeCbc demo_openssl_state 7
        "[''da'', [], ''ta'']" "replicate 16 CHR ''i''" crypto_success "''data#''" "[]" s0 "[]"] by simp
qed

subsection \<open>The sessions of all clients\<close>

text \<open>
  C30. The sessions of all clients, in every state the plugin can reach, for any library. A session a client has a token for is a live object that knows its
  token, with exactly the one context its operation needs; its timer is running, is not about to be deleted, and refers back to this session. Every
  timer on record belongs to a session; every object belongs to exactly one client and token, so nothing leaks and nothing is shared; and tokens are
  1 to 4, so a client has at most four sessions.
\<close>

theorem openssl_sessions_agree:
  assumes "openssl_reachable lib qv s"
  shows "(\<forall>c t p. client_sessions s c t = Some p \<longrightarrow>
       (\<exists>csd. os_objects s p = Some csd \<and> csd_cipherSessionToken csd = t \<and> contexts_ok csd
          \<and> os_cipherSessionTimeouts s (csd_timeout csd) = Some \<lparr>csl_csd = p, csl_sessionToken = t, csl_clientId = c\<rparr>
          \<and> csd_timeout csd \<in> os_running s \<and> csd_timeout csd \<notin> os_deleteLater s))
    \<and> (\<forall>tm l. os_cipherSessionTimeouts s tm = Some l \<longrightarrow> client_sessions s (csl_clientId l) (csl_sessionToken l) = Some (csl_csd l))
    \<and> (\<forall>p csd. os_objects s p = Some csd \<longrightarrow> (\<exists>!ct. client_sessions s (fst ct) (snd ct) = Some p))
    \<and> (\<forall>c. dom (client_sessions s c) \<subseteq> {1..4})"
proof -
  note wf = sessions_wf_reachable [OF assms]
  have "\<exists>!ct. client_sessions s (fst ct) (snd ct) = Some p" if "os_objects s p = Some csd" for p csd
  proof -
    from wf that obtain c t where ct: "client_sessions s c t = Some p" by (auto simp: sessions_wf_def)
    show ?thesis
    proof (rule ex1I [of _ "(c, t)"])
      fix ct assume "client_sessions s (fst ct) (snd ct) = Some p"
      from session_unique [OF wf ct this] show "ct = (c, t)" by (simp add: prod_eq_iff)
    qed (simp add: ct)
  qed
  moreover have "\<exists>csd. os_objects s p = Some csd \<and> csd_cipherSessionToken csd = t \<and> contexts_ok csd
      \<and> os_cipherSessionTimeouts s (csd_timeout csd) = Some \<lparr>csl_csd = p, csl_sessionToken = t, csl_clientId = c\<rparr>
      \<and> csd_timeout csd \<in> os_running s \<and> csd_timeout csd \<notin> os_deleteLater s" "1 \<le> t" "t \<le> 4"
    if p: "client_sessions s c t = Some p" for c t p
    using sessions_wf_session [OF wf p] wf by (auto simp: session_ok_def sessions_wf_def timeout_ok_def)
  moreover have "client_sessions s (csl_clientId l) (csl_sessionToken l) = Some (csl_csd l)"
    if "os_cipherSessionTimeouts s tm = Some l" for tm l
    using wf that by (simp add: sessions_wf_def timeout_ok_def)
  ultimately show ?thesis by (simp add: subset_iff dom_def) blast
qed

definition demo_rsa_key :: Key where
  "demo_rsa_key = new_Key\<lparr>key_algorithm := AlgorithmRsa, key_publicKey := ''public'', key_privateKey := ''private''\<rparr>"

abbreviation demo_sign_start :: "CryptoResult \<times> nat \<times> (demo_context, qbytes, nat) OpenSslCryptoPlugin" where
  "demo_sign_start \<equiv> openssl_initializeCipherSession demo_libcrypto 7 [] demo_rsa_key OperationSign BlockModeUnknown EncryptionPaddingNone
     SignaturePaddingNone DigestSha256 demo_openssl_state"

definition demo_signing :: "(demo_context, qbytes, nat) OpenSslCryptoPlugin" where
  "demo_signing = snd (snd demo_sign_start)"

lemma demo_signing_reachable: "openssl_reachable demo_libcrypto demo_conversions demo_signing"
proof -
  have "demo_sign_start = (fst demo_sign_start, fst (snd demo_sign_start), demo_signing)" by (simp add: demo_signing_def)
  from stepped [OF loaded start [OF this]] show ?thesis .
qed

lemma demo_signing_session:
  "client_sessions demo_signing 7 1 = Some 1" "map_option csd_operation (os_objects demo_signing 1) = Some OperationSign"
  "map_option csd_evp_md_ctx (os_objects demo_signing 1) = Some (MdLive [])"
  by (code_simp, code_simp, code_simp)

theorem openssl_sessions_agree_witness:
  "\<exists>csd. os_objects demo_signing 1 = Some csd \<and> csd_cipherSessionToken csd = 1
     \<and> os_cipherSessionTimeouts demo_signing (csd_timeout csd) = Some \<lparr>csl_csd = 1, csl_sessionToken = 1, csl_clientId = 7\<rparr>
     \<and> csd_timeout csd \<in> os_running demo_signing"
  using openssl_sessions_agree [OF demo_signing_reachable] demo_signing_session(1) by blast

text \<open>
  C15. Exactly when an operation on a session is undefined. In every reachable state authentication data can be added without harm, and the other operations
  are undefined for one kind of session only: one whose digest context has been destroyed. A further update with data, closing the session, and the
  timeout of the session then use or free the destroyed context. (Closing a signing session is also undefined when the library fails to compute the
  signature, whose buffer is freed twice.) Such a session arises whenever the update of a signing or verifying session fails: the client is told of a failure
  and the session stays open.
\<close>

theorem openssl_sessions_undefined:
  assumes "openssl_reachable lib qv s"
  shows "openssl_updateCipherSessionAuthentication lib c d t s \<noteq> None
    \<and> (openssl_updateCipherSession lib c d t s = None \<longleftrightarrow> d \<noteq> [] \<and> freed_session s c t)
    \<and> (openssl_finalizeCipherSession lib c d t s = None \<longleftrightarrow> freed_session s c t \<or> signature_freed_twice lib s c t)
    \<and> (openssl_timeout tm s = None \<longleftrightarrow>
         (\<exists>l. os_cipherSessionTimeouts s tm = Some l \<and> freed_session s (csl_clientId l) (csl_sessionToken l)))
    \<and> (\<forall>csd m. session_view s c t = Some csd \<and> csd_evp_md_ctx csd = MdLive m \<and> d \<noteq> [] \<and> update_digest lib (csd_operation csd) d m = None
         \<longrightarrow> (\<exists>s'. openssl_updateCipherSession lib c d t s = Some (crypto_failure Crypto_CryptoPluginCipherSessionError, [], s')
               \<and> openssl_reachable lib qv s' \<and> freed_session s' c t))"
proof -
  note wf = sessions_wf_reachable [OF assms]
  have doomed: "\<exists>s'. openssl_updateCipherSession lib c d t s = Some (crypto_failure Crypto_CryptoPluginCipherSessionError, [], s')
      \<and> openssl_reachable lib qv s' \<and> freed_session s' c t"
    if v: "session_view s c t = Some csd" "csd_evp_md_ctx csd = MdLive m" "d \<noteq> []" "update_digest lib (csd_operation csd) d m = None" for csd m
  proof -
    obtain p where p: "client_sessions s c t = Some p" "os_objects s p = Some csd" using v(1) by (auto simp: session_view_def split: option.splits)
    then have "csd_evp_cipher_ctx csd = None" using sessions_wf_session [OF wf p(1)] v(2)
      by (auto simp: session_ok_def contexts_ok_def split: if_splits)
    then have u: "openssl_updateCipherSession lib c d t s = Some (crypto_failure Crypto_CryptoPluginCipherSessionError, [],
        store_session p (csd\<lparr>csd_evp_md_ctx := MdFreed\<rparr>) (restart_timeout csd s))"
      using p v by (simp add: openssl_updateCipherSession_def with_session_def no_context_def Let_def)
    from u stepped [OF assms update [OF u]] p show ?thesis by (auto simp: freed_session_def store_session_def)
  qed
  show ?thesis
    by (intro conjI allI impI, rule authentication_defined [OF wf], rule update_undefined_iff [OF wf], rule finalize_undefined_iff [OF wf],
        rule timeout_undefined_iff [OF wf], elim conjE, rule doomed)
qed

theorem openssl_sessions_undefined_witness:
  "\<exists>s'. openssl_updateCipherSession demo_libcrypto 7 ''bad'' 1 demo_signing = Some (crypto_failure Crypto_CryptoPluginCipherSessionError, [], s')
     \<and> openssl_updateCipherSession demo_libcrypto 7 ''x'' 1 s' = None \<and> openssl_finalizeCipherSession demo_libcrypto 7 [] 1 s' = None"
proof -
  obtain csd where csd: "os_objects demo_signing 1 = Some csd" "csd_operation csd = OperationSign" "csd_evp_md_ctx csd = MdLive []"
    using demo_signing_session(2,3) by auto
  have "session_view demo_signing 7 1 = Some csd" using csd(1) demo_signing_session(1) by (simp add: session_view_def)
  moreover have "update_digest demo_libcrypto (csd_operation csd) ''bad'' [] = None"
    by (simp add: csd(2) update_digest_def sign_session_update_def demo_libcrypto_def)
  ultimately obtain s' where s': "openssl_updateCipherSession demo_libcrypto 7 ''bad'' 1 demo_signing =
      Some (crypto_failure Crypto_CryptoPluginCipherSessionError, [], s')" "openssl_reachable demo_libcrypto demo_conversions s'" "freed_session s' 7 1"
    using openssl_sessions_undefined [OF demo_signing_reachable, of 7 "''bad''" 1] csd(3) by blast
  with openssl_sessions_undefined [OF s'(2), of 7 "''x''" 1] openssl_sessions_undefined [OF s'(2), of 7 "[]" 1] show ?thesis by blast
qed

text \<open>
  C37. Clients do not reach each other's sessions. Updating, authenticating or closing a session, and opening one, leaves every other session as it
  was, whether it is another client's or the same client's under another token; and for a token the client has no session under, an update and a
  closing are refused and change nothing.
\<close>

theorem clients_keep_their_sessions:
  assumes "openssl_reachable lib qv s" and "(c', t') \<noteq> (c, t)"
  shows "(\<forall>res out s'. openssl_updateCipherSession lib c d t s = Some (res, out, s') \<longrightarrow> session_view s' c' t' = session_view s c' t')
    \<and> (\<forall>res out s'. openssl_updateCipherSessionAuthentication lib c d t s = Some (res, out, s') \<longrightarrow> session_view s' c' t' = session_view s c' t')
    \<and> (\<forall>res out s'. openssl_finalizeCipherSession lib c d t s = Some (res, out, s') \<longrightarrow> session_view s' c' t' = session_view s c' t')
    \<and> (\<forall>res s'. openssl_initializeCipherSession lib c iv k op m ep sp g s = (res, t, s') \<longrightarrow> session_view s' c' t' = session_view s c' t')
    \<and> (session_view s c t = None \<longrightarrow>
         openssl_updateCipherSession lib c d t s = Some (crypto_failure Crypto_CryptoPluginCipherSessionError, [], s)
         \<and> openssl_finalizeCipherSession lib c d t s
             = Some (crypto_failure Crypto_CryptoPluginCipherSessionError, ([], VerificationStatusUnknown), s))"
proof -
  note wf = sessions_wf_reachable [OF assms(1)]
  have refused: "openssl_updateCipherSession lib c d t s = Some (crypto_failure Crypto_CryptoPluginCipherSessionError, [], s)
      \<and> openssl_finalizeCipherSession lib c d t s
          = Some (crypto_failure Crypto_CryptoPluginCipherSessionError, ([], VerificationStatusUnknown), s)"
    if "session_view s c t = None"
  proof -
    have "client_sessions s c t = None"
      using that sessions_wf_session [OF wf, of c t] by (auto simp: session_view_def session_ok_def split: option.splits)
    then show ?thesis by (simp add: openssl_updateCipherSession_def openssl_finalizeCipherSession_def with_session_def)
  qed
  show ?thesis
    by (intro conjI allI impI, erule session_view_update [OF wf _ assms(2)], erule session_view_authenticate [OF wf _ assms(2)],
        erule session_view_finalize [OF wf _ assms(2)], erule session_view_initialize [OF wf _ assms(2)])
      (use refused in blast)+
qed

theorem clients_keep_their_sessions_witness:
  "openssl_updateCipherSession demo_libcrypto 8 ''x'' 1 demo_signing
     = Some (crypto_failure Crypto_CryptoPluginCipherSessionError, [], demo_signing)
   \<and> session_view (snd (snd (openssl_initializeCipherSession demo_libcrypto 8 [] demo_rsa_key OperationSign BlockModeUnknown
       EncryptionPaddingNone SignaturePaddingNone DigestSha256 demo_signing))) 7 1 = session_view demo_signing 7 1"
proof -
  let ?x = "openssl_initializeCipherSession demo_libcrypto 8 [] demo_rsa_key OperationSign BlockModeUnknown
     EncryptionPaddingNone SignaturePaddingNone DigestSha256 demo_signing"
  have "client_sessions demo_signing 8 1 = None" "fst (snd ?x) = 1" by (code_simp, code_simp)
  then have "session_view demo_signing 8 1 = None" "?x = (fst ?x, 1, snd (snd ?x))" by (simp_all add: session_view_def prod_eq_iff)
  moreover have "(7::nat, 1::nat) \<noteq> (8, 1)" by simp
  note this [THEN clients_keep_their_sessions [OF demo_signing_reachable], THEN conjunct2, THEN conjunct2, THEN conjunct2,
      of "[]" demo_rsa_key OperationSign BlockModeUnknown EncryptionPaddingNone SignaturePaddingNone DigestSha256 "''x''"]
  ultimately show ?thesis by blast
qed

end
