(* ===== verification/Spec2Isabelle.thy ===== *)
theory Spec2Isabelle
  imports Access_Control Data_Protector Crypto_Runs Openssl_Crypto
begin

text \<open>
  Verification of the secrets and cryptography daemon of sailfish-secrets.

  The program. The daemon \<^verbatim>\<open>sailfishsecretsd\<close> stores secrets (byte strings with filter
  data) for applications. A client's request arrives over D-Bus at one of two request queues
  (src/daemon/requestqueue.cpp), one for secrets and one for cryptography. The request processor of the
  queue checks it and calls storage, encryption and authentication plugins. A storage plugin is never
  called directly: it is called through a wrapper (src/daemon/SecretsImpl/pluginwrapper.cpp), which keeps a
  metadata database (metadatadb.cpp) in step with what the plugin stores and refuses
  everything while the daemon's master lock is set. The metadata database and the SQLite storage plugin (src/plugins/sqliteplugin/plugin.cpp)
  both work on the connection class of src/database/database.cpp, which counts nested
  transactions and caches prepared statements. The salt and the check of the lock code, without which nothing can be
  decrypted, are kept in triplicate by the data protector (dataprotector.cpp).

  The theories, in the order in which the code uses them:

  \<^item> \<open>Prelude\<close>: Qt's strings, byte arrays and ordered maps, the reserved collection name, generic lemmas,
    theorem collections.
  \<^item> \<open>Results\<close>: \<^verbatim>\<open>Sailfish::Secrets::Result\<close> (src/lib/Secrets/result.h, result.cpp); fallible operations
    return a \<open>Result\<close> beside their new state.
  \<^item> \<open>Database\<close>: \<^verbatim>\<open>Daemon::Sqlite::Database\<close> (src/database). The record \<open>database\<close> holds the file's
    committed contents and key, the connection, the working contents of an open SQL transaction, the semaphore and the cache of prepared
    statements. Transactions are atomic whatever the engine answers (C1); a refused \<^verbatim>\<open>BEGIN\<close> leaves the semaphore
    counted up, so that the next rollback undoes nothing (C2); a schema upgrade that succeeds reaches the current version, in no more rounds than the file is versions
    behind, and is undefined exactly for a negative version (C3).
  \<^item> \<open>Metadata_Db\<close>: \<^verbatim>\<open>MetadataDatabase\<close> (src/daemon/SecretsImpl/metadatadb.cpp), every operation with its SQL
    statement as a function on the tables. Synchronisation with a plugin (C4) and that it succeeds on a working engine, round trip of a row (C6), preservation of
    the schema's constraints by every sequence of operations (C7), locking, and the change of the master key of a closed or an open database (C9).
  \<^item> \<open>Storage_Plugin\<close>: the plugin interfaces (src/lib/Secrets/Plugins/extensionplugins.h) as records of operations, and
    the locale \<open>storage_plugin\<close> with the laws the wrapper relies on.
  \<^item> \<open>Sqlite_Plugin\<close>: \<^verbatim>\<open>SqlitePlugin\<close> (src/plugins/sqliteplugin), every operation. It is an interpretation of
    \<open>storage_plugin\<close>; it refines an abstract store of secrets (C10), reads back what was stored (C11), finds exactly the
    matching secrets (C12) and re-encrypts plaintexts as they were (C13). Two error paths leave the transaction counter off balance.
  \<^item> \<open>Plugin_Wrapper\<close>: \<^verbatim>\<open>PluginWrapper\<close>, \<^verbatim>\<open>StoragePluginWrapper\<close> and \<^verbatim>\<open>EncryptedStoragePluginWrapper\<close>
    (src/daemon/SecretsImpl/pluginwrapper.cpp), every operation. What a wrapper guarantees for any plugin (a failed change keeps the metadata, C16; existing secrets are not overwritten, a locked wrapper
    refuses), for a plugin with the laws of \<open>storage_plugin\<close> and so for the SQLite plugin (C19; a stored secret reads back), and what it does not notice.
  \<^item> \<open>Transactions\<close>: lemmas on a statement that runs between begin and commit, shared by both plugins.
  \<^item> \<open>Sqlcipher_Plugin\<close>: \<^verbatim>\<open>SqlCipherPlugin\<close> (src/plugins/sqlcipherplugin/encryptedstorageplugin.cpp), every operation, one database file with
    its own key per collection. It refines a vault of keyed collections (C32); a collection opens with its key only, and the empty key locks it (C33); a secret survives sealing (C34).
    It is an interpretation of \<open>encrypted_storage_plugin\<close> and of \<open>collection_lock\<close>.
  \<^item> \<open>Encrypted_Wrapper\<close>: metadata and SQLCipher plugin stay in step through \<^verbatim>\<open>EncryptedStoragePluginWrapper\<close> (C35).
  \<^item> \<open>Secret_Value\<close>, \<open>Crypto_Plugin\<close>: the value classes \<^verbatim>\<open>Secret\<close>, \<^verbatim>\<open>Key\<close> and the cryptographic \<^verbatim>\<open>Result\<close>
    (src/lib/Secrets/secret.cpp, src/lib/Crypto/key.cpp, result.cpp) and the interface \<^verbatim>\<open>CryptoPlugin\<close>.
  \<^item> \<open>Crypto_Wrapper\<close>: \<^verbatim>\<open>CryptoStoragePluginWrapper\<close> and the functions that use a stored key
    (src/daemon/CryptoImpl/cryptopluginwrapper.cpp, cryptopluginfunctionwrappers.cpp).
  \<^item> \<open>Function_Wrappers\<close>: the compound operations run on the plugin thread (src/daemon/SecretsImpl/pluginfunctionwrappers.cpp).
  \<^item> \<open>Collection_Lock\<close>: what these operations leave unlocked. For every plugin with the laws of \<open>collection_lock\<close>, and so for SQLCipher, a
    collection that was locked is locked again unless its unlock semantic keeps it open (C36); reading a locked collection works with its key only.
  \<^item> \<open>Key_Serialization\<close>: \<^verbatim>\<open>Key::serialize\<close> and \<^verbatim>\<open>Key::deserialize\<close> (src/lib/Crypto/serialization.cpp) on the bytes of a \<^verbatim>\<open>QDataStream\<close>.
  \<^item> \<open>Sqlcipher_Crypto\<close>: the cryptographic half of the SQLCipher plugin (cryptoplugin.cpp), which stores keys as secrets and calls the OpenSSL plugin, an
    argument here. It is an interpretation of \<open>crypto_lock\<close>, which extends \<open>collection_lock\<close>: using a key leaves its collection locked (C38); a stored key reads back (C39).
  \<^item> \<open>Event_Loop\<close>: the daemon's main thread and plugin thread. A handler's run is a value of type \<open>thread\<close>; jobs and lambdas are interleaved
    by a step relation.
  \<^item> \<open>Application_Permissions\<close>: who is calling (applicationpermissions.cpp) and which plugin a symbolic name means (controller.cpp).
  \<^item> \<open>Master_Lock\<close>: the half of \<^verbatim>\<open>SecretsRequestQueue\<close> (src/daemon/SecretsImpl/secrets.cpp) that derives the daemon's two keys from the lock
    code, checks the code and keeps the keys in memory. The code that was set is the one that is accepted (C14), if the plugin on record is a real one and not the substitute; the
    keys fit the memory that is allocated once.
  \<^item> \<open>Request_Processor\<close>, \<open>Secret_Requests\<close>, \<open>Standalone_Requests\<close>, \<open>Lock_Codes\<close>, \<open>Interaction\<close>: \<^verbatim>\<open>RequestProcessor\<close>
    (src/daemon/SecretsImpl/secretsrequestprocessor.cpp): collections, secrets of collections, standalone secrets, lock codes, and the pre-checks and answers of
    the user. Every method is a function to a run of the main thread, with its jobs on the plugins behind it.
  \<^item> \<open>Secrets_Queue\<close>: the calls over D-Bus, \<^verbatim>\<open>handlePendingRequest\<close> and \<^verbatim>\<open>handleFinishedRequest\<close> (secrets.cpp), which tie the
    methods to requests.
  \<^item> \<open>Request_Protocol\<close>: however jobs come out, every method, every continuation after an answer of the user and so every
    request ends with one reply or one prompt (\<open>settles\<close>).
  \<^item> \<open>Daemon_Runs\<close>: the whole daemon, with all requests, answers and thread steps interleaved: the table of pending requests is well-formed (C26) and
    every request is answered exactly once (C40).
  \<^item> \<open>Access_Control\<close>: strangers are refused (C8), but get the decrypted standalone secrets of others (C29); a lock code changed while the daemon is locked makes the
    metadata unreadable (C22).
  \<^item> \<open>Request_Queue\<close>: \<^verbatim>\<open>RequestQueue\<close> (src/daemon/requestqueue.cpp) with 64-bit identifiers and the event loop as a step relation:
    identifiers stay unique (C23, C24), no request is forgotten by the handlers of the two daemons (C25), results reach their request.
  \<^item> \<open>Crypto_Bridge\<close>: the methods of \<^verbatim>\<open>SecretsRequestQueue\<close> that serve the cryptography daemon
    (src/daemon/SecretsImpl/secretscryptohelpers.cpp): each queues a secrets request and files which signal will carry the answer.
  \<^item> \<open>Crypto_Processor\<close>, \<open>Crypto_Keys\<close>, \<open>Crypto_Operations\<close>: the request processor of the cryptography daemon
    (src/daemon/CryptoImpl/cryptorequestprocessor.cpp): random data and key generation; import, reading, deletion and listing of keys; operations with
    keys, cipher sessions, lock codes, and the slots that receive the answers of the secrets daemon. Its jobs run as in \<open>Event_Loop\<close>.
  \<^item> \<open>Crypto_Queue\<close>: the calls over D-Bus, \<^verbatim>\<open>handlePendingRequest\<close> and \<^verbatim>\<open>handleFinishedRequest\<close> (src/daemon/CryptoImpl/crypto.cpp).
  \<^item> \<open>Crypto_Protocol\<close>: every request and every continuation ends with one reply or with one question put to the secrets daemon (\<open>crypto_settles\<close>),
    but for one import, which is \<open>forgotten\<close>.
  \<^item> \<open>Crypto_Runs\<close>: the cryptography daemon with all requests, answers and thread steps interleaved: every request is answered at most once and waits only for a
    question that is open (C20), except the import that is lost for good (C18); a key kept by a storage plugin reads back without its identifier, and without what its constraints do not allow (C17).
  \<^item> \<open>Openssl_Evp\<close>, \<open>Openssl_Plugin\<close>, \<open>Openssl_Sessions\<close>: the OpenSSL plugins (src/plugins/opensslcryptoplugin, src/plugins/opensslplugin): the
    functions that call the library step by step, every operation of the cryptography plugin, its cipher sessions with their timers, and the plugin
    that encrypts secrets. Sessions are objects behind addresses, and an operation is \<open>None\<close> where the C++ code is undefined.
  \<^item> \<open>Openssl_Runs\<close>: the plugin as a step relation of calls and timer events, with the invariant of its two session tables.
  \<^item> \<open>Openssl_Crypto\<close>: the tables agree in every state (C30); exactly which operations on sessions are undefined (C15); clients do not reach each other's sessions (C37);
    a session computes what one call computes, with AES in the modes without authentication (C21); and, put together with the SQLCipher plugin, a stored AES key
    gives data encrypted in these modes back (C5). Re-encryption by the SQLite plugin with this encryption plugin keeps the secrets, but fails where a secret is a single zero byte
    (\<open>openssl_reencryption_keeps_secrets\<close>).
  \<^item> \<open>Data_Protector\<close>: \<^verbatim>\<open>DataProtector\<close> (src/daemon/SecretsImpl/dataprotector.cpp): majority of the copies when nothing is cached (C27), put then get (C28), and the two
    ways in which a write that fails hides or outlives data.
  \<^item> \<open>Spec2Isabelle\<close> (this theory): properties that span components (C31), and that the repository's plugins answer as C20 asks of plugins.

  What stands for code outside the repository. The SQL engine's answers to requests are the list \<open>db_answers\<close> of the
  database record: a theorem without a hypothesis on it holds for every pattern of refused requests, and
  \<open>engine_ready\<close> says that the engine refuses nothing. What a statement that is carried out does
  is SQL's documented meaning, written out per statement. Encryption plugins, authentication plugins,
  the handlers of requests, the process file system, the clock, the file system's answers, the OpenSSL library (the record \<open>libcrypto\<close> of the calls the code makes) and the values \<^verbatim>\<open>std::remove_if\<close> leaves behind are arguments of the operations. Hypotheses about an argument are stated
  in the theorem (for example \<open>decryption_inverts\<close>, \<open>encryption_streams\<close>, \<open>prompt_plugins\<close>), and the witness that follows instantiates it.

  Loops. All loops of the modelled code end: they are structural recursions, or functions with a termination proof
  (the schema upgrade loop by the distance to the current version, the search for a free request identifier by the
  distance around the 64-bit circle). No fuel is used.

  What is abstracted. The texts of error messages and log lines; the mutex of the connection (the daemon runs plugin operations
  one at a time on the plugin's thread); the reserved columns no statement reads (row numbers, timestamps); case-insensitive
  comparison beyond ASCII.

  What is assumed of the surroundings. \<^verbatim>\<open>QFile::remove\<close> removes the file of a database whose creation failed; a statement cannot be prepared on a connection
  whose key does not fit the file, the key pragma included (no property depends on it); keys given in hexadecimal digits are compared as strings, as the daemon
  writes them all in one case; a failed call of the OpenSSL library leaves its context as it was; handlers of requests do not call their queue back while it runs
  over its requests. The program is a release build: the assertion in \<^verbatim>\<open>authenticationCompleted\<close> that a report comes for the caller that
  asked is not carried out.

  What is not modelled, and why: the information on plugins (\<^verbatim>\<open>getPluginInfo\<close> on both sides and \<^verbatim>\<open>pluginInfoForPlugins\<close>), which
  collects names and flags for display; the GnuPG bindings and the authentication user interfaces, which
  are calls into libraries outside the repository and enter as arguments; process start-up and the loading of plugin libraries; the request classes of the client library,
  which marshal D-Bus calls; the QML bindings, the command-line tool, examples and tests.
\<close>

section \<open>Properties that span components\<close>

text \<open>
  The plugins the repository has for the cryptography daemon, SQLCipher on top of OpenSSL and OpenSSL alone, answer as C20 asks of plugins.
\<close>

lemma openssl_prompt: "prompt_crypto (openssl_crypto lib qv)"
  by (auto simp: prompt_crypto_def openssl_crypto_def openssl_importKey_def write_imported_key_def case_prod_unfold Let_def
      split: option.splits if_splits prod.splits bool.splits)

lemma repository_plugins_prompt:
  "prompt_plugins [(n1, CryptoWrapper (sqlcipher_full env) cfg (sqlcipher_crypto n1 env (openssl_crypto lib qv)) w),
     (n2, PlainCrypto (openssl_crypto lib qv) s)]"
  by (simp add: prompt_plugins_def openssl_prompt sqlcipher_crypto_prompt sqlcipher_key_store_prompt)

text \<open>
  C31. The life cycle of the master lock. Locking a wrapper in order succeeds, and a change
  is then refused without reaching the plugin or the metadata. Unlocking works with the
  key the metadata is encrypted under and with no other: with the right key the wrapper is back where it was,
  with another it stays locked and keeps its contents.
\<close>

theorem master_lock_cycle:
  assumes "settled t s w" and "pw_initialized w" and "standalone \<in> collection_set t"
    and "db_userVersion (pw_metadataDb w) = 1" and "length (db_fileKey (pw_metadataDb w)) = 64"
    and "PluginWrapper_masterLock w = (ok, w1)"
    and "PluginWrapper_masterUnlock (StoragePluginWrapper_initialize p cfg) key w1 = (unlocked, w2)"
  shows "ok \<and> wrapper_apply p op w1 = (failure SecretsPluginIsLockedError, w1)
     \<and> unlocked = (key = db_fileKey (pw_metadataDb w))
     \<and> (if unlocked then settled t s w2
        else wrapper_apply p op w2 = (failure SecretsPluginIsLockedError, w2)
             \<and> db_file (pw_metadataDb w2) = Some t \<and> pw_plugin w2 = s)"
proof -
  let ?d = "Database_close (pw_metadataDb w)"
  have w1: "ok" "w1 = w\<lparr>pw_metadataDb := ?d\<rparr>"
    using assms(6) by (auto simp: PluginWrapper_masterLock_def MetadataDatabase_lock_def)
  have c: "\<not> db_isOpen ?d" "db_semaphore ?d = 0" "db_file ?d = Some t" "db_fileKey ?d = db_fileKey (pw_metadataDb w)"
    "reopening t (db_fileKey (pw_metadataDb w)) ?d"
    using assms(1,4) by (simp_all add: Database_close_def settled_def idle_def reopening_def engine_ready_def)
  have l: "wrapper_apply p op w' = (failure SecretsPluginIsLockedError, w')"
    if "\<not> db_isOpen (pw_metadataDb w')" for w'
    using that by (rule wrapper_apply_closed)
  obtain r d2 where u: "MetadataDatabase_unlock key ?d = (r, d2)" by (cases "MetadataDatabase_unlock key ?d")
  show ?thesis
  proof (cases "key = db_fileKey (pw_metadataDb w)")
    case True
    from reopening_openDatabase [OF c(5,1) assms(3)] True u c(1) assms(5) have
      "r = success" "idle d2" "db_file d2 = Some t" "engine_ready d2"
      by (auto simp: MetadataDatabase_unlock_def)
    with u w1 l [of w1] c(1) True assms(1,2,7) show ?thesis
      by (auto simp: PluginWrapper_masterUnlock_def StoragePluginWrapper_initialize_def settled_def)
  next
    case False
    with unlock_wrong_key [OF c(3,1,2) _ u] c(4) have
      "res_code r = Failed" "db_file d2 = Some t" "\<not> db_isOpen d2" by simp_all
    with u w1 l [of w1] l [of "w\<lparr>pw_metadataDb := d2\<rparr>"] c(1) False assms(1,7) show ?thesis
      by (auto simp: PluginWrapper_masterUnlock_def settled_def)
  qed
qed


theorem master_lock_cycle_witness:
  "let k = replicate 64 CHR ''k''; w = (demo_wrapper [] [])\<lparr>pw_metadataDb := (pw_metadataDb (demo_wrapper [] []))
         \<lparr>db_fileKey := k, db_connKey := k\<rparr>\<rparr>;
       w1 = snd (PluginWrapper_masterLock w); unlock = (\<lambda>key. PluginWrapper_masterUnlock
         (StoragePluginWrapper_initialize sqlite_plugin demo_cfg) key w1)
   in fst (unlock k) \<and> \<not> fst (unlock (replicate 64 CHR ''x''))"
proof -
  let ?k = "replicate 64 CHR ''k''"
  let ?w = "(demo_wrapper [] [])\<lparr>pw_metadataDb := (pw_metadataDb (demo_wrapper [] []))\<lparr>db_fileKey := ?k, db_connKey := ?k\<rparr>\<rparr>"
  obtain t where t: "db_file (pw_metadataDb ?w) = Some t" "standalone \<in> collection_set t"
    by (simp add: demo_wrapper_def collection_set_def collections_row_def standalone_metadata_def)
  have s: "settled t (pw_plugin ?w) ?w" and i: "pw_initialized ?w" "db_userVersion (pw_metadataDb ?w) = 1"
    "length (db_fileKey (pw_metadataDb ?w)) = 64"
    using t(1) by (simp_all add: settled_def idle_def db_readable_def engine_ready_def demo_wrapper_def)
  have n: "replicate 64 CHR ''x'' \<noteq> ?k" by code_simp
  note m = master_lock_cycle [OF s i(1) t(2) i(2,3) prod.collapse [symmetric] prod.collapse [symmetric],
      where p = sqlite_plugin and cfg = demo_cfg and op = "Wrapper_removeCollection ''c''"]
  have "db_fileKey (pw_metadataDb ?w) = ?k" by simp
  with m [where key = ?k] m [where key = "replicate 64 CHR ''x''"] n show ?thesis
    unfolding Let_def by metis
qed

end
